(* ===== verification/Huks_Prelude.thy ===== *)
theory Huks_Prelude
  imports Main "HOL-Library.Word"
begin

text \<open>
  Shared vocabulary of the development: the machine integers of the C code as words, byte strings,
  the way a C function reports success or an error code, the early-return macros of
  \<open>hks_template.h\<close>, the allocator, \<open>memcpy_s\<close> of C11 Annex K, and little-endian byte
  encodings with their round trips.
\<close>

unbundle bit_operations_syntax

section \<open>Machine integers and byte strings\<close>

type_synonym u8 = "8 word"
type_synonym u16 = "16 word"
type_synonym u32 = "32 word"
type_synonym u64 = "64 word"
type_synonym bytes = "u8 list"

text \<open>
  A function of the code returns an \<open>int32_t\<close>: 0 is \<open>HKS_SUCCESS\<close>, every other value an
  error code. A function that also fills an out-parameter on success is modelled by a sum: the error
  code on the left, the value on the right.
\<close>

type_synonym rc = int
type_synonym 'a res = "rc + 'a"

abbreviation (input) HKS_SUCCESS :: rc where "HKS_SUCCESS \<equiv> 0"

named_theorems rc_simps \<open>success of a chain of early returns, as a conjunction\<close>
named_theorems proper_rules \<open>results that never fail with the code 0\<close>
named_theorems le_simps \<open>little-endian encoding and decoding\<close>

section \<open>The early-return macros of hks_template.h\<close>

text \<open>
  \<open>HKS_IF_NOT_SUCC_RETURN(RESULT, ERROR_CODE)\<close> followed by the rest \<open>k\<close> of the function. The
  logging variants (\<open>..._LOGE_RETURN\<close>) differ by a log line only.
\<close>

definition if_not_succ_return :: "rc \<Rightarrow> 'a \<Rightarrow> 'a \<Rightarrow> 'a" where
  "if_not_succ_return r e k = (if r \<noteq> HKS_SUCCESS then e else k)"

text \<open>The same macro after a call that fills an out-parameter, which the rest \<open>k\<close> reads.\<close>

definition try_or :: "'a res \<Rightarrow> 'b \<Rightarrow> ('a \<Rightarrow> 'b) \<Rightarrow> 'b" where
  "try_or r e k = (case r of Inl _ \<Rightarrow> e | Inr v \<Rightarrow> k v)"

text \<open>\<open>HKS_IF_NOT_SUCC_RETURN(ret, ret)\<close>: the callee's code is passed on.\<close>

definition try_rc :: "'a res \<Rightarrow> ('a \<Rightarrow> rc) \<Rightarrow> rc" where
  "try_rc r k = (case r of Inl c \<Rightarrow> c | Inr v \<Rightarrow> k v)"

definition try_res :: "'a res \<Rightarrow> ('a \<Rightarrow> 'b res) \<Rightarrow> 'b res" where
  "try_res r k = (case r of Inl c \<Rightarrow> Inl c | Inr v \<Rightarrow> k v)"

text \<open>
  The same with a state: the rest \<open>k\<close> of a function after a call that passes its code on, for a function that
  fills an out-parameter and for one that returns a code only.
\<close>

definition next_res :: "('a res \<times> 's) \<Rightarrow> ('a \<Rightarrow> 's \<Rightarrow> 'b res \<times> 's) \<Rightarrow> 'b res \<times> 's" where
  "next_res r k = (case r of (Inl ret, st) \<Rightarrow> (Inl ret, st) | (Inr a, st) \<Rightarrow> k a st)"

definition next_rc :: "(rc \<times> 's) \<Rightarrow> ('s \<Rightarrow> 'b res \<times> 's) \<Rightarrow> 'b res \<times> 's" where
  "next_rc r k = (case r of (ret, st) \<Rightarrow> if ret \<noteq> HKS_SUCCESS then (Inl ret, st) else k st)"

definition then_res :: "('a res \<times> 's) \<Rightarrow> ('a \<Rightarrow> 's \<Rightarrow> rc \<times> 's) \<Rightarrow> rc \<times> 's" where
  "then_res r k = (case r of (Inl ret, st) \<Rightarrow> (ret, st) | (Inr a, st) \<Rightarrow> k a st)"

definition then_rc :: "(rc \<times> 's) \<Rightarrow> ('s \<Rightarrow> rc \<times> 's) \<Rightarrow> rc \<times> 's" where
  "then_rc r k = (case r of (ret, st) \<Rightarrow> if ret \<noteq> HKS_SUCCESS then (ret, st) else k st)"

text \<open>A result whose error code is never 0, as every function of the code keeps it.\<close>

definition proper :: "'a res \<Rightarrow> bool" where
  "proper r \<longleftrightarrow> r \<noteq> Inl HKS_SUCCESS"

lemma if_not_succ_return_0 [rc_simps]:
  "if_not_succ_return r e k = 0 \<longleftrightarrow> (r = 0 \<and> k = 0) \<or> (r \<noteq> 0 \<and> e = 0)"
  by (simp add: if_not_succ_return_def)

lemma if_not_succ_return_Inr [rc_simps]:
  "if_not_succ_return r (Inl c) k = Inr v \<longleftrightarrow> r = 0 \<and> k = Inr v"
  by (simp add: if_not_succ_return_def)

lemma try_or_0 [rc_simps]:
  "try_or r e k = 0 \<longleftrightarrow> (\<exists>v. r = Inr v \<and> k v = 0) \<or> ((\<exists>c. r = Inl c) \<and> e = 0)"
  by (cases r) (auto simp: try_or_def)

lemma try_or_Inr [rc_simps]:
  "try_or r (Inl e) k = Inr v \<longleftrightarrow> (\<exists>a. r = Inr a \<and> k a = Inr v)"
  by (cases r) (auto simp: try_or_def)

lemma try_rc_0 [rc_simps]:
  "try_rc r k = 0 \<longleftrightarrow> (\<exists>v. r = Inr v \<and> k v = 0) \<or> r = Inl 0"
  by (cases r) (auto simp: try_rc_def)

lemma try_res_Inr [rc_simps]:
  "try_res r k = Inr v \<longleftrightarrow> (\<exists>a. r = Inr a \<and> k a = Inr v)"
  by (cases r) (auto simp: try_res_def)

lemma try_or_simps [simp]:
  "try_or (Inl c) e k = e" "try_or (Inr v) e k = k v"
  by (simp_all add: try_or_def)

lemma try_rc_simps [simp]:
  "try_rc (Inl c) k = c" "try_rc (Inr v) k = k v"
  by (simp_all add: try_rc_def)

lemma try_res_simps [simp]:
  "try_res (Inl c) k = Inl c" "try_res (Inr v) k = k v"
  by (simp_all add: try_res_def)

lemma if_not_succ_return_succ [simp]: "if_not_succ_return 0 e k = k"
  by (simp add: if_not_succ_return_def)

lemma if_not_succ_return_fail: "r \<noteq> 0 \<Longrightarrow> if_not_succ_return r e k = e"
  by (simp add: if_not_succ_return_def)

lemma proper_Inr [simp]: "proper (Inr v)"
  by (simp add: proper_def)

lemma proper_Inl [simp]: "proper (Inl c) \<longleftrightarrow> c \<noteq> 0"
  by (simp add: proper_def)

lemma proper_not_Inl_0: "proper r \<Longrightarrow> r \<noteq> Inl 0"
  by (simp add: proper_def)

lemma proper_try_or [proper_rules]: "proper (try_or r (Inl e) k)"
  if "e \<noteq> 0" "\<And>v. r = Inr v \<Longrightarrow> proper (k v)"
  using that by (cases r) auto

lemma proper_try_res [proper_rules]: "proper (try_res r k)"
  if "proper r" "\<And>v. r = Inr v \<Longrightarrow> proper (k v)"
  using that by (cases r) auto

lemma proper_if_not_succ_return [proper_rules]: "proper (if_not_succ_return r (Inl e) k)"
  if "r \<noteq> 0 \<Longrightarrow> e \<noteq> 0" "r = 0 \<Longrightarrow> proper k"
  using that by (simp add: if_not_succ_return_def)

lemma proper_Let [proper_rules]: "proper (k v) \<Longrightarrow> proper (Let v k)"
  by (simp add: Let_def)

lemma proper_if [proper_rules]: "proper (if b then r else s)"
  if "b \<Longrightarrow> proper r" "\<not> b \<Longrightarrow> proper s"
  using that by simp

lemma try_rc_proper_0 [rc_simps]:
  "proper r \<Longrightarrow> try_rc r k = 0 \<longleftrightarrow> (\<exists>v. r = Inr v \<and> k v = 0)"
  by (auto simp: try_rc_0 proper_def)

section \<open>Bounds of machine integers\<close>

lemma u32_bound [simp]: "unat (a :: u32) < 4294967296"
  using unsigned_less [of a, where 'a = nat] by simp

lemma u32_bound_le [simp]: "unat (a :: u32) \<le> 4294967295"
  using u32_bound [of a] by linarith

lemma unat_u32_of_nat: "n < 4294967296 \<Longrightarrow> unat (word_of_nat n :: u32) = n"
  by (simp add: unsigned_of_nat take_bit_nat_eq_self)

lemma unat_u32_add_of_nat:
  "unat a + n < 4294967296 \<Longrightarrow> unat (a + word_of_nat n :: u32) = unat a + n"
  by (simp add: unat_word_ariths unat_u32_of_nat)

lemma unat_u32_add_le:
  fixes a b c :: u32
  assumes "unat a + unat b \<le> unat c"
  shows "unat (a + b) = unat a + unat b"
  using le_less_trans [OF assms u32_bound] by (simp add: unat_word_ariths)

section \<open>Arrays of expected values\<close>

text \<open>A loop that returns at the first equal element is list membership.\<close>

lemma find_eq_Some_iff_mem: "List.find ((=) x) xs = Some y \<longleftrightarrow> x \<in> set xs \<and> y = x"
  by (induction xs) auto

section \<open>Allocation and bounded copies\<close>

text \<open>
  \<open>HksMalloc\<close> refuses a size of 0 or above \<open>MAX_MALLOC_SIZE\<close> and otherwise succeeds when the
  system allocator does. Whether it does is the parameter \<open>alloc\<close> of the operations that allocate.
\<close>

abbreviation (input) MAX_MALLOC_SIZE :: nat where "MAX_MALLOC_SIZE \<equiv> 0x800000"

type_synonym allocator = "nat \<Rightarrow> bool"

definition HksMalloc :: "allocator \<Rightarrow> nat \<Rightarrow> bool" where
  "HksMalloc alloc n \<longleftrightarrow> \<not> (n = 0 \<or> n > MAX_MALLOC_SIZE) \<and> alloc n"

text \<open>
  \<open>memcpy_s(dest, destMax, src, count)\<close> of C11 Annex K for disjoint regions and a destination
  that is not \<open>NULL\<close>: it fails when \<open>src\<close> is \<open>NULL\<close> or \<open>count\<close> exceeds
  \<open>destMax\<close>, and otherwise yields the bytes it copies.
\<close>

definition memcpy_s :: "nat \<Rightarrow> bytes option \<Rightarrow> nat \<Rightarrow> bytes option" where
  "memcpy_s destMax src count =
     (case src of None \<Rightarrow> None | Some bs \<Rightarrow> if count > destMax then None else Some (take count bs))"

lemma memcpy_s_Some_iff:
  "memcpy_s m src n = Some out \<longleftrightarrow> (\<exists>bs. src = Some bs \<and> n \<le> m \<and> out = take n bs)"
  by (auto simp: memcpy_s_def split: option.splits)

section \<open>Little-endian encodings\<close>

text \<open>
  The code copies integers to and from byte buffers with \<open>memcpy\<close>; the targets are
  little-endian. Reading takes the first bytes of a list as they stand.
\<close>

fun of_le :: "bytes \<Rightarrow> 'a::len word" where
  "of_le [] = 0"
| "of_le (b # bs) = ucast b + 256 * of_le bs"

fun to_le :: "nat \<Rightarrow> 'a::len word \<Rightarrow> bytes" where
  "to_le 0 w = []"
| "to_le (Suc n) w = ucast w # to_le n (drop_bit 8 w)"

lemma length_to_le [simp, le_simps]: "length (to_le n w) = n"
  by (induction n arbitrary: w) auto

lemma to_le_4:
  "to_le 4 w = [ucast w, ucast (drop_bit 8 w), ucast (drop_bit 16 w), ucast (drop_bit 24 w)]"
  by (simp add: numeral_eq_Suc)

lemma word_split_byte: "ucast (ucast w :: u8) + 256 * drop_bit 8 w = (w :: 'a::len word)"
proof -
  have lo: "ucast (ucast w :: u8) = take_bit 8 w"
    by (rule bit_word_eqI) (auto simp: bit_simps)
  have hi: "256 * drop_bit 8 w = push_bit 8 (drop_bit 8 w)"
    by (simp add: push_bit_eq_mult mult.commute)
  show ?thesis unfolding lo hi by (metis add.commute bits_ident)
qed

lemma of_le_to_le_drop:
  "of_le (to_le n w) + 2 ^ (8 * n) * drop_bit (8 * n) w = (w :: 'a::len word)"
proof (induction n arbitrary: w)
  case 0
  then show ?case by simp
next
  case (Suc n)
  have IH: "of_le (to_le n (drop_bit 8 w)) + 2 ^ (8 * n) * drop_bit (8 * n) (drop_bit 8 w)
      = drop_bit 8 w"
    by (rule Suc.IH)
  have "2 ^ (8 * Suc n) * drop_bit (8 * Suc n) w
      = 256 * (2 ^ (8 * n) * drop_bit (8 * n) (drop_bit 8 w))"
    by (simp add: power_add ac_simps)
  then have "of_le (to_le (Suc n) w) + 2 ^ (8 * Suc n) * drop_bit (8 * Suc n) w
      = ucast (ucast w :: u8) + 256 * (of_le (to_le n (drop_bit 8 w))
          + 2 ^ (8 * n) * drop_bit (8 * n) (drop_bit 8 w))"
    by (simp add: distrib_left ac_simps)
  then show ?case by (simp only: IH word_split_byte)
qed

lemma of_le_to_le [le_simps]:
  assumes "LENGTH('a) \<le> 8 * n"
  shows "of_le (to_le n w) = (w :: 'a::len word)"
proof -
  have "drop_bit (8 * n) w = 0"
    using assms by (intro bit_word_eqI) (simp add: bit_simps)
  then show ?thesis using of_le_to_le_drop [of n w] by simp
qed


lemma ucast_push_8: "ucast (b :: u8) + 256 * x = ucast b OR push_bit 8 (x :: 'a::len word)"
proof -
  have m: "256 * x = push_bit 8 x"
    by (simp add: push_bit_eq_mult mult.commute)
  have z: "ucast b AND push_bit 8 x = 0"
  proof (rule bit_word_eqI)
    fix n assume "n < LENGTH('a)"
    show "bit (ucast b AND push_bit 8 x) n = bit (0 :: 'a word) n"
      using bit_imp_le_length [of b n] by (auto simp: bit_simps)
  qed
  from z show ?thesis unfolding m by (rule disjunctive_add_eq_or)
qed

lemma bit_of_le_less: "bit (of_le bs :: 'a::len word) k \<Longrightarrow> k < 8 * length bs"
proof (induction bs arbitrary: k)
  case Nil
  then show ?case by simp
next
  case (Cons b bs)
  from Cons.prems consider "bit b k" | "8 \<le> k" "bit (of_le bs :: 'a word) (k - 8)"
    by (auto simp: ucast_push_8 bit_simps)
  then show ?case
    using Cons.IH [of "k - 8"] by cases (auto dest: bit_imp_le_length)
qed

lemma to_le_of_le [le_simps]:
  assumes "length bs = n" "8 * n \<le> LENGTH('a)"
  shows "to_le n (of_le bs :: 'a::len word) = bs"
  using assms
proof (induction bs arbitrary: n)
  case Nil
  then show ?case by simp
next
  case (Cons b bs)
  define x where "x = (of_le bs :: 'a word)"
  obtain m where n: "n = Suc m" "length bs = m"
    using Cons.prems(1) by auto
  have len: "8 + 8 * m \<le> LENGTH('a)"
    using Cons.prems(2) n by simp
  have hd: "ucast (of_le (b # bs) :: 'a word) = b"
    using len by (intro bit_word_eqI) (auto simp: ucast_push_8 x_def [symmetric] bit_simps)
  have bound: "\<not> bit x k" if "8 * m \<le> k" for k
    using bit_of_le_less [of bs k] that n by (auto simp: x_def)
  have tl: "drop_bit 8 (of_le (b # bs) :: 'a word) = x"
    using len bound by (intro bit_word_eqI)
      (auto simp: ucast_push_8 x_def [symmetric] bit_simps dest: bit_imp_le_length)
  have "to_le m x = bs"
    using Cons.IH [of m] n len by (simp add: x_def)
  with hd tl show ?case by (simp add: n)
qed


text \<open>Reading a \<open>uint32_t\<close> at a byte offset, as the code does through casts and \<open>memcpy\<close>.\<close>

definition read_u32 :: "bytes \<Rightarrow> nat \<Rightarrow> u32" where
  "read_u32 bs off = of_le (take 4 (drop off bs))"

lemma read_u32_skip: "length pre = off \<Longrightarrow> read_u32 (pre @ bs) (off + k) = read_u32 bs k"
  by (simp add: read_u32_def)

lemma read_u32_to_le [simp]: "read_u32 (to_le 4 w @ bs) 0 = w"
  by (simp add: read_u32_def of_le_to_le)

end
