(* ===== verification/Huks_Const.thy ===== *)
theory Huks_Const
  imports Huks_Prelude
begin

text \<open>
  The enumerations of \<open>hks_type_enum.h\<close>, \<open>hks_type_inner.h\<close> and \<open>hks_cmd_id.h\<close> that
  the modelled code uses. Values held in \<open>uint32_t\<close> variables are 32-bit words, return codes
  are integers. Every name is an abbreviation for its number, so closed conditions on them are
  decided by the simplifier.
\<close>

text \<open>\<open>enum HksKeyPurpose\<close>\<close>

abbreviation (input) HKS_KEY_PURPOSE_ENCRYPT :: u32 where "HKS_KEY_PURPOSE_ENCRYPT \<equiv> 1"
abbreviation (input) HKS_KEY_PURPOSE_DECRYPT :: u32 where "HKS_KEY_PURPOSE_DECRYPT \<equiv> 2"
abbreviation (input) HKS_KEY_PURPOSE_SIGN :: u32 where "HKS_KEY_PURPOSE_SIGN \<equiv> 4"
abbreviation (input) HKS_KEY_PURPOSE_VERIFY :: u32 where "HKS_KEY_PURPOSE_VERIFY \<equiv> 8"
abbreviation (input) HKS_KEY_PURPOSE_DERIVE :: u32 where "HKS_KEY_PURPOSE_DERIVE \<equiv> 16"
abbreviation (input) HKS_KEY_PURPOSE_WRAP :: u32 where "HKS_KEY_PURPOSE_WRAP \<equiv> 32"
abbreviation (input) HKS_KEY_PURPOSE_UNWRAP :: u32 where "HKS_KEY_PURPOSE_UNWRAP \<equiv> 64"
abbreviation (input) HKS_KEY_PURPOSE_MAC :: u32 where "HKS_KEY_PURPOSE_MAC \<equiv> 128"
abbreviation (input) HKS_KEY_PURPOSE_AGREE :: u32 where "HKS_KEY_PURPOSE_AGREE \<equiv> 256"

text \<open>\<open>enum HksKeyDigest\<close>\<close>

abbreviation (input) HKS_DIGEST_NONE :: u32 where "HKS_DIGEST_NONE \<equiv> 0"
abbreviation (input) HKS_DIGEST_MD5 :: u32 where "HKS_DIGEST_MD5 \<equiv> 1"
abbreviation (input) HKS_DIGEST_SM3 :: u32 where "HKS_DIGEST_SM3 \<equiv> 2"
abbreviation (input) HKS_DIGEST_SHA1 :: u32 where "HKS_DIGEST_SHA1 \<equiv> 10"
abbreviation (input) HKS_DIGEST_SHA224 :: u32 where "HKS_DIGEST_SHA224 \<equiv> 11"
abbreviation (input) HKS_DIGEST_SHA256 :: u32 where "HKS_DIGEST_SHA256 \<equiv> 12"
abbreviation (input) HKS_DIGEST_SHA384 :: u32 where "HKS_DIGEST_SHA384 \<equiv> 13"
abbreviation (input) HKS_DIGEST_SHA512 :: u32 where "HKS_DIGEST_SHA512 \<equiv> 14"

text \<open>\<open>enum HksKeyPadding\<close>\<close>

abbreviation (input) HKS_PADDING_NONE :: u32 where "HKS_PADDING_NONE \<equiv> 0"
abbreviation (input) HKS_PADDING_OAEP :: u32 where "HKS_PADDING_OAEP \<equiv> 1"
abbreviation (input) HKS_PADDING_PSS :: u32 where "HKS_PADDING_PSS \<equiv> 2"
abbreviation (input) HKS_PADDING_PKCS1_V1_5 :: u32 where "HKS_PADDING_PKCS1_V1_5 \<equiv> 3"
abbreviation (input) HKS_PADDING_PKCS5 :: u32 where "HKS_PADDING_PKCS5 \<equiv> 4"
abbreviation (input) HKS_PADDING_PKCS7 :: u32 where "HKS_PADDING_PKCS7 \<equiv> 5"
abbreviation (input) HKS_PADDING_ISO_IEC_9796_2 :: u32 where "HKS_PADDING_ISO_IEC_9796_2 \<equiv> 6"
abbreviation (input) HKS_PADDING_ISO_IEC_9797_1 :: u32 where "HKS_PADDING_ISO_IEC_9797_1 \<equiv> 7"

text \<open>\<open>enum HksCipherMode\<close>\<close>

abbreviation (input) HKS_MODE_ECB :: u32 where "HKS_MODE_ECB \<equiv> 1"
abbreviation (input) HKS_MODE_CBC :: u32 where "HKS_MODE_CBC \<equiv> 2"
abbreviation (input) HKS_MODE_CTR :: u32 where "HKS_MODE_CTR \<equiv> 3"
abbreviation (input) HKS_MODE_OFB :: u32 where "HKS_MODE_OFB \<equiv> 4"
abbreviation (input) HKS_MODE_CFB :: u32 where "HKS_MODE_CFB \<equiv> 5"
abbreviation (input) HKS_MODE_CCM :: u32 where "HKS_MODE_CCM \<equiv> 31"
abbreviation (input) HKS_MODE_GCM :: u32 where "HKS_MODE_GCM \<equiv> 32"

text \<open>\<open>enum HksKeySize\<close>\<close>

abbreviation (input) HKS_RSA_KEY_SIZE_512 :: u32 where "HKS_RSA_KEY_SIZE_512 \<equiv> 512"
abbreviation (input) HKS_RSA_KEY_SIZE_768 :: u32 where "HKS_RSA_KEY_SIZE_768 \<equiv> 768"
abbreviation (input) HKS_RSA_KEY_SIZE_1024 :: u32 where "HKS_RSA_KEY_SIZE_1024 \<equiv> 1024"
abbreviation (input) HKS_RSA_KEY_SIZE_2048 :: u32 where "HKS_RSA_KEY_SIZE_2048 \<equiv> 2048"
abbreviation (input) HKS_RSA_KEY_SIZE_3072 :: u32 where "HKS_RSA_KEY_SIZE_3072 \<equiv> 3072"
abbreviation (input) HKS_RSA_KEY_SIZE_4096 :: u32 where "HKS_RSA_KEY_SIZE_4096 \<equiv> 4096"
abbreviation (input) HKS_ECC_KEY_SIZE_224 :: u32 where "HKS_ECC_KEY_SIZE_224 \<equiv> 224"
abbreviation (input) HKS_ECC_KEY_SIZE_256 :: u32 where "HKS_ECC_KEY_SIZE_256 \<equiv> 256"
abbreviation (input) HKS_ECC_KEY_SIZE_384 :: u32 where "HKS_ECC_KEY_SIZE_384 \<equiv> 384"
abbreviation (input) HKS_ECC_KEY_SIZE_521 :: u32 where "HKS_ECC_KEY_SIZE_521 \<equiv> 521"
abbreviation (input) HKS_AES_KEY_SIZE_128 :: u32 where "HKS_AES_KEY_SIZE_128 \<equiv> 128"
abbreviation (input) HKS_AES_KEY_SIZE_192 :: u32 where "HKS_AES_KEY_SIZE_192 \<equiv> 192"
abbreviation (input) HKS_AES_KEY_SIZE_256 :: u32 where "HKS_AES_KEY_SIZE_256 \<equiv> 256"
abbreviation (input) HKS_AES_KEY_SIZE_512 :: u32 where "HKS_AES_KEY_SIZE_512 \<equiv> 512"
abbreviation (input) HKS_CURVE25519_KEY_SIZE_256 :: u32 where "HKS_CURVE25519_KEY_SIZE_256 \<equiv> 256"
abbreviation (input) HKS_DH_KEY_SIZE_2048 :: u32 where "HKS_DH_KEY_SIZE_2048 \<equiv> 2048"
abbreviation (input) HKS_DH_KEY_SIZE_3072 :: u32 where "HKS_DH_KEY_SIZE_3072 \<equiv> 3072"
abbreviation (input) HKS_DH_KEY_SIZE_4096 :: u32 where "HKS_DH_KEY_SIZE_4096 \<equiv> 4096"
abbreviation (input) HKS_SM2_KEY_SIZE_256 :: u32 where "HKS_SM2_KEY_SIZE_256 \<equiv> 256"
abbreviation (input) HKS_SM4_KEY_SIZE_128 :: u32 where "HKS_SM4_KEY_SIZE_128 \<equiv> 128"
abbreviation (input) HKS_DES_KEY_SIZE_64 :: u32 where "HKS_DES_KEY_SIZE_64 \<equiv> 64"
abbreviation (input) HKS_3DES_KEY_SIZE_128 :: u32 where "HKS_3DES_KEY_SIZE_128 \<equiv> 128"
abbreviation (input) HKS_3DES_KEY_SIZE_192 :: u32 where "HKS_3DES_KEY_SIZE_192 \<equiv> 192"

text \<open>\<open>enum HksKeyAlg\<close>\<close>

abbreviation (input) HKS_ALG_RSA :: u32 where "HKS_ALG_RSA \<equiv> 1"
abbreviation (input) HKS_ALG_ECC :: u32 where "HKS_ALG_ECC \<equiv> 2"
abbreviation (input) HKS_ALG_DSA :: u32 where "HKS_ALG_DSA \<equiv> 3"
abbreviation (input) HKS_ALG_AES :: u32 where "HKS_ALG_AES \<equiv> 20"
abbreviation (input) HKS_ALG_HMAC :: u32 where "HKS_ALG_HMAC \<equiv> 50"
abbreviation (input) HKS_ALG_HKDF :: u32 where "HKS_ALG_HKDF \<equiv> 51"
abbreviation (input) HKS_ALG_PBKDF2 :: u32 where "HKS_ALG_PBKDF2 \<equiv> 52"
abbreviation (input) HKS_ALG_GMKDF :: u32 where "HKS_ALG_GMKDF \<equiv> 53"
abbreviation (input) HKS_ALG_ECDH :: u32 where "HKS_ALG_ECDH \<equiv> 100"
abbreviation (input) HKS_ALG_X25519 :: u32 where "HKS_ALG_X25519 \<equiv> 101"
abbreviation (input) HKS_ALG_ED25519 :: u32 where "HKS_ALG_ED25519 \<equiv> 102"
abbreviation (input) HKS_ALG_DH :: u32 where "HKS_ALG_DH \<equiv> 103"
abbreviation (input) HKS_ALG_SM2 :: u32 where "HKS_ALG_SM2 \<equiv> 150"
abbreviation (input) HKS_ALG_SM3 :: u32 where "HKS_ALG_SM3 \<equiv> 151"
abbreviation (input) HKS_ALG_SM4 :: u32 where "HKS_ALG_SM4 \<equiv> 152"
abbreviation (input) HKS_ALG_DES :: u32 where "HKS_ALG_DES \<equiv> 160"
abbreviation (input) HKS_ALG_3DES :: u32 where "HKS_ALG_3DES \<equiv> 161"
abbreviation (input) HKS_ALG_CMAC :: u32 where "HKS_ALG_CMAC \<equiv> 162"

text \<open>\<open>enum HuksAlgSuite\<close>\<close>

abbreviation (input) HKS_UNWRAP_SUITE_X25519_AES_256_GCM_NOPADDING :: u32 where "HKS_UNWRAP_SUITE_X25519_AES_256_GCM_NOPADDING \<equiv> 1"
abbreviation (input) HKS_UNWRAP_SUITE_ECDH_AES_256_GCM_NOPADDING :: u32 where "HKS_UNWRAP_SUITE_ECDH_AES_256_GCM_NOPADDING \<equiv> 2"
abbreviation (input) HKS_UNWRAP_SUITE_SM2_SM4_128_CBC_PKCS7_WITH_VERIFY_DIG_SM3 :: u32 where "HKS_UNWRAP_SUITE_SM2_SM4_128_CBC_PKCS7_WITH_VERIFY_DIG_SM3 \<equiv> 3"
abbreviation (input) HKS_UNWRAP_SUITE_SM2_SM4_128_CBC_PKCS7 :: u32 where "HKS_UNWRAP_SUITE_SM2_SM4_128_CBC_PKCS7 \<equiv> 4"

text \<open>\<open>enum HksKeyGenerateType\<close>\<close>

abbreviation (input) HKS_KEY_GENERATE_TYPE_DEFAULT :: u32 where "HKS_KEY_GENERATE_TYPE_DEFAULT \<equiv> 0"
abbreviation (input) HKS_KEY_GENERATE_TYPE_DERIVE :: u32 where "HKS_KEY_GENERATE_TYPE_DERIVE \<equiv> 1"
abbreviation (input) HKS_KEY_GENERATE_TYPE_AGREE :: u32 where "HKS_KEY_GENERATE_TYPE_AGREE \<equiv> 2"

text \<open>\<open>enum HksKeyFlag\<close>\<close>

abbreviation (input) HKS_KEY_FLAG_IMPORT_KEY :: u32 where "HKS_KEY_FLAG_IMPORT_KEY \<equiv> 1"
abbreviation (input) HKS_KEY_FLAG_GENERATE_KEY :: u32 where "HKS_KEY_FLAG_GENERATE_KEY \<equiv> 2"
abbreviation (input) HKS_KEY_FLAG_AGREE_KEY :: u32 where "HKS_KEY_FLAG_AGREE_KEY \<equiv> 3"
abbreviation (input) HKS_KEY_FLAG_DERIVE_KEY :: u32 where "HKS_KEY_FLAG_DERIVE_KEY \<equiv> 4"

text \<open>\<open>enum HksKeyStorageType\<close>\<close>

abbreviation (input) HKS_STORAGE_TEMP :: u32 where "HKS_STORAGE_TEMP \<equiv> 0"
abbreviation (input) HKS_STORAGE_PERSISTENT :: u32 where "HKS_STORAGE_PERSISTENT \<equiv> 1"
abbreviation (input) HKS_STORAGE_ONLY_USED_IN_HUKS :: u32 where "HKS_STORAGE_ONLY_USED_IN_HUKS \<equiv> 2"
abbreviation (input) HKS_STORAGE_ALLOW_KEY_EXPORTED :: u32 where "HKS_STORAGE_ALLOW_KEY_EXPORTED \<equiv> 3"

text \<open>\<open>enum HksImportKeyType\<close>\<close>

abbreviation (input) HKS_KEY_TYPE_PUBLIC_KEY :: u32 where "HKS_KEY_TYPE_PUBLIC_KEY \<equiv> 0"
abbreviation (input) HKS_KEY_TYPE_PRIVATE_KEY :: u32 where "HKS_KEY_TYPE_PRIVATE_KEY \<equiv> 1"
abbreviation (input) HKS_KEY_TYPE_KEY_PAIR :: u32 where "HKS_KEY_TYPE_KEY_PAIR \<equiv> 2"

text \<open>\<open>enum HksRsaPssSaltLenType\<close>\<close>

abbreviation (input) HKS_RSA_PSS_SALTLEN_DIGEST :: u32 where "HKS_RSA_PSS_SALTLEN_DIGEST \<equiv> 0"
abbreviation (input) HKS_RSA_PSS_SALTLEN_MAX :: u32 where "HKS_RSA_PSS_SALTLEN_MAX \<equiv> 1"

text \<open>\<open>enum HksErrorCode\<close>\<close>

abbreviation (input) HKS_FAILURE :: rc where "HKS_FAILURE \<equiv> - 1"
abbreviation (input) HKS_ERROR_BAD_STATE :: rc where "HKS_ERROR_BAD_STATE \<equiv> - 2"
abbreviation (input) HKS_ERROR_INVALID_ARGUMENT :: rc where "HKS_ERROR_INVALID_ARGUMENT \<equiv> - 3"
abbreviation (input) HKS_ERROR_NOT_SUPPORTED :: rc where "HKS_ERROR_NOT_SUPPORTED \<equiv> - 4"
abbreviation (input) HKS_ERROR_NO_PERMISSION :: rc where "HKS_ERROR_NO_PERMISSION \<equiv> - 5"
abbreviation (input) HKS_ERROR_INSUFFICIENT_DATA :: rc where "HKS_ERROR_INSUFFICIENT_DATA \<equiv> - 6"
abbreviation (input) HKS_ERROR_BUFFER_TOO_SMALL :: rc where "HKS_ERROR_BUFFER_TOO_SMALL \<equiv> - 7"
abbreviation (input) HKS_ERROR_INSUFFICIENT_MEMORY :: rc where "HKS_ERROR_INSUFFICIENT_MEMORY \<equiv> - 8"
abbreviation (input) HKS_ERROR_COMMUNICATION_FAILURE :: rc where "HKS_ERROR_COMMUNICATION_FAILURE \<equiv> - 9"
abbreviation (input) HKS_ERROR_STORAGE_FAILURE :: rc where "HKS_ERROR_STORAGE_FAILURE \<equiv> - 10"
abbreviation (input) HKS_ERROR_HARDWARE_FAILURE :: rc where "HKS_ERROR_HARDWARE_FAILURE \<equiv> - 11"
abbreviation (input) HKS_ERROR_ALREADY_EXISTS :: rc where "HKS_ERROR_ALREADY_EXISTS \<equiv> - 12"
abbreviation (input) HKS_ERROR_NOT_EXIST :: rc where "HKS_ERROR_NOT_EXIST \<equiv> - 13"
abbreviation (input) HKS_ERROR_NULL_POINTER :: rc where "HKS_ERROR_NULL_POINTER \<equiv> - 14"
abbreviation (input) HKS_ERROR_FILE_SIZE_FAIL :: rc where "HKS_ERROR_FILE_SIZE_FAIL \<equiv> - 15"
abbreviation (input) HKS_ERROR_READ_FILE_FAIL :: rc where "HKS_ERROR_READ_FILE_FAIL \<equiv> - 16"
abbreviation (input) HKS_ERROR_INVALID_PUBLIC_KEY :: rc where "HKS_ERROR_INVALID_PUBLIC_KEY \<equiv> - 17"
abbreviation (input) HKS_ERROR_INVALID_PRIVATE_KEY :: rc where "HKS_ERROR_INVALID_PRIVATE_KEY \<equiv> - 18"
abbreviation (input) HKS_ERROR_INVALID_KEY_INFO :: rc where "HKS_ERROR_INVALID_KEY_INFO \<equiv> - 19"
abbreviation (input) HKS_ERROR_HASH_NOT_EQUAL :: rc where "HKS_ERROR_HASH_NOT_EQUAL \<equiv> - 20"
abbreviation (input) HKS_ERROR_MALLOC_FAIL :: rc where "HKS_ERROR_MALLOC_FAIL \<equiv> - 21"
abbreviation (input) HKS_ERROR_WRITE_FILE_FAIL :: rc where "HKS_ERROR_WRITE_FILE_FAIL \<equiv> - 22"
abbreviation (input) HKS_ERROR_REMOVE_FILE_FAIL :: rc where "HKS_ERROR_REMOVE_FILE_FAIL \<equiv> - 23"
abbreviation (input) HKS_ERROR_OPEN_FILE_FAIL :: rc where "HKS_ERROR_OPEN_FILE_FAIL \<equiv> - 24"
abbreviation (input) HKS_ERROR_CLOSE_FILE_FAIL :: rc where "HKS_ERROR_CLOSE_FILE_FAIL \<equiv> - 25"
abbreviation (input) HKS_ERROR_MAKE_DIR_FAIL :: rc where "HKS_ERROR_MAKE_DIR_FAIL \<equiv> - 26"
abbreviation (input) HKS_ERROR_INVALID_KEY_FILE :: rc where "HKS_ERROR_INVALID_KEY_FILE \<equiv> - 27"
abbreviation (input) HKS_ERROR_IPC_MSG_FAIL :: rc where "HKS_ERROR_IPC_MSG_FAIL \<equiv> - 28"
abbreviation (input) HKS_ERROR_REQUEST_OVERFLOWS :: rc where "HKS_ERROR_REQUEST_OVERFLOWS \<equiv> - 29"
abbreviation (input) HKS_ERROR_PARAM_NOT_EXIST :: rc where "HKS_ERROR_PARAM_NOT_EXIST \<equiv> - 30"
abbreviation (input) HKS_ERROR_CRYPTO_ENGINE_ERROR :: rc where "HKS_ERROR_CRYPTO_ENGINE_ERROR \<equiv> - 31"
abbreviation (input) HKS_ERROR_COMMUNICATION_TIMEOUT :: rc where "HKS_ERROR_COMMUNICATION_TIMEOUT \<equiv> - 32"
abbreviation (input) HKS_ERROR_IPC_INIT_FAIL :: rc where "HKS_ERROR_IPC_INIT_FAIL \<equiv> - 33"
abbreviation (input) HKS_ERROR_IPC_DLOPEN_FAIL :: rc where "HKS_ERROR_IPC_DLOPEN_FAIL \<equiv> - 34"
abbreviation (input) HKS_ERROR_EFUSE_READ_FAIL :: rc where "HKS_ERROR_EFUSE_READ_FAIL \<equiv> - 35"
abbreviation (input) HKS_ERROR_NEW_ROOT_KEY_MATERIAL_EXIST :: rc where "HKS_ERROR_NEW_ROOT_KEY_MATERIAL_EXIST \<equiv> - 36"
abbreviation (input) HKS_ERROR_UPDATE_ROOT_KEY_MATERIAL_FAIL :: rc where "HKS_ERROR_UPDATE_ROOT_KEY_MATERIAL_FAIL \<equiv> - 37"
abbreviation (input) HKS_ERROR_VERIFICATION_FAILED :: rc where "HKS_ERROR_VERIFICATION_FAILED \<equiv> - 38"
abbreviation (input) HKS_ERROR_SESSION_REACHED_LIMIT :: rc where "HKS_ERROR_SESSION_REACHED_LIMIT \<equiv> - 39"
abbreviation (input) HKS_ERROR_GET_USERIAM_SECINFO_FAILED :: rc where "HKS_ERROR_GET_USERIAM_SECINFO_FAILED \<equiv> - 40"
abbreviation (input) HKS_ERROR_GET_USERIAM_AUTHINFO_FAILED :: rc where "HKS_ERROR_GET_USERIAM_AUTHINFO_FAILED \<equiv> - 41"
abbreviation (input) HKS_ERROR_USER_AUTH_TYPE_NOT_SUPPORT :: rc where "HKS_ERROR_USER_AUTH_TYPE_NOT_SUPPORT \<equiv> - 42"
abbreviation (input) HKS_ERROR_KEY_AUTH_FAILED :: rc where "HKS_ERROR_KEY_AUTH_FAILED \<equiv> - 43"
abbreviation (input) HKS_ERROR_DEVICE_NO_CREDENTIAL :: rc where "HKS_ERROR_DEVICE_NO_CREDENTIAL \<equiv> - 44"
abbreviation (input) HKS_ERROR_API_NOT_SUPPORTED :: rc where "HKS_ERROR_API_NOT_SUPPORTED \<equiv> - 45"
abbreviation (input) HKS_ERROR_KEY_AUTH_PERMANENTLY_INVALIDATED :: rc where "HKS_ERROR_KEY_AUTH_PERMANENTLY_INVALIDATED \<equiv> - 46"
abbreviation (input) HKS_ERROR_KEY_AUTH_VERIFY_FAILED :: rc where "HKS_ERROR_KEY_AUTH_VERIFY_FAILED \<equiv> - 47"
abbreviation (input) HKS_ERROR_KEY_AUTH_TIME_OUT :: rc where "HKS_ERROR_KEY_AUTH_TIME_OUT \<equiv> - 48"
abbreviation (input) HKS_ERROR_CREDENTIAL_NOT_EXIST :: rc where "HKS_ERROR_CREDENTIAL_NOT_EXIST \<equiv> - 49"
abbreviation (input) HKS_ERROR_CHECK_GET_ALG_FAIL :: rc where "HKS_ERROR_CHECK_GET_ALG_FAIL \<equiv> - 100"
abbreviation (input) HKS_ERROR_CHECK_GET_KEY_SIZE_FAIL :: rc where "HKS_ERROR_CHECK_GET_KEY_SIZE_FAIL \<equiv> - 101"
abbreviation (input) HKS_ERROR_CHECK_GET_PADDING_FAIL :: rc where "HKS_ERROR_CHECK_GET_PADDING_FAIL \<equiv> - 102"
abbreviation (input) HKS_ERROR_CHECK_GET_PURPOSE_FAIL :: rc where "HKS_ERROR_CHECK_GET_PURPOSE_FAIL \<equiv> - 103"
abbreviation (input) HKS_ERROR_CHECK_GET_DIGEST_FAIL :: rc where "HKS_ERROR_CHECK_GET_DIGEST_FAIL \<equiv> - 104"
abbreviation (input) HKS_ERROR_CHECK_GET_MODE_FAIL :: rc where "HKS_ERROR_CHECK_GET_MODE_FAIL \<equiv> - 105"
abbreviation (input) HKS_ERROR_CHECK_GET_NONCE_FAIL :: rc where "HKS_ERROR_CHECK_GET_NONCE_FAIL \<equiv> - 106"
abbreviation (input) HKS_ERROR_CHECK_GET_AAD_FAIL :: rc where "HKS_ERROR_CHECK_GET_AAD_FAIL \<equiv> - 107"
abbreviation (input) HKS_ERROR_CHECK_GET_IV_FAIL :: rc where "HKS_ERROR_CHECK_GET_IV_FAIL \<equiv> - 108"
abbreviation (input) HKS_ERROR_CHECK_GET_AE_TAG_FAIL :: rc where "HKS_ERROR_CHECK_GET_AE_TAG_FAIL \<equiv> - 109"
abbreviation (input) HKS_ERROR_CHECK_GET_SALT_FAIL :: rc where "HKS_ERROR_CHECK_GET_SALT_FAIL \<equiv> - 110"
abbreviation (input) HKS_ERROR_CHECK_GET_ITERATION_FAIL :: rc where "HKS_ERROR_CHECK_GET_ITERATION_FAIL \<equiv> - 111"
abbreviation (input) HKS_ERROR_INVALID_ALGORITHM :: rc where "HKS_ERROR_INVALID_ALGORITHM \<equiv> - 112"
abbreviation (input) HKS_ERROR_INVALID_KEY_SIZE :: rc where "HKS_ERROR_INVALID_KEY_SIZE \<equiv> - 113"
abbreviation (input) HKS_ERROR_INVALID_PADDING :: rc where "HKS_ERROR_INVALID_PADDING \<equiv> - 114"
abbreviation (input) HKS_ERROR_INVALID_PURPOSE :: rc where "HKS_ERROR_INVALID_PURPOSE \<equiv> - 115"
abbreviation (input) HKS_ERROR_INVALID_MODE :: rc where "HKS_ERROR_INVALID_MODE \<equiv> - 116"
abbreviation (input) HKS_ERROR_INVALID_DIGEST :: rc where "HKS_ERROR_INVALID_DIGEST \<equiv> - 117"
abbreviation (input) HKS_ERROR_INVALID_SIGNATURE_SIZE :: rc where "HKS_ERROR_INVALID_SIGNATURE_SIZE \<equiv> - 118"
abbreviation (input) HKS_ERROR_INVALID_IV :: rc where "HKS_ERROR_INVALID_IV \<equiv> - 119"
abbreviation (input) HKS_ERROR_INVALID_AAD :: rc where "HKS_ERROR_INVALID_AAD \<equiv> - 120"
abbreviation (input) HKS_ERROR_INVALID_NONCE :: rc where "HKS_ERROR_INVALID_NONCE \<equiv> - 121"
abbreviation (input) HKS_ERROR_INVALID_AE_TAG :: rc where "HKS_ERROR_INVALID_AE_TAG \<equiv> - 122"
abbreviation (input) HKS_ERROR_INVALID_SALT :: rc where "HKS_ERROR_INVALID_SALT \<equiv> - 123"
abbreviation (input) HKS_ERROR_INVALID_ITERATION :: rc where "HKS_ERROR_INVALID_ITERATION \<equiv> - 124"
abbreviation (input) HKS_ERROR_INVALID_OPERATION :: rc where "HKS_ERROR_INVALID_OPERATION \<equiv> - 125"
abbreviation (input) HKS_ERROR_INVALID_WRAPPED_FORMAT :: rc where "HKS_ERROR_INVALID_WRAPPED_FORMAT \<equiv> - 126"
abbreviation (input) HKS_ERROR_INVALID_USAGE_OF_KEY :: rc where "HKS_ERROR_INVALID_USAGE_OF_KEY \<equiv> - 127"
abbreviation (input) HKS_ERROR_CHECK_GET_AUTH_TYP_FAILED :: rc where "HKS_ERROR_CHECK_GET_AUTH_TYP_FAILED \<equiv> - 128"
abbreviation (input) HKS_ERROR_CHECK_GET_CHALLENGE_TYPE_FAILED :: rc where "HKS_ERROR_CHECK_GET_CHALLENGE_TYPE_FAILED \<equiv> - 129"
abbreviation (input) HKS_ERROR_CHECK_GET_ACCESS_TYPE_FAILED :: rc where "HKS_ERROR_CHECK_GET_ACCESS_TYPE_FAILED \<equiv> - 130"
abbreviation (input) HKS_ERROR_CHECK_GET_AUTH_TOKEN_FAILED :: rc where "HKS_ERROR_CHECK_GET_AUTH_TOKEN_FAILED \<equiv> - 131"
abbreviation (input) HKS_ERROR_INVALID_TIME_OUT :: rc where "HKS_ERROR_INVALID_TIME_OUT \<equiv> - 132"
abbreviation (input) HKS_ERROR_INVALID_AUTH_TYPE :: rc where "HKS_ERROR_INVALID_AUTH_TYPE \<equiv> - 133"
abbreviation (input) HKS_ERROR_INVALID_CHALLENGE_TYPE :: rc where "HKS_ERROR_INVALID_CHALLENGE_TYPE \<equiv> - 134"
abbreviation (input) HKS_ERROR_INVALID_ACCESS_TYPE :: rc where "HKS_ERROR_INVALID_ACCESS_TYPE \<equiv> - 135"
abbreviation (input) HKS_ERROR_INVALID_AUTH_TOKEN :: rc where "HKS_ERROR_INVALID_AUTH_TOKEN \<equiv> - 136"
abbreviation (input) HKS_ERROR_INVALID_SECURE_SIGN_TYPE :: rc where "HKS_ERROR_INVALID_SECURE_SIGN_TYPE \<equiv> - 137"
abbreviation (input) HKS_ERROR_NEED_SKIP_ACCESS_CONTROL :: rc where "HKS_ERROR_NEED_SKIP_ACCESS_CONTROL \<equiv> - 138"
abbreviation (input) HKS_ERROR_DEVICE_PASSWORD_UNSET :: rc where "HKS_ERROR_DEVICE_PASSWORD_UNSET \<equiv> - 139"
abbreviation (input) HKS_ERROR_NOT_SYSTEM_APP :: rc where "HKS_ERROR_NOT_SYSTEM_APP \<equiv> - 140"
abbreviation (input) HKS_ERROR_EXCEED_LIMIT :: rc where "HKS_ERROR_EXCEED_LIMIT \<equiv> - 141"
abbreviation (input) HKS_ERROR_UPGRADE_FAIL :: rc where "HKS_ERROR_UPGRADE_FAIL \<equiv> - 142"
abbreviation (input) HKS_ERROR_INVALID_ACCOUNT_INFO :: rc where "HKS_ERROR_INVALID_ACCOUNT_INFO \<equiv> - 143"
abbreviation (input) HKS_ERROR_CORRUPT_FILE :: rc where "HKS_ERROR_CORRUPT_FILE \<equiv> - 144"
abbreviation (input) HKS_ERROR_KEY_NODE_NOT_FOUND :: rc where "HKS_ERROR_KEY_NODE_NOT_FOUND \<equiv> - 145"
abbreviation (input) HKS_ERROR_KEY_NODE_IN_USE :: rc where "HKS_ERROR_KEY_NODE_IN_USE \<equiv> - 146"
abbreviation (input) HKS_ERROR_RETRYABLE_ERROR :: rc where "HKS_ERROR_RETRYABLE_ERROR \<equiv> - 147"
abbreviation (input) HKS_ERROR_LOAD_PLUGIN_FAIL :: rc where "HKS_ERROR_LOAD_PLUGIN_FAIL \<equiv> - 998"
abbreviation (input) HKS_ERROR_INTERNAL_ERROR :: rc where "HKS_ERROR_INTERNAL_ERROR \<equiv> - 999"
abbreviation (input) HKS_ERROR_UNKNOWN_ERROR :: rc where "HKS_ERROR_UNKNOWN_ERROR \<equiv> - 1000"

text \<open>\<open>enum HksTagType\<close>\<close>

abbreviation (input) HKS_TAG_TYPE_INVALID :: u32 where "HKS_TAG_TYPE_INVALID \<equiv> 0"
abbreviation (input) HKS_TAG_TYPE_INT :: u32 where "HKS_TAG_TYPE_INT \<equiv> 268435456"
abbreviation (input) HKS_TAG_TYPE_UINT :: u32 where "HKS_TAG_TYPE_UINT \<equiv> 536870912"
abbreviation (input) HKS_TAG_TYPE_ULONG :: u32 where "HKS_TAG_TYPE_ULONG \<equiv> 805306368"
abbreviation (input) HKS_TAG_TYPE_BOOL :: u32 where "HKS_TAG_TYPE_BOOL \<equiv> 1073741824"
abbreviation (input) HKS_TAG_TYPE_BYTES :: u32 where "HKS_TAG_TYPE_BYTES \<equiv> 1342177280"

text \<open>\<open>enum HksUserAuthType\<close>\<close>

abbreviation (input) HKS_USER_AUTH_TYPE_FINGERPRINT :: u32 where "HKS_USER_AUTH_TYPE_FINGERPRINT \<equiv> 1"
abbreviation (input) HKS_USER_AUTH_TYPE_FACE :: u32 where "HKS_USER_AUTH_TYPE_FACE \<equiv> 2"
abbreviation (input) HKS_USER_AUTH_TYPE_PIN :: u32 where "HKS_USER_AUTH_TYPE_PIN \<equiv> 4"

text \<open>\<open>enum HksAuthAccessType\<close>\<close>

abbreviation (input) HKS_AUTH_ACCESS_INVALID_CLEAR_PASSWORD :: u32 where "HKS_AUTH_ACCESS_INVALID_CLEAR_PASSWORD \<equiv> 1"
abbreviation (input) HKS_AUTH_ACCESS_INVALID_NEW_BIO_ENROLL :: u32 where "HKS_AUTH_ACCESS_INVALID_NEW_BIO_ENROLL \<equiv> 2"
abbreviation (input) HKS_AUTH_ACCESS_ALWAYS_VALID :: u32 where "HKS_AUTH_ACCESS_ALWAYS_VALID \<equiv> 4"

text \<open>\<open>enum HksChallengeType\<close>\<close>

abbreviation (input) HKS_CHALLENGE_TYPE_NORMAL :: u32 where "HKS_CHALLENGE_TYPE_NORMAL \<equiv> 0"
abbreviation (input) HKS_CHALLENGE_TYPE_CUSTOM :: u32 where "HKS_CHALLENGE_TYPE_CUSTOM \<equiv> 1"
abbreviation (input) HKS_CHALLENGE_TYPE_NONE :: u32 where "HKS_CHALLENGE_TYPE_NONE \<equiv> 2"

text \<open>\<open>enum HksUserAuthMode\<close>\<close>

abbreviation (input) HKS_USER_AUTH_MODE_LOCAL :: u32 where "HKS_USER_AUTH_MODE_LOCAL \<equiv> 0"
abbreviation (input) HKS_USER_AUTH_MODE_COAUTH :: u32 where "HKS_USER_AUTH_MODE_COAUTH \<equiv> 1"

text \<open>\<open>enum HksChallengePosition\<close>\<close>

abbreviation (input) HKS_CHALLENGE_POS_0 :: u32 where "HKS_CHALLENGE_POS_0 \<equiv> 0"
abbreviation (input) HKS_CHALLENGE_POS_1 :: u32 where "HKS_CHALLENGE_POS_1 \<equiv> 1"
abbreviation (input) HKS_CHALLENGE_POS_2 :: u32 where "HKS_CHALLENGE_POS_2 \<equiv> 2"
abbreviation (input) HKS_CHALLENGE_POS_3 :: u32 where "HKS_CHALLENGE_POS_3 \<equiv> 3"

text \<open>\<open>enum HksSecureSignType\<close>\<close>

abbreviation (input) HKS_SECURE_SIGN_WITH_AUTHINFO :: u32 where "HKS_SECURE_SIGN_WITH_AUTHINFO \<equiv> 1"

text \<open>\<open>enum HksAttestationMode\<close>\<close>

abbreviation (input) HKS_ATTESTATION_MODE_DEFAULT :: u32 where "HKS_ATTESTATION_MODE_DEFAULT \<equiv> 0"
abbreviation (input) HKS_ATTESTATION_MODE_ANONYMOUS :: u32 where "HKS_ATTESTATION_MODE_ANONYMOUS \<equiv> 1"

text \<open>\<open>enum HksAttestationCertType\<close>\<close>

abbreviation (input) HKS_ATTESTATION_CERT_TYPE_PROVISION :: u32 where "HKS_ATTESTATION_CERT_TYPE_PROVISION \<equiv> 0"
abbreviation (input) HKS_ATTESTATION_CERT_TYPE_HARDWARE_BOUND :: u32 where "HKS_ATTESTATION_CERT_TYPE_HARDWARE_BOUND \<equiv> 1"
abbreviation (input) HKS_ATTESTATION_CERT_TYPE_RSA :: u32 where "HKS_ATTESTATION_CERT_TYPE_RSA \<equiv> 2"

text \<open>\<open>enum HksCallerType\<close>\<close>

abbreviation (input) HKS_HAP_TYPE :: u32 where "HKS_HAP_TYPE \<equiv> 1"
abbreviation (input) HKS_SA_TYPE :: u32 where "HKS_SA_TYPE \<equiv> 2"
abbreviation (input) HKS_UNIFIED_TYPE :: u32 where "HKS_UNIFIED_TYPE \<equiv> 3"

text \<open>\<open>enum HksUserIamType\<close>\<close>

abbreviation (input) HKS_AUTH_TYPE :: u32 where "HKS_AUTH_TYPE \<equiv> 0"

text \<open>\<open>enum HksChipsetPlatformDecryptScene\<close>\<close>

abbreviation (input) HKS_CHIPSET_PLATFORM_DECRYPT_SCENE_TA_TO_TA :: u32 where "HKS_CHIPSET_PLATFORM_DECRYPT_SCENE_TA_TO_TA \<equiv> 1"

text \<open>\<open>enum HksAuthStorageLevel\<close>\<close>

abbreviation (input) HKS_AUTH_STORAGE_LEVEL_DE :: u32 where "HKS_AUTH_STORAGE_LEVEL_DE \<equiv> 0"
abbreviation (input) HKS_AUTH_STORAGE_LEVEL_CE :: u32 where "HKS_AUTH_STORAGE_LEVEL_CE \<equiv> 1"
abbreviation (input) HKS_AUTH_STORAGE_LEVEL_ECE :: u32 where "HKS_AUTH_STORAGE_LEVEL_ECE \<equiv> 2"

text \<open>\<open>enum HksAgreePubKeyType\<close>\<close>

abbreviation (input) HKS_PUBKEY_DEFAULT :: u32 where "HKS_PUBKEY_DEFAULT \<equiv> 0"

text \<open>\<open>enum HksTag\<close>: the type in the top four bits, the number below.\<close>

abbreviation (input) HKS_TAG_INVALID :: u32 where "HKS_TAG_INVALID \<equiv> 0x0"
abbreviation (input) HKS_TAG_ALGORITHM :: u32 where "HKS_TAG_ALGORITHM \<equiv> 0x20000001"
abbreviation (input) HKS_TAG_PURPOSE :: u32 where "HKS_TAG_PURPOSE \<equiv> 0x20000002"
abbreviation (input) HKS_TAG_KEY_SIZE :: u32 where "HKS_TAG_KEY_SIZE \<equiv> 0x20000003"
abbreviation (input) HKS_TAG_DIGEST :: u32 where "HKS_TAG_DIGEST \<equiv> 0x20000004"
abbreviation (input) HKS_TAG_PADDING :: u32 where "HKS_TAG_PADDING \<equiv> 0x20000005"
abbreviation (input) HKS_TAG_BLOCK_MODE :: u32 where "HKS_TAG_BLOCK_MODE \<equiv> 0x20000006"
abbreviation (input) HKS_TAG_KEY_TYPE :: u32 where "HKS_TAG_KEY_TYPE \<equiv> 0x20000007"
abbreviation (input) HKS_TAG_ASSOCIATED_DATA :: u32 where "HKS_TAG_ASSOCIATED_DATA \<equiv> 0x50000008"
abbreviation (input) HKS_TAG_NONCE :: u32 where "HKS_TAG_NONCE \<equiv> 0x50000009"
abbreviation (input) HKS_TAG_IV :: u32 where "HKS_TAG_IV \<equiv> 0x5000000A"
abbreviation (input) HKS_TAG_INFO :: u32 where "HKS_TAG_INFO \<equiv> 0x5000000B"
abbreviation (input) HKS_TAG_SALT :: u32 where "HKS_TAG_SALT \<equiv> 0x5000000C"
abbreviation (input) HKS_TAG_PWD :: u32 where "HKS_TAG_PWD \<equiv> 0x5000000D"
abbreviation (input) HKS_TAG_ITERATION :: u32 where "HKS_TAG_ITERATION \<equiv> 0x2000000E"
abbreviation (input) HKS_TAG_KEY_GENERATE_TYPE :: u32 where "HKS_TAG_KEY_GENERATE_TYPE \<equiv> 0x2000000F"
abbreviation (input) HKS_TAG_DERIVE_MAIN_KEY :: u32 where "HKS_TAG_DERIVE_MAIN_KEY \<equiv> 0x50000010"
abbreviation (input) HKS_TAG_DERIVE_FACTOR :: u32 where "HKS_TAG_DERIVE_FACTOR \<equiv> 0x50000011"
abbreviation (input) HKS_TAG_DERIVE_ALG :: u32 where "HKS_TAG_DERIVE_ALG \<equiv> 0x20000012"
abbreviation (input) HKS_TAG_AGREE_ALG :: u32 where "HKS_TAG_AGREE_ALG \<equiv> 0x20000013"
abbreviation (input) HKS_TAG_AGREE_PUBLIC_KEY_IS_KEY_ALIAS :: u32 where "HKS_TAG_AGREE_PUBLIC_KEY_IS_KEY_ALIAS \<equiv> 0x40000014"
abbreviation (input) HKS_TAG_AGREE_PRIVATE_KEY_ALIAS :: u32 where "HKS_TAG_AGREE_PRIVATE_KEY_ALIAS \<equiv> 0x50000015"
abbreviation (input) HKS_TAG_AGREE_PUBLIC_KEY :: u32 where "HKS_TAG_AGREE_PUBLIC_KEY \<equiv> 0x50000016"
abbreviation (input) HKS_TAG_KEY_ALIAS :: u32 where "HKS_TAG_KEY_ALIAS \<equiv> 0x50000017"
abbreviation (input) HKS_TAG_DERIVE_KEY_SIZE :: u32 where "HKS_TAG_DERIVE_KEY_SIZE \<equiv> 0x20000018"
abbreviation (input) HKS_TAG_IMPORT_KEY_TYPE :: u32 where "HKS_TAG_IMPORT_KEY_TYPE \<equiv> 0x20000019"
abbreviation (input) HKS_TAG_UNWRAP_ALGORITHM_SUITE :: u32 where "HKS_TAG_UNWRAP_ALGORITHM_SUITE \<equiv> 0x2000001A"
abbreviation (input) HKS_TAG_CIPHER_TEXT :: u32 where "HKS_TAG_CIPHER_TEXT \<equiv> 0x5000001B"
abbreviation (input) HKS_TAG_PEER_PUBLIC_KEY :: u32 where "HKS_TAG_PEER_PUBLIC_KEY \<equiv> 0x5000001C"
abbreviation (input) HKS_TAG_DERIVE_AGREE_KEY_STORAGE_FLAG :: u32 where "HKS_TAG_DERIVE_AGREE_KEY_STORAGE_FLAG \<equiv> 0x2000001D"
abbreviation (input) HKS_TAG_RSA_PSS_SALT_LEN_TYPE :: u32 where "HKS_TAG_RSA_PSS_SALT_LEN_TYPE \<equiv> 0x2000001E"
abbreviation (input) HKS_TAG_MGF_DIGEST :: u32 where "HKS_TAG_MGF_DIGEST \<equiv> 0x2000001F"
abbreviation (input) HKS_TAG_ACTIVE_DATETIME :: u32 where "HKS_TAG_ACTIVE_DATETIME \<equiv> 0x300000C9"
abbreviation (input) HKS_TAG_ORIGINATION_EXPIRE_DATETIME :: u32 where "HKS_TAG_ORIGINATION_EXPIRE_DATETIME \<equiv> 0x300000CA"
abbreviation (input) HKS_TAG_USAGE_EXPIRE_DATETIME :: u32 where "HKS_TAG_USAGE_EXPIRE_DATETIME \<equiv> 0x300000CB"
abbreviation (input) HKS_TAG_CREATION_DATETIME :: u32 where "HKS_TAG_CREATION_DATETIME \<equiv> 0x300000CC"
abbreviation (input) HKS_TAG_ALL_USERS :: u32 where "HKS_TAG_ALL_USERS \<equiv> 0x4000012D"
abbreviation (input) HKS_TAG_USER_ID :: u32 where "HKS_TAG_USER_ID \<equiv> 0x2000012E"
abbreviation (input) HKS_TAG_NO_AUTH_REQUIRED :: u32 where "HKS_TAG_NO_AUTH_REQUIRED \<equiv> 0x4000012F"
abbreviation (input) HKS_TAG_USER_AUTH_TYPE :: u32 where "HKS_TAG_USER_AUTH_TYPE \<equiv> 0x20000130"
abbreviation (input) HKS_TAG_AUTH_TIMEOUT :: u32 where "HKS_TAG_AUTH_TIMEOUT \<equiv> 0x20000131"
abbreviation (input) HKS_TAG_AUTH_TOKEN :: u32 where "HKS_TAG_AUTH_TOKEN \<equiv> 0x50000132"
abbreviation (input) HKS_TAG_KEY_AUTH_ACCESS_TYPE :: u32 where "HKS_TAG_KEY_AUTH_ACCESS_TYPE \<equiv> 0x20000133"
abbreviation (input) HKS_TAG_KEY_SECURE_SIGN_TYPE :: u32 where "HKS_TAG_KEY_SECURE_SIGN_TYPE \<equiv> 0x20000134"
abbreviation (input) HKS_TAG_CHALLENGE_TYPE :: u32 where "HKS_TAG_CHALLENGE_TYPE \<equiv> 0x20000135"
abbreviation (input) HKS_TAG_CHALLENGE_POS :: u32 where "HKS_TAG_CHALLENGE_POS \<equiv> 0x20000136"
abbreviation (input) HKS_TAG_KEY_AUTH_PURPOSE :: u32 where "HKS_TAG_KEY_AUTH_PURPOSE \<equiv> 0x20000137"
abbreviation (input) HKS_TAG_FRONT_USER_ID :: u32 where "HKS_TAG_FRONT_USER_ID \<equiv> 0x10000138"
abbreviation (input) HKS_TAG_BATCH_PURPOSE :: u32 where "HKS_TAG_BATCH_PURPOSE \<equiv> 0x20000139"
abbreviation (input) HKS_TAG_IS_BATCH_OPERATION :: u32 where "HKS_TAG_IS_BATCH_OPERATION \<equiv> 0x4000013A"
abbreviation (input) HKS_TAG_BATCH_OPERATION_TIMEOUT :: u32 where "HKS_TAG_BATCH_OPERATION_TIMEOUT \<equiv> 0x2000013B"
abbreviation (input) HKS_TAG_AUTH_STORAGE_LEVEL :: u32 where "HKS_TAG_AUTH_STORAGE_LEVEL \<equiv> 0x2000013C"
abbreviation (input) HKS_TAG_SPECIFIC_USER_ID :: u32 where "HKS_TAG_SPECIFIC_USER_ID \<equiv> 0x1000013D"
abbreviation (input) HKS_TAG_USER_AUTH_MODE :: u32 where "HKS_TAG_USER_AUTH_MODE \<equiv> 0x2000013F"
abbreviation (input) HKS_TAG_ATTESTATION_CHALLENGE :: u32 where "HKS_TAG_ATTESTATION_CHALLENGE \<equiv> 0x500001F5"
abbreviation (input) HKS_TAG_ATTESTATION_APPLICATION_ID :: u32 where "HKS_TAG_ATTESTATION_APPLICATION_ID \<equiv> 0x500001F6"
abbreviation (input) HKS_TAG_ATTESTATION_ID_BRAND :: u32 where "HKS_TAG_ATTESTATION_ID_BRAND \<equiv> 0x500001F7"
abbreviation (input) HKS_TAG_ATTESTATION_ID_DEVICE :: u32 where "HKS_TAG_ATTESTATION_ID_DEVICE \<equiv> 0x500001F8"
abbreviation (input) HKS_TAG_ATTESTATION_ID_PRODUCT :: u32 where "HKS_TAG_ATTESTATION_ID_PRODUCT \<equiv> 0x500001F9"
abbreviation (input) HKS_TAG_ATTESTATION_ID_SERIAL :: u32 where "HKS_TAG_ATTESTATION_ID_SERIAL \<equiv> 0x500001FA"
abbreviation (input) HKS_TAG_ATTESTATION_ID_IMEI :: u32 where "HKS_TAG_ATTESTATION_ID_IMEI \<equiv> 0x500001FB"
abbreviation (input) HKS_TAG_ATTESTATION_ID_MEID :: u32 where "HKS_TAG_ATTESTATION_ID_MEID \<equiv> 0x500001FC"
abbreviation (input) HKS_TAG_ATTESTATION_ID_MANUFACTURER :: u32 where "HKS_TAG_ATTESTATION_ID_MANUFACTURER \<equiv> 0x500001FD"
abbreviation (input) HKS_TAG_ATTESTATION_ID_MODEL :: u32 where "HKS_TAG_ATTESTATION_ID_MODEL \<equiv> 0x500001FE"
abbreviation (input) HKS_TAG_ATTESTATION_ID_ALIAS :: u32 where "HKS_TAG_ATTESTATION_ID_ALIAS \<equiv> 0x500001FF"
abbreviation (input) HKS_TAG_ATTESTATION_ID_SOCID :: u32 where "HKS_TAG_ATTESTATION_ID_SOCID \<equiv> 0x50000200"
abbreviation (input) HKS_TAG_ATTESTATION_ID_UDID :: u32 where "HKS_TAG_ATTESTATION_ID_UDID \<equiv> 0x50000201"
abbreviation (input) HKS_TAG_ATTESTATION_ID_SEC_LEVEL_INFO :: u32 where "HKS_TAG_ATTESTATION_ID_SEC_LEVEL_INFO \<equiv> 0x50000202"
abbreviation (input) HKS_TAG_ATTESTATION_ID_VERSION_INFO :: u32 where "HKS_TAG_ATTESTATION_ID_VERSION_INFO \<equiv> 0x50000203"
abbreviation (input) HKS_TAG_ATTESTATION_BASE64 :: u32 where "HKS_TAG_ATTESTATION_BASE64 \<equiv> 0x40000204"
abbreviation (input) HKS_TAG_ATTESTATION_MODE :: u32 where "HKS_TAG_ATTESTATION_MODE \<equiv> 0x20000205"
abbreviation (input) HKS_TAG_ATTESTATION_APPLICATION_ID_TYPE :: u32 where "HKS_TAG_ATTESTATION_APPLICATION_ID_TYPE \<equiv> 0x20000206"
abbreviation (input) HKS_TAG_IS_KEY_ALIAS :: u32 where "HKS_TAG_IS_KEY_ALIAS \<equiv> 0x400003E9"
abbreviation (input) HKS_TAG_KEY_STORAGE_FLAG :: u32 where "HKS_TAG_KEY_STORAGE_FLAG \<equiv> 0x200003EA"
abbreviation (input) HKS_TAG_IS_ALLOWED_WRAP :: u32 where "HKS_TAG_IS_ALLOWED_WRAP \<equiv> 0x400003EB"
abbreviation (input) HKS_TAG_KEY_WRAP_TYPE :: u32 where "HKS_TAG_KEY_WRAP_TYPE \<equiv> 0x200003EC"
abbreviation (input) HKS_TAG_KEY_AUTH_ID :: u32 where "HKS_TAG_KEY_AUTH_ID \<equiv> 0x500003ED"
abbreviation (input) HKS_TAG_KEY_ROLE :: u32 where "HKS_TAG_KEY_ROLE \<equiv> 0x200003EE"
abbreviation (input) HKS_TAG_KEY_FLAG :: u32 where "HKS_TAG_KEY_FLAG \<equiv> 0x200003EF"
abbreviation (input) HKS_TAG_IS_ASYNCHRONIZED :: u32 where "HKS_TAG_IS_ASYNCHRONIZED \<equiv> 0x200003F0"
abbreviation (input) HKS_TAG_SECURE_KEY_ALIAS :: u32 where "HKS_TAG_SECURE_KEY_ALIAS \<equiv> 0x400003F1"
abbreviation (input) HKS_TAG_SECURE_KEY_UUID :: u32 where "HKS_TAG_SECURE_KEY_UUID \<equiv> 0x500003F2"
abbreviation (input) HKS_TAG_KEY_DOMAIN :: u32 where "HKS_TAG_KEY_DOMAIN \<equiv> 0x200003F3"
abbreviation (input) HKS_TAG_IS_DEVICE_PASSWORD_SET :: u32 where "HKS_TAG_IS_DEVICE_PASSWORD_SET \<equiv> 0x400003F4"
abbreviation (input) HKS_TAG_EXT_INFO :: u32 where "HKS_TAG_EXT_INFO \<equiv> 0x500003F5"
abbreviation (input) HKS_TAG_DATA_WRAP_TYPE :: u32 where "HKS_TAG_DATA_WRAP_TYPE \<equiv> 0x200003F6"
abbreviation (input) HKS_TAG_IS_ALLOWED_DATA_WRAP :: u32 where "HKS_TAG_IS_ALLOWED_DATA_WRAP \<equiv> 0x400003F7"
abbreviation (input) HKS_TAG_WRAP_KEY_VERSION :: u32 where "HKS_TAG_WRAP_KEY_VERSION \<equiv> 0x200003F8"
abbreviation (input) HKS_TAG_AGREE_PUBKEY_TYPE :: u32 where "HKS_TAG_AGREE_PUBKEY_TYPE \<equiv> 0x200003F9"
abbreviation (input) HKS_TAG_PACKAGE_NAME :: u32 where "HKS_TAG_PACKAGE_NAME \<equiv> 0x50002712"
abbreviation (input) HKS_TAG_ACCESS_TIME :: u32 where "HKS_TAG_ACCESS_TIME \<equiv> 0x20002713"
abbreviation (input) HKS_TAG_USES_TIME :: u32 where "HKS_TAG_USES_TIME \<equiv> 0x20002714"
abbreviation (input) HKS_TAG_CRYPTO_CTX :: u32 where "HKS_TAG_CRYPTO_CTX \<equiv> 0x30002715"
abbreviation (input) HKS_TAG_PAYLOAD_LEN :: u32 where "HKS_TAG_PAYLOAD_LEN \<equiv> 0x20002718"
abbreviation (input) HKS_TAG_AE_TAG :: u32 where "HKS_TAG_AE_TAG \<equiv> 0x50002719"
abbreviation (input) HKS_TAG_IS_KEY_HANDLE :: u32 where "HKS_TAG_IS_KEY_HANDLE \<equiv> 0x3000271A"
abbreviation (input) HKS_TAG_KEY_INIT_CHALLENGE :: u32 where "HKS_TAG_KEY_INIT_CHALLENGE \<equiv> 0x5000271B"
abbreviation (input) HKS_TAG_IS_USER_AUTH_ACCESS :: u32 where "HKS_TAG_IS_USER_AUTH_ACCESS \<equiv> 0x4000271C"
abbreviation (input) HKS_TAG_USER_AUTH_CHALLENGE :: u32 where "HKS_TAG_USER_AUTH_CHALLENGE \<equiv> 0x5000271D"
abbreviation (input) HKS_TAG_USER_AUTH_ENROLL_ID_INFO :: u32 where "HKS_TAG_USER_AUTH_ENROLL_ID_INFO \<equiv> 0x5000271E"
abbreviation (input) HKS_TAG_USER_AUTH_SECURE_UID :: u32 where "HKS_TAG_USER_AUTH_SECURE_UID \<equiv> 0x5000271F"
abbreviation (input) HKS_TAG_KEY_AUTH_RESULT :: u32 where "HKS_TAG_KEY_AUTH_RESULT \<equiv> 0x10002720"
abbreviation (input) HKS_TAG_IF_NEED_APPEND_AUTH_INFO :: u32 where "HKS_TAG_IF_NEED_APPEND_AUTH_INFO \<equiv> 0x40002721"
abbreviation (input) HKS_TAG_VERIFIED_AUTH_TOKEN :: u32 where "HKS_TAG_VERIFIED_AUTH_TOKEN \<equiv> 0x50002722"
abbreviation (input) HKS_TAG_IS_APPEND_UPDATE_DATA :: u32 where "HKS_TAG_IS_APPEND_UPDATE_DATA \<equiv> 0x40002723"
abbreviation (input) HKS_TAG_KEY_ACCESS_TIME :: u32 where "HKS_TAG_KEY_ACCESS_TIME \<equiv> 0x30002724"
abbreviation (input) HKS_TAG_OWNER_ID :: u32 where "HKS_TAG_OWNER_ID \<equiv> 0x50002725"
abbreviation (input) HKS_TAG_OWNER_TYPE :: u32 where "HKS_TAG_OWNER_TYPE \<equiv> 0x20002726"
abbreviation (input) HKS_TAG_ACCOUNT_ID :: u32 where "HKS_TAG_ACCOUNT_ID \<equiv> 0x50002727"
abbreviation (input) HKS_TAG_SYMMETRIC_KEY_DATA :: u32 where "HKS_TAG_SYMMETRIC_KEY_DATA \<equiv> 0x50004E21"
abbreviation (input) HKS_TAG_ASYMMETRIC_PUBLIC_KEY_DATA :: u32 where "HKS_TAG_ASYMMETRIC_PUBLIC_KEY_DATA \<equiv> 0x50004E22"
abbreviation (input) HKS_TAG_ASYMMETRIC_PRIVATE_KEY_DATA :: u32 where "HKS_TAG_ASYMMETRIC_PRIVATE_KEY_DATA \<equiv> 0x50004E23"
abbreviation (input) HKS_TAG_ATTESTATION_CERT_TYPE :: u32 where "HKS_TAG_ATTESTATION_CERT_TYPE \<equiv> 0x200186A1"
abbreviation (input) HKS_TAG_PROCESS_NAME :: u32 where "HKS_TAG_PROCESS_NAME \<equiv> 0x50002711"
abbreviation (input) HKS_TAG_KEY :: u32 where "HKS_TAG_KEY \<equiv> 0x50002716"
abbreviation (input) HKS_TAG_KEY_VERSION :: u32 where "HKS_TAG_KEY_VERSION \<equiv> 0x20002717"
abbreviation (input) HKS_TAG_OS_VERSION :: u32 where "HKS_TAG_OS_VERSION \<equiv> 0x20002775"
abbreviation (input) HKS_TAG_OS_PATCHLEVEL :: u32 where "HKS_TAG_OS_PATCHLEVEL \<equiv> 0x20002776"

text \<open>\<open>enum HksInnerTag\<close>\<close>

abbreviation (input) HKS_TAG_APPENDED_DATA_PREFIX :: u32 where "HKS_TAG_APPENDED_DATA_PREFIX \<equiv> 0x50002724"
abbreviation (input) HKS_TAG_APPENDED_DATA_SUFFIX :: u32 where "HKS_TAG_APPENDED_DATA_SUFFIX \<equiv> 0x50002725"
abbreviation (input) HKS_TAG_PARAM0_BUFFER :: u32 where "HKS_TAG_PARAM0_BUFFER \<equiv> 0x50007531"
abbreviation (input) HKS_TAG_PARAM1_BUFFER :: u32 where "HKS_TAG_PARAM1_BUFFER \<equiv> 0x50007532"
abbreviation (input) HKS_TAG_PARAM2_BUFFER :: u32 where "HKS_TAG_PARAM2_BUFFER \<equiv> 0x50007533"
abbreviation (input) HKS_TAG_PARAM3_BUFFER :: u32 where "HKS_TAG_PARAM3_BUFFER \<equiv> 0x50007534"
abbreviation (input) HKS_TAG_PARAM4_BUFFER :: u32 where "HKS_TAG_PARAM4_BUFFER \<equiv> 0x50007535"
abbreviation (input) HKS_TAG_PARAM0_UINT32 :: u32 where "HKS_TAG_PARAM0_UINT32 \<equiv> 0x20007536"
abbreviation (input) HKS_TAG_PARAM1_UINT32 :: u32 where "HKS_TAG_PARAM1_UINT32 \<equiv> 0x20007537"
abbreviation (input) HKS_TAG_PARAM2_UINT32 :: u32 where "HKS_TAG_PARAM2_UINT32 \<equiv> 0x20007538"
abbreviation (input) HKS_TAG_PARAM3_UINT32 :: u32 where "HKS_TAG_PARAM3_UINT32 \<equiv> 0x20007539"
abbreviation (input) HKS_TAG_PARAM4_UINT32 :: u32 where "HKS_TAG_PARAM4_UINT32 \<equiv> 0x2000753A"
abbreviation (input) HKS_TAG_PARAM0_BOOL :: u32 where "HKS_TAG_PARAM0_BOOL \<equiv> 0x4000753B"
abbreviation (input) HKS_TAG_PARAM1_BOOL :: u32 where "HKS_TAG_PARAM1_BOOL \<equiv> 0x4000753C"
abbreviation (input) HKS_TAG_PARAM2_BOOL :: u32 where "HKS_TAG_PARAM2_BOOL \<equiv> 0x4000753D"
abbreviation (input) HKS_TAG_PARAM3_BOOL :: u32 where "HKS_TAG_PARAM3_BOOL \<equiv> 0x4000753E"
abbreviation (input) HKS_TAG_PARAM4_BOOL :: u32 where "HKS_TAG_PARAM4_BOOL \<equiv> 0x4000753F"
abbreviation (input) HKS_TAG_PARAM0_NULL :: u32 where "HKS_TAG_PARAM0_NULL \<equiv> 0x50007540"
abbreviation (input) HKS_TAG_PARAM1_NULL :: u32 where "HKS_TAG_PARAM1_NULL \<equiv> 0x50007541"
abbreviation (input) HKS_TAG_PARAM2_NULL :: u32 where "HKS_TAG_PARAM2_NULL \<equiv> 0x50007542"
abbreviation (input) HKS_TAG_PARAM3_NULL :: u32 where "HKS_TAG_PARAM3_NULL \<equiv> 0x50007543"
abbreviation (input) HKS_TAG_PARAM4_NULL :: u32 where "HKS_TAG_PARAM4_NULL \<equiv> 0x50007544"
abbreviation (input) HKS_TAG_ACCESS_TOKEN_ID :: u32 where "HKS_TAG_ACCESS_TOKEN_ID \<equiv> 0x20007545"
abbreviation (input) HKS_TAG_BUNDLE_NAME :: u32 where "HKS_TAG_BUNDLE_NAME \<equiv> 0x50007546"
abbreviation (input) HKS_TAG_AES_GCM_NEED_REGENERATE_NONCE :: u32 where "HKS_TAG_AES_GCM_NEED_REGENERATE_NONCE \<equiv> 0x40007547"

text \<open>\<open>enum HksCmdId\<close> of \<open>hks_cmd_id.h\<close>, the commands the checks distinguish.\<close>

abbreviation (input) HKS_CMD_ID_SIGN :: u32 where "HKS_CMD_ID_SIGN \<equiv> 0x102"
abbreviation (input) HKS_CMD_ID_VERIFY :: u32 where "HKS_CMD_ID_VERIFY \<equiv> 0x106"
abbreviation (input) HKS_CMD_ID_ENCRYPT :: u32 where "HKS_CMD_ID_ENCRYPT \<equiv> 0x10E"
abbreviation (input) HKS_CMD_ID_DECRYPT :: u32 where "HKS_CMD_ID_DECRYPT \<equiv> 0x112"


text \<open>Sizes of \<open>hks_type.h\<close>\<close>

abbreviation (input) HKS_AE_TAG_LEN :: u32 where "HKS_AE_TAG_LEN \<equiv> 16"
abbreviation (input) HKS_BITS_PER_BYTE :: u32 where "HKS_BITS_PER_BYTE \<equiv> 8"
abbreviation (input) MAX_KEY_SIZE :: u32 where "MAX_KEY_SIZE \<equiv> 2048"
abbreviation (input) HKS_SIGNATURE_MIN_SIZE :: u32 where "HKS_SIGNATURE_MIN_SIZE \<equiv> 64"
abbreviation (input) HKS_WRAPPED_FORMAT_MAX_SIZE :: u32 where "HKS_WRAPPED_FORMAT_MAX_SIZE \<equiv> 1048576"
abbreviation (input) HKS_IMPORT_WRAPPED_KEY_TOTAL_BLOBS :: u32 where
  "HKS_IMPORT_WRAPPED_KEY_TOTAL_BLOBS \<equiv> 10"
abbreviation (input) UINT32_MAX :: u32 where "UINT32_MAX \<equiv> 0xFFFFFFFF"

definition HKS_KEY_BYTES :: "u32 \<Rightarrow> u32" where
  "HKS_KEY_BYTES keySize = (keySize + HKS_BITS_PER_BYTE - 1) div HKS_BITS_PER_BYTE"

end
