(* ===== verification/Huks_Param.thy ===== *)
theory Huks_Param
  imports Huks_Const
begin

text \<open>
  Parameter sets: the blobs and tagged parameters of \<open>hks_type.h\<close>, and every operation of
  \<open>frameworks/huks_standard/main/common/src/hks_param.c\<close> on them. All requests of HUKS carry
  their arguments in such a set, and all later checks read them with \<open>HksGetParam\<close>.
\<close>

section \<open>Data\<close>

text \<open>
  A pointer the code compares with \<open>NULL\<close> is an option. A blob's data pointer is the bytes it
  points to, which may be longer than the size the blob states.
\<close>

type_synonym 'a ptr = "'a option"

abbreviation (input) NULL :: "'a ptr" where "NULL \<equiv> None"

record HksBlob =
  blob_size :: u32
  blob_data :: "bytes ptr"

text \<open>
  The union of \<open>struct HksParam\<close>: the constructor is the member written last. Reading another
  member sees the bytes of the written one, little-endian, with the rest of the union zero.
\<close>

datatype HksParamValue =
    VBool bool
  | VInt u32
  | VUint u32
  | VUlong u64
  | VBlob HksBlob

fun uint32Param :: "HksParamValue \<Rightarrow> u32" where
  "uint32Param (VBool b) = of_bool b"
| "uint32Param (VInt x) = x"
| "uint32Param (VUint x) = x"
| "uint32Param (VUlong x) = ucast x"
| "uint32Param (VBlob b) = blob_size b"

fun uint64Param :: "HksParamValue \<Rightarrow> u64" where
  "uint64Param (VUlong x) = x"
| "uint64Param v = ucast (uint32Param v)"

fun boolParam :: "HksParamValue \<Rightarrow> bool" where
  "boolParam (VBool b) = b"
| "boolParam v = ((ucast (uint32Param v) :: u8) \<noteq> 0)"

fun blobParam :: "HksParamValue \<Rightarrow> HksBlob" where
  "blobParam (VBlob b) = b"
| "blobParam v = \<lparr>blob_size = uint32Param v, blob_data = NULL\<rparr>"

record HksParam =
  p_tag :: u32
  p_val :: HksParamValue

text \<open>
  \<open>struct HksParamSet\<close>: the recorded size, the parameters \<open>params[0 .. paramsCnt)\<close>, and the
  bytes of the buffer after them, where a built set keeps the contents of its blobs.
\<close>

record HksParamSet =
  paramSetSize :: u32
  params :: "HksParam list"
  ps_tail :: bytes

definition paramsCnt :: "HksParamSet \<Rightarrow> nat" where
  "paramsCnt ps = length (params ps)"

abbreviation (input) SIZEOF_PARAM_SET :: nat where "SIZEOF_PARAM_SET \<equiv> 8"
abbreviation (input) SIZEOF_PARAM :: nat where "SIZEOF_PARAM \<equiv> 24"
abbreviation (input) HKS_PARAM_SET_MAX_SIZE :: u32 where "HKS_PARAM_SET_MAX_SIZE \<equiv> 0x400000"
abbreviation (input) HKS_DEFAULT_PARAM_SET_SIZE :: nat where "HKS_DEFAULT_PARAM_SET_SIZE \<equiv> 1024"
abbreviation (input) HKS_DEFAULT_PARAM_CNT :: nat where "HKS_DEFAULT_PARAM_CNT \<equiv> 42"
abbreviation (input) HKS_TAG_TYPE_MASK :: u32 where "HKS_TAG_TYPE_MASK \<equiv> 0xF0000000"

section \<open>Checks of blobs and sizes\<close>

definition IsAdditionOverflow :: "u32 \<Rightarrow> u32 \<Rightarrow> bool" where
  "IsAdditionOverflow a b \<longleftrightarrow> (0xFFFFFFFF - a) < b"

definition CheckBlob :: "HksBlob ptr \<Rightarrow> rc" where
  "CheckBlob blob =
     (case blob of NULL \<Rightarrow> HKS_ERROR_INVALID_ARGUMENT
      | Some b \<Rightarrow>
          if blob_data b = NULL \<or> blob_size b = 0 then HKS_ERROR_INVALID_ARGUMENT else HKS_SUCCESS)"

definition GetTagType :: "u32 \<Rightarrow> u32" where
  "GetTagType tag = tag AND HKS_TAG_TYPE_MASK"

definition g_validTags :: "u32 list" where
  "g_validTags = [
     HKS_TAG_ALGORITHM, HKS_TAG_PURPOSE, HKS_TAG_KEY_SIZE, HKS_TAG_DIGEST, HKS_TAG_PADDING,
     HKS_TAG_BLOCK_MODE, HKS_TAG_KEY_TYPE, HKS_TAG_ASSOCIATED_DATA, HKS_TAG_NONCE, HKS_TAG_IV,
     HKS_TAG_SALT, HKS_TAG_PWD, HKS_TAG_INFO, HKS_TAG_ITERATION,
     HKS_TAG_KEY_GENERATE_TYPE, HKS_TAG_DERIVE_MAIN_KEY, HKS_TAG_DERIVE_FACTOR, HKS_TAG_DERIVE_ALG,
     HKS_TAG_AGREE_ALG, HKS_TAG_AGREE_PUBLIC_KEY_IS_KEY_ALIAS, HKS_TAG_AGREE_PRIVATE_KEY_ALIAS,
     HKS_TAG_AGREE_PUBLIC_KEY, HKS_TAG_KEY_ALIAS, HKS_TAG_DERIVE_KEY_SIZE, HKS_TAG_IMPORT_KEY_TYPE,
     HKS_TAG_UNWRAP_ALGORITHM_SUITE, HKS_TAG_DERIVE_AGREE_KEY_STORAGE_FLAG,
     HKS_TAG_RSA_PSS_SALT_LEN_TYPE, HKS_TAG_MGF_DIGEST,
     HKS_TAG_ACTIVE_DATETIME, HKS_TAG_ORIGINATION_EXPIRE_DATETIME, HKS_TAG_USAGE_EXPIRE_DATETIME,
     HKS_TAG_CREATION_DATETIME,
     HKS_TAG_ALL_USERS, HKS_TAG_USER_ID, HKS_TAG_FRONT_USER_ID, HKS_TAG_NO_AUTH_REQUIRED,
     HKS_TAG_USER_AUTH_TYPE, HKS_TAG_AUTH_TIMEOUT, HKS_TAG_AUTH_TOKEN, HKS_TAG_AUTH_STORAGE_LEVEL,
     HKS_TAG_SPECIFIC_USER_ID,
     HKS_TAG_OS_VERSION, HKS_TAG_OS_PATCHLEVEL,
     HKS_TAG_ATTESTATION_CHALLENGE, HKS_TAG_ATTESTATION_APPLICATION_ID,
     HKS_TAG_ATTESTATION_APPLICATION_ID_TYPE, HKS_TAG_ATTESTATION_ID_BRAND,
     HKS_TAG_ATTESTATION_ID_DEVICE, HKS_TAG_ATTESTATION_ID_PRODUCT, HKS_TAG_ATTESTATION_ID_SERIAL,
     HKS_TAG_ATTESTATION_ID_IMEI, HKS_TAG_ATTESTATION_ID_MEID, HKS_TAG_ATTESTATION_ID_MANUFACTURER,
     HKS_TAG_ATTESTATION_ID_MODEL, HKS_TAG_ATTESTATION_ID_ALIAS, HKS_TAG_ATTESTATION_ID_SOCID,
     HKS_TAG_ATTESTATION_ID_UDID, HKS_TAG_ATTESTATION_ID_SEC_LEVEL_INFO,
     HKS_TAG_ATTESTATION_ID_VERSION_INFO, HKS_TAG_ATTESTATION_BASE64, HKS_TAG_ATTESTATION_MODE,
     HKS_TAG_ATTESTATION_CERT_TYPE,
     HKS_TAG_IS_KEY_ALIAS, HKS_TAG_KEY_STORAGE_FLAG, HKS_TAG_IS_ALLOWED_WRAP, HKS_TAG_KEY_WRAP_TYPE,
     HKS_TAG_WRAP_KEY_VERSION, HKS_TAG_IS_ALLOWED_DATA_WRAP, HKS_TAG_DATA_WRAP_TYPE,
     HKS_TAG_KEY_AUTH_ID, HKS_TAG_KEY_ROLE, HKS_TAG_KEY_FLAG, HKS_TAG_KEY_DOMAIN,
     HKS_TAG_KEY_AUTH_ACCESS_TYPE, HKS_TAG_KEY_SECURE_SIGN_TYPE, HKS_TAG_CHALLENGE_TYPE,
     HKS_TAG_CHALLENGE_POS, HKS_TAG_KEY_AUTH_PURPOSE, HKS_TAG_BATCH_PURPOSE,
     HKS_TAG_IS_BATCH_OPERATION, HKS_TAG_BATCH_OPERATION_TIMEOUT, HKS_TAG_USER_AUTH_MODE,
     HKS_TAG_KEY_INIT_CHALLENGE, HKS_TAG_IS_USER_AUTH_ACCESS, HKS_TAG_USER_AUTH_CHALLENGE,
     HKS_TAG_USER_AUTH_ENROLL_ID_INFO, HKS_TAG_USER_AUTH_SECURE_UID, HKS_TAG_KEY_AUTH_RESULT,
     HKS_TAG_IF_NEED_APPEND_AUTH_INFO, HKS_TAG_VERIFIED_AUTH_TOKEN, HKS_TAG_IS_APPEND_UPDATE_DATA,
     HKS_TAG_PROCESS_NAME, HKS_TAG_PACKAGE_NAME, HKS_TAG_PAYLOAD_LEN, HKS_TAG_AE_TAG,
     HKS_TAG_CRYPTO_CTX, HKS_TAG_KEY, HKS_TAG_KEY_VERSION, HKS_TAG_IS_KEY_HANDLE,
     HKS_TAG_SYMMETRIC_KEY_DATA, HKS_TAG_ASYMMETRIC_PUBLIC_KEY_DATA,
     HKS_TAG_ASYMMETRIC_PRIVATE_KEY_DATA, HKS_TAG_KEY_ACCESS_TIME,
     HKS_TAG_ACCESS_TOKEN_ID, HKS_TAG_BUNDLE_NAME, HKS_TAG_IS_DEVICE_PASSWORD_SET,
     HKS_TAG_ACCOUNT_ID, HKS_TAG_OWNER_ID, HKS_TAG_OWNER_TYPE, HKS_TAG_AGREE_PUBKEY_TYPE]"

definition IsValidTag :: "u32 \<Rightarrow> bool" where
  "IsValidTag tag \<longleftrightarrow> tag \<in> set g_validTags"

text \<open>The two nested loops of \<open>HksCheckParamSetTag\<close>.\<close>

fun check_tags_loop :: "HksParam list \<Rightarrow> rc" where
  "check_tags_loop [] = HKS_SUCCESS"
| "check_tags_loop (p # ps) =
     (if \<not> IsValidTag (p_tag p) then HKS_ERROR_INVALID_ARGUMENT
      else if list_ex (\<lambda>q. p_tag p = p_tag q) ps then HKS_ERROR_INVALID_ARGUMENT
      else check_tags_loop ps)"

definition HksCheckParamSetTag :: "HksParamSet ptr \<Rightarrow> rc" where
  "HksCheckParamSetTag paramSet =
     (case paramSet of NULL \<Rightarrow> HKS_ERROR_NULL_POINTER | Some ps \<Rightarrow> check_tags_loop (params ps))"

definition HksCheckParamSet :: "HksParamSet ptr \<Rightarrow> u32 \<Rightarrow> rc" where
  "HksCheckParamSet paramSet sz =
     (case paramSet of NULL \<Rightarrow> HKS_ERROR_NULL_POINTER
      | Some ps \<Rightarrow>
          if sz < word_of_nat SIZEOF_PARAM_SET \<or> sz > HKS_PARAM_SET_MAX_SIZE
            \<or> paramSetSize ps \<noteq> sz
            \<or> paramsCnt ps > (unat sz - SIZEOF_PARAM_SET) div SIZEOF_PARAM
          then HKS_ERROR_INVALID_ARGUMENT else HKS_SUCCESS)"

section \<open>Initialising, adding, building\<close>

definition HksInitParamSet :: "allocator \<Rightarrow> HksParamSet res" where
  "HksInitParamSet alloc =
     (if \<not> HksMalloc alloc HKS_DEFAULT_PARAM_SET_SIZE then Inl HKS_ERROR_MALLOC_FAIL
      else Inr \<lparr>paramSetSize = word_of_nat SIZEOF_PARAM_SET, params = [], ps_tail = []\<rparr>)"

definition is_bytes_tag :: "u32 \<Rightarrow> bool" where
  "is_bytes_tag tag \<longleftrightarrow> GetTagType tag = HKS_TAG_TYPE_BYTES"

definition CheckBeforeAddParams :: "HksParamSet ptr \<Rightarrow> HksParam list ptr \<Rightarrow> rc" where
  "CheckBeforeAddParams paramSet newParams =
     (case (paramSet, newParams) of
        (Some ps, Some qs) \<Rightarrow>
          if paramSetSize ps > HKS_PARAM_SET_MAX_SIZE \<or> length qs > HKS_DEFAULT_PARAM_CNT
            \<or> paramsCnt ps > HKS_DEFAULT_PARAM_CNT - length qs
          then HKS_ERROR_INVALID_ARGUMENT
          else if list_ex (\<lambda>q. is_bytes_tag (p_tag q) \<and> blob_data (blobParam (p_val q)) = NULL) qs
          then HKS_ERROR_INVALID_ARGUMENT
          else HKS_SUCCESS
      | _ \<Rightarrow> HKS_ERROR_INVALID_ARGUMENT)"

text \<open>
  The loop of \<open>HksAddParams\<close>. On a size overflow the parameters added so far stay in the set, and
  only the last increment of the size is taken back.
\<close>

fun add_params_loop :: "HksParamSet \<Rightarrow> HksParam list \<Rightarrow> rc \<times> HksParamSet" where
  "add_params_loop ps [] = (HKS_SUCCESS, ps)"
| "add_params_loop ps (q # qs) =
     (let sz = paramSetSize ps + word_of_nat SIZEOF_PARAM in
      if is_bytes_tag (p_tag q) then
        (if IsAdditionOverflow sz (blob_size (blobParam (p_val q)))
         then (HKS_ERROR_INVALID_ARGUMENT, ps\<lparr>paramSetSize := sz - word_of_nat SIZEOF_PARAM\<rparr>)
         else add_params_loop
           (ps\<lparr>paramSetSize := sz + blob_size (blobParam (p_val q)), params := params ps @ [q]\<rparr>) qs)
      else add_params_loop (ps\<lparr>paramSetSize := sz, params := params ps @ [q]\<rparr>) qs)"

definition HksAddParams :: "HksParamSet ptr \<Rightarrow> HksParam list ptr \<Rightarrow> rc \<times> HksParamSet ptr" where
  "HksAddParams paramSet newParams =
     (let ret = CheckBeforeAddParams paramSet newParams in
      if_not_succ_return ret (ret, paramSet)
        (case (paramSet, newParams) of
           (Some ps, Some qs) \<Rightarrow> map_prod id Some (add_params_loop ps qs)
         | _ \<Rightarrow> (ret, paramSet)))"

text \<open>\<open>HksAddParams\<close> of a set that is not \<open>NULL\<close>, its code passed on.\<close>

definition add_params :: "HksParamSet \<Rightarrow> HksParam list \<Rightarrow> HksParamSet res" where
  "add_params paramSet ps =
     (case HksAddParams (Some paramSet) (Some ps) of
        (ret, Some paramSet) \<Rightarrow> if_not_succ_return ret (Inl ret) (Inr paramSet)
      | (ret, NULL) \<Rightarrow> Inl ret)"

text \<open>
  The loop of \<open>FreshParamSet\<close> from the buffer offset \<open>off\<close> on. With \<open>isCopy\<close> the
  blob contents are copied behind the parameters; without, the blobs are pointed at the bytes that
  already lie there (\<open>tail\<close>, whose first byte is at offset \<open>base\<close>). It gives the parameters
  with their new pointers, the bytes written, and the final offset.
\<close>

fun fresh_loop :: "bool \<Rightarrow> u32 \<Rightarrow> nat \<Rightarrow> bytes \<Rightarrow> u32 \<Rightarrow> HksParam list
    \<Rightarrow> (HksParam list \<times> bytes \<times> u32) res" where
  "fresh_loop isCopy sz base tail off [] = Inr ([], [], off)"
| "fresh_loop isCopy sz base tail off (p # ps) =
     (if off > sz then Inl HKS_ERROR_INVALID_ARGUMENT
      else if is_bytes_tag (p_tag p) then
        (let b = blobParam (p_val p); n = unat (blob_size b) in
         if IsAdditionOverflow off (blob_size b) then Inl HKS_ERROR_INVALID_ARGUMENT
         else (case (if isCopy then memcpy_s (unat (sz - off)) (blob_data b) n
                     else Some (take n (drop (unat off - base) tail))) of
             None \<Rightarrow> Inl HKS_ERROR_INSUFFICIENT_MEMORY
           | Some bs \<Rightarrow>
               try_res (fresh_loop isCopy sz base tail (off + blob_size b) ps)
                 (\<lambda>(ps', out, o').
                   Inr (p\<lparr>p_val := VBlob \<lparr>blob_size = blob_size b, blob_data = Some bs\<rparr>\<rparr> # ps',
                        bs @ out, o'))))
      else
        try_res (fresh_loop isCopy sz base tail off ps) (\<lambda>(ps', out, o'). Inr (p # ps', out, o')))"

definition FreshParamSet :: "HksParamSet \<Rightarrow> bool \<Rightarrow> HksParamSet res" where
  "FreshParamSet ps isCopy =
     (let base = SIZEOF_PARAM_SET + SIZEOF_PARAM * paramsCnt ps in
      try_res (fresh_loop isCopy (paramSetSize ps) base (ps_tail ps) (word_of_nat base) (params ps))
        (\<lambda>(ps', out, off).
          if paramSetSize ps \<noteq> off then Inl HKS_ERROR_INVALID_ARGUMENT
          else Inr (ps\<lparr>params := ps', ps_tail := (if isCopy then out else ps_tail ps)\<rparr>)))"

definition HksFreshParamSet :: "HksParamSet ptr \<Rightarrow> bool \<Rightarrow> HksParamSet res" where
  "HksFreshParamSet paramSet isCopy =
     (case paramSet of NULL \<Rightarrow> Inl HKS_ERROR_NULL_POINTER
      | Some ps \<Rightarrow>
          let ret = HksCheckParamSet paramSet (paramSetSize ps) in
          if_not_succ_return ret (Inl ret) (FreshParamSet ps isCopy))"

definition BuildParamSet :: "allocator \<Rightarrow> HksParamSet \<Rightarrow> HksParamSet res" where
  "BuildParamSet alloc ps =
     (let sz = unat (paramSetSize ps); off = SIZEOF_PARAM_SET + SIZEOF_PARAM * paramsCnt ps in
      if sz > HKS_DEFAULT_PARAM_SET_SIZE then
        (if \<not> HksMalloc alloc sz then Inl HKS_ERROR_MALLOC_FAIL
         else if off > sz then Inl HKS_ERROR_INSUFFICIENT_MEMORY
         else HksFreshParamSet (Some ps) True)
      else HksFreshParamSet (Some ps) True)"

definition HksBuildParamSet :: "allocator \<Rightarrow> HksParamSet ptr \<Rightarrow> HksParamSet res" where
  "HksBuildParamSet alloc paramSet =
     (case paramSet of NULL \<Rightarrow> Inl HKS_ERROR_NULL_POINTER
      | Some ps \<Rightarrow>
          let ret = HksCheckParamSet paramSet (paramSetSize ps) in
          if_not_succ_return ret (Inl ret) (BuildParamSet alloc ps))"

section \<open>Reading, matching, deleting\<close>

definition HksGetParam :: "HksParamSet ptr \<Rightarrow> u32 \<Rightarrow> HksParam res" where
  "HksGetParam paramSet tag =
     (case paramSet of NULL \<Rightarrow> Inl HKS_ERROR_INVALID_ARGUMENT
      | Some ps \<Rightarrow>
          if_not_succ_return (HksCheckParamSet paramSet (paramSetSize ps))
            (Inl HKS_ERROR_INVALID_ARGUMENT)
            (case List.find (\<lambda>p. tag = p_tag p) (params ps) of
               None \<Rightarrow> Inl HKS_ERROR_PARAM_NOT_EXIST
             | Some p \<Rightarrow>
                 if is_bytes_tag tag \<and> CheckBlob (Some (blobParam (p_val p))) \<noteq> HKS_SUCCESS
                 then Inl HKS_ERROR_INVALID_ARGUMENT else Inr p))"

definition HksGetParamSet :: "allocator \<Rightarrow> HksParamSet ptr \<Rightarrow> u32 \<Rightarrow> HksParamSet res" where
  "HksGetParamSet alloc inParamSet inParamSetSize =
     (let ret = HksCheckParamSet inParamSet inParamSetSize in
      if_not_succ_return ret (Inl ret)
        (case inParamSet of NULL \<Rightarrow> Inl HKS_ERROR_NULL_POINTER
         | Some ps \<Rightarrow>
             if \<not> HksMalloc alloc (unat (paramSetSize ps)) then Inl HKS_ERROR_MALLOC_FAIL
             else FreshParamSet ps False))"

definition HksMemCmp :: "bytes \<Rightarrow> bytes \<Rightarrow> nat \<Rightarrow> bool" where
  "HksMemCmp p1 p2 n \<longleftrightarrow> take n p1 \<noteq> take n p2"

definition HksCheckParamMatch :: "HksParam ptr \<Rightarrow> HksParam ptr \<Rightarrow> rc" where
  "HksCheckParamMatch baseParam param =
     (case (baseParam, param) of
        (Some bp, Some p) \<Rightarrow>
          if p_tag bp \<noteq> p_tag p then HKS_ERROR_INVALID_ARGUMENT
          else
            (let ty = GetTagType (p_tag bp) in
             if ty = HKS_TAG_TYPE_INT \<or> ty = HKS_TAG_TYPE_UINT then
               (if uint32Param (p_val bp) = uint32Param (p_val p)
                then HKS_SUCCESS else HKS_ERROR_INVALID_ARGUMENT)
             else if ty = HKS_TAG_TYPE_ULONG then
               (if uint64Param (p_val bp) = uint64Param (p_val p)
                then HKS_SUCCESS else HKS_ERROR_INVALID_ARGUMENT)
             else if ty = HKS_TAG_TYPE_BOOL then
               (if boolParam (p_val bp) = boolParam (p_val p)
                then HKS_SUCCESS else HKS_ERROR_INVALID_ARGUMENT)
             else if ty = HKS_TAG_TYPE_BYTES then
               (let b1 = blobParam (p_val bp); b2 = blobParam (p_val p) in
                case (blob_data b1, blob_data b2) of
                  (Some d1, Some d2) \<Rightarrow>
                    if blob_size b1 \<noteq> blob_size b2 then HKS_ERROR_INVALID_ARGUMENT
                    else if HksMemCmp d1 d2 (unat (blob_size b1)) then HKS_ERROR_INVALID_ARGUMENT
                    else HKS_SUCCESS
                | _ \<Rightarrow> HKS_ERROR_INVALID_ARGUMENT)
             else HKS_ERROR_INVALID_ARGUMENT)
      | _ \<Rightarrow> HKS_ERROR_NULL_POINTER)"

definition HksCheckIsTagAlreadyExist :: "HksParam list ptr \<Rightarrow> HksParamSet ptr \<Rightarrow> rc" where
  "HksCheckIsTagAlreadyExist newParams targetParamSet =
     (case (newParams, targetParamSet) of
        (Some qs, Some ps) \<Rightarrow>
          let ret = HksCheckParamSet targetParamSet (paramSetSize ps) in
          if_not_succ_return ret ret
            (if list_ex (\<lambda>p. list_ex (\<lambda>q. p_tag q = p_tag p) qs) (params ps)
             then HKS_ERROR_INVALID_ARGUMENT else HKS_SUCCESS)
      | _ \<Rightarrow> HKS_ERROR_NULL_POINTER)"

text \<open>The copying loop of \<open>HksDeleteTagsFromParamSet\<close>: one \<open>HksAddParams\<close> per kept parameter.\<close>

fun copy_kept_loop :: "u32 list \<Rightarrow> HksParamSet \<Rightarrow> HksParam list \<Rightarrow> HksParamSet res" where
  "copy_kept_loop tags new [] = Inr new"
| "copy_kept_loop tags new (p # ps) =
     (if p_tag p \<in> set tags then copy_kept_loop tags new ps
      else (case HksAddParams (Some new) (Some [p]) of
              (ret, Some new') \<Rightarrow>
                if_not_succ_return ret (Inl ret) (copy_kept_loop tags new' ps)
            | (ret, NULL) \<Rightarrow> Inl ret))"

definition HksDeleteTagsFromParamSet ::
    "allocator \<Rightarrow> u32 list ptr \<Rightarrow> HksParamSet ptr \<Rightarrow> HksParamSet res" where
  "HksDeleteTagsFromParamSet alloc tag paramSet =
     (case (tag, paramSet) of
        (Some tags, Some _) \<Rightarrow>
          try_res (HksFreshParamSet paramSet False) (\<lambda>ps.
          try_res (HksInitParamSet alloc) (\<lambda>new0.
          try_res (copy_kept_loop tags new0 (params ps)) (\<lambda>new1.
          HksBuildParamSet alloc (Some new1))))
      | _ \<Rightarrow> Inl HKS_ERROR_NULL_POINTER)"

end
