(* ===== verification/Huks_Param_Laws.thy ===== *)
theory Huks_Param_Laws
  imports Huks_Param
begin

text \<open>
  Facts about parameter sets. A set is built by \<open>HksInitParamSet\<close>, \<open>HksAddParams\<close> and
  \<open>HksBuildParamSet\<close>; the abstract content of a built set is its list of parameters, each blob
  holding exactly the bytes its size states, and its buffer is the blobs laid out one after another
  (\<open>flat\<close>). The locale \<open>param_source\<close> is the interface the checks rely on: looking a tag up.
\<close>

section \<open>Abstract content\<close>

definition plen :: "HksParam \<Rightarrow> nat" where
  "plen p = (if is_bytes_tag (p_tag p) then unat (blob_size (blobParam (p_val p))) else 0)"

definition payload :: "HksParam \<Rightarrow> bytes" where
  "payload p =
     (if is_bytes_tag (p_tag p)
      then (case blob_data (blobParam (p_val p)) of NULL \<Rightarrow> [] | Some bs \<Rightarrow> take (plen p) bs) else [])"

text \<open>The pointer of a blob parameter is not \<open>NULL\<close> and addresses as many bytes as stated.\<close>

definition wf_param :: "HksParam \<Rightarrow> bool" where
  "wf_param p \<longleftrightarrow> (is_bytes_tag (p_tag p) \<longrightarrow>
     (\<exists>bs. blob_data (blobParam (p_val p)) = Some bs \<and> plen p \<le> length bs))"

definition norm_param :: "HksParam \<Rightarrow> HksParam" where
  "norm_param p =
     (if is_bytes_tag (p_tag p)
      then p\<lparr>p_val := VBlob \<lparr>blob_size = blob_size (blobParam (p_val p)), blob_data = Some (payload p)\<rparr>\<rparr>
      else p)"

definition space :: "HksParam list \<Rightarrow> nat" where
  "space qs = SIZEOF_PARAM_SET + SIZEOF_PARAM * length qs + sum_list (map plen qs)"

definition flat :: "HksParamSet \<Rightarrow> bool" where
  "flat ps \<longleftrightarrow> unat (paramSetSize ps) = space (params ps)
     \<and> ps_tail ps = concat (map payload (params ps))
     \<and> list_all wf_param (params ps) \<and> map norm_param (params ps) = params ps"

lemma IsAdditionOverflow_iff: "IsAdditionOverflow a b \<longleftrightarrow> 2 ^ 32 \<le> unat a + unat b"
proof -
  have "a \<le> 0xFFFFFFFF"
    by (simp add: word_le_nat_alt)
  then have "unat (0xFFFFFFFF - a) = 0xFFFFFFFF - unat a"
    by (simp add: unat_sub)
  then show ?thesis
    using u32_bound [of a] by (simp add: IsAdditionOverflow_def word_less_nat_alt del: u32_bound) linarith
qed

lemma unat_add_no_overflow: "\<not> IsAdditionOverflow a b \<Longrightarrow> unat (a + b) = unat a + unat b"
  by (simp add: IsAdditionOverflow_iff unat_word_ariths)

lemma CheckBlob_0 [rc_simps]:
  "CheckBlob b = 0 \<longleftrightarrow> (\<exists>x d. b = Some x \<and> blob_data x = Some d \<and> blob_size x \<noteq> 0)"
  by (auto simp: CheckBlob_def split: option.splits)

lemma p_tag_norm [simp]: "p_tag (norm_param p) = p_tag p"
  by (simp add: norm_param_def)

lemma plen_norm [simp]: "plen (norm_param p) = plen p"
  by (simp add: norm_param_def plen_def)

lemma length_payload: "wf_param p \<Longrightarrow> length (payload p) = plen p"
  by (auto simp: payload_def wf_param_def plen_def)

lemma payload_norm [simp]: "payload (norm_param p) = payload p"
  by (auto simp: payload_def norm_param_def plen_def min_def split: option.splits)

lemma norm_norm [simp]: "norm_param (norm_param p) = norm_param p"
  by (cases p) (simp add: norm_param_def payload_def plen_def split: option.splits)

lemma wf_norm: "wf_param p \<Longrightarrow> wf_param (norm_param p)"
  by (auto simp: wf_param_def norm_param_def length_payload plen_def payload_def)

section \<open>The size check\<close>

lemma HksCheckParamSet_0 [rc_simps]:
  "HksCheckParamSet (Some ps) sz = 0 \<longleftrightarrow>
     8 \<le> unat sz \<and> unat sz \<le> 0x400000 \<and> paramSetSize ps = sz
     \<and> 8 + 24 * paramsCnt ps \<le> unat sz"
proof -
  have "paramsCnt ps \<le> (unat sz - 8) div 24 \<longleftrightarrow> 8 + 24 * paramsCnt ps \<le> unat sz" if "8 \<le> unat sz"
    using that by (auto simp: less_eq_div_iff_mult_less_eq)
  then show ?thesis
    by (auto simp: HksCheckParamSet_def word_less_nat_alt word_le_nat_alt not_less not_le)
qed

lemma HksCheckParamSet_cases:
  "HksCheckParamSet (Some ps) sz = 0 \<or> HksCheckParamSet (Some ps) sz = HKS_ERROR_INVALID_ARGUMENT"
  by (simp add: HksCheckParamSet_def)

lemma HksCheckParamSetTag_0 [rc_simps]:
  "HksCheckParamSetTag (Some ps) = 0 \<longleftrightarrow>
     list_all (\<lambda>p. IsValidTag (p_tag p)) (params ps) \<and> distinct (map p_tag (params ps))"
proof -
  have "check_tags_loop qs = 0 \<longleftrightarrow>
     list_all (\<lambda>p. IsValidTag (p_tag p)) qs \<and> distinct (map p_tag qs)" for qs
    by (induction qs) (auto simp: list_ex_iff)
  then show ?thesis by (simp add: HksCheckParamSetTag_def)
qed

section \<open>Looking a tag up\<close>

lemma HksGetParam_Some:
  "HksGetParam (Some ps) t =
     (if HksCheckParamSet (Some ps) (paramSetSize ps) \<noteq> 0 then Inl HKS_ERROR_INVALID_ARGUMENT
      else (case List.find (\<lambda>p. t = p_tag p) (params ps) of
               None \<Rightarrow> Inl HKS_ERROR_PARAM_NOT_EXIST
             | Some p \<Rightarrow>
                 if is_bytes_tag t \<and> CheckBlob (Some (blobParam (p_val p))) \<noteq> 0
                 then Inl HKS_ERROR_INVALID_ARGUMENT else Inr p))"
  by (simp add: HksGetParam_def if_not_succ_return_def)

lemma HksGetParam_proper [simp]: "proper (HksGetParam ps t)"
proof (cases ps)
  case None
  then show ?thesis by (simp add: HksGetParam_def)
next
  case (Some a)
  then show ?thesis by (simp add: HksGetParam_Some split: option.split)
qed

lemma HksGetParam_not_Inl_0 [simp]: "HksGetParam ps t \<noteq> Inl 0"
  by (rule proper_not_Inl_0) simp

lemma HksGetParam_Inr_iff:
  "HksGetParam (Some ps) t = Inr p \<longleftrightarrow>
     HksCheckParamSet (Some ps) (paramSetSize ps) = 0
     \<and> List.find (\<lambda>q. t = p_tag q) (params ps) = Some p
     \<and> (is_bytes_tag t \<longrightarrow> CheckBlob (Some (blobParam (p_val p))) = 0)"
  by (simp add: HksGetParam_Some split: option.split) safe

lemma find_tag_Some: "List.find (\<lambda>q. t = p_tag q) qs = Some p \<Longrightarrow> p \<in> set qs \<and> p_tag p = t"
  by (induction qs) (auto split: if_splits)

lemma find_tag_None: "List.find (\<lambda>q. t = p_tag q) qs = None \<longleftrightarrow> t \<notin> p_tag ` set qs"
  by (auto simp: find_None_iff)

lemma find_tag_distinct:
  "distinct (map p_tag qs) \<Longrightarrow> p \<in> set qs \<Longrightarrow> List.find (\<lambda>q. p_tag p = p_tag q) qs = Some p"
proof (induction qs)
  case Nil
  then show ?case by simp
next
  case (Cons q qs)
  show ?case
  proof (cases "p = q")
    case True
    then show ?thesis by simp
  next
    case False
    with Cons.prems have mem: "p \<in> set qs" by simp
    then have "p_tag p \<in> p_tag ` set qs" by (rule imageI)
    with Cons.prems(1) have "p_tag p \<noteq> p_tag q" by (metis distinct.simps(2) list.map(2) set_map)
    with mem Cons show ?thesis by simp
  qed
qed

text \<open>
  The interface of a parameter source as the checks use it: what a successful lookup returns, and
  which tags are reported missing. The consequences a client needs are proved once here.
\<close>

locale param_source =
  fixes getp :: "'s \<Rightarrow> u32 \<Rightarrow> HksParam res"
    and content :: "'s \<Rightarrow> HksParam list"
    and ok :: "'s \<Rightarrow> bool"
  assumes found: "getp s t = Inr p \<Longrightarrow> ok s \<and> p \<in> set (content s) \<and> p_tag p = t
      \<and> (is_bytes_tag t \<longrightarrow> CheckBlob (Some (blobParam (p_val p))) = 0)"
    and missing: "getp s t = Inl HKS_ERROR_PARAM_NOT_EXIST \<longleftrightarrow> ok s \<and> t \<notin> p_tag ` set (content s)"
    and unique: "ok s \<Longrightarrow> distinct (map p_tag (content s)) \<Longrightarrow> p \<in> set (content s)
      \<Longrightarrow> (is_bytes_tag (p_tag p) \<longrightarrow> CheckBlob (Some (blobParam (p_val p))) = 0)
      \<Longrightarrow> getp s (p_tag p) = Inr p"
begin

lemma found_tag: "getp s t = Inr p \<Longrightarrow> p_tag p = t"
  using found by blast

lemma found_ok: "getp s t = Inr p \<Longrightarrow> ok s"
  using found by blast

lemma found_bytes:
  "getp s t = Inr p \<Longrightarrow> is_bytes_tag t \<Longrightarrow>
     \<exists>d. blob_data (blobParam (p_val p)) = Some d \<and> blob_size (blobParam (p_val p)) \<noteq> 0"
  using found CheckBlob_0 by fastforce

lemma lookup_iff_mem:
  assumes "ok s" "distinct (map p_tag (content s))" "\<not> is_bytes_tag t"
  shows "getp s t = Inr p \<longleftrightarrow> p \<in> set (content s) \<and> p_tag p = t"
  using assms found unique by blast

end

lemma HksGetParam_missing:
  "HksGetParam (Some ps) t = Inl HKS_ERROR_PARAM_NOT_EXIST \<longleftrightarrow>
     HksCheckParamSet (Some ps) (paramSetSize ps) = 0 \<and> t \<notin> p_tag ` set (params ps)"
  by (simp add: HksGetParam_Some find_tag_None [symmetric] split: option.split)

interpretation ps: param_source "\<lambda>ps. HksGetParam (Some ps)" params
    "\<lambda>ps. HksCheckParamSet (Some ps) (paramSetSize ps) = 0"
proof unfold_locales
  fix s t p
  assume "HksGetParam (Some s) t = Inr p"
  then show "HksCheckParamSet (Some s) (paramSetSize s) = 0 \<and> p \<in> set (params s) \<and> p_tag p = t
      \<and> (is_bytes_tag t \<longrightarrow> CheckBlob (Some (blobParam (p_val p))) = 0)"
    using find_tag_Some by (auto simp: HksGetParam_Inr_iff)
qed (auto simp: HksGetParam_missing HksGetParam_Inr_iff find_tag_distinct)

section \<open>Adding parameters\<close>

lemma CheckBeforeAddParams_0 [rc_simps]:
  "CheckBeforeAddParams (Some ps) (Some qs) = 0 \<longleftrightarrow>
     unat (paramSetSize ps) \<le> 0x400000 \<and> length qs \<le> 42 \<and> paramsCnt ps + length qs \<le> 42
     \<and> list_all (\<lambda>q. is_bytes_tag (p_tag q) \<longrightarrow> blob_data (blobParam (p_val q)) \<noteq> NULL) qs"
  by (auto simp: CheckBeforeAddParams_def word_less_nat_alt not_less list_ex_iff list_all_iff)

lemma add_params_loop_params:
  "\<exists>k \<le> length qs. params (snd (add_params_loop ps qs)) = params ps @ take k qs
     \<and> (fst (add_params_loop ps qs) = 0 \<longrightarrow> k = length qs)"
proof (induction qs arbitrary: ps)
  case Nil
  then show ?case by simp
next
  case (Cons q qs)
  define next_ps where "next_ps sz = ps\<lparr>paramSetSize := sz, params := params ps @ [q]\<rparr>" for sz
  have step: "\<exists>k \<le> length (q # qs).
      params (snd (add_params_loop (next_ps sz) qs)) = params ps @ take k (q # qs)
      \<and> (fst (add_params_loop (next_ps sz) qs) = 0 \<longrightarrow> k = length (q # qs))" for sz
  proof -
    obtain k where "k \<le> length qs"
      "params (snd (add_params_loop (next_ps sz) qs)) = params (next_ps sz) @ take k qs"
      "fst (add_params_loop (next_ps sz) qs) = 0 \<longrightarrow> k = length qs"
      using Cons.IH by blast
    then show ?thesis
      by (intro exI [of _ "Suc k"]) (simp add: next_ps_def)
  qed
  have stop: "\<exists>k \<le> length (q # qs). params ps = params ps @ take k (q # qs)
      \<and> ((HKS_ERROR_INVALID_ARGUMENT :: rc) = 0 \<longrightarrow> k = length (q # qs))"
    by (rule exI [of _ 0]) simp
  show ?case
    using step stop unfolding next_ps_def by (simp add: Let_def del: length_Cons)
qed

lemma add_params_loop_frame:
  "ps_tail (snd (add_params_loop ps qs)) = ps_tail ps"
  by (induction qs arbitrary: ps) (simp_all add: Let_def)

text \<open>Below the wrap-around, the recorded size grows by exactly the space of the parameters.\<close>

lemma add_params_loop_space:
  assumes "unat (paramSetSize ps) + 24 * length qs + sum_list (map plen qs) < 2 ^ 32"
  shows "add_params_loop ps qs =
    (0, ps\<lparr>paramSetSize := paramSetSize ps + word_of_nat (24 * length qs + sum_list (map plen qs)),
           params := params ps @ qs\<rparr>)"
  using assms
proof (induction qs arbitrary: ps)
  case Nil
  then show ?case by simp
next
  case (Cons q qs)
  define sz where "sz = paramSetSize ps + 24"
  have sz: "unat sz = unat (paramSetSize ps) + 24"
    using Cons.prems by (simp add: sz_def unat_word_ariths)
  have nowrap: "\<not> IsAdditionOverflow sz (blob_size (blobParam (p_val q)))" if "is_bytes_tag (p_tag q)"
    using Cons.prems that by (simp add: IsAdditionOverflow_iff sz plen_def)
  define sz' where "sz' = (if is_bytes_tag (p_tag q) then sz + blob_size (blobParam (p_val q)) else sz)"
  have sz': "sz' = paramSetSize ps + word_of_nat (24 + plen q)"
    by (simp add: sz'_def sz_def plen_def)
  have "unat sz' = unat (paramSetSize ps) + 24 + plen q"
    using nowrap by (auto simp: sz'_def plen_def sz unat_add_no_overflow)
  then have "add_params_loop (ps\<lparr>paramSetSize := sz', params := params ps @ [q]\<rparr>) qs =
      (0, ps\<lparr>paramSetSize := sz' + word_of_nat (24 * length qs + sum_list (map plen qs)),
             params := params ps @ q # qs\<rparr>)"
    using Cons.prems by (subst Cons.IH) simp_all
  moreover have "add_params_loop ps (q # qs)
      = add_params_loop (ps\<lparr>paramSetSize := sz', params := params ps @ [q]\<rparr>) qs"
    using nowrap by (simp add: sz'_def sz_def [symmetric] Let_def)
  ultimately show ?case
    by (simp add: sz' ac_simps)
qed

section \<open>Laying the blobs out\<close>

text \<open>
  Copying succeeds exactly when every blob has a pointer and the blobs fit behind the parameters;
  then the new parameters are the normalised ones and the bytes written are the blobs in order. The
  offset never wraps, because each addition is checked.
\<close>

lemma fresh_loop_copy_Inr:
  "fresh_loop True sz base tail off qs = Inr (qs', out, off') \<Longrightarrow>
     qs' = map norm_param qs \<and> out = concat (map payload qs)
     \<and> unat off' = unat off + sum_list (map plen qs)
     \<and> list_all (\<lambda>q. is_bytes_tag (p_tag q) \<longrightarrow> blob_data (blobParam (p_val q)) \<noteq> NULL) qs"
proof (induction qs arbitrary: off qs' out)
  case Nil
  then show ?case by simp
next
  case (Cons q qs)
  show ?case
  proof (cases "is_bytes_tag (p_tag q)")
    case False
    with Cons.prems obtain qs1 where "fresh_loop True sz base tail off qs = Inr (qs1, out, off')"
      and "qs' = q # qs1"
      by (auto simp: try_res_Inr split: if_splits)
    with Cons.IH [of off qs1 out] False show ?thesis
      by (simp add: norm_param_def payload_def plen_def)
  next
    case True
    define b where "b = blobParam (p_val q)"
    from Cons.prems True obtain bs qs1 out1 where
      nowrap: "\<not> IsAdditionOverflow off (blob_size b)"
      and cp: "memcpy_s (unat (sz - off)) (blob_data b) (unat (blob_size b)) = Some bs"
      and rest: "fresh_loop True sz base tail (off + blob_size b) qs = Inr (qs1, out1, off')"
      and res: "qs' = q\<lparr>p_val := VBlob \<lparr>blob_size = blob_size b, blob_data = Some bs\<rparr>\<rparr> # qs1"
        "out = bs @ out1"
      by (auto simp: Let_def try_res_Inr b_def split: if_splits option.splits)
    from cp obtain d where d: "blob_data b = Some d" "bs = take (unat (blob_size b)) d"
      by (auto simp: memcpy_s_Some_iff)
    have "bs = payload q"
      using True d by (simp add: payload_def plen_def b_def)
    with Cons.IH [OF rest] res nowrap d True show ?thesis
      by (simp add: norm_param_def plen_def b_def unat_add_no_overflow)
  qed
qed

lemma fresh_loop_copy_ok:
  assumes "list_all (\<lambda>q. is_bytes_tag (p_tag q) \<longrightarrow> blob_data (blobParam (p_val q)) \<noteq> NULL) qs"
    and "unat off + sum_list (map plen qs) \<le> unat sz"
  shows "\<exists>qs' out off'. fresh_loop True sz base tail off qs = Inr (qs', out, off')"
  using assms
proof (induction qs arbitrary: off)
  case Nil
  then show ?case by simp
next
  case (Cons q qs)
  define b where "b = blobParam (p_val q)"
  have le: "off \<le> sz"
    using Cons.prems(2) by (simp add: word_le_nat_alt)
  show ?case
  proof (cases "is_bytes_tag (p_tag q)")
    case False
    then obtain qs' out off' where "fresh_loop True sz base tail off qs = Inr (qs', out, off')"
      using Cons.IH [of off] Cons.prems by (auto simp: plen_def)
    with False le show ?thesis by (simp add: not_less)
  next
    case True
    obtain d where d: "blob_data b = Some d"
      using Cons.prems(1) True by (auto simp: b_def)
    have n: "plen q = unat (blob_size b)"
      using True by (simp add: plen_def b_def)
    have sum: "unat off + unat (blob_size b) + sum_list (map plen qs) \<le> unat sz"
      using Cons.prems(2) n by simp
    then have nowrap: "\<not> IsAdditionOverflow off (blob_size b)"
      using u32_bound [of sz] by (simp add: IsAdditionOverflow_iff del: u32_bound)
    have "unat (sz - off) = unat sz - unat off"
      using le by (simp add: unat_sub)
    then have cp: "memcpy_s (unat (sz - off)) (blob_data b) (unat (blob_size b))
        = Some (take (unat (blob_size b)) d)"
      using sum d by (simp add: memcpy_s_def)
    obtain qs' out off' where
      "fresh_loop True sz base tail (off + blob_size b) qs = Inr (qs', out, off')"
      using Cons.IH [of "off + blob_size b"] Cons.prems(1) sum
      by (auto simp: unat_add_no_overflow [OF nowrap])
    with True le nowrap cp show ?thesis by (simp add: Let_def b_def not_less)
  qed
qed

text \<open>On a buffer whose tail already is the blobs in order, refreshing the pointers changes nothing.\<close>

lemma fresh_loop_point_flat:
  assumes "list_all wf_param qs" "map norm_param qs = qs"
    and "unat off = base + length pre" "unat off + sum_list (map plen qs) \<le> unat sz"
  shows "\<exists>off'. fresh_loop False sz base (pre @ concat (map payload qs) @ post) off qs
      = Inr (qs, concat (map payload qs), off') \<and> unat off' = unat off + sum_list (map plen qs)"
  using assms
proof (induction qs arbitrary: off pre)
  case Nil
  then show ?case by simp
next
  case (Cons q qs)
  define b where "b = blobParam (p_val q)"
  have le: "off \<le> sz"
    using Cons.prems(4) by (simp add: word_le_nat_alt)
  show ?case
  proof (cases "is_bytes_tag (p_tag q)")
    case False
    with Cons.IH [of off pre] Cons.prems le show ?thesis
      by (auto simp: plen_def payload_def not_less)
  next
    case True
    have n: "plen q = unat (blob_size b)"
      using True by (simp add: plen_def b_def)
    have len: "length (payload q) = plen q"
      using Cons.prems(1) by (simp add: length_payload)
    have nowrap: "\<not> IsAdditionOverflow off (blob_size b)"
      using Cons.prems(4) u32_bound [of sz] n by (simp add: IsAdditionOverflow_iff del: u32_bound)
    have q: "q\<lparr>p_val := VBlob \<lparr>blob_size = blob_size b, blob_data = Some (payload q)\<rparr>\<rparr> = q"
      using Cons.prems(2) True by (simp add: norm_param_def b_def)
    have slice: "take (unat (blob_size b))
        (drop (unat off - base) (pre @ payload q @ concat (map payload qs) @ post)) = payload q"
      using Cons.prems(3) len n by simp
    from Cons.IH [of "off + blob_size b" "pre @ payload q"] obtain off' where
      "fresh_loop False sz base (pre @ payload q @ concat (map payload qs) @ post) (off + blob_size b) qs
         = Inr (qs, concat (map payload qs), off')"
      "unat off' = unat off + unat (blob_size b) + sum_list (map plen qs)"
      using Cons.prems len n unat_add_no_overflow [OF nowrap] by auto
    with True le nowrap slice q n show ?thesis
      by (auto simp: Let_def b_def [symmetric] not_less)
  qed
qed


section \<open>Building a set\<close>

lemma flat_space: "flat ps \<Longrightarrow> unat (paramSetSize ps) = space (params ps)"
  by (simp add: flat_def)

lemma space_norm [simp]: "space (map norm_param qs) = space qs"
  by (simp add: space_def comp_def)

lemma unat_header: "HksCheckParamSet (Some ps) sz = 0 \<Longrightarrow>
    unat (word_of_nat (8 + 24 * paramsCnt ps) :: u32) = 8 + 24 * paramsCnt ps"
  by (rule unat_u32_of_nat) (simp add: HksCheckParamSet_0)

text \<open>
  A build succeeds only if the recorded size is exactly the space its parameters take, as a natural
  number; a size that wrapped around while parameters were added is always refused.
\<close>

lemma HksFreshParamSet_copy_Inr:
  assumes "HksFreshParamSet (Some ps) True = Inr ps'"
  shows "unat (paramSetSize ps) = space (params ps)
    \<and> ps' = ps\<lparr>params := map norm_param (params ps), ps_tail := concat (map payload (params ps))\<rparr>"
proof -
  from assms have chk: "HksCheckParamSet (Some ps) (paramSetSize ps) = 0"
    and fr: "FreshParamSet ps True = Inr ps'"
    by (auto simp: HksFreshParamSet_def Let_def if_not_succ_return_Inr)
  from fr obtain qs out off where
    lp: "fresh_loop True (paramSetSize ps) (8 + 24 * paramsCnt ps) (ps_tail ps)
      (word_of_nat (8 + 24 * paramsCnt ps)) (params ps) = Inr (qs, out, off)"
    and sz: "paramSetSize ps = off" and ps': "ps' = ps\<lparr>params := qs, ps_tail := out\<rparr>"
    by (auto simp: FreshParamSet_def Let_def try_res_Inr split: if_splits)
  from fresh_loop_copy_Inr [OF lp] unat_header [OF chk] sz ps' show ?thesis
    by (simp add: space_def paramsCnt_def)
qed

lemma HksBuildParamSet_Inr:
  assumes "HksBuildParamSet alloc (Some ps) = Inr ps'"
  shows "unat (paramSetSize ps) = space (params ps)
    \<and> HksCheckParamSet (Some ps) (paramSetSize ps) = 0
    \<and> ps' = ps\<lparr>params := map norm_param (params ps), ps_tail := concat (map payload (params ps))\<rparr>"
proof -
  from assms have "HksCheckParamSet (Some ps) (paramSetSize ps) = 0"
    and "HksFreshParamSet (Some ps) True = Inr ps'"
    by (auto simp: HksBuildParamSet_def BuildParamSet_def Let_def if_not_succ_return_Inr split: if_splits)
  with HksFreshParamSet_copy_Inr show ?thesis by blast
qed

lemma HksBuildParamSet_ok:
  assumes sz: "unat (paramSetSize ps) = space (params ps)" and lim: "space (params ps) \<le> 0x400000"
    and ptr: "list_all (\<lambda>q. is_bytes_tag (p_tag q) \<longrightarrow> blob_data (blobParam (p_val q)) \<noteq> NULL) (params ps)"
    and alloc: "1024 < space (params ps) \<Longrightarrow> alloc (space (params ps))"
  shows "HksBuildParamSet alloc (Some ps) =
    Inr (ps\<lparr>params := map norm_param (params ps), ps_tail := concat (map payload (params ps))\<rparr>)"
proof -
  have chk: "HksCheckParamSet (Some ps) (paramSetSize ps) = 0"
    using sz lim by (simp add: HksCheckParamSet_0 space_def paramsCnt_def)
  have hd: "unat (word_of_nat (8 + 24 * paramsCnt ps) :: u32) = 8 + 24 * paramsCnt ps"
    using unat_header [OF chk] .
  obtain qs out off where
    lp: "fresh_loop True (paramSetSize ps) (8 + 24 * paramsCnt ps) (ps_tail ps)
      (word_of_nat (8 + 24 * paramsCnt ps)) (params ps) = Inr (qs, out, off)"
    using fresh_loop_copy_ok [OF ptr] hd sz by (force simp: space_def paramsCnt_def)
  from fresh_loop_copy_Inr [OF lp] hd sz have
    "off = paramSetSize ps" "qs = map norm_param (params ps)" "out = concat (map payload (params ps))"
    by (simp_all add: space_def paramsCnt_def word_unat_eq_iff)
  with lp chk have fr: "HksFreshParamSet (Some ps) True =
    Inr (ps\<lparr>params := map norm_param (params ps), ps_tail := concat (map payload (params ps))\<rparr>)"
    by (simp add: HksFreshParamSet_def FreshParamSet_def Let_def)
  have "8 + 24 * paramsCnt ps \<le> unat (paramSetSize ps)"
    using sz by (simp add: space_def paramsCnt_def)
  with fr chk sz lim alloc show ?thesis
    by (simp add: HksBuildParamSet_def BuildParamSet_def Let_def HksMalloc_def)
qed

lemma built_flat:
  assumes "list_all wf_param (params ps)" "unat (paramSetSize ps) = space (params ps)"
  shows "flat (ps\<lparr>params := map norm_param (params ps), ps_tail := concat (map payload (params ps))\<rparr>)"
  using assms by (auto simp: flat_def comp_def list_all_iff wf_norm)

section \<open>Copying a built set\<close>

lemma FreshParamSet_flat:
  assumes "flat ps" "HksCheckParamSet (Some ps) (paramSetSize ps) = 0"
  shows "FreshParamSet ps False = Inr ps"
proof -
  define base where "base = 8 + 24 * paramsCnt ps"
  have off: "unat (word_of_nat base :: u32) = base"
    using unat_header [OF assms(2)] by (simp add: base_def)
  have wf: "list_all wf_param (params ps)" and nm: "map norm_param (params ps) = params ps"
    and tl: "ps_tail ps = concat (map payload (params ps))"
    and sz: "unat (paramSetSize ps) = base + sum_list (map plen (params ps))"
    using assms(1) by (simp_all add: flat_def space_def base_def paramsCnt_def)
  obtain off' where lp: "fresh_loop False (paramSetSize ps) base (ps_tail ps) (word_of_nat base) (params ps)
      = Inr (params ps, concat (map payload (params ps)), off')"
    and off': "unat off' = base + sum_list (map plen (params ps))"
    using fresh_loop_point_flat [OF wf nm, of "word_of_nat base" base "[]" "paramSetSize ps" "[]"] off sz
    by (auto simp: tl)
  have "off' = paramSetSize ps"
    using off' sz by (simp add: word_unat_eq_iff)
  with lp show ?thesis
    by (simp add: FreshParamSet_def base_def Let_def)
qed

lemma HksGetParamSet_flat:
  assumes "flat ps" "HksCheckParamSet (Some ps) (paramSetSize ps) = 0" "alloc (unat (paramSetSize ps))"
  shows "HksGetParamSet alloc (Some ps) (paramSetSize ps) = Inr ps"
  using assms FreshParamSet_flat [OF assms(1,2)]
  by (simp add: HksGetParamSet_def Let_def HksMalloc_def if_not_succ_return_def HksCheckParamSet_0)

section \<open>Deleting tags\<close>

text \<open>One call of \<open>HksAddParams\<close> per parameter gives the same set as one call for all of them.\<close>

lemma HksAddParams_ok:
  assumes "paramsCnt ps + length qs \<le> 42" "unat (paramSetSize ps) \<le> 0x400000"
    and "unat (paramSetSize ps) + 24 * length qs + sum_list (map plen qs) < 2 ^ 32"
    and "list_all (\<lambda>q. is_bytes_tag (p_tag q) \<longrightarrow> blob_data (blobParam (p_val q)) \<noteq> NULL) qs"
  shows "HksAddParams (Some ps) (Some qs) =
    (0, Some (ps\<lparr>paramSetSize := paramSetSize ps + word_of_nat (24 * length qs + sum_list (map plen qs)),
                 params := params ps @ qs\<rparr>))"
proof -
  have "CheckBeforeAddParams (Some ps) (Some qs) = 0"
    using assms by (simp add: CheckBeforeAddParams_0)
  then show ?thesis
    using add_params_loop_space [OF assms(3)] by (simp add: HksAddParams_def)
qed

lemma copy_kept_loop_filter:
  assumes "unat (paramSetSize new) + 24 * length kept + sum_list (map plen kept) \<le> 0x400000"
    and "paramsCnt new + length kept \<le> 42"
    and "list_all (\<lambda>q. is_bytes_tag (p_tag q) \<longrightarrow> blob_data (blobParam (p_val q)) \<noteq> NULL) qs"
    and "kept = filter (\<lambda>q. p_tag q \<notin> set tags) qs"
  shows "copy_kept_loop tags new qs = Inr (new\<lparr>paramSetSize :=
        paramSetSize new + word_of_nat (24 * length kept + sum_list (map plen kept)),
      params := params new @ kept\<rparr>)"
  using assms
proof (induction qs arbitrary: new kept)
  case Nil
  then show ?case by simp
next
  case (Cons q qs)
  show ?case
  proof (cases "p_tag q \<in> set tags")
    case True
    with Cons show ?thesis by simp
  next
    case False
    define kept' where "kept' = filter (\<lambda>q. p_tag q \<notin> set tags) qs"
    have kept: "kept = q # kept'"
      using Cons.prems(4) False by (simp add: kept'_def)
    define new' where "new' = new\<lparr>paramSetSize := paramSetSize new + word_of_nat (24 + plen q),
        params := params new @ [q]\<rparr>"
    have le: "unat (paramSetSize new) + (24 + plen q) \<le> 0x400000"
      using Cons.prems(1) by (simp add: kept)
    then have sz: "unat (paramSetSize new') = unat (paramSetSize new) + (24 + plen q)"
      unfolding new'_def by (simp add: unat_u32_add_of_nat del: of_nat_add)
    have "HksAddParams (Some new) (Some [q]) = (0, Some new')"
      using Cons.prems(2,3) le HksAddParams_ok [of new "[q]"] by (simp add: kept new'_def)
    then have "copy_kept_loop tags new (q # qs) = copy_kept_loop tags new' qs"
      using False by simp
    also have "\<dots> = Inr (new'\<lparr>paramSetSize :=
        paramSetSize new' + word_of_nat (24 * length kept' + sum_list (map plen kept')),
        params := params new' @ kept'\<rparr>)"
      using Cons.prems kept sz by (intro Cons.IH) (simp_all add: kept'_def paramsCnt_def new'_def)
    also have "\<dots> = Inr (new\<lparr>paramSetSize :=
        paramSetSize new + word_of_nat (24 * length kept + sum_list (map plen kept)),
        params := params new @ kept\<rparr>)"
      by (simp add: new'_def kept ac_simps)
    finally show ?thesis .
  qed
qed

lemma sum_list_filter_le: "sum_list (map (f :: 'a \<Rightarrow> nat) (filter P xs)) \<le> sum_list (map f xs)"
  by (induction xs) auto

lemma wf_param_ptr: "list_all wf_param qs \<Longrightarrow>
    list_all (\<lambda>q. is_bytes_tag (p_tag q) \<longrightarrow> blob_data (blobParam (p_val q)) \<noteq> NULL) qs"
  by (auto simp: list_all_iff wf_param_def)

lemma HksDeleteTags_flat:
  assumes fl: "flat ps" and chk: "HksCheckParamSet (Some ps) (paramSetSize ps) = 0"
    and cnt: "length (filter (\<lambda>q. p_tag q \<notin> set tags) (params ps)) \<le> 42" and al: "\<And>n. alloc n"
  defines "kept \<equiv> filter (\<lambda>q. p_tag q \<notin> set tags) (params ps)"
  shows "\<exists>ps'. HksDeleteTagsFromParamSet alloc (Some tags) (Some ps) = Inr ps'
    \<and> flat ps' \<and> params ps' = kept"
proof -
  have wf: "list_all wf_param (params ps)" and nm: "map norm_param (params ps) = params ps"
    using fl by (simp_all add: flat_def)
  have wfk: "list_all wf_param kept" and nmk: "map norm_param kept = kept"
    using wf nm by (auto simp: kept_def list_all_iff intro!: map_idI) (metis map_eq_conv list.map_ident)
  have spk: "space kept \<le> space (params ps)"
    using sum_list_filter_le [of plen] by (simp add: space_def kept_def add_mono)
  have sp: "space (params ps) \<le> 0x400000"
    using chk flat_space [OF fl] by (simp add: HksCheckParamSet_0)
  define new1 where "new1 = \<lparr>paramSetSize = word_of_nat (space kept), params = kept, ps_tail = []\<rparr>"
  have loop: "copy_kept_loop tags \<lparr>paramSetSize = 8, params = [], ps_tail = []\<rparr> (params ps) = Inr new1"
    using spk sp cnt wf_param_ptr [OF wf]
    by (subst copy_kept_loop_filter [where kept = kept])
       (simp_all add: space_def new1_def paramsCnt_def kept_def [symmetric])
  have sz: "unat (paramSetSize new1) = space (params new1)"
    using spk sp by (simp add: new1_def unat_u32_of_nat)
  have "HksBuildParamSet alloc (Some new1) =
      Inr (new1\<lparr>params := map norm_param kept, ps_tail := concat (map payload kept)\<rparr>)"
    using HksBuildParamSet_ok [of new1 alloc] sz spk sp al wf_param_ptr [OF wfk] by (simp add: new1_def)
  moreover have "flat (new1\<lparr>params := map norm_param kept, ps_tail := concat (map payload kept)\<rparr>)"
    using built_flat [of new1] sz wfk by (simp add: new1_def)
  moreover have "HksFreshParamSet (Some ps) False = Inr ps"
    using FreshParamSet_flat [OF fl chk] chk by (simp add: HksFreshParamSet_def)
  moreover have "HksInitParamSet alloc = Inr \<lparr>paramSetSize = 8, params = [], ps_tail = []\<rparr>"
    using al by (simp add: HksInitParamSet_def HksMalloc_def)
  ultimately show ?thesis
    using loop nmk by (simp add: HksDeleteTagsFromParamSet_def)
qed


section \<open>Matching parameters\<close>

text \<open>A parameter whose value was written through the member its tag type names.\<close>

definition typed_param :: "HksParam \<Rightarrow> bool" where
  "typed_param p \<longleftrightarrow> GetTagType (p_tag p) = (case p_val p of
       VBool _ \<Rightarrow> HKS_TAG_TYPE_BOOL | VInt _ \<Rightarrow> HKS_TAG_TYPE_INT | VUint _ \<Rightarrow> HKS_TAG_TYPE_UINT
     | VUlong _ \<Rightarrow> HKS_TAG_TYPE_ULONG | VBlob _ \<Rightarrow> HKS_TAG_TYPE_BYTES)"

lemma blob_match_0:
  assumes "wf_param p" "wf_param q" "is_bytes_tag (p_tag p)" "p_tag q = p_tag p"
    and "p_val p = VBlob b" "p_val q = VBlob c"
  shows "HksCheckParamMatch (Some p) (Some q) = 0 \<longleftrightarrow> norm_param p = norm_param q"
proof -
  obtain d e where d: "blob_data b = Some d" "blob_data c = Some e"
    using assms by (auto simp: wf_param_def)
  have ty: "GetTagType (p_tag p) = HKS_TAG_TYPE_BYTES"
    using assms(3) by (simp add: is_bytes_tag_def)
  show ?thesis
    using assms d ty by (cases p; cases q) (auto simp: HksCheckParamMatch_def norm_param_def payload_def
        plen_def HksMemCmp_def Let_def)
qed

lemma typed_cases:
  assumes "typed_param p" "typed_param q" "p_tag p = p_tag q"
  shows "(\<exists>x y. p_val p = VBool x \<and> p_val q = VBool y) \<or> (\<exists>x y. p_val p = VInt x \<and> p_val q = VInt y)
    \<or> (\<exists>x y. p_val p = VUint x \<and> p_val q = VUint y) \<or> (\<exists>x y. p_val p = VUlong x \<and> p_val q = VUlong y)
    \<or> (\<exists>x y. p_val p = VBlob x \<and> p_val q = VBlob y)"
  using assms by (cases "p_val p"; cases "p_val q") (simp_all add: typed_param_def)

lemma typed_match_0:
  assumes "typed_param p" "typed_param q" "p_tag p = p_tag q" "\<not> is_bytes_tag (p_tag p)"
  shows "HksCheckParamMatch (Some p) (Some q) = 0 \<longleftrightarrow> p_val p = p_val q"
proof -
  have q: "GetTagType (p_tag p) = GetTagType (p_tag q)"
    using assms(3) by simp
  from typed_cases [OF assms(1-3)] show ?thesis
    using assms q
    by (elim disjE exE) (simp_all add: HksCheckParamMatch_def typed_param_def is_bytes_tag_def)
qed

section \<open>The life of a set\<close>

lemma param_set_life:
  assumes "list_all wf_param qs" "length qs \<le> 42" "space qs \<le> 0x400000" "\<forall>n. alloc n"
  shows "\<exists>ps0 ps1 ps. HksInitParamSet alloc = Inr ps0
    \<and> HksAddParams (Some ps0) (Some qs) = (HKS_SUCCESS, Some ps1)
    \<and> HksBuildParamSet alloc (Some ps1) = Inr ps
    \<and> flat ps \<and> params ps = map norm_param qs
    \<and> HksGetParamSet alloc (Some ps) (paramSetSize ps) = Inr ps"
proof -
  define ps0 where "ps0 = \<lparr>paramSetSize = 8, params = [], ps_tail = []\<rparr>"
  define ps1 where "ps1 = \<lparr>paramSetSize = word_of_nat (space qs), params = qs, ps_tail = []\<rparr>"
  define ps where "ps = ps1\<lparr>params := map norm_param qs, ps_tail := concat (map payload qs)\<rparr>"
  have i: "HksInitParamSet alloc = Inr ps0"
    using assms(4) by (simp add: HksInitParamSet_def HksMalloc_def ps0_def)
  have a: "HksAddParams (Some ps0) (Some qs) = (HKS_SUCCESS, Some ps1)"
    using assms wf_param_ptr HksAddParams_ok [of ps0 qs]
    by (simp add: ps0_def ps1_def paramsCnt_def space_def)
  have sz: "unat (paramSetSize ps1) = space (params ps1)"
    using assms(3) by (simp add: ps1_def unat_u32_of_nat)
  have b: "HksBuildParamSet alloc (Some ps1) = Inr ps"
    using HksBuildParamSet_ok [OF sz] assms wf_param_ptr by (simp add: ps1_def ps_def)
  have f: "flat ps"
    using built_flat [OF _ sz] assms(1) by (simp add: ps1_def ps_def)
  have "HksCheckParamSet (Some ps) (paramSetSize ps) = 0"
    using sz assms(3) by (simp add: HksCheckParamSet_0 ps_def ps1_def paramsCnt_def space_def)
  then have "HksGetParamSet alloc (Some ps) (paramSetSize ps) = Inr ps"
    using HksGetParamSet_flat f assms(4) by blast
  with i a b f show ?thesis by (auto simp: ps_def)
qed

section \<open>Properties\<close>

text \<open>
  C12: The life of a request: initialising a set, adding at most 42 well-formed parameters and
  building it succeeds whenever the space fits the maximal size. The built set holds exactly
  the given parameters (each blob with exactly its bytes), its buffer is flat (the recorded size is
  the space used, the blobs follow the parameters in order), and reading the set back from that
  buffer with \<open>HksGetParamSet\<close> gives the same set.
\<close>

theorem param_set_roundtrip:
  assumes "list_all wf_param qs" "length qs \<le> 42" "space qs \<le> 0x400000" "\<forall>n. alloc n"
  shows "\<exists>ps0 ps1 ps. HksInitParamSet alloc = Inr ps0
    \<and> HksAddParams (Some ps0) (Some qs) = (HKS_SUCCESS, Some ps1)
    \<and> HksBuildParamSet alloc (Some ps1) = Inr ps
    \<and> flat ps \<and> params ps = map norm_param qs
    \<and> HksGetParamSet alloc (Some ps) (paramSetSize ps) = Inr ps"
  using assms by (rule param_set_life)

lemma param_set_roundtrip_witness:
  "\<exists>ps0 ps1 ps. HksInitParamSet (\<lambda>_. True) = Inr ps0
    \<and> HksAddParams (Some ps0) (Some [\<lparr>p_tag = HKS_TAG_ALGORITHM, p_val = VUint HKS_ALG_AES\<rparr>,
         \<lparr>p_tag = HKS_TAG_IV, p_val = VBlob \<lparr>blob_size = 2, blob_data = Some [1, 2, 3]\<rparr>\<rparr>])
       = (HKS_SUCCESS, Some ps1)
    \<and> HksBuildParamSet (\<lambda>_. True) (Some ps1) = Inr ps
    \<and> flat ps \<and> params ps = map norm_param [\<lparr>p_tag = HKS_TAG_ALGORITHM, p_val = VUint HKS_ALG_AES\<rparr>,
         \<lparr>p_tag = HKS_TAG_IV, p_val = VBlob \<lparr>blob_size = 2, blob_data = Some [1, 2, 3]\<rparr>\<rparr>]
    \<and> HksGetParamSet (\<lambda>_. True) (Some ps) (paramSetSize ps) = Inr ps"
  by (rule param_set_roundtrip)
     (simp_all add: wf_param_def is_bytes_tag_def GetTagType_def plen_def space_def)

text \<open>
  Building never trusts a wrapped size: although \<open>HksAddParams\<close> accumulates the size in 32
  bits and the increment for the parameter itself is unchecked, a set that builds has a recorded
  size that is exactly the natural number of bytes its parameters and blobs take, within the maximal
  size, and the parameters written are the given ones with their blobs copied.
\<close>

theorem build_size_exact:
  assumes "HksBuildParamSet alloc (Some ps) = Inr ps'"
  shows "unat (paramSetSize ps') = space (params ps) \<and> space (params ps) \<le> 0x400000
    \<and> params ps' = map norm_param (params ps)
    \<and> ps_tail ps' = concat (map payload (params ps))"
  using HksBuildParamSet_Inr [OF assms] by (auto simp: HksCheckParamSet_0)

lemma build_size_exact_witness:
  "unat (paramSetSize \<lparr>paramSetSize = 32, params = [\<lparr>p_tag = HKS_TAG_PURPOSE, p_val = VUint 1\<rparr>],
       ps_tail = []\<rparr>) = space [\<lparr>p_tag = HKS_TAG_PURPOSE, p_val = VUint 1\<rparr>]"
  using build_size_exact [of "\<lambda>_. True" "\<lparr>paramSetSize = 32,
      params = [\<lparr>p_tag = HKS_TAG_PURPOSE, p_val = VUint 1\<rparr>], ps_tail = []\<rparr>"
      "\<lparr>paramSetSize = 32, params = [\<lparr>p_tag = HKS_TAG_PURPOSE, p_val = VUint 1\<rparr>], ps_tail = []\<rparr>"]
  by (simp add: HksBuildParamSet_def BuildParamSet_def HksFreshParamSet_def FreshParamSet_def
      HksCheckParamSet_def paramsCnt_def is_bytes_tag_def GetTagType_def Let_def)

text \<open>
  C13: Adding never outgrows the buffer that \<open>HksInitParamSet\<close> allocates: whatever
  \<open>HksAddParams\<close> answers, the set holds the old parameters followed by a prefix of the new ones
  (all of them on success), at most 42 if it held at most 42, which fit the 1024 bytes.
\<close>

theorem add_params_bounded:
  assumes "HksAddParams (Some ps) (Some qs) = (ret, Some ps')" "paramsCnt ps \<le> 42"
  shows "(\<exists>k. params ps' = params ps @ take k qs) \<and> paramsCnt ps' \<le> 42
    \<and> SIZEOF_PARAM_SET + SIZEOF_PARAM * paramsCnt ps' \<le> HKS_DEFAULT_PARAM_SET_SIZE
    \<and> (ret = HKS_SUCCESS \<longrightarrow> params ps' = params ps @ qs)"
proof (cases "CheckBeforeAddParams (Some ps) (Some qs) = 0")
  case False
  then have "ps' = ps" "ret \<noteq> 0"
    using assms(1) by (auto simp: HksAddParams_def if_not_succ_return_def Let_def)
  with assms(2) show ?thesis by (auto intro: exI [of _ 0])
next
  case True
  then have lp: "add_params_loop ps qs = (ret, ps')"
    using assms(1) by (cases "add_params_loop ps qs") (simp add: HksAddParams_def)
  obtain k where k: "k \<le> length qs" "params ps' = params ps @ take k qs" "ret = 0 \<longrightarrow> k = length qs"
    using add_params_loop_params [of qs ps] lp by auto
  have "paramsCnt ps + length qs \<le> 42"
    using True by (simp add: CheckBeforeAddParams_0)
  with k have "paramsCnt ps' \<le> 42" by (simp add: paramsCnt_def)
  with k show ?thesis by auto
qed

lemma add_params_bounded_witness:
  "paramsCnt (\<lparr>paramSetSize = 32, params = [\<lparr>p_tag = HKS_TAG_PURPOSE, p_val = VUint 1\<rparr>],
       ps_tail = []\<rparr>) \<le> 42"
  using add_params_bounded [of "\<lparr>paramSetSize = 8, params = [], ps_tail = []\<rparr>"
      "[\<lparr>p_tag = HKS_TAG_PURPOSE, p_val = VUint 1\<rparr>]" 0
      "\<lparr>paramSetSize = 32, params = [\<lparr>p_tag = HKS_TAG_PURPOSE, p_val = VUint 1\<rparr>], ps_tail = []\<rparr>"]
  by (simp add: HksAddParams_def CheckBeforeAddParams_def paramsCnt_def is_bytes_tag_def GetTagType_def)

text \<open>
  A set that passes the tag check is a finite map from tags to parameters: looking a tag up
  succeeds exactly when the set has a parameter with this tag (not an empty blob), gives that
  parameter, and every tag that is missing is reported as missing.
\<close>

theorem get_param_checked_set:
  assumes "HksCheckParamSetTag (Some ps) = HKS_SUCCESS"
    and "HksCheckParamSet (Some ps) (paramSetSize ps) = HKS_SUCCESS"
  shows "(HksGetParam (Some ps) t = Inr p \<longleftrightarrow>
      p \<in> set (params ps) \<and> p_tag p = t
      \<and> (is_bytes_tag t \<longrightarrow> CheckBlob (Some (blobParam (p_val p))) = HKS_SUCCESS))
    \<and> (HksGetParam (Some ps) t = Inl HKS_ERROR_PARAM_NOT_EXIST \<longleftrightarrow> t \<notin> p_tag ` set (params ps))"
  using assms ps.found ps.unique ps.missing by (auto simp: HksCheckParamSetTag_0)

lemma get_param_checked_set_witness:
  "HksGetParam (Some \<lparr>paramSetSize = 32, params = [\<lparr>p_tag = HKS_TAG_PURPOSE, p_val = VUint 1\<rparr>],
     ps_tail = []\<rparr>) HKS_TAG_PURPOSE = Inr \<lparr>p_tag = HKS_TAG_PURPOSE, p_val = VUint 1\<rparr>"
  by (subst get_param_checked_set [THEN conjunct1])
     (simp_all add: HksCheckParamSetTag_def IsValidTag_def g_validTags_def HksCheckParamSet_def
       paramsCnt_def is_bytes_tag_def GetTagType_def)

text \<open>
  Deleting tags from a built set is filtering: of a flat set of which at most 42 parameters
  remain, \<open>HksDeleteTagsFromParamSet\<close> builds the set with exactly the parameters whose tag is not
  listed, in their order, flat again.
\<close>

theorem delete_tags_filter:
  assumes "flat ps" "HksCheckParamSet (Some ps) (paramSetSize ps) = HKS_SUCCESS" "\<forall>n. alloc n"
    and "length (filter (\<lambda>q. p_tag q \<notin> set tags) (params ps)) \<le> 42"
  shows "\<exists>ps'. HksDeleteTagsFromParamSet alloc (Some tags) (Some ps) = Inr ps' \<and> flat ps'
    \<and> params ps' = filter (\<lambda>q. p_tag q \<notin> set tags) (params ps)"
  using HksDeleteTags_flat assms by blast

lemma delete_tags_filter_witness:
  "\<exists>ps'. HksDeleteTagsFromParamSet (\<lambda>_. True) (Some [HKS_TAG_PURPOSE])
      (Some \<lparr>paramSetSize = 58, params = [\<lparr>p_tag = HKS_TAG_PURPOSE, p_val = VUint 1\<rparr>,
        \<lparr>p_tag = HKS_TAG_IV, p_val = VBlob \<lparr>blob_size = 2, blob_data = Some [1, 2]\<rparr>\<rparr>],
        ps_tail = [1, 2]\<rparr>) = Inr ps'
    \<and> flat ps' \<and> params ps' = filter (\<lambda>q. p_tag q \<notin> set [HKS_TAG_PURPOSE])
       (params \<lparr>paramSetSize = 58, params = [\<lparr>p_tag = HKS_TAG_PURPOSE, p_val = VUint 1\<rparr>,
        \<lparr>p_tag = HKS_TAG_IV, p_val = VBlob \<lparr>blob_size = 2, blob_data = Some [1, 2]\<rparr>\<rparr>],
        ps_tail = [1, 2]\<rparr>)"
  by (rule delete_tags_filter)
     (simp_all add: flat_def space_def plen_def payload_def wf_param_def norm_param_def
       HksCheckParamSet_def paramsCnt_def is_bytes_tag_def GetTagType_def)

text \<open>
  Two parameters that are well formed and typed by their tags match exactly when they are the
  same parameter: same tag, and same value or same bytes.
\<close>

theorem param_match_iff_equal:
  assumes "wf_param p" "wf_param q" "typed_param p" "typed_param q"
  shows "HksCheckParamMatch (Some p) (Some q) = HKS_SUCCESS \<longleftrightarrow> norm_param p = norm_param q"
proof (cases "p_tag p = p_tag q")
  case False
  then show ?thesis by (auto simp: HksCheckParamMatch_def dest: arg_cong [of _ _ p_tag])
next
  case tag: True
  show ?thesis
  proof (cases "is_bytes_tag (p_tag p)")
    case True
    then obtain b c where "p_val p = VBlob b" "p_val q = VBlob c"
      using typed_cases [OF assms(3,4) tag] assms(3) by (auto simp: typed_param_def is_bytes_tag_def)
    with True tag assms show ?thesis by (intro blob_match_0) simp_all
  next
    case False
    then have "norm_param p = norm_param q \<longleftrightarrow> p_val p = p_val q"
      using tag by (auto simp: norm_param_def)
    with typed_match_0 [OF assms(3,4) tag False] show ?thesis by simp
  qed
qed

lemma param_match_iff_equal_witness:
  "HksCheckParamMatch (Some \<lparr>p_tag = HKS_TAG_PURPOSE, p_val = VUint 1\<rparr>)
     (Some \<lparr>p_tag = HKS_TAG_PURPOSE, p_val = VUint 1\<rparr>) = HKS_SUCCESS"
  by (subst param_match_iff_equal) (simp_all add: wf_param_def typed_param_def is_bytes_tag_def GetTagType_def)

end
