(* ===== verification/Huks_Common_Check.thy ===== *)
theory Huks_Common_Check
  imports Huks_Param_Laws
begin

text \<open>
  \<open>frameworks/huks_standard/main/common/src/hks_common_check.c\<close>: checks of blobs and of parameter
  sets, digest lengths, and the format of wrapped keys, a sequence of parts each preceded by its
  length in four little-endian bytes. The second half relates that format to the list of its parts.
\<close>

section \<open>Blobs and parameter sets\<close>

definition HksCheckBlob4 :: "HksBlob ptr \<Rightarrow> HksBlob ptr \<Rightarrow> HksBlob ptr \<Rightarrow> HksBlob ptr \<Rightarrow> rc" where
  "HksCheckBlob4 data1 data2 data3 data4 =
     if_not_succ_return (CheckBlob data1) HKS_ERROR_INVALID_ARGUMENT
    (if_not_succ_return (CheckBlob data2) HKS_ERROR_INVALID_ARGUMENT
    (if_not_succ_return (CheckBlob data3) HKS_ERROR_INVALID_ARGUMENT
    (if_not_succ_return (CheckBlob data4) HKS_ERROR_INVALID_ARGUMENT
     HKS_SUCCESS)))"

definition HksCheckBlob3 :: "HksBlob ptr \<Rightarrow> HksBlob ptr \<Rightarrow> HksBlob ptr \<Rightarrow> rc" where
  "HksCheckBlob3 data1 data2 data3 =
     if_not_succ_return (CheckBlob data1) HKS_ERROR_INVALID_ARGUMENT
    (if_not_succ_return (CheckBlob data2) HKS_ERROR_INVALID_ARGUMENT
    (if_not_succ_return (CheckBlob data3) HKS_ERROR_INVALID_ARGUMENT
     HKS_SUCCESS))"

definition HksCheckBlob2 :: "HksBlob ptr \<Rightarrow> HksBlob ptr \<Rightarrow> rc" where
  "HksCheckBlob2 data1 data2 =
     if_not_succ_return (CheckBlob data1) HKS_ERROR_INVALID_ARGUMENT
    (if_not_succ_return (CheckBlob data2) HKS_ERROR_INVALID_ARGUMENT
     HKS_SUCCESS)"

definition HksCheckParamSetValidity :: "HksParamSet ptr \<Rightarrow> rc" where
  "HksCheckParamSetValidity paramSet =
     (case paramSet of NULL \<Rightarrow> HKS_ERROR_NULL_POINTER
      | Some ps \<Rightarrow>
          if_not_succ_return (HksCheckParamSet paramSet (paramSetSize ps)) HKS_ERROR_INVALID_ARGUMENT
            (HksCheckParamSetTag paramSet))"

definition HksCheckBlob4AndParamSet ::
    "HksBlob ptr \<Rightarrow> HksBlob ptr \<Rightarrow> HksBlob ptr \<Rightarrow> HksBlob ptr \<Rightarrow> HksParamSet ptr \<Rightarrow> rc" where
  "HksCheckBlob4AndParamSet data1 data2 data3 data4 paramSet =
     (let ret = HksCheckBlob4 data1 data2 data3 data4 in
      if_not_succ_return ret ret (HksCheckParamSetValidity paramSet))"

definition HksCheckBlob3AndParamSet ::
    "HksBlob ptr \<Rightarrow> HksBlob ptr \<Rightarrow> HksBlob ptr \<Rightarrow> HksParamSet ptr \<Rightarrow> rc" where
  "HksCheckBlob3AndParamSet data1 data2 data3 paramSet =
     (let ret = HksCheckBlob3 data1 data2 data3 in
      if_not_succ_return ret ret (HksCheckParamSetValidity paramSet))"

definition HksCheckBlob2AndParamSet :: "HksBlob ptr \<Rightarrow> HksBlob ptr \<Rightarrow> HksParamSet ptr \<Rightarrow> rc" where
  "HksCheckBlob2AndParamSet data1 data2 paramSet =
     (let ret = HksCheckBlob2 data1 data2 in
      if_not_succ_return ret ret (HksCheckParamSetValidity paramSet))"

definition HksCheckBlobAndParamSet :: "HksBlob ptr \<Rightarrow> HksParamSet ptr \<Rightarrow> rc" where
  "HksCheckBlobAndParamSet data paramSet =
     if_not_succ_return (CheckBlob data) HKS_ERROR_INVALID_ARGUMENT (HksCheckParamSetValidity paramSet)"

section \<open>Digests, modes, flags\<close>

definition HksGetDigestLen :: "u32 \<Rightarrow> u32 res" where
  "HksGetDigestLen digest =
     (if digest = HKS_DIGEST_MD5 then Inr 16
      else if digest = HKS_DIGEST_SHA1 then Inr 20
      else if digest = HKS_DIGEST_SHA224 then Inr 28
      else if digest = HKS_DIGEST_SHA256 then Inr 32
      else if digest = HKS_DIGEST_SHA384 then Inr 48
      else if digest = HKS_DIGEST_SHA512 then Inr 64
      else if digest = HKS_DIGEST_SM3 then Inr 32
      else Inl HKS_ERROR_INVALID_DIGEST)"

text \<open>The out-parameter \<open>isAeMode\<close> keeps its value when the algorithm is not AES.\<close>

definition HksCheckAesAeMode :: "HksParamSet ptr \<Rightarrow> bool \<Rightarrow> (bool \<times> bool) res" where
  "HksCheckAesAeMode paramSet isAeMode =
     try_or (HksGetParam paramSet HKS_TAG_ALGORITHM) (Inl HKS_ERROR_CHECK_GET_ALG_FAIL) (\<lambda>algParam.
       let isAes = (uint32Param (p_val algParam) = HKS_ALG_AES) in
       if \<not> isAes then Inr (isAes, isAeMode)
       else try_or (HksGetParam paramSet HKS_TAG_BLOCK_MODE) (Inl HKS_ERROR_CHECK_GET_MODE_FAIL)
         (\<lambda>modeParam.
           Inr (isAes, uint32Param (p_val modeParam) = HKS_MODE_CCM
             \<or> uint32Param (p_val modeParam) = HKS_MODE_GCM)))"

text \<open>The code and the new value of \<open>isNeedStorage\<close>.\<close>

definition HksCheckKeyNeedStored :: "HksParamSet ptr \<Rightarrow> bool \<Rightarrow> rc \<times> bool" where
  "HksCheckKeyNeedStored paramSet isNeedStorage =
     (let second =
        (case HksGetParam paramSet HKS_TAG_DERIVE_AGREE_KEY_STORAGE_FLAG of
           Inr storageFlag \<Rightarrow>
             if uint32Param (p_val storageFlag) = HKS_STORAGE_ONLY_USED_IN_HUKS
             then (HKS_SUCCESS, True) else (HKS_SUCCESS, isNeedStorage)
         | Inl ret \<Rightarrow> (ret, isNeedStorage)) in
      case HksGetParam paramSet HKS_TAG_KEY_STORAGE_FLAG of
        Inr storageFlag \<Rightarrow>
          if uint32Param (p_val storageFlag) = HKS_STORAGE_PERSISTENT then (HKS_SUCCESS, True)
          else second
      | Inl _ \<Rightarrow> second)"

definition HksCheckKeyBlobParamSetEqualRuntimeParamSet ::
    "HksParamSet ptr \<Rightarrow> HksParamSet ptr \<Rightarrow> u32 \<Rightarrow> rc" where
  "HksCheckKeyBlobParamSetEqualRuntimeParamSet keyBlobParamSet runtimeParamSet tag =
     (if keyBlobParamSet = NULL \<or> runtimeParamSet = NULL then HKS_ERROR_INVALID_ARGUMENT
      else (case (HksGetParam keyBlobParamSet tag, HksGetParam runtimeParamSet tag) of
          (Inr _, Inl _) \<Rightarrow> HKS_ERROR_BAD_STATE
        | (Inr one, Inr two) \<Rightarrow>
            if uint32Param (p_val one) \<noteq> uint32Param (p_val two) then HKS_ERROR_BAD_STATE
            else HKS_SUCCESS
        | _ \<Rightarrow> HKS_SUCCESS))"

text \<open>The value stored in \<open>usageSpec->pssSaltLenType\<close>.\<close>

definition SetRsaPssSaltLenType :: "HksParamSet ptr \<Rightarrow> u32" where
  "SetRsaPssSaltLenType paramSet =
     (case HksGetParam paramSet HKS_TAG_RSA_PSS_SALT_LEN_TYPE of
        Inr saltLenTypeParam \<Rightarrow> uint32Param (p_val saltLenTypeParam)
      | Inl _ \<Rightarrow> HKS_RSA_PSS_SALTLEN_MAX)"

section \<open>Wrapped data\<close>

text \<open>
  The loop of \<open>HksCheckWrappedDataFormatValidity\<close> over at most \<open>n\<close> further parts, from part
  \<open>blobIndex\<close> at \<open>offset\<close>; it gives the final offset. All arithmetic is 32-bit.
\<close>

fun check_wrapped_loop :: "nat \<Rightarrow> bytes \<Rightarrow> u32 \<Rightarrow> u32 list ptr \<Rightarrow> nat \<Rightarrow> u32 \<Rightarrow> u32 res" where
  "check_wrapped_loop 0 data dataSize lens blobIndex offset = Inr offset"
| "check_wrapped_loop (Suc n) data dataSize lens blobIndex offset =
     (if \<not> offset < dataSize then Inr offset
      else if dataSize - offset < 4 then Inl HKS_ERROR_INVALID_WRAPPED_FORMAT
      else
        (let partDataLength = read_u32 data (unat offset); offset = offset + 4 in
         if partDataLength = 0 \<or> partDataLength > dataSize - offset
         then Inl HKS_ERROR_INVALID_WRAPPED_FORMAT
         else if (case lens of NULL \<Rightarrow> False | Some ls \<Rightarrow> ls ! blobIndex \<noteq> partDataLength)
         then Inl HKS_ERROR_INVALID_WRAPPED_FORMAT
         else check_wrapped_loop n data dataSize lens (Suc blobIndex) (offset + partDataLength)))"

definition blob_bytes :: "HksBlob \<Rightarrow> bytes" where
  "blob_bytes b = (case blob_data b of NULL \<Rightarrow> [] | Some bs \<Rightarrow> bs)"

definition HksCheckWrappedDataFormatValidity :: "HksBlob ptr \<Rightarrow> u32 \<Rightarrow> u32 list ptr \<Rightarrow> rc" where
  "HksCheckWrappedDataFormatValidity wrappedData validTotalBlobs validBlobLengths =
     (if CheckBlob wrappedData \<noteq> HKS_SUCCESS \<or> blob_size (the wrappedData) > HKS_WRAPPED_FORMAT_MAX_SIZE
         \<or> validTotalBlobs = 0
      then HKS_ERROR_INVALID_ARGUMENT
      else
        (let data = blob_bytes (the wrappedData); dataSize = blob_size (the wrappedData) in
         try_rc (check_wrapped_loop (unat validTotalBlobs) data dataSize validBlobLengths 0 0)
           (\<lambda>offset. if offset \<noteq> dataSize then HKS_ERROR_INVALID_WRAPPED_FORMAT else HKS_SUCCESS)))"

text \<open>
  The loop of \<open>HksGetBlobFromWrappedData\<close>, with \<open>n\<close> rounds left and \<open>k\<close> parts before the
  wanted one. Unlike the check it reads four bytes before it knows that they are there.
\<close>

fun get_wrapped_loop :: "nat \<Rightarrow> bytes \<Rightarrow> u32 \<Rightarrow> nat \<Rightarrow> u32 \<Rightarrow> HksBlob res" where
  "get_wrapped_loop 0 data dataSize k offset = Inl HKS_ERROR_INVALID_WRAPPED_FORMAT"
| "get_wrapped_loop (Suc n) data dataSize k offset =
     (if \<not> offset < dataSize then Inl HKS_ERROR_INVALID_WRAPPED_FORMAT
      else
        (let partDataLength = read_u32 data (unat offset); offset = offset + 4 in
         if partDataLength = 0 \<or> partDataLength > HKS_WRAPPED_FORMAT_MAX_SIZE
           \<or> partDataLength > dataSize - offset
         then Inl HKS_ERROR_INVALID_WRAPPED_FORMAT
         else if k = 0
         then Inr \<lparr>blob_size = partDataLength, blob_data = Some (drop (unat offset) data)\<rparr>
         else get_wrapped_loop n data dataSize (k - 1) (offset + partDataLength)))"

definition HksGetBlobFromWrappedData :: "HksBlob ptr \<Rightarrow> u32 \<Rightarrow> u32 \<Rightarrow> HksBlob res" where
  "HksGetBlobFromWrappedData wrappedData blobIndex totalBlobs =
     (if CheckBlob wrappedData \<noteq> HKS_SUCCESS \<or> blobIndex \<ge> totalBlobs
      then Inl HKS_ERROR_INVALID_ARGUMENT
      else get_wrapped_loop (unat totalBlobs) (blob_bytes (the wrappedData))
        (blob_size (the wrappedData)) (unat blobIndex) 0)"


section \<open>The wrapped format as a list of parts\<close>

definition framed :: "bytes list \<Rightarrow> bytes" where
  "framed parts = concat (map (\<lambda>p. to_le 4 (word_of_nat (length p) :: u32) @ p) parts)"

lemma framed_simps [simp]:
  "framed [] = []"
  "framed (p # parts) = to_le 4 (word_of_nat (length p) :: u32) @ p @ framed parts"
  by (simp_all add: framed_def)

lemma framed_empty: "framed parts = [] \<longleftrightarrow> parts = []"
proof (cases parts)
  case (Cons p ps)
  have "to_le 4 (word_of_nat (length p) :: u32) \<noteq> []"
    using length_to_le [of 4 "word_of_nat (length p) :: u32"] by fastforce
  with Cons show ?thesis by simp
qed simp

lemma take_three:
  "take (a + b + c) xs = take a xs @ take b (drop a xs) @ take c (drop (a + b) xs)"
  by (simp add: take_add add.commute add.left_commute)

lemma unat_step:
  assumes "off + 4 \<le> sz" "unat off + 4 \<le> unat sz" "len \<le> sz - (off + 4)"
  shows "unat (off + 4 :: u32) = unat off + 4" "unat off + 4 + unat len \<le> unat sz"
    "unat (off + 4 + len) = unat off + 4 + unat len"
proof -
  show a: "unat (off + 4 :: u32) = unat off + 4"
    using assms(2) unat_u32_add_le [of off 4 sz] by simp
  have "unat (sz - (off + 4)) = unat sz - (unat off + 4)"
    using assms(1) a by (simp add: unat_sub)
  then show b: "unat off + 4 + unat len \<le> unat sz"
    using assms(2,3) by (simp add: word_le_nat_alt)
  show "unat (off + 4 + len) = unat off + 4 + unat len"
    using a b unat_u32_add_le [of "off + 4" len sz] by simp
qed

text \<open>One step of either loop is taken exactly when a length and that many bytes are there.\<close>

lemma residual_less_4:
  fixes off sz :: u32
  assumes "off \<le> sz"
  shows "sz - off < 4 \<longleftrightarrow> unat sz < unat off + 4"
  using assms unat_sub [OF assms] by (auto simp: word_less_nat_alt word_le_nat_alt)

lemma off_plus_4_le:
  fixes off sz :: u32
  assumes "unat off + 4 \<le> unat sz"
  shows "off + 4 \<le> sz"
  using assms unat_u32_add_le [of off 4 sz] by (simp add: word_le_nat_alt)

lemma check_wrapped_loop_sound:
  assumes "check_wrapped_loop n data sz lens i off = Inr off'"
    and "unat sz \<le> length data" "off \<le> sz"
  shows "\<exists>parts. length parts \<le> n \<and> (\<forall>p \<in> set parts. p \<noteq> [] \<and> length p < 2 ^ 32)
    \<and> unat off \<le> unat off' \<and> unat off' \<le> unat sz
    \<and> take (unat off' - unat off) (drop (unat off) data) = framed parts"
  using assms
proof (induction n data sz lens i off rule: check_wrapped_loop.induct)
  case (1 data dataSize lens blobIndex offset)
  then show ?case by (intro exI [of _ "[]"]) (simp add: word_le_nat_alt)
next
  case (2 n data sz lens i off)
  show ?case
  proof (cases "off < sz")
    case False
    with 2 show ?thesis by (intro exI [of _ "[]"]) (simp add: word_le_nat_alt)
  next
    case lt: True
    define len where "len = read_u32 data (unat off)"
    from "2.prems"(1) lt have c: "\<not> sz - off < 4" "len \<noteq> 0" "\<not> sz - (off + 4) < len"
      and rest: "check_wrapped_loop n data sz lens (Suc i) (off + 4 + len) = Inr off'"
      by (auto simp: len_def Let_def split: if_splits)
    from c(1) "2.prems"(3) have four: "unat off + 4 \<le> unat sz"
      by (simp add: residual_less_4)
    note st = unat_step [OF off_plus_4_le [OF four] four, of len]
    have bounds: "unat off + 4 + unat len \<le> unat sz" "unat (off + 4 + len) = unat off + 4 + unat len"
      using st c(3) by simp_all
    have "off + 4 + len \<le> sz"
      using bounds by (simp add: word_le_nat_alt)
    then obtain parts where IH: "length parts \<le> n" "\<forall>p \<in> set parts. p \<noteq> [] \<and> length p < 2 ^ 32"
      "unat (off + 4 + len) \<le> unat off'" "unat off' \<le> unat sz"
      "take (unat off' - unat (off + 4 + len)) (drop (unat (off + 4 + len)) data) = framed parts"
      using "2.IH" [OF _ _ refl refl] lt c rest "2.prems"(1,2)
      by (auto simp: len_def Let_def split: if_splits)
    define p where "p = take (unat len) (drop (unat off + 4) data)"
    have lp: "length p = unat len"
      using bounds "2.prems"(2) by (simp add: p_def)
    have "to_le 4 len = take 4 (drop (unat off) data)"
      using four "2.prems"(2) by (simp add: len_def read_u32_def to_le_of_le)
    moreover have "unat off' - unat off = 4 + unat len + (unat off' - (unat off + 4 + unat len))"
      using IH(3) bounds by simp
    ultimately have "take (unat off' - unat off) (drop (unat off) data) = framed (p # parts)"
      using IH(5) bounds lp by (simp only: take_three) (simp add: p_def add.commute add.left_commute)
    moreover have "p \<noteq> []" "length p < 2 ^ 32"
      using lp c(2) by (auto simp: unat_eq_zero)
    ultimately show ?thesis
      using IH bounds by (intro exI [of _ "p # parts"]) simp
  qed
qed

text \<open>The state of either loop in front of a part that is there.\<close>

lemma at_part:
  fixes off sz :: u32
  assumes "unat sz \<le> length data" "unat off \<le> unat sz" "p \<noteq> []" "length p < 2 ^ 32"
    and "take (unat sz - unat off) (drop (unat off) data) = framed (p # parts)"
  shows "off < sz" "\<not> sz - off < 4"
    "read_u32 data (unat off) = word_of_nat (length p)" "word_of_nat (length p) \<noteq> (0 :: u32)"
    "\<not> sz - (off + 4) < word_of_nat (length p)"
    "unat (off + 4) = unat off + 4"
    "unat (off + 4 + word_of_nat (length p)) = unat off + 4 + length p"
    "take (unat sz - (unat off + 4 + length p)) (drop (unat off + 4 + length p) data) = framed parts"
    "take (length p) (drop (unat off + 4) data) = p"
    "unat off + 4 + length p \<le> unat sz"
proof -
  define d where "d = drop (unat off) data"
  have len: "unat sz - unat off = 4 + length p + length (framed parts)"
    using assms(1,2) arg_cong [OF assms(5), of length] by simp
  have ul: "unat (word_of_nat (length p) :: u32) = length p"
    using assms(4) by (simp add: unat_u32_of_nat)
  have eq: "take (4 + length p + length (framed parts)) d
      = to_le 4 (word_of_nat (length p) :: u32) @ p @ framed parts"
    using assms(5) len by (simp add: d_def)
  then have t: "take 4 d = to_le 4 (word_of_nat (length p) :: u32)"
    "take (length p) (drop 4 d) = p" "take (length (framed parts)) (drop (4 + length p) d) = framed parts"
    using assms(1,2) len by (simp_all only: take_three append_eq_append_conv) (simp_all add: d_def)
  show four: "\<not> sz - off < 4"
    using len assms(2) by (simp add: residual_less_4 word_le_nat_alt)
  show "off < sz" using len by (simp add: word_less_nat_alt)
  show "read_u32 data (unat off) = word_of_nat (length p)"
    using t(1) by (simp add: read_u32_def d_def [symmetric] of_le_to_le)
  show "word_of_nat (length p) \<noteq> (0 :: u32)"
    using ul assms(3) by (metis length_0_conv unat_0)
  show o4: "unat (off + 4) = unat off + 4"
    using len unat_u32_add_le [of off 4 sz] by simp
  show op: "unat (off + 4 + word_of_nat (length p)) = unat off + 4 + length p"
    using len o4 ul unat_u32_add_le [of "off + 4" "word_of_nat (length p)" sz] by simp
  have "off + 4 \<le> sz" using o4 len by (simp add: word_le_nat_alt)
  then show "\<not> sz - (off + 4) < word_of_nat (length p)"
    using o4 len ul by (simp add: word_less_nat_alt unat_sub)
  show "take (unat sz - (unat off + 4 + length p)) (drop (unat off + 4 + length p) data) = framed parts"
  proof -
    have "unat sz - (unat off + 4 + length p) = length (framed parts)" using len by simp
    then show ?thesis using t(3) by (simp add: d_def add.commute add.left_commute)
  qed
  show "take (length p) (drop (unat off + 4) data) = p"
    using t(2) by (simp add: d_def add.commute)
  show "unat off + 4 + length p \<le> unat sz" using len by simp
qed

lemma check_wrapped_loop_complete:
  assumes "unat sz \<le> length data" "unat off \<le> unat sz"
    and "\<forall>p \<in> set parts. p \<noteq> [] \<and> length p < 2 ^ 32" "length parts \<le> n"
    and "take (unat sz - unat off) (drop (unat off) data) = framed parts"
  shows "check_wrapped_loop n data sz NULL i off = Inr sz"
  using assms
proof (induction parts arbitrary: n i off)
  case Nil
  then have "sz = off" by (auto simp: word_unat_eq_iff)
  then show ?case by (cases n) simp_all
next
  case (Cons p parts)
  obtain m where n: "n = Suc m" "length parts \<le> m"
    using Cons.prems(4) by (cases n) auto
  note a = at_part [OF Cons.prems(1,2) _ _ Cons.prems(5)]
  have "check_wrapped_loop m data sz NULL (Suc i) (off + 4 + word_of_nat (length p)) = Inr sz"
    using Cons.prems a n by (intro Cons.IH) simp_all
  with a Cons.prems(3) show ?case
    by (simp add: n Let_def del: framed_simps)
qed

lemma get_wrapped_loop_part:
  assumes "unat sz \<le> length data" "unat off \<le> unat sz" "unat sz \<le> 0x100000"
    and "\<forall>p \<in> set parts. p \<noteq> [] \<and> length p < 2 ^ 32" "k < n"
    and "take (unat sz - unat off) (drop (unat off) data) = framed parts"
  shows "get_wrapped_loop n data sz k off =
    (if k < length parts
     then Inr \<lparr>blob_size = word_of_nat (length (parts ! k)),
               blob_data = Some (drop (unat off + 4 + length (framed (take k parts))) data)\<rparr>
     else Inl HKS_ERROR_INVALID_WRAPPED_FORMAT)
    \<and> (k < length parts \<longrightarrow> take (length (parts ! k))
          (drop (unat off + 4 + length (framed (take k parts))) data) = parts ! k)"
  using assms
proof (induction parts arbitrary: n k off)
  case Nil
  then have "sz = off" by (auto simp: word_unat_eq_iff)
  with Nil show ?case by (cases n) simp_all
next
  case (Cons p parts)
  obtain m where n: "n = Suc m"
    using Cons.prems(5) by (cases n) auto
  note a = at_part [OF Cons.prems(1,2) _ _ Cons.prems(6)]
  have small: "\<not> HKS_WRAPPED_FORMAT_MAX_SIZE < word_of_nat (length p)"
    using a(10) Cons.prems(3,4) by (simp add: word_less_nat_alt unat_u32_of_nat)
  show ?case
  proof (cases k)
    case 0
    with a small Cons.prems(4) n show ?thesis by (simp add: Let_def del: framed_simps(2))
  next
    case (Suc j)
    have step: "get_wrapped_loop n data sz (Suc j) off
        = get_wrapped_loop m data sz j (off + 4 + word_of_nat (length p))"
      using a small Cons.prems(4) by (simp add: n del: framed_simps)
    have off: "unat off + 4 + length (framed (take (Suc j) (p # parts)))
        = unat (off + 4 + word_of_nat (length p)) + 4 + length (framed (take j parts))"
      using a Cons.prems(4) by simp
    note IH = Cons.IH [of "off + 4 + word_of_nat (length p)" j m]
    show ?thesis unfolding Suc step off length_Cons Suc_less_eq nth_Cons_Suc
      using a Cons.prems n Suc by (intro IH) simp_all
  qed
qed


lemma check_wrapped_loop_proper: "check_wrapped_loop n data sz lens i off \<noteq> Inl 0"
  by (induction n data sz lens i off rule: check_wrapped_loop.induct) (simp_all add: Let_def)

lemma framed_size_pos:
  assumes "take (unat (sz :: u32)) bs = framed parts" "parts \<noteq> []"
  shows "sz \<noteq> 0"
  using assms framed_empty by fastforce

section \<open>Properties\<close>

text \<open>
  C14: The format check of wrapped data accepts exactly the encodings of part lists: the data is the
  concatenation of between one and \<open>validTotalBlobs\<close> parts, each nonempty and preceded by its
  length in four little-endian bytes, with nothing left over and at most 1 MiB long. The 32-bit
  offsets never wrap.
\<close>

theorem wrapped_format_iff_framed:
  assumes "unat sz \<le> length bs"
  shows "HksCheckWrappedDataFormatValidity (Some \<lparr>blob_size = sz, blob_data = Some bs\<rparr>) cnt NULL
      = HKS_SUCCESS \<longleftrightarrow>
    unat sz \<le> 0x100000 \<and> (\<exists>parts. parts \<noteq> [] \<and> length parts \<le> unat cnt
      \<and> (\<forall>p \<in> set parts. p \<noteq> [] \<and> length p < 2 ^ 32) \<and> take (unat sz) bs = framed parts)"
    (is "?check \<longleftrightarrow> ?lim \<and> (\<exists>parts. ?ok parts)")
proof
  assume ?check
  then have c: "sz \<noteq> 0" "unat sz \<le> 0x100000"
    and lp: "check_wrapped_loop (unat cnt) bs sz NULL 0 0 = Inr sz"
    by (auto simp: HksCheckWrappedDataFormatValidity_def CheckBlob_0 blob_bytes_def Let_def
        try_rc_def word_less_nat_alt not_less check_wrapped_loop_proper split: if_splits sum.splits)
  obtain parts where "length parts \<le> unat cnt" "\<forall>p \<in> set parts. p \<noteq> [] \<and> length p < 2 ^ 32"
    "take (unat sz) bs = framed parts"
    using check_wrapped_loop_sound [OF lp assms] by auto
  moreover from this c assms have "parts \<noteq> []"
    by (auto simp: unat_eq_zero)
  ultimately show "?lim \<and> (\<exists>parts. ?ok parts)" using c by blast
next
  assume "?lim \<and> (\<exists>parts. ?ok parts)"
  then obtain parts where lim: ?lim and ok: "?ok parts" by blast
  have "check_wrapped_loop (unat cnt) bs sz NULL 0 0 = Inr sz"
    using ok assms by (intro check_wrapped_loop_complete [where parts = parts]) simp_all
  moreover have "sz \<noteq> 0"
    using ok framed_size_pos by blast
  moreover have "cnt \<noteq> 0"
    using ok by auto
  ultimately show ?check
    using lim by (simp add: HksCheckWrappedDataFormatValidity_def CheckBlob_def blob_bytes_def
        word_less_nat_alt not_less)
qed

lemma wrapped_format_iff_framed_witness:
  "HksCheckWrappedDataFormatValidity (Some \<lparr>blob_size = 11, blob_data =
     Some [2, 0, 0, 0, 7, 8, 1, 0, 0, 0, 9]\<rparr>) 2 NULL = HKS_SUCCESS"
proof (subst wrapped_format_iff_framed)
  show "unat (11 :: u32) \<le> length [2, 0, 0, 0, 7, 8, 1, 0, 0, 0, 9 :: u8]" by simp
  show "unat (11 :: u32) \<le> 0x100000 \<and> (\<exists>parts. parts \<noteq> [] \<and> length parts \<le> unat (2 :: u32)
      \<and> (\<forall>p \<in> set parts. p \<noteq> [] \<and> length p < 2 ^ 32)
      \<and> take (unat (11 :: u32)) [2, 0, 0, 0, 7, 8, 1, 0, 0, 0, 9] = framed parts)"
    by (intro conjI exI [of _ "[[7, 8], [9]]"]) (simp_all add: to_le_4)
qed

text \<open>
  Once wrapped data has the format, \<open>HksGetBlobFromWrappedData\<close> is indexing into the list
  of parts: for an index below the number of parts it gives a blob that states the length of
  that part and points at its bytes inside the data, and for any other index below the stated total
  it fails; it never runs past the data.
\<close>

theorem wrapped_get_part:
  assumes "unat sz \<le> length bs" "unat sz \<le> 0x100000" "parts \<noteq> []"
    and "\<forall>p \<in> set parts. p \<noteq> [] \<and> length p < 2 ^ 32"
    and "take (unat sz) bs = framed parts" "i < cnt"
  shows "HksGetBlobFromWrappedData (Some \<lparr>blob_size = sz, blob_data = Some bs\<rparr>) i cnt =
      (if unat i < length parts
       then Inr \<lparr>blob_size = word_of_nat (length (parts ! unat i)),
                 blob_data = Some (drop (4 + length (framed (take (unat i) parts))) bs)\<rparr>
       else Inl HKS_ERROR_INVALID_WRAPPED_FORMAT)
    \<and> (unat i < length parts \<longrightarrow> take (length (parts ! unat i))
         (drop (4 + length (framed (take (unat i) parts))) bs) = parts ! unat i)"
proof -
  have "HksGetBlobFromWrappedData (Some \<lparr>blob_size = sz, blob_data = Some bs\<rparr>) i cnt
      = get_wrapped_loop (unat cnt) bs sz (unat i) 0"
    using assms(6) framed_size_pos [OF assms(5,3)] leD [of cnt i]
    by (auto simp: HksGetBlobFromWrappedData_def CheckBlob_def blob_bytes_def)
  moreover have "unat i < unat cnt"
    using assms(6) by (simp add: word_less_nat_alt)
  ultimately show ?thesis
    using get_wrapped_loop_part [OF assms(1) _ assms(2,4), of 0 "unat i" "unat cnt"] assms(5) by simp
qed

lemma wrapped_get_part_witness:
  "HksGetBlobFromWrappedData (Some \<lparr>blob_size = 11, blob_data =
     Some [2, 0, 0, 0, 7, 8, 1, 0, 0, 0, 9]\<rparr>) 1 2 = Inr \<lparr>blob_size = 1, blob_data = Some [9]\<rparr>"
  using wrapped_get_part [of 11 "[2, 0, 0, 0, 7, 8, 1, 0, 0, 0, 9]" "[[7, 8], [9]]" 1 2]
  by (simp add: to_le_4)

end
