(* ===== verification/Huks_Check_Tables.thy ===== *)
theory Huks_Check_Tables
  imports Huks_Common_Check
begin

text \<open>
  The data of \<open>hks_base_check.h\<close> and the constant tables at the head of \<open>hks_base_check.c\<close>,
  in the order of the source: for every algorithm the values it allows, which parameters of a
  request are read for each kind of check, and which are compared with which values. An array with
  its element count is a list.
\<close>

section \<open>Types\<close>

datatype CheckKeyType =
    HKS_CHECK_TYPE_GEN_KEY
  | HKS_CHECK_TYPE_USE_KEY
  | HKS_CHECK_TYPE_GEN_MAC_KEY
  | HKS_CHECK_TYPE_GEN_DERIVE_KEY

record Params =
  pa_needCheck :: bool
  pa_value :: u32
  pa_isAbsent :: bool

record ParamsValues =
  pv_keyLen :: Params
  pv_padding :: Params
  pv_purpose :: Params
  pv_digest :: Params
  pv_mode :: Params

record ParamsValuesChecker =
  pvc_checkType :: CheckKeyType
  pvc_paramValues :: ParamsValues

record ExpectParams =
  ep_needCheck :: bool
  ep_values :: "u32 list"

record ExpectParamsValues =
  ev_keyLen :: ExpectParams
  ev_padding :: ExpectParams
  ev_purpose :: ExpectParams
  ev_digest :: ExpectParams
  ev_mode :: ExpectParams

record ExpectParamsValuesChecker =
  evc_checkType :: CheckKeyType
  evc_paramValues :: ExpectParamsValues

record AuthAccessTypeChecker =
  aac_userAuthType :: u32
  aac_allow :: ExpectParams

record KeyInfoParams =
  ki_needCheck :: bool
  ki_tag :: u32
  ki_values :: "u32 list"

record AuthAcceessKeyInfoChecker =
  akc_keyAlg :: u32
  akc_params :: "KeyInfoParams list"

text \<open>Brace initialisers, field by field in declaration order.\<close>

definition params_init :: "bool \<Rightarrow> u32 \<Rightarrow> bool \<Rightarrow> Params" where
  "params_init n v a = \<lparr>pa_needCheck = n, pa_value = v, pa_isAbsent = a\<rparr>"

definition params_values_init ::
    "Params \<Rightarrow> Params \<Rightarrow> Params \<Rightarrow> Params \<Rightarrow> Params \<Rightarrow> ParamsValues" where
  "params_values_init l pd pu d m =
     \<lparr>pv_keyLen = l, pv_padding = pd, pv_purpose = pu, pv_digest = d, pv_mode = m\<rparr>"

definition expect :: "bool \<Rightarrow> u32 list \<Rightarrow> ExpectParams" where
  "expect n vs = \<lparr>ep_needCheck = n, ep_values = vs\<rparr>"

definition expect_values_init :: "ExpectParams \<Rightarrow> ExpectParams \<Rightarrow> ExpectParams \<Rightarrow> ExpectParams
    \<Rightarrow> ExpectParams \<Rightarrow> ExpectParamsValues" where
  "expect_values_init l pd pu d m =
     \<lparr>ev_keyLen = l, ev_padding = pd, ev_purpose = pu, ev_digest = d, ev_mode = m\<rparr>"

lemmas init_defs = params_init_def params_values_init_def expect_def expect_values_init_def

section \<open>Tables\<close>


definition g_rsaKeySize :: "u32 list" where
  "g_rsaKeySize = [
     HKS_RSA_KEY_SIZE_512, HKS_RSA_KEY_SIZE_768, HKS_RSA_KEY_SIZE_1024,
     HKS_RSA_KEY_SIZE_2048, HKS_RSA_KEY_SIZE_3072, HKS_RSA_KEY_SIZE_4096]"

definition g_rsaPadding :: "u32 list" where
  "g_rsaPadding = [
     HKS_PADDING_NONE, HKS_PADDING_OAEP, HKS_PADDING_PSS, HKS_PADDING_PKCS1_V1_5,
     HKS_PADDING_ISO_IEC_9796_2]"

definition g_rsaDigest :: "u32 list" where
  "g_rsaDigest = [
     HKS_DIGEST_MD5, HKS_DIGEST_NONE, HKS_DIGEST_SHA1, HKS_DIGEST_SHA224, HKS_DIGEST_SHA256,
     HKS_DIGEST_SHA384, HKS_DIGEST_SHA512]"

definition g_rsaSignPadding :: "u32 list" where
  "g_rsaSignPadding = [
     HKS_PADDING_PSS, HKS_PADDING_PKCS1_V1_5, HKS_PADDING_ISO_IEC_9796_2]"

definition g_rsaCipherPadding :: "u32 list" where
  "g_rsaCipherPadding = [
     HKS_PADDING_NONE, HKS_PADDING_OAEP, HKS_PADDING_PKCS1_V1_5, HKS_PADDING_ISO_IEC_9796_2]"

definition g_aesKeySize :: "u32 list" where
  "g_aesKeySize = [
     HKS_AES_KEY_SIZE_128, HKS_AES_KEY_SIZE_192, HKS_AES_KEY_SIZE_256]"

definition g_aesMacKeySize :: "u32 list" where
  "g_aesMacKeySize = [
     HKS_AES_KEY_SIZE_256]"

definition g_aesPadding :: "u32 list" where
  "g_aesPadding = [
     HKS_PADDING_NONE, HKS_PADDING_PKCS7]"

definition g_aesMode :: "u32 list" where
  "g_aesMode = [
     HKS_MODE_CBC, HKS_MODE_CCM, HKS_MODE_CTR, HKS_MODE_ECB, HKS_MODE_GCM]"

definition g_aesCbcPadding :: "u32 list" where
  "g_aesCbcPadding = [
     HKS_PADDING_NONE, HKS_PADDING_PKCS7]"

definition g_aesAeadPadding :: "u32 list" where
  "g_aesAeadPadding = [
     HKS_PADDING_NONE]"

definition g_aesCtrPadding :: "u32 list" where
  "g_aesCtrPadding = [
     HKS_PADDING_NONE]"

definition g_aesEcbPadding :: "u32 list" where
  "g_aesEcbPadding = [
     HKS_PADDING_NONE, HKS_PADDING_PKCS7]"

definition g_desKeySize :: "u32 list" where
  "g_desKeySize = [
     HKS_DES_KEY_SIZE_64]"

definition g_desMacKeySize :: "u32 list" where
  "g_desMacKeySize = [
     HKS_DES_KEY_SIZE_64]"

definition g_desPadding :: "u32 list" where
  "g_desPadding = [
     HKS_PADDING_NONE]"

definition g_desMode :: "u32 list" where
  "g_desMode = [
     HKS_MODE_CBC, HKS_MODE_ECB]"

definition g_desCbcPadding :: "u32 list" where
  "g_desCbcPadding = [
     HKS_PADDING_NONE]"

definition g_desEcbPadding :: "u32 list" where
  "g_desEcbPadding = [
     HKS_PADDING_NONE]"

definition g_3desKeySize :: "u32 list" where
  "g_3desKeySize = [
     HKS_3DES_KEY_SIZE_128, HKS_3DES_KEY_SIZE_192]"

definition g_3desMacKeySize :: "u32 list" where
  "g_3desMacKeySize = [
     HKS_3DES_KEY_SIZE_128, HKS_3DES_KEY_SIZE_192]"

definition g_3desPadding :: "u32 list" where
  "g_3desPadding = [
     HKS_PADDING_NONE]"

definition g_3desMode :: "u32 list" where
  "g_3desMode = [
     HKS_MODE_CBC, HKS_MODE_ECB]"

definition g_3desCbcPadding :: "u32 list" where
  "g_3desCbcPadding = [
     HKS_PADDING_NONE]"

definition g_3desEcbPadding :: "u32 list" where
  "g_3desEcbPadding = [
     HKS_PADDING_NONE]"

definition g_sm4KeySize :: "u32 list" where
  "g_sm4KeySize = [
     HKS_SM4_KEY_SIZE_128]"

definition g_sm4Padding :: "u32 list" where
  "g_sm4Padding = [
     HKS_PADDING_NONE, HKS_PADDING_PKCS7]"

definition g_sm4Purpose :: "u32 list" where
  "g_sm4Purpose = [
     HKS_KEY_PURPOSE_ENCRYPT, HKS_KEY_PURPOSE_DECRYPT,
     HKS_KEY_PURPOSE_ENCRYPT OR HKS_KEY_PURPOSE_DECRYPT]"

definition g_sm4Mode :: "u32 list" where
  "g_sm4Mode = [
     HKS_MODE_CBC, HKS_MODE_CTR, HKS_MODE_ECB, HKS_MODE_CFB, HKS_MODE_OFB]"

definition g_sm4CbcPadding :: "u32 list" where
  "g_sm4CbcPadding = [
     HKS_PADDING_NONE, HKS_PADDING_PKCS7]"

definition g_sm4CtrPadding :: "u32 list" where
  "g_sm4CtrPadding = [
     HKS_PADDING_NONE]"

definition g_sm4EcbPadding :: "u32 list" where
  "g_sm4EcbPadding = [
     HKS_PADDING_NONE, HKS_PADDING_PKCS7]"

definition g_sm4CfbPadding :: "u32 list" where
  "g_sm4CfbPadding = [
     HKS_PADDING_NONE]"

definition g_sm4OfbPadding :: "u32 list" where
  "g_sm4OfbPadding = [
     HKS_PADDING_NONE]"

definition g_eccKeySize :: "u32 list" where
  "g_eccKeySize = [
     HKS_ECC_KEY_SIZE_224, HKS_ECC_KEY_SIZE_256, HKS_ECC_KEY_SIZE_384, HKS_ECC_KEY_SIZE_521]"

definition g_eccDigest :: "u32 list" where
  "g_eccDigest = [
     HKS_DIGEST_NONE, HKS_DIGEST_SHA1, HKS_DIGEST_SHA224, HKS_DIGEST_SHA256,
     HKS_DIGEST_SHA384, HKS_DIGEST_SHA512]"

definition g_sm2KeySize :: "u32 list" where
  "g_sm2KeySize = [
     HKS_SM2_KEY_SIZE_256]"

definition g_sm2Digest :: "u32 list" where
  "g_sm2Digest = [
     HKS_DIGEST_SM3, HKS_DIGEST_NONE]"

definition g_sm2CipherPadding :: "u32 list" where
  "g_sm2CipherPadding = [
     HKS_PADDING_NONE]"

definition g_sm3Digest :: "u32 list" where
  "g_sm3Digest = [
     HKS_DIGEST_SM3]"

definition g_digest :: "u32 list" where
  "g_digest = [
     HKS_DIGEST_SHA256, HKS_DIGEST_SHA384, HKS_DIGEST_SHA512]"

definition g_macDigest :: "u32 list" where
  "g_macDigest = [
     HKS_DIGEST_SHA256]"

definition g_ecdhKeySize :: "u32 list" where
  "g_ecdhKeySize = [
     HKS_ECC_KEY_SIZE_224, HKS_ECC_KEY_SIZE_256, HKS_ECC_KEY_SIZE_384, HKS_ECC_KEY_SIZE_521]"

definition g_curve25519KeySize :: "u32 list" where
  "g_curve25519KeySize = [
     HKS_CURVE25519_KEY_SIZE_256]"

definition g_hmacDigest :: "u32 list" where
  "g_hmacDigest = [
     HKS_DIGEST_SHA1, HKS_DIGEST_SHA224, HKS_DIGEST_SHA256, HKS_DIGEST_SHA384,
     HKS_DIGEST_SHA512, HKS_DIGEST_SM3]"

definition g_dsaDigest :: "u32 list" where
  "g_dsaDigest = [
     HKS_DIGEST_NONE, HKS_DIGEST_SHA1, HKS_DIGEST_SHA224, HKS_DIGEST_SHA256,
     HKS_DIGEST_SHA384, HKS_DIGEST_SHA512]"

definition g_dhKeySize :: "u32 list" where
  "g_dhKeySize = [
     HKS_DH_KEY_SIZE_2048, HKS_DH_KEY_SIZE_3072, HKS_DH_KEY_SIZE_4096]"

definition g_rsaParamSet :: "ParamsValuesChecker list" where
  "g_rsaParamSet = [
     \<lparr>pvc_checkType = HKS_CHECK_TYPE_GEN_KEY, pvc_paramValues = params_values_init
        (params_init True 0 False) (params_init True 0 False) (params_init True 0 False)
        (params_init True 0 False) (params_init False 0 False)\<rparr>,
     \<lparr>pvc_checkType = HKS_CHECK_TYPE_USE_KEY, pvc_paramValues = params_values_init
        (params_init True 0 False) (params_init True 0 False) (params_init True 0 False)
        (params_init True 0 False) (params_init False 0 False)\<rparr>]"

definition g_expectRsaParams :: "ExpectParamsValuesChecker list" where
  "g_expectRsaParams = [
     \<lparr>evc_checkType = HKS_CHECK_TYPE_GEN_KEY, evc_paramValues = expect_values_init
        (expect True g_rsaKeySize) (expect True g_rsaPadding) (expect False [])
        (expect True g_rsaDigest) (expect False [])\<rparr>,
     \<lparr>evc_checkType = HKS_CHECK_TYPE_USE_KEY, evc_paramValues = expect_values_init
        (expect True g_rsaKeySize) (expect True g_rsaPadding) (expect False [])
        (expect True g_rsaDigest) (expect False [])\<rparr>]"

definition g_aesParamSet :: "ParamsValuesChecker list" where
  "g_aesParamSet = [
     \<lparr>pvc_checkType = HKS_CHECK_TYPE_GEN_KEY, pvc_paramValues = params_values_init
        (params_init True 0 False) (params_init True 0 False) (params_init True 0 False)
        (params_init False 0 False) (params_init True 0 False)\<rparr>,
     \<lparr>pvc_checkType = HKS_CHECK_TYPE_USE_KEY, pvc_paramValues = params_values_init
        (params_init False 0 False) (params_init True 0 False) (params_init True 0 False)
        (params_init False 0 False) (params_init True 0 False)\<rparr>,
     \<lparr>pvc_checkType = HKS_CHECK_TYPE_GEN_MAC_KEY, pvc_paramValues = params_values_init
        (params_init True 0 False) (params_init False 0 False) (params_init False 0 False)
        (params_init True 0 False) (params_init False 0 False)\<rparr>,
     \<lparr>pvc_checkType = HKS_CHECK_TYPE_GEN_DERIVE_KEY, pvc_paramValues = params_values_init
        (params_init True 0 False) (params_init False 0 False) (params_init False 0 False)
        (params_init True 0 False) (params_init False 0 False)\<rparr>]"

definition g_expectAesParams :: "ExpectParamsValuesChecker list" where
  "g_expectAesParams = [
     \<lparr>evc_checkType = HKS_CHECK_TYPE_GEN_KEY, evc_paramValues = expect_values_init
        (expect True g_aesKeySize) (expect True g_aesPadding) (expect False [])
        (expect False []) (expect True g_aesMode)\<rparr>,
     \<lparr>evc_checkType = HKS_CHECK_TYPE_USE_KEY, evc_paramValues = expect_values_init
        (expect False []) (expect True g_aesPadding) (expect False [])
        (expect False []) (expect True g_aesMode)\<rparr>,
     \<lparr>evc_checkType = HKS_CHECK_TYPE_GEN_MAC_KEY, evc_paramValues = expect_values_init
        (expect True g_aesMacKeySize) (expect False []) (expect False [])
        (expect True g_macDigest) (expect False [])\<rparr>,
     \<lparr>evc_checkType = HKS_CHECK_TYPE_GEN_DERIVE_KEY, evc_paramValues = expect_values_init
        (expect True g_aesKeySize) (expect False []) (expect False [])
        (expect True g_digest) (expect False [])\<rparr>]"

definition g_desParamSet :: "ParamsValuesChecker list" where
  "g_desParamSet = [
     \<lparr>pvc_checkType = HKS_CHECK_TYPE_GEN_KEY, pvc_paramValues = params_values_init
        (params_init True 0 False) (params_init True 0 False) (params_init True 0 False)
        (params_init False 0 False) (params_init True 0 False)\<rparr>,
     \<lparr>pvc_checkType = HKS_CHECK_TYPE_USE_KEY, pvc_paramValues = params_values_init
        (params_init False 0 False) (params_init True 0 False) (params_init True 0 False)
        (params_init False 0 False) (params_init True 0 False)\<rparr>,
     \<lparr>pvc_checkType = HKS_CHECK_TYPE_GEN_MAC_KEY, pvc_paramValues = params_values_init
        (params_init True 0 False) (params_init False 0 False) (params_init False 0 False)
        (params_init True 0 False) (params_init False 0 False)\<rparr>,
     \<lparr>pvc_checkType = HKS_CHECK_TYPE_GEN_DERIVE_KEY, pvc_paramValues = params_values_init
        (params_init True 0 False) (params_init False 0 False) (params_init False 0 False)
        (params_init True 0 False) (params_init False 0 False)\<rparr>]"

definition g_expectDesParams :: "ExpectParamsValuesChecker list" where
  "g_expectDesParams = [
     \<lparr>evc_checkType = HKS_CHECK_TYPE_GEN_KEY, evc_paramValues = expect_values_init
        (expect True g_desKeySize) (expect True g_desPadding) (expect False [])
        (expect False []) (expect True g_desMode)\<rparr>,
     \<lparr>evc_checkType = HKS_CHECK_TYPE_USE_KEY, evc_paramValues = expect_values_init
        (expect False []) (expect True g_desPadding) (expect False [])
        (expect False []) (expect True g_desMode)\<rparr>,
     \<lparr>evc_checkType = HKS_CHECK_TYPE_GEN_MAC_KEY, evc_paramValues = expect_values_init
        (expect True g_desMacKeySize) (expect False []) (expect False [])
        (expect True g_macDigest) (expect False [])\<rparr>,
     \<lparr>evc_checkType = HKS_CHECK_TYPE_GEN_DERIVE_KEY, evc_paramValues = expect_values_init
        (expect True g_desKeySize) (expect False []) (expect False [])
        (expect True g_digest) (expect False [])\<rparr>]"

definition g_3desParamSet :: "ParamsValuesChecker list" where
  "g_3desParamSet = [
     \<lparr>pvc_checkType = HKS_CHECK_TYPE_GEN_KEY, pvc_paramValues = params_values_init
        (params_init True 0 False) (params_init True 0 False) (params_init True 0 False)
        (params_init False 0 False) (params_init True 0 False)\<rparr>,
     \<lparr>pvc_checkType = HKS_CHECK_TYPE_USE_KEY, pvc_paramValues = params_values_init
        (params_init False 0 False) (params_init True 0 False) (params_init True 0 False)
        (params_init False 0 False) (params_init True 0 False)\<rparr>,
     \<lparr>pvc_checkType = HKS_CHECK_TYPE_GEN_MAC_KEY, pvc_paramValues = params_values_init
        (params_init True 0 False) (params_init False 0 False) (params_init False 0 False)
        (params_init True 0 False) (params_init False 0 False)\<rparr>,
     \<lparr>pvc_checkType = HKS_CHECK_TYPE_GEN_DERIVE_KEY, pvc_paramValues = params_values_init
        (params_init True 0 False) (params_init False 0 False) (params_init False 0 False)
        (params_init True 0 False) (params_init False 0 False)\<rparr>]"

definition g_expect3DesParams :: "ExpectParamsValuesChecker list" where
  "g_expect3DesParams = [
     \<lparr>evc_checkType = HKS_CHECK_TYPE_GEN_KEY, evc_paramValues = expect_values_init
        (expect True g_3desKeySize) (expect True g_3desPadding) (expect False [])
        (expect False []) (expect True g_3desMode)\<rparr>,
     \<lparr>evc_checkType = HKS_CHECK_TYPE_USE_KEY, evc_paramValues = expect_values_init
        (expect False []) (expect True g_3desPadding) (expect False [])
        (expect False []) (expect True g_3desMode)\<rparr>,
     \<lparr>evc_checkType = HKS_CHECK_TYPE_GEN_MAC_KEY, evc_paramValues = expect_values_init
        (expect True g_3desMacKeySize) (expect False []) (expect False [])
        (expect True g_macDigest) (expect False [])\<rparr>,
     \<lparr>evc_checkType = HKS_CHECK_TYPE_GEN_DERIVE_KEY, evc_paramValues = expect_values_init
        (expect True g_3desKeySize) (expect False []) (expect False [])
        (expect True g_digest) (expect False [])\<rparr>]"

definition g_eccParamSet :: "ParamsValuesChecker list" where
  "g_eccParamSet = [
     \<lparr>pvc_checkType = HKS_CHECK_TYPE_GEN_KEY, pvc_paramValues = params_values_init
        (params_init True 0 False) (params_init False 0 False) (params_init True 0 False)
        (params_init True 0 False) (params_init False 0 False)\<rparr>,
     \<lparr>pvc_checkType = HKS_CHECK_TYPE_USE_KEY, pvc_paramValues = params_values_init
        (params_init False 0 False) (params_init False 0 False) (params_init True 0 False)
        (params_init True 0 False) (params_init False 0 False)\<rparr>]"

definition g_expectEccParams :: "ExpectParamsValuesChecker list" where
  "g_expectEccParams = [
     \<lparr>evc_checkType = HKS_CHECK_TYPE_GEN_KEY, evc_paramValues = expect_values_init
        (expect True g_eccKeySize) (expect False []) (expect False [])
        (expect True g_eccDigest) (expect False [])\<rparr>,
     \<lparr>evc_checkType = HKS_CHECK_TYPE_USE_KEY, evc_paramValues = expect_values_init
        (expect False []) (expect False []) (expect False [])
        (expect True g_eccDigest) (expect False [])\<rparr>]"

definition g_sm2ParamSet :: "ParamsValuesChecker list" where
  "g_sm2ParamSet = [
     \<lparr>pvc_checkType = HKS_CHECK_TYPE_GEN_KEY, pvc_paramValues = params_values_init
        (params_init True 0 False) (params_init False 0 False) (params_init True 0 False)
        (params_init True 0 False) (params_init False 0 False)\<rparr>,
     \<lparr>pvc_checkType = HKS_CHECK_TYPE_USE_KEY, pvc_paramValues = params_values_init
        (params_init True 0 False) (params_init False 0 False) (params_init True 0 False)
        (params_init True 0 False) (params_init False 0 False)\<rparr>]"

definition g_expectSm2Params :: "ExpectParamsValuesChecker list" where
  "g_expectSm2Params = [
     \<lparr>evc_checkType = HKS_CHECK_TYPE_GEN_KEY, evc_paramValues = expect_values_init
        (expect True g_sm2KeySize) (expect False []) (expect False [])
        (expect True g_sm2Digest) (expect False [])\<rparr>,
     \<lparr>evc_checkType = HKS_CHECK_TYPE_USE_KEY, evc_paramValues = expect_values_init
        (expect True g_sm2KeySize) (expect False []) (expect False [])
        (expect True g_sm2Digest) (expect False [])\<rparr>]"

definition g_sm3ParamSet :: "ParamsValuesChecker list" where
  "g_sm3ParamSet = [
     \<lparr>pvc_checkType = HKS_CHECK_TYPE_GEN_KEY, pvc_paramValues = params_values_init
        (params_init True 0 False) (params_init False 0 False) (params_init True 0 False)
        (params_init True 0 False) (params_init False 0 False)\<rparr>,
     \<lparr>pvc_checkType = HKS_CHECK_TYPE_GEN_MAC_KEY, pvc_paramValues = params_values_init
        (params_init True 0 False) (params_init False 0 False) (params_init True 0 False)
        (params_init True 0 False) (params_init False 0 False)\<rparr>]"

definition g_expectSm3Params :: "ExpectParamsValuesChecker list" where
  "g_expectSm3Params = [
     \<lparr>evc_checkType = HKS_CHECK_TYPE_GEN_KEY, evc_paramValues = expect_values_init
        (expect False []) (expect False []) (expect False [])
        (expect True g_sm3Digest) (expect False [])\<rparr>,
     \<lparr>evc_checkType = HKS_CHECK_TYPE_GEN_MAC_KEY, evc_paramValues = expect_values_init
        (expect False []) (expect False []) (expect False [])
        (expect True g_sm3Digest) (expect False [])\<rparr>]"

definition g_sm4ParamSet :: "ParamsValuesChecker list" where
  "g_sm4ParamSet = [
     \<lparr>pvc_checkType = HKS_CHECK_TYPE_GEN_KEY, pvc_paramValues = params_values_init
        (params_init True 0 False) (params_init True 0 False) (params_init True 0 False)
        (params_init False 0 False) (params_init True 0 False)\<rparr>,
     \<lparr>pvc_checkType = HKS_CHECK_TYPE_USE_KEY, pvc_paramValues = params_values_init
        (params_init True 0 False) (params_init True 0 False) (params_init True 0 False)
        (params_init False 0 False) (params_init True 0 False)\<rparr>,
     \<lparr>pvc_checkType = HKS_CHECK_TYPE_GEN_DERIVE_KEY, pvc_paramValues = params_values_init
        (params_init True 0 False) (params_init False 0 False) (params_init False 0 False)
        (params_init True 0 False) (params_init False 0 False)\<rparr>]"

definition g_expectSm4Params :: "ExpectParamsValuesChecker list" where
  "g_expectSm4Params = [
     \<lparr>evc_checkType = HKS_CHECK_TYPE_GEN_KEY, evc_paramValues = expect_values_init
        (expect True g_sm4KeySize) (expect True g_sm4Padding) (expect True g_sm4Purpose)
        (expect False []) (expect True g_sm4Mode)\<rparr>,
     \<lparr>evc_checkType = HKS_CHECK_TYPE_USE_KEY, evc_paramValues = expect_values_init
        (expect True g_sm4KeySize) (expect True g_sm4Padding) (expect True g_sm4Purpose)
        (expect False []) (expect True g_sm4Mode)\<rparr>,
     \<lparr>evc_checkType = HKS_CHECK_TYPE_GEN_DERIVE_KEY, evc_paramValues = expect_values_init
        (expect True g_sm4KeySize) (expect False []) (expect False [])
        (expect True g_sm3Digest) (expect False [])\<rparr>]"

definition g_curve25519ParamSet :: "ParamsValuesChecker list" where
  "g_curve25519ParamSet = [
     \<lparr>pvc_checkType = HKS_CHECK_TYPE_GEN_KEY, pvc_paramValues = params_values_init
        (params_init True 0 False) (params_init False 0 False) (params_init True 0 False)
        (params_init False 0 False) (params_init False 0 False)\<rparr>,
     \<lparr>pvc_checkType = HKS_CHECK_TYPE_USE_KEY, pvc_paramValues = params_values_init
        (params_init False 0 False) (params_init False 0 False) (params_init True 0 False)
        (params_init False 0 False) (params_init False 0 False)\<rparr>]"

definition g_expectCurve25519Params :: "ExpectParamsValuesChecker list" where
  "g_expectCurve25519Params = [
     \<lparr>evc_checkType = HKS_CHECK_TYPE_GEN_KEY, evc_paramValues = expect_values_init
        (expect True g_curve25519KeySize) (expect False []) (expect False [])
        (expect False []) (expect False [])\<rparr>,
     \<lparr>evc_checkType = HKS_CHECK_TYPE_USE_KEY, evc_paramValues = expect_values_init
        (expect False []) (expect False []) (expect False [])
        (expect False []) (expect False [])\<rparr>]"

definition g_hmacParamSet :: "ParamsValuesChecker list" where
  "g_hmacParamSet = [
     \<lparr>pvc_checkType = HKS_CHECK_TYPE_GEN_KEY, pvc_paramValues = params_values_init
        (params_init True 0 False) (params_init False 0 False) (params_init True 0 False)
        (params_init True 0 False) (params_init False 0 False)\<rparr>,
     \<lparr>pvc_checkType = HKS_CHECK_TYPE_USE_KEY, pvc_paramValues = params_values_init
        (params_init False 0 False) (params_init False 0 False) (params_init True 0 False)
        (params_init True 0 False) (params_init False 0 False)\<rparr>,
     \<lparr>pvc_checkType = HKS_CHECK_TYPE_GEN_MAC_KEY, pvc_paramValues = params_values_init
        (params_init True 0 False) (params_init False 0 False) (params_init True 0 False)
        (params_init True 0 False) (params_init False 0 False)\<rparr>]"

definition g_expectHmacParams :: "ExpectParamsValuesChecker list" where
  "g_expectHmacParams = [
     \<lparr>evc_checkType = HKS_CHECK_TYPE_GEN_KEY, evc_paramValues = expect_values_init
        (expect False []) (expect False []) (expect False [])
        (expect True g_hmacDigest) (expect False [])\<rparr>,
     \<lparr>evc_checkType = HKS_CHECK_TYPE_USE_KEY, evc_paramValues = expect_values_init
        (expect False []) (expect False []) (expect False [])
        (expect True g_hmacDigest) (expect False [])\<rparr>,
     \<lparr>evc_checkType = HKS_CHECK_TYPE_GEN_MAC_KEY, evc_paramValues = expect_values_init
        (expect False []) (expect False []) (expect False [])
        (expect True g_hmacDigest) (expect False [])\<rparr>]"

definition g_cmacParamSet :: "ParamsValuesChecker list" where
  "g_cmacParamSet = [
     \<lparr>pvc_checkType = HKS_CHECK_TYPE_GEN_KEY, pvc_paramValues = params_values_init
        (params_init True 0 False) (params_init False 0 False) (params_init True 0 False)
        (params_init True 0 False) (params_init False 0 False)\<rparr>,
     \<lparr>pvc_checkType = HKS_CHECK_TYPE_USE_KEY, pvc_paramValues = params_values_init
        (params_init False 0 False) (params_init False 0 False) (params_init True 0 False)
        (params_init True 0 False) (params_init False 0 False)\<rparr>,
     \<lparr>pvc_checkType = HKS_CHECK_TYPE_GEN_MAC_KEY, pvc_paramValues = params_values_init
        (params_init True 0 False) (params_init False 0 False) (params_init True 0 False)
        (params_init True 0 False) (params_init False 0 False)\<rparr>]"

definition g_expectCmacParams :: "ExpectParamsValuesChecker list" where
  "g_expectCmacParams = [
     \<lparr>evc_checkType = HKS_CHECK_TYPE_GEN_KEY, evc_paramValues = expect_values_init
        (expect False []) (expect False []) (expect False [])
        (expect False []) (expect False [])\<rparr>,
     \<lparr>evc_checkType = HKS_CHECK_TYPE_USE_KEY, evc_paramValues = expect_values_init
        (expect False []) (expect False []) (expect False [])
        (expect False []) (expect False [])\<rparr>,
     \<lparr>evc_checkType = HKS_CHECK_TYPE_GEN_MAC_KEY, evc_paramValues = expect_values_init
        (expect False []) (expect False []) (expect False [])
        (expect False []) (expect False [])\<rparr>]"

definition g_dsaParamSet :: "ParamsValuesChecker list" where
  "g_dsaParamSet = [
     \<lparr>pvc_checkType = HKS_CHECK_TYPE_GEN_KEY, pvc_paramValues = params_values_init
        (params_init True 0 False) (params_init False 0 False) (params_init True 0 False)
        (params_init True 0 False) (params_init False 0 False)\<rparr>,
     \<lparr>pvc_checkType = HKS_CHECK_TYPE_USE_KEY, pvc_paramValues = params_values_init
        (params_init False 0 False) (params_init False 0 False) (params_init True 0 False)
        (params_init True 0 False) (params_init False 0 False)\<rparr>]"

definition g_expectDsaParams :: "ExpectParamsValuesChecker list" where
  "g_expectDsaParams = [
     \<lparr>evc_checkType = HKS_CHECK_TYPE_GEN_KEY, evc_paramValues = expect_values_init
        (expect False []) (expect False []) (expect False [])
        (expect True g_dsaDigest) (expect False [])\<rparr>,
     \<lparr>evc_checkType = HKS_CHECK_TYPE_USE_KEY, evc_paramValues = expect_values_init
        (expect False []) (expect False []) (expect False [])
        (expect True g_dsaDigest) (expect False [])\<rparr>]"

definition g_dhParamSet :: "ParamsValuesChecker list" where
  "g_dhParamSet = [
     \<lparr>pvc_checkType = HKS_CHECK_TYPE_GEN_KEY, pvc_paramValues = params_values_init
        (params_init True 0 False) (params_init False 0 False) (params_init True 0 False)
        (params_init False 0 False) (params_init False 0 False)\<rparr>,
     \<lparr>pvc_checkType = HKS_CHECK_TYPE_USE_KEY, pvc_paramValues = params_values_init
        (params_init True 0 False) (params_init False 0 False) (params_init True 0 False)
        (params_init False 0 False) (params_init False 0 False)\<rparr>]"

definition g_expectDhParams :: "ExpectParamsValuesChecker list" where
  "g_expectDhParams = [
     \<lparr>evc_checkType = HKS_CHECK_TYPE_GEN_KEY, evc_paramValues = expect_values_init
        (expect True g_dhKeySize) (expect False []) (expect False [])
        (expect False []) (expect False [])\<rparr>,
     \<lparr>evc_checkType = HKS_CHECK_TYPE_USE_KEY, evc_paramValues = expect_values_init
        (expect True g_dhKeySize) (expect False []) (expect False [])
        (expect False []) (expect False [])\<rparr>]"

definition g_ecdhParamSet :: "ParamsValuesChecker list" where
  "g_ecdhParamSet = [
     \<lparr>pvc_checkType = HKS_CHECK_TYPE_GEN_KEY, pvc_paramValues = params_values_init
        (params_init True 0 False) (params_init False 0 False) (params_init True 0 False)
        (params_init False 0 False) (params_init False 0 False)\<rparr>,
     \<lparr>pvc_checkType = HKS_CHECK_TYPE_USE_KEY, pvc_paramValues = params_values_init
        (params_init True 0 False) (params_init False 0 False) (params_init True 0 False)
        (params_init False 0 False) (params_init False 0 False)\<rparr>]"

definition g_expectEcdhParams :: "ExpectParamsValuesChecker list" where
  "g_expectEcdhParams = [
     \<lparr>evc_checkType = HKS_CHECK_TYPE_GEN_KEY, evc_paramValues = expect_values_init
        (expect True g_ecdhKeySize) (expect False []) (expect False [])
        (expect False []) (expect False [])\<rparr>,
     \<lparr>evc_checkType = HKS_CHECK_TYPE_USE_KEY, evc_paramValues = expect_values_init
        (expect True g_ecdhKeySize) (expect False []) (expect False [])
        (expect False []) (expect False [])\<rparr>]"

definition g_invalidPurpose :: "(u32 \<times> u32) list" where
  "g_invalidPurpose = [
     (HKS_ALG_RSA, HKS_KEY_PURPOSE_DERIVE OR HKS_KEY_PURPOSE_MAC OR HKS_KEY_PURPOSE_WRAP OR HKS_KEY_PURPOSE_UNWRAP OR HKS_KEY_PURPOSE_AGREE),
     (HKS_ALG_ECC, HKS_KEY_PURPOSE_DERIVE OR HKS_KEY_PURPOSE_MAC OR HKS_KEY_PURPOSE_WRAP OR HKS_KEY_PURPOSE_ENCRYPT OR HKS_KEY_PURPOSE_DECRYPT),
     (HKS_ALG_SM2, HKS_KEY_PURPOSE_DERIVE OR HKS_KEY_PURPOSE_MAC OR HKS_KEY_PURPOSE_WRAP),
     (HKS_ALG_SM3, HKS_KEY_PURPOSE_DERIVE OR HKS_KEY_PURPOSE_SIGN OR HKS_KEY_PURPOSE_VERIFY OR HKS_KEY_PURPOSE_WRAP OR HKS_KEY_PURPOSE_UNWRAP OR HKS_KEY_PURPOSE_ENCRYPT OR HKS_KEY_PURPOSE_DECRYPT OR HKS_KEY_PURPOSE_AGREE),
     (HKS_ALG_SM4, HKS_KEY_PURPOSE_SIGN OR HKS_KEY_PURPOSE_VERIFY OR HKS_KEY_PURPOSE_WRAP OR HKS_KEY_PURPOSE_UNWRAP OR HKS_KEY_PURPOSE_MAC OR HKS_KEY_PURPOSE_AGREE),
     (HKS_ALG_AES, HKS_KEY_PURPOSE_SIGN OR HKS_KEY_PURPOSE_VERIFY OR HKS_KEY_PURPOSE_AGREE OR HKS_KEY_PURPOSE_WRAP OR HKS_KEY_PURPOSE_UNWRAP),
     (HKS_ALG_DES, HKS_KEY_PURPOSE_SIGN OR HKS_KEY_PURPOSE_VERIFY OR HKS_KEY_PURPOSE_AGREE OR HKS_KEY_PURPOSE_WRAP OR HKS_KEY_PURPOSE_UNWRAP),
     (HKS_ALG_3DES, HKS_KEY_PURPOSE_SIGN OR HKS_KEY_PURPOSE_VERIFY OR HKS_KEY_PURPOSE_AGREE OR HKS_KEY_PURPOSE_WRAP OR HKS_KEY_PURPOSE_UNWRAP),
     (HKS_ALG_ED25519, HKS_KEY_PURPOSE_DERIVE OR HKS_KEY_PURPOSE_MAC OR HKS_KEY_PURPOSE_WRAP OR HKS_KEY_PURPOSE_UNWRAP OR HKS_KEY_PURPOSE_ENCRYPT OR HKS_KEY_PURPOSE_DECRYPT),
     (HKS_ALG_X25519, HKS_KEY_PURPOSE_DERIVE OR HKS_KEY_PURPOSE_MAC OR HKS_KEY_PURPOSE_ENCRYPT OR HKS_KEY_PURPOSE_DECRYPT OR HKS_KEY_PURPOSE_WRAP),
     (HKS_ALG_HMAC, HKS_KEY_PURPOSE_DERIVE OR HKS_KEY_PURPOSE_SIGN OR HKS_KEY_PURPOSE_VERIFY OR HKS_KEY_PURPOSE_WRAP OR HKS_KEY_PURPOSE_UNWRAP OR HKS_KEY_PURPOSE_ENCRYPT OR HKS_KEY_PURPOSE_DECRYPT OR HKS_KEY_PURPOSE_AGREE),
     (HKS_ALG_CMAC, HKS_KEY_PURPOSE_DERIVE OR HKS_KEY_PURPOSE_SIGN OR HKS_KEY_PURPOSE_VERIFY OR HKS_KEY_PURPOSE_WRAP OR HKS_KEY_PURPOSE_UNWRAP OR HKS_KEY_PURPOSE_ENCRYPT OR HKS_KEY_PURPOSE_DECRYPT OR HKS_KEY_PURPOSE_AGREE),
     (HKS_ALG_DSA, HKS_KEY_PURPOSE_DERIVE OR HKS_KEY_PURPOSE_MAC OR HKS_KEY_PURPOSE_WRAP OR HKS_KEY_PURPOSE_UNWRAP OR HKS_KEY_PURPOSE_ENCRYPT OR HKS_KEY_PURPOSE_DECRYPT OR HKS_KEY_PURPOSE_AGREE),
     (HKS_ALG_DH, HKS_KEY_PURPOSE_DERIVE OR HKS_KEY_PURPOSE_MAC OR HKS_KEY_PURPOSE_WRAP OR HKS_KEY_PURPOSE_UNWRAP OR HKS_KEY_PURPOSE_ENCRYPT OR HKS_KEY_PURPOSE_DECRYPT OR HKS_KEY_PURPOSE_SIGN OR HKS_KEY_PURPOSE_VERIFY),
     (HKS_ALG_ECDH, HKS_KEY_PURPOSE_DERIVE OR HKS_KEY_PURPOSE_MAC OR HKS_KEY_PURPOSE_WRAP OR HKS_KEY_PURPOSE_UNWRAP OR HKS_KEY_PURPOSE_ENCRYPT OR HKS_KEY_PURPOSE_DECRYPT OR HKS_KEY_PURPOSE_SIGN OR HKS_KEY_PURPOSE_VERIFY)]"

definition g_invalidImportKeyPurpose :: "(u32 \<times> u32) list" where
  "g_invalidImportKeyPurpose = [
     (HKS_ALG_ECC, HKS_KEY_PURPOSE_WRAP OR HKS_KEY_PURPOSE_UNWRAP),
     (HKS_ALG_X25519, HKS_KEY_PURPOSE_WRAP OR HKS_KEY_PURPOSE_UNWRAP),
     (HKS_ALG_SM2, HKS_KEY_PURPOSE_WRAP OR HKS_KEY_PURPOSE_UNWRAP)]"

definition g_userAuthChallengeType :: "u32 list" where
  "g_userAuthChallengeType = [
     HKS_CHALLENGE_TYPE_NORMAL, HKS_CHALLENGE_TYPE_CUSTOM, HKS_CHALLENGE_TYPE_NONE]"

definition g_validBiometricAuthAccessType :: "u32 list" where
  "g_validBiometricAuthAccessType = [
     HKS_AUTH_ACCESS_INVALID_NEW_BIO_ENROLL, HKS_AUTH_ACCESS_INVALID_CLEAR_PASSWORD,
     HKS_AUTH_ACCESS_ALWAYS_VALID]"

definition g_validPinAuthAccessType :: "u32 list" where
  "g_validPinAuthAccessType = [
     HKS_AUTH_ACCESS_INVALID_CLEAR_PASSWORD, HKS_AUTH_ACCESS_ALWAYS_VALID]"

definition g_expectAuthAccessParams :: "AuthAccessTypeChecker list" where
  "g_expectAuthAccessParams = [
     \<lparr>aac_userAuthType = HKS_USER_AUTH_TYPE_FACE,
      aac_allow = expect True g_validBiometricAuthAccessType\<rparr>,
     \<lparr>aac_userAuthType = HKS_USER_AUTH_TYPE_FINGERPRINT,
      aac_allow = expect True g_validBiometricAuthAccessType\<rparr>,
     \<lparr>aac_userAuthType = HKS_USER_AUTH_TYPE_PIN,
      aac_allow = expect True g_validPinAuthAccessType\<rparr>]"

definition g_supportUserAuthTypes :: "u32 list" where
  "g_supportUserAuthTypes = [
     HKS_USER_AUTH_TYPE_PIN, HKS_USER_AUTH_TYPE_FINGERPRINT, HKS_USER_AUTH_TYPE_FACE,
     HKS_USER_AUTH_TYPE_PIN OR HKS_USER_AUTH_TYPE_FINGERPRINT,
     HKS_USER_AUTH_TYPE_PIN OR HKS_USER_AUTH_TYPE_FACE,
     HKS_USER_AUTH_TYPE_FACE OR HKS_USER_AUTH_TYPE_FINGERPRINT,
     HKS_USER_AUTH_TYPE_PIN OR HKS_USER_AUTH_TYPE_FACE OR HKS_USER_AUTH_TYPE_FINGERPRINT]"

definition g_supportSecureSignType :: "u32 list" where
  "g_supportSecureSignType = [
     HKS_SECURE_SIGN_WITH_AUTHINFO]"

definition g_supportAesPurpose :: "u32 list" where
  "g_supportAesPurpose = [
     HKS_KEY_PURPOSE_ENCRYPT, HKS_KEY_PURPOSE_DECRYPT,
     HKS_KEY_PURPOSE_ENCRYPT OR HKS_KEY_PURPOSE_DECRYPT, HKS_KEY_PURPOSE_DERIVE,
     HKS_KEY_PURPOSE_MAC]"

definition g_supportAesCipherMode :: "u32 list" where
  "g_supportAesCipherMode = [
     HKS_MODE_CBC, HKS_MODE_GCM, HKS_MODE_CCM]"

definition g_validAesKeyInfo :: "KeyInfoParams list" where
  "g_validAesKeyInfo = [
     \<lparr>ki_needCheck = True, ki_tag = HKS_TAG_PURPOSE, ki_values = g_supportAesPurpose\<rparr>,
     \<lparr>ki_needCheck = True, ki_tag = HKS_TAG_BLOCK_MODE, ki_values = g_supportAesCipherMode\<rparr>]"

definition g_supportDesPurpose :: "u32 list" where
  "g_supportDesPurpose = [
     HKS_KEY_PURPOSE_ENCRYPT, HKS_KEY_PURPOSE_DECRYPT,
     HKS_KEY_PURPOSE_ENCRYPT OR HKS_KEY_PURPOSE_DECRYPT, HKS_KEY_PURPOSE_DERIVE,
     HKS_KEY_PURPOSE_MAC]"

definition g_supportDesCipherMode :: "u32 list" where
  "g_supportDesCipherMode = [
     HKS_MODE_CBC, HKS_MODE_ECB]"

definition g_validDesKeyInfo :: "KeyInfoParams list" where
  "g_validDesKeyInfo = [
     \<lparr>ki_needCheck = True, ki_tag = HKS_TAG_PURPOSE, ki_values = g_supportDesPurpose\<rparr>,
     \<lparr>ki_needCheck = True, ki_tag = HKS_TAG_BLOCK_MODE, ki_values = g_supportDesCipherMode\<rparr>]"

definition g_support3DesPurpose :: "u32 list" where
  "g_support3DesPurpose = [
     HKS_KEY_PURPOSE_ENCRYPT, HKS_KEY_PURPOSE_DECRYPT,
     HKS_KEY_PURPOSE_ENCRYPT OR HKS_KEY_PURPOSE_DECRYPT, HKS_KEY_PURPOSE_DERIVE,
     HKS_KEY_PURPOSE_MAC]"

definition g_support3DesCipherMode :: "u32 list" where
  "g_support3DesCipherMode = [
     HKS_MODE_CBC, HKS_MODE_ECB]"

definition g_valid3DesKeyInfo :: "KeyInfoParams list" where
  "g_valid3DesKeyInfo = [
     \<lparr>ki_needCheck = True, ki_tag = HKS_TAG_PURPOSE, ki_values = g_support3DesPurpose\<rparr>,
     \<lparr>ki_needCheck = True, ki_tag = HKS_TAG_BLOCK_MODE, ki_values = g_support3DesCipherMode\<rparr>]"

definition g_supportSm4Purpose :: "u32 list" where
  "g_supportSm4Purpose = [
     HKS_KEY_PURPOSE_ENCRYPT, HKS_KEY_PURPOSE_DECRYPT,
     HKS_KEY_PURPOSE_ENCRYPT OR HKS_KEY_PURPOSE_DECRYPT]"

definition g_supportSm4CipherMode :: "u32 list" where
  "g_supportSm4CipherMode = [
     HKS_MODE_CBC]"

definition g_validSm4KeyInfo :: "KeyInfoParams list" where
  "g_validSm4KeyInfo = [
     \<lparr>ki_needCheck = True, ki_tag = HKS_TAG_PURPOSE, ki_values = g_supportSm4Purpose\<rparr>,
     \<lparr>ki_needCheck = True, ki_tag = HKS_TAG_BLOCK_MODE, ki_values = g_supportSm4CipherMode\<rparr>]"

definition g_validKeyInfo :: "AuthAcceessKeyInfoChecker list" where
  "g_validKeyInfo = [
     \<lparr>akc_keyAlg = HKS_ALG_AES, akc_params = g_validAesKeyInfo\<rparr>,
     \<lparr>akc_keyAlg = HKS_ALG_DES, akc_params = g_validDesKeyInfo\<rparr>,
     \<lparr>akc_keyAlg = HKS_ALG_3DES, akc_params = g_valid3DesKeyInfo\<rparr>,
     \<lparr>akc_keyAlg = HKS_ALG_SM4, akc_params = g_validSm4KeyInfo\<rparr>]"

text \<open>The simplifier sees through every table.\<close>

lemmas value_tables =
  g_rsaKeySize_def g_rsaPadding_def g_rsaDigest_def g_rsaSignPadding_def
  g_rsaCipherPadding_def g_aesKeySize_def g_aesMacKeySize_def g_aesPadding_def
  g_aesMode_def g_aesCbcPadding_def g_aesAeadPadding_def g_aesCtrPadding_def
  g_aesEcbPadding_def g_desKeySize_def g_desMacKeySize_def g_desPadding_def
  g_desMode_def g_desCbcPadding_def g_desEcbPadding_def g_3desKeySize_def
  g_3desMacKeySize_def g_3desPadding_def g_3desMode_def g_3desCbcPadding_def
  g_3desEcbPadding_def g_sm4KeySize_def g_sm4Padding_def g_sm4Purpose_def
  g_sm4Mode_def g_sm4CbcPadding_def g_sm4CtrPadding_def g_sm4EcbPadding_def
  g_sm4CfbPadding_def g_sm4OfbPadding_def g_eccKeySize_def g_eccDigest_def
  g_sm2KeySize_def g_sm2Digest_def g_sm2CipherPadding_def g_sm3Digest_def
  g_digest_def g_macDigest_def g_ecdhKeySize_def g_curve25519KeySize_def
  g_hmacDigest_def g_dsaDigest_def g_dhKeySize_def g_invalidPurpose_def
  g_invalidImportKeyPurpose_def g_userAuthChallengeType_def
  g_validBiometricAuthAccessType_def g_validPinAuthAccessType_def
  g_supportUserAuthTypes_def g_supportSecureSignType_def g_supportAesPurpose_def
  g_supportAesCipherMode_def g_supportDesPurpose_def g_supportDesCipherMode_def
  g_support3DesPurpose_def g_support3DesCipherMode_def g_supportSm4Purpose_def
  g_supportSm4CipherMode_def

lemmas param_tables =
  g_rsaParamSet_def g_aesParamSet_def g_desParamSet_def g_3desParamSet_def
  g_eccParamSet_def g_sm2ParamSet_def g_sm3ParamSet_def g_sm4ParamSet_def
  g_curve25519ParamSet_def g_hmacParamSet_def g_cmacParamSet_def g_dsaParamSet_def
  g_dhParamSet_def g_ecdhParamSet_def

lemmas expect_tables =
  g_expectRsaParams_def g_expectAesParams_def g_expectDesParams_def
  g_expect3DesParams_def g_expectEccParams_def g_expectSm2Params_def
  g_expectSm3Params_def g_expectSm4Params_def g_expectCurve25519Params_def
  g_expectHmacParams_def g_expectCmacParams_def g_expectDsaParams_def
  g_expectDhParams_def g_expectEcdhParams_def

lemmas auth_tables =
  g_expectAuthAccessParams_def g_validAesKeyInfo_def g_validDesKeyInfo_def
  g_valid3DesKeyInfo_def g_validSm4KeyInfo_def g_validKeyInfo_def

end
