(* ===== verification/Huks_Use_Check.thy ===== *)
theory Huks_Use_Check
  imports Huks_Check_Tables
begin

text \<open>
  The functions of \<open>frameworks/huks_standard/main/common/src/hks_base_check.c\<close>, in the order in
  which they call each other. Pointers that a function dereferences without a test are plain values.
  The modelled configuration defines every \<open>HKS_SUPPORT_*\<close> macro, and neither
  \<open>_CUT_AUTHENTICATE_\<close> nor \<open>_STORAGE_LITE_\<close>.
\<close>

section \<open>Key sizes\<close>

text \<open>
  The cast of a key blob's data to \<open>struct HksParamSet *\<close>. The contents behind a pointer stored
  in the blob are left out: the callers here compare it with \<open>NULL\<close> at most.
\<close>

definition param_at :: "bytes \<Rightarrow> nat \<Rightarrow> HksParam" where
  "param_at bs off =
     (let tag = read_u32 bs off in
      \<lparr>p_tag = tag,
       p_val = (if is_bytes_tag tag
         then VBlob \<lparr>blob_size = read_u32 bs (off + 8),
                blob_data = (if (of_le (take 8 (drop (off + 16) bs)) :: u64) = 0 then NULL else Some [])\<rparr>
         else VUlong (of_le (take 8 (drop (off + 8) bs))))\<rparr>)"

definition param_set_at :: "bytes \<Rightarrow> HksParamSet" where
  "param_set_at bs =
     \<lparr>paramSetSize = read_u32 bs 0,
      params = map (\<lambda>i. param_at bs (SIZEOF_PARAM_SET + SIZEOF_PARAM * i)) [0 ..< unat (read_u32 bs 4)],
      ps_tail = drop (SIZEOF_PARAM_SET + SIZEOF_PARAM * unat (read_u32 bs 4)) bs\<rparr>"

definition HksCheckValue :: "u32 \<Rightarrow> u32 list \<Rightarrow> rc" where
  "HksCheckValue inputValue expectValues =
     (if list_ex (\<lambda>v. inputValue = v) expectValues then HKS_SUCCESS else HKS_ERROR_INVALID_ARGUMENT)"

definition CheckAndGetKeySize :: "HksBlob \<Rightarrow> u32 list \<Rightarrow> u32 res" where
  "CheckAndGetKeySize key expectKeySize =
     (if blob_size key < word_of_nat SIZEOF_PARAM_SET then Inl HKS_ERROR_INVALID_KEY_FILE
      else
        (let keyParamSet = Some (param_set_at (blob_bytes key)) in
         if_not_succ_return (HksCheckParamSetValidity keyParamSet) (Inl HKS_ERROR_INVALID_KEY_FILE)
        (try_or (HksGetParam keyParamSet HKS_TAG_KEY_SIZE) (Inl HKS_ERROR_INVALID_KEY_FILE) (\<lambda>keySizeParam.
         if_not_succ_return (HksCheckValue (uint32Param (p_val keySizeParam)) expectKeySize)
           (Inl HKS_ERROR_INVALID_KEY_FILE)
        (Inr (uint32Param (p_val keySizeParam)))))))"

definition CheckRsaKeySize :: "u32 \<Rightarrow> rc" where
  "CheckRsaKeySize keyLen =
     (if keyLen \<ge> HKS_RSA_KEY_SIZE_1024 \<and> keyLen \<le> HKS_RSA_KEY_SIZE_2048 \<and> keyLen mod 8 = 0
      then HKS_SUCCESS else HKS_ERROR_INVALID_KEY_FILE)"

definition CheckAndGetRsaKeySize :: "HksBlob \<Rightarrow> u32 res" where
  "CheckAndGetRsaKeySize key =
     (if blob_size key < word_of_nat SIZEOF_PARAM_SET then Inl HKS_ERROR_INVALID_KEY_FILE
      else
        (let keyParamSet = Some (param_set_at (blob_bytes key)) in
         if_not_succ_return (HksCheckParamSetValidity keyParamSet) (Inl HKS_ERROR_INVALID_KEY_FILE)
        (try_or (HksGetParam keyParamSet HKS_TAG_KEY_SIZE) (Inl HKS_ERROR_INVALID_KEY_FILE) (\<lambda>keySizeParam.
         if_not_succ_return (CheckRsaKeySize (uint32Param (p_val keySizeParam)))
           (Inl HKS_ERROR_INVALID_KEY_FILE)
        (Inr (uint32Param (p_val keySizeParam)))))))"

definition HksGetDsaKeySize :: "HksBlob \<Rightarrow> u32 res" where
  "HksGetDsaKeySize key =
     (if blob_size key < word_of_nat SIZEOF_PARAM_SET then Inl HKS_ERROR_INVALID_KEY_FILE
      else
        (let keyParamSet = Some (param_set_at (blob_bytes key)) in
         if_not_succ_return (HksCheckParamSetValidity keyParamSet) (Inl HKS_ERROR_INVALID_KEY_FILE)
        (try_or (HksGetParam keyParamSet HKS_TAG_KEY_SIZE) (Inl HKS_ERROR_INVALID_KEY_FILE) (\<lambda>keySizeParam.
         Inr (uint32Param (p_val keySizeParam))))))"

definition HksGetKeySize :: "u32 \<Rightarrow> HksBlob \<Rightarrow> u32 res" where
  "HksGetKeySize alg key =
     (if alg = HKS_ALG_RSA then
        (case CheckAndGetKeySize key g_rsaKeySize of
           Inr keySize \<Rightarrow> Inr keySize
         | Inl _ \<Rightarrow> CheckAndGetRsaKeySize key)
      else if alg = HKS_ALG_DSA then HksGetDsaKeySize key
      else if alg = HKS_ALG_ECC then CheckAndGetKeySize key g_eccKeySize
      else if alg = HKS_ALG_ECDH then CheckAndGetKeySize key g_ecdhKeySize
      else if alg = HKS_ALG_X25519 \<or> alg = HKS_ALG_ED25519 then CheckAndGetKeySize key g_curve25519KeySize
      else if alg = HKS_ALG_DH then CheckAndGetKeySize key g_dhKeySize
      else if alg = HKS_ALG_SM4 then CheckAndGetKeySize key g_sm4KeySize
      else if alg = HKS_ALG_SM2 then CheckAndGetKeySize key g_sm2KeySize
      else Inl HKS_ERROR_INVALID_ALGORITHM)"

section \<open>Purposes\<close>

definition CheckPurposeUnique :: "u32 \<Rightarrow> rc" where
  "CheckPurposeUnique inputPurpose =
     (let purposeCipher = inputPurpose AND (HKS_KEY_PURPOSE_ENCRYPT OR HKS_KEY_PURPOSE_DECRYPT);
          purposeSign = inputPurpose AND (HKS_KEY_PURPOSE_SIGN OR HKS_KEY_PURPOSE_VERIFY);
          purposeDerive = inputPurpose AND HKS_KEY_PURPOSE_DERIVE;
          purposeWrap = inputPurpose AND (HKS_KEY_PURPOSE_WRAP OR HKS_KEY_PURPOSE_UNWRAP);
          purposeMac = inputPurpose AND HKS_KEY_PURPOSE_MAC;
          purposeAgree = inputPurpose AND HKS_KEY_PURPOSE_AGREE;
          purposeCount = (if purposeCipher \<noteq> 0 then 1 else 0) + (if purposeSign \<noteq> 0 then 1 else 0)
            + (if purposeDerive \<noteq> 0 then 1 else 0) + (if purposeWrap \<noteq> 0 then 1 else 0)
            + (if purposeMac \<noteq> 0 then 1 else 0) + (if purposeAgree \<noteq> 0 then 1 else (0 :: u32)) in
      if purposeCount = 1 then HKS_SUCCESS else HKS_ERROR_INVALID_PURPOSE)"

definition GetInvalidPurpose :: "u32 \<Rightarrow> u32 \<Rightarrow> u32 \<Rightarrow> rc \<times> u32" where
  "GetInvalidPurpose alg inputPurpose keyFlag =
     (let (result, inputPurpose) =
        (case List.find (\<lambda>r. alg = fst r) g_invalidPurpose of
           Some r \<Rightarrow> (HKS_SUCCESS, snd r)
         | None \<Rightarrow> (HKS_ERROR_INVALID_ALGORITHM, inputPurpose)) in
      if keyFlag \<noteq> HKS_KEY_FLAG_IMPORT_KEY then (result, inputPurpose)
      else (case List.find (\<lambda>r. alg = fst r) g_invalidImportKeyPurpose of
           Some r \<Rightarrow> (result, inputPurpose OR snd r)
         | None \<Rightarrow> (result, inputPurpose)))"

definition CheckPurposeValid :: "u32 \<Rightarrow> u32 \<Rightarrow> u32 \<Rightarrow> rc" where
  "CheckPurposeValid alg inputPurpose keyFlag =
     (let (result, invalidPurpose) = GetInvalidPurpose alg 0 keyFlag in
      if_not_succ_return result result
        (if inputPurpose AND invalidPurpose \<noteq> 0 then HKS_ERROR_INVALID_PURPOSE else HKS_SUCCESS))"

definition HksCheckGenKeyPurpose :: "u32 \<Rightarrow> u32 \<Rightarrow> u32 \<Rightarrow> rc" where
  "HksCheckGenKeyPurpose alg inputPurpose keyFlag =
     (let ret = CheckPurposeUnique inputPurpose in
      if_not_succ_return ret ret (CheckPurposeValid alg inputPurpose keyFlag))"

section \<open>Reading the parameters of a request\<close>

definition GetOptionalParams :: "HksParamSet ptr \<Rightarrow> u32 \<Rightarrow> Params \<Rightarrow> Params res" where
  "GetOptionalParams paramSet tag p =
     (if pa_needCheck p then
        (case HksGetParam paramSet tag of
           Inr param \<Rightarrow> Inr (p\<lparr>pa_value := uint32Param (p_val param)\<rparr>)
         | Inl ret \<Rightarrow>
             if ret = HKS_ERROR_PARAM_NOT_EXIST then Inr (p\<lparr>pa_isAbsent := True\<rparr>)
             else Inl HKS_ERROR_INVALID_ARGUMENT)
      else Inr p)"

text \<open>A parameter that must be there, as \<open>GetInputParams\<close> reads the key length and the purpose.\<close>

definition get_required :: "HksParamSet ptr \<Rightarrow> u32 \<Rightarrow> rc \<Rightarrow> Params \<Rightarrow> Params res" where
  "get_required paramSet tag err p =
     (if pa_needCheck p
      then try_or (HksGetParam paramSet tag) (Inl err) (\<lambda>q. Inr (p\<lparr>pa_value := uint32Param (p_val q)\<rparr>))
      else Inr p)"

definition GetInputParams :: "HksParamSet ptr \<Rightarrow> ParamsValues \<Rightarrow> ParamsValues res" where
  "GetInputParams paramSet ip =
     try_res (get_required paramSet HKS_TAG_KEY_SIZE HKS_ERROR_CHECK_GET_KEY_SIZE_FAIL (pv_keyLen ip)) (\<lambda>l.
     try_res (get_required paramSet HKS_TAG_PURPOSE HKS_ERROR_CHECK_GET_PURPOSE_FAIL (pv_purpose ip)) (\<lambda>pu.
     try_or (GetOptionalParams paramSet HKS_TAG_PADDING (pv_padding ip))
       (Inl HKS_ERROR_CHECK_GET_PADDING_FAIL) (\<lambda>pd.
     try_or (GetOptionalParams paramSet HKS_TAG_DIGEST (pv_digest ip))
       (Inl HKS_ERROR_CHECK_GET_DIGEST_FAIL) (\<lambda>d.
     try_or (GetOptionalParams paramSet HKS_TAG_BLOCK_MODE (pv_mode ip))
       (Inl HKS_ERROR_CHECK_GET_MODE_FAIL) (\<lambda>m.
     Inr \<lparr>pv_keyLen = l, pv_padding = pd, pv_purpose = pu, pv_digest = d, pv_mode = m\<rparr>)))))"

definition InitInputParams :: "CheckKeyType \<Rightarrow> ParamsValuesChecker list \<Rightarrow> ParamsValues res" where
  "InitInputParams checkType checkSet =
     (case List.find (\<lambda>c. checkType = pvc_checkType c) checkSet of
        Some c \<Rightarrow> Inr (pvc_paramValues c)
      | None \<Rightarrow> Inl HKS_ERROR_NOT_SUPPORTED)"

definition InitInputParamsByAlgOne :: "u32 \<Rightarrow> CheckKeyType \<Rightarrow> ParamsValues res" where
  "InitInputParamsByAlgOne alg checkType =
     (if alg = HKS_ALG_HMAC then InitInputParams checkType g_hmacParamSet
      else if alg = HKS_ALG_CMAC then InitInputParams checkType g_cmacParamSet
      else if alg = HKS_ALG_DSA then InitInputParams checkType g_dsaParamSet
      else if alg = HKS_ALG_DH then InitInputParams checkType g_dhParamSet
      else if alg = HKS_ALG_ECDH then InitInputParams checkType g_ecdhParamSet
      else Inl HKS_ERROR_INVALID_ALGORITHM)"

definition InitInputParamsByAlg :: "u32 \<Rightarrow> CheckKeyType \<Rightarrow> ParamsValues res" where
  "InitInputParamsByAlg alg checkType =
     (if alg = HKS_ALG_RSA then InitInputParams checkType g_rsaParamSet
      else if alg = HKS_ALG_AES then InitInputParams checkType g_aesParamSet
      else if alg = HKS_ALG_DES then InitInputParams checkType g_desParamSet
      else if alg = HKS_ALG_3DES then InitInputParams checkType g_3desParamSet
      else if alg = HKS_ALG_ECC then InitInputParams checkType g_eccParamSet
      else if alg = HKS_ALG_SM2 then InitInputParams checkType g_sm2ParamSet
      else if alg = HKS_ALG_SM3 then InitInputParams checkType g_sm3ParamSet
      else if alg = HKS_ALG_SM4 then InitInputParams checkType g_sm4ParamSet
      else if alg = HKS_ALG_X25519 \<or> alg = HKS_ALG_ED25519
      then InitInputParams checkType g_curve25519ParamSet
      else InitInputParamsByAlgOne alg checkType)"

definition HksGetInputParmasByAlg :: "u32 \<Rightarrow> CheckKeyType \<Rightarrow> HksParamSet ptr \<Rightarrow> ParamsValues res" where
  "HksGetInputParmasByAlg alg checkType paramSet =
     try_res (InitInputParamsByAlg alg checkType) (\<lambda>inputParams. GetInputParams paramSet inputParams)"

section \<open>Comparing them with the expected values\<close>

definition InitExpectParams :: "CheckKeyType \<Rightarrow> ExpectParamsValuesChecker list \<Rightarrow> ExpectParamsValues res" where
  "InitExpectParams checkType checkSet =
     (case List.find (\<lambda>c. checkType = evc_checkType c) checkSet of
        Some c \<Rightarrow> Inr (evc_paramValues c)
      | None \<Rightarrow> Inl HKS_ERROR_NOT_SUPPORTED)"

definition GetExpectParamsByAlg :: "u32 \<Rightarrow> CheckKeyType \<Rightarrow> ExpectParamsValues res" where
  "GetExpectParamsByAlg alg checkType =
     (if alg = HKS_ALG_HMAC then InitExpectParams checkType g_expectHmacParams
      else if alg = HKS_ALG_CMAC then InitExpectParams checkType g_expectCmacParams
      else if alg = HKS_ALG_DSA then InitExpectParams checkType g_expectDsaParams
      else if alg = HKS_ALG_DH then InitExpectParams checkType g_expectDhParams
      else if alg = HKS_ALG_ECDH then InitExpectParams checkType g_expectEcdhParams
      else Inl HKS_ERROR_INVALID_ALGORITHM)"

definition GetExpectParams :: "u32 \<Rightarrow> CheckKeyType \<Rightarrow> ExpectParamsValues res" where
  "GetExpectParams alg checkType =
     (if alg = HKS_ALG_RSA then InitExpectParams checkType g_expectRsaParams
      else if alg = HKS_ALG_AES then InitExpectParams checkType g_expectAesParams
      else if alg = HKS_ALG_DES then InitExpectParams checkType g_expectDesParams
      else if alg = HKS_ALG_3DES then InitExpectParams checkType g_expect3DesParams
      else if alg = HKS_ALG_ECC then InitExpectParams checkType g_expectEccParams
      else if alg = HKS_ALG_SM2 then InitExpectParams checkType g_expectSm2Params
      else if alg = HKS_ALG_SM3 then InitExpectParams checkType g_expectSm3Params
      else if alg = HKS_ALG_SM4 then InitExpectParams checkType g_expectSm4Params
      else if alg = HKS_ALG_X25519 \<or> alg = HKS_ALG_ED25519
      then InitExpectParams checkType g_expectCurve25519Params
      else GetExpectParamsByAlg alg checkType)"

definition CheckOptionalParams :: "bool \<Rightarrow> bool \<Rightarrow> u32 \<Rightarrow> u32 list \<Rightarrow> rc" where
  "CheckOptionalParams needCheck isAbsent inputValue expectValue =
     (if needCheck then
        (if \<not> isAbsent then
           (if HksCheckValue inputValue expectValue \<noteq> HKS_SUCCESS then HKS_ERROR_INVALID_ARGUMENT
            else HKS_SUCCESS)
         else HKS_SUCCESS)
      else HKS_SUCCESS)"

definition InitCheckOptionalParams :: "bool \<Rightarrow> bool \<Rightarrow> HksParam \<Rightarrow> u32 list \<Rightarrow> rc" where
  "InitCheckOptionalParams needCheck isAbsent param expectValue =
     (if needCheck then
        (if \<not> isAbsent then
           (if HksCheckValue (uint32Param (p_val param)) expectValue \<noteq> HKS_SUCCESS
            then HKS_ERROR_INVALID_ARGUMENT else HKS_SUCCESS)
         else HKS_ERROR_NOT_EXIST)
      else HKS_SUCCESS)"

definition HksCheckOptionalParam :: "u32 \<Rightarrow> u32 \<Rightarrow> u32 \<Rightarrow> bool \<Rightarrow> HksParam \<Rightarrow> rc" where
  "HksCheckOptionalParam tag alg purpose isAbsent param =
     (let special = purpose AND HKS_KEY_PURPOSE_DERIVE \<noteq> 0 \<or> purpose AND HKS_KEY_PURPOSE_MAC \<noteq> 0 in
      if special \<and> alg \<noteq> HKS_ALG_AES \<and> alg \<noteq> HKS_ALG_DES \<and> alg \<noteq> HKS_ALG_3DES
        \<and> alg \<noteq> HKS_ALG_HMAC \<and> alg \<noteq> HKS_ALG_CMAC \<and> alg \<noteq> HKS_ALG_SM3
      then HKS_ERROR_INVALID_PURPOSE
      else
        (let checkType =
           (if \<not> special then HKS_CHECK_TYPE_GEN_KEY
            else if purpose = HKS_KEY_PURPOSE_DERIVE then HKS_CHECK_TYPE_GEN_DERIVE_KEY
            else HKS_CHECK_TYPE_GEN_MAC_KEY) in
         try_rc (GetExpectParams alg checkType) (\<lambda>ev.
           if tag = HKS_TAG_BLOCK_MODE then
             if_not_succ_return (InitCheckOptionalParams (ep_needCheck (ev_mode ev)) isAbsent param
               (ep_values (ev_mode ev))) HKS_ERROR_CHECK_GET_MODE_FAIL HKS_SUCCESS
           else if tag = HKS_TAG_DIGEST then
             if_not_succ_return (InitCheckOptionalParams (ep_needCheck (ev_digest ev)) isAbsent param
               (ep_values (ev_digest ev))) HKS_ERROR_CHECK_GET_DIGEST_FAIL HKS_SUCCESS
           else if tag = HKS_TAG_PADDING then
             if_not_succ_return (InitCheckOptionalParams (ep_needCheck (ev_padding ev)) isAbsent param
               (ep_values (ev_padding ev))) HKS_ERROR_CHECK_GET_PADDING_FAIL HKS_SUCCESS
           else HKS_FAILURE)))"

definition check_optional :: "ExpectParams \<Rightarrow> Params \<Rightarrow> rc" where
  "check_optional e p = CheckOptionalParams (ep_needCheck e) (pa_isAbsent p) (pa_value p) (ep_values e)"

definition HksCheckFixedParams :: "u32 \<Rightarrow> CheckKeyType \<Rightarrow> ParamsValues \<Rightarrow> rc" where
  "HksCheckFixedParams alg checkType ip =
     try_rc (GetExpectParams alg checkType) (\<lambda>ev.
       let ret = check_optional (ev_keyLen ev) (pv_keyLen ip);
           ret = (if ret \<noteq> HKS_SUCCESS \<and> alg = HKS_ALG_RSA then CheckRsaKeySize (pa_value (pv_keyLen ip))
                  else ret) in
       if_not_succ_return ret HKS_ERROR_INVALID_KEY_SIZE
      (if_not_succ_return (check_optional (ev_padding ev) (pv_padding ip)) HKS_ERROR_INVALID_PADDING
      (if_not_succ_return (check_optional (ev_purpose ev) (pv_purpose ip)) HKS_ERROR_INVALID_PURPOSE
      (if_not_succ_return (check_optional (ev_digest ev) (pv_digest ip)) HKS_ERROR_INVALID_DIGEST
      (if_not_succ_return (check_optional (ev_mode ev) (pv_mode ip)) HKS_ERROR_INVALID_MODE
       HKS_SUCCESS)))))"

text \<open>
  The second half of \<open>hks_base_check.c\<close>: paddings by algorithm and mode, the sizes of the buffers
  of a cipher or signature request, initialisation vectors, nonces and associated data, and the
  combinations of user authentication.
\<close>

section \<open>Paddings\<close>

definition CheckRsaGenKeyPadding :: "ParamsValues \<Rightarrow> rc" where
  "CheckRsaGenKeyPadding ip =
     (if pa_isAbsent (pv_padding ip) then HKS_SUCCESS
      else if pa_value (pv_purpose ip) AND (HKS_KEY_PURPOSE_ENCRYPT OR HKS_KEY_PURPOSE_DECRYPT) \<noteq> 0
      then HksCheckValue (pa_value (pv_padding ip)) g_rsaCipherPadding
      else if pa_value (pv_purpose ip) AND (HKS_KEY_PURPOSE_SIGN OR HKS_KEY_PURPOSE_VERIFY) \<noteq> 0
      then HksCheckValue (pa_value (pv_padding ip)) g_rsaSignPadding
      else HKS_SUCCESS)"

definition CheckAesPadding :: "ParamsValues \<Rightarrow> rc" where
  "CheckAesPadding ip =
     (if pa_isAbsent (pv_mode ip) \<or> pa_isAbsent (pv_padding ip) then HKS_SUCCESS
      else
        (let mode = pa_value (pv_mode ip); padding = pa_value (pv_padding ip) in
         if mode = HKS_MODE_CBC then HksCheckValue padding g_aesCbcPadding
         else if mode = HKS_MODE_CTR then HksCheckValue padding g_aesCtrPadding
         else if mode = HKS_MODE_ECB then HksCheckValue padding g_aesEcbPadding
         else if mode = HKS_MODE_GCM \<or> mode = HKS_MODE_CCM then HksCheckValue padding g_aesAeadPadding
         else HKS_SUCCESS))"

definition CheckDesPadding :: "ParamsValues \<Rightarrow> rc" where
  "CheckDesPadding ip =
     (if pa_isAbsent (pv_mode ip) \<or> pa_isAbsent (pv_padding ip) then HKS_SUCCESS
      else
        (let mode = pa_value (pv_mode ip); padding = pa_value (pv_padding ip) in
         if mode = HKS_MODE_CBC then HksCheckValue padding g_desCbcPadding
         else if mode = HKS_MODE_ECB then HksCheckValue padding g_desEcbPadding
         else HKS_SUCCESS))"

definition Check3DesPadding :: "ParamsValues \<Rightarrow> rc" where
  "Check3DesPadding ip =
     (if pa_isAbsent (pv_mode ip) \<or> pa_isAbsent (pv_padding ip) then HKS_SUCCESS
      else
        (let mode = pa_value (pv_mode ip); padding = pa_value (pv_padding ip) in
         if mode = HKS_MODE_CBC then HksCheckValue padding g_3desCbcPadding
         else if mode = HKS_MODE_ECB then HksCheckValue padding g_3desEcbPadding
         else HKS_SUCCESS))"

definition CheckSm4Padding :: "ParamsValues \<Rightarrow> rc" where
  "CheckSm4Padding ip =
     (if pa_isAbsent (pv_mode ip) \<or> pa_isAbsent (pv_padding ip) then HKS_SUCCESS
      else
        (let mode = pa_value (pv_mode ip); padding = pa_value (pv_padding ip) in
         if mode = HKS_MODE_CBC then HksCheckValue padding g_sm4CbcPadding
         else if mode = HKS_MODE_CTR then HksCheckValue padding g_sm4CtrPadding
         else if mode = HKS_MODE_ECB then HksCheckValue padding g_sm4EcbPadding
         else if mode = HKS_MODE_CFB then HksCheckValue padding g_sm4CfbPadding
         else if mode = HKS_MODE_OFB then HksCheckValue padding g_sm4OfbPadding
         else HKS_ERROR_INVALID_ARGUMENT))"

definition HksCheckGenKeyMutableParams :: "u32 \<Rightarrow> ParamsValues \<Rightarrow> rc" where
  "HksCheckGenKeyMutableParams alg ip =
     (if alg = HKS_ALG_RSA
      then if_not_succ_return (CheckRsaGenKeyPadding ip) HKS_ERROR_INVALID_PADDING HKS_SUCCESS
      else if alg = HKS_ALG_AES
      then if_not_succ_return (CheckAesPadding ip) HKS_ERROR_INVALID_PADDING HKS_SUCCESS
      else if alg = HKS_ALG_DES
      then if_not_succ_return (CheckDesPadding ip) HKS_ERROR_INVALID_PADDING HKS_SUCCESS
      else if alg = HKS_ALG_3DES
      then if_not_succ_return (Check3DesPadding ip) HKS_ERROR_INVALID_PADDING HKS_SUCCESS
      else if alg = HKS_ALG_SM4
      then if_not_succ_return (CheckSm4Padding ip) HKS_ERROR_INVALID_PADDING HKS_SUCCESS
      else HKS_SUCCESS)"

definition CheckImportMutableParams :: "u32 \<Rightarrow> ParamsValues \<Rightarrow> rc" where
  "CheckImportMutableParams alg ip =
     (let purpose = pa_value (pv_purpose ip) in
      if (alg = HKS_ALG_DSA \<or> alg = HKS_ALG_ED25519) \<and> purpose \<noteq> HKS_KEY_PURPOSE_VERIFY
      then HKS_ERROR_INVALID_PURPOSE
      else if alg = HKS_ALG_SM2 \<and> purpose \<noteq> HKS_KEY_PURPOSE_VERIFY \<and> purpose \<noteq> HKS_KEY_PURPOSE_ENCRYPT
      then HKS_ERROR_INVALID_PURPOSE
      else if alg = HKS_ALG_ECC \<and> purpose \<noteq> HKS_KEY_PURPOSE_VERIFY \<and> purpose \<noteq> HKS_KEY_PURPOSE_UNWRAP
        \<and> purpose \<noteq> HKS_KEY_PURPOSE_AGREE
      then HKS_ERROR_INVALID_PURPOSE
      else if alg = HKS_ALG_RSA \<and> purpose \<noteq> HKS_KEY_PURPOSE_VERIFY \<and> purpose \<noteq> HKS_KEY_PURPOSE_ENCRYPT
      then HKS_ERROR_INVALID_PURPOSE
      else if alg = HKS_ALG_RSA then
        (if pa_isAbsent (pv_padding ip) then HKS_SUCCESS
         else if purpose = HKS_KEY_PURPOSE_ENCRYPT
         then HksCheckValue (pa_value (pv_padding ip)) g_rsaCipherPadding
         else if purpose = HKS_KEY_PURPOSE_VERIFY
         then HksCheckValue (pa_value (pv_padding ip)) g_rsaSignPadding
         else HKS_SUCCESS)
      else HKS_SUCCESS)"

section \<open>Signatures\<close>

definition CheckEccSignature :: "u32 \<Rightarrow> u32 \<Rightarrow> HksBlob \<Rightarrow> rc" where
  "CheckEccSignature cmdId keySize signature =
     (let eccSignRSize = keySize div HKS_BITS_PER_BYTE + keySize mod HKS_BITS_PER_BYTE;
          eccSignSSize = eccSignRSize in
      if cmdId = HKS_CMD_ID_SIGN then
        (if blob_size signature < eccSignRSize + eccSignSSize + 8 then HKS_ERROR_BUFFER_TOO_SMALL
         else HKS_SUCCESS)
      else if cmdId = HKS_CMD_ID_VERIFY then
        (if blob_size signature > eccSignRSize + eccSignSSize + 8 then HKS_ERROR_INVALID_SIGNATURE_SIZE
         else HKS_SUCCESS)
      else HKS_ERROR_INVALID_ARGUMENT)"

definition CheckEd25519Signature :: "u32 \<Rightarrow> HksBlob \<Rightarrow> rc" where
  "CheckEd25519Signature cmdId signature =
     (if cmdId = HKS_CMD_ID_SIGN then
        (if blob_size signature < HKS_SIGNATURE_MIN_SIZE then HKS_ERROR_BUFFER_TOO_SMALL
         else HKS_SUCCESS)
      else if cmdId = HKS_CMD_ID_VERIFY then
        (if blob_size signature < HKS_SIGNATURE_MIN_SIZE then HKS_ERROR_INVALID_SIGNATURE_SIZE
         else HKS_SUCCESS)
      else HKS_ERROR_INVALID_ARGUMENT)"

definition CheckRsaSignature :: "u32 \<Rightarrow> u32 \<Rightarrow> HksBlob \<Rightarrow> rc" where
  "CheckRsaSignature cmdId keySize signature =
     (if cmdId = HKS_CMD_ID_SIGN then
        (if blob_size signature < keySize div HKS_BITS_PER_BYTE then HKS_ERROR_BUFFER_TOO_SMALL
         else HKS_SUCCESS)
      else if cmdId = HKS_CMD_ID_VERIFY then
        (if blob_size signature > keySize div HKS_BITS_PER_BYTE then HKS_ERROR_INVALID_SIGNATURE_SIZE
         else HKS_SUCCESS)
      else HKS_ERROR_INVALID_ARGUMENT)"

definition HksCheckSignature :: "u32 \<Rightarrow> u32 \<Rightarrow> u32 \<Rightarrow> HksBlob \<Rightarrow> rc" where
  "HksCheckSignature cmdId alg keySize signature =
     (if alg = HKS_ALG_RSA then
        (let ret = HksCheckValue keySize g_rsaKeySize;
             ret = (if ret \<noteq> HKS_SUCCESS then CheckRsaKeySize keySize else ret) in
         if_not_succ_return ret HKS_ERROR_INVALID_ARGUMENT (CheckRsaSignature cmdId keySize signature))
      else if alg = HKS_ALG_DSA then HKS_SUCCESS
      else if alg = HKS_ALG_ECC then
        if_not_succ_return (HksCheckValue keySize g_eccKeySize) HKS_ERROR_INVALID_ARGUMENT
          (CheckEccSignature cmdId keySize signature)
      else if alg = HKS_ALG_ED25519 then CheckEd25519Signature cmdId signature
      else if alg = HKS_ALG_SM2 then
        if_not_succ_return (HksCheckValue keySize g_sm2KeySize) HKS_ERROR_INVALID_ARGUMENT
          (CheckEccSignature cmdId keySize signature)
      else HKS_ERROR_INVALID_ALGORITHM)"

definition HksCheckSignVerifyMutableParams :: "u32 \<Rightarrow> u32 \<Rightarrow> ParamsValues \<Rightarrow> rc" where
  "HksCheckSignVerifyMutableParams cmdId alg ip =
     (let purpose = pa_value (pv_purpose ip);
          rest = (if alg = HKS_ALG_RSA
            then if_not_succ_return (HksCheckValue (pa_value (pv_padding ip)) g_rsaSignPadding)
              HKS_ERROR_INVALID_PADDING HKS_SUCCESS
            else HKS_SUCCESS) in
      if cmdId = HKS_CMD_ID_SIGN then
        (if purpose AND HKS_KEY_PURPOSE_SIGN = 0 then HKS_ERROR_INVALID_PURPOSE else rest)
      else if cmdId = HKS_CMD_ID_VERIFY then
        (if purpose AND HKS_KEY_PURPOSE_VERIFY = 0 then HKS_ERROR_INVALID_PURPOSE else rest)
      else HKS_ERROR_INVALID_ARGUMENT)"

section \<open>Cipher requests\<close>

definition CheckRsaNoPadCipherData :: "u32 \<Rightarrow> HksBlob \<Rightarrow> HksBlob \<Rightarrow> rc" where
  "CheckRsaNoPadCipherData keySize inData outData =
     (if blob_size inData > keySize then HKS_ERROR_INVALID_ARGUMENT
      else if blob_size outData < keySize then HKS_ERROR_BUFFER_TOO_SMALL
      else HKS_SUCCESS)"

definition CheckRsaOaepCipherData :: "u32 \<Rightarrow> u32 \<Rightarrow> u32 \<Rightarrow> HksBlob \<Rightarrow> HksBlob \<Rightarrow> rc" where
  "CheckRsaOaepCipherData cmdId keySize digest inData outData =
     (let digest = (if digest = HKS_DIGEST_NONE then HKS_DIGEST_SHA1 else digest) in
      try_rc (HksGetDigestLen digest) (\<lambda>digestLen.
        if keySize \<le> 2 * digestLen + 2 then HKS_ERROR_INVALID_KEY_FILE
        else
          (let sz = keySize - 2 * digestLen - 2 in
           if cmdId = HKS_CMD_ID_ENCRYPT then
             (if blob_size inData > sz then HKS_ERROR_INVALID_ARGUMENT
              else if blob_size outData < keySize then HKS_ERROR_BUFFER_TOO_SMALL
              else HKS_SUCCESS)
           else if cmdId = HKS_CMD_ID_DECRYPT then
             (if blob_size inData > keySize then HKS_ERROR_INVALID_ARGUMENT
              else if blob_size outData < sz then HKS_ERROR_BUFFER_TOO_SMALL
              else HKS_SUCCESS)
           else HKS_SUCCESS)))"

definition CheckRsaCipherData :: "u32 \<Rightarrow> ParamsValues \<Rightarrow> HksBlob \<Rightarrow> HksBlob \<Rightarrow> rc" where
  "CheckRsaCipherData cmdId ip inData outData =
     (let padding = pa_value (pv_padding ip);
          keySize = pa_value (pv_keyLen ip) div HKS_BITS_PER_BYTE in
      if padding = HKS_PADDING_NONE then CheckRsaNoPadCipherData keySize inData outData
      else if padding = HKS_PADDING_OAEP
      then CheckRsaOaepCipherData cmdId keySize (pa_value (pv_digest ip)) inData outData
      else HKS_SUCCESS)"

definition CheckBlockCbcCipherData :: "u32 \<Rightarrow> u32 \<Rightarrow> u32 \<Rightarrow> HksBlob \<Rightarrow> HksBlob \<Rightarrow> rc" where
  "CheckBlockCbcCipherData mode cmdId padding inData outData =
     (let inSize = blob_size inData; outSize = blob_size outData;
          blockMode = (mode = HKS_MODE_CBC \<or> mode = HKS_MODE_ECB);
          room = (\<lambda>paddingSize.
            if outSize < inSize + paddingSize then HKS_ERROR_BUFFER_TOO_SMALL else HKS_SUCCESS) in
      if cmdId = HKS_CMD_ID_ENCRYPT then
        (if padding = HKS_PADDING_NONE then
           (if blockMode \<and> inSize mod 16 \<noteq> 0 then HKS_ERROR_INVALID_ARGUMENT else room 0)
         else
           (let paddingSize = 16 - inSize mod 16 in
            if inSize > UINT32_MAX - paddingSize then HKS_ERROR_INVALID_ARGUMENT
            else room paddingSize))
      else if cmdId = HKS_CMD_ID_DECRYPT then
        (if blockMode \<and> inSize mod 16 \<noteq> 0 then HKS_ERROR_INVALID_ARGUMENT
         else if outSize < inSize then HKS_ERROR_BUFFER_TOO_SMALL
         else HKS_SUCCESS)
      else HKS_ERROR_INVALID_ARGUMENT)"

definition CheckAesAeCipherData :: "u32 \<Rightarrow> HksBlob \<Rightarrow> HksBlob \<Rightarrow> rc" where
  "CheckAesAeCipherData cmdId inData outData =
     (let inSize = blob_size inData; outSize = blob_size outData in
      if cmdId = HKS_CMD_ID_ENCRYPT then
        (if inSize > UINT32_MAX - HKS_AE_TAG_LEN then HKS_ERROR_INVALID_ARGUMENT
         else if outSize < inSize + HKS_AE_TAG_LEN then HKS_ERROR_BUFFER_TOO_SMALL
         else HKS_SUCCESS)
      else if cmdId = HKS_CMD_ID_DECRYPT then
        (if inSize < HKS_AE_TAG_LEN \<or> outSize < inSize - HKS_AE_TAG_LEN
         then HKS_ERROR_BUFFER_TOO_SMALL else HKS_SUCCESS)
      else HKS_ERROR_INVALID_ARGUMENT)"

definition CheckBlockCipherData :: "u32 \<Rightarrow> ParamsValues \<Rightarrow> HksBlob \<Rightarrow> HksBlob \<Rightarrow> u32 \<Rightarrow> rc" where
  "CheckBlockCipherData cmdId ip inData outData alg =
     (let mode = pa_value (pv_mode ip); padding = pa_value (pv_padding ip) in
      if alg = HKS_ALG_AES \<and> (mode = HKS_MODE_CBC \<or> mode = HKS_MODE_CTR \<or> mode = HKS_MODE_ECB)
      then CheckBlockCbcCipherData mode cmdId padding inData outData
      else if alg = HKS_ALG_AES \<and> (mode = HKS_MODE_GCM \<or> mode = HKS_MODE_CCM)
      then CheckAesAeCipherData cmdId inData outData
      else if alg = HKS_ALG_DES \<and> (mode = HKS_MODE_CBC \<or> mode = HKS_MODE_ECB)
      then CheckBlockCbcCipherData mode cmdId padding inData outData
      else if alg = HKS_ALG_3DES \<and> (mode = HKS_MODE_CBC \<or> mode = HKS_MODE_ECB)
      then CheckBlockCbcCipherData mode cmdId padding inData outData
      else if alg = HKS_ALG_SM4 \<and> list_ex (\<lambda>m. mode = m) g_sm4Mode
      then CheckBlockCbcCipherData mode cmdId padding inData outData
      else HKS_ERROR_INVALID_MODE)"

definition HksCheckCipherMutableParamsByAlg :: "u32 \<Rightarrow> ParamsValues \<Rightarrow> rc" where
  "HksCheckCipherMutableParamsByAlg alg ip =
     (if alg = HKS_ALG_DES then CheckDesPadding ip
      else if alg = HKS_ALG_3DES then Check3DesPadding ip
      else HKS_ERROR_INVALID_ALGORITHM)"

text \<open>The second switch of \<open>HksCheckCipherMutableParams\<close>.\<close>

definition cipher_padding_check :: "u32 \<Rightarrow> ParamsValues \<Rightarrow> rc" where
  "cipher_padding_check alg ip =
     (let passOn = (\<lambda>ret. if_not_succ_return ret HKS_ERROR_INVALID_PADDING ret) in
      if alg = HKS_ALG_RSA then passOn (HksCheckValue (pa_value (pv_padding ip)) g_rsaCipherPadding)
      else if alg = HKS_ALG_AES then passOn (CheckAesPadding ip)
      else if alg = HKS_ALG_SM4 then passOn (CheckSm4Padding ip)
      else if alg = HKS_ALG_SM2 then passOn (HksCheckValue (pa_value (pv_padding ip)) g_sm2CipherPadding)
      else
        (let ret = HksCheckCipherMutableParamsByAlg alg ip in
         if ret = HKS_ERROR_INVALID_ALGORITHM then HKS_ERROR_INVALID_ALGORITHM else passOn ret))"

definition HksCheckCipherMutableParams :: "u32 \<Rightarrow> u32 \<Rightarrow> ParamsValues \<Rightarrow> rc" where
  "HksCheckCipherMutableParams cmdId alg ip =
     (let purpose = pa_value (pv_purpose ip) in
      if cmdId = HKS_CMD_ID_ENCRYPT then
        (if purpose AND HKS_KEY_PURPOSE_ENCRYPT = 0 then HKS_ERROR_INVALID_PURPOSE
         else cipher_padding_check alg ip)
      else if cmdId = HKS_CMD_ID_DECRYPT then
        (if purpose AND HKS_KEY_PURPOSE_DECRYPT = 0 then HKS_ERROR_INVALID_PURPOSE
         else cipher_padding_check alg ip)
      else HKS_ERROR_INVALID_ARGUMENT)"

definition HksCheckCipherData :: "u32 \<Rightarrow> u32 \<Rightarrow> ParamsValues \<Rightarrow> HksBlob \<Rightarrow> HksBlob \<Rightarrow> rc" where
  "HksCheckCipherData cmdId alg ip inData outData =
     (if alg = HKS_ALG_RSA then CheckRsaCipherData cmdId ip inData outData
      else if alg = HKS_ALG_AES then CheckBlockCipherData cmdId ip inData outData HKS_ALG_AES
      else if alg = HKS_ALG_DES then CheckBlockCipherData cmdId ip inData outData HKS_ALG_DES
      else if alg = HKS_ALG_3DES then CheckBlockCipherData cmdId ip inData outData HKS_ALG_3DES
      else if alg = HKS_ALG_SM4 then CheckBlockCipherData cmdId ip inData outData HKS_ALG_SM4
      else if alg = HKS_ALG_SM2 then HKS_SUCCESS
      else HKS_ERROR_INVALID_ALGORITHM)"

section \<open>Initialisation vectors, associated data, nonces\<close>

definition CheckBlockCipherIvMaterial :: "HksParamSet ptr \<Rightarrow> rc" where
  "CheckBlockCipherIvMaterial paramSet =
     try_or (HksGetParam paramSet HKS_TAG_IV) HKS_ERROR_CHECK_GET_IV_FAIL (\<lambda>ivParam.
       if blob_size (blobParam (p_val ivParam)) \<noteq> 16 \<or> blob_data (blobParam (p_val ivParam)) = NULL
       then HKS_ERROR_INVALID_IV else HKS_SUCCESS)"

definition CheckCipherAeAadMaterial :: "u32 \<Rightarrow> HksParamSet ptr \<Rightarrow> rc" where
  "CheckCipherAeAadMaterial mode paramSet =
     (case HksGetParam paramSet HKS_TAG_ASSOCIATED_DATA of
        Inl ret \<Rightarrow>
          if mode = HKS_MODE_GCM \<and> ret = HKS_ERROR_PARAM_NOT_EXIST then HKS_SUCCESS
          else HKS_ERROR_CHECK_GET_AAD_FAIL
      | Inr aadParam \<Rightarrow>
          if_not_succ_return (CheckBlob (Some (blobParam (p_val aadParam)))) HKS_ERROR_INVALID_AAD
            (if mode = HKS_MODE_CCM \<and> blob_size (blobParam (p_val aadParam)) < 4
             then HKS_ERROR_INVALID_AAD else HKS_SUCCESS))"

definition CheckCipherAeNonceMaterial :: "u32 \<Rightarrow> HksParamSet ptr \<Rightarrow> rc" where
  "CheckCipherAeNonceMaterial mode paramSet =
     try_or (HksGetParam paramSet HKS_TAG_NONCE) HKS_ERROR_CHECK_GET_NONCE_FAIL (\<lambda>nonceParam.
       let sz = blob_size (blobParam (p_val nonceParam)) in
       if_not_succ_return (CheckBlob (Some (blobParam (p_val nonceParam)))) HKS_ERROR_INVALID_NONCE
         (if mode = HKS_MODE_GCM then (if sz < 12 then HKS_ERROR_INVALID_NONCE else HKS_SUCCESS)
          else if mode = HKS_MODE_CCM then
            (if sz < 7 \<or> sz > 13 then HKS_ERROR_INVALID_NONCE else HKS_SUCCESS)
          else HKS_SUCCESS))"

definition CheckCipherAeMaterial :: "u32 \<Rightarrow> HksParamSet ptr \<Rightarrow> rc" where
  "CheckCipherAeMaterial mode paramSet =
     (let ret = CheckCipherAeAadMaterial mode paramSet in
      if_not_succ_return ret ret (CheckCipherAeNonceMaterial mode paramSet))"

definition HksCheckCipherMaterialParams :: "u32 \<Rightarrow> ParamsValues \<Rightarrow> HksParamSet ptr \<Rightarrow> rc" where
  "HksCheckCipherMaterialParams alg ip paramSet =
     (let mode = pa_value (pv_mode ip) in
      if alg = HKS_ALG_AES \<and> mode = HKS_MODE_CBC then CheckBlockCipherIvMaterial paramSet
      else if alg = HKS_ALG_AES \<and> (mode = HKS_MODE_CCM \<or> mode = HKS_MODE_GCM)
      then CheckCipherAeMaterial mode paramSet
      else if alg = HKS_ALG_DES \<and> mode = HKS_MODE_CBC then CheckBlockCipherIvMaterial paramSet
      else if alg = HKS_ALG_3DES \<and> mode = HKS_MODE_CBC then CheckBlockCipherIvMaterial paramSet
      else if alg = HKS_ALG_SM4 \<and> (mode = HKS_MODE_CBC \<or> mode = HKS_MODE_CTR \<or> mode = HKS_MODE_CFB
        \<or> mode = HKS_MODE_OFB)
      then CheckBlockCipherIvMaterial paramSet
      else HKS_SUCCESS)"

section \<open>User authentication\<close>

definition HasValidAuthAccessType :: "ExpectParams \<Rightarrow> u32 \<Rightarrow> u32 res" where
  "HasValidAuthAccessType allowAuthAccessTypes authAccessType =
     (case List.find (\<lambda>v. authAccessType AND v \<noteq> 0) (ep_values allowAuthAccessTypes) of
        Some v \<Rightarrow> Inr v
      | None \<Rightarrow> Inl HKS_ERROR_INVALID_ARGUMENT)"

text \<open>The loop that collects the access types the given authentication types allow.\<close>

definition valid_access_types :: "u32 \<Rightarrow> u32 \<Rightarrow> u32" where
  "valid_access_types userAuthType authAccessType =
     foldl (\<lambda>valid checker.
         if aac_userAuthType checker AND userAuthType \<noteq> 0
         then (case HasValidAuthAccessType (aac_allow checker) authAccessType of
                 Inr tempType \<Rightarrow> valid OR tempType
               | Inl _ \<Rightarrow> valid)
         else valid)
       0 g_expectAuthAccessParams"

definition HksCheckAuthAccessTypeByUserAuthType :: "u32 \<Rightarrow> u32 \<Rightarrow> rc" where
  "HksCheckAuthAccessTypeByUserAuthType userAuthType authAccessType =
     (if authAccessType \<noteq> 0 \<and> authAccessType = valid_access_types userAuthType authAccessType then
        (if authAccessType AND HKS_AUTH_ACCESS_ALWAYS_VALID \<noteq> 0
            \<and> authAccessType AND NOT HKS_AUTH_ACCESS_ALWAYS_VALID \<noteq> 0
         then HKS_ERROR_INVALID_ACCESS_TYPE else HKS_SUCCESS)
      else HKS_ERROR_INVALID_ACCESS_TYPE)"

definition HksCheckUserAuthParams :: "u32 \<Rightarrow> u32 \<Rightarrow> u32 \<Rightarrow> rc" where
  "HksCheckUserAuthParams userAuthType authAccessType challengeType =
     if_not_succ_return (HksCheckValue userAuthType g_supportUserAuthTypes) HKS_ERROR_INVALID_AUTH_TYPE
    (if_not_succ_return (HksCheckValue challengeType g_userAuthChallengeType)
       HKS_ERROR_INVALID_CHALLENGE_TYPE
    (HksCheckAuthAccessTypeByUserAuthType userAuthType authAccessType))"

definition HksCheckSecureSignParams :: "u32 \<Rightarrow> rc" where
  "HksCheckSecureSignParams secureSignType = HksCheckValue secureSignType g_supportSecureSignType"

definition HksCheckNeedCache :: "u32 \<Rightarrow> u32 \<Rightarrow> rc" where
  "HksCheckNeedCache alg digest =
     (if alg = HKS_ALG_ED25519 \<or> digest = HKS_DIGEST_NONE then HKS_SUCCESS else HKS_FAILURE)"

text \<open>A missing tag ends the loop with success, whatever tags would follow.\<close>

fun CheckUserAuthKeyInfoValidity :: "HksParamSet ptr \<Rightarrow> KeyInfoParams list \<Rightarrow> rc" where
  "CheckUserAuthKeyInfoValidity paramSet [] = HKS_SUCCESS"
| "CheckUserAuthKeyInfoValidity paramSet (k # ks) =
     (if ki_needCheck k then
        (case HksGetParam paramSet (ki_tag k) of
           Inl _ \<Rightarrow> HKS_SUCCESS
         | Inr param \<Rightarrow>
             let ret = HksCheckValue (uint32Param (p_val param)) (ki_values k) in
             if_not_succ_return ret ret (CheckUserAuthKeyInfoValidity paramSet ks))
      else CheckUserAuthKeyInfoValidity paramSet ks)"

fun user_auth_key_info_loop :: "HksParamSet ptr \<Rightarrow> u32 \<Rightarrow> rc \<Rightarrow> AuthAcceessKeyInfoChecker list \<Rightarrow> rc" where
  "user_auth_key_info_loop paramSet alg ret [] = ret"
| "user_auth_key_info_loop paramSet alg ret (k # ks) =
     (if alg = akc_keyAlg k then
        (let ret = CheckUserAuthKeyInfoValidity paramSet (akc_params k) in
         if_not_succ_return ret HKS_ERROR_NOT_SUPPORTED (user_auth_key_info_loop paramSet alg ret ks))
      else user_auth_key_info_loop paramSet alg ret ks)"

definition HksCheckUserAuthKeyInfoValidity :: "HksParamSet \<Rightarrow> rc" where
  "HksCheckUserAuthKeyInfoValidity paramSet =
     if_not_succ_return (HksCheckParamSet (Some paramSet) (paramSetSize paramSet)) HKS_ERROR_INVALID_ARGUMENT
    (try_rc (HksGetParam (Some paramSet) HKS_TAG_ALGORITHM) (\<lambda>algParam.
       user_auth_key_info_loop (Some paramSet) (uint32Param (p_val algParam)) HKS_SUCCESS g_validKeyInfo))"

definition HksAttestIsAnonymous :: "HksParamSet ptr \<Rightarrow> bool" where
  "HksAttestIsAnonymous paramSet =
     (case HksGetParam paramSet HKS_TAG_ATTESTATION_MODE of
        Inr attestParam \<Rightarrow> uint32Param (p_val attestParam) = HKS_ATTESTATION_MODE_ANONYMOUS
      | Inl _ \<Rightarrow> False)"

end
