(* ===== verification/Huks_Check_Paramset.thy ===== *)
theory Huks_Check_Paramset
  imports Huks_Use_Check
begin

text \<open>
  \<open>frameworks/huks_standard/main/common/src/hks_check_paramset.c\<close>: the checks the service runs on
  a whole request before the key engine sees it, for generating, importing, signing, agreeing,
  ciphering, deriving and computing message authentication codes. The two checks of public keys that
  only the OpenSSL engine can do are parameters of the import check.
\<close>

section \<open>Tables\<close>

definition g_genKeyAlg :: "u32 list" where
  "g_genKeyAlg = [
     HKS_ALG_RSA, HKS_ALG_AES, HKS_ALG_DES, HKS_ALG_3DES, HKS_ALG_ECC, HKS_ALG_HMAC,
     HKS_ALG_CMAC, HKS_ALG_ED25519, HKS_ALG_X25519, HKS_ALG_DSA, HKS_ALG_DH, HKS_ALG_ECDH,
     HKS_ALG_SM3, HKS_ALG_SM2, HKS_ALG_SM4]"

definition g_importKeyAlg :: "u32 list" where
  "g_importKeyAlg = [
     HKS_ALG_RSA, HKS_ALG_AES, HKS_ALG_DES, HKS_ALG_3DES, HKS_ALG_ECC, HKS_ALG_X25519,
     HKS_ALG_ED25519, HKS_ALG_DSA, HKS_ALG_DH, HKS_ALG_HMAC, HKS_ALG_CMAC, HKS_ALG_SM2,
     HKS_ALG_SM3, HKS_ALG_SM4]"

definition g_cipherAlg :: "u32 list" where
  "g_cipherAlg = [
     HKS_ALG_RSA, HKS_ALG_AES, HKS_ALG_DES, HKS_ALG_3DES, HKS_ALG_SM2, HKS_ALG_SM4]"

definition g_signAlg :: "u32 list" where
  "g_signAlg = [
     HKS_ALG_RSA, HKS_ALG_DSA, HKS_ALG_ECC, HKS_ALG_ED25519, HKS_ALG_SM2]"

definition g_agreeAlg :: "u32 list" where
  "g_agreeAlg = [
     HKS_ALG_X25519, HKS_ALG_ECDH, HKS_ALG_DH]"

definition g_agreeAlgLocal :: "u32 list" where
  "g_agreeAlgLocal = [
     HKS_ALG_ECDH, HKS_ALG_X25519, HKS_ALG_DH]"

definition g_unwrapSuite :: "u32 list" where
  "g_unwrapSuite = [
     HKS_UNWRAP_SUITE_X25519_AES_256_GCM_NOPADDING,
     HKS_UNWRAP_SUITE_ECDH_AES_256_GCM_NOPADDING,
     HKS_UNWRAP_SUITE_SM2_SM4_128_CBC_PKCS7_WITH_VERIFY_DIG_SM3,
     HKS_UNWRAP_SUITE_SM2_SM4_128_CBC_PKCS7]"

definition g_deriveAlg :: "u32 list" where
  "g_deriveAlg = [
     HKS_ALG_HKDF, HKS_ALG_PBKDF2, HKS_ALG_GMKDF]"

definition g_deriveAlgLocal :: "u32 list" where
  "g_deriveAlgLocal = [
     HKS_ALG_HKDF]"

definition g_digest_paramset :: "u32 list" where
  "g_digest_paramset = [
     HKS_DIGEST_SHA1, HKS_DIGEST_SHA224, HKS_DIGEST_SHA256, HKS_DIGEST_SHA384,
     HKS_DIGEST_SHA512, HKS_DIGEST_SM3]"

definition g_macDigest_paramset :: "u32 list" where
  "g_macDigest_paramset = [
     HKS_DIGEST_SHA1, HKS_DIGEST_SHA224, HKS_DIGEST_SHA256, HKS_DIGEST_SHA384,
     HKS_DIGEST_SHA512, HKS_DIGEST_SM3]"

definition g_aesKeySizeLocal :: "u32 list" where
  "g_aesKeySizeLocal = [
     HKS_AES_KEY_SIZE_128, HKS_AES_KEY_SIZE_192, HKS_AES_KEY_SIZE_256]"

definition g_desKeySizeLocal :: "u32 list" where
  "g_desKeySizeLocal = [
     HKS_DES_KEY_SIZE_64]"

definition g_3desKeySizeLocal :: "u32 list" where
  "g_3desKeySizeLocal = [
     HKS_3DES_KEY_SIZE_128, HKS_3DES_KEY_SIZE_192]"

definition g_rsaKeySizeLocal :: "u32 list" where
  "g_rsaKeySizeLocal = [
     HKS_RSA_KEY_SIZE_512, HKS_RSA_KEY_SIZE_768, HKS_RSA_KEY_SIZE_1024,
     HKS_RSA_KEY_SIZE_2048, HKS_RSA_KEY_SIZE_3072, HKS_RSA_KEY_SIZE_4096]"

definition g_cipherAlgLocal :: "u32 list" where
  "g_cipherAlgLocal = [
     HKS_ALG_AES, HKS_ALG_DES, HKS_ALG_3DES, HKS_ALG_RSA]"

definition g_symmetricAlgorithm :: "u32 list" where
  "g_symmetricAlgorithm = [
     HKS_ALG_AES, HKS_ALG_DES, HKS_ALG_3DES, HKS_ALG_HMAC, HKS_ALG_CMAC, HKS_ALG_SM3,
     HKS_ALG_SM4]"

lemmas request_tables =
  g_genKeyAlg_def g_importKeyAlg_def g_cipherAlg_def g_signAlg_def g_agreeAlg_def
  g_agreeAlgLocal_def g_unwrapSuite_def g_deriveAlg_def g_deriveAlgLocal_def
  g_digest_paramset_def g_macDigest_paramset_def g_aesKeySizeLocal_def
  g_desKeySizeLocal_def g_3desKeySizeLocal_def g_rsaKeySizeLocal_def
  g_cipherAlgLocal_def g_symmetricAlgorithm_def

section \<open>Algorithm and digest of a request\<close>

definition CheckAndGetAlgorithm :: "HksParamSet ptr \<Rightarrow> u32 list \<Rightarrow> u32 res" where
  "CheckAndGetAlgorithm paramSet expectAlg =
     try_or (HksGetParam paramSet HKS_TAG_ALGORITHM) (Inl HKS_ERROR_CHECK_GET_ALG_FAIL) (\<lambda>algParam.
     if_not_succ_return (HksCheckValue (uint32Param (p_val algParam)) expectAlg)
       (Inl HKS_ERROR_INVALID_ALGORITHM)
     (Inr (uint32Param (p_val algParam))))"

definition CheckAndGetDigest :: "HksParamSet ptr \<Rightarrow> u32 list \<Rightarrow> u32 res" where
  "CheckAndGetDigest paramSet expectDigest =
     try_or (HksGetParam paramSet HKS_TAG_DIGEST) (Inl HKS_ERROR_CHECK_GET_DIGEST_FAIL) (\<lambda>digestParam.
     if_not_succ_return (HksCheckValue (uint32Param (p_val digestParam)) expectDigest)
       (Inl HKS_ERROR_INVALID_DIGEST)
     (Inr (uint32Param (p_val digestParam))))"

section \<open>Generating keys\<close>

text \<open>On success these functions also fill the caller's \<open>params\<close>.\<close>

definition CheckGenKeyParamsByAlg :: "u32 \<Rightarrow> HksParamSet ptr \<Rightarrow> u32 \<Rightarrow> ParamsValues res" where
  "CheckGenKeyParamsByAlg alg paramSet keyFlag =
     try_res (HksGetInputParmasByAlg alg HKS_CHECK_TYPE_GEN_KEY paramSet) (\<lambda>ip.
       let ret = HksCheckFixedParams alg HKS_CHECK_TYPE_GEN_KEY ip in if_not_succ_return ret (Inl ret)
      (let ret = HksCheckGenKeyPurpose alg (pa_value (pv_purpose ip)) keyFlag in
         if_not_succ_return ret (Inl ret)
      (let ret = HksCheckGenKeyMutableParams alg ip in if_not_succ_return ret (Inl ret) (Inr ip))))"

definition CheckGenKeyMacDeriveParams :: "u32 \<Rightarrow> u32 \<Rightarrow> HksParamSet ptr \<Rightarrow> u32 \<Rightarrow> ParamsValues res" where
  "CheckGenKeyMacDeriveParams alg inputPurpose paramSet keyFlag =
     (if alg \<noteq> HKS_ALG_AES \<and> alg \<noteq> HKS_ALG_DES \<and> alg \<noteq> HKS_ALG_3DES \<and> alg \<noteq> HKS_ALG_HMAC
         \<and> alg \<noteq> HKS_ALG_CMAC \<and> alg \<noteq> HKS_ALG_SM3 \<and> alg \<noteq> HKS_ALG_SM4
      then Inl HKS_ERROR_INVALID_PURPOSE
      else
        (let ret = HksCheckGenKeyPurpose alg inputPurpose keyFlag in if_not_succ_return ret (Inl ret)
        (let checkType = (if inputPurpose = HKS_KEY_PURPOSE_MAC then HKS_CHECK_TYPE_GEN_MAC_KEY
                          else HKS_CHECK_TYPE_GEN_DERIVE_KEY) in
         try_res (HksGetInputParmasByAlg alg checkType paramSet) (\<lambda>ip.
           let ret = HksCheckFixedParams alg checkType ip in if_not_succ_return ret (Inl ret) (Inr ip)))))"

definition CoreCheckGenKeyParams :: "HksParamSet ptr \<Rightarrow> u32 \<Rightarrow> ParamsValues res" where
  "CoreCheckGenKeyParams paramSet keyFlag =
     (let ret = HksCheckParamSetTag paramSet in if_not_succ_return ret (Inl ret)
     (try_res (CheckAndGetAlgorithm paramSet g_genKeyAlg) (\<lambda>alg.
      try_or (HksGetParam paramSet HKS_TAG_PURPOSE) (Inl HKS_ERROR_CHECK_GET_PURPOSE_FAIL)
        (\<lambda>purposeParam.
          let purpose = uint32Param (p_val purposeParam);
              outside = (case HksGetParam paramSet HKS_TAG_BATCH_PURPOSE of
                  Inr batchPurposeParam \<Rightarrow> purpose OR uint32Param (p_val batchPurposeParam) \<noteq> purpose
                | Inl _ \<Rightarrow> False) in
          if outside then Inl HKS_ERROR_INVALID_PURPOSE
          else if purpose AND HKS_KEY_PURPOSE_DERIVE \<noteq> 0 \<or> purpose AND HKS_KEY_PURPOSE_MAC \<noteq> 0
          then CheckGenKeyMacDeriveParams alg purpose paramSet keyFlag
          else CheckGenKeyParamsByAlg alg paramSet keyFlag))))"

definition HksCoreCheckGenKeyParams :: "HksParamSet ptr \<Rightarrow> u32 \<Rightarrow> rc" where
  "HksCoreCheckGenKeyParams paramSet keyFlag =
     try_rc (CoreCheckGenKeyParams paramSet keyFlag) (\<lambda>_. HKS_SUCCESS)"

section \<open>Importing keys\<close>

text \<open>The headers of key material, and the casts of a key blob's data to them.\<close>

record HksPubKeyInfo =
  pk_keyAlg :: u32
  pk_keySize :: u32
  pk_nOrXSize :: u32
  pk_eOrYSize :: u32
  pk_placeHolder :: u32

record HksKeyMaterialRsa =
  rsa_keyAlg :: u32
  rsa_keySize :: u32
  rsa_nSize :: u32
  rsa_eSize :: u32
  rsa_dSize :: u32

record HksKeyMaterialEcc =
  ecc_keyAlg :: u32
  ecc_keySize :: u32
  ecc_xSize :: u32
  ecc_ySize :: u32
  ecc_zSize :: u32

record HksKeyMaterialDsa =
  dsa_keyAlg :: u32
  dsa_keySize :: u32
  dsa_xSize :: u32
  dsa_ySize :: u32
  dsa_pSize :: u32
  dsa_qSize :: u32
  dsa_gSize :: u32

text \<open>\<open>HksKeyMaterialDh\<close> and \<open>HksKeyMaterial25519\<close> have the same fields.\<close>

record HksKeyMaterialDh =
  dh_keyAlg :: u32
  dh_keySize :: u32
  dh_pubKeySize :: u32
  dh_priKeySize :: u32
  dh_reserved :: u32

definition as_HksPubKeyInfo :: "HksBlob \<Rightarrow> HksPubKeyInfo" where
  "as_HksPubKeyInfo key = (let d = blob_bytes key in
     \<lparr>pk_keyAlg = read_u32 d 0, pk_keySize = read_u32 d 4, pk_nOrXSize = read_u32 d 8,
      pk_eOrYSize = read_u32 d 12, pk_placeHolder = read_u32 d 16\<rparr>)"

definition as_HksKeyMaterialRsa :: "HksBlob \<Rightarrow> HksKeyMaterialRsa" where
  "as_HksKeyMaterialRsa key = (let d = blob_bytes key in
     \<lparr>rsa_keyAlg = read_u32 d 0, rsa_keySize = read_u32 d 4, rsa_nSize = read_u32 d 8,
      rsa_eSize = read_u32 d 12, rsa_dSize = read_u32 d 16\<rparr>)"

definition as_HksKeyMaterialEcc :: "HksBlob \<Rightarrow> HksKeyMaterialEcc" where
  "as_HksKeyMaterialEcc key = (let d = blob_bytes key in
     \<lparr>ecc_keyAlg = read_u32 d 0, ecc_keySize = read_u32 d 4, ecc_xSize = read_u32 d 8,
      ecc_ySize = read_u32 d 12, ecc_zSize = read_u32 d 16\<rparr>)"

definition as_HksKeyMaterialDsa :: "HksBlob \<Rightarrow> HksKeyMaterialDsa" where
  "as_HksKeyMaterialDsa key = (let d = blob_bytes key in
     \<lparr>dsa_keyAlg = read_u32 d 0, dsa_keySize = read_u32 d 4, dsa_xSize = read_u32 d 8,
      dsa_ySize = read_u32 d 12, dsa_pSize = read_u32 d 16, dsa_qSize = read_u32 d 20,
      dsa_gSize = read_u32 d 24\<rparr>)"

definition as_HksKeyMaterialDh :: "HksBlob \<Rightarrow> HksKeyMaterialDh" where
  "as_HksKeyMaterialDh key = (let d = blob_bytes key in
     \<lparr>dh_keyAlg = read_u32 d 0, dh_keySize = read_u32 d 4, dh_pubKeySize = read_u32 d 8,
      dh_priKeySize = read_u32 d 12, dh_reserved = read_u32 d 16\<rparr>)"

definition CheckImportKeySize :: "u32 \<Rightarrow> ParamsValues \<Rightarrow> HksBlob \<Rightarrow> rc" where
  "CheckImportKeySize alg ip key =
     (if alg = HKS_ALG_ED25519 \<or> alg = HKS_ALG_X25519 \<or> alg = HKS_ALG_RSA \<or> alg = HKS_ALG_ECC
         \<or> alg = HKS_ALG_SM2 \<or> alg = HKS_ALG_DH then
        (if blob_size key < 20 then HKS_ERROR_INVALID_KEY_INFO
         else
           (let keyMaterial = as_HksPubKeyInfo key in
            if pk_keyAlg keyMaterial \<noteq> alg \<or> pk_keySize keyMaterial \<noteq> pa_value (pv_keyLen ip)
            then HKS_ERROR_INVALID_KEY_INFO else HKS_SUCCESS))
      else if alg = HKS_ALG_DSA then HKS_SUCCESS
      else HKS_ERROR_INVALID_ALGORITHM)"

definition CheckAndGetWrappedKeyUnwrapAlgSuite :: "HksParamSet ptr \<Rightarrow> u32 res" where
  "CheckAndGetWrappedKeyUnwrapAlgSuite paramSet =
     try_or (HksGetParam paramSet HKS_TAG_UNWRAP_ALGORITHM_SUITE) (Inl HKS_ERROR_CHECK_GET_ALG_FAIL)
       (\<lambda>algorithmSuite.
     if_not_succ_return (HksCheckValue (uint32Param (p_val algorithmSuite)) g_unwrapSuite)
       (Inl HKS_ERROR_INVALID_ALGORITHM)
     (Inr (uint32Param (p_val algorithmSuite))))"

definition CheckRsaKeyLen :: "u32 \<Rightarrow> ParamsValues \<Rightarrow> HksBlob \<Rightarrow> rc" where
  "CheckRsaKeyLen alg ip key =
     (if blob_size key < 20 then HKS_ERROR_INVALID_KEY_INFO
      else
        (let km = as_HksKeyMaterialRsa key in
         if rsa_keyAlg km \<noteq> alg \<or> rsa_keySize km \<noteq> pa_value (pv_keyLen ip)
         then HKS_ERROR_INVALID_KEY_INFO
         else if rsa_nSize km > HKS_RSA_KEY_SIZE_4096 \<or> rsa_nSize km = 0
           \<or> rsa_dSize km > HKS_RSA_KEY_SIZE_4096 \<or> rsa_dSize km = 0
           \<or> rsa_eSize km > HKS_RSA_KEY_SIZE_4096 \<or> rsa_eSize km = 0
         then HKS_ERROR_INVALID_KEY_INFO
         else
           (let keySize = 20 + rsa_nSize km + rsa_dSize km + rsa_eSize km in
            if blob_size key < keySize then HKS_ERROR_INVALID_KEY_INFO else HKS_SUCCESS)))"

definition CheckEccKeyLen :: "u32 \<Rightarrow> u32 \<Rightarrow> ParamsValues \<Rightarrow> HksBlob \<Rightarrow> rc" where
  "CheckEccKeyLen alg keyType ip key =
     (if blob_size key < 20 then HKS_ERROR_INVALID_KEY_INFO
      else
        (let km = as_HksKeyMaterialEcc key in
         if ecc_keyAlg km \<noteq> alg \<or> ecc_keySize km \<noteq> pa_value (pv_keyLen ip)
         then HKS_ERROR_INVALID_KEY_INFO
         else if ecc_xSize km > HKS_ECC_KEY_SIZE_521 \<or> ecc_ySize km > HKS_ECC_KEY_SIZE_521
           \<or> ecc_zSize km > HKS_ECC_KEY_SIZE_521
         then HKS_ERROR_INVALID_KEY_INFO
         else if ecc_zSize km = 0 then HKS_ERROR_INVALID_KEY_INFO
         else if keyType = HKS_KEY_TYPE_KEY_PAIR \<and> (ecc_xSize km = 0 \<or> ecc_ySize km = 0)
         then HKS_ERROR_INVALID_KEY_INFO
         else
           (let keySize = 20 + ecc_xSize km + ecc_ySize km + ecc_zSize km in
            if blob_size key < keySize then HKS_ERROR_INVALID_KEY_INFO else HKS_SUCCESS)))"

definition CheckDsaKeyLen :: "u32 \<Rightarrow> u32 \<Rightarrow> ParamsValues \<Rightarrow> HksBlob \<Rightarrow> rc" where
  "CheckDsaKeyLen alg keyType ip key =
     (if blob_size key < 28 then HKS_ERROR_INVALID_KEY_INFO
      else
        (let km = as_HksKeyMaterialDsa key in
         if dsa_keyAlg km \<noteq> alg \<or> dsa_keySize km \<noteq> pa_value (pv_keyLen ip)
         then HKS_ERROR_INVALID_KEY_INFO
         else if dsa_xSize km > MAX_KEY_SIZE \<or> dsa_ySize km > MAX_KEY_SIZE \<or> dsa_pSize km > MAX_KEY_SIZE
           \<or> dsa_qSize km > MAX_KEY_SIZE \<or> dsa_gSize km > MAX_KEY_SIZE
         then HKS_ERROR_INVALID_KEY_INFO
         else if dsa_xSize km = 0 \<or> dsa_pSize km = 0 \<or> dsa_qSize km = 0 \<or> dsa_gSize km = 0
         then HKS_ERROR_INVALID_KEY_INFO
         else if keyType = HKS_KEY_TYPE_KEY_PAIR \<and> dsa_ySize km = 0 then HKS_ERROR_INVALID_KEY_INFO
         else
           (let keySize = 28 + dsa_xSize km + dsa_ySize km + dsa_pSize km + dsa_qSize km + dsa_gSize km in
            if blob_size key < keySize then HKS_ERROR_INVALID_KEY_INFO else HKS_SUCCESS)))"

definition CheckCurve25519KeyLen :: "u32 \<Rightarrow> u32 \<Rightarrow> ParamsValues \<Rightarrow> HksBlob \<Rightarrow> rc" where
  "CheckCurve25519KeyLen alg keyType ip key =
     (if blob_size key < 20 then HKS_ERROR_INVALID_KEY_INFO
      else
        (let km = as_HksKeyMaterialDh key in
         if dh_keyAlg km \<noteq> alg \<or> dh_keySize km \<noteq> pa_value (pv_keyLen ip)
         then HKS_ERROR_INVALID_KEY_INFO
         else if dh_pubKeySize km > HKS_CURVE25519_KEY_SIZE_256
           \<or> dh_priKeySize km > HKS_CURVE25519_KEY_SIZE_256
         then HKS_ERROR_INVALID_KEY_INFO
         else if dh_priKeySize km = 0 then HKS_ERROR_INVALID_KEY_INFO
         else if keyType = HKS_KEY_TYPE_KEY_PAIR \<and> dh_pubKeySize km = 0 then HKS_ERROR_INVALID_KEY_INFO
         else
           (let keySize = 20 + dh_pubKeySize km + dh_priKeySize km in
            if blob_size key < keySize then HKS_ERROR_INVALID_KEY_INFO else HKS_SUCCESS)))"

definition CheckDHKeyLen :: "u32 \<Rightarrow> u32 \<Rightarrow> ParamsValues \<Rightarrow> HksBlob \<Rightarrow> rc" where
  "CheckDHKeyLen alg keyType ip key =
     (if blob_size key < 20 then HKS_ERROR_INVALID_KEY_INFO
      else
        (let km = as_HksKeyMaterialDh key in
         if dh_keyAlg km \<noteq> alg \<or> dh_keySize km \<noteq> pa_value (pv_keyLen ip)
         then HKS_ERROR_INVALID_KEY_INFO
         else if dh_pubKeySize km > HKS_DH_KEY_SIZE_4096 \<or> dh_priKeySize km > HKS_DH_KEY_SIZE_4096
         then HKS_ERROR_INVALID_KEY_INFO
         else if dh_priKeySize km = 0 then HKS_ERROR_INVALID_KEY_INFO
         else if keyType = HKS_KEY_TYPE_KEY_PAIR \<and> dh_pubKeySize km = 0 then HKS_ERROR_INVALID_KEY_INFO
         else
           (let keySize = 20 + dh_pubKeySize km + dh_priKeySize km in
            if blob_size key < keySize then HKS_ERROR_INVALID_KEY_INFO else HKS_SUCCESS)))"

definition CheckKeyLen :: "u32 \<Rightarrow> u32 \<Rightarrow> ParamsValues \<Rightarrow> HksBlob \<Rightarrow> rc" where
  "CheckKeyLen alg keyType ip key =
     (if alg = HKS_ALG_RSA then CheckRsaKeyLen alg ip key
      else if alg = HKS_ALG_ECC \<or> alg = HKS_ALG_SM2 then CheckEccKeyLen alg keyType ip key
      else if alg = HKS_ALG_DSA then CheckDsaKeyLen alg keyType ip key
      else if alg = HKS_ALG_X25519 \<or> alg = HKS_ALG_ED25519 then CheckCurve25519KeyLen alg keyType ip key
      else if alg = HKS_ALG_DH then CheckDHKeyLen alg keyType ip key
      else HKS_ERROR_INVALID_ALGORITHM)"

definition CheckMutableParams :: "u32 \<Rightarrow> u32 \<Rightarrow> ParamsValues \<Rightarrow> rc" where
  "CheckMutableParams alg keyType ip =
     (let purpose = pa_value (pv_purpose ip) in
      if keyType = HKS_KEY_TYPE_KEY_PAIR then HKS_SUCCESS
      else if alg = HKS_ALG_RSA then
        (if purpose \<noteq> HKS_KEY_PURPOSE_SIGN \<and> purpose \<noteq> HKS_KEY_PURPOSE_DECRYPT
         then HKS_ERROR_INVALID_PURPOSE else HKS_SUCCESS)
      else if alg = HKS_ALG_ECC then
        (if purpose \<noteq> HKS_KEY_PURPOSE_SIGN \<and> purpose \<noteq> HKS_KEY_PURPOSE_AGREE
            \<and> purpose \<noteq> HKS_KEY_PURPOSE_UNWRAP
         then HKS_ERROR_INVALID_PURPOSE else HKS_SUCCESS)
      else if alg = HKS_ALG_SM2 \<or> alg = HKS_ALG_DSA \<or> alg = HKS_ALG_ED25519 then
        (if purpose \<noteq> HKS_KEY_PURPOSE_SIGN then HKS_ERROR_INVALID_PURPOSE else HKS_SUCCESS)
      else if alg = HKS_ALG_X25519 \<or> alg = HKS_ALG_DH then HKS_SUCCESS
      else HKS_ERROR_INVALID_ALGORITHM)"

definition CheckImportKey :: "u32 \<Rightarrow> u32 \<Rightarrow> ParamsValues \<Rightarrow> HksBlob \<Rightarrow> rc" where
  "CheckImportKey alg keyType ip key =
     (let ret = CheckKeyLen alg keyType ip key in
      if_not_succ_return ret ret (CheckMutableParams alg keyType ip))"

definition CheckImportSymmetricKeySize :: "ParamsValues \<Rightarrow> HksBlob \<Rightarrow> rc" where
  "CheckImportSymmetricKeySize ip key =
     (if blob_size key \<noteq> HKS_KEY_BYTES (pa_value (pv_keyLen ip)) then HKS_ERROR_INVALID_KEY_INFO
      else HKS_SUCCESS)"

text \<open>
  \<open>checkDh\<close> and \<open>checkRsa\<close> stand for \<open>HksOpensslCheckDhKey\<close> and \<open>HksOpensslCheckRsaKey\<close>.
\<close>

definition HksCoreCheckImportKeyParams ::
    "(HksBlob \<Rightarrow> u32 \<Rightarrow> rc) \<Rightarrow> (HksBlob \<Rightarrow> rc) \<Rightarrow> HksBlob \<Rightarrow> HksParamSet ptr \<Rightarrow> rc" where
  "HksCoreCheckImportKeyParams checkDh checkRsa key paramSet =
     try_rc (CoreCheckGenKeyParams paramSet HKS_KEY_FLAG_IMPORT_KEY) (\<lambda>ip.
     try_rc (CheckAndGetAlgorithm paramSet g_importKeyAlg) (\<lambda>alg.
       if alg = HKS_ALG_AES \<or> alg = HKS_ALG_DES \<or> alg = HKS_ALG_3DES \<or> alg = HKS_ALG_SM3
         \<or> alg = HKS_ALG_SM4 \<or> alg = HKS_ALG_HMAC \<or> alg = HKS_ALG_CMAC
       then CheckImportSymmetricKeySize ip key
       else
         (let later = (let ret = CheckImportKeySize alg ip key in
                if_not_succ_return ret ret (CheckImportMutableParams alg ip));
              engine = (\<lambda>keyType.
                if keyType \<noteq> HKS_KEY_TYPE_PRIVATE_KEY then
                  (if alg = HKS_ALG_DH then checkDh key keyType
                   else if alg = HKS_ALG_RSA then checkRsa key
                   else HKS_SUCCESS)
                else HKS_SUCCESS) in
          case HksGetParam paramSet HKS_TAG_IMPORT_KEY_TYPE of
            Inr importKeyTypeParam \<Rightarrow>
              (let keyType = uint32Param (p_val importKeyTypeParam) in
               if keyType \<noteq> HKS_KEY_TYPE_PUBLIC_KEY then
                 (let ret = CheckImportKey alg keyType ip key in if_not_succ_return ret ret
                 (engine keyType))
               else
                 (let ret = engine keyType in if_not_succ_return ret ret later))
          | Inl _ \<Rightarrow> later)))"

definition HksCoreCheckImportWrappedKeyParams ::
    "HksBlob ptr \<Rightarrow> HksBlob ptr \<Rightarrow> HksParamSet ptr \<Rightarrow> u32 res" where
  "HksCoreCheckImportWrappedKeyParams key wrappedKeyData paramSet =
     if_not_succ_return (CheckBlob key) (Inl HKS_ERROR_INVALID_ARGUMENT)
    (try_res (CheckAndGetWrappedKeyUnwrapAlgSuite paramSet) (\<lambda>unwrapSuite.
       let ret = HksCheckWrappedDataFormatValidity wrappedKeyData HKS_IMPORT_WRAPPED_KEY_TOTAL_BLOBS NULL in
       if_not_succ_return ret (Inl ret)
      (try_res (CoreCheckGenKeyParams paramSet HKS_KEY_FLAG_IMPORT_KEY) (\<lambda>_.
       try_res (CheckAndGetAlgorithm paramSet g_importKeyAlg) (\<lambda>_.
       Inr unwrapSuite)))))"

section \<open>Using keys\<close>

definition CheckSignVerifyParamsByAlg :: "u32 \<Rightarrow> u32 \<Rightarrow> ParamsValues \<Rightarrow> rc" where
  "CheckSignVerifyParamsByAlg cmdId alg ip =
     (let ret = HksCheckFixedParams alg HKS_CHECK_TYPE_USE_KEY ip in
      if_not_succ_return ret ret (HksCheckSignVerifyMutableParams cmdId alg ip))"

definition CheckCipherParamsByAlg :: "u32 \<Rightarrow> u32 \<Rightarrow> HksParamSet ptr \<Rightarrow> ParamsValues \<Rightarrow> rc" where
  "CheckCipherParamsByAlg cmdId alg paramSet ip =
     (let ret = HksCheckFixedParams alg HKS_CHECK_TYPE_USE_KEY ip in if_not_succ_return ret ret
     (let ret = HksCheckCipherMutableParams cmdId alg ip in if_not_succ_return ret ret
     (HksCheckCipherMaterialParams alg ip paramSet)))"

definition CheckPbkdf2DeriveKeyParams :: "HksParamSet ptr \<Rightarrow> rc" where
  "CheckPbkdf2DeriveKeyParams paramSet =
     try_or (HksGetParam paramSet HKS_TAG_ITERATION) HKS_ERROR_CHECK_GET_ITERATION_FAIL (\<lambda>iterationParam.
       if uint32Param (p_val iterationParam) < 1000 \<or> uint32Param (p_val iterationParam) > 0x80000
       then HKS_ERROR_INVALID_ITERATION
       else try_or (HksGetParam paramSet HKS_TAG_SALT) HKS_ERROR_CHECK_GET_SALT_FAIL (\<lambda>saltParam.
         if CheckBlob (Some (blobParam (p_val saltParam))) \<noteq> HKS_SUCCESS
           \<or> blob_size (blobParam (p_val saltParam)) < 16
         then HKS_ERROR_INVALID_SALT else HKS_SUCCESS))"

definition HksCoreCheckSignVerifyParams :: "u32 \<Rightarrow> HksBlob \<Rightarrow> HksParamSet ptr \<Rightarrow> HksBlob \<Rightarrow> rc" where
  "HksCoreCheckSignVerifyParams cmdId key paramSet signature =
     try_rc (CheckAndGetAlgorithm paramSet g_signAlg) (\<lambda>alg.
     try_rc (HksGetInputParmasByAlg alg HKS_CHECK_TYPE_USE_KEY paramSet) (\<lambda>ip.
       let ret = CheckSignVerifyParamsByAlg cmdId alg ip in if_not_succ_return ret ret
      (try_rc (HksGetKeySize alg key) (\<lambda>keySize.
         HksCheckSignature cmdId alg keySize signature))))"

definition HksLocalCheckSignVerifyParams :: "u32 \<Rightarrow> u32 \<Rightarrow> HksParamSet ptr \<Rightarrow> HksBlob \<Rightarrow> rc" where
  "HksLocalCheckSignVerifyParams cmdId keySize paramSet signature =
     try_rc (CheckAndGetAlgorithm paramSet g_signAlg) (\<lambda>alg.
     try_rc (HksGetInputParmasByAlg alg HKS_CHECK_TYPE_USE_KEY paramSet) (\<lambda>ip.
       let ret = CheckSignVerifyParamsByAlg cmdId alg ip in if_not_succ_return ret ret
      (HksCheckSignature cmdId alg keySize signature)))"

text \<open>
  The first two words of key material are its algorithm and its size. In the local check the tests
  for Ed25519 never hold, because \<open>g_agreeAlgLocal\<close> has X25519 and not Ed25519.
\<close>

definition HksCoreCheckAgreeKeyParams ::
    "HksParamSet ptr \<Rightarrow> HksBlob \<Rightarrow> HksBlob \<Rightarrow> HksBlob \<Rightarrow> bool \<Rightarrow> rc" where
  "HksCoreCheckAgreeKeyParams paramSet privateKey peerPublicKey agreedKey isLocalCheck =
     try_rc (CheckAndGetAlgorithm paramSet (if isLocalCheck then g_agreeAlgLocal else g_agreeAlg)) (\<lambda>alg.
     try_rc
       (if isLocalCheck then
          (if alg = HKS_ALG_ED25519
              \<and> (blob_size privateKey \<noteq> HKS_KEY_BYTES HKS_CURVE25519_KEY_SIZE_256
                \<or> blob_size peerPublicKey \<noteq> HKS_KEY_BYTES HKS_CURVE25519_KEY_SIZE_256)
           then Inl HKS_ERROR_INVALID_KEY_SIZE
           else if alg = HKS_ALG_DH \<or> alg = HKS_ALG_ECC \<or> alg = HKS_ALG_ECDH then
             (if blob_size privateKey < 8 then Inl HKS_ERROR_INVALID_ARGUMENT
              else Inr (read_u32 (blob_bytes privateKey) 4))
           else if alg = HKS_ALG_ED25519 then Inr (blob_size privateKey * HKS_BITS_PER_BYTE)
           else Inr 0)
        else HksGetKeySize alg privateKey)
       (\<lambda>keySize.
         let sz = keySize div HKS_BITS_PER_BYTE + keySize mod HKS_BITS_PER_BYTE in
         if blob_size agreedKey < sz then HKS_ERROR_BUFFER_TOO_SMALL else HKS_SUCCESS))"

definition HksCoreCheckCipherParams ::
    "u32 \<Rightarrow> HksBlob \<Rightarrow> HksParamSet ptr \<Rightarrow> HksBlob \<Rightarrow> HksBlob \<Rightarrow> rc" where
  "HksCoreCheckCipherParams cmdId key paramSet inData outData =
     try_rc (CheckAndGetAlgorithm paramSet g_cipherAlg) (\<lambda>alg.
     try_rc (HksGetInputParmasByAlg alg HKS_CHECK_TYPE_USE_KEY paramSet) (\<lambda>ip.
     try_rc
       (if alg = HKS_ALG_RSA \<or> alg = HKS_ALG_SM4 \<or> alg = HKS_ALG_SM2
        then try_res (HksGetKeySize alg key)
          (\<lambda>keySize. Inr (ip\<lparr>pv_keyLen := (pv_keyLen ip)\<lparr>pa_value := keySize\<rparr>\<rparr>))
        else Inr ip)
       (\<lambda>ip.
         let ret = CheckCipherParamsByAlg cmdId alg paramSet ip in if_not_succ_return ret ret
        (HksCheckCipherData cmdId alg ip inData outData))))"

definition HksLocalCheckCipherParams ::
    "u32 \<Rightarrow> u32 \<Rightarrow> HksParamSet ptr \<Rightarrow> HksBlob \<Rightarrow> HksBlob \<Rightarrow> rc" where
  "HksLocalCheckCipherParams cmdId keySize paramSet inData outData =
     try_rc (CheckAndGetAlgorithm paramSet g_cipherAlgLocal) (\<lambda>alg.
       let ret =
         (if alg = HKS_ALG_AES then HksCheckValue keySize g_aesKeySizeLocal
          else if alg = HKS_ALG_DES then HksCheckValue keySize g_desKeySizeLocal
          else if alg = HKS_ALG_3DES then HksCheckValue keySize g_3desKeySizeLocal
          else if alg = HKS_ALG_RSA then HksCheckValue keySize g_rsaKeySizeLocal
          else HKS_SUCCESS) in
       if_not_succ_return ret HKS_ERROR_INVALID_KEY_SIZE
      (try_rc (HksGetInputParmasByAlg alg HKS_CHECK_TYPE_USE_KEY paramSet) (\<lambda>ip.
         let ret = CheckCipherParamsByAlg cmdId alg paramSet ip in if_not_succ_return ret ret
        (HksCheckCipherData cmdId alg ip inData outData))))"

definition HksCoreCheckDeriveKeyParams :: "HksParamSet ptr \<Rightarrow> bool \<Rightarrow> rc" where
  "HksCoreCheckDeriveKeyParams paramSet isLocalCheck =
     try_rc (CheckAndGetAlgorithm paramSet (if isLocalCheck then g_deriveAlgLocal else g_deriveAlg)) (\<lambda>alg.
     try_or (HksGetParam paramSet HKS_TAG_PURPOSE) HKS_ERROR_CHECK_GET_PURPOSE_FAIL (\<lambda>purposeParam.
       if uint32Param (p_val purposeParam) \<noteq> HKS_KEY_PURPOSE_DERIVE then HKS_ERROR_INVALID_PURPOSE
       else try_rc (CheckAndGetDigest paramSet g_digest_paramset) (\<lambda>_.
         if alg = HKS_ALG_PBKDF2 then CheckPbkdf2DeriveKeyParams paramSet else HKS_SUCCESS)))"

definition CheckMacPurpose :: "HksParamSet ptr \<Rightarrow> rc" where
  "CheckMacPurpose paramSet =
     try_or (HksGetParam paramSet HKS_TAG_PURPOSE) HKS_ERROR_CHECK_GET_PURPOSE_FAIL (\<lambda>purposeParam.
       if uint32Param (p_val purposeParam) \<noteq> HKS_KEY_PURPOSE_MAC then HKS_ERROR_INVALID_PURPOSE
       else HKS_SUCCESS)"

definition CheckMacOutput :: "HksBlob \<Rightarrow> HksParamSet ptr \<Rightarrow> HksBlob \<Rightarrow> bool \<Rightarrow> rc" where
  "CheckMacOutput key paramSet mac isLocalCheck =
     try_rc (CheckAndGetDigest paramSet (if isLocalCheck then g_digest_paramset else g_macDigest_paramset))
       (\<lambda>digest.
     try_rc (HksGetDigestLen digest) (\<lambda>digestLen.
       if blob_size mac < digestLen then HKS_ERROR_BUFFER_TOO_SMALL
       else if isLocalCheck \<and> blob_size key < digestLen then HKS_ERROR_INVALID_KEY_SIZE
       else HKS_SUCCESS))"

definition HksCoreCheckMacParams :: "HksBlob \<Rightarrow> HksParamSet ptr \<Rightarrow> HksBlob \<Rightarrow> bool \<Rightarrow> rc" where
  "HksCoreCheckMacParams key paramSet mac isLocalCheck =
     (let ret = CheckMacPurpose paramSet in
      if_not_succ_return ret ret (CheckMacOutput key paramSet mac isLocalCheck))"

definition CheckIsSymmetricAlgorithm :: "u32 \<Rightarrow> bool" where
  "CheckIsSymmetricAlgorithm alg \<longleftrightarrow> list_ex (\<lambda>a. alg = a) g_symmetricAlgorithm"

definition HksCoreCheckAgreeDeriveFinishParams :: "HksBlob \<Rightarrow> HksParamSet ptr \<Rightarrow> rc" where
  "HksCoreCheckAgreeDeriveFinishParams key paramSet =
     try_rc (HksGetParam paramSet HKS_TAG_KEY_SIZE) (\<lambda>keySize.
       if HKS_KEY_BYTES (uint32Param (p_val keySize)) \<noteq> blob_size key then HKS_ERROR_INVALID_ARGUMENT
       else try_rc (HksGetParam paramSet HKS_TAG_ALGORITHM) (\<lambda>algorithm.
         if \<not> CheckIsSymmetricAlgorithm (uint32Param (p_val algorithm)) then HKS_ERROR_INVALID_ARGUMENT
         else HKS_SUCCESS))"

end
