(* ===== verification/Huks_Check_Laws.thy ===== *)
theory Huks_Check_Laws
  imports Huks_Check_Paramset
begin

text \<open>
  What the checks of requests guarantee. The first sections turn the pipelines of early returns into
  conjunctions; the properties then state, for a request that is accepted, facts about natural
  numbers and sets of allowed values, and for several checks exactly which requests are accepted.
\<close>

section \<open>Values against tables\<close>

lemma HksCheckValue_0 [rc_simps]: "HksCheckValue v vs = 0 \<longleftrightarrow> v \<in> set vs"
  by (auto simp: HksCheckValue_def list_ex_iff)

lemma CheckOptionalParams_0 [rc_simps]:
  "CheckOptionalParams n a v vs = 0 \<longleftrightarrow> (n \<and> \<not> a \<longrightarrow> v \<in> set vs)"
  by (simp add: CheckOptionalParams_def HksCheckValue_0)

lemma check_optional_0 [rc_simps]:
  "check_optional e p = 0 \<longleftrightarrow> (ep_needCheck e \<and> \<not> pa_isAbsent p \<longrightarrow> pa_value p \<in> set (ep_values e))"
  by (auto simp: check_optional_def CheckOptionalParams_0)

lemma check_optional_simps [simp]:
  "check_optional (expect False vs) p = 0"
  "check_optional (expect True vs) p = 0 \<longleftrightarrow> pa_isAbsent p \<or> pa_value p \<in> set vs"
  by (auto simp: check_optional_0 expect_def)

text \<open>The value of a numeric tag, if the set has it.\<close>

definition tag_value :: "HksParamSet \<Rightarrow> u32 \<Rightarrow> u32 option" where
  "tag_value ps t =
     (case HksGetParam (Some ps) t of Inr p \<Rightarrow> Some (uint32Param (p_val p)) | Inl _ \<Rightarrow> None)"

definition size_ok :: "HksParamSet \<Rightarrow> bool" where
  "size_ok ps \<longleftrightarrow> HksCheckParamSet (Some ps) (paramSetSize ps) = 0"

lemma tag_value_Some:
  "tag_value ps t = Some v \<longleftrightarrow> (\<exists>p. HksGetParam (Some ps) t = Inr p \<and> v = uint32Param (p_val p))"
  by (auto simp: tag_value_def split: sum.splits)

lemma HksGetParam_numeric:
  assumes "size_ok ps" "\<not> is_bytes_tag t"
  shows "HksGetParam (Some ps) t = Inl c \<longleftrightarrow> c = HKS_ERROR_PARAM_NOT_EXIST \<and> tag_value ps t = NULL"
  using assms by (auto simp: HksGetParam_Some size_ok_def tag_value_def split: option.splits)

lemma tag_value_size_ok: "tag_value ps t = Some v \<Longrightarrow> size_ok ps"
  using ps.found_ok by (auto simp: tag_value_Some size_ok_def)

section \<open>Reading the parameters\<close>

text \<open>What a read parameter is: the tag's value, absent, or untouched.\<close>

definition read_param :: "Params \<Rightarrow> u32 option \<Rightarrow> Params" where
  "read_param p v =
     (if pa_needCheck p then
        (case v of Some x \<Rightarrow> p\<lparr>pa_value := x\<rparr> | None \<Rightarrow> p\<lparr>pa_isAbsent := True\<rparr>)
      else p)"

lemma get_required_Inr:
  "get_required (Some ps) t e p = Inr q \<longleftrightarrow>
     (if pa_needCheck p then \<exists>v. tag_value ps t = Some v \<and> q = p\<lparr>pa_value := v\<rparr> else q = p)"
  by (cases "HksGetParam (Some ps) t") (auto simp: get_required_def tag_value_def)

lemma GetOptionalParams_numeric:
  assumes "size_ok ps" "\<not> is_bytes_tag t"
  shows "GetOptionalParams (Some ps) t p = Inr (read_param p (tag_value ps t))"
proof (cases "HksGetParam (Some ps) t")
  case (Inl c)
  with HksGetParam_numeric [OF assms] have "c = HKS_ERROR_PARAM_NOT_EXIST" "tag_value ps t = NULL"
    by auto
  with Inl show ?thesis by (simp add: GetOptionalParams_def read_param_def)
next
  case (Inr q)
  then have "tag_value ps t = Some (uint32Param (p_val q))"
    by (simp add: tag_value_def)
  with Inr show ?thesis by (simp add: GetOptionalParams_def read_param_def)
qed

lemma numeric_tags [simp]:
  "\<not> is_bytes_tag HKS_TAG_PADDING" "\<not> is_bytes_tag HKS_TAG_DIGEST" "\<not> is_bytes_tag HKS_TAG_BLOCK_MODE"
  "\<not> is_bytes_tag HKS_TAG_KEY_SIZE" "\<not> is_bytes_tag HKS_TAG_PURPOSE" "\<not> is_bytes_tag HKS_TAG_ALGORITHM"
  "\<not> is_bytes_tag HKS_TAG_BATCH_PURPOSE"
  by (simp_all add: is_bytes_tag_def GetTagType_def)

lemma GetInputParams_Inr:
  assumes "size_ok ps"
  shows "GetInputParams (Some ps) ip = Inr iq \<longleftrightarrow>
    (pa_needCheck (pv_keyLen ip) \<longrightarrow> tag_value ps HKS_TAG_KEY_SIZE \<noteq> None)
    \<and> (pa_needCheck (pv_purpose ip) \<longrightarrow> tag_value ps HKS_TAG_PURPOSE \<noteq> None)
    \<and> iq = \<lparr>pv_keyLen = read_param (pv_keyLen ip) (tag_value ps HKS_TAG_KEY_SIZE),
           pv_padding = read_param (pv_padding ip) (tag_value ps HKS_TAG_PADDING),
           pv_purpose = read_param (pv_purpose ip) (tag_value ps HKS_TAG_PURPOSE),
           pv_digest = read_param (pv_digest ip) (tag_value ps HKS_TAG_DIGEST),
           pv_mode = read_param (pv_mode ip) (tag_value ps HKS_TAG_BLOCK_MODE)\<rparr>"
proof -
  have req: "get_required (Some ps) t e p = Inr q \<longleftrightarrow>
      (pa_needCheck p \<longrightarrow> tag_value ps t \<noteq> None) \<and> q = read_param p (tag_value ps t)" for t e p q
    by (auto simp: get_required_Inr read_param_def)
  show ?thesis
    using assms by (auto simp: GetInputParams_def try_res_Inr req GetOptionalParams_numeric)
qed


section \<open>Purposes\<close>

text \<open>The categories of use; a key has exactly one of them.\<close>

definition purpose_categories :: "u32 list" where
  "purpose_categories =
     [HKS_KEY_PURPOSE_ENCRYPT OR HKS_KEY_PURPOSE_DECRYPT, HKS_KEY_PURPOSE_SIGN OR HKS_KEY_PURPOSE_VERIFY,
      HKS_KEY_PURPOSE_DERIVE, HKS_KEY_PURPOSE_WRAP OR HKS_KEY_PURPOSE_UNWRAP,
      HKS_KEY_PURPOSE_MAC, HKS_KEY_PURPOSE_AGREE]"

text \<open>The purposes the two tables forbid for an algorithm.\<close>

definition forbidden_purposes :: "u32 \<Rightarrow> u32 \<Rightarrow> u32" where
  "forbidden_purposes alg keyFlag =
     (case List.find (\<lambda>r. alg = fst r) g_invalidPurpose of Some r \<Rightarrow> snd r | None \<Rightarrow> 0)
     OR (if keyFlag = HKS_KEY_FLAG_IMPORT_KEY
         then (case List.find (\<lambda>r. alg = fst r) g_invalidImportKeyPurpose of Some r \<Rightarrow> snd r | None \<Rightarrow> 0)
         else 0)"

lemma CheckPurposeUnique_iff:
  "CheckPurposeUnique p = 0 \<longleftrightarrow> length (filter (\<lambda>c. p AND c \<noteq> 0) purpose_categories) = 1"
  by (simp add: CheckPurposeUnique_def purpose_categories_def)

lemma CheckPurposeValid_0:
  "CheckPurposeValid alg p keyFlag = 0 \<longleftrightarrow>
     alg \<in> fst ` set g_invalidPurpose \<and> p AND forbidden_purposes alg keyFlag = 0"
proof -
  have "List.find (\<lambda>r. alg = fst r) g_invalidPurpose = None \<longleftrightarrow> alg \<notin> fst ` set g_invalidPurpose"
    unfolding find_None_iff image_iff by blast
  then show ?thesis
    by (cases "List.find (\<lambda>r. alg = fst r) g_invalidPurpose")
       (auto simp: CheckPurposeValid_def GetInvalidPurpose_def forbidden_purposes_def
        if_not_succ_return_0 split: option.splits)
qed

lemma HksCheckGenKeyPurpose_0 [rc_simps]:
  "HksCheckGenKeyPurpose alg p keyFlag = 0 \<longleftrightarrow>
     length (filter (\<lambda>c. p AND c \<noteq> 0) purpose_categories) = 1
     \<and> alg \<in> fst ` set g_invalidPurpose \<and> p AND forbidden_purposes alg keyFlag = 0"
  by (simp add: HksCheckGenKeyPurpose_def Let_def if_not_succ_return_0 CheckPurposeUnique_iff
      CheckPurposeValid_0)

section \<open>Requests to generate a key\<close>

lemma CheckAndGetAlgorithm_Inr:
  "CheckAndGetAlgorithm (Some ps) algs = Inr a \<longleftrightarrow> tag_value ps HKS_TAG_ALGORITHM = Some a \<and> a \<in> set algs"
  by (cases "HksGetParam (Some ps) HKS_TAG_ALGORITHM")
     (auto simp: CheckAndGetAlgorithm_def tag_value_def if_not_succ_return_def HksCheckValue_0)

lemma CheckAndGetAlgorithm_proper [simp]: "proper (CheckAndGetAlgorithm ps algs)"
  by (auto simp: CheckAndGetAlgorithm_def intro!: proper_rules)

lemma CheckAndGetDigest_Inr:
  "CheckAndGetDigest (Some ps) ds = Inr a \<longleftrightarrow> tag_value ps HKS_TAG_DIGEST = Some a \<and> a \<in> set ds"
  by (cases "HksGetParam (Some ps) HKS_TAG_DIGEST")
     (auto simp: CheckAndGetDigest_def tag_value_def if_not_succ_return_def HksCheckValue_0)

lemma CheckAndGetDigest_proper [simp]: "proper (CheckAndGetDigest ps ds)"
  by (auto simp: CheckAndGetDigest_def intro!: proper_rules)

text \<open>No check of the pipeline fails with the code 0.\<close>

lemma get_required_proper: "e \<noteq> 0 \<Longrightarrow> proper (get_required ps t e p)"
  by (auto simp: get_required_def intro!: proper_rules)

lemma GetInputParams_proper [simp]: "proper (GetInputParams ps ip)"
  by (auto simp: GetInputParams_def intro!: proper_rules get_required_proper)

lemma InitInputParams_proper [simp]: "proper (InitInputParams c ps)"
  by (simp add: InitInputParams_def split: option.split)

lemma InitInputParamsByAlg_proper [simp]: "proper (InitInputParamsByAlg alg c)"
  by (simp add: InitInputParamsByAlg_def InitInputParamsByAlgOne_def)

lemma HksGetInputParmasByAlg_proper [simp]: "proper (HksGetInputParmasByAlg alg c ps)"
  by (auto simp: HksGetInputParmasByAlg_def intro!: proper_rules)

lemma CheckGenKeyParamsByAlg_proper [simp]: "proper (CheckGenKeyParamsByAlg alg ps f)"
  unfolding CheckGenKeyParamsByAlg_def by (intro proper_rules) simp_all

lemma CheckGenKeyMacDeriveParams_proper [simp]: "proper (CheckGenKeyMacDeriveParams alg p ps f)"
  unfolding CheckGenKeyMacDeriveParams_def by (intro proper_rules) simp_all

lemma CoreCheckGenKeyParams_proper [simp]: "proper (CoreCheckGenKeyParams ps f)"
  unfolding CoreCheckGenKeyParams_def by (intro proper_rules) simp_all

lemma HksCoreCheckGenKeyParams_0 [rc_simps]:
  "HksCoreCheckGenKeyParams ps f = 0 \<longleftrightarrow> (\<exists>ip. CoreCheckGenKeyParams ps f = Inr ip)"
  by (simp add: HksCoreCheckGenKeyParams_def try_rc_proper_0)

text \<open>What both branches of \<open>CoreCheckGenKeyParams\<close> have in common.\<close>

lemma CoreCheckGenKeyParams_Inr:
  "CoreCheckGenKeyParams (Some ps) f = Inr ip \<longleftrightarrow>
     HksCheckParamSetTag (Some ps) = 0 \<and>
     (\<exists>alg purpose. tag_value ps HKS_TAG_ALGORITHM = Some alg \<and> alg \<in> set g_genKeyAlg
       \<and> tag_value ps HKS_TAG_PURPOSE = Some purpose
       \<and> (\<forall>b. tag_value ps HKS_TAG_BATCH_PURPOSE = Some b \<longrightarrow> purpose OR b = purpose)
       \<and> (if purpose AND HKS_KEY_PURPOSE_DERIVE \<noteq> 0 \<or> purpose AND HKS_KEY_PURPOSE_MAC \<noteq> 0
          then CheckGenKeyMacDeriveParams alg purpose (Some ps) f = Inr ip
          else CheckGenKeyParamsByAlg alg (Some ps) f = Inr ip))"
proof -
  have b: "(case HksGetParam (Some ps) HKS_TAG_BATCH_PURPOSE of
       Inr q \<Rightarrow> purpose OR uint32Param (p_val q) \<noteq> purpose | Inl _ \<Rightarrow> False)
    \<longleftrightarrow> (\<exists>b. tag_value ps HKS_TAG_BATCH_PURPOSE = Some b \<and> purpose OR b \<noteq> purpose)" for purpose
    by (auto simp: tag_value_def split: sum.splits)
  show ?thesis
    unfolding CoreCheckGenKeyParams_def Let_def if_not_succ_return_Inr try_res_Inr try_or_Inr
      CheckAndGetAlgorithm_Inr b tag_value_Some [of ps HKS_TAG_PURPOSE]
    by (auto split: if_splits)
qed

section \<open>Key sizes\<close>

text \<open>
  The key sizes: every accepted request states one, and for the algorithms whose tables list sizes it is one of
  them. RSA keys may also have any multiple of 8 from 1024 to 2048 bits. For authentication codes and DSA the
  checks leave the size open.
\<close>

definition supported_size :: "u32 \<Rightarrow> u32 \<Rightarrow> u32 \<Rightarrow> bool" where
  "supported_size alg purpose bits =
     (if alg = HKS_ALG_RSA then
        bits \<in> {512, 768, 1024, 2048, 3072, 4096} \<or> 1024 \<le> bits \<and> bits \<le> 2048 \<and> bits mod 8 = 0
      else if alg = HKS_ALG_AES then
        (if purpose = HKS_KEY_PURPOSE_MAC then bits = 256 else bits \<in> {128, 192, 256})
      else if alg = HKS_ALG_DES then bits = 64
      else if alg = HKS_ALG_3DES then bits \<in> {128, 192}
      else if alg = HKS_ALG_ECC \<or> alg = HKS_ALG_ECDH then bits \<in> {224, 256, 384, 521}
      else if alg = HKS_ALG_SM2 then bits = 256
      else if alg = HKS_ALG_SM4 then bits = 128
      else if alg = HKS_ALG_X25519 \<or> alg = HKS_ALG_ED25519 then bits = 256
      else if alg = HKS_ALG_DH then bits \<in> {2048, 3072, 4096}
      else alg \<in> {HKS_ALG_HMAC, HKS_ALG_CMAC, HKS_ALG_SM3, HKS_ALG_DSA})"

lemma reads_size:
  assumes "InitInputParamsByAlg alg c = Inr ip" "c \<noteq> HKS_CHECK_TYPE_USE_KEY"
  shows "pv_keyLen ip = params_init True 0 False"
  using assms
  by (cases c) (auto simp: InitInputParamsByAlg_def InitInputParamsByAlgOne_def InitInputParams_def param_tables
      params_values_init_def split: if_splits)

lemma size_read:
  assumes "HksGetInputParmasByAlg alg c (Some ps) = Inr ip" "c \<noteq> HKS_CHECK_TYPE_USE_KEY" "size_ok ps"
  obtains bits where "tag_value ps HKS_TAG_KEY_SIZE = Some bits" "pa_value (pv_keyLen ip) = bits"
    "\<not> pa_isAbsent (pv_keyLen ip)"
  using assms by (auto simp: HksGetInputParmasByAlg_def try_res_Inr GetInputParams_Inr params_init_def
      read_param_def dest!: reads_size)

lemmas size_tables = g_rsaKeySize_def g_aesKeySize_def g_aesMacKeySize_def g_desKeySize_def g_desMacKeySize_def
  g_3desKeySize_def g_3desMacKeySize_def g_sm4KeySize_def g_eccKeySize_def g_sm2KeySize_def g_ecdhKeySize_def
  g_curve25519KeySize_def g_dhKeySize_def

lemma rsa_size_ranged: "CheckRsaKeySize bits = 0 \<Longrightarrow> supported_size HKS_ALG_RSA purpose bits"
  by (simp add: CheckRsaKeySize_def supported_size_def split: if_splits)

lemma expected_sizes:
  assumes "GetExpectParams alg c = Inr ev" "c \<noteq> HKS_CHECK_TYPE_USE_KEY"
    and "c = HKS_CHECK_TYPE_GEN_MAC_KEY \<longleftrightarrow> purpose = HKS_KEY_PURPOSE_MAC"
    and "check_optional (ev_keyLen ev) p = 0" "\<not> pa_isAbsent p"
  shows "supported_size alg purpose (pa_value p)"
  using assms
  by (cases c) (auto simp: GetExpectParams_def GetExpectParamsByAlg_def InitExpectParams_def expect_tables
      expect_values_init_def size_tables supported_size_def split: if_splits)

lemma size_checked:
  assumes "HksCheckFixedParams alg c ip = 0" "\<not> pa_isAbsent (pv_keyLen ip)" "c \<noteq> HKS_CHECK_TYPE_USE_KEY"
    and "c = HKS_CHECK_TYPE_GEN_MAC_KEY \<longleftrightarrow> purpose = HKS_KEY_PURPOSE_MAC"
  shows "supported_size alg purpose (pa_value (pv_keyLen ip))"
proof (cases "GetExpectParams alg c")
  case (Inl ret)
  with assms(1) show ?thesis
    by (auto simp: HksCheckFixedParams_def try_rc_def GetExpectParams_def GetExpectParamsByAlg_def
        InitExpectParams_def split: if_splits option.splits)
next
  case (Inr ev)
  then have "check_optional (ev_keyLen ev) (pv_keyLen ip) = 0
      \<or> alg = HKS_ALG_RSA \<and> CheckRsaKeySize (pa_value (pv_keyLen ip)) = 0"
    using assms(1) by (auto simp: HksCheckFixedParams_def try_rc_def if_not_succ_return_0 Let_def split: if_splits)
  then show ?thesis
    using expected_sizes [OF Inr assms(3,4)] assms(2) rsa_size_ranged by blast
qed

lemma CheckGenKeyParamsByAlg_size:
  assumes "CheckGenKeyParamsByAlg alg (Some ps) f = Inr ip" "size_ok ps" "purpose \<noteq> HKS_KEY_PURPOSE_MAC"
  shows "\<exists>bits. tag_value ps HKS_TAG_KEY_SIZE = Some bits \<and> supported_size alg purpose bits
    \<and> pa_value (pv_keyLen ip) = bits"
proof -
  from assms(1) have "HksGetInputParmasByAlg alg HKS_CHECK_TYPE_GEN_KEY (Some ps) = Inr ip"
    and chk: "HksCheckFixedParams alg HKS_CHECK_TYPE_GEN_KEY ip = 0"
    by (auto simp: CheckGenKeyParamsByAlg_def try_res_Inr if_not_succ_return_Inr Let_def)
  then show ?thesis
    using size_checked [OF chk, of purpose] assms(2,3) by (auto elim: size_read)
qed

lemma CheckGenKeyMacDeriveParams_size:
  assumes "CheckGenKeyMacDeriveParams alg purpose (Some ps) f = Inr ip" "size_ok ps"
  shows "\<exists>bits. tag_value ps HKS_TAG_KEY_SIZE = Some bits \<and> supported_size alg purpose bits
    \<and> pa_value (pv_keyLen ip) = bits"
proof -
  define c where "c = (if purpose = HKS_KEY_PURPOSE_MAC then HKS_CHECK_TYPE_GEN_MAC_KEY
    else HKS_CHECK_TYPE_GEN_DERIVE_KEY)"
  from assms(1) have rd: "HksGetInputParmasByAlg alg c (Some ps) = Inr ip"
    and chk: "HksCheckFixedParams alg c ip = 0"
    by (auto simp: CheckGenKeyMacDeriveParams_def try_res_Inr if_not_succ_return_Inr Let_def c_def split: if_splits)
  have c: "c \<noteq> HKS_CHECK_TYPE_USE_KEY" "c = HKS_CHECK_TYPE_GEN_MAC_KEY \<longleftrightarrow> purpose = HKS_KEY_PURPOSE_MAC"
    by (simp_all add: c_def)
  obtain bits where "tag_value ps HKS_TAG_KEY_SIZE = Some bits" "pa_value (pv_keyLen ip) = bits"
      "\<not> pa_isAbsent (pv_keyLen ip)"
    by (rule size_read [OF rd c(1) assms(2)])
  then show ?thesis
    using size_checked [OF chk _ c] by blast
qed

text \<open>An accepted request states a supported size, which the check hands on.\<close>

lemma gen_key_size:
  assumes "CoreCheckGenKeyParams (Some ps) f = Inr ip" "tag_value ps HKS_TAG_ALGORITHM = Some alg"
    and "tag_value ps HKS_TAG_PURPOSE = Some purpose"
  shows "\<exists>bits. tag_value ps HKS_TAG_KEY_SIZE = Some bits \<and> supported_size alg purpose bits
    \<and> pa_value (pv_keyLen ip) = bits"
proof -
  have ok: "size_ok ps" using tag_value_size_ok [OF assms(2)] .
  have "purpose \<noteq> HKS_KEY_PURPOSE_MAC" if "purpose AND HKS_KEY_PURPOSE_MAC = 0" using that by auto
  then show ?thesis
    using assms CheckGenKeyMacDeriveParams_size [OF _ ok, of alg purpose f ip]
      CheckGenKeyParamsByAlg_size [OF _ ok, of alg f ip purpose]
    by (auto simp: CoreCheckGenKeyParams_Inr split: if_splits)
qed

end
