(* ===== verification/Huks_Request_Props.thy ===== *)
theory Huks_Request_Props
  imports Huks_Check_Laws
begin

text \<open>Properties of the request checks, over the laws of \<open>Huks_Check_Laws\<close>.\<close>

section \<open>Generating and importing\<close>

lemma gen_key_reads_purpose:
  "InitInputParamsByAlg alg HKS_CHECK_TYPE_GEN_KEY = Inr ip \<Longrightarrow> pa_needCheck (pv_purpose ip)"
  by (auto simp: InitInputParamsByAlg_def InitInputParamsByAlgOne_def InitInputParams_def param_tables
      init_defs split: if_splits)

lemma CheckGenKeyParamsByAlg_purpose:
  assumes "CheckGenKeyParamsByAlg alg (Some ps) f = Inr ip" "tag_value ps HKS_TAG_PURPOSE = Some purpose"
  shows "HksCheckGenKeyPurpose alg purpose f = 0"
proof -
  from assms(1) obtain ip0 where "InitInputParamsByAlg alg HKS_CHECK_TYPE_GEN_KEY = Inr ip0"
    and rd: "GetInputParams (Some ps) ip0 = Inr ip"
    and chk: "HksCheckGenKeyPurpose alg (pa_value (pv_purpose ip)) f = 0"
    by (auto simp: CheckGenKeyParamsByAlg_def HksGetInputParmasByAlg_def try_res_Inr
        if_not_succ_return_Inr Let_def)
  then have "pa_needCheck (pv_purpose ip0)"
    using gen_key_reads_purpose by blast
  with rd assms(2) tag_value_size_ok [OF assms(2)] have "pa_value (pv_purpose ip) = purpose"
    by (simp add: GetInputParams_Inr read_param_def)
  with chk show ?thesis by simp
qed

lemma CheckGenKeyMacDeriveParams_purpose:
  "CheckGenKeyMacDeriveParams alg purpose ps f = Inr ip \<Longrightarrow> HksCheckGenKeyPurpose alg purpose f = 0"
  by (auto simp: CheckGenKeyMacDeriveParams_def if_not_succ_return_Inr Let_def split: if_splits)


text \<open>A request to generate an AES key for encryption, used as a concrete input.\<close>

definition aes_request :: HksParamSet where
  "aes_request = \<lparr>paramSetSize = 128,
     params = [\<lparr>p_tag = HKS_TAG_ALGORITHM, p_val = VUint HKS_ALG_AES\<rparr>,
       \<lparr>p_tag = HKS_TAG_PURPOSE, p_val = VUint HKS_KEY_PURPOSE_ENCRYPT\<rparr>,
       \<lparr>p_tag = HKS_TAG_KEY_SIZE, p_val = VUint HKS_AES_KEY_SIZE_256\<rparr>,
       \<lparr>p_tag = HKS_TAG_BLOCK_MODE, p_val = VUint HKS_MODE_GCM\<rparr>,
       \<lparr>p_tag = HKS_TAG_PADDING, p_val = VUint HKS_PADDING_NONE\<rparr>], ps_tail = []\<rparr>"

lemma aes_request_size: "HksCheckParamSet (Some aes_request) (paramSetSize aes_request) = 0"
  by (simp add: aes_request_def HksCheckParamSet_def paramsCnt_def)

lemma aes_request_values [simp]:
  "tag_value aes_request HKS_TAG_ALGORITHM = Some HKS_ALG_AES"
  "tag_value aes_request HKS_TAG_PURPOSE = Some HKS_KEY_PURPOSE_ENCRYPT"
  "tag_value aes_request HKS_TAG_KEY_SIZE = Some HKS_AES_KEY_SIZE_256"
  "tag_value aes_request HKS_TAG_BLOCK_MODE = Some HKS_MODE_GCM"
  "tag_value aes_request HKS_TAG_PADDING = Some HKS_PADDING_NONE"
  "tag_value aes_request HKS_TAG_BATCH_PURPOSE = None"
  using aes_request_size by (simp_all add: tag_value_def HksGetParam_Some) (simp_all add: aes_request_def)

lemma aes_request_tags: "HksCheckParamSetTag (Some aes_request) = 0"
  by (simp add: aes_request_def HksCheckParamSetTag_def IsValidTag_def g_validTags_def)


text \<open>For AES the tables reduce to plain conditions.\<close>

lemma HksGetInputParmasByAlg_Inr:
  assumes "size_ok ps"
  shows "HksGetInputParmasByAlg alg c (Some ps) = Inr iq \<longleftrightarrow>
    (\<exists>ip. InitInputParamsByAlg alg c = Inr ip \<and> GetInputParams (Some ps) ip = Inr iq)"
  by (simp add: HksGetInputParmasByAlg_def try_res_Inr)

lemma aes_gen_init:
  "InitInputParamsByAlg HKS_ALG_AES HKS_CHECK_TYPE_GEN_KEY = Inr ip \<longleftrightarrow>
     ip = params_values_init (params_init True 0 False) (params_init True 0 False)
       (params_init True 0 False) (params_init False 0 False) (params_init True 0 False)"
  by (auto simp: InitInputParamsByAlg_def InitInputParams_def g_aesParamSet_def)

lemma aes_gen_fixed:
  "HksCheckFixedParams HKS_ALG_AES HKS_CHECK_TYPE_GEN_KEY ip = 0 \<longleftrightarrow>
     (pa_isAbsent (pv_keyLen ip) \<or> pa_value (pv_keyLen ip) \<in> {128, 192, 256})
     \<and> (pa_isAbsent (pv_padding ip) \<or> pa_value (pv_padding ip) \<in> {HKS_PADDING_NONE, HKS_PADDING_PKCS7})
     \<and> (pa_isAbsent (pv_mode ip) \<or> pa_value (pv_mode ip) \<in> set g_aesMode)"
  by (simp add: HksCheckFixedParams_def GetExpectParams_def InitExpectParams_def g_expectAesParams_def
      expect_values_init_def if_not_succ_return_0 g_aesKeySize_def g_aesPadding_def)

lemma aes_padding_0:
  "CheckAesPadding ip = 0 \<longleftrightarrow> pa_isAbsent (pv_mode ip) \<or> pa_isAbsent (pv_padding ip)
     \<or> (pa_value (pv_mode ip) \<in> {HKS_MODE_CTR, HKS_MODE_GCM, HKS_MODE_CCM}
          \<longrightarrow> pa_value (pv_padding ip) = HKS_PADDING_NONE)
       \<and> (pa_value (pv_mode ip) \<in> {HKS_MODE_CBC, HKS_MODE_ECB}
          \<longrightarrow> pa_value (pv_padding ip) \<in> {HKS_PADDING_NONE, HKS_PADDING_PKCS7})"
  by (auto simp: CheckAesPadding_def HksCheckValue_0 g_aesCbcPadding_def g_aesCtrPadding_def
      g_aesEcbPadding_def g_aesAeadPadding_def Let_def)

lemma aes_request_accepted: "HksCoreCheckGenKeyParams (Some aes_request) HKS_KEY_FLAG_GENERATE_KEY = 0"
proof -
  have ok: "size_ok aes_request"
    by (rule tag_value_size_ok [OF aes_request_values(1)])
  have "HksCheckGenKeyPurpose HKS_ALG_AES HKS_KEY_PURPOSE_ENCRYPT HKS_KEY_FLAG_GENERATE_KEY = 0"
    by (simp add: HksCheckGenKeyPurpose_0 forbidden_purposes_def g_invalidPurpose_def purpose_categories_def)
  then have "\<exists>ip. CheckGenKeyParamsByAlg HKS_ALG_AES (Some aes_request) HKS_KEY_FLAG_GENERATE_KEY = Inr ip"
    by (simp add: CheckGenKeyParamsByAlg_def try_res_Inr if_not_succ_return_Inr Let_def
        HksCheckGenKeyMutableParams_def if_not_succ_return_0 HksGetInputParmasByAlg_Inr [OF ok]
        aes_gen_init GetInputParams_Inr [OF ok] init_defs read_param_def aes_gen_fixed aes_padding_0
        g_aesMode_def)
  then show ?thesis
    using aes_request_tags
    by (simp add: HksCoreCheckGenKeyParams_0 CoreCheckGenKeyParams_Inr g_genKeyAlg_def)
qed


text \<open>
  C16: Exactly which requests to generate an AES key for ciphering are accepted. A request with valid
  distinct tags, no batch purpose and a purpose that is not deriving or authenticating passes if
  and only if its purpose is encrypting and decrypting only, it states a key size of 128, 192 or 256
  bits, its padding and mode (when present) are among the allowed ones, and a counter or
  authenticated mode comes with no padding.
\<close>

theorem aes_gen_key_exact:
  assumes "HksCheckParamSetTag (Some ps) = HKS_SUCCESS"
    and "tag_value ps HKS_TAG_ALGORITHM = Some HKS_ALG_AES"
    and "tag_value ps HKS_TAG_PURPOSE = Some purpose"
    and "purpose AND HKS_KEY_PURPOSE_DERIVE = 0" "purpose AND HKS_KEY_PURPOSE_MAC = 0"
    and "tag_value ps HKS_TAG_BATCH_PURPOSE = None"
  shows "HksCoreCheckGenKeyParams (Some ps) HKS_KEY_FLAG_GENERATE_KEY = HKS_SUCCESS \<longleftrightarrow>
    length (filter (\<lambda>c. purpose AND c \<noteq> 0) purpose_categories) = 1
    \<and> purpose AND (HKS_KEY_PURPOSE_SIGN OR HKS_KEY_PURPOSE_VERIFY OR HKS_KEY_PURPOSE_AGREE
        OR HKS_KEY_PURPOSE_WRAP OR HKS_KEY_PURPOSE_UNWRAP) = 0
    \<and> (\<exists>k \<in> {128, 192, 256}. tag_value ps HKS_TAG_KEY_SIZE = Some k)
    \<and> (\<forall>p. tag_value ps HKS_TAG_PADDING = Some p \<longrightarrow> p \<in> {HKS_PADDING_NONE, HKS_PADDING_PKCS7})
    \<and> (\<forall>m. tag_value ps HKS_TAG_BLOCK_MODE = Some m \<longrightarrow> m \<in> set g_aesMode)
    \<and> (\<forall>m p. tag_value ps HKS_TAG_BLOCK_MODE = Some m \<and> tag_value ps HKS_TAG_PADDING = Some p
        \<and> m \<in> {HKS_MODE_CTR, HKS_MODE_GCM, HKS_MODE_CCM} \<longrightarrow> p = HKS_PADDING_NONE)"
proof -
  have ok: "size_ok ps" using tag_value_size_ok [OF assms(2)] .
  have "HksCoreCheckGenKeyParams (Some ps) HKS_KEY_FLAG_GENERATE_KEY = 0 \<longleftrightarrow>
      (\<exists>ip. CheckGenKeyParamsByAlg HKS_ALG_AES (Some ps) HKS_KEY_FLAG_GENERATE_KEY = Inr ip)"
    using assms by (simp add: HksCoreCheckGenKeyParams_0 CoreCheckGenKeyParams_Inr g_genKeyAlg_def)
  also have "\<dots> \<longleftrightarrow> (\<exists>ip. HksGetInputParmasByAlg HKS_ALG_AES HKS_CHECK_TYPE_GEN_KEY (Some ps) = Inr ip
      \<and> HksCheckFixedParams HKS_ALG_AES HKS_CHECK_TYPE_GEN_KEY ip = 0
      \<and> HksCheckGenKeyPurpose HKS_ALG_AES (pa_value (pv_purpose ip)) HKS_KEY_FLAG_GENERATE_KEY = 0
      \<and> CheckAesPadding ip = 0)"
    by (simp add: CheckGenKeyParamsByAlg_def try_res_Inr if_not_succ_return_Inr Let_def
        HksCheckGenKeyMutableParams_def if_not_succ_return_0)
  also have "HksCheckGenKeyPurpose HKS_ALG_AES purpose HKS_KEY_FLAG_GENERATE_KEY = 0 \<longleftrightarrow>
      length (filter (\<lambda>c. purpose AND c \<noteq> 0) purpose_categories) = 1
      \<and> purpose AND (HKS_KEY_PURPOSE_SIGN OR HKS_KEY_PURPOSE_VERIFY OR HKS_KEY_PURPOSE_AGREE
        OR HKS_KEY_PURPOSE_WRAP OR HKS_KEY_PURPOSE_UNWRAP) = 0"
    by (simp add: HksCheckGenKeyPurpose_0 forbidden_purposes_def g_invalidPurpose_def)
  then show ?thesis
    unfolding calculation
    using assms(3) by (auto simp: HksGetInputParmasByAlg_Inr [OF ok] aes_gen_init GetInputParams_Inr [OF ok]
        init_defs read_param_def aes_gen_fixed aes_padding_0 g_aesMode_def split: option.splits)
qed

lemma aes_gen_key_exact_witness:
  "HksCoreCheckGenKeyParams (Some aes_request) HKS_KEY_FLAG_GENERATE_KEY = HKS_SUCCESS"
  using aes_request_tags
  by (subst aes_gen_key_exact [where purpose = HKS_KEY_PURPOSE_ENCRYPT])
     (simp_all add: purpose_categories_def g_aesMode_def)

end
