(* ===== verification/Huks_Buffer_Props.thy ===== *)
theory Huks_Buffer_Props
  imports Huks_Check_Laws
begin

text \<open>
  The checks of buffer sizes and of imported key material, read as facts about natural numbers: the
  32-bit sums of the code never wrap where a request is accepted.
\<close>

section \<open>Word arithmetic of the size checks\<close>

lemma block_padding:
  fixes n :: u32
  shows "unat (16 - n mod 16) = 16 - unat n mod 16" "unat n + unat (16 - n mod 16) = 16 * (unat n div 16 + 1)"
proof -
  have m: "unat (n mod 16) = unat n mod 16"
    by (simp add: unat_mod)
  have "n mod 16 \<le> 16"
    using m by (simp add: word_le_nat_alt)
  then show a: "unat (16 - n mod 16) = 16 - unat n mod 16"
    using m by (simp add: unat_sub)
  show "unat n + unat (16 - n mod 16) = 16 * (unat n div 16 + 1)"
    unfolding a by presburger
qed

text \<open>A sum guarded against overflow and then compared is the comparison of natural numbers.\<close>

lemma guarded_room:
  fixes n p r :: u32
  shows "n \<le> UINT32_MAX - p \<and> n + p \<le> r \<longleftrightarrow> unat n + unat p \<le> unat r"
proof -
  have max: "unat (UINT32_MAX - p) = 4294967295 - unat p"
    using unat_sub [of p UINT32_MAX] by (simp add: word_le_nat_alt)
  show ?thesis
  proof
    assume a: "n \<le> UINT32_MAX - p \<and> n + p \<le> r"
    then have "unat n \<le> 4294967295 - unat p"
      using max by (simp add: word_le_nat_alt)
    then have "unat n + unat p < 4294967296"
      using u32_bound_le [of p] by linarith
    then have "unat (n + p) = unat n + unat p"
      by (simp add: unat_word_ariths)
    with a show "unat n + unat p \<le> unat r"
      by (simp add: word_le_nat_alt)
  next
    assume a: "unat n + unat p \<le> unat r"
    then show "n \<le> UINT32_MAX - p \<and> n + p \<le> r"
      using max le_trans [OF a u32_bound_le] unat_u32_add_le [OF a] by (simp add: word_le_nat_alt)
  qed
qed

section \<open>Block ciphers\<close>

lemma mod_16_dvd: "(n :: u32) mod 16 = 0 \<longleftrightarrow> 16 dvd unat n"
  by (simp add: word_unat_eq_iff unat_mod dvd_eq_mod_eq_0)

lemma two_guards:
  "(if b then HKS_ERROR_INVALID_ARGUMENT else if c then HKS_ERROR_BUFFER_TOO_SMALL else HKS_SUCCESS) = 0
     \<longleftrightarrow> \<not> b \<and> \<not> c"
  by simp

lemma cbc_encrypt_0:
  "CheckBlockCbcCipherData mode HKS_CMD_ID_ENCRYPT padding inData outData = 0 \<longleftrightarrow>
     (if padding = HKS_PADDING_NONE
      then (mode \<in> {HKS_MODE_CBC, HKS_MODE_ECB} \<longrightarrow> 16 dvd unat (blob_size inData))
        \<and> unat (blob_size inData) \<le> unat (blob_size outData)
      else 16 * (unat (blob_size inData) div 16 + 1) \<le> unat (blob_size outData))"
proof (cases "padding = HKS_PADDING_NONE")
  case True
  then show ?thesis
    by (auto simp: CheckBlockCbcCipherData_def Let_def mod_16_dvd word_le_nat_alt word_less_nat_alt)
next
  case False
  have "CheckBlockCbcCipherData mode HKS_CMD_ID_ENCRYPT padding inData outData = 0 \<longleftrightarrow>
      blob_size inData \<le> UINT32_MAX - (16 - blob_size inData mod 16)
      \<and> blob_size inData + (16 - blob_size inData mod 16) \<le> blob_size outData"
    unfolding CheckBlockCbcCipherData_def Let_def
    using False by (simp only: if_True if_False simp_thms two_guards not_less)
  then show ?thesis
    using False by (simp only: guarded_room block_padding(2) if_False)
qed

lemma cbc_decrypt_0:
  "CheckBlockCbcCipherData mode HKS_CMD_ID_DECRYPT padding inData outData = 0 \<longleftrightarrow>
     (mode \<in> {HKS_MODE_CBC, HKS_MODE_ECB} \<longrightarrow> 16 dvd unat (blob_size inData))
     \<and> unat (blob_size inData) \<le> unat (blob_size outData)"
  by (auto simp: CheckBlockCbcCipherData_def Let_def mod_16_dvd word_le_nat_alt word_less_nat_alt)

lemma ae_encrypt_0:
  "CheckAesAeCipherData HKS_CMD_ID_ENCRYPT inData outData = 0 \<longleftrightarrow>
     unat (blob_size inData) + 16 \<le> unat (blob_size outData)"
proof -
  have "CheckAesAeCipherData HKS_CMD_ID_ENCRYPT inData outData = 0 \<longleftrightarrow>
      blob_size inData \<le> UINT32_MAX - 16 \<and> blob_size inData + 16 \<le> blob_size outData"
    by (auto simp: CheckAesAeCipherData_def Let_def not_less)
  also have "\<dots> \<longleftrightarrow> unat (blob_size inData) + unat (16 :: u32) \<le> unat (blob_size outData)"
    by (rule guarded_room)
  finally show ?thesis by simp
qed

lemma ae_decrypt_0:
  "CheckAesAeCipherData HKS_CMD_ID_DECRYPT inData outData = 0 \<longleftrightarrow>
     16 \<le> unat (blob_size inData) \<and> unat (blob_size inData) - 16 \<le> unat (blob_size outData)"
proof -
  have "unat (n - 16) = unat n - 16" if "16 \<le> unat (n :: u32)" for n
    using that unat_sub [of 16 n] by (simp add: word_le_nat_alt)
  then show ?thesis
    by (auto simp: CheckAesAeCipherData_def Let_def word_le_nat_alt word_less_nat_alt not_less)
qed

text \<open>The number of bytes an AES operation writes for an input of \<open>n\<close> bytes, at most.\<close>

definition aes_output_bound :: "u32 \<Rightarrow> u32 \<Rightarrow> u32 \<Rightarrow> nat \<Rightarrow> nat" where
  "aes_output_bound cmdId mode padding n =
     (if mode \<in> {HKS_MODE_GCM, HKS_MODE_CCM}
      then (if cmdId = HKS_CMD_ID_ENCRYPT then n + 16 else n - 16)
      else if cmdId = HKS_CMD_ID_ENCRYPT \<and> padding \<noteq> HKS_PADDING_NONE then 16 * (n div 16 + 1)
      else n)"

text \<open>Inputs the mode can process: whole blocks without padding, and at least a tag to decrypt.\<close>

definition aes_input_ok :: "u32 \<Rightarrow> u32 \<Rightarrow> u32 \<Rightarrow> nat \<Rightarrow> bool" where
  "aes_input_ok cmdId mode padding n \<longleftrightarrow>
     (if mode \<in> {HKS_MODE_GCM, HKS_MODE_CCM} then cmdId = HKS_CMD_ID_ENCRYPT \<or> 16 \<le> n
      else mode \<in> {HKS_MODE_CBC, HKS_MODE_ECB} \<and> (cmdId = HKS_CMD_ID_DECRYPT \<or> padding = HKS_PADDING_NONE)
        \<longrightarrow> 16 dvd n)"

lemma aes_cipher_data_cases:
  "HksCheckCipherData cmdId HKS_ALG_AES ip inData outData =
     (if pa_value (pv_mode ip) \<in> {HKS_MODE_CBC, HKS_MODE_CTR, HKS_MODE_ECB}
      then CheckBlockCbcCipherData (pa_value (pv_mode ip)) cmdId (pa_value (pv_padding ip)) inData outData
      else if pa_value (pv_mode ip) \<in> {HKS_MODE_GCM, HKS_MODE_CCM}
      then CheckAesAeCipherData cmdId inData outData
      else HKS_ERROR_INVALID_MODE)"
  by (simp add: HksCheckCipherData_def CheckBlockCipherData_def Let_def)

text \<open>
  C17: The check of an AES cipher request accepts exactly the buffers that fit: for encrypting and
  decrypting in each mode, an input the mode can process and an output buffer at least as long, as
  a natural number, as the bytes the operation writes (the padded length, the input plus the
  16-byte tag, or the input less the tag). No 32-bit sum wraps around on the way.
\<close>

theorem aes_cipher_buffers_exact:
  assumes "cmdId = HKS_CMD_ID_ENCRYPT \<or> cmdId = HKS_CMD_ID_DECRYPT"
  shows "HksCheckCipherData cmdId HKS_ALG_AES ip inData outData = HKS_SUCCESS \<longleftrightarrow>
    pa_value (pv_mode ip) \<in> set g_aesMode
    \<and> aes_input_ok cmdId (pa_value (pv_mode ip)) (pa_value (pv_padding ip)) (unat (blob_size inData))
    \<and> aes_output_bound cmdId (pa_value (pv_mode ip)) (pa_value (pv_padding ip)) (unat (blob_size inData))
        \<le> unat (blob_size outData)"
  using assms
  by (auto simp: aes_cipher_data_cases cbc_encrypt_0 cbc_decrypt_0 ae_encrypt_0 ae_decrypt_0
      aes_input_ok_def aes_output_bound_def g_aesMode_def split: if_splits)

lemma aes_cipher_buffers_exact_witness:
  "HksCheckCipherData HKS_CMD_ID_ENCRYPT HKS_ALG_AES
     (params_values_init (params_init True 0 False) (params_init True HKS_PADDING_PKCS7 False)
       (params_init True 1 False) (params_init False 0 False) (params_init True HKS_MODE_CBC False))
     \<lparr>blob_size = 20, blob_data = NULL\<rparr> \<lparr>blob_size = 32, blob_data = NULL\<rparr> = HKS_SUCCESS"
  by (subst aes_cipher_buffers_exact)
     (simp_all add: init_defs g_aesMode_def aes_input_ok_def aes_output_bound_def)


section \<open>RSA with OAEP padding\<close>

lemma digest_len_le: "HksGetDigestLen d = Inr h \<Longrightarrow> unat h \<le> 64"
  by (auto simp: HksGetDigestLen_def split: if_splits)

lemma HksGetDigestLen_proper [simp]: "proper (HksGetDigestLen d)"
  by (simp add: HksGetDigestLen_def)

lemma oaep_overhead:
  fixes k h :: u32
  assumes "unat h \<le> 64"
  shows "k \<le> 2 * h + 2 \<longleftrightarrow> unat k \<le> 2 * unat h + 2"
    "2 * unat h + 2 < unat k \<Longrightarrow> unat (k - 2 * h - 2) = unat k - (2 * unat h + 2)"
proof -
  have o: "unat (2 * h + 2) = 2 * unat h + 2"
    using assms by (simp add: unat_word_ariths)
  then show "k \<le> 2 * h + 2 \<longleftrightarrow> unat k \<le> 2 * unat h + 2"
    by (simp add: word_le_nat_alt)
  assume "2 * unat h + 2 < unat k"
  then have "2 * h + 2 \<le> k"
    using o by (simp add: word_le_nat_alt)
  then show "unat (k - 2 * h - 2) = unat k - (2 * unat h + 2)"
    using unat_sub [of "2 * h + 2" k] o by (simp add: algebra_simps)
qed

lemma CheckRsaOaepCipherData_0:
  "CheckRsaOaepCipherData cmdId k digest inData outData = 0 \<longleftrightarrow>
     (\<exists>h. HksGetDigestLen (if digest = HKS_DIGEST_NONE then HKS_DIGEST_SHA1 else digest) = Inr h
       \<and> 2 * unat h + 2 < unat k
       \<and> (cmdId = HKS_CMD_ID_ENCRYPT \<longrightarrow>
            unat (blob_size inData) + (2 * unat h + 2) \<le> unat k \<and> unat k \<le> unat (blob_size outData))
       \<and> (cmdId = HKS_CMD_ID_DECRYPT \<longrightarrow>
            unat (blob_size inData) \<le> unat k \<and> unat k \<le> unat (blob_size outData) + (2 * unat h + 2)))"
proof -
  have body: "(if k \<le> 2 * h + 2 then HKS_ERROR_INVALID_KEY_FILE
        else
          (let sz = k - 2 * h - 2 in
           if cmdId = HKS_CMD_ID_ENCRYPT then
             (if blob_size inData > sz then HKS_ERROR_INVALID_ARGUMENT
              else if blob_size outData < k then HKS_ERROR_BUFFER_TOO_SMALL
              else HKS_SUCCESS)
           else if cmdId = HKS_CMD_ID_DECRYPT then
             (if blob_size inData > k then HKS_ERROR_INVALID_ARGUMENT
              else if blob_size outData < sz then HKS_ERROR_BUFFER_TOO_SMALL
              else HKS_SUCCESS)
           else HKS_SUCCESS)) = 0 \<longleftrightarrow>
       2 * unat h + 2 < unat k
       \<and> (cmdId = HKS_CMD_ID_ENCRYPT \<longrightarrow>
            unat (blob_size inData) + (2 * unat h + 2) \<le> unat k \<and> unat k \<le> unat (blob_size outData))
       \<and> (cmdId = HKS_CMD_ID_DECRYPT \<longrightarrow>
            unat (blob_size inData) \<le> unat k \<and> unat k \<le> unat (blob_size outData) + (2 * unat h + 2))"
    if "unat h \<le> 64" for h
  proof (cases "2 * unat h + 2 < unat k")
    case True
    define sz where "sz = k - 2 * h - 2"
    have "unat sz = unat k - (2 * unat h + 2)"
      using oaep_overhead(2) [OF that True] by (simp add: sz_def)
    then show ?thesis
      using True oaep_overhead(1) [OF that, of k]
      unfolding sz_def [symmetric] by (auto simp: word_less_nat_alt word_le_nat_alt)
  next
    case False
    then have "k \<le> 2 * h + 2"
      using oaep_overhead(1) [OF that, of k] by simp
    with False show ?thesis by simp
  qed
  show ?thesis
    unfolding CheckRsaOaepCipherData_def Let_def [of "if digest = HKS_DIGEST_NONE then HKS_DIGEST_SHA1 else digest"]
    by (simp only: try_rc_proper_0 HksGetDigestLen_proper) (metis body digest_len_le)
qed

text \<open>
  RSA with OAEP padding: with \<open>k\<close> the bytes of the modulus and \<open>h\<close> the bytes of the digest (SHA-1
  when none is named), a request is accepted exactly if \<open>k > 2h + 2\<close> and, when encrypting, the
  plaintext is at most \<open>k - 2h - 2\<close> bytes with room for \<open>k\<close> bytes of output, when decrypting, the
  ciphertext is at most \<open>k\<close> bytes with room for \<open>k - 2h - 2\<close> bytes.
\<close>

theorem rsa_oaep_buffers_exact:
  assumes "pa_value (pv_padding ip) = HKS_PADDING_OAEP"
  defines "k \<equiv> unat (pa_value (pv_keyLen ip)) div 8"
    and "d \<equiv> (if pa_value (pv_digest ip) = HKS_DIGEST_NONE then HKS_DIGEST_SHA1 else pa_value (pv_digest ip))"
  shows "HksCheckCipherData cmdId HKS_ALG_RSA ip inData outData = HKS_SUCCESS \<longleftrightarrow>
    (\<exists>h. HksGetDigestLen d = Inr h \<and> 2 * unat h + 2 < k
      \<and> (cmdId = HKS_CMD_ID_ENCRYPT \<longrightarrow>
           unat (blob_size inData) + (2 * unat h + 2) \<le> k \<and> k \<le> unat (blob_size outData))
      \<and> (cmdId = HKS_CMD_ID_DECRYPT \<longrightarrow>
           unat (blob_size inData) \<le> k \<and> k \<le> unat (blob_size outData) + (2 * unat h + 2)))"
proof -
  have "HksCheckCipherData cmdId HKS_ALG_RSA ip inData outData
      = CheckRsaOaepCipherData cmdId (pa_value (pv_keyLen ip) div 8) (pa_value (pv_digest ip)) inData outData"
    using assms(1) by (simp add: HksCheckCipherData_def CheckRsaCipherData_def)
  then show ?thesis
    by (simp add: CheckRsaOaepCipherData_0 unat_div k_def d_def)
qed

lemma rsa_oaep_buffers_exact_witness:
  "HksCheckCipherData HKS_CMD_ID_ENCRYPT HKS_ALG_RSA
     (params_values_init (params_init True 2048 False) (params_init True HKS_PADDING_OAEP False)
       (params_init True 1 False) (params_init True HKS_DIGEST_SHA256 False) (params_init False 0 False))
     \<lparr>blob_size = 190, blob_data = NULL\<rparr> \<lparr>blob_size = 256, blob_data = NULL\<rparr> = HKS_SUCCESS"
  by (subst rsa_oaep_buffers_exact) (simp_all add: init_defs HksGetDigestLen_def)

section \<open>Imported key material\<close>

lemma unat_foldl_add:
  assumes "unat (a :: u32) + sum_list (map unat xs) < 4294967296"
  shows "unat (foldl (+) a xs) = unat a + sum_list (map unat xs)"
  using assms
proof (induction xs arbitrary: a)
  case Nil
  then show ?case by simp
next
  case (Cons x xs)
  then have "unat (a + x) = unat a + unat x"
    by (simp add: unat_word_ariths)
  with Cons show ?case by simp
qed

lemma sum_unat_le:
  "\<forall>x \<in> set xs. unat (x :: u32) \<le> m \<Longrightarrow> sum_list (map unat xs) \<le> m * length xs"
  by (induction xs) auto

text \<open>The size fields of the material of an asymmetric key, after a header with algorithm and size.\<close>

definition material_header :: "u32 \<Rightarrow> nat" where
  "material_header alg = (if alg = HKS_ALG_DSA then 28 else 20)"

definition material_sizes :: "u32 \<Rightarrow> HksBlob \<Rightarrow> u32 list" where
  "material_sizes alg key =
     map (read_u32 (blob_bytes key))
       (if alg = HKS_ALG_DSA then [8, 12, 16, 20, 24]
        else if alg = HKS_ALG_X25519 \<or> alg = HKS_ALG_ED25519 \<or> alg = HKS_ALG_DH then [8, 12]
        else [8, 12, 16])"

lemma key_room:
  assumes "\<not> blob_size key < foldl (+) h xs" "\<forall>x \<in> set xs. unat x \<le> 4096" "length xs \<le> 5" "unat h \<le> 28"
  shows "unat h + sum_list (map unat xs) \<le> unat (blob_size key)"
proof -
  have "sum_list (map unat xs) \<le> 4096 * 5"
    using sum_unat_le [OF assms(2)] assms(3) by linarith
  then have "unat (foldl (+) h xs) = unat h + sum_list (map unat xs)"
    using assms(4) by (intro unat_foldl_add) linarith
  then show ?thesis using assms(1) by (simp add: word_less_nat_alt)
qed

lemmas material_views = as_HksKeyMaterialRsa_def as_HksKeyMaterialEcc_def as_HksKeyMaterialDsa_def
  as_HksKeyMaterialDh_def

lemma CheckRsaKeyLen_0:
  assumes "CheckRsaKeyLen alg ip key = 0"
  shows "read_u32 (blob_bytes key) 0 = alg \<and> read_u32 (blob_bytes key) 4 = pa_value (pv_keyLen ip)
    \<and> 20 + sum_list (map (\<lambda>o'. unat (read_u32 (blob_bytes key) o')) [8, 12, 16]) \<le> unat (blob_size key)"
proof -
  from assms have r: "\<not> blob_size key < foldl (+) 20 (map (read_u32 (blob_bytes key)) [8, 16, 12])"
    and b: "\<forall>x \<in> set (map (read_u32 (blob_bytes key)) [8, 16, 12]). unat x \<le> 4096"
    and e: "read_u32 (blob_bytes key) 0 = alg" "read_u32 (blob_bytes key) 4 = pa_value (pv_keyLen ip)"
    by (auto simp: CheckRsaKeyLen_def material_views Let_def word_less_nat_alt split: if_splits)
  with key_room [OF r b] show ?thesis by simp
qed

lemma CheckEccKeyLen_0:
  assumes "CheckEccKeyLen alg t ip key = 0"
  shows "read_u32 (blob_bytes key) 0 = alg \<and> read_u32 (blob_bytes key) 4 = pa_value (pv_keyLen ip)
    \<and> 20 + sum_list (map (\<lambda>o'. unat (read_u32 (blob_bytes key) o')) [8, 12, 16]) \<le> unat (blob_size key)"
proof -
  from assms have r: "\<not> blob_size key < foldl (+) 20 (map (read_u32 (blob_bytes key)) [8, 12, 16])"
    and b: "\<forall>x \<in> set (map (read_u32 (blob_bytes key)) [8, 12, 16]). unat x \<le> 4096"
    and e: "read_u32 (blob_bytes key) 0 = alg" "read_u32 (blob_bytes key) 4 = pa_value (pv_keyLen ip)"
    by (auto simp: CheckEccKeyLen_def material_views Let_def word_less_nat_alt split: if_splits)
  with key_room [OF r b] show ?thesis by simp
qed

lemma CheckDsaKeyLen_0:
  assumes "CheckDsaKeyLen alg t ip key = 0"
  shows "read_u32 (blob_bytes key) 0 = alg \<and> read_u32 (blob_bytes key) 4 = pa_value (pv_keyLen ip)
    \<and> 28 + sum_list (map (\<lambda>o'. unat (read_u32 (blob_bytes key) o')) [8, 12, 16, 20, 24])
        \<le> unat (blob_size key)"
proof -
  from assms have r: "\<not> blob_size key < foldl (+) 28 (map (read_u32 (blob_bytes key)) [8, 12, 16, 20, 24])"
    and b: "\<forall>x \<in> set (map (read_u32 (blob_bytes key)) [8, 12, 16, 20, 24]). unat x \<le> 4096"
    and e: "read_u32 (blob_bytes key) 0 = alg" "read_u32 (blob_bytes key) 4 = pa_value (pv_keyLen ip)"
    by (auto simp: CheckDsaKeyLen_def material_views Let_def word_less_nat_alt split: if_splits)
  with key_room [OF r b] show ?thesis by simp
qed

lemma CheckPairKeyLen_0:
  assumes "CheckCurve25519KeyLen alg t ip key = 0 \<or> CheckDHKeyLen alg t ip key = 0"
  shows "read_u32 (blob_bytes key) 0 = alg \<and> read_u32 (blob_bytes key) 4 = pa_value (pv_keyLen ip)
    \<and> 20 + sum_list (map (\<lambda>o'. unat (read_u32 (blob_bytes key) o')) [8, 12]) \<le> unat (blob_size key)"
proof -
  from assms have r: "\<not> blob_size key < foldl (+) 20 (map (read_u32 (blob_bytes key)) [8, 12])"
    and b: "\<forall>x \<in> set (map (read_u32 (blob_bytes key)) [8, 12]). unat x \<le> 4096"
    and e: "read_u32 (blob_bytes key) 0 = alg" "read_u32 (blob_bytes key) 4 = pa_value (pv_keyLen ip)"
    by (auto simp: CheckCurve25519KeyLen_def CheckDHKeyLen_def material_views Let_def word_less_nat_alt
        split: if_splits)
  with key_room [OF r b] show ?thesis by simp
qed

lemma CheckKeyLen_0:
  assumes "CheckKeyLen alg keyType ip key = 0"
  shows "read_u32 (blob_bytes key) 0 = alg \<and> read_u32 (blob_bytes key) 4 = pa_value (pv_keyLen ip)
    \<and> material_header alg + sum_list (map unat (material_sizes alg key)) \<le> unat (blob_size key)"
  using assms CheckRsaKeyLen_0 [of alg ip key] CheckEccKeyLen_0 [of alg keyType ip key]
    CheckDsaKeyLen_0 [of alg keyType ip key] CheckPairKeyLen_0 [of alg keyType ip key]
  by (auto simp: CheckKeyLen_def material_header_def material_sizes_def split: if_splits)

text \<open>What an accepted import of an asymmetric key looks like, by the type of key the request names.\<close>

definition symmetric_algs :: "u32 set" where
  "symmetric_algs = {HKS_ALG_AES, HKS_ALG_DES, HKS_ALG_3DES, HKS_ALG_SM3, HKS_ALG_SM4, HKS_ALG_HMAC, HKS_ALG_CMAC}"

definition named_by_header :: "u32 \<Rightarrow> u32 \<Rightarrow> HksBlob \<Rightarrow> bool" where
  "named_by_header alg bits key \<longleftrightarrow> read_u32 (blob_bytes key) 0 = alg \<and> read_u32 (blob_bytes key) 4 = bits"

lemma CheckImportKeySize_0:
  "CheckImportKeySize alg ip key = 0 \<longleftrightarrow> alg = HKS_ALG_DSA
     \<or> alg \<in> {HKS_ALG_ED25519, HKS_ALG_X25519, HKS_ALG_RSA, HKS_ALG_ECC, HKS_ALG_SM2, HKS_ALG_DH}
       \<and> 20 \<le> unat (blob_size key) \<and> named_by_header alg (pa_value (pv_keyLen ip)) key"
  by (auto simp: CheckImportKeySize_def as_HksPubKeyInfo_def named_by_header_def word_less_nat_alt Let_def)

text \<open>
  C18: Key material that is accepted for import agrees with the request, whatever OpenSSL says about it. The
  key of a symmetric algorithm has exactly the size in bytes that the request states in bits. A key pair or
  private key names algorithm and size of the request, and its header plus all its component sizes, added
  as natural numbers, are at most the size of the blob: the 32-bit sum in the code cannot wrap, because every
  component was bounded before. For a public key (or a request that names no type) only a header that names
  algorithm and size is checked, for DSA not even that.
\<close>

theorem import_material_fits:
  assumes "HksCoreCheckImportKeyParams checkDh checkRsa key (Some ps) = HKS_SUCCESS"
  shows "\<exists>alg bits. tag_value ps HKS_TAG_ALGORITHM = Some alg \<and> tag_value ps HKS_TAG_KEY_SIZE = Some bits
    \<and> (alg \<in> symmetric_algs \<longrightarrow> blob_size key = HKS_KEY_BYTES bits)
    \<and> (alg \<notin> symmetric_algs \<longrightarrow>
        (case tag_value ps HKS_TAG_IMPORT_KEY_TYPE of
           Some keyType \<Rightarrow>
             if keyType \<noteq> HKS_KEY_TYPE_PUBLIC_KEY then
               named_by_header alg bits key
               \<and> material_header alg + sum_list (map unat (material_sizes alg key)) \<le> unat (blob_size key)
             else alg = HKS_ALG_DSA \<or> 20 \<le> unat (blob_size key) \<and> named_by_header alg bits key
         | None \<Rightarrow> alg = HKS_ALG_DSA \<or> 20 \<le> unat (blob_size key) \<and> named_by_header alg bits key))"
proof -
  from assms obtain ip alg where ip: "CoreCheckGenKeyParams (Some ps) HKS_KEY_FLAG_IMPORT_KEY = Inr ip"
    and alg: "tag_value ps HKS_TAG_ALGORITHM = Some alg" "alg \<in> set g_importKeyAlg"
    by (auto simp: HksCoreCheckImportKeyParams_def try_rc_proper_0 CheckAndGetAlgorithm_Inr)
  from ip alg obtain purpose where "tag_value ps HKS_TAG_PURPOSE = Some purpose"
    by (auto simp: CoreCheckGenKeyParams_Inr)
  from gen_key_size [OF ip alg(1) this] obtain bits where
    size: "tag_value ps HKS_TAG_KEY_SIZE = Some bits" "pa_value (pv_keyLen ip) = bits" by blast
  have alg': "CheckAndGetAlgorithm (Some ps) g_importKeyAlg = Inr alg"
    using alg by (simp add: CheckAndGetAlgorithm_Inr)
  show ?thesis
  proof (cases "alg \<in> symmetric_algs")
    case True
    with assms size alg show ?thesis
      by (auto simp: HksCoreCheckImportKeyParams_def ip alg' symmetric_algs_def CheckImportSymmetricKeySize_def
          split: if_splits)
  next
    case False
    have later: "CheckImportKeySize alg ip key = 0 \<Longrightarrow>
        alg = HKS_ALG_DSA \<or> 20 \<le> unat (blob_size key) \<and> named_by_header alg bits key"
      using size by (auto simp: CheckImportKeySize_0)
    have material: "CheckKeyLen alg keyType ip key = 0 \<Longrightarrow> named_by_header alg bits key
        \<and> material_header alg + sum_list (map unat (material_sizes alg key)) \<le> unat (blob_size key)" for keyType
      using CheckKeyLen_0 [of alg keyType ip key] size by (simp add: named_by_header_def)
    show ?thesis
    proof (cases "HksGetParam (Some ps) HKS_TAG_IMPORT_KEY_TYPE")
      case (Inl ret)
      with assms size alg False later show ?thesis
        by (auto simp: HksCoreCheckImportKeyParams_def ip alg' symmetric_algs_def tag_value_def
            if_not_succ_return_0 Let_def)
    next
      case (Inr p)
      with assms size alg False later material [of "uint32Param (p_val p)"] show ?thesis
        by (auto simp: HksCoreCheckImportKeyParams_def ip alg' symmetric_algs_def tag_value_def CheckImportKey_def
            if_not_succ_return_0 Let_def split: if_splits)
    qed
  qed
qed

text \<open>A key pair for X25519 whose parts fill the blob, and the request to import it.\<close>

definition x25519_import :: HksParamSet where
  "x25519_import = \<lparr>paramSetSize = 112,
     params = [\<lparr>p_tag = HKS_TAG_ALGORITHM, p_val = VUint HKS_ALG_X25519\<rparr>,
       \<lparr>p_tag = HKS_TAG_PURPOSE, p_val = VUint HKS_KEY_PURPOSE_AGREE\<rparr>,
       \<lparr>p_tag = HKS_TAG_KEY_SIZE, p_val = VUint 256\<rparr>,
       \<lparr>p_tag = HKS_TAG_IMPORT_KEY_TYPE, p_val = VUint HKS_KEY_TYPE_KEY_PAIR\<rparr>], ps_tail = []\<rparr>"

definition x25519_material :: HksBlob where
  "x25519_material = \<lparr>blob_size = 22, blob_data = Some (to_le 4 HKS_ALG_X25519 @ to_le 4 (256 :: u32)
     @ to_le 4 (1 :: u32) @ to_le 4 (1 :: u32) @ to_le 4 (0 :: u32) @ [7, 9])\<rparr>"

lemma x25519_size: "HksCheckParamSet (Some x25519_import) (paramSetSize x25519_import) = 0"
  by (simp add: x25519_import_def HksCheckParamSet_def paramsCnt_def)

lemma x25519_params_read:
  "HksGetParam (Some x25519_import) HKS_TAG_ALGORITHM = Inr \<lparr>p_tag = HKS_TAG_ALGORITHM, p_val = VUint HKS_ALG_X25519\<rparr>"
  "HksGetParam (Some x25519_import) HKS_TAG_PURPOSE = Inr \<lparr>p_tag = HKS_TAG_PURPOSE, p_val = VUint HKS_KEY_PURPOSE_AGREE\<rparr>"
  "HksGetParam (Some x25519_import) HKS_TAG_KEY_SIZE = Inr \<lparr>p_tag = HKS_TAG_KEY_SIZE, p_val = VUint 256\<rparr>"
  "HksGetParam (Some x25519_import) HKS_TAG_IMPORT_KEY_TYPE
     = Inr \<lparr>p_tag = HKS_TAG_IMPORT_KEY_TYPE, p_val = VUint HKS_KEY_TYPE_KEY_PAIR\<rparr>"
  "HksGetParam (Some x25519_import) HKS_TAG_BATCH_PURPOSE = Inl HKS_ERROR_PARAM_NOT_EXIST"
  using x25519_size
  by (simp_all add: HksGetParam_Some) (simp_all add: x25519_import_def is_bytes_tag_def GetTagType_def)

lemma x25519_material_accepted:
  "HksCoreCheckImportKeyParams (\<lambda>_ _. HKS_SUCCESS) (\<lambda>_. HKS_SUCCESS) x25519_material (Some x25519_import) = HKS_SUCCESS"
proof -
  have "HksCheckParamSetTag (Some x25519_import) = 0"
    by (simp add: x25519_import_def HksCheckParamSetTag_def IsValidTag_def g_validTags_def)
  moreover have "HksCheckGenKeyPurpose HKS_ALG_X25519 HKS_KEY_PURPOSE_AGREE HKS_KEY_FLAG_IMPORT_KEY = 0"
    by (simp add: HksCheckGenKeyPurpose_0 forbidden_purposes_def g_invalidPurpose_def g_invalidImportKeyPurpose_def
        purpose_categories_def)
  ultimately have "CoreCheckGenKeyParams (Some x25519_import) HKS_KEY_FLAG_IMPORT_KEY
      = Inr (params_values_init (params_init True 256 False) (params_init False 0 False)
          (params_init True HKS_KEY_PURPOSE_AGREE False) (params_init False 0 False) (params_init False 0 False))"
    by (simp add: CoreCheckGenKeyParams_def CheckAndGetAlgorithm_def x25519_params_read try_res_def try_or_def
        HksCheckValue_def g_genKeyAlg_def if_not_succ_return_def CheckGenKeyParamsByAlg_def HksGetInputParmasByAlg_def
        InitInputParamsByAlg_def InitInputParams_def g_curve25519ParamSet_def GetInputParams_def get_required_def
        GetOptionalParams_def init_defs HksCheckFixedParams_def GetExpectParams_def InitExpectParams_def
        g_expectCurve25519Params_def g_curve25519KeySize_def check_optional_def CheckOptionalParams_def
        HksCheckGenKeyMutableParams_def try_rc_def)
  moreover have "CheckAndGetAlgorithm (Some x25519_import) g_importKeyAlg = Inr HKS_ALG_X25519"
    by (simp add: CheckAndGetAlgorithm_def x25519_params_read try_or_def HksCheckValue_def g_importKeyAlg_def
        if_not_succ_return_def)
  moreover have "CheckImportKey HKS_ALG_X25519 HKS_KEY_TYPE_KEY_PAIR
      (params_values_init (params_init True 256 False) (params_init False 0 False)
          (params_init True HKS_KEY_PURPOSE_AGREE False) (params_init False 0 False) (params_init False 0 False))
      x25519_material = 0"
    by (simp add: CheckImportKey_def CheckMutableParams_def CheckKeyLen_def CheckCurve25519KeyLen_def material_views
        x25519_material_def init_defs blob_bytes_def to_le_4 read_u32_def)
  ultimately show ?thesis
    by (simp add: HksCoreCheckImportKeyParams_def x25519_params_read try_rc_def if_not_succ_return_def)
qed

lemma import_material_fits_witness:
  "\<exists>alg. tag_value x25519_import HKS_TAG_ALGORITHM = Some alg
    \<and> material_header alg + sum_list (map unat (material_sizes alg x25519_material))
        \<le> unat (blob_size x25519_material)"
  using import_material_fits [OF x25519_material_accepted]
  by (auto simp: tag_value_def x25519_params_read symmetric_algs_def)

end
