(* ===== verification/Huks_Use_Props.thy ===== *)
theory Huks_Use_Props
  imports Huks_Check_Laws
begin

text \<open>
  Properties of the checks for using keys: user authentication, message authentication codes, key
  agreement, signature buffers, and the nonces and associated data of authenticated ciphers.
\<close>

section \<open>User authentication\<close>

definition biometric :: "u32 \<Rightarrow> bool" where
  "biometric t \<longleftrightarrow> t AND (HKS_USER_AUTH_TYPE_FACE OR HKS_USER_AUTH_TYPE_FINGERPRINT) \<noteq> 0"

definition pin :: "u32 \<Rightarrow> bool" where
  "pin t \<longleftrightarrow> t AND HKS_USER_AUTH_TYPE_PIN \<noteq> 0"

text \<open>The access types that go with authentication types.\<close>

definition allowed_access :: "u32 \<Rightarrow> u32 set" where
  "allowed_access t =
     {HKS_AUTH_ACCESS_INVALID_CLEAR_PASSWORD, HKS_AUTH_ACCESS_ALWAYS_VALID}
     \<union> (if biometric t then {HKS_AUTH_ACCESS_INVALID_NEW_BIO_ENROLL} else {})
     \<union> (if biometric t \<and> pin t
        then {HKS_AUTH_ACCESS_INVALID_CLEAR_PASSWORD OR HKS_AUTH_ACCESS_INVALID_NEW_BIO_ENROLL} else {})"

lemma auth_table_simps:
  "HasValidAuthAccessType (expect True g_validBiometricAuthAccessType) a =
     (if a AND 2 \<noteq> 0 then Inr 2 else if a AND 1 \<noteq> 0 then Inr 1 else if a AND 4 \<noteq> 0 then Inr 4
      else Inl HKS_ERROR_INVALID_ARGUMENT)"
  "HasValidAuthAccessType (expect True g_validPinAuthAccessType) a =
     (if a AND 1 \<noteq> 0 then Inr 1 else if a AND 4 \<noteq> 0 then Inr 4 else Inl HKS_ERROR_INVALID_ARGUMENT)"
  by (simp_all add: HasValidAuthAccessType_def expect_def g_validBiometricAuthAccessType_def
      g_validPinAuthAccessType_def)

lemma valid_access_types_less: "valid_access_types t a \<in> {0, 1, 2, 3, 4, 5, 6, 7}"
  by (simp add: valid_access_types_def g_expectAuthAccessParams_def auth_table_simps)

lemma auth_type_cases:
  "t \<in> set g_supportUserAuthTypes \<longleftrightarrow> t \<in> {1, 2, 3, 4, 5, 6, 7}"
  by (auto simp: g_supportUserAuthTypes_def)

lemma access_check_0:
  assumes "t \<in> {1, 2, 3, 4, 5, 6, 7}"
  shows "HksCheckAuthAccessTypeByUserAuthType t a = 0 \<longleftrightarrow> a \<in> allowed_access t"
proof (cases "a \<in> {0, 1, 2, 3, 4, 5, 6, 7}")
  case False
  then have "a \<noteq> valid_access_types t a"
    using valid_access_types_less [of t a] by metis
  with False show ?thesis
    by (auto simp: HksCheckAuthAccessTypeByUserAuthType_def allowed_access_def split: if_splits)
next
  case True
  have eval: "HksCheckAuthAccessTypeByUserAuthType t a = 0 \<longleftrightarrow>
      a \<noteq> 0 \<and> a = valid_access_types t a \<and> (a AND 4 = 0 \<or> a AND NOT 4 = 0)"
    by (simp add: HksCheckAuthAccessTypeByUserAuthType_def)
  show ?thesis
    unfolding eval using assms True
    by (elim insertE emptyE)
       (simp_all add: valid_access_types_def g_expectAuthAccessParams_def auth_table_simps
         allowed_access_def biometric_def pin_def)
qed

text \<open>
  Exactly which combinations of user authentication are accepted: a nonempty combination of PIN,
  face and fingerprint, a known challenge type, and an access type out of the following: valid
  until the password is cleared or always valid; valid until a new biometric enrolment only with a
  biometric type; the combination of the first and the third only with a PIN and a biometric type.
  Always valid never combines with another access type.
\<close>

theorem user_auth_params_exact:
  "HksCheckUserAuthParams userAuthType authAccessType challengeType = HKS_SUCCESS \<longleftrightarrow>
     userAuthType \<in> {1, 2, 3, 4, 5, 6, 7}
     \<and> challengeType \<in> {HKS_CHALLENGE_TYPE_NORMAL, HKS_CHALLENGE_TYPE_CUSTOM, HKS_CHALLENGE_TYPE_NONE}
     \<and> authAccessType \<in> allowed_access userAuthType"
proof -
  have c: "challengeType \<in> set g_userAuthChallengeType \<longleftrightarrow>
      challengeType \<in> {HKS_CHALLENGE_TYPE_NORMAL, HKS_CHALLENGE_TYPE_CUSTOM, HKS_CHALLENGE_TYPE_NONE}"
    by (auto simp: g_userAuthChallengeType_def)
  have "HksCheckUserAuthParams userAuthType authAccessType challengeType = 0 \<longleftrightarrow>
      userAuthType \<in> set g_supportUserAuthTypes \<and> challengeType \<in> set g_userAuthChallengeType
      \<and> HksCheckAuthAccessTypeByUserAuthType userAuthType authAccessType = 0"
    by (simp add: HksCheckUserAuthParams_def if_not_succ_return_0 HksCheckValue_0)
  then show ?thesis
    using access_check_0 [of userAuthType authAccessType] unfolding c auth_type_cases by blast
qed

section \<open>Message authentication codes\<close>

text \<open>
  A request for a message authentication code is accepted exactly if its purpose is
  authentication only, its digest is one of the allowed ones, and the output buffer (and, in the
  local check, the key) is at least as long as that digest.
\<close>

theorem mac_request_exact:
  "HksCoreCheckMacParams key (Some ps) mac isLocalCheck = HKS_SUCCESS \<longleftrightarrow>
     tag_value ps HKS_TAG_PURPOSE = Some HKS_KEY_PURPOSE_MAC
     \<and> (\<exists>d h. tag_value ps HKS_TAG_DIGEST = Some d \<and> d \<in> set g_macDigest_paramset
          \<and> HksGetDigestLen d = Inr h \<and> unat h \<le> unat (blob_size mac)
          \<and> (isLocalCheck \<longrightarrow> unat h \<le> unat (blob_size key)))"
proof -
  have p: "CheckMacPurpose (Some ps) = 0 \<longleftrightarrow> tag_value ps HKS_TAG_PURPOSE = Some HKS_KEY_PURPOSE_MAC"
    by (cases "HksGetParam (Some ps) HKS_TAG_PURPOSE") (simp_all add: CheckMacPurpose_def tag_value_def)
  have same: "set g_digest_paramset = set g_macDigest_paramset"
    by (simp add: g_digest_paramset_def g_macDigest_paramset_def)
  have o: "CheckMacOutput key (Some ps) mac isLocalCheck = 0 \<longleftrightarrow>
      (\<exists>d. CheckAndGetDigest (Some ps) (if isLocalCheck then g_digest_paramset else g_macDigest_paramset) = Inr d
        \<and> (\<exists>h. HksGetDigestLen d = Inr h \<and> unat h \<le> unat (blob_size mac)
          \<and> (isLocalCheck \<longrightarrow> unat h \<le> unat (blob_size key))))"
  proof -
    have l: "try_rc (HksGetDigestLen d) (\<lambda>h. if blob_size mac < h then HKS_ERROR_BUFFER_TOO_SMALL
          else if isLocalCheck \<and> blob_size key < h then HKS_ERROR_INVALID_KEY_SIZE else HKS_SUCCESS) = 0
        \<longleftrightarrow> (\<exists>h. HksGetDigestLen d = Inr h \<and> unat h \<le> unat (blob_size mac)
          \<and> (isLocalCheck \<longrightarrow> unat h \<le> unat (blob_size key)))" for d
      by (cases "HksGetDigestLen d")
         (auto simp: HksGetDigestLen_def word_less_nat_alt split: if_splits)
    show ?thesis
      unfolding CheckMacOutput_def by (simp only: try_rc_proper_0 CheckAndGetDigest_proper l)
  qed
  show ?thesis
    by (auto simp: HksCoreCheckMacParams_def Let_def if_not_succ_return_0 p o CheckAndGetDigest_Inr same)
qed

definition mac_request :: HksParamSet where
  "mac_request = \<lparr>paramSetSize = 56,
     params = [\<lparr>p_tag = HKS_TAG_PURPOSE, p_val = VUint HKS_KEY_PURPOSE_MAC\<rparr>,
               \<lparr>p_tag = HKS_TAG_DIGEST, p_val = VUint HKS_DIGEST_SHA256\<rparr>], ps_tail = []\<rparr>"

theorem mac_request_exact_witness:
  "HksCoreCheckMacParams \<lparr>blob_size = 32, blob_data = Some (replicate 32 1)\<rparr> (Some mac_request)
     \<lparr>blob_size = 32, blob_data = Some (replicate 32 0)\<rparr> True = HKS_SUCCESS"
  using mac_request_exact [of "\<lparr>blob_size = 32, blob_data = Some (replicate 32 1)\<rparr>" mac_request
      "\<lparr>blob_size = 32, blob_data = Some (replicate 32 0)\<rparr>" True]
  by (simp add: tag_value_def HksGetParam_Some HksCheckParamSet_def paramsCnt_def mac_request_def
      is_bytes_tag_def GetTagType_def g_macDigest_paramset_def HksGetDigestLen_def)

section \<open>Key agreement\<close>

lemma unat_bits_to_bytes:
  fixes k :: u32
  shows "unat (k div 8 + k mod 8) = unat k div 8 + unat k mod 8"
proof -
  have u: "unat (k div 8) = unat k div 8" "unat (k mod 8) = unat k mod 8"
    by (simp_all add: unat_div unat_mod)
  have "unat k div 8 + unat k mod 8 \<le> unat k"
    using div_mult_mod_eq [of "unat k" 8] by linarith
  then show ?thesis using unat_u32_add_le [of "k div 8" "k mod 8" k] u by simp
qed

text \<open>
  The local check of a key agreement: for DH and ECDH the private key has a header, and the output
  buffer takes the bytes of the key size stated there. For X25519, which the local table allows, the
  check accepts every private key, every public key and every output buffer, because the branch
  for curve keys tests for Ed25519, which the table does not have.
\<close>

theorem local_agree_exact:
  "HksCoreCheckAgreeKeyParams (Some ps) privateKey peerPublicKey agreedKey True = HKS_SUCCESS \<longleftrightarrow>
     tag_value ps HKS_TAG_ALGORITHM = Some HKS_ALG_X25519
     \<or> (tag_value ps HKS_TAG_ALGORITHM = Some HKS_ALG_DH \<or> tag_value ps HKS_TAG_ALGORITHM = Some HKS_ALG_ECDH)
       \<and> 8 \<le> unat (blob_size privateKey)
       \<and> (let k = unat (read_u32 (blob_bytes privateKey) 4) in
          k div 8 + k mod 8 \<le> unat (blob_size agreedKey))"
proof (cases "\<exists>a. tag_value ps HKS_TAG_ALGORITHM = Some a \<and> a \<in> set g_agreeAlgLocal")
  case False
  then have "\<nexists>a. CheckAndGetAlgorithm (Some ps) g_agreeAlgLocal = Inr a"
    by (simp add: CheckAndGetAlgorithm_Inr)
  with False show ?thesis
    by (auto simp: HksCoreCheckAgreeKeyParams_def try_rc_proper_0 g_agreeAlgLocal_def)
next
  case True
  then obtain a where a: "tag_value ps HKS_TAG_ALGORITHM = Some a" "a \<in> set g_agreeAlgLocal"
    by blast
  then have get: "CheckAndGetAlgorithm (Some ps) g_agreeAlgLocal = Inr a"
    by (simp add: CheckAndGetAlgorithm_Inr)
  have "a = HKS_ALG_X25519 \<or> a = HKS_ALG_DH \<or> a = HKS_ALG_ECDH"
    using a(2) by (auto simp: g_agreeAlgLocal_def)
  then show ?thesis
    using a(1) get
    by (auto simp: HksCoreCheckAgreeKeyParams_def Let_def word_less_nat_alt not_less unat_bits_to_bytes)
qed

section \<open>Signature buffers\<close>

definition ceil_bytes :: "u32 \<Rightarrow> nat" where
  "ceil_bytes bits = (unat bits + 7) div 8"

lemma ecc_key_bytes:
  assumes "k \<in> set g_eccKeySize"
  shows "unat (k div 8 + k mod 8 + (k div 8 + k mod 8) + 8) = 2 * ceil_bytes k + 8"
  using assms by (auto simp: g_eccKeySize_def ceil_bytes_def)

text \<open>
  The signature buffer of an ECC request: a DER signature of a key of \<open>k\<close> bits takes at most
  twice \<open>k\<close> rounded up to bytes, plus 8. Signing is accepted exactly with a supported key size
  and a buffer of at least that size, verifying exactly with a signature of at most that size. This
  holds for the 521-bit key too, whose size is no multiple of 8.
\<close>

theorem ecc_signature_exact:
  "(HksCheckSignature HKS_CMD_ID_SIGN HKS_ALG_ECC k signature = HKS_SUCCESS \<longleftrightarrow>
      k \<in> {224, 256, 384, 521} \<and> 2 * ceil_bytes k + 8 \<le> unat (blob_size signature))
   \<and> (HksCheckSignature HKS_CMD_ID_VERIFY HKS_ALG_ECC k signature = HKS_SUCCESS \<longleftrightarrow>
      k \<in> {224, 256, 384, 521} \<and> unat (blob_size signature) \<le> 2 * ceil_bytes k + 8)"
proof -
  have s: "k \<in> set g_eccKeySize \<longleftrightarrow> k \<in> {224, 256, 384, 521}"
    by (simp add: g_eccKeySize_def)
  show ?thesis
    using ecc_key_bytes [of k] unfolding s [symmetric]
    by (auto simp: HksCheckSignature_def if_not_succ_return_0 HksCheckValue_0 CheckEccSignature_def
        Let_def word_less_nat_alt not_less split: if_splits)
qed

section \<open>Initialisation vectors, nonces, associated data\<close>

text \<open>The size of a blob the set has under a tag.\<close>

definition blob_len :: "HksParamSet \<Rightarrow> u32 \<Rightarrow> nat option" where
  "blob_len ps t =
     (case HksGetParam (Some ps) t of Inr p \<Rightarrow> Some (unat (blob_size (blobParam (p_val p)))) | Inl _ \<Rightarrow> None)"

lemma bytes_tags [simp]:
  "is_bytes_tag HKS_TAG_IV" "is_bytes_tag HKS_TAG_NONCE" "is_bytes_tag HKS_TAG_ASSOCIATED_DATA"
  by (simp_all add: is_bytes_tag_def GetTagType_def)

lemma found_blob:
  assumes "HksGetParam (Some ps) t = Inr p" "is_bytes_tag t"
  shows "CheckBlob (Some (blobParam (p_val p))) = 0" "blob_data (blobParam (p_val p)) \<noteq> NULL"
  using ps.found [OF assms(1)] assms(2) by (auto simp: CheckBlob_0)

lemma iv_0: "CheckBlockCipherIvMaterial (Some ps) = 0 \<longleftrightarrow> blob_len ps HKS_TAG_IV = Some 16"
proof (cases "HksGetParam (Some ps) HKS_TAG_IV")
  case (Inr p)
  then show ?thesis
    using found_blob [OF Inr]
    by (auto simp: CheckBlockCipherIvMaterial_def blob_len_def word_unat_eq_iff)
qed (simp add: CheckBlockCipherIvMaterial_def blob_len_def)

lemma nonce_0:
  assumes "mode = HKS_MODE_GCM \<or> mode = HKS_MODE_CCM"
  shows "CheckCipherAeNonceMaterial mode (Some ps) = 0 \<longleftrightarrow>
    (\<exists>n. blob_len ps HKS_TAG_NONCE = Some n
      \<and> (if mode = HKS_MODE_GCM then 12 \<le> n else 7 \<le> n \<and> n \<le> 13))"
proof (cases "HksGetParam (Some ps) HKS_TAG_NONCE")
  case (Inr p)
  then show ?thesis
    using found_blob [OF Inr] assms
    by (auto simp: CheckCipherAeNonceMaterial_def blob_len_def Let_def word_less_nat_alt not_less)
qed (simp add: CheckCipherAeNonceMaterial_def blob_len_def)

lemma aad_0:
  assumes "mode = HKS_MODE_GCM \<or> mode = HKS_MODE_CCM"
  shows "CheckCipherAeAadMaterial mode (Some ps) = 0 \<longleftrightarrow>
    (\<exists>n. blob_len ps HKS_TAG_ASSOCIATED_DATA = Some n \<and> (mode = HKS_MODE_CCM \<longrightarrow> 4 \<le> n))
    \<or> mode = HKS_MODE_GCM \<and> HksGetParam (Some ps) HKS_TAG_ASSOCIATED_DATA = Inl HKS_ERROR_PARAM_NOT_EXIST"
proof (cases "HksGetParam (Some ps) HKS_TAG_ASSOCIATED_DATA")
  case (Inr p)
  then show ?thesis
    using found_blob [OF Inr] assms
    by (auto simp: CheckCipherAeAadMaterial_def blob_len_def word_less_nat_alt not_less)
qed (auto simp: CheckCipherAeAadMaterial_def blob_len_def)

text \<open>
  The material of an AES cipher request: CBC needs an initialisation vector of exactly 16 bytes;
  GCM a nonce of at least 12 bytes, with associated data optional but not malformed; CCM a nonce of 7
  to 13 bytes and associated data of at least 4 bytes; the other modes need nothing.
\<close>

theorem aes_material_exact:
  "HksCheckCipherMaterialParams HKS_ALG_AES ip (Some ps) = HKS_SUCCESS \<longleftrightarrow>
     (pa_value (pv_mode ip) = HKS_MODE_CBC \<longrightarrow> blob_len ps HKS_TAG_IV = Some 16)
   \<and> (pa_value (pv_mode ip) = HKS_MODE_GCM \<longrightarrow>
        (\<exists>n \<ge> 12. blob_len ps HKS_TAG_NONCE = Some n)
        \<and> (blob_len ps HKS_TAG_ASSOCIATED_DATA \<noteq> None
          \<or> HksGetParam (Some ps) HKS_TAG_ASSOCIATED_DATA = Inl HKS_ERROR_PARAM_NOT_EXIST))
   \<and> (pa_value (pv_mode ip) = HKS_MODE_CCM \<longrightarrow>
        (\<exists>n \<ge> 7. n \<le> 13 \<and> blob_len ps HKS_TAG_NONCE = Some n)
        \<and> (\<exists>n \<ge> 4. blob_len ps HKS_TAG_ASSOCIATED_DATA = Some n))"
  by (auto simp: HksCheckCipherMaterialParams_def Let_def iv_0 CheckCipherAeMaterial_def
      if_not_succ_return_0 nonce_0 aad_0)

definition cbc_request :: HksParamSet where
  "cbc_request = \<lparr>paramSetSize = 48,
     params = [\<lparr>p_tag = HKS_TAG_IV, p_val = VBlob \<lparr>blob_size = 16, blob_data = Some (replicate 16 1)\<rparr>\<rparr>],
     ps_tail = replicate 16 1\<rparr>"

definition cbc_values :: ParamsValues where
  "cbc_values = (let p = (\<lambda>v. \<lparr>pa_needCheck = True, pa_value = v, pa_isAbsent = False\<rparr>) in
     \<lparr>pv_keyLen = p 256, pv_padding = p HKS_PADDING_NONE, pv_purpose = p HKS_KEY_PURPOSE_ENCRYPT,
      pv_digest = p HKS_DIGEST_NONE, pv_mode = p HKS_MODE_CBC\<rparr>)"

theorem aes_material_exact_witness:
  "HksCheckCipherMaterialParams HKS_ALG_AES cbc_values (Some cbc_request) = HKS_SUCCESS"
  using aes_material_exact [of cbc_values cbc_request]
  by (simp add: cbc_values_def blob_len_def HksGetParam_Some HksCheckParamSet_def paramsCnt_def cbc_request_def
      is_bytes_tag_def GetTagType_def CheckBlob_def)

end
