(* ===== verification/Huks_Registry.thy ===== *)
theory Huks_Registry
  imports Huks_Prelude "HOL-Library.Sublist"
begin

text \<open>
  The session manager and the key node list keep the same kind of registry: a doubly linked list with
  a 32-bit counter beside it, a limit on all entries and a limit per caller, and an insertion that
  makes room by evicting entries that nobody uses. The locales state that contract and derive the
  invariant from it; both components interpret them.
\<close>

section \<open>Removing a node\<close>

lemma subseq_remove1: "subseq (remove1 x xs) xs"
  by (induction xs) (auto intro: subseq_Cons')

lemma unat_decrement: "unat (c :: u32) = Suc n \<Longrightarrow> unat (c - 1) = n"
  using unat_sub [of 1 c] by (simp add: word_le_nat_alt)

lemma unat_increment: "unat (c :: u32) \<le> 32 \<Longrightarrow> unat (c + 1) = unat c + 1"
  using unat_u32_add_of_nat [of c 1] by simp

lemma find_Some_mem: "List.find P xs = Some x \<Longrightarrow> x \<in> set xs \<and> P x"
  by (induction xs) (auto split: if_splits)

lemma length_filter_subseq: "subseq xs ys \<Longrightarrow> length (filter Q xs) \<le> length (filter Q ys)"
  by (induction rule: list_emb.induct) auto

lemma set_subseq: "subseq xs ys \<Longrightarrow> set xs \<subseteq> set ys"
  by (induction rule: list_emb.induct) auto

lemma distinct_map_subseq: "subseq xs ys \<Longrightarrow> distinct (map f ys) \<Longrightarrow> distinct (map f xs)"
  by (induction rule: list_emb.induct) (auto dest: set_subseq)

section \<open>The contract\<close>

text \<open>
  The counter is the length of the list, the list is within the limit, and so is the part of every
  owner the limit applies to.
\<close>

definition registry_ok ::
    "('s \<Rightarrow> 'e list) \<Rightarrow> ('s \<Rightarrow> u32) \<Rightarrow> ('e \<Rightarrow> 'k) \<Rightarrow> ('k \<Rightarrow> bool) \<Rightarrow> nat \<Rightarrow> nat \<Rightarrow> 's \<Rightarrow> bool" where
  "registry_ok entries counter owner limited max_all max_each s \<longleftrightarrow>
     unat (counter s) = length (entries s) \<and> length (entries s) \<le> max_all
     \<and> (\<forall>k. limited k \<longrightarrow> length (filter (\<lambda>e. owner e = k) (entries s)) \<le> max_each)"

text \<open>What remains of the entries: some are gone, none of the pinned ones.\<close>

definition survives :: "('e \<Rightarrow> bool) \<Rightarrow> 'e list \<Rightarrow> 'e list \<Rightarrow> bool" where
  "survives pinned before after \<longleftrightarrow>
     subseq after before \<and> (\<forall>e \<in> set before. pinned e \<longrightarrow> e \<in> set after)"

lemma survives_refl [simp]: "survives pinned xs xs"
  by (simp add: survives_def)

lemma survives_trans: "survives p xs ys \<Longrightarrow> survives p ys zs \<Longrightarrow> survives p xs zs"
  by (auto simp: survives_def intro: subseq_order.order_trans)

lemma survives_length: "survives p xs ys \<Longrightarrow> length ys \<le> length xs"
  by (auto simp: survives_def dest: list_emb_length)

lemma survives_remove1: "\<not> pinned x \<Longrightarrow> survives pinned xs (remove1 x xs)"
  by (auto simp: survives_def subseq_remove1) (metis in_set_remove1)

lemma survives_count:
  "survives p xs ys \<Longrightarrow> length (filter Q ys) \<le> length (filter Q xs)"
  by (simp add: survives_def length_filter_subseq)

locale evicting_registry =
  fixes entries :: "'s \<Rightarrow> 'e list"
    and counter :: "'s \<Rightarrow> u32"
    and owner :: "'e \<Rightarrow> 'k"
    and charged :: "'e \<Rightarrow> 'k"
    and pinned :: "'e \<Rightarrow> bool"
    and limited :: "'k \<Rightarrow> bool"
    and max_all :: nat
    and max_each :: nat
    and add :: "'e \<Rightarrow> 's \<Rightarrow> rc \<times> 's"
  assumes add_success:
      "registry_ok entries counter owner limited max_all max_each s \<Longrightarrow> add e s = (HKS_SUCCESS, s') \<Longrightarrow>
       \<exists>kept. survives pinned (entries s) kept \<and> entries s' = kept @ [e]
         \<and> length kept < max_all \<and> length (filter (\<lambda>x. owner x = charged e) kept) < max_each
         \<and> unat (counter s') = length kept + 1"
    and add_failure:
      "registry_ok entries counter owner limited max_all max_each s \<Longrightarrow> add e s = (r, s')
       \<Longrightarrow> r \<noteq> HKS_SUCCESS \<Longrightarrow>
       survives pinned (entries s) (entries s') \<and> unat (counter s') = length (entries s')"
    and owner_charged: "limited (owner e) \<Longrightarrow> charged e = owner e"
begin

definition ok :: "'s \<Rightarrow> bool" where
  "ok s \<longleftrightarrow> registry_ok entries counter owner limited max_all max_each s"

lemma ok_shrink:
  assumes "ok s" "survives p (entries s) (entries s')" "unat (counter s') = length (entries s')"
  shows "ok s'"
  using assms survives_length [OF assms(2)] le_trans [OF survives_count [OF assms(2)]]
  unfolding ok_def registry_ok_def by fastforce

lemma add_ok:
  assumes "ok s" "add e s = (r, s')"
  shows "ok s'"
proof (cases "r = HKS_SUCCESS")
  case False
  then show ?thesis
    using add_failure [of s e r s'] assms ok_shrink by (auto simp: ok_def)
next
  case True
  then obtain kept where k: "survives pinned (entries s) kept" "entries s' = kept @ [e]"
    "length kept < max_all" "length (filter (\<lambda>x. owner x = charged e) kept) < max_each"
    "unat (counter s') = length kept + 1"
    using add_success [of s e s'] assms by (auto simp: ok_def)
  have "length (filter (\<lambda>x. owner x = k) (entries s')) \<le> max_each" if "limited k" for k
  proof (cases "owner e = k")
    case True
    then have "charged e = k" using owner_charged that by blast
    with k True show ?thesis by simp
  next
    case False
    have "length (filter (\<lambda>x. owner x = k) (entries s)) \<le> max_each"
      using assms(1) that by (simp add: ok_def registry_ok_def)
    with k(2) False le_trans [OF survives_count [OF k(1)]] show ?thesis by simp
  qed
  with k show ?thesis by (simp add: ok_def registry_ok_def)
qed

lemma add_keeps_pinned:
  assumes "ok s" "add e s = (r, s')" "x \<in> set (entries s)" "pinned x"
  shows "x \<in> set (entries s')"
proof (cases "r = HKS_SUCCESS")
  case True
  then show ?thesis
    using add_success [of s e s'] assms by (auto simp: ok_def survives_def)
next
  case False
  then show ?thesis
    using add_failure [of s e r s'] assms by (auto simp: ok_def survives_def)
qed

lemma add_adds: "ok s \<Longrightarrow> add e s = (HKS_SUCCESS, s') \<Longrightarrow> e \<in> set (entries s')"
  using add_success [of s e s'] by (auto simp: ok_def)

lemma add_subset:
  assumes "ok s" "add e s = (r, s')"
  shows "set (entries s') \<subseteq> insert e (set (entries s))"
proof (cases "r = HKS_SUCCESS")
  case True
  then obtain kept where "subseq kept (entries s)" "entries s' = kept @ [e]"
    using add_success [of s e s'] assms by (auto simp: ok_def survives_def)
  then show ?thesis using set_subseq by fastforce
next
  case False
  then show ?thesis
    using add_failure [of s e r s'] assms set_subseq by (auto simp: ok_def survives_def)
qed

lemma add_distinct:
  assumes "ok s" "add e s = (r, s')" "distinct (map f (entries s))" "f e \<notin> f ` set (entries s)"
  shows "distinct (map f (entries s'))"
proof (cases "r = HKS_SUCCESS")
  case True
  then obtain kept where "survives pinned (entries s) kept" "entries s' = kept @ [e]"
    using add_success [of s e s'] assms by (auto simp: ok_def)
  with assms(3,4) show ?thesis
    by (auto simp: survives_def dest: set_subseq distinct_map_subseq)
next
  case False
  then show ?thesis
    using add_failure [of s e r s'] assms by (auto simp: ok_def survives_def dest: distinct_map_subseq)
qed

end

text \<open>A registry whose entries can also be removed by request, with what the removal leaves.\<close>

locale deletable_registry =
  evicting_registry entries counter owner charged pinned limited max_all max_each add
  for entries :: "'s \<Rightarrow> 'e list" and counter :: "'s \<Rightarrow> u32" and owner :: "'e \<Rightarrow> 'k"
    and charged :: "'e \<Rightarrow> 'k" and pinned :: "'e \<Rightarrow> bool" and limited :: "'k \<Rightarrow> bool"
    and max_all :: nat and max_each :: nat and add :: "'e \<Rightarrow> 's \<Rightarrow> rc \<times> 's" +
  fixes del :: "'h \<Rightarrow> 's \<Rightarrow> 's"
  assumes del_survives:
      "registry_ok entries counter owner limited max_all max_each s \<Longrightarrow>
       survives pinned (entries s) (entries (del h s)) \<and> unat (counter (del h s)) = length (entries (del h s))"
begin

lemma del_ok: "ok s \<Longrightarrow> ok (del h s)"
  using del_survives [of s h] ok_shrink by (auto simp: ok_def)

lemma del_keeps_pinned:
  "ok s \<Longrightarrow> x \<in> set (entries s) \<Longrightarrow> pinned x \<Longrightarrow> x \<in> set (entries (del h s))"
  using del_survives [of s h] by (auto simp: ok_def survives_def)

lemma del_distinct: "ok s \<Longrightarrow> distinct (map f (entries s)) \<Longrightarrow> distinct (map f (entries (del h s)))"
  using del_survives [of s h] by (auto simp: ok_def survives_def dest: distinct_map_subseq)

end

end
