(* ===== verification/Huks_Session.thy ===== *)
theory Huks_Session
  imports Huks_Registry Huks_Param_Laws
begin

text \<open>
  The session manager, \<open>services/huks_standard/huks_service/main/core/src/hks_session_manager.c\<close>: the
  list of open operations of all callers. Every function runs under \<open>g_lock\<close>, so each is one step
  on the state. The clock, the allocator and the addresses it returns are parameters; aborting the
  key node of an evicted session, a call into the key engine, is recorded in the state.
\<close>

section \<open>State\<close>

record HksProcessInfo =
  pi_userId :: HksBlob
  pi_processName :: HksBlob
  pi_userIdInt :: u32
  pi_uidInt :: u32
  pi_accessTokenId :: u64

text \<open>\<open>op_addr\<close> is the address of the structure, which identifies the node of the list.\<close>

record HksOperation =
  op_addr :: nat
  op_userId :: HksBlob
  op_processName :: HksBlob
  op_handle :: u64
  op_abortable :: bool
  op_accessTokenId :: u64
  op_isInUse :: bool
  op_batchOperationTimestamp :: u64
  op_isBatchOperation :: bool
  op_isUserIdPassedDuringInit :: bool
  op_userIdPassedDuringInit :: u32

text \<open>The global list and counter, and the handles passed to \<open>HuksAccessAbort\<close> so far.\<close>

record session_state =
  g_operationList :: "HksOperation list"
  g_operationCount :: u32
  aborted :: "u64 list"

type_synonym clock = "nat \<Rightarrow> u64 res"

abbreviation (input) MAX_OPERATIONS_COUNT :: nat where "MAX_OPERATIONS_COUNT \<equiv> 32"
abbreviation (input) MAX_OPERATIONS_EACH_TOKEN_ID :: nat where "MAX_OPERATIONS_EACH_TOKEN_ID \<equiv> 10"
abbreviation (input) S_TO_MS :: u64 where "S_TO_MS \<equiv> 1000"
abbreviation (input) DEFAULT_BATCH_TIME_OUT :: u64 where "DEFAULT_BATCH_TIME_OUT \<equiv> 60"
abbreviation (input) MAX_BATCH_TIME_OUT :: u64 where "MAX_BATCH_TIME_OUT \<equiv> 600"

section \<open>Eviction\<close>

definition DeleteKeyNode :: "allocator \<Rightarrow> u64 \<Rightarrow> session_state \<Rightarrow> session_state" where
  "DeleteKeyNode alloc operationHandle st =
     (if \<not> HksMalloc alloc 8 then st
      else (case HksInitParamSet alloc of
          Inl _ \<Rightarrow> st
        | Inr _ \<Rightarrow> st\<lparr>aborted := aborted st @ [operationHandle]\<rparr>))"

definition FreeOperation :: "HksOperation \<Rightarrow> session_state \<Rightarrow> session_state" where
  "FreeOperation operation st =
     st\<lparr>g_operationList := remove1 operation (g_operationList st)\<rparr>"

definition DeleteKeyNodeAndDecreaseGlobalCount ::
    "allocator \<Rightarrow> HksOperation \<Rightarrow> session_state \<Rightarrow> session_state" where
  "DeleteKeyNodeAndDecreaseGlobalCount alloc operation st =
     (let st = FreeOperation operation (DeleteKeyNode alloc (op_handle operation) st) in
      st\<lparr>g_operationCount := g_operationCount st - 1\<rparr>)"

definition DeleteFirstAbortableOperation :: "allocator \<Rightarrow> session_state \<Rightarrow> bool \<times> session_state" where
  "DeleteFirstAbortableOperation alloc st =
     (case List.find (\<lambda>operation. \<not> op_isInUse operation) (g_operationList st) of
        Some operation \<Rightarrow> (True, DeleteKeyNodeAndDecreaseGlobalCount alloc operation st)
      | None \<Rightarrow> (False, st))"

text \<open>The loop over the list; the clock is read anew, and may fail, for every batch operation.\<close>

fun first_timeout :: "clock \<Rightarrow> nat \<Rightarrow> HksOperation list \<Rightarrow> HksOperation option" where
  "first_timeout clk i [] = None"
| "first_timeout clk i (operation # ops) =
     (if \<not> op_isBatchOperation operation then first_timeout clk i ops
      else (case clk i of
          Inl _ \<Rightarrow> first_timeout clk (Suc i) ops
        | Inr curTime \<Rightarrow>
            if op_batchOperationTimestamp operation \<ge> curTime then first_timeout clk (Suc i) ops
            else if op_isInUse operation then first_timeout clk (Suc i) ops
            else Some operation))"

definition DeleteFirstTimeOutBatchOperation :: "allocator \<Rightarrow> clock \<Rightarrow> session_state \<Rightarrow> session_state" where
  "DeleteFirstTimeOutBatchOperation alloc clk st =
     (if g_operationCount st < word_of_nat MAX_OPERATIONS_COUNT then st
      else (case first_timeout clk 0 (g_operationList st) of
          Some operation \<Rightarrow> DeleteKeyNodeAndDecreaseGlobalCount alloc operation st
        | None \<Rightarrow> st))"

text \<open>The parameter \<open>tokenId\<close> has 32 bits, the token id of an operation 64.\<close>

definition DeleteFirstAbortableOperationForTokenId ::
    "allocator \<Rightarrow> u32 \<Rightarrow> session_state \<Rightarrow> bool \<times> session_state" where
  "DeleteFirstAbortableOperationForTokenId alloc tokenId st =
     (case List.find (\<lambda>operation. op_accessTokenId operation = ucast tokenId \<and> \<not> op_isInUse operation)
        (g_operationList st) of
        Some operation \<Rightarrow> (True, DeleteKeyNodeAndDecreaseGlobalCount alloc operation st)
      | None \<Rightarrow> (False, st))"

definition DeleteForTokenIdIfExceedLimit :: "allocator \<Rightarrow> u32 \<Rightarrow> session_state \<Rightarrow> rc \<times> session_state" where
  "DeleteForTokenIdIfExceedLimit alloc tokenId st =
     (if g_operationCount st < word_of_nat MAX_OPERATIONS_EACH_TOKEN_ID then (HKS_SUCCESS, st)
      else
        (let ownedSessionCount =
           length (filter (\<lambda>operation. op_accessTokenId operation = ucast tokenId) (g_operationList st)) in
         if ownedSessionCount \<ge> MAX_OPERATIONS_EACH_TOKEN_ID then
           (let (deleted, st) = DeleteFirstAbortableOperationForTokenId alloc tokenId st in
            if deleted then (HKS_SUCCESS, st) else (HKS_ERROR_SESSION_REACHED_LIMIT, st))
         else (HKS_SUCCESS, st)))"

definition AddOperation ::
    "allocator \<Rightarrow> clock \<Rightarrow> HksOperation \<Rightarrow> session_state \<Rightarrow> rc \<times> session_state" where
  "AddOperation alloc clk operation st =
     (let st = DeleteFirstTimeOutBatchOperation alloc clk st;
          (ret, st) = DeleteForTokenIdIfExceedLimit alloc (ucast (op_accessTokenId operation)) st;
          append = (\<lambda>st. (HKS_SUCCESS,
            st\<lparr>g_operationList := g_operationList st @ [operation],
               g_operationCount := g_operationCount st + 1\<rparr>)) in
      if ret \<noteq> HKS_SUCCESS then (ret, st)
      else if g_operationCount st \<ge> word_of_nat MAX_OPERATIONS_COUNT then
        (let (deleted, st) = DeleteFirstAbortableOperation alloc st in
         if \<not> deleted then (HKS_ERROR_SESSION_REACHED_LIMIT, st) else append st)
      else append st)"

section \<open>Creating an operation\<close>

definition ConstructOperationProcessInfo ::
    "allocator \<Rightarrow> HksProcessInfo \<Rightarrow> HksOperation \<Rightarrow> HksOperation res" where
  "ConstructOperationProcessInfo alloc processInfo operation =
     (let userIdLen = blob_size (pi_userId processInfo);
          processNameLen = blob_size (pi_processName processInfo);
          copy = (\<lambda>b. \<lparr>blob_size = blob_size b,
            blob_data = Some (case blob_data b of NULL \<Rightarrow> replicate (unat (blob_size b)) 0
              | Some bs \<Rightarrow> take (unat (blob_size b)) bs)\<rparr>) in
      if \<not> HksMalloc alloc (unat userIdLen) then Inl HKS_ERROR_MALLOC_FAIL
      else if \<not> HksMalloc alloc (unat processNameLen) then Inl HKS_ERROR_MALLOC_FAIL
      else Inr (operation\<lparr>op_userId := copy (pi_userId processInfo),
        op_processName := copy (pi_processName processInfo),
        op_accessTokenId := pi_accessTokenId processInfo\<rparr>))"

text \<open>Copying into the eight bytes fails for a longer handle, so a handle has exactly eight bytes.\<close>

definition ConstructOperationHandle :: "HksBlob \<Rightarrow> u64 res" where
  "ConstructOperationHandle operationHandle =
     (if blob_size operationHandle < 8 then Inl HKS_ERROR_INVALID_ARGUMENT
      else (case memcpy_s 8 (blob_data operationHandle) (unat (blob_size operationHandle)) of
          None \<Rightarrow> Inl HKS_ERROR_INSUFFICIENT_MEMORY
        | Some bs \<Rightarrow> Inr (of_le bs)))"

text \<open>The loop over the parameters, which stops early once it has seen both tags.\<close>

fun batch_time_loop ::
    "u64 \<Rightarrow> HksParam list \<Rightarrow> bool \<Rightarrow> bool \<Rightarrow> HksOperation \<Rightarrow> (HksOperation \<times> bool) res" where
  "batch_time_loop curTime [] findOperation findTimeout operation = Inr (operation, findOperation)"
| "batch_time_loop curTime (p # ps) findOperation findTimeout operation =
     (if p_tag p = HKS_TAG_IS_BATCH_OPERATION then
        batch_time_loop curTime ps True findTimeout
          (operation\<lparr>op_isBatchOperation := boolParam (p_val p)\<rparr>)
      else if p_tag p = HKS_TAG_BATCH_OPERATION_TIMEOUT then
        (if (ucast (uint32Param (p_val p)) :: u64) > MAX_BATCH_TIME_OUT then Inl HKS_ERROR_NOT_SUPPORTED
         else batch_time_loop curTime ps findOperation True
           (operation\<lparr>op_batchOperationTimestamp := curTime + ucast (uint32Param (p_val p)) * S_TO_MS\<rparr>))
      else if findOperation \<and> findTimeout then Inr (operation, findOperation)
      else batch_time_loop curTime ps findOperation findTimeout operation)"

definition HksAddBatchTimeToOperation ::
    "u64 res \<Rightarrow> HksParamSet \<Rightarrow> HksOperation \<Rightarrow> HksOperation res" where
  "HksAddBatchTimeToOperation elapsed paramSet operation =
     try_res elapsed (\<lambda>curTime.
     try_res (batch_time_loop curTime (params paramSet) False False
        (operation\<lparr>op_isBatchOperation := False,
           op_batchOperationTimestamp := curTime + DEFAULT_BATCH_TIME_OUT * S_TO_MS\<rparr>))
       (\<lambda>(operation, findOperation).
         Inr (if \<not> findOperation then operation\<lparr>op_batchOperationTimestamp := 0\<rparr> else operation)))"

text \<open>
  The part of \<open>CreateOperation\<close> before \<open>AddOperation\<close>: \<open>fresh\<close> is the address the allocator
  gives for the new structure, which it fills with zeros; \<open>elapsed\<close> is the clock when the batch
  time is set.
\<close>

definition new_operation :: "nat \<Rightarrow> HksOperation" where
  "new_operation fresh =
     \<lparr>op_addr = fresh, op_userId = \<lparr>blob_size = 0, blob_data = NULL\<rparr>,
      op_processName = \<lparr>blob_size = 0, blob_data = NULL\<rparr>, op_handle = 0,
      op_abortable = False, op_accessTokenId = 0, op_isInUse = False,
      op_batchOperationTimestamp = 0, op_isBatchOperation = False,
      op_isUserIdPassedDuringInit = False, op_userIdPassedDuringInit = 0\<rparr>"

definition build_operation ::
    "allocator \<Rightarrow> nat \<Rightarrow> u64 res \<Rightarrow> HksProcessInfo \<Rightarrow> HksParamSet ptr \<Rightarrow> HksBlob \<Rightarrow> bool \<Rightarrow> HksOperation res"
  where
  "build_operation alloc fresh elapsed processInfo paramSet operationHandle abortable =
     (if \<not> HksMalloc alloc 112 then Inl HKS_ERROR_MALLOC_FAIL
      else
        try_res (ConstructOperationProcessInfo alloc processInfo (new_operation fresh)) (\<lambda>operation.
        try_res (ConstructOperationHandle operationHandle) (\<lambda>handle.
          let operation = operation\<lparr>op_handle := handle, op_abortable := abortable, op_isInUse := False\<rparr> in
          try_res (case paramSet of NULL \<Rightarrow> Inr operation
                   | Some ps \<Rightarrow> HksAddBatchTimeToOperation elapsed ps operation) (\<lambda>operation.
          Inr (case HksGetParam paramSet HKS_TAG_SPECIFIC_USER_ID of
              Inr specificUserIdParam \<Rightarrow>
                operation\<lparr>op_isUserIdPassedDuringInit := True,
                  op_userIdPassedDuringInit := uint32Param (p_val specificUserIdParam)\<rparr>
            | Inl _ \<Rightarrow> operation)))))"

text \<open>\<open>clk\<close> is the clock during eviction.\<close>

definition CreateOperation ::
    "allocator \<Rightarrow> nat \<Rightarrow> u64 res \<Rightarrow> clock \<Rightarrow> HksProcessInfo \<Rightarrow> HksParamSet ptr \<Rightarrow> HksBlob \<Rightarrow> bool
     \<Rightarrow> session_state \<Rightarrow> rc \<times> session_state" where
  "CreateOperation alloc fresh elapsed clk processInfo paramSet operationHandle abortable st =
     (case build_operation alloc fresh elapsed processInfo paramSet operationHandle abortable of
        Inl ret \<Rightarrow> (ret, st)
      | Inr operation \<Rightarrow> AddOperation alloc clk operation st)"

section \<open>Using, deleting\<close>

text \<open>\<open>memcmp\<close> of two regions that have at least \<open>n\<close> bytes.\<close>

definition same_bytes :: "HksBlob \<Rightarrow> HksBlob \<Rightarrow> bool" where
  "same_bytes a b \<longleftrightarrow> blob_size a = blob_size b
     \<and> (case (blob_data a, blob_data b) of
          (Some x, Some y) \<Rightarrow> take (unat (blob_size a)) x = take (unat (blob_size a)) y
        | _ \<Rightarrow> blob_size a = 0)"

definition IsSameProcessName :: "HksProcessInfo \<Rightarrow> HksOperation \<Rightarrow> bool" where
  "IsSameProcessName processInfo operation \<longleftrightarrow>
     same_bytes (op_processName operation) (pi_processName processInfo)"

definition IsSameUserId :: "HksProcessInfo \<Rightarrow> HksOperation \<Rightarrow> bool" where
  "IsSameUserId processInfo operation \<longleftrightarrow> same_bytes (op_userId operation) (pi_userId processInfo)"

definition set_in_use :: "bool \<Rightarrow> nat \<Rightarrow> session_state \<Rightarrow> session_state" where
  "set_in_use b a st = st\<lparr>g_operationList :=
     map (\<lambda>o'. if op_addr o' = a then o'\<lparr>op_isInUse := b\<rparr> else o') (g_operationList st)\<rparr>"

definition QueryOperationAndMarkInUse ::
    "HksProcessInfo \<Rightarrow> HksBlob \<Rightarrow> session_state \<Rightarrow> HksOperation ptr \<times> session_state" where
  "QueryOperationAndMarkInUse processInfo operationHandle st =
     (case ConstructOperationHandle operationHandle of
        Inl _ \<Rightarrow> (NULL, st)
      | Inr handle \<Rightarrow>
          (case List.find (\<lambda>operation. op_handle operation = handle
               \<and> IsSameProcessName processInfo operation \<and> IsSameUserId processInfo operation)
             (g_operationList st) of
             None \<Rightarrow> (NULL, st)
           | Some operation \<Rightarrow>
               if op_isInUse operation then (NULL, st)
               else (Some (operation\<lparr>op_isInUse := True\<rparr>), set_in_use True (op_addr operation) st)))"

definition MarkOperationUnUse :: "HksOperation ptr \<Rightarrow> session_state \<Rightarrow> session_state" where
  "MarkOperationUnUse operation st =
     (case operation of NULL \<Rightarrow> st | Some o' \<Rightarrow> set_in_use False (op_addr o') st)"

definition DeleteOperation :: "HksBlob \<Rightarrow> session_state \<Rightarrow> session_state" where
  "DeleteOperation operationHandle st =
     (case ConstructOperationHandle operationHandle of
        Inl _ \<Rightarrow> st
      | Inr handle \<Rightarrow>
          (case List.find (\<lambda>operation. op_handle operation = handle) (g_operationList st) of
             None \<Rightarrow> st
           | Some operation \<Rightarrow>
               if op_isInUse operation then st
               else (let st = FreeOperation operation st in
                     st\<lparr>g_operationCount := g_operationCount st - 1\<rparr>)))"

definition DeleteSession ::
    "allocator \<Rightarrow> HksProcessInfo \<Rightarrow> HksOperation \<Rightarrow> session_state \<Rightarrow> session_state" where
  "DeleteSession alloc processInfo operation st =
     (if op_isInUse operation then st
      else
        (let isNeedDelete =
           (if blob_size (pi_processName processInfo) = 0 then IsSameUserId processInfo operation
            else IsSameUserId processInfo operation \<and> IsSameProcessName processInfo operation) in
         if isNeedDelete then DeleteKeyNodeAndDecreaseGlobalCount alloc operation st else st))"

definition DeleteSessionByProcessInfo ::
    "allocator \<Rightarrow> HksProcessInfo \<Rightarrow> session_state \<Rightarrow> session_state" where
  "DeleteSessionByProcessInfo alloc processInfo st =
     foldl (\<lambda>st operation. DeleteSession alloc processInfo operation st) st (g_operationList st)"


section \<open>The registry contract\<close>

text \<open>
  The limit per token applies to token ids below 2 to the 32; a token id is charged as its low 32
  bits. Operations in use are pinned.
\<close>

definition charged_token :: "HksOperation \<Rightarrow> u64" where
  "charged_token operation = ucast (ucast (op_accessTokenId operation) :: u32)"

definition session_ok :: "session_state \<Rightarrow> bool" where
  "session_ok = registry_ok g_operationList g_operationCount op_accessTokenId
     (\<lambda>k. k < 2 ^ 32) MAX_OPERATIONS_COUNT MAX_OPERATIONS_EACH_TOKEN_ID"

lemma session_ok_iff:
  "session_ok st \<longleftrightarrow> unat (g_operationCount st) = length (g_operationList st)
     \<and> length (g_operationList st) \<le> 32
     \<and> (\<forall>k < 2 ^ 32. length (filter (\<lambda>o'. op_accessTokenId o' = k) (g_operationList st)) \<le> 10)"
  by (auto simp: session_ok_def registry_ok_def)

lemma token_low_bits: "(k :: u64) < 2 ^ 32 \<Longrightarrow> ucast (ucast k :: u32) = k"
  by (simp add: word_unat_eq_iff unsigned_ucast_eq unsigned_take_bit_eq take_bit_nat_eq_self
      word_less_nat_alt)

lemma free_simps [simp]:
  "g_operationList (DeleteKeyNodeAndDecreaseGlobalCount alloc o' st) = remove1 o' (g_operationList st)"
  "g_operationCount (DeleteKeyNodeAndDecreaseGlobalCount alloc o' st) = g_operationCount st - 1"
  by (simp_all add: DeleteKeyNodeAndDecreaseGlobalCount_def FreeOperation_def DeleteKeyNode_def Let_def
      split: sum.split)

text \<open>
  One eviction step: the counter stays the length, the entries survive, and if something was evicted
  there is one entry less of every kind the evicted one was of.
\<close>

definition evicts :: "session_state \<Rightarrow> session_state \<Rightarrow> bool" where
  "evicts st st' \<longleftrightarrow> survives op_isInUse (g_operationList st) (g_operationList st')
     \<and> (unat (g_operationCount st) = length (g_operationList st) \<longrightarrow>
        unat (g_operationCount st') = length (g_operationList st'))"

lemma evicts_refl [simp]: "evicts st st"
  by (simp add: evicts_def)

lemma evicts_trans: "evicts st st' \<Longrightarrow> evicts st' st'' \<Longrightarrow> evicts st st''"
  by (auto simp: evicts_def intro: survives_trans)

lemma evicts_drop:
  assumes "o' \<in> set (g_operationList st)" "\<not> op_isInUse o'"
  shows "evicts st (DeleteKeyNodeAndDecreaseGlobalCount alloc o' st)"
proof -
  have "length (g_operationList st) = Suc (length (remove1 o' (g_operationList st)))"
    using assms(1) by (simp add: length_remove1) (metis Suc_pred length_pos_if_in_set)
  then show ?thesis
    using survives_remove1 [of op_isInUse o'] assms unat_decrement by (simp add: evicts_def)
qed

lemma first_timeout_Some:
  "first_timeout clk i ops = Some o' \<Longrightarrow> o' \<in> set ops \<and> \<not> op_isInUse o' \<and> op_isBatchOperation o'"
  by (induction clk i ops rule: first_timeout.induct) (auto split: if_splits sum.splits)

lemma evicts_timeout: "evicts st (DeleteFirstTimeOutBatchOperation alloc clk st)"
  using first_timeout_Some evicts_drop
  by (auto simp: DeleteFirstTimeOutBatchOperation_def split: option.split)

lemma filter_remove1_length:
  "x \<in> set xs \<Longrightarrow> P x \<Longrightarrow> length (filter P xs) = Suc (length (filter P (remove1 x xs)))"
  by (induction xs) auto

text \<open>After making room for a token it has fewer operations than the limit.\<close>

lemma token_room:
  assumes "DeleteForTokenIdIfExceedLimit alloc t st = (r, st')"
    and "unat (g_operationCount st) = length (g_operationList st)"
    and "length (filter (\<lambda>o'. op_accessTokenId o' = ucast t) (g_operationList st)) \<le> 10"
  shows "evicts st st'"
    and "r = 0 \<Longrightarrow> length (filter (\<lambda>o'. op_accessTokenId o' = ucast t) (g_operationList st')) < 10"
proof -
  define own where "own o' \<longleftrightarrow> op_accessTokenId o' = (ucast t :: u64)" for o' :: HksOperation
  have few: "length (filter own (g_operationList st)) < 10" if "g_operationCount st < 10"
    using that assms(2) le_less_trans [OF length_filter_le] by (simp add: word_less_nat_alt)
  have "evicts st st' \<and> (r = 0 \<longrightarrow> length (filter own (g_operationList st')) < 10)"
  proof (cases "List.find (\<lambda>o'. own o' \<and> \<not> op_isInUse o') (g_operationList st)")
    case None
    with assms(1) few show ?thesis
      by (auto simp: DeleteForTokenIdIfExceedLimit_def DeleteFirstAbortableOperationForTokenId_def
          own_def [symmetric] not_le split: if_splits)
  next
    case (Some o')
    then have o': "o' \<in> set (g_operationList st)" "own o'" "\<not> op_isInUse o'"
      using find_Some_mem by fastforce+
    have "length (filter own (remove1 o' (g_operationList st))) < 10"
      using filter_remove1_length [of o' _ own] o' assms(3) by (simp add: own_def [abs_def])
    with Some assms(1) few evicts_drop [OF o'(1,3)] show ?thesis
      by (auto simp: DeleteForTokenIdIfExceedLimit_def DeleteFirstAbortableOperationForTokenId_def
          own_def [symmetric] not_le split: if_splits)
  qed
  then show "evicts st st'"
    and "r = 0 \<Longrightarrow> length (filter (\<lambda>o'. op_accessTokenId o' = ucast t) (g_operationList st')) < 10"
    by (simp_all add: own_def [abs_def])
qed

lemma total_room:
  assumes "DeleteFirstAbortableOperation alloc st = (b, st')"
  shows "evicts st st'" "b \<Longrightarrow> length (g_operationList st) = Suc (length (g_operationList st'))"
proof -
  have "evicts st st' \<and> (b \<longrightarrow> length (g_operationList st) = Suc (length (g_operationList st')))"
  proof (cases "List.find (\<lambda>o'. \<not> op_isInUse o') (g_operationList st)")
    case None
    with assms show ?thesis by (simp add: DeleteFirstAbortableOperation_def)
  next
    case (Some o')
    then have o': "o' \<in> set (g_operationList st)" "\<not> op_isInUse o'"
      using find_Some_mem by fastforce+
    from Some assms have "st' = DeleteKeyNodeAndDecreaseGlobalCount alloc o' st"
      by (simp add: DeleteFirstAbortableOperation_def)
    then show ?thesis
      using evicts_drop [OF o'] filter_remove1_length [OF o'(1), of "\<lambda>_. True"] by simp
  qed
  then show "evicts st st'" "b \<Longrightarrow> length (g_operationList st) = Suc (length (g_operationList st'))"
    by simp_all
qed


lemma AddOperation_law:
  assumes "session_ok st" "AddOperation alloc clk e st = (r, st')"
  shows "(r = 0 \<longrightarrow> (\<exists>kept. survives op_isInUse (g_operationList st) kept
        \<and> g_operationList st' = kept @ [e] \<and> length kept < 32
        \<and> length (filter (\<lambda>o'. op_accessTokenId o' = charged_token e) kept) < 10
        \<and> unat (g_operationCount st') = length kept + 1))
    \<and> (r \<noteq> 0 \<longrightarrow> evicts st st')"
proof -
  define t where "t = (ucast (op_accessTokenId e) :: u32)"
  define st1 where "st1 = DeleteFirstTimeOutBatchOperation alloc clk st"
  obtain r2 st2 where two: "DeleteForTokenIdIfExceedLimit alloc t st1 = (r2, st2)"
    by fastforce
  obtain b st3 where three: "DeleteFirstAbortableOperation alloc st2 = (b, st3)"
    by fastforce
  have cnt: "unat (g_operationCount st) = length (g_operationList st)"
    and len: "length (g_operationList st) \<le> 32"
    using assms(1) by (simp_all add: session_ok_iff)
  have ev1: "evicts st st1"
    by (simp add: st1_def evicts_timeout)
  then have cnt1: "unat (g_operationCount st1) = length (g_operationList st1)"
    using cnt by (simp add: evicts_def)
  have "(ucast t :: u64) < 2 ^ 32"
    by (simp add: word_less_nat_alt unsigned_ucast_eq)
       (rule le_less_trans [OF take_bit_nat_less_eq_self u32_bound])
  then have "length (filter (\<lambda>o'. op_accessTokenId o' = ucast t) (g_operationList st)) \<le> 10"
    using assms(1) by (simp add: session_ok_iff)
  then have own1: "length (filter (\<lambda>o'. op_accessTokenId o' = ucast t) (g_operationList st1)) \<le> 10"
    using ev1 le_trans [OF survives_count] unfolding evicts_def by blast
  note tr = token_room [OF two cnt1 own1]
  have ev2: "evicts st st2" using evicts_trans ev1 tr(1) by blast
  then have cnt2: "unat (g_operationCount st2) = length (g_operationList st2)"
    and len2: "length (g_operationList st2) \<le> 32"
    using cnt len survives_length by (auto simp: evicts_def intro: le_trans)
  have ev3: "evicts st2 st3" and b: "b \<Longrightarrow> length (g_operationList st2) = Suc (length (g_operationList st3))"
    using total_room [OF three] by simp_all
  define put where "put s = s\<lparr>g_operationList := g_operationList s @ [e],
    g_operationCount := g_operationCount s + 1\<rparr>" for s :: session_state
  have run: "(r, st') =
      (if r2 \<noteq> 0 then (r2, st2)
       else if g_operationCount st2 \<ge> 32 then (if \<not> b then (HKS_ERROR_SESSION_REACHED_LIMIT, st3) else (0, put st3))
       else (0, put st2))"
    using assms(2) unfolding AddOperation_def st1_def [symmetric] t_def [symmetric] put_def
    by (auto simp: two three Let_def split: if_splits)
  show ?thesis
  proof (cases "r = 0")
    case False
    with run ev2 evicts_trans [OF ev2 ev3] show ?thesis by (auto split: if_splits)
  next
    case True
    define last where "last = (if g_operationCount st2 \<ge> 32 then st3 else st2)"
    have r2: "r2 = 0" and st': "st' = put last" and bb: "g_operationCount st2 \<ge> 32 \<Longrightarrow> b"
      using run True by (auto simp: last_def split: if_splits)
    have ev2l: "evicts st2 last" and short: "length (g_operationList last) < 32"
      using ev3 b bb cnt2 len2 by (auto simp: last_def word_le_nat_alt)
    have cntl: "unat (g_operationCount last) = length (g_operationList last)"
      using ev2l cnt2 by (simp add: evicts_def)
    have "length (filter (\<lambda>o'. op_accessTokenId o' = ucast t) (g_operationList last)) < 10"
      using tr(2) r2 le_less_trans [OF survives_count] ev2l by (auto simp: evicts_def)
    moreover have "survives op_isInUse (g_operationList st) (g_operationList last)"
      using evicts_trans [OF ev2 ev2l] by (simp add: evicts_def)
    ultimately show ?thesis
      using True st' short cntl unat_increment [of "g_operationCount last"]
      by (auto simp: put_def charged_token_def t_def intro!: exI [of _ "g_operationList last"])
  qed
qed

lemma evicts_survives: "evicts st st' \<Longrightarrow> survives op_isInUse (g_operationList st) (g_operationList st')"
  by (simp add: evicts_def)

lemma DeleteOperation_evicts: "evicts st (DeleteOperation h st)"
proof -
  have "evicts st (let st = FreeOperation o' st in st\<lparr>g_operationCount := g_operationCount st - 1\<rparr>)"
    if "o' \<in> set (g_operationList st)" "\<not> op_isInUse o'" for o'
    using evicts_drop [OF that] by (simp add: evicts_def FreeOperation_def Let_def)
  then show ?thesis
    using find_Some_mem by (fastforce simp: DeleteOperation_def split: sum.split option.split)
qed

interpretation sm: deletable_registry "g_operationList :: session_state \<Rightarrow> HksOperation list"
    g_operationCount op_accessTokenId charged_token op_isInUse "\<lambda>k. k < 2 ^ 32" MAX_OPERATIONS_COUNT MAX_OPERATIONS_EACH_TOKEN_ID
    "AddOperation alloc clk" DeleteOperation for alloc clk
proof unfold_locales
  fix s :: session_state and e s'
  assume "registry_ok g_operationList g_operationCount op_accessTokenId (\<lambda>k. k < 2 ^ 32) 32 10 s"
    and "AddOperation alloc clk e s = (HKS_SUCCESS, s')"
  then show "\<exists>kept. survives op_isInUse (g_operationList s) kept \<and> g_operationList s' = kept @ [e]
      \<and> length kept < 32 \<and> length (filter (\<lambda>x. op_accessTokenId x = charged_token e) kept) < 10
      \<and> unat (g_operationCount s') = length kept + 1"
    using AddOperation_law by (simp add: session_ok_def)
next
  fix s :: session_state and e r s'
  assume "registry_ok g_operationList g_operationCount op_accessTokenId (\<lambda>k. k < 2 ^ 32) 32 10 s"
    and "AddOperation alloc clk e s = (r, s')" "r \<noteq> HKS_SUCCESS"
  then show "survives op_isInUse (g_operationList s) (g_operationList s')
      \<and> unat (g_operationCount s') = length (g_operationList s')"
    using AddOperation_law [of s alloc clk e r s'] by (auto simp: session_ok_def evicts_def registry_ok_def)
next
  fix e :: HksOperation
  show "op_accessTokenId e < 2 ^ 32 \<Longrightarrow> charged_token e = op_accessTokenId e"
    by (simp add: charged_token_def token_low_bits)
next
  fix s :: session_state and h
  assume "registry_ok g_operationList g_operationCount op_accessTokenId (\<lambda>k. k < 2 ^ 32) 32 10 s"
  then show "survives op_isInUse (g_operationList s) (g_operationList (DeleteOperation h s))
      \<and> unat (g_operationCount (DeleteOperation h s)) = length (g_operationList (DeleteOperation h s))"
    using DeleteOperation_evicts [of s h] by (auto simp: evicts_def registry_ok_def)
qed

lemma sm_ok: "sm.ok = session_ok"
  by (rule ext) (simp only: sm.ok_def session_ok_def)

lemmas session_add_ok = sm.add_ok [unfolded sm_ok]
lemmas session_add_distinct = sm.add_distinct [unfolded sm_ok]
lemmas session_add_keeps_pinned = sm.add_keeps_pinned [unfolded sm_ok]
lemmas session_del_keeps_pinned = sm.del_keeps_pinned [unfolded sm_ok]
lemmas session_ok_shrink = sm.ok_shrink [unfolded sm_ok]

section \<open>All operations\<close>

lemma batch_time_loop_frame:
  "batch_time_loop c ps f t e = Inr (e', f') \<Longrightarrow>
     op_addr e' = op_addr e \<and> op_isInUse e' = op_isInUse e \<and> op_handle e' = op_handle e
     \<and> op_accessTokenId e' = op_accessTokenId e \<and> op_userId e' = op_userId e
     \<and> op_processName e' = op_processName e"
  by (induction c ps f t e rule: batch_time_loop.induct) (auto split: if_splits)

lemma HksAddBatchTimeToOperation_frame:
  assumes "HksAddBatchTimeToOperation el ps e = Inr e'"
  shows "op_addr e' = op_addr e \<and> op_isInUse e' = op_isInUse e \<and> op_handle e' = op_handle e
     \<and> op_accessTokenId e' = op_accessTokenId e"
proof -
  obtain c e1 found where
    run: "batch_time_loop c (params ps) False False (e\<lparr>op_isBatchOperation := False,
      op_batchOperationTimestamp := c + DEFAULT_BATCH_TIME_OUT * S_TO_MS\<rparr>) = Inr (e1, found)"
    and e': "e' = (if \<not> found then e1\<lparr>op_batchOperationTimestamp := 0\<rparr> else e1)"
    using assms unfolding HksAddBatchTimeToOperation_def try_res_Inr split_paired_Ex prod.case sum.inject
    by (elim exE conjE) (rule that, assumption, rule sym)
  from batch_time_loop_frame [OF run] e' show ?thesis by simp
qed

lemma build_operation_Inr:
  assumes "build_operation alloc fresh el pinfo ps h ab = Inr e"
  shows "op_addr e = fresh \<and> \<not> op_isInUse e \<and> op_accessTokenId e = pi_accessTokenId pinfo
    \<and> ConstructOperationHandle h = Inr (op_handle e)"
proof -
  define user where "user e2 = (case HksGetParam ps HKS_TAG_SPECIFIC_USER_ID of
       Inr q \<Rightarrow> e2\<lparr>op_isUserIdPassedDuringInit := True, op_userIdPassedDuringInit := uint32Param (p_val q)\<rparr>
     | Inl _ \<Rightarrow> e2)" for e2 :: HksOperation
  define timed where "timed e1 hd = (case ps of NULL \<Rightarrow> Inr (e1\<lparr>op_handle := hd, op_abortable := ab, op_isInUse := False\<rparr>)
     | Some p \<Rightarrow> HksAddBatchTimeToOperation el p
         (e1\<lparr>op_handle := hd, op_abortable := ab, op_isInUse := False\<rparr>))" for e1 :: HksOperation and hd
  have "try_res (ConstructOperationProcessInfo alloc pinfo (new_operation fresh)) (\<lambda>e1.
      try_res (ConstructOperationHandle h) (\<lambda>hd. try_res (timed e1 hd) (\<lambda>e2. Inr (user e2)))) = Inr e"
    using assms unfolding build_operation_def Let_def timed_def user_def by (simp split: if_splits)
  then obtain e1 hd e2 where
    one: "ConstructOperationProcessInfo alloc pinfo (new_operation fresh) = Inr e1"
    and two: "ConstructOperationHandle h = Inr hd"
    and three: "timed e1 hd = Inr e2" and four: "e = user e2"
    by (auto simp: try_res_Inr)
  have "op_addr e1 = fresh \<and> op_accessTokenId e1 = pi_accessTokenId pinfo"
    using one by (auto simp: ConstructOperationProcessInfo_def Let_def new_operation_def split: if_splits)
  then have "op_addr e2 = fresh \<and> \<not> op_isInUse e2 \<and> op_handle e2 = hd
      \<and> op_accessTokenId e2 = pi_accessTokenId pinfo"
    using three by (auto simp: timed_def dest: HksAddBatchTimeToOperation_frame split: option.splits)
  with two four show ?thesis
    by (cases "HksGetParam ps HKS_TAG_SPECIFIC_USER_ID") (simp_all add: user_def)
qed

lemma CreateOperation_cases:
  assumes "CreateOperation alloc fresh el clk pinfo ps h ab st = (r, st')"
  shows "st' = st \<or> (\<exists>e. op_addr e = fresh \<and> \<not> op_isInUse e
    \<and> op_accessTokenId e = pi_accessTokenId pinfo \<and> ConstructOperationHandle h = Inr (op_handle e)
    \<and> AddOperation alloc clk e st = (r, st'))"
  using assms build_operation_Inr by (fastforce simp: CreateOperation_def split: sum.splits)

lemma set_in_use_simps [simp]:
  "g_operationCount (set_in_use b a st) = g_operationCount st"
  "length (g_operationList (set_in_use b a st)) = length (g_operationList st)"
  "map op_addr (g_operationList (set_in_use b a st)) = map op_addr (g_operationList st)"
  "map op_accessTokenId (g_operationList (set_in_use b a st)) = map op_accessTokenId (g_operationList st)"
  by (simp_all add: set_in_use_def comp_def if_distrib cong: if_cong)

lemma length_filter_map: "length (filter (\<lambda>x. f x = k) xs) = length (filter (\<lambda>y. y = k) (map f xs))"
  by (simp add: filter_map comp_def)

lemma length_filter_map_eq:
  "map f xs = map f ys \<Longrightarrow> length (filter (\<lambda>x. f x = k) xs) = length (filter (\<lambda>x. f x = k) ys)"
  by (simp only: length_filter_map [of f])

text \<open>The sequence of deletions of \<open>DeleteSessionByProcessInfo\<close> over a list of nodes.\<close>

definition deletes :: "HksProcessInfo \<Rightarrow> HksOperation \<Rightarrow> bool" where
  "deletes pinfo e \<longleftrightarrow> \<not> op_isInUse e \<and> IsSameUserId pinfo e
     \<and> (blob_size (pi_processName pinfo) \<noteq> 0 \<longrightarrow> IsSameProcessName pinfo e)"

lemma DeleteSession_if:
  "DeleteSession alloc pinfo e st =
     (if deletes pinfo e then DeleteKeyNodeAndDecreaseGlobalCount alloc e st else st)"
  by (auto simp: DeleteSession_def deletes_def Let_def)

lemma DeleteSession_list:
  "g_operationList (foldl (\<lambda>st e. DeleteSession alloc pinfo e st) st es)
     = foldl (\<lambda>xs e. if deletes pinfo e then remove1 e xs else xs) (g_operationList st) es"
  by (induction es arbitrary: st) (simp_all add: DeleteSession_if)

lemma foldl_remove1_filter:
  assumes "distinct xs"
  shows "foldl (\<lambda>ys e. if P e then remove1 e ys else ys) xs es = filter (\<lambda>x. \<not> (P x \<and> x \<in> set es)) xs"
  using assms
proof (induction es arbitrary: xs)
  case Nil
  then show ?case by simp
next
  case (Cons e es)
  have r: "remove1 e xs = filter ((\<noteq>) e) xs"
    using Cons.prems by (simp add: distinct_remove1_removeAll removeAll_filter_not_eq)
  show ?case
  proof (cases "P e")
    case True
    then have "foldl (\<lambda>ys e. if P e then remove1 e ys else ys) xs (e # es)
        = filter (\<lambda>x. \<not> (P x \<and> x \<in> set es)) (remove1 e xs)"
      using Cons.IH [of "remove1 e xs"] Cons.prems by simp
    also have "\<dots> = filter (\<lambda>x. \<not> (P x \<and> x \<in> set (e # es))) xs"
      unfolding r filter_filter using True by (intro filter_cong) auto
    finally show ?thesis .
  next
    case False
    have "filter (\<lambda>x. \<not> (P x \<and> x \<in> set es)) xs = filter (\<lambda>x. \<not> (P x \<and> x \<in> set (e # es))) xs"
      using False by (intro filter_cong) auto
    with False Cons show ?thesis by simp
  qed
qed

lemma DeleteSessionByProcessInfo_list:
  assumes "distinct (g_operationList st)"
  shows "g_operationList (DeleteSessionByProcessInfo alloc pinfo st)
    = filter (\<lambda>e. \<not> deletes pinfo e) (g_operationList st)"
  using foldl_remove1_filter [OF assms, of "deletes pinfo" "g_operationList st"]
  by (simp add: DeleteSessionByProcessInfo_def DeleteSession_list cong: filter_cong)

lemma DeleteSessionByProcessInfo_evicts:
  assumes "distinct (g_operationList st)"
  shows "evicts st (DeleteSessionByProcessInfo alloc pinfo st)"
proof -
  have "evicts st (foldl (\<lambda>st e. DeleteSession alloc pinfo e st) st es)"
    if "distinct es" "set es \<subseteq> set (g_operationList st)" for es and st :: session_state
    using that
  proof (induction es arbitrary: st)
    case Nil
    then show ?case by simp
  next
    case (Cons e es)
    have "evicts st (DeleteSession alloc pinfo e st)"
      using Cons.prems evicts_drop by (auto simp: DeleteSession_if deletes_def)
    moreover have "set es \<subseteq> set (g_operationList (DeleteSession alloc pinfo e st))"
      using Cons.prems by (auto simp: DeleteSession_if) (metis in_set_remove1 subsetD)
    then have "evicts (DeleteSession alloc pinfo e st)
        (foldl (\<lambda>st e. DeleteSession alloc pinfo e st) (DeleteSession alloc pinfo e st) es)"
      using Cons.prems by (intro Cons.IH) simp_all
    ultimately show ?case using evicts_trans by simp
  qed
  then show ?thesis
    using assms by (simp add: DeleteSessionByProcessInfo_def)
qed


lemma MarkOperationUnUse_simps [simp]:
  "g_operationCount (MarkOperationUnUse x st) = g_operationCount st"
  "length (g_operationList (MarkOperationUnUse x st)) = length (g_operationList st)"
  "map op_addr (g_operationList (MarkOperationUnUse x st)) = map op_addr (g_operationList st)"
  "map op_accessTokenId (g_operationList (MarkOperationUnUse x st)) = map op_accessTokenId (g_operationList st)"
  by (simp_all add: MarkOperationUnUse_def split: option.split)

lemma Query_cases:
  assumes "QueryOperationAndMarkInUse pinfo h st = (x, st')"
  obtains "x = NULL" "st' = st"
  | o' where "o' \<in> set (g_operationList st)" "\<not> op_isInUse o'"
    "ConstructOperationHandle h = Inr (op_handle o')"
    "IsSameProcessName pinfo o'" "IsSameUserId pinfo o'"
    "x = Some (o'\<lparr>op_isInUse := True\<rparr>)" "st' = set_in_use True (op_addr o') st"
proof (cases "ConstructOperationHandle h")
  case (Inl c)
  with assms that(1) show ?thesis by (simp add: QueryOperationAndMarkInUse_def)
next
  case hd: (Inr k)
  define match where "match operation \<longleftrightarrow> op_handle operation = k
    \<and> IsSameProcessName pinfo operation \<and> IsSameUserId pinfo operation" for operation
  have run: "(case List.find match (g_operationList st) of None \<Rightarrow> (NULL, st)
      | Some o' \<Rightarrow> if op_isInUse o' then (NULL, st)
          else (Some (o'\<lparr>op_isInUse := True\<rparr>), set_in_use True (op_addr o') st)) = (x, st')"
    using assms hd by (simp add: QueryOperationAndMarkInUse_def match_def [abs_def])
  show ?thesis
  proof (cases "List.find match (g_operationList st)")
    case None
    with run that(1) show ?thesis by simp
  next
    case (Some o')
    with find_Some_mem [OF Some] run hd that(1) that(2) [of o'] show ?thesis
      by (simp add: match_def split: if_splits)
  qed
qed

section \<open>Every interleaving of the operations\<close>

text \<open>
  One step is one locked operation of some caller. The address of a new operation is none of the
  addresses in the list, because the nodes in the list are allocated.
\<close>

inductive session_step :: "session_state \<Rightarrow> session_state \<Rightarrow> bool" where
  create: "fresh \<notin> op_addr ` set (g_operationList st) \<Longrightarrow>
    CreateOperation alloc fresh el clk pinfo ps h ab st = (r, st') \<Longrightarrow> session_step st st'"
| query: "QueryOperationAndMarkInUse pinfo h st = (x, st') \<Longrightarrow> session_step st st'"
| release: "session_step st (MarkOperationUnUse x st)"
| delete: "session_step st (DeleteOperation h st)"
| delete_process: "session_step st (DeleteSessionByProcessInfo alloc pinfo st)"

definition session_init :: session_state where
  "session_init = \<lparr>g_operationList = [], g_operationCount = 0, aborted = []\<rparr>"

definition session_reach :: "session_state \<Rightarrow> bool" where
  "session_reach = session_step\<^sup>*\<^sup>* session_init"

definition session_inv :: "session_state \<Rightarrow> bool" where
  "session_inv st \<longleftrightarrow> session_ok st \<and> distinct (map op_addr (g_operationList st))"

lemma session_inv_distinct: "session_inv st \<Longrightarrow> distinct (g_operationList st)"
  by (auto simp: session_inv_def distinct_map)

lemma session_inv_same:
  assumes "session_inv st" "g_operationCount st' = g_operationCount st"
    and "map op_addr (g_operationList st') = map op_addr (g_operationList st)"
    and "map op_accessTokenId (g_operationList st') = map op_accessTokenId (g_operationList st)"
  shows "session_inv st'"
proof -
  have "length (g_operationList st') = length (g_operationList st)"
    using arg_cong [OF assms(3), of length] by simp
  with assms length_filter_map_eq [OF assms(4)] show ?thesis
    by (simp add: session_inv_def session_ok_iff)
qed

lemma session_inv_evicts:
  assumes "session_inv st" "evicts st st'"
  shows "session_inv st'"
proof -
  have "session_ok st'"
    using assms session_ok_shrink [of st op_isInUse st']
    by (simp add: session_inv_def evicts_def session_ok_iff)
  with assms show ?thesis
    by (auto simp: session_inv_def evicts_def survives_def dest: distinct_map_subseq)
qed

lemma session_inv_create:
  assumes "session_inv st" "fresh \<notin> op_addr ` set (g_operationList st)"
    and "CreateOperation alloc fresh el clk pinfo ps h ab st = (r, st')"
  shows "session_inv st'"
  using CreateOperation_cases [OF assms(3)]
proof
  assume "\<exists>e. op_addr e = fresh \<and> \<not> op_isInUse e \<and> op_accessTokenId e = pi_accessTokenId pinfo
    \<and> ConstructOperationHandle h = Inr (op_handle e) \<and> AddOperation alloc clk e st = (r, st')"
  then obtain e where e: "op_addr e = fresh" "AddOperation alloc clk e st = (r, st')" by blast
  with assms show ?thesis
    using session_add_ok [of st alloc clk e r st'] session_add_distinct [of st alloc clk e r st' op_addr]
    by (simp add: session_inv_def)
qed (use assms in simp)

lemma session_inv_step: "session_step st st' \<Longrightarrow> session_inv st \<Longrightarrow> session_inv st'"
proof (induction rule: session_step.induct)
  case (create fresh st alloc el clk pinfo ps h ab r st')
  then show ?case using session_inv_create by blast
next
  case (query pinfo h st x st')
  then show ?case
    by (elim Query_cases) (auto intro: session_inv_same)
next
  case (release st x)
  then show ?case by (auto intro: session_inv_same)
next
  case (delete st h)
  then show ?case using DeleteOperation_evicts session_inv_evicts by blast
next
  case (delete_process st alloc pinfo)
  then show ?case
    using DeleteSessionByProcessInfo_evicts session_inv_evicts session_inv_distinct by blast
qed

lemma session_reach_inv: "session_reach st \<Longrightarrow> session_inv st"
  unfolding session_reach_def
proof (induction rule: rtranclp_induct)
  case base
  show ?case by (simp add: session_init_def session_inv_def session_ok_iff)
next
  case (step st st')
  then show ?case using session_inv_step by blast
qed


lemma token_in_range: "(ucast (k :: u32) :: u64) < 2 ^ 32"
  by (simp add: word_less_nat_alt unsigned_ucast_eq)
     (rule le_less_trans [OF take_bit_nat_less_eq_self u32_bound])

section \<open>Operations in use\<close>

lemma survives_mem: "survives p xs ys \<Longrightarrow> x \<in> set xs \<Longrightarrow> p x \<Longrightarrow> x \<in> set ys"
  by (simp add: survives_def)

lemma in_use_step:
  assumes "session_inv st" "session_step st st'" "e \<in> set (g_operationList st)" "op_isInUse e"
  shows "e \<in> set (g_operationList st') \<or> e\<lparr>op_isInUse := False\<rparr> \<in> set (g_operationList st')"
  using assms(2)
proof (cases rule: session_step.cases)
  case create
  from CreateOperation_cases [OF create(2)] show ?thesis
    using assms session_add_keeps_pinned by (auto simp: session_inv_def)
next
  case (query pinfo h x)
  from query show ?thesis
  proof (cases rule: Query_cases)
    case 1
    with assms query show ?thesis by simp
  next
    case (2 o')
    have "(if op_addr e = op_addr o' then e\<lparr>op_isInUse := True\<rparr> else e) \<in> set (g_operationList st')"
      using assms(3) by (simp add: 2(7) query set_in_use_def)
    moreover have "e\<lparr>op_isInUse := True\<rparr> = e"
      using assms(4) by (cases e) simp
    ultimately show ?thesis by (simp split: if_splits)
  qed
next
  case (release x)
  then show ?thesis
    using assms(3) by (cases x) (force simp: MarkOperationUnUse_def set_in_use_def)+
next
  case (delete h)
  then show ?thesis
    using assms DeleteOperation_evicts [of st h] by (auto simp: evicts_def dest: survives_mem)
next
  case (delete_process alloc pinfo)
  then show ?thesis
    using assms DeleteSessionByProcessInfo_evicts [of st alloc pinfo] session_inv_distinct
    by (auto simp: evicts_def dest: survives_mem)
qed

lemma same_addr:
  "session_inv st \<Longrightarrow> x \<in> set (g_operationList st) \<Longrightarrow> y \<in> set (g_operationList st)
   \<Longrightarrow> op_addr x = op_addr y \<Longrightarrow> x = y"
  by (auto simp: session_inv_def distinct_map inj_on_def)

text \<open>
  The steps of everybody else while somebody works with the operation at address \<open>a\<close>: all steps except the
  release of that operation, which only its holder can ask for.
\<close>

inductive others_step :: "nat \<Rightarrow> session_state \<Rightarrow> session_state \<Rightarrow> bool" for a where
  others_create: "fresh \<notin> op_addr ` set (g_operationList st) \<Longrightarrow>
    CreateOperation alloc fresh el clk pinfo ps h ab st = (r, st') \<Longrightarrow> others_step a st st'"
| others_query: "QueryOperationAndMarkInUse pinfo h st = (x, st') \<Longrightarrow> others_step a st st'"
| others_release: "op_addr x \<noteq> a \<Longrightarrow> others_step a st (MarkOperationUnUse (Some x) st)"
| others_delete: "others_step a st (DeleteOperation h st)"
| others_delete_process: "others_step a st (DeleteSessionByProcessInfo alloc pinfo st)"

lemma others_step_session: "others_step a st st' \<Longrightarrow> session_step st st'"
  by (induction rule: others_step.induct) (auto intro: session_step.intros)

lemma others_keep:
  assumes "session_inv st" "others_step (op_addr e) st st'" "e \<in> set (g_operationList st)" "op_isInUse e"
  shows "e \<in> set (g_operationList st')"
  using assms(2)
proof (cases rule: others_step.cases)
  case others_create
  from CreateOperation_cases [OF others_create(2)] show ?thesis
    using assms session_add_keeps_pinned by (auto simp: session_inv_def)
next
  case (others_query pinfo h x)
  then show ?thesis
  proof (cases rule: Query_cases)
    case (2 o')
    have "(if op_addr e = op_addr o' then e\<lparr>op_isInUse := True\<rparr> else e) \<in> set (g_operationList st')"
      using assms(3) by (simp add: 2(7) others_query set_in_use_def)
    moreover have "e\<lparr>op_isInUse := True\<rparr> = e"
      using assms(4) by (cases e) simp
    ultimately show ?thesis by (simp split: if_splits)
  qed (use assms in simp)
next
  case (others_release x)
  have "(if op_addr e = op_addr x then e\<lparr>op_isInUse := False\<rparr> else e) \<in> set (g_operationList st')"
    using assms(3) by (simp add: others_release MarkOperationUnUse_def set_in_use_def)
  with others_release show ?thesis by simp
next
  case (others_delete h)
  then show ?thesis
    using assms DeleteOperation_evicts [of st h] by (auto simp: evicts_def dest: survives_mem)
next
  case (others_delete_process alloc pinfo)
  then show ?thesis
    using assms DeleteSessionByProcessInfo_evicts [of st alloc pinfo] session_inv_distinct
    by (auto simp: evicts_def dest: survives_mem)
qed

lemma others_keep_all:
  assumes "(others_step (op_addr e))\<^sup>*\<^sup>* st st'" "session_inv st" "e \<in> set (g_operationList st)" "op_isInUse e"
  shows "session_inv st' \<and> e \<in> set (g_operationList st')"
  using assms
proof (induction rule: rtranclp_induct)
  case (step y z)
  then show ?case using others_keep session_inv_step [OF others_step_session] by blast
qed simp

lemma in_use_not_handed_out:
  assumes "session_inv st" "e \<in> set (g_operationList st)" "op_isInUse e"
    and "QueryOperationAndMarkInUse p h st = (Some e2, st2)"
  shows "op_addr e2 \<noteq> op_addr e"
  using assms(4)
proof (cases rule: Query_cases)
  case (2 y)
  then show ?thesis using same_addr [OF assms(1) _ assms(2), of y] assms(3) by auto
qed simp

lemma query_success:
  assumes "session_inv st"
    and "QueryOperationAndMarkInUse processInfo operationHandle st = (Some e, st')"
  shows "e\<lparr>op_isInUse := False\<rparr> \<in> set (g_operationList st) \<and> op_isInUse e
    \<and> e \<in> set (g_operationList st')
    \<and> ConstructOperationHandle operationHandle = Inr (op_handle e)
    \<and> IsSameProcessName processInfo e \<and> IsSameUserId processInfo e
    \<and> MarkOperationUnUse (Some e) st' = st
    \<and> (\<forall>later. (others_step (op_addr e))\<^sup>*\<^sup>* st' later \<longrightarrow>
        e \<in> set (g_operationList later)
        \<and> (\<forall>p h e2 st2. QueryOperationAndMarkInUse p h later = (Some e2, st2) \<longrightarrow> op_addr e2 \<noteq> op_addr e))"
  using assms(2)
proof (cases rule: Query_cases)
  case 1
  then show ?thesis by simp
next
  case (2 o')
  have e: "e = o'\<lparr>op_isInUse := True\<rparr>" and st': "st' = set_in_use True (op_addr e) st"
    using 2 by simp_all
  have old: "e\<lparr>op_isInUse := False\<rparr> = o'"
    using 2(2) e by simp
  have only: "x = o'" if "x \<in> set (g_operationList st)" "op_addr x = op_addr e" for x
    using same_addr [OF assms(1) that(1) 2(1)] that(2) e by simp
  have e_in: "e \<in> set (g_operationList st')"
    using 2(1) e by (force simp: st' set_in_use_def)
  have "map (\<lambda>x. if op_addr x = op_addr e then x\<lparr>op_isInUse := False\<rparr> else x) (g_operationList st')
      = g_operationList st"
    unfolding st' set_in_use_def using only 2(2)
    by (auto simp: comp_def intro!: map_idI)
  then have restored: "MarkOperationUnUse (Some e) st' = st"
    by (simp add: MarkOperationUnUse_def set_in_use_def st')
  have inv: "session_inv st'"
    using session_inv_step [OF session_step.query [OF assms(2)] assms(1)] .
  have "IsSameProcessName processInfo e" "IsSameUserId processInfo e"
    using 2(4,5) by (simp_all add: e IsSameProcessName_def IsSameUserId_def)
  moreover have "e \<in> set (g_operationList later)
      \<and> (\<forall>p h e2 st2. QueryOperationAndMarkInUse p h later = (Some e2, st2) \<longrightarrow> op_addr e2 \<noteq> op_addr e)"
    if "(others_step (op_addr e))\<^sup>*\<^sup>* st' later" for later
    using others_keep_all [OF that inv e_in] in_use_not_handed_out [of later e] e by simp
  ultimately show ?thesis
    using 2(1,3) e_in restored old e by simp
qed

section \<open>Deleting the sessions of a process\<close>

lemma DeleteSession_aborted:
  assumes "alloc 8" "HksInitParamSet alloc = Inr ps0"
  shows "aborted (foldl (\<lambda>st e. DeleteSession alloc pinfo e st) st es)
    = aborted st @ map op_handle (filter (deletes pinfo) es)"
  using assms
  by (induction es arbitrary: st)
     (simp_all add: DeleteSession_if DeleteKeyNodeAndDecreaseGlobalCount_def DeleteKeyNode_def
        FreeOperation_def HksMalloc_def)

lemma delete_by_process:
  assumes "session_inv st" "alloc 8" "HksInitParamSet alloc = Inr ps0"
  shows "DeleteSessionByProcessInfo alloc pinfo st =
    (let rest = filter (\<lambda>e. \<not> deletes pinfo e) (g_operationList st) in
     \<lparr>g_operationList = rest, g_operationCount = word_of_nat (length rest),
      aborted = aborted st @ map op_handle (filter (deletes pinfo) (g_operationList st))\<rparr>)"
proof -
  define st' where "st' = DeleteSessionByProcessInfo alloc pinfo st"
  have dist: "distinct (g_operationList st)"
    using session_inv_distinct [OF assms(1)] .
  have list: "g_operationList st' = filter (\<lambda>e. \<not> deletes pinfo e) (g_operationList st)"
    unfolding st'_def by (rule DeleteSessionByProcessInfo_list [OF dist])
  have "unat (g_operationCount st') = length (g_operationList st')"
    using DeleteSessionByProcessInfo_evicts [OF dist, of alloc pinfo] assms(1)
    by (simp add: evicts_def st'_def session_inv_def session_ok_iff)
  from arg_cong [OF this, of "word_of_nat :: nat \<Rightarrow> u32"]
  have cnt: "g_operationCount st' = word_of_nat (length (g_operationList st'))"
    by simp
  have "aborted st' = aborted st @ map op_handle (filter (deletes pinfo) (g_operationList st))"
    unfolding st'_def DeleteSessionByProcessInfo_def by (rule DeleteSession_aborted [OF assms(2,3)])
  with list cnt show ?thesis
    unfolding st'_def [symmetric] by (simp add: Let_def)
qed

end
