(* ===== verification/Huks_Session_Props.thy ===== *)
theory Huks_Session_Props
  imports Huks_Session
begin

text \<open>
  What the session manager guarantees in every state it can reach: the counter and the limits, that
  an operation in use is never freed, that a query hands an operation to one caller only, and what
  the deletion of a caller's sessions leaves.
\<close>

section \<open>A concrete session\<close>

definition demo_process :: HksProcessInfo where
  "demo_process = \<lparr>pi_userId = \<lparr>blob_size = 1, blob_data = Some [7]\<rparr>,
     pi_processName = \<lparr>blob_size = 1, blob_data = Some [9]\<rparr>,
     pi_userIdInt = 0, pi_uidInt = 0, pi_accessTokenId = 5\<rparr>"

definition demo_handle :: HksBlob where
  "demo_handle = \<lparr>blob_size = 8, blob_data = Some [1, 0, 0, 0, 0, 0, 0, 0]\<rparr>"

definition demo_operation :: HksOperation where
  "demo_operation = (new_operation 100)\<lparr>op_userId := pi_userId demo_process,
     op_processName := pi_processName demo_process, op_accessTokenId := 5, op_handle := 1,
     op_abortable := True\<rparr>"

definition demo_state :: "HksOperation list \<Rightarrow> session_state" where
  "demo_state ops = \<lparr>g_operationList = ops, g_operationCount = word_of_nat (length ops), aborted = []\<rparr>"

lemma demo_handle_1: "ConstructOperationHandle demo_handle = Inr 1"
  by (simp add: ConstructOperationHandle_def demo_handle_def memcpy_s_def)

lemma demo_create:
  "CreateOperation (\<lambda>_. True) 100 (Inr 0) (\<lambda>_. Inr 0) demo_process NULL demo_handle True session_init
     = (0, demo_state [demo_operation])"
proof -
  have "build_operation (\<lambda>_. True) 100 (Inr 0) demo_process NULL demo_handle True = Inr demo_operation"
    by (simp add: build_operation_def demo_handle_1 ConstructOperationProcessInfo_def Let_def
        HksMalloc_def demo_process_def HksGetParam_def demo_operation_def new_operation_def)
  then show ?thesis
    by (simp add: CreateOperation_def AddOperation_def DeleteFirstTimeOutBatchOperation_def
        DeleteForTokenIdIfExceedLimit_def session_init_def demo_state_def)
qed

lemma demo_reach: "session_reach (demo_state [demo_operation])"
proof -
  have "session_step session_init (demo_state [demo_operation])"
    by (rule session_step.create [OF _ demo_create]) (simp add: session_init_def)
  then show ?thesis by (simp add: session_reach_def)
qed

lemma demo_query:
  "QueryOperationAndMarkInUse demo_process demo_handle (demo_state [demo_operation])
     = (Some (demo_operation\<lparr>op_isInUse := True\<rparr>), demo_state [demo_operation\<lparr>op_isInUse := True\<rparr>])"
  by (simp add: QueryOperationAndMarkInUse_def demo_handle_1 demo_state_def demo_operation_def
      new_operation_def demo_process_def IsSameProcessName_def IsSameUserId_def same_bytes_def
      set_in_use_def)

lemma demo_reach_in_use: "session_reach (demo_state [demo_operation\<lparr>op_isInUse := True\<rparr>])"
proof -
  have "session_step (demo_state [demo_operation]) (demo_state [demo_operation\<lparr>op_isInUse := True\<rparr>])"
    by (rule session_step.query [OF demo_query])
  then show ?thesis
    using demo_reach unfolding session_reach_def by (rule rtranclp.rtrancl_into_rtrancl [rotated])
qed

section \<open>The invariant\<close>

text \<open>
  C19: In every state the session manager reaches by creating, querying, releasing and deleting
  operations in any order, \<open>g_operationCount\<close> is the number of operations in the list, there are at
  most 32 of them and at most 10 of each access token id that fits in 32 bits, and no two
  operations share an address.
\<close>

theorem session_limits:
  assumes "session_reach st"
  shows "unat (g_operationCount st) = length (g_operationList st)
    \<and> length (g_operationList st) \<le> MAX_OPERATIONS_COUNT
    \<and> (\<forall>k :: u32. length (filter (\<lambda>e. op_accessTokenId e = ucast k) (g_operationList st))
          \<le> MAX_OPERATIONS_EACH_TOKEN_ID)
    \<and> distinct (map op_addr (g_operationList st))"
  using session_reach_inv [OF assms] token_in_range
  by (simp add: session_inv_def session_ok_iff)

theorem session_limits_witness:
  "unat (g_operationCount (demo_state [demo_operation])) = 1
    \<and> (\<forall>k :: u32. length (filter (\<lambda>e. op_accessTokenId e = ucast k) [demo_operation]) \<le> 10)"
  using session_limits [OF demo_reach] by (simp add: demo_state_def)

section \<open>Operations in use\<close>

text \<open>
  C20: No step frees an operation that is in use, whatever other callers do, evictions and
  deletions by process included: after the step the operation is still in the list, unchanged
  except that \<open>MarkOperationUnUse\<close> may have released it. So the pointer that
  \<open>QueryOperationAndMarkInUse\<close> returned stays valid until it is released.
\<close>

theorem in_use_never_freed:
  assumes "session_reach st" "session_step st st'"
    and "e \<in> set (g_operationList st)" "op_isInUse e"
  shows "e \<in> set (g_operationList st') \<or> e\<lparr>op_isInUse := False\<rparr> \<in> set (g_operationList st')"
  using in_use_step [OF session_reach_inv] assms by blast

theorem in_use_never_freed_witness:
  "op_isInUse (demo_operation\<lparr>op_isInUse := True\<rparr>)
    \<and> (demo_operation\<lparr>op_isInUse := True\<rparr> \<in> set (g_operationList
         (DeleteSessionByProcessInfo (\<lambda>_. True) demo_process
           (demo_state [demo_operation\<lparr>op_isInUse := True\<rparr>])))
      \<or> demo_operation\<lparr>op_isInUse := False\<rparr> \<in> set (g_operationList
         (DeleteSessionByProcessInfo (\<lambda>_. True) demo_process
           (demo_state [demo_operation\<lparr>op_isInUse := True\<rparr>]))))"
  using in_use_never_freed [OF demo_reach_in_use session_step.delete_process [of _ "\<lambda>_. True" demo_process],
      of "demo_operation\<lparr>op_isInUse := True\<rparr>"]
  by (simp add: demo_state_def)

text \<open>
  C21: A successful query returns an operation of the list with the handle, process name and user id
  asked for, which was not in use and now is. Until it is released, whatever requests are made in between
  (creating, querying and deleting operations, with the evictions that come with them, and releasing others), it
  stays in the list and in use, and no query of anybody returns it. \<open>MarkOperationUnUse\<close> right after the query
  restores the state of before.
\<close>

theorem query_exclusive:
  assumes "session_reach st"
    and "QueryOperationAndMarkInUse processInfo operationHandle st = (Some e, st')"
  shows "e\<lparr>op_isInUse := False\<rparr> \<in> set (g_operationList st) \<and> op_isInUse e
    \<and> e \<in> set (g_operationList st')
    \<and> ConstructOperationHandle operationHandle = Inr (op_handle e)
    \<and> IsSameProcessName processInfo e \<and> IsSameUserId processInfo e
    \<and> MarkOperationUnUse (Some e) st' = st
    \<and> (\<forall>later. (others_step (op_addr e))\<^sup>*\<^sup>* st' later \<longrightarrow>
        e \<in> set (g_operationList later)
        \<and> (\<forall>p h e2 st2. QueryOperationAndMarkInUse p h later = (Some e2, st2) \<longrightarrow> op_addr e2 \<noteq> op_addr e))"
  using query_success [OF session_reach_inv [OF assms(1)] assms(2)] .

text \<open>The operation is queried, its process is deleted, and it is still there.\<close>

theorem query_exclusive_witness:
  "MarkOperationUnUse (Some (demo_operation\<lparr>op_isInUse := True\<rparr>))
      (demo_state [demo_operation\<lparr>op_isInUse := True\<rparr>]) = demo_state [demo_operation]
    \<and> demo_operation\<lparr>op_isInUse := True\<rparr> \<in> set (g_operationList
        (DeleteSessionByProcessInfo (\<lambda>_. True) demo_process (demo_state [demo_operation\<lparr>op_isInUse := True\<rparr>])))"
  using query_exclusive [OF demo_reach demo_query]
    r_into_rtranclp [of "others_step (op_addr (demo_operation\<lparr>op_isInUse := True\<rparr>))",
      OF others_step.others_delete_process [of _ _ "\<lambda>_. True" demo_process]]
  by blast

section \<open>Deleting the sessions of a process\<close>

text \<open>
  C22: \<open>DeleteSessionByProcessInfo\<close> removes exactly the operations that are not in use and belong
  to the user id, and to the process name if one is given; the others stay in order, the counter
  follows, and the key engine is told to abort exactly the removed handles, in list order.
\<close>

theorem delete_by_process_exact:
  assumes "session_reach st" "alloc 8" "HksInitParamSet alloc = Inr ps0"
  shows "DeleteSessionByProcessInfo alloc processInfo st =
    (let gone = (\<lambda>e. \<not> op_isInUse e \<and> IsSameUserId processInfo e
           \<and> (blob_size (pi_processName processInfo) = 0 \<or> IsSameProcessName processInfo e));
         rest = filter (\<lambda>e. \<not> gone e) (g_operationList st) in
     \<lparr>g_operationList = rest, g_operationCount = word_of_nat (length rest),
      aborted = aborted st @ map op_handle (filter gone (g_operationList st))\<rparr>)"
  using delete_by_process [OF session_reach_inv [OF assms(1)] assms(2,3)]
  by (simp add: deletes_def [abs_def] Let_def disj_imp)

theorem delete_by_process_exact_witness:
  "DeleteSessionByProcessInfo (\<lambda>_. True) demo_process (demo_state [demo_operation])
     = \<lparr>g_operationList = [], g_operationCount = 0, aborted = [1]\<rparr>"
  using delete_by_process_exact [OF demo_reach, of "\<lambda>_. True" _ demo_process]
  by (simp add: HksInitParamSet_def HksMalloc_def demo_state_def demo_operation_def new_operation_def
      demo_process_def IsSameProcessName_def IsSameUserId_def same_bytes_def Let_def)

end
