(* ===== verification/Huks_Keynode.thy ===== *)
theory Huks_Keynode
  imports Huks_Registry Huks_Param_Laws
begin

text \<open>
  The key nodes of the key engine, \<open>services/huks_standard/huks_engine/main/core/src/hks_keynode.c\<close>:
  the keys loaded for operations in progress, each with the parameters of its caller, under a random
  handle. Clock, random numbers and allocator are parameters. Loading a key blob
  (\<open>HksGetAadAndParamSet\<close> and \<open>HksDecryptKeyBlob\<close>, which read the master key and call the
  crypto engine) is a parameter of \<open>HksCreateKeyNode\<close>.
\<close>

section \<open>State\<close>

text \<open>\<open>kn_addr\<close> is the address of the structure, which identifies the node of the list.\<close>

record HuksKeyNode =
  kn_addr :: nat
  kn_keyBlobParamSet :: "HksParamSet ptr"
  kn_runtimeParamSet :: "HksParamSet ptr"
  kn_authRuntimeParamSet :: "HksParamSet ptr"
  kn_handle :: u64
  kn_batchOperationTimestamp :: u64
  kn_isBatchOperation :: bool

text \<open>
  What a cleanup did: which destructor it ran on which context of the crypto engine, and which
  decrypted keys it overwrote with zeros.
\<close>

datatype cleanup =
    FreeCachedData u64
  | HksCryptoHalHashFreeCtx u64
  | HksCryptoHalEncryptFreeCtx u64 u32
  | HksCryptoHalHmacFreeCtx u64
  | WipeKey HksBlob

record keynode_state =
  g_keyNodeList :: "HuksKeyNode list"
  g_keyNodeCount :: u32
  cleaned :: "cleanup list"

abbreviation (input) MAX_RETRY_CHECK_UNIQUE_HANDLE_TIME :: nat where
  "MAX_RETRY_CHECK_UNIQUE_HANDLE_TIME \<equiv> 10"
abbreviation (input) INVALID_TOKEN_ID :: u32 where "INVALID_TOKEN_ID \<equiv> 0"
abbreviation (input) MAX_KEY_NODES_COUNT :: nat where "MAX_KEY_NODES_COUNT \<equiv> 32"
abbreviation (input) MAX_KEY_NODES_EACH_TOKEN_ID :: nat where "MAX_KEY_NODES_EACH_TOKEN_ID \<equiv> 10"
abbreviation (input) SIZEOF_KEY_NODE :: nat where "SIZEOF_KEY_NODE \<equiv> 64"

section \<open>Freeing a node\<close>

definition FreeKeyBlobParamSet :: "HksParamSet ptr \<Rightarrow> cleanup list" where
  "FreeKeyBlobParamSet paramSet =
     (case paramSet of NULL \<Rightarrow> []
      | Some _ \<Rightarrow>
          (case HksGetParam paramSet HKS_TAG_KEY of
             Inl _ \<Rightarrow> []
           | Inr keyParam \<Rightarrow> [WipeKey (blobParam (p_val keyParam))]))"

definition SetAesCcmModeTag :: "HksParamSet ptr \<Rightarrow> u32 \<Rightarrow> u32 \<Rightarrow> bool res" where
  "SetAesCcmModeTag paramSet alg pur =
     (if alg \<noteq> HKS_ALG_AES then Inr False
      else if pur \<noteq> HKS_KEY_PURPOSE_ENCRYPT \<and> pur \<noteq> HKS_KEY_PURPOSE_DECRYPT then Inr False
      else try_or (HksGetParam paramSet HKS_TAG_BLOCK_MODE) (Inl HKS_ERROR_UNKNOWN_ERROR) (\<lambda>modParam.
        Inr (uint32Param (p_val modParam) = HKS_MODE_CCM)))"

definition KeyNodeFreeCtx :: "u32 \<Rightarrow> u32 \<Rightarrow> bool \<Rightarrow> u64 \<Rightarrow> cleanup list" where
  "KeyNodeFreeCtx purpose alg hasCalcHash ctx =
     (if purpose = HKS_KEY_PURPOSE_AGREE \<or> purpose = HKS_KEY_PURPOSE_DERIVE then [FreeCachedData ctx]
      else if purpose = HKS_KEY_PURPOSE_SIGN \<or> purpose = HKS_KEY_PURPOSE_VERIFY then
        (if hasCalcHash then [HksCryptoHalHashFreeCtx ctx] else [FreeCachedData ctx])
      else if purpose = HKS_KEY_PURPOSE_ENCRYPT \<or> purpose = HKS_KEY_PURPOSE_DECRYPT then
        (if alg \<noteq> HKS_ALG_RSA then [HksCryptoHalEncryptFreeCtx ctx alg] else [FreeCachedData ctx])
      else if purpose = HKS_KEY_PURPOSE_MAC then [HksCryptoHalHmacFreeCtx ctx]
      else [])"

definition FreeRuntimeParamSet :: "HksParamSet ptr \<Rightarrow> cleanup list" where
  "FreeRuntimeParamSet paramSet =
     (case paramSet of NULL \<Rightarrow> []
      | Some _ \<Rightarrow>
        try_or (HksGetParam paramSet HKS_TAG_CRYPTO_CTX) [] (\<lambda>ctxParam.
          let ctx = uint64Param (p_val ctxParam) in
          if ctx = 0 then []
          else
            try_or (HksGetParam paramSet HKS_TAG_PURPOSE) [] (\<lambda>param1.
            try_or (HksGetParam paramSet HKS_TAG_ALGORITHM) [] (\<lambda>param2.
              let purpose = uint32Param (p_val param1); alg = uint32Param (p_val param2);
                  digest = HksGetParam paramSet HKS_TAG_DIGEST in
              if digest = Inl HKS_ERROR_INVALID_ARGUMENT then []
              else
                (let hasCalcHash =
                   (case digest of Inr param3 \<Rightarrow> uint32Param (p_val param3) \<noteq> HKS_DIGEST_NONE
                    | Inl _ \<Rightarrow> True) \<and> alg \<noteq> HKS_ALG_ED25519 in
                 try_or (SetAesCcmModeTag paramSet alg purpose) [] (\<lambda>isAesCcm.
                   if isAesCcm then [FreeCachedData ctx]
                   else KeyNodeFreeCtx purpose alg hasCalcHash ctx))))))"

definition DeleteKeyNodeFree :: "HuksKeyNode \<Rightarrow> keynode_state \<Rightarrow> keynode_state" where
  "DeleteKeyNodeFree keyNode st =
     st\<lparr>g_keyNodeList := remove1 keyNode (g_keyNodeList st),
        cleaned := cleaned st @ FreeKeyBlobParamSet (kn_keyBlobParamSet keyNode)
          @ FreeRuntimeParamSet (kn_runtimeParamSet keyNode)
          @ FreeRuntimeParamSet (kn_authRuntimeParamSet keyNode),
        g_keyNodeCount := g_keyNodeCount st - 1\<rparr>"

section \<open>Parts of a new node\<close>

definition BuildRuntimeParamSet :: "allocator \<Rightarrow> HksParamSet ptr \<Rightarrow> HksParamSet res" where
  "BuildRuntimeParamSet alloc inParamSet =
     try_res (HksInitParamSet alloc) (\<lambda>paramSet0.
       let runtime = [\<lparr>p_tag = HKS_TAG_CRYPTO_CTX, p_val = VUlong 0\<rparr>];
           finish = (\<lambda>paramSet.
             let (ret, paramSet) = HksAddParams paramSet (Some runtime) in
             if ret \<noteq> HKS_SUCCESS then Inl ret else HksBuildParamSet alloc paramSet) in
       (case inParamSet of NULL \<Rightarrow> finish (Some paramSet0)
        | Some inSet \<Rightarrow>
            let ret = HksCheckIsTagAlreadyExist (Some runtime) inParamSet in
            if ret \<noteq> HKS_SUCCESS then Inl ret
            else
              (let (ret, paramSet) = HksAddParams (Some paramSet0) (Some (params inSet)) in
               if ret \<noteq> HKS_SUCCESS then Inl ret else finish paramSet)))"

definition HksCheckUniqueHandle :: "u64 \<Rightarrow> keynode_state \<Rightarrow> rc" where
  "HksCheckUniqueHandle handle st =
     (if list_ex (\<lambda>keyNode. kn_handle keyNode = handle) (g_keyNodeList st) then HKS_FAILURE
      else HKS_SUCCESS)"

text \<open>
  The retry loop: \<open>random i\<close> is the outcome of the \<open>i\<close>-th call of
  \<open>HksCryptoHalFillRandom\<close> on the four bytes of \<open>handleData\<close>. When the retries are used up the
  last answer of \<open>HksCheckUniqueHandle\<close>, or the initial \<open>HKS_FAILURE\<close>, is returned.
\<close>

fun handle_loop :: "(nat \<Rightarrow> u32 res) \<Rightarrow> keynode_state \<Rightarrow> nat \<Rightarrow> nat \<Rightarrow> rc \<Rightarrow> u64 res" where
  "handle_loop random st i 0 ret = Inl ret"
| "handle_loop random st i (Suc retries) ret =
     (case random i of Inl e \<Rightarrow> Inl e
      | Inr handleData \<Rightarrow>
          let ret = HksCheckUniqueHandle (ucast handleData) st in
          if ret = HKS_SUCCESS then Inr (ucast handleData)
          else handle_loop random st (Suc i) retries ret)"

definition GenerateKeyNodeHandle :: "(nat \<Rightarrow> u32 res) \<Rightarrow> keynode_state \<Rightarrow> u64 res" where
  "GenerateKeyNodeHandle random st =
     handle_loop random st 0 MAX_RETRY_CHECK_UNIQUE_HANDLE_TIME HKS_FAILURE"

definition GetTokenIdFromParamSet :: "HksParamSet ptr \<Rightarrow> u32" where
  "GetTokenIdFromParamSet p =
     (case HksGetParam p HKS_TAG_ACCESS_TOKEN_ID of
        Inl _ \<Rightarrow> INVALID_TOKEN_ID
      | Inr accessTokenId \<Rightarrow> uint32Param (p_val accessTokenId))"

section \<open>Making room and adding\<close>

text \<open>The clock is read anew, and may fail, for every batch node.\<close>

fun first_timeout_node :: "(nat \<Rightarrow> u64 res) \<Rightarrow> nat \<Rightarrow> HuksKeyNode list \<Rightarrow> HuksKeyNode option" where
  "first_timeout_node clk i [] = None"
| "first_timeout_node clk i (keyNode # rest) =
     (if \<not> kn_isBatchOperation keyNode then first_timeout_node clk i rest
      else (case clk i of
          Inl _ \<Rightarrow> first_timeout_node clk (Suc i) rest
        | Inr curTime \<Rightarrow>
            if kn_batchOperationTimestamp keyNode \<ge> curTime then first_timeout_node clk (Suc i) rest
            else Some keyNode))"

definition DeleteFirstTimeOutBatchKeyNode :: "(nat \<Rightarrow> u64 res) \<Rightarrow> keynode_state \<Rightarrow> keynode_state" where
  "DeleteFirstTimeOutBatchKeyNode clk st =
     (if g_keyNodeCount st < word_of_nat MAX_KEY_NODES_COUNT then st
      else (case first_timeout_node clk 0 (g_keyNodeList st) of
          Some keyNode \<Rightarrow> DeleteKeyNodeFree keyNode st
        | None \<Rightarrow> st))"

definition DeleteFirstKeyNodeForTokenId :: "u32 \<Rightarrow> keynode_state \<Rightarrow> bool \<times> keynode_state" where
  "DeleteFirstKeyNodeForTokenId tokenId st =
     (case List.find (\<lambda>keyNode. GetTokenIdFromParamSet (kn_runtimeParamSet keyNode) = tokenId)
        (g_keyNodeList st) of
        Some keyNode \<Rightarrow> (True, DeleteKeyNodeFree keyNode st)
      | None \<Rightarrow> (False, st))"

definition DeleteKeyNodeForTokenIdIfExceedLimit :: "u32 \<Rightarrow> keynode_state \<Rightarrow> rc \<times> keynode_state" where
  "DeleteKeyNodeForTokenIdIfExceedLimit tokenId st =
     (if g_keyNodeCount st < word_of_nat MAX_KEY_NODES_EACH_TOKEN_ID then (HKS_SUCCESS, st)
      else
        (let ownedNodeCount = length (filter
           (\<lambda>keyNode. GetTokenIdFromParamSet (kn_runtimeParamSet keyNode) = tokenId) (g_keyNodeList st)) in
         if ownedNodeCount \<ge> MAX_KEY_NODES_EACH_TOKEN_ID then
           (let (deleted, st) = DeleteFirstKeyNodeForTokenId tokenId st in
            if deleted then (HKS_SUCCESS, st) else (HKS_ERROR_SESSION_REACHED_LIMIT, st))
         else (HKS_SUCCESS, st)))"

definition DeleteFirstKeyNode :: "keynode_state \<Rightarrow> bool \<times> keynode_state" where
  "DeleteFirstKeyNode st =
     (case g_keyNodeList st of
        [] \<Rightarrow> (False, st)
      | keyNode # _ \<Rightarrow> (True, DeleteKeyNodeFree keyNode st))"

definition AddKeyNode ::
    "(nat \<Rightarrow> u64 res) \<Rightarrow> HuksKeyNode \<Rightarrow> u32 \<Rightarrow> keynode_state \<Rightarrow> rc \<times> keynode_state" where
  "AddKeyNode clk keyNode tokenId st =
     (let st = DeleteFirstTimeOutBatchKeyNode clk st;
          (ret, st) = DeleteKeyNodeForTokenIdIfExceedLimit tokenId st;
          append = (\<lambda>st. (HKS_SUCCESS,
            st\<lparr>g_keyNodeList := g_keyNodeList st @ [keyNode], g_keyNodeCount := g_keyNodeCount st + 1\<rparr>)) in
      if ret \<noteq> HKS_SUCCESS then (ret, st)
      else if g_keyNodeCount st \<ge> word_of_nat MAX_KEY_NODES_COUNT then
        (let (deleted, st) = DeleteFirstKeyNode st in
         if \<not> deleted then (HKS_ERROR_SESSION_REACHED_LIMIT, st) else append st)
      else append st)"

section \<open>The operations of the engine\<close>

text \<open>A node of zero bytes at the address the allocator gives.\<close>

definition new_node :: "nat \<Rightarrow> HuksKeyNode" where
  "new_node fresh =
     \<lparr>kn_addr = fresh, kn_keyBlobParamSet = NULL, kn_runtimeParamSet = NULL,
      kn_authRuntimeParamSet = NULL, kn_handle = 0, kn_batchOperationTimestamp = 0,
      kn_isBatchOperation = False\<rparr>"

definition HksCreateBatchKeyNode ::
    "allocator \<Rightarrow> nat \<Rightarrow> HuksKeyNode \<Rightarrow> HksParamSet ptr \<Rightarrow> HuksKeyNode ptr" where
  "HksCreateBatchKeyNode alloc fresh keyNode paramSet =
     (if \<not> HksMalloc alloc SIZEOF_KEY_NODE then NULL
      else (case BuildRuntimeParamSet alloc paramSet of
          Inl _ \<Rightarrow> NULL
        | Inr runtimeParamSet \<Rightarrow>
            Some ((new_node fresh)\<lparr>kn_keyBlobParamSet := kn_keyBlobParamSet keyNode,
              kn_runtimeParamSet := Some runtimeParamSet,
              kn_authRuntimeParamSet := kn_authRuntimeParamSet keyNode\<rparr>)))"

text \<open>
  The calls that load the key: \<open>HksGetAadAndParamSet\<close> parses the key blob into the additional
  data and its parameters, \<open>HksDecryptKeyBlob\<close> decrypts the key in these parameters in place.
\<close>

type_synonym aad_parser = "HksBlob \<Rightarrow> (HksBlob \<times> HksParamSet) res"
type_synonym blob_decryptor = "HksBlob \<Rightarrow> HksParamSet \<Rightarrow> rc \<times> HksParamSet"

text \<open>
  The steps of \<open>HksCreateKeyNode\<close> before the node is put in the list: the handle, the runtime
  parameters and the decrypted key, or what is cleaned up on failure.
\<close>

definition prepare_key_node ::
    "allocator \<Rightarrow> (nat \<Rightarrow> u32 res) \<Rightarrow> aad_parser \<Rightarrow> blob_decryptor \<Rightarrow> HksBlob \<Rightarrow> HksParamSet ptr
     \<Rightarrow> keynode_state \<Rightarrow> cleanup list + (u64 \<times> HksParamSet \<times> HksParamSet)" where
  "prepare_key_node alloc random HksGetAadAndParamSet HksDecryptKeyBlob key paramSet st =
     (case GenerateKeyNodeHandle random st of Inl _ \<Rightarrow> Inl []
      | Inr handle \<Rightarrow>
     (case BuildRuntimeParamSet alloc paramSet of Inl _ \<Rightarrow> Inl []
      | Inr runtimeParamSet \<Rightarrow>
     (case HksGetAadAndParamSet key of Inl _ \<Rightarrow> Inl []
      | Inr (aad, keyBlobParamSet) \<Rightarrow>
     (case HksDecryptKeyBlob aad keyBlobParamSet of
        (ret, keyBlobParamSet) \<Rightarrow>
          if ret \<noteq> HKS_SUCCESS then Inl (FreeKeyBlobParamSet (Some keyBlobParamSet))
          else Inr (handle, runtimeParamSet, keyBlobParamSet)))))"

text \<open>The three assignments after \<open>AddKeyNode\<close>, to the node that is already in the list.\<close>

definition fill_node :: "nat \<Rightarrow> HksParamSet \<Rightarrow> HksParamSet \<Rightarrow> keynode_state \<Rightarrow> keynode_state" where
  "fill_node a keyBlobParamSet runtimeParamSet st = st\<lparr>g_keyNodeList :=
     map (\<lambda>keyNode. if kn_addr keyNode = a
        then keyNode\<lparr>kn_keyBlobParamSet := Some keyBlobParamSet,
          kn_runtimeParamSet := Some runtimeParamSet, kn_authRuntimeParamSet := NULL\<rparr>
        else keyNode) (g_keyNodeList st)\<rparr>"

definition HksCreateKeyNode ::
    "allocator \<Rightarrow> (nat \<Rightarrow> u32 res) \<Rightarrow> (nat \<Rightarrow> u64 res) \<Rightarrow> aad_parser \<Rightarrow> blob_decryptor \<Rightarrow> nat
     \<Rightarrow> HksBlob \<Rightarrow> HksParamSet ptr \<Rightarrow> keynode_state \<Rightarrow> HuksKeyNode ptr \<times> keynode_state" where
  "HksCreateKeyNode alloc random clk parse decrypt fresh key paramSet st =
     (if \<not> HksMalloc alloc SIZEOF_KEY_NODE then (NULL, st)
      else
        (case prepare_key_node alloc random parse decrypt key paramSet st of
           Inl cs \<Rightarrow> (NULL, st\<lparr>cleaned := cleaned st @ cs\<rparr>)
         | Inr (handle, runtimeParamSet, keyBlobParamSet) \<Rightarrow>
             let keyNode = (new_node fresh)\<lparr>kn_handle := handle\<rparr>;
                 (ret, st) = AddKeyNode clk keyNode (GetTokenIdFromParamSet (Some runtimeParamSet)) st in
             if ret \<noteq> HKS_SUCCESS
             then (NULL, st\<lparr>cleaned := cleaned st @ FreeKeyBlobParamSet (Some keyBlobParamSet)\<rparr>)
             else (Some (keyNode\<lparr>kn_keyBlobParamSet := Some keyBlobParamSet,
                     kn_runtimeParamSet := Some runtimeParamSet\<rparr>),
                   fill_node fresh keyBlobParamSet runtimeParamSet st)))"

definition HksQueryKeyNode :: "u64 \<Rightarrow> keynode_state \<Rightarrow> HuksKeyNode ptr" where
  "HksQueryKeyNode handle st = List.find (\<lambda>keyNode. kn_handle keyNode = handle) (g_keyNodeList st)"

definition HksDeleteKeyNode :: "u64 \<Rightarrow> keynode_state \<Rightarrow> keynode_state" where
  "HksDeleteKeyNode handle st =
     (case List.find (\<lambda>keyNode. kn_handle keyNode = handle) (g_keyNodeList st) of
        Some keyNode \<Rightarrow> DeleteKeyNodeFree keyNode st
      | None \<Rightarrow> st)"

definition HksFreeUpdateKeyNode :: "HuksKeyNode ptr \<Rightarrow> keynode_state \<Rightarrow> keynode_state" where
  "HksFreeUpdateKeyNode keyNode st =
     (case keyNode of NULL \<Rightarrow> st
      | Some n \<Rightarrow> st\<lparr>cleaned := cleaned st @ FreeRuntimeParamSet (kn_runtimeParamSet n)\<rparr>)"

end
