(* ===== verification/Huks_Keynode_Laws.thy ===== *)
theory Huks_Keynode_Laws
  imports Huks_Keynode
begin

text \<open>
  Key nodes as a registry: making room never fails, because any node may be evicted; creating a node
  is adding the completed node, when no other thread runs between the two. The runtime parameters
  of a node are those of the caller and an empty crypto context.
\<close>

section \<open>The registry contract\<close>

definition node_token :: "HuksKeyNode \<Rightarrow> u32" where
  "node_token keyNode = GetTokenIdFromParamSet (kn_runtimeParamSet keyNode)"

definition keynode_ok :: "keynode_state \<Rightarrow> bool" where
  "keynode_ok = registry_ok g_keyNodeList g_keyNodeCount node_token
     (\<lambda>_. True) MAX_KEY_NODES_COUNT MAX_KEY_NODES_EACH_TOKEN_ID"

lemma keynode_ok_iff:
  "keynode_ok st \<longleftrightarrow> unat (g_keyNodeCount st) = length (g_keyNodeList st)
     \<and> length (g_keyNodeList st) \<le> 32
     \<and> (\<forall>k. length (filter (\<lambda>n. node_token n = k) (g_keyNodeList st)) \<le> 10)"
  by (auto simp: keynode_ok_def registry_ok_def)

lemma free_node_simps [simp]:
  "g_keyNodeList (DeleteKeyNodeFree n st) = remove1 n (g_keyNodeList st)"
  "g_keyNodeCount (DeleteKeyNodeFree n st) = g_keyNodeCount st - 1"
  by (simp_all add: DeleteKeyNodeFree_def)

definition shrinks :: "keynode_state \<Rightarrow> keynode_state \<Rightarrow> bool" where
  "shrinks st st' \<longleftrightarrow> survives (\<lambda>_. False) (g_keyNodeList st) (g_keyNodeList st')
     \<and> (unat (g_keyNodeCount st) = length (g_keyNodeList st) \<longrightarrow>
        unat (g_keyNodeCount st') = length (g_keyNodeList st'))"

lemma shrinks_refl [simp]: "shrinks st st"
  by (simp add: shrinks_def)

lemma shrinks_trans: "shrinks st st' \<Longrightarrow> shrinks st' st'' \<Longrightarrow> shrinks st st''"
  by (auto simp: shrinks_def intro: survives_trans)

lemma length_remove1_Suc: "x \<in> set xs \<Longrightarrow> length xs = Suc (length (remove1 x xs))"
  by (induction xs) auto

lemma shrinks_drop: "n \<in> set (g_keyNodeList st) \<Longrightarrow> shrinks st (DeleteKeyNodeFree n st)"
  using unat_decrement length_remove1_Suc [of n "g_keyNodeList st"]
  by (simp add: shrinks_def survives_remove1)

lemma first_timeout_node_mem:
  "first_timeout_node clk i ns = Some n \<Longrightarrow> n \<in> set ns \<and> kn_isBatchOperation n"
  by (induction clk i ns rule: first_timeout_node.induct) (auto split: if_splits sum.splits)

lemma shrinks_timeout: "shrinks st (DeleteFirstTimeOutBatchKeyNode clk st)"
  using first_timeout_node_mem shrinks_drop
  by (auto simp: DeleteFirstTimeOutBatchKeyNode_def split: option.split)

lemma length_filter_remove1:
  "x \<in> set xs \<Longrightarrow> P x \<Longrightarrow> length (filter P xs) = Suc (length (filter P (remove1 x xs)))"
  by (induction xs) auto

text \<open>The part of the invariant that also holds while other threads work.\<close>

definition keynode_counted :: "keynode_state \<Rightarrow> bool" where
  "keynode_counted st \<longleftrightarrow> unat (g_keyNodeCount st) = length (g_keyNodeList st)
     \<and> length (g_keyNodeList st) \<le> 32"

lemma shrinks_counted: "shrinks st st' \<Longrightarrow> keynode_counted st \<Longrightarrow> keynode_counted st'"
  unfolding shrinks_def keynode_counted_def using le_trans [OF survives_length] by blast

text \<open>Making room for a token never fails, and brings its nodes from at most 10 below 10.\<close>

lemma token_room_node:
  assumes "keynode_counted st"
  obtains st' where "DeleteKeyNodeForTokenIdIfExceedLimit t st = (0, st')" "shrinks st st'"
    and "length (filter (\<lambda>n. node_token n = t) (g_keyNodeList st)) \<le> 10
      \<Longrightarrow> length (filter (\<lambda>n. node_token n = t) (g_keyNodeList st')) < 10"
proof -
  define own where "own n \<longleftrightarrow> node_token n = t" for n
  define st' where "st' = snd (DeleteKeyNodeForTokenIdIfExceedLimit t st)"
  have own: "(\<lambda>n. GetTokenIdFromParamSet (kn_runtimeParamSet n) = t) = own"
    by (simp add: own_def [abs_def] node_token_def)
  note [simp] = DeleteKeyNodeForTokenIdIfExceedLimit_def DeleteFirstKeyNodeForTokenId_def own
  have "DeleteKeyNodeForTokenIdIfExceedLimit t st = (0, st') \<and> shrinks st st'
      \<and> (length (filter own (g_keyNodeList st)) \<le> 10 \<longrightarrow> length (filter own (g_keyNodeList st')) < 10)"
  proof (cases "g_keyNodeCount st < 10 \<or> length (filter own (g_keyNodeList st)) < 10")
    case True
    moreover have "length (filter own (g_keyNodeList st)) < 10" if "g_keyNodeCount st < 10"
      using that assms le_less_trans [OF length_filter_le]
      by (simp add: word_less_nat_alt keynode_counted_def)
    ultimately show ?thesis by (auto simp: st'_def)
  next
    case False
    then obtain n where n: "List.find own (g_keyNodeList st) = Some n"
      by (cases "List.find own (g_keyNodeList st)") (auto simp: find_None_iff filter_empty_conv)
    then have mem: "n \<in> set (g_keyNodeList st)" "own n"
      using find_Some_mem by fastforce+
    have run: "DeleteKeyNodeForTokenIdIfExceedLimit t st = (0, DeleteKeyNodeFree n st)"
      using False n by simp
    have "length (filter own (g_keyNodeList st)) = Suc (length (filter own (remove1 n (g_keyNodeList st))))"
      using length_filter_remove1 [OF mem(1), of own] mem(2) by simp
    with run shrinks_drop [OF mem(1)] show ?thesis
      by (simp add: st'_def del: DeleteKeyNodeForTokenIdIfExceedLimit_def)
  qed
  then show ?thesis using that [of st'] by (simp add: own_def [abs_def])
qed

lemma AddKeyNode_law:
  assumes "keynode_counted st"
  obtains last where "\<And>e. AddKeyNode clk e t st =
      (0, last\<lparr>g_keyNodeList := g_keyNodeList last @ [e], g_keyNodeCount := g_keyNodeCount last + 1\<rparr>)"
    and "shrinks st last" "length (g_keyNodeList last) < 32"
    and "length (filter (\<lambda>n. node_token n = t) (g_keyNodeList st)) \<le> 10
      \<Longrightarrow> length (filter (\<lambda>n. node_token n = t) (g_keyNodeList last)) < 10"
    and "unat (g_keyNodeCount last) = length (g_keyNodeList last)"
proof -
  let ?own = "\<lambda>st. length (filter (\<lambda>n. node_token n = t) (g_keyNodeList st))"
  have fewer: "?own st'' \<le> ?own st'" if "shrinks st' st''" for st' st''
    using that survives_count unfolding shrinks_def by blast
  define st1 where "st1 = DeleteFirstTimeOutBatchKeyNode clk st"
  have s1: "shrinks st st1" by (simp add: st1_def shrinks_timeout)
  obtain st2 where two: "DeleteKeyNodeForTokenIdIfExceedLimit t st1 = (0, st2)" and s2: "shrinks st1 st2"
    and own2: "?own st1 \<le> 10 \<Longrightarrow> ?own st2 < 10"
    using token_room_node [OF shrinks_counted [OF s1 assms]] by metis
  have own: "?own st2 < 10" if "?own st \<le> 10"
    using own2 le_trans [OF fewer [OF s1] that] by blast
  have s02: "shrinks st st2" using shrinks_trans s1 s2 by blast
  then have ok2: "unat (g_keyNodeCount st2) = length (g_keyNodeList st2)" "length (g_keyNodeList st2) \<le> 32"
    using shrinks_counted assms unfolding keynode_counted_def by blast+
  note run = AddKeyNode_def Let_def st1_def [symmetric] two
  show ?thesis
  proof (cases "g_keyNodeCount st2 \<ge> 32")
    case False
    then have "AddKeyNode clk e t st = (0, st2\<lparr>g_keyNodeList := g_keyNodeList st2 @ [e],
        g_keyNodeCount := g_keyNodeCount st2 + 1\<rparr>)" for e
      by (simp add: run)
    moreover have "length (g_keyNodeList st2) < 32"
      using False ok2 by (simp add: word_le_nat_alt)
    ultimately show ?thesis using that [of st2] s02 own ok2 by blast
  next
    case True
    then obtain n ns where l: "g_keyNodeList st2 = n # ns"
      using ok2 by (cases "g_keyNodeList st2") (auto simp: word_le_nat_alt)
    define st3 where "st3 = DeleteKeyNodeFree n st2"
    have s3: "shrinks st2 st3" unfolding st3_def by (rule shrinks_drop) (simp add: l)
    have "AddKeyNode clk e t st = (0, st3\<lparr>g_keyNodeList := g_keyNodeList st3 @ [e],
        g_keyNodeCount := g_keyNodeCount st3 + 1\<rparr>)" for e
      using True by (simp add: run DeleteFirstKeyNode_def l st3_def)
    moreover have "length (g_keyNodeList st3) < 32"
      using ok2 l by (simp add: st3_def)
    moreover have "?own st3 < 10" if "?own st \<le> 10"
      using le_less_trans [OF fewer [OF s3] own [OF that]] .
    moreover have "unat (g_keyNodeCount st3) = length (g_keyNodeList st3)"
      using s3 ok2 by (simp add: shrinks_def)
    ultimately show ?thesis using that [of st3] shrinks_trans [OF s02 s3] by blast
  qed
qed

lemma keynode_ok_counted: "keynode_ok st \<Longrightarrow> keynode_counted st"
  by (simp add: keynode_ok_iff keynode_counted_def)

lemma AddKeyNode_0: "keynode_counted st \<Longrightarrow> fst (AddKeyNode clk e t st) = 0"
  using AddKeyNode_law [of st clk t] by (metis fst_conv)

lemma HksDeleteKeyNode_shrinks: "shrinks st (HksDeleteKeyNode h st)"
  using find_Some_mem shrinks_drop by (fastforce simp: HksDeleteKeyNode_def split: option.split)

interpretation kn: deletable_registry g_keyNodeList g_keyNodeCount node_token node_token
    "\<lambda>_. False" "\<lambda>_. True" MAX_KEY_NODES_COUNT MAX_KEY_NODES_EACH_TOKEN_ID
    "\<lambda>e. AddKeyNode clk e (node_token e)" HksDeleteKeyNode for clk
proof unfold_locales
  fix s :: keynode_state and e s'
  assume "registry_ok g_keyNodeList g_keyNodeCount node_token (\<lambda>_. True) 32 10 s"
    and add: "AddKeyNode clk e (node_token e) s = (HKS_SUCCESS, s')"
  then have ok: "keynode_ok s" by (simp add: keynode_ok_def)
  obtain last where s': "s' = last\<lparr>g_keyNodeList := g_keyNodeList last @ [e],
      g_keyNodeCount := g_keyNodeCount last + 1\<rparr>" "shrinks s last" "length (g_keyNodeList last) < 32"
    "length (filter (\<lambda>n. node_token n = node_token e) (g_keyNodeList last)) < 10"
    "unat (g_keyNodeCount last) = length (g_keyNodeList last)"
    using AddKeyNode_law [OF keynode_ok_counted [OF ok], of clk "node_token e"] add ok
    unfolding keynode_ok_iff by (metis prod.inject)
  then show "\<exists>kept. survives (\<lambda>_. False) (g_keyNodeList s) kept \<and> g_keyNodeList s' = kept @ [e]
      \<and> length kept < 32 \<and> length (filter (\<lambda>x. node_token x = node_token e) kept) < 10
      \<and> unat (g_keyNodeCount s') = length kept + 1"
    using unat_increment [of "g_keyNodeCount last"] by (auto simp: shrinks_def)
next
  fix s :: keynode_state and e r s'
  assume "registry_ok g_keyNodeList g_keyNodeCount node_token (\<lambda>_. True) 32 10 s"
    and "AddKeyNode clk e (node_token e) s = (r, s')" "r \<noteq> HKS_SUCCESS"
  moreover from this(1) have "keynode_ok s" by (simp add: keynode_ok_def)
  then have "fst (AddKeyNode clk e (node_token e) s) = 0" by (intro AddKeyNode_0 keynode_ok_counted)
  ultimately show "survives (\<lambda>_. False) (g_keyNodeList s) (g_keyNodeList s')
      \<and> unat (g_keyNodeCount s') = length (g_keyNodeList s')"
    by simp
next
  fix s :: keynode_state and h
  assume "registry_ok g_keyNodeList g_keyNodeCount node_token (\<lambda>_. True) 32 10 s"
  then show "survives (\<lambda>_. False) (g_keyNodeList s) (g_keyNodeList (HksDeleteKeyNode h s))
      \<and> unat (g_keyNodeCount (HksDeleteKeyNode h s)) = length (g_keyNodeList (HksDeleteKeyNode h s))"
    using HksDeleteKeyNode_shrinks [of s h] by (auto simp: shrinks_def registry_ok_def)
qed simp

lemma kn_ok: "kn.ok = keynode_ok"
  by (rule ext) (simp only: kn.ok_def keynode_ok_def)

lemmas keynode_add_ok = kn.add_ok [unfolded kn_ok]
lemmas keynode_add_distinct = kn.add_distinct [unfolded kn_ok]
lemmas keynode_add_adds = kn.add_adds [unfolded kn_ok]
lemmas keynode_del_ok = kn.del_ok [unfolded kn_ok]
lemmas keynode_del_distinct = kn.del_distinct [unfolded kn_ok]


section \<open>Creating a node\<close>

text \<open>
  Adding the empty node and filling it in afterwards gives the same list as adding the completed
  node, when its address is new.
\<close>

lemma add_then_fill:
  assumes "keynode_ok st" "kn_addr e \<notin> kn_addr ` set (g_keyNodeList st)"
    and "e' = e\<lparr>kn_keyBlobParamSet := Some kb, kn_runtimeParamSet := Some rt, kn_authRuntimeParamSet := NULL\<rparr>"
  shows "AddKeyNode clk e' t st =
    (0, fill_node (kn_addr e) kb rt (snd (AddKeyNode clk e t st)))"
proof -
  obtain last where add: "\<And>e. AddKeyNode clk e t st = (0, last\<lparr>g_keyNodeList := g_keyNodeList last @ [e],
      g_keyNodeCount := g_keyNodeCount last + 1\<rparr>)" and "shrinks st last"
    using AddKeyNode_law [OF keynode_ok_counted [OF assms(1)], of clk t] by metis
  then have "set (g_keyNodeList last) \<subseteq> set (g_keyNodeList st)"
    by (simp add: shrinks_def survives_def set_subseq)
  then have other: "kn_addr n \<noteq> kn_addr e" if "n \<in> set (g_keyNodeList last)" for n
    using assms(2) that by (metis image_eqI subsetD)
  then have "map (\<lambda>n. if kn_addr n = kn_addr e
      then n\<lparr>kn_keyBlobParamSet := Some kb, kn_runtimeParamSet := Some rt, kn_authRuntimeParamSet := NULL\<rparr>
      else n) (g_keyNodeList last) = g_keyNodeList last"
    by (intro map_idI) simp
  then show ?thesis
    by (simp add: add fill_node_def assms(3))
qed

lemma HksCreateKeyNode_cases:
  assumes "keynode_ok st" "fresh \<notin> kn_addr ` set (g_keyNodeList st)"
    and "HksCreateKeyNode alloc random clk parse decrypt fresh key ps st = (n, st')"
  obtains cs where "n = NULL" "st' = st\<lparr>cleaned := cleaned st @ cs\<rparr>"
      "\<not> HksMalloc alloc SIZEOF_KEY_NODE \<or> prepare_key_node alloc random parse decrypt key ps st = Inl cs"
  | h rt kb e where "HksMalloc alloc SIZEOF_KEY_NODE"
      "prepare_key_node alloc random parse decrypt key ps st = Inr (h, rt, kb)"
      "e = (new_node fresh)\<lparr>kn_handle := h, kn_keyBlobParamSet := Some kb, kn_runtimeParamSet := Some rt\<rparr>"
      "n = Some e" "AddKeyNode clk e (node_token e) st = (0, st')"
proof (cases "HksMalloc alloc SIZEOF_KEY_NODE")
  case False
  with assms(3) that(1) [of "[]"] show ?thesis by (simp add: HksCreateKeyNode_def)
next
  case malloc: True
  show ?thesis
  proof (cases "prepare_key_node alloc random parse decrypt key ps st")
    case (Inl cs)
    with malloc assms(3) that(1) show ?thesis by (auto simp: HksCreateKeyNode_def)
  next
    case (Inr x)
    obtain h rt kb where x: "x = (h, rt, kb)" by (cases x)
    define e0 where "e0 = (new_node fresh)\<lparr>kn_handle := h\<rparr>"
    define e where "e = e0\<lparr>kn_keyBlobParamSet := Some kb, kn_runtimeParamSet := Some rt\<rparr>"
    define t where "t = GetTokenIdFromParamSet (Some rt)"
    obtain st2 where add: "AddKeyNode clk e0 t st = (0, st2)"
      using AddKeyNode_0 [OF keynode_ok_counted [OF assms(1)], of clk e0 t] by (cases "AddKeyNode clk e0 t st") auto
    have "e = e0\<lparr>kn_keyBlobParamSet := Some kb, kn_runtimeParamSet := Some rt, kn_authRuntimeParamSet := NULL\<rparr>"
      by (simp add: e_def e0_def new_node_def)
    moreover have addr: "kn_addr e0 = fresh" by (simp add: e0_def new_node_def)
    ultimately have "AddKeyNode clk e t st = (0, fill_node (kn_addr e0) kb rt (snd (AddKeyNode clk e0 t st)))"
      using add_then_fill [OF assms(1)] assms(2) by metis
    then have "AddKeyNode clk e t st = (0, fill_node fresh kb rt st2)"
      by (simp only: add addr snd_conv)
    moreover have "node_token e = t"
      by (simp add: node_token_def e_def t_def)
    moreover have res: "(n, st') = (Some e, fill_node fresh kb rt st2)"
      using assms(3) malloc Inr add
      by (simp add: HksCreateKeyNode_def x e_def e0_def [symmetric] t_def [symmetric] Let_def)
    ultimately have added: "AddKeyNode clk e (node_token e) st = (0, st')"
      by simp
    have e: "e = (new_node fresh)\<lparr>kn_handle := h, kn_keyBlobParamSet := Some kb,
        kn_runtimeParamSet := Some rt\<rparr>"
      by (simp add: e_def e0_def)
    have n: "n = Some e"
      using res by simp
    show ?thesis
      by (rule that(2) [OF malloc Inr [unfolded x] e n added])
  qed
qed

section \<open>The handle\<close>

definition handle_used :: "u32 \<Rightarrow> keynode_state \<Rightarrow> bool" where
  "handle_used d st \<longleftrightarrow> (\<exists>n \<in> set (g_keyNodeList st). kn_handle n = ucast d)"

lemma HksCheckUniqueHandle_0: "HksCheckUniqueHandle (ucast d) st = 0 \<longleftrightarrow> \<not> handle_used d st"
  by (auto simp: HksCheckUniqueHandle_def handle_used_def list_ex_iff)

lemma HksCheckUniqueHandle_cases: "HksCheckUniqueHandle h st = 0 \<or> HksCheckUniqueHandle h st = HKS_FAILURE"
  by (simp add: HksCheckUniqueHandle_def)

lemma handle_loop_Inr:
  "handle_loop random st i n ret = Inr h \<longleftrightarrow>
     (\<exists>k < n. \<exists>d. random (i + k) = Inr d \<and> h = ucast d \<and> \<not> handle_used d st
        \<and> (\<forall>j < k. \<exists>d'. random (i + j) = Inr d' \<and> handle_used d' st))"
proof (induction n arbitrary: i ret)
  case 0
  then show ?case by simp
next
  case (Suc n)
  show ?case
  proof (cases "random i")
    case (Inl e)
    have "\<not> (random (i + k) = Inr d \<and> (\<forall>j < k. \<exists>d'. random (i + j) = Inr d' \<and> handle_used d' st))" for k d
    proof (cases k)
      case 0
      with Inl show ?thesis by simp
    next
      case (Suc m)
      have "\<exists>d'. random (i + 0) = Inr d'" if "\<forall>j < k. \<exists>d'. random (i + j) = Inr d' \<and> handle_used d' st"
        using that Suc by blast
      with Inl show ?thesis by auto
    qed
    then have no: "\<not> (\<exists>k < Suc n. \<exists>d. random (i + k) = Inr d \<and> h = ucast d \<and> \<not> handle_used d st
        \<and> (\<forall>j < k. \<exists>d'. random (i + j) = Inr d' \<and> handle_used d' st))" by blast
    show ?thesis unfolding eq_False [THEN iffD2, OF no] using Inl by simp
  next
    case (Inr d)
    have shift: "(\<exists>k < Suc n. P k) \<longleftrightarrow> P 0 \<or> (\<exists>k < n. P (Suc k))" for P
      using less_Suc_eq_0_disj by auto
    have all: "(\<forall>j < Suc k. P j) \<longleftrightarrow> P 0 \<and> (\<forall>j < k. P (Suc j))" for k P
      using less_Suc_eq_0_disj by auto
    show ?thesis
      unfolding shift all using Inr Suc.IH [of "Suc i"]
      by (auto simp: Let_def HksCheckUniqueHandle_0)
  qed
qed

lemma handle_loop_Inl:
  assumes "\<And>j. j < n \<Longrightarrow> \<exists>d. random (i + j) = Inr d \<and> handle_used d st" "0 < n"
  shows "handle_loop random st i n ret = Inl HKS_FAILURE"
  using assms
proof (induction n arbitrary: i ret)
  case 0
  then show ?case by simp
next
  case (Suc n)
  obtain d where d: "random i = Inr d" "handle_used d st"
    using Suc.prems(1) [of 0] by auto
  then have r: "HksCheckUniqueHandle (ucast d) st = HKS_FAILURE"
    using HksCheckUniqueHandle_0 HksCheckUniqueHandle_cases by blast
  show ?case
  proof (cases n)
    case 0
    with d r show ?thesis by simp
  next
    case (Suc m)
    have "handle_loop random st (Suc i) n HKS_FAILURE = Inl HKS_FAILURE"
      using Suc.prems(1) [of "Suc _"] Suc by (intro Suc.IH) auto
    with d r show ?thesis by simp
  qed
qed

lemma generated_unused:
  assumes "GenerateKeyNodeHandle random st = Inr h"
  shows "h \<notin> kn_handle ` set (g_keyNodeList st) \<and> (\<exists>d :: u32. h = ucast d)"
  using assms by (auto simp: GenerateKeyNodeHandle_def handle_loop_Inr handle_used_def)


section \<open>The runtime parameters\<close>

abbreviation (input) ctx_param :: "u64 \<Rightarrow> HksParam" where
  "ctx_param ctx \<equiv> \<lparr>p_tag = HKS_TAG_CRYPTO_CTX, p_val = VUlong ctx\<rparr>"

lemma HksAddParams_0:
  assumes "HksAddParams (Some ps) (Some qs) = (0, r)"
  obtains ps' where "r = Some ps'" "params ps' = params ps @ qs" "ps_tail ps' = ps_tail ps"
    "CheckBeforeAddParams (Some ps) (Some qs) = 0"
proof -
  have chk: "CheckBeforeAddParams (Some ps) (Some qs) = 0"
    and run: "map_prod id Some (add_params_loop ps qs) = (0, r)"
    using assms by (auto simp: HksAddParams_def Let_def if_not_succ_return_def split: if_splits)
  obtain c ps' where l: "add_params_loop ps qs = (c, ps')" by fastforce
  with run have "c = 0" "r = Some ps'" by simp_all
  then show ?thesis
    using that [of ps'] chk add_params_loop_params [of qs ps] add_params_loop_frame [of ps qs] l by auto
qed

lemma ctx_not_bytes [simp]: "\<not> is_bytes_tag HKS_TAG_CRYPTO_CTX"
  and token_not_bytes [simp]: "\<not> is_bytes_tag HKS_TAG_ACCESS_TOKEN_ID"
  by (simp_all add: is_bytes_tag_def GetTagType_def)

lemma norm_ctx [simp]: "norm_param (ctx_param c) = ctx_param c"
  by (simp add: norm_param_def is_bytes_tag_def GetTagType_def)

lemma plen_ctx [simp]: "plen (ctx_param c) = 0"
  by (simp add: plen_def is_bytes_tag_def GetTagType_def)

lemma tag_exists_0:
  "HksCheckIsTagAlreadyExist (Some [ctx_param c]) (Some ps) = 0 \<longleftrightarrow>
     HksCheckParamSet (Some ps) (paramSetSize ps) = 0 \<and> HKS_TAG_CRYPTO_CTX \<notin> p_tag ` set (params ps)"
  by (auto simp: HksCheckIsTagAlreadyExist_def Let_def if_not_succ_return_def list_ex_iff)

text \<open>What the caller gives becomes the beginning of the runtime parameters.\<close>

lemma BuildRuntimeParamSet_Inr:
  assumes "BuildRuntimeParamSet alloc inSet = Inr rt"
  shows "params rt = (case inSet of NULL \<Rightarrow> [] | Some ps \<Rightarrow> map norm_param (params ps)) @ [ctx_param 0]
    \<and> HksCheckParamSet (Some rt) (paramSetSize rt) = 0 \<and> unat (paramSetSize rt) = space (params rt)
    \<and> (\<forall>ps. inSet = Some ps \<longrightarrow> HksCheckParamSet inSet (paramSetSize ps) = 0
        \<and> HKS_TAG_CRYPTO_CTX \<notin> p_tag ` set (params ps) \<and> paramsCnt ps \<le> 41)"
proof -
  define finish where "finish q = (let (ret, paramSet) = HksAddParams q (Some [ctx_param 0]) in
    if ret \<noteq> HKS_SUCCESS then Inl ret else HksBuildParamSet alloc paramSet)" for q
  have fin: "params rt = map norm_param (params q) @ [ctx_param 0]
      \<and> HksCheckParamSet (Some rt) (paramSetSize rt) = 0 \<and> unat (paramSetSize rt) = space (params rt)
      \<and> paramsCnt q \<le> 41"
    if "finish (Some q) = Inr rt" for q
  proof -
    obtain c r where cr: "HksAddParams (Some q) (Some [ctx_param 0]) = (c, r)" by fastforce
    with that have "c = 0" and b: "HksBuildParamSet alloc r = Inr rt"
      by (simp_all add: finish_def split: if_splits)
    with cr have "HksAddParams (Some q) (Some [ctx_param 0]) = (0, r)" by simp
    then obtain q' where r: "r = Some q'" "params q' = params q @ [ctx_param 0]"
      "CheckBeforeAddParams (Some q) (Some [ctx_param 0]) = 0"
      using HksAddParams_0 by blast
    then have "paramsCnt q \<le> 41" by (simp add: CheckBeforeAddParams_0)
    moreover have "unat (paramSetSize q') = space (params q')"
        "HksCheckParamSet (Some q') (paramSetSize q') = 0"
        "rt = q'\<lparr>params := map norm_param (params q'), ps_tail := concat (map payload (params q'))\<rparr>"
      using HksBuildParamSet_Inr [OF b [unfolded r(1)]] by blast+
    ultimately show ?thesis
      by (simp add: r(2) HksCheckParamSet_0 paramsCnt_def space_def comp_def)
  qed
  obtain ps0 where init: "HksInitParamSet alloc = Inr ps0"
    and run: "(case inSet of NULL \<Rightarrow> finish (Some ps0)
      | Some ps \<Rightarrow> let ret = HksCheckIsTagAlreadyExist (Some [ctx_param 0]) inSet in
          if ret \<noteq> HKS_SUCCESS then Inl ret
          else (let (ret, paramSet) = HksAddParams (Some ps0) (Some (params ps)) in
                if ret \<noteq> HKS_SUCCESS then Inl ret else finish paramSet)) = Inr rt"
    using assms unfolding BuildRuntimeParamSet_def Let_def finish_def try_res_Inr by blast
  have ps0: "params ps0 = []"
    using init by (auto simp: HksInitParamSet_def split: if_splits)
  show ?thesis
  proof (cases inSet)
    case None
    with run fin [of ps0] ps0 show ?thesis by simp
  next
    case (Some ps)
    with run obtain r where tag: "HksCheckIsTagAlreadyExist (Some [ctx_param 0]) (Some ps) = 0"
      and add: "HksAddParams (Some ps0) (Some (params ps)) = (0, r)" and f: "finish r = Inr rt"
      by (auto simp: Let_def split: if_splits prod.splits)
    obtain q where "r = Some q" "params q = params ps"
      using HksAddParams_0 [OF add] ps0 by auto
    with fin [of q] f tag Some show ?thesis
      by (auto simp: tag_exists_0 paramsCnt_def)
  qed
qed

lemma BuildRuntimeParamSet_ok:
  assumes "flat ps" "HksCheckParamSet (Some ps) (paramSetSize ps) = 0"
    and "HKS_TAG_CRYPTO_CTX \<notin> p_tag ` set (params ps)" "paramsCnt ps \<le> 41"
    and "space (params ps) + 24 \<le> 0x400000" "\<forall>n. alloc n"
  shows "\<exists>rt. BuildRuntimeParamSet alloc (Some ps) = Inr rt"
proof -
  define n where "n = 24 * length (params ps) + sum_list (map plen (params ps))"
  have n: "8 + n = space (params ps)" "n \<le> 0x400000"
    using assms(5) by (simp_all add: n_def space_def)
  define ps0 where "ps0 = \<lparr>paramSetSize = 8, params = [], ps_tail = []\<rparr>"
  define ps1 where "ps1 = ps0\<lparr>paramSetSize := 8 + word_of_nat n, params := params ps\<rparr>"
  define ps2 where "ps2 = ps1\<lparr>paramSetSize := 8 + word_of_nat n + 24, params := params ps @ [ctx_param 0]\<rparr>"
  have ptr: "list_all (\<lambda>q. is_bytes_tag (p_tag q) \<longrightarrow> blob_data (blobParam (p_val q)) \<noteq> NULL) (params ps)"
    using assms(1) wf_param_ptr by (simp add: flat_def)
  have sz1: "unat (8 + word_of_nat n :: u32) = 8 + n"
    using n unat_u32_add_of_nat [of 8 n] by simp
  have sz2: "unat (8 + word_of_nat n + 24 :: u32) = 8 + n + 24"
    using n assms(5) unat_u32_add_of_nat [of "8 + word_of_nat n" 24] sz1 by simp
  have i: "HksInitParamSet alloc = Inr ps0"
    using assms(6) by (simp add: HksInitParamSet_def HksMalloc_def ps0_def)
  have a: "HksAddParams (Some ps0) (Some (params ps)) = (0, Some ps1)"
    using HksAddParams_ok [of ps0 "params ps"] assms(4,5) ptr
    by (simp add: ps0_def ps1_def paramsCnt_def n_def space_def)
  have b: "HksAddParams (Some ps1) (Some [ctx_param 0]) = (0, Some ps2)"
    using HksAddParams_ok [of ps1 "[ctx_param 0]"] assms(4,5) n sz1
    by (simp add: ps1_def ps2_def ps0_def paramsCnt_def is_bytes_tag_def GetTagType_def plen_def)
  have "unat (paramSetSize ps2) = space (params ps2)"
    using sz2 n by (simp add: ps2_def space_def n_def)
  from HksBuildParamSet_ok [OF this, of alloc] have "\<exists>rt. HksBuildParamSet alloc (Some ps2) = Inr rt"
    using assms(5,6) ptr by (simp add: ps2_def space_def)
  then show ?thesis
    using i a b tag_exists_0 [of 0 ps] assms(2,3) by (auto simp: BuildRuntimeParamSet_def Let_def)
qed

lemma find_token_append:
  "HKS_TAG_ACCESS_TOKEN_ID \<noteq> t \<Longrightarrow>
   List.find (\<lambda>p. HKS_TAG_ACCESS_TOKEN_ID = p_tag p) (map norm_param qs @ [\<lparr>p_tag = t, p_val = v\<rparr>])
     = List.find (\<lambda>p. HKS_TAG_ACCESS_TOKEN_ID = p_tag p) qs"
  by (induction qs) (simp_all add: norm_param_def)

lemma find_append_new:
  "t \<notin> p_tag ` set qs \<Longrightarrow> List.find (\<lambda>p. t = p_tag p) (map norm_param qs @ [\<lparr>p_tag = t, p_val = v\<rparr>])
     = Some \<lparr>p_tag = t, p_val = v\<rparr>"
  by (induction qs) auto

lemma runtime_lookups:
  assumes "BuildRuntimeParamSet alloc inSet = Inr rt"
  shows "HksGetParam (Some rt) HKS_TAG_CRYPTO_CTX = Inr (ctx_param 0)"
    and "GetTokenIdFromParamSet (Some rt) = GetTokenIdFromParamSet inSet"
    and "FreeRuntimeParamSet (Some rt) = []"
proof -
  note rt = BuildRuntimeParamSet_Inr [OF assms]
  show ctx: "HksGetParam (Some rt) HKS_TAG_CRYPTO_CTX = Inr (ctx_param 0)"
    using rt find_append_new [of HKS_TAG_CRYPTO_CTX]
    by (cases inSet) (auto simp: HksGetParam_Some split: option.split)
  show "FreeRuntimeParamSet (Some rt) = []"
    by (simp add: FreeRuntimeParamSet_def ctx)
  show "GetTokenIdFromParamSet (Some rt) = GetTokenIdFromParamSet inSet"
  proof (cases inSet)
    case None
    with rt show ?thesis by (simp add: GetTokenIdFromParamSet_def HksGetParam_Some HksGetParam_def)
  next
    case (Some ps)
    with rt find_token_append [of HKS_TAG_CRYPTO_CTX "params ps"] show ?thesis
      by (simp add: GetTokenIdFromParamSet_def HksGetParam_Some)
  qed
qed


section \<open>Requests one after another\<close>

text \<open>
  One step is one call into the engine. The last rule is what the rest of the engine does to the
  nodes it holds: it changes fields of nodes, such as the crypto context and the batch time, but not
  their addresses, handles and token ids.
\<close>

inductive keynode_step :: "keynode_state \<Rightarrow> keynode_state \<Rightarrow> bool" where
  create: "fresh \<notin> kn_addr ` set (g_keyNodeList st) \<Longrightarrow>
    HksCreateKeyNode alloc random clk parse decrypt fresh key ps st = (n, st') \<Longrightarrow> keynode_step st st'"
| delete: "keynode_step st (HksDeleteKeyNode h st)"
| free_update: "keynode_step st (HksFreeUpdateKeyNode n st)"
| engine: "(\<And>n. kn_addr (f n) = kn_addr n \<and> kn_handle (f n) = kn_handle n \<and> node_token (f n) = node_token n)
    \<Longrightarrow> keynode_step st (st\<lparr>g_keyNodeList := map f (g_keyNodeList st)\<rparr>)"

definition keynode_init :: keynode_state where
  "keynode_init = \<lparr>g_keyNodeList = [], g_keyNodeCount = 0, cleaned = []\<rparr>"

definition keynode_reach :: "keynode_state \<Rightarrow> bool" where
  "keynode_reach = keynode_step\<^sup>*\<^sup>* keynode_init"

definition keynode_inv :: "keynode_state \<Rightarrow> bool" where
  "keynode_inv st \<longleftrightarrow> keynode_ok st \<and> distinct (map kn_addr (g_keyNodeList st))
     \<and> distinct (map kn_handle (g_keyNodeList st))"

lemma new_node_simps [simp]:
  "kn_addr (new_node a) = a" "kn_handle (new_node a) = 0" "kn_authRuntimeParamSet (new_node a) = NULL"
  by (simp_all add: new_node_def)

lemma prepared_handle:
  "prepare_key_node alloc random parse decrypt key ps st = Inr (h, rt, kb) \<Longrightarrow>
     GenerateKeyNodeHandle random st = Inr h \<and> BuildRuntimeParamSet alloc ps = Inr rt
     \<and> h \<notin> kn_handle ` set (g_keyNodeList st)"
  using generated_unused by (fastforce simp: prepare_key_node_def split: sum.splits prod.splits if_splits)

lemma keynode_inv_create:
  assumes inv: "keynode_inv st" and fresh: "fresh \<notin> kn_addr ` set (g_keyNodeList st)"
    and run: "HksCreateKeyNode alloc random clk parse decrypt fresh key ps st = (n, st')"
  shows "keynode_inv st'"
proof -
  have ok: "keynode_ok st" using inv by (simp add: keynode_inv_def)
  show ?thesis
  proof (cases rule: HksCreateKeyNode_cases [OF ok fresh run])
    case (1 cs)
    with inv show ?thesis by (simp add: keynode_inv_def keynode_ok_iff)
  next
    case (2 h rt kb e)
    have "kn_addr e = fresh" "kn_handle e = h" "h \<notin> kn_handle ` set (g_keyNodeList st)"
      using 2(3) prepared_handle [OF 2(2)] by simp_all
    then show ?thesis
      using inv fresh keynode_add_ok [OF ok 2(5)] keynode_add_distinct [OF ok 2(5), of kn_addr]
        keynode_add_distinct [OF ok 2(5), of kn_handle]
      by (simp add: keynode_inv_def)
  qed
qed

lemma keynode_inv_step: "keynode_step st st' \<Longrightarrow> keynode_inv st \<Longrightarrow> keynode_inv st'"
proof (induction rule: keynode_step.induct)
  case (create fresh st alloc random clk parse decrypt key ps n st')
  then show ?case using keynode_inv_create by blast
next
  case (delete st h)
  then show ?case
    by (simp add: keynode_inv_def keynode_del_ok keynode_del_distinct)
next
  case (free_update st n)
  then show ?case
    by (auto simp: keynode_inv_def keynode_ok_iff HksFreeUpdateKeyNode_def split: option.split)
next
  case (engine f st)
  then have "map kn_addr (map f (g_keyNodeList st)) = map kn_addr (g_keyNodeList st)"
    "map kn_handle (map f (g_keyNodeList st)) = map kn_handle (g_keyNodeList st)"
    "filter (\<lambda>n. node_token n = k) (map f (g_keyNodeList st))
       = map f (filter (\<lambda>n. node_token n = k) (g_keyNodeList st))" for k
    by (simp_all add: filter_map comp_def)
  with engine show ?case by (simp add: keynode_inv_def keynode_ok_iff del: map_map)
qed

lemma keynode_reach_inv: "keynode_reach st \<Longrightarrow> keynode_inv st"
  unfolding keynode_reach_def
proof (induction rule: rtranclp_induct)
  case base
  show ?case by (simp add: keynode_init_def keynode_inv_def keynode_ok_iff)
next
  case (step st st')
  then show ?case using keynode_inv_step by blast
qed

section \<open>Looking a node up\<close>

lemma HksQueryKeyNode_None: "HksQueryKeyNode h st = NULL \<longleftrightarrow> h \<notin> kn_handle ` set (g_keyNodeList st)"
  by (auto simp: HksQueryKeyNode_def find_None_iff)

lemma find_handle_last:
  "h \<notin> kn_handle ` set ns \<Longrightarrow> kn_handle e = h \<Longrightarrow> List.find (\<lambda>n. kn_handle n = h) (ns @ [e]) = Some e"
  by (induction ns) auto

lemma find_handle_filter:
  "k \<noteq> h \<Longrightarrow> List.find (\<lambda>n. kn_handle n = k) (filter (\<lambda>n. kn_handle n \<noteq> h) ns)
     = List.find (\<lambda>n. kn_handle n = k) ns"
  by (induction ns) auto

lemma remove_found:
  "distinct (map kn_handle ns) \<Longrightarrow> List.find (\<lambda>n. kn_handle n = h) ns = Some x \<Longrightarrow>
     remove1 x ns = filter (\<lambda>n. kn_handle n \<noteq> h) ns"
proof (induction ns)
  case Nil
  then show ?case by simp
next
  case (Cons n ns)
  show ?case
  proof (cases "kn_handle n = h")
    case True
    with Cons.prems have "x = n" "h \<notin> kn_handle ` set ns" by auto
    then have "filter (\<lambda>n. kn_handle n \<noteq> h) ns = ns" by (auto simp: filter_id_conv)
    with True \<open>x = n\<close> show ?thesis by simp
  next
    case False
    with Cons find_Some_mem [of _ ns x] show ?thesis by fastforce
  qed
qed

lemma HksDeleteKeyNode_list:
  assumes "keynode_inv st"
  shows "g_keyNodeList (HksDeleteKeyNode h st) = filter (\<lambda>n. kn_handle n \<noteq> h) (g_keyNodeList st)"
proof (cases "List.find (\<lambda>n. kn_handle n = h) (g_keyNodeList st)")
  case None
  then have "filter (\<lambda>n. kn_handle n \<noteq> h) (g_keyNodeList st) = g_keyNodeList st"
    by (auto simp: find_None_iff filter_id_conv)
  with None show ?thesis by (simp add: HksDeleteKeyNode_def)
next
  case (Some x)
  with assms remove_found [OF _ Some] show ?thesis by (simp add: HksDeleteKeyNode_def keynode_inv_def)
qed


lemma created_node:
  assumes inv: "keynode_inv st" and fresh: "fresh \<notin> kn_addr ` set (g_keyNodeList st)"
    and alloc: "alloc SIZEOF_KEY_NODE"
    and prep: "prepare_key_node alloc random parse decrypt key paramSet st = Inr (h, runtime, blob)"
  shows "\<exists>st' kept node. HksCreateKeyNode alloc random clk parse decrypt fresh key paramSet st = (Some node, st')
    \<and> node = (new_node fresh)\<lparr>kn_handle := h, kn_keyBlobParamSet := Some blob,
        kn_runtimeParamSet := Some runtime\<rparr>
    \<and> g_keyNodeList st' = kept @ [node] \<and> subseq kept (g_keyNodeList st)
    \<and> HksQueryKeyNode h st = NULL \<and> HksQueryKeyNode h st' = Some node"
proof -
  have ok: "keynode_ok st" using inv by (simp add: keynode_inv_def)
  have malloc: "HksMalloc alloc SIZEOF_KEY_NODE" using alloc by (simp add: HksMalloc_def)
  have new: "h \<notin> kn_handle ` set (g_keyNodeList st)"
    using prepared_handle [OF prep] by blast
  obtain n st' where run: "HksCreateKeyNode alloc random clk parse decrypt fresh key paramSet st = (n, st')"
    by fastforce
  show ?thesis
  proof (cases rule: HksCreateKeyNode_cases [OF ok fresh run])
    case (1 cs)
    with malloc prep show ?thesis by simp
  next
    case (2 h' rt kb e)
    then have e: "e = (new_node fresh)\<lparr>kn_handle := h, kn_keyBlobParamSet := Some blob,
        kn_runtimeParamSet := Some runtime\<rparr>"
      using prep by simp
    obtain last where last: "AddKeyNode clk e (node_token e) st =
        (0, last\<lparr>g_keyNodeList := g_keyNodeList last @ [e], g_keyNodeCount := g_keyNodeCount last + 1\<rparr>)"
      and s: "shrinks st last"
      using AddKeyNode_law [OF keynode_ok_counted [OF ok], of clk "node_token e"] by metis
    have sub: "subseq (g_keyNodeList last) (g_keyNodeList st)"
      using s by (simp add: shrinks_def survives_def)
    have "st' = last\<lparr>g_keyNodeList := g_keyNodeList last @ [e], g_keyNodeCount := g_keyNodeCount last + 1\<rparr>"
      using 2(5) [unfolded last] by simp
    then have list: "g_keyNodeList st' = g_keyNodeList last @ [e]" by simp
    have "h \<notin> kn_handle ` set (g_keyNodeList last)"
      using new set_subseq [OF sub] by blast
    then have found: "HksQueryKeyNode h st' = Some e"
      by (simp add: HksQueryKeyNode_def list find_handle_last e)
    have none: "HksQueryKeyNode h st = NULL"
      using new by (simp add: HksQueryKeyNode_None)
    show ?thesis
      using run 2(4) e list sub none found by blast
  qed
qed

lemma list_ex_handle: "list_ex (\<lambda>n. kn_handle n = h) ns \<longleftrightarrow> h \<in> kn_handle ` set ns"
  by (induction ns) auto

lemma handle_first:
  assumes "\<And>j. j < n \<Longrightarrow> random (i + j) = Inr (d (i + j))" "ret = HKS_FAILURE"
  shows "handle_loop random st i n ret =
    (case List.find (\<lambda>j. (ucast (d j) :: u64) \<notin> kn_handle ` set (g_keyNodeList st)) [i..<i + n] of
       None \<Rightarrow> Inl HKS_FAILURE | Some j \<Rightarrow> Inr (ucast (d j)))"
  using assms
proof (induction n arbitrary: i ret)
  case 0
  then show ?case by simp
next
  case (Suc n)
  have r: "random i = Inr (d i)" using Suc.prems(1) [of 0] by simp
  have upt: "[i..<i + Suc n] = i # [Suc i..<Suc i + n]" by (simp add: upt_conv_Cons)
  have IH: "handle_loop random st (Suc i) n HKS_FAILURE =
    (case List.find (\<lambda>j. (ucast (d j) :: u64) \<notin> kn_handle ` set (g_keyNodeList st)) [Suc i..<Suc i + n] of
       None \<Rightarrow> Inl HKS_FAILURE | Some j \<Rightarrow> Inr (ucast (d j)))"
    using Suc.prems(1) [of "Suc _"] by (intro Suc.IH) auto
  have "HksCheckUniqueHandle (ucast (d i)) st =
      (if (ucast (d i) :: u64) \<in> kn_handle ` set (g_keyNodeList st) then HKS_FAILURE else 0)"
    by (simp add: HksCheckUniqueHandle_def list_ex_handle)
  then show ?case
    using IH unfolding upt by (simp add: r Let_def)
qed

end
