(* ===== verification/Huks_Keynode_Props.thy ===== *)
theory Huks_Keynode_Props
  imports Huks_Keynode_Laws
begin

text \<open>
  What the key node list guarantees: its limits and unique handles in every state requests can
  reach, that a new key is never refused for lack of room, the contents of the runtime
  parameters, the choice of the handle, and that a handle is gone after its deletion.
\<close>

section \<open>A concrete key node\<close>

definition demo_parse :: aad_parser where
  "demo_parse key = Inr (key, \<lparr>paramSetSize = 8, params = [], ps_tail = []\<rparr>)"

definition demo_decrypt :: blob_decryptor where
  "demo_decrypt aad ps = (0, ps)"

definition demo_runtime :: HksParamSet where
  "demo_runtime = \<lparr>paramSetSize = 32, params = [ctx_param 0], ps_tail = []\<rparr>"

definition demo_blob :: HksBlob where
  "demo_blob = \<lparr>blob_size = 1, blob_data = Some [0]\<rparr>"

definition demo_node :: HuksKeyNode where
  "demo_node = (new_node 100)\<lparr>kn_handle := 7,
     kn_keyBlobParamSet := Some \<lparr>paramSetSize = 8, params = [], ps_tail = []\<rparr>,
     kn_runtimeParamSet := Some demo_runtime\<rparr>"

definition demo_nodes :: "HuksKeyNode list \<Rightarrow> keynode_state" where
  "demo_nodes ns = \<lparr>g_keyNodeList = ns, g_keyNodeCount = word_of_nat (length ns), cleaned = []\<rparr>"

lemma demo_build: "BuildRuntimeParamSet (\<lambda>_. True) NULL = Inr demo_runtime"
  by (simp add: BuildRuntimeParamSet_def HksInitParamSet_def HksMalloc_def HksAddParams_def
      CheckBeforeAddParams_def paramsCnt_def is_bytes_tag_def GetTagType_def HksBuildParamSet_def
      BuildParamSet_def HksFreshParamSet_def FreshParamSet_def HksCheckParamSet_def Let_def
      demo_runtime_def)

lemma demo_generate: "GenerateKeyNodeHandle (\<lambda>_. Inr 7) keynode_init = Inr 7"
  using handle_loop.simps(2) [of "\<lambda>_. Inr 7" keynode_init 0 9 HKS_FAILURE]
  by (simp add: GenerateKeyNodeHandle_def HksCheckUniqueHandle_def keynode_init_def)

lemma demo_prepare:
  "prepare_key_node (\<lambda>_. True) (\<lambda>_. Inr 7) demo_parse demo_decrypt demo_blob NULL keynode_init
     = Inr (7, demo_runtime, \<lparr>paramSetSize = 8, params = [], ps_tail = []\<rparr>)"
  by (simp add: prepare_key_node_def demo_generate demo_build demo_parse_def demo_decrypt_def)

lemma demo_create_node:
  "HksCreateKeyNode (\<lambda>_. True) (\<lambda>_. Inr 7) (\<lambda>_. Inr 0) demo_parse demo_decrypt 100 demo_blob NULL keynode_init
     = (Some demo_node, demo_nodes [demo_node])"
  unfolding HksCreateKeyNode_def demo_prepare
  by (simp add: HksMalloc_def AddKeyNode_def
      DeleteFirstTimeOutBatchKeyNode_def DeleteKeyNodeForTokenIdIfExceedLimit_def fill_node_def
      demo_node_def demo_nodes_def keynode_init_def Let_def new_node_def)

lemma demo_reach_node: "keynode_reach (demo_nodes [demo_node])"
proof -
  have "keynode_step keynode_init (demo_nodes [demo_node])"
    by (rule keynode_step.create [OF _ demo_create_node]) (simp add: keynode_init_def)
  then show ?thesis by (simp add: keynode_reach_def)
qed

lemma demo_reach_init: "keynode_reach keynode_init"
  by (simp add: keynode_reach_def)

section \<open>The invariant\<close>

text \<open>
  C23: When requests run one after another, \<open>g_keyNodeCount\<close> is always the number of nodes in the
  list, there are at most 32 nodes and at most 10 of each access token id, and no two nodes share
  an address or a handle.
\<close>

theorem keynode_limits:
  assumes "keynode_reach st"
  shows "unat (g_keyNodeCount st) = length (g_keyNodeList st)
    \<and> length (g_keyNodeList st) \<le> MAX_KEY_NODES_COUNT
    \<and> (\<forall>k. length (filter (\<lambda>n. GetTokenIdFromParamSet (kn_runtimeParamSet n) = k) (g_keyNodeList st))
          \<le> MAX_KEY_NODES_EACH_TOKEN_ID)
    \<and> distinct (map kn_addr (g_keyNodeList st)) \<and> distinct (map kn_handle (g_keyNodeList st))"
  using keynode_reach_inv [OF assms]
  by (simp add: keynode_inv_def keynode_ok_iff node_token_def [abs_def])

theorem keynode_limits_witness:
  "unat (g_keyNodeCount (demo_nodes [demo_node])) = 1
    \<and> distinct (map kn_handle (g_keyNodeList (demo_nodes [demo_node])))"
  using keynode_limits [OF demo_reach_node] by (simp add: demo_nodes_def)

section \<open>Creating a node\<close>

text \<open>
  C24: Creating a key node is never refused for lack of room: once the handle, the runtime
  parameters and the decrypted key are there, \<open>HksCreateKeyNode\<close> succeeds in every reachable
  state, evicting older nodes if the limits require it. The new node is the last of the list, its
  handle was not in use before, and \<open>HksQueryKeyNode\<close> of the handle finds it with exactly the
  loaded key and runtime parameters. Nothing that was not in the list before is in it afterwards
  except the new node.
\<close>

theorem create_never_refused:
  assumes "keynode_reach st" "fresh \<notin> kn_addr ` set (g_keyNodeList st)" "alloc SIZEOF_KEY_NODE"
    and "prepare_key_node alloc random parse decrypt key paramSet st = Inr (h, runtime, blob)"
  shows "\<exists>st' kept node. HksCreateKeyNode alloc random clk parse decrypt fresh key paramSet st = (Some node, st')
    \<and> node = (new_node fresh)\<lparr>kn_handle := h, kn_keyBlobParamSet := Some blob,
        kn_runtimeParamSet := Some runtime\<rparr>
    \<and> g_keyNodeList st' = kept @ [node] \<and> subseq kept (g_keyNodeList st)
    \<and> HksQueryKeyNode h st = NULL \<and> HksQueryKeyNode h st' = Some node"
  using created_node [OF keynode_reach_inv [OF assms(1)] assms(2-4)] .

theorem create_never_refused_witness:
  "HksQueryKeyNode 7 keynode_init = NULL
    \<and> HksQueryKeyNode 7 (snd (HksCreateKeyNode (\<lambda>_. True) (\<lambda>_. Inr 7) (\<lambda>_. Inr 0) demo_parse demo_decrypt
        100 demo_blob NULL keynode_init)) \<noteq> NULL"
  using create_never_refused [OF demo_reach_init _ _ demo_prepare, of 100 "\<lambda>_. Inr 0"]
  by (auto simp: keynode_init_def)

text \<open>
  The runtime parameters of a caller's well-formed set are built exactly when the caller did
  not bring a \<open>HKS_TAG_CRYPTO_CTX\<close> of his own, has at most 41 parameters and leaves room for one
  more. They are then the caller's parameters and an empty crypto context; the caller's token id is
  read from them unchanged, and freeing them runs no destructor.
\<close>

theorem runtime_params_exact:
  assumes "flat ps" "HksCheckParamSet (Some ps) (paramSetSize ps) = HKS_SUCCESS" "\<forall>n. alloc n"
  shows "case BuildRuntimeParamSet alloc (Some ps) of
      Inr runtime \<Rightarrow> HKS_TAG_CRYPTO_CTX \<notin> p_tag ` set (params ps) \<and> paramsCnt ps \<le> 41
        \<and> space (params ps) + SIZEOF_PARAM \<le> 0x400000
        \<and> params runtime = params ps @ [\<lparr>p_tag = HKS_TAG_CRYPTO_CTX, p_val = VUlong 0\<rparr>]
        \<and> GetTokenIdFromParamSet (Some runtime) = GetTokenIdFromParamSet (Some ps)
        \<and> FreeRuntimeParamSet (Some runtime) = []
    | Inl _ \<Rightarrow> \<not> (HKS_TAG_CRYPTO_CTX \<notin> p_tag ` set (params ps) \<and> paramsCnt ps \<le> 41
        \<and> space (params ps) + SIZEOF_PARAM \<le> 0x400000)"
proof (cases "BuildRuntimeParamSet alloc (Some ps)")
  case (Inl c)
  with BuildRuntimeParamSet_ok [OF assms(1,2) _ _ _ assms(3)] show ?thesis by fastforce
next
  case (Inr runtime)
  have norm: "map norm_param (params ps) = params ps" using assms(1) by (simp add: flat_def)
  note rt = BuildRuntimeParamSet_Inr [OF Inr]
  have "space (params ps) + 24 = space (params runtime)"
    using rt norm by (simp add: space_def)
  also have "\<dots> \<le> 0x400000"
    using rt unfolding HksCheckParamSet_0 by metis
  finally show ?thesis
    using Inr rt norm runtime_lookups [OF Inr] by simp
qed

theorem runtime_params_exact_witness:
  "flat \<lparr>paramSetSize = 8, params = [], ps_tail = []\<rparr>
    \<and> (case BuildRuntimeParamSet (\<lambda>_. True) (Some \<lparr>paramSetSize = 8, params = [], ps_tail = []\<rparr>) of
        Inr runtime \<Rightarrow> params runtime = [\<lparr>p_tag = HKS_TAG_CRYPTO_CTX, p_val = VUlong 0\<rparr>] | Inl _ \<Rightarrow> False)"
  using runtime_params_exact [of "\<lparr>paramSetSize = 8, params = [], ps_tail = []\<rparr>" "\<lambda>_. True"]
  by (simp add: flat_def space_def HksCheckParamSet_def paramsCnt_def split: sum.splits)

section \<open>The handle\<close>

text \<open>
  When the random source does not fail, \<open>GenerateKeyNodeHandle\<close> gives the first of at most
  ten random numbers that is no handle in use, and fails with \<open>HKS_FAILURE\<close> exactly when all ten
  are in use.
\<close>

theorem handle_generation_exact:
  assumes "\<forall>i < MAX_RETRY_CHECK_UNIQUE_HANDLE_TIME. random i = Inr (d i)"
  shows "GenerateKeyNodeHandle random st =
    (case List.find (\<lambda>i. (ucast (d i) :: u64) \<notin> kn_handle ` set (g_keyNodeList st))
        [0..<MAX_RETRY_CHECK_UNIQUE_HANDLE_TIME] of
       None \<Rightarrow> Inl HKS_FAILURE | Some i \<Rightarrow> Inr (ucast (d i)))"
  using handle_first [of 10 random 0 d HKS_FAILURE st] assms
  by (simp add: GenerateKeyNodeHandle_def)

theorem handle_generation_exact_witness:
  "GenerateKeyNodeHandle (\<lambda>i. Inr (if i = 0 then 7 else 8)) (demo_nodes [demo_node]) = Inr 8"
  using handle_generation_exact [of "\<lambda>i. Inr (if i = 0 then 7 else 8)" "\<lambda>i. if i = 0 then 7 else 8"
      "demo_nodes [demo_node]"]
  by (simp add: demo_nodes_def demo_node_def upt_conv_Cons)

section \<open>Deleting a node\<close>

text \<open>
  After \<open>HksDeleteKeyNode\<close> the handle is unknown, and every other handle is found exactly as
  before; the list loses exactly the node with the handle, the counter follows, and if there was
  such a node its decrypted key is overwritten before anything else of it is freed.
\<close>

theorem delete_node_exact:
  assumes "keynode_reach st"
  shows "HksQueryKeyNode h (HksDeleteKeyNode h st) = NULL
    \<and> (\<forall>k. k = h \<or> HksQueryKeyNode k (HksDeleteKeyNode h st) = HksQueryKeyNode k st)
    \<and> g_keyNodeList (HksDeleteKeyNode h st) = filter (\<lambda>n. kn_handle n \<noteq> h) (g_keyNodeList st)
    \<and> unat (g_keyNodeCount (HksDeleteKeyNode h st)) = length (g_keyNodeList (HksDeleteKeyNode h st))
    \<and> cleaned (HksDeleteKeyNode h st) = cleaned st @
        (case HksQueryKeyNode h st of NULL \<Rightarrow> []
         | Some n \<Rightarrow> FreeKeyBlobParamSet (kn_keyBlobParamSet n)
             @ FreeRuntimeParamSet (kn_runtimeParamSet n) @ FreeRuntimeParamSet (kn_authRuntimeParamSet n))"
proof -
  have inv: "keynode_inv st" using keynode_reach_inv [OF assms] .
  note l = HksDeleteKeyNode_list [OF inv]
  have "keynode_ok (HksDeleteKeyNode h st)"
    using keynode_inv_step [OF keynode_step.delete inv] by (simp add: keynode_inv_def)
  moreover have "cleaned (HksDeleteKeyNode h st) = cleaned st @
        (case HksQueryKeyNode h st of NULL \<Rightarrow> []
         | Some n \<Rightarrow> FreeKeyBlobParamSet (kn_keyBlobParamSet n)
             @ FreeRuntimeParamSet (kn_runtimeParamSet n) @ FreeRuntimeParamSet (kn_authRuntimeParamSet n))"
    by (simp add: HksDeleteKeyNode_def HksQueryKeyNode_def DeleteKeyNodeFree_def split: option.split)
  moreover have "HksQueryKeyNode h (HksDeleteKeyNode h st) = NULL"
    by (auto simp: HksQueryKeyNode_None l)
  moreover have "\<forall>k. k = h \<or> HksQueryKeyNode k (HksDeleteKeyNode h st) = HksQueryKeyNode k st"
    using find_handle_filter unfolding HksQueryKeyNode_def l by blast
  ultimately show ?thesis by (simp add: keynode_ok_iff l)
qed

theorem delete_node_exact_witness:
  "HksQueryKeyNode 7 (demo_nodes [demo_node]) = Some demo_node
    \<and> HksQueryKeyNode 7 (HksDeleteKeyNode 7 (demo_nodes [demo_node])) = NULL"
  using delete_node_exact [OF demo_reach_node, of 7]
  by (simp add: HksQueryKeyNode_def demo_nodes_def demo_node_def)

end
