(* ===== verification/Huks_Keynode_Threads.thy ===== *)
theory Huks_Keynode_Threads
  imports Huks_Keynode_Laws
begin

text \<open>
  Creating key nodes from several threads. Only \<open>AddKeyNode\<close> holds the mutex: the handle is chosen
  before it, and the parameters are put into the node after it, when the node is already visible. Each
  of the three parts is a step here. What remains true under every interleaving, and what does not.
\<close>

record thread_state =
  shared :: keynode_state
  prepared :: "(u64 \<times> HksParamSet \<times> HksParamSet) list"
  linked :: "(nat \<times> HksParamSet \<times> HksParamSet) list"

text \<open>
  \<open>prepared\<close> are the threads before \<open>AddKeyNode\<close> with their handle, runtime parameters and key;
  \<open>linked\<close> are the threads after it with the address of their node. An address that is linked is
  allocated unless the node was evicted meanwhile.
\<close>

inductive thread_step :: "thread_state \<Rightarrow> thread_state \<Rightarrow> bool" where
  prepare: "prepare_key_node alloc random parse decrypt key ps (shared s) = Inr x \<Longrightarrow>
    thread_step s (s\<lparr>prepared := x # prepared s\<rparr>)"
| link: "(h, rt, kb) \<in> set (prepared s) \<Longrightarrow> fresh \<notin> kn_addr ` set (g_keyNodeList (shared s)) \<Longrightarrow>
    AddKeyNode clk ((new_node fresh)\<lparr>kn_handle := h\<rparr>) (GetTokenIdFromParamSet (Some rt)) (shared s)
      = (r, st') \<Longrightarrow>
    thread_step s \<lparr>shared = st', prepared = remove1 (h, rt, kb) (prepared s),
      linked = (if r = HKS_SUCCESS then (fresh, rt, kb) # linked s else linked s)\<rparr>"
| fill: "(a, rt, kb) \<in> set (linked s) \<Longrightarrow>
    thread_step s (s\<lparr>shared := fill_node a kb rt (shared s), linked := remove1 (a, rt, kb) (linked s)\<rparr>)"
| delete: "thread_step s (s\<lparr>shared := HksDeleteKeyNode h (shared s)\<rparr>)"

definition thread_init :: thread_state where
  "thread_init = \<lparr>shared = keynode_init, prepared = [], linked = []\<rparr>"

definition thread_reach :: "thread_state \<Rightarrow> bool" where
  "thread_reach = thread_step\<^sup>*\<^sup>* thread_init"

section \<open>What every interleaving keeps\<close>

definition thread_inv :: "keynode_state \<Rightarrow> bool" where
  "thread_inv st \<longleftrightarrow> keynode_counted st \<and> distinct (map kn_addr (g_keyNodeList st))"

lemma thread_inv_link:
  assumes "thread_inv st" "kn_addr e \<notin> kn_addr ` set (g_keyNodeList st)"
    and "AddKeyNode clk e t st = (r, st')"
  shows "thread_inv st'"
proof -
  have counted: "keynode_counted st" using assms(1) by (simp add: thread_inv_def)
  obtain last where add: "AddKeyNode clk e t st =
      (0, last\<lparr>g_keyNodeList := g_keyNodeList last @ [e], g_keyNodeCount := g_keyNodeCount last + 1\<rparr>)"
    and s: "shrinks st last" "length (g_keyNodeList last) < 32"
      "unat (g_keyNodeCount last) = length (g_keyNodeList last)"
    using AddKeyNode_law [OF counted, of clk t] by metis
  have st': "st' = last\<lparr>g_keyNodeList := g_keyNodeList last @ [e], g_keyNodeCount := g_keyNodeCount last + 1\<rparr>"
    using assms(3) unfolding add by simp
  have sub: "subseq (g_keyNodeList last) (g_keyNodeList st)"
    using s(1) by (simp add: shrinks_def survives_def)
  then have "distinct (map kn_addr (g_keyNodeList last))" "kn_addr e \<notin> kn_addr ` set (g_keyNodeList last)"
    using assms(1,2) distinct_map_subseq set_subseq unfolding thread_inv_def by blast+
  then show ?thesis
    using s(2,3) unat_increment [of "g_keyNodeCount last"]
    by (simp add: st' thread_inv_def keynode_counted_def)
qed

lemma thread_inv_fill: "thread_inv st \<Longrightarrow> thread_inv (fill_node a kb rt st)"
proof -
  have "map kn_addr (g_keyNodeList (fill_node a kb rt st)) = map kn_addr (g_keyNodeList st)"
    by (simp add: fill_node_def comp_def if_distrib cong: if_cong)
  moreover have "length (g_keyNodeList (fill_node a kb rt st)) = length (g_keyNodeList st)"
    "g_keyNodeCount (fill_node a kb rt st) = g_keyNodeCount st"
    by (simp_all add: fill_node_def)
  ultimately show "thread_inv st \<Longrightarrow> thread_inv (fill_node a kb rt st)"
    by (simp only: thread_inv_def keynode_counted_def)
qed

lemma thread_inv_delete: "thread_inv st \<Longrightarrow> thread_inv (HksDeleteKeyNode h st)"
  using HksDeleteKeyNode_shrinks [of st h] shrinks_counted
  by (auto simp: thread_inv_def shrinks_def survives_def dest: distinct_map_subseq)

lemma thread_inv_step: "thread_step s s' \<Longrightarrow> thread_inv (shared s) \<Longrightarrow> thread_inv (shared s')"
proof (induction rule: thread_step.induct)
  case (prepare alloc random parse decrypt key ps s x)
  then show ?case by simp
next
  case (link h rt kb s fresh clk r st')
  then show ?case using thread_inv_link [OF link(4) _ link(3)] by simp
next
  case (fill a rt kb s)
  then show ?case using thread_inv_fill by simp
next
  case (delete s h)
  then show ?case using thread_inv_delete by simp
qed

lemma thread_reach_inv: "thread_reach s \<Longrightarrow> thread_inv (shared s)"
  unfolding thread_reach_def
proof (induction rule: rtranclp_induct)
  case base
  show ?case by (simp add: thread_init_def keynode_init_def thread_inv_def keynode_counted_def)
next
  case (step s s')
  then show ?case using thread_inv_step by blast
qed

section \<open>Two threads\<close>

definition two_parse :: aad_parser where
  "two_parse key = Inr (key, \<lparr>paramSetSize = 8, params = [], ps_tail = []\<rparr>)"

definition two_runtime :: HksParamSet where
  "two_runtime = \<lparr>paramSetSize = 32, params = [ctx_param 0], ps_tail = []\<rparr>"

definition two_blob :: HksParamSet where
  "two_blob = \<lparr>paramSetSize = 8, params = [], ps_tail = []\<rparr>"

lemma two_prepare:
  "prepare_key_node (\<lambda>_. True) (\<lambda>_. Inr 7) two_parse (\<lambda>_ ps. (0, ps)) key NULL keynode_init
     = Inr (7, two_runtime, two_blob)"
proof -
  have "GenerateKeyNodeHandle (\<lambda>_. Inr 7) keynode_init = Inr 7"
    using handle_loop.simps(2) [of "\<lambda>_. Inr 7" keynode_init 0 9 HKS_FAILURE]
    by (simp add: GenerateKeyNodeHandle_def HksCheckUniqueHandle_def keynode_init_def)
  moreover have "BuildRuntimeParamSet (\<lambda>_. True) NULL = Inr two_runtime"
    by (simp add: BuildRuntimeParamSet_def HksInitParamSet_def HksMalloc_def HksAddParams_def
        CheckBeforeAddParams_def paramsCnt_def is_bytes_tag_def GetTagType_def HksBuildParamSet_def
        BuildParamSet_def HksFreshParamSet_def FreshParamSet_def HksCheckParamSet_def Let_def
        two_runtime_def)
  ultimately show ?thesis
    by (simp add: prepare_key_node_def two_parse_def two_blob_def)
qed

definition two_node :: "nat \<Rightarrow> HuksKeyNode" where
  "two_node a = (new_node a)\<lparr>kn_handle := 7\<rparr>"

definition two_state :: "HuksKeyNode list \<Rightarrow> keynode_state" where
  "two_state ns = \<lparr>g_keyNodeList = ns, g_keyNodeCount = word_of_nat (length ns), cleaned = []\<rparr>"

lemma two_link:
  "length ns < 2 \<Longrightarrow> AddKeyNode (\<lambda>_. Inr 0) (two_node a) t (two_state ns) = (0, two_state (ns @ [two_node a]))"
  by (cases ns) (auto simp: AddKeyNode_def DeleteFirstTimeOutBatchKeyNode_def
      DeleteKeyNodeForTokenIdIfExceedLimit_def two_state_def Let_def word_le_nat_alt word_less_nat_alt)

definition both :: "(u64 \<times> HksParamSet \<times> HksParamSet)" where
  "both = (7, two_runtime, two_blob)"

lemma two_threads:
  "thread_reach \<lparr>shared = two_state [two_node 100, two_node 200], prepared = [],
     linked = [(200, two_runtime, two_blob), (100, two_runtime, two_blob)]\<rparr>"
proof -
  define s where "s ns ps ls = \<lparr>shared = two_state ns, prepared = ps, linked = ls\<rparr>" for ns ps ls
  have init: "thread_init = s [] [] []"
    by (simp add: thread_init_def s_def two_state_def keynode_init_def)
  have prep: "prepare_key_node (\<lambda>_. True) (\<lambda>_. Inr 7) two_parse (\<lambda>_ ps. (0, ps)) undefined NULL (two_state [])
      = Inr both"
    using two_prepare by (simp add: both_def two_state_def keynode_init_def)
  have "thread_step (s [] [] []) (s [] [both] [])"
    using thread_step.prepare [of _ _ _ _ _ _ "s [] [] []"] prep by (simp add: s_def)
  moreover have "thread_step (s [] [both] []) (s [] [both, both] [])"
    using thread_step.prepare [of _ _ _ _ _ _ "s [] [both] []"] prep by (simp add: s_def)
  moreover have "thread_step (s [] [both, both] []) (s [two_node 100] [both] [(100, two_runtime, two_blob)])"
    using thread_step.link [of 7 two_runtime two_blob "s [] [both, both] []" 100 "\<lambda>_. Inr 0"]
      two_link [of "[]" 100]
    by (simp add: s_def both_def two_state_def two_node_def)
  moreover have "thread_step (s [two_node 100] [both] [(100, two_runtime, two_blob)])
      (s [two_node 100, two_node 200] [] [(200, two_runtime, two_blob), (100, two_runtime, two_blob)])"
    using thread_step.link [of 7 two_runtime two_blob "s [two_node 100] [both] [(100, two_runtime, two_blob)]"
        200 "\<lambda>_. Inr 0"] two_link [of "[two_node 100]" 200]
    by (simp add: s_def both_def two_state_def two_node_def new_node_def)
  ultimately have "thread_step\<^sup>*\<^sup>* thread_init
      (s [two_node 100, two_node 200] [] [(200, two_runtime, two_blob), (100, two_runtime, two_blob)])"
    unfolding init by (meson rtranclp.rtrancl_refl rtranclp.rtrancl_into_rtrancl)
  then show ?thesis by (simp add: thread_reach_def s_def)
qed

section \<open>Properties\<close>

text \<open>
  C25: Whatever the interleaving of threads that create and delete key nodes, the counter is the
  number of nodes, there are at most 32, their addresses are distinct, and adding a node never
  fails.
\<close>

theorem threads_keep_count:
  assumes "thread_reach s"
  shows "unat (g_keyNodeCount (shared s)) = length (g_keyNodeList (shared s))
    \<and> length (g_keyNodeList (shared s)) \<le> MAX_KEY_NODES_COUNT
    \<and> distinct (map kn_addr (g_keyNodeList (shared s)))
    \<and> fst (AddKeyNode clk e t (shared s)) = HKS_SUCCESS"
  using thread_reach_inv [OF assms] AddKeyNode_0 [of "shared s" clk e t]
  by (simp add: thread_inv_def keynode_counted_def)

theorem threads_keep_count_witness:
  "unat (g_keyNodeCount (two_state [two_node 100, two_node 200])) = 2
    \<and> fst (AddKeyNode (\<lambda>_. Inr 0) (two_node 300) 0 (two_state [two_node 100, two_node 200])) = 0"
  using threads_keep_count [OF two_threads, of "\<lambda>_. Inr 0" "two_node 300" 0] by (simp add: two_state_def)

text \<open>
  C26: The uniqueness of handles does not survive two threads: both can check the same random
  number before either adds its node, and then two nodes have the same handle, so that
  \<open>HksQueryKeyNode\<close> gives both callers the node of the first; and until a thread fills its node in,
  other threads find it with no parameters, so that it counts for the token id 0.
\<close>

theorem handles_can_collide:
  "\<exists>s. thread_reach s \<and> \<not> distinct (map kn_handle (g_keyNodeList (shared s)))
    \<and> (\<exists>n \<in> set (g_keyNodeList (shared s)). HksQueryKeyNode (kn_handle n) (shared s) \<noteq> Some n)
    \<and> (\<exists>n \<in> set (g_keyNodeList (shared s)). kn_runtimeParamSet n = NULL
        \<and> GetTokenIdFromParamSet (kn_runtimeParamSet n) = INVALID_TOKEN_ID)"
proof (intro exI conjI)
  show "thread_reach \<lparr>shared = two_state [two_node 100, two_node 200], prepared = [],
     linked = [(200, two_runtime, two_blob), (100, two_runtime, two_blob)]\<rparr>"
    by (rule two_threads)
qed (auto simp: two_state_def two_node_def new_node_def HksQueryKeyNode_def GetTokenIdFromParamSet_def
    HksGetParam_def)

end
