(* ===== verification/Huks_Ipc_Pack.thy ===== *)
theory Huks_Ipc_Pack
  imports Huks_Use_Check
begin

text \<open>
  The primitives of the request format between client and service, from
  \<open>frameworks/huks_standard/main/os_dependency/ipc/src/hks_client_ipc_serialization.c\<close> and
  \<open>services/huks_standard/huks_service/main/os_dependency/idl/ipc/hks_service_ipc_serialization.c\<close>:
  numbers, blobs and parameter sets one after another, each aligned to four bytes. Both files have
  functions of the same names; those of the service end in \<open>_service\<close> here. The second half states
  the format as a function from fields to bytes and shows that the primitives write and read it.
\<close>

section \<open>Memory\<close>

abbreviation (input) DEFAULT_ALIGN_MASK_SIZE :: u32 where "DEFAULT_ALIGN_MASK_SIZE \<equiv> 3"
abbreviation (input) MAX_OUT_BLOB_SIZE :: u32 where "MAX_OUT_BLOB_SIZE \<equiv> 0x500000"

definition ALIGN_SIZE :: "u32 \<Rightarrow> u32" where
  "ALIGN_SIZE n = push_bit 2 (drop_bit 2 (n + 3))"

definition IsInvalidLength :: "u32 \<Rightarrow> bool" where
  "IsInvalidLength n \<longleftrightarrow> n = 0 \<or> n > MAX_OUT_BLOB_SIZE"

text \<open>Overwriting the bytes of a buffer from an offset on.\<close>

definition poke :: "HksBlob \<Rightarrow> u32 \<Rightarrow> bytes \<Rightarrow> HksBlob" where
  "poke dest off bs = dest\<lparr>blob_data := Some (take (unat off) (blob_bytes dest) @ bs
     @ drop (unat off + length bs) (blob_bytes dest))\<rparr>"

text \<open>
  \<open>memcpy_s(dest->data + off, destMax, src, count)\<close>: on a violated constraint the C11 function
  writes zeros to the \<open>destMax\<close> bytes.
\<close>

definition memcpy_to :: "HksBlob \<Rightarrow> u32 \<Rightarrow> u32 \<Rightarrow> bytes ptr \<Rightarrow> nat \<Rightarrow> bool \<times> HksBlob" where
  "memcpy_to dest off destMax src count =
     (case memcpy_s (unat destMax) src count of
        Some bs \<Rightarrow> (True, poke dest off bs)
      | None \<Rightarrow> (False, poke dest off (replicate (unat destMax) 0)))"

text \<open>
  The memory of a parameter set. The address \<open>addr i\<close> in the pointer of its \<open>i\<close>-th parameter is a
  parameter, as it is different in every process; padding is zero.
\<close>

definition param_bytes :: "u64 \<Rightarrow> HksParam \<Rightarrow> bytes" where
  "param_bytes a p = to_le 4 (p_tag p) @ replicate 4 0 @
     (case p_val p of
        VBool b \<Rightarrow> (if b then 1 else 0) # replicate 15 0
      | VInt x \<Rightarrow> to_le 4 x @ replicate 12 0
      | VUint x \<Rightarrow> to_le 4 x @ replicate 12 0
      | VUlong x \<Rightarrow> to_le 8 x @ replicate 8 0
      | VBlob b \<Rightarrow> to_le 4 (blob_size b) @ replicate 4 0 @ to_le 8 a)"

fun params_bytes :: "(nat \<Rightarrow> u64) \<Rightarrow> nat \<Rightarrow> HksParam list \<Rightarrow> bytes" where
  "params_bytes addr i [] = []"
| "params_bytes addr i (p # ps) = param_bytes (addr i) p @ params_bytes addr (Suc i) ps"

definition param_set_bytes :: "(nat \<Rightarrow> u64) \<Rightarrow> HksParamSet \<Rightarrow> bytes" where
  "param_set_bytes addr ps = to_le 4 (paramSetSize ps) @ to_le 4 (word_of_nat (paramsCnt ps) :: u32)
     @ params_bytes addr 0 (params ps) @ ps_tail ps"

text \<open>The addresses in the sets of one process.\<close>

type_synonym addressing = "HksParamSet \<Rightarrow> nat \<Rightarrow> u64"

section \<open>Writing, client\<close>

definition CopyUint32ToBuffer :: "u32 \<Rightarrow> HksBlob \<Rightarrow> u32 \<Rightarrow> (HksBlob \<times> u32) res" where
  "CopyUint32ToBuffer value destBlob destOffset =
     (if destOffset > blob_size destBlob \<or> blob_size destBlob - destOffset < 4
      then Inl HKS_ERROR_BUFFER_TOO_SMALL
      else Inr (snd (memcpy_to destBlob destOffset (blob_size destBlob - destOffset)
          (Some (to_le 4 value)) 4), destOffset + 4))"

definition CopyBlobToBuffer :: "HksBlob \<Rightarrow> HksBlob \<Rightarrow> u32 \<Rightarrow> (HksBlob \<times> u32) res" where
  "CopyBlobToBuffer blob destBlob destOffset =
     (if destOffset > blob_size destBlob
         \<or> unat (blob_size destBlob - destOffset) < 4 + unat (ALIGN_SIZE (blob_size blob))
      then Inl HKS_ERROR_BUFFER_TOO_SMALL
      else
        (let destBlob = snd (memcpy_to destBlob destOffset (blob_size destBlob - destOffset)
               (Some (to_le 4 (blob_size blob))) 4);
             destOffset = destOffset + 4;
             destBlob = snd (memcpy_to destBlob destOffset (blob_size destBlob - destOffset)
               (blob_data blob) (unat (blob_size blob))) in
         Inr (destBlob, destOffset + ALIGN_SIZE (blob_size blob))))"

definition CopyParamSetToBuffer ::
    "addressing \<Rightarrow> HksParamSet \<Rightarrow> HksBlob \<Rightarrow> u32 \<Rightarrow> (HksBlob \<times> u32) res" where
  "CopyParamSetToBuffer addr paramSet destBlob destOffset =
     (if destOffset > blob_size destBlob
         \<or> blob_size destBlob - destOffset < ALIGN_SIZE (paramSetSize paramSet)
      then Inl HKS_ERROR_BUFFER_TOO_SMALL
      else
        (case memcpy_to destBlob destOffset (blob_size destBlob - destOffset)
           (Some (param_set_bytes (addr paramSet) paramSet)) (unat (paramSetSize paramSet)) of
           (ok, destBlob) \<Rightarrow>
             if \<not> ok then Inl HKS_ERROR_INSUFFICIENT_MEMORY
             else Inr (destBlob, destOffset + ALIGN_SIZE (paramSetSize paramSet))))"

section \<open>Reading, client\<close>

text \<open>The \<open>n\<close> bytes and all after them that a pointer into the buffer sees.\<close>

abbreviation (input) at :: "HksBlob \<Rightarrow> u32 \<Rightarrow> bytes" where
  "at b off \<equiv> drop (unat off) (blob_bytes b)"

definition GetUint32FromBuffer :: "HksBlob \<Rightarrow> u32 \<Rightarrow> (u32 \<times> u32) res" where
  "GetUint32FromBuffer srcBlob srcOffset =
     (if srcOffset > blob_size srcBlob \<or> blob_size srcBlob - srcOffset < 4
      then Inl HKS_ERROR_BUFFER_TOO_SMALL
      else Inr (read_u32 (blob_bytes srcBlob) (unat srcOffset), srcOffset + 4))"

text \<open>The blob's data points into the buffer.\<close>

definition GetBlobFromBuffer :: "HksBlob \<Rightarrow> u32 \<Rightarrow> (HksBlob \<times> u32) res" where
  "GetBlobFromBuffer srcBlob srcOffset =
     (if srcOffset > blob_size srcBlob \<or> blob_size srcBlob - srcOffset < 4
      then Inl HKS_ERROR_BUFFER_TOO_SMALL
      else
        (let sz = read_u32 (blob_bytes srcBlob) (unat srcOffset) in
         if IsAdditionOverflow sz DEFAULT_ALIGN_MASK_SIZE then Inl HKS_ERROR_INVALID_ARGUMENT
         else if ALIGN_SIZE sz > blob_size srcBlob - srcOffset - 4 then Inl HKS_ERROR_BUFFER_TOO_SMALL
         else Inr (\<lparr>blob_size = sz, blob_data = Some (at srcBlob (srcOffset + 4))\<rparr>,
                   srcOffset + 4 + ALIGN_SIZE sz)))"

text \<open>The cast of the bytes at the offset to a parameter set, its blobs not yet refreshed.\<close>

definition GetParamSetFromBuffer :: "HksBlob \<Rightarrow> u32 \<Rightarrow> (HksParamSet \<times> u32) res" where
  "GetParamSetFromBuffer srcBlob srcOffset =
     (if srcOffset > blob_size srcBlob
         \<or> blob_size srcBlob - srcOffset < word_of_nat SIZEOF_PARAM_SET
      then Inl HKS_ERROR_BUFFER_TOO_SMALL
      else
        (let paramSet = param_set_at (at srcBlob srcOffset) in
         if IsAdditionOverflow (paramSetSize paramSet) DEFAULT_ALIGN_MASK_SIZE
         then Inl HKS_ERROR_INVALID_ARGUMENT
         else if ALIGN_SIZE (paramSetSize paramSet) > blob_size srcBlob - srcOffset
         then Inl HKS_ERROR_BUFFER_TOO_SMALL
         else Inr (paramSet, srcOffset + ALIGN_SIZE (paramSetSize paramSet))))"

section \<open>Writing and reading, service\<close>

definition CopyUint32ToBuffer_service :: "u32 \<Rightarrow> HksBlob \<Rightarrow> u32 \<Rightarrow> (HksBlob \<times> u32) res" where
  "CopyUint32ToBuffer_service value destBlob destOffset =
     (if destOffset > blob_size destBlob then Inl HKS_ERROR_BUFFER_TOO_SMALL
      else
        (case memcpy_to destBlob destOffset (blob_size destBlob - destOffset) (Some (to_le 4 value)) 4 of
           (ok, destBlob) \<Rightarrow>
             if \<not> ok then Inl HKS_ERROR_INSUFFICIENT_MEMORY else Inr (destBlob, destOffset + 4)))"

definition CopyBlobToBuffer_service :: "HksBlob \<Rightarrow> HksBlob \<Rightarrow> u32 \<Rightarrow> (HksBlob \<times> u32) res" where
  "CopyBlobToBuffer_service blob destBlob destOffset =
     if_not_succ_return (CheckBlob (Some blob)) (Inl HKS_ERROR_INVALID_ARGUMENT)
       (CopyBlobToBuffer blob destBlob destOffset)"

definition CopyParamSetToBuffer_service ::
    "addressing \<Rightarrow> HksParamSet ptr \<Rightarrow> HksBlob \<Rightarrow> u32 \<Rightarrow> (HksBlob \<times> u32) res" where
  "CopyParamSetToBuffer_service addr paramSet destBlob destOffset =
     (case paramSet of NULL \<Rightarrow> Inl HKS_ERROR_INVALID_ARGUMENT
      | Some ps \<Rightarrow> CopyParamSetToBuffer addr ps destBlob destOffset)"

text \<open>The two reading functions below have the same body in both files.\<close>

definition GetUint32FromBuffer_service :: "HksBlob \<Rightarrow> u32 \<Rightarrow> (u32 \<times> u32) res" where
  "GetUint32FromBuffer_service = GetUint32FromBuffer"

definition GetBlobFromBuffer_service :: "HksBlob \<Rightarrow> u32 \<Rightarrow> (HksBlob \<times> u32) res" where
  "GetBlobFromBuffer_service = GetBlobFromBuffer"

text \<open>The service refreshes the blobs of the set, and reports a failure of that as a lack of space.\<close>

definition GetParamSetFromBuffer_service :: "HksBlob \<Rightarrow> u32 \<Rightarrow> (HksParamSet \<times> u32) res" where
  "GetParamSetFromBuffer_service srcBlob srcOffset =
     (if srcOffset > blob_size srcBlob
         \<or> blob_size srcBlob - srcOffset < word_of_nat SIZEOF_PARAM_SET
      then Inl HKS_ERROR_INVALID_ARGUMENT
      else
        (let paramSet = param_set_at (at srcBlob srcOffset) in
         if IsAdditionOverflow (paramSetSize paramSet) DEFAULT_ALIGN_MASK_SIZE
         then Inl HKS_ERROR_INVALID_ARGUMENT
         else if ALIGN_SIZE (paramSetSize paramSet) > blob_size srcBlob - srcOffset
         then Inl HKS_ERROR_BUFFER_TOO_SMALL
         else
           (case HksFreshParamSet (Some paramSet) False of
              Inl _ \<Rightarrow> Inl HKS_ERROR_BUFFER_TOO_SMALL
            | Inr fresh \<Rightarrow> Inr (fresh, srcOffset + ALIGN_SIZE (paramSetSize fresh)))))"

text \<open>
  The limits on a request before the client packs it, from
  \<open>frameworks/huks_standard/main/os_dependency/ipc/src/hks_ipc_check.c\<close>. A sum of sizes that starts with
  or contains a \<open>sizeof\<close> is computed in \<open>size_t\<close>, which is a natural number here as it cannot
  wrap; a sum of \<open>uint32_t\<close> alone is a word.
\<close>

section \<open>Data\<close>

abbreviation (input) MAX_IPC_BUF_SIZE :: u32 where "MAX_IPC_BUF_SIZE \<equiv> 0x10000"
abbreviation (input) MAX_IPC_RSV_SIZE :: u32 where "MAX_IPC_RSV_SIZE \<equiv> 0x400"
abbreviation (input) MAX_PROCESS_SIZE :: u32 where "MAX_PROCESS_SIZE \<equiv> MAX_IPC_BUF_SIZE - MAX_IPC_RSV_SIZE"
abbreviation (input) MIN_CERT_COUNT :: u32 where "MIN_CERT_COUNT \<equiv> 3"
abbreviation (input) MAX_CERT_COUNT :: u32 where "MAX_CERT_COUNT \<equiv> 4"
abbreviation (input) HKS_GET_KEY_LIST_MAX_COUNT :: u32 where "HKS_GET_KEY_LIST_MAX_COUNT \<equiv> 2048"

record HksKeyInfo =
  ki_alias :: HksBlob
  ki_paramSet :: "HksParamSet ptr"

record HksCertChain =
  certs :: "HksBlob list ptr"
  certsCount :: u32

text \<open>What a blob and a set take in a request: the size field and the aligned data.\<close>

definition blob_space :: "HksBlob \<Rightarrow> nat" where
  "blob_space b = 4 + unat (ALIGN_SIZE (blob_size b))"

definition set_space :: "HksParamSet \<Rightarrow> nat" where
  "set_space ps = unat (ALIGN_SIZE (paramSetSize ps))"

definition too_big :: "HksBlob \<Rightarrow> bool" where
  "too_big b \<longleftrightarrow> blob_size b > MAX_PROCESS_SIZE"

section \<open>Requests of one key\<close>

definition HksCheckIpcGenerateKey :: "HksBlob ptr \<Rightarrow> HksParamSet ptr \<Rightarrow> rc" where
  "HksCheckIpcGenerateKey keyAlias paramSetIn =
     (let ret = HksCheckBlobAndParamSet keyAlias paramSetIn in
      if_not_succ_return ret ret
        (if too_big (the keyAlias)
            \<or> blob_space (the keyAlias) + set_space (the paramSetIn) + 4 > unat MAX_PROCESS_SIZE
         then HKS_ERROR_INVALID_ARGUMENT else HKS_SUCCESS))"

definition HksCheckIpcImportKey :: "HksBlob ptr \<Rightarrow> HksParamSet ptr \<Rightarrow> HksBlob ptr \<Rightarrow> rc" where
  "HksCheckIpcImportKey keyAlias paramSet key =
     (let ret = HksCheckBlob2AndParamSet keyAlias key paramSet in
      if_not_succ_return ret ret
        (if too_big (the keyAlias) \<or> too_big (the key) then HKS_ERROR_INVALID_ARGUMENT
         else if blob_space (the keyAlias) + set_space (the paramSet) + blob_space (the key)
             > unat MAX_PROCESS_SIZE
         then HKS_ERROR_INVALID_ARGUMENT else HKS_SUCCESS))"

definition HksCheckIpcImportWrappedKey ::
    "HksBlob ptr \<Rightarrow> HksBlob ptr \<Rightarrow> HksParamSet ptr \<Rightarrow> HksBlob ptr \<Rightarrow> rc" where
  "HksCheckIpcImportWrappedKey keyAlias wrappingKeyAlias paramSet wrappedKeyData =
     (let ret = HksCheckBlob3AndParamSet keyAlias wrappingKeyAlias wrappedKeyData paramSet in
      if_not_succ_return ret ret
        (if too_big (the keyAlias) \<or> too_big (the wrappingKeyAlias) \<or> too_big (the wrappedKeyData)
         then HKS_ERROR_INVALID_ARGUMENT
         else if blob_space (the keyAlias) + blob_space (the wrappingKeyAlias) + set_space (the paramSet)
             + blob_space (the wrappedKeyData) > unat MAX_PROCESS_SIZE
         then HKS_ERROR_INVALID_ARGUMENT else HKS_SUCCESS))"

definition HksCheckIpcDeleteKey :: "HksBlob ptr \<Rightarrow> HksParamSet ptr \<Rightarrow> rc" where
  "HksCheckIpcDeleteKey keyAlias paramSet =
     (let ret = HksCheckBlobAndParamSet keyAlias paramSet in
      if_not_succ_return ret ret
        (if too_big (the keyAlias) then HKS_ERROR_INVALID_ARGUMENT
         else if blob_space (the keyAlias) + set_space (the paramSet) > unat MAX_PROCESS_SIZE
         then HKS_ERROR_INVALID_ARGUMENT else HKS_SUCCESS))"

definition HksCheckIpcExportPublicKey :: "HksBlob ptr \<Rightarrow> HksParamSet ptr \<Rightarrow> HksBlob ptr \<Rightarrow> rc" where
  "HksCheckIpcExportPublicKey keyAlias paramSet key =
     (let ret = HksCheckBlob2AndParamSet keyAlias key paramSet in
      if_not_succ_return ret ret
        (if too_big (the keyAlias) then HKS_ERROR_INVALID_ARGUMENT
         else if blob_space (the keyAlias) + 4 + set_space (the paramSet) > unat MAX_PROCESS_SIZE
         then HKS_ERROR_INVALID_ARGUMENT else HKS_SUCCESS))"

definition HksCheckIpcGetKeyParamSet :: "HksBlob ptr \<Rightarrow> HksParamSet ptr \<Rightarrow> HksParamSet \<Rightarrow> rc" where
  "HksCheckIpcGetKeyParamSet keyAlias paramSetIn paramSetOut =
     (let ret = HksCheckBlobAndParamSet keyAlias paramSetIn in
      if_not_succ_return ret ret
        (if too_big (the keyAlias) then HKS_ERROR_INVALID_ARGUMENT
         else if paramSetSize paramSetOut = 0 then HKS_ERROR_INVALID_ARGUMENT
         else if blob_space (the keyAlias) + 4 + set_space (the paramSetIn) > unat MAX_PROCESS_SIZE
         then HKS_ERROR_INVALID_ARGUMENT else HKS_SUCCESS))"

definition HksCheckIpcKeyExist :: "HksBlob ptr \<Rightarrow> HksParamSet ptr \<Rightarrow> rc" where
  "HksCheckIpcKeyExist keyAlias paramSet =
     (let ret = HksCheckBlobAndParamSet keyAlias paramSet in
      if_not_succ_return ret ret
        (if too_big (the keyAlias) then HKS_ERROR_INVALID_ARGUMENT
         else if blob_space (the keyAlias) + set_space (the paramSet) > unat MAX_PROCESS_SIZE
         then HKS_ERROR_INVALID_ARGUMENT else HKS_SUCCESS))"

definition HksCheckIpcAgreeKey ::
    "HksParamSet ptr \<Rightarrow> HksBlob ptr \<Rightarrow> HksBlob ptr \<Rightarrow> HksBlob ptr \<Rightarrow> rc" where
  "HksCheckIpcAgreeKey paramSet privateKey peerPublicKey agreedKey =
     (let ret = HksCheckBlob3AndParamSet privateKey peerPublicKey agreedKey paramSet in
      if_not_succ_return ret ret
        (if too_big (the privateKey) \<or> too_big (the peerPublicKey) then HKS_ERROR_INVALID_ARGUMENT
         else if set_space (the paramSet) + blob_space (the privateKey) + blob_space (the peerPublicKey) + 4
             > unat MAX_PROCESS_SIZE
         then HKS_ERROR_INVALID_ARGUMENT else HKS_SUCCESS))"

definition HksCheckIpcDeriveKey :: "HksParamSet ptr \<Rightarrow> HksBlob ptr \<Rightarrow> HksBlob ptr \<Rightarrow> rc" where
  "HksCheckIpcDeriveKey paramSet mainKey derivedKey =
     (let ret = HksCheckBlob2AndParamSet mainKey derivedKey paramSet in
      if_not_succ_return ret ret
        (if too_big (the mainKey) then HKS_ERROR_INVALID_ARGUMENT
         else if set_space (the paramSet) + blob_space (the mainKey) + 4 > unat MAX_PROCESS_SIZE
         then HKS_ERROR_INVALID_ARGUMENT else HKS_SUCCESS))"

section \<open>Requests with lists\<close>

text \<open>The loop that adds up the sizes of the key infos and only looks for overflow.\<close>

fun key_info_size_loop :: "HksKeyInfo list \<Rightarrow> u32 \<Rightarrow> rc" where
  "key_info_size_loop [] keyInfoBufSize = HKS_SUCCESS"
| "key_info_size_loop (ki # kis) keyInfoBufSize =
     (let setSize = paramSetSize (the (ki_paramSet ki)); aliasSize = blob_size (ki_alias ki) in
      if IsAdditionOverflow keyInfoBufSize 4 then HKS_ERROR_INVALID_ARGUMENT
      else
        (let keyInfoBufSize = keyInfoBufSize + 4 in
         if IsAdditionOverflow aliasSize DEFAULT_ALIGN_MASK_SIZE
            \<or> IsAdditionOverflow setSize DEFAULT_ALIGN_MASK_SIZE then HKS_ERROR_INVALID_ARGUMENT
         else if IsAdditionOverflow keyInfoBufSize (ALIGN_SIZE aliasSize) then HKS_ERROR_INVALID_ARGUMENT
         else
           (let keyInfoBufSize = keyInfoBufSize + ALIGN_SIZE aliasSize in
            if IsAdditionOverflow keyInfoBufSize (ALIGN_SIZE setSize) then HKS_ERROR_INVALID_ARGUMENT
            else key_info_size_loop kis (keyInfoBufSize + ALIGN_SIZE setSize))))"

text \<open>
  \<open>keyInfoList\<close> is the array of \<open>listCount\<close> elements. The room that is left is computed in
  \<open>uint32_t\<close> and then in \<open>size_t\<close>, and wraps in both.
\<close>

definition HksCheckIpcGetKeyInfoList :: "HksKeyInfo list \<Rightarrow> HksParamSet \<Rightarrow> u32 \<Rightarrow> rc" where
  "HksCheckIpcGetKeyInfoList keyInfoList paramSet listCount =
     (let setSize = paramSetSize paramSet in
      if_not_succ_return (HksCheckParamSet (Some paramSet) setSize) HKS_ERROR_INVALID_ARGUMENT
        (if listCount = 0 \<or> listCount > HKS_GET_KEY_LIST_MAX_COUNT then HKS_ERROR_INVALID_ARGUMENT
         else if (ucast listCount :: u64) > (ucast (MAX_PROCESS_SIZE - ALIGN_SIZE setSize) - 4) div 8
         then HKS_ERROR_INVALID_ARGUMENT
         else if list_ex (\<lambda>ki. CheckBlob (Some (ki_alias ki)) \<noteq> HKS_SUCCESS
             \<or> ki_paramSet ki = NULL \<or> paramSetSize (the (ki_paramSet ki)) = 0)
             (take (unat listCount) keyInfoList)
         then HKS_ERROR_INVALID_ARGUMENT
         else key_info_size_loop (take (unat listCount) keyInfoList) 4))"

fun cert_size_loop :: "HksBlob list \<Rightarrow> u32 \<Rightarrow> rc" where
  "cert_size_loop [] certBufSize = HKS_SUCCESS"
| "cert_size_loop (c # cs) certBufSize =
     (if IsAdditionOverflow certBufSize 4 then HKS_ERROR_INVALID_ARGUMENT
      else
        (let certBufSize = certBufSize + 4 in
         if IsAdditionOverflow (blob_size c) DEFAULT_ALIGN_MASK_SIZE then HKS_ERROR_INVALID_ARGUMENT
         else if IsAdditionOverflow certBufSize (ALIGN_SIZE (blob_size c)) then HKS_ERROR_INVALID_ARGUMENT
         else cert_size_loop cs (certBufSize + ALIGN_SIZE (blob_size c))))"

definition HksCheckIpcCertificateChain :: "HksBlob \<Rightarrow> HksParamSet \<Rightarrow> HksCertChain \<Rightarrow> rc" where
  "HksCheckIpcCertificateChain keyAlias paramSet certChain =
     (case certs certChain of NULL \<Rightarrow> HKS_ERROR_INVALID_ARGUMENT
      | Some cs \<Rightarrow>
          if certsCount certChain < MIN_CERT_COUNT \<or> certsCount certChain > MAX_CERT_COUNT
          then HKS_ERROR_INVALID_ARGUMENT
          else
            (let setSize = paramSetSize paramSet in
             if_not_succ_return (HksCheckParamSet (Some paramSet) setSize) HKS_ERROR_INVALID_ARGUMENT
               (if too_big keyAlias
                   \<or> blob_space keyAlias + set_space paramSet > unat MAX_PROCESS_SIZE
                then HKS_ERROR_INVALID_ARGUMENT
                else cert_size_loop (take (unat (certsCount certChain)) cs) 4)))"

definition HksCheckIpcListAliases :: "HksParamSet \<Rightarrow> rc" where
  "HksCheckIpcListAliases paramSet =
     (let setSize = paramSetSize paramSet in
      if_not_succ_return (HksCheckParamSet (Some paramSet) setSize) HKS_ERROR_INVALID_ARGUMENT
        (if ALIGN_SIZE setSize > MAX_PROCESS_SIZE then HKS_ERROR_INVALID_ARGUMENT else HKS_SUCCESS))"

text \<open>
  The client packs a request: the functions of
  \<open>frameworks/huks_standard/main/os_dependency/ipc/src/hks_client_ipc_serialization.c\<close> that write, and
  \<open>hks_ipc_slice.c\<close> beside it, which sends the operations on data in one call. Every function takes the
  buffer \<open>destData\<close> and gives it with the request in it; when a copy fails, the callers free the
  buffer, so that only the code is kept. \<open>addr\<close> gives the addresses in the sets of the client.
\<close>

section \<open>Requests\<close>

definition HksGenerateKeyPack ::
    "addressing \<Rightarrow> HksBlob \<Rightarrow> HksBlob \<Rightarrow> HksParamSet \<Rightarrow> HksBlob \<Rightarrow> HksBlob res" where
  "HksGenerateKeyPack addr destData keyAlias paramSetIn keyOut =
     try_res (CopyBlobToBuffer keyAlias destData 0) (\<lambda>(destData, offset).
     try_res (CopyParamSetToBuffer addr paramSetIn destData offset) (\<lambda>(destData, offset).
     try_res (CopyUint32ToBuffer (blob_size keyOut) destData offset) (\<lambda>(destData, offset). Inr destData)))"

definition HksImportKeyPack ::
    "addressing \<Rightarrow> HksBlob \<Rightarrow> HksBlob \<Rightarrow> HksParamSet \<Rightarrow> HksBlob \<Rightarrow> HksBlob res" where
  "HksImportKeyPack addr destData keyAlias paramSet key =
     try_res (CopyBlobToBuffer keyAlias destData 0) (\<lambda>(destData, offset).
     try_res (CopyParamSetToBuffer addr paramSet destData offset) (\<lambda>(destData, offset).
     try_res (CopyBlobToBuffer key destData offset) (\<lambda>(destData, offset). Inr destData)))"

definition HksImportWrappedKeyPack ::
    "addressing \<Rightarrow> HksBlob \<Rightarrow> HksBlob \<Rightarrow> HksBlob \<Rightarrow> HksParamSet \<Rightarrow> HksBlob \<Rightarrow> HksBlob res" where
  "HksImportWrappedKeyPack addr destData keyAlias wrappingKeyAlias paramSet wrappedKeyData =
     try_res (CopyBlobToBuffer keyAlias destData 0) (\<lambda>(destData, offset).
     try_res (CopyBlobToBuffer wrappingKeyAlias destData offset) (\<lambda>(destData, offset).
     try_res (CopyParamSetToBuffer addr paramSet destData offset) (\<lambda>(destData, offset).
     try_res (CopyBlobToBuffer wrappedKeyData destData offset) (\<lambda>(destData, offset). Inr destData))))"

definition HksDeleteKeyPack ::
    "addressing \<Rightarrow> HksBlob \<Rightarrow> HksParamSet \<Rightarrow> HksBlob \<Rightarrow> HksBlob res" where
  "HksDeleteKeyPack addr keyAlias paramSet destData =
     try_res (CopyBlobToBuffer keyAlias destData 0) (\<lambda>(destData, offset).
     try_res (CopyParamSetToBuffer addr paramSet destData offset) (\<lambda>(destData, offset). Inr destData))"

definition HksExportPublicKeyPack ::
    "addressing \<Rightarrow> HksBlob \<Rightarrow> HksParamSet \<Rightarrow> HksBlob \<Rightarrow> HksBlob \<Rightarrow> HksBlob res" where
  "HksExportPublicKeyPack addr keyAlias paramSet key destData =
     try_res (CopyBlobToBuffer keyAlias destData 0) (\<lambda>(destData, offset).
     try_res (CopyUint32ToBuffer (blob_size key) destData offset) (\<lambda>(destData, offset).
     try_res (CopyParamSetToBuffer addr paramSet destData offset) (\<lambda>(destData, offset). Inr destData)))"

definition HksGetKeyParamSetPack ::
    "addressing \<Rightarrow> HksBlob \<Rightarrow> HksParamSet \<Rightarrow> HksBlob \<Rightarrow> HksBlob \<Rightarrow> HksBlob res" where
  "HksGetKeyParamSetPack addr keyAlias paramSet keyOut destData =
     try_res (CopyBlobToBuffer keyAlias destData 0) (\<lambda>(destData, offset).
     try_res (CopyUint32ToBuffer (blob_size keyOut) destData offset) (\<lambda>(destData, offset).
     try_res (CopyParamSetToBuffer addr paramSet destData offset) (\<lambda>(destData, offset). Inr destData)))"

definition HksKeyExistPack ::
    "addressing \<Rightarrow> HksBlob \<Rightarrow> HksParamSet \<Rightarrow> HksBlob \<Rightarrow> HksBlob res" where
  "HksKeyExistPack addr keyAlias paramSet destData =
     try_res (CopyBlobToBuffer keyAlias destData 0) (\<lambda>(destData, offset).
     try_res (CopyParamSetToBuffer addr paramSet destData offset) (\<lambda>(destData, offset). Inr destData))"

definition HksOnceParamPack ::
    "addressing \<Rightarrow> HksBlob \<Rightarrow> HksBlob \<Rightarrow> HksParamSet \<Rightarrow> u32 \<Rightarrow> (HksBlob \<times> u32) res" where
  "HksOnceParamPack addr destData key paramSet offset =
     try_res (CopyBlobToBuffer key destData offset) (\<lambda>(destData, offset).
     CopyParamSetToBuffer addr paramSet destData offset)"

definition HksOnceDataPack ::
    "HksBlob \<Rightarrow> HksBlob \<Rightarrow> HksBlob ptr \<Rightarrow> HksBlob ptr \<Rightarrow> u32 \<Rightarrow> (HksBlob \<times> u32) res" where
  "HksOnceDataPack destData inputData rsvData outputData offset =
     try_res (CopyBlobToBuffer inputData destData offset) (\<lambda>(destData, offset).
     try_res (case rsvData of NULL \<Rightarrow> Inr (destData, offset)
              | Some rsv \<Rightarrow> CopyBlobToBuffer rsv destData offset) (\<lambda>(destData, offset).
     (case outputData of NULL \<Rightarrow> Inr (destData, offset)
      | Some out \<Rightarrow> CopyUint32ToBuffer (blob_size out) destData offset)))"

definition HksAgreeKeyPack ::
    "addressing \<Rightarrow> HksBlob \<Rightarrow> HksParamSet \<Rightarrow> HksBlob \<Rightarrow> HksBlob \<Rightarrow> HksBlob \<Rightarrow> HksBlob res" where
  "HksAgreeKeyPack addr destData paramSet privateKey peerPublicKey agreedKey =
     try_res (CopyParamSetToBuffer addr paramSet destData 0) (\<lambda>(destData, offset).
     try_res (CopyBlobToBuffer privateKey destData offset) (\<lambda>(destData, offset).
     try_res (CopyBlobToBuffer peerPublicKey destData offset) (\<lambda>(destData, offset).
     try_res (CopyUint32ToBuffer (blob_size agreedKey) destData offset) (\<lambda>(destData, offset). Inr destData))))"

definition HksDeriveKeyPack ::
    "addressing \<Rightarrow> HksBlob \<Rightarrow> HksParamSet \<Rightarrow> HksBlob \<Rightarrow> HksBlob \<Rightarrow> HksBlob res" where
  "HksDeriveKeyPack addr destData paramSet kdfKey derivedKey =
     try_res (CopyParamSetToBuffer addr paramSet destData 0) (\<lambda>(destData, offset).
     try_res (CopyBlobToBuffer kdfKey destData offset) (\<lambda>(destData, offset).
     try_res (CopyUint32ToBuffer (blob_size derivedKey) destData offset) (\<lambda>(destData, offset). Inr destData)))"

fun key_sizes_loop :: "HksKeyInfo list \<Rightarrow> HksBlob \<Rightarrow> u32 \<Rightarrow> (HksBlob \<times> u32) res" where
  "key_sizes_loop [] destData offset = Inr (destData, offset)"
| "key_sizes_loop (ki # kis) destData offset =
     try_res (CopyUint32ToBuffer (blob_size (ki_alias ki)) destData offset) (\<lambda>(destData, offset).
     try_res (CopyUint32ToBuffer (paramSetSize (the (ki_paramSet ki))) destData offset)
       (\<lambda>(destData, offset). key_sizes_loop kis destData offset))"

definition HksGetKeyInfoListPack ::
    "addressing \<Rightarrow> HksParamSet \<Rightarrow> HksKeyInfo list \<Rightarrow> HksBlob \<Rightarrow> u32 \<Rightarrow> HksBlob res" where
  "HksGetKeyInfoListPack addr paramSet keyInfoList destData listCount =
     try_res (CopyUint32ToBuffer listCount destData 0) (\<lambda>(destData, offset).
     try_res (key_sizes_loop (take (unat listCount) keyInfoList) destData offset) (\<lambda>(destData, offset).
     try_res (CopyParamSetToBuffer addr paramSet destData offset) (\<lambda>(destData, offset). Inr destData)))"

definition HksCertificateChainPack ::
    "addressing \<Rightarrow> HksBlob \<Rightarrow> HksBlob \<Rightarrow> HksParamSet \<Rightarrow> HksBlob \<Rightarrow> HksBlob res" where
  "HksCertificateChainPack addr destData keyAlias paramSet certChainBlob =
     try_res (CopyBlobToBuffer keyAlias destData 0) (\<lambda>(destData, offset).
     try_res (CopyParamSetToBuffer addr paramSet destData offset) (\<lambda>(destData, offset).
     try_res (CopyUint32ToBuffer (blob_size certChainBlob) destData offset)
       (\<lambda>(destData, offset). Inr destData)))"

definition HksListAliasesPack :: "addressing \<Rightarrow> HksParamSet \<Rightarrow> HksBlob \<Rightarrow> HksBlob res" where
  "HksListAliasesPack addr srcParamSet destData =
     try_res (CopyParamSetToBuffer addr srcParamSet destData 0) (\<lambda>(destData, offset). Inr destData)"

section \<open>Requests with data, in one call\<close>

abbreviation (input) HKS_MSG_SIGN :: u32 where "HKS_MSG_SIGN \<equiv> 8"
abbreviation (input) HKS_MSG_VERIFY :: u32 where "HKS_MSG_VERIFY \<equiv> 9"
abbreviation (input) HKS_MSG_ENCRYPT :: u32 where "HKS_MSG_ENCRYPT \<equiv> 10"
abbreviation (input) HKS_MSG_DECRYPT :: u32 where "HKS_MSG_DECRYPT \<equiv> 11"
abbreviation (input) HKS_MSG_MAC :: u32 where "HKS_MSG_MAC \<equiv> 14"

definition IsSliceCmd :: "u32 \<Rightarrow> bool" where
  "IsSliceCmd cmdId \<longleftrightarrow> cmdId = HKS_MSG_SIGN \<or> cmdId = HKS_MSG_VERIFY \<or> cmdId = HKS_MSG_ENCRYPT
     \<or> cmdId = HKS_MSG_DECRYPT \<or> cmdId = HKS_MSG_MAC"

definition GetBlobBufSize :: "HksBlob \<Rightarrow> u32 res" where
  "GetBlobBufSize blob =
     (if IsAdditionOverflow (blob_size blob) DEFAULT_ALIGN_MASK_SIZE then Inl HKS_ERROR_INVALID_ARGUMENT
      else if IsAdditionOverflow (ALIGN_SIZE (blob_size blob)) 4 then Inl HKS_ERROR_INVALID_ARGUMENT
      else Inr (ALIGN_SIZE (blob_size blob) + 4))"

definition GetParamSize :: "HksBlob \<Rightarrow> HksParamSet \<Rightarrow> u32 res" where
  "GetParamSize key paramSet =
     (if blob_size key > MAX_PROCESS_SIZE \<or> paramSetSize paramSet > MAX_PROCESS_SIZE
      then Inl HKS_ERROR_INVALID_ARGUMENT
      else Inr (ALIGN_SIZE (blob_size key) + 4 + ALIGN_SIZE (paramSetSize paramSet)))"

definition GetDataSize :: "u32 \<Rightarrow> HksBlob \<Rightarrow> HksBlob \<Rightarrow> u32 res" where
  "GetDataSize cmdId inData outData =
     try_or (GetBlobBufSize inData) (Inl HKS_ERROR_INVALID_ARGUMENT) (\<lambda>inBuffData.
     try_or (if cmdId = HKS_MSG_VERIFY then GetBlobBufSize outData else Inr 4)
       (Inl HKS_ERROR_INVALID_ARGUMENT) (\<lambda>bufOutDataSize.
     if IsAdditionOverflow inBuffData bufOutDataSize then Inl HKS_ERROR_INVALID_ARGUMENT
     else Inr (inBuffData + bufOutDataSize)))"

text \<open>
  \<open>HksSendRequest\<close> of the C++ part of the client is a parameter: from the command, the request, the
  buffer for the answer and the parameter set to the code, or the contents of the buffer afterwards (of no
  meaning when there is none).
\<close>

type_synonym sender = "u32 \<Rightarrow> HksBlob \<Rightarrow> HksBlob ptr \<Rightarrow> HksParamSet ptr \<Rightarrow> HksBlob res"

definition ipc_buffer :: "u32 \<Rightarrow> HksBlob" where
  "ipc_buffer n = \<lparr>blob_size = n, blob_data = Some (replicate (unat n) 0)\<rparr>"

definition ProcessDataOnce ::
    "addressing \<Rightarrow> allocator \<Rightarrow> sender \<Rightarrow> u32 \<Rightarrow> HksBlob \<Rightarrow> HksParamSet \<Rightarrow> HksBlob \<Rightarrow> HksBlob \<Rightarrow> HksBlob res"
    where
  "ProcessDataOnce addr alloc HksSendRequest cmdId key paramSet inData outData =
     try_or (GetParamSize key paramSet) (Inl HKS_ERROR_INVALID_ARGUMENT) (\<lambda>paramBufSize.
     try_or (GetDataSize cmdId inData outData) (Inl HKS_ERROR_INVALID_ARGUMENT) (\<lambda>dataBufSize.
     (let totalBufSize = paramBufSize + dataBufSize in
      if \<not> HksMalloc alloc (unat totalBufSize) then Inl HKS_ERROR_MALLOC_FAIL
      else
        try_res (HksOnceParamPack addr (ipc_buffer totalBufSize) key paramSet 0) (\<lambda>(ipcBlob, offset).
        try_res (if cmdId = HKS_MSG_VERIFY then HksOnceDataPack ipcBlob inData (Some outData) NULL offset
                 else HksOnceDataPack ipcBlob inData NULL (Some outData) offset) (\<lambda>(ipcBlob, offset).
        HksSendRequest cmdId ipcBlob (if cmdId = HKS_MSG_VERIFY then NULL else Some outData) (Some paramSet))))))"

definition HksSliceDataEntry ::
    "addressing \<Rightarrow> allocator \<Rightarrow> sender \<Rightarrow> u32 \<Rightarrow> HksBlob \<Rightarrow> HksParamSet \<Rightarrow> HksBlob \<Rightarrow> HksBlob \<Rightarrow> HksBlob res"
    where
  "HksSliceDataEntry addr alloc HksSendRequest cmdId key paramSet inData outData =
     (if \<not> IsSliceCmd cmdId then Inl HKS_ERROR_INVALID_ARGUMENT
      else
        try_or (GetParamSize key paramSet) (Inl HKS_ERROR_INVALID_ARGUMENT) (\<lambda>paramBufSize.
        try_or (GetDataSize cmdId inData outData) (Inl HKS_ERROR_INVALID_ARGUMENT) (\<lambda>dataBufSize.
        if IsAdditionOverflow paramBufSize dataBufSize then Inl HKS_ERROR_INVALID_ARGUMENT
        else if paramBufSize + dataBufSize \<le> MAX_PROCESS_SIZE
        then ProcessDataOnce addr alloc HksSendRequest cmdId key paramSet inData outData
        else Inl HKS_ERROR_INVALID_ARGUMENT)))"

end
