(* ===== verification/Huks_Ipc_Wire.thy ===== *)
theory Huks_Ipc_Wire
  imports Huks_Ipc_Pack
begin

text \<open>
  The request format as a function: the bytes of a list of fields. Writing a field behind the fields
  written so far gives the bytes of the longer list, and reading at the offset of a field gives it
  back, a parameter set in its canonical form.
\<close>

section \<open>Alignment and memory\<close>

definition align :: "nat \<Rightarrow> nat" where
  "align n = (n + 3) div 4 * 4"

lemma align_ge: "n \<le> align n"
  by (simp add: align_def)

lemma align_le: "align n \<le> n + 3"
  by (simp add: align_def)

lemma unat_ALIGN_SIZE:
  assumes "unat n + 3 < 2 ^ 32"
  shows "unat (ALIGN_SIZE n) = align (unat n)"
proof -
  have "unat (n + 3) = unat n + 3"
    using unat_u32_add_of_nat [of n 3] assms by simp
  then have "unat (drop_bit 2 (n + 3)) = (unat n + 3) div 4"
    by (simp add: drop_bit_eq_div unat_div)
  moreover have "(unat n + 3) div 4 * 4 < 2 ^ 32"
    using align_le [of "unat n"] assms by (simp add: align_def)
  ultimately show ?thesis
    by (simp add: ALIGN_SIZE_def push_bit_eq_mult unat_word_ariths align_def)
qed

text \<open>A buffer of \<open>n\<close> bytes, zero behind the bytes written so far.\<close>

definition filled :: "bytes \<Rightarrow> u32 \<Rightarrow> HksBlob" where
  "filled pre n = \<lparr>blob_size = n, blob_data = Some (pre @ replicate (unat n - length pre) 0)\<rparr>"

lemma filled_simps [simp]:
  "blob_size (filled pre n) = n" "blob_bytes (filled pre n) = pre @ replicate (unat n - length pre) 0"
  by (simp_all add: filled_def blob_bytes_def)

lemma poke_filled:
  assumes "unat off = length pre" "length pre + length bs \<le> unat n"
  shows "poke (filled pre n) off bs = filled (pre @ bs) n"
  using assms by (simp add: poke_def filled_def blob_bytes_def)

lemma memcpy_filled:
  assumes "unat off = length pre" "length pre + k \<le> unat n" "off \<le> n" "k \<le> length src"
  shows "memcpy_to (filled pre n) off (n - off) (Some src) k = (True, filled (pre @ take k src) n)"
proof -
  have "unat (n - off) = unat n - length pre"
    using assms by (simp add: unat_sub)
  then show ?thesis
    using assms poke_filled [of off pre "take k src" n] by (simp add: memcpy_to_def memcpy_s_def)
qed

section \<open>Fields\<close>

datatype field = FNum u32 | FBlob HksBlob | FSet HksParamSet

definition pad :: "nat \<Rightarrow> bytes" where
  "pad n = replicate (align n - n) 0"

lemma length_pad [simp]: "n + length (pad n) = align n"
  using align_ge [of n] by (simp add: pad_def)

fun field_bytes :: "addressing \<Rightarrow> field \<Rightarrow> bytes" where
  "field_bytes addr (FNum n) = to_le 4 n"
| "field_bytes addr (FBlob b) = to_le 4 (blob_size b) @ take (unat (blob_size b)) (blob_bytes b)
     @ pad (unat (blob_size b))"
| "field_bytes addr (FSet ps) = param_set_bytes (addr ps) ps @ pad (unat (paramSetSize ps))"

definition wire :: "addressing \<Rightarrow> field list \<Rightarrow> bytes" where
  "wire addr fs = concat (map (field_bytes addr) fs)"

fun wf_field :: "field \<Rightarrow> bool" where
  "wf_field (FNum n) \<longleftrightarrow> True"
| "wf_field (FBlob b) \<longleftrightarrow> (\<exists>d. blob_data b = Some d \<and> unat (blob_size b) \<le> length d)
     \<and> unat (blob_size b) + 3 < 2 ^ 32"
| "wf_field (FSet ps) \<longleftrightarrow> flat ps \<and> HksCheckParamSet (Some ps) (paramSetSize ps) = 0"

lemma wire_simps [simp]:
  "wire addr [] = []" "wire addr (f # fs) = field_bytes addr f @ wire addr fs"
  "wire addr (fs @ gs) = wire addr fs @ wire addr gs"
  by (simp_all add: wire_def)

lemma length_param_bytes [simp]: "length (param_bytes a p) = 24"
  by (cases "p_val p") (simp_all add: param_bytes_def)

lemma length_params_bytes [simp]: "length (params_bytes addr i qs) = 24 * length qs"
  by (induction qs arbitrary: i) auto

lemma length_payloads: "list_all wf_param qs \<Longrightarrow> length (concat (map payload qs)) = sum_list (map plen qs)"
  by (induction qs) (auto simp: length_payload)

lemma length_param_set_bytes:
  "flat ps \<Longrightarrow> length (param_set_bytes addr ps) = unat (paramSetSize ps)"
  by (simp add: param_set_bytes_def flat_def space_def paramsCnt_def length_payloads)

fun field_length :: "field \<Rightarrow> nat" where
  "field_length (FNum n) = 4"
| "field_length (FBlob b) = 4 + align (unat (blob_size b))"
| "field_length (FSet ps) = align (unat (paramSetSize ps))"

lemma length_field_bytes: "wf_field f \<Longrightarrow> length (field_bytes addr f) = field_length f"
  by (cases f) (auto simp: length_param_set_bytes blob_bytes_def min_absorb1)

lemma set_size_bound:
  "HksCheckParamSet (Some ps) (paramSetSize ps) = 0 \<Longrightarrow> unat (paramSetSize ps) \<le> 0x400000"
  by (simp add: HksCheckParamSet_0)


section \<open>Writing a field\<close>

text \<open>The function that writes a field, in the client; \<open>copy_service\<close> in the service.\<close>

fun copy :: "addressing \<Rightarrow> field \<Rightarrow> HksBlob \<Rightarrow> u32 \<Rightarrow> (HksBlob \<times> u32) res" where
  "copy addr (FNum n) = CopyUint32ToBuffer n"
| "copy addr (FBlob b) = CopyBlobToBuffer b"
| "copy addr (FSet ps) = CopyParamSetToBuffer addr ps"

fun copy_service :: "addressing \<Rightarrow> field \<Rightarrow> HksBlob \<Rightarrow> u32 \<Rightarrow> (HksBlob \<times> u32) res" where
  "copy_service addr (FNum n) = CopyUint32ToBuffer_service n"
| "copy_service addr (FBlob b) = CopyBlobToBuffer_service b"
| "copy_service addr (FSet ps) = CopyParamSetToBuffer_service addr (Some ps)"

lemma offset_le: "length pre + k \<le> unat n \<Longrightarrow> unat off = length pre \<Longrightarrow> off \<le> n \<and> unat (n - off) = unat n - length pre"
  by (simp add: word_le_nat_alt unat_sub)

lemma pad_filled:
  "length pre + length (pad k) \<le> unat n \<Longrightarrow> filled (pre @ pad k) n = filled pre n"
  by (simp add: filled_def pad_def replicate_add [symmetric])

lemma unat_offset_add:
  "unat (off :: u32) + k \<le> unat n \<Longrightarrow> unat d = k \<Longrightarrow> unat (off + d) = unat off + k"
  for n d :: u32
  using unat_u32_add_le [of off d n] by simp

lemma copy_num:
  assumes "length pre + 4 \<le> unat n" "unat off = length pre"
  shows "CopyUint32ToBuffer v (filled pre n) off = Inr (filled (pre @ to_le 4 v) n, off + 4)"
    and "CopyUint32ToBuffer_service v (filled pre n) off = Inr (filled (pre @ to_le 4 v) n, off + 4)"
  using offset_le [OF assms] assms memcpy_filled [of off pre 4 n "to_le 4 v"]
  by (simp_all add: CopyUint32ToBuffer_def CopyUint32ToBuffer_service_def not_less word_less_nat_alt)

lemma copy_blob:
  assumes len: "length pre + field_length (FBlob b) \<le> unat n" and off: "unat off = length pre"
    and wf: "wf_field (FBlob b)"
  shows "CopyBlobToBuffer b (filled pre n) off
    = Inr (filled (pre @ field_bytes addr (FBlob b)) n, off + 4 + ALIGN_SIZE (blob_size b))"
proof -
  define k where "k = unat (blob_size b)"
  obtain d where d: "blob_data b = Some d" "k \<le> length d" "k + 3 < 2 ^ 32"
    using wf by (auto simp: k_def)
  have al: "unat (ALIGN_SIZE (blob_size b)) = align k"
    using unat_ALIGN_SIZE d(3) by (simp add: k_def)
  have room: "length pre + 4 + align k \<le> unat n" using len by (simp add: k_def)
  define pre1 where "pre1 = pre @ to_le 4 (blob_size b)"
  have off1: "unat (off + 4) = length pre1"
    using unat_offset_add [of off 4 n 4] room off by (simp add: pre1_def)
  have le: "off \<le> n \<and> unat (n - off) = unat n - length pre"
    using offset_le [of pre "4 + align k" n off] room off by simp
  have le1: "off + 4 \<le> n"
    using offset_le [of pre1 "align k" n "off + 4"] room off1 by (simp add: pre1_def)
  have m1: "snd (memcpy_to (filled pre n) off (n - off) (Some (to_le 4 (blob_size b))) 4) = filled pre1 n"
    using memcpy_filled [of off pre 4 n "to_le 4 (blob_size b)"] room off le by (simp add: pre1_def)
  have m2: "snd (memcpy_to (filled pre1 n) (off + 4) (n - (off + 4)) (Some d) k) = filled (pre1 @ take k d) n"
    using memcpy_filled [of "off + 4" pre1 k n d] room off1 le1 d(2) align_ge [of k] by (simp add: pre1_def)
  have "filled ((pre1 @ take k d) @ pad k) n = filled (pre1 @ take k d) n"
    using room d(2) length_pad [of k] by (intro pad_filled) (simp add: pre1_def min_absorb1 del: length_pad)
  then have e: "filled (pre @ field_bytes addr (FBlob b)) n = filled (pre1 @ take k d) n"
    using d(1) by (simp add: pre1_def k_def blob_bytes_def)
  show ?thesis
    unfolding e using le room m1 m2 al d(1)
    by (simp add: CopyBlobToBuffer_def Let_def k_def [symmetric] not_less del: u32_bound)
qed

lemma copy_set:
  assumes len: "length pre + field_length (FSet ps) \<le> unat n" and off: "unat off = length pre"
    and wf: "wf_field (FSet ps)"
  shows "CopyParamSetToBuffer addr ps (filled pre n) off
    = Inr (filled (pre @ field_bytes addr (FSet ps)) n, off + ALIGN_SIZE (paramSetSize ps))"
proof -
  define k where "k = unat (paramSetSize ps)"
  have flat: "flat ps" and k: "k + 3 < 2 ^ 32"
    using wf set_size_bound by (fastforce simp: k_def)+
  have al: "unat (ALIGN_SIZE (paramSetSize ps)) = align k"
    using unat_ALIGN_SIZE k by (simp add: k_def)
  have room: "length pre + align k \<le> unat n" using len by (simp add: k_def)
  have le: "off \<le> n \<and> unat (n - off) = unat n - length pre"
    using offset_le [of pre "align k" n off] room off by simp
  have src: "length (param_set_bytes (addr ps) ps) = k"
    using length_param_set_bytes [OF flat] by (simp add: k_def)
  have m: "memcpy_to (filled pre n) off (n - off) (Some (param_set_bytes (addr ps) ps)) k
      = (True, filled (pre @ param_set_bytes (addr ps) ps) n)"
    using memcpy_filled [of off pre k n "param_set_bytes (addr ps) ps"] room off le src align_ge [of k] by simp
  have "filled ((pre @ param_set_bytes (addr ps) ps) @ pad k) n = filled (pre @ param_set_bytes (addr ps) ps) n"
    using room src length_pad [of k] by (intro pad_filled) (simp del: length_pad)
  then have e: "filled (pre @ field_bytes addr (FSet ps)) n = filled (pre @ param_set_bytes (addr ps) ps) n"
    by (simp add: k_def)
  show ?thesis
    unfolding e using le room m al off
    by (simp add: CopyParamSetToBuffer_def k_def [symmetric] not_less word_less_nat_alt word_le_nat_alt)
qed

text \<open>One field is appended, and the offset stays the number of bytes written.\<close>

lemma copy_field:
  assumes "length pre + field_length f \<le> unat n" "unat off = length pre" "wf_field f"
  shows "\<exists>off'. copy addr f (filled pre n) off = Inr (filled (pre @ field_bytes addr f) n, off')
    \<and> unat off' = length (pre @ field_bytes addr f)"
proof (cases f)
  case (FNum v)
  with assms copy_num [of pre n off v] unat_offset_add [of off 4 n 4] show ?thesis by simp
next
  case (FBlob b)
  define k where "k = unat (blob_size b)"
  have al: "unat (ALIGN_SIZE (blob_size b)) = align k"
    using unat_ALIGN_SIZE assms(3) FBlob by (simp add: k_def)
  have room: "length pre + 4 + align k \<le> unat n" using assms(1) FBlob by (simp add: k_def)
  have "unat (off + 4) = length pre + 4"
    using unat_offset_add [of off 4 n 4] room assms(2) by simp
  then have "unat (off + 4 + ALIGN_SIZE (blob_size b)) = length pre + 4 + align k"
    using unat_offset_add [of "off + 4" "align k" n] room al by simp
  with copy_blob [of pre b n off addr] assms FBlob length_field_bytes [of f addr] show ?thesis
    by (simp add: k_def)
next
  case (FSet ps)
  define k where "k = unat (paramSetSize ps)"
  have al: "unat (ALIGN_SIZE (paramSetSize ps)) = align k"
    using unat_ALIGN_SIZE set_size_bound assms(3) FSet by (fastforce simp: k_def)
  have "unat (off + ALIGN_SIZE (paramSetSize ps)) = length pre + align k"
    using unat_offset_add [of off "align k" n] assms(1,2) al FSet by (simp add: k_def)
  with copy_set [of pre ps n off addr] assms FSet length_field_bytes [of f addr] show ?thesis
    by (simp add: k_def)
qed


section \<open>Parameter sets as memory\<close>

text \<open>
  A parameter as the receiver sees it: a blob with exactly its bytes, and any other value as the eight
  bytes of the union it occupies, of which the readers take the part they need.
\<close>

definition canon_param :: "HksParam \<Rightarrow> HksParam" where
  "canon_param p = (if is_bytes_tag (p_tag p) then norm_param p
     else p\<lparr>p_val := VUlong (uint64Param (p_val p))\<rparr>)"

lemma p_tag_canon_param [simp]: "p_tag (canon_param p) = p_tag p"
  by (simp add: canon_param_def)

lemma u32_u64_u32 [simp]: "ucast (ucast x :: u64) = (x :: u32)"
  by (rule bit_word_eqI) (simp add: bit_simps)

lemma canon_readers:
  "\<not> is_bytes_tag (p_tag p) \<Longrightarrow> uint32Param (p_val (canon_param p)) = uint32Param (p_val p)"
  "\<not> is_bytes_tag (p_tag p) \<Longrightarrow> uint64Param (p_val (canon_param p)) = uint64Param (p_val p)"
  "\<not> is_bytes_tag (p_tag p) \<Longrightarrow> boolParam (p_val (canon_param p)) = boolParam (p_val p)"
proof -
  assume n: "\<not> is_bytes_tag (p_tag p)"
  show "uint32Param (p_val (canon_param p)) = uint32Param (p_val p)"
    using n by (cases "p_val p") (simp_all add: canon_param_def)
  then show "boolParam (p_val (canon_param p)) = boolParam (p_val p)"
    using n by (cases "p_val p") (simp_all add: canon_param_def)
  show "uint64Param (p_val (canon_param p)) = uint64Param (p_val p)"
    using n by (simp add: canon_param_def)
qed

lemma of_le_zeros: "of_le (bs @ replicate n 0) = of_le bs"
proof (induction bs)
  case Nil
  then show ?case by (induction n) auto
next
  case (Cons b bs)
  then show ?case by simp
qed

lemma of_le_to_le_32: "(of_le (to_le 4 (x :: u32)) :: u64) = ucast x"
proof (rule bit_word_eqI)
  fix n assume "n < LENGTH(64)"
  consider "n < 8" | "8 \<le> n" "n < 16" | "16 \<le> n" "n < 24" | "24 \<le> n" "n < 32" | "32 \<le> n"
    by linarith
  then show "bit (of_le (to_le 4 x) :: u64) n = bit (ucast x :: u64) n"
    using \<open>n < LENGTH(64)\<close>
    by cases (auto simp: to_le_4 ucast_push_8 bit_simps dest: bit_imp_le_length)
qed

lemma of_le_u32: "(of_le (to_le 4 (x :: u32) @ replicate 4 0) :: u64) = ucast x"
  unfolding of_le_zeros by (rule of_le_to_le_32)

lemma of_le_replicate_0 [simp]: "of_le (replicate n 0) = 0"
  using of_le_zeros [of "[]" n] by simp

definition raw_param :: "u64 \<Rightarrow> HksParam \<Rightarrow> HksParam" where
  "raw_param addr p = param_at (param_bytes addr p) 0"

lemma raw_param_cases:
  "p_tag (raw_param addr p) = p_tag p"
  "is_bytes_tag (p_tag p) \<Longrightarrow> p_val p = VBlob b \<Longrightarrow> blob_size (blobParam (p_val (raw_param addr p))) = blob_size b"
  "\<not> is_bytes_tag (p_tag p) \<Longrightarrow> raw_param addr p = canon_param p"
proof -
  define u where "u = (case p_val p of
        VBool b \<Rightarrow> (if b then 1 else 0) # replicate 15 0
      | VInt x \<Rightarrow> to_le 4 x @ replicate 12 0
      | VUint x \<Rightarrow> to_le 4 x @ replicate 12 0
      | VUlong x \<Rightarrow> to_le 8 x @ replicate 8 0
      | VBlob b \<Rightarrow> to_le 4 (blob_size b) @ replicate 4 0 @ to_le 8 addr)"
  have pb: "param_bytes addr p = (to_le 4 (p_tag p) @ replicate 4 0) @ u"
    by (simp add: param_bytes_def u_def)
  have tag: "read_u32 (param_bytes addr p) 0 = p_tag p"
    by (simp add: pb)
  have drop8: "drop 8 (param_bytes addr p) = u" by (simp add: pb)
  show t: "p_tag (raw_param addr p) = p_tag p"
    by (simp add: raw_param_def param_at_def tag Let_def)
  show "blob_size (blobParam (p_val (raw_param addr p))) = blob_size b"
    if "is_bytes_tag (p_tag p)" "p_val p = VBlob b"
  proof -
    have "read_u32 (param_bytes addr p) 8 = read_u32 u 0"
      using read_u32_skip [of "to_le 4 (p_tag p) @ replicate 4 0" 8 u 0] by (simp add: pb)
    with that show ?thesis by (simp add: raw_param_def param_at_def tag u_def Let_def)
  qed
  assume n: "\<not> is_bytes_tag (p_tag p)"
  have "(of_le (take 8 u) :: u64) = uint64Param (p_val p)"
    by (cases "p_val p") (simp_all add: u_def of_le_u32 of_le_to_le)
  then show "raw_param addr p = canon_param p"
    using n by (simp add: raw_param_def param_at_def tag drop8 canon_param_def Let_def)
qed


lemma read_u32_append: "off + 4 \<le> length bs \<Longrightarrow> read_u32 (bs @ rest) off = read_u32 bs off"
  by (simp add: read_u32_def)

lemma param_at_shift:
  assumes "length pre = off" "length bs = 24"
  shows "param_at (pre @ bs @ rest) off = param_at bs 0"
proof -
  have r: "read_u32 (pre @ bs @ rest) (off + k) = read_u32 bs k" if "k + 4 \<le> 24" for k
    using read_u32_skip [OF assms(1), of "bs @ rest" k] read_u32_append [of k bs rest] assms(2) that by simp
  have d: "take 8 (drop (off + k) (pre @ bs @ rest)) = take 8 (drop k bs)" if "k + 8 \<le> 24" for k
    using assms that by simp
  have "read_u32 (pre @ bs @ rest) off = read_u32 bs 0"
    using r [of 0] by simp
  then show ?thesis
    using r [of 8] d [of 8] d [of 16]
    by (simp add: param_at_def Let_def del: drop_append take_append)
qed

fun raw_params :: "(nat \<Rightarrow> u64) \<Rightarrow> nat \<Rightarrow> HksParam list \<Rightarrow> HksParam list" where
  "raw_params addr i [] = []"
| "raw_params addr i (q # qs) = raw_param (addr i) q # raw_params addr (Suc i) qs"

lemma length_raw_params [simp]: "length (raw_params addr i qs) = length qs"
  by (induction qs arbitrary: i) auto

lemma params_at:
  "length pre = off \<Longrightarrow>
   map (\<lambda>i. param_at (pre @ params_bytes addr k qs @ rest) (off + 24 * i)) [0..<length qs]
     = raw_params addr k qs"
proof (induction qs arbitrary: pre off k)
  case Nil
  then show ?case by simp
next
  case (Cons q qs)
  let ?mem = "pre @ params_bytes addr k (q # qs) @ rest"
  have "param_at ?mem off = raw_param (addr k) q"
    using param_at_shift [OF Cons.prems, of "param_bytes (addr k) q"] by (simp add: raw_param_def)
  moreover have "map (\<lambda>i. param_at ?mem (off + 24 + 24 * i)) [0..<length qs] = raw_params addr (Suc k) qs"
    using Cons.IH [of "pre @ param_bytes (addr k) q" "off + 24" "Suc k"] Cons.prems by simp
  then have "map (\<lambda>i. param_at ?mem (off + 24 * i)) [Suc 0..<Suc (length qs)] = raw_params addr (Suc k) qs"
    by (simp add: map_Suc_upt [symmetric] comp_def algebra_simps del: upt_Suc)
  ultimately show ?case
    by (simp add: upt_conv_Cons del: upt_Suc)
qed

lemma param_set_at_bytes:
  assumes "HksCheckParamSet (Some ps) (paramSetSize ps) = 0"
  shows "param_set_at (param_set_bytes addr ps @ rest) =
    \<lparr>paramSetSize = paramSetSize ps, params = raw_params addr 0 (params ps), ps_tail = ps_tail ps @ rest\<rparr>"
proof -
  define cnt where "cnt = (word_of_nat (paramsCnt ps) :: u32)"
  have cnt: "unat cnt = length (params ps)"
    using assms unat_u32_of_nat [of "paramsCnt ps"] unfolding cnt_def HksCheckParamSet_0
    by (simp add: paramsCnt_def)
  define body where "body = params_bytes addr 0 (params ps) @ ps_tail ps @ rest"
  have mem: "param_set_bytes addr ps @ rest = (to_le 4 (paramSetSize ps) @ to_le 4 cnt) @ body"
    by (simp add: param_set_bytes_def cnt_def body_def)
  have "read_u32 (to_le 4 (paramSetSize ps) @ to_le 4 cnt @ body) 4 = cnt"
    using read_u32_skip [of "to_le 4 (paramSetSize ps)" 4 "to_le 4 cnt @ body" 0] by simp
  moreover have "read_u32 (to_le 4 (paramSetSize ps) @ to_le 4 cnt @ body) 0 = paramSetSize ps"
    by simp
  moreover have "map (\<lambda>i. param_at ((to_le 4 (paramSetSize ps) @ to_le 4 cnt) @ body) (8 + 24 * i))
      [0..<length (params ps)] = raw_params addr 0 (params ps)"
    using params_at [of "to_le 4 (paramSetSize ps) @ to_le 4 cnt" 8 addr 0 "params ps" "ps_tail ps @ rest"]
    by (simp add: body_def)
  moreover have "drop (8 + 24 * length (params ps)) ((to_le 4 (paramSetSize ps) @ to_le 4 cnt) @ body)
      = ps_tail ps @ rest"
    by (simp add: body_def)
  ultimately show ?thesis
    unfolding mem by (simp add: param_set_at_def cnt)
qed

text \<open>Refreshing the raw parameters finds every blob's bytes behind them.\<close>

lemma fresh_loop_raw:
  assumes "list_all wf_param qs" "map norm_param qs = qs"
    and "unat off = base + length pre" "unat off + sum_list (map plen qs) \<le> unat sz"
  shows "\<exists>off'. fresh_loop False sz base (pre @ concat (map payload qs) @ post) off (raw_params addr k qs)
      = Inr (map canon_param qs, concat (map payload qs), off') \<and> unat off' = unat off + sum_list (map plen qs)"
  using assms
proof (induction qs arbitrary: off pre k)
  case Nil
  then show ?case by simp
next
  case (Cons q qs)
  have le: "off \<le> sz"
    using Cons.prems(4) by (simp add: word_le_nat_alt)
  show ?case
  proof (cases "is_bytes_tag (p_tag q)")
    case False
    then have z: "plen q = 0" "payload q = []"
      by (simp_all add: plen_def payload_def)
    with Cons.IH [of off pre "Suc k"] Cons.prems le False show ?thesis
      by (auto simp: not_less raw_param_cases(3))
  next
    case True
    have q: "q = norm_param q" using Cons.prems(2) by simp
    then obtain b where b: "p_val q = VBlob b" "blob_data b = Some (payload q)"
      using True by (metis HksBlob.select_convs(2) HksParam.select_convs(2) HksParam.surjective
          HksParam.update_convs(2) norm_param_def)
    have n: "plen q = unat (blob_size b)"
      using True b by (simp add: plen_def)
    have len: "length (payload q) = plen q"
      using Cons.prems(1) by (simp add: length_payload)
    have nowrap: "\<not> IsAdditionOverflow off (blob_size b)"
      using Cons.prems(4) u32_bound [of sz] n by (simp add: IsAdditionOverflow_iff del: u32_bound)
    have raw: "p_tag (raw_param (addr k) q) = p_tag q" "blob_size (blobParam (p_val (raw_param (addr k) q))) = blob_size b"
      using raw_param_cases True b by auto
    have res: "(raw_param (addr k) q)\<lparr>p_val := VBlob \<lparr>blob_size = blob_size b, blob_data = Some (payload q)\<rparr>\<rparr>
        = canon_param q"
      using True raw(1) b by (simp add: canon_param_def norm_param_def)
    have slice: "take (unat (blob_size b))
        (drop (unat off - base) (pre @ payload q @ concat (map payload qs) @ post)) = payload q"
      using Cons.prems(3) len n by simp
    from Cons.IH [of "off + blob_size b" "pre @ payload q" "Suc k"] obtain off' where
      "fresh_loop False sz base (pre @ payload q @ concat (map payload qs) @ post) (off + blob_size b)
         (raw_params addr (Suc k) qs) = Inr (map canon_param qs, concat (map payload qs), off')"
      "unat off' = unat off + unat (blob_size b) + sum_list (map plen qs)"
      using Cons.prems len n unat_add_no_overflow [OF nowrap] by auto
    with True le nowrap slice res raw n show ?thesis
      by (auto simp: Let_def not_less)
  qed
qed

text \<open>The set a receiver gets, which still sees the bytes behind it.\<close>

definition received :: "HksParamSet \<Rightarrow> bytes \<Rightarrow> HksParamSet" where
  "received ps rest =
     \<lparr>paramSetSize = paramSetSize ps, params = map canon_param (params ps), ps_tail = ps_tail ps @ rest\<rparr>"

lemma refresh_received:
  assumes "flat ps" "HksCheckParamSet (Some ps) (paramSetSize ps) = 0"
  shows "HksFreshParamSet (Some (param_set_at (param_set_bytes addr ps @ rest))) False
    = Inr (received ps rest)"
proof -
  define rs where "rs = raw_params addr 0 (params ps)"
  define base where "base = 8 + 24 * paramsCnt ps"
  have at: "param_set_at (param_set_bytes addr ps @ rest)
      = \<lparr>paramSetSize = paramSetSize ps, params = rs, ps_tail = ps_tail ps @ rest\<rparr>"
    using param_set_at_bytes [OF assms(2)] by (simp add: rs_def)
  have off: "unat (word_of_nat base :: u32) = base"
    using unat_header [OF assms(2)] by (simp add: base_def)
  have wf: "list_all wf_param (params ps)" and nm: "map norm_param (params ps) = params ps"
    and tl: "ps_tail ps = concat (map payload (params ps))"
    and sz: "unat (paramSetSize ps) = base + sum_list (map plen (params ps))"
    using assms(1) by (simp_all add: flat_def space_def base_def paramsCnt_def)
  obtain off' where lp: "fresh_loop False (paramSetSize ps) base (ps_tail ps @ rest) (word_of_nat base) rs
      = Inr (map canon_param (params ps), concat (map payload (params ps)), off')"
    and "unat off' = base + sum_list (map plen (params ps))"
    using fresh_loop_raw [OF wf nm, of "word_of_nat base" base "[]" "paramSetSize ps" rest addr 0] off sz
    by (auto simp: tl rs_def)
  then have "off' = paramSetSize ps"
    using sz by (simp add: word_unat_eq_iff)
  moreover have "HksCheckParamSet (Some \<lparr>paramSetSize = paramSetSize ps, params = rs, ps_tail = ps_tail ps @ rest\<rparr>)
      (paramSetSize ps) = 0"
    using assms(2) by (simp add: HksCheckParamSet_0 paramsCnt_def rs_def)
  moreover have "paramsCnt \<lparr>paramSetSize = paramSetSize ps, params = rs, ps_tail = ps_tail ps @ rest\<rparr> = paramsCnt ps"
    by (simp add: paramsCnt_def rs_def)
  ultimately show ?thesis
    using lp unfolding at
    by (simp add: HksFreshParamSet_def FreshParamSet_def Let_def received_def base_def)
qed

lemma get_received:
  assumes "flat ps" "HksCheckParamSet (Some ps) (paramSetSize ps) = 0" "\<forall>n. alloc n"
  shows "HksGetParamSet alloc (Some (param_set_at (param_set_bytes addr ps))) (paramSetSize ps)
    = Inr (received ps [])"
proof -
  let ?raw = "param_set_at (param_set_bytes addr ps)"
  have raw: "?raw = \<lparr>paramSetSize = paramSetSize ps, params = raw_params addr 0 (params ps), ps_tail = ps_tail ps\<rparr>"
    using param_set_at_bytes [OF assms(2), of addr "[]"] by simp
  then have chk: "HksCheckParamSet (Some ?raw) (paramSetSize ps) = 0"
    using assms(2) by (simp add: HksCheckParamSet_0 paramsCnt_def)
  have "HksFreshParamSet (Some ?raw) False = Inr (received ps [])"
    using refresh_received [OF assms(1,2), of addr "[]"] by simp
  then have "FreshParamSet ?raw False = Inr (received ps [])"
    using chk raw by (simp add: HksFreshParamSet_def)
  moreover have "HksMalloc alloc (unat (paramSetSize ?raw))"
    using assms(2,3) raw by (simp add: HksMalloc_def HksCheckParamSet_0)
  ultimately show ?thesis
    unfolding HksGetParamSet_def Let_def chk by simp
qed

section \<open>Reading a field\<close>

lemma offset_le': "unat off + k \<le> unat n \<Longrightarrow> off \<le> n \<and> unat (n - off) = unat n - unat off"
  for off n :: u32
  by (simp add: word_le_nat_alt unat_sub)

lemma get_num:
  assumes "blob_bytes src = pre @ to_le 4 v @ post" "unat off = length pre" "unat off + 4 \<le> unat (blob_size src)"
  shows "GetUint32FromBuffer src off = Inr (v, off + 4) \<and> unat (off + 4) = unat off + 4"
proof -
  have "read_u32 (pre @ to_le 4 v @ post) (length pre) = v"
    using read_u32_skip [of pre "length pre" "to_le 4 v @ post" 0] by simp
  then show ?thesis
    using assms offset_le' [OF assms(3)] unat_offset_add [of off 4 "blob_size src" 4]
    by (simp add: GetUint32FromBuffer_def not_less word_less_nat_alt)
qed

lemma get_blob:
  assumes src: "blob_bytes src = pre @ field_bytes addr (FBlob b) @ post" and off: "unat off = length pre"
    and room: "unat off + field_length (FBlob b) \<le> unat (blob_size src)" and wf: "wf_field (FBlob b)"
  shows "\<exists>off' d. GetBlobFromBuffer src off = Inr (\<lparr>blob_size = blob_size b, blob_data = Some d\<rparr>, off')
    \<and> take (unat (blob_size b)) d = take (unat (blob_size b)) (blob_bytes b)
    \<and> unat (blob_size b) \<le> length d \<and> unat off' = unat off + field_length (FBlob b)"
proof -
  define k where "k = unat (blob_size b)"
  obtain d where d: "blob_bytes b = d" "k \<le> length d" "k + 3 < 2 ^ 32"
    using wf by (auto simp: k_def blob_bytes_def)
  have al: "unat (ALIGN_SIZE (blob_size b)) = align k"
    using unat_ALIGN_SIZE d(3) by (simp add: k_def)
  have le: "off \<le> blob_size src" "unat (blob_size src - off) = unat (blob_size src) - unat off"
    using offset_le' [of off "4 + align k" "blob_size src"] room by (simp_all add: k_def)
  have o4: "unat (off + 4) = unat off + 4"
    using unat_offset_add [of off 4 "blob_size src" 4] room by simp
  have sub: "unat (blob_size src - off - 4) = unat (blob_size src) - unat off - 4"
    using le room by (simp add: unat_sub word_le_nat_alt)
  have o': "unat (off + 4 + ALIGN_SIZE (blob_size b)) = unat off + 4 + align k"
    using unat_offset_add [of "off + 4" "align k" "blob_size src"] room o4 al by (simp add: k_def)
  have rd: "read_u32 (blob_bytes src) (unat off) = blob_size b"
    using read_u32_skip [of pre "length pre" "field_bytes addr (FBlob b) @ post" 0] off by (simp add: src)
  have ptr: "drop (unat (off + 4)) (blob_bytes src) = take k d @ pad k @ post"
    by (simp add: src o4 off d(1) k_def)
  have "\<not> IsAdditionOverflow (blob_size b) 3"
    using d(3) by (simp add: IsAdditionOverflow_iff k_def)
  moreover have "4 \<le> unat (blob_size src) - unat off" "align k \<le> unat (blob_size src) - (unat off + 4)"
    using room by (simp_all add: k_def)
  ultimately have "GetBlobFromBuffer src off = Inr (\<lparr>blob_size = blob_size b, blob_data = Some (take k d @ pad k @ post)\<rparr>,
      off + 4 + ALIGN_SIZE (blob_size b))"
    using le al sub rd ptr
    by (simp add: GetBlobFromBuffer_def Let_def not_less word_less_nat_alt k_def)
  then show ?thesis
    using o' d by (auto simp: k_def)
qed

lemma get_set:
  assumes src: "blob_bytes src = pre @ field_bytes addr (FSet ps) @ post" and off: "unat off = length pre"
    and room: "unat off + field_length (FSet ps) \<le> unat (blob_size src)" and wf: "wf_field (FSet ps)"
  shows "\<exists>off'. GetParamSetFromBuffer_service src off = Inr (received ps (pad (unat (paramSetSize ps)) @ post), off')
    \<and> unat off' = unat off + field_length (FSet ps)"
proof -
  define k where "k = unat (paramSetSize ps)"
  have k: "k + 3 < 2 ^ 32" and k8: "8 \<le> k"
    using wf set_size_bound by (fastforce simp: k_def HksCheckParamSet_0)+
  have al: "unat (ALIGN_SIZE (paramSetSize ps)) = align k"
    using unat_ALIGN_SIZE k by (simp add: k_def)
  have le: "off \<le> blob_size src" "unat (blob_size src - off) = unat (blob_size src) - unat off"
    using offset_le' [of off "align k" "blob_size src"] room by (simp_all add: k_def)
  have o': "unat (off + ALIGN_SIZE (paramSetSize ps)) = unat off + align k"
    using unat_offset_add [of off "align k" "blob_size src"] room al by (simp add: k_def)
  have mem: "drop (unat off) (blob_bytes src) = param_set_bytes (addr ps) ps @ pad k @ post"
    by (simp add: src off k_def)
  have sz: "paramSetSize (param_set_at (param_set_bytes (addr ps) ps @ pad k @ post)) = paramSetSize ps"
    using wf param_set_at_bytes by simp
  have fr: "HksFreshParamSet (Some (param_set_at (param_set_bytes (addr ps) ps @ pad k @ post))) False
      = Inr (received ps (pad k @ post))"
    using wf refresh_received by simp
  have "\<not> IsAdditionOverflow (paramSetSize ps) 3"
    using k by (simp add: IsAdditionOverflow_iff k_def)
  moreover have "8 \<le> unat (blob_size src) - unat off" "align k \<le> unat (blob_size src) - unat off"
    using room k8 align_ge [of k] by (simp_all add: k_def)
  ultimately have "GetParamSetFromBuffer_service src off
      = Inr (received ps (pad k @ post), off + ALIGN_SIZE (paramSetSize ps))"
    using le al mem sz fr
    by (simp add: GetParamSetFromBuffer_service_def Let_def not_less word_less_nat_alt received_def)
  then show ?thesis
    using o' by (simp add: k_def)
qed

end
