(* ===== verification/Huks_Ipc_Unpack.thy ===== *)
theory Huks_Ipc_Unpack
  imports Huks_Ipc_Pack
begin

text \<open>
  The service unpacks a request and packs an answer, from
  \<open>services/huks_standard/huks_service/main/os_dependency/idl/ipc/hks_service_ipc_serialization.c\<close>. The
  out-parameters start as the callers of \<open>hks_ipc_service.c\<close> initialise them: blobs of size 0 without
  data, and sets and lists that are \<open>NULL\<close>. Blobs that are read point into the request.
\<close>

section \<open>Buffers for the answer\<close>

definition null_blob :: HksBlob where
  "null_blob = \<lparr>blob_size = 0, blob_data = NULL\<rparr>"

text \<open>
  These two also move the offset when they fail behind the size, which some callers ignore; so they give
  the code, the out-parameter and the offset.
\<close>

definition MallocBlobFromBuffer ::
    "allocator \<Rightarrow> HksBlob \<Rightarrow> HksBlob \<Rightarrow> u32 \<Rightarrow> rc \<times> HksBlob \<times> u32" where
  "MallocBlobFromBuffer alloc srcData blob offset =
     (case GetUint32FromBuffer_service srcData offset of
        Inl ret \<Rightarrow> (ret, blob, offset)
      | Inr (blobSize, offset) \<Rightarrow>
          if IsInvalidLength blobSize then (HKS_ERROR_INVALID_ARGUMENT, blob, offset)
          else if \<not> HksMalloc alloc (unat blobSize) then (HKS_ERROR_MALLOC_FAIL, blob, offset)
          else (HKS_SUCCESS, ipc_buffer blobSize, offset))"

definition fresh_set :: "u32 \<Rightarrow> HksParamSet" where
  "fresh_set n = \<lparr>paramSetSize = n, params = [], ps_tail = replicate (unat n - SIZEOF_PARAM_SET) 0\<rparr>"

definition MallocParamSetFromBuffer ::
    "allocator \<Rightarrow> HksBlob \<Rightarrow> HksParamSet ptr \<Rightarrow> u32 \<Rightarrow> rc \<times> HksParamSet ptr \<times> u32" where
  "MallocParamSetFromBuffer alloc srcData paramSet offset =
     (case GetUint32FromBuffer_service srcData offset of
        Inl ret \<Rightarrow> (ret, paramSet, offset)
      | Inr (paramSetOutSize, offset) \<Rightarrow>
          if IsInvalidLength paramSetOutSize \<or> unat paramSetOutSize < SIZEOF_PARAM_SET
          then (HKS_ERROR_INVALID_ARGUMENT, paramSet, offset)
          else if \<not> HksMalloc alloc (unat paramSetOutSize) then (HKS_ERROR_MALLOC_FAIL, NULL, offset)
          else (HKS_SUCCESS, Some (fresh_set paramSetOutSize), offset))"

text \<open>A call of one of the two whose code the caller returns.\<close>

definition malloc_or_return :: "rc \<times> 'a \<times> u32 \<Rightarrow> ('a \<Rightarrow> 'b) \<Rightarrow> 'b res" where
  "malloc_or_return r k = (case r of (ret, v, _) \<Rightarrow> if ret \<noteq> HKS_SUCCESS then Inl ret else Inr (k v))"

section \<open>Requests\<close>

definition GetKeyAndParamSetFromBuffer :: "HksBlob \<Rightarrow> u32 \<Rightarrow> (HksBlob \<times> HksParamSet \<times> u32) res" where
  "GetKeyAndParamSetFromBuffer srcData offset =
     try_res (GetBlobFromBuffer_service srcData offset) (\<lambda>(keyAlias, offset).
     try_res (GetParamSetFromBuffer_service srcData offset) (\<lambda>(paramSet, offset).
     Inr (keyAlias, paramSet, offset)))"

definition HksGenerateKeyUnpack :: "allocator \<Rightarrow> HksBlob \<Rightarrow> (HksBlob \<times> HksParamSet \<times> HksBlob) res" where
  "HksGenerateKeyUnpack alloc srcData =
     try_res (GetKeyAndParamSetFromBuffer srcData 0) (\<lambda>(keyAlias, paramSetIn, offset).
     try_res (GetUint32FromBuffer_service srcData offset) (\<lambda>(keyOutSize, offset).
     if keyOutSize > MAX_OUT_BLOB_SIZE then Inl HKS_ERROR_INVALID_ARGUMENT
     else if keyOutSize > 0 then
       (if \<not> HksMalloc alloc (unat keyOutSize) then Inl HKS_ERROR_MALLOC_FAIL
        else Inr (keyAlias, paramSetIn, ipc_buffer keyOutSize))
     else Inr (keyAlias, paramSetIn, null_blob)))"

definition HksImportKeyUnpack :: "HksBlob \<Rightarrow> (HksBlob \<times> HksParamSet \<times> HksBlob) res" where
  "HksImportKeyUnpack srcData =
     try_res (GetKeyAndParamSetFromBuffer srcData 0) (\<lambda>(keyAlias, paramSet, offset).
     try_res (GetBlobFromBuffer_service srcData offset) (\<lambda>(key, offset). Inr (keyAlias, paramSet, key)))"

definition HksImportWrappedKeyUnpack ::
    "HksBlob \<Rightarrow> (HksBlob \<times> HksBlob \<times> HksParamSet \<times> HksBlob) res" where
  "HksImportWrappedKeyUnpack srcData =
     try_res (GetBlobFromBuffer_service srcData 0) (\<lambda>(keyAlias, offset).
     try_res (GetBlobFromBuffer_service srcData offset) (\<lambda>(wrappingKeyAlias, offset).
     try_res (GetParamSetFromBuffer_service srcData offset) (\<lambda>(paramSet, offset).
     try_res (GetBlobFromBuffer_service srcData offset) (\<lambda>(wrappedKeyData, offset).
     Inr (keyAlias, wrappingKeyAlias, paramSet, wrappedKeyData)))))"

definition HksDeleteKeyUnpack :: "HksBlob \<Rightarrow> (HksBlob \<times> HksParamSet ptr) res" where
  "HksDeleteKeyUnpack srcData =
     try_res (GetBlobFromBuffer_service srcData 0) (\<lambda>(keyAlias, offset).
     if offset = blob_size srcData then Inr (keyAlias, NULL)
     else try_res (GetParamSetFromBuffer_service srcData offset) (\<lambda>(paramSet, offset).
       Inr (keyAlias, Some paramSet)))"

definition HksExportPublicKeyUnpack ::
    "allocator \<Rightarrow> HksBlob \<Rightarrow> (HksBlob \<times> HksParamSet ptr \<times> HksBlob) res" where
  "HksExportPublicKeyUnpack alloc srcData =
     try_res (GetBlobFromBuffer_service srcData 0) (\<lambda>(keyAlias, offset).
     (case MallocBlobFromBuffer alloc srcData null_blob offset of
        (_, key, offset) \<Rightarrow>
          if offset = blob_size srcData then Inr (keyAlias, NULL, key)
          else try_res (GetParamSetFromBuffer_service srcData offset) (\<lambda>(paramSet, offset).
            Inr (keyAlias, Some paramSet, key))))"

definition HksGetKeyParamSetUnpack ::
    "allocator \<Rightarrow> HksBlob \<Rightarrow> (HksBlob \<times> HksParamSet ptr \<times> HksParamSet ptr) res" where
  "HksGetKeyParamSetUnpack alloc srcData =
     try_res (GetBlobFromBuffer_service srcData 0) (\<lambda>(keyAlias, offset).
     (case MallocParamSetFromBuffer alloc srcData NULL offset of
        (_, paramSetOut, offset) \<Rightarrow>
          if offset = blob_size srcData then Inr (keyAlias, NULL, paramSetOut)
          else try_res (GetParamSetFromBuffer_service srcData offset) (\<lambda>(paramSetIn, offset).
            Inr (keyAlias, Some paramSetIn, paramSetOut))))"

definition HksKeyExistUnpack :: "HksBlob \<Rightarrow> (HksBlob \<times> HksParamSet ptr) res" where
  "HksKeyExistUnpack srcData =
     try_res (GetBlobFromBuffer_service srcData 0) (\<lambda>(keyAlias, offset).
     if offset = blob_size srcData then Inr (keyAlias, NULL)
     else try_res (GetParamSetFromBuffer_service srcData offset) (\<lambda>(paramSet, offset).
       Inr (keyAlias, Some paramSet)))"

definition SignVerifyMacUnpack ::
    "HksBlob \<Rightarrow> u32 \<Rightarrow> (HksBlob \<times> HksParamSet \<times> HksBlob \<times> u32) res" where
  "SignVerifyMacUnpack srcData offset =
     try_res (GetKeyAndParamSetFromBuffer srcData offset) (\<lambda>(key, paramSet, offset).
     try_res (GetBlobFromBuffer_service srcData offset) (\<lambda>(inputData, offset).
     Inr (key, paramSet, inputData, offset)))"

definition HksSignUnpack ::
    "allocator \<Rightarrow> HksBlob \<Rightarrow> (HksBlob \<times> HksParamSet \<times> HksBlob \<times> HksBlob) res" where
  "HksSignUnpack alloc srcData =
     try_res (SignVerifyMacUnpack srcData 0) (\<lambda>(key, paramSet, unsignedData, offset).
     malloc_or_return (MallocBlobFromBuffer alloc srcData null_blob offset)
       (\<lambda>signature. (key, paramSet, unsignedData, signature)))"

definition HksVerifyUnpack :: "HksBlob \<Rightarrow> (HksBlob \<times> HksParamSet \<times> HksBlob \<times> HksBlob) res" where
  "HksVerifyUnpack srcData =
     try_res (SignVerifyMacUnpack srcData 0) (\<lambda>(key, paramSet, unsignedData, offset).
     try_res (GetBlobFromBuffer_service srcData offset) (\<lambda>(signature, offset).
     Inr (key, paramSet, unsignedData, signature)))"

definition HksEncryptDecryptUnpack ::
    "allocator \<Rightarrow> HksBlob \<Rightarrow> (HksBlob \<times> HksParamSet \<times> HksBlob \<times> HksBlob) res" where
  "HksEncryptDecryptUnpack alloc srcData =
     try_res (GetKeyAndParamSetFromBuffer srcData 0) (\<lambda>(key, paramSet, offset).
     try_res (GetBlobFromBuffer_service srcData offset) (\<lambda>(inputText, offset).
     malloc_or_return (MallocBlobFromBuffer alloc srcData null_blob offset)
       (\<lambda>outputText. (key, paramSet, inputText, outputText))))"

definition HksAgreeKeyUnpack ::
    "allocator \<Rightarrow> HksBlob \<Rightarrow> (HksParamSet \<times> HksBlob \<times> HksBlob \<times> HksBlob) res" where
  "HksAgreeKeyUnpack alloc srcData =
     try_res (GetParamSetFromBuffer_service srcData 0) (\<lambda>(paramSet, offset).
     try_res (GetBlobFromBuffer_service srcData offset) (\<lambda>(privateKey, offset).
     try_res (GetBlobFromBuffer_service srcData offset) (\<lambda>(peerPublicKey, offset).
     malloc_or_return (MallocBlobFromBuffer alloc srcData null_blob offset)
       (\<lambda>agreedKey. (paramSet, privateKey, peerPublicKey, agreedKey)))))"

definition HksDeriveKeyUnpack :: "allocator \<Rightarrow> HksBlob \<Rightarrow> (HksParamSet \<times> HksBlob \<times> HksBlob) res" where
  "HksDeriveKeyUnpack alloc srcData =
     try_res (GetParamSetFromBuffer_service srcData 0) (\<lambda>(paramSet, offset).
     try_res (GetBlobFromBuffer_service srcData offset) (\<lambda>(kdfKey, offset).
     malloc_or_return (MallocBlobFromBuffer alloc srcData null_blob offset)
       (\<lambda>derivedKey. (paramSet, kdfKey, derivedKey))))"

definition HksHmacUnpack ::
    "allocator \<Rightarrow> HksBlob \<Rightarrow> (HksBlob \<times> HksParamSet \<times> HksBlob \<times> HksBlob) res" where
  "HksHmacUnpack alloc srcData =
     try_res (SignVerifyMacUnpack srcData 0) (\<lambda>(key, paramSet, inputData, offset).
     malloc_or_return (MallocBlobFromBuffer alloc srcData null_blob offset)
       (\<lambda>mac. (key, paramSet, inputData, mac)))"

definition HksCertificateChainUnpack ::
    "allocator \<Rightarrow> HksBlob \<Rightarrow> (HksBlob \<times> HksParamSet \<times> HksBlob) res" where
  "HksCertificateChainUnpack alloc srcData =
     try_res (GetKeyAndParamSetFromBuffer srcData 0) (\<lambda>(keyAlias, paramSet, offset).
     malloc_or_return (MallocBlobFromBuffer alloc srcData null_blob offset)
       (\<lambda>certChainBlob. (keyAlias, paramSet, certChainBlob)))"

definition HksListAliasesUnpack :: "HksBlob \<Rightarrow> HksParamSet res" where
  "HksListAliasesUnpack srcData =
     try_res (GetParamSetFromBuffer_service srcData 0) (\<lambda>(paramSet, offset). Inr paramSet)"

section \<open>The list of key infos\<close>

abbreviation (input) SIZEOF_KEY_INFO :: u32 where "SIZEOF_KEY_INFO \<equiv> 24"

text \<open>
  The loop of \<open>KeyInfoListInit\<close> over \<open>n\<close> elements: the code, the elements filled, the offset. On a
  failure the elements allocated so far are freed.
\<close>

fun key_info_init_loop :: "allocator \<Rightarrow> HksBlob \<Rightarrow> nat \<Rightarrow> u32 \<Rightarrow> rc \<times> HksKeyInfo list \<times> u32" where
  "key_info_init_loop alloc srcData 0 offset = (HKS_SUCCESS, [], offset)"
| "key_info_init_loop alloc srcData (Suc n) offset =
     (case MallocBlobFromBuffer alloc srcData null_blob offset of
        (ret, alias, offset) \<Rightarrow>
          if ret \<noteq> HKS_SUCCESS then (ret, [], offset)
          else
            (case MallocParamSetFromBuffer alloc srcData NULL offset of
               (ret, paramSet, offset) \<Rightarrow>
                 if ret \<noteq> HKS_SUCCESS then (ret, [], offset)
                 else
                   (case key_info_init_loop alloc srcData n offset of
                      (ret, kis, offset) \<Rightarrow>
                        (ret, \<lparr>ki_alias = alias, ki_paramSet = paramSet\<rparr> # kis, offset))))"

definition KeyInfoListInit :: "allocator \<Rightarrow> u32 \<Rightarrow> HksBlob \<Rightarrow> u32 \<Rightarrow> rc \<times> HksKeyInfo list \<times> u32" where
  "KeyInfoListInit alloc listCount srcData offset =
     (case key_info_init_loop alloc srcData (unat listCount) offset of
        (ret, kis, offset) \<Rightarrow> if ret \<noteq> HKS_SUCCESS then (ret, [], offset) else (ret, kis, offset))"

definition HksGetKeyInfoListUnpack ::
    "allocator \<Rightarrow> HksBlob \<Rightarrow> (HksParamSet ptr \<times> u32 \<times> HksKeyInfo list ptr) res" where
  "HksGetKeyInfoListUnpack alloc srcData =
     try_res (GetUint32FromBuffer_service srcData 0) (\<lambda>(listCount, offset).
     if listCount = 0 \<or> listCount > HKS_GET_KEY_LIST_MAX_COUNT then Inl HKS_ERROR_INSUFFICIENT_MEMORY
     else if IsInvalidLength (listCount * SIZEOF_KEY_INFO) then Inl HKS_ERROR_INSUFFICIENT_MEMORY
     else if \<not> HksMalloc alloc (unat (listCount * SIZEOF_KEY_INFO)) then Inl HKS_ERROR_MALLOC_FAIL
     else
       (case KeyInfoListInit alloc listCount srcData offset of
          (ret, kis, offset) \<Rightarrow>
            let keyInfoList = (if ret \<noteq> HKS_SUCCESS then NULL else Some kis) in
            if offset = blob_size srcData then Inr (NULL, listCount, keyInfoList)
            else try_res (GetParamSetFromBuffer_service srcData offset) (\<lambda>(paramSet, offset).
              Inr (Some paramSet, listCount, keyInfoList))))"

fun pack_key_infos_loop :: "addressing \<Rightarrow> HksKeyInfo list \<Rightarrow> HksBlob \<Rightarrow> u32 \<Rightarrow> (HksBlob \<times> u32) res" where
  "pack_key_infos_loop addr [] destData offset = Inr (destData, offset)"
| "pack_key_infos_loop addr (ki # kis) destData offset =
     try_res (CopyBlobToBuffer_service (ki_alias ki) destData offset) (\<lambda>(destData, offset).
     try_res (CopyParamSetToBuffer_service addr (ki_paramSet ki) destData offset) (\<lambda>(destData, offset).
     pack_key_infos_loop addr kis destData offset))"

definition HksGetKeyInfoListPackFromService ::
    "addressing \<Rightarrow> HksBlob \<Rightarrow> u32 \<Rightarrow> HksKeyInfo list \<Rightarrow> HksBlob res" where
  "HksGetKeyInfoListPackFromService addr destData listCount keyInfoList =
     try_res (CopyUint32ToBuffer_service listCount destData 0) (\<lambda>(destData, offset).
     try_res (pack_key_infos_loop addr (take (unat listCount) keyInfoList) destData offset)
       (\<lambda>(destData, offset). Inr destData))"

section \<open>Parameter sets as argument lists\<close>

abbreviation (input) HKS_PARAM_BUFFER_NULL_INTERVAL :: u32 where
  "HKS_PARAM_BUFFER_NULL_INTERVAL \<equiv> HKS_TAG_PARAM0_NULL - HKS_TAG_PARAM0_BUFFER"

definition GetNullBlobParam :: "HksParamSet ptr \<Rightarrow> u32 \<Rightarrow> HksParamValue res" where
  "GetNullBlobParam paramSet tag =
     (if GetTagType tag \<noteq> HKS_TAG_TYPE_BYTES then Inl HKS_ERROR_PARAM_NOT_EXIST
      else try_res (HksGetParam paramSet (tag + HKS_PARAM_BUFFER_NULL_INTERVAL))
        (\<lambda>_. Inr (VBlob null_blob)))"

definition GetNormalParam :: "HksParam \<Rightarrow> u32 \<Rightarrow> HksParamValue res" where
  "GetNormalParam param tag =
     (let ty = GetTagType tag in
      if ty = HKS_TAG_TYPE_INT then Inr (VInt (uint32Param (p_val param)))
      else if ty = HKS_TAG_TYPE_UINT then Inr (VUint (uint32Param (p_val param)))
      else if ty = HKS_TAG_TYPE_ULONG then Inr (VUlong (uint64Param (p_val param)))
      else if ty = HKS_TAG_TYPE_BOOL then Inr (VBool (boolParam (p_val param)))
      else if ty = HKS_TAG_TYPE_BYTES then Inr (VBlob (blobParam (p_val param)))
      else Inl HKS_ERROR_INVALID_ARGUMENT)"

text \<open>The out-parameters are given by their tags; the values written to them are the result.\<close>

fun HksParamSetToParams :: "HksParamSet ptr \<Rightarrow> u32 list \<Rightarrow> HksParamValue list res" where
  "HksParamSetToParams paramSet [] = Inr []"
| "HksParamSetToParams paramSet (tag # tags) =
     try_res (case HksGetParam paramSet tag of
                Inr param \<Rightarrow> GetNormalParam param tag
              | Inl _ \<Rightarrow> GetNullBlobParam paramSet tag)
       (\<lambda>v. try_res (HksParamSetToParams paramSet tags) (\<lambda>vs. Inr (v # vs)))"

section \<open>Lists of aliases\<close>

record HksKeyAliasSet =
  aliasesCnt :: u32
  aliases :: "HksBlob list"

fun copy_blobs_loop :: "HksBlob list \<Rightarrow> HksBlob \<Rightarrow> u32 \<Rightarrow> (HksBlob \<times> u32) res" where
  "copy_blobs_loop [] destBlob offset = Inr (destBlob, offset)"
| "copy_blobs_loop (b # bs) destBlob offset =
     try_res (CopyBlobToBuffer_service b destBlob offset) (\<lambda>(destBlob, offset).
     copy_blobs_loop bs destBlob offset)"

definition HksCopyBlobsAndCntToBlob :: "HksBlob list \<Rightarrow> u32 \<Rightarrow> HksBlob \<Rightarrow> HksBlob res" where
  "HksCopyBlobsAndCntToBlob srcBlob cnt destBlob =
     try_res (CopyUint32ToBuffer_service cnt destBlob 0) (\<lambda>(destBlob, offset).
     try_res (copy_blobs_loop (take (unat cnt) srcBlob) destBlob offset) (\<lambda>(destBlob, offset).
     Inr destBlob))"

text \<open>The loop that adds up the size, in 32 bits.\<close>

fun aliases_size :: "HksBlob list \<Rightarrow> u32 \<Rightarrow> u32" where
  "aliases_size [] sz = sz"
| "aliases_size (b # bs) sz = aliases_size bs (sz + (4 + ALIGN_SIZE (blob_size b)))"

definition HksListAliasesPackFromService ::
    "allocator \<Rightarrow> HksKeyAliasSet ptr \<Rightarrow> HksBlob ptr \<Rightarrow> HksBlob res" where
  "HksListAliasesPackFromService alloc aliasSet destData =
     (case destData of NULL \<Rightarrow> Inl HKS_ERROR_INVALID_ARGUMENT
      | Some dest \<Rightarrow>
          if blob_size dest \<noteq> 0 then Inl HKS_ERROR_INVALID_ARGUMENT
          else
            (case aliasSet of NULL \<Rightarrow> Inr dest
             | Some as \<Rightarrow>
                 if aliasesCnt as = 0 then Inr dest
                 else
                   (let sz = aliases_size (take (unat (aliasesCnt as)) (aliases as)) 4 in
                    if \<not> HksMalloc alloc (unat sz) then Inl HKS_ERROR_MALLOC_FAIL
                    else HksCopyBlobsAndCntToBlob (aliases as) (aliasesCnt as) (ipc_buffer sz))))"

text \<open>
  The client reads the answers that are more than one blob, and packs the arguments of three-stage
  operations as a parameter set: the rest of
  \<open>frameworks/huks_standard/main/os_dependency/ipc/src/hks_client_ipc_serialization.c\<close>.
\<close>

section \<open>Key infos\<close>

text \<open>
  The loop over the answer writes to the caller's buffers: a blob of the caller holds its capacity in
  its size. It gives the code and the elements that are complete. A failure of \<open>memcpy_s\<close> is returned
  with the code of the last successful call.
\<close>

fun key_info_unpack_loop ::
    "addressing \<Rightarrow> HksBlob \<Rightarrow> nat \<Rightarrow> u32 \<Rightarrow> HksKeyInfo list \<Rightarrow> rc \<times> HksKeyInfo list" where
  "key_info_unpack_loop addr srcData 0 offset kis = (HKS_SUCCESS, [])"
| "key_info_unpack_loop addr srcData (Suc n) offset [] = (HKS_SUCCESS, [])"
| "key_info_unpack_loop addr srcData (Suc n) offset (ki # kis) =
     (case GetBlobFromBuffer srcData offset of
        Inl ret \<Rightarrow> (ret, [])
      | Inr (alias, offset) \<Rightarrow>
          (case memcpy_to (ki_alias ki) 0 (blob_size (ki_alias ki)) (blob_data alias)
              (unat (blob_size alias)) of
             (ok, alias') \<Rightarrow>
               if \<not> ok then (HKS_SUCCESS, [])
               else
                 (case GetParamSetFromBuffer srcData offset of
                    Inl ret \<Rightarrow> (ret, [])
                  | Inr (paramSet, offset') \<Rightarrow>
                      (let old = the (ki_paramSet ki); k = unat (paramSetSize paramSet) in
                       case memcpy_s (unat (paramSetSize old)) (Some (at srcData offset)) k of
                         None \<Rightarrow> (HKS_SUCCESS, [])
                       | Some bs \<Rightarrow>
                           (case HksFreshParamSet
                               (Some (param_set_at (bs @ drop k (param_set_bytes (addr old) old)))) False of
                              Inl ret \<Rightarrow> (ret, [])
                            | Inr fresh \<Rightarrow>
                                (case key_info_unpack_loop addr srcData n offset' kis of
                                   (ret, done_kis) \<Rightarrow>
                                     (ret, \<lparr>ki_alias = alias'\<lparr>blob_size := blob_size alias\<rparr>,
                                            ki_paramSet = Some fresh\<rparr> # done_kis)))))))"

definition HksGetKeyInfoListUnpackFromService ::
    "addressing \<Rightarrow> HksBlob \<Rightarrow> u32 \<Rightarrow> HksKeyInfo list \<Rightarrow> rc \<times> u32 \<times> HksKeyInfo list" where
  "HksGetKeyInfoListUnpackFromService addr srcData listCount keyInfoList =
     (case GetUint32FromBuffer srcData 0 of
        Inl ret \<Rightarrow> (ret, listCount, [])
      | Inr (countFromBuffer, offset) \<Rightarrow>
          if countFromBuffer > listCount then (HKS_ERROR_INVALID_ARGUMENT, listCount, [])
          else
            (case key_info_unpack_loop addr srcData (unat countFromBuffer) offset keyInfoList of
               (ret, kis) \<Rightarrow> (ret, countFromBuffer, kis)))"

section \<open>Certificates\<close>

definition BASE64_TABLE :: bytes where
  "BASE64_TABLE = map word_of_nat ([65..<91] @ [97..<123] @ [48..<58] @ [43, 47])"

definition sextet :: "u32 \<Rightarrow> nat \<Rightarrow> u8" where
  "sextet b k = BASE64_TABLE ! unat (drop_bit (6 * k) b AND 0x3F)"

text \<open>One round of the loop reads three bytes, those behind the end as 0, and writes four.\<close>

fun base64_loop :: "bytes \<Rightarrow> bytes" where
  "base64_loop [] = []"
| "base64_loop (x # xs) =
     (let a = ucast x :: u32;
          b = (case xs of [] \<Rightarrow> 0 | y # _ \<Rightarrow> ucast y);
          c = (case drop 1 xs of [] \<Rightarrow> 0 | y # _ \<Rightarrow> ucast y);
          byte = push_bit 16 a + push_bit 8 b + c in
      [sextet byte 3, sextet byte 2, sextet byte 1, sextet byte 0] @ base64_loop (drop 2 xs))"

text \<open>\<open>outData\<close> are the bytes the caller allocated; the padding replaces the last ones.\<close>

definition Base64Encode :: "bytes \<Rightarrow> u32 \<Rightarrow> bytes \<Rightarrow> u32 \<Rightarrow> bytes" where
  "Base64Encode srcData srcDataSize outData outDataSize =
     (let written = base64_loop (take (unat srcDataSize) srcData);
          out = written @ drop (length written) outData;
          padding = srcDataSize mod 3 in
      if padding = 0 then out
      else
        (let out = out[unat (outDataSize - 1) := 61] in
         if padding = 1 then out[unat (outDataSize - 2) := 61] else out))"

definition CheckAndCalculateSize :: "u32 \<Rightarrow> u32 \<Rightarrow> u32 res" where
  "CheckAndCalculateSize inSize extraSize =
     (if inSize > 0xFFFFFFFF - 2 then Inl HKS_ERROR_INVALID_ARGUMENT
      else if (inSize + 2) div 3 > 0xFFFFFFFF div 4 then Inl HKS_ERROR_INVALID_ARGUMENT
      else if (inSize + 2) div 3 * 4 > 0xFFFFFFFF - extraSize then Inl HKS_ERROR_INVALID_ARGUMENT
      else Inr ((inSize + 2) div 3 * 4 + extraSize))"

definition cert_begin :: bytes where
  "cert_begin = [45, 45, 45, 45, 45, 66, 69, 71, 73, 78, 32, 67, 69, 82, 84, 73, 70, 73, 67, 65, 84, 69,
     45, 45, 45, 45, 45, 10]"

definition cert_end :: bytes where
  "cert_end = [10, 45, 45, 45, 45, 45, 69, 78, 68, 32, 67, 69, 82, 84, 73, 70, 73, 67, 65, 84, 69,
     45, 45, 45, 45, 45]"

text \<open>
  The copies of the frame cannot fail, as the buffer is at least as long; the last one is bounded by the
  caller's buffer, whose capacity is the size of \<open>outBlob\<close>.
\<close>

definition EncodeCertChain :: "allocator \<Rightarrow> HksBlob \<Rightarrow> HksBlob \<Rightarrow> HksBlob res" where
  "EncodeCertChain alloc inBlob outBlob =
     (let beginLen = word_of_nat (length cert_begin); endLen = word_of_nat (length cert_end) in
      try_res (CheckAndCalculateSize (blob_size inBlob) (beginLen + endLen)) (\<lambda>tmpSize.
      if \<not> HksMalloc alloc (unat tmpSize) then Inl HKS_ERROR_MALLOC_FAIL
      else
        (let outSize = tmpSize - beginLen - endLen;
             tmp = cert_begin
               @ Base64Encode (blob_bytes inBlob) (blob_size inBlob) (replicate (unat outSize) 0) outSize
               @ cert_end in
         case memcpy_to outBlob 0 (blob_size outBlob) (Some tmp) (unat tmpSize) of
           (ok, outBlob) \<Rightarrow>
             if \<not> ok then Inl HKS_ERROR_BUFFER_TOO_SMALL else Inr (outBlob\<lparr>blob_size := tmpSize\<rparr>))))"

fun cert_unpack_loop :: "allocator \<Rightarrow> HksBlob \<Rightarrow> bool \<Rightarrow> nat \<Rightarrow> u32 \<Rightarrow> HksBlob list \<Rightarrow> HksBlob list res" where
  "cert_unpack_loop alloc srcData needEncode 0 offset cs = Inr cs"
| "cert_unpack_loop alloc srcData needEncode (Suc n) offset [] = Inr []"
| "cert_unpack_loop alloc srcData needEncode (Suc n) offset (c # cs) =
     try_or (GetBlobFromBuffer srcData offset) (Inl HKS_ERROR_IPC_MSG_FAIL) (\<lambda>(tmp, offset).
     (case memcpy_to c 0 (blob_size c) (blob_data tmp) (unat (blob_size tmp)) of
        (ok, c) \<Rightarrow>
          if \<not> ok then Inl HKS_ERROR_INSUFFICIENT_DATA
          else
            try_res (if needEncode
                     then EncodeCertChain alloc \<lparr>blob_size = blob_size tmp, blob_data = blob_data c\<rparr> c
                     else Inr (c\<lparr>blob_size := blob_size tmp\<rparr>)) (\<lambda>c.
            try_res (cert_unpack_loop alloc srcData needEncode n offset cs) (\<lambda>cs. Inr (c # cs)))))"

definition HksCertificateChainUnpackFromService ::
    "allocator \<Rightarrow> HksBlob \<Rightarrow> bool \<Rightarrow> HksCertChain \<Rightarrow> HksCertChain res" where
  "HksCertificateChainUnpackFromService alloc srcData needEncode certChain =
     (if blob_size srcData < 4 then Inl HKS_ERROR_BUFFER_TOO_SMALL
      else
        (let cnt = read_u32 (blob_bytes srcData) 0 in
         if cnt > certsCount certChain then Inl HKS_ERROR_INSUFFICIENT_DATA
         else
           try_res (cert_unpack_loop alloc srcData needEncode (unat cnt) 4 (the (certs certChain)))
             (\<lambda>cs. Inr \<lparr>certs = Some cs, certsCount = cnt\<rparr>)))"

section \<open>Arguments as a parameter set\<close>

text \<open>
  A blob that is empty or missing travels as a blob of one byte under another tag, the loop at the
  start of \<open>HksParamsToParamSet\<close>.
\<close>

definition mark_null :: "HksParam \<Rightarrow> HksParam" where
  "mark_null p =
     (if is_bytes_tag (p_tag p)
         \<and> (blob_size (blobParam (p_val p)) = 0 \<or> blob_data (blobParam (p_val p)) = NULL)
      then \<lparr>p_tag = p_tag p + HKS_PARAM_BUFFER_NULL_INTERVAL,
            p_val = VBlob \<lparr>blob_size = 1, blob_data = Some [0]\<rparr>\<rparr>
      else p)"

definition HksParamsToParamSet :: "allocator \<Rightarrow> HksParam list \<Rightarrow> HksParamSet res" where
  "HksParamsToParamSet alloc ps =
     try_res (HksInitParamSet alloc) (\<lambda>newParamSet.
     (case HksAddParams (Some newParamSet) (Some (map mark_null ps)) of
        (ret, newParamSet) \<Rightarrow>
          if_not_succ_return ret (Inl ret) (HksBuildParamSet alloc newParamSet)))"

section \<open>Lists of aliases\<close>

fun alias_unpack_loop :: "allocator \<Rightarrow> HksBlob \<Rightarrow> nat \<Rightarrow> u32 \<Rightarrow> HksBlob list res" where
  "alias_unpack_loop alloc srcBlob 0 offset = Inr []"
| "alias_unpack_loop alloc srcBlob (Suc n) offset =
     try_res (GetBlobFromBuffer srcBlob offset) (\<lambda>(tmpBlob, offset).
     if \<not> HksMalloc alloc (unat (blob_size tmpBlob)) then Inl HKS_ERROR_MALLOC_FAIL
     else
       (case memcpy_s (unat (blob_size tmpBlob)) (blob_data tmpBlob) (unat (blob_size tmpBlob)) of
          None \<Rightarrow> Inl HKS_ERROR_BUFFER_TOO_SMALL
        | Some bs \<Rightarrow>
            try_res (alias_unpack_loop alloc srcBlob n offset) (\<lambda>as.
            Inr (\<lparr>blob_size = blob_size tmpBlob, blob_data = Some bs\<rparr> # as))))"

abbreviation (input) HKS_MAX_KEY_ALIAS_COUNT :: u32 where "HKS_MAX_KEY_ALIAS_COUNT \<equiv> 2048"
abbreviation (input) HKS_MAX_KEY_ALIAS_LEN :: u32 where "HKS_MAX_KEY_ALIAS_LEN \<equiv> 64"
abbreviation (input) SIZEOF_BLOB :: nat where "SIZEOF_BLOB \<equiv> 16"
abbreviation (input) SIZEOF_ALIAS_SET :: nat where "SIZEOF_ALIAS_SET \<equiv> 16"

text \<open>An empty answer leaves the out-parameter alone.\<close>

definition HksListAliasesUnpackFromService :: "allocator \<Rightarrow> HksBlob \<Rightarrow> HksKeyAliasSet ptr res" where
  "HksListAliasesUnpackFromService alloc srcBlob =
     (if blob_size srcBlob = 0 then Inr NULL
      else
        try_res (GetUint32FromBuffer srcBlob 0) (\<lambda>(cntFromBuffer, offset).
        if \<not> cntFromBuffer \<le> HKS_MAX_KEY_ALIAS_COUNT then Inl HKS_ERROR_BUFFER_TOO_SMALL
        else if \<not> HksMalloc alloc SIZEOF_ALIAS_SET then Inl HKS_ERROR_MALLOC_FAIL
        else if \<not> HksMalloc alloc (unat cntFromBuffer * SIZEOF_BLOB) then Inl HKS_ERROR_MALLOC_FAIL
        else
          try_res (alias_unpack_loop alloc srcBlob (unat cntFromBuffer) offset) (\<lambda>as.
          Inr (Some \<lparr>aliasesCnt = cntFromBuffer, aliases = as\<rparr>))))"

end
