(* ===== verification/Huks_Ipc_Client.thy ===== *)
theory Huks_Ipc_Client
  imports Huks_Ipc_Unpack
begin

text \<open>
  The client's side of every request, from
  \<open>frameworks/huks_standard/main/os_dependency/ipc/src/hks_client_service_ipc.c\<close>: check, allocate exactly
  the size of the request, pack, send, read the answer. \<open>addr\<close>, \<open>alloc\<close> and \<open>HksSendRequest\<close>
  are parameters as before. A blob of the caller that receives data is a blob of its capacity.
\<close>

abbreviation (input) HKS_MSG_GEN_KEY :: u32 where "HKS_MSG_GEN_KEY \<equiv> 0"
abbreviation (input) HKS_MSG_IMPORT_KEY :: u32 where "HKS_MSG_IMPORT_KEY \<equiv> 1"
abbreviation (input) HKS_MSG_EXPORT_PUBLIC_KEY :: u32 where "HKS_MSG_EXPORT_PUBLIC_KEY \<equiv> 2"
abbreviation (input) HKS_MSG_IMPORT_WRAPPED_KEY :: u32 where "HKS_MSG_IMPORT_WRAPPED_KEY \<equiv> 3"
abbreviation (input) HKS_MSG_DELETE_KEY :: u32 where "HKS_MSG_DELETE_KEY \<equiv> 4"
abbreviation (input) HKS_MSG_GET_KEY_PARAMSET :: u32 where "HKS_MSG_GET_KEY_PARAMSET \<equiv> 5"
abbreviation (input) HKS_MSG_KEY_EXIST :: u32 where "HKS_MSG_KEY_EXIST \<equiv> 6"
abbreviation (input) HKS_MSG_GENERATE_RANDOM :: u32 where "HKS_MSG_GENERATE_RANDOM \<equiv> 7"
abbreviation (input) HKS_MSG_AGREE_KEY :: u32 where "HKS_MSG_AGREE_KEY \<equiv> 12"
abbreviation (input) HKS_MSG_DERIVE_KEY :: u32 where "HKS_MSG_DERIVE_KEY \<equiv> 13"
abbreviation (input) HKS_MSG_GET_KEY_INFO_LIST :: u32 where "HKS_MSG_GET_KEY_INFO_LIST \<equiv> 15"
abbreviation (input) HKS_MSG_ATTEST_KEY :: u32 where "HKS_MSG_ATTEST_KEY \<equiv> 16"
abbreviation (input) HKS_MSG_INIT :: u32 where "HKS_MSG_INIT \<equiv> 18"
abbreviation (input) HKS_MSG_UPDATE :: u32 where "HKS_MSG_UPDATE \<equiv> 19"
abbreviation (input) HKS_MSG_FINISH :: u32 where "HKS_MSG_FINISH \<equiv> 20"
abbreviation (input) HKS_MSG_ABORT :: u32 where "HKS_MSG_ABORT \<equiv> 21"
abbreviation (input) HKS_MSG_CHIPSET_PLATFORM_DECRYPT :: u32 where "HKS_MSG_CHIPSET_PLATFORM_DECRYPT \<equiv> 22"
abbreviation (input) HKS_MSG_ATTEST_KEY_ASYNC_REPLY :: u32 where "HKS_MSG_ATTEST_KEY_ASYNC_REPLY \<equiv> 23"
abbreviation (input) HKS_MSG_LIST_ALIASES :: u32 where "HKS_MSG_LIST_ALIASES \<equiv> 24"
abbreviation (input) HKS_AE_TAG_LEN :: u32 where "HKS_AE_TAG_LEN \<equiv> 16"
abbreviation (input) HANDLE_SIZE :: u32 where "HANDLE_SIZE \<equiv> 8"
abbreviation (input) TOKEN_SIZE :: u32 where "TOKEN_SIZE \<equiv> 32"

section \<open>Requests about keys\<close>

text \<open>Allocating the request and running the rest of the function with the zeroed buffer.\<close>

definition with_request :: "allocator \<Rightarrow> nat \<Rightarrow> (HksBlob \<Rightarrow> 'a res) \<Rightarrow> 'a res" where
  "with_request alloc n k =
     (let sz = word_of_nat n in
      if \<not> HksMalloc alloc (unat sz) then Inl HKS_ERROR_MALLOC_FAIL else k (ipc_buffer sz))"

definition BuildParamSetNotNull :: "allocator \<Rightarrow> HksParamSet ptr \<Rightarrow> HksParamSet res" where
  "BuildParamSetNotNull alloc paramSetIn =
     (let ret = (case paramSetIn of NULL \<Rightarrow> HKS_SUCCESS | Some ps \<Rightarrow> HksCheckParamSet (Some ps) (paramSetSize ps)) in
      if_not_succ_return ret (Inl ret)
        (try_res (HksInitParamSet alloc) (\<lambda>tmpParamSet.
         (case (case paramSetIn of NULL \<Rightarrow> (HKS_SUCCESS, Some tmpParamSet)
                | Some ps \<Rightarrow> HksAddParams (Some tmpParamSet) (Some (params ps))) of
            (ret, tmpParamSet) \<Rightarrow> if_not_succ_return ret (Inl ret) (HksBuildParamSet alloc tmpParamSet)))))"

definition set_as_blob :: "addressing \<Rightarrow> HksParamSet \<Rightarrow> HksBlob" where
  "set_as_blob addr ps = \<lparr>blob_size = paramSetSize ps, blob_data = Some (param_set_bytes (addr ps) ps)\<rparr>"

definition HksClientGenerateKey ::
    "addressing \<Rightarrow> allocator \<Rightarrow> sender \<Rightarrow> HksBlob ptr \<Rightarrow> HksParamSet ptr \<Rightarrow> HksParamSet ptr
     \<Rightarrow> HksParamSet ptr res" where
  "HksClientGenerateKey addr alloc HksSendRequest keyAlias paramSetIn paramSetOut =
     (let ret = HksCheckIpcGenerateKey keyAlias paramSetIn in
      if_not_succ_return ret (Inl ret)
        (with_request alloc (blob_space (the keyAlias) + set_space (the paramSetIn) + 4) (\<lambda>inBlob.
           let outBlob = (case paramSetOut of NULL \<Rightarrow> null_blob | Some ps \<Rightarrow> set_as_blob addr ps) in
           try_res (HksGenerateKeyPack addr inBlob (the keyAlias) (the paramSetIn) outBlob) (\<lambda>inBlob.
           try_res (HksSendRequest HKS_MSG_GEN_KEY inBlob (Some outBlob) paramSetIn) (\<lambda>outBlob.
           (case paramSetOut of NULL \<Rightarrow> Inr NULL
            | Some _ \<Rightarrow> try_res (HksFreshParamSet (Some (param_set_at (blob_bytes outBlob))) False)
                (\<lambda>fresh. Inr (Some fresh))))))))"

definition HksClientImportKey ::
    "addressing \<Rightarrow> allocator \<Rightarrow> sender \<Rightarrow> HksBlob ptr \<Rightarrow> HksParamSet ptr \<Rightarrow> HksBlob ptr \<Rightarrow> HksBlob res" where
  "HksClientImportKey addr alloc HksSendRequest keyAlias paramSet key =
     (let ret = HksCheckIpcImportKey keyAlias paramSet key in
      if_not_succ_return ret (Inl ret)
        (with_request alloc (blob_space (the keyAlias) + set_space (the paramSet) + blob_space (the key))
          (\<lambda>inBlob.
           try_res (HksImportKeyPack addr inBlob (the keyAlias) (the paramSet) (the key)) (\<lambda>inBlob.
           HksSendRequest HKS_MSG_IMPORT_KEY inBlob NULL paramSet))))"

definition HksClientExportPublicKey ::
    "addressing \<Rightarrow> allocator \<Rightarrow> sender \<Rightarrow> HksBlob ptr \<Rightarrow> HksParamSet ptr \<Rightarrow> HksBlob ptr \<Rightarrow> HksBlob res" where
  "HksClientExportPublicKey addr alloc HksSendRequest keyAlias paramSet key =
     try_res (BuildParamSetNotNull alloc paramSet) (\<lambda>newParamSet.
     (let ret = HksCheckIpcExportPublicKey keyAlias (Some newParamSet) key in
      if_not_succ_return ret (Inl ret)
        (with_request alloc (blob_space (the keyAlias) + 4 + set_space newParamSet) (\<lambda>inBlob.
           try_res (HksExportPublicKeyPack addr (the keyAlias) newParamSet (the key) inBlob) (\<lambda>inBlob.
           HksSendRequest HKS_MSG_EXPORT_PUBLIC_KEY inBlob key (Some newParamSet))))))"

definition HksClientImportWrappedKey ::
    "addressing \<Rightarrow> allocator \<Rightarrow> sender \<Rightarrow> HksBlob ptr \<Rightarrow> HksBlob ptr \<Rightarrow> HksParamSet ptr \<Rightarrow> HksBlob ptr
     \<Rightarrow> HksBlob res" where
  "HksClientImportWrappedKey addr alloc HksSendRequest keyAlias wrappingKeyAlias paramSet wrappedKeyData =
     (let ret = HksCheckIpcImportWrappedKey keyAlias wrappingKeyAlias paramSet wrappedKeyData in
      if_not_succ_return ret (Inl ret)
        (with_request alloc (blob_space (the keyAlias) + blob_space (the wrappingKeyAlias)
            + set_space (the paramSet) + blob_space (the wrappedKeyData)) (\<lambda>inBlob.
           try_res (HksImportWrappedKeyPack addr inBlob (the keyAlias) (the wrappingKeyAlias)
             (the paramSet) (the wrappedKeyData)) (\<lambda>inBlob.
           HksSendRequest HKS_MSG_IMPORT_WRAPPED_KEY inBlob NULL paramSet))))"

definition HksClientDeleteKey ::
    "addressing \<Rightarrow> allocator \<Rightarrow> sender \<Rightarrow> HksBlob ptr \<Rightarrow> HksParamSet ptr \<Rightarrow> HksBlob res" where
  "HksClientDeleteKey addr alloc HksSendRequest keyAlias paramSet =
     try_res (BuildParamSetNotNull alloc paramSet) (\<lambda>newParamSet.
     (let ret = HksCheckIpcDeleteKey keyAlias (Some newParamSet) in
      if_not_succ_return ret (Inl ret)
        (with_request alloc (blob_space (the keyAlias) + set_space newParamSet) (\<lambda>inBlob.
           try_res (HksDeleteKeyPack addr (the keyAlias) newParamSet inBlob) (\<lambda>inBlob.
           HksSendRequest HKS_MSG_DELETE_KEY inBlob NULL (Some newParamSet))))))"

definition HksClientGetKeyParamSet ::
    "addressing \<Rightarrow> allocator \<Rightarrow> sender \<Rightarrow> HksBlob ptr \<Rightarrow> HksParamSet ptr \<Rightarrow> HksParamSet
     \<Rightarrow> HksParamSet res" where
  "HksClientGetKeyParamSet addr alloc HksSendRequest keyAlias paramSetIn paramSetOut =
     try_res (BuildParamSetNotNull alloc paramSetIn) (\<lambda>newParamSet.
     (let ret = HksCheckIpcGetKeyParamSet keyAlias (Some newParamSet) paramSetOut in
      if_not_succ_return ret (Inl ret)
        (with_request alloc (blob_space (the keyAlias) + 4 + set_space newParamSet) (\<lambda>inBlob.
           try_res (HksGetKeyParamSetPack addr (the keyAlias) newParamSet (set_as_blob addr paramSetOut) inBlob)
             (\<lambda>inBlob.
           try_res (HksSendRequest HKS_MSG_GET_KEY_PARAMSET inBlob (Some (set_as_blob addr paramSetOut))
             (Some newParamSet)) (\<lambda>outBlob.
           HksFreshParamSet (Some (param_set_at (blob_bytes outBlob))) False))))))"

definition HksClientKeyExist ::
    "addressing \<Rightarrow> allocator \<Rightarrow> sender \<Rightarrow> HksBlob ptr \<Rightarrow> HksParamSet ptr \<Rightarrow> HksBlob res" where
  "HksClientKeyExist addr alloc HksSendRequest keyAlias paramSet =
     try_res (BuildParamSetNotNull alloc paramSet) (\<lambda>newParamSet.
     (let ret = HksCheckIpcKeyExist keyAlias (Some newParamSet) in
      if_not_succ_return ret (Inl ret)
        (with_request alloc (blob_space (the keyAlias) + set_space newParamSet) (\<lambda>inBlob.
           try_res (HksKeyExistPack addr (the keyAlias) newParamSet inBlob) (\<lambda>inBlob.
           HksSendRequest HKS_MSG_KEY_EXIST inBlob NULL (Some newParamSet))))))"

definition HksClientGenerateRandom :: "sender \<Rightarrow> HksBlob ptr \<Rightarrow> HksParamSet ptr \<Rightarrow> HksBlob res" where
  "HksClientGenerateRandom HksSendRequest random paramSet =
     if_not_succ_return (CheckBlob random) (Inl HKS_ERROR_INVALID_ARGUMENT)
       (HksSendRequest HKS_MSG_GENERATE_RANDOM
          \<lparr>blob_size = 4, blob_data = Some (to_le 4 (blob_size (the random)))\<rparr> random paramSet)"

section \<open>Operations on data\<close>

text \<open>
  The answer gives the caller's buffer its new size. \<open>HksSliceDataEntry\<close> works on copies of the two
  blobs, which share the data.
\<close>

definition HksClientSign ::
    "addressing \<Rightarrow> allocator \<Rightarrow> sender \<Rightarrow> HksBlob ptr \<Rightarrow> HksParamSet ptr \<Rightarrow> HksBlob ptr \<Rightarrow> HksBlob ptr
     \<Rightarrow> HksBlob res" where
  "HksClientSign addr alloc HksSendRequest key paramSet srcData signature =
     (let ret = HksCheckBlob3AndParamSet key srcData signature paramSet in
      if_not_succ_return ret (Inl ret)
        (HksSliceDataEntry addr alloc HksSendRequest HKS_MSG_SIGN (the key) (the paramSet)
          (the srcData) (the signature)))"

definition HksClientVerify ::
    "addressing \<Rightarrow> allocator \<Rightarrow> sender \<Rightarrow> HksBlob ptr \<Rightarrow> HksParamSet ptr \<Rightarrow> HksBlob ptr \<Rightarrow> HksBlob ptr
     \<Rightarrow> HksBlob res" where
  "HksClientVerify addr alloc HksSendRequest key paramSet srcData signature =
     (let ret = HksCheckBlob3AndParamSet key srcData signature paramSet in
      if_not_succ_return ret (Inl ret)
        (HksSliceDataEntry addr alloc HksSendRequest HKS_MSG_VERIFY (the key) (the paramSet)
          (the srcData) (the signature)))"

definition HksClientMac ::
    "addressing \<Rightarrow> allocator \<Rightarrow> sender \<Rightarrow> HksBlob ptr \<Rightarrow> HksParamSet ptr \<Rightarrow> HksBlob ptr \<Rightarrow> HksBlob ptr
     \<Rightarrow> HksBlob res" where
  "HksClientMac addr alloc HksSendRequest key paramSet srcData mac =
     (let ret = HksCheckBlob3AndParamSet key srcData mac paramSet in
      if_not_succ_return ret (Inl ret)
        (HksSliceDataEntry addr alloc HksSendRequest HKS_MSG_MAC (the key) (the paramSet)
          (the srcData) (the mac)))"

definition AddAeTag :: "HksParamSet ptr \<Rightarrow> HksBlob \<Rightarrow> bool \<Rightarrow> rc \<times> HksParamSet ptr" where
  "AddAeTag paramSet inText isEncrypt =
     (let payload = [\<lparr>p_tag = HKS_TAG_PAYLOAD_LEN, p_val = VUint (blob_size inText)\<rparr>] in
      if isEncrypt then HksAddParams paramSet (Some payload)
      else if blob_size inText \<le> HKS_AE_TAG_LEN then (HKS_ERROR_INVALID_ARGUMENT, paramSet)
      else
        (let tagData = drop (unat (blob_size inText - HKS_AE_TAG_LEN)) (blob_bytes inText);
             aeParam = \<lparr>p_tag = HKS_TAG_AE_TAG,
               p_val = VBlob \<lparr>blob_size = HKS_AE_TAG_LEN, blob_data = Some tagData\<rparr>\<rparr> in
         case HksAddParams paramSet (Some [aeParam]) of
           (ret, paramSet) \<Rightarrow>
             if ret \<noteq> HKS_SUCCESS then (ret, paramSet) else HksAddParams paramSet (Some payload)))"

definition AddAesTag :: "HksParamSet ptr \<Rightarrow> HksParamSet ptr \<Rightarrow> HksBlob \<Rightarrow> bool \<Rightarrow> rc \<times> HksParamSet ptr" where
  "AddAesTag paramSet newParamSet inText isEncrypt =
     (case HksCheckAesAeMode paramSet False of
        Inl ret \<Rightarrow> (ret, newParamSet)
      | Inr (isAes, isAeMode) \<Rightarrow>
          if \<not> isAes \<or> \<not> isAeMode then (HKS_SUCCESS, newParamSet)
          else AddAeTag newParamSet inText isEncrypt)"

definition AppendToNewParamSet :: "allocator \<Rightarrow> HksParamSet \<Rightarrow> HksParamSet ptr res" where
  "AppendToNewParamSet alloc paramSet =
     try_res (HksInitParamSet alloc) (\<lambda>newParamSet.
     (case HksAddParams (Some newParamSet) (Some (params paramSet)) of
        (ret, newParamSet) \<Rightarrow> if_not_succ_return ret (Inl ret) (Inr newParamSet)))"

definition AppendCipherTag :: "allocator \<Rightarrow> HksParamSet \<Rightarrow> HksBlob \<Rightarrow> bool \<Rightarrow> HksParamSet res" where
  "AppendCipherTag alloc paramSet inText isEncrypt =
     try_res (AppendToNewParamSet alloc paramSet) (\<lambda>newParamSet.
     (case AddAesTag (Some paramSet) newParamSet inText isEncrypt of
        (ret, newParamSet) \<Rightarrow> if_not_succ_return ret (Inl ret) (HksBuildParamSet alloc newParamSet)))"

definition HksClientEncrypt ::
    "addressing \<Rightarrow> allocator \<Rightarrow> sender \<Rightarrow> HksBlob ptr \<Rightarrow> HksParamSet ptr \<Rightarrow> HksBlob ptr \<Rightarrow> HksBlob ptr
     \<Rightarrow> HksBlob res" where
  "HksClientEncrypt addr alloc HksSendRequest key paramSet plainText cipherText =
     (let ret = HksCheckBlob3AndParamSet key plainText cipherText paramSet in
      if_not_succ_return ret (Inl ret)
        (try_res (AppendCipherTag alloc (the paramSet) (the plainText) True) (\<lambda>newParamSet.
         HksSliceDataEntry addr alloc HksSendRequest HKS_MSG_ENCRYPT (the key) newParamSet
          (the plainText) (the cipherText))))"

definition HksClientDecrypt ::
    "addressing \<Rightarrow> allocator \<Rightarrow> sender \<Rightarrow> HksBlob ptr \<Rightarrow> HksParamSet ptr \<Rightarrow> HksBlob ptr \<Rightarrow> HksBlob ptr
     \<Rightarrow> HksBlob res" where
  "HksClientDecrypt addr alloc HksSendRequest key paramSet cipherText plainText =
     (let ret = HksCheckBlob3AndParamSet key plainText cipherText paramSet in
      if_not_succ_return ret (Inl ret)
        (try_res (AppendCipherTag alloc (the paramSet) (the cipherText) False) (\<lambda>newParamSet.
         HksSliceDataEntry addr alloc HksSendRequest HKS_MSG_DECRYPT (the key) newParamSet
          (the cipherText) (the plainText))))"

definition HksClientAgreeKey ::
    "addressing \<Rightarrow> allocator \<Rightarrow> sender \<Rightarrow> HksParamSet ptr \<Rightarrow> HksBlob ptr \<Rightarrow> HksBlob ptr \<Rightarrow> HksBlob ptr
     \<Rightarrow> HksBlob res" where
  "HksClientAgreeKey addr alloc HksSendRequest paramSet privateKey peerPublicKey agreedKey =
     (let ret = HksCheckIpcAgreeKey paramSet privateKey peerPublicKey agreedKey in
      if_not_succ_return ret (Inl ret)
        (with_request alloc (set_space (the paramSet) + blob_space (the privateKey)
            + blob_space (the peerPublicKey) + 4) (\<lambda>inBlob.
           try_res (HksAgreeKeyPack addr inBlob (the paramSet) (the privateKey) (the peerPublicKey)
             (the agreedKey)) (\<lambda>inBlob.
           HksSendRequest HKS_MSG_AGREE_KEY inBlob agreedKey paramSet))))"

definition HksClientDeriveKey ::
    "addressing \<Rightarrow> allocator \<Rightarrow> sender \<Rightarrow> HksParamSet ptr \<Rightarrow> HksBlob ptr \<Rightarrow> HksBlob ptr \<Rightarrow> HksBlob res" where
  "HksClientDeriveKey addr alloc HksSendRequest paramSet mainKey derivedKey =
     (let ret = HksCheckIpcDeriveKey paramSet mainKey derivedKey in
      if_not_succ_return ret (Inl ret)
        (with_request alloc (set_space (the paramSet) + blob_space (the mainKey) + 4) (\<lambda>inBlob.
           try_res (HksDeriveKeyPack addr inBlob (the paramSet) (the mainKey) (the derivedKey)) (\<lambda>inBlob.
           HksSendRequest HKS_MSG_DERIVE_KEY inBlob derivedKey paramSet))))"

section \<open>Requests with lists in the answer\<close>

text \<open>The code, the caller's count and the elements that are complete.\<close>

definition HksClientGetKeyInfoList ::
    "addressing \<Rightarrow> allocator \<Rightarrow> sender \<Rightarrow> HksParamSet ptr \<Rightarrow> HksKeyInfo list \<Rightarrow> u32
     \<Rightarrow> rc \<times> u32 \<times> HksKeyInfo list" where
  "HksClientGetKeyInfoList addr alloc HksSendRequest paramSet keyInfoList listCount =
     (let kis = take (unat listCount) keyInfoList;
          inSize = (\<lambda>ps. word_of_nat (4 + 8 * unat listCount + set_space ps) :: u32);
          outSize = foldl (\<lambda>sz ki. sz + (4 + ALIGN_SIZE (blob_size (ki_alias ki))
            + ALIGN_SIZE (paramSetSize (the (ki_paramSet ki))))) 4 kis;
          answer =
            try_res (BuildParamSetNotNull alloc paramSet) (\<lambda>newParamSet.
            (let ret = HksCheckIpcGetKeyInfoList keyInfoList newParamSet listCount in
             if_not_succ_return ret (Inl ret)
               (if \<not> HksMalloc alloc (unat (inSize newParamSet)) \<or> \<not> HksMalloc alloc (unat outSize)
                then Inl HKS_ERROR_MALLOC_FAIL
                else
                  try_res (HksGetKeyInfoListPack addr newParamSet keyInfoList
                    (ipc_buffer (inSize newParamSet)) listCount) (\<lambda>inBlob.
                  HksSendRequest HKS_MSG_GET_KEY_INFO_LIST inBlob (Some (ipc_buffer outSize))
                    (Some newParamSet))))) in
      case answer of
        Inl ret \<Rightarrow> (ret, listCount, [])
      | Inr outBlob \<Rightarrow> HksGetKeyInfoListUnpackFromService addr outBlob listCount keyInfoList)"

definition CertificateChainInitBlob ::
    "allocator \<Rightarrow> HksBlob \<Rightarrow> HksParamSet \<Rightarrow> HksCertChain \<Rightarrow> (HksBlob \<times> HksBlob) res" where
  "CertificateChainInitBlob alloc keyAlias paramSet certChain =
     (let ret = HksCheckIpcCertificateChain keyAlias paramSet certChain in
      if_not_succ_return ret (Inl ret)
        (let cs = take (unat (certsCount certChain)) (the (certs certChain));
             certBufSize = foldl (\<lambda>sz c. sz + (4 + ALIGN_SIZE (blob_size c))) 4 cs in
         with_request alloc (blob_space keyAlias + set_space paramSet + 4) (\<lambda>inBlob.
           if \<not> HksMalloc alloc (unat certBufSize) then Inl HKS_ERROR_MALLOC_FAIL
           else Inr (inBlob, ipc_buffer certBufSize))))"

definition HksClientAttestKey ::
    "addressing \<Rightarrow> allocator \<Rightarrow> sender \<Rightarrow> HksBlob \<Rightarrow> HksParamSet \<Rightarrow> HksCertChain \<Rightarrow> bool
     \<Rightarrow> HksCertChain res" where
  "HksClientAttestKey addr alloc HksSendRequest keyAlias paramSet certChain needAnonCertChain =
     try_res (CertificateChainInitBlob alloc keyAlias paramSet certChain) (\<lambda>(inBlob, outBlob).
     (let isBase64 = (case HksGetParam (Some paramSet) HKS_TAG_ATTESTATION_BASE64 of
            Inr isBase64Param \<Rightarrow> boolParam (p_val isBase64Param)
          | Inl _ \<Rightarrow> False) in
      try_res (HksCertificateChainPack addr inBlob keyAlias paramSet outBlob) (\<lambda>inBlob.
      try_res (HksSendRequest
          (if needAnonCertChain then HKS_MSG_ATTEST_KEY_ASYNC_REPLY else HKS_MSG_ATTEST_KEY)
          inBlob (Some outBlob) (Some paramSet)) (\<lambda>outBlob.
      HksCertificateChainUnpackFromService alloc outBlob isBase64 certChain))))"

definition ListAliasesInitBlob :: "allocator \<Rightarrow> HksParamSet \<Rightarrow> (HksBlob \<times> HksBlob) res" where
  "ListAliasesInitBlob alloc paramSet =
     with_request alloc (set_space paramSet) (\<lambda>inBlob.
       with_request alloc (4 + unat HKS_MAX_KEY_ALIAS_COUNT * unat HKS_MAX_KEY_ALIAS_LEN) (\<lambda>outBlob.
       Inr (inBlob, outBlob)))"

definition HksClientListAliases ::
    "addressing \<Rightarrow> allocator \<Rightarrow> sender \<Rightarrow> HksParamSet \<Rightarrow> HksKeyAliasSet ptr res" where
  "HksClientListAliases addr alloc HksSendRequest paramSet =
     (let ret = HksCheckIpcListAliases paramSet in
      if_not_succ_return ret (Inl ret)
        (try_res (ListAliasesInitBlob alloc paramSet) (\<lambda>(inBlob, outBlob).
         try_res (HksListAliasesPack addr paramSet inBlob) (\<lambda>inBlob.
         try_res (HksSendRequest HKS_MSG_LIST_ALIASES inBlob (Some outBlob) (Some paramSet)) (\<lambda>outBlob.
         HksListAliasesUnpackFromService alloc outBlob)))))"

section \<open>Operations of several calls\<close>

text \<open>\<open>data\<close> are the bytes a pointer sees, \<open>out\<close> the caller's blob with its capacity.\<close>

definition CopyData :: "bytes \<Rightarrow> u32 \<Rightarrow> HksBlob \<Rightarrow> HksBlob res" where
  "CopyData data sz out =
     (if sz = 0 then Inr (out\<lparr>blob_size := 0\<rparr>)
      else if blob_size out < sz then Inl HKS_ERROR_BUFFER_TOO_SMALL
      else Inr ((snd (memcpy_to out 0 (blob_size out) (Some data) (unat sz)))\<lparr>blob_size := sz\<rparr>))"

definition ClientInit ::
    "allocator \<Rightarrow> sender \<Rightarrow> HksBlob \<Rightarrow> HksParamSet \<Rightarrow> HksBlob \<Rightarrow> HksBlob ptr
     \<Rightarrow> (HksBlob \<times> HksBlob ptr) res" where
  "ClientInit alloc HksSendRequest inData paramSet handle token =
     (if \<not> HksMalloc alloc (unat (HANDLE_SIZE + TOKEN_SIZE)) then Inl HKS_ERROR_MALLOC_FAIL
      else
        try_res (HksSendRequest HKS_MSG_INIT inData (Some (ipc_buffer (HANDLE_SIZE + TOKEN_SIZE)))
          (Some paramSet)) (\<lambda>outBlob.
        if blob_size outBlob < HANDLE_SIZE then Inl HKS_ERROR_INSUFFICIENT_MEMORY
        else
          try_res (CopyData (blob_bytes outBlob) HANDLE_SIZE handle) (\<lambda>handle.
          (case token of NULL \<Rightarrow> Inr (handle, NULL)
           | Some t \<Rightarrow>
               if blob_size outBlob < HANDLE_SIZE + TOKEN_SIZE
               then Inr (handle, Some (t\<lparr>blob_size := 0\<rparr>))
               else if blob_size t < TOKEN_SIZE then Inl HKS_ERROR_BUFFER_TOO_SMALL
               else try_res (CopyData (at outBlob HANDLE_SIZE) TOKEN_SIZE t) (\<lambda>t.
                 Inr (handle, Some t))))))"

definition HksClientInit ::
    "addressing \<Rightarrow> allocator \<Rightarrow> sender \<Rightarrow> HksBlob \<Rightarrow> HksParamSet \<Rightarrow> HksBlob \<Rightarrow> HksBlob ptr
     \<Rightarrow> (HksBlob \<times> HksBlob ptr) res" where
  "HksClientInit addr alloc HksSendRequest keyAlias paramSet handle token =
     try_res (HksParamsToParamSet alloc
       [\<lparr>p_tag = HKS_TAG_PARAM0_BUFFER, p_val = VBlob keyAlias\<rparr>,
        \<lparr>p_tag = HKS_TAG_PARAM1_BUFFER, p_val = VBlob (set_as_blob addr paramSet)\<rparr>]) (\<lambda>sendParamSet.
     ClientInit alloc HksSendRequest (set_as_blob addr sendParamSet) paramSet handle token)"

text \<open>The parameters that \<open>HksClientUpdate\<close> and \<open>HksClientFinish\<close> send.\<close>

definition update_params :: "addressing \<Rightarrow> HksBlob \<Rightarrow> HksParamSet \<Rightarrow> HksBlob \<Rightarrow> HksParam list" where
  "update_params addr handle paramSet inData =
     [\<lparr>p_tag = HKS_TAG_PARAM0_BUFFER, p_val = VBlob (set_as_blob addr paramSet)\<rparr>,
      \<lparr>p_tag = HKS_TAG_PARAM1_BUFFER, p_val = VBlob handle\<rparr>,
      \<lparr>p_tag = HKS_TAG_PARAM2_BUFFER, p_val = VBlob inData\<rparr>]"

definition HksClientUpdate ::
    "addressing \<Rightarrow> allocator \<Rightarrow> sender \<Rightarrow> HksBlob \<Rightarrow> HksParamSet \<Rightarrow> HksBlob \<Rightarrow> HksBlob ptr
     \<Rightarrow> HksBlob res" where
  "HksClientUpdate addr alloc HksSendRequest handle paramSet inData outData =
     try_res (HksParamsToParamSet alloc (update_params addr handle paramSet inData)) (\<lambda>sendParamSet.
     HksSendRequest HKS_MSG_UPDATE (set_as_blob addr sendParamSet) outData (Some paramSet))"

definition HksClientFinish ::
    "addressing \<Rightarrow> allocator \<Rightarrow> sender \<Rightarrow> HksBlob \<Rightarrow> HksParamSet \<Rightarrow> HksBlob \<Rightarrow> HksBlob ptr
     \<Rightarrow> HksBlob res" where
  "HksClientFinish addr alloc HksSendRequest handle paramSet inData outData =
     try_res (HksParamsToParamSet alloc (update_params addr handle paramSet inData)) (\<lambda>sendParamSet.
     HksSendRequest HKS_MSG_FINISH (set_as_blob addr sendParamSet) outData (Some paramSet))"

definition HksClientAbort ::
    "addressing \<Rightarrow> allocator \<Rightarrow> sender \<Rightarrow> HksBlob \<Rightarrow> HksParamSet \<Rightarrow> HksBlob res" where
  "HksClientAbort addr alloc HksSendRequest handle paramSet =
     try_res (HksParamsToParamSet alloc
       [\<lparr>p_tag = HKS_TAG_PARAM0_BUFFER, p_val = VBlob (set_as_blob addr paramSet)\<rparr>,
        \<lparr>p_tag = HKS_TAG_PARAM1_BUFFER, p_val = VBlob handle\<rparr>]) (\<lambda>sendParamSet.
     HksSendRequest HKS_MSG_ABORT (set_as_blob addr sendParamSet) NULL (Some paramSet))"

definition HksClientExportChipsetPlatformPublicKey ::
    "addressing \<Rightarrow> allocator \<Rightarrow> sender \<Rightarrow> HksBlob \<Rightarrow> u32 \<Rightarrow> HksBlob ptr \<Rightarrow> HksBlob res" where
  "HksClientExportChipsetPlatformPublicKey addr alloc HksSendRequest salt scene publicKey =
     try_res (HksParamsToParamSet alloc
       [\<lparr>p_tag = HKS_TAG_PARAM0_BUFFER, p_val = VBlob salt\<rparr>,
        \<lparr>p_tag = HKS_TAG_PARAM1_UINT32, p_val = VUint scene\<rparr>]) (\<lambda>sendParamSet.
     HksSendRequest HKS_MSG_CHIPSET_PLATFORM_DECRYPT (set_as_blob addr sendParamSet) publicKey NULL)"

end
