(* ===== verification/Huks_Ipc_Laws.thy ===== *)
theory Huks_Ipc_Laws
  imports Huks_Ipc_Wire Huks_Ipc_Client
begin

text \<open>
  Requests as lists of fields: every pack function of the client writes such a list, and a reader at the
  end of the fields read so far gets the next one.
\<close>

section \<open>Sizes in words\<close>

lemma ALIGN_SIZE_align: "unat n + 3 < 2 ^ 32 \<Longrightarrow> ALIGN_SIZE n = word_of_nat (align (unat n))"
  using unat_ALIGN_SIZE [of n] unat_u32_of_nat [of "align (unat n)"] u32_bound [of "ALIGN_SIZE n"]
  by (simp add: word_unat_eq_iff del: u32_bound)

lemma overflow_nat: "unat b = k \<Longrightarrow> IsAdditionOverflow a b \<longleftrightarrow> \<not> unat a + k < 2 ^ 32"
  by (auto simp: IsAdditionOverflow_iff)

section \<open>Packing lists of fields\<close>

fun copy_all :: "addressing \<Rightarrow> field list \<Rightarrow> HksBlob \<Rightarrow> u32 \<Rightarrow> (HksBlob \<times> u32) res" where
  "copy_all addr [] buf off = Inr (buf, off)"
| "copy_all addr (f # fs) buf off = try_res (copy addr f buf off) (\<lambda>(buf, off). copy_all addr fs buf off)"

abbreviation wire_length :: "field list \<Rightarrow> nat" where
  "wire_length fs \<equiv> sum_list (map field_length fs)"

lemma length_wire: "list_all wf_field fs \<Longrightarrow> length (wire addr fs) = wire_length fs"
  by (induction fs) (auto simp: length_field_bytes)

lemma copy_all_filled:
  assumes "list_all wf_field fs" "length pre + wire_length fs \<le> unat n" "unat off = length pre"
  shows "\<exists>off'. copy_all addr fs (filled pre n) off = Inr (filled (pre @ wire addr fs) n, off')
    \<and> unat off' = length pre + wire_length fs"
  using assms
proof (induction fs arbitrary: pre off)
  case Nil
  then show ?case by simp
next
  case (Cons f fs)
  have wf: "wf_field f" and room: "length pre + field_length f \<le> unat n"
    using Cons.prems by auto
  obtain off1 where 1: "copy addr f (filled pre n) off = Inr (filled (pre @ field_bytes addr f) n, off1)"
    "unat off1 = length (pre @ field_bytes addr f)"
    using copy_field [OF room Cons.prems(3) wf] by blast
  have len: "length (field_bytes addr f) = field_length f"
    using length_field_bytes [OF wf] .
  have "length (pre @ field_bytes addr f) + wire_length fs \<le> unat n" "list_all wf_field fs"
    using Cons.prems len by simp_all
  from Cons.IH [OF this(2,1) 1(2)] show ?case
    using 1(1) len by auto
qed

text \<open>The request that a client packs into a buffer of exactly the space of its fields.\<close>

definition request :: "addressing \<Rightarrow> field list \<Rightarrow> HksBlob" where
  "request addr fs = \<lparr>blob_size = word_of_nat (wire_length fs), blob_data = Some (wire addr fs)\<rparr>"

lemma ipc_buffer_filled: "ipc_buffer n = filled [] n"
  by (simp add: ipc_buffer_def filled_def)

lemma pack_request:
  assumes "list_all wf_field fs" "wire_length fs < 2 ^ 32"
  shows "\<exists>off. copy_all addr fs (ipc_buffer (word_of_nat (wire_length fs))) 0 = Inr (request addr fs, off)"
proof -
  have n: "unat (word_of_nat (wire_length fs) :: u32) = wire_length fs"
    using assms(2) by (simp add: unat_u32_of_nat)
  have "filled (wire addr fs) (word_of_nat (wire_length fs)) = request addr fs"
    using length_wire [OF assms(1)] n by (simp add: filled_def request_def)
  then show ?thesis
    using copy_all_filled [OF assms(1), of "[]" "word_of_nat (wire_length fs)" 0 addr] n
    by (auto simp: ipc_buffer_filled)
qed

lemma try_res_assoc: "try_res (try_res r f) g = try_res r (\<lambda>x. try_res (f x) g)"
  by (cases r) auto

lemma case_prod_try: "try_res (case p of (a, b) \<Rightarrow> f a b) g = (case p of (a, b) \<Rightarrow> try_res (f a b) g)"
  by (cases p) simp

lemma try_res_id [simp]: "try_res r Inr = r"
  by (cases r) auto

text \<open>Every pack function writes a list of fields.\<close>

lemmas pack_defs = HksGenerateKeyPack_def HksImportKeyPack_def HksImportWrappedKeyPack_def
  HksDeleteKeyPack_def HksExportPublicKeyPack_def HksGetKeyParamSetPack_def HksKeyExistPack_def
  HksAgreeKeyPack_def HksDeriveKeyPack_def HksCertificateChainPack_def HksListAliasesPack_def

definition pack_all :: "addressing \<Rightarrow> field list \<Rightarrow> HksBlob \<Rightarrow> HksBlob res" where
  "pack_all addr fs buf = try_res (copy_all addr fs buf 0) (\<lambda>(buf, off). Inr buf)"

lemma pack_fields:
  "HksGenerateKeyPack addr buf al ps out = pack_all addr [FBlob al, FSet ps, FNum (blob_size out)] buf"
  "HksImportKeyPack addr buf al ps k = pack_all addr [FBlob al, FSet ps, FBlob k] buf"
  "HksImportWrappedKeyPack addr buf al w ps k = pack_all addr [FBlob al, FBlob w, FSet ps, FBlob k] buf"
  "HksDeleteKeyPack addr al ps buf = pack_all addr [FBlob al, FSet ps] buf"
  "HksExportPublicKeyPack addr al ps k buf = pack_all addr [FBlob al, FNum (blob_size k), FSet ps] buf"
  "HksGetKeyParamSetPack addr al ps k buf = pack_all addr [FBlob al, FNum (blob_size k), FSet ps] buf"
  "HksKeyExistPack addr al ps buf = pack_all addr [FBlob al, FSet ps] buf"
  "HksAgreeKeyPack addr buf ps k p out = pack_all addr [FSet ps, FBlob k, FBlob p, FNum (blob_size out)] buf"
  "HksDeriveKeyPack addr buf ps k out = pack_all addr [FSet ps, FBlob k, FNum (blob_size out)] buf"
  "HksCertificateChainPack addr buf al ps out = pack_all addr [FBlob al, FSet ps, FNum (blob_size out)] buf"
  "HksListAliasesPack addr ps buf = pack_all addr [FSet ps] buf"
  by (simp_all add: pack_defs pack_all_def try_res_assoc case_prod_try case_prod_unfold)

lemma pack_all_request:
  assumes "list_all wf_field fs" "wire_length fs < 2 ^ 32" "n = word_of_nat (wire_length fs)"
  shows "pack_all addr fs (ipc_buffer n) = Inr (request addr fs)"
  using pack_request [OF assms(1,2), of addr] assms(3) by (auto simp: pack_all_def)

lemma slice_fields:
  "try_res (HksOnceParamPack addr buf k ps 0) (\<lambda>(buf, off). HksOnceDataPack buf inp (Some out) NULL off)
     = copy_all addr [FBlob k, FSet ps, FBlob inp, FBlob out] buf 0"
  "try_res (HksOnceParamPack addr buf k ps 0) (\<lambda>(buf, off). HksOnceDataPack buf inp NULL (Some out) off)
     = copy_all addr [FBlob k, FSet ps, FBlob inp, FNum (blob_size out)] buf 0"
  by (simp_all add: HksOnceParamPack_def HksOnceDataPack_def try_res_assoc case_prod_try case_prod_unfold)

section \<open>Reading lists of fields\<close>

text \<open>The source of a reader after the fields \<open>fs\<close>, with \<open>gs\<close> still to come.\<close>

definition reading :: "addressing \<Rightarrow> field list \<Rightarrow> field list \<Rightarrow> u32 \<Rightarrow> bool" where
  "reading addr fs gs off \<longleftrightarrow> list_all wf_field (fs @ gs) \<and> wire_length (fs @ gs) < 2 ^ 32
     \<and> unat off = wire_length fs"

lemma reading_start: "list_all wf_field gs \<Longrightarrow> wire_length gs < 2 ^ 32 \<Longrightarrow> reading addr [] gs 0"
  by (simp add: reading_def)

lemma request_size: "wire_length fs < 2 ^ 32 \<Longrightarrow> unat (blob_size (request addr fs)) = wire_length fs"
  by (simp add: request_def unat_u32_of_nat)

lemma reading_room:
  assumes "reading addr fs (g # gs) off"
  shows "blob_bytes (request addr (fs @ g # gs)) = wire addr fs @ field_bytes addr g @ wire addr gs"
    and "unat off = length (wire addr fs)"
    and "unat off + field_length g \<le> unat (blob_size (request addr (fs @ g # gs)))"
    and "wf_field g"
  using assms request_size [of "fs @ g # gs" addr] length_wire [of fs addr]
  by (auto simp: reading_def request_def blob_bytes_def)

lemma reading_next: "reading addr fs (g # gs) off \<Longrightarrow> unat off' = unat off + field_length g
    \<Longrightarrow> reading addr (fs @ [g]) gs off'"
  by (simp add: reading_def)

lemma reading_end: "reading addr fs gs off \<Longrightarrow>
    off = blob_size (request addr (fs @ gs)) \<longleftrightarrow> wire_length gs = 0"
  using request_size [of "fs @ gs" addr] by (auto simp: reading_def word_unat_eq_iff)

text \<open>Two blobs with the same contents.\<close>

definition same_blob :: "HksBlob \<Rightarrow> HksBlob \<Rightarrow> bool" where
  "same_blob x y \<longleftrightarrow> blob_size x = blob_size y \<and> unat (blob_size x) \<le> length (blob_bytes x)
     \<and> take (unat (blob_size x)) (blob_bytes x) = take (unat (blob_size y)) (blob_bytes y)"

lemma read_num:
  assumes "reading addr fs (FNum v # gs) off"
  shows "\<exists>off'. GetUint32FromBuffer (request addr (fs @ FNum v # gs)) off = Inr (v, off')
    \<and> reading addr (fs @ [FNum v]) gs off'"
  using get_num [of "request addr (fs @ FNum v # gs)" "wire addr fs" v "wire addr gs" off]
    reading_room [OF assms] reading_next [OF assms, of "off + 4"] by simp

lemma read_blob:
  assumes "reading addr fs (FBlob b # gs) off"
  shows "\<exists>b' off'. GetBlobFromBuffer (request addr (fs @ FBlob b # gs)) off = Inr (b', off')
    \<and> same_blob b' b \<and> blob_data b' \<noteq> NULL \<and> reading addr (fs @ [FBlob b]) gs off'"
proof -
  obtain off' d where "GetBlobFromBuffer (request addr (fs @ FBlob b # gs)) off
      = Inr (\<lparr>blob_size = blob_size b, blob_data = Some d\<rparr>, off')"
    "take (unat (blob_size b)) d = take (unat (blob_size b)) (blob_bytes b)" "unat (blob_size b) \<le> length d"
    "unat off' = unat off + field_length (FBlob b)"
    using get_blob [OF reading_room [OF assms]] by blast
  then show ?thesis
    using reading_next [OF assms] by (auto simp: same_blob_def blob_bytes_def)
qed

lemma read_set:
  assumes "reading addr fs (FSet ps # gs) off"
  shows "\<exists>rest off'. GetParamSetFromBuffer_service (request addr (fs @ FSet ps # gs)) off
      = Inr (received ps rest, off') \<and> reading addr (fs @ [FSet ps]) gs off'"
  using get_set [OF reading_room [OF assms]] reading_next [OF assms] by blast

end
