(* ===== verification/Huks_Ipc_Props.thy ===== *)
theory Huks_Ipc_Props
  imports Huks_Ipc_Laws
begin

text \<open>
  The properties of the serialization: what the service reads is what the client was given, and reading
  arbitrary bytes stays within them.
\<close>

section \<open>From the client's checks to fields\<close>

definition backed :: "HksBlob \<Rightarrow> bool" where
  "backed b \<longleftrightarrow> unat (blob_size b) \<le> length (blob_bytes b)"

lemma blob_field:
  assumes "CheckBlob (Some b) = 0" "backed b" "unat (blob_size b) + 3 < 2 ^ 32"
  shows "wf_field (FBlob b)" "field_length (FBlob b) = blob_space b"
  using assms unat_ALIGN_SIZE [OF assms(3)]
  by (auto simp: backed_def blob_bytes_def blob_space_def CheckBlob_0)

lemma not_too_big: "\<not> too_big b \<Longrightarrow> unat (blob_size b) + 3 < 2 ^ 32"
  by (simp add: too_big_def not_less word_le_nat_alt)

lemma set_field:
  assumes "flat ps" "HksCheckParamSetValidity (Some ps) = 0"
  shows "wf_field (FSet ps)" "field_length (FSet ps) = set_space ps"
proof -
  have chk: "HksCheckParamSet (Some ps) (paramSetSize ps) = 0"
    using assms(2) by (simp add: HksCheckParamSetValidity_def rc_simps)
  then show "wf_field (FSet ps)" using assms(1) by simp
  have "unat (paramSetSize ps) + 3 < 2 ^ 32"
    using set_size_bound [OF chk] by simp
  then show "field_length (FSet ps) = set_space ps"
    by (simp add: set_space_def unat_ALIGN_SIZE)
qed

lemma with_request_small:
  assumes "alloc n" "0 < n" "n \<le> 0xFC00"
  shows "with_request alloc n k = k (ipc_buffer (word_of_nat n))"
  using assms by (simp add: with_request_def HksMalloc_def unat_u32_of_nat)

text \<open>What the checks of the client imply.\<close>

lemma HksCheckBlob3AndParamSet_0:
  "HksCheckBlob3AndParamSet x y z ps = 0
    \<longleftrightarrow> CheckBlob x = 0 \<and> CheckBlob y = 0 \<and> CheckBlob z = 0 \<and> HksCheckParamSetValidity ps = 0"
  by (simp add: HksCheckBlob3AndParamSet_def HksCheckBlob3_def Let_def if_not_succ_return_def)

lemma check_import_wrapped:
  assumes "HksCheckIpcImportWrappedKey (Some al) (Some w) (Some ps) (Some d) = 0"
  shows "CheckBlob (Some al) = 0" "CheckBlob (Some w) = 0" "CheckBlob (Some d) = 0"
    "HksCheckParamSetValidity (Some ps) = 0" "\<not> too_big al" "\<not> too_big w" "\<not> too_big d"
    "blob_space al + blob_space w + set_space ps + blob_space d \<le> 0xFC00"
proof -
  let ?r = "HksCheckBlob3AndParamSet (Some al) (Some w) (Some d) (Some ps)"
  have r: "?r = 0"
    using assms by (cases "?r = 0") (simp_all add: HksCheckIpcImportWrappedKey_def Let_def if_not_succ_return_fail)
  then show "CheckBlob (Some al) = 0" "CheckBlob (Some w) = 0" "CheckBlob (Some d) = 0"
    "HksCheckParamSetValidity (Some ps) = 0" by (simp_all only: HksCheckBlob3AndParamSet_0)
  show "\<not> too_big al" "\<not> too_big w" "\<not> too_big d"
    "blob_space al + blob_space w + set_space ps + blob_space d \<le> 0xFC00"
    using assms r by (simp_all add: HksCheckIpcImportWrappedKey_def Let_def not_less split: if_splits)
qed

section \<open>Whole requests\<close>

lemma wrapped_unpacked:
  assumes "list_all wf_field [FBlob al, FBlob w, FSet ps, FBlob d]"
    "wire_length [FBlob al, FBlob w, FSet ps, FBlob d] < 2 ^ 32"
  shows "\<exists>al' w' d' rest. HksImportWrappedKeyUnpack (request addr [FBlob al, FBlob w, FSet ps, FBlob d])
    = Inr (al', w', received ps rest, d') \<and> same_blob al' al \<and> same_blob w' w \<and> same_blob d' d"
proof -
  obtain al' o1 where 1: "GetBlobFromBuffer (request addr [FBlob al, FBlob w, FSet ps, FBlob d]) 0 = Inr (al', o1)"
    "same_blob al' al" "reading addr [FBlob al] [FBlob w, FSet ps, FBlob d] o1"
    using read_blob [OF reading_start [OF assms, of addr]] by auto
  obtain w' o2 where 2: "GetBlobFromBuffer (request addr [FBlob al, FBlob w, FSet ps, FBlob d]) o1 = Inr (w', o2)"
    "same_blob w' w" "reading addr [FBlob al, FBlob w] [FSet ps, FBlob d] o2"
    using read_blob [OF 1(3)] by auto
  obtain rest o3 where 3: "GetParamSetFromBuffer_service (request addr [FBlob al, FBlob w, FSet ps, FBlob d]) o2
      = Inr (received ps rest, o3)" "reading addr [FBlob al, FBlob w, FSet ps] [FBlob d] o3"
    using read_set [OF 2(3)] by auto
  obtain d' o4 where 4: "GetBlobFromBuffer (request addr [FBlob al, FBlob w, FSet ps, FBlob d]) o3 = Inr (d', o4)"
    "same_blob d' d"
    using read_blob [OF 3(2)] by auto
  show ?thesis
    using 1 2 3 4 by (simp add: HksImportWrappedKeyUnpack_def GetBlobFromBuffer_service_def) blast
qed

text \<open>
  C27: An import of a wrapped key that passes the client's check is sent, and the service unpacks from
  the request the same key alias, the same alias of the wrapping key, the same wrapped key and the
  parameter set in the form of the receiver (\<open>received\<close>: every parameter with its value, blobs with
  their contents).
\<close>

theorem import_wrapped_roundtrip:
  assumes check: "HksCheckIpcImportWrappedKey (Some al) (Some w) (Some ps) (Some d) = 0"
    and flat: "flat ps" and backed: "backed al" "backed w" "backed d"
    and mem: "\<forall>n. alloc n"
  shows "\<exists>req al' w' d' rest.
    HksClientImportWrappedKey addr alloc HksSendRequest (Some al) (Some w) (Some ps) (Some d)
      = HksSendRequest 3 req NULL (Some ps)
    \<and> HksImportWrappedKeyUnpack req = Inr (al', w', received ps rest, d')
    \<and> same_blob al' al \<and> same_blob w' w \<and> same_blob d' d"
proof -
  let ?fs = "[FBlob al, FBlob w, FSet ps, FBlob d]"
  note c = check_import_wrapped [OF check]
  note fields = blob_field [OF c(1) backed(1) not_too_big [OF c(5)]]
    blob_field [OF c(2) backed(2) not_too_big [OF c(6)]]
    blob_field [OF c(3) backed(3) not_too_big [OF c(7)]] set_field [OF flat c(4)]
  note sz = c(8)
  have wf: "list_all wf_field ?fs" using fields by simp
  have len: "wire_length ?fs = blob_space al + blob_space w + set_space ps + blob_space d"
    using fields by simp
  then have small: "wire_length ?fs < 2 ^ 32" using sz by simp
  have len': "word_of_nat (blob_space al + blob_space w + set_space ps + blob_space d)
      = (word_of_nat (wire_length ?fs) :: u32)" unfolding len by (rule refl)
  have pos: "0 < blob_space al + blob_space w + set_space ps + blob_space d"
    by (simp add: blob_space_def)
  have "HksClientImportWrappedKey addr alloc HksSendRequest (Some al) (Some w) (Some ps) (Some d)
      = HksSendRequest 3 (request addr ?fs) NULL (Some ps)"
    unfolding HksClientImportWrappedKey_def Let_def check if_not_succ_return_succ option.sel
      with_request_small [OF spec [OF mem] pos sz] pack_fields pack_all_request [OF wf small len'] try_res_simps
    by (rule refl)
  then show ?thesis
    using wrapped_unpacked [OF wf small, of addr] by blast
qed

text \<open>A small request for the witnesses.\<close>

definition byte_blob :: "u8 \<Rightarrow> HksBlob" where
  "byte_blob x = \<lparr>blob_size = 1, blob_data = Some [x]\<rparr>"

definition aes_set :: HksParamSet where
  "aes_set = \<lparr>paramSetSize = 32, params = [\<lparr>p_tag = HKS_TAG_ALGORITHM, p_val = VUint HKS_ALG_AES\<rparr>], ps_tail = []\<rparr>"

lemma byte_blob_facts [simp]:
  "CheckBlob (Some (byte_blob x)) = 0" "backed (byte_blob x)" "\<not> too_big (byte_blob x)"
  "blob_space (byte_blob x) = 8" "blob_size (byte_blob x) = 1"
  by (simp_all add: byte_blob_def CheckBlob_def backed_def blob_bytes_def too_big_def blob_space_def ALIGN_SIZE_def)

lemma aes_set_facts [simp]:
  "flat aes_set" "HksCheckParamSetValidity (Some aes_set) = 0" "set_space aes_set = 32"
  by (simp_all add: aes_set_def flat_def space_def plen_def payload_def is_bytes_tag_def GetTagType_def
      wf_param_def norm_param_def HksCheckParamSetValidity_def HksCheckParamSet_0 paramsCnt_def
      HksCheckParamSetTag_0 IsValidTag_def g_validTags_def set_space_def ALIGN_SIZE_def if_not_succ_return_def)

lemma import_wrapped_roundtrip_witness:
  "\<exists>req al' w' d' rest.
    HksClientImportWrappedKey (\<lambda>_ _. 7) (\<lambda>_. True) (\<lambda>_ req _ _. Inr req) (Some (byte_blob 1)) (Some (byte_blob 2))
        (Some aes_set) (Some (byte_blob 3)) = Inr req
    \<and> HksImportWrappedKeyUnpack req = Inr (al', w', received aes_set rest, d')
    \<and> same_blob al' (byte_blob 1) \<and> same_blob w' (byte_blob 2) \<and> same_blob d' (byte_blob 3)"
proof (rule import_wrapped_roundtrip)
  show "HksCheckIpcImportWrappedKey (Some (byte_blob 1)) (Some (byte_blob 2)) (Some aes_set) (Some (byte_blob 3)) = 0"
    by (simp add: HksCheckIpcImportWrappedKey_def Let_def HksCheckBlob3AndParamSet_def HksCheckBlob3_def)
qed simp_all

section \<open>Requests with data\<close>

text \<open>The sizes of a data request in words, against the space of its fields.\<close>

lemma GetBlobBufSize_exact:
  "GetBlobBufSize b = (if field_length (FBlob b) < 2 ^ 32
     then Inr (word_of_nat (field_length (FBlob b))) else Inl (- 3))"
proof (cases "unat (blob_size b) + 3 < 2 ^ 32")
  case True
  then have "\<not> IsAdditionOverflow (blob_size b) 3"
    by (simp add: overflow_nat [of 3 3])
  moreover have "IsAdditionOverflow (ALIGN_SIZE (blob_size b)) 4 \<longleftrightarrow> \<not> field_length (FBlob b) < 2 ^ 32"
    using unat_ALIGN_SIZE [OF True] by (auto simp: overflow_nat [of 4 4])
  ultimately show ?thesis
    using ALIGN_SIZE_align [OF True] by (simp add: GetBlobBufSize_def add.commute)
next
  case False
  then have "\<not> field_length (FBlob b) < 2 ^ 32"
    using align_ge [of "unat (blob_size b)"] by simp
  with False show ?thesis
    by (simp add: GetBlobBufSize_def overflow_nat [of 3 3])
qed

lemma max_process: "x \<le> 0xFC00 \<longleftrightarrow> unat x \<le> 0xFC00" "0xFC00 < x \<longleftrightarrow> \<not> unat x \<le> 0xFC00" for x :: u32
  by (simp_all add: word_le_nat_alt word_less_nat_alt not_le)

lemma GetParamSize_exact:
  "GetParamSize key ps = (if unat (blob_size key) \<le> 0xFC00 \<and> unat (paramSetSize ps) \<le> 0xFC00
     then Inr (word_of_nat (wire_length [FBlob key, FSet ps])) else Inl (- 3))"
  using ALIGN_SIZE_align [of "blob_size key"] ALIGN_SIZE_align [of "paramSetSize ps"]
  by (simp add: GetParamSize_def max_process add.commute)

definition answer_field :: "u32 \<Rightarrow> HksBlob \<Rightarrow> field" where
  "answer_field cmdId out = (if cmdId = 9 then FBlob out else FNum (blob_size out))"

lemma GetDataSize_exact:
  "GetDataSize cmdId inp out = (let n = wire_length [FBlob inp, answer_field cmdId out] in
     if n < 2 ^ 32 then Inr (word_of_nat n) else Inl (- 3))"
proof -
  have add: "IsAdditionOverflow (word_of_nat a) (word_of_nat b) \<longleftrightarrow> \<not> a + b < 2 ^ 32"
    if "a < 2 ^ 32" "b < 2 ^ 32" for a b
    using that by (auto simp: IsAdditionOverflow_iff unat_u32_of_nat)
  show ?thesis
    using add [of "field_length (FBlob inp)" 4] add [of "field_length (FBlob inp)" "field_length (FBlob out)"]
    by (auto simp: GetDataSize_def GetBlobBufSize_exact answer_field_def Let_def simp del: u32_bound u32_bound_le)
qed

definition slice_fields_of :: "u32 \<Rightarrow> HksBlob \<Rightarrow> HksParamSet \<Rightarrow> HksBlob \<Rightarrow> HksBlob \<Rightarrow> field list" where
  "slice_fields_of cmdId key ps inp out = [FBlob key, FSet ps, FBlob inp, answer_field cmdId out]"

lemma try_res_chain:
  assumes "try_res r (\<lambda>(a, b). f a b) = Inr (x, y)"
  shows "try_res r (\<lambda>(a, b). try_res (f a b) (\<lambda>(a, b). g a)) = g x"
  using assms by (cases r) auto

text \<open>A data request is sent exactly if its fields fit, and refused otherwise.\<close>

lemma ProcessDataOnce_sends:
  fixes key inp out :: HksBlob and ps :: HksParamSet and cmdId :: u32
  defines "fs \<equiv> slice_fields_of cmdId key ps inp out"
  assumes wf: "list_all wf_field fs" and sz: "wire_length fs \<le> 0xFC00" and mem: "\<forall>n. alloc n"
  shows "ProcessDataOnce addr alloc send cmdId key ps inp out
    = send cmdId (request addr fs) (if cmdId = 9 then NULL else Some out) (Some ps)"
proof -
  define n where "n = wire_length fs"
  have n: "0 < n" "n \<le> 0xFC00" "n < 2 ^ 32" using sz by (auto simp: n_def fs_def slice_fields_of_def)
  have parts: "n = wire_length [FBlob key, FSet ps] + wire_length [FBlob inp, answer_field cmdId out]"
    by (simp add: n_def fs_def slice_fields_of_def)
  have k: "unat (blob_size key) \<le> 0xFC00" "unat (paramSetSize ps) \<le> 0xFC00"
    using n(2) parts align_ge [of "unat (blob_size key)"] align_ge [of "unat (paramSetSize ps)"] by simp_all
  have ps: "GetParamSize key ps = Inr (word_of_nat (wire_length [FBlob key, FSet ps]))"
    using k by (simp only: GetParamSize_exact if_True simp_thms)
  have d: "GetDataSize cmdId inp out = Inr (word_of_nat (wire_length [FBlob inp, answer_field cmdId out]))"
    using n(3) parts by (simp only: GetDataSize_exact Let_def) simp
  have all: "word_of_nat (wire_length [FBlob key, FSet ps])
      + word_of_nat (wire_length [FBlob inp, answer_field cmdId out]) = (word_of_nat n :: u32)"
    unfolding parts by simp
  have mal: "HksMalloc alloc (unat (word_of_nat n :: u32))"
    using n mem by (simp add: HksMalloc_def unat_u32_of_nat)
  obtain off where pk: "copy_all addr fs (ipc_buffer (word_of_nat n)) 0 = Inr (request addr fs, off)"
    using pack_request [OF wf] n(3) unfolding n_def by blast
  show ?thesis
  proof (cases "cmdId = 9")
    case True
    then have f: "fs = [FBlob key, FSet ps, FBlob inp, FBlob out]"
      by (simp add: fs_def slice_fields_of_def answer_field_def)
    show ?thesis
      using True try_res_chain [OF pk [unfolded f slice_fields [symmetric]]] mal
      unfolding ProcessDataOnce_def ps d try_or_simps Let_def all by (simp add: f)
  next
    case False
    then have f: "fs = [FBlob key, FSet ps, FBlob inp, FNum (blob_size out)]"
      by (simp add: fs_def slice_fields_of_def answer_field_def)
    show ?thesis
      using False try_res_chain [OF pk [unfolded f slice_fields [symmetric]]] mal
      unfolding ProcessDataOnce_def ps d try_or_simps Let_def all by (simp add: f)
  qed
qed

lemma slice_exact:
  fixes key inp out :: HksBlob and ps :: HksParamSet and cmdId :: u32
  defines "fs \<equiv> slice_fields_of cmdId key ps inp out"
  assumes cmd: "IsSliceCmd cmdId" and wf: "wire_length fs \<le> 0xFC00 \<Longrightarrow> list_all wf_field fs"
    and mem: "\<forall>n. alloc n"
  shows "HksSliceDataEntry addr alloc send cmdId key ps inp out
    = (if wire_length fs \<le> 0xFC00
       then send cmdId (request addr fs) (if cmdId = 9 then NULL else Some out) (Some ps) else Inl (- 3))"
proof -
  define a b where "a = wire_length [FBlob key, FSet ps]" and "b = wire_length [FBlob inp, answer_field cmdId out]"
  have parts: "wire_length fs = a + b"
    by (simp add: a_def b_def fs_def slice_fields_of_def)
  have ps: "GetParamSize key ps = (if unat (blob_size key) \<le> 0xFC00 \<and> unat (paramSetSize ps) \<le> 0xFC00
      then Inr (word_of_nat a) else Inl (- 3))"
    unfolding a_def by (rule GetParamSize_exact)
  have d: "GetDataSize cmdId inp out = (if b < 2 ^ 32 then Inr (word_of_nat b) else Inl (- 3))"
    unfolding GetDataSize_exact Let_def b_def by (rule refl)
  have k: "unat (blob_size key) \<le> a" "unat (paramSetSize ps) \<le> a"
    using align_ge [of "unat (blob_size key)"] align_ge [of "unat (paramSetSize ps)"] by (simp_all add: a_def)
  consider (big) "\<not> (unat (blob_size key) \<le> 0xFC00 \<and> unat (paramSetSize ps) \<le> 0xFC00)"
    | (data) "unat (blob_size key) \<le> 0xFC00" "unat (paramSetSize ps) \<le> 0xFC00" "\<not> b < 2 ^ 32"
    | (rest) "unat (blob_size key) \<le> 0xFC00" "unat (paramSetSize ps) \<le> 0xFC00" "b < 2 ^ 32"
    by blast
  then show ?thesis
  proof cases
    case big
    then have "\<not> wire_length fs \<le> 0xFC00" using k parts by linarith
    with big show ?thesis by (auto simp: HksSliceDataEntry_def ps)
  next
    case data
    then have "\<not> wire_length fs \<le> 0xFC00" using parts by simp
    with data show ?thesis by (simp add: HksSliceDataEntry_def ps d)
  next
    case rest
    have "a < 2 ^ 32"
      using rest(1,2) align_le [of "unat (blob_size key)"] align_le [of "unat (paramSetSize ps)"]
      by (simp add: a_def)
    then have a: "unat (word_of_nat a :: u32) = a" by (simp add: unat_u32_of_nat)
    have b: "unat (word_of_nat b :: u32) = b" using rest(3) by (simp add: unat_u32_of_nat)
    have ov: "IsAdditionOverflow (word_of_nat a) (word_of_nat b) \<longleftrightarrow> \<not> a + b < 2 ^ 32"
      by (simp add: overflow_nat [OF b] a)
    have le: "word_of_nat a + word_of_nat b \<le> (0xFC00 :: u32) \<longleftrightarrow> a + b \<le> 0xFC00" if "a + b < 2 ^ 32"
      using that unat_u32_of_nat [of "a + b"] by (simp add: max_process)
    show ?thesis
      using ProcessDataOnce_sends [OF wf [unfolded fs_def] _ mem] cmd rest ov le parts
      by (auto simp: HksSliceDataEntry_def ps d fs_def)
  qed
qed

lemma sign_unpacked:
  assumes wf: "list_all wf_field [FBlob k, FSet ps, FBlob d, FNum v]"
    and sz: "wire_length [FBlob k, FSet ps, FBlob d, FNum v] < 2 ^ 32"
    and v: "\<not> IsInvalidLength v" and mem: "\<forall>n. alloc n"
  shows "\<exists>k' d' rest. HksSignUnpack alloc (request addr [FBlob k, FSet ps, FBlob d, FNum v])
    = Inr (k', received ps rest, d', ipc_buffer v) \<and> same_blob k' k \<and> same_blob d' d"
proof -
  let ?r = "request addr [FBlob k, FSet ps, FBlob d, FNum v]"
  obtain k' o1 where 1: "GetBlobFromBuffer ?r 0 = Inr (k', o1)" "same_blob k' k"
    "reading addr [FBlob k] [FSet ps, FBlob d, FNum v] o1"
    using read_blob [OF reading_start [OF wf sz, of addr]] by auto
  obtain rest o2 where 2: "GetParamSetFromBuffer_service ?r o1 = Inr (received ps rest, o2)"
    "reading addr [FBlob k, FSet ps] [FBlob d, FNum v] o2"
    using read_set [OF 1(3)] by auto
  obtain d' o3 where 3: "GetBlobFromBuffer ?r o2 = Inr (d', o3)" "same_blob d' d"
    "reading addr [FBlob k, FSet ps, FBlob d] [FNum v] o3"
    using read_blob [OF 2(2)] by auto
  obtain o4 where 4: "GetUint32FromBuffer ?r o3 = Inr (v, o4)"
    using read_num [OF 3(3)] by auto
  have "HksMalloc alloc (unat v)"
    using v mem by (simp add: HksMalloc_def IsInvalidLength_def word_le_nat_alt not_less unat_eq_zero)
  then have m: "MallocBlobFromBuffer alloc ?r null_blob o3 = (0, ipc_buffer v, o4)"
    using 4 v by (simp add: MallocBlobFromBuffer_def GetUint32FromBuffer_service_def)
  show ?thesis
    using 1 2 3 m by (simp add: HksSignUnpack_def SignVerifyMacUnpack_def GetKeyAndParamSetFromBuffer_def
        GetBlobFromBuffer_service_def malloc_or_return_def) blast
qed

text \<open>
  C28: A signing request whose fields take at most \<open>MAX_PROCESS_SIZE\<close> bytes is sent, and the service
  unpacks the same key alias, parameter set and data from it and allocates a buffer of the size the client
  gave for the signature; a larger one is refused without being sent, whatever its sizes are.
\<close>

theorem sign_request_exact:
  assumes check: "HksCheckBlob3AndParamSet (Some k) (Some d) (Some sig) (Some ps) = 0"
    and flat: "flat ps" and backed: "backed k" "backed d"
    and out: "blob_size sig \<le> 0x500000" and mem: "\<forall>n. alloc n"
  shows "let fs = [FBlob k, FSet ps, FBlob d, FNum (blob_size sig)] in
    if wire_length fs \<le> 0xFC00
    then HksClientSign addr alloc HksSendRequest (Some k) (Some ps) (Some d) (Some sig)
        = HksSendRequest 8 (request addr fs) (Some sig) (Some ps)
      \<and> (\<exists>k' d' rest. HksSignUnpack alloc (request addr fs) = Inr (k', received ps rest, d', ipc_buffer (blob_size sig))
           \<and> same_blob k' k \<and> same_blob d' d)
    else HksClientSign addr alloc HksSendRequest (Some k) (Some ps) (Some d) (Some sig) = Inl (- 3)"
proof -
  let ?fs = "[FBlob k, FSet ps, FBlob d, FNum (blob_size sig)]"
  have c: "CheckBlob (Some k) = 0" "CheckBlob (Some d) = 0" "CheckBlob (Some sig) = 0"
    "HksCheckParamSetValidity (Some ps) = 0"
    using check unfolding HksCheckBlob3AndParamSet_0 by blast+
  have f: "slice_fields_of 8 k ps d sig = ?fs"
    by (simp add: slice_fields_of_def answer_field_def)
  have wf: "list_all wf_field ?fs" if le: "wire_length ?fs \<le> 0xFC00"
    using le align_ge [of "unat (blob_size k)"] align_ge [of "unat (blob_size d)"]
      blob_field(1) [OF c(1) backed(1)] blob_field(1) [OF c(2) backed(2)] set_field(1) [OF flat c(4)] by simp
  have e: "HksClientSign addr alloc HksSendRequest (Some k) (Some ps) (Some d) (Some sig)
      = HksSliceDataEntry addr alloc HksSendRequest 8 k ps d sig"
    unfolding HksClientSign_def Let_def check by simp
  have v: "\<not> IsInvalidLength (blob_size sig)"
    using c(3) out by (auto simp: IsInvalidLength_def CheckBlob_0)
  have r: "HksSliceDataEntry addr alloc HksSendRequest 8 k ps d sig
      = (if wire_length ?fs \<le> 0xFC00 then HksSendRequest 8 (request addr ?fs) (Some sig) (Some ps) else Inl (- 3))"
    using slice_exact [of 8 k ps d sig alloc addr HksSendRequest, unfolded f, OF _ wf mem]
    by (simp add: IsSliceCmd_def)
  show ?thesis
  proof (cases "wire_length ?fs \<le> 0xFC00")
    case True
    then have "wire_length ?fs < 2 ^ 32" by simp
    from sign_unpacked [OF wf [OF True] this v mem, of addr] show ?thesis
      unfolding Let_def e r if_P [OF True] by blast
  next
    case False
    then show ?thesis unfolding Let_def e r if_not_P [OF False] by simp
  qed
qed

lemma sign_request_exact_witness:
  "let fs = [FBlob (byte_blob 1), FSet aes_set, FBlob (byte_blob 2), FNum 1] in
    HksClientSign (\<lambda>_ _. 7) (\<lambda>_. True) (\<lambda>_ req _ _. Inr req) (Some (byte_blob 1)) (Some aes_set)
        (Some (byte_blob 2)) (Some (byte_blob 3)) = Inr (request (\<lambda>_ _. 7) fs)
    \<and> (\<exists>k' d' rest. HksSignUnpack (\<lambda>_. True) (request (\<lambda>_ _. 7) fs) = Inr (k', received aes_set rest, d', ipc_buffer 1)
         \<and> same_blob k' (byte_blob 1) \<and> same_blob d' (byte_blob 2))"
proof -
  have c: "HksCheckBlob3AndParamSet (Some (byte_blob 1)) (Some (byte_blob 2)) (Some (byte_blob 3)) (Some aes_set) = 0"
    by (simp add: HksCheckBlob3AndParamSet_0)
  have l: "wire_length [FBlob (byte_blob 1), FSet aes_set, FBlob (byte_blob 2), FNum 1] \<le> 0xFC00"
    by (simp add: align_def aes_set_def)
  show ?thesis
    using sign_request_exact [OF c, of "\<lambda>_. True" "\<lambda>_ _. 7" "\<lambda>_ req _ _. Inr req"] l
    by (simp add: Let_def del: field_length.simps)
qed

end
