(* ===== verification/Huks_Ipc_Args.thy ===== *)
theory Huks_Ipc_Args
  imports Huks_Ipc_Laws
begin

text \<open>
  What arrives at the other side: the arguments of operations in three stages, requests of arbitrary bytes, and
  lists of aliases. The arguments of a three-stage operation travel as a parameter set under the tags \<open>PARAM0\<close> to
  \<open>PARAM4\<close>. The service gets every argument back, empty blobs included, which a parameter set cannot
  hold.
\<close>

definition arg_tags :: "u32 list" where
  "arg_tags = [HKS_TAG_PARAM0_BUFFER, HKS_TAG_PARAM1_BUFFER, HKS_TAG_PARAM2_BUFFER, HKS_TAG_PARAM3_BUFFER,
     HKS_TAG_PARAM4_BUFFER, HKS_TAG_PARAM0_UINT32, HKS_TAG_PARAM1_UINT32, HKS_TAG_PARAM2_UINT32,
     HKS_TAG_PARAM3_UINT32, HKS_TAG_PARAM4_UINT32, HKS_TAG_PARAM0_BOOL, HKS_TAG_PARAM1_BOOL,
     HKS_TAG_PARAM2_BOOL, HKS_TAG_PARAM3_BOOL, HKS_TAG_PARAM4_BOOL]"

definition null_arg :: "HksParam \<Rightarrow> bool" where
  "null_arg p \<longleftrightarrow> is_bytes_tag (p_tag p)
     \<and> (blob_size (blobParam (p_val p)) = 0 \<or> blob_data (blobParam (p_val p)) = NULL)"

text \<open>What an out-parameter of the service receives for an argument.\<close>

definition arg_value :: "HksParam \<Rightarrow> HksParamValue" where
  "arg_value p =
     (if null_arg p then VBlob null_blob
      else if is_bytes_tag (p_tag p)
      then VBlob \<lparr>blob_size = blob_size (blobParam (p_val p)), blob_data = Some (payload p)\<rparr>
      else if GetTagType (p_tag p) = HKS_TAG_TYPE_UINT then VUint (uint32Param (p_val p))
      else VBool (boolParam (p_val p)))"

definition arg_backed :: "HksParam \<Rightarrow> bool" where
  "arg_backed p \<longleftrightarrow> (is_bytes_tag (p_tag p) \<longrightarrow> blob_data (blobParam (p_val p)) = NULL
     \<or> unat (blob_size (blobParam (p_val p))) \<le> length (the (blob_data (blobParam (p_val p)))))"

lemma arg_tag_types:
  assumes "t \<in> set arg_tags"
  shows "is_bytes_tag t \<and> is_bytes_tag (t + 15)
    \<or> \<not> is_bytes_tag t \<and> GetTagType t = HKS_TAG_TYPE_UINT \<or> \<not> is_bytes_tag t \<and> GetTagType t = HKS_TAG_TYPE_BOOL"
  using assms by (auto simp: arg_tags_def is_bytes_tag_def GetTagType_def)

lemma arg_tag_shift: "t \<in> set arg_tags \<Longrightarrow> t' \<in> set arg_tags \<Longrightarrow> is_bytes_tag t' \<Longrightarrow> t \<noteq> t' + 15"
  by (auto simp: arg_tags_def is_bytes_tag_def GetTagType_def)

lemma p_tag_mark: "p_tag (mark_null p) = (if null_arg p then p_tag p + 15 else p_tag p)"
  by (simp add: mark_null_def null_arg_def)

lemma marked_distinct:
  assumes "distinct (map p_tag args)" "p_tag ` set args \<subseteq> set arg_tags"
  shows "distinct (map (p_tag \<circ> mark_null) args)"
  using assms
proof (induction args)
  case Nil
  then show ?case by simp
next
  case (Cons a args)
  have "p_tag (mark_null a) \<noteq> p_tag (mark_null b)" if "b \<in> set args" for b
  proof -
    have "p_tag a \<noteq> p_tag b" using Cons.prems(1) that by auto
    moreover have "p_tag a \<in> set arg_tags" "p_tag b \<in> set arg_tags" using Cons.prems(2) that by auto
    ultimately show ?thesis
      using arg_tag_shift [of "p_tag a" "p_tag b"] arg_tag_shift [of "p_tag b" "p_tag a"]
      by (auto simp: p_tag_mark null_arg_def)
  qed
  with Cons show ?case by auto
qed

lemma marked_wf:
  assumes "p_tag p \<in> set arg_tags" "arg_backed p"
  shows "wf_param (mark_null p)"
  using assms arg_tag_types [OF assms(1)]
  by (auto simp: wf_param_def mark_null_def arg_backed_def plen_def)

text \<open>The set that travels, and one argument read from it.\<close>

definition sent_params :: "HksParam list \<Rightarrow> HksParam list" where
  "sent_params args = map (canon_param \<circ> norm_param \<circ> mark_null) args"

lemma canon_value:
  assumes "\<not> null_arg p" "p_tag p \<in> set arg_tags"
  shows "GetNormalParam (canon_param (norm_param (mark_null p))) (p_tag p) = Inr (arg_value p)"
    and "is_bytes_tag (p_tag p) \<Longrightarrow> CheckBlob (Some (blobParam (p_val (canon_param (norm_param (mark_null p)))))) = 0"
proof -
  have m: "mark_null p = p" using assms(1) by (auto simp: mark_null_def null_arg_def)
  have r: "norm_param p = p" if "\<not> is_bytes_tag (p_tag p)" using that by (simp add: norm_param_def)
  show "GetNormalParam (canon_param (norm_param (mark_null p))) (p_tag p) = Inr (arg_value p)"
    using arg_tag_types [OF assms(2)] assms(1) canon_readers [of p] r
    by (auto simp: m GetNormalParam_def arg_value_def canon_param_def norm_param_def is_bytes_tag_def
        payload_def plen_def Let_def split: option.split)
  show "CheckBlob (Some (blobParam (p_val (canon_param (norm_param (mark_null p)))))) = 0"
    if "is_bytes_tag (p_tag p)"
    using that assms(1) by (auto simp: m canon_param_def norm_param_def CheckBlob_0 null_arg_def)
qed

text \<open>Reading the arguments from any set with these parameters.\<close>

lemma HksParamSetToParams_all:
  assumes "\<And>p. p \<in> set args \<Longrightarrow>
    (case HksGetParam (Some s) (p_tag p) of Inr param \<Rightarrow> GetNormalParam param (p_tag p)
     | Inl _ \<Rightarrow> GetNullBlobParam (Some s) (p_tag p)) = Inr (arg_value p)"
  shows "HksParamSetToParams (Some s) (map p_tag args) = Inr (map arg_value args)"
  using assms by (induction args) simp_all

lemma arg_found:
  assumes chk: "HksCheckParamSet (Some s) (paramSetSize s) = 0" and ps: "params s = sent_params args"
    and dist: "distinct (map p_tag args)" and tags: "p_tag ` set args \<subseteq> set arg_tags" and mem: "p \<in> set args"
  shows "(case HksGetParam (Some s) (p_tag p) of Inr param \<Rightarrow> GetNormalParam param (p_tag p)
     | Inl _ \<Rightarrow> GetNullBlobParam (Some s) (p_tag p)) = Inr (arg_value p)"
proof -
  let ?q = "canon_param (norm_param (mark_null p))"
  have d: "distinct (map p_tag (params s))"
    using marked_distinct [OF dist tags] by (simp add: ps sent_params_def comp_def)
  have q: "?q \<in> set (params s)" using mem by (auto simp: ps sent_params_def)
  have t: "p_tag p \<in> set arg_tags" using tags mem by auto
  show ?thesis
  proof (cases "null_arg p")
    case False
    have tag: "p_tag ?q = p_tag p" using False by (simp add: p_tag_mark)
    have "is_bytes_tag (p_tag p) \<longrightarrow> CheckBlob (Some (blobParam (p_val ?q))) = 0"
      using canon_value(2) [OF False t] by blast
    then have "HksGetParam (Some s) (p_tag p) = Inr ?q"
      using ps.unique [OF chk d q] tag by simp
    then show ?thesis using canon_value(1) [OF False t] by simp
  next
    case True
    then have b: "is_bytes_tag (p_tag p)" and m: "mark_null p
        = \<lparr>p_tag = p_tag p + 15, p_val = VBlob \<lparr>blob_size = 1, blob_data = Some [0]\<rparr>\<rparr>"
      by (simp_all add: null_arg_def mark_null_def)
    have b15: "is_bytes_tag (p_tag p + 15)" using arg_tag_types [OF t] b by blast
    have tag: "p_tag ?q = p_tag p + 15" by (simp add: m)
    have "CheckBlob (Some (blobParam (p_val ?q))) = 0"
      using b15 by (simp add: m canon_param_def norm_param_def CheckBlob_0)
    then have found: "HksGetParam (Some s) (p_tag p + 15) = Inr ?q"
      using ps.unique [OF chk d q] tag by simp
    have "p_tag (mark_null a) \<noteq> p_tag p" if a: "a \<in> set args" for a
    proof -
      have ta: "p_tag a \<in> set arg_tags" using tags a by auto
      show ?thesis
      proof (cases "null_arg a")
        case True
        then show ?thesis
          using arg_tag_shift [OF t ta] by (auto simp: p_tag_mark null_arg_def)
      next
        case False
        then have "p \<noteq> a" using \<open>null_arg p\<close> by blast
        then have "p_tag p \<noteq> p_tag a" using dist mem a by (metis distinct_map inj_onD)
        then show ?thesis using False by (simp add: p_tag_mark)
      qed
    qed
    then have "\<forall>a \<in> set args. p_tag p \<noteq> p_tag (mark_null a)" by metis
    then have "p_tag p \<notin> p_tag ` set (params s)" by (simp add: ps sent_params_def image_iff)
    then have "HksGetParam (Some s) (p_tag p) = Inl HKS_ERROR_PARAM_NOT_EXIST"
      unfolding HksGetParam_missing using chk by blast
    then show ?thesis
      using True b found by (simp add: GetNullBlobParam_def arg_value_def is_bytes_tag_def)
  qed
qed

text \<open>
  C30: The arguments of an operation arrive as they were given: for any arguments under distinct tags of
  the argument range, the client's set builds and its memory, taken apart by the service, yields every
  argument, blobs with their bytes and empty or missing blobs as an empty blob.
\<close>

theorem arguments_roundtrip:
  assumes dist: "distinct (map p_tag args)" and tags: "p_tag ` set args \<subseteq> set arg_tags"
    and backed: "list_all arg_backed args" and lim: "space (map mark_null args) \<le> 0x400000"
    and mem: "\<forall>n. alloc n"
  shows "\<exists>s s'. HksParamsToParamSet alloc args = Inr s
    \<and> HksGetParamSet alloc (Some (param_set_at (param_set_bytes addr s))) (paramSetSize s) = Inr s'
    \<and> HksParamSetToParams (Some s') (map p_tag args) = Inr (map arg_value args)"
proof -
  have "length args \<le> length arg_tags"
    using dist tags by (metis card_mono distinct_card finite_set length_map list.set_map card_length le_trans)
  then have len: "length (map mark_null args) \<le> 42" by (simp add: arg_tags_def)
  have wf: "list_all wf_param (map mark_null args)"
    using backed tags marked_wf by (auto simp: list_all_iff)
  from param_set_life [OF wf len lim mem] obtain ps0 ps1 s where
    1: "HksInitParamSet alloc = Inr ps0" "HksAddParams (Some ps0) (Some (map mark_null args)) = (0, Some ps1)"
      "HksBuildParamSet alloc (Some ps1) = Inr s"
    and s: "flat s" "params s = map norm_param (map mark_null args)"
      "HksGetParamSet alloc (Some s) (paramSetSize s) = Inr s"
    by blast
  have chk: "HksCheckParamSet (Some s) (paramSetSize s) = 0"
    using s(3) by (auto simp: HksGetParamSet_def Let_def if_not_succ_return_def split: if_splits)
  have "HksParamsToParamSet alloc args = Inr s"
    using 1 by (simp add: HksParamsToParamSet_def)
  moreover have "HksGetParamSet alloc (Some (param_set_at (param_set_bytes addr s))) (paramSetSize s)
      = Inr (received s [])"
    using get_received [OF s(1) chk mem] .
  moreover have "HksCheckParamSet (Some (received s [])) (paramSetSize (received s [])) = 0"
    using chk by (simp add: HksCheckParamSet_0 received_def paramsCnt_def)
  moreover have "params (received s []) = sent_params args"
    using s(2) by (simp add: received_def sent_params_def)
  ultimately show ?thesis
    using HksParamSetToParams_all arg_found [OF _ _ dist tags] by blast
qed

text \<open>An alias, a missing blob and a number.\<close>

lemma arguments_roundtrip_witness:
  "let args = [\<lparr>p_tag = HKS_TAG_PARAM0_BUFFER, p_val = VBlob \<lparr>blob_size = 2, blob_data = Some [1, 2]\<rparr>\<rparr>,
      \<lparr>p_tag = HKS_TAG_PARAM1_BUFFER, p_val = VBlob null_blob\<rparr>,
      \<lparr>p_tag = HKS_TAG_PARAM0_UINT32, p_val = VUint 5\<rparr>] in
   \<exists>s s'. HksParamsToParamSet (\<lambda>_. True) args = Inr s
    \<and> HksGetParamSet (\<lambda>_. True) (Some (param_set_at (param_set_bytes (\<lambda>_. 9) s))) (paramSetSize s) = Inr s'
    \<and> HksParamSetToParams (Some s') [HKS_TAG_PARAM0_BUFFER, HKS_TAG_PARAM1_BUFFER, HKS_TAG_PARAM0_UINT32]
      = Inr [VBlob \<lparr>blob_size = 2, blob_data = Some [1, 2]\<rparr>, VBlob null_blob, VUint 5]"
proof -
  define args where "args = [\<lparr>p_tag = HKS_TAG_PARAM0_BUFFER, p_val = VBlob \<lparr>blob_size = 2, blob_data = Some [1, 2]\<rparr>\<rparr>,
      \<lparr>p_tag = HKS_TAG_PARAM1_BUFFER, p_val = VBlob null_blob\<rparr>,
      \<lparr>p_tag = HKS_TAG_PARAM0_UINT32, p_val = VUint 5\<rparr>]"
  have "map arg_value args = [VBlob \<lparr>blob_size = 2, blob_data = Some [1, 2]\<rparr>, VBlob null_blob, VUint 5]"
    by (simp add: args_def arg_value_def null_arg_def is_bytes_tag_def GetTagType_def payload_def plen_def null_blob_def)
  moreover have "map p_tag args = [HKS_TAG_PARAM0_BUFFER, HKS_TAG_PARAM1_BUFFER, HKS_TAG_PARAM0_UINT32]"
    by (simp add: args_def)
  moreover have "distinct (map p_tag args)" "p_tag ` set args \<subseteq> set arg_tags" "list_all arg_backed args"
    by (simp_all add: args_def arg_tags_def arg_backed_def null_blob_def)
  moreover have "space (map mark_null args) \<le> 0x400000"
    by (simp add: args_def space_def mark_null_def plen_def is_bytes_tag_def GetTagType_def null_blob_def)
  ultimately show ?thesis
    using arguments_roundtrip [of args "\<lambda>_. True" "\<lambda>_. 9"] unfolding Let_def args_def [symmetric] by simp
qed

text \<open>
  Reading arbitrary bytes: whatever a request contains, the blobs and the parameters of a set that the
  service takes from it lie within it.
\<close>

definition sized :: "HksBlob \<Rightarrow> bool" where
  "sized src \<longleftrightarrow> length (blob_bytes src) = unat (blob_size src)"

definition inside :: "HksBlob \<Rightarrow> HksBlob \<Rightarrow> bool" where
  "inside src b \<longleftrightarrow> blob_data b \<noteq> NULL \<and> unat (blob_size b) \<le> length (blob_bytes b)
     \<and> (\<exists>pre. blob_bytes src = pre @ blob_bytes b)"

lemma unat_ALIGN_no_overflow:
  "\<not> IsAdditionOverflow n 3 \<Longrightarrow> unat (ALIGN_SIZE n) = align (unat n)"
  using unat_ALIGN_SIZE [of n] by (simp add: IsAdditionOverflow_iff)

lemma GetBlobFromBuffer_inside:
  assumes "GetBlobFromBuffer src off = Inr (b, off')" "sized src"
  shows "inside src b" "unat off + 4 \<le> unat off'" "off' \<le> blob_size src"
proof -
  define n where "n = blob_size b"
  from assms(1) have r: "off \<le> blob_size src" "4 \<le> blob_size src - off" "\<not> IsAdditionOverflow n 3"
    "ALIGN_SIZE n \<le> blob_size src - off - 4"
    "b = \<lparr>blob_size = n, blob_data = Some (drop (unat (off + 4)) (blob_bytes src))\<rparr>"
    "off' = off + 4 + ALIGN_SIZE n"
    by (auto simp: GetBlobFromBuffer_def Let_def not_less n_def split: if_splits)
  have al: "unat (ALIGN_SIZE n) = align (unat n)"
    using r(3) by (rule unat_ALIGN_no_overflow)
  have room: "unat off + 4 + align (unat n) \<le> unat (blob_size src)"
    using r(1,2,4) al by (simp add: word_le_nat_alt unat_sub)
  have o4: "unat (off + 4) = unat off + 4"
    using unat_offset_add [of off 4 "blob_size src" 4] room by simp
  have o': "unat off' = unat off + 4 + align (unat n)"
    using unat_offset_add [of "off + 4" "align (unat n)" "blob_size src"] room o4 al r(6) by simp
  show "unat off + 4 \<le> unat off'" "off' \<le> blob_size src"
    using o' room by (simp_all add: word_le_nat_alt)
  have "unat n \<le> length (drop (unat (off + 4)) (blob_bytes src))"
    using assms(2) o4 room align_ge [of "unat n"] by (simp add: sized_def)
  moreover have "blob_bytes src = take (unat (off + 4)) (blob_bytes src) @ drop (unat (off + 4)) (blob_bytes src)"
    by simp
  ultimately show "inside src b"
    unfolding inside_def r(5) by (auto simp: blob_bytes_def simp del: append_take_drop_id)
qed

text \<open>The parameters of a set: every blob has as many bytes as it states.\<close>

definition blob_sound :: "HksParam \<Rightarrow> bool" where
  "blob_sound p \<longleftrightarrow> is_bytes_tag (p_tag p) \<longrightarrow>
     (\<exists>b d. p_val p = VBlob b \<and> blob_data b = Some d \<and> length d = unat (blob_size b))"

definition set_sound :: "HksParamSet \<Rightarrow> bool" where
  "set_sound ps \<longleftrightarrow> HksCheckParamSet (Some ps) (paramSetSize ps) = 0
     \<and> list_all blob_sound (params ps)"

lemma fresh_loop_sound:
  assumes "fresh_loop False sz base mem off qs = Inr (qs', out, off')"
    and "base \<le> unat off" "unat off' \<le> base + length mem"
  shows "list_all blob_sound qs'
    \<and> length qs' = length qs \<and> unat off \<le> unat off'"
  using assms
proof (induction qs arbitrary: off qs' out)
  case Nil
  then show ?case by simp
next
  case (Cons q qs)
  show ?case
  proof (cases "is_bytes_tag (p_tag q)")
    case False
    from Cons.prems(1) False obtain qs2 where
      "fresh_loop False sz base mem off qs = Inr (qs2, out, off')" "qs' = q # qs2"
      by (auto simp: rc_simps split: if_splits)
    with Cons.IH [of off qs2 out] Cons.prems(2,3) False show ?thesis by (auto simp: blob_sound_def)
  next
    case True
    define b where "b = blobParam (p_val q)"
    define d where "d = take (unat (blob_size b)) (drop (unat off - base) mem)"
    from Cons.prems(1) True obtain qs2 out2 where
      lp: "fresh_loop False sz base mem (off + blob_size b) qs = Inr (qs2, out2, off')"
      and qs': "qs' = q\<lparr>p_val := VBlob \<lparr>blob_size = blob_size b, blob_data = Some d\<rparr>\<rparr> # qs2"
      and ov: "\<not> IsAdditionOverflow off (blob_size b)"
      by (auto simp: rc_simps Let_def b_def d_def split: if_splits)
    have add: "unat (off + blob_size b) = unat off + unat (blob_size b)"
      using unat_add_no_overflow [OF ov] .
    have IH: "list_all blob_sound qs2"
      "length qs2 = length qs" "unat (off + blob_size b) \<le> unat off'"
      using Cons.IH [OF lp] Cons.prems(2,3) add by auto
    have "length d = unat (blob_size b)"
      using IH(3) add Cons.prems(2,3) by (simp add: d_def)
    then have "blob_sound (q\<lparr>p_val := VBlob \<lparr>blob_size = blob_size b, blob_data = Some d\<rparr>\<rparr>)"
      by (simp add: blob_sound_def)
    with IH add show ?thesis by (simp add: qs')
  qed
qed

lemma HksFreshParamSet_Inr:
  assumes "HksFreshParamSet (Some raw) False = Inr ps"
  shows "HksCheckParamSet (Some raw) (paramSetSize raw) = 0
    \<and> (\<exists>qs out. fresh_loop False (paramSetSize raw) (8 + 24 * paramsCnt raw) (ps_tail raw)
          (word_of_nat (8 + 24 * paramsCnt raw)) (params raw) = Inr (qs, out, paramSetSize raw)
        \<and> ps = raw\<lparr>params := qs\<rparr>)"
proof (intro conjI)
  show chk: "HksCheckParamSet (Some raw) (paramSetSize raw) = 0"
    using assms by (auto simp: HksFreshParamSet_def Let_def if_not_succ_return_def split: if_splits)
  have "FreshParamSet raw False = Inr ps"
    using assms chk by (simp add: HksFreshParamSet_def Let_def)
  then show "\<exists>qs out. fresh_loop False (paramSetSize raw) (8 + 24 * paramsCnt raw) (ps_tail raw)
          (word_of_nat (8 + 24 * paramsCnt raw)) (params raw) = Inr (qs, out, paramSetSize raw)
        \<and> ps = raw\<lparr>params := qs\<rparr>"
    by (cases "fresh_loop False (paramSetSize raw) (8 + 24 * paramsCnt raw) (ps_tail raw)
          (word_of_nat (8 + 24 * paramsCnt raw)) (params raw)")
       (auto simp: FreshParamSet_def split: if_splits)
qed

lemma GetParamSet_sound:
  assumes "GetParamSetFromBuffer_service src off = Inr (ps, off')" "sized src"
  shows "set_sound ps" "unat off + 8 \<le> unat off'" "off' \<le> blob_size src"
    "unat (paramSetSize ps) \<le> unat off' - unat off"
proof -
  define raw where "raw = param_set_at (drop (unat off) (blob_bytes src))"
  define n where "n = paramSetSize raw"
  from assms(1) have r: "off \<le> blob_size src" "8 \<le> blob_size src - off" "\<not> IsAdditionOverflow n 3"
    "ALIGN_SIZE n \<le> blob_size src - off" "HksFreshParamSet (Some raw) False = Inr ps"
    "off' = off + ALIGN_SIZE (paramSetSize ps)"
    by (auto simp: GetParamSetFromBuffer_service_def Let_def not_less n_def raw_def split: if_splits sum.splits)
  define base where "base = 8 + 24 * paramsCnt raw"
  from HksFreshParamSet_Inr [OF r(5)] obtain qs out where chk: "HksCheckParamSet (Some raw) n = 0"
    and lp: "fresh_loop False n base (ps_tail raw) (word_of_nat base) (params raw) = Inr (qs, out, n)"
    and ps: "ps = raw\<lparr>params := qs\<rparr>"
    unfolding n_def base_def by blast
  have pss: "paramSetSize ps = n" by (simp add: ps n_def)
  have al: "unat (ALIGN_SIZE n) = align (unat n)"
    using r(3) by (rule unat_ALIGN_no_overflow)
  have room: "unat off + align (unat n) \<le> unat (blob_size src)"
    using r(1,4) al by (simp add: word_le_nat_alt unat_sub)
  have off': "unat off' = unat off + align (unat n)"
    using unat_offset_add [of off "align (unat n)" "blob_size src"] room al r(6) pss by simp
  have c: "8 \<le> unat n" "base \<le> unat n"
    using chk by (simp_all add: HksCheckParamSet_0 base_def)
  show "off' \<le> blob_size src" "unat (paramSetSize ps) \<le> unat off' - unat off"
    using off' room align_ge [of "unat n"] pss by (simp_all add: word_le_nat_alt)
  show "unat off + 8 \<le> unat off'"
    using off' c(1) align_ge [of "unat n"] by simp
  have cnt: "paramsCnt raw = unat (read_u32 (drop (unat off) (blob_bytes src)) 4)"
    by (simp add: raw_def param_set_at_def paramsCnt_def)
  have tl: "length (ps_tail raw) = unat (blob_size src) - unat off - base"
    using assms(2) cnt by (simp add: raw_def param_set_at_def sized_def base_def)
  have "unat (word_of_nat base :: u32) = base"
    using c(2) u32_bound [of n] by (intro unat_u32_of_nat) linarith
  moreover have "unat n \<le> base + length (ps_tail raw)"
    using room align_ge [of "unat n"] tl c(2) by simp
  ultimately have "list_all blob_sound qs
    \<and> length qs = length (params raw)"
    using fresh_loop_sound [OF lp] by simp
  moreover from this have "HksCheckParamSet (Some ps) (paramSetSize ps) = 0"
    using chk unfolding pss by (simp add: HksCheckParamSet_0 ps paramsCnt_def n_def)
  ultimately show "set_sound ps" by (simp add: set_sound_def ps)
qed

text \<open>
  What a request may contain: blobs that lie within its bytes, sets that pass the check of their sizes and
  whose blob parameters have as many bytes as they state, and buffers for the answer of the size they state.
\<close>

definition within_request :: "HksBlob \<Rightarrow> HksBlob list \<Rightarrow> HksParamSet list \<Rightarrow> HksBlob list \<Rightarrow> bool" where
  "within_request src bs pss outs \<longleftrightarrow>
     list_all (inside src) bs \<and> list_all (\<lambda>ps. set_sound ps \<and> paramSetSize ps \<le> blob_size src) pss \<and> list_all sized outs"

abbreviation unpacked_opt :: "HksBlob \<Rightarrow> HksBlob list \<Rightarrow> HksParamSet ptr \<Rightarrow> HksBlob list \<Rightarrow> bool" where
  "unpacked_opt src bs ps outs \<equiv> within_request src bs (case ps of None \<Rightarrow> [] | Some p \<Rightarrow> [p]) outs"

lemma unpacked_blob:
  "GetBlobFromBuffer_service src off = Inr (b, off') \<Longrightarrow> sized src \<Longrightarrow> inside src b"
  by (auto simp: GetBlobFromBuffer_service_def dest: GetBlobFromBuffer_inside)

lemma unpacked_set:
  assumes "GetParamSetFromBuffer_service src off = Inr (ps, off')" "sized src"
  shows "set_sound ps" "paramSetSize ps \<le> blob_size src"
  using GetParamSet_sound [OF assms] by (simp_all add: word_le_nat_alt)

lemma sized_ipc_buffer [simp]: "sized (ipc_buffer n)" "sized null_blob"
  by (simp_all add: sized_def ipc_buffer_def null_blob_def blob_bytes_def)

lemma unpacked_buffer: "sized (fst (snd (MallocBlobFromBuffer alloc src null_blob off)))"
  by (auto simp: MallocBlobFromBuffer_def split: sum.splits if_splits)

lemma unpacked_answer:
  "malloc_or_return (MallocBlobFromBuffer alloc src null_blob off) k = Inr r \<Longrightarrow> \<exists>out. r = k out \<and> sized out"
  using unpacked_buffer [of alloc src off] by (auto simp: malloc_or_return_def case_prod_beta split: if_splits)

lemma unpacked_key:
  assumes "GetKeyAndParamSetFromBuffer src off = Inr (key, ps, off')" "sized src"
  shows "inside src key" "set_sound ps" "paramSetSize ps \<le> blob_size src"
  using assms by (auto simp: GetKeyAndParamSetFromBuffer_def try_res_Inr dest: unpacked_blob unpacked_set)

lemma unpacked_data:
  assumes "SignVerifyMacUnpack src off = Inr (key, ps, d, off')" "sized src"
  shows "inside src key" "set_sound ps" "paramSetSize ps \<le> blob_size src" "inside src d"
  using assms by (auto simp: SignVerifyMacUnpack_def try_res_Inr dest: unpacked_blob unpacked_key)

lemmas unpacked = unpacked_blob unpacked_set unpacked_key unpacked_data

text \<open>Requests about keys.\<close>

lemma unpack_keys:
  assumes "sized src"
  shows "HksGenerateKeyUnpack alloc src = Inr (al, ps, out) \<Longrightarrow> within_request src [al] [ps] [out]"
    and "HksImportKeyUnpack src = Inr (al, ps, key) \<Longrightarrow> within_request src [al, key] [ps] []"
    and "HksDeleteKeyUnpack src = Inr (al, ops) \<Longrightarrow> unpacked_opt src [al] ops []"
    and "HksKeyExistUnpack src = Inr (al, ops) \<Longrightarrow> unpacked_opt src [al] ops []"
    and "HksCertificateChainUnpack alloc src = Inr (al, ps, out) \<Longrightarrow> within_request src [al] [ps] [out]"
    and "HksListAliasesUnpack src = Inr ps \<Longrightarrow> within_request src [] [ps] []"
  using assms
  by (auto simp: HksGenerateKeyUnpack_def HksImportKeyUnpack_def HksDeleteKeyUnpack_def HksKeyExistUnpack_def
      HksCertificateChainUnpack_def HksListAliasesUnpack_def within_request_def try_res_Inr
      dest: unpacked dest!: unpacked_answer split: if_splits)

text \<open>Here the code goes on when the buffer for the answer cannot be had.\<close>

lemma unpack_keys_unchecked:
  assumes "sized src"
  shows "HksExportPublicKeyUnpack alloc src = Inr (al, ops, out) \<Longrightarrow> unpacked_opt src [al] ops [out]"
    and "HksGetKeyParamSetUnpack alloc src = Inr (al, ops, pso) \<Longrightarrow> unpacked_opt src [al] ops []"
    and "HksGetKeyInfoListUnpack alloc src = Inr (ops, n, kis) \<Longrightarrow> unpacked_opt src [] ops []"
  using assms
  by (auto simp: HksExportPublicKeyUnpack_def HksGetKeyParamSetUnpack_def HksGetKeyInfoListUnpack_def
      within_request_def try_res_Inr Let_def case_prod_beta unpacked_buffer
      dest: unpacked split: if_splits)

text \<open>Requests to use a key.\<close>

lemma unpack_uses:
  assumes "sized src"
  shows "HksSignUnpack alloc src = Inr (key, ps, d, out) \<Longrightarrow> within_request src [key, d] [ps] [out]"
    and "HksVerifyUnpack src = Inr (key, ps, d, sig) \<Longrightarrow> within_request src [key, d, sig] [ps] []"
    and "HksEncryptDecryptUnpack alloc src = Inr (key, ps, d, out) \<Longrightarrow> within_request src [key, d] [ps] [out]"
    and "HksAgreeKeyUnpack alloc src = Inr (ps, key, peer, out) \<Longrightarrow> within_request src [key, peer] [ps] [out]"
    and "HksDeriveKeyUnpack alloc src = Inr (ps, key, out) \<Longrightarrow> within_request src [key] [ps] [out]"
    and "HksHmacUnpack alloc src = Inr (key, ps, d, out) \<Longrightarrow> within_request src [key, d] [ps] [out]"
  using assms
  by (auto simp: HksSignUnpack_def HksVerifyUnpack_def HksEncryptDecryptUnpack_def HksAgreeKeyUnpack_def
      HksDeriveKeyUnpack_def HksHmacUnpack_def within_request_def try_res_Inr
      dest: unpacked dest!: unpacked_answer)

lemma unpack_import_wrapped:
  assumes "HksImportWrappedKeyUnpack src = Inr (al, w, ps, d)" "sized src"
  shows "inside src al \<and> inside src w \<and> inside src d \<and> set_sound ps
    \<and> unat (paramSetSize ps) + 12 \<le> unat (blob_size src)"
proof -
  from assms(1) obtain o1 o2 o3 o4 where
    1: "GetBlobFromBuffer src 0 = Inr (al, o1)" and 2: "GetBlobFromBuffer src o1 = Inr (w, o2)"
    and 3: "GetParamSetFromBuffer_service src o2 = Inr (ps, o3)" and 4: "GetBlobFromBuffer src o3 = Inr (d, o4)"
    by (auto simp: HksImportWrappedKeyUnpack_def GetBlobFromBuffer_service_def rc_simps)
  note i = GetBlobFromBuffer_inside [OF 1 assms(2)] GetBlobFromBuffer_inside [OF 2 assms(2)]
    GetParamSet_sound [OF 3 assms(2)] GetBlobFromBuffer_inside [OF 4 assms(2)]
  then show ?thesis by (simp add: word_le_nat_alt)
qed



text \<open>
  The answer with the list of aliases, written by the service and read by the client, and the Base64
  encoding of certificates.
\<close>

section \<open>Lists of aliases\<close>

lemma copy_blobs_fields:
  assumes "list_all (\<lambda>b. CheckBlob (Some b) = 0) bs"
  shows "copy_blobs_loop bs buf off = copy_all addr (map FBlob bs) buf off"
  using assms
proof (induction bs arbitrary: buf off)
  case Nil
  then show ?case by simp
next
  case (Cons b bs)
  then show ?case
    by (cases "CopyBlobToBuffer b buf off") (auto simp: CopyBlobToBuffer_service_def)
qed

lemma aliases_size_wire:
  assumes "list_all (\<lambda>b. unat (blob_size b) + 3 < 2 ^ 32) bs"
  shows "aliases_size bs (word_of_nat n) = word_of_nat (n + wire_length (map FBlob bs))"
  using assms
proof (induction bs arbitrary: n)
  case Nil
  then show ?case by simp
next
  case (Cons b bs)
  have "ALIGN_SIZE (blob_size b) = word_of_nat (align (unat (blob_size b)))"
    using Cons.prems by (simp add: ALIGN_SIZE_align)
  then have "word_of_nat n + (4 + ALIGN_SIZE (blob_size b)) = (word_of_nat (n + field_length (FBlob b)) :: u32)"
    by simp
  with Cons.IH [of "n + field_length (FBlob b)"] Cons.prems show ?case
    by (simp add: add.assoc)
qed

text \<open>A blob with exactly its bytes.\<close>

definition exact :: "HksBlob \<Rightarrow> HksBlob" where
  "exact b = \<lparr>blob_size = blob_size b, blob_data = Some (take (unat (blob_size b)) (blob_bytes b))\<rparr>"

lemma alias_unpack_reading:
  assumes "reading addr fs (map FBlob bs) off" "\<forall>n. alloc n"
    and "list_all (\<lambda>b. blob_size b \<noteq> 0 \<and> unat (blob_size b) \<le> 0x800000) bs"
  shows "alias_unpack_loop alloc (request addr (fs @ map FBlob bs)) (length bs) off = Inr (map exact bs)"
  using assms
proof (induction bs arbitrary: fs off)
  case Nil
  then show ?case by simp
next
  case (Cons b bs)
  obtain b' off' where 1: "GetBlobFromBuffer (request addr (fs @ FBlob b # map FBlob bs)) off = Inr (b', off')"
    "same_blob b' b" "blob_data b' \<noteq> NULL" "reading addr (fs @ [FBlob b]) (map FBlob bs) off'"
    using read_blob Cons.prems(1) by fastforce
  have IH: "alias_unpack_loop alloc (request addr (fs @ FBlob b # map FBlob bs)) (length bs) off'
      = Inr (map exact bs)"
    using Cons.IH [OF 1(4) Cons.prems(2)] Cons.prems(3) by simp
  have "HksMalloc alloc (unat (blob_size b'))"
    using 1(2) Cons.prems(2,3) by (simp add: HksMalloc_def same_blob_def unat_eq_zero)
  moreover have "memcpy_s (unat (blob_size b')) (blob_data b') (unat (blob_size b'))
      = Some (take (unat (blob_size b)) (blob_bytes b))"
    using 1(2,3) by (auto simp: memcpy_s_def same_blob_def blob_bytes_def)
  ultimately show ?case
    using 1(1,2) IH by (simp add: exact_def same_blob_def)
qed

text \<open>
  The list of aliases arrives as the service has it: for at most 2048 aliases of at most 64 bytes the
  answer is packed into a buffer of exactly its size, and the client reads the same number of aliases with the
  same bytes from it.
\<close>

theorem aliases_roundtrip:
  assumes cnt: "aliasesCnt as = word_of_nat (length (aliases as))" "0 < length (aliases as)"
      "length (aliases as) \<le> 2048"
    and ok: "list_all (\<lambda>b. CheckBlob (Some b) = 0 \<and> unat (blob_size b) \<le> 64
      \<and> unat (blob_size b) \<le> length (blob_bytes b)) (aliases as)"
    and mem: "\<forall>n. alloc n"
  shows "\<exists>dest. HksListAliasesPackFromService alloc (Some as) (Some null_blob) = Inr dest
    \<and> unat (blob_size dest) = 4 + sum_list (map (\<lambda>b. 4 + align (unat (blob_size b))) (aliases as))
    \<and> HksListAliasesUnpackFromService alloc dest = Inr (Some (as\<lparr>aliases := map exact (aliases as)\<rparr>))"
proof -
  define bs where "bs = aliases as"
  define fs where "fs = FNum (aliasesCnt as) # map FBlob bs"
  define req where "req = request (\<lambda>_ _. 0) fs"
  have n: "unat (aliasesCnt as) = length bs" using cnt by (simp add: bs_def unat_u32_of_nat)
  have wf: "list_all wf_field fs"
    using ok by (fastforce simp: fs_def bs_def list_all_iff CheckBlob_0 blob_bytes_def)
  have "wire_length (map FBlob xs) \<le> 71 * length xs" if "list_all (\<lambda>b. unat (blob_size b) \<le> 64) xs" for xs
    using that
  proof (induction xs)
    case (Cons x xs)
    then show ?case using align_le [of "unat (blob_size x)"] by simp
  qed simp
  moreover have small: "list_all (\<lambda>b. unat (blob_size b) \<le> 64) bs"
    using ok by (simp add: bs_def list_all_iff)
  ultimately have "wire_length (map FBlob bs) \<le> 71 * 2048"
    using cnt(3) bs_def by (metis le_trans mult_le_mono2)
  then have len: "wire_length fs \<le> 150000" by (simp add: fs_def)
  have "list_all (\<lambda>b. unat (blob_size b) + 3 < 2 ^ 32) bs"
    using small by (fastforce simp: list_all_iff)
  from aliases_size_wire [OF this, of 4] have sz: "aliases_size bs 4 = word_of_nat (wire_length fs)"
    by (simp add: fs_def)
  have blobs: "list_all (\<lambda>b. CheckBlob (Some b) = 0) bs"
    using ok by (simp add: bs_def list_all_iff)
  have u: "unat (word_of_nat (wire_length fs) :: u32) = wire_length fs"
    using len by (intro unat_u32_of_nat) simp
  obtain off where pk: "copy_all (\<lambda>_ _. 0) fs (ipc_buffer (word_of_nat (wire_length fs))) 0 = Inr (req, off)"
    using pack_request [OF wf, of "\<lambda>_ _. 0"] len by (auto simp: req_def)
  have "HksCopyBlobsAndCntToBlob bs (aliasesCnt as) (ipc_buffer (word_of_nat (wire_length fs))) = Inr req"
  proof -
    have "4 \<le> wire_length fs" by (simp add: fs_def)
    then have num: "CopyUint32ToBuffer_service (aliasesCnt as) (ipc_buffer (word_of_nat (wire_length fs))) 0
        = CopyUint32ToBuffer (aliasesCnt as) (ipc_buffer (word_of_nat (wire_length fs))) 0"
      using copy_num [of "[]" "word_of_nat (wire_length fs)" 0 "aliasesCnt as"] u
      by (simp add: ipc_buffer_filled)
    show ?thesis
      using pk n unfolding HksCopyBlobsAndCntToBlob_def num
      by (simp add: fs_def copy_blobs_fields [OF blobs, of _ _ "\<lambda>_ _. 0"] case_prod_unfold
          try_res_assoc [symmetric])
  qed
  moreover have "HksMalloc alloc (wire_length fs)"
    using len mem by (simp add: HksMalloc_def fs_def)
  moreover have "aliasesCnt as \<noteq> 0"
    using n cnt(2) by (auto simp: bs_def)
  ultimately have pack: "HksListAliasesPackFromService alloc (Some as) (Some null_blob) = Inr req"
    using n sz u by (simp add: HksListAliasesPackFromService_def null_blob_def bs_def [symmetric] Let_def)
  have size: "unat (blob_size req) = wire_length fs"
    using request_size [of fs] len by (simp add: req_def)
  obtain o1 where 1: "GetUint32FromBuffer req 0 = Inr (aliasesCnt as, o1)"
    "reading (\<lambda>_ _. 0) [FNum (aliasesCnt as)] (map FBlob bs) o1"
    using read_num [OF reading_start, of "aliasesCnt as" "map FBlob bs" "\<lambda>_ _. 0"] wf len
    by (auto simp: req_def fs_def)
  have "list_all (\<lambda>b. blob_size b \<noteq> 0 \<and> unat (blob_size b) \<le> 0x800000) bs"
    using ok by (fastforce simp: bs_def list_all_iff CheckBlob_0)
  from alias_unpack_reading [OF 1(2) mem this]
  have 2: "alias_unpack_loop alloc req (length bs) o1 = Inr (map exact bs)"
    by (simp add: req_def fs_def)
  have "blob_size req \<noteq> 0"
    using size by (auto simp: fs_def)
  moreover have "aliasesCnt as \<le> 2048"
    using n cnt(3) by (simp add: word_le_nat_alt bs_def)
  moreover have "HksMalloc alloc (unat (aliasesCnt as) * 16)" "HksMalloc alloc 16"
    using n cnt mem by (simp_all add: HksMalloc_def bs_def)
  ultimately have "HksListAliasesUnpackFromService alloc req = Inr (Some (as\<lparr>aliases := map exact bs\<rparr>))"
    using 1(1) 2 n by (simp add: HksListAliasesUnpackFromService_def)
  with pack size show ?thesis
    by (auto simp: fs_def bs_def comp_def)
qed

lemma aliases_roundtrip_witness:
  "let as = \<lparr>aliasesCnt = 2, aliases = [\<lparr>blob_size = 1, blob_data = Some [7]\<rparr>,
      \<lparr>blob_size = 2, blob_data = Some [8, 9]\<rparr>]\<rparr> in
   \<exists>dest. HksListAliasesPackFromService (\<lambda>_. True) (Some as) (Some null_blob) = Inr dest
    \<and> unat (blob_size dest) = 20
    \<and> HksListAliasesUnpackFromService (\<lambda>_. True) dest = Inr (Some as)"
  using aliases_roundtrip [of "\<lparr>aliasesCnt = 2, aliases = [\<lparr>blob_size = 1, blob_data = Some [7]\<rparr>,
      \<lparr>blob_size = 2, blob_data = Some [8, 9]\<rparr>]\<rparr>" "\<lambda>_. True"]
  by (simp add: CheckBlob_def blob_bytes_def exact_def align_def Let_def)

end
