(* ===== verification/Huks_Ipc_Base64.thy ===== *)
theory Huks_Ipc_Base64
  imports Huks_Ipc_Unpack
begin

text \<open>
  The Base64 encoding of certificates against a decoder that follows RFC 4648: groups of four characters,
  each standing for six bits, with \<open>=\<close> (61) as padding.
\<close>

section \<open>The decoder\<close>

definition sextet_value :: "u8 \<Rightarrow> u32" where
  "sextet_value c = word_of_nat (length (takeWhile (\<lambda>x. x \<noteq> c) BASE64_TABLE))"

fun b64_decode :: "bytes \<Rightarrow> bytes" where
  "b64_decode (c1 # c2 # c3 # c4 # cs) =
     (let v = push_bit 18 (sextet_value c1) OR push_bit 12 (sextet_value c2)
            OR push_bit 6 (sextet_value c3) OR sextet_value c4;
          bs = [ucast (drop_bit 16 v), ucast (drop_bit 8 v), ucast v] in
      (if c3 = 61 then take 1 bs else if c4 = 61 then take 2 bs else bs) @ b64_decode cs)"
| "b64_decode _ = []"

section \<open>Groups\<close>

lemma BASE64_TABLE_inverse:
  assumes "k < 64"
  shows "sextet_value (BASE64_TABLE ! k) = word_of_nat k" "BASE64_TABLE ! k \<noteq> 61"
proof -
  have "list_all (\<lambda>k. sextet_value (BASE64_TABLE ! k) = word_of_nat k \<and> BASE64_TABLE ! k \<noteq> 61) [0..<64]"
    by code_simp
  then show "sextet_value (BASE64_TABLE ! k) = word_of_nat k" "BASE64_TABLE ! k \<noteq> 61"
    using assms by (simp_all add: list_all_iff)
qed

lemma six_bits: "x AND 0x3F = take_bit 6 (x :: u32)"
proof -
  have "(0x3F :: u32) = mask 6" by (simp add: mask_eq_exp_minus_1)
  then show ?thesis by (simp add: take_bit_eq_mask)
qed

lemma sextet_facts: "sextet_value (sextet b k) = take_bit 6 (drop_bit (6 * k) b)" "sextet b k \<noteq> 61"
proof -
  define i where "i = unat (take_bit 6 (drop_bit (6 * k) b))"
  have i: "i < 64"
    using take_bit_nat_less_exp [of 6 "unat (drop_bit (6 * k) b)"] by (simp add: i_def unsigned_take_bit_eq)
  have s: "sextet b k = BASE64_TABLE ! i"
    by (simp add: sextet_def six_bits i_def)
  show "sextet_value (sextet b k) = take_bit 6 (drop_bit (6 * k) b)" "sextet b k \<noteq> 61"
    using BASE64_TABLE_inverse [OF i] by (simp_all add: s i_def)
qed

lemma sextet_pad: "sextet_value 61 = 64"
  by code_simp

lemma group_or: "push_bit 16 (ucast (a :: u8)) + push_bit 8 (ucast (b :: u8)) + ucast (c :: u8)
    = (push_bit 16 (ucast a) OR push_bit 8 (ucast b) OR ucast c :: u32)"
proof -
  have bits: "\<not> bit a n" "\<not> bit b n" "\<not> bit c n" if "8 \<le> n" for n
    using that bit_imp_le_length [of a n] bit_imp_le_length [of b n] bit_imp_le_length [of c n] by auto
  have 1: "push_bit 16 (ucast a) AND push_bit 8 (ucast b) = (0 :: u32)"
    by (rule bit_word_eqI) (auto simp: bit_simps bits)
  have 2: "(push_bit 16 (ucast a) OR push_bit 8 (ucast b)) AND ucast c = (0 :: u32)"
    by (rule bit_word_eqI) (auto simp: bit_simps bits)
  show ?thesis
    by (simp add: disjunctive_add_eq_or [OF 1] disjunctive_add_eq_or [OF 2] or.assoc)
qed

definition triple :: "u8 \<Rightarrow> u8 \<Rightarrow> u8 \<Rightarrow> u32" where
  "triple a b c = push_bit 16 (ucast a) OR push_bit 8 (ucast b) OR ucast c"

definition join :: "u32 \<Rightarrow> u32 \<Rightarrow> u32 \<Rightarrow> u32 \<Rightarrow> u32" where
  "join s3 s2 s1 s0 = push_bit 18 s3 OR push_bit 12 s2 OR push_bit 6 s1 OR s0"

abbreviation part :: "nat \<Rightarrow> u32 \<Rightarrow> u32" where
  "part k g \<equiv> take_bit 6 (drop_bit (6 * k) g)"

text \<open>The first bytes of a group do not depend on what the padding is taken for.\<close>

lemma group_bytes:
  "ucast (drop_bit 16 (join (part 3 (triple a b c)) (part 2 (triple a b c)) (take_bit 7 v) (take_bit 7 w))) = a"
  "ucast (drop_bit 8 (join (part 3 (triple a b c)) (part 2 (triple a b c)) (part 1 (triple a b c)) (take_bit 7 w))) = b"
  "ucast (join (part 3 (triple a b c)) (part 2 (triple a b c)) (part 1 (triple a b c)) (part 0 (triple a b c))) = c"
proof -
  have bits: "\<not> bit a n" "\<not> bit b n" "\<not> bit c n" if "8 \<le> n" for n
    using that bit_imp_le_length [of a n] bit_imp_le_length [of b n] bit_imp_le_length [of c n] by auto
  have idx: "Suc (Suc (n - 2)) = n" if "2 \<le> n" for n
    using that by simp
  show "ucast (drop_bit 16 (join (part 3 (triple a b c)) (part 2 (triple a b c)) (take_bit 7 v) (take_bit 7 w))) = a"
    by (rule bit_word_eqI) (auto simp: triple_def join_def bit_simps bits not_less idx)
  show "ucast (drop_bit 8 (join (part 3 (triple a b c)) (part 2 (triple a b c)) (part 1 (triple a b c)) (take_bit 7 w))) = b"
    by (rule bit_word_eqI) (auto simp: triple_def join_def bit_simps bits not_less)
  show "ucast (join (part 3 (triple a b c)) (part 2 (triple a b c)) (part 1 (triple a b c)) (part 0 (triple a b c))) = c"
    by (rule bit_word_eqI) (auto simp: triple_def join_def bit_simps bits not_less)
qed

lemma b64_decode_group:
  "b64_decode (c1 # c2 # c3 # c4 # cs) =
     (let v = join (sextet_value c1) (sextet_value c2) (sextet_value c3) (sextet_value c4) in
      (if c3 = 61 then [ucast (drop_bit 16 v)]
       else if c4 = 61 then [ucast (drop_bit 16 v), ucast (drop_bit 8 v)]
       else [ucast (drop_bit 16 v), ucast (drop_bit 8 v), ucast v]) @ b64_decode cs)"
  by (simp add: join_def Let_def)

section \<open>Encoding and padding\<close>

lemma length_base64_loop: "length (base64_loop xs) = 4 * ((length xs + 2) div 3)"
  by (induction xs rule: base64_loop.induct) (auto simp: Let_def div_if)

text \<open>The text written with its padding.\<close>

definition padded :: "bytes \<Rightarrow> bytes" where
  "padded xs =
     (let w = base64_loop xs; n = length w; m = length xs mod 3 in
      if m = 0 then w else if m = 1 then w[n - 1 := 61, n - 2 := 61] else w[n - 1 := 61])"

definition quad :: "u8 \<Rightarrow> u8 \<Rightarrow> u8 \<Rightarrow> bytes" where
  "quad a b c = [sextet (triple a b c) 3, sextet (triple a b c) 2, sextet (triple a b c) 1, sextet (triple a b c) 0]"

lemma base64_loop_quads:
  "base64_loop [a] = quad a 0 0"
  "base64_loop [a, b] = quad a b 0"
  "base64_loop (a # b # c # xs) = quad a b c @ base64_loop xs"
  using group_or [of a 0 0] group_or [of a b 0] group_or [of a b c]
  by (simp_all add: quad_def triple_def Let_def)

lemma seven_bits: "take_bit 7 (part k g) = part k g" "take_bit 7 (64 :: u32) = 64"
  by simp_all

lemma decode_quad: "b64_decode (quad a b c @ xs) = [a, b, c] @ b64_decode xs"
  using group_bytes(1) [of a b c "part 1 (triple a b c)" "part 0 (triple a b c)"]
    group_bytes(2) [of a b c "part 0 (triple a b c)"] group_bytes(3) [of a b c]
  unfolding quad_def append.simps b64_decode_group sextet_facts(1) Let_def seven_bits
  by (simp only: sextet_facts(2) if_False append.simps)

lemma decode_padded_1: "b64_decode ((quad a 0 0)[3 := 61, 2 := 61]) = [a]"
proof -
  have "(quad a 0 0)[3 := 61, 2 := 61] = [sextet (triple a 0 0) 3, sextet (triple a 0 0) 2, 61, 61]"
    by (simp add: quad_def)
  then show ?thesis
    using group_bytes(1) [of a 0 0 64 64]
    by (simp only: b64_decode_group sextet_facts(1) sextet_pad seven_bits Let_def if_True b64_decode.simps
        append.simps append_Nil2 simp_thms)
qed

lemma decode_padded_2: "b64_decode ((quad a b 0)[3 := 61]) = [a, b]"
proof -
  let ?g = "triple a b 0"
  have "(quad a b 0)[3 := 61] = [sextet ?g 3, sextet ?g 2, sextet ?g 1, 61]"
    by (simp add: quad_def)
  then show ?thesis
    using group_bytes(1) [of a b 0 "part 1 ?g" 64] group_bytes(2) [of a b 0 64]
    by (simp only: b64_decode_group sextet_facts sextet_pad seven_bits Let_def if_True if_False
        b64_decode.simps append.simps append_Nil2 simp_thms)
qed

lemma length_quad [simp]: "length (quad a b c) = 4"
  by (simp add: quad_def)

lemma padded_step: "padded (a # b # c # xs) = quad a b c @ padded xs"
proof -
  have m: "length (a # b # c # xs) mod 3 = length xs mod 3" by simp
  show ?thesis
  proof (cases "length xs mod 3 = 0")
    case True
    then show ?thesis by (simp add: padded_def base64_loop_quads Let_def del: base64_loop.simps)
  next
    case False
    then have "xs \<noteq> []" by auto
    then have "4 \<le> length (base64_loop xs)"
      by (cases xs) (simp_all add: length_base64_loop del: base64_loop.simps)
    then have n: "base64_loop xs \<noteq> []" "length (quad a b c @ base64_loop xs) - 1 = 4 + (length (base64_loop xs) - 1)"
      "length (quad a b c @ base64_loop xs) - 2 = 4 + (length (base64_loop xs) - 2)" by auto
    show ?thesis
      using False m n by (simp add: padded_def base64_loop_quads Let_def list_update_append del: base64_loop.simps)
  qed
qed

lemma decode_padded: "b64_decode (padded xs) = xs"
proof (induction "length xs" arbitrary: xs rule: less_induct)
  case less
  consider "xs = []" | a where "xs = [a]" | a b where "xs = [a, b]" | a b c ys where "xs = a # b # c # ys"
    by (metis list.exhaust)
  then show ?case
  proof cases
    case 1
    then show ?thesis by (simp add: padded_def Let_def)
  next
    case 2
    then show ?thesis using decode_padded_1 by (simp add: padded_def base64_loop_quads del: base64_loop.simps)
  next
    case 3
    then show ?thesis using decode_padded_2 by (simp add: padded_def base64_loop_quads del: base64_loop.simps)
  next
    case 4
    with less.hyps [of ys] show ?thesis by (simp add: padded_step decode_quad)
  qed
qed

section \<open>Certificates\<close>

abbreviation b64_length :: "nat \<Rightarrow> nat" where
  "b64_length n \<equiv> 4 * ((n + 2) div 3)"

lemma length_padded [simp]: "length (padded xs) = b64_length (length xs)"
  by (simp add: padded_def Let_def length_base64_loop)

lemma Base64Encode_padded:
  assumes "unat n \<le> length src" "unat k = b64_length (unat n)" "length out = unat k"
  shows "Base64Encode src n out k = padded (take (unat n) src)"
proof -
  let ?w = "base64_loop (take (unat n) src)"
  have len: "length ?w = unat k"
    using assms by (simp add: length_base64_loop min_absorb1)
  have m: "n mod 3 = 0 \<longleftrightarrow> unat n mod 3 = 0" "n mod 3 = 1 \<longleftrightarrow> unat n mod 3 = 1"
    by (simp_all add: word_unat_eq_iff unat_mod)
  show ?thesis
  proof (cases "unat n mod 3 = 0")
    case True
    then show ?thesis
      using assms len m by (simp add: Base64Encode_def padded_def Let_def min_absorb1)
  next
    case False
    then have "0 < unat n" by (cases "unat n") auto
    then have "4 \<le> unat k" using assms(2) by simp
    then have k: "unat (k - 1) = unat k - 1" "unat (k - 2) = unat k - 2"
      by (simp_all add: unat_sub word_le_nat_alt)
    show ?thesis
      using False assms len m k by (simp add: Base64Encode_def padded_def Let_def min_absorb1)
  qed
qed

lemma cert_frame: "length cert_begin = 28" "length cert_end = 26"
  by (simp_all add: cert_begin_def cert_end_def)

lemma CheckAndCalculateSize_exact:
  "CheckAndCalculateSize n 54 = (if b64_length (unat n) + 54 < 2 ^ 32
     then Inr (word_of_nat (b64_length (unat n) + 54)) else Inl (- 3))"
proof (cases "n > 0xFFFFFFFF - 2")
  case True
  then have "\<not> b64_length (unat n) + 54 < 2 ^ 32"
    by (simp add: word_less_nat_alt)
  with True show ?thesis by (simp add: CheckAndCalculateSize_def)
next
  case False
  then have u: "unat (n + 2) = unat n + 2"
    by (simp add: word_less_nat_alt unat_word_ariths)
  then have d: "unat ((n + 2) div 3) = (unat n + 2) div 3"
    by (simp add: unat_div)
  show ?thesis
  proof (cases "(n + 2) div 3 > 0xFFFFFFFF div 4")
    case True
    then have "\<not> b64_length (unat n) + 54 < 2 ^ 32"
      using d by (simp add: word_less_nat_alt)
    with True False show ?thesis by (simp add: CheckAndCalculateSize_def)
  next
    case nov: False
    then have "unat ((n + 2) div 3) \<le> 0x3FFFFFFF"
      by (simp add: word_less_nat_alt)
    then have m: "unat ((n + 2) div 3 * 4) = b64_length (unat n)"
      using d by (simp add: unat_word_ariths)
    have "(n + 2) div 3 * 4 > 0xFFFFFFFF - 54 \<longleftrightarrow> \<not> b64_length (unat n) + 54 < 2 ^ 32"
      using m by (simp add: word_less_nat_alt) linarith
    moreover have "(n + 2) div 3 * 4 = word_of_nat (b64_length (unat n))"
      unfolding m [symmetric] by simp
    ultimately show ?thesis
      using False nov by (simp add: CheckAndCalculateSize_def)
  qed
qed

lemma EncodeCertChain_exact:
  assumes "unat (blob_size inBlob) \<le> length (blob_bytes inBlob)"
    and cap: "unat (blob_size outBlob) = length (blob_bytes outBlob)" and mem: "\<forall>n. alloc n"
  defines "need \<equiv> b64_length (unat (blob_size inBlob)) + 54"
    and "cert \<equiv> take (unat (blob_size inBlob)) (blob_bytes inBlob)"
  shows "EncodeCertChain alloc inBlob outBlob =
    (if \<not> need < 2 ^ 32 then Inl (- 3) else if \<not> need \<le> 0x800000 then Inl (- 21)
     else if \<not> need \<le> unat (blob_size outBlob) then Inl (- 7)
     else Inr \<lparr>blob_size = word_of_nat need,
       blob_data = Some (cert_begin @ padded cert @ cert_end @ drop need (blob_bytes outBlob))\<rparr>)"
proof -
  have sz: "CheckAndCalculateSize (blob_size inBlob) 54
      = (if need < 2 ^ 32 then Inr (word_of_nat need) else Inl (- 3))"
    unfolding need_def by (rule CheckAndCalculateSize_exact)
  show ?thesis
  proof (cases "need < 2 ^ 32")
    case False
    then show ?thesis by (simp add: EncodeCertChain_def Let_def cert_frame sz)
  next
    case True
    then have u: "unat (word_of_nat need :: u32) = need" by (simp add: unat_u32_of_nat)
    have "54 \<le> need" by (simp add: need_def)
    then have "unat (word_of_nat need - 28 - 26 :: u32) = need - 54"
      using u by (simp add: unat_sub word_le_nat_alt)
    then have out: "unat (word_of_nat need - 28 - 26 :: u32) = b64_length (unat (blob_size inBlob))"
      by (simp add: need_def)
    have enc: "Base64Encode (blob_bytes inBlob) (blob_size inBlob)
        (replicate (unat (word_of_nat need - 28 - 26 :: u32)) 0) (word_of_nat need - 28 - 26) = padded cert"
      unfolding cert_def using assms(1) out by (intro Base64Encode_padded) simp_all
    have len: "length (cert_begin @ padded cert @ cert_end) = need"
      using assms(1) by (simp add: cert_frame need_def cert_def min_absorb1)
    show ?thesis
      using True u enc len mem sz cap \<open>54 \<le> need\<close>
      by (cases outBlob) (simp add: EncodeCertChain_def Let_def cert_frame HksMalloc_def memcpy_to_def
          memcpy_s_def poke_def blob_bytes_def)
  qed
qed

text \<open>
  C31: A certificate that is asked for in Base64 is written as a PEM block: when the block fits the caller's
  buffer it consists of the begin line, a text that decodes to exactly the certificate, and the end line, and the
  size is set to its length; otherwise the call fails. The arithmetic on the sizes never wraps.
\<close>

theorem certificate_encoding:
  assumes "unat (blob_size inBlob) \<le> length (blob_bytes inBlob)"
    and "unat (blob_size outBlob) = length (blob_bytes outBlob)" and "\<forall>n. alloc n"
  shows "let need = 4 * ((unat (blob_size inBlob) + 2) div 3) + 54 in
    if need \<le> 0x800000 \<and> need \<le> unat (blob_size outBlob)
    then (\<exists>r text. EncodeCertChain alloc inBlob outBlob = Inr r \<and> unat (blob_size r) = need
      \<and> take need (blob_bytes r) = cert_begin @ text @ cert_end
      \<and> b64_decode text = take (unat (blob_size inBlob)) (blob_bytes inBlob))
    else EncodeCertChain alloc inBlob outBlob \<in> {Inl HKS_ERROR_INVALID_ARGUMENT, Inl HKS_ERROR_MALLOC_FAIL,
      Inl HKS_ERROR_BUFFER_TOO_SMALL}"
proof -
  define need where "need = b64_length (unat (blob_size inBlob)) + 54"
  define cert where "cert = take (unat (blob_size inBlob)) (blob_bytes inBlob)"
  note e = EncodeCertChain_exact [OF assms, folded need_def, folded cert_def]
  have len: "length (cert_begin @ padded cert @ cert_end) = need"
    using assms(1) by (simp add: cert_frame need_def cert_def min_absorb1)
  show ?thesis
  proof (cases "need \<le> 0x800000 \<and> need \<le> unat (blob_size outBlob)")
    case True
    define r where "r = \<lparr>blob_size = (word_of_nat need :: u32),
       blob_data = Some (cert_begin @ padded cert @ cert_end @ drop need (blob_bytes outBlob))\<rparr>"
    have "EncodeCertChain alloc inBlob outBlob = Inr r"
      using True by (simp add: e r_def)
    moreover have "unat (blob_size r) = need"
      using True by (simp add: r_def unat_u32_of_nat)
    moreover have "blob_bytes r = (cert_begin @ padded cert @ cert_end) @ drop need (blob_bytes outBlob)"
      by (simp add: r_def blob_bytes_def)
    then have "take need (blob_bytes r) = cert_begin @ padded cert @ cert_end"
      by (metis append_eq_conv_conj len)
    ultimately show ?thesis
      unfolding Let_def need_def [symmetric] if_P [OF True] cert_def [symmetric] using decode_padded by blast
  next
    case False
    then show ?thesis
      unfolding Let_def need_def [symmetric] if_not_P [OF False] by (simp add: e)
  qed
qed

lemma certificate_encoding_witness:
  "\<exists>r text. EncodeCertChain (\<lambda>_. True) \<lparr>blob_size = 4, blob_data = Some [1, 2, 3, 4]\<rparr>
      \<lparr>blob_size = 70, blob_data = Some (replicate 70 0)\<rparr> = Inr r \<and> unat (blob_size r) = 62
    \<and> take 62 (blob_bytes r) = cert_begin @ text @ cert_end \<and> b64_decode text = [1, 2, 3, 4]"
  using certificate_encoding [of "\<lparr>blob_size = 4, blob_data = Some [1, 2, 3, 4]\<rparr>"
      "\<lparr>blob_size = 70, blob_data = Some (replicate 70 0)\<rparr>" "\<lambda>_. True"]
  by (simp add: blob_bytes_def)

end
