(* ===== verification/Huks_Keyblob.thy ===== *)
theory Huks_Keyblob
  imports Huks_Keynode Huks_Ipc_Pack Huks_Ipc_Wire
begin

text \<open>
  Key blobs, \<open>services/huks_standard/huks_engine/main/core/src/hks_keyblob.c\<close>: a key leaves the engine as the
  memory of a parameter set whose last parameter holds the encrypted key behind a header
  (\<open>struct HksKeyBlobInfo\<close>); all bytes before that parameter's contents are authenticated with it. The
  second part of the file keeps the key for the tokens of user authentication and checks such tokens.
  The crypto engine, which calls OpenSSL or mbedTLS, is a parameter (\<open>crypto_hal\<close>).
\<close>

section \<open>The interface of the crypto engine\<close>

text \<open>The structures of \<open>hks_crypto_hal.h\<close> that the calls here fill.\<close>

record HksKeyDerivationParam =
  dp_salt :: HksBlob
  dp_info :: HksBlob
  dp_iterations :: u32
  dp_digestAlg :: u32

record HksKeySpec =
  ks_algType :: u32
  ks_keyLen :: u32
  ks_algParam :: "HksKeyDerivationParam ptr"

datatype HksAeadTag = tagDec HksBlob | tagLenEnc u32

record HksAeadParam =
  ae_nonce :: HksBlob
  ae_aad :: HksBlob
  ae_tag :: HksAeadTag
  ae_payloadLen :: u32

record HksCipherParam =
  cp_iv :: HksBlob

text \<open>What the \<open>void\<close> pointer \<open>algParam\<close> of a usage points at.\<close>

datatype HksAlgParam = AeadParam HksAeadParam | CipherParam HksCipherParam

record HksUsageSpec =
  us_algType :: u32
  us_mode :: u32
  us_padding :: u32
  us_mgfDigest :: u32
  us_digest :: u32
  us_purpose :: u32
  us_pssSaltLenType :: u32
  us_algParam :: "HksAlgParam ptr"

text \<open>
  The functions of the engine by their results. \<open>FillRandom\<close> and \<open>GenerateKey\<close> take the number of the
  call as well, as every call may give other bytes. \<open>DeriveKey\<close>, \<open>Hmac\<close>, \<open>Encrypt\<close> and \<open>Decrypt\<close> take the
  size of the output buffer last and give what they wrote to its start, whose length becomes the size of the
  buffer's blob; \<open>Encrypt\<close> gives the contents of the tag buffer besides.
\<close>

record crypto_hal =
  HksCryptoHalGetMainKey :: "bytes res"
  HksCryptoHalDeriveKey :: "HksBlob \<Rightarrow> HksKeySpec \<Rightarrow> u32 \<Rightarrow> bytes res"
  HksCryptoHalGenerateKey :: "nat \<Rightarrow> HksKeySpec \<Rightarrow> HksBlob res"
  HksCryptoHalFillRandom :: "nat \<Rightarrow> u32 \<Rightarrow> bytes res"
  HksCryptoHalHmac :: "HksBlob \<Rightarrow> u32 \<Rightarrow> HksBlob \<Rightarrow> u32 \<Rightarrow> bytes res"
  HksCryptoHalEncrypt :: "HksBlob \<Rightarrow> HksUsageSpec \<Rightarrow> HksBlob \<Rightarrow> u32 \<Rightarrow> rc \<times> bytes \<times> bytes"
  HksCryptoHalDecrypt :: "HksBlob \<Rightarrow> HksUsageSpec \<Rightarrow> HksBlob \<Rightarrow> u32 \<Rightarrow> rc \<times> bytes"

abbreviation (input) SIZEOF_USAGE_SPEC :: nat where "SIZEOF_USAGE_SPEC \<equiv> 40"
abbreviation (input) SIZEOF_AEAD_PARAM :: nat where "SIZEOF_AEAD_PARAM \<equiv> 56"
abbreviation (input) SIZEOF_HKS_KEY_NODE :: nat where "SIZEOF_HKS_KEY_NODE \<equiv> 24"

definition blob_of :: "bytes \<Rightarrow> HksBlob" where
  "blob_of bs = \<lparr>blob_size = word_of_nat (length bs), blob_data = Some bs\<rparr>"

definition empty_blob :: HksBlob where
  "empty_blob = \<lparr>blob_size = 0, blob_data = NULL\<rparr>"

section \<open>Writing into a built set\<close>

text \<open>Bytes of a buffer replaced from an offset on.\<close>

definition overwrite :: "nat \<Rightarrow> bytes \<Rightarrow> bytes \<Rightarrow> bytes" where
  "overwrite off new bs = take off bs @ new @ drop (off + length new) bs"

text \<open>
  The blobs of a built set lie one after another behind its parameters. Writing through the pointer of a
  parameter changes that parameter's contents and the same bytes of the buffer.
\<close>

fun blob_offset :: "u32 \<Rightarrow> HksParam list \<Rightarrow> nat" where
  "blob_offset tag [] = 0"
| "blob_offset tag (p # ps) = (if p_tag p = tag then 0 else plen p + blob_offset tag ps)"

fun update_first :: "u32 \<Rightarrow> (HksParam \<Rightarrow> HksParam) \<Rightarrow> HksParam list \<Rightarrow> HksParam list" where
  "update_first tag f [] = []"
| "update_first tag f (p # ps) = (if p_tag p = tag then f p # ps else p # update_first tag f ps)"

definition write_param :: "nat \<Rightarrow> bytes \<Rightarrow> HksParam \<Rightarrow> HksParam" where
  "write_param off new p = p\<lparr>p_val := VBlob ((blobParam (p_val p))
     \<lparr>blob_data := map_option (overwrite off new) (blob_data (blobParam (p_val p)))\<rparr>)\<rparr>"

definition write_blob :: "u32 \<Rightarrow> nat \<Rightarrow> bytes \<Rightarrow> HksParamSet \<Rightarrow> HksParamSet" where
  "write_blob tag off new ps = ps
     \<lparr>params := update_first tag (write_param off new) (params ps),
      ps_tail := overwrite (blob_offset tag (params ps) + off) new (ps_tail ps)\<rparr>"

section \<open>The header in front of the key\<close>

abbreviation (input) HKS_KEY_BLOB_DERIVE_SALT_SIZE :: nat where "HKS_KEY_BLOB_DERIVE_SALT_SIZE \<equiv> 16"
abbreviation (input) HKS_KEY_BLOB_NONCE_SIZE :: nat where "HKS_KEY_BLOB_NONCE_SIZE \<equiv> 12"
abbreviation (input) HKS_KEY_BLOB_TAG_SIZE :: nat where "HKS_KEY_BLOB_TAG_SIZE \<equiv> 16"
abbreviation (input) HKS_KEY_BLOB_MAIN_KEY_SIZE :: u32 where "HKS_KEY_BLOB_MAIN_KEY_SIZE \<equiv> 32"
abbreviation (input) HKS_KEY_BLOB_DERIVE_CNT :: u32 where "HKS_KEY_BLOB_DERIVE_CNT \<equiv> 1000"
abbreviation (input) HKS_KEY_BLOB_DUMMY_OS_VERSION :: u32 where "HKS_KEY_BLOB_DUMMY_OS_VERSION \<equiv> 1"
abbreviation (input) HKS_KEY_BLOB_DUMMY_OS_PATCHLEVEL :: u32 where
  "HKS_KEY_BLOB_DUMMY_OS_PATCHLEVEL \<equiv> 1"
abbreviation (input) HKS_MAX_PROCESS_NAME_LEN :: u32 where "HKS_MAX_PROCESS_NAME_LEN \<equiv> 50"
abbreviation (input) SIZEOF_KEY_BLOB_INFO :: nat where "SIZEOF_KEY_BLOB_INFO \<equiv> 48"

record HksKeyBlobInfo =
  kbi_salt :: bytes
  kbi_nonce :: bytes
  kbi_tag :: bytes
  kbi_keySize :: u32

definition as_HksKeyBlobInfo :: "HksBlob \<Rightarrow> HksKeyBlobInfo" where
  "as_HksKeyBlobInfo b =
     \<lparr>kbi_salt = take HKS_KEY_BLOB_DERIVE_SALT_SIZE (blob_bytes b),
      kbi_nonce = take HKS_KEY_BLOB_NONCE_SIZE (drop 16 (blob_bytes b)),
      kbi_tag = take HKS_KEY_BLOB_TAG_SIZE (drop 28 (blob_bytes b)),
      kbi_keySize = read_u32 (blob_bytes b) 44\<rparr>"

definition CleanKey :: "HksParamSet ptr \<Rightarrow> cleanup list" where
  "CleanKey paramSet =
     (case HksGetParam paramSet HKS_TAG_KEY of
        Inl _ \<Rightarrow> []
      | Inr keyParam \<Rightarrow> [WipeKey (blobParam (p_val keyParam))])"

section \<open>Deriving the key that encrypts\<close>

definition GetEncryptKey :: "crypto_hal \<Rightarrow> HksBlob res" where
  "GetEncryptKey hal = try_res (HksCryptoHalGetMainKey hal) (\<lambda>mainKey.
     Inr \<lparr>blob_size = HKS_KEY_BLOB_MAIN_KEY_SIZE, blob_data = Some mainKey\<rparr>)"

definition GetSalt :: "allocator \<Rightarrow> HksParamSet ptr \<Rightarrow> HksKeyBlobInfo \<Rightarrow> HksBlob res" where
  "GetSalt alloc paramSet keyBlobInfo =
     try_res (HksGetParam paramSet HKS_TAG_PROCESS_NAME) (\<lambda>appIdParam.
     let appId = blobParam (p_val appIdParam) in
     if blob_size appId > HKS_MAX_PROCESS_NAME_LEN then Inl HKS_ERROR_INVALID_ARGUMENT
     else
       (let salt_size = blob_size appId + word_of_nat HKS_KEY_BLOB_DERIVE_SALT_SIZE in
        if \<not> HksMalloc alloc (unat salt_size) then Inl HKS_ERROR_MALLOC_FAIL
        else Inr \<lparr>blob_size = salt_size,
          blob_data = Some (take (unat (blob_size appId)) (blob_bytes appId) @ kbi_salt keyBlobInfo)\<rparr>))"

definition GetDeriveKeyAlg :: "HksParamSet ptr \<Rightarrow> u32" where
  "GetDeriveKeyAlg paramSet =
     (case HksGetParam paramSet HKS_TAG_KEY_VERSION of
        Inl _ \<Rightarrow> HKS_ALG_HKDF
      | Inr keyVersion \<Rightarrow>
          if uint32Param (p_val keyVersion) < 3 then HKS_ALG_PBKDF2 else HKS_ALG_HKDF)"

definition GetDeriveKey ::
    "crypto_hal \<Rightarrow> allocator \<Rightarrow> HksParamSet ptr \<Rightarrow> HksKeyBlobInfo \<Rightarrow> HksBlob res" where
  "GetDeriveKey hal alloc paramSet keyBlobInfo =
     try_res (GetSalt alloc paramSet keyBlobInfo) (\<lambda>salt.
     let derParam = \<lparr>dp_salt = salt, dp_info = empty_blob, dp_iterations = HKS_KEY_BLOB_DERIVE_CNT,
           dp_digestAlg = HKS_DIGEST_SHA256\<rparr>;
         derivationSpec = \<lparr>ks_algType = GetDeriveKeyAlg paramSet,
           ks_keyLen = HKS_KEY_BYTES HKS_AES_KEY_SIZE_256, ks_algParam = Some derParam\<rparr> in
     try_res (GetEncryptKey hal) (\<lambda>encryptKey.
     let derived_size = HKS_KEY_BYTES HKS_AES_KEY_SIZE_256 in
     if \<not> HksMalloc alloc (unat derived_size) then Inl HKS_ERROR_MALLOC_FAIL
     else try_res (HksCryptoHalDeriveKey hal encryptKey derivationSpec derived_size) (\<lambda>derived.
       Inr \<lparr>blob_size = derived_size, blob_data = Some derived\<rparr>)))"

section \<open>Encrypting and decrypting in place\<close>

definition BuildKeyBlobUsageSpec :: "allocator \<Rightarrow> HksBlob \<Rightarrow> HksParam \<Rightarrow> bool \<Rightarrow> HksUsageSpec res" where
  "BuildKeyBlobUsageSpec alloc aad keyParam isEncrypt =
     (if \<not> HksMalloc alloc SIZEOF_AEAD_PARAM then Inl HKS_ERROR_MALLOC_FAIL
      else
        (let keyBlobInfo = as_HksKeyBlobInfo (blobParam (p_val keyParam));
             aeadParam =
               \<lparr>ae_nonce = \<lparr>blob_size = word_of_nat HKS_KEY_BLOB_NONCE_SIZE,
                  blob_data = Some (kbi_nonce keyBlobInfo)\<rparr>,
                ae_aad = aad,
                ae_tag = (if isEncrypt then tagLenEnc HKS_AE_TAG_LEN
                  else tagDec \<lparr>blob_size = word_of_nat HKS_KEY_BLOB_TAG_SIZE,
                    blob_data = Some (kbi_tag keyBlobInfo)\<rparr>),
                ae_payloadLen = kbi_keySize keyBlobInfo\<rparr> in
         Inr \<lparr>us_algType = HKS_ALG_AES, us_mode = HKS_MODE_GCM, us_padding = HKS_PADDING_NONE,
           us_mgfDigest = 0, us_digest = HKS_DIGEST_NONE, us_purpose = 0, us_pssSaltLenType = 0,
           us_algParam = Some (AeadParam aeadParam)\<rparr>))"

text \<open>The key behind the header, as the engine is given it.\<close>

definition src_key :: "HksBlob \<Rightarrow> u32 \<Rightarrow> HksBlob" where
  "src_key b keySize =
     \<lparr>blob_size = keySize, blob_data = map_option (drop SIZEOF_KEY_BLOB_INFO) (blob_data b)\<rparr>"

text \<open>
  The code and the set afterwards. The key is replaced in place, as source and destination of the engine
  are the same buffer, and encrypting writes the tag into the header.
\<close>

definition EncryptAndDecryptKeyBlob ::
    "crypto_hal \<Rightarrow> allocator \<Rightarrow> HksBlob \<Rightarrow> HksParamSet \<Rightarrow> bool \<Rightarrow> rc \<times> HksParamSet" where
  "EncryptAndDecryptKeyBlob hal alloc aad paramSet isEncrypt =
     (case HksGetParam (Some paramSet) HKS_TAG_KEY of
        Inl ret \<Rightarrow> (ret, paramSet)
      | Inr keyParam \<Rightarrow>
          let b = blobParam (p_val keyParam) in
          if unat (blob_size b) \<le> SIZEOF_KEY_BLOB_INFO then (HKS_ERROR_INVALID_KEY_INFO, paramSet)
          else if \<not> HksMalloc alloc SIZEOF_USAGE_SPEC then (HKS_ERROR_MALLOC_FAIL, paramSet)
          else
            (case BuildKeyBlobUsageSpec alloc aad keyParam isEncrypt of
               Inl ret \<Rightarrow> (ret, paramSet)
             | Inr usageSpec \<Rightarrow>
                 let keyBlobInfo = as_HksKeyBlobInfo b; keySize = kbi_keySize keyBlobInfo in
                 if blob_size b - word_of_nat SIZEOF_KEY_BLOB_INFO \<noteq> keySize
                 then (HKS_ERROR_INVALID_KEY_INFO, paramSet)
                 else
                   (case GetDeriveKey hal alloc (Some paramSet) keyBlobInfo of
                      Inl ret \<Rightarrow> (ret, paramSet)
                    | Inr derivedKey \<Rightarrow>
                        if isEncrypt then
                          (case HksCryptoHalEncrypt hal derivedKey usageSpec (src_key b keySize) keySize of
                             (ret, out, tag) \<Rightarrow>
                               (ret, write_blob HKS_TAG_KEY 28 tag
                                  (write_blob HKS_TAG_KEY SIZEOF_KEY_BLOB_INFO out paramSet)))
                        else
                          (case HksCryptoHalDecrypt hal derivedKey usageSpec (src_key b keySize) keySize of
                             (ret, out) \<Rightarrow>
                               (ret, write_blob HKS_TAG_KEY SIZEOF_KEY_BLOB_INFO out paramSet)))))"

definition EncryptKeyBlob :: "crypto_hal \<Rightarrow> allocator \<Rightarrow> HksBlob \<Rightarrow> HksParamSet \<Rightarrow> rc \<times> HksParamSet" where
  "EncryptKeyBlob hal alloc aad paramSet = EncryptAndDecryptKeyBlob hal alloc aad paramSet True"

definition DecryptKeyBlob :: "crypto_hal \<Rightarrow> allocator \<Rightarrow> HksBlob \<Rightarrow> HksParamSet \<Rightarrow> rc \<times> HksParamSet" where
  "DecryptKeyBlob hal alloc aad paramSet = EncryptAndDecryptKeyBlob hal alloc aad paramSet False"

section \<open>Building a key blob\<close>

definition InitKeyBlobInfo :: "crypto_hal \<Rightarrow> allocator \<Rightarrow> HksBlob \<Rightarrow> HksBlob res" where
  "InitKeyBlobInfo hal alloc key =
     (let info_size = blob_size key + word_of_nat SIZEOF_KEY_BLOB_INFO in
      if \<not> HksMalloc alloc (unat info_size) then Inl HKS_ERROR_MALLOC_FAIL
      else
        try_res (HksCryptoHalFillRandom hal 0 (word_of_nat HKS_KEY_BLOB_DERIVE_SALT_SIZE)) (\<lambda>salt.
        try_res (HksCryptoHalFillRandom hal 1 (word_of_nat HKS_KEY_BLOB_NONCE_SIZE)) (\<lambda>nonce.
        Inr \<lparr>blob_size = info_size,
          blob_data = Some (salt @ nonce @ replicate HKS_KEY_BLOB_TAG_SIZE 0 @ to_le 4 (blob_size key)
            @ take (unat (blob_size key)) (blob_bytes key))\<rparr>)))"

definition core_params :: "u32 \<Rightarrow> HksBlob \<Rightarrow> u8 \<Rightarrow> HksParam list" where
  "core_params HKS_KEY_VERSION keyInfo keyFlag =
     [\<lparr>p_tag = HKS_TAG_KEY_VERSION, p_val = VUint HKS_KEY_VERSION\<rparr>,
      \<lparr>p_tag = HKS_TAG_OS_VERSION, p_val = VUint HKS_KEY_BLOB_DUMMY_OS_VERSION\<rparr>,
      \<lparr>p_tag = HKS_TAG_OS_PATCHLEVEL, p_val = VUint HKS_KEY_BLOB_DUMMY_OS_PATCHLEVEL\<rparr>,
      \<lparr>p_tag = HKS_TAG_KEY_FLAG, p_val = VUint (ucast keyFlag)\<rparr>,
      \<lparr>p_tag = HKS_TAG_KEY, p_val = VBlob keyInfo\<rparr>]"

text \<open>\<open>HKS_KEY_VERSION\<close> is a flag of the build, 3 in \<open>huks.gni\<close>.\<close>

definition AddCoreServiceParams :: "HksBlob \<Rightarrow> u8 \<Rightarrow> HksParamSet ptr \<Rightarrow> rc \<times> HksParamSet ptr" where
  "AddCoreServiceParams keyInfo keyFlag paramSet =
     (let tmpParam = core_params 3 keyInfo keyFlag;
          ret = HksCheckIsTagAlreadyExist (Some tmpParam) paramSet in
      if ret \<noteq> HKS_SUCCESS then (ret, paramSet)
      else HksAddParams paramSet (Some tmpParam))"

text \<open>The result and the plain keys that were overwritten with zeros.\<close>

definition BuildKeyBlobWithKeyParam ::
    "crypto_hal \<Rightarrow> allocator \<Rightarrow> HksBlob \<Rightarrow> u8 \<Rightarrow> HksParamSet \<Rightarrow> HksParamSet res \<times> cleanup list" where
  "BuildKeyBlobWithKeyParam hal alloc key keyFlag inParamSet =
     (case HksInitParamSet alloc of
        Inl ret \<Rightarrow> (Inl ret, [])
      | Inr newParamSet \<Rightarrow>
          let (ret, paramSet) = HksAddParams (Some newParamSet) (Some (params inParamSet)) in
          if ret \<noteq> HKS_SUCCESS then (Inl ret, [])
          else
            (case InitKeyBlobInfo hal alloc key of
               Inl ret \<Rightarrow> (Inl ret, [])
             | Inr tmpKey \<Rightarrow>
                 let (ret, paramSet) = AddCoreServiceParams tmpKey keyFlag paramSet in
                 if ret \<noteq> HKS_SUCCESS then (Inl ret, [WipeKey tmpKey])
                 else (HksBuildParamSet alloc paramSet, [WipeKey tmpKey])))"

text \<open>
  \<open>addr i\<close> is the pointer of the \<open>i\<close>-th parameter of the set. It is part of the authenticated bytes and of
  the key blob.
\<close>

definition HksBuildKeyBlob2 ::
    "crypto_hal \<Rightarrow> allocator \<Rightarrow> (nat \<Rightarrow> u64) \<Rightarrow> HksParamSet \<Rightarrow> HksBlob \<Rightarrow> HksBlob res \<times> cleanup list" where
  "HksBuildKeyBlob2 hal alloc addr keyBlobParamSet keyOut =
     (case HksGetParam (Some keyBlobParamSet) HKS_TAG_KEY of
        Inl ret \<Rightarrow> (Inl ret, [])
      | Inr keyParam \<Rightarrow>
          let aad = \<lparr>blob_size = paramSetSize keyBlobParamSet - blob_size (blobParam (p_val keyParam)),
                blob_data = Some (param_set_bytes addr keyBlobParamSet)\<rparr>;
              (ret, keyBlobParamSet) = EncryptKeyBlob hal alloc aad keyBlobParamSet in
          if ret \<noteq> HKS_SUCCESS then (Inl ret, [WipeKey (blobParam (p_val keyParam))])
          else if blob_data keyOut = NULL then (Inl HKS_ERROR_BUFFER_TOO_SMALL, [])
          else
            (case memcpy_to keyOut 0 (blob_size keyOut) (Some (param_set_bytes addr keyBlobParamSet))
                (unat (paramSetSize keyBlobParamSet)) of
               (ok, keyOut) \<Rightarrow>
                 if \<not> ok then (Inl HKS_ERROR_BUFFER_TOO_SMALL, [])
                 else (Inr (keyOut\<lparr>blob_size := paramSetSize keyBlobParamSet\<rparr>), [])))"

definition HksBuildKeyBlob ::
    "crypto_hal \<Rightarrow> allocator \<Rightarrow> (nat \<Rightarrow> u64) \<Rightarrow> u8 \<Rightarrow> HksBlob \<Rightarrow> HksParamSet \<Rightarrow> HksBlob
     \<Rightarrow> HksBlob res \<times> cleanup list" where
  "HksBuildKeyBlob hal alloc addr keyFlag key paramSet keyOut =
     (case BuildKeyBlobWithKeyParam hal alloc key keyFlag paramSet of
        (Inl ret, cs) \<Rightarrow> (Inl ret, cs)
      | (Inr keyBlobParamSet, cs) \<Rightarrow>
          (case HksBuildKeyBlob2 hal alloc addr keyBlobParamSet keyOut of (r, cs') \<Rightarrow> (r, cs @ cs')))"

definition HksBuildKeyBlobWithOutAddKeyParam ::
    "crypto_hal \<Rightarrow> allocator \<Rightarrow> (nat \<Rightarrow> u64) \<Rightarrow> HksParamSet \<Rightarrow> HksBlob \<Rightarrow> HksBlob res \<times> cleanup list" where
  "HksBuildKeyBlobWithOutAddKeyParam hal alloc addr paramSet keyOut =
     (case HksGetParamSet alloc (Some paramSet) (paramSetSize paramSet) of
        Inl ret \<Rightarrow> (Inl ret, [])
      | Inr keyBlobParamSet \<Rightarrow> HksBuildKeyBlob2 hal alloc addr keyBlobParamSet keyOut)"

section \<open>Loading a key blob\<close>

text \<open>Where the contents of a blob of a built set end, from the start of the set.\<close>

definition blob_end :: "u32 \<Rightarrow> HksParamSet \<Rightarrow> nat" where
  "blob_end tag ps = SIZEOF_PARAM_SET + SIZEOF_PARAM * paramsCnt ps + blob_offset tag (params ps)
     + (case List.find (\<lambda>p. p_tag p = tag) (params ps) of
          Some p \<Rightarrow> unat (blob_size (blobParam (p_val p))) | None \<Rightarrow> 0)"

definition GetAadAndParamSet :: "allocator \<Rightarrow> HksBlob \<Rightarrow> (HksBlob \<times> HksParamSet) res" where
  "GetAadAndParamSet alloc inData =
     (if \<not> HksMalloc alloc (unat (blob_size inData)) then Inl HKS_ERROR_MALLOC_FAIL
      else
        (let keyBlob = take (unat (blob_size inData)) (blob_bytes inData) in
         try_res (HksGetParamSet alloc (Some (param_set_at keyBlob)) (blob_size inData))
           (\<lambda>keyBlobParamSet.
         try_res (HksGetParam (Some keyBlobParamSet) HKS_TAG_KEY) (\<lambda>keyParam.
         if blob_end HKS_TAG_KEY keyBlobParamSet \<noteq> unat (paramSetSize keyBlobParamSet)
         then Inl HKS_ERROR_INVALID_ARGUMENT
         else Inr (\<lparr>blob_size = paramSetSize keyBlobParamSet - blob_size (blobParam (p_val keyParam)),
             blob_data = Some keyBlob\<rparr>, keyBlobParamSet)))))"

definition HksGetAadAndParamSet :: "allocator \<Rightarrow> HksBlob \<Rightarrow> (HksBlob \<times> HksParamSet) res" where
  "HksGetAadAndParamSet alloc inData = GetAadAndParamSet alloc inData"

definition HksDecryptKeyBlob ::
    "crypto_hal \<Rightarrow> allocator \<Rightarrow> HksBlob \<Rightarrow> HksParamSet \<Rightarrow> rc \<times> HksParamSet" where
  "HksDecryptKeyBlob hal alloc aad paramSet = DecryptKeyBlob hal alloc aad paramSet"

definition HksGetRawKey :: "allocator \<Rightarrow> HksParamSet ptr \<Rightarrow> HksBlob res" where
  "HksGetRawKey alloc paramSet =
     try_res (HksGetParam paramSet HKS_TAG_KEY) (\<lambda>keyParam.
     let b = blobParam (p_val keyParam) in
     if unat (blob_size b) \<le> SIZEOF_KEY_BLOB_INFO then Inl HKS_ERROR_INVALID_KEY_INFO
     else
       (let keySize = kbi_keySize (as_HksKeyBlobInfo b) in
        if blob_size b - word_of_nat SIZEOF_KEY_BLOB_INFO \<noteq> keySize then Inl HKS_ERROR_INVALID_KEY_INFO
        else if \<not> HksMalloc alloc (unat keySize) then Inl HKS_ERROR_MALLOC_FAIL
        else Inr \<lparr>blob_size = keySize,
          blob_data = Some (take (unat keySize) (drop SIZEOF_KEY_BLOB_INFO (blob_bytes b)))\<rparr>))"

section \<open>Keys of operations in one call\<close>

abbreviation (input) HKS_KEYNODE_INACTIVE :: u32 where "HKS_KEYNODE_INACTIVE \<equiv> 0"

record HksKeyNode =
  hkn_paramSet :: "HksParamSet ptr"
  hkn_refCnt :: u32
  hkn_status :: u32
  hkn_handle :: u64

definition HksGenerateKeyNode ::
    "crypto_hal \<Rightarrow> allocator \<Rightarrow> HksBlob \<Rightarrow> HksKeyNode ptr \<times> cleanup list" where
  "HksGenerateKeyNode hal alloc key =
     (if blob_size key > MAX_KEY_SIZE then (NULL, [])
      else
        (case GetAadAndParamSet alloc key of
           Inl _ \<Rightarrow> (NULL, [])
         | Inr (aad, keyBlobParamSet) \<Rightarrow>
             let (ret, keyBlobParamSet) = DecryptKeyBlob hal alloc aad keyBlobParamSet in
             if ret \<noteq> HKS_SUCCESS then (NULL, [])
             else if \<not> HksMalloc alloc SIZEOF_HKS_KEY_NODE then (NULL, CleanKey (Some keyBlobParamSet))
             else (Some \<lparr>hkn_paramSet = Some keyBlobParamSet, hkn_refCnt = 1,
                     hkn_status = HKS_KEYNODE_INACTIVE, hkn_handle = 0\<rparr>, [])))"

definition HksFreeKeyNode :: "HksKeyNode ptr ptr \<Rightarrow> HksKeyNode ptr ptr \<times> cleanup list" where
  "HksFreeKeyNode keyNode =
     (case keyNode of
        NULL \<Rightarrow> (keyNode, [])
      | Some NULL \<Rightarrow> (keyNode, [])
      | Some (Some n) \<Rightarrow>
          if hkn_refCnt n = 0 then (keyNode, [])
          else
            (let n = n\<lparr>hkn_refCnt := hkn_refCnt n - 1\<rparr> in
             if hkn_status n = HKS_KEYNODE_INACTIVE \<and> hkn_refCnt n = 0
             then (Some NULL, CleanKey (hkn_paramSet n))
             else (Some (Some n), [])))"

text \<open>
  Tokens of user authentication: the structure of \<open>hks_type.h\<close> as a record and as memory, and the second
  part of \<open>hks_keyblob.c\<close>, which keeps the key shared with the authentication service, checks the
  authentication code of a token with it and decrypts a token.
\<close>

section \<open>Tokens\<close>

abbreviation (input) TOKEN_SIZE :: u32 where "TOKEN_SIZE \<equiv> 32"
abbreviation (input) SHA256_SIGN_LEN :: nat where "SHA256_SIGN_LEN \<equiv> 32"
abbreviation (input) SIZEOF_AUTH_TOKEN :: nat where "SIZEOF_AUTH_TOKEN \<equiv> 280"
abbreviation (input) SIZEOF_CIPHERTEXT_DATA :: nat where "SIZEOF_CIPHERTEXT_DATA \<equiv> 156"
abbreviation (input) HKS_KEY_BLOB_AT_KEY_BYTES :: nat where "HKS_KEY_BLOB_AT_KEY_BYTES \<equiv> 32"
abbreviation (input) HKS_KEY_BLOB_AT_KEY_SIZE :: u32 where "HKS_KEY_BLOB_AT_KEY_SIZE \<equiv> 256"

record HksPlaintextData =
  pd_challenge :: bytes
  pd_time :: u64
  pd_authTrustLevel :: u32
  pd_authType :: u32
  pd_authMode :: u32
  pd_securityLevel :: u32
  pd_tokenType :: u32

record HksCiphertextData =
  cd_userId :: u32
  cd_secureUid :: u64
  cd_enrolledId :: u64
  cd_credentialId :: u64
  cd_collectorUdid :: bytes
  cd_verifierUdid :: bytes

record HksUserAuthToken =
  at_version :: u32
  plaintextData :: HksPlaintextData
  ciphertextData :: HksCiphertextData
  at_tag :: bytes
  at_iv :: bytes
  at_sign :: bytes

text \<open>The structures are packed: their memory is the fields one after another.\<close>

definition plaintext_bytes :: "HksPlaintextData \<Rightarrow> bytes" where
  "plaintext_bytes p = pd_challenge p @ to_le 8 (pd_time p) @ to_le 4 (pd_authTrustLevel p)
     @ to_le 4 (pd_authType p) @ to_le 4 (pd_authMode p) @ to_le 4 (pd_securityLevel p)
     @ to_le 4 (pd_tokenType p)"

definition ciphertext_bytes :: "HksCiphertextData \<Rightarrow> bytes" where
  "ciphertext_bytes c = to_le 4 (cd_userId c) @ to_le 8 (cd_secureUid c) @ to_le 8 (cd_enrolledId c)
     @ to_le 8 (cd_credentialId c) @ cd_collectorUdid c @ cd_verifierUdid c"

definition auth_token_bytes :: "HksUserAuthToken \<Rightarrow> bytes" where
  "auth_token_bytes t = to_le 4 (at_version t) @ plaintext_bytes (plaintextData t)
     @ ciphertext_bytes (ciphertextData t) @ at_tag t @ at_iv t @ at_sign t"

definition field_at :: "bytes \<Rightarrow> nat \<Rightarrow> nat \<Rightarrow> bytes" where
  "field_at bs off n = take n (drop off bs)"

definition as_HksPlaintextData :: "bytes \<Rightarrow> HksPlaintextData" where
  "as_HksPlaintextData bs =
     \<lparr>pd_challenge = field_at bs 0 32, pd_time = of_le (field_at bs 32 8),
      pd_authTrustLevel = of_le (field_at bs 40 4), pd_authType = of_le (field_at bs 44 4),
      pd_authMode = of_le (field_at bs 48 4), pd_securityLevel = of_le (field_at bs 52 4),
      pd_tokenType = of_le (field_at bs 56 4)\<rparr>"

definition as_HksCiphertextData :: "bytes \<Rightarrow> HksCiphertextData" where
  "as_HksCiphertextData bs =
     \<lparr>cd_userId = of_le (field_at bs 0 4), cd_secureUid = of_le (field_at bs 4 8),
      cd_enrolledId = of_le (field_at bs 12 8), cd_credentialId = of_le (field_at bs 20 8),
      cd_collectorUdid = field_at bs 28 64, cd_verifierUdid = field_at bs 92 64\<rparr>"

definition as_HksUserAuthToken :: "bytes \<Rightarrow> HksUserAuthToken" where
  "as_HksUserAuthToken bs =
     \<lparr>at_version = of_le (field_at bs 0 4), plaintextData = as_HksPlaintextData (field_at bs 4 60),
      ciphertextData = as_HksCiphertextData (field_at bs 64 156), at_tag = field_at bs 220 16,
      at_iv = field_at bs 236 12, at_sign = field_at bs 248 32\<rparr>"

text \<open>The arrays of a token have the lengths of the structure.\<close>

definition wf_token :: "HksUserAuthToken \<Rightarrow> bool" where
  "wf_token t \<longleftrightarrow> length (pd_challenge (plaintextData t)) = 32
     \<and> length (cd_collectorUdid (ciphertextData t)) = 64 \<and> length (cd_verifierUdid (ciphertextData t)) = 64
     \<and> length (at_tag t) = 16 \<and> length (at_iv t) = 12 \<and> length (at_sign t) = 32"

section \<open>The key for tokens\<close>

record HksAuthTokenKey =
  macKey :: bytes
  cipherKey :: bytes

record at_key_state =
  g_genAtKeyMutex :: bool
  g_cachedAuthTokenKey :: HksAuthTokenKey
  g_isInitAuthTokenKey :: bool

definition zero_key :: HksAuthTokenKey where
  "zero_key = \<lparr>macKey = replicate HKS_KEY_BLOB_AT_KEY_BYTES 0, cipherKey = replicate HKS_KEY_BLOB_AT_KEY_BYTES 0\<rparr>"

text \<open>\<open>memcpy_s\<close> into an array of the cached key: a key that is too long leaves zeros.\<close>

definition copy_key :: "HksBlob \<Rightarrow> bytes \<Rightarrow> bytes" where
  "copy_key key old =
     (case memcpy_s HKS_KEY_BLOB_AT_KEY_BYTES (blob_data key) (unat (blob_size key)) of
        Some bs \<Rightarrow> overwrite 0 bs old
      | None \<Rightarrow> replicate HKS_KEY_BLOB_AT_KEY_BYTES 0)"

text \<open>\<open>n\<close> is the number of keys generated before, as every call of the engine may give another key.\<close>

definition GenerateAuthTokenKey :: "crypto_hal \<Rightarrow> nat \<Rightarrow> at_key_state \<Rightarrow> rc \<times> at_key_state" where
  "GenerateAuthTokenKey hal n st =
     (case HksCryptoHalGenerateKey hal n
        \<lparr>ks_algType = HKS_ALG_HMAC, ks_keyLen = HKS_KEY_BLOB_AT_KEY_SIZE, ks_algParam = NULL\<rparr> of
        Inl ret \<Rightarrow> (ret, st)
      | Inr mac_key \<Rightarrow>
          (case HksCryptoHalGenerateKey hal (Suc n)
             \<lparr>ks_algType = HKS_ALG_AES, ks_keyLen = HKS_KEY_BLOB_AT_KEY_SIZE, ks_algParam = NULL\<rparr> of
             Inl ret \<Rightarrow> (ret, st)
           | Inr cipher_key \<Rightarrow>
               (HKS_SUCCESS, st\<lparr>g_cachedAuthTokenKey :=
                  \<lparr>macKey = copy_key mac_key (macKey (g_cachedAuthTokenKey st)),
                   cipherKey = copy_key cipher_key (cipherKey (g_cachedAuthTokenKey st))\<rparr>\<rparr>)))"

text \<open>\<open>mutex\<close>: whether \<open>HksMutexCreate\<close> gives a mutex.\<close>

definition HksCoreInitAuthTokenKey ::
    "crypto_hal \<Rightarrow> nat \<Rightarrow> bool \<Rightarrow> at_key_state \<Rightarrow> rc \<times> at_key_state" where
  "HksCoreInitAuthTokenKey hal n mutex st =
     (let later = (\<lambda>st.
        let st = st\<lparr>g_isInitAuthTokenKey := False\<rparr>;
            st = (if \<not> g_genAtKeyMutex st then st\<lparr>g_genAtKeyMutex := mutex\<rparr> else st) in
        if \<not> g_genAtKeyMutex st then (HKS_ERROR_BAD_STATE, st) else (HKS_SUCCESS, st)) in
      if \<not> g_isInitAuthTokenKey st then
        (case GenerateAuthTokenKey hal n st of
           (ret, st) \<Rightarrow>
             if ret = HKS_SUCCESS then (HKS_SUCCESS, st\<lparr>g_isInitAuthTokenKey := True\<rparr>) else later st)
      else later st)"

definition HksCoreDestroyAuthTokenKey :: "at_key_state \<Rightarrow> at_key_state" where
  "HksCoreDestroyAuthTokenKey st =
     st\<lparr>g_genAtKeyMutex := False, g_isInitAuthTokenKey := False, g_cachedAuthTokenKey := zero_key\<rparr>"

text \<open>
  The second test of the flag, under the mutex, guards against another thread; one call alone sees the
  same value.
\<close>

definition HksGetAuthTokenKey ::
    "crypto_hal \<Rightarrow> nat \<Rightarrow> at_key_state \<Rightarrow> HksAuthTokenKey res \<times> at_key_state" where
  "HksGetAuthTokenKey hal n st =
     (if \<not> g_isInitAuthTokenKey st then
        (case GenerateAuthTokenKey hal n st of
           (ret, st) \<Rightarrow>
             if ret \<noteq> HKS_SUCCESS then (Inl HKS_FAILURE, st)
             else (Inr (g_cachedAuthTokenKey st), st\<lparr>g_isInitAuthTokenKey := True\<rparr>))
      else (Inr (g_cachedAuthTokenKey st), st))"

section \<open>Checking and decrypting a token\<close>

definition HksVerifyAuthTokenSign ::
    "crypto_hal \<Rightarrow> nat \<Rightarrow> HksUserAuthToken ptr \<Rightarrow> at_key_state \<Rightarrow> rc \<times> at_key_state" where
  "HksVerifyAuthTokenSign hal n authToken st =
     (case authToken of NULL \<Rightarrow> (HKS_ERROR_NULL_POINTER, st)
      | Some token \<Rightarrow>
          (case HksGetAuthTokenKey hal n st of
             (Inl ret, st) \<Rightarrow> (ret, st)
           | (Inr authTokenKey, st) \<Rightarrow>
               let authTokenDataSize = SIZEOF_AUTH_TOKEN - SHA256_SIGN_LEN;
                   macKeyBlob = \<lparr>blob_size = word_of_nat HKS_KEY_BLOB_AT_KEY_BYTES,
                     blob_data = Some (macKey authTokenKey)\<rparr>;
                   srcDataBlob = \<lparr>blob_size = word_of_nat authTokenDataSize,
                     blob_data = Some (auth_token_bytes token)\<rparr> in
               (case HksCryptoHalHmac hal macKeyBlob HKS_DIGEST_SHA256 srcDataBlob (word_of_nat SHA256_SIGN_LEN) of
                  Inl ret \<Rightarrow> (ret, st)
                | Inr mac \<Rightarrow>
                    let computedMac = overwrite 0 mac (replicate SHA256_SIGN_LEN 0) in
                    if HksMemCmp computedMac (drop authTokenDataSize (auth_token_bytes token)) SHA256_SIGN_LEN
                    then (HKS_ERROR_KEY_AUTH_VERIFY_FAILED, st) else (HKS_SUCCESS, st))))"

text \<open>The bytes of the string \<open>OH_authToken\<close>.\<close>

definition aadValue :: bytes where
  "aadValue = [0x4F, 0x48, 0x5F, 0x61, 0x75, 0x74, 0x68, 0x54, 0x6F, 0x6B, 0x65, 0x6E]"

definition HksDecryptAuthToken ::
    "crypto_hal \<Rightarrow> nat \<Rightarrow> allocator \<Rightarrow> HksUserAuthToken ptr \<Rightarrow> at_key_state
     \<Rightarrow> (rc \<times> HksUserAuthToken ptr) \<times> at_key_state" where
  "HksDecryptAuthToken hal n alloc authToken st =
     (case authToken of NULL \<Rightarrow> ((HKS_ERROR_NULL_POINTER, authToken), st)
      | Some token \<Rightarrow>
          (case HksGetAuthTokenKey hal n st of
             (Inl ret, st) \<Rightarrow> ((ret, authToken), st)
           | (Inr authTokenKey, st) \<Rightarrow>
               if \<not> HksMalloc alloc SIZEOF_AEAD_PARAM then ((HKS_ERROR_MALLOC_FAIL, authToken), st)
               else
                 (let cipherKeyBlob = \<lparr>blob_size = word_of_nat HKS_KEY_BLOB_AT_KEY_BYTES,
                        blob_data = Some (cipherKey authTokenKey)\<rparr>;
                      srcDataBlob = \<lparr>blob_size = word_of_nat SIZEOF_CIPHERTEXT_DATA,
                        blob_data = Some (ciphertext_bytes (ciphertextData token))\<rparr>;
                      aeadParam = \<lparr>ae_nonce = \<lparr>blob_size = 12, blob_data = Some (at_iv token)\<rparr>,
                        ae_aad = blob_of aadValue,
                        ae_tag = tagDec \<lparr>blob_size = 16, blob_data = Some (at_tag token)\<rparr>,
                        ae_payloadLen = word_of_nat SIZEOF_CIPHERTEXT_DATA\<rparr>;
                      usageSpec = \<lparr>us_algType = HKS_ALG_AES, us_mode = HKS_MODE_GCM,
                        us_padding = HKS_PADDING_NONE, us_mgfDigest = HKS_DIGEST_NONE,
                        us_digest = HKS_DIGEST_NONE, us_purpose = HKS_KEY_PURPOSE_DECRYPT,
                        us_pssSaltLenType = 0, us_algParam = Some (AeadParam aeadParam)\<rparr> in
                  (case HksCryptoHalDecrypt hal cipherKeyBlob usageSpec srcDataBlob
                     (word_of_nat SIZEOF_CIPHERTEXT_DATA) of
                     (ret, out) \<Rightarrow>
                       ((ret, Some (token\<lparr>ciphertextData := as_HksCiphertextData
                           (overwrite 0 out (ciphertext_bytes (ciphertextData token)))\<rparr>)), st)))))"

end
