(* ===== verification/Huks_Built_Sets.thy ===== *)
theory Huks_Built_Sets
  imports Huks_Param_Laws
begin

text \<open>
  Parameter sets that the engine builds itself, as functions of the parameters: before building
  (\<open>unbuilt\<close>) and after (\<open>built\<close>), so that a chain of \<open>HksInitParamSet\<close>, \<open>HksAddParams\<close> and
  \<open>HksBuildParamSet\<close> is evaluated by rewriting.
\<close>

definition unbuilt :: "HksParam list \<Rightarrow> HksParamSet" where
  "unbuilt qs = \<lparr>paramSetSize = word_of_nat (space qs), params = qs, ps_tail = []\<rparr>"

definition built :: "HksParam list \<Rightarrow> HksParamSet" where
  "built qs = \<lparr>paramSetSize = word_of_nat (space qs), params = map norm_param qs,
     ps_tail = concat (map payload qs)\<rparr>"

text \<open>Parameters that fit a set.\<close>

definition fitting :: "HksParam list \<Rightarrow> bool" where
  "fitting qs \<longleftrightarrow> list_all wf_param qs \<and> length qs \<le> 42 \<and> space qs \<le> 0x400000"

lemma space_append [simp]:
  "space (qs @ rs) = space qs + 24 * length rs + sum_list (map plen rs)"
  by (simp add: space_def)

lemma init_unbuilt: "\<forall>n. alloc n \<Longrightarrow> HksInitParamSet alloc = Inr (unbuilt [])"
  by (simp add: HksInitParamSet_def HksMalloc_def unbuilt_def space_def)

lemma fitting_prefix: "fitting (qs @ rs) \<Longrightarrow> fitting qs"
  by (simp add: fitting_def)

lemma add_unbuilt:
  assumes "fitting (qs @ rs)"
  shows "HksAddParams (Some (unbuilt qs)) (Some rs) = (0, Some (unbuilt (qs @ rs)))"
proof -
  have sz: "unat (word_of_nat (space qs) :: u32) = space qs"
    using assms by (intro unat_u32_of_nat) (simp add: fitting_def)
  have "list_all (\<lambda>q. is_bytes_tag (p_tag q) \<longrightarrow> blob_data (blobParam (p_val q)) \<noteq> NULL) rs"
    using assms by (intro wf_param_ptr) (simp add: fitting_def)
  then show ?thesis
    using assms sz by (subst HksAddParams_ok) (simp_all add: unbuilt_def fitting_def paramsCnt_def)
qed

lemma add_params_unbuilt: "fitting (qs @ rs) \<Longrightarrow> add_params (unbuilt qs) rs = Inr (unbuilt (qs @ rs))"
  by (simp add: add_params_def add_unbuilt if_not_succ_return_def)

lemma build_unbuilt:
  assumes "fitting qs" "\<forall>n. alloc n"
  shows "HksBuildParamSet alloc (Some (unbuilt qs)) = Inr (built qs)"
proof -
  have sz: "unat (word_of_nat (space qs) :: u32) = space qs"
    using assms(1) by (intro unat_u32_of_nat) (simp add: fitting_def)
  have "list_all (\<lambda>q. is_bytes_tag (p_tag q) \<longrightarrow> blob_data (blobParam (p_val q)) \<noteq> NULL) qs"
    using assms by (intro wf_param_ptr) (simp add: fitting_def)
  then show ?thesis
    using assms sz by (subst HksBuildParamSet_ok) (simp_all add: unbuilt_def built_def fitting_def)
qed

lemma built_simps [simp]: "params (built qs) = map norm_param qs" "ps_tail (built qs) = concat (map payload qs)"
  by (simp_all add: built_def)

lemma built_ok:
  assumes "fitting qs"
  shows "flat (built qs)" "HksCheckParamSet (Some (built qs)) (paramSetSize (built qs)) = 0"
    "unat (paramSetSize (built qs)) = space qs"
proof -
  have sz: "unat (word_of_nat (space qs) :: u32) = space qs"
    using assms by (intro unat_u32_of_nat) (simp add: fitting_def)
  then show "unat (paramSetSize (built qs)) = space qs"
    by (simp add: built_def)
  then show "flat (built qs)"
    using assms by (auto simp: flat_def fitting_def comp_def list_all_iff wf_norm)
  show "HksCheckParamSet (Some (built qs)) (paramSetSize (built qs)) = 0"
    using assms sz by (simp add: HksCheckParamSet_0 built_def fitting_def paramsCnt_def space_def)
qed

lemma find_map_norm:
  "List.find (\<lambda>p. t = p_tag p) (map norm_param qs) = map_option norm_param (List.find (\<lambda>p. t = p_tag p) qs)"
  by (induction qs) auto

text \<open>Looking a tag up in a built set.\<close>

lemma get_built:
  assumes "fitting qs"
  shows "HksGetParam (Some (built qs)) t =
    (case List.find (\<lambda>p. t = p_tag p) qs of
       None \<Rightarrow> Inl HKS_ERROR_PARAM_NOT_EXIST
     | Some p \<Rightarrow> if is_bytes_tag t \<and> CheckBlob (Some (blobParam (p_val (norm_param p)))) \<noteq> 0
         then Inl HKS_ERROR_INVALID_ARGUMENT else Inr (norm_param p))"
  using built_ok [OF assms] by (simp add: HksGetParam_Some find_map_norm split: option.split)

lemma tags_new:
  "HksCheckIsTagAlreadyExist (Some rs) (Some ps) = 0 \<longleftrightarrow>
     HksCheckParamSet (Some ps) (paramSetSize ps) = 0 \<and> p_tag ` set (params ps) \<inter> p_tag ` set rs = {}"
proof -
  have "list_ex (\<lambda>p. list_ex (\<lambda>q. p_tag q = p_tag p) rs) (params ps)
      \<longleftrightarrow> p_tag ` set (params ps) \<inter> p_tag ` set rs \<noteq> {}"
    by (auto simp: list_ex_iff) (metis IntI empty_iff imageI)
  then show ?thesis
    by (simp add: HksCheckIsTagAlreadyExist_def Let_def if_not_succ_return_def)
qed

lemma unbuilt_check: "fitting qs \<Longrightarrow> HksCheckParamSet (Some (unbuilt qs)) (paramSetSize (unbuilt qs)) = 0"
  using unat_u32_of_nat [of "space qs"]
  by (simp add: HksCheckParamSet_0 unbuilt_def fitting_def paramsCnt_def space_def)

end
