(* ===== verification/Huks_Keyblob_Laws.thy ===== *)
theory Huks_Keyblob_Laws
  imports Huks_Keyblob Huks_Built_Sets Huks_Ipc_Laws
begin

text \<open>
  Facts about key blobs. The set of a key blob has the parameter with the key last (\<open>sealed\<close>); encrypting
  and decrypting in place change the contents of that parameter only, and what is authenticated is the
  memory in front of it.
\<close>

section \<open>Sets with the key last\<close>

definition sealed :: "u32 \<Rightarrow> HksParam list \<Rightarrow> bytes \<Rightarrow> HksParamSet" where
  "sealed sz qs d = \<lparr>paramSetSize = sz, params = qs @ [\<lparr>p_tag = HKS_TAG_KEY, p_val = VBlob (blob_of d)\<rparr>],
     ps_tail = concat (map payload qs) @ d\<rparr>"

text \<open>The parameters in front are those of a built set, and none of them is the key.\<close>

definition sealing :: "u32 \<Rightarrow> HksParam list \<Rightarrow> bytes \<Rightarrow> bool" where
  "sealing sz qs d \<longleftrightarrow> list_all wf_param qs \<and> map norm_param qs = qs \<and> HKS_TAG_KEY \<notin> p_tag ` set qs
     \<and> length d < 2 ^ 32 \<and> unat sz = 32 + 24 * length qs + sum_list (map plen qs) + length d
     \<and> unat sz \<le> 0x400000 \<and> d \<noteq> []"

lemma blob_of_simps [simp]:
  "length d < 2 ^ 32 \<Longrightarrow> unat (blob_size (blob_of d)) = length d" "blob_data (blob_of d) = Some d"
  "blob_bytes (blob_of d) = d" "length d < 2 ^ 32 \<Longrightarrow> unat (word_of_nat (length d) :: u32) = length d"
  by (simp_all add: blob_of_def unat_u32_of_nat blob_bytes_def)

lemma length_overwrite [simp]: "off + length new \<le> length d \<Longrightarrow> length (overwrite off new d) = length d"
  by (simp add: overwrite_def)

lemma key_tag_bytes [simp]: "is_bytes_tag HKS_TAG_KEY"
  by (simp add: is_bytes_tag_def GetTagType_def)

lemma update_first_last [simp]:
  "t \<notin> p_tag ` set qs \<Longrightarrow> p_tag k = t \<Longrightarrow> update_first t f (qs @ [k]) = qs @ [f k]"
  by (induction qs) auto

lemma blob_offset_last [simp]:
  "t \<notin> p_tag ` set qs \<Longrightarrow> p_tag k = t \<Longrightarrow> blob_offset t (qs @ [k]) = sum_list (map plen qs)"
  by (induction qs) auto

lemma overwrite_behind: "length pre = n \<Longrightarrow> overwrite (n + off) new (pre @ d) = pre @ overwrite off new d"
  by (simp add: overwrite_def)

lemma write_sealed:
  assumes "sealing sz qs d" "off + length new \<le> length d"
  shows "write_blob HKS_TAG_KEY off new (sealed sz qs d) = sealed sz qs (overwrite off new d)"
    and "sealing sz qs (overwrite off new d)"
proof -
  have "overwrite (sum_list (map plen qs) + off) new (concat (map payload qs) @ d)
      = concat (map payload qs) @ overwrite off new d"
    using assms by (intro overwrite_behind) (simp add: sealing_def length_payloads)
  then show "write_blob HKS_TAG_KEY off new (sealed sz qs d) = sealed sz qs (overwrite off new d)"
    using assms by (simp add: write_blob_def sealed_def sealing_def write_param_def blob_of_def)
  have "overwrite off new d \<noteq> []"
    using assms length_overwrite [OF assms(2)] by (metis length_0_conv sealing_def)
  then show "sealing sz qs (overwrite off new d)"
    using assms by (simp add: sealing_def)
qed

lemma flat_sealed:
  assumes "sealing sz qs d"
  shows "flat (sealed sz qs d)" "HksCheckParamSet (Some (sealed sz qs d)) sz = 0"
    "paramSetSize (sealed sz qs d) = sz" "paramsCnt (sealed sz qs d) = Suc (length qs)"
proof -
  let ?k = "\<lparr>p_tag = HKS_TAG_KEY, p_val = VBlob (blob_of d)\<rparr>"
  have k: "plen ?k = length d" "payload ?k = d" "wf_param ?k" "norm_param ?k = ?k"
    using assms by (simp_all add: sealing_def plen_def payload_def wf_param_def norm_param_def blob_of_def)
  show "flat (sealed sz qs d)"
    using assms k by (simp add: flat_def sealed_def sealing_def space_def)
  show "HksCheckParamSet (Some (sealed sz qs d)) sz = 0" "paramSetSize (sealed sz qs d) = sz"
    "paramsCnt (sealed sz qs d) = Suc (length qs)"
    using assms by (simp_all add: HksCheckParamSet_0 sealed_def sealing_def paramsCnt_def)
qed

lemma find_tag_append:
  "List.find P (xs @ ys) = (case List.find P xs of Some x \<Rightarrow> Some x | None \<Rightarrow> List.find P ys)"
  by (induction xs) auto

lemma sealing_nonempty: "sealing sz qs d \<Longrightarrow> blob_size (blob_of d) \<noteq> 0"
  using blob_of_simps(1) [of d] by (auto simp: sealing_def simp del: blob_of_simps)

lemma get_sealed_key:
  assumes "sealing sz qs d"
  shows "HksGetParam (Some (sealed sz qs d)) HKS_TAG_KEY = Inr \<lparr>p_tag = HKS_TAG_KEY, p_val = VBlob (blob_of d)\<rparr>"
proof -
  have "List.find (\<lambda>p. HKS_TAG_KEY = p_tag p) qs = None"
    unfolding find_tag_None using assms by (simp add: sealing_def)
  moreover have "blob_size (blob_of d) \<noteq> 0"
    using assms by (rule sealing_nonempty)
  ultimately show ?thesis
    using flat_sealed [OF assms] by (simp add: HksGetParam_Inr_iff find_tag_append CheckBlob_0) (simp add: sealed_def find_tag_append)
qed

lemma get_sealed_other:
  assumes "sealing sz qs d" "t \<noteq> HKS_TAG_KEY"
  shows "HksGetParam (Some (sealed sz qs d)) t =
    (case List.find (\<lambda>p. t = p_tag p) qs of
       None \<Rightarrow> Inl HKS_ERROR_PARAM_NOT_EXIST
     | Some p \<Rightarrow> if is_bytes_tag t \<and> CheckBlob (Some (blobParam (p_val p))) \<noteq> 0
         then Inl HKS_ERROR_INVALID_ARGUMENT else Inr p)"
  using flat_sealed [OF assms(1)] assms(2)
  by (simp add: HksGetParam_Some find_tag_append) (simp add: sealed_def find_tag_append split: option.split)

text \<open>The memory in front of the key does not depend on the key.\<close>

definition front :: "(nat \<Rightarrow> u64) \<Rightarrow> u32 \<Rightarrow> HksParam list \<Rightarrow> nat \<Rightarrow> bytes" where
  "front addr sz qs n = to_le 4 sz @ to_le 4 (word_of_nat (Suc (length qs)) :: u32)
     @ params_bytes addr 0 (qs @ [\<lparr>p_tag = HKS_TAG_KEY, p_val = VBlob (blob_of (replicate n 0))\<rparr>])
     @ concat (map payload qs)"

lemma params_bytes_append:
  "params_bytes addr i (qs @ rs) = params_bytes addr i qs @ params_bytes addr (i + length qs) rs"
  by (induction qs arbitrary: i) auto

lemma sealed_memory: "param_set_bytes addr (sealed sz qs d) = front addr sz qs (length d) @ d"
  by (simp add: param_set_bytes_def front_def sealed_def paramsCnt_def params_bytes_append param_bytes_def
      blob_of_def)

lemma length_front:
  "sealing sz qs d \<Longrightarrow> length (front addr sz qs n) + length d = unat sz"
  by (simp add: front_def sealing_def length_payloads)


section \<open>The header\<close>

definition key_info :: "bytes \<Rightarrow> bytes \<Rightarrow> bytes \<Rightarrow> bytes \<Rightarrow> bytes" where
  "key_info salt nonce tag body = salt @ nonce @ tag @ to_le 4 (word_of_nat (length body) :: u32) @ body"

definition info_lengths :: "bytes \<Rightarrow> bytes \<Rightarrow> bytes \<Rightarrow> bool" where
  "info_lengths salt nonce tag \<longleftrightarrow> length salt = 16 \<and> length nonce = 12 \<and> length tag = 16"

lemma length_key_info [simp]: "info_lengths s n t \<Longrightarrow> length (key_info s n t b) = 48 + length b"
  by (simp add: key_info_def info_lengths_def)

lemma as_key_info:
  assumes "info_lengths s n t"
  shows "as_HksKeyBlobInfo (blob_of (key_info s n t b)) =
    \<lparr>kbi_salt = s, kbi_nonce = n, kbi_tag = t, kbi_keySize = word_of_nat (length b)\<rparr>"
proof -
  have "read_u32 ((s @ n @ t) @ to_le 4 (word_of_nat (length b) :: u32) @ b) (44 + 0) = word_of_nat (length b)"
    using assms by (subst read_u32_skip) (simp_all add: info_lengths_def)
  then show ?thesis
    using assms by (simp add: as_HksKeyBlobInfo_def key_info_def info_lengths_def)
qed

lemma overwrite_key_info:
  "info_lengths s n t \<Longrightarrow> length c = length b \<Longrightarrow> overwrite 48 c (key_info s n t b) = key_info s n t c"
  "info_lengths s n t \<Longrightarrow> length t' = 16 \<Longrightarrow> overwrite 28 t' (key_info s n t b) = key_info s n t' b"
  by (simp_all add: overwrite_def key_info_def info_lengths_def)

lemma src_key_info:
  "info_lengths s n t \<Longrightarrow> src_key (blob_of (key_info s n t b)) (word_of_nat (length b)) = blob_of b"
  by (simp add: src_key_def key_info_def info_lengths_def blob_of_def)

text \<open>The usage of a key blob, as the engine is given it.\<close>

definition gcm :: "bytes \<Rightarrow> HksBlob \<Rightarrow> HksAeadTag \<Rightarrow> u32 \<Rightarrow> HksUsageSpec" where
  "gcm nonce aad tag n = \<lparr>us_algType = HKS_ALG_AES, us_mode = HKS_MODE_GCM, us_padding = HKS_PADDING_NONE,
     us_mgfDigest = 0, us_digest = HKS_DIGEST_NONE, us_purpose = 0, us_pssSaltLenType = 0,
     us_algParam = Some (AeadParam \<lparr>ae_nonce = \<lparr>blob_size = 12, blob_data = Some nonce\<rparr>, ae_aad = aad,
       ae_tag = tag, ae_payloadLen = n\<rparr>)\<rparr>"

lemma usage_key_info:
  assumes "info_lengths s n t" "\<forall>n. alloc n" "blobParam (p_val p) = blob_of (key_info s n t b)"
  shows "BuildKeyBlobUsageSpec alloc aad p e = Inr (gcm n aad
    (if e then tagLenEnc 16 else tagDec \<lparr>blob_size = 16, blob_data = Some t\<rparr>) (word_of_nat (length b)))"
  using assms as_key_info [OF assms(1)]
  by (simp add: BuildKeyBlobUsageSpec_def gcm_def HksMalloc_def Let_def)

section \<open>Encrypting and decrypting\<close>

lemma sealed_crypt:
  assumes s: "sealing sz qs (key_info s n t b)" and i: "info_lengths s n t" and b: "b \<noteq> []"
    and mem: "\<forall>n. alloc n"
    and dk: "GetDeriveKey hal alloc (Some (sealed sz qs (key_info s n t b)))
        (as_HksKeyBlobInfo (blob_of (key_info s n t b))) = Inr dk"
  shows "HksCryptoHalEncrypt hal dk (gcm n aad (tagLenEnc 16) (word_of_nat (length b))) (blob_of b)
        (word_of_nat (length b)) = (r, c, t')
      \<Longrightarrow> length c = length b \<Longrightarrow> length t' = 16
      \<Longrightarrow> EncryptAndDecryptKeyBlob hal alloc aad (sealed sz qs (key_info s n t b)) True
        = (r, sealed sz qs (key_info s n t' c))"
    and "HksCryptoHalDecrypt hal dk (gcm n aad (tagDec \<lparr>blob_size = 16, blob_data = Some t\<rparr>)
        (word_of_nat (length b))) (blob_of b) (word_of_nat (length b)) = (r, m)
      \<Longrightarrow> length m = length b
      \<Longrightarrow> EncryptAndDecryptKeyBlob hal alloc aad (sealed sz qs (key_info s n t b)) False
        = (r, sealed sz qs (key_info s n t m))"
proof -
  let ?d = "key_info s n t b"
  let ?p = "\<lparr>p_tag = HKS_TAG_KEY, p_val = VBlob (blob_of ?d)\<rparr>"
  have len: "length ?d = 48 + length b" using i by simp
  then have lt: "48 + length b < 2 ^ 32" using s by (simp add: sealing_def)
  have size: "unat (blob_size (blob_of ?d)) = 48 + length b" "\<not> unat (blob_size (blob_of ?d)) \<le> 48"
    using lt len b by simp_all
  have "unat (blob_size (blob_of ?d) - word_of_nat 48) = length b"
    using size(1) by (subst unat_sub) (simp_all add: word_le_nat_alt)
  then have sub: "blob_size (blob_of ?d) - word_of_nat 48 = word_of_nat (length b)"
    using lt by (simp add: word_unat_eq_iff unat_u32_of_nat)
  have al: "HksMalloc alloc 40" using mem by (simp add: HksMalloc_def)
  have c48: "write_blob HKS_TAG_KEY 48 x (sealed sz qs ?d) = sealed sz qs (key_info s n t x)
      \<and> sealing sz qs (key_info s n t x)" if "length x = length b" for x
    using write_sealed [OF s, of 48 x] overwrite_key_info(1) [OF i that] that len by simp
  have c28: "write_blob HKS_TAG_KEY 28 x (sealed sz qs (key_info s n t c)) = sealed sz qs (key_info s n x c)"
    if "length x = 16" "length c = length b" for x c
    using write_sealed [of sz qs "key_info s n t c" 28 x] c48 [OF that(2)] overwrite_key_info(2) [OF i that(1)]
      that len i by simp
  note usage = usage_key_info [OF i mem, of ?p b]
  show "EncryptAndDecryptKeyBlob hal alloc aad (sealed sz qs ?d) True = (r, sealed sz qs (key_info s n t' c))"
    if "HksCryptoHalEncrypt hal dk (gcm n aad (tagLenEnc 16) (word_of_nat (length b))) (blob_of b)
        (word_of_nat (length b)) = (r, c, t')"
      "length c = length b" "length t' = 16"
    using that get_sealed_key [OF s] size(2) al usage sub dk c48 [OF that(2)] c28 [OF that(3,2)]
      src_key_info [OF i] as_key_info [OF i]
    by (simp add: EncryptAndDecryptKeyBlob_def Let_def)
  show "EncryptAndDecryptKeyBlob hal alloc aad (sealed sz qs ?d) False = (r, sealed sz qs (key_info s n t m))"
    if "HksCryptoHalDecrypt hal dk (gcm n aad (tagDec \<lparr>blob_size = 16, blob_data = Some t\<rparr>)
        (word_of_nat (length b))) (blob_of b) (word_of_nat (length b)) = (r, m)" "length m = length b"
    using that get_sealed_key [OF s] size(2) al usage sub dk c48 [OF that(2)] src_key_info [OF i] as_key_info [OF i]
    by (simp add: EncryptAndDecryptKeyBlob_def Let_def)
qed


section \<open>Building and loading\<close>

text \<open>What a loaded set looks like: \<open>canon_param\<close> of every parameter.\<close>

lemma canon_built:
  assumes "norm_param p = p" "wf_param p"
  shows "wf_param (canon_param p)" "norm_param (canon_param p) = canon_param p"
    "plen (canon_param p) = plen p" "payload (canon_param p) = payload p"
    "is_bytes_tag (p_tag p) \<Longrightarrow> canon_param p = p"
proof -
  show b: "is_bytes_tag (p_tag p) \<Longrightarrow> canon_param p = p"
    using assms(1) by (simp add: canon_param_def)
  show "wf_param (canon_param p)" "norm_param (canon_param p) = canon_param p"
    "plen (canon_param p) = plen p" "payload (canon_param p) = payload p"
    using assms b
    by (cases "is_bytes_tag (p_tag p)"; simp add: canon_param_def wf_param_def norm_param_def plen_def payload_def)+
qed

lemma map_cong_built:
  assumes "list_all wf_param qs" "map norm_param qs = qs"
  shows "list_all wf_param (map canon_param qs)" "map norm_param (map canon_param qs) = map canon_param qs"
    "map plen (map canon_param qs) = map plen qs" "map payload (map canon_param qs) = map payload qs"
  using assms canon_built by (induction qs) auto

lemma sealing_canon: "sealing sz qs d \<Longrightarrow> sealing sz (map canon_param qs) d"
  using map_cong_built [of qs] by (simp add: sealing_def image_image del: map_map)

lemma received_sealed:
  assumes "sealing sz qs d"
  shows "received (sealed sz qs d) [] = sealed sz (map canon_param qs) d"
proof -
  have "canon_param \<lparr>p_tag = HKS_TAG_KEY, p_val = VBlob (blob_of d)\<rparr> = \<lparr>p_tag = HKS_TAG_KEY, p_val = VBlob (blob_of d)\<rparr>"
    using assms by (simp add: canon_param_def norm_param_def blob_of_def payload_def plen_def sealing_def)
  then show ?thesis
    using assms map_cong_built(4) [of qs] by (simp add: received_def sealed_def sealing_def del: map_map)
qed

lemma find_canon:
  "List.find (\<lambda>p. t = p_tag p) (map canon_param qs) = map_option canon_param (List.find (\<lambda>p. t = p_tag p) qs)"
  by (induction qs) auto

lemma map_fixpoint: "map f xs = xs \<Longrightarrow> x \<in> set xs \<Longrightarrow> f x = x"
  by (induction xs) auto

lemma find_canon_bytes:
  assumes "sealing sz qs d" "is_bytes_tag t"
  shows "List.find (\<lambda>p. t = p_tag p) (map canon_param qs) = List.find (\<lambda>p. t = p_tag p) qs"
proof (cases "List.find (\<lambda>p. t = p_tag p) qs")
  case None
  then show ?thesis by (simp add: find_canon)
next
  case (Some p)
  then have p: "p \<in> set qs" "p_tag p = t" using find_tag_Some by blast+
  have "norm_param p = p"
    using assms(1) p(1) map_fixpoint [of norm_param qs] by (simp add: sealing_def)
  moreover have "wf_param p" using assms(1) p(1) by (simp add: sealing_def list_all_iff)
  ultimately show ?thesis
    using canon_built(5) [of p] assms(2) p Some by (simp add: find_canon)
qed

lemma derive_same:
  assumes "sealing sz qs d" "sealing sz qs d'" "kbi_salt i = kbi_salt i'"
  shows "GetDeriveKey hal alloc (Some (sealed sz (map canon_param qs) d')) i'
    = GetDeriveKey hal alloc (Some (sealed sz qs d)) i"
proof -
  have name: "HksGetParam (Some (sealed sz (map canon_param qs) d')) HKS_TAG_PROCESS_NAME
      = HksGetParam (Some (sealed sz qs d)) HKS_TAG_PROCESS_NAME"
    using find_canon_bytes [OF assms(1), of HKS_TAG_PROCESS_NAME]
    by (simp add: get_sealed_other [OF sealing_canon [OF assms(2)]] get_sealed_other [OF assms(1)]
        is_bytes_tag_def GetTagType_def del: eq_commute)
  have ver: "GetDeriveKeyAlg (Some (sealed sz (map canon_param qs) d')) = GetDeriveKeyAlg (Some (sealed sz qs d))"
  proof -
    have nb: "\<not> is_bytes_tag HKS_TAG_KEY_VERSION"
      by (simp add: is_bytes_tag_def GetTagType_def)
    have g: "HksGetParam (Some (sealed sz (map canon_param qs) d')) HKS_TAG_KEY_VERSION
        = (case List.find (\<lambda>p. HKS_TAG_KEY_VERSION = p_tag p) (map canon_param qs) of
            None \<Rightarrow> Inl HKS_ERROR_PARAM_NOT_EXIST | Some p \<Rightarrow> Inr p)"
      "HksGetParam (Some (sealed sz qs d)) HKS_TAG_KEY_VERSION
        = (case List.find (\<lambda>p. HKS_TAG_KEY_VERSION = p_tag p) qs of
            None \<Rightarrow> Inl HKS_ERROR_PARAM_NOT_EXIST | Some p \<Rightarrow> Inr p)"
      using get_sealed_other [OF sealing_canon [OF assms(2)], of HKS_TAG_KEY_VERSION]
        get_sealed_other [OF assms(1), of HKS_TAG_KEY_VERSION] nb
      by (auto split: option.splits)
    show ?thesis
    proof (cases "List.find (\<lambda>p. HKS_TAG_KEY_VERSION = p_tag p) qs")
      case None
      then show ?thesis unfolding GetDeriveKeyAlg_def g find_canon by simp
    next
      case (Some p)
      then have "p_tag p = HKS_TAG_KEY_VERSION" using find_tag_Some by blast
      then have "uint32Param (p_val (canon_param p)) = uint32Param (p_val p)"
        using nb by (intro canon_readers(1)) simp
      with Some show ?thesis unfolding GetDeriveKeyAlg_def g find_canon by simp
    qed
  qed
  show ?thesis
    unfolding GetDeriveKey_def GetSalt_def name ver assms(3) ..
qed

end
