(* ===== verification/Huks_Keyblob_Props.thy ===== *)
theory Huks_Keyblob_Props
  imports Huks_Keyblob_Laws
begin

text \<open>
  The life of a key: the engine gets back from a key blob the key and the parameters it was built from.
\<close>

section \<open>What is relied on\<close>

text \<open>
  The engine: there is a main key, keys can be derived from it, random bytes come in the length asked for,
  and decrypting what was encrypted, under the same key, nonce and authenticated bytes and with the tag that
  encrypting gave, yields the message.
\<close>

definition gcm_ok :: "crypto_hal \<Rightarrow> bool" where
  "gcm_ok hal \<longleftrightarrow> (\<forall>k nonce aad m. length m < 2 ^ 32 \<longrightarrow> length nonce = 12 \<longrightarrow>
     (\<exists>c t. HksCryptoHalEncrypt hal k (gcm nonce aad (tagLenEnc 16) (word_of_nat (length m))) (blob_of m)
          (word_of_nat (length m)) = (0, c, t)
        \<and> length c = length m \<and> length t = 16
        \<and> (\<forall>aad'. same_blob aad' aad \<longrightarrow>
             HksCryptoHalDecrypt hal k (gcm nonce aad' (tagDec \<lparr>blob_size = 16, blob_data = Some t\<rparr>)
               (word_of_nat (length m))) (blob_of c) (word_of_nat (length m)) = (0, m))))"

lemma gcm_okD:
  "gcm_ok hal \<Longrightarrow> length m < 2 ^ 32 \<Longrightarrow> length nonce = 12 \<Longrightarrow>
     \<exists>c t. HksCryptoHalEncrypt hal k (gcm nonce aad (tagLenEnc 16) (word_of_nat (length m))) (blob_of m)
          (word_of_nat (length m)) = (0, c, t)
        \<and> length c = length m \<and> length t = 16
        \<and> (\<forall>aad'. same_blob aad' aad \<longrightarrow>
             HksCryptoHalDecrypt hal k (gcm nonce aad' (tagDec \<lparr>blob_size = 16, blob_data = Some t\<rparr>)
               (word_of_nat (length m))) (blob_of c) (word_of_nat (length m)) = (0, m))"
  by (simp add: gcm_ok_def)

definition engine_ok :: "crypto_hal \<Rightarrow> bool" where
  "engine_ok hal \<longleftrightarrow> (\<exists>mk. HksCryptoHalGetMainKey hal = Inr mk)
     \<and> (\<forall>k s n. \<exists>d. HksCryptoHalDeriveKey hal k s n = Inr d)
     \<and> (\<exists>s. HksCryptoHalFillRandom hal 0 16 = Inr s \<and> length s = 16)
     \<and> (\<exists>n. HksCryptoHalFillRandom hal 1 12 = Inr n \<and> length n = 12) \<and> gcm_ok hal"

text \<open>The parameters that the engine adds in front of the key.\<close>

definition core4 :: "u8 \<Rightarrow> HksParam list" where
  "core4 flag = take 4 (core_params 3 empty_blob flag)"

text \<open>
  The request: well-formed parameters with an owner of at most 50 bytes and none of the tags the engine
  adds, and a key, which together fit a parameter set.
\<close>

definition key_request :: "HksParamSet \<Rightarrow> HksBlob \<Rightarrow> bool" where
  "key_request ps key \<longleftrightarrow> list_all wf_param (params ps) \<and> paramsCnt ps \<le> 37
     \<and> (\<exists>p. List.find (\<lambda>p. HKS_TAG_PROCESS_NAME = p_tag p) (params ps) = Some p \<and> 0 < plen p \<and> plen p \<le> 50)
     \<and> p_tag ` set (params ps) \<inter> {HKS_TAG_KEY_VERSION, HKS_TAG_OS_VERSION, HKS_TAG_OS_PATCHLEVEL,
         HKS_TAG_KEY_FLAG, HKS_TAG_KEY} = {}
     \<and> unat (blob_size key) \<le> length (blob_bytes key) \<and> blob_size key \<noteq> 0
     \<and> space (params ps) + 168 + unat (blob_size key) \<le> 0x400000"

definition key_bytes :: "HksBlob \<Rightarrow> bytes" where
  "key_bytes key = take (unat (blob_size key)) (blob_bytes key)"

section \<open>Building\<close>

lemma core_split: "core_params 3 info flag = core4 flag @ [\<lparr>p_tag = HKS_TAG_KEY, p_val = VBlob info\<rparr>]"
  by (simp add: core_params_def core4_def)

lemma core4_simps [simp]:
  "list_all wf_param (core4 flag)" "map norm_param (core4 flag) = core4 flag" "map plen (core4 flag) = [0, 0, 0, 0]"
  "length (core4 flag) = 4" "HKS_TAG_KEY \<notin> p_tag ` set (core4 flag)"
  "p_tag ` set (core4 flag) = {HKS_TAG_KEY_VERSION, HKS_TAG_OS_VERSION, HKS_TAG_OS_PATCHLEVEL, HKS_TAG_KEY_FLAG}"
  by (auto simp: core4_def core_params_def wf_param_def norm_param_def plen_def is_bytes_tag_def GetTagType_def)

text \<open>The set that is encrypted.\<close>

definition plain_set :: "u8 \<Rightarrow> HksParamSet \<Rightarrow> bytes \<Rightarrow> HksParamSet" where
  "plain_set flag ps d = sealed (word_of_nat (space (params ps) + 120 + length d))
     (map norm_param (params ps @ core4 flag)) d"

lemma plain_sealing:
  assumes "key_request ps key" "length d = 48 + unat (blob_size key)"
  shows "sealing (word_of_nat (space (params ps) + 120 + length d)) (map norm_param (params ps @ core4 flag)) d"
    and "fitting (params ps @ core_params 3 (blob_of d) flag)"
    and "built (params ps @ core_params 3 (blob_of d) flag) = plain_set flag ps d"
proof -
  let ?k = "\<lparr>p_tag = HKS_TAG_KEY, p_val = VBlob (blob_of d)\<rparr>"
  have lt: "length d < 2 ^ 32" and sp: "space (params ps) + 120 + length d \<le> 0x400000"
    using assms by (simp_all add: key_request_def)
  have k: "plen ?k = length d" "payload ?k = d" "wf_param ?k" "norm_param ?k = ?k"
    using lt by (simp_all add: plen_def payload_def wf_param_def norm_param_def blob_of_def)
  have tags: "HKS_TAG_KEY \<notin> p_tag ` set (params ps)"
    using assms(1) by (auto simp: key_request_def)
  have "unat (word_of_nat (space (params ps) + 120 + length d) :: u32) = space (params ps) + 120 + length d"
    using sp by (intro unat_u32_of_nat) simp
  moreover have "list_all wf_param (map norm_param (params ps))"
    using assms(1) wf_norm by (auto simp: key_request_def list_all_iff)
  moreover have "HKS_TAG_KEY \<notin> p_tag ` set (map norm_param (params ps @ core4 flag))"
    using tags core4_simps(5) [of flag] by (auto simp del: core4_simps)
  moreover have "map norm_param (map norm_param (params ps)) = map norm_param (params ps)"
    by (simp add: comp_def)
  moreover have "map plen (map norm_param (params ps)) = map plen (params ps)"
    by (simp add: comp_def)
  moreover have "d \<noteq> []" using assms(2) by auto
  ultimately show "sealing (word_of_nat (space (params ps) + 120 + length d)) (map norm_param (params ps @ core4 flag)) d"
    using sp lt unfolding sealing_def by (simp add: space_def del: map_map)
  show "fitting (params ps @ core_params 3 (blob_of d) flag)"
    using assms k sp by (simp add: fitting_def key_request_def core_split paramsCnt_def)
  have "concat (map payload (core4 flag)) = []"
    by (simp add: core4_def core_params_def payload_def is_bytes_tag_def GetTagType_def)
  then show "built (params ps @ core_params 3 (blob_of d) flag) = plain_set flag ps d"
    using k by (simp add: built_def plain_set_def sealed_def core_split comp_def)
qed

lemma build_plain:
  assumes req: "key_request ps key" and mem: "\<forall>n. alloc n"
    and s: "HksCryptoHalFillRandom hal 0 16 = Inr s" "length s = 16"
    and n: "HksCryptoHalFillRandom hal 1 12 = Inr n" "length n = 12"
    and d: "d = key_info s n (replicate 16 0) (key_bytes key)"
  shows "BuildKeyBlobWithKeyParam hal alloc key flag ps = (Inr (plain_set flag ps d), [WipeKey (blob_of d)])"
proof -
  have il: "info_lengths s n (replicate 16 0)"
    using s n by (simp add: info_lengths_def)
  have kl: "length (key_bytes key) = unat (blob_size key)"
    using req by (simp add: key_request_def key_bytes_def)
  then have len: "length d = 48 + unat (blob_size key)"
    using il by (simp add: d)
  note plain = plain_sealing [OF req len, of flag]
  have lim: "48 + unat (blob_size key) \<le> 0x400000"
    using req by (simp add: key_request_def)
  have sz: "unat (blob_size key + 48) = 48 + unat (blob_size key)"
    using unat_u32_add_of_nat [of "blob_size key" 48] lim by simp
  have "blob_size key + 48 = word_of_nat (length d)"
    using sz len unat_u32_of_nat [of "length d"] lim by (simp only: word_unat_eq_iff)
  then have info: "InitKeyBlobInfo hal alloc key = Inr (blob_of d)"
    using s(1) n(1) mem sz lim kl
    by (simp add: InitKeyBlobInfo_def HksMalloc_def Let_def d key_info_def key_bytes_def blob_of_def)
  have fit: "fitting (params ps)"
    using fitting_prefix [OF plain(2)] .
  have add: "AddCoreServiceParams (blob_of d) flag (Some (unbuilt (params ps)))
      = (0, Some (unbuilt (params ps @ core_params 3 (blob_of d) flag)))"
  proof -
    have "p_tag ` set (params ps) \<inter> p_tag ` set (core_params 3 (blob_of d) flag) = {}"
      using req by (auto simp: key_request_def core_params_def)
    then have "HksCheckIsTagAlreadyExist (Some (core_params 3 (blob_of d) flag)) (Some (unbuilt (params ps))) = 0"
      using unbuilt_check [OF fit] by (simp add: tags_new) (simp add: unbuilt_def)
    then show ?thesis
      using add_unbuilt [OF plain(2)] by (simp add: AddCoreServiceParams_def Let_def)
  qed
  show ?thesis
    using init_unbuilt [OF mem] add_unbuilt [of "[]" "params ps"] fit info add build_unbuilt [OF plain(2) mem] plain(3)
    by (simp add: BuildKeyBlobWithKeyParam_def Let_def)
qed


text \<open>The key that encrypts exists for every key blob of the request, whatever is encrypted.\<close>

lemma derive_plain:
  assumes req: "key_request ps key" and len: "length d = 48 + unat (blob_size key)"
    and mem: "\<forall>n. alloc n" and mk: "HksCryptoHalGetMainKey hal = Inr mk"
    and dv: "\<forall>k s n. \<exists>d. HksCryptoHalDeriveKey hal k s n = Inr d"
  shows "\<exists>dk. GetDeriveKey hal alloc (Some (plain_set flag ps d)) i = Inr dk"
proof -
  define qs where "qs = map norm_param (params ps @ core4 flag)"
  define sz where "sz = (word_of_nat (space (params ps) + 120 + length d) :: u32)"
  have s: "sealing sz qs d"
    using plain_sealing(1) [OF req len] by (simp add: sz_def qs_def)
  obtain p where p: "List.find (\<lambda>p. HKS_TAG_PROCESS_NAME = p_tag p) (params ps) = Some p" "0 < plen p" "plen p \<le> 50"
    using req by (auto simp: key_request_def)
  have bt: "is_bytes_tag HKS_TAG_PROCESS_NAME" by (simp add: is_bytes_tag_def GetTagType_def)
  have found: "List.find (\<lambda>p. HKS_TAG_PROCESS_NAME = p_tag p) qs = Some (norm_param p)"
    using p(1) by (simp only: qs_def find_map_norm find_tag_append) simp
  have tag: "p_tag p = HKS_TAG_PROCESS_NAME" using find_tag_Some [OF p(1)] by simp
  have n: "unat (blob_size (blobParam (p_val (norm_param p)))) = plen p"
    "blob_data (blobParam (p_val (norm_param p))) \<noteq> NULL"
    using tag bt by (simp_all add: norm_param_def plen_def)
  then have "blob_size (blobParam (p_val (norm_param p))) \<noteq> 0" using p(2) by auto
  then have "CheckBlob (Some (blobParam (p_val (norm_param p)))) = 0"
    using n by (auto simp: CheckBlob_0)
  then have name: "HksGetParam (Some (sealed sz qs d)) HKS_TAG_PROCESS_NAME = Inr (norm_param p)"
    using get_sealed_other [OF s, of HKS_TAG_PROCESS_NAME] found by simp
  define a where "a = blob_size (blobParam (p_val (norm_param p)))"
  have a: "unat a \<le> 50" using n p(3) by (simp add: a_def)
  then have "unat (a + 16) = unat a + 16"
    using unat_u32_add_of_nat [of a 16] by simp
  then have "HksMalloc alloc (unat (a + 16))" "HksMalloc alloc (unat (HKS_KEY_BYTES 256))"
    using a mem by (simp_all add: HksMalloc_def HKS_KEY_BYTES_def)
  moreover have "\<not> 50 < a" using a by (simp add: word_less_nat_alt)
  ultimately obtain salt where "GetSalt alloc (Some (sealed sz qs d)) i = Inr salt"
    using name by (simp add: GetSalt_def Let_def a_def [symmetric])
  then show ?thesis
    using mk dv \<open>HksMalloc alloc (unat (HKS_KEY_BYTES 256))\<close>
    by (auto simp: GetDeriveKey_def GetEncryptKey_def Let_def plain_set_def sz_def qs_def try_res_def split: sum.split)
       (metis sum.distinct(1))
qed

section \<open>The round trip\<close>

lemma blob_end_sealed:
  assumes "sealing sz qs d"
  shows "blob_end HKS_TAG_KEY (sealed sz qs d) = unat sz"
proof -
  have "List.find (\<lambda>p. p_tag p = HKS_TAG_KEY) qs = None"
    using assms by (auto simp: find_None_iff sealing_def)
  then show ?thesis
    using assms flat_sealed(4) [OF assms] unfolding blob_end_def
    by (simp add: find_tag_append sealed_def sealing_def)
qed

lemma load_sealed:
  assumes s: "sealing sz qs d" and mem: "\<forall>n. alloc n"
    and bytes: "take (unat sz) (blob_bytes blob) = param_set_bytes addr (sealed sz qs d)" "blob_size blob = sz"
  shows "HksGetAadAndParamSet alloc blob
    = Inr (\<lparr>blob_size = sz - blob_size (blob_of d), blob_data = Some (param_set_bytes addr (sealed sz qs d))\<rparr>,
        sealed sz (map canon_param qs) d)"
proof -
  have "HksGetParamSet alloc (Some (param_set_at (param_set_bytes addr (sealed sz qs d)))) sz
      = Inr (sealed sz (map canon_param qs) d)"
    using get_received [of "sealed sz qs d" alloc addr] flat_sealed [OF s] received_sealed [OF s] mem by simp
  moreover have "HksMalloc alloc (unat sz)"
    using s mem by (simp add: HksMalloc_def sealing_def)
  ultimately show ?thesis
    using bytes get_sealed_key [OF sealing_canon [OF s]] blob_end_sealed [OF sealing_canon [OF s]]
      flat_sealed(3) [OF sealing_canon [OF s]]
    by (simp add: HksGetAadAndParamSet_def GetAadAndParamSet_def Let_def)
qed


lemma same_front:
  assumes "sealing sz qs d" "sealing sz qs e" "length d = length e"
  shows "same_blob \<lparr>blob_size = sz - blob_size (blob_of d), blob_data = Some (param_set_bytes addr (sealed sz qs d))\<rparr>
    \<lparr>blob_size = sz - blob_size (blob_of e), blob_data = Some (param_set_bytes addr (sealed sz qs e))\<rparr>"
proof -
  have size: "blob_size (blob_of d) = blob_size (blob_of e)"
    using assms(3) by (simp add: blob_of_def)
  have "unat (sz - blob_size (blob_of d)) = unat sz - length d"
    using assms(1) by (subst unat_sub) (simp_all add: sealing_def word_le_nat_alt)
  then have n: "unat (sz - blob_size (blob_of e)) = length (front addr sz qs (length e))"
    using length_front [OF assms(2), of addr "length e"] assms(3) size by simp
  show ?thesis
    unfolding same_blob_def sealed_memory using n assms(3) size by (simp add: blob_bytes_def)
qed

text \<open>Building copies the encrypted set to the caller's buffer.\<close>

lemma build_blob2:
  assumes s: "sealing sz qs d" and e: "sealing sz qs e"
    and enc: "EncryptKeyBlob hal alloc \<lparr>blob_size = sz - blob_size (blob_of d),
        blob_data = Some (param_set_bytes addr (sealed sz qs d))\<rparr> (sealed sz qs d) = (0, sealed sz qs e)"
    and out: "blob_data keyOut = Some od" "sz \<le> blob_size keyOut"
  shows "\<exists>blob. HksBuildKeyBlob2 hal alloc addr (sealed sz qs d) keyOut = (Inr blob, []) \<and> blob_size blob = sz
    \<and> take (unat sz) (blob_bytes blob) = param_set_bytes addr (sealed sz qs e)"
proof -
  have len: "length (param_set_bytes addr (sealed sz qs e)) = unat sz"
    using length_front [OF e, of addr "length e"] by (simp add: sealed_memory)
  have "memcpy_s (unat (blob_size keyOut)) (Some (param_set_bytes addr (sealed sz qs e))) (unat sz)
      = Some (param_set_bytes addr (sealed sz qs e))"
    using out(2) len by (simp add: memcpy_s_def word_le_nat_alt)
  then show ?thesis
    using get_sealed_key [OF s] flat_sealed(3) [OF s] flat_sealed(3) [OF e] enc out(1) len
    by (simp add: HksBuildKeyBlob2_def Let_def memcpy_to_def poke_def blob_bytes_def)
qed

lemma raw_sealed:
  assumes "sealing sz qs (key_info s n t b)" "info_lengths s n t" "b \<noteq> []" "length b \<le> 0x800000" "\<forall>n. alloc n"
  shows "HksGetRawKey alloc (Some (sealed sz qs (key_info s n t b))) = Inr (blob_of b)"
proof -
  have len: "length (key_info s n t b) = 48 + length b" "48 + length b < 2 ^ 32"
    using assms(1,2) by (simp_all add: sealing_def)
  have "unat (blob_size (blob_of (key_info s n t b)) - 48) = length b"
    using len by (subst unat_sub) (simp_all add: word_le_nat_alt)
  then have "blob_size (blob_of (key_info s n t b)) - 48 = word_of_nat (length b)"
    using len by (simp add: word_unat_eq_iff unat_u32_of_nat)
  moreover have "take (length b) (drop 48 (key_info s n t b)) = b"
    using assms(2) by (simp add: key_info_def info_lengths_def)
  moreover have "\<lparr>blob_size = word_of_nat (length b), blob_data = Some b\<rparr> = blob_of b"
    by (simp add: blob_of_def)
  ultimately show ?thesis
    using get_sealed_key [OF assms(1)] as_key_info [OF assms(2), of b] len assms(3,4,5)
    by (simp add: HksGetRawKey_def Let_def HksMalloc_def)
qed

lemma key_blob_life:
  assumes hal: "engine_ok hal" and req: "key_request ps key" and mem: "\<forall>n. alloc n"
    and out: "blob_data keyOut \<noteq> NULL" "space (params ps) + 168 + unat (blob_size key) \<le> unat (blob_size keyOut)"
  shows "\<exists>blob cs aad qs ps' raw. HksBuildKeyBlob hal alloc addr flag key ps keyOut = (Inr blob, cs)
    \<and> HksGetAadAndParamSet alloc blob = Inr (aad, ps') \<and> HksDecryptKeyBlob hal alloc aad ps' = (HKS_SUCCESS, qs)
    \<and> HksGetRawKey alloc (Some qs) = Inr raw \<and> same_blob raw key
    \<and> butlast (params qs) = map (canon_param \<circ> norm_param) (params ps @ core4 flag)"
proof -
  obtain mk s n where mk: "HksCryptoHalGetMainKey hal = Inr mk"
    and s: "HksCryptoHalFillRandom hal 0 16 = Inr s" "length s = 16"
    and n: "HksCryptoHalFillRandom hal 1 12 = Inr n" "length n = 12"
    and dv: "\<forall>k s n. \<exists>d. HksCryptoHalDeriveKey hal k s n = Inr d" and gcm: "gcm_ok hal"
    using hal unfolding engine_ok_def by blast
  define b where "b = key_bytes key"
  define z where "z = (replicate 16 0 :: bytes)"
  define d where "d = key_info s n z b"
  have il: "info_lengths s n z" using s n by (simp add: info_lengths_def z_def)
  have bl: "length b = unat (blob_size key)"
    using req by (simp add: key_request_def key_bytes_def b_def)
  have bne: "b \<noteq> []"
    using req bl by (auto simp: key_request_def unat_gt_0 simp flip: length_greater_0_conv)
  have dl: "length d = 48 + unat (blob_size key)" using il bl by (simp add: d_def)
  have lim: "48 + length b \<le> 0x400000" using req bl by (simp add: key_request_def)
  define qs where "qs = map norm_param (params ps @ core4 flag)"
  define sz where "sz = (word_of_nat (space (params ps) + 120 + length d) :: u32)"
  have pl: "plain_set flag ps d = sealed sz qs d"
    by (simp add: plain_set_def sz_def qs_def)
  have sd: "sealing sz qs d"
    using plain_sealing(1) [OF req dl] by (simp add: sz_def qs_def)
  have szn: "unat sz = space (params ps) + 120 + length d"
    unfolding sz_def using req dl by (intro unat_u32_of_nat) (simp add: key_request_def)
  have build: "BuildKeyBlobWithKeyParam hal alloc key flag ps = (Inr (sealed sz qs d), [WipeKey (blob_of d)])"
    using build_plain [OF req mem s n, of d flag] pl by (simp add: d_def b_def z_def)
  obtain dk where dk: "GetDeriveKey hal alloc (Some (sealed sz qs d)) (as_HksKeyBlobInfo (blob_of d)) = Inr dk"
    using derive_plain [OF req dl mem mk dv, of flag] pl by auto
  define aad where "aad x = \<lparr>blob_size = sz - blob_size (blob_of x),
      blob_data = Some (param_set_bytes addr (sealed sz qs x))\<rparr>" for x
  obtain c t where enc: "HksCryptoHalEncrypt hal dk (gcm n (aad d) (tagLenEnc 16) (word_of_nat (length b))) (blob_of b)
      (word_of_nat (length b)) = (0, c, t)" "length c = length b" "length t = 16"
    and dec: "\<And>aad'. same_blob aad' (aad d) \<Longrightarrow> HksCryptoHalDecrypt hal dk
        (gcm n aad' (tagDec \<lparr>blob_size = 16, blob_data = Some t\<rparr>) (word_of_nat (length b))) (blob_of c) (word_of_nat (length b)) = (0, b)"
    using gcm_okD [OF gcm _ n(2), of b dk "aad d"] lim by auto
  define e where "e = key_info s n t c"
  have ile: "info_lengths s n t" using s n enc(3) by (simp add: info_lengths_def)
  have el: "length e = length d" using ile il enc(2) by (simp add: e_def d_def)
  have se: "sealing sz qs e" using sd el bne by (auto simp: sealing_def simp flip: length_greater_0_conv)
  have cne: "c \<noteq> []" using enc(2) bne by auto
  have E: "EncryptKeyBlob hal alloc (aad d) (sealed sz qs d) = (0, sealed sz qs e)"
    using sealed_crypt(1) [OF sd [unfolded d_def] il bne mem dk [unfolded d_def] enc(1-3)]
    by (simp add: EncryptKeyBlob_def d_def e_def)
  have room: "sz \<le> blob_size keyOut"
    using out(2) szn dl by (simp add: word_le_nat_alt)
  obtain blob where blob: "HksBuildKeyBlob2 hal alloc addr (sealed sz qs d) keyOut = (Inr blob, [])"
    "blob_size blob = sz" "take (unat sz) (blob_bytes blob) = param_set_bytes addr (sealed sz qs e)"
    using build_blob2 [OF sd se E [unfolded aad_def] _ room] out(1) by blast
  define qs' where "qs' = map canon_param qs"
  have se': "sealing sz qs' e" using sealing_canon [OF se] by (simp add: qs'_def)
  have load: "HksGetAadAndParamSet alloc blob = Inr (aad e, sealed sz qs' e)"
    using load_sealed [OF se mem blob(3,2)] by (simp add: aad_def qs'_def)
  have "GetDeriveKey hal alloc (Some (sealed sz qs' e)) (as_HksKeyBlobInfo (blob_of e)) = Inr dk"
    using derive_same [OF sd se, of "as_HksKeyBlobInfo (blob_of d)" "as_HksKeyBlobInfo (blob_of e)" hal alloc]
      as_key_info [OF il, of b] as_key_info [OF ile, of c] dk by (simp add: qs'_def d_def e_def)
  moreover have "HksCryptoHalDecrypt hal dk (gcm n (aad e) (tagDec \<lparr>blob_size = 16, blob_data = Some t\<rparr>)
      (word_of_nat (length c))) (blob_of c) (word_of_nat (length c)) = (0, b)"
    using dec [of "aad e"] same_front [OF se sd el] enc(2) by (simp add: aad_def)
  ultimately have D: "HksDecryptKeyBlob hal alloc (aad e) (sealed sz qs' e) = (0, sealed sz qs' (key_info s n t b))"
    using sealed_crypt(2) [OF se' [unfolded e_def] ile cne mem] enc(2)
    by (simp add: HksDecryptKeyBlob_def DecryptKeyBlob_def e_def)
  have sb: "sealing sz qs' (key_info s n t b)"
    using se' el bne ile enc(2) by (simp add: sealing_def e_def key_info_def)
  have raw: "HksGetRawKey alloc (Some (sealed sz qs' (key_info s n t b))) = Inr (blob_of b)"
    using raw_sealed [OF sb ile bne _ mem] lim by simp
  have "same_blob (blob_of b) key"
    using bl req unat_u32_of_nat [of "length b"] lim
    by (simp add: same_blob_def b_def key_bytes_def key_request_def blob_of_def blob_bytes_def word_unat_eq_iff)
  moreover have "butlast (params (sealed sz qs' (key_info s n t b))) = map (canon_param \<circ> norm_param) (params ps @ core4 flag)"
    by (simp only: sealed_def qs'_def qs_def HksParamSet.simps butlast_snoc map_map)
  ultimately show ?thesis
    using build blob(1) load D raw by (simp add: HksBuildKeyBlob_def)
qed


text \<open>
  C32: A key survives its key blob. For a request with an owner and a key, built into the caller's
  buffer of sufficient size, the key blob is accepted by the engine, decrypts, and yields the same key and,
  in front of it, the parameters of the request followed by version and flag (each as it reads back
  from memory), whatever the addresses that are part of the blob.
\<close>

theorem key_blob_roundtrip:
  assumes "engine_ok hal" "key_request ps key" "\<forall>n. alloc n"
    and "blob_data keyOut \<noteq> NULL" "space (params ps) + 168 + unat (blob_size key) \<le> unat (blob_size keyOut)"
  shows "\<exists>blob cs aad qs ps' raw. HksBuildKeyBlob hal alloc addr flag key ps keyOut = (Inr blob, cs)
    \<and> HksGetAadAndParamSet alloc blob = Inr (aad, ps') \<and> HksDecryptKeyBlob hal alloc aad ps' = (HKS_SUCCESS, qs)
    \<and> HksGetRawKey alloc (Some qs) = Inr raw \<and> same_blob raw key
    \<and> butlast (params qs) = map (canon_param \<circ> norm_param) (params ps @ core4 flag)"
  using assms by (rule key_blob_life)

text \<open>An engine that flips bits, and checks the tag it gave.\<close>

definition flip_hal :: crypto_hal where
  "flip_hal = \<lparr>HksCryptoHalGetMainKey = Inr (replicate 32 1),
     HksCryptoHalDeriveKey = (\<lambda>k s n. Inr (replicate 32 2)),
     HksCryptoHalGenerateKey = (\<lambda>n s. Inr (blob_of (replicate 32 (word_of_nat n)))),
     HksCryptoHalFillRandom = (\<lambda>i n. Inr (replicate (unat n) (word_of_nat i))),
     HksCryptoHalHmac = (\<lambda>k d b n. Inr (replicate 32 0)),
     HksCryptoHalEncrypt = (\<lambda>k u m n. (0, map (\<lambda>x. x XOR 0x5A) (blob_bytes m), replicate 16 7)),
     HksCryptoHalDecrypt = (\<lambda>k u c n. case us_algParam u of
        Some (AeadParam a) \<Rightarrow>
          (case ae_tag a of
             tagDec t \<Rightarrow>
               if blob_bytes t = replicate 16 7 then (0, map (\<lambda>x. x XOR 0x5A) (blob_bytes c)) else (-1, [])
           | _ \<Rightarrow> (-1, []))
      | _ \<Rightarrow> (-1, []))\<rparr>"

lemma flip_hal_ok: "engine_ok flip_hal"
  by (auto simp: engine_ok_def gcm_ok_def flip_hal_def gcm_def blob_of_def blob_bytes_def comp_def xor.assoc
      intro!: map_idI)

lemma key_blob_roundtrip_witness:
  "let ps = \<lparr>paramSetSize = 34, params = [\<lparr>p_tag = HKS_TAG_PROCESS_NAME, p_val = VBlob (blob_of [8, 9])\<rparr>],
        ps_tail = [8, 9]\<rparr>;
       key = blob_of [1, 2, 3] in
   \<exists>blob cs aad qs ps' raw.
      HksBuildKeyBlob flip_hal (\<lambda>_. True) (\<lambda>_. 5) 2 key ps \<lparr>blob_size = 1024, blob_data = Some []\<rparr> = (Inr blob, cs)
    \<and> HksGetAadAndParamSet (\<lambda>_. True) blob = Inr (aad, ps')
    \<and> HksDecryptKeyBlob flip_hal (\<lambda>_. True) aad ps' = (HKS_SUCCESS, qs)
    \<and> HksGetRawKey (\<lambda>_. True) (Some qs) = Inr raw \<and> same_blob raw key
    \<and> butlast (params qs) = map (canon_param \<circ> norm_param) (params ps @ core4 2)"
  unfolding Let_def
  by (rule key_blob_roundtrip [OF flip_hal_ok])
     (simp_all add: key_request_def wf_param_def space_def plen_def is_bytes_tag_def GetTagType_def blob_of_def
       blob_bytes_def paramsCnt_def)

section \<open>Reading a key blob\<close>

lemma find_canon_core:
  "List.find (\<lambda>q. t = p_tag q) (map (canon_param \<circ> norm_param) ps)
     = map_option (canon_param \<circ> norm_param) (List.find (\<lambda>q. t = p_tag q) ps)"
  by (induction ps) auto

lemma canon_norm_readers:
  assumes "\<not> is_bytes_tag (p_tag p)"
  shows "uint32Param (p_val (canon_param (norm_param p))) = uint32Param (p_val p)"
    "uint64Param (p_val (canon_param (norm_param p))) = uint64Param (p_val p)"
    "boolParam (p_val (canon_param (norm_param p))) = boolParam (p_val p)"
  using canon_readers [of p] assms by (simp_all add: norm_param_def)

lemma canon_norm_blob:
  assumes "is_bytes_tag (p_tag p)"
  shows "blobParam (p_val (canon_param (norm_param p))) =
    \<lparr>blob_size = blob_size (blobParam (p_val p)), blob_data = Some (payload p)\<rparr>"
  using assms by (simp add: canon_param_def norm_param_def payload_def blob_bytes_def plen_def split: option.split)

lemma key_param_last:
  assumes params: "butlast (params qs) = map (canon_param \<circ> norm_param) (params ps @ core4 flag)"
    and key: "HksGetParam (Some qs) HKS_TAG_KEY = Inr k" and no: "HKS_TAG_KEY \<notin> p_tag ` set (params ps)"
  shows "p_tag (last (params qs)) = HKS_TAG_KEY" "params qs \<noteq> []"
proof -
  have kin: "List.find (\<lambda>q. HKS_TAG_KEY = p_tag q) (params qs) = Some k"
    using key by (simp add: HksGetParam_Inr_iff)
  then show ne: "params qs \<noteq> []" by auto
  have split: "params qs = butlast (params qs) @ [last (params qs)]" using ne by simp
  have "HKS_TAG_KEY \<notin> p_tag ` set (butlast (params qs))"
    using no unfolding params by (auto simp: core4_def core_params_def)
  then have "List.find (\<lambda>q. HKS_TAG_KEY = p_tag q) (butlast (params qs)) = None"
    by (simp only: find_tag_None not_False_eq_True)
  then show "p_tag (last (params qs)) = HKS_TAG_KEY"
    using kin find_tag_Some [OF kin] by (subst (asm) split) (auto simp: find_tag_append split: if_splits)
qed

text \<open>What the engine reads from a key blob of its own, for the tags of the request.\<close>

lemma get_from_key_blob:
  assumes params: "butlast (params qs) = map (canon_param \<circ> norm_param) (params ps @ core4 flag)"
    and key: "HksGetParam (Some qs) HKS_TAG_KEY = Inr k"
    and ps: "HksCheckParamSet (Some ps) (paramSetSize ps) = 0" "list_all wf_param (params ps)"
      "HKS_TAG_KEY \<notin> p_tag ` set (params ps)"
    and t: "t \<notin> {HKS_TAG_KEY_VERSION, HKS_TAG_OS_VERSION, HKS_TAG_OS_PATCHLEVEL, HKS_TAG_KEY_FLAG, HKS_TAG_KEY}"
  shows "HksGetParam (Some qs) t =
    (case HksGetParam (Some ps) t of Inl e \<Rightarrow> Inl e | Inr p \<Rightarrow> Inr (canon_param (norm_param p)))"
proof -
  have kin: "HksCheckParamSet (Some qs) (paramSetSize qs) = 0" using key by (simp add: HksGetParam_Inr_iff)
  note last = key_param_last [OF params key ps(3)]
  have split: "params qs = butlast (params qs) @ [last (params qs)]" using last(2) by simp
  from last(1) have "List.find (\<lambda>q. t = p_tag q) (params qs) =
      map_option (canon_param \<circ> norm_param) (List.find (\<lambda>q. t = p_tag q) (params ps))"
    using t by (subst split) (auto simp: find_tag_append params find_canon_core core4_def core_params_def split: option.split)
  moreover have "CheckBlob (Some (blobParam (p_val (canon_param (norm_param p))))) =
      CheckBlob (Some (blobParam (p_val p)))"
    if "List.find (\<lambda>q. t = p_tag q) (params ps) = Some p" "is_bytes_tag t" for p
  proof -
    have "p \<in> set (params ps)" "p_tag p = t" using find_tag_Some [OF that(1)] by auto
    then have "\<exists>bs. blob_data (blobParam (p_val p)) = Some bs" using ps(2) that(2) by (auto simp: list_all_iff wf_param_def)
    then show ?thesis
      using canon_norm_blob [of p] that(2) \<open>p_tag p = t\<close> by (auto simp: CheckBlob_def)
  qed
  ultimately show ?thesis
    by (auto simp: HksGetParam_Some kin ps(1) split: option.split)
qed

lemma got_tag: "HksGetParam (Some ps) t = Inr p \<Longrightarrow> p_tag p = t \<and> p \<in> set (params ps)"
  using find_tag_Some by (auto simp: HksGetParam_Inr_iff)

lemma built_blob:
  assumes "HksBuildKeyBlob hal alloc addr flag key ps keyOut = (Inr blob, cs)"
  shows "blob_size blob \<le> blob_size keyOut" "blob_data blob \<noteq> NULL"
proof -
  obtain set cs1 where "HksBuildKeyBlob2 hal alloc addr set keyOut = (Inr blob, cs1)"
    using assms by (auto simp: HksBuildKeyBlob_def split: prod.splits sum.splits)
  then show "blob_size blob \<le> blob_size keyOut" "blob_data blob \<noteq> NULL"
    by (auto simp: HksBuildKeyBlob2_def Let_def memcpy_to_def memcpy_s_def poke_def word_le_nat_alt
        split: prod.splits sum.splits if_splits option.splits)
qed

text \<open>Reading the blob in place, and decrypting it, changes no parameter but those with bytes.\<close>

definition same_plain :: "HksParam list \<Rightarrow> HksParam list \<Rightarrow> bool" where
  "same_plain ps qs \<longleftrightarrow> list_all2 (\<lambda>p q. p_tag q = p_tag p \<and> (\<not> is_bytes_tag (p_tag p) \<longrightarrow> q = p)) ps qs"

lemma same_plain_fresh:
  "fresh_loop c sz base tail off ps = Inr (qs, out, off') \<Longrightarrow> same_plain ps qs"
  unfolding same_plain_def
proof (induction ps arbitrary: c off qs out off')
  case Nil
  then show ?case by simp
next
  case (Cons p ps)
  from Cons.prems show ?case
    by (auto simp: Let_def try_res_def split: if_splits option.splits sum.splits dest!: Cons.IH)
qed

lemma same_plain_refl [simp]: "same_plain ps ps"
  by (simp add: same_plain_def list_all2_refl)

lemma fresh_same_plain:
  assumes "FreshParamSet ps c = Inr qs"
  shows "same_plain (params ps) (params qs) \<and> paramSetSize qs = paramSetSize ps"
proof -
  define base where "base = SIZEOF_PARAM_SET + SIZEOF_PARAM * paramsCnt ps"
  obtain rs out off where r: "fresh_loop c (paramSetSize ps) base (ps_tail ps) (word_of_nat base) (params ps) = Inr (rs, out, off)"
    using assms unfolding FreshParamSet_def base_def Let_def by (fastforce simp: try_res_def split: sum.splits)
  then have "params qs = rs" "paramSetSize qs = paramSetSize ps"
    using assms unfolding FreshParamSet_def base_def [symmetric] Let_def by (auto simp: try_res_def split: if_splits)
  then show ?thesis using same_plain_fresh [OF r] by simp
qed

lemma same_plain_update:
  "is_bytes_tag t \<Longrightarrow> (\<And>p. p_tag (f p) = p_tag p) \<Longrightarrow> same_plain ps (update_first t f ps)"
  by (induction ps) (auto simp: same_plain_def list_all2_refl)

lemma same_plain_trans: "same_plain ps qs \<Longrightarrow> same_plain qs rs \<Longrightarrow> same_plain ps rs"
  by (simp add: same_plain_def list_all2_conv_all_nth)

lemma same_plain_tags: "same_plain ps qs \<Longrightarrow> map p_tag qs = map p_tag ps"
  unfolding same_plain_def by (induction rule: list_all2_induct) auto

lemma same_plain_find:
  "same_plain ps qs \<Longrightarrow> \<not> is_bytes_tag t \<Longrightarrow> List.find (\<lambda>p. t = p_tag p) qs = List.find (\<lambda>p. t = p_tag p) ps"
  unfolding same_plain_def by (induction rule: list_all2_induct) auto

lemma same_plain_get:
  assumes "same_plain (params ps) (params qs)" "paramSetSize qs = paramSetSize ps" "\<not> is_bytes_tag t"
  shows "HksGetParam (Some qs) t = HksGetParam (Some ps) t"
proof -
  have "length (params qs) = length (params ps)" using assms(1) by (simp add: same_plain_def list_all2_lengthD)
  then have "HksCheckParamSet (Some qs) sz = HksCheckParamSet (Some ps) sz" for sz
    using assms(2) by (simp add: HksCheckParamSet_def paramsCnt_def)
  then show ?thesis
    using assms by (simp add: HksGetParam_Some same_plain_find split: option.split)
qed

lemma param_set_at_take:
  assumes "unat (read_u32 bs 4) \<le> (n - 8) div 24" "8 \<le> n"
  shows "params (param_set_at (take n bs)) = params (param_set_at bs)"
    "paramSetSize (param_set_at (take n bs)) = paramSetSize (param_set_at bs)"
proof -
  have cnt: "read_u32 (take n bs) 4 = read_u32 bs 4" and sz: "read_u32 (take n bs) 0 = read_u32 bs 0"
    using assms(2) by (simp_all add: read_u32_def drop_take)
  have "param_at (take n bs) (8 + 24 * i) = param_at bs (8 + 24 * i)" if "i < unat (read_u32 bs 4)" for i
  proof -
    have "8 + 24 * i + 24 \<le> n" using that assms by linarith
    then show ?thesis by (simp add: param_at_def read_u32_def drop_take Let_def)
  qed
  then show "params (param_set_at (take n bs)) = params (param_set_at bs)"
    "paramSetSize (param_set_at (take n bs)) = paramSetSize (param_set_at bs)"
    by (simp_all add: param_set_at_def cnt sz)
qed

lemma tags_decide: "map p_tag qs = map p_tag ps \<Longrightarrow> check_tags_loop qs = check_tags_loop ps"
proof (induction ps arbitrary: qs)
  case (Cons p ps)
  then obtain q qs' where qs: "qs = q # qs'" "p_tag q = p_tag p" "map p_tag qs' = map p_tag ps" by auto
  then have "(\<exists>r\<in>set qs'. p_tag p = p_tag r) \<longleftrightarrow> (\<exists>r\<in>set ps. p_tag p = p_tag r)"
    by (metis (no_types, lifting) image_iff list.set_map)
  then show ?case using Cons.IH [OF qs(3)] by (simp add: qs(1,2) list_ex_iff)
qed simp

text \<open>What a key blob that was built says, read in place and opened.\<close>

lemma key_blob_reads:
  assumes "engine_ok hal" "key_request ps key" "HksCheckParamSet (Some ps) (paramSetSize ps) = HKS_SUCCESS"
    and mem: "\<forall>n. alloc n" and "blob_data keyOut \<noteq> NULL" "blob_size keyOut \<le> MAX_KEY_SIZE"
    and "space (params ps) + 168 + unat (blob_size key) \<le> unat (blob_size keyOut)"
  obtains blob cs qs where
    "HksBuildKeyBlob hal alloc addr flag key ps keyOut = (Inr blob, cs)"
    "HksGenerateKeyNode hal alloc blob = (Some \<lparr>hkn_paramSet = Some qs, hkn_refCnt = 1,
       hkn_status = HKS_KEYNODE_INACTIVE, hkn_handle = 0\<rparr>, [])"
    "\<And>t. t \<notin> {HKS_TAG_KEY_VERSION, HKS_TAG_OS_VERSION, HKS_TAG_OS_PATCHLEVEL, HKS_TAG_KEY_FLAG, HKS_TAG_KEY} \<Longrightarrow>
       HksGetParam (Some qs) t =
       (case HksGetParam (Some ps) t of Inl e \<Rightarrow> Inl e | Inr p \<Rightarrow> Inr (canon_param (norm_param p)))"
    "\<And>t. \<not> is_bytes_tag t \<Longrightarrow> HksGetParam (Some (param_set_at (blob_bytes blob))) t = HksGetParam (Some qs) t"
    "HksCheckParamSetTag (Some (param_set_at (blob_bytes blob))) = HksCheckParamSetTag (Some qs)"
    "HksCheckParamSet (Some (param_set_at (blob_bytes blob))) (paramSetSize (param_set_at (blob_bytes blob))) = HKS_SUCCESS"
    "butlast (params qs) = map (canon_param \<circ> norm_param) (params ps @ core4 flag)"
    "p_tag (last (params qs)) = HKS_TAG_KEY" "8 \<le> unat (blob_size blob)"
proof -
  obtain blob cs aad qs ps' raw where built: "HksBuildKeyBlob hal alloc addr flag key ps keyOut = (Inr blob, cs)"
    and load: "HksGetAadAndParamSet alloc blob = Inr (aad, ps')"
    and dec: "HksDecryptKeyBlob hal alloc aad ps' = (HKS_SUCCESS, qs)"
    and raw: "HksGetRawKey alloc (Some qs) = Inr raw"
    and params: "butlast (params qs) = map (canon_param \<circ> norm_param) (params ps @ core4 flag)"
    using key_blob_life [OF assms(1,2,4,5,7), of addr flag] by blast
  note size = built_blob [OF built]
  let ?bs = "blob_bytes blob"
  let ?at = "param_set_at (take (unat (blob_size blob)) ?bs)"
  have set: "HksGetParamSet alloc (Some ?at) (blob_size blob) = Inr ps'"
    and key': "\<exists>k. HksGetParam (Some ps') HKS_TAG_KEY = Inr k"
    using load by (auto simp: HksGetAadAndParamSet_def GetAadAndParamSet_def try_res_def Let_def
        split: if_splits sum.splits)
  then have check: "HksCheckParamSet (Some ?at) (blob_size blob) = HKS_SUCCESS"
    by (simp add: HksGetParamSet_def if_not_succ_return_def Let_def split: if_splits)
  then have at: "paramSetSize ?at = blob_size blob" "8 \<le> unat (blob_size blob)"
    "paramsCnt ?at \<le> (unat (blob_size blob) - 8) div 24"
    by (auto simp: HksCheckParamSet_def word_less_nat_alt split: if_splits)
  have "unat (read_u32 ?bs 4) \<le> (unat (blob_size blob) - 8) div 24"
    using at(2,3) by (simp add: param_set_at_def paramsCnt_def read_u32_def drop_take)
  note whole = param_set_at_take [OF this at(2)]
  have fresh: "same_plain (params ?at) (params ps')" "paramSetSize ps' = paramSetSize ?at"
    using set check at(1) fresh_same_plain [of ?at False ps']
    by (auto simp: HksGetParamSet_def if_not_succ_return_def Let_def split: if_splits)
  have key_tag: "is_bytes_tag HKS_TAG_KEY" by (simp add: is_bytes_tag_def GetTagType_def)
  have opened: "same_plain (params ps') (params qs)" "paramSetSize qs = paramSetSize ps'"
    using dec key' same_plain_update [OF key_tag, of "write_param k bs" for k bs]
    by (auto simp: HksDecryptKeyBlob_def DecryptKeyBlob_def EncryptAndDecryptKeyBlob_def Let_def write_blob_def
        write_param_def split: if_splits sum.splits prod.splits)
  have same: "same_plain (params (param_set_at ?bs)) (params qs)" "paramSetSize qs = paramSetSize (param_set_at ?bs)"
    using same_plain_trans [OF fresh(1) opened(1)] whole fresh(2) opened(2) by simp_all
  obtain k where k: "HksGetParam (Some qs) HKS_TAG_KEY = Inr k"
    using raw by (auto simp: HksGetRawKey_def try_res_def split: sum.splits)
  have wf: "list_all wf_param (params ps)" "HKS_TAG_KEY \<notin> p_tag ` set (params ps)"
    using assms(2) by (auto simp: key_request_def)
  show thesis
  proof (rule that)
    show "HksBuildKeyBlob hal alloc addr flag key ps keyOut = (Inr blob, cs)" by (rule built)
    show "HksGenerateKeyNode hal alloc blob = (Some \<lparr>hkn_paramSet = Some qs, hkn_refCnt = 1,
       hkn_status = HKS_KEYNODE_INACTIVE, hkn_handle = 0\<rparr>, [])"
      using load dec size(1) assms(6) mem
      by (simp add: HksGenerateKeyNode_def HksGetAadAndParamSet_def HksDecryptKeyBlob_def HksMalloc_def)
    show "HksGetParam (Some qs) t =
       (case HksGetParam (Some ps) t of Inl e \<Rightarrow> Inl e | Inr p \<Rightarrow> Inr (canon_param (norm_param p)))"
      if "t \<notin> {HKS_TAG_KEY_VERSION, HKS_TAG_OS_VERSION, HKS_TAG_OS_PATCHLEVEL, HKS_TAG_KEY_FLAG, HKS_TAG_KEY}" for t
      by (rule get_from_key_blob [OF params k assms(3) wf that])
    show "HksGetParam (Some (param_set_at ?bs)) t = HksGetParam (Some qs) t" if "\<not> is_bytes_tag t" for t
      using same_plain_get [OF same that] by simp
    show "HksCheckParamSetTag (Some (param_set_at ?bs)) = HksCheckParamSetTag (Some qs)"
      using same_plain_tags [OF same(1)] tags_decide [of "params (param_set_at ?bs)" "params qs"]
      by (simp add: HksCheckParamSetTag_def)
    show "HksCheckParamSet (Some (param_set_at ?bs)) (paramSetSize (param_set_at ?bs)) = HKS_SUCCESS"
      using check at(1) whole by (simp add: HksCheckParamSet_def paramsCnt_def)
    show "butlast (params qs) = map (canon_param \<circ> norm_param) (params ps @ core4 flag)" by (rule params)
    show "p_tag (last (params qs)) = HKS_TAG_KEY" by (rule key_param_last(1) [OF params k wf(2)])
    show "8 \<le> unat (blob_size blob)" by (rule at(2))
  qed
qed

end
