(* ===== verification/Huks_Access.thy ===== *)
theory Huks_Access
  imports Huks_Keyblob Huks_Use_Check
begin

text \<open>
  Access control of keys that need user authentication, from
  \<open>services/huks_standard/huks_engine/main/core/src/hks_secure_access.c\<close>. First what the init
  request of such a key does, \<open>HksCoreSecureAccessInitParams\<close>, then how later requests are verified and what is
  appended to signed data. The init request decides whether the key needs
  authentication for this purpose, and leaves a set of runtime parameters in the key node: a random
  challenge, the time of access, and that no token has been verified yet.
\<close>

section \<open>Parameters of the checks\<close>

abbreviation (input) BYTES_PER_POS :: u32 where "BYTES_PER_POS \<equiv> 8"
abbreviation (input) S_TO_MS :: u64 where "S_TO_MS \<equiv> 1000"
abbreviation (input) DEFAULT_TIME_OUT :: u32 where "DEFAULT_TIME_OUT \<equiv> 3"
abbreviation (input) SIZEOF_SECURE_SIGN_AUTH_INFO :: nat where "SIZEOF_SECURE_SIGN_AUTH_INFO \<equiv> 20"
abbreviation (input) SECURE_SIGN_VERSION :: u32 where "SECURE_SIGN_VERSION \<equiv> 0x01000001"

text \<open>\<open>enum HksAuthResult\<close>, as the 32 bits of its values -2, -1, 0 and 1.\<close>

abbreviation (input) HKS_AUTH_RESULT_NONE :: u32 where "HKS_AUTH_RESULT_NONE \<equiv> 0xFFFFFFFE"
abbreviation (input) HKS_AUTH_RESULT_INIT :: u32 where "HKS_AUTH_RESULT_INIT \<equiv> 0xFFFFFFFF"
abbreviation (input) HKS_AUTH_RESULT_SUCCESS :: u32 where "HKS_AUTH_RESULT_SUCCESS \<equiv> 0"
abbreviation (input) HKS_AUTH_RESULT_FAILED :: u32 where "HKS_AUTH_RESULT_FAILED \<equiv> 1"

record HksSecureAccessInnerParams =
  sa_initParamSet :: HksParamSet
  sa_challengePos :: u32
  sa_isUserAuthAccess :: bool
  sa_isSecureSign :: bool
  sa_outToken :: HksBlob

definition CheckChallengeTypeValidity ::
    "HksParam \<Rightarrow> HksSecureAccessInnerParams \<Rightarrow> HksSecureAccessInnerParams res" where
  "CheckChallengeTypeValidity blobChallengeType innerParams =
     (let challengeType = uint32Param (p_val blobChallengeType) in
      try_res
        (if challengeType = HKS_CHALLENGE_TYPE_CUSTOM then
           try_res (HksGetParam (Some (sa_initParamSet innerParams)) HKS_TAG_CHALLENGE_POS)
             (\<lambda>challengePosParam.
               if uint32Param (p_val challengePosParam) > HKS_CHALLENGE_POS_3
               then Inl HKS_ERROR_INVALID_ARGUMENT
               else Inr (innerParams\<lparr>sa_challengePos := uint32Param (p_val challengePosParam)\<rparr>))
         else Inr (innerParams\<lparr>sa_challengePos := 0\<rparr>))
        (\<lambda>innerParams.
          if challengeType = HKS_CHALLENGE_TYPE_NONE
          then Inr (innerParams\<lparr>sa_outToken := (sa_outToken innerParams)\<lparr>blob_size := 0\<rparr>\<rparr>)
          else if blob_size (sa_outToken innerParams) < TOKEN_SIZE then Inl HKS_ERROR_INVALID_ARGUMENT
          else Inr innerParams))"

definition IsNeedSkipUserAuthAccessControl :: "HksParamSet ptr \<Rightarrow> HksParamSet \<Rightarrow> rc" where
  "IsNeedSkipUserAuthAccessControl keyBlobParamSet initParamSet =
     try_or (HksGetParam keyBlobParamSet HKS_TAG_KEY_AUTH_PURPOSE) HKS_SUCCESS
       (\<lambda>userAuthKeyPurposeParam.
       let ret = HksCheckUserAuthKeyInfoValidity initParamSet in
       if_not_succ_return ret ret
       (try_rc (HksGetParam (Some initParamSet) HKS_TAG_PURPOSE) (\<lambda>keyPurposeParam.
         if uint32Param (p_val keyPurposeParam) OR uint32Param (p_val userAuthKeyPurposeParam)
             \<noteq> uint32Param (p_val userAuthKeyPurposeParam)
         then HKS_ERROR_NEED_SKIP_ACCESS_CONTROL else HKS_SUCCESS)))"

text \<open>No authentication: the caller's token is emptied, which tells the client so.\<close>

definition no_user_auth :: "HksSecureAccessInnerParams \<Rightarrow> HksSecureAccessInnerParams" where
  "no_user_auth innerParams = innerParams\<lparr>sa_isUserAuthAccess := False, sa_isSecureSign := False,
     sa_outToken := (sa_outToken innerParams)\<lparr>blob_size := 0\<rparr>\<rparr>"

definition CheckInitParamSetValidityAndGet ::
    "HksParamSet ptr \<Rightarrow> HksSecureAccessInnerParams \<Rightarrow> HksSecureAccessInnerParams res" where
  "CheckInitParamSetValidityAndGet keyBlobParamSet innerParams =
     (case HksGetParam keyBlobParamSet HKS_TAG_USER_AUTH_TYPE of
        Inl ret \<Rightarrow>
          if ret = HKS_ERROR_PARAM_NOT_EXIST then Inr (no_user_auth innerParams) else Inl ret
      | Inr blobUserAuthType \<Rightarrow>
          let ret = IsNeedSkipUserAuthAccessControl keyBlobParamSet (sa_initParamSet innerParams) in
          if ret = HKS_ERROR_NEED_SKIP_ACCESS_CONTROL then Inr (no_user_auth innerParams)
          else if_not_succ_return ret (Inl ret)
            (try_res (HksGetParam keyBlobParamSet HKS_TAG_CHALLENGE_TYPE) (\<lambda>blobChallengeType.
             try_res (CheckChallengeTypeValidity blobChallengeType innerParams) (\<lambda>innerParams.
             (case HksGetParam keyBlobParamSet HKS_TAG_KEY_SECURE_SIGN_TYPE of
                Inr secureSignTag \<Rightarrow>
                  if_not_succ_return (HksCheckSecureSignParams (uint32Param (p_val secureSignTag)))
                    (Inl HKS_ERROR_BAD_STATE)
                    (Inr (innerParams\<lparr>sa_isSecureSign := True, sa_isUserAuthAccess := True\<rparr>))
              | Inl _ \<Rightarrow>
                  Inr (innerParams\<lparr>sa_isSecureSign := False, sa_isUserAuthAccess := True\<rparr>))))))"

section \<open>The runtime parameters\<close>

definition AddChallengeParams :: "crypto_hal \<Rightarrow> HksParamSet \<Rightarrow> (HksParamSet \<times> HksBlob) res" where
  "AddChallengeParams hal paramSet =
     try_or (HksCryptoHalFillRandom hal 0 TOKEN_SIZE) (Inl HKS_ERROR_BAD_STATE) (\<lambda>challenge.
     let challengeBlob = \<lparr>blob_size = TOKEN_SIZE, blob_data = Some challenge\<rparr> in
     try_res (add_params paramSet [\<lparr>p_tag = HKS_TAG_KEY_INIT_CHALLENGE, p_val = VBlob challengeBlob\<rparr>])
       (\<lambda>paramSet. Inr (paramSet, challengeBlob)))"

text \<open>\<open>clk\<close> is the outcome of \<open>HksElapsedRealTime\<close>.\<close>

definition AddKeyAccessTimeParams :: "u64 res \<Rightarrow> HksParamSet \<Rightarrow> HksParamSet res" where
  "AddKeyAccessTimeParams clk paramSet =
     try_res clk (\<lambda>curTime.
     add_params paramSet [\<lparr>p_tag = HKS_TAG_KEY_ACCESS_TIME, p_val = VUlong (curTime div S_TO_MS)\<rparr>])"

definition AssignToken :: "HksBlob \<Rightarrow> HksBlob \<Rightarrow> HksBlob res" where
  "AssignToken token challenge =
     (if blob_size token \<ge> TOKEN_SIZE then
        (if blob_data token = NULL then Inl HKS_ERROR_INSUFFICIENT_MEMORY
         else
           (case memcpy_to token 0 (blob_size token) (blob_data challenge) (unat (blob_size challenge)) of
              (ok, token) \<Rightarrow>
                if \<not> ok then Inl HKS_ERROR_INSUFFICIENT_MEMORY
                else Inr (token\<lparr>blob_size := blob_size challenge\<rparr>)))
      else if blob_size token = 0 then Inr token
      else Inl HKS_ERROR_INVALID_ARGUMENT)"

definition AddAppendDataPlaceholder :: "HksParamSet \<Rightarrow> bytes \<Rightarrow> HksParamSet res" where
  "AddAppendDataPlaceholder paramSet placeholder =
     add_params paramSet [\<lparr>p_tag = HKS_TAG_APPENDED_DATA_PREFIX, p_val = VBlob (blob_of placeholder)\<rparr>]"

definition AddDefaultAuthRuntimeParams ::
    "HksParamSet \<Rightarrow> HksSecureAccessInnerParams \<Rightarrow> bool \<Rightarrow> HksParamSet res" where
  "AddDefaultAuthRuntimeParams paramSet innerParams isNeedAppendAuthInfo =
     add_params paramSet
       [\<lparr>p_tag = HKS_TAG_IS_USER_AUTH_ACCESS, p_val = VBool (sa_isUserAuthAccess innerParams)\<rparr>,
        \<lparr>p_tag = HKS_TAG_IF_NEED_APPEND_AUTH_INFO, p_val = VBool isNeedAppendAuthInfo\<rparr>,
        \<lparr>p_tag = HKS_TAG_IS_APPEND_UPDATE_DATA, p_val = VBool False\<rparr>,
        \<lparr>p_tag = HKS_TAG_KEY_AUTH_RESULT, p_val = VInt HKS_AUTH_RESULT_INIT\<rparr>,
        \<lparr>p_tag = HKS_TAG_CHALLENGE_POS, p_val = VUint (sa_challengePos innerParams)\<rparr>]"

text \<open>The set and the caller's token.\<close>

definition BuildAuthRuntimeParamSet ::
    "crypto_hal \<Rightarrow> allocator \<Rightarrow> u64 res \<Rightarrow> HksSecureAccessInnerParams \<Rightarrow> bool
     \<Rightarrow> (HksParamSet \<times> HksBlob) res" where
  "BuildAuthRuntimeParamSet hal alloc clk innerParams isNeedAppendAuthInfo =
     try_res (HksInitParamSet alloc) (\<lambda>paramSet.
     try_res (AddDefaultAuthRuntimeParams paramSet innerParams isNeedAppendAuthInfo) (\<lambda>paramSet.
     try_res (AddKeyAccessTimeParams clk paramSet) (\<lambda>paramSet.
     try_res (AddChallengeParams hal paramSet) (\<lambda>(paramSet, challengeBlob).
     try_res (if isNeedAppendAuthInfo
              then AddAppendDataPlaceholder paramSet (replicate SIZEOF_SECURE_SIGN_AUTH_INFO 0)
              else Inr paramSet) (\<lambda>paramSet.
     try_res (HksBuildParamSet alloc (Some paramSet)) (\<lambda>paramSet.
     try_res (AssignToken (sa_outToken innerParams) challengeBlob) (\<lambda>token.
     Inr (paramSet, token))))))))"

section \<open>The init request\<close>

definition HksCoreSecureAccessInitParams ::
    "crypto_hal \<Rightarrow> allocator \<Rightarrow> u64 res \<Rightarrow> HuksKeyNode ptr \<Rightarrow> HksParamSet ptr \<Rightarrow> HksBlob ptr
     \<Rightarrow> (HuksKeyNode \<times> HksBlob) res" where
  "HksCoreSecureAccessInitParams hal alloc clk keyNode initParamSet token =
     (case (keyNode, initParamSet, token) of
        (Some keyNode, Some initParamSet, Some token) \<Rightarrow>
          let innerParams = \<lparr>sa_initParamSet = initParamSet, sa_challengePos = 0,
                sa_isUserAuthAccess = False, sa_isSecureSign = False, sa_outToken = token\<rparr> in
          try_res (CheckInitParamSetValidityAndGet (kn_keyBlobParamSet keyNode) innerParams)
            (\<lambda>innerParams.
          try_res (BuildAuthRuntimeParamSet hal alloc clk innerParams (sa_isSecureSign innerParams))
            (\<lambda>(authRuntimeParamSet, token).
          Inr (keyNode\<lparr>kn_authRuntimeParamSet := Some authRuntimeParamSet\<rparr>, token)))
      | _ \<Rightarrow> Inl HKS_ERROR_NULL_POINTER)"

definition HksCheckKeybBlobIsSupportUserAuth :: "HksParamSet ptr \<Rightarrow> bool res" where
  "HksCheckKeybBlobIsSupportUserAuth blobParamSet =
     (case HksGetParam blobParamSet HKS_TAG_USER_AUTH_TYPE of
        Inl ret \<Rightarrow> if ret = HKS_ERROR_PARAM_NOT_EXIST then Inr False else Inl ret
      | Inr _ \<Rightarrow> Inr True)"

text \<open>
  The other half of \<open>hks_secure_access.c\<close>: verifying the token that comes with a request
  (\<open>HksCoreSecureAccessVerifyParams\<close>). The result of the verification is kept in the key node's runtime
  parameters.
\<close>

text \<open>
  What the verification uses from outside: the crypto engine, the conversion of authentication types of the
  C++ part (\<open>HksCoreConvertUserIamTypeToHksType\<close>), the number of token keys generated before, and the
  memory behind the blob of enrolled ids, into which the loop over these ids may read.
\<close>

record auth_env =
  ae_hal :: crypto_hal
  ae_alloc :: allocator
  ae_convert :: "u32 \<Rightarrow> u32 \<Rightarrow> u32 res"
  ae_keys :: nat
  ae_beyond :: bytes

section \<open>Challenge and time\<close>

definition HksVerifyKeyChallenge :: "HuksKeyNode \<Rightarrow> HksUserAuthToken \<Rightarrow> u32 \<Rightarrow> u32 \<Rightarrow> rc" where
  "HksVerifyKeyChallenge keyNode token challengePos checkLen =
     try_or (HksGetParam (kn_authRuntimeParamSet keyNode) HKS_TAG_KEY_INIT_CHALLENGE) HKS_ERROR_BAD_STATE
       (\<lambda>challenge.
       let b = blobParam (p_val challenge); off = unat (challengePos * BYTES_PER_POS) in
       if checkLen + challengePos * BYTES_PER_POS > blob_size b then HKS_ERROR_INVALID_ARGUMENT
       else if HksMemCmp (drop off (blob_bytes b)) (drop off (pd_challenge (plaintextData token)))
           (unat checkLen)
       then HKS_ERROR_KEY_AUTH_FAILED else HKS_SUCCESS)"

definition HksVerifyKeyTimestamp :: "HuksKeyNode \<Rightarrow> HksUserAuthToken \<Rightarrow> rc" where
  "HksVerifyKeyTimestamp keyNode token =
     (let timeOutInt = (case HksGetParam (kn_keyBlobParamSet keyNode) HKS_TAG_AUTH_TIMEOUT of
            Inr timeOut \<Rightarrow> uint32Param (p_val timeOut) | Inl _ \<Rightarrow> DEFAULT_TIME_OUT) in
      try_or (HksGetParam (kn_authRuntimeParamSet keyNode) HKS_TAG_KEY_ACCESS_TIME) HKS_ERROR_BAD_STATE
        (\<lambda>accessTime.
        let accessTime = uint64Param (p_val accessTime);
            authTokenTime = pd_time (plaintextData token) div S_TO_MS in
        if accessTime > authTokenTime \<and> accessTime - authTokenTime > ucast timeOutInt
           \<or> authTokenTime > accessTime \<and> authTokenTime - accessTime > ucast timeOutInt
        then HKS_ERROR_KEY_AUTH_TIME_OUT else HKS_SUCCESS))"

definition CheckAuthToken :: "HksBlob \<Rightarrow> rc" where
  "CheckAuthToken authTokenParam =
     (if unat (blob_size authTokenParam) \<noteq> SIZEOF_AUTH_TOKEN then HKS_ERROR_INVALID_ARGUMENT
      else HKS_SUCCESS)"

definition ParseAuthToken :: "allocator \<Rightarrow> HksBlob \<Rightarrow> HksUserAuthToken res" where
  "ParseAuthToken alloc inAuthTokenParam =
     (let ret = CheckAuthToken inAuthTokenParam in
      if_not_succ_return ret (Inl ret)
        (if \<not> HksMalloc alloc SIZEOF_AUTH_TOKEN then Inl HKS_ERROR_MALLOC_FAIL
         else Inr (as_HksUserAuthToken (take (unat (blob_size inAuthTokenParam))
           (blob_bytes inAuthTokenParam)))))"

definition GetAuthToken :: "allocator \<Rightarrow> HksParamSet \<Rightarrow> HksUserAuthToken res" where
  "GetAuthToken alloc paramSet =
     try_or (HksGetParam (Some paramSet) HKS_TAG_AUTH_TOKEN) (Inl HKS_ERROR_CHECK_GET_AUTH_TOKEN_FAILED)
       (\<lambda>authTokenParam.
     try_or (ParseAuthToken alloc (blobParam (p_val authTokenParam))) (Inl HKS_ERROR_INVALID_AUTH_TOKEN)
       (\<lambda>authToken. Inr authToken))"

definition GetChallengePos :: "HksParamSet ptr \<Rightarrow> u32 res" where
  "GetChallengePos paramSet =
     try_or (HksGetParam paramSet HKS_TAG_CHALLENGE_POS) (Inl HKS_ERROR_INVALID_ARGUMENT)
       (\<lambda>posParam. Inr (uint32Param (p_val posParam)))"

definition GetChallengeType :: "HksParamSet ptr \<Rightarrow> u32 res" where
  "GetChallengeType paramSet =
     try_or (HksGetParam paramSet HKS_TAG_CHALLENGE_TYPE) (Inl HKS_ERROR_BAD_STATE)
       (\<lambda>typeParam. Inr (uint32Param (p_val typeParam)))"

definition VerifyCustomChallenge :: "HuksKeyNode \<Rightarrow> HksUserAuthToken \<Rightarrow> rc" where
  "VerifyCustomChallenge keyNode authToken =
     try_or (GetChallengePos (kn_authRuntimeParamSet keyNode)) HKS_ERROR_INVALID_ARGUMENT
       (\<lambda>pos. HksVerifyKeyChallenge keyNode authToken pos BYTES_PER_POS)"

definition VerifyNormalChallenge :: "HuksKeyNode \<Rightarrow> HksUserAuthToken \<Rightarrow> rc" where
  "VerifyNormalChallenge keyNode authToken = HksVerifyKeyChallenge keyNode authToken 0 TOKEN_SIZE"

definition VerifyChallengeOrTimeStamp :: "HuksKeyNode \<Rightarrow> HksUserAuthToken \<Rightarrow> rc" where
  "VerifyChallengeOrTimeStamp keyNode authToken =
     try_rc (GetChallengeType (kn_keyBlobParamSet keyNode)) (\<lambda>blobChallengeType.
       if blobChallengeType = HKS_CHALLENGE_TYPE_NORMAL then VerifyNormalChallenge keyNode authToken
       else if blobChallengeType = HKS_CHALLENGE_TYPE_CUSTOM then VerifyCustomChallenge keyNode authToken
       else if blobChallengeType = HKS_CHALLENGE_TYPE_NONE then HksVerifyKeyTimestamp keyNode authToken
       else HKS_ERROR_BAD_STATE)"

section \<open>Who authenticated, and how\<close>

definition VerifyFrontUserIdIfNeed :: "HksParamSet ptr \<Rightarrow> HksUserAuthToken \<Rightarrow> rc" where
  "VerifyFrontUserIdIfNeed keyBlobParamSet authToken =
     try_or (HksGetParam keyBlobParamSet HKS_TAG_FRONT_USER_ID) HKS_ERROR_BAD_STATE (\<lambda>frontUserIdParam.
       if uint32Param (p_val frontUserIdParam) \<noteq> cd_userId (ciphertextData authToken)
       then HKS_ERROR_KEY_AUTH_PERMANENTLY_INVALIDATED else HKS_SUCCESS)"

definition VerifySecureUidIfNeed :: "HksParamSet ptr \<Rightarrow> HksUserAuthToken \<Rightarrow> u32 \<Rightarrow> rc" where
  "VerifySecureUidIfNeed keyBlobParamSet authToken authAccessType =
     (if authAccessType AND HKS_AUTH_ACCESS_INVALID_CLEAR_PASSWORD = 0 then HKS_SUCCESS
      else
        try_or (HksGetParam keyBlobParamSet HKS_TAG_USER_AUTH_SECURE_UID) HKS_ERROR_BAD_STATE (\<lambda>secUid.
          let b = blobParam (p_val secUid) in
          if blob_size b \<noteq> 8 then HKS_ERROR_BAD_STATE
          else if HksMemCmp (blob_bytes b) (to_le 8 (cd_secureUid (ciphertextData authToken))) 8
          then HKS_ERROR_KEY_AUTH_PERMANENTLY_INVALIDATED else HKS_SUCCESS))"

abbreviation (input) ENROLLED_ID_INFO_MIN_LEN :: nat where "ENROLLED_ID_INFO_MIN_LEN \<equiv> 16"

text \<open>
  The loop over at most \<open>n\<close> entries of a type and an id, from \<open>index\<close> on; \<open>mem\<close> is the blob and the
  memory behind it. Only the start of an entry is compared with the size.
\<close>

fun enrolled_loop :: "bytes \<Rightarrow> u32 \<Rightarrow> nat \<Rightarrow> u32 \<Rightarrow> u32 \<Rightarrow> u64 \<Rightarrow> bool" where
  "enrolled_loop mem len 0 index tokenAuthType tokenEnrolledId = False"
| "enrolled_loop mem len (Suc n) index tokenAuthType tokenEnrolledId =
     (if \<not> index < len then False
      else
        (let authType = read_u32 mem (unat index);
             enrolledId = of_le (field_at mem (unat (index + 4)) 8) in
         if authType = tokenAuthType \<and> enrolledId = tokenEnrolledId then True
         else enrolled_loop mem len n (index + 4 + 8) tokenAuthType tokenEnrolledId))"

definition VerifyEnrolledIdInfoIfNeed ::
    "bytes \<Rightarrow> HksParamSet ptr \<Rightarrow> HksUserAuthToken \<Rightarrow> u32 \<Rightarrow> u32 \<Rightarrow> u32 \<Rightarrow> rc" where
  "VerifyEnrolledIdInfoIfNeed beyond keyBlobParamSet authToken blobAuthType authAccessType authTokenAuthType =
     (if blobAuthType AND (HKS_USER_AUTH_TYPE_FACE OR HKS_USER_AUTH_TYPE_FINGERPRINT) = 0
         \<or> authAccessType AND HKS_AUTH_ACCESS_INVALID_NEW_BIO_ENROLL = 0
      then HKS_SUCCESS
      else
        try_or (HksGetParam keyBlobParamSet HKS_TAG_USER_AUTH_ENROLL_ID_INFO) HKS_ERROR_BAD_STATE
          (\<lambda>enrolledIdInfo.
          let b = blobParam (p_val enrolledIdInfo); mem = take (unat (blob_size b)) (blob_bytes b) @ beyond in
          if unat (blob_size b) < ENROLLED_ID_INFO_MIN_LEN then HKS_ERROR_BAD_STATE
          else if enrolled_loop mem (blob_size b) (unat (read_u32 mem 0)) 4 authTokenAuthType
              (cd_enrolledId (ciphertextData authToken))
          then HKS_SUCCESS else HKS_ERROR_KEY_AUTH_PERMANENTLY_INVALIDATED))"

definition VerifyAuthTokenInfo :: "auth_env \<Rightarrow> HuksKeyNode \<Rightarrow> HksUserAuthToken \<Rightarrow> rc" where
  "VerifyAuthTokenInfo env keyNode authToken =
     (let keyBlobParamSet = kn_keyBlobParamSet keyNode in
      try_or (HksGetParam keyBlobParamSet HKS_TAG_USER_AUTH_TYPE) HKS_ERROR_BAD_STATE (\<lambda>userAuthType.
      try_or (HksGetParam keyBlobParamSet HKS_TAG_KEY_AUTH_ACCESS_TYPE) HKS_ERROR_BAD_STATE
        (\<lambda>authAccessType.
      try_or (ae_convert env HKS_AUTH_TYPE (pd_authType (plaintextData authToken))) HKS_ERROR_NOT_SUPPORTED
        (\<lambda>authTokenAuthType.
      if authTokenAuthType AND uint32Param (p_val userAuthType) = 0 then HKS_ERROR_KEY_AUTH_VERIFY_FAILED
      else if uint32Param (p_val authAccessType) = HKS_AUTH_ACCESS_ALWAYS_VALID
      then VerifyFrontUserIdIfNeed keyBlobParamSet authToken
      else
        (let ret = VerifySecureUidIfNeed keyBlobParamSet authToken (uint32Param (p_val authAccessType)) in
         if_not_succ_return ret ret
           (VerifyEnrolledIdInfoIfNeed (ae_beyond env) keyBlobParamSet authToken
              (uint32Param (p_val userAuthType)) (uint32Param (p_val authAccessType)) authTokenAuthType))))))"

definition GetAuthMode :: "HksParamSet ptr \<Rightarrow> u32 res" where
  "GetAuthMode paramSet =
     (case HksGetParam paramSet HKS_TAG_USER_AUTH_MODE of
        Inr typeParam \<Rightarrow>
          if uint32Param (p_val typeParam) = HKS_USER_AUTH_MODE_COAUTH then Inr HKS_USER_AUTH_MODE_COAUTH
          else Inr HKS_USER_AUTH_MODE_LOCAL
      | Inl _ \<Rightarrow> Inr HKS_USER_AUTH_MODE_LOCAL)"

abbreviation (input) TOKEN_TYPE_LOCAL_AUTH :: u32 where "TOKEN_TYPE_LOCAL_AUTH \<equiv> 0"
abbreviation (input) TOKEN_TYPE_LOCAL_RESIGN :: u32 where "TOKEN_TYPE_LOCAL_RESIGN \<equiv> 1"
abbreviation (input) TOKEN_TYPE_COAUTH :: u32 where "TOKEN_TYPE_COAUTH \<equiv> 2"

definition HksCheckAuthType :: "HuksKeyNode \<Rightarrow> HksUserAuthToken \<Rightarrow> rc" where
  "HksCheckAuthType keyNode authToken =
     try_rc (GetAuthMode (kn_keyBlobParamSet keyNode)) (\<lambda>blobAuthMode.
       let ty = pd_tokenType (plaintextData authToken) in
       if ty = TOKEN_TYPE_LOCAL_AUTH \<or> ty = TOKEN_TYPE_LOCAL_RESIGN then HKS_SUCCESS
       else if ty = TOKEN_TYPE_COAUTH then
         (if blobAuthMode \<noteq> HKS_USER_AUTH_MODE_COAUTH then HKS_ERROR_NOT_SUPPORTED else HKS_SUCCESS)
       else HKS_ERROR_NOT_SUPPORTED)"

section \<open>The result of the verification\<close>

text \<open>Writing a number through a pointer into the runtime parameters.\<close>

definition set_auth_param :: "u32 \<Rightarrow> HksParamValue \<Rightarrow> HuksKeyNode \<Rightarrow> HuksKeyNode" where
  "set_auth_param tag v keyNode = keyNode\<lparr>kn_authRuntimeParamSet :=
     map_option (\<lambda>ps. ps\<lparr>params := update_first tag (\<lambda>p. p\<lparr>p_val := v\<rparr>) (params ps)\<rparr>)
       (kn_authRuntimeParamSet keyNode)\<rparr>"

definition HksAddVerifiedAuthTokenIfNeed ::
    "allocator \<Rightarrow> HuksKeyNode \<Rightarrow> HksUserAuthToken \<Rightarrow> HuksKeyNode res" where
  "HksAddVerifiedAuthTokenIfNeed alloc keyNode verifiedAuthToken =
     try_or (HksGetParam (kn_authRuntimeParamSet keyNode) HKS_TAG_IF_NEED_APPEND_AUTH_INFO)
       (Inl HKS_ERROR_BAD_STATE) (\<lambda>isNeedSecureSignInfo.
     if \<not> boolParam (p_val isNeedSecureSignInfo) then Inr keyNode
     else
       try_res (HksInitParamSet alloc) (\<lambda>newAuthRuntimeParamSet.
       try_res (case kn_authRuntimeParamSet keyNode of
                  NULL \<Rightarrow> Inr newAuthRuntimeParamSet
                | Some old \<Rightarrow> add_params newAuthRuntimeParamSet (params old)) (\<lambda>newAuthRuntimeParamSet.
       try_res (add_params newAuthRuntimeParamSet [\<lparr>p_tag = HKS_TAG_VERIFIED_AUTH_TOKEN,
           p_val = VBlob (blob_of (auth_token_bytes verifiedAuthToken))\<rparr>]) (\<lambda>newAuthRuntimeParamSet.
       try_res (HksBuildParamSet alloc (Some newAuthRuntimeParamSet)) (\<lambda>newAuthRuntimeParamSet.
       Inr (keyNode\<lparr>kn_authRuntimeParamSet := Some newAuthRuntimeParamSet\<rparr>))))))"

text \<open>Whether a verification is needed, and the result of an earlier one.\<close>

definition CheckIfNeedVerifyParams :: "HuksKeyNode \<Rightarrow> (bool \<times> HksParam) res" where
  "CheckIfNeedVerifyParams keyNode =
     try_or (HksGetParam (kn_authRuntimeParamSet keyNode) HKS_TAG_IS_USER_AUTH_ACCESS)
       (Inl HKS_ERROR_BAD_STATE) (\<lambda>isNeedSecureAccess.
     try_or (HksGetParam (kn_authRuntimeParamSet keyNode) HKS_TAG_KEY_AUTH_RESULT)
       (Inl HKS_ERROR_BAD_STATE) (\<lambda>authResult.
     if \<not> boolParam (p_val isNeedSecureAccess) then Inr (False, authResult)
     else if uint32Param (p_val authResult) = HKS_AUTH_RESULT_SUCCESS then Inr (False, authResult)
     else Inr (True, authResult)))"

text \<open>
  The result is written before the token is added to the node: the node keeps it when the adding fails. The
  token is \<open>NULL\<close> only with a code other than success.
\<close>

definition AssignVerifyResultAndFree ::
    "allocator \<Rightarrow> rc \<Rightarrow> HuksKeyNode \<Rightarrow> HksUserAuthToken ptr \<Rightarrow> rc \<times> HuksKeyNode" where
  "AssignVerifyResultAndFree alloc outRet keyNode authToken =
     (if outRet = HKS_SUCCESS then
        (let keyNode = set_auth_param HKS_TAG_KEY_AUTH_RESULT (VUint HKS_AUTH_RESULT_SUCCESS) keyNode in
         case HksAddVerifiedAuthTokenIfNeed alloc keyNode (the authToken) of
           Inl _ \<Rightarrow> (HKS_ERROR_BAD_STATE, keyNode)
         | Inr keyNode \<Rightarrow> (HKS_SUCCESS, keyNode))
      else (outRet, set_auth_param HKS_TAG_KEY_AUTH_RESULT (VUint HKS_AUTH_RESULT_FAILED) keyNode))"

text \<open>The chain of checks on the token: the code, and the token, decrypted if it came so far.\<close>

definition verify_token ::
    "auth_env \<Rightarrow> HuksKeyNode \<Rightarrow> HksParamSet \<Rightarrow> at_key_state
     \<Rightarrow> (rc \<times> HksUserAuthToken ptr) \<times> at_key_state" where
  "verify_token env keyNode paramSet st =
     (case GetAuthToken (ae_alloc env) paramSet of
        Inl ret \<Rightarrow> ((ret, NULL), st)
      | Inr authToken \<Rightarrow>
          (case HksVerifyAuthTokenSign (ae_hal env) (ae_keys env) (Some authToken) st of
             (ret, st) \<Rightarrow>
               if ret \<noteq> HKS_SUCCESS then ((ret, Some authToken), st)
               else
                 let ret = HksCheckAuthType keyNode authToken in
                 if ret \<noteq> HKS_SUCCESS then ((ret, Some authToken), st)
                 else
                   (case HksDecryptAuthToken (ae_hal env) (ae_keys env) (ae_alloc env) (Some authToken) st of
                      ((ret, decrypted), st) \<Rightarrow>
                        if ret \<noteq> HKS_SUCCESS then ((ret, decrypted), st)
                        else
                          let ret = VerifyChallengeOrTimeStamp keyNode (the decrypted) in
                          if ret \<noteq> HKS_SUCCESS then ((ret, decrypted), st)
                          else ((VerifyAuthTokenInfo env keyNode (the decrypted), decrypted), st))))"

definition HksCoreSecureAccessVerifyParams ::
    "auth_env \<Rightarrow> HuksKeyNode ptr \<Rightarrow> HksParamSet ptr \<Rightarrow> at_key_state
     \<Rightarrow> (rc \<times> HuksKeyNode ptr) \<times> at_key_state" where
  "HksCoreSecureAccessVerifyParams env keyNode paramSet st =
     (case (keyNode, paramSet) of
        (Some node, Some ps) \<Rightarrow>
          (case CheckIfNeedVerifyParams node of
             Inl _ \<Rightarrow> ((HKS_ERROR_BAD_STATE, keyNode), st)
           | Inr (isNeedSecureAccess, authResult) \<Rightarrow>
               if \<not> isNeedSecureAccess then ((HKS_SUCCESS, keyNode), st)
               else if uint32Param (p_val authResult) = HKS_AUTH_RESULT_FAILED
               then ((HKS_ERROR_KEY_AUTH_FAILED, keyNode), st)
               else
                 (case verify_token env node ps st of
                    ((ret, authToken), st) \<Rightarrow>
                      (case AssignVerifyResultAndFree (ae_alloc env) ret node authToken of
                         (ret, node) \<Rightarrow> ((ret, Some node), st))))
      | _ \<Rightarrow> ((HKS_ERROR_NULL_POINTER, keyNode), st))"

text \<open>
  The rest of \<open>hks_secure_access.c\<close>: signing with the authentication information in front of the data
  (keys with \<open>HKS_TAG_KEY_SECURE_SIGN_TYPE\<close>), and comparing the caller of a request with the owner of the
  key (\<open>HksProcessIdentityVerify\<close>).
\<close>

section \<open>State of the append\<close>

record HksSecureSignAuthInfo =
  ss_userAuthType :: u32
  ss_authenticatorId :: u64
  ss_credentialId :: u64

definition secure_sign_bytes :: "HksSecureSignAuthInfo \<Rightarrow> bytes" where
  "secure_sign_bytes i =
     to_le 4 (ss_userAuthType i) @ to_le 8 (ss_authenticatorId i) @ to_le 8 (ss_credentialId i)"

record HksAppendDataInnerParams =
  ad_keyNode :: HuksKeyNode
  ad_inData :: "HksBlob ptr"

definition GetUserAuthResult :: "HuksKeyNode \<Rightarrow> u32 res" where
  "GetUserAuthResult keyNode =
     try_or (HksGetParam (kn_authRuntimeParamSet keyNode) HKS_TAG_IS_USER_AUTH_ACCESS)
       (Inl HKS_ERROR_BAD_STATE) (\<lambda>isSecureAccess.
     if \<not> boolParam (p_val isSecureAccess) then Inr HKS_AUTH_RESULT_NONE
     else try_or (HksGetParam (kn_authRuntimeParamSet keyNode) HKS_TAG_KEY_AUTH_RESULT)
       (Inl HKS_ERROR_BAD_STATE) (\<lambda>authResultParam. Inr (uint32Param (p_val authResultParam))))"

definition CheckParamsAndGetAppendState :: "HuksKeyNode ptr \<Rightarrow> HksParam res" where
  "CheckParamsAndGetAppendState keyNode =
     (case keyNode of NULL \<Rightarrow> Inl HKS_ERROR_NULL_POINTER
      | Some node \<Rightarrow>
          try_or (HksGetParam (kn_authRuntimeParamSet node) HKS_TAG_IS_APPEND_UPDATE_DATA)
            (Inl HKS_ERROR_BAD_STATE) (\<lambda>isAppendData. Inr isAppendData))"

definition GetSupportAppendAuthInfoParams :: "HuksKeyNode \<Rightarrow> (bool \<times> u32) res" where
  "GetSupportAppendAuthInfoParams keyNode =
     try_or (HksGetParam (kn_authRuntimeParamSet keyNode) HKS_TAG_IF_NEED_APPEND_AUTH_INFO)
       (Inl HKS_ERROR_BAD_STATE) (\<lambda>isNeedAppendParam.
     try_or (GetUserAuthResult keyNode) (Inl HKS_ERROR_BAD_STATE) (\<lambda>authResult.
     Inr (boolParam (p_val isNeedAppendParam), authResult)))"

definition CheckIfNeedAppendUpdateData ::
    "HksAppendDataInnerParams \<Rightarrow> HksBlob ptr \<Rightarrow> (bool \<times> u32) res" where
  "CheckIfNeedAppendUpdateData innerParams appendedData =
     try_res (GetSupportAppendAuthInfoParams (ad_keyNode innerParams)) (\<lambda>(isNeedAppend, authResult).
     if \<not> isNeedAppend then Inr (False, authResult)
     else
       try_res (CheckParamsAndGetAppendState (Some (ad_keyNode innerParams))) (\<lambda>isAlreadyAppendData.
       if boolParam (p_val isAlreadyAppendData) then Inr (False, authResult)
       else
         (case ad_inData innerParams of
            NULL \<Rightarrow> Inl HKS_ERROR_INVALID_ARGUMENT
          | Some inData \<Rightarrow>
              if blob_size inData = 0 \<or> appendedData = NULL then Inl HKS_ERROR_INVALID_ARGUMENT
              else if unat (UINT32_MAX - blob_size inData) < SIZEOF_SECURE_SIGN_AUTH_INFO
              then Inl HKS_ERROR_INVALID_ARGUMENT
              else Inr (True, authResult))))"

definition GetSecureSignAuthInfo :: "auth_env \<Rightarrow> HuksKeyNode \<Rightarrow> HksSecureSignAuthInfo res" where
  "GetSecureSignAuthInfo env keyNode =
     try_or (HksGetParam (kn_authRuntimeParamSet keyNode) HKS_TAG_VERIFIED_AUTH_TOKEN)
       (Inl HKS_ERROR_BAD_STATE) (\<lambda>authTokenParam.
     let b = blobParam (p_val authTokenParam); authToken = as_HksUserAuthToken (blob_bytes b) in
     if unat (blob_size b) \<noteq> SIZEOF_AUTH_TOKEN then Inl HKS_ERROR_BAD_STATE
     else
       try_or (ae_convert env HKS_AUTH_TYPE (pd_authType (plaintextData authToken)))
         (Inl HKS_ERROR_BAD_STATE) (\<lambda>hksAuthType.
       Inr \<lparr>ss_userAuthType = hksAuthType,
         ss_authenticatorId = cd_enrolledId (ciphertextData authToken),
         ss_credentialId = cd_credentialId (ciphertextData authToken)\<rparr>))"

text \<open>Writing bytes through the pointer of a runtime parameter.\<close>

definition write_auth_blob :: "u32 \<Rightarrow> bytes \<Rightarrow> HuksKeyNode \<Rightarrow> HuksKeyNode" where
  "write_auth_blob tag new keyNode = keyNode\<lparr>kn_authRuntimeParamSet :=
     map_option (write_blob tag 0 new) (kn_authRuntimeParamSet keyNode)\<rparr>"

section \<open>Before the update\<close>

text \<open>The node changes in any case once the prefix is copied: a copy that fails leaves zeros.\<close>

definition DoAppendPrefixAuthInfoToUpdateInData ::
    "allocator \<Rightarrow> HuksKeyNode \<Rightarrow> HksSecureSignAuthInfo \<Rightarrow> HksBlob \<Rightarrow> HksBlob res \<times> HuksKeyNode" where
  "DoAppendPrefixAuthInfoToUpdateInData alloc keyNode secureSignInfo inData =
     (let outDataSize = 4 + word_of_nat SIZEOF_SECURE_SIGN_AUTH_INFO + blob_size inData in
      if \<not> HksMalloc alloc (unat outDataSize) then (Inl HKS_ERROR_MALLOC_FAIL, keyNode)
      else
        (let outData = ipc_buffer outDataSize;
             outData = snd (memcpy_to outData 0 outDataSize (Some (to_le 4 SECURE_SIGN_VERSION)) 4);
             outData = snd (memcpy_to outData 4 (outDataSize - 4)
               (Some (secure_sign_bytes secureSignInfo)) SIZEOF_SECURE_SIGN_AUTH_INFO);
             outData = snd (memcpy_to outData 24 (outDataSize - 4 - word_of_nat SIZEOF_SECURE_SIGN_AUTH_INFO)
               (blob_data inData) (unat (blob_size inData))) in
         case HksGetParam (kn_authRuntimeParamSet keyNode) HKS_TAG_APPENDED_DATA_PREFIX of
           Inl _ \<Rightarrow> (Inl HKS_ERROR_BAD_STATE, keyNode)
         | Inr appendDataPrefixParam \<Rightarrow>
             let prefix_size = unat (blob_size (blobParam (p_val appendDataPrefixParam))) in
             if prefix_size < SIZEOF_SECURE_SIGN_AUTH_INFO
             then (Inl HKS_ERROR_INSUFFICIENT_MEMORY,
               write_auth_blob HKS_TAG_APPENDED_DATA_PREFIX (replicate prefix_size 0) keyNode)
             else (Inr outData,
               write_auth_blob HKS_TAG_APPENDED_DATA_PREFIX (secure_sign_bytes secureSignInfo) keyNode)))"

text \<open>The code, the node and the caller's \<open>appendedData\<close>.\<close>

definition HksCoreAppendAuthInfoBeforeUpdate ::
    "auth_env \<Rightarrow> HuksKeyNode \<Rightarrow> u32 \<Rightarrow> HksBlob ptr \<Rightarrow> HksBlob ptr \<Rightarrow> rc \<times> HuksKeyNode \<times> HksBlob ptr" where
  "HksCoreAppendAuthInfoBeforeUpdate env keyNode pur inData appendedData =
     (if pur \<noteq> HKS_KEY_PURPOSE_SIGN then (HKS_SUCCESS, keyNode, appendedData)
      else
        (case CheckIfNeedAppendUpdateData \<lparr>ad_keyNode = keyNode, ad_inData = inData\<rparr> appendedData of
           Inl ret \<Rightarrow> (ret, keyNode, appendedData)
         | Inr (isNeedAppend, authResult) \<Rightarrow>
             if \<not> isNeedAppend then (HKS_SUCCESS, keyNode, appendedData)
             else if authResult \<noteq> HKS_AUTH_RESULT_SUCCESS then (HKS_ERROR_KEY_AUTH_FAILED, keyNode, appendedData)
             else
               (case GetSecureSignAuthInfo env keyNode of
                  Inl ret \<Rightarrow> (ret, keyNode, appendedData)
                | Inr secureSignInfo \<Rightarrow>
                    (case DoAppendPrefixAuthInfoToUpdateInData (ae_alloc env) keyNode secureSignInfo (the inData) of
                       (Inl ret, keyNode) \<Rightarrow> (ret, keyNode, appendedData)
                     | (Inr outDataBlob, keyNode) \<Rightarrow>
                         (HKS_SUCCESS, set_auth_param HKS_TAG_IS_APPEND_UPDATE_DATA (VBool True) keyNode,
                          Some outDataBlob)))))"

definition HksCoreAppendAuthInfoBeforeFinish ::
    "auth_env \<Rightarrow> HuksKeyNode \<Rightarrow> u32 \<Rightarrow> HksBlob ptr \<Rightarrow> HksBlob ptr \<Rightarrow> rc \<times> HuksKeyNode \<times> HksBlob ptr" where
  "HksCoreAppendAuthInfoBeforeFinish env keyNode pur inData appendedData =
     HksCoreAppendAuthInfoBeforeUpdate env keyNode pur inData appendedData"

section \<open>After the finish\<close>

definition CheckIfNeedAppendFinishData :: "HksAppendDataInnerParams \<Rightarrow> u32 \<Rightarrow> (bool \<times> u32) res" where
  "CheckIfNeedAppendFinishData innerParams inOutDataOriginSize =
     try_res (GetSupportAppendAuthInfoParams (ad_keyNode innerParams)) (\<lambda>(isNeedAppend, authResult).
     if \<not> isNeedAppend then Inr (False, authResult)
     else if authResult \<noteq> HKS_AUTH_RESULT_SUCCESS then Inl HKS_ERROR_KEY_AUTH_FAILED
     else
       try_res (CheckParamsAndGetAppendState (Some (ad_keyNode innerParams))) (\<lambda>isAlreadyAppendUpdateData.
       if \<not> boolParam (p_val isAlreadyAppendUpdateData) then Inl HKS_ERROR_BAD_STATE
       else
         (case ad_inData innerParams of
            NULL \<Rightarrow> Inl HKS_ERROR_INVALID_ARGUMENT
          | Some inData \<Rightarrow>
              if blob_size inData = 0 then Inl HKS_ERROR_INVALID_ARGUMENT
              else if inOutDataOriginSize < blob_size inData
                \<or> unat (inOutDataOriginSize - blob_size inData) < SIZEOF_SECURE_SIGN_AUTH_INFO
              then Inl HKS_ERROR_BUFFER_TOO_SMALL
              else Inr (True, authResult))))"

text \<open>
  The code and the caller's buffer, whose size on entry is that of the signature, in a buffer of
  \<open>inOutDataOriginSize\<close> bytes.
\<close>

definition DoAppendPrefixDataToFinishData ::
    "allocator \<Rightarrow> HuksKeyNode \<Rightarrow> HksBlob \<Rightarrow> u32 \<Rightarrow> rc \<times> HksBlob" where
  "DoAppendPrefixDataToFinishData alloc keyNode inOutData inOutDataOriginSize =
     (case HksGetParam (kn_authRuntimeParamSet keyNode) HKS_TAG_APPENDED_DATA_PREFIX of
        Inl _ \<Rightarrow> (HKS_ERROR_BAD_STATE, inOutData)
      | Inr appendDataPrefixParam \<Rightarrow>
          let prefix = blobParam (p_val appendDataPrefixParam);
              cacheOutDataSize = 4 + word_of_nat SIZEOF_SECURE_SIGN_AUTH_INFO + blob_size inOutData in
          if \<not> HksMalloc alloc (unat cacheOutDataSize) then (HKS_ERROR_MALLOC_FAIL, inOutData)
          else
            (let cache = ipc_buffer cacheOutDataSize;
                 cache = snd (memcpy_to cache 0 cacheOutDataSize (Some (to_le 4 SECURE_SIGN_VERSION)) 4);
                 cache = snd (memcpy_to cache 4 (cacheOutDataSize - 4) (blob_data prefix)
                   (unat (blob_size prefix)));
                 cache = snd (memcpy_to cache (4 + blob_size prefix)
                   (cacheOutDataSize - blob_size prefix - 4) (blob_data inOutData)
                   (unat (blob_size inOutData))) in
             case memcpy_to inOutData 0 inOutDataOriginSize (blob_data cache) (unat cacheOutDataSize) of
               (ok, out) \<Rightarrow>
                 if \<not> ok then (HKS_ERROR_INSUFFICIENT_MEMORY, out)
                 else (HKS_SUCCESS, out\<lparr>blob_size := cacheOutDataSize\<rparr>)))"

definition HksCoreAppendAuthInfoAfterFinish ::
    "allocator \<Rightarrow> HuksKeyNode \<Rightarrow> u32 \<Rightarrow> u32 \<Rightarrow> HksBlob ptr \<Rightarrow> rc \<times> HksBlob ptr" where
  "HksCoreAppendAuthInfoAfterFinish alloc keyNode pur inOutDataOriginSize inOutData =
     (if pur \<noteq> HKS_KEY_PURPOSE_SIGN then (HKS_SUCCESS, inOutData)
      else
        (case CheckIfNeedAppendFinishData \<lparr>ad_keyNode = keyNode, ad_inData = inOutData\<rparr>
           inOutDataOriginSize of
           Inl ret \<Rightarrow> (ret, inOutData)
         | Inr (isNeedAppend, _) \<Rightarrow>
             if \<not> isNeedAppend then (HKS_SUCCESS, inOutData)
             else
               (case DoAppendPrefixDataToFinishData alloc keyNode (the inOutData) inOutDataOriginSize of
                  (ret, out) \<Rightarrow> (ret, Some out))))"

section \<open>Owner and caller\<close>

definition HksCheckCompareAccessTokenId :: "HksParamSet ptr \<Rightarrow> HksParamSet ptr \<Rightarrow> rc" where
  "HksCheckCompareAccessTokenId blobParamSet runtimeParamSet =
     try_or (HksGetParam blobParamSet HKS_TAG_ACCESS_TOKEN_ID) HKS_SUCCESS (\<lambda>blobAccessTokenId.
     try_or (HksGetParam runtimeParamSet HKS_TAG_ACCESS_TOKEN_ID) HKS_ERROR_BAD_STATE
       (\<lambda>runtimeAccessTokenId.
       if uint64Param (p_val blobAccessTokenId) = uint64Param (p_val runtimeAccessTokenId)
       then HKS_SUCCESS else HKS_ERROR_BAD_STATE))"

definition HksCheckCompareUserId :: "HksParamSet ptr \<Rightarrow> HksParamSet ptr \<Rightarrow> rc" where
  "HksCheckCompareUserId blobParamSet runtimeParamSet =
     try_or (HksGetParam blobParamSet HKS_TAG_USER_ID) HKS_SUCCESS (\<lambda>blobUserId.
     try_or (HksGetParam runtimeParamSet HKS_TAG_USER_ID) HKS_ERROR_BAD_STATE (\<lambda>runtimeUserId.
       if uint32Param (p_val blobUserId) = uint32Param (p_val runtimeUserId)
       then HKS_SUCCESS else HKS_ERROR_BAD_STATE))"

definition HksCheckCompareProcessName :: "HksParamSet ptr \<Rightarrow> HksParamSet ptr \<Rightarrow> rc" where
  "HksCheckCompareProcessName blobParamSet runtimeParamSet =
     try_or (HksGetParam blobParamSet HKS_TAG_PROCESS_NAME) HKS_ERROR_BAD_STATE (\<lambda>blobProcessName.
     try_or (HksGetParam runtimeParamSet HKS_TAG_PROCESS_NAME) HKS_ERROR_BAD_STATE (\<lambda>runtimeProcessName.
       let b1 = blobParam (p_val blobProcessName); b2 = blobParam (p_val runtimeProcessName) in
       if blob_size b1 = blob_size b2 \<and> \<not> HksMemCmp (blob_bytes b1) (blob_bytes b2) (unat (blob_size b1))
       then HKS_SUCCESS else HKS_ERROR_BAD_STATE))"

text \<open>
  \<open>num\<close> is \<open>HksUserIdmGetAuthInfoNum\<close> of the user and of the PIN type: the code and the number written
  to \<open>numOfAuthInfo\<close>, which is 0 before.
\<close>

definition CheckIfNeedIsDevicePasswordSet :: "(u32 \<Rightarrow> u32 \<Rightarrow> rc \<times> u32) \<Rightarrow> HksParamSet ptr \<Rightarrow> rc" where
  "CheckIfNeedIsDevicePasswordSet num paramSet =
     try_or (HksGetParam paramSet HKS_TAG_IS_DEVICE_PASSWORD_SET) HKS_SUCCESS (\<lambda>isSetPassword.
     if \<not> boolParam (p_val isSetPassword) then HKS_SUCCESS
     else
       try_rc (case HksGetParam paramSet HKS_TAG_SPECIFIC_USER_ID of
                 Inr userId \<Rightarrow> Inr userId
               | Inl ret \<Rightarrow>
                   if ret \<noteq> HKS_ERROR_PARAM_NOT_EXIST then Inl HKS_ERROR_INVALID_ARGUMENT
                   else try_or (HksGetParam paramSet HKS_TAG_USER_ID) (Inl HKS_ERROR_INVALID_ARGUMENT) Inr)
         (\<lambda>userId.
           case num (uint32Param (p_val userId)) HKS_USER_AUTH_TYPE_PIN of
             (ret, numOfAuthInfo) \<Rightarrow>
               if ret = HKS_ERROR_CREDENTIAL_NOT_EXIST \<or> numOfAuthInfo = 0
               then HKS_ERROR_DEVICE_PASSWORD_UNSET else HKS_SUCCESS))"

definition HksProcessIdentityVerify ::
    "(u32 \<Rightarrow> u32 \<Rightarrow> rc \<times> u32) \<Rightarrow> HksParamSet ptr \<Rightarrow> HksParamSet ptr \<Rightarrow> rc" where
  "HksProcessIdentityVerify num blobParamSet runtimeParamSet =
     (let ret = HksCheckCompareAccessTokenId blobParamSet runtimeParamSet in
      if_not_succ_return ret ret
     (let ret = HksCheckCompareUserId blobParamSet runtimeParamSet in
      if_not_succ_return ret ret
     (let ret = HksCheckCompareProcessName blobParamSet runtimeParamSet in
      if_not_succ_return ret ret
     (let ret = CheckIfNeedIsDevicePasswordSet num blobParamSet in
      if_not_succ_return ret ret ret))))"

end
