(* ===== verification/Huks_Access_Laws.thy ===== *)
theory Huks_Access_Laws
  imports Huks_Access Huks_Built_Sets
begin

text \<open>
  The runtime parameters of a key that needs user authentication as a function of what they record
  (\<open>auth_set\<close>): the set that the init request leaves has this form, and verifying a token and appending
  the authentication information to the data change single entries of it.
\<close>

section \<open>The set\<close>

record auth_record =
  ar_user :: bool
  ar_sign :: bool
  ar_update :: bool
  ar_result :: HksParamValue
  ar_pos :: u32
  ar_time :: u64
  ar_challenge :: bytes
  ar_prefix :: "bytes option"
  ar_token :: "bytes option"

definition blob_param :: "u32 \<Rightarrow> bytes \<Rightarrow> HksParam" where
  "blob_param t bs = \<lparr>p_tag = t, p_val = VBlob (blob_of bs)\<rparr>"

definition optional_blob :: "u32 \<Rightarrow> bytes option \<Rightarrow> HksParam list" where
  "optional_blob t b = (case b of None \<Rightarrow> [] | Some bs \<Rightarrow> [blob_param t bs])"

definition auth_params :: "auth_record \<Rightarrow> HksParam list" where
  "auth_params a =
     [\<lparr>p_tag = HKS_TAG_IS_USER_AUTH_ACCESS, p_val = VBool (ar_user a)\<rparr>,
      \<lparr>p_tag = HKS_TAG_IF_NEED_APPEND_AUTH_INFO, p_val = VBool (ar_sign a)\<rparr>,
      \<lparr>p_tag = HKS_TAG_IS_APPEND_UPDATE_DATA, p_val = VBool (ar_update a)\<rparr>,
      \<lparr>p_tag = HKS_TAG_KEY_AUTH_RESULT, p_val = ar_result a\<rparr>,
      \<lparr>p_tag = HKS_TAG_CHALLENGE_POS, p_val = VUint (ar_pos a)\<rparr>,
      \<lparr>p_tag = HKS_TAG_KEY_ACCESS_TIME, p_val = VUlong (ar_time a)\<rparr>,
      blob_param HKS_TAG_KEY_INIT_CHALLENGE (ar_challenge a)]
     @ optional_blob HKS_TAG_APPENDED_DATA_PREFIX (ar_prefix a)
     @ optional_blob HKS_TAG_VERIFIED_AUTH_TOKEN (ar_token a)"

definition auth_set :: "auth_record \<Rightarrow> HksParamSet" where
  "auth_set a = built (auth_params a)"

text \<open>The lengths of the arrays, and a result that is a number.\<close>

definition auth_ok :: "auth_record \<Rightarrow> bool" where
  "auth_ok a \<longleftrightarrow> length (ar_challenge a) = 32 \<and> (\<exists>r. ar_result a = VInt r \<or> ar_result a = VUint r)
     \<and> (\<forall>bs. ar_prefix a = Some bs \<longrightarrow> length bs = 20) \<and> (\<forall>bs. ar_token a = Some bs \<longrightarrow> length bs = 280)"

lemma auth_bytes_tags [simp]:
  "is_bytes_tag HKS_TAG_KEY_INIT_CHALLENGE" "is_bytes_tag HKS_TAG_APPENDED_DATA_PREFIX"
  "is_bytes_tag HKS_TAG_VERIFIED_AUTH_TOKEN" "\<not> is_bytes_tag HKS_TAG_IS_USER_AUTH_ACCESS"
  "\<not> is_bytes_tag HKS_TAG_IF_NEED_APPEND_AUTH_INFO" "\<not> is_bytes_tag HKS_TAG_IS_APPEND_UPDATE_DATA"
  "\<not> is_bytes_tag HKS_TAG_KEY_AUTH_RESULT" "\<not> is_bytes_tag HKS_TAG_CHALLENGE_POS"
  "\<not> is_bytes_tag HKS_TAG_KEY_ACCESS_TIME"
  by (simp_all add: is_bytes_tag_def GetTagType_def)

lemma blob_param_simps:
  assumes "length bs < 2 ^ 32" "is_bytes_tag t"
  shows "wf_param (blob_param t bs)" "norm_param (blob_param t bs) = blob_param t bs"
    "plen (blob_param t bs) = length bs" "payload (blob_param t bs) = bs"
  using assms unat_u32_of_nat [of "length bs"]
  by (simp_all add: blob_param_def blob_of_def wf_param_def norm_param_def plen_def payload_def)

lemma other_param_simps:
  assumes "\<not> is_bytes_tag (p_tag p)"
  shows "wf_param p" "norm_param p = p" "plen p = 0" "payload p = []"
  using assms by (simp_all add: wf_param_def norm_param_def plen_def payload_def)

lemma auth_fitting:
  assumes "auth_ok a"
  shows "fitting (auth_params a)" "map norm_param (auth_params a) = auth_params a"
    "space (auth_params a) = 8 + 24 * length (auth_params a) + 32
      + (case ar_prefix a of None \<Rightarrow> 0 | Some _ \<Rightarrow> 20) + (case ar_token a of None \<Rightarrow> 0 | Some _ \<Rightarrow> 280)"
  using assms
  by (auto simp: fitting_def auth_params_def optional_blob_def auth_ok_def blob_param_simps other_param_simps
      space_def split: option.splits)

text \<open>What a lookup finds.\<close>

lemma find_auth:
  "List.find (\<lambda>p. HKS_TAG_IS_USER_AUTH_ACCESS = p_tag p) (auth_params a)
     = Some \<lparr>p_tag = HKS_TAG_IS_USER_AUTH_ACCESS, p_val = VBool (ar_user a)\<rparr>"
  "List.find (\<lambda>p. HKS_TAG_IF_NEED_APPEND_AUTH_INFO = p_tag p) (auth_params a)
     = Some \<lparr>p_tag = HKS_TAG_IF_NEED_APPEND_AUTH_INFO, p_val = VBool (ar_sign a)\<rparr>"
  "List.find (\<lambda>p. HKS_TAG_IS_APPEND_UPDATE_DATA = p_tag p) (auth_params a)
     = Some \<lparr>p_tag = HKS_TAG_IS_APPEND_UPDATE_DATA, p_val = VBool (ar_update a)\<rparr>"
  "List.find (\<lambda>p. HKS_TAG_KEY_AUTH_RESULT = p_tag p) (auth_params a)
     = Some \<lparr>p_tag = HKS_TAG_KEY_AUTH_RESULT, p_val = ar_result a\<rparr>"
  "List.find (\<lambda>p. HKS_TAG_CHALLENGE_POS = p_tag p) (auth_params a)
     = Some \<lparr>p_tag = HKS_TAG_CHALLENGE_POS, p_val = VUint (ar_pos a)\<rparr>"
  "List.find (\<lambda>p. HKS_TAG_KEY_ACCESS_TIME = p_tag p) (auth_params a)
     = Some \<lparr>p_tag = HKS_TAG_KEY_ACCESS_TIME, p_val = VUlong (ar_time a)\<rparr>"
  "List.find (\<lambda>p. HKS_TAG_KEY_INIT_CHALLENGE = p_tag p) (auth_params a)
     = Some (blob_param HKS_TAG_KEY_INIT_CHALLENGE (ar_challenge a))"
  "List.find (\<lambda>p. HKS_TAG_APPENDED_DATA_PREFIX = p_tag p) (auth_params a)
     = map_option (blob_param HKS_TAG_APPENDED_DATA_PREFIX) (ar_prefix a)"
  "List.find (\<lambda>p. HKS_TAG_VERIFIED_AUTH_TOKEN = p_tag p) (auth_params a)
     = map_option (blob_param HKS_TAG_VERIFIED_AUTH_TOKEN) (ar_token a)"
  by (auto simp: auth_params_def optional_blob_def blob_param_def split: option.split)

lemma check_blob_param:
  "0 < length bs \<Longrightarrow> length bs < 2 ^ 32 \<Longrightarrow> CheckBlob (Some (blobParam (p_val (blob_param t bs)))) = 0"
  using unat_u32_of_nat [of "length bs"] by (auto simp: CheckBlob_0 blob_param_def blob_of_def)

lemma get_auth:
  assumes "auth_ok a"
  shows
  "HksGetParam (Some (auth_set a)) HKS_TAG_IS_USER_AUTH_ACCESS
     = Inr \<lparr>p_tag = HKS_TAG_IS_USER_AUTH_ACCESS, p_val = VBool (ar_user a)\<rparr>"
  "HksGetParam (Some (auth_set a)) HKS_TAG_IF_NEED_APPEND_AUTH_INFO
     = Inr \<lparr>p_tag = HKS_TAG_IF_NEED_APPEND_AUTH_INFO, p_val = VBool (ar_sign a)\<rparr>"
  "HksGetParam (Some (auth_set a)) HKS_TAG_IS_APPEND_UPDATE_DATA
     = Inr \<lparr>p_tag = HKS_TAG_IS_APPEND_UPDATE_DATA, p_val = VBool (ar_update a)\<rparr>"
  "HksGetParam (Some (auth_set a)) HKS_TAG_KEY_AUTH_RESULT
     = Inr \<lparr>p_tag = HKS_TAG_KEY_AUTH_RESULT, p_val = ar_result a\<rparr>"
  "HksGetParam (Some (auth_set a)) HKS_TAG_CHALLENGE_POS
     = Inr \<lparr>p_tag = HKS_TAG_CHALLENGE_POS, p_val = VUint (ar_pos a)\<rparr>"
  "HksGetParam (Some (auth_set a)) HKS_TAG_KEY_ACCESS_TIME
     = Inr \<lparr>p_tag = HKS_TAG_KEY_ACCESS_TIME, p_val = VUlong (ar_time a)\<rparr>"
  "HksGetParam (Some (auth_set a)) HKS_TAG_KEY_INIT_CHALLENGE
     = Inr (blob_param HKS_TAG_KEY_INIT_CHALLENGE (ar_challenge a))"
  "ar_prefix a = Some pf \<Longrightarrow> HksGetParam (Some (auth_set a)) HKS_TAG_APPENDED_DATA_PREFIX
     = Inr (blob_param HKS_TAG_APPENDED_DATA_PREFIX pf)"
  "ar_token a = Some tk \<Longrightarrow> HksGetParam (Some (auth_set a)) HKS_TAG_VERIFIED_AUTH_TOKEN
     = Inr (blob_param HKS_TAG_VERIFIED_AUTH_TOKEN tk)"
  using assms
  by (simp_all only: auth_set_def get_built [OF auth_fitting(1) [OF assms]] find_auth option.case option.map)
     (auto simp: other_param_simps blob_param_simps check_blob_param auth_ok_def)

section \<open>Changing an entry\<close>

lemma set_result:
  assumes "auth_ok a"
  shows "set_auth_param HKS_TAG_KEY_AUTH_RESULT v (n\<lparr>kn_authRuntimeParamSet := Some (auth_set a)\<rparr>)
    = n\<lparr>kn_authRuntimeParamSet := Some (auth_set (a\<lparr>ar_result := v\<rparr>))\<rparr>"
  using auth_fitting(2) [OF assms]
  by (simp add: set_auth_param_def auth_set_def built_def space_def)
     (simp add: auth_params_def other_param_simps optional_blob_def)

end
