(* ===== verification/Huks_Access_Props.thy ===== *)
theory Huks_Access_Props
  imports Huks_Access_Laws Huks_Keyblob_Props
begin

text \<open>
  Keys that need user authentication: which token the engine accepts (property 37), and that the outcome
  of the first verification is final (property 38).
\<close>

section \<open>After the init request\<close>

text \<open>The record of an init request that was accepted.\<close>

definition init_record :: "HksSecureAccessInnerParams \<Rightarrow> u64 \<Rightarrow> bytes \<Rightarrow> auth_record" where
  "init_record ip time ch = \<lparr>ar_user = sa_isUserAuthAccess ip, ar_sign = sa_isSecureSign ip, ar_update = False,
     ar_result = VInt HKS_AUTH_RESULT_INIT, ar_pos = sa_challengePos ip, ar_time = time div S_TO_MS,
     ar_challenge = ch, ar_prefix = (if sa_isSecureSign ip then Some (replicate 20 0) else None), ar_token = None\<rparr>"

lemma init_record_ok: "length ch = 32 \<Longrightarrow> auth_ok (init_record ip time ch)"
  by (simp add: auth_ok_def init_record_def)

text \<open>The engine's random source gives as many bytes as asked for.\<close>

definition random_ok :: "crypto_hal \<Rightarrow> bool" where
  "random_ok hal \<longleftrightarrow> (\<forall>i n bs. HksCryptoHalFillRandom hal i n = Inr bs \<longrightarrow> length bs = unat n)"

lemma runtime_exact:
  assumes mem: "\<forall>n. alloc n" and ch: "HksCryptoHalFillRandom hal 0 32 = Inr ch" and len: "length ch = 32"
  shows "BuildAuthRuntimeParamSet hal alloc (Inr time) ip (sa_isSecureSign ip)
    = try_res (AssignToken (sa_outToken ip) \<lparr>blob_size = 32, blob_data = Some ch\<rparr>)
        (\<lambda>token. Inr (auth_set (init_record ip time ch), token))"
proof -
  let ?a = "init_record ip time ch"
  have ok: "auth_ok ?a" using len by (rule init_record_ok)
  note fits = auth_fitting(1) [OF ok]
  let ?p = "auth_params ?a"
  let ?q = "take 7 ?p"
  have p: "?p = ?q @ (if sa_isSecureSign ip then [blob_param HKS_TAG_APPENDED_DATA_PREFIX (replicate 20 0)] else [])"
    by (simp add: auth_params_def init_record_def optional_blob_def)
  have q: "fitting ?q" using fits by (subst (asm) p) (rule fitting_prefix)
  have q6: "fitting (take 6 ?p)" and q5: "fitting (take 5 ?p)"
    using fitting_prefix [of "take 6 ?p" "drop 6 ?q"] fitting_prefix [of "take 5 ?p" "drop 5 ?q"] q
    by (simp_all add: auth_params_def)
  have blob: "\<lparr>blob_size = 32, blob_data = Some ch\<rparr> = blob_of ch" using len by (simp add: blob_of_def)
  have d: "AddDefaultAuthRuntimeParams (unbuilt []) ip (sa_isSecureSign ip) = Inr (unbuilt (take 5 ?p))"
    using add_params_unbuilt [of "[]" "take 5 ?p"] q5
    by (simp add: AddDefaultAuthRuntimeParams_def auth_params_def init_record_def)
  have t: "AddKeyAccessTimeParams (Inr time) (unbuilt (take 5 ?p)) = Inr (unbuilt (take 6 ?p))"
    using add_params_unbuilt [of "take 5 ?p" "[?p ! 5]"] q6
    by (simp add: AddKeyAccessTimeParams_def auth_params_def init_record_def)
  have c: "AddChallengeParams hal (unbuilt (take 6 ?p)) = Inr (unbuilt ?q, blob_of ch)"
    using add_params_unbuilt [of "take 6 ?p" "[?p ! 6]"] q ch blob
    by (simp add: AddChallengeParams_def auth_params_def init_record_def blob_param_def Let_def)
  have a: "(if sa_isSecureSign ip then AddAppendDataPlaceholder (unbuilt ?q) (replicate SIZEOF_SECURE_SIGN_AUTH_INFO 0)
      else Inr (unbuilt ?q)) = Inr (unbuilt ?p)"
    using add_params_unbuilt [of ?q "[blob_param HKS_TAG_APPENDED_DATA_PREFIX (replicate 20 0)]"] fits p
    by (auto simp: AddAppendDataPlaceholder_def blob_param_def)
  show ?thesis
    by (simp only: BuildAuthRuntimeParamSet_def init_unbuilt [OF mem] d t c a build_unbuilt [OF fits mem] blob
        try_res_simps prod.case auth_set_def)
qed

lemma runtime_built:
  assumes b: "BuildAuthRuntimeParamSet hal alloc clk ip (sa_isSecureSign ip) = Inr (ps, tk)"
    and mem: "\<forall>n. alloc n" and rnd: "random_ok hal"
  obtains time ch where "clk = Inr time" "HksCryptoHalFillRandom hal 0 32 = Inr ch" "length ch = 32"
    "ps = auth_set (init_record ip time ch)"
    "AssignToken (sa_outToken ip) \<lparr>blob_size = 32, blob_data = Some ch\<rparr> = Inr tk"
proof -
  obtain time where clk: "clk = Inr time"
    using b mem by (cases clk) (auto simp: BuildAuthRuntimeParamSet_def AddKeyAccessTimeParams_def rc_simps)
  obtain ch where ch: "HksCryptoHalFillRandom hal 0 32 = Inr ch"
    using b by (cases "HksCryptoHalFillRandom hal 0 32")
      (auto simp: BuildAuthRuntimeParamSet_def AddChallengeParams_def rc_simps)
  have len: "length ch = 32" using rnd ch by (auto simp: random_ok_def)
  have "ps = auth_set (init_record ip time ch)"
    "AssignToken (sa_outToken ip) \<lparr>blob_size = 32, blob_data = Some ch\<rparr> = Inr tk"
    using b runtime_exact [OF mem ch len, of time ip] clk
    by (cases "AssignToken (sa_outToken ip) \<lparr>blob_size = 32, blob_data = Some ch\<rparr>", simp_all)+
  then show thesis by (rule that [OF clk ch len])
qed

lemma init_accepted:
  assumes i: "HksCoreSecureAccessInitParams hal alloc clk (Some node) (Some ps) (Some token) = Inr (node', out)"
    and mem: "\<forall>n. alloc n" and rnd: "random_ok hal"
  obtains ip time ch where
    "CheckInitParamSetValidityAndGet (kn_keyBlobParamSet node) \<lparr>sa_initParamSet = ps, sa_challengePos = 0,
       sa_isUserAuthAccess = False, sa_isSecureSign = False, sa_outToken = token\<rparr> = Inr ip"
    "clk = Inr time" "HksCryptoHalFillRandom hal 0 32 = Inr ch" "length ch = 32"
    "node' = node\<lparr>kn_authRuntimeParamSet := Some (auth_set (init_record ip time ch))\<rparr>"
    "AssignToken (sa_outToken ip) \<lparr>blob_size = 32, blob_data = Some ch\<rparr> = Inr out"
proof -
  obtain ip rs where ip: "CheckInitParamSetValidityAndGet (kn_keyBlobParamSet node) \<lparr>sa_initParamSet = ps,
       sa_challengePos = 0, sa_isUserAuthAccess = False, sa_isSecureSign = False, sa_outToken = token\<rparr> = Inr ip"
    "BuildAuthRuntimeParamSet hal alloc clk ip (sa_isSecureSign ip) = Inr (rs, out)"
    "node' = node\<lparr>kn_authRuntimeParamSet := Some rs\<rparr>"
    using i unfolding HksCoreSecureAccessInitParams_def by (auto simp: rc_simps)
  then show thesis using runtime_built [OF ip(2) mem rnd] that [OF ip(1)] by blast
qed

section \<open>What a token must be\<close>

text \<open>The number or the bytes that a parameter set has for a tag.\<close>

definition key_num :: "HksParamSet ptr \<Rightarrow> u32 \<Rightarrow> u32 option" where
  "key_num ks t = (case HksGetParam ks t of Inl _ \<Rightarrow> None | Inr p \<Rightarrow> Some (uint32Param (p_val p)))"

definition key_blob :: "HksParamSet ptr \<Rightarrow> u32 \<Rightarrow> bytes option" where
  "key_blob ks t = (case HksGetParam ks t of Inl _ \<Rightarrow> None
     | Inr p \<Rightarrow> Some (take (unat (blob_size (blobParam (p_val p)))) (blob_bytes (blobParam (p_val p)))))"

text \<open>The token of a request: 280 bytes.\<close>

definition presented :: "HksParamSet \<Rightarrow> HksUserAuthToken option" where
  "presented req = (case key_blob (Some req) HKS_TAG_AUTH_TOKEN of
     Some bs \<Rightarrow> if length bs = 280 then Some (as_HksUserAuthToken bs) else None | None \<Rightarrow> None)"

text \<open>Its authentication code is right under the key shared with the authentication service.\<close>

definition authentic :: "crypto_hal \<Rightarrow> HksAuthTokenKey \<Rightarrow> HksUserAuthToken \<Rightarrow> bool" where
  "authentic hal key t \<longleftrightarrow> HksCryptoHalHmac hal \<lparr>blob_size = 32, blob_data = Some (macKey key)\<rparr>
     HKS_DIGEST_SHA256 \<lparr>blob_size = 248, blob_data = Some (auth_token_bytes t)\<rparr> 32 = Inr (at_sign t)"

text \<open>It was made on this device, or the key admits tokens of other devices.\<close>

definition token_kind_ok :: "HksParamSet ptr \<Rightarrow> u32 \<Rightarrow> bool" where
  "token_kind_ok ks ty \<longleftrightarrow> ty = TOKEN_TYPE_LOCAL_AUTH \<or> ty = TOKEN_TYPE_LOCAL_RESIGN
     \<or> ty = TOKEN_TYPE_COAUTH \<and> key_num ks HKS_TAG_USER_AUTH_MODE = Some HKS_USER_AUTH_MODE_COAUTH"

text \<open>It answers the challenge, or was made close to the time of access.\<close>

definition timely :: "HksParamSet ptr \<Rightarrow> bytes \<Rightarrow> nat \<Rightarrow> u64 \<Rightarrow> HksPlaintextData \<Rightarrow> bool" where
  "timely ks challenge pos access p \<longleftrightarrow>
     (let limit = (case key_num ks HKS_TAG_AUTH_TIMEOUT of Some s \<Rightarrow> s | None \<Rightarrow> DEFAULT_TIME_OUT) in
      case key_num ks HKS_TAG_CHALLENGE_TYPE of None \<Rightarrow> False
      | Some ty \<Rightarrow>
          if ty = HKS_CHALLENGE_TYPE_NORMAL then pd_challenge p = challenge
          else if ty = HKS_CHALLENGE_TYPE_CUSTOM
          then take 8 (drop (8 * pos) (pd_challenge p)) = take 8 (drop (8 * pos) challenge)
          else ty = HKS_CHALLENGE_TYPE_NONE
            \<and> \<bar>int (unat access) - int (unat (pd_time p div 1000))\<bar> \<le> int (unat limit))"

text \<open>The enrolled ids of a key: how many, and for each a type and an id.\<close>

definition entry_bytes :: "u32 \<times> u64 \<Rightarrow> bytes" where
  "entry_bytes e = to_le 4 (fst e) @ to_le 8 (snd e)"

definition enrolled_bytes :: "(u32 \<times> u64) list \<Rightarrow> bytes" where
  "enrolled_bytes es = to_le 4 (word_of_nat (length es) :: u32) @ concat (map entry_bytes es)"

definition enrolled_ids :: "HksParamSet ptr \<Rightarrow> (u32 \<times> u64) list \<Rightarrow> bool" where
  "enrolled_ids ks es \<longleftrightarrow>
     (case key_blob ks HKS_TAG_USER_AUTH_ENROLL_ID_INFO of
        None \<Rightarrow> es = []
      | Some info \<Rightarrow> es \<noteq> [] \<and> length es < 2 ^ 20 \<and> info = enrolled_bytes es)"

text \<open>Whoever authenticated may use the key.\<close>

definition entitled ::
    "HksParamSet ptr \<Rightarrow> (u32 \<times> u64) list \<Rightarrow> u32 \<Rightarrow> HksCiphertextData \<Rightarrow> bool" where
  "entitled ks es ty c \<longleftrightarrow> (case (key_num ks HKS_TAG_USER_AUTH_TYPE, key_num ks HKS_TAG_KEY_AUTH_ACCESS_TYPE) of
     (Some allowed, Some access) \<Rightarrow> ty AND allowed \<noteq> 0
       \<and> (if access = HKS_AUTH_ACCESS_ALWAYS_VALID
          then key_num ks HKS_TAG_FRONT_USER_ID = Some (cd_userId c)
          else (access AND HKS_AUTH_ACCESS_INVALID_CLEAR_PASSWORD \<noteq> 0 \<longrightarrow>
                 key_blob ks HKS_TAG_USER_AUTH_SECURE_UID = Some (to_le 8 (cd_secureUid c)))
             \<and> (access AND HKS_AUTH_ACCESS_INVALID_NEW_BIO_ENROLL \<noteq> 0
                 \<and> allowed AND (HKS_USER_AUTH_TYPE_FACE OR HKS_USER_AUTH_TYPE_FINGERPRINT) \<noteq> 0 \<longrightarrow>
                 (ty, cd_enrolledId c) \<in> set es))
   | _ \<Rightarrow> False)"

text \<open>The decrypted token.\<close>

definition opened :: "crypto_hal \<Rightarrow> HksAuthTokenKey \<Rightarrow> HksUserAuthToken \<Rightarrow> HksUserAuthToken option" where
  "opened hal key t =
     (case HksCryptoHalDecrypt hal \<lparr>blob_size = 32, blob_data = Some (cipherKey key)\<rparr>
        (\<lparr>us_algType = HKS_ALG_AES, us_mode = HKS_MODE_GCM, us_padding = HKS_PADDING_NONE,
          us_mgfDigest = HKS_DIGEST_NONE, us_digest = HKS_DIGEST_NONE, us_purpose = HKS_KEY_PURPOSE_DECRYPT,
          us_pssSaltLenType = 0,
          us_algParam = Some (AeadParam \<lparr>ae_nonce = \<lparr>blob_size = 12, blob_data = Some (at_iv t)\<rparr>, ae_aad = blob_of aadValue,
            ae_tag = tagDec \<lparr>blob_size = 16, blob_data = Some (at_tag t)\<rparr>, ae_payloadLen = 156\<rparr>)\<rparr>)
        \<lparr>blob_size = 156, blob_data = Some (ciphertext_bytes (ciphertextData t))\<rparr> 156 of
        (ret, out) \<Rightarrow>
          if ret = 0 then Some (t\<lparr>ciphertextData := as_HksCiphertextData
            (overwrite 0 out (ciphertext_bytes (ciphertextData t)))\<rparr>) else None)"

text \<open>The device's engine computes codes of 32 bytes, or fails with a code other than success.\<close>

definition mac_ok :: "crypto_hal \<Rightarrow> bool" where
  "mac_ok hal \<longleftrightarrow> (\<forall>k b. HksCryptoHalHmac hal k HKS_DIGEST_SHA256 b 32 \<noteq> Inl 0
     \<and> (\<forall>m. HksCryptoHalHmac hal k HKS_DIGEST_SHA256 b 32 = Inr m \<longrightarrow> length m = 32))"

section \<open>The checks one by one\<close>

lemma wf_as_token: "length bs = 280 \<Longrightarrow> wf_token (as_HksUserAuthToken bs)"
  by (simp add: wf_token_def as_HksUserAuthToken_def as_HksPlaintextData_def as_HksCiphertextData_def field_at_def)

lemma token_lengths:
  assumes "wf_token t"
  shows "length (plaintext_bytes (plaintextData t)) = 60" "length (ciphertext_bytes (ciphertextData t)) = 156"
    "length (auth_token_bytes t) = 280" "drop 248 (auth_token_bytes t) = at_sign t"
  using assms by (simp_all add: wf_token_def plaintext_bytes_def ciphertext_bytes_def auth_token_bytes_def)

text \<open>The memory of a token gives the token back.\<close>

lemma field_at_simps:
  "length f = n \<Longrightarrow> field_at (f @ r) 0 n = f"
  "length f \<le> off \<Longrightarrow> field_at (f @ r) off n = field_at r (off - length f) n"
  "length f = n \<Longrightarrow> field_at f 0 n = f"
  by (simp_all add: field_at_def)

lemma as_token_bytes:
  assumes "wf_token t"
  shows "as_HksUserAuthToken (auth_token_bytes t) = t"
proof -
  have l: "length (pd_challenge (plaintextData t)) = 32" "length (cd_collectorUdid (ciphertextData t)) = 64"
    "length (cd_verifierUdid (ciphertextData t)) = 64" "length (at_tag t) = 16" "length (at_iv t) = 12"
    "length (at_sign t) = 32"
    using assms by (simp_all add: wf_token_def)
  note tl = token_lengths(1,2) [OF assms]
  have p: "as_HksPlaintextData (plaintext_bytes (plaintextData t)) = plaintextData t"
    by (simp add: as_HksPlaintextData_def plaintext_bytes_def field_at_simps l of_le_to_le)
  have c: "as_HksCiphertextData (ciphertext_bytes (ciphertextData t)) = ciphertextData t"
    by (simp add: as_HksCiphertextData_def ciphertext_bytes_def field_at_simps l of_le_to_le)
  show ?thesis
    by (simp add: as_HksUserAuthToken_def auth_token_bytes_def field_at_simps l tl of_le_to_le p c)
qed

lemma sign_authentic:
  assumes "g_isInitAuthTokenKey st" "mac_ok hal" "wf_token t"
  shows "snd (HksVerifyAuthTokenSign hal n (Some t) st) = st"
    "fst (HksVerifyAuthTokenSign hal n (Some t) st) = 0 \<longleftrightarrow> authentic hal (g_cachedAuthTokenKey st) t"
proof -
  have "length (at_sign t) = 32" using assms(3) by (simp add: wf_token_def)
  then show "snd (HksVerifyAuthTokenSign hal n (Some t) st) = st"
    "fst (HksVerifyAuthTokenSign hal n (Some t) st) = 0 \<longleftrightarrow> authentic hal (g_cachedAuthTokenKey st) t"
    using assms token_lengths(4) [OF assms(3)]
    by (auto simp: HksVerifyAuthTokenSign_def HksGetAuthTokenKey_def authentic_def mac_ok_def HksMemCmp_def
        overwrite_def Let_def split: sum.splits)
qed

lemma decrypt_opened:
  assumes "g_isInitAuthTokenKey st" "\<forall>n. alloc n"
  shows "snd (HksDecryptAuthToken hal n alloc (Some t) st) = st"
    "(case opened hal (g_cachedAuthTokenKey st) t of
        Some u \<Rightarrow> fst (HksDecryptAuthToken hal n alloc (Some t) st) = (0, Some u)
      | None \<Rightarrow> fst (fst (HksDecryptAuthToken hal n alloc (Some t) st)) \<noteq> 0)"
  using assms
  by (auto simp: HksDecryptAuthToken_def HksGetAuthTokenKey_def opened_def HksMalloc_def Let_def split: prod.splits)

lemma opened_wf:
  assumes "opened hal key t = Some u" "wf_token t"
  shows "wf_token u"
proof -
  have "length (ciphertext_bytes (ciphertextData t)) = 156" using assms(2) by (rule token_lengths)
  then have long: "156 \<le> length (overwrite 0 out (ciphertext_bytes (ciphertextData t)))" for out
    by (simp add: overwrite_def)
  have "length (cd_collectorUdid (as_HksCiphertextData bs)) = 64" "length (cd_verifierUdid (as_HksCiphertextData bs)) = 64"
    if "156 \<le> length bs" for bs
    using that by (simp_all add: as_HksCiphertextData_def field_at_def)
  then show ?thesis
    using assms long by (auto simp: opened_def wf_token_def split: prod.splits if_splits)
qed

lemma kind_exact:
  "HksCheckAuthType node t = 0 \<longleftrightarrow> token_kind_ok (kn_keyBlobParamSet node) (pd_tokenType (plaintextData t))"
  by (auto simp: HksCheckAuthType_def GetAuthMode_def token_kind_ok_def key_num_def Let_def split: sum.split)

lemma get_token_exact:
  assumes "list_all wf_param (params req)" "\<forall>n. alloc n"
  shows "(case presented req of Some t \<Rightarrow> GetAuthToken alloc req = Inr t
    | None \<Rightarrow> \<exists>r. r \<noteq> 0 \<and> GetAuthToken alloc req = Inl r)"
proof (cases "HksGetParam (Some req) HKS_TAG_AUTH_TOKEN")
  case (Inl r)
  then show ?thesis by (simp add: presented_def key_blob_def GetAuthToken_def)
next
  case (Inr p)
  then have "p \<in> set (params req)" "p_tag p = HKS_TAG_AUTH_TOKEN"
    using find_tag_Some unfolding HksGetParam_Inr_iff by blast+
  then obtain bs where "blob_data (blobParam (p_val p)) = Some bs" "unat (blob_size (blobParam (p_val p))) \<le> length bs"
    using assms(1) by (auto simp: list_all_iff wf_param_def plen_def is_bytes_tag_def GetTagType_def)
  then have "length (take (unat (blob_size (blobParam (p_val p)))) (blob_bytes (blobParam (p_val p))))
      = unat (blob_size (blobParam (p_val p)))"
    by (simp add: blob_bytes_def)
  then show ?thesis
    using Inr assms(2)
    by (auto simp: presented_def key_blob_def GetAuthToken_def ParseAuthToken_def CheckAuthToken_def HksMalloc_def
        Let_def if_not_succ_return_def)
qed

text \<open>The distance of two times, in words as the code computes it.\<close>

lemma nat_distance:
  fixes x y d e l :: nat
  assumes "y \<le> x \<Longrightarrow> d = x - y" "x \<le> y \<Longrightarrow> e = y - x"
  shows "(l < d \<and> y < x \<or> l < e \<and> x < y) \<longleftrightarrow> int l < \<bar>int x - int y\<bar>"
  using assms by (cases "y \<le> x") (auto simp: abs_if)

lemma distance_exact:
  fixes a b l :: u64
  shows "(l < a - b \<and> b < a \<or> l < b - a \<and> a < b) \<longleftrightarrow> int (unat l) < \<bar>int (unat a) - int (unat b)\<bar>"
proof -
  have "unat (a - b) = unat a - unat b" if "b \<le> a"
    using that by (simp add: unat_sub)
  moreover have "unat (b - a) = unat b - unat a" if "a \<le> b"
    using that by (simp add: unat_sub)
  ultimately show ?thesis
    unfolding word_less_nat_alt word_le_nat_alt by (rule nat_distance) blast+
qed

lemma unat_ucast_u64: "unat (ucast (l :: u32) :: u64) = unat l"
proof -
  have "unat l < 2 ^ 64" by (rule less_trans [OF u32_bound]) simp
  then show ?thesis by (simp add: unsigned_ucast_eq take_bit_nat_eq_self)
qed

lemma challenge_exact:
  assumes r: "kn_authRuntimeParamSet node = Some (auth_set a)" and a: "auth_ok a" and w: "wf_token t"
    and lim: "unat len + 8 * unat pos \<le> 32"
  shows "HksVerifyKeyChallenge node t pos len = 0 \<longleftrightarrow>
    take (unat len) (drop (8 * unat pos) (pd_challenge (plaintextData t)))
      = take (unat len) (drop (8 * unat pos) (ar_challenge a))"
proof -
  have c: "length (ar_challenge a) = 32" using a by (simp add: auth_ok_def)
  have "unat (pos * 8) = 8 * unat pos" and "unat (len + pos * 8) = unat len + 8 * unat pos"
    using lim by (simp_all add: unat_word_ariths)
  moreover have "unat (blob_size (blob_of (ar_challenge a))) = 32"
    using c by (simp add: blob_of_def)
  ultimately show ?thesis
    using r get_auth(7) [OF a] lim
    by (auto simp: HksVerifyKeyChallenge_def blob_param_def HksMemCmp_def blob_of_def blob_bytes_def
        word_less_nat_alt Let_def)
qed

lemma timely_exact:
  assumes r: "kn_authRuntimeParamSet node = Some (auth_set a)" and a: "auth_ok a" and w: "wf_token t"
    and pos: "unat (ar_pos a) \<le> 3"
  shows "VerifyChallengeOrTimeStamp node t = 0 \<longleftrightarrow>
    timely (kn_keyBlobParamSet node) (ar_challenge a) (unat (ar_pos a)) (ar_time a) (plaintextData t)"
proof -
  have c: "length (ar_challenge a) = 32" "length (pd_challenge (plaintextData t)) = 32"
    using a w by (simp_all add: auth_ok_def wf_token_def)
  have normal: "VerifyNormalChallenge node t = 0 \<longleftrightarrow> pd_challenge (plaintextData t) = ar_challenge a"
    using challenge_exact [OF r a w, of 32 0] c by (simp add: VerifyNormalChallenge_def)
  have custom: "VerifyCustomChallenge node t = 0 \<longleftrightarrow>
      take 8 (drop (8 * unat (ar_pos a)) (pd_challenge (plaintextData t)))
        = take 8 (drop (8 * unat (ar_pos a)) (ar_challenge a))"
    using challenge_exact [OF r a w, of 8 "ar_pos a"] get_auth(5) [OF a] r pos
    by (simp add: VerifyCustomChallenge_def GetChallengePos_def)
  define l where "l = (case key_num (kn_keyBlobParamSet node) HKS_TAG_AUTH_TIMEOUT of Some s \<Rightarrow> s | None \<Rightarrow> DEFAULT_TIME_OUT)"
  have timeout: "(case HksGetParam (kn_keyBlobParamSet node) HKS_TAG_AUTH_TIMEOUT of
      Inr timeOut \<Rightarrow> uint32Param (p_val timeOut) | Inl _ \<Rightarrow> DEFAULT_TIME_OUT) = l"
    by (simp add: l_def key_num_def split: sum.split)
  have "unat (ucast l :: u64) = unat l"
    by (simp add: unat_ucast_u64)
  then have "HksVerifyKeyTimestamp node t = 0 \<longleftrightarrow>
      \<bar>int (unat (ar_time a)) - int (unat (pd_time (plaintextData t) div 1000))\<bar> \<le> int (unat l)"
    using distance_exact [of "ucast l" "ar_time a" "pd_time (plaintextData t) div 1000"] r get_auth(6) [OF a]
    unfolding HksVerifyKeyTimestamp_def timeout Let_def by auto
  then show ?thesis
    using normal custom
    by (auto simp: VerifyChallengeOrTimeStamp_def GetChallengeType_def timely_def key_num_def l_def rc_simps
        split: sum.splits)
qed

text \<open>The loop over the enrolled ids, which are followed by other memory.\<close>

lemma length_entries [simp]: "length (concat (map entry_bytes es)) = 12 * length es"
  by (induction es) (simp_all add: entry_bytes_def)

lemma enrolled_loop_mem:
  assumes "length pre + 12 * length es < 2 ^ 31" "unat index = length pre"
    "unat len = length pre + 12 * length es"
  shows "enrolled_loop (pre @ concat (map entry_bytes es) @ post) len (length es) index ty i \<longleftrightarrow> (ty, i) \<in> set es"
  using assms
proof (induction es arbitrary: pre index)
  case Nil
  then show ?case by simp
next
  case (Cons e es)
  obtain t j where e: "e = (t, j)" by (cases e)
  have lt: "index < len" using Cons.prems by (simp add: word_less_nat_alt)
  have i4: "unat (index + 4) = length pre + 4" and i12: "unat (index + 4 + 8) = length pre + 12"
    using Cons.prems by (simp_all add: unat_word_ariths)
  let ?mem = "pre @ concat (map entry_bytes (e # es)) @ post"
  have "read_u32 ?mem (unat index) = t"
    using Cons.prems(2) e read_u32_skip [of pre "length pre" _ 0] by (simp add: entry_bytes_def)
  moreover have "of_le (field_at ?mem (unat (index + 4)) 8) = j"
    using i4 e by (simp add: field_at_def entry_bytes_def of_le_to_le)
  moreover have "enrolled_loop ((pre @ entry_bytes e) @ concat (map entry_bytes es) @ post) len (length es)
      (index + 4 + 8) ty i \<longleftrightarrow> (ty, i) \<in> set es"
    using Cons.prems i12 by (intro Cons.IH) (simp_all add: entry_bytes_def)
  ultimately show ?case using lt e by (simp add: Let_def) auto
qed

text \<open>A parameter of bytes that is found, in a set whose blobs are as long as stated.\<close>

lemma key_blob_found:
  assumes "list_all wf_param (params ks)" "HksGetParam (Some ks) t = Inr p" "is_bytes_tag t"
  shows "key_blob (Some ks) t = Some (take (unat (blob_size (blobParam (p_val p)))) (blob_bytes (blobParam (p_val p))))"
    "unat (blob_size (blobParam (p_val p))) \<le> length (blob_bytes (blobParam (p_val p)))"
proof -
  show "key_blob (Some ks) t = Some (take (unat (blob_size (blobParam (p_val p)))) (blob_bytes (blobParam (p_val p))))"
    using assms(2) by (simp add: key_blob_def)
  have "p \<in> set (params ks)" "p_tag p = t"
    using assms(2) find_tag_Some unfolding HksGetParam_Inr_iff by blast+
  then show "unat (blob_size (blobParam (p_val p))) \<le> length (blob_bytes (blobParam (p_val p)))"
    using assms(1,3) by (auto simp: list_all_iff wf_param_def plen_def blob_bytes_def)
qed

lemma info_tags [simp]: "is_bytes_tag HKS_TAG_USER_AUTH_SECURE_UID" "is_bytes_tag HKS_TAG_USER_AUTH_ENROLL_ID_INFO"
  by (simp_all add: is_bytes_tag_def GetTagType_def)

lemma secure_uid_exact:
  assumes "list_all wf_param (params ks)"
  shows "VerifySecureUidIfNeed (Some ks) t access = 0 \<longleftrightarrow>
    (access AND HKS_AUTH_ACCESS_INVALID_CLEAR_PASSWORD \<noteq> 0 \<longrightarrow>
      key_blob (Some ks) HKS_TAG_USER_AUTH_SECURE_UID = Some (to_le 8 (cd_secureUid (ciphertextData t))))"
proof (cases "HksGetParam (Some ks) HKS_TAG_USER_AUTH_SECURE_UID")
  case (Inl r)
  then show ?thesis by (simp add: VerifySecureUidIfNeed_def key_blob_def)
next
  case (Inr p)
  let ?b = "blobParam (p_val p)"
  have "take (unat (blob_size ?b)) (blob_bytes ?b) = to_le 8 (cd_secureUid (ciphertextData t))
      \<longleftrightarrow> blob_size ?b = 8 \<and> take 8 (blob_bytes ?b) = to_le 8 (cd_secureUid (ciphertextData t))"
  proof (cases "blob_size ?b = 8")
    case False
    then have "length (take (unat (blob_size ?b)) (blob_bytes ?b)) \<noteq> 8"
      using key_blob_found(2) [OF assms Inr] by (simp add: word_unat_eq_iff)
    then show ?thesis using False by (metis length_to_le)
  qed simp
  then show ?thesis
    using key_blob_found(1) [OF assms Inr] Inr by (auto simp: VerifySecureUidIfNeed_def HksMemCmp_def Let_def)
qed

lemma enrolled_exact:
  assumes "list_all wf_param (params ks)" "enrolled_ids (Some ks) es"
  shows "VerifyEnrolledIdInfoIfNeed beyond (Some ks) t allowed access ty = 0 \<longleftrightarrow>
    (access AND HKS_AUTH_ACCESS_INVALID_NEW_BIO_ENROLL \<noteq> 0
      \<and> allowed AND (HKS_USER_AUTH_TYPE_FACE OR HKS_USER_AUTH_TYPE_FINGERPRINT) \<noteq> 0 \<longrightarrow>
      (ty, cd_enrolledId (ciphertextData t)) \<in> set es)"
proof (cases "HksGetParam (Some ks) HKS_TAG_USER_AUTH_ENROLL_ID_INFO")
  case (Inl r)
  then have "es = []" using assms(2) by (simp add: enrolled_ids_def key_blob_def)
  with Inl show ?thesis by (simp add: VerifyEnrolledIdInfoIfNeed_def)
next
  case (Inr p)
  let ?b = "blobParam (p_val p)"
  note kb = key_blob_found [OF assms(1) Inr info_tags(2)]
  have mem: "take (unat (blob_size ?b)) (blob_bytes ?b) = enrolled_bytes es" and es: "es \<noteq> []" "length es < 2 ^ 20"
    using assms(2) kb(1) by (simp_all add: enrolled_ids_def)
  have "unat (blob_size ?b) = length (enrolled_bytes es)"
    using arg_cong [OF mem, of length] kb(2) by simp
  then have size: "unat (blob_size ?b) = 4 + 12 * length es" by (simp add: enrolled_bytes_def)
  have cnt: "unat (read_u32 (enrolled_bytes es @ beyond) 0) = length es"
    using es(2) by (simp add: enrolled_bytes_def unat_u32_of_nat)
  have "enrolled_loop (enrolled_bytes es @ beyond) (blob_size ?b) (length es) 4 ty (cd_enrolledId (ciphertextData t))
      \<longleftrightarrow> (ty, cd_enrolledId (ciphertextData t)) \<in> set es"
    using enrolled_loop_mem [of "to_le 4 (word_of_nat (length es) :: u32)" es 4 "blob_size ?b" beyond] size es(2)
    by (simp add: enrolled_bytes_def)
  moreover have "\<not> unat (blob_size ?b) < 16" using size es(1) by (cases es) simp_all
  ultimately show ?thesis
    using Inr mem cnt by (auto simp: VerifyEnrolledIdInfoIfNeed_def Let_def)
qed

lemma entitled_exact:
  assumes ks: "kn_keyBlobParamSet node = Some ks" "list_all wf_param (params ks)" "enrolled_ids (Some ks) es"
  shows "VerifyAuthTokenInfo env node t = 0 \<longleftrightarrow>
    (\<exists>ty. ae_convert env HKS_AUTH_TYPE (pd_authType (plaintextData t)) = Inr ty
      \<and> entitled (Some ks) es ty (ciphertextData t))"
proof -
  have front: "VerifyFrontUserIdIfNeed (Some ks) t = 0 \<longleftrightarrow>
      key_num (Some ks) HKS_TAG_FRONT_USER_ID = Some (cd_userId (ciphertextData t))"
    by (cases "HksGetParam (Some ks) HKS_TAG_FRONT_USER_ID") (simp_all add: VerifyFrontUserIdIfNeed_def key_num_def)
  show ?thesis
    using ks(1) front secure_uid_exact [OF ks(2)] enrolled_exact [OF ks(2,3)]
    by (cases "HksGetParam (Some ks) HKS_TAG_USER_AUTH_TYPE";
        cases "HksGetParam (Some ks) HKS_TAG_KEY_AUTH_ACCESS_TYPE";
        cases "ae_convert env HKS_AUTH_TYPE (pd_authType (plaintextData t))")
      (simp_all add: VerifyAuthTokenInfo_def entitled_def key_num_def Let_def if_not_succ_return_def)
qed

section \<open>The verification\<close>

lemma add_token:
  assumes a: "auth_ok a" "ar_token a = None" and u: "wf_token u" and mem: "\<forall>n. alloc n"
    and n: "kn_authRuntimeParamSet node = Some (auth_set a)"
  shows "HksAddVerifiedAuthTokenIfNeed alloc node u = Inr (node\<lparr>kn_authRuntimeParamSet := Some (auth_set
    (a\<lparr>ar_token := if ar_sign a then Some (auth_token_bytes u) else None\<rparr>))\<rparr>)"
proof (cases "ar_sign a")
  case False
  then have "a\<lparr>ar_token := None\<rparr> = a" using a(2) by simp
  then show ?thesis
    using False n get_auth(2) [OF a(1)] by (simp add: HksAddVerifiedAuthTokenIfNeed_def)
next
  case True
  let ?tk = "auth_token_bytes u"
  let ?b = "a\<lparr>ar_token := Some ?tk\<rparr>"
  have ok: "auth_ok ?b" using a(1) token_lengths(3) [OF u] by (simp add: auth_ok_def)
  have ps: "auth_params ?b = auth_params a @ [blob_param HKS_TAG_VERIFIED_AUTH_TOKEN ?tk]"
    using a(2) by (simp add: auth_params_def optional_blob_def)
  note fits = auth_fitting(1) [OF ok]
  have "add_params (unbuilt []) (auth_params a) = Inr (unbuilt (auth_params a))"
    using add_params_unbuilt [of "[]"] auth_fitting(1) [OF a(1)] by simp
  moreover have "add_params (unbuilt (auth_params a)) [blob_param HKS_TAG_VERIFIED_AUTH_TOKEN ?tk]
      = Inr (unbuilt (auth_params ?b))"
    using add_params_unbuilt fits ps by metis
  moreover have "params (auth_set a) = auth_params a"
    using auth_fitting(2) [OF a(1)] by (simp add: auth_set_def)
  ultimately show ?thesis
    using True n get_auth(2) [OF a(1)] init_unbuilt [OF mem] build_unbuilt [OF fits mem]
    by (simp add: HksAddVerifiedAuthTokenIfNeed_def blob_param_def auth_set_def)
qed

text \<open>The node after a verification that was made.\<close>

definition verified :: "HuksKeyNode \<Rightarrow> auth_record \<Rightarrow> HksUserAuthToken option \<Rightarrow> HuksKeyNode" where
  "verified node a u = node\<lparr>kn_authRuntimeParamSet := Some (auth_set (case u of
     None \<Rightarrow> a\<lparr>ar_result := VUint HKS_AUTH_RESULT_FAILED\<rparr>
   | Some u \<Rightarrow> a\<lparr>ar_result := VUint HKS_AUTH_RESULT_SUCCESS,
       ar_token := if ar_sign a then Some (auth_token_bytes u) else None\<rparr>))\<rparr>"

lemma set_node_self: "kn_authRuntimeParamSet node = Some s \<Longrightarrow> node\<lparr>kn_authRuntimeParamSet := Some s\<rparr> = node"
  by simp

lemma assign_verified:
  assumes a: "auth_ok a" "ar_token a = None" and mem: "\<forall>n. alloc n"
    and n: "kn_authRuntimeParamSet node = Some (auth_set a)"
  shows "wf_token u \<Longrightarrow> AssignVerifyResultAndFree alloc 0 node (Some u) = (0, verified node a (Some u))"
    "r \<noteq> 0 \<Longrightarrow> AssignVerifyResultAndFree alloc r node t = (r, verified node a None)"
proof -
  have s: "set_auth_param HKS_TAG_KEY_AUTH_RESULT v node
      = node\<lparr>kn_authRuntimeParamSet := Some (auth_set (a\<lparr>ar_result := v\<rparr>))\<rparr>" for v
    using set_result [OF a(1), of v node] by (simp add: set_node_self [OF n])
  show "AssignVerifyResultAndFree alloc r node t = (r, verified node a None)" if "r \<noteq> 0"
    using that s by (simp add: AssignVerifyResultAndFree_def verified_def)
  let ?a = "a\<lparr>ar_result := VUint HKS_AUTH_RESULT_SUCCESS\<rparr>"
  have "auth_ok ?a" "ar_token ?a = None" using a by (simp_all add: auth_ok_def)
  then show "AssignVerifyResultAndFree alloc 0 node (Some u) = (0, verified node a (Some u))" if "wf_token u"
    using that s add_token [of ?a u alloc "node\<lparr>kn_authRuntimeParamSet := Some (auth_set ?a)\<rparr>"] mem
    by (simp add: AssignVerifyResultAndFree_def verified_def)
qed

text \<open>The token that is accepted, decrypted.\<close>

definition accepted ::
    "auth_env \<Rightarrow> HksAuthTokenKey \<Rightarrow> HksParamSet ptr \<Rightarrow> (u32 \<times> u64) list \<Rightarrow> bytes \<Rightarrow> nat \<Rightarrow> u64
     \<Rightarrow> HksParamSet \<Rightarrow> HksUserAuthToken \<Rightarrow> bool" where
  "accepted env key ks es challenge pos access req u \<longleftrightarrow>
     (\<exists>t. presented req = Some t \<and> authentic (ae_hal env) key t
        \<and> token_kind_ok ks (pd_tokenType (plaintextData t)) \<and> opened (ae_hal env) key t = Some u
        \<and> timely ks challenge pos access (plaintextData u)
        \<and> (\<exists>ty. ae_convert env HKS_AUTH_TYPE (pd_authType (plaintextData u)) = Inr ty
             \<and> entitled ks es ty (ciphertextData u)))"

lemma verify_token_exact:
  assumes r: "kn_authRuntimeParamSet node = Some (auth_set a)" and a: "auth_ok a" "unat (ar_pos a) \<le> 3"
    and ks: "kn_keyBlobParamSet node = Some ks" "list_all wf_param (params ks)" "enrolled_ids (Some ks) es"
    and env: "\<forall>n. ae_alloc env n" "mac_ok (ae_hal env)" and st: "g_isInitAuthTokenKey st"
    and req: "list_all wf_param (params req)"
  shows "\<exists>c t. verify_token env node req st = ((c, t), st)
    \<and> (c = 0 \<longrightarrow> (\<exists>u. t = Some u \<and> wf_token u \<and>
          accepted env (g_cachedAuthTokenKey st) (Some ks) es (ar_challenge a) (unat (ar_pos a)) (ar_time a) req u))
    \<and> (c \<noteq> 0 \<longrightarrow> (\<forall>u. \<not> accepted env (g_cachedAuthTokenKey st) (Some ks) es (ar_challenge a) (unat (ar_pos a))
          (ar_time a) req u))"
proof (cases "presented req")
  case None
  then show ?thesis
    using get_token_exact [OF req env(1)] by (auto simp: verify_token_def accepted_def)
next
  case (Some t)
  let ?key = "g_cachedAuthTokenKey st"
  have tok: "GetAuthToken (ae_alloc env) req = Inr t" using get_token_exact [OF req env(1)] Some by simp
  have w: "wf_token t" using Some wf_as_token by (auto simp: presented_def split: option.splits if_splits)
  obtain c1 where sign: "HksVerifyAuthTokenSign (ae_hal env) (ae_keys env) (Some t) st = (c1, st)"
    "c1 = 0 \<longleftrightarrow> authentic (ae_hal env) ?key t"
    using sign_authentic [OF st env(2) w, of "ae_keys env"] by (metis prod.collapse)
  show ?thesis
  proof (cases "authentic (ae_hal env) ?key t \<and> token_kind_ok (Some ks) (pd_tokenType (plaintextData t))")
    case False
    then show ?thesis
      using tok sign kind_exact [of node t] ks(1) Some by (auto simp: verify_token_def accepted_def Let_def)
  next
    case True
    obtain c2 d where dec: "HksDecryptAuthToken (ae_hal env) (ae_keys env) (ae_alloc env) (Some t) st = ((c2, d), st)"
      "(case opened (ae_hal env) ?key t of Some u \<Rightarrow> c2 = 0 \<and> d = Some u | None \<Rightarrow> c2 \<noteq> 0)"
      using decrypt_opened [OF st env(1), of "ae_hal env" "ae_keys env" t]
      by (cases "HksDecryptAuthToken (ae_hal env) (ae_keys env) (ae_alloc env) (Some t) st")
        (auto split: option.splits)
    show ?thesis
    proof (cases "opened (ae_hal env) ?key t")
      case None
      then show ?thesis
        using tok sign kind_exact [of node t] ks(1) Some True dec by (auto simp: verify_token_def accepted_def Let_def)
    next
      case (Some u)
      have wu: "wf_token u" using opened_wf [OF Some w] .
      show ?thesis
        using tok sign kind_exact [of node t] ks(1) \<open>presented req = Some t\<close> True dec Some wu
          timely_exact [OF r a(1) wu a(2)] entitled_exact [OF ks, of env u]
        by (auto simp: verify_token_def accepted_def Let_def)
    qed
  qed
qed

lemma verify_first:
  assumes r: "kn_authRuntimeParamSet node = Some (auth_set a)" and a: "auth_ok a"
    and first: "ar_user a" "ar_result a = VInt HKS_AUTH_RESULT_INIT" "ar_token a = None"
    and mem: "\<forall>n. ae_alloc env n"
    and v: "verify_token env node req st = ((c, t), st')" "c = 0 \<Longrightarrow> \<exists>u. t = Some u \<and> wf_token u"
  shows "HksCoreSecureAccessVerifyParams env (Some node) (Some req) st
    = ((c, Some (verified node a (if c = 0 then t else None))), st')"
proof -
  have need: "CheckIfNeedVerifyParams node = Inr (True, \<lparr>p_tag = HKS_TAG_KEY_AUTH_RESULT, p_val = ar_result a\<rparr>)"
    using r get_auth(1,4) [OF a] first by (simp add: CheckIfNeedVerifyParams_def)
  show ?thesis
  proof (cases "c = 0")
    case True
    then obtain u where "t = Some u" "wf_token u" using v(2) by blast
    then show ?thesis
      using need first v(1) True assign_verified(1) [OF a first(3) mem r]
      by (simp add: HksCoreSecureAccessVerifyParams_def)
  next
    case False
    then show ?thesis
      using need first v(1) assign_verified(2) [OF a first(3) mem r, of c t]
      by (simp add: HksCoreSecureAccessVerifyParams_def)
  qed
qed

text \<open>The place of the challenge that the init request chose.\<close>

definition custom_pos :: "HksParamSet \<Rightarrow> nat" where
  "custom_pos ps = (case key_num (Some ps) HKS_TAG_CHALLENGE_POS of Some p \<Rightarrow> unat p | None \<Rightarrow> 0)"

text \<open>What an accepted init request says about the checks on it.\<close>

lemma init_checked:
  assumes c: "CheckInitParamSetValidityAndGet ks ip0 = Inr ip"
    and needed: "key_num ks HKS_TAG_USER_AUTH_TYPE \<noteq> None"
      "IsNeedSkipUserAuthAccessControl ks (sa_initParamSet ip0) \<noteq> HKS_ERROR_NEED_SKIP_ACCESS_CONTROL"
  shows "sa_isUserAuthAccess ip" "unat (sa_challengePos ip) \<le> 3"
    "key_num ks HKS_TAG_CHALLENGE_TYPE = Some HKS_CHALLENGE_TYPE_CUSTOM \<Longrightarrow>
      unat (sa_challengePos ip) = custom_pos (sa_initParamSet ip0)"
    "key_num ks HKS_TAG_CHALLENGE_TYPE \<noteq> Some HKS_CHALLENGE_TYPE_NONE \<Longrightarrow>
      sa_outToken ip = sa_outToken ip0 \<and> 32 \<le> blob_size (sa_outToken ip)"
proof -
  obtain ct ip1 where ct: "HksGetParam ks HKS_TAG_CHALLENGE_TYPE = Inr ct"
    and v: "CheckChallengeTypeValidity ct ip0 = Inr ip1"
    and ip: "sa_isUserAuthAccess ip" "sa_challengePos ip = sa_challengePos ip1" "sa_outToken ip = sa_outToken ip1"
    using c needed
    by (cases "HksGetParam ks HKS_TAG_KEY_SECURE_SIGN_TYPE")
      (auto simp: CheckInitParamSetValidityAndGet_def key_num_def rc_simps Let_def split: sum.splits if_splits)
  show "sa_isUserAuthAccess ip" by fact
  show "unat (sa_challengePos ip) \<le> 3"
    using v ip by (auto simp: CheckChallengeTypeValidity_def rc_simps word_less_nat_alt Let_def split: if_splits)
  show "unat (sa_challengePos ip) = custom_pos (sa_initParamSet ip0)"
    if "key_num ks HKS_TAG_CHALLENGE_TYPE = Some HKS_CHALLENGE_TYPE_CUSTOM"
    using v ip ct that
    by (auto simp: CheckChallengeTypeValidity_def key_num_def custom_pos_def rc_simps Let_def split: if_splits)
  show "sa_outToken ip = sa_outToken ip0 \<and> 32 \<le> blob_size (sa_outToken ip)"
    if "key_num ks HKS_TAG_CHALLENGE_TYPE \<noteq> Some HKS_CHALLENGE_TYPE_NONE"
    using v ip ct that
    by (auto simp: CheckChallengeTypeValidity_def key_num_def rc_simps Let_def split: if_splits)
qed

lemma assigned:
  assumes "AssignToken tk \<lparr>blob_size = 32, blob_data = Some ch\<rparr> = Inr out" "length ch = 32" "32 \<le> blob_size tk"
  shows "blob_size out = 32 \<and> take 32 (blob_bytes out) = ch"
  using assms
  by (auto simp: AssignToken_def memcpy_to_def memcpy_s_def poke_def blob_bytes_def word_le_nat_alt
      split: if_splits)

lemma timely_pos:
  "key_num ks HKS_TAG_CHALLENGE_TYPE \<noteq> Some HKS_CHALLENGE_TYPE_CUSTOM \<Longrightarrow>
     timely ks ch i access p = timely ks ch j access p"
  by (auto simp: timely_def split: option.split)

section \<open>Properties\<close>

lemma accepted_exact:
  assumes "HksCoreSecureAccessInitParams hal alloc clk (Some node0) (Some ps) (Some token) = Inr (node, out)"
    and "key_num (Some ks) HKS_TAG_USER_AUTH_TYPE \<noteq> None"
      "IsNeedSkipUserAuthAccessControl (Some ks) ps \<noteq> HKS_ERROR_NEED_SKIP_ACCESS_CONTROL"
    and "kn_keyBlobParamSet node0 = Some ks" "list_all wf_param (params ks)" "enrolled_ids (Some ks) es"
    and "random_ok hal" "mac_ok (ae_hal env)" "\<forall>n. alloc n" "\<forall>n. ae_alloc env n" "g_isInitAuthTokenKey st"
    and "list_all wf_param (params req)"
  shows "\<exists>time ch. clk = Inr time \<and> HksCryptoHalFillRandom hal 0 32 = Inr ch
    \<and> (key_num (Some ks) HKS_TAG_CHALLENGE_TYPE \<noteq> Some HKS_CHALLENGE_TYPE_NONE
         \<longrightarrow> blob_size out = 32 \<and> take 32 (blob_bytes out) = ch)
    \<and> (fst (fst (HksCoreSecureAccessVerifyParams env (Some node) (Some req) st)) = HKS_SUCCESS \<longleftrightarrow>
         (\<exists>u. accepted env (g_cachedAuthTokenKey st) (Some ks) es ch (custom_pos ps) (time div 1000) req u))"
proof -
  obtain ip time ch where c: "CheckInitParamSetValidityAndGet (Some ks) \<lparr>sa_initParamSet = ps, sa_challengePos = 0,
       sa_isUserAuthAccess = False, sa_isSecureSign = False, sa_outToken = token\<rparr> = Inr ip"
    and clk: "clk = Inr time" and ch: "HksCryptoHalFillRandom hal 0 32 = Inr ch" "length ch = 32"
    and node: "node = node0\<lparr>kn_authRuntimeParamSet := Some (auth_set (init_record ip time ch))\<rparr>"
    and out: "AssignToken (sa_outToken ip) \<lparr>blob_size = 32, blob_data = Some ch\<rparr> = Inr out"
    using init_accepted [OF assms(1,9,7)] assms(4) by metis
  note chk = init_checked [OF c assms(2), simplified, OF assms(3)]
  let ?a = "init_record ip time ch"
  have a: "auth_ok ?a" using ch(2) by (rule init_record_ok)
  have f: "ar_user ?a" "ar_result ?a = VInt HKS_AUTH_RESULT_INIT" "ar_token ?a = None" "unat (ar_pos ?a) \<le> 3"
    "ar_challenge ?a = ch" "ar_time ?a = time div 1000" "ar_pos ?a = sa_challengePos ip"
    using chk by (simp_all add: init_record_def)
  have r: "kn_authRuntimeParamSet node = Some (auth_set ?a)" "kn_keyBlobParamSet node = Some ks"
    using node assms(4) by simp_all
  have pos: "timely (Some ks) ch (unat (ar_pos ?a)) access p = timely (Some ks) ch (custom_pos ps) access p" for access p
    using timely_pos chk(3) f(7) by metis
  obtain c1 t where v: "verify_token env node req st = ((c1, t), st)"
    and "c1 = 0 \<longrightarrow> (\<exists>u. t = Some u \<and> wf_token u \<and>
          accepted env (g_cachedAuthTokenKey st) (Some ks) es ch (unat (ar_pos ?a)) (time div 1000) req u)"
    and "c1 \<noteq> 0 \<longrightarrow> (\<forall>u. \<not> accepted env (g_cachedAuthTokenKey st) (Some ks) es ch (unat (ar_pos ?a))
          (time div 1000) req u)"
    using verify_token_exact [OF r(1) a f(4) r(2) assms(5,6,10,8,11,12)] f(5,6) by auto
  then have "fst (fst (HksCoreSecureAccessVerifyParams env (Some node) (Some req) st)) = 0 \<longleftrightarrow>
      (\<exists>u. accepted env (g_cachedAuthTokenKey st) (Some ks) es ch (unat (ar_pos ?a)) (time div 1000) req u)"
    using verify_first [OF r(1) a f(1-3) assms(10) v] by auto
  then have "fst (fst (HksCoreSecureAccessVerifyParams env (Some node) (Some req) st)) = 0 \<longleftrightarrow>
      (\<exists>u. accepted env (g_cachedAuthTokenKey st) (Some ks) es ch (custom_pos ps) (time div 1000) req u)"
    unfolding accepted_def pos .
  moreover have "blob_size out = 32 \<and> take 32 (blob_bytes out) = ch"
    if "key_num (Some ks) HKS_TAG_CHALLENGE_TYPE \<noteq> Some HKS_CHALLENGE_TYPE_NONE"
    using assigned [OF out ch(2)] chk(4) [OF that] by blast
  ultimately show ?thesis using clk ch(1) by blast
qed

text \<open>
  C33: The engine lets an operation on a key that needs user authentication pass exactly for the right
  token. After the init request, for which the caller got the random challenge, the first verification
  succeeds if and only if the request brings a token whose authentication code is right, of a kind the key
  admits, which decrypts, which answers the challenge (or was made within the time limit of the access, as
  unbounded integers), of an authentication type the key admits, and of a person entitled to the key.
\<close>

theorem token_accepted_exact:
  assumes "HksCoreSecureAccessInitParams hal alloc clk (Some node0) (Some ps) (Some token) = Inr (node, out)"
    and "key_num (Some ks) HKS_TAG_USER_AUTH_TYPE \<noteq> None"
      "IsNeedSkipUserAuthAccessControl (Some ks) ps \<noteq> HKS_ERROR_NEED_SKIP_ACCESS_CONTROL"
    and "kn_keyBlobParamSet node0 = Some ks" "list_all wf_param (params ks)" "enrolled_ids (Some ks) es"
    and "random_ok hal" "mac_ok (ae_hal env)" "\<forall>n. alloc n" "\<forall>n. ae_alloc env n" "g_isInitAuthTokenKey st"
    and "list_all wf_param (params req)"
  shows "\<exists>time ch. clk = Inr time \<and> HksCryptoHalFillRandom hal 0 32 = Inr ch
    \<and> (key_num (Some ks) HKS_TAG_CHALLENGE_TYPE \<noteq> Some HKS_CHALLENGE_TYPE_NONE
         \<longrightarrow> blob_size out = 32 \<and> take 32 (blob_bytes out) = ch)
    \<and> (fst (fst (HksCoreSecureAccessVerifyParams env (Some node) (Some req) st)) = HKS_SUCCESS \<longleftrightarrow>
         (\<exists>u. accepted env (g_cachedAuthTokenKey st) (Some ks) es ch (custom_pos ps) (time div 1000) req u))"
  using assms by (rule accepted_exact)

text \<open>
  A key for PIN or face, valid for user 7, with a fresh challenge; its init request; and a token for the
  challenge of zeros that the example engine gives.
\<close>

definition example_key :: HksParamSet where
  "example_key = built [\<lparr>p_tag = HKS_TAG_USER_AUTH_TYPE, p_val = VUint 3\<rparr>,
     \<lparr>p_tag = HKS_TAG_KEY_AUTH_ACCESS_TYPE, p_val = VUint HKS_AUTH_ACCESS_ALWAYS_VALID\<rparr>,
     \<lparr>p_tag = HKS_TAG_CHALLENGE_TYPE, p_val = VUint HKS_CHALLENGE_TYPE_NORMAL\<rparr>,
     \<lparr>p_tag = HKS_TAG_FRONT_USER_ID, p_val = VUint 7\<rparr>]"

definition example_token :: HksUserAuthToken where
  "example_token = \<lparr>at_version = 1, plaintextData = \<lparr>pd_challenge = replicate 32 0, pd_time = 0,
       pd_authTrustLevel = 0, pd_authType = 1, pd_authMode = 0, pd_securityLevel = 0, pd_tokenType = 0\<rparr>,
     ciphertextData = \<lparr>cd_userId = 0x5A5A5A5D, cd_secureUid = 0, cd_enrolledId = 0, cd_credentialId = 0,
       cd_collectorUdid = replicate 64 0, cd_verifierUdid = replicate 64 0\<rparr>,
     at_tag = replicate 16 7, at_iv = replicate 12 0, at_sign = replicate 32 0\<rparr>"

definition example_request :: HksParamSet where
  "example_request = built [blob_param HKS_TAG_AUTH_TOKEN (auth_token_bytes example_token)]"

definition example_env :: auth_env where
  "example_env = \<lparr>ae_hal = flip_hal, ae_alloc = (\<lambda>_. True), ae_convert = (\<lambda>k t. Inr t), ae_keys = 0,
     ae_beyond = []\<rparr>"

definition example_keys :: at_key_state where
  "example_keys = \<lparr>g_genAtKeyMutex = True, g_cachedAuthTokenKey = zero_key, g_isInitAuthTokenKey = True\<rparr>"

definition example_node :: HuksKeyNode where
  "example_node = \<lparr>kn_addr = 1, kn_keyBlobParamSet = Some example_key, kn_runtimeParamSet = NULL,
     kn_authRuntimeParamSet = NULL, kn_handle = 1, kn_batchOperationTimestamp = 0, kn_isBatchOperation = False\<rparr>"

definition example_init :: HksParamSet where
  "example_init = built [\<lparr>p_tag = HKS_TAG_PURPOSE, p_val = VUint HKS_KEY_PURPOSE_ENCRYPT\<rparr>]"

definition example_started :: HuksKeyNode where
  "example_started = example_node\<lparr>kn_authRuntimeParamSet := Some (auth_set \<lparr>ar_user = True, ar_sign = False,
     ar_update = False, ar_result = VInt HKS_AUTH_RESULT_INIT, ar_pos = 0, ar_time = 5,
     ar_challenge = replicate 32 0, ar_prefix = None, ar_token = None\<rparr>)\<rparr>"

lemma example_start:
  "HksCoreSecureAccessInitParams flip_hal (\<lambda>_. True) (Inr 5000) (Some example_node) (Some example_init)
     (Some \<lparr>blob_size = 32, blob_data = Some (replicate 32 1)\<rparr>)
   = Inr (example_started, \<lparr>blob_size = 32, blob_data = Some (replicate 32 0)\<rparr>)"
proof -
  let ?ip = "\<lparr>sa_initParamSet = example_init, sa_challengePos = 0, sa_isUserAuthAccess = True,
     sa_isSecureSign = False, sa_outToken = \<lparr>blob_size = 32, blob_data = Some (replicate 32 1)\<rparr>\<rparr>"
  have c: "CheckInitParamSetValidityAndGet (Some example_key) \<lparr>sa_initParamSet = example_init,
      sa_challengePos = 0, sa_isUserAuthAccess = False, sa_isSecureSign = False,
      sa_outToken = \<lparr>blob_size = 32, blob_data = Some (replicate 32 1)\<rparr>\<rparr> = Inr ?ip"
    by code_simp
  have "HksCryptoHalFillRandom flip_hal 0 32 = Inr (replicate 32 0)"
    by (simp add: flip_hal_def)
  then show ?thesis
    using c runtime_exact [of "\<lambda>_. True" flip_hal "replicate 32 0" 5000 ?ip]
    by (simp add: HksCoreSecureAccessInitParams_def Let_def example_node_def init_record_def example_started_def
        AssignToken_def memcpy_to_def memcpy_s_def poke_def blob_bytes_def)
qed

lemma example_presented: "presented example_request = Some example_token"
proof -
  let ?bs = "auth_token_bytes example_token"
  have w: "wf_token example_token" by (simp add: wf_token_def example_token_def)
  note len = token_lengths(3) [OF w]
  have b: "is_bytes_tag HKS_TAG_AUTH_TOKEN" by (simp add: is_bytes_tag_def GetTagType_def)
  note bp = blob_param_simps [OF _ b, of ?bs]
  have "fitting [blob_param HKS_TAG_AUTH_TOKEN ?bs]"
    using len bp by (simp add: fitting_def space_def)
  then have "HksGetParam (Some example_request) HKS_TAG_AUTH_TOKEN = Inr (blob_param HKS_TAG_AUTH_TOKEN ?bs)"
    using len bp check_blob_param [of ?bs HKS_TAG_AUTH_TOKEN]
    unfolding example_request_def by (subst get_built) (simp_all add: blob_param_def)
  then show ?thesis
    using len as_token_bytes [OF w] by (simp add: presented_def key_blob_def) (simp add: blob_param_def)
qed

lemma example_accepted:
  assumes k: "key_num ks HKS_TAG_CHALLENGE_TYPE = Some HKS_CHALLENGE_TYPE_NORMAL"
    "key_num ks HKS_TAG_USER_AUTH_TYPE = Some 3"
    "key_num ks HKS_TAG_KEY_AUTH_ACCESS_TYPE = Some HKS_AUTH_ACCESS_ALWAYS_VALID"
    "key_num ks HKS_TAG_FRONT_USER_ID = Some 7"
  shows "\<exists>u. accepted example_env zero_key ks [] (replicate 32 0) pos 5 example_request u"
proof -
  let ?c = "ciphertext_bytes (ciphertextData example_token)"
  have "take 4 ?c = [7 XOR 0x5A, 0x5A, 0x5A, 0x5A]"
    by (simp add: example_token_def ciphertext_bytes_def) code_simp
  moreover have "length ?c = 156" by (simp add: example_token_def ciphertext_bytes_def)
  ultimately have "of_le (take 4 (overwrite 0 (map (\<lambda>x. x XOR 0x5A) ?c) ?c)) = (7 :: u32)"
    by (simp add: overwrite_def take_map) 
  then have "\<exists>u. opened flip_hal zero_key example_token = Some u \<and> cd_userId (ciphertextData u) = 7
      \<and> plaintextData u = plaintextData example_token"
    by (simp add: opened_def flip_hal_def blob_bytes_def as_HksCiphertextData_def field_at_def)
       (simp add: example_token_def)
  then obtain u where u: "opened flip_hal zero_key example_token = Some u" "cd_userId (ciphertextData u) = 7"
    "plaintextData u = plaintextData example_token" by blast
  have a: "authentic flip_hal zero_key example_token"
    by (simp add: authentic_def flip_hal_def example_token_def)
  show ?thesis
    using u k a example_presented
    by (intro exI [of _ u]) (simp add: accepted_def example_env_def timely_def entitled_def token_kind_ok_def example_token_def)
qed

lemma token_accepted_exact_witness:
  "fst (fst (HksCoreSecureAccessVerifyParams example_env (Some example_started) (Some example_request)
     example_keys)) = HKS_SUCCESS"
proof -
  have h: "key_num (Some example_key) HKS_TAG_USER_AUTH_TYPE \<noteq> None"
    "IsNeedSkipUserAuthAccessControl (Some example_key) example_init \<noteq> HKS_ERROR_NEED_SKIP_ACCESS_CONTROL"
    "enrolled_ids (Some example_key) []"
    by code_simp+
  have k: "key_num (Some example_key) HKS_TAG_CHALLENGE_TYPE = Some HKS_CHALLENGE_TYPE_NORMAL"
    "key_num (Some example_key) HKS_TAG_USER_AUTH_TYPE = Some 3"
    "key_num (Some example_key) HKS_TAG_KEY_AUTH_ACCESS_TYPE = Some HKS_AUTH_ACCESS_ALWAYS_VALID"
    "key_num (Some example_key) HKS_TAG_FRONT_USER_ID = Some 7"
    by code_simp+
  have w: "list_all wf_param (params example_key)" "kn_keyBlobParamSet example_node = Some example_key"
    by (simp_all add: example_key_def example_node_def other_param_simps is_bytes_tag_def GetTagType_def)
  have r: "list_all wf_param (params example_request)"
    by (simp add: example_request_def wf_norm blob_param_simps is_bytes_tag_def GetTagType_def
        wf_token_def example_token_def token_lengths)
  have e: "random_ok flip_hal" "mac_ok (ae_hal example_env)" "\<forall>n. ae_alloc example_env n"
    "g_isInitAuthTokenKey example_keys"
    by (simp_all add: random_ok_def mac_ok_def flip_hal_def example_env_def example_keys_def)
  obtain time ch where t: "Inr 5000 = (Inr time :: u64 res)" "HksCryptoHalFillRandom flip_hal 0 32 = Inr ch"
    "fst (fst (HksCoreSecureAccessVerifyParams example_env (Some example_started) (Some example_request) example_keys))
        = HKS_SUCCESS \<longleftrightarrow>
       (\<exists>u. accepted example_env (g_cachedAuthTokenKey example_keys) (Some example_key) [] ch (custom_pos example_init)
         (time div 1000) example_request u)"
    using token_accepted_exact [OF example_start h(1,2) w(2,1) h(3) e(1,2) _ e(3,4) r] by blast
  then have "time = 5000" "ch = replicate 32 0" by (simp_all add: flip_hal_def)
  then show ?thesis
    using t(3) example_accepted [OF k, of "custom_pos example_init"] by (simp add: example_keys_def)
qed

section \<open>Several requests\<close>

text \<open>The codes of a sequence of verifications on a node, each with its own surroundings.\<close>

fun verify_requests :: "(auth_env \<times> HksParamSet) list \<Rightarrow> HuksKeyNode \<Rightarrow> at_key_state \<Rightarrow> rc list" where
  "verify_requests [] node st = []"
| "verify_requests ((env, req) # rs) node st =
     (case HksCoreSecureAccessVerifyParams env (Some node) (Some req) st of
        ((c, Some node), st) \<Rightarrow> c # verify_requests rs node st
      | ((c, NULL), st) \<Rightarrow> [c])"

lemma verify_again:
  assumes r: "kn_authRuntimeParamSet node = Some (auth_set a)" and a: "auth_ok a" and u: "ar_user a"
    and res: "ar_result a = VUint (if ok then HKS_AUTH_RESULT_SUCCESS else HKS_AUTH_RESULT_FAILED)"
  shows "HksCoreSecureAccessVerifyParams env (Some node) (Some req) st
    = ((if ok then HKS_SUCCESS else HKS_ERROR_KEY_AUTH_FAILED, Some node), st)"
  using r get_auth(1,4) [OF a] u res
  by (simp add: HksCoreSecureAccessVerifyParams_def CheckIfNeedVerifyParams_def)

lemma verify_requests_again:
  assumes "kn_authRuntimeParamSet node = Some (auth_set a)" "auth_ok a" "ar_user a"
    and "ar_result a = VUint (if ok then HKS_AUTH_RESULT_SUCCESS else HKS_AUTH_RESULT_FAILED)"
  shows "verify_requests rs node st = replicate (length rs) (if ok then HKS_SUCCESS else HKS_ERROR_KEY_AUTH_FAILED)"
  using verify_again [OF assms] by (induction rs) auto

lemma verified_token:
  assumes "verify_token env node req st = ((0, t), st')" "list_all wf_param (params req)" "\<forall>n. ae_alloc env n"
  shows "\<exists>u. t = Some u \<and> wf_token u"
proof (cases "presented req")
  case None
  then show ?thesis
    using assms(1) get_token_exact [OF assms(2,3)] by (auto simp: verify_token_def)
next
  case (Some tk)
  then have tok: "GetAuthToken (ae_alloc env) req = Inr tk" "wf_token tk"
    using get_token_exact [OF assms(2,3)] wf_as_token by (auto simp: presented_def split: option.splits if_splits)
  obtain st1 where "HksDecryptAuthToken (ae_hal env) (ae_keys env) (ae_alloc env) (Some tk) st1 = ((0, t), st')"
    using assms(1) tok(1) by (auto simp: verify_token_def Let_def split: prod.splits if_splits)
  then obtain bs where t: "t = Some (tk\<lparr>ciphertextData := as_HksCiphertextData
      (overwrite 0 bs (ciphertext_bytes (ciphertextData tk)))\<rparr>)"
    by (auto simp: HksDecryptAuthToken_def HksGetAuthTokenKey_def Let_def split: prod.splits sum.splits if_splits)
  have "156 \<le> length (overwrite 0 bs (ciphertext_bytes (ciphertextData tk)))"
    using token_lengths(2) [OF tok(2)] by (simp add: overwrite_def)
  then show ?thesis
    using t tok(2) by (simp add: wf_token_def as_HksCiphertextData_def field_at_def)
qed

text \<open>
  C34: The first verification decides for the life of the node, if it can allocate its memory. After the init request
  of a key that needs user authentication, the first request, during which no allocation fails, gets some code; if
  it is success, every later request passes without a token, and otherwise every later request fails, whatever token
  it brings. (When an allocation fails, \<open>AssignVerifyResultAndFree\<close> has already written success before the token is
  stored: it returns the failure, and the next request passes without a token.)
\<close>

theorem first_verification_final:
  assumes "HksCoreSecureAccessInitParams hal alloc clk (Some node0) (Some ps) (Some token) = Inr (node, out)"
    and "key_num (kn_keyBlobParamSet node0) HKS_TAG_USER_AUTH_TYPE \<noteq> None"
      "IsNeedSkipUserAuthAccessControl (kn_keyBlobParamSet node0) ps \<noteq> HKS_ERROR_NEED_SKIP_ACCESS_CONTROL"
    and "random_ok hal" "\<forall>n. alloc n" "\<forall>n. ae_alloc env n" "list_all wf_param (params req)"
  shows "\<exists>c. verify_requests ((env, req) # rs) node st
    = c # replicate (length rs) (if c = HKS_SUCCESS then HKS_SUCCESS else HKS_ERROR_KEY_AUTH_FAILED)"
proof -
  obtain ip time ch where c: "CheckInitParamSetValidityAndGet (kn_keyBlobParamSet node0) \<lparr>sa_initParamSet = ps,
       sa_challengePos = 0, sa_isUserAuthAccess = False, sa_isSecureSign = False, sa_outToken = token\<rparr> = Inr ip"
    and ch: "length ch = 32"
    and node: "node = node0\<lparr>kn_authRuntimeParamSet := Some (auth_set (init_record ip time ch))\<rparr>"
    using init_accepted [OF assms(1,5,4)] by metis
  let ?a = "init_record ip time ch"
  have a: "auth_ok ?a" using ch by (rule init_record_ok)
  have f: "ar_user ?a" "ar_result ?a = VInt HKS_AUTH_RESULT_INIT" "ar_token ?a = None"
    using init_checked(1) [OF c assms(2), simplified, OF assms(3)] by (simp_all add: init_record_def)
  have r: "kn_authRuntimeParamSet node = Some (auth_set ?a)" using node by simp
  obtain c t st1 where v: "verify_token env node req st = ((c, t), st1)" by (metis prod.exhaust)
  have u: "\<exists>u. t = Some u \<and> wf_token u" if "c = 0"
    using verified_token [OF _ assms(7,6)] v that by blast
  define b where "b = (case if c = 0 then t else None of
      None \<Rightarrow> ?a\<lparr>ar_result := VUint HKS_AUTH_RESULT_FAILED\<rparr>
    | Some u \<Rightarrow> ?a\<lparr>ar_result := VUint HKS_AUTH_RESULT_SUCCESS,
        ar_token := if ar_sign ?a then Some (auth_token_bytes u) else None\<rparr>)"
  have n: "kn_authRuntimeParamSet (verified node ?a (if c = 0 then t else None)) = Some (auth_set b)"
    by (simp add: verified_def b_def split: option.split)
  have b: "auth_ok b" "ar_user b" "ar_result b = VUint (if c = 0 then HKS_AUTH_RESULT_SUCCESS else HKS_AUTH_RESULT_FAILED)"
    using a f(1) u token_lengths(3) by (auto simp: b_def auth_ok_def split: option.split)
  show ?thesis
    using verify_first [OF r a f assms(6) v u] verify_requests_again [OF n b, of rs st1] by auto
qed

lemma first_verification_final_witness:
  "\<exists>c. verify_requests [(example_env, example_request), (example_env, built [])] example_started example_keys
    = c # replicate (length [(example_env, built [])])
        (if c = HKS_SUCCESS then HKS_SUCCESS else HKS_ERROR_KEY_AUTH_FAILED)"
proof -
  have h: "key_num (kn_keyBlobParamSet example_node) HKS_TAG_USER_AUTH_TYPE \<noteq> None"
    "IsNeedSkipUserAuthAccessControl (kn_keyBlobParamSet example_node) example_init \<noteq> HKS_ERROR_NEED_SKIP_ACCESS_CONTROL"
    by code_simp+
  have "random_ok flip_hal" "\<forall>n. ae_alloc example_env n" "list_all wf_param (params example_request)"
    by (simp_all add: random_ok_def flip_hal_def example_env_def example_request_def wf_norm blob_param_simps
        is_bytes_tag_def GetTagType_def wf_token_def example_token_def token_lengths)
  then show ?thesis
    by (intro first_verification_final [OF example_start h]) simp_all
qed

end
