(* ===== verification/Huks_Access_Sign.thy ===== *)
theory Huks_Access_Sign
  imports Huks_Access_Props
begin

text \<open>
  Signing with the authentication information: what the engine puts in front of the data that it signs and
  in front of the signature (property 39).
\<close>

section \<open>Writing into the runtime parameters\<close>

lemma set_update:
  assumes "auth_ok a" "kn_authRuntimeParamSet n = Some (auth_set a)"
  shows "set_auth_param HKS_TAG_IS_APPEND_UPDATE_DATA (VBool b) n
    = n\<lparr>kn_authRuntimeParamSet := Some (auth_set (a\<lparr>ar_update := b\<rparr>))\<rparr>"
  using auth_fitting(2) [OF assms(1)] assms(2)
  by (simp add: set_auth_param_def auth_set_def built_def space_def)
     (simp add: auth_params_def other_param_simps optional_blob_def)

lemma write_prefix:
  assumes a: "auth_ok a" "ar_prefix a = Some old" and n: "kn_authRuntimeParamSet n = Some (auth_set a)"
    and len: "length new = 20"
  shows "write_auth_blob HKS_TAG_APPENDED_DATA_PREFIX new n
    = n\<lparr>kn_authRuntimeParamSet := Some (auth_set (a\<lparr>ar_prefix := Some new\<rparr>))\<rparr>"
proof -
  let ?b = "a\<lparr>ar_prefix := Some new\<rparr>"
  have ok: "auth_ok ?b" using a len by (simp add: auth_ok_def)
  have old: "length old = 20" "length (ar_challenge a) = 32" using a by (simp_all add: auth_ok_def)
  have w: "write_param 0 new (blob_param HKS_TAG_APPENDED_DATA_PREFIX old) = blob_param HKS_TAG_APPENDED_DATA_PREFIX new"
    using old len by (simp add: write_param_def blob_param_def blob_of_def overwrite_def)
  have u: "update_first HKS_TAG_APPENDED_DATA_PREFIX (write_param 0 new) (auth_params a) = auth_params ?b"
    using w a(2) by (simp add: auth_params_def optional_blob_def) (simp add: blob_param_def)
  have t: "overwrite (blob_offset HKS_TAG_APPENDED_DATA_PREFIX (auth_params a)) new
      (concat (map payload (auth_params a))) = concat (map payload (auth_params ?b))"
    using old len a(2)
    by (simp add: auth_params_def optional_blob_def other_param_simps blob_param_simps overwrite_def)
       (simp add: blob_param_def)
  have s: "space (auth_params ?b) = space (auth_params a)"
    using auth_fitting(3) [OF a(1)] auth_fitting(3) [OF ok] a(2) by (simp add: auth_params_def optional_blob_def)
  show ?thesis
    using u t s auth_fitting(2) [OF a(1)] auth_fitting(2) [OF ok] n
    by (simp add: write_auth_blob_def write_blob_def auth_set_def built_def)
qed

section \<open>What is put in front\<close>

definition auth_info :: "u32 \<Rightarrow> HksUserAuthToken \<Rightarrow> HksSecureSignAuthInfo" where
  "auth_info ty u = \<lparr>ss_userAuthType = ty, ss_authenticatorId = cd_enrolledId (ciphertextData u),
     ss_credentialId = cd_credentialId (ciphertextData u)\<rparr>"

definition sign_header :: "u32 \<Rightarrow> HksUserAuthToken \<Rightarrow> bytes" where
  "sign_header ty u = to_le 4 SECURE_SIGN_VERSION @ secure_sign_bytes (auth_info ty u)"

lemma length_secure_sign [simp]: "length (secure_sign_bytes i) = 20"
  by (simp add: secure_sign_bytes_def)

lemma length_sign_header [simp]: "length (sign_header ty u) = 24"
  by (simp add: sign_header_def)

text \<open>The node of a key that signs with authentication information, after a token was accepted.\<close>

definition signing :: "HuksKeyNode \<Rightarrow> auth_record \<Rightarrow> HksUserAuthToken \<Rightarrow> bool" where
  "signing node a u \<longleftrightarrow> kn_authRuntimeParamSet node = Some (auth_set a) \<and> auth_ok a \<and> ar_user a \<and> ar_sign a
     \<and> ar_result a = VUint HKS_AUTH_RESULT_SUCCESS \<and> ar_token a = Some (auth_token_bytes u) \<and> wf_token u
     \<and> ar_prefix a \<noteq> None"

lemma signing_state:
  assumes "signing node a u"
  shows "GetSupportAppendAuthInfoParams node = Inr (True, HKS_AUTH_RESULT_SUCCESS)"
    "CheckParamsAndGetAppendState (Some node)
      = Inr \<lparr>p_tag = HKS_TAG_IS_APPEND_UPDATE_DATA, p_val = VBool (ar_update a)\<rparr>"
proof -
  have a: "auth_ok a" "kn_authRuntimeParamSet node = Some (auth_set a)" "ar_sign a" "ar_user a"
    "ar_result a = VUint HKS_AUTH_RESULT_SUCCESS"
    using assms by (simp_all add: signing_def)
  then show "GetSupportAppendAuthInfoParams node = Inr (True, HKS_AUTH_RESULT_SUCCESS)"
    "CheckParamsAndGetAppendState (Some node)
      = Inr \<lparr>p_tag = HKS_TAG_IS_APPEND_UPDATE_DATA, p_val = VBool (ar_update a)\<rparr>"
    using get_auth(1-4) [OF a(1)]
    by (simp_all add: GetSupportAppendAuthInfoParams_def GetUserAuthResult_def CheckParamsAndGetAppendState_def)
qed

lemma signing_info:
  assumes "signing node a u" "ae_convert env HKS_AUTH_TYPE (pd_authType (plaintextData u)) = Inr ty"
  shows "GetSecureSignAuthInfo env node = Inr (auth_info ty u)"
proof -
  have a: "auth_ok a" "kn_authRuntimeParamSet node = Some (auth_set a)" "wf_token u"
    and t: "ar_token a = Some (auth_token_bytes u)"
    using assms by (simp_all add: signing_def)
  have "unat (blob_size (blob_of (auth_token_bytes u))) = 280"
    using token_lengths(3) [OF a(3)] by (simp add: blob_of_def)
  then show ?thesis
    using get_auth(9) [OF a(1) t] a(2) as_token_bytes [OF a(3)] assms(2)
    by (simp add: GetSecureSignAuthInfo_def blob_param_def auth_info_def)
qed

text \<open>Three pieces copied into a new buffer.\<close>

lemma three_pieces:
  assumes n: "unat n = 24 + unat m" and i: "length i = 20" and d: "unat m \<le> length d"
  shows "snd (memcpy_to (snd (memcpy_to (snd (memcpy_to (ipc_buffer n) 0 n (Some (to_le 4 v)) 4))
      4 (n - 4) (Some i) 20)) 24 (n - 24) (Some d) (unat m))
    = \<lparr>blob_size = n, blob_data = Some (to_le 4 (v :: u32) @ i @ take (unat m) d)\<rparr>"
proof -
  have "unat (n - 4) = 20 + unat m" "unat (n - 24) = unat m"
    using n by (subst unat_sub; simp add: word_le_nat_alt)+
  then show ?thesis
    using n i d
    by (simp add: memcpy_to_def memcpy_s_def poke_def ipc_buffer_def blob_bytes_def)
qed

lemma append_update:
  assumes s: "signing node a u" and fresh: "\<not> ar_update a"
    and ty: "ae_convert env HKS_AUTH_TYPE (pd_authType (plaintextData u)) = Inr ty"
    and d: "blob_data inData = Some d" "unat (blob_size inData) \<le> length d" "blob_size inData \<noteq> 0"
      "unat (blob_size inData) + 24 \<le> 0x800000" and mem: "\<forall>n. ae_alloc env n"
  shows "HksCoreAppendAuthInfoBeforeUpdate env node HKS_KEY_PURPOSE_SIGN (Some inData) (Some out)
    = (HKS_SUCCESS, node\<lparr>kn_authRuntimeParamSet := Some (auth_set (a\<lparr>ar_prefix := Some (secure_sign_bytes (auth_info ty u)),
         ar_update := True\<rparr>))\<rparr>,
       Some \<lparr>blob_size = blob_size inData + 24, blob_data = Some (sign_header ty u @ take (unat (blob_size inData)) d)\<rparr>)"
proof -
  let ?m = "blob_size inData"
  have a: "auth_ok a" "kn_authRuntimeParamSet node = Some (auth_set a)" using s by (simp_all add: signing_def)
  obtain old where old: "ar_prefix a = Some old" "length old = 20" using s by (auto simp: signing_def auth_ok_def)
  have n: "unat (4 + word_of_nat 20 + ?m) = 24 + unat ?m"
    using d(4) by (subst add.commute) (simp add: unat_word_ariths)
  have lim: "20 \<le> unat (UINT32_MAX - ?m)"
  proof -
    have "unat (UINT32_MAX - ?m) = 4294967295 - unat ?m" by (subst unat_sub) (simp_all add: word_le_nat_alt)
    then show ?thesis using d(4) by simp
  qed
  have need: "CheckIfNeedAppendUpdateData \<lparr>ad_keyNode = node, ad_inData = Some inData\<rparr> (Some out)
      = Inr (True, HKS_AUTH_RESULT_SUCCESS)"
    using signing_state [OF s] fresh d(3) lim by (simp add: CheckIfNeedAppendUpdateData_def)
  have w: "write_auth_blob HKS_TAG_APPENDED_DATA_PREFIX (secure_sign_bytes (auth_info ty u)) node
      = node\<lparr>kn_authRuntimeParamSet := Some (auth_set (a\<lparr>ar_prefix := Some (secure_sign_bytes (auth_info ty u))\<rparr>))\<rparr>"
    using write_prefix [OF a(1) old(1) a(2)] by simp
  have ps: "unat (blob_size (blob_of old)) = 20" using old(2) by (simp add: blob_of_def)
  have "DoAppendPrefixAuthInfoToUpdateInData (ae_alloc env) node (auth_info ty u) inData
      = (Inr \<lparr>blob_size = 24 + ?m, blob_data = Some (sign_header ty u @ take (unat ?m) d)\<rparr>,
         node\<lparr>kn_authRuntimeParamSet := Some (auth_set (a\<lparr>ar_prefix := Some (secure_sign_bytes (auth_info ty u))\<rparr>))\<rparr>)"
    using three_pieces [of "24 + ?m" ?m "secure_sign_bytes (auth_info ty u)" d SECURE_SIGN_VERSION] n d get_auth(8) [OF a(1) old(1)]
      a(2) w ps mem
    by (simp add: DoAppendPrefixAuthInfoToUpdateInData_def Let_def HksMalloc_def blob_param_def sign_header_def
        add.commute)
  moreover have "auth_ok (a\<lparr>ar_prefix := Some (secure_sign_bytes (auth_info ty u))\<rparr>)"
    using a(1) by (simp add: auth_ok_def)
  ultimately show ?thesis
    using need signing_info [OF s ty] d(1)
    by (simp add: HksCoreAppendAuthInfoBeforeUpdate_def set_update add.commute)
qed

lemma append_no_more:
  assumes s: "signing node a u" and upd: "ar_update a"
  shows "HksCoreAppendAuthInfoBeforeUpdate env node HKS_KEY_PURPOSE_SIGN inData out = (HKS_SUCCESS, node, out)"
  using signing_state [OF s] upd by (simp add: HksCoreAppendAuthInfoBeforeUpdate_def CheckIfNeedAppendUpdateData_def)

lemma append_finish:
  assumes s: "signing node a u" and upd: "ar_update a" and p: "ar_prefix a = Some (secure_sign_bytes i)"
    and d: "blob_data sig = Some d" "unat (blob_size sig) \<le> length d" "blob_size sig \<noteq> 0"
    and room: "unat (blob_size sig) + 24 \<le> unat orig" "unat orig \<le> 0x800000" and mem: "\<forall>n. alloc n"
  shows "\<exists>rest. HksCoreAppendAuthInfoAfterFinish alloc node HKS_KEY_PURPOSE_SIGN orig (Some sig)
    = (HKS_SUCCESS, Some \<lparr>blob_size = blob_size sig + 24,
        blob_data = Some (to_le 4 SECURE_SIGN_VERSION @ secure_sign_bytes i @ take (unat (blob_size sig)) d @ rest)\<rparr>)"
proof -
  let ?m = "blob_size sig"
  have a: "auth_ok a" "kn_authRuntimeParamSet node = Some (auth_set a)" using s by (simp_all add: signing_def)
  have n: "unat (24 + ?m) = 24 + unat ?m"
    using room by (subst add.commute) (simp add: unat_word_ariths)
  have b: "unat (blob_size (blob_of (secure_sign_bytes i))) = 20" "blob_size (blob_of (secure_sign_bytes i)) = 20"
    by (simp_all add: blob_of_def)
  have le: "?m \<le> orig" using room(1) by (simp add: word_le_nat_alt)
  then have "unat (orig - ?m) = unat orig - unat ?m" by (rule unat_sub)
  then have need: "CheckIfNeedAppendFinishData \<lparr>ad_keyNode = node, ad_inData = Some sig\<rparr> orig
      = Inr (True, HKS_AUTH_RESULT_SUCCESS)"
    using signing_state [OF s] upd d(3) room(1) le
    by (simp add: CheckIfNeedAppendFinishData_def not_less)
  have cache: "snd (memcpy_to (snd (memcpy_to (snd (memcpy_to (ipc_buffer (24 + ?m)) 0 (24 + ?m) (Some (to_le 4 SECURE_SIGN_VERSION)) 4))
      4 (24 + ?m - 4) (Some (secure_sign_bytes i)) 20)) 24 (24 + ?m - 24) (Some d) (unat ?m))
    = \<lparr>blob_size = 24 + ?m, blob_data = Some (to_le 4 SECURE_SIGN_VERSION @ secure_sign_bytes i @ take (unat ?m) d)\<rparr>"
    using d(2) n by (intro three_pieces) simp_all
  have "DoAppendPrefixDataToFinishData alloc node sig orig = (HKS_SUCCESS, \<lparr>blob_size = 24 + ?m,
      blob_data = Some (to_le 4 SECURE_SIGN_VERSION @ secure_sign_bytes i @ take (unat ?m) d
        @ drop (24 + unat ?m) d)\<rparr>)"
    using get_auth(8) [OF a(1) p] a(2) b n room mem cache d(1,2)
    by (simp add: DoAppendPrefixDataToFinishData_def Let_def HksMalloc_def blob_param_def)
       (simp add: memcpy_to_def memcpy_s_def poke_def blob_bytes_def)
  then show ?thesis
    using need by (auto simp: HksCoreAppendAuthInfoAfterFinish_def add.commute)
qed

section \<open>From the init request to the signature\<close>

lemma verified_signing:
  assumes "HksCoreSecureAccessInitParams hal alloc clk (Some node0) (Some ps) (Some token) = Inr (node1, tk)"
    and "key_num (kn_keyBlobParamSet node0) HKS_TAG_USER_AUTH_TYPE \<noteq> None"
      "IsNeedSkipUserAuthAccessControl (kn_keyBlobParamSet node0) ps \<noteq> HKS_ERROR_NEED_SKIP_ACCESS_CONTROL"
      "key_num (kn_keyBlobParamSet node0) HKS_TAG_KEY_SECURE_SIGN_TYPE \<noteq> None"
    and "random_ok hal" "\<forall>n. alloc n" "\<forall>n. ae_alloc env n" "list_all wf_param (params req)"
    and v: "HksCoreSecureAccessVerifyParams env (Some node1) (Some req) st = ((HKS_SUCCESS, Some node), st')"
  obtains a u where "signing node a u" "\<not> ar_update a" "verify_token env node1 req st = ((0, Some u), st')"
proof -
  obtain ip time ch where c: "CheckInitParamSetValidityAndGet (kn_keyBlobParamSet node0) \<lparr>sa_initParamSet = ps,
       sa_challengePos = 0, sa_isUserAuthAccess = False, sa_isSecureSign = False, sa_outToken = token\<rparr> = Inr ip"
    and ch: "length ch = 32"
    and node: "node1 = node0\<lparr>kn_authRuntimeParamSet := Some (auth_set (init_record ip time ch))\<rparr>"
    using init_accepted [OF assms(1,6,5)] by metis
  let ?a = "init_record ip time ch"
  have a: "auth_ok ?a" using ch by (rule init_record_ok)
  have sign: "sa_isSecureSign ip"
    using c assms(2,3,4)
    by (auto simp: CheckInitParamSetValidityAndGet_def key_num_def rc_simps Let_def split: sum.splits if_splits)
  have f: "ar_user ?a" "ar_result ?a = VInt HKS_AUTH_RESULT_INIT" "ar_token ?a = None"
    using init_checked(1) [OF c assms(2), simplified, OF assms(3)] by (simp_all add: init_record_def)
  have r: "kn_authRuntimeParamSet node1 = Some (auth_set ?a)" using node by simp
  obtain c t st1 where vt: "verify_token env node1 req st = ((c, t), st1)" by (metis prod.exhaust)
  have u: "\<exists>u. t = Some u \<and> wf_token u" if "c = 0"
    using verified_token [OF _ assms(8,7)] vt that by blast
  have "HksCoreSecureAccessVerifyParams env (Some node1) (Some req) st
      = ((c, Some (verified node1 ?a (if c = 0 then t else None))), st1)"
    by (rule verify_first [OF r a f assms(7) vt u])
  with v have "c = 0" "st1 = st'" "node = verified node1 ?a t" by auto
  moreover from this(1) obtain w where w: "t = Some w" "wf_token w" using u by blast
  ultimately have n: "node = node1\<lparr>kn_authRuntimeParamSet := Some (auth_set (?a\<lparr>ar_result := VUint HKS_AUTH_RESULT_SUCCESS,
       ar_token := Some (auth_token_bytes w)\<rparr>))\<rparr>"
    using sign by (simp add: verified_def init_record_def)
  show thesis
  proof (rule that)
    show "signing node (?a\<lparr>ar_result := VUint HKS_AUTH_RESULT_SUCCESS, ar_token := Some (auth_token_bytes w)\<rparr>) w"
      using n a f(1) w(2) token_lengths(3) [OF w(2)] sign by (simp add: signing_def auth_ok_def init_record_def)
    show "\<not> ar_update (?a\<lparr>ar_result := VUint HKS_AUTH_RESULT_SUCCESS, ar_token := Some (auth_token_bytes w)\<rparr>)"
      by (simp add: init_record_def)
    show "verify_token env node1 req st = ((0, Some w), st')"
      using vt \<open>c = 0\<close> \<open>st1 = st'\<close> w(1) by simp
  qed
qed

text \<open>
  C35: What a key that signs with authentication information signs. Once a token was accepted, the data of
  the first update gets a header of the version, the authentication type and the ids of the accepted
  token; later updates get nothing; and the same header is put in front of the signature, if the
  caller's buffer has room for it.
\<close>

theorem signed_with_auth_info:
  assumes "HksCoreSecureAccessInitParams hal alloc clk (Some node0) (Some ps) (Some token) = Inr (node1, tk)"
    and "key_num (kn_keyBlobParamSet node0) HKS_TAG_USER_AUTH_TYPE \<noteq> None"
      "IsNeedSkipUserAuthAccessControl (kn_keyBlobParamSet node0) ps \<noteq> HKS_ERROR_NEED_SKIP_ACCESS_CONTROL"
      "key_num (kn_keyBlobParamSet node0) HKS_TAG_KEY_SECURE_SIGN_TYPE \<noteq> None"
    and "random_ok hal" "\<forall>n. alloc n" "\<forall>n. ae_alloc env n" "list_all wf_param (params req)"
    and "HksCoreSecureAccessVerifyParams env (Some node1) (Some req) st = ((HKS_SUCCESS, Some node), st')"
    and "blob_data inData = Some d" "unat (blob_size inData) \<le> length d" "blob_size inData \<noteq> 0"
      "unat (blob_size inData) + 24 \<le> 0x800000"
    and "blob_data sig = Some s" "unat (blob_size sig) \<le> length s" "blob_size sig \<noteq> 0"
      "unat (blob_size sig) + 24 \<le> unat orig" "unat orig \<le> 0x800000"
  shows "\<exists>u. verify_token env node1 req st = ((HKS_SUCCESS, Some u), st')
    \<and> (\<forall>ty. ae_convert env HKS_AUTH_TYPE (pd_authType (plaintextData u)) = Inr ty \<longrightarrow> (\<exists>node' rest.
        HksCoreAppendAuthInfoBeforeUpdate env node HKS_KEY_PURPOSE_SIGN (Some inData) (Some out)
          = (HKS_SUCCESS, node', Some \<lparr>blob_size = blob_size inData + 24,
              blob_data = Some (sign_header ty u @ take (unat (blob_size inData)) d)\<rparr>)
      \<and> HksCoreAppendAuthInfoBeforeUpdate env node' HKS_KEY_PURPOSE_SIGN inData2 out2 = (HKS_SUCCESS, node', out2)
      \<and> HksCoreAppendAuthInfoAfterFinish alloc node' HKS_KEY_PURPOSE_SIGN orig (Some sig)
          = (HKS_SUCCESS, Some \<lparr>blob_size = blob_size sig + 24,
              blob_data = Some (sign_header ty u @ take (unat (blob_size sig)) s @ rest)\<rparr>)))"
proof -
  obtain a u where s: "signing node a u" "\<not> ar_update a" and v: "verify_token env node1 req st = ((0, Some u), st')"
    using verified_signing [OF assms(1-9)] by metis
  show ?thesis
  proof (intro exI [of _ u] conjI allI impI v)
    fix ty
    assume ty: "ae_convert env HKS_AUTH_TYPE (pd_authType (plaintextData u)) = Inr ty"
    let ?b = "a\<lparr>ar_prefix := Some (secure_sign_bytes (auth_info ty u)), ar_update := True\<rparr>"
    let ?n = "node\<lparr>kn_authRuntimeParamSet := Some (auth_set ?b)\<rparr>"
    have n: "signing ?n ?b u" using s(1) by (simp add: signing_def auth_ok_def)
    show "\<exists>node' rest.
        HksCoreAppendAuthInfoBeforeUpdate env node HKS_KEY_PURPOSE_SIGN (Some inData) (Some out)
          = (HKS_SUCCESS, node', Some \<lparr>blob_size = blob_size inData + 24,
              blob_data = Some (sign_header ty u @ take (unat (blob_size inData)) d)\<rparr>)
      \<and> HksCoreAppendAuthInfoBeforeUpdate env node' HKS_KEY_PURPOSE_SIGN inData2 out2 = (HKS_SUCCESS, node', out2)
      \<and> HksCoreAppendAuthInfoAfterFinish alloc node' HKS_KEY_PURPOSE_SIGN orig (Some sig)
          = (HKS_SUCCESS, Some \<lparr>blob_size = blob_size sig + 24,
              blob_data = Some (sign_header ty u @ take (unat (blob_size sig)) s @ rest)\<rparr>)"
      using append_update [OF s ty assms(10-13,7), of out] append_no_more [OF n] 
        append_finish [OF n, of "auth_info ty u" sig s orig alloc] assms(14-18,6)
      by (intro exI [of _ ?n]) (simp add: sign_header_def)
  qed
qed

text \<open>The example key, signing with authentication information.\<close>

definition sign_key :: HksParamSet where
  "sign_key = built [\<lparr>p_tag = HKS_TAG_USER_AUTH_TYPE, p_val = VUint 3\<rparr>,
     \<lparr>p_tag = HKS_TAG_KEY_AUTH_ACCESS_TYPE, p_val = VUint HKS_AUTH_ACCESS_ALWAYS_VALID\<rparr>,
     \<lparr>p_tag = HKS_TAG_CHALLENGE_TYPE, p_val = VUint HKS_CHALLENGE_TYPE_NORMAL\<rparr>,
     \<lparr>p_tag = HKS_TAG_FRONT_USER_ID, p_val = VUint 7\<rparr>,
     \<lparr>p_tag = HKS_TAG_KEY_SECURE_SIGN_TYPE, p_val = VUint HKS_SECURE_SIGN_WITH_AUTHINFO\<rparr>]"

definition sign_node :: HuksKeyNode where
  "sign_node = example_node\<lparr>kn_keyBlobParamSet := Some sign_key\<rparr>"

definition sign_started :: HuksKeyNode where
  "sign_started = sign_node\<lparr>kn_authRuntimeParamSet := Some (auth_set \<lparr>ar_user = True, ar_sign = True,
     ar_update = False, ar_result = VInt HKS_AUTH_RESULT_INIT, ar_pos = 0, ar_time = 5,
     ar_challenge = replicate 32 0, ar_prefix = Some (replicate 20 0), ar_token = None\<rparr>)\<rparr>"

lemma sign_start:
  "HksCoreSecureAccessInitParams flip_hal (\<lambda>_. True) (Inr 5000) (Some sign_node) (Some example_init)
     (Some \<lparr>blob_size = 32, blob_data = Some (replicate 32 1)\<rparr>)
   = Inr (sign_started, \<lparr>blob_size = 32, blob_data = Some (replicate 32 0)\<rparr>)"
proof -
  let ?ip = "\<lparr>sa_initParamSet = example_init, sa_challengePos = 0, sa_isUserAuthAccess = True,
     sa_isSecureSign = True, sa_outToken = \<lparr>blob_size = 32, blob_data = Some (replicate 32 1)\<rparr>\<rparr>"
  have c: "CheckInitParamSetValidityAndGet (Some sign_key) \<lparr>sa_initParamSet = example_init,
      sa_challengePos = 0, sa_isUserAuthAccess = False, sa_isSecureSign = False,
      sa_outToken = \<lparr>blob_size = 32, blob_data = Some (replicate 32 1)\<rparr>\<rparr> = Inr ?ip"
    by code_simp
  have "HksCryptoHalFillRandom flip_hal 0 32 = Inr (replicate 32 0)"
    by (simp add: flip_hal_def)
  then show ?thesis
    using c runtime_exact [of "\<lambda>_. True" flip_hal "replicate 32 0" 5000 ?ip]
    by (simp add: HksCoreSecureAccessInitParams_def Let_def sign_node_def example_node_def init_record_def
        sign_started_def AssignToken_def memcpy_to_def memcpy_s_def poke_def blob_bytes_def)
qed

lemma sign_requires:
  "key_num (Some sign_key) HKS_TAG_USER_AUTH_TYPE = Some 3"
  "IsNeedSkipUserAuthAccessControl (Some sign_key) example_init \<noteq> HKS_ERROR_NEED_SKIP_ACCESS_CONTROL"
  "enrolled_ids (Some sign_key) []"
  "key_num (Some sign_key) HKS_TAG_CHALLENGE_TYPE = Some HKS_CHALLENGE_TYPE_NORMAL"
  "key_num (Some sign_key) HKS_TAG_KEY_AUTH_ACCESS_TYPE = Some HKS_AUTH_ACCESS_ALWAYS_VALID"
  "key_num (Some sign_key) HKS_TAG_FRONT_USER_ID = Some 7"
  "key_num (Some sign_key) HKS_TAG_KEY_SECURE_SIGN_TYPE = Some HKS_SECURE_SIGN_WITH_AUTHINFO"
  by code_simp+

lemma example_surroundings:
  "random_ok flip_hal" "mac_ok (ae_hal example_env)" "\<forall>n. ae_alloc example_env n"
  "g_isInitAuthTokenKey example_keys" "list_all wf_param (params example_request)"
  by (simp_all add: random_ok_def mac_ok_def flip_hal_def example_env_def example_keys_def example_request_def
      wf_norm blob_param_simps is_bytes_tag_def GetTagType_def wf_token_def example_token_def token_lengths)

lemma sign_verified:
  "\<exists>node st'. HksCoreSecureAccessVerifyParams example_env (Some sign_started) (Some example_request) example_keys
     = ((HKS_SUCCESS, Some node), st')"
proof -
  have w: "list_all wf_param (params sign_key)" "kn_keyBlobParamSet sign_node = Some sign_key"
    by (simp_all add: sign_key_def sign_node_def other_param_simps is_bytes_tag_def GetTagType_def)
  obtain time ch where t: "Inr 5000 = (Inr time :: u64 res)" "HksCryptoHalFillRandom flip_hal 0 32 = Inr ch"
    "fst (fst (HksCoreSecureAccessVerifyParams example_env (Some sign_started) (Some example_request) example_keys))
        = HKS_SUCCESS \<longleftrightarrow>
       (\<exists>u. accepted example_env (g_cachedAuthTokenKey example_keys) (Some sign_key) [] ch (custom_pos example_init)
         (time div 1000) example_request u)"
    using accepted_exact [OF sign_start _ sign_requires(2) w(2,1) sign_requires(3) example_surroundings(1,2) _
        example_surroundings(3-5)] sign_requires(1) by auto
  then have "time = 5000" "ch = replicate 32 0" by (simp_all add: flip_hal_def)
  then have "fst (fst (HksCoreSecureAccessVerifyParams example_env (Some sign_started) (Some example_request) example_keys))
      = HKS_SUCCESS"
    using t(3) example_accepted [OF sign_requires(4,1,5,6)] by (simp add: example_keys_def)
  moreover have "snd (fst (HksCoreSecureAccessVerifyParams env (Some n) (Some req) st)) \<noteq> NULL" for env n req st
    by (auto simp: HksCoreSecureAccessVerifyParams_def split: sum.splits prod.splits)
  ultimately show ?thesis by (metis option.exhaust prod.collapse)
qed

lemma signed_with_auth_info_witness:
  "\<exists>node st' u node' rest.
     HksCoreSecureAccessVerifyParams example_env (Some sign_started) (Some example_request) example_keys
       = ((HKS_SUCCESS, Some node), st')
   \<and> HksCoreAppendAuthInfoBeforeUpdate example_env node HKS_KEY_PURPOSE_SIGN (Some (blob_of [5, 6])) (Some empty_blob)
       = (HKS_SUCCESS, node', Some \<lparr>blob_size = blob_size (blob_of [5, 6]) + 24,
           blob_data = Some (sign_header (pd_authType (plaintextData u)) u
             @ take (unat (blob_size (blob_of [5, 6]))) [5, 6])\<rparr>)
   \<and> HksCoreAppendAuthInfoBeforeUpdate example_env node' HKS_KEY_PURPOSE_SIGN (Some (blob_of [7])) NULL
       = (HKS_SUCCESS, node', NULL)
   \<and> HksCoreAppendAuthInfoAfterFinish (\<lambda>_. True) node' HKS_KEY_PURPOSE_SIGN 100 (Some (blob_of [8, 9]))
       = (HKS_SUCCESS, Some \<lparr>blob_size = blob_size (blob_of [8, 9]) + 24,
           blob_data = Some (sign_header (pd_authType (plaintextData u)) u
             @ take (unat (blob_size (blob_of [8, 9]))) [8, 9] @ rest)\<rparr>)"
proof -
  obtain node st' where v: "HksCoreSecureAccessVerifyParams example_env (Some sign_started) (Some example_request)
      example_keys = ((HKS_SUCCESS, Some node), st')"
    using sign_verified by blast
  have h: "key_num (kn_keyBlobParamSet sign_node) HKS_TAG_USER_AUTH_TYPE \<noteq> None"
    "IsNeedSkipUserAuthAccessControl (kn_keyBlobParamSet sign_node) example_init \<noteq> HKS_ERROR_NEED_SKIP_ACCESS_CONTROL"
    "key_num (kn_keyBlobParamSet sign_node) HKS_TAG_KEY_SECURE_SIGN_TYPE \<noteq> None"
    using sign_requires by (simp_all add: sign_node_def)
  have t: "\<forall>n. (\<lambda>_. True) (n :: nat)" "blob_data (blob_of [5, 6]) = Some [5, 6]"
    "unat (blob_size (blob_of [5, 6])) \<le> length [5, 6]" "blob_size (blob_of [5, 6]) \<noteq> 0"
    "unat (blob_size (blob_of [5, 6])) + 24 \<le> 0x800000" "blob_data (blob_of [8, 9]) = Some [8, 9]"
    "unat (blob_size (blob_of [8, 9])) \<le> length [8, 9]" "blob_size (blob_of [8, 9]) \<noteq> 0"
    "unat (blob_size (blob_of [8, 9])) + 24 \<le> unat (100 :: u32)" "unat (100 :: u32) \<le> 0x800000"
    by (simp_all add: blob_of_def)
  have c: "ae_convert example_env k x = Inr x" for k x by (simp add: example_env_def)
  show ?thesis
    using signed_with_auth_info [OF sign_start h example_surroundings(1) t(1) example_surroundings(3,5) v t(2-10),
        of empty_blob "Some (blob_of [7])" NULL] v c by blast
qed

end
