(* ===== verification/Huks_Auth.thy ===== *)
theory Huks_Auth
  imports Huks_Access
begin

text \<open>
  Comparing a request with what the key was generated for,
  \<open>services/huks_standard/huks_engine/main/core/src/hks_auth.c\<close>: for each kind of operation a list of
  tags whose values in the request must agree with those of the key.
\<close>

text \<open>\<open>enum HksAuthId\<close> of \<open>hks_auth.h\<close>\<close>

abbreviation (input) HKS_AUTH_ID_SIGN_VERIFY_RSA :: u32 where "HKS_AUTH_ID_SIGN_VERIFY_RSA \<equiv> 1"
abbreviation (input) HKS_AUTH_ID_SIGN_VERIFY_ECC :: u32 where "HKS_AUTH_ID_SIGN_VERIFY_ECC \<equiv> 2"
abbreviation (input) HKS_AUTH_ID_SYM_CIPHER :: u32 where "HKS_AUTH_ID_SYM_CIPHER \<equiv> 3"
abbreviation (input) HKS_AUTH_ID_ASYM_CIPHER :: u32 where "HKS_AUTH_ID_ASYM_CIPHER \<equiv> 4"
abbreviation (input) HKS_AUTH_ID_MAC_HMAC :: u32 where "HKS_AUTH_ID_MAC_HMAC \<equiv> 5"
abbreviation (input) HKS_AUTH_ID_MAC_SM3 :: u32 where "HKS_AUTH_ID_MAC_SM3 \<equiv> 6"
abbreviation (input) HKS_AUTH_ID_DERIVE :: u32 where "HKS_AUTH_ID_DERIVE \<equiv> 7"
abbreviation (input) HKS_AUTH_ID_SIGN_VERIFY_ED25519 :: u32 where "HKS_AUTH_ID_SIGN_VERIFY_ED25519 \<equiv> 8"
abbreviation (input) HKS_AUTH_ID_AGREE :: u32 where "HKS_AUTH_ID_AGREE \<equiv> 9"
abbreviation (input) HKS_AUTH_ID_MAC_CMAC :: u32 where "HKS_AUTH_ID_MAC_CMAC \<equiv> 16"

record HksAuthPolicy =
  ap_authId :: u32
  ap_policyTag :: "u32 list"

definition g_symCipherPolicyTag :: "u32 list" where
  "g_symCipherPolicyTag = [HKS_TAG_ALGORITHM, HKS_TAG_BLOCK_MODE, HKS_TAG_PADDING, HKS_TAG_PURPOSE]"
definition g_asymCipherPolicyTag :: "u32 list" where
  "g_asymCipherPolicyTag = [HKS_TAG_ALGORITHM, HKS_TAG_DIGEST, HKS_TAG_PADDING, HKS_TAG_PURPOSE]"
definition g_signVerifyRsaPolicyTag :: "u32 list" where
  "g_signVerifyRsaPolicyTag = [HKS_TAG_ALGORITHM, HKS_TAG_DIGEST, HKS_TAG_PADDING, HKS_TAG_PURPOSE]"
definition g_signVerifyEccPolicyTag :: "u32 list" where
  "g_signVerifyEccPolicyTag = [HKS_TAG_ALGORITHM, HKS_TAG_DIGEST, HKS_TAG_PURPOSE]"
definition g_signVerifyEd25519PolicyTag :: "u32 list" where
  "g_signVerifyEd25519PolicyTag = [HKS_TAG_PURPOSE]"
definition g_macPolicyTag :: "u32 list" where
  "g_macPolicyTag = [HKS_TAG_DIGEST, HKS_TAG_PURPOSE]"
definition g_macSm3PolicyTag :: "u32 list" where
  "g_macSm3PolicyTag = [HKS_TAG_ALGORITHM, HKS_TAG_DIGEST, HKS_TAG_PURPOSE]"
definition g_macCmacPolicyTag :: "u32 list" where
  "g_macCmacPolicyTag = [HKS_TAG_ALGORITHM, HKS_TAG_PURPOSE]"
definition g_derivePolicyTag :: "u32 list" where
  "g_derivePolicyTag = [HKS_TAG_DIGEST, HKS_TAG_PURPOSE]"
definition g_agreePolicyTag :: "u32 list" where
  "g_agreePolicyTag = [HKS_TAG_PURPOSE]"

definition g_authPolicyList :: "HksAuthPolicy list" where
  "g_authPolicyList =
     [\<lparr>ap_authId = HKS_AUTH_ID_SYM_CIPHER, ap_policyTag = g_symCipherPolicyTag\<rparr>,
      \<lparr>ap_authId = HKS_AUTH_ID_ASYM_CIPHER, ap_policyTag = g_asymCipherPolicyTag\<rparr>,
      \<lparr>ap_authId = HKS_AUTH_ID_SIGN_VERIFY_RSA, ap_policyTag = g_signVerifyRsaPolicyTag\<rparr>,
      \<lparr>ap_authId = HKS_AUTH_ID_SIGN_VERIFY_ECC, ap_policyTag = g_signVerifyEccPolicyTag\<rparr>,
      \<lparr>ap_authId = HKS_AUTH_ID_SIGN_VERIFY_ED25519, ap_policyTag = g_signVerifyEd25519PolicyTag\<rparr>,
      \<lparr>ap_authId = HKS_AUTH_ID_MAC_HMAC, ap_policyTag = g_macPolicyTag\<rparr>,
      \<lparr>ap_authId = HKS_AUTH_ID_MAC_SM3, ap_policyTag = g_macSm3PolicyTag\<rparr>,
      \<lparr>ap_authId = HKS_AUTH_ID_DERIVE, ap_policyTag = g_derivePolicyTag\<rparr>,
      \<lparr>ap_authId = HKS_AUTH_ID_AGREE, ap_policyTag = g_agreePolicyTag\<rparr>,
      \<lparr>ap_authId = HKS_AUTH_ID_MAC_CMAC, ap_policyTag = g_macCmacPolicyTag\<rparr>]"

definition CheckPurpose :: "HksParam \<Rightarrow> HksParam \<Rightarrow> rc" where
  "CheckPurpose authParam requestParam =
     (if uint32Param (p_val requestParam) = 0 then HKS_ERROR_INVALID_ARGUMENT
      else if uint32Param (p_val requestParam) AND uint32Param (p_val authParam)
          \<noteq> uint32Param (p_val requestParam)
      then HKS_ERROR_INVALID_ARGUMENT else HKS_SUCCESS)"

text \<open>When the request lacks the tag, the check is given no parameter, and does not look at one.\<close>

definition OptionalParamCheck :: "u32 \<Rightarrow> u32 \<Rightarrow> u32 \<Rightarrow> HksParamSet ptr \<Rightarrow> ParamsValues \<Rightarrow> rc" where
  "OptionalParamCheck authTag alg purpose paramSet paramValues =
     (let r = HksGetParam paramSet authTag in
      if r = Inl HKS_ERROR_INVALID_ARGUMENT then HKS_ERROR_INVALID_ARGUMENT
      else
        (let param = (case r of Inr p \<Rightarrow> p | Inl _ \<Rightarrow> \<lparr>p_tag = authTag, p_val = VUint 0\<rparr>);
             ret = HksCheckOptionalParam authTag alg purpose (r = Inl HKS_ERROR_PARAM_NOT_EXIST) param in
         if ret \<noteq> HKS_SUCCESS then ret
         else if purpose AND HKS_KEY_PURPOSE_DERIVE \<noteq> 0 \<or> purpose AND HKS_KEY_PURPOSE_MAC \<noteq> 0
         then HKS_SUCCESS
         else HksCheckGenKeyMutableParams alg paramValues))"

definition GetAlgAndPurposeParam ::
    "HksParamSet ptr \<Rightarrow> HksParamSet ptr \<Rightarrow> ParamsValues \<Rightarrow> (HksParam \<times> HksParam \<times> ParamsValues) res" where
  "GetAlgAndPurposeParam keyBlobParamSet paramSet paramValues =
     try_or (HksGetParam keyBlobParamSet HKS_TAG_ALGORITHM) (Inl HKS_ERROR_CHECK_GET_ALG_FAIL) (\<lambda>algParam.
     try_or (HksGetParam keyBlobParamSet HKS_TAG_PURPOSE) (Inl HKS_ERROR_CHECK_GET_PURPOSE_FAIL)
       (\<lambda>purposeParam.
     try_res (GetInputParams paramSet paramValues) (\<lambda>paramValues.
     Inr (algParam, purposeParam, paramValues))))"

definition auth_param_values :: ParamsValues where
  "auth_param_values =
     (let checked = \<lparr>pa_needCheck = True, pa_value = 0, pa_isAbsent = False\<rparr> in
      \<lparr>pv_keyLen = \<lparr>pa_needCheck = False, pa_value = 0, pa_isAbsent = False\<rparr>, pv_padding = checked,
       pv_purpose = checked, pv_digest = checked, pv_mode = checked\<rparr>)"

text \<open>The loop over the tags of a policy; \<open>alg\<close> and \<open>purpose\<close> are those of the key.\<close>

fun policy_loop ::
    "u32 \<Rightarrow> u32 \<Rightarrow> ParamsValues \<Rightarrow> HksParamSet ptr \<Rightarrow> HksParamSet ptr \<Rightarrow> u32 list \<Rightarrow> rc" where
  "policy_loop alg purpose paramValues keyBlobParamSet paramSet [] = HKS_SUCCESS"
| "policy_loop alg purpose paramValues keyBlobParamSet paramSet (authTag # tags) =
     (case HksGetParam keyBlobParamSet authTag of
        Inl ret \<Rightarrow>
          if ret = HKS_ERROR_PARAM_NOT_EXIST then
            (let ret = OptionalParamCheck authTag alg purpose paramSet paramValues in
             if ret \<noteq> HKS_SUCCESS then ret
             else policy_loop alg purpose paramValues keyBlobParamSet paramSet tags)
          else ret
      | Inr authParam \<Rightarrow>
          (case HksGetParam paramSet authTag of
             Inl ret \<Rightarrow> ret
           | Inr requestParam \<Rightarrow>
               let ret = (if authTag \<noteq> HKS_TAG_PURPOSE
                   then HksCheckParamMatch (Some authParam) (Some requestParam)
                   else CheckPurpose authParam requestParam) in
               if ret \<noteq> HKS_SUCCESS then ret
               else policy_loop alg purpose paramValues keyBlobParamSet paramSet tags))"

definition AuthPolicy :: "HksAuthPolicy \<Rightarrow> HksParamSet ptr \<Rightarrow> HksParamSet ptr \<Rightarrow> rc" where
  "AuthPolicy policy keyBlobParamSet paramSet =
     try_rc (GetAlgAndPurposeParam keyBlobParamSet paramSet auth_param_values)
       (\<lambda>(algParam, purposeParam, paramValues).
         policy_loop (uint32Param (p_val algParam)) (uint32Param (p_val purposeParam)) paramValues
           keyBlobParamSet paramSet (ap_policyTag policy))"

definition HksAuth :: "u32 \<Rightarrow> HksKeyNode \<Rightarrow> HksParamSet ptr \<Rightarrow> rc" where
  "HksAuth authId keyNode paramSet =
     try_rc (HksCheckKeybBlobIsSupportUserAuth (hkn_paramSet keyNode)) (\<lambda>isSupportUserAuth.
       if isSupportUserAuth then HKS_ERROR_NOT_SUPPORTED
       else
         (case List.find (\<lambda>p. authId = ap_authId p) g_authPolicyList of
            Some policy \<Rightarrow> AuthPolicy policy (hkn_paramSet keyNode) paramSet
          | None \<Rightarrow> HKS_ERROR_BAD_STATE))"

definition HksThreeStageAuth :: "u32 \<Rightarrow> HuksKeyNode \<Rightarrow> rc" where
  "HksThreeStageAuth authId keyNode =
     (case List.find (\<lambda>p. authId = ap_authId p) g_authPolicyList of
        Some policy \<Rightarrow> AuthPolicy policy (kn_keyBlobParamSet keyNode) (kn_runtimeParamSet keyNode)
      | None \<Rightarrow> HKS_ERROR_BAD_STATE)"

end
