(* ===== verification/Huks_File.thy ===== *)
theory Huks_File
  imports Huks_Param "HOL-Library.AList" "HOL-Library.Sublist"
begin

text \<open>
  Files, \<open>utils/file_operator/hks_file_operator.c\<close>. C strings are byte strings without a final zero. The
  file system is a list of regular files with their contents and a list of directories, by absolute path
  without symbolic links, so that \<open>realpath\<close> is the identity. Every call of the operating system that
  can fail takes the next outcome of a parameter, so that a statement about all such parameters covers
  every combination of failures, in particular a power cut, after which everything fails.
\<close>

section \<open>Strings\<close>

definition chars :: "string \<Rightarrow> bytes" where
  "chars s = map of_char s"

abbreviation slash :: u8 where "slash \<equiv> 0x2F"

text \<open>The string in a buffer.\<close>

definition c_str :: "bytes \<Rightarrow> bytes" where
  "c_str bs = takeWhile (\<lambda>b. b \<noteq> 0) bs"

text \<open>\<open>strncpy_s\<close> and \<open>strncat_s\<close> of a whole string, which need room for the final zero.\<close>

definition strncpy_s :: "nat \<Rightarrow> bytes \<Rightarrow> bytes option" where
  "strncpy_s destMax src = (if length src < destMax then Some src else None)"

definition strncat_s :: "nat \<Rightarrow> bytes \<Rightarrow> bytes \<Rightarrow> bytes option" where
  "strncat_s destMax dest src = (if length dest + length src < destMax then Some (dest @ src) else None)"

fun strstr :: "bytes \<Rightarrow> bytes \<Rightarrow> bool" where
  "strstr [] needle = (needle = [])"
| "strstr (c # s) needle = (prefix needle (c # s) \<or> strstr s needle)"

definition ends_slash :: "bytes \<Rightarrow> bool" where
  "ends_slash s \<longleftrightarrow> s \<noteq> [] \<and> last s = slash"

section \<open>The operating system\<close>

text \<open>
  The error number of the n-th call, 0 if it succeeds, and how many bytes a read or a write that fails has
  transferred.
\<close>

record os_env =
  os_errno :: "nat \<Rightarrow> nat"
  os_count :: "nat \<Rightarrow> nat"
  os_dir_size :: nat

record file_system =
  fs_files :: "(bytes \<times> bytes) list"
  fs_dirs :: "bytes list"
  fs_calls :: nat

abbreviation (input) ENOENT :: nat where "ENOENT \<equiv> 2"
abbreviation (input) EEXIST :: nat where "EEXIST \<equiv> 17"
abbreviation (input) EISDIR :: nat where "EISDIR \<equiv> 21"
abbreviation (input) ENOTEMPTY :: nat where "ENOTEMPTY \<equiv> 39"
abbreviation (input) REQUIRED_KEY_NOT_AVAILABLE :: nat where "REQUIRED_KEY_NOT_AVAILABLE \<equiv> 126"

text \<open>The next call: its error number, the bytes it transfers if it fails, the state.\<close>

definition sys :: "os_env \<Rightarrow> file_system \<Rightarrow> nat \<times> nat \<times> file_system" where
  "sys os fs = (os_errno os (fs_calls fs), os_count os (fs_calls fs), fs\<lparr>fs_calls := Suc (fs_calls fs)\<rparr>)"

text \<open>Several slashes in a row are one.\<close>

fun canon :: "bytes \<Rightarrow> bytes" where
  "canon (c # d # s) = (if c = slash \<and> d = slash then canon (d # s) else c # canon (d # s))"
| "canon s = s"

definition fs_content :: "file_system \<Rightarrow> bytes \<Rightarrow> bytes option" where
  "fs_content fs p = map_of (fs_files fs) (canon p)"

definition fs_set :: "bytes \<Rightarrow> bytes \<Rightarrow> file_system \<Rightarrow> file_system" where
  "fs_set p c fs = fs\<lparr>fs_files := AList.update (canon p) c (fs_files fs)\<rparr>"

definition fs_unset :: "bytes \<Rightarrow> file_system \<Rightarrow> file_system" where
  "fs_unset p fs = fs\<lparr>fs_files := AList.delete (canon p) (fs_files fs)\<rparr>"

text \<open>A path with a slash at its end names a directory.\<close>

definition dir_name :: "bytes \<Rightarrow> bytes" where
  "dir_name p = (if ends_slash p then butlast (canon p) else canon p)"

definition is_dir :: "file_system \<Rightarrow> bytes \<Rightarrow> bool" where
  "is_dir fs p \<longleftrightarrow> dir_name p \<in> set (fs_dirs fs)"

text \<open>The directory of a path, the empty string for the root.\<close>

definition parent :: "bytes \<Rightarrow> bytes" where
  "parent p = rev (tl (dropWhile (\<lambda>c. c \<noteq> slash) (rev (canon p))))"

definition join_path :: "bytes \<Rightarrow> bytes \<Rightarrow> bytes" where
  "join_path p n = (if ends_slash p then p @ n else p @ slash # n)"

text \<open>The name of \<open>q\<close> in the directory \<open>p\<close>.\<close>

definition name_in :: "bytes \<Rightarrow> bytes \<Rightarrow> bytes option" where
  "name_in p q = (let d = join_path (canon p) []; n = drop (length d) q in
     if prefix d q \<and> n \<noteq> [] \<and> slash \<notin> set n then Some n else None)"

text \<open>
  The entries of a directory, each with whether it is a directory: itself and the one above, then its files
  and directories.
\<close>

definition names_in :: "bytes \<Rightarrow> bytes list \<Rightarrow> bytes list" where
  "names_in p qs = List.map_filter (name_in p) qs"

definition dir_entries :: "file_system \<Rightarrow> bytes \<Rightarrow> (bytes \<times> bool) list" where
  "dir_entries fs p = map (\<lambda>n. (n, False)) (names_in p (map fst (fs_files fs)))
     @ map (\<lambda>n. (n, True)) (names_in p (fs_dirs fs))"

definition dot_entries :: "(bytes \<times> bool) list" where
  "dot_entries = [(chars ''.'', True), (chars ''..'', True)]"

text \<open>
  \<open>access\<close> tells whether a path exists. Opening a file for writing creates it or makes it empty; its
  directory has to exist.
\<close>

definition exists_path :: "file_system \<Rightarrow> bytes \<Rightarrow> bool" where
  "exists_path fs p \<longleftrightarrow> fs_content fs p \<noteq> None \<or> is_dir fs p"

definition can_create :: "file_system \<Rightarrow> bytes \<Rightarrow> bool" where
  "can_create fs p \<longleftrightarrow> \<not> ends_slash p \<and> \<not> is_dir fs p \<and> is_dir fs (parent p)"

definition fopen_rb :: "os_env \<Rightarrow> bytes \<Rightarrow> file_system \<Rightarrow> nat \<times> file_system" where
  "fopen_rb os p fs =
     (let (e, _, fs) = sys os fs in (if e \<noteq> 0 then e else if exists_path fs p then 0 else ENOENT, fs))"

definition fopen_wb :: "os_env \<Rightarrow> bytes \<Rightarrow> file_system \<Rightarrow> nat \<times> file_system" where
  "fopen_wb os p fs =
     (let (e, _, fs) = sys os fs in
      if e \<noteq> 0 then (e, fs)
      else if can_create fs p then (0, fs_set p [] fs)
      else (if is_dir fs p then EISDIR else ENOENT, fs))"

text \<open>Reading at most \<open>n\<close> bytes of an open file; of a directory nothing.\<close>

definition fread :: "os_env \<Rightarrow> bytes \<Rightarrow> nat \<Rightarrow> file_system \<Rightarrow> bytes \<times> file_system" where
  "fread os p n fs =
     (let (e, k, fs) = sys os fs; c = (case fs_content fs p of Some c \<Rightarrow> c | None \<Rightarrow> []) in
      (take (if e \<noteq> 0 then min n k else n) c, fs))"

text \<open>Writing to a file that has just been opened for writing.\<close>

definition fwrite :: "os_env \<Rightarrow> bytes \<Rightarrow> bytes \<Rightarrow> file_system \<Rightarrow> nat \<times> file_system" where
  "fwrite os p buf fs =
     (let (e, k, fs) = sys os fs; k = (if e \<noteq> 0 then min k (length buf - 1) else length buf) in
      (k, fs_set p (take k buf) fs))"

definition stat_call :: "os_env \<Rightarrow> bytes \<Rightarrow> file_system \<Rightarrow> nat \<times> file_system" where
  "stat_call os p fs =
     (let (e, _, fs) = sys os fs in (if e \<noteq> 0 then e else if exists_path fs p then 0 else ENOENT, fs))"

definition unlink_call :: "os_env \<Rightarrow> bytes \<Rightarrow> file_system \<Rightarrow> nat \<times> file_system" where
  "unlink_call os p fs =
     (let (e, _, fs) = sys os fs in
      if e \<noteq> 0 then (e, fs)
      else if fs_content fs p \<noteq> None then (0, fs_unset p fs)
      else (if is_dir fs p then EISDIR else ENOENT, fs))"

definition mkdir_call :: "os_env \<Rightarrow> bytes \<Rightarrow> file_system \<Rightarrow> nat \<times> file_system" where
  "mkdir_call os p fs =
     (let (e, _, fs) = sys os fs in
      if e \<noteq> 0 then (e, fs)
      else if exists_path fs p then (EEXIST, fs)
      else if is_dir fs (parent (dir_name p)) then (0, fs\<lparr>fs_dirs := fs_dirs fs @ [dir_name p]\<rparr>)
      else (ENOENT, fs))"

text \<open>\<open>remove\<close> of a file, or of a directory if it is empty.\<close>

definition remove_call :: "os_env \<Rightarrow> bytes \<Rightarrow> file_system \<Rightarrow> nat \<times> file_system" where
  "remove_call os p fs =
     (let (e, _, fs) = sys os fs in
      if e \<noteq> 0 then (e, fs)
      else if fs_content fs p \<noteq> None then (0, fs_unset p fs)
      else if \<not> is_dir fs p then (ENOENT, fs)
      else if dir_entries fs p \<noteq> [] then (ENOTEMPTY, fs)
      else (0, fs\<lparr>fs_dirs := removeAll (dir_name p) (fs_dirs fs)\<rparr>))"

text \<open>An open directory is the list of its entries as they were when it was opened.\<close>

type_synonym dir_stream = "(bytes \<times> bool) list"

definition opendir :: "os_env \<Rightarrow> bytes \<Rightarrow> file_system \<Rightarrow> dir_stream ptr \<times> file_system" where
  "opendir os p fs =
     (let (e, _, fs) = sys os fs in (if e = 0 \<and> is_dir fs p then Some (dot_entries @ dir_entries fs p) else NULL, fs))"

section \<open>Names and paths\<close>

abbreviation (input) HKS_MAX_FILE_NAME_LEN :: nat where "HKS_MAX_FILE_NAME_LEN \<equiv> 512"
abbreviation (input) HKS_MAX_DIRENT_FILE_LEN :: nat where "HKS_MAX_DIRENT_FILE_LEN \<equiv> 128"

definition GetFileName :: "bytes ptr \<Rightarrow> bytes \<Rightarrow> nat \<Rightarrow> bytes res" where
  "GetFileName path fileName fullFileNameLen =
     (case path of
        Some path \<Rightarrow>
          (case strncpy_s fullFileNameLen path of
             None \<Rightarrow> Inl HKS_ERROR_INTERNAL_ERROR
           | Some full \<Rightarrow>
               (case (if \<not> ends_slash path then strncat_s fullFileNameLen full [slash] else Some full) of
                  None \<Rightarrow> Inl HKS_ERROR_INTERNAL_ERROR
                | Some full \<Rightarrow>
                    (case strncat_s fullFileNameLen full fileName of
                       None \<Rightarrow> Inl HKS_ERROR_INTERNAL_ERROR | Some full \<Rightarrow> Inr full)))
      | NULL \<Rightarrow>
          (case strncpy_s fullFileNameLen fileName of
             None \<Rightarrow> Inl HKS_ERROR_INTERNAL_ERROR | Some full \<Rightarrow> Inr full))"

definition GetFullFileName :: "allocator \<Rightarrow> bytes ptr \<Rightarrow> bytes \<Rightarrow> bytes res" where
  "GetFullFileName alloc path fileName =
     (if \<not> HksMalloc alloc HKS_MAX_FILE_NAME_LEN then Inl HKS_ERROR_MALLOC_FAIL
      else GetFileName path fileName HKS_MAX_FILE_NAME_LEN)"

definition IsValidPath :: "bytes ptr \<Rightarrow> rc" where
  "IsValidPath path =
     (case path of NULL \<Rightarrow> HKS_ERROR_NULL_POINTER
      | Some path \<Rightarrow> if strstr path (chars ''../'') then HKS_ERROR_INVALID_ARGUMENT else HKS_SUCCESS)"

definition IsFileExist :: "file_system \<Rightarrow> bytes \<Rightarrow> rc" where
  "IsFileExist fs fileName = (if \<not> exists_path fs fileName then HKS_ERROR_NOT_EXIST else HKS_SUCCESS)"

section \<open>Reading and writing a file\<close>

text \<open>The bytes read into a buffer of \<open>n\<close> bytes. \<open>size\<close> is the length of the result.\<close>

definition FileRead :: "os_env \<Rightarrow> bytes \<Rightarrow> u32 \<Rightarrow> file_system \<Rightarrow> bytes res \<times> file_system" where
  "FileRead os fileName n fs =
     (if IsFileExist fs fileName \<noteq> HKS_SUCCESS then (Inl HKS_ERROR_NOT_EXIST, fs)
      else if strstr fileName (chars ''../'') then (Inl HKS_ERROR_INVALID_ARGUMENT, fs)
      else
        let (e, _, fs) = sys os fs in
        if e \<noteq> 0 then (Inl HKS_ERROR_INVALID_ARGUMENT, fs)
        else
          let (e, fs) = fopen_rb os fileName fs in
          if e = REQUIRED_KEY_NOT_AVAILABLE then (Inl HKS_ERROR_NO_PERMISSION, fs)
          else if e \<noteq> 0 then (Inl HKS_ERROR_OPEN_FILE_FAIL, fs)
          else
            let (c, fs) = fread os fileName (unat n) fs; (e, _, fs) = sys os fs in
            if e \<noteq> 0 then (Inl HKS_ERROR_CLOSE_FILE_FAIL, fs) else (Inr c, fs))"

definition FileSize :: "os_env \<Rightarrow> bytes \<Rightarrow> file_system \<Rightarrow> u32 \<times> file_system" where
  "FileSize os fileName fs =
     (if IsFileExist fs fileName \<noteq> HKS_SUCCESS then (0, fs)
      else
        let (e, fs) = stat_call os fileName fs in
        if e \<noteq> 0 then (0, fs)
        else (word_of_nat (case fs_content fs fileName of Some c \<Rightarrow> length c | None \<Rightarrow> os_dir_size os), fs))"

text \<open>
  \<open>GetRealPath\<close> only reports; its caller goes on, and \<open>realpath\<close> does not change the path. Closing the
  file after a failure has no result.
\<close>

definition GetRealPath :: "bytes \<Rightarrow> rc" where
  "GetRealPath fileName =
     (if strstr fileName (chars ''../'') then HKS_ERROR_INVALID_KEY_FILE else HKS_SUCCESS)"

definition write_steps :: "os_env \<Rightarrow> bytes \<Rightarrow> bytes \<Rightarrow> file_system \<Rightarrow> rc \<times> file_system" where
  "write_steps os filePath buf fs =
     (let (size, fs) = fwrite os filePath buf fs in
      if size \<noteq> length buf then (HKS_ERROR_WRITE_FILE_FAIL, fs)
      else
        let (e, _, fs) = sys os fs in
        if e \<noteq> 0 then (HKS_ERROR_WRITE_FILE_FAIL, fs)
        else
          let (e, _, fs) = sys os fs in
          if e \<noteq> 0 then (HKS_ERROR_WRITE_FILE_FAIL, fs)
          else
            let (e, _, fs) = sys os fs in
            if e \<noteq> 0 then (HKS_ERROR_WRITE_FILE_FAIL, fs)
            else
              let (e, _, fs) = sys os fs in
              if e \<noteq> 0 then (HKS_ERROR_CLOSE_FILE_FAIL, fs) else (HKS_SUCCESS, fs))"

definition FileWrite :: "os_env \<Rightarrow> bytes \<Rightarrow> bytes \<Rightarrow> file_system \<Rightarrow> rc \<times> file_system" where
  "FileWrite os fileName buf fs =
     (let ret = GetRealPath fileName; (e, fs) = fopen_wb os fileName fs in
      if e = REQUIRED_KEY_NOT_AVAILABLE then (HKS_ERROR_NO_PERMISSION, fs)
      else if e \<noteq> 0 then (HKS_ERROR_OPEN_FILE_FAIL, fs)
      else
        let (e, _, fs) = sys os fs in
        if e \<noteq> 0 then (HKS_ERROR_OPEN_FILE_FAIL, fs) else write_steps os fileName buf fs)"

definition FileRemove :: "os_env \<Rightarrow> bytes \<Rightarrow> file_system \<Rightarrow> rc \<times> file_system" where
  "FileRemove os fileName fs =
     (if IsFileExist fs fileName \<noteq> HKS_SUCCESS then (HKS_SUCCESS, fs)
      else
        let (e, fs) = stat_call os fileName fs in
        if e \<noteq> 0 then (HKS_ERROR_INTERNAL_ERROR, fs)
        else if is_dir fs fileName then (HKS_ERROR_INVALID_ARGUMENT, fs)
        else
          let (e, fs) = unlink_call os fileName fs in
          if e \<noteq> 0 \<and> e \<noteq> ENOENT then (HKS_ERROR_REMOVE_FILE_FAIL, fs) else (HKS_SUCCESS, fs))"

section \<open>Operations by directory and name\<close>

definition HksFileRemove ::
    "os_env \<Rightarrow> allocator \<Rightarrow> bytes ptr \<Rightarrow> bytes ptr \<Rightarrow> file_system \<Rightarrow> rc \<times> file_system" where
  "HksFileRemove os alloc path fileName fs =
     (case fileName of NULL \<Rightarrow> (HKS_ERROR_INVALID_ARGUMENT, fs)
      | Some fileName \<Rightarrow>
          (case GetFullFileName alloc path fileName of Inl ret \<Rightarrow> (ret, fs)
           | Inr fullFileName \<Rightarrow>
               if IsValidPath (Some fullFileName) \<noteq> HKS_SUCCESS then (HKS_ERROR_INVALID_ARGUMENT, fs)
               else FileRemove os fullFileName fs))"

definition HksIsFileExist :: "allocator \<Rightarrow> bytes ptr \<Rightarrow> bytes ptr \<Rightarrow> file_system \<Rightarrow> rc" where
  "HksIsFileExist alloc path fileName fs =
     (case fileName of NULL \<Rightarrow> HKS_ERROR_NULL_POINTER
      | Some fileName \<Rightarrow>
          try_rc (GetFullFileName alloc path fileName) (\<lambda>fullFileName.
            if IsValidPath (Some fullFileName) \<noteq> HKS_SUCCESS then HKS_ERROR_INVALID_ARGUMENT
            else IsFileExist fs fullFileName))"

definition HksIsDirExist :: "bytes ptr \<Rightarrow> file_system \<Rightarrow> rc" where
  "HksIsDirExist path fs =
     (case path of NULL \<Rightarrow> HKS_ERROR_NULL_POINTER
      | Some p \<Rightarrow> if IsValidPath path \<noteq> HKS_SUCCESS then HKS_ERROR_INVALID_ARGUMENT else IsFileExist fs p)"

definition HksMakeDir :: "os_env \<Rightarrow> bytes \<Rightarrow> file_system \<Rightarrow> rc \<times> file_system" where
  "HksMakeDir os path fs =
     (if IsValidPath (Some path) \<noteq> HKS_SUCCESS then (HKS_ERROR_INVALID_ARGUMENT, fs)
      else
        let (e, fs) = mkdir_call os path fs in
        (if e = 0 then HKS_SUCCESS else if e = EEXIST then HKS_ERROR_ALREADY_EXISTS
         else HKS_ERROR_MAKE_DIR_FAIL, fs))"

definition HksFileRead ::
    "os_env \<Rightarrow> allocator \<Rightarrow> bytes ptr \<Rightarrow> bytes ptr \<Rightarrow> HksBlob ptr \<Rightarrow> file_system \<Rightarrow> bytes res \<times> file_system" where
  "HksFileRead os alloc path fileName blob fs =
     (case (fileName, blob) of
        (Some fileName, Some blob) \<Rightarrow>
          if blob_data blob = NULL \<or> blob_size blob = 0 then (Inl HKS_ERROR_INVALID_ARGUMENT, fs)
          else
            (case GetFullFileName alloc path fileName of Inl ret \<Rightarrow> (Inl ret, fs)
             | Inr fullFileName \<Rightarrow>
                 if IsValidPath (Some fullFileName) \<noteq> HKS_SUCCESS then (Inl HKS_ERROR_INVALID_ARGUMENT, fs)
                 else FileRead os fullFileName (blob_size blob) fs)
      | _ \<Rightarrow> (Inl HKS_ERROR_INVALID_ARGUMENT, fs))"

text \<open>\<open>buf\<close> is the \<open>len\<close> bytes to write.\<close>

definition HksFileWrite ::
    "os_env \<Rightarrow> allocator \<Rightarrow> bytes ptr \<Rightarrow> bytes ptr \<Rightarrow> bytes ptr \<Rightarrow> file_system \<Rightarrow> rc \<times> file_system" where
  "HksFileWrite os alloc path fileName buf fs =
     (case (fileName, buf) of
        (Some fileName, Some buf) \<Rightarrow>
          if length buf = 0 then (HKS_ERROR_INVALID_ARGUMENT, fs)
          else
            (case GetFullFileName alloc path fileName of Inl ret \<Rightarrow> (ret, fs)
             | Inr fullFileName \<Rightarrow>
                 if IsValidPath (Some fullFileName) \<noteq> HKS_SUCCESS then (HKS_ERROR_INVALID_ARGUMENT, fs)
                 else FileWrite os fullFileName buf fs)
      | _ \<Rightarrow> (HKS_ERROR_INVALID_ARGUMENT, fs))"

definition HksFileSize ::
    "os_env \<Rightarrow> allocator \<Rightarrow> bytes ptr \<Rightarrow> bytes ptr \<Rightarrow> file_system \<Rightarrow> u32 \<times> file_system" where
  "HksFileSize os alloc path fileName fs =
     (case fileName of NULL \<Rightarrow> (0, fs)
      | Some fileName \<Rightarrow>
          (case GetFullFileName alloc path fileName of Inl ret \<Rightarrow> (0, fs)
           | Inr fullFileName \<Rightarrow>
               if IsValidPath (Some fullFileName) \<noteq> HKS_SUCCESS then (0, fs)
               else FileSize os fullFileName fs))"

definition HksGetFileName :: "bytes ptr \<Rightarrow> bytes \<Rightarrow> nat \<Rightarrow> bytes res" where
  "HksGetFileName path fileName fullFileNameLen = GetFileName path fileName fullFileNameLen"

section \<open>Directories\<close>

definition HksOpenDir :: "os_env \<Rightarrow> bytes \<Rightarrow> file_system \<Rightarrow> dir_stream ptr \<times> file_system" where
  "HksOpenDir os path fs =
     (if IsValidPath (Some path) \<noteq> HKS_SUCCESS then (NULL, fs) else opendir os path fs)"

text \<open>The next regular file of the directory; names have room for 127 bytes.\<close>

fun HksGetDirFile :: "dir_stream \<Rightarrow> bytes res \<times> dir_stream" where
  "HksGetDirFile [] = (Inl HKS_ERROR_NOT_EXIST, [])"
| "HksGetDirFile ((name, isDir) # dir) =
     (if isDir then HksGetDirFile dir
      else (case memcpy_s (HKS_MAX_DIRENT_FILE_LEN - 1) (Some name) (length name) of
              None \<Rightarrow> (Inl HKS_ERROR_INSUFFICIENT_MEMORY, dir)
            | Some fileName \<Rightarrow> (Inr fileName, dir)))"

fun remove_files_loop ::
    "os_env \<Rightarrow> allocator \<Rightarrow> bytes \<Rightarrow> dir_stream \<Rightarrow> file_system \<Rightarrow> file_system" where
  "remove_files_loop os alloc dirPath [] fs = fs"
| "remove_files_loop os alloc dirPath ((name, isDir) # dir) fs =
     (if isDir then remove_files_loop os alloc dirPath dir fs
      else
        let (ret, fs) = HksFileRemove os alloc (Some dirPath) (Some name) fs in
        remove_files_loop os alloc dirPath dir fs)"

definition HksRemoveDir :: "os_env \<Rightarrow> allocator \<Rightarrow> bytes \<Rightarrow> file_system \<Rightarrow> rc \<times> file_system" where
  "HksRemoveDir os alloc dirPath fs =
     (if IsValidPath (Some dirPath) \<noteq> HKS_SUCCESS then (HKS_ERROR_INVALID_ARGUMENT, fs)
      else
        let (e, fs) = stat_call os dirPath fs in
        if e \<noteq> 0 then (HKS_FAILURE, fs)
        else if \<not> is_dir fs dirPath then (HKS_FAILURE, fs)
        else
          let (dir, fs) = opendir os dirPath fs in
          case dir of NULL \<Rightarrow> (HKS_ERROR_OPEN_FILE_FAIL, fs)
          | Some dir \<Rightarrow> (HKS_SUCCESS, remove_files_loop os alloc dirPath dir fs))"

text \<open>
  The three functions that delete a tree of at most three levels have the same loop, which differs in what
  it does with a directory. \<open>deletePath\<close> has room for 512 bytes.
\<close>

definition delete_path :: "bytes \<Rightarrow> bytes \<Rightarrow> bytes option" where
  "delete_path path name =
     (case strncpy_s HKS_MAX_FILE_NAME_LEN path of None \<Rightarrow> None
      | Some p \<Rightarrow>
          (case (if \<not> ends_slash p then strncat_s HKS_MAX_FILE_NAME_LEN p [slash] else Some p) of None \<Rightarrow> None
           | Some p \<Rightarrow> strncat_s HKS_MAX_FILE_NAME_LEN p name))"

fun delete_loop ::
    "os_env \<Rightarrow> (bytes \<Rightarrow> file_system \<Rightarrow> rc \<times> file_system) \<Rightarrow> bytes \<Rightarrow> dir_stream \<Rightarrow> file_system
     \<Rightarrow> rc \<times> file_system" where
  "delete_loop os deleteSub path [] fs = (HKS_SUCCESS, fs)"
| "delete_loop os deleteSub path ((name, isDir) # dir) fs =
     (case delete_path path name of None \<Rightarrow> (HKS_ERROR_INTERNAL_ERROR, fs)
      | Some deletePath \<Rightarrow>
          let fs = (if isDir \<and> name \<noteq> chars ''..'' \<and> name \<noteq> chars ''.'' then snd (deleteSub deletePath fs)
            else if \<not> isDir then snd (remove_call os deletePath fs) else fs) in
          delete_loop os deleteSub path dir fs)"

text \<open>Whether \<open>remove\<close> of the directory itself worked: its result is 0 or -1.\<close>

definition remove_result :: "nat \<Rightarrow> rc" where
  "remove_result e = (if e = 0 then HKS_SUCCESS else -1)"

definition delete_dir ::
    "os_env \<Rightarrow> (bytes \<Rightarrow> file_system \<Rightarrow> rc \<times> file_system) \<Rightarrow> bytes \<Rightarrow> file_system \<Rightarrow> rc \<times> file_system" where
  "delete_dir os deleteSub path fs =
     (let (dir, fs) = opendir os path fs in
      case dir of NULL \<Rightarrow> (HKS_ERROR_OPEN_FILE_FAIL, fs)
      | Some dir \<Rightarrow>
          let (ret, fs) = delete_loop os deleteSub path dir fs in
          if ret \<noteq> HKS_SUCCESS then (ret, fs)
          else let (e, fs) = remove_call os path fs in (remove_result e, fs))"

definition HksDeletDirPartTwo :: "os_env \<Rightarrow> bytes \<Rightarrow> file_system \<Rightarrow> rc \<times> file_system" where
  "HksDeletDirPartTwo os path fs =
     delete_dir os (\<lambda>p fs. let (e, fs) = remove_call os p fs in (remove_result e, fs)) path fs"

definition HksDeletDirPartOne :: "os_env \<Rightarrow> bytes \<Rightarrow> file_system \<Rightarrow> rc \<times> file_system" where
  "HksDeletDirPartOne os path fs = delete_dir os (HksDeletDirPartTwo os) path fs"

definition HksDeleteDir :: "os_env \<Rightarrow> bytes \<Rightarrow> file_system \<Rightarrow> rc \<times> file_system" where
  "HksDeleteDir os path fs =
     (if IsValidPath (Some path) \<noteq> HKS_SUCCESS then (HKS_ERROR_INVALID_ARGUMENT, fs)
      else delete_dir os (HksDeletDirPartOne os) path fs)"

end
