(* ===== verification/Huks_Storage_Utils.thy ===== *)
theory Huks_Storage_Utils
  imports Huks_File Huks_Session
begin

text \<open>
  Names and paths of stored keys, \<open>hks_storage/src/hks_storage_utils.c\<close>: a key of alias \<open>a\<close> of a
  process is a file whose name encodes \<open>a\<close> in a directory named after the storage level, the user and the
  process, with a second copy in a directory for backups.
\<close>

section \<open>Names\<close>

definition ConstructInvalidCharacter :: "u8 \<Rightarrow> u8" where
  "ConstructInvalidCharacter c =
     (if c = 0x3A then 0x23 else if c = 0x3C then 0x24 else if c = 0x3E then 0x25
      else if c = 0x3F then 0x26 else if c = 0x5C then 0x28 else if c = 0x7C then 0x29 else c)"

definition ResumeInvalidCharacter :: "u8 \<Rightarrow> u8" where
  "ResumeInvalidCharacter c =
     (if c = 0x23 then 0x3A else if c = 0x24 then 0x3C else if c = 0x25 then 0x3E
      else if c = 0x26 then 0x3F else if c = 0x28 then 0x5C else if c = 0x29 then 0x7C else c)"

text \<open>\<open>printf\<close> of a signed 32-bit integer.\<close>

fun digits :: "nat \<Rightarrow> bytes" where
  "digits n = (if n < 10 then [0x30 + word_of_nat n] else digits (n div 10) @ [0x30 + word_of_nat (n mod 10)])"

declare digits.simps [simp del]

definition decimal :: "u32 \<Rightarrow> bytes" where
  "decimal w = (if sint w < 0 then 0x2D # digits (nat (- sint w)) else digits (nat (sint w)))"

text \<open>
  \<open>sprintf_s\<close> fails when the text and its final zero do not fit; the code takes an empty text for a
  failure too.
\<close>

definition sprintf_s :: "nat \<Rightarrow> bytes \<Rightarrow> bytes option" where
  "sprintf_s destMax s = (if length s < destMax \<and> s \<noteq> [] then Some s else None)"

text \<open>
  The characters that are written to the buffer \<open>targetName\<close>, which is zero after them. Two characters can
  be written where room for one was checked, so that the buffer can be full without a final zero.
\<close>

fun plain_name_loop :: "nat \<Rightarrow> bytes \<Rightarrow> bytes \<Rightarrow> bytes res" where
  "plain_name_loop nameLen [] target = Inr target"
| "plain_name_loop nameLen (b # bs) target =
     (if length target \<ge> nameLen - 1 then Inl HKS_ERROR_INSUFFICIENT_DATA
      else plain_name_loop nameLen bs (target @ [ConstructInvalidCharacter b]))"

definition name_bytes :: "HksBlob \<Rightarrow> bytes" where
  "name_bytes b = take (unat (blob_size b)) (case blob_data b of NULL \<Rightarrow> [] | Some d \<Rightarrow> d)"

definition ConstructPlainName :: "HksBlob \<Rightarrow> nat \<Rightarrow> bytes res" where
  "ConstructPlainName blob nameLen =
     (if blob_size blob = 4 then
        (case sprintf_s nameLen (decimal (of_le (name_bytes blob))) of
           None \<Rightarrow> Inl HKS_ERROR_INSUFFICIENT_MEMORY | Some name \<Rightarrow> Inr name)
      else if nameLen \<le> 1 then Inl HKS_ERROR_INVALID_ARGUMENT
      else plain_name_loop nameLen (name_bytes blob) [])"

definition encode_byte :: "u8 \<Rightarrow> bytes" where
  "encode_byte b =
     (if b < 0x30 \<or> b > 0x7E
      then [0x2B + drop_bit 6 b, ConstructInvalidCharacter (0x30 + (b AND 0x3F))]
      else [ConstructInvalidCharacter b])"

fun name_loop :: "nat \<Rightarrow> bytes \<Rightarrow> bytes \<Rightarrow> bytes res" where
  "name_loop nameLen [] target = Inr target"
| "name_loop nameLen (b # bs) target =
     (if length target \<ge> nameLen - 1 then Inl HKS_ERROR_INSUFFICIENT_DATA
      else name_loop nameLen bs (target @ encode_byte b))"

definition ConstructName :: "HksBlob \<Rightarrow> nat \<Rightarrow> bytes res" where
  "ConstructName blob nameLen =
     (if nameLen \<le> 1 then Inl HKS_ERROR_INVALID_ARGUMENT else name_loop nameLen (name_bytes blob) [])"

fun decode_loop :: "bytes \<Rightarrow> bytes \<Rightarrow> bytes res" where
  "decode_loop [] out = Inr out"
| "decode_loop (c # cs) out =
     (if c \<ge> 0x2B \<and> c \<le> 0x2E then
        (case cs of [] \<Rightarrow> Inl HKS_ERROR_INVALID_KEY_FILE
         | d # ds \<Rightarrow> decode_loop ds (out @ [push_bit 6 (c - 0x2B) + (ResumeInvalidCharacter d - 0x30)]))
      else decode_loop cs (out @ [ResumeInvalidCharacter c]))"

text \<open>The bytes that are copied to a blob of \<open>blobSize\<close> bytes.\<close>

definition ConstructBlob :: "allocator \<Rightarrow> bytes \<Rightarrow> nat \<Rightarrow> bytes res" where
  "ConstructBlob alloc src blobSize =
     (if \<not> HksMalloc alloc (length src) then Inl HKS_ERROR_MALLOC_FAIL
      else try_res (decode_loop src []) (\<lambda>out.
        if blobSize < length out then Inl HKS_ERROR_BUFFER_TOO_SMALL else Inr out))"

section \<open>Paths\<close>

abbreviation (input) HKS_STORAGE_BAK_FLAG_TRUE :: u32 where "HKS_STORAGE_BAK_FLAG_TRUE \<equiv> 1"
abbreviation (input) HKS_STORAGE_BAK_FLAG_FLASE :: u32 where "HKS_STORAGE_BAK_FLAG_FLASE \<equiv> 0"

definition HKS_KEY_STORE_PATH :: bytes where
  "HKS_KEY_STORE_PATH = chars ''/data/service/el1/public/huks_service/maindata''"
definition HKS_KEY_STORE_BAK_PATH :: bytes where
  "HKS_KEY_STORE_BAK_PATH = chars ''/data/service/el1/public/huks_service/bakdata''"
definition HKS_KEY_STORE_TMP_PATH :: bytes where
  "HKS_KEY_STORE_TMP_PATH = chars ''/data/service/el1/public/huks_service/tmp''"
definition HKS_CE_ROOT_PATH :: bytes where "HKS_CE_ROOT_PATH = chars ''/data/service/el2''"
definition HKS_ECE_ROOT_PATH :: bytes where "HKS_ECE_ROOT_PATH = chars ''/data/service/el4''"
definition HKS_STORE_SERVICE_PATH :: bytes where
  "HKS_STORE_SERVICE_PATH = chars ''huks_service/maindata''"
definition HKS_STORE_SERVICE_BAK_PATH :: bytes where
  "HKS_STORE_SERVICE_BAK_PATH = chars ''huks_service/bakdata''"
definition HKS_KEY_STORE_KEY_PATH :: bytes where "HKS_KEY_STORE_KEY_PATH = chars ''key''"
definition HKS_KEY_STORE_ROOT_KEY_PATH :: bytes where "HKS_KEY_STORE_ROOT_KEY_PATH = chars ''info''"

definition GetPath :: "bytes \<Rightarrow> bytes \<Rightarrow> nat \<Rightarrow> u32 \<Rightarrow> bytes res" where
  "GetPath path name pathLen bakFlag =
     (case strncpy_s pathLen path of None \<Rightarrow> Inl HKS_ERROR_BAD_STATE
      | Some target \<Rightarrow>
          if length target \<le> 0 then Inl HKS_ERROR_INTERNAL_ERROR
          else
            (case (if \<not> ends_slash target then strncat_s pathLen target [slash] else Some target) of
               None \<Rightarrow> Inl HKS_ERROR_INTERNAL_ERROR
             | Some target \<Rightarrow>
                 (case strncat_s pathLen target name of None \<Rightarrow> Inl HKS_ERROR_BAD_STATE
                  | Some target \<Rightarrow>
                      if bakFlag = HKS_STORAGE_BAK_FLAG_TRUE then
                        (case strncat_s pathLen target (chars ''.bak'') of
                           None \<Rightarrow> Inl HKS_ERROR_BAD_STATE | Some target \<Rightarrow> Inr target)
                      else Inr target)))"

record HksStoreInfo =
  si_path :: bytes
  si_fileName :: bytes

record HksStoreFileInfo =
  mainPath :: HksStoreInfo
  bakPath :: HksStoreInfo

datatype HksPathType = DE_PATH | CE_PATH | ECE_PATH | TMP_PATH

record HksStoreMaterial =
  sm_pathType :: HksPathType
  sm_userIdPath :: bytes
  sm_uidPath :: bytes
  sm_storageTypePath :: bytes
  sm_keyAliasPath :: "bytes ptr"

text \<open>The four buffers of a file info: the codes are added up.\<close>

definition DataInit :: "allocator \<Rightarrow> nat \<Rightarrow> rc" where
  "DataInit alloc n = (if \<not> HksMalloc alloc n then HKS_ERROR_MALLOC_FAIL else HKS_SUCCESS)"

definition FileInfoInit :: "allocator \<Rightarrow> rc" where
  "FileInfoInit alloc =
     DataInit alloc HKS_MAX_FILE_NAME_LEN + DataInit alloc HKS_MAX_FILE_NAME_LEN
     + DataInit alloc HKS_MAX_FILE_NAME_LEN + DataInit alloc HKS_MAX_FILE_NAME_LEN"

section \<open>Logging an operation\<close>

abbreviation (input) KEY_OPERATION_SAVE :: u32 where "KEY_OPERATION_SAVE \<equiv> 0"
abbreviation (input) KEY_OPERATION_GET :: u32 where "KEY_OPERATION_GET \<equiv> 1"
abbreviation (input) KEY_OPERATION_DELETE :: u32 where "KEY_OPERATION_DELETE \<equiv> 2"

text \<open>The name as it is logged, with stars for its middle.\<close>

definition anonymous_name :: "bytes \<Rightarrow> bytes" where
  "anonymous_name keyAlias =
     (let keyAliasLen = length keyAlias; anoyLen = (keyAliasLen + 1) div 2; suffixLen = anoyLen div 2 in
      map (\<lambda>i. if i \<noteq> 0 \<and> keyAliasLen < i + 1 + anoyLen + suffixLen \<and> i + 1 + suffixLen \<le> keyAliasLen
        then 0x2A else keyAlias ! i) [0..<keyAliasLen])"

definition RecordKeyOperation :: "allocator \<Rightarrow> u32 \<Rightarrow> bytes \<Rightarrow> bytes \<Rightarrow> bytes res" where
  "RecordKeyOperation alloc operation path keyAlias =
     (if \<not> HksMalloc alloc (length keyAlias + 1) then Inl HKS_ERROR_MALLOC_FAIL
      else if operation \<in> {KEY_OPERATION_SAVE, KEY_OPERATION_GET, KEY_OPERATION_DELETE}
      then Inr (anonymous_name keyAlias)
      else Inl HKS_ERROR_INVALID_ARGUMENT)"

section \<open>Lists of file names\<close>

record HksFileEntry =
  fe_fileName :: bytes
  fe_fileNameLen :: nat

definition FileNameListInit :: "allocator \<Rightarrow> nat \<Rightarrow> HksFileEntry list res" where
  "FileNameListInit alloc keyCount =
     (if keyCount > 0xFFFFFFFF div 16 \<or> keyCount = 0 then Inl HKS_ERROR_BUFFER_TOO_SMALL
      else if \<not> HksMalloc alloc (keyCount * 16) then Inl HKS_ERROR_MALLOC_FAIL
      else if \<not> HksMalloc alloc HKS_MAX_FILE_NAME_LEN then Inl HKS_ERROR_MALLOC_FAIL
      else Inr (replicate keyCount \<lparr>fe_fileName = [], fe_fileNameLen = HKS_MAX_FILE_NAME_LEN\<rparr>))"

section \<open>Users and storage levels\<close>

abbreviation (input) HKS_ROOT_USER_UPPERBOUND :: int where "HKS_ROOT_USER_UPPERBOUND \<equiv> 100"
abbreviation (input) HKS_AUTH_STORAGE_LEVEL_OLD_DE_TMP :: u32 where
  "HKS_AUTH_STORAGE_LEVEL_OLD_DE_TMP \<equiv> 99"

definition CheckIfBothTagExist :: "HksParam \<Rightarrow> HksParam \<Rightarrow> rc" where
  "CheckIfBothTagExist storageLevel specificUserId =
     (let level = uint32Param (p_val storageLevel); userId = sint (uint32Param (p_val specificUserId)) in
      if level = HKS_AUTH_STORAGE_LEVEL_DE then
        (if userId < 0 then HKS_ERROR_INVALID_ARGUMENT else HKS_SUCCESS)
      else if userId < HKS_ROOT_USER_UPPERBOUND then HKS_ERROR_INVALID_ARGUMENT else HKS_SUCCESS)"

definition CheckIfOnlyStorageLevelTagExist :: "HksProcessInfo \<Rightarrow> HksParam \<Rightarrow> rc" where
  "CheckIfOnlyStorageLevelTagExist processInfo storageLevel =
     (let level = uint32Param (p_val storageLevel) in
      if level \<noteq> HKS_AUTH_STORAGE_LEVEL_DE \<and> level \<noteq> HKS_AUTH_STORAGE_LEVEL_OLD_DE_TMP
         \<and> sint (pi_userIdInt processInfo) < HKS_ROOT_USER_UPPERBOUND
      then HKS_ERROR_INVALID_ARGUMENT else HKS_SUCCESS)"

definition CheckSpecificUserIdAndStorageLevel :: "HksProcessInfo \<Rightarrow> HksParamSet ptr \<Rightarrow> rc" where
  "CheckSpecificUserIdAndStorageLevel processInfo paramSet =
     (if paramSet = NULL then HKS_ERROR_INVALID_ARGUMENT
      else
        case (HksGetParam paramSet HKS_TAG_AUTH_STORAGE_LEVEL, HksGetParam paramSet HKS_TAG_SPECIFIC_USER_ID) of
          (Inr storageLevel, Inr specificUserId) \<Rightarrow> CheckIfBothTagExist storageLevel specificUserId
        | (Inr storageLevel, Inl _) \<Rightarrow> CheckIfOnlyStorageLevelTagExist processInfo storageLevel
        | _ \<Rightarrow> HKS_SUCCESS)"

section \<open>Making the directories\<close>

text \<open>The round at index \<open>i\<close> sees the first \<open>i\<close> bytes of the path.\<close>

fun make_dir_loop :: "os_env \<Rightarrow> bytes \<Rightarrow> nat list \<Rightarrow> file_system \<Rightarrow> rc \<times> file_system" where
  "make_dir_loop os path [] fs = (HKS_SUCCESS, fs)"
| "make_dir_loop os path (i # is) fs =
     (if path ! i = slash then
        let curPath = take i path in
        if HksIsDirExist (Some curPath) fs = HKS_SUCCESS then make_dir_loop os path is fs
        else
          let (ret, fs) = HksMakeDir os curPath fs in
          if ret \<noteq> HKS_SUCCESS \<and> ret \<noteq> HKS_ERROR_ALREADY_EXISTS then (ret, fs)
          else make_dir_loop os path is fs
      else make_dir_loop os path is fs)"

definition HksMakeFullDir :: "os_env \<Rightarrow> allocator \<Rightarrow> bytes \<Rightarrow> file_system \<Rightarrow> rc \<times> file_system" where
  "HksMakeFullDir os alloc path fs =
     (if \<not> HksMalloc alloc (length path + 1) then (HKS_ERROR_MALLOC_FAIL, fs)
      else
        let (ret, fs) = make_dir_loop os path [1..<length path] fs in
        if ret \<noteq> HKS_SUCCESS then (ret, fs)
        else
          let (ret, fs) = HksMakeDir os path fs in
          (if ret = HKS_ERROR_ALREADY_EXISTS then HKS_SUCCESS else ret, fs))"

text \<open>The loop writes the path over itself, leaving out every slash that follows a slash.\<close>

fun standardize_loop :: "bytes \<Rightarrow> nat list \<Rightarrow> nat \<Rightarrow> bytes \<times> nat" where
  "standardize_loop path [] index = (path, index)"
| "standardize_loop path (i # is) index =
     (if path ! i \<noteq> slash \<or> path ! (i - 1) \<noteq> slash
      then standardize_loop (path[index := path ! i]) is (index + 1)
      else standardize_loop path is index)"

definition StandardizePath :: "bytes \<Rightarrow> bytes" where
  "StandardizePath path =
     (let (path, index) = standardize_loop path [1..<length path] 1 in take index path)"

section \<open>Where a key is stored\<close>

definition CheckUserPathExist :: "HksPathType \<Rightarrow> bytes \<Rightarrow> file_system \<Rightarrow> rc" where
  "CheckUserPathExist pathType userIdPath fs =
     (case sprintf_s HKS_MAX_DIRENT_FILE_LEN
          ((if pathType = CE_PATH then HKS_CE_ROOT_PATH else HKS_ECE_ROOT_PATH) @ slash # userIdPath) of
        None \<Rightarrow> HKS_ERROR_INSUFFICIENT_MEMORY
      | Some userPath \<Rightarrow>
          if HksIsDirExist (Some userPath) fs = HKS_SUCCESS then HKS_SUCCESS else HKS_ERROR_NO_PERMISSION)"

definition ConstructPath :: "HksStoreMaterial \<Rightarrow> bytes \<Rightarrow> bytes \<Rightarrow> file_system \<Rightarrow> bytes res" where
  "ConstructPath material deDataPath ceOrEceDataPath fs =
     (let below = (\<lambda>root. root @ slash # sm_userIdPath material @ slash # sm_uidPath material @ slash
            # sm_storageTypePath material);
          below_user = (\<lambda>root. root @ slash # sm_userIdPath material @ slash # ceOrEceDataPath @ slash
            # sm_uidPath material @ slash # sm_storageTypePath material);
          print = (\<lambda>s. case sprintf_s HKS_MAX_DIRENT_FILE_LEN s of
            None \<Rightarrow> Inl HKS_ERROR_INSUFFICIENT_MEMORY | Some p \<Rightarrow> Inr p) in
      case sm_pathType material of
        DE_PATH \<Rightarrow> print (below deDataPath)
      | CE_PATH \<Rightarrow>
          let ret = CheckUserPathExist CE_PATH (sm_userIdPath material) fs in
          if_not_succ_return ret (Inl ret) (print (below_user HKS_CE_ROOT_PATH))
      | ECE_PATH \<Rightarrow>
          let ret = CheckUserPathExist ECE_PATH (sm_userIdPath material) fs in
          if_not_succ_return ret (Inl ret) (print (below_user HKS_ECE_ROOT_PATH))
      | TMP_PATH \<Rightarrow> print (below HKS_KEY_STORE_TMP_PATH))"

definition GetPathInfo ::
    "os_env \<Rightarrow> allocator \<Rightarrow> HksStoreMaterial \<Rightarrow> bytes \<Rightarrow> bytes \<Rightarrow> file_system \<Rightarrow> HksStoreInfo res \<times> file_system"
  where
  "GetPathInfo os alloc material deDataPath ceOrEceDataPath fs =
     (let isUserPath = (sm_pathType material = CE_PATH \<or> sm_pathType material = ECE_PATH) in
      case ConstructPath material deDataPath ceOrEceDataPath fs of Inl ret \<Rightarrow> (Inl ret, fs)
      | Inr path \<Rightarrow>
          let path = StandardizePath path; (ret, fs) = HksMakeFullDir os alloc path fs in
          if ret \<noteq> HKS_SUCCESS then (Inl (if isUserPath then HKS_ERROR_NO_PERMISSION else ret), fs)
          else
            case sm_keyAliasPath material of NULL \<Rightarrow> (Inr \<lparr>si_path = path, si_fileName = []\<rparr>, fs)
            | Some keyAliasPath \<Rightarrow>
                if strstr keyAliasPath (chars ''../'') then (Inl HKS_ERROR_INVALID_ARGUMENT, fs)
                else
                  case memcpy_s HKS_MAX_FILE_NAME_LEN (Some keyAliasPath) (length keyAliasPath) of
                    None \<Rightarrow> (Inl HKS_ERROR_INSUFFICIENT_MEMORY, fs)
                  | Some fileName \<Rightarrow> (Inr \<lparr>si_path = path, si_fileName = fileName\<rparr>, fs))"

definition HksGetFileInfo ::
    "os_env \<Rightarrow> allocator \<Rightarrow> HksStoreMaterial \<Rightarrow> file_system \<Rightarrow> HksStoreFileInfo res \<times> file_system" where
  "HksGetFileInfo os alloc material fs =
     (let ret = FileInfoInit alloc in
      if ret \<noteq> HKS_SUCCESS then (Inl ret, fs)
      else
        case GetPathInfo os alloc material HKS_KEY_STORE_PATH HKS_STORE_SERVICE_PATH fs of
          (Inl ret, fs) \<Rightarrow> (Inl ret, fs)
        | (Inr main, fs) \<Rightarrow>
            case GetPathInfo os alloc material HKS_KEY_STORE_BAK_PATH HKS_STORE_SERVICE_BAK_PATH fs of
              (Inl ret, fs) \<Rightarrow> (Inl ret, fs)
            | (Inr bak, fs) \<Rightarrow> (Inr \<lparr>mainPath = main, bakPath = bak\<rparr>, fs))"

end
