(* ===== verification/Huks_Storage.thy ===== *)
theory Huks_Storage
  imports Huks_Storage_Utils Huks_Ipc_Unpack
begin

text \<open>
  Storing, reading, deleting and listing the files of keys, \<open>hks_storage/src/hks_storage.c\<close>, and the storage as
  the service calls it, \<open>hks_storage_manager.c\<close>.
\<close>

text \<open>
  The surroundings: the operating system, the allocator, the moving of files to the directories of a storage
  level (\<open>HksTransferFileIfNeed\<close>, C++), random numbers of the engine by the number of the system calls
  so far, and what other threads do to the files between counting and listing them.
\<close>

record storage_env =
  se_os :: os_env
  se_alloc :: allocator
  se_transfer :: "u32 \<Rightarrow> u32 \<Rightarrow> file_system \<Rightarrow> file_system"
  se_random :: "nat \<Rightarrow> u32 \<Rightarrow> bytes res"
  se_other :: "file_system \<Rightarrow> file_system"

abbreviation (input) HKS_MAX_FILE_SIZE :: u32 where "HKS_MAX_FILE_SIZE \<equiv> 10240"

section \<open>Files under their locks\<close>

text \<open>
  What these operations do to the files between taking the lock of the file and giving it back. The locks
  themselves, and threads that take them, are in \<open>Huks_File_Lock\<close>.
\<close>

definition HksStorageWriteFile ::
    "storage_env \<Rightarrow> HksStoreInfo \<Rightarrow> bytes ptr \<Rightarrow> file_system \<Rightarrow> rc \<times> file_system" where
  "HksStorageWriteFile env info buf fs =
     HksFileWrite (se_os env) (se_alloc env) (Some (si_path info)) (Some (si_fileName info)) buf fs"

definition HksStorageReadFile ::
    "storage_env \<Rightarrow> HksStoreInfo \<Rightarrow> HksBlob \<Rightarrow> file_system \<Rightarrow> bytes res \<times> file_system" where
  "HksStorageReadFile env info blob fs =
     HksFileRead (se_os env) (se_alloc env) (Some (si_path info)) (Some (si_fileName info)) (Some blob) fs"

definition file_size :: "storage_env \<Rightarrow> HksStoreInfo \<Rightarrow> file_system \<Rightarrow> u32 \<times> file_system" where
  "file_size env info fs =
     HksFileSize (se_os env) (se_alloc env) (Some (si_path info)) (Some (si_fileName info)) fs"

definition file_exists :: "storage_env \<Rightarrow> HksStoreInfo \<Rightarrow> file_system \<Rightarrow> rc" where
  "file_exists env info fs = HksIsFileExist (se_alloc env) (Some (si_path info)) (Some (si_fileName info)) fs"

definition CleanFile :: "storage_env \<Rightarrow> HksStoreInfo \<Rightarrow> file_system \<Rightarrow> rc \<times> file_system" where
  "CleanFile env info fs =
     (let (n, fs) = file_size env info fs in
      if n = 0 \<or> n > HKS_MAX_FILE_SIZE then (HKS_ERROR_FILE_SIZE_FAIL, fs)
      else if \<not> HksMalloc (se_alloc env) (unat n) then (HKS_ERROR_MALLOC_FAIL, fs)
      else
        let (ret, fs) = HksStorageWriteFile env info (Some (replicate (unat n) 0)) fs in
        if ret \<noteq> HKS_SUCCESS then (ret, fs)
        else
          let (ret, fs) = HksStorageWriteFile env info (Some (replicate (unat n) 1)) fs in
          if ret \<noteq> HKS_SUCCESS then (ret, fs)
          else
            case se_random env (fs_calls fs) n of Inl ret \<Rightarrow> (ret, fs)
            | Inr buf \<Rightarrow> HksStorageWriteFile env info (Some buf) fs)"

definition HksStorageRemoveFile :: "storage_env \<Rightarrow> HksStoreInfo \<Rightarrow> file_system \<Rightarrow> rc \<times> file_system" where
  "HksStorageRemoveFile env info fs =
     (let (ret, fs) = CleanFile env info fs in
      HksFileRemove (se_os env) (se_alloc env) (Some (si_path info)) (Some (si_fileName info)) fs)"

definition CopyKeyBlobFromSrc ::
    "storage_env \<Rightarrow> HksStoreInfo \<Rightarrow> HksStoreInfo \<Rightarrow> file_system \<Rightarrow> rc \<times> file_system" where
  "CopyKeyBlobFromSrc env src dest fs =
     (let (n, fs) = file_size env src fs in
      if n = 0 then (HKS_ERROR_FILE_SIZE_FAIL, fs)
      else if \<not> HksMalloc (se_alloc env) (unat n) then (HKS_ERROR_MALLOC_FAIL, fs)
      else
        case HksStorageReadFile env src \<lparr>blob_size = n, blob_data = Some (replicate (unat n) 0)\<rparr> fs of
          (Inl ret, fs) \<Rightarrow>
            (if ret = HKS_ERROR_NO_PERMISSION then ret else HKS_ERROR_READ_FILE_FAIL, fs)
        | (Inr buffer, fs) \<Rightarrow> HksStorageWriteFile env dest (Some buffer) fs)"

section \<open>One key\<close>

text \<open>The blob that is read: its size becomes the number of bytes.\<close>

definition GetKeyBlobFromFile ::
    "storage_env \<Rightarrow> HksStoreInfo \<Rightarrow> HksBlob \<Rightarrow> file_system \<Rightarrow> HksBlob res \<times> file_system" where
  "GetKeyBlobFromFile env info keyBlob fs =
     (let (n, fs) = file_size env info fs in
      if n = 0 then (Inl HKS_ERROR_FILE_SIZE_FAIL, fs)
      else if blob_size keyBlob < n then (Inl HKS_ERROR_INSUFFICIENT_DATA, fs)
      else
        case HksStorageReadFile env info keyBlob fs of
          (Inl ret, fs) \<Rightarrow>
            (Inl (if ret = HKS_ERROR_NO_PERMISSION then ret else HKS_ERROR_READ_FILE_FAIL), fs)
        | (Inr c, fs) \<Rightarrow> (Inr \<lparr>blob_size = word_of_nat (length c), blob_data = Some c\<rparr>, fs))"

definition DeleteKeyBlob :: "storage_env \<Rightarrow> HksStoreFileInfo \<Rightarrow> file_system \<Rightarrow> rc \<times> file_system" where
  "DeleteKeyBlob env fileInfo fs =
     (let isMainFileExist = file_exists env (mainPath fileInfo) fs;
          isBakFileExist = file_exists env (bakPath fileInfo) fs in
      if isMainFileExist \<noteq> HKS_SUCCESS \<and> isBakFileExist \<noteq> HKS_SUCCESS then (HKS_ERROR_NOT_EXIST, fs)
      else
        let (ret, fs) = (if isBakFileExist = HKS_SUCCESS then HksStorageRemoveFile env (bakPath fileInfo) fs
          else (HKS_SUCCESS, fs)) in
        if ret \<noteq> HKS_SUCCESS then (ret, fs)
        else if isMainFileExist = HKS_SUCCESS then HksStorageRemoveFile env (mainPath fileInfo) fs
        else (HKS_ERROR_NOT_EXIST, fs))"

definition GetKeyBlob ::
    "storage_env \<Rightarrow> HksStoreInfo \<Rightarrow> HksBlob \<Rightarrow> file_system \<Rightarrow> HksBlob res \<times> file_system" where
  "GetKeyBlob env info keyBlob fs =
     (if file_exists env info fs \<noteq> HKS_SUCCESS then (Inl HKS_ERROR_NOT_EXIST, fs)
      else GetKeyBlobFromFile env info keyBlob fs)"

definition GetKeyBlobSize :: "storage_env \<Rightarrow> HksStoreInfo \<Rightarrow> file_system \<Rightarrow> u32 res \<times> file_system" where
  "GetKeyBlobSize env info fs =
     (if file_exists env info fs \<noteq> HKS_SUCCESS then (Inl HKS_ERROR_NOT_EXIST, fs)
      else
        let (n, fs) = file_size env info fs in
        (if n = 0 then Inl HKS_ERROR_FILE_SIZE_FAIL else Inr n, fs))"

definition IsKeyBlobExist :: "storage_env \<Rightarrow> HksStoreFileInfo \<Rightarrow> file_system \<Rightarrow> rc \<times> file_system" where
  "IsKeyBlobExist env fileInfo fs =
     (if file_exists env (mainPath fileInfo) fs \<noteq> HKS_SUCCESS then
        if file_exists env (bakPath fileInfo) fs \<noteq> HKS_SUCCESS then (HKS_ERROR_NOT_EXIST, fs)
        else
          let (ret, fs) = CopyKeyBlobFromSrc env (bakPath fileInfo) (mainPath fileInfo) fs in
          (HKS_SUCCESS, fs)
      else (HKS_SUCCESS, fs))"

text \<open>A blob is written with the size it states.\<close>

definition file_bytes :: "HksBlob \<Rightarrow> bytes ptr" where
  "file_bytes keyBlob = map_option (take (unat (blob_size keyBlob))) (blob_data keyBlob)"

definition HksStoreKeyBlob ::
    "storage_env \<Rightarrow> HksStoreFileInfo \<Rightarrow> HksBlob \<Rightarrow> file_system \<Rightarrow> rc \<times> file_system" where
  "HksStoreKeyBlob env fileInfo keyBlob fs =
     (case RecordKeyOperation (se_alloc env) KEY_OPERATION_SAVE (si_path (mainPath fileInfo))
          (si_fileName (mainPath fileInfo)) of
        Inl ret \<Rightarrow> (ret, fs)
      | Inr _ \<Rightarrow>
          let (ret, fs) = HksStorageWriteFile env (mainPath fileInfo) (file_bytes keyBlob) fs in
          if ret \<noteq> HKS_SUCCESS then (ret, fs)
          else (ret, snd (HksStorageWriteFile env (bakPath fileInfo) (file_bytes keyBlob) fs)))"

definition HksStoreDeleteKeyBlob :: "storage_env \<Rightarrow> HksStoreFileInfo \<Rightarrow> file_system \<Rightarrow> rc \<times> file_system" where
  "HksStoreDeleteKeyBlob env fileInfo fs =
     (case RecordKeyOperation (se_alloc env) KEY_OPERATION_DELETE (si_path (mainPath fileInfo))
          (si_fileName (mainPath fileInfo)) of
        Inl ret \<Rightarrow> (ret, fs)
      | Inr _ \<Rightarrow> DeleteKeyBlob env fileInfo fs)"

definition HksStoreIsKeyBlobExist :: "storage_env \<Rightarrow> HksStoreFileInfo \<Rightarrow> file_system \<Rightarrow> rc \<times> file_system" where
  "HksStoreIsKeyBlobExist env fileInfo fs = IsKeyBlobExist env fileInfo fs"

definition HksStoreGetKeyBlob ::
    "storage_env \<Rightarrow> HksStoreInfo \<Rightarrow> HksBlob \<Rightarrow> file_system \<Rightarrow> HksBlob res \<times> file_system" where
  "HksStoreGetKeyBlob env info keyBlob fs =
     (case RecordKeyOperation (se_alloc env) KEY_OPERATION_GET (si_path info) (si_fileName info) of
        Inl ret \<Rightarrow> (Inl ret, fs)
      | Inr _ \<Rightarrow> GetKeyBlob env info keyBlob fs)"

definition HksStoreGetKeyBlobSize :: "storage_env \<Rightarrow> HksStoreInfo \<Rightarrow> file_system \<Rightarrow> u32 res \<times> file_system" where
  "HksStoreGetKeyBlobSize env info fs = GetKeyBlobSize env info fs"

section \<open>All keys of a process\<close>

lemma HksGetDirFile_shorter: "HksGetDirFile dir = (Inr name, dir') \<Longrightarrow> length dir' < length dir"
  by (induction dir rule: HksGetDirFile.induct) (auto split: if_splits option.splits)

function count_files :: "dir_stream \<Rightarrow> nat \<Rightarrow> nat" where
  "count_files dir count =
     (case HksGetDirFile dir of (Inl _, _) \<Rightarrow> count | (Inr name, dir') \<Rightarrow> count_files dir' (count + 1))"
  by auto
termination
  by (relation "measure (\<lambda>(dir, count). length dir)") (auto dest!: sym [THEN HksGetDirFile_shorter])

declare count_files.simps [simp del]

definition GetFileCount :: "storage_env \<Rightarrow> bytes \<Rightarrow> file_system \<Rightarrow> nat \<times> file_system" where
  "GetFileCount env path fs =
     (case HksOpenDir (se_os env) path fs of
        (NULL, fs) \<Rightarrow> (0, fs)
      | (Some dir, fs) \<Rightarrow> (count_files dir 0, fs))"

text \<open>\<open>fileCount\<close> entries have been allocated; \<open>count\<close> counts also a file that finds no place.\<close>

function list_files :: "dir_stream \<Rightarrow> HksFileEntry list \<Rightarrow> nat \<Rightarrow> nat \<Rightarrow> HksFileEntry list \<times> nat" where
  "list_files dir fileNameList fileCount count =
     (case HksGetDirFile dir of
        (Inl _, _) \<Rightarrow> (fileNameList, count)
      | (Inr name, dir') \<Rightarrow>
          let count = count + 1 in
          if fileCount < count \<or> fe_fileNameLen (fileNameList ! (count - 1)) < length name + 1
          then (fileNameList, count)
          else
            case strncpy_s (fe_fileNameLen (fileNameList ! (count - 1))) name of
              None \<Rightarrow> (fileNameList, count)
            | Some fileName \<Rightarrow>
                list_files dir' (fileNameList[count - 1 := (fileNameList ! (count - 1))\<lparr>fe_fileName := fileName\<rparr>])
                  fileCount count)"
  by auto
termination
  by (relation "measure (\<lambda>(dir, _). length dir)") (auto dest!: sym [THEN HksGetDirFile_shorter])

declare list_files.simps [simp del]

definition GetFileNameList ::
    "storage_env \<Rightarrow> bytes \<Rightarrow> HksFileEntry list \<Rightarrow> nat \<Rightarrow> file_system \<Rightarrow> (HksFileEntry list \<times> nat) \<times> file_system"
  where
  "GetFileNameList env path fileNameList fileCount fs =
     (case HksOpenDir (se_os env) path fs of
        (NULL, fs) \<Rightarrow> ((fileNameList, 0), fs)
      | (Some dir, fs) \<Rightarrow> (list_files dir fileNameList fileCount 0, fs))"

definition GetAndCheckFileCount :: "storage_env \<Rightarrow> bytes \<Rightarrow> nat \<Rightarrow> file_system \<Rightarrow> nat res \<times> file_system" where
  "GetAndCheckFileCount env path inputCount fs =
     (let (fileCount, fs) = GetFileCount env path fs in
      (if inputCount < fileCount then Inl HKS_ERROR_BUFFER_TOO_SMALL else Inr fileCount, fs))"

text \<open>
  The aliases of the files, in place of those of the first entries of \<open>keyInfoList\<close>. No result at all means
  that the loop runs past the end of a list.
\<close>

fun alias_loop ::
    "allocator \<Rightarrow> HksFileEntry list \<Rightarrow> nat list \<Rightarrow> HksKeyInfo list \<Rightarrow> HksKeyInfo list res option" where
  "alias_loop alloc fileNameList [] keyInfoList = Some (Inr keyInfoList)"
| "alias_loop alloc fileNameList (i # is) keyInfoList =
     (if i \<ge> length fileNameList \<or> i \<ge> length keyInfoList then None
      else
        case ConstructBlob alloc (fe_fileName (fileNameList ! i)) (unat (blob_size (ki_alias (keyInfoList ! i)))) of
          Inl ret \<Rightarrow> Some (Inl ret)
        | Inr out \<Rightarrow>
            alias_loop alloc fileNameList is (keyInfoList[i := (keyInfoList ! i)
              \<lparr>ki_alias := \<lparr>blob_size = word_of_nat (length out), blob_data = Some out\<rparr>\<rparr>]))"

definition GetKeyAliasByProcessName ::
    "storage_env \<Rightarrow> HksStoreFileInfo \<Rightarrow> HksKeyInfo list \<Rightarrow> nat \<Rightarrow> file_system
     \<Rightarrow> (HksKeyInfo list \<times> nat) res option \<times> file_system" where
  "GetKeyAliasByProcessName env fileInfo keyInfoList listCount fs =
     (case GetAndCheckFileCount env (si_path (mainPath fileInfo)) listCount fs of
        (Inl ret, fs) \<Rightarrow> (Some (Inl ret), fs)
      | (Inr fileCount, fs) \<Rightarrow>
          if fileCount = 0 then (Some (Inr (keyInfoList, 0)), fs)
          else
            case FileNameListInit (se_alloc env) fileCount of Inl ret \<Rightarrow> (Some (Inl ret), fs)
            | Inr fileNameList \<Rightarrow>
                let ((fileNameList, realFileCount), fs) =
                      GetFileNameList env (si_path (mainPath fileInfo)) fileNameList fileCount (se_other env fs) in
                (case alias_loop (se_alloc env) fileNameList [0..<realFileCount] keyInfoList of
                   None \<Rightarrow> None
                 | Some (Inl ret) \<Rightarrow> Some (Inl ret)
                 | Some (Inr keyInfoList) \<Rightarrow> Some (Inr (keyInfoList, realFileCount)), fs))"

definition HksGetKeyAliasByProcessName ::
    "storage_env \<Rightarrow> HksStoreFileInfo \<Rightarrow> HksKeyInfo list \<Rightarrow> nat \<Rightarrow> file_system
     \<Rightarrow> (HksKeyInfo list \<times> nat) res option \<times> file_system" where
  "HksGetKeyAliasByProcessName env fileInfo keyInfoList listCount fs =
     GetKeyAliasByProcessName env fileInfo keyInfoList listCount fs"

definition HksGetKeyCountByProcessName :: "storage_env \<Rightarrow> HksStoreFileInfo \<Rightarrow> file_system \<Rightarrow> nat \<times> file_system"
  where
  "HksGetKeyCountByProcessName env fileInfo fs = GetFileCount env (si_path (mainPath fileInfo)) fs"

fun alias_set_loop :: "allocator \<Rightarrow> HksFileEntry list \<Rightarrow> HksBlob list \<Rightarrow> HksBlob list res" where
  "alias_set_loop alloc [] out = Inr out"
| "alias_set_loop alloc (entry # entries) out =
     (if \<not> HksMalloc alloc (length (fe_fileName entry)) then Inl HKS_ERROR_MALLOC_FAIL
      else try_res (ConstructBlob alloc (fe_fileName entry) (length (fe_fileName entry))) (\<lambda>b.
        alias_set_loop alloc entries (out @ [\<lparr>blob_size = word_of_nat (length b), blob_data = Some b\<rparr>])))"

definition GetHksKeyAliasSet :: "allocator \<Rightarrow> HksFileEntry list \<Rightarrow> HksKeyAliasSet ptr res" where
  "GetHksKeyAliasSet alloc fileNameList =
     (let fileCount = length fileNameList in
      if fileCount = 0 then Inr NULL
      else if \<not> HksMalloc alloc 16 then Inl HKS_ERROR_MALLOC_FAIL
      else if \<not> HksMalloc alloc (fileCount * 16) then Inl HKS_ERROR_MALLOC_FAIL
      else try_res (alias_set_loop alloc fileNameList []) (\<lambda>aliases.
        Inr (Some \<lparr>aliasesCnt = word_of_nat fileCount, aliases = aliases\<rparr>)))"

definition GetHksFileEntry ::
    "storage_env \<Rightarrow> HksStoreFileInfo \<Rightarrow> file_system \<Rightarrow> HksFileEntry list ptr res \<times> file_system" where
  "GetHksFileEntry env fileInfo fs =
     (let (fileCount, fs) = GetFileCount env (si_path (mainPath fileInfo)) fs in
      if fileCount = 0 then (Inr NULL, fs)
      else if fileCount > 2048 then (Inl HKS_ERROR_BUFFER_TOO_SMALL, fs)
      else
        case FileNameListInit (se_alloc env) fileCount of Inl ret \<Rightarrow> (Inl ret, fs)
        | Inr fileNameList \<Rightarrow>
            let ((fileNameList, realfileCount), fs) =
                  GetFileNameList env (si_path (mainPath fileInfo)) fileNameList fileCount (se_other env fs) in
            (if realfileCount < fileCount then Inr NULL else Inr (Some fileNameList), fs))"

definition HksListAliasesByProcessName ::
    "storage_env \<Rightarrow> HksStoreFileInfo \<Rightarrow> file_system \<Rightarrow> HksKeyAliasSet ptr res \<times> file_system" where
  "HksListAliasesByProcessName env fileInfo fs =
     (case GetHksFileEntry env fileInfo fs of
        (Inl ret, fs) \<Rightarrow> (Inl ret, fs)
      | (Inr NULL, fs) \<Rightarrow> (Inr NULL, fs)
      | (Inr (Some fileNameList), fs) \<Rightarrow> (GetHksKeyAliasSet (se_alloc env) fileNameList, fs))"

section \<open>Deleting directories\<close>

definition DestroyType ::
    "storage_env \<Rightarrow> bytes \<Rightarrow> bytes \<Rightarrow> u32 \<Rightarrow> file_system \<Rightarrow> rc \<times> file_system" where
  "DestroyType env storePath typePath bakFlag fs =
     (if \<not> HksMalloc (se_alloc env) HKS_MAX_FILE_NAME_LEN then (HKS_ERROR_MALLOC_FAIL, fs)
      else
        case GetPath storePath typePath HKS_MAX_FILE_NAME_LEN bakFlag of Inl ret \<Rightarrow> (ret, fs)
        | Inr destroyPath \<Rightarrow>
            if HksIsDirExist (Some destroyPath) fs \<noteq> HKS_SUCCESS then (HKS_SUCCESS, fs)
            else HksRemoveDir (se_os env) (se_alloc env) destroyPath fs)"

definition StoreDestroy :: "storage_env \<Rightarrow> bytes \<Rightarrow> u32 \<Rightarrow> file_system \<Rightarrow> rc \<times> file_system" where
  "StoreDestroy env processNameEncoded bakFlag fs =
     (let rootPath = (if bakFlag = HKS_STORAGE_BAK_FLAG_TRUE then HKS_KEY_STORE_BAK_PATH else HKS_KEY_STORE_PATH) in
      if \<not> HksMalloc (se_alloc env) HKS_MAX_FILE_NAME_LEN then (HKS_ERROR_MALLOC_FAIL, fs)
      else
        case GetPath rootPath processNameEncoded HKS_MAX_FILE_NAME_LEN bakFlag of Inl ret \<Rightarrow> (ret, fs)
        | Inr storePath \<Rightarrow>
            let (ret, fs) = DestroyType env storePath HKS_KEY_STORE_ROOT_KEY_PATH bakFlag fs;
                (ret, fs) = DestroyType env storePath HKS_KEY_STORE_KEY_PATH bakFlag fs in
            (HKS_SUCCESS, fs))"

definition HksStoreDestroy :: "storage_env \<Rightarrow> HksBlob \<Rightarrow> file_system \<Rightarrow> rc \<times> file_system" where
  "HksStoreDestroy env processName fs =
     (if \<not> HksMalloc (se_alloc env) HKS_MAX_FILE_NAME_LEN then (HKS_ERROR_MALLOC_FAIL, fs)
      else
        case ConstructName processName HKS_MAX_FILE_NAME_LEN of Inl ret \<Rightarrow> (ret, fs)
        | Inr name \<Rightarrow>
            let (ret, fs) = StoreDestroy env name HKS_STORAGE_BAK_FLAG_FLASE fs in
            if ret \<noteq> HKS_SUCCESS then (ret, fs)
            else StoreDestroy env name HKS_STORAGE_BAK_FLAG_TRUE fs)"

text \<open>Each directory whose path fits in 128 bytes is deleted, whatever happened to the one before.\<close>

definition delete_printed :: "storage_env \<Rightarrow> bytes \<Rightarrow> file_system \<Rightarrow> file_system" where
  "delete_printed env p fs =
     (case sprintf_s HKS_MAX_DIRENT_FILE_LEN p of None \<Rightarrow> fs | Some path \<Rightarrow> snd (HksDeleteDir (se_os env) path fs))"

definition DeleteUserIdMainPathAndBakPath ::
    "storage_env \<Rightarrow> bytes \<Rightarrow> bytes \<Rightarrow> bytes \<Rightarrow> file_system \<Rightarrow> file_system" where
  "DeleteUserIdMainPathAndBakPath env userData deDataPath ceOrEceDataPath fs =
     (let fs = delete_printed env (deDataPath @ slash # userData) fs;
          fs = delete_printed env (HKS_CE_ROOT_PATH @ slash # userData @ slash # ceOrEceDataPath) fs in
      delete_printed env (HKS_ECE_ROOT_PATH @ slash # userData @ slash # ceOrEceDataPath) fs)"

definition DeleteUserIdPath :: "storage_env \<Rightarrow> HksBlob \<Rightarrow> file_system \<Rightarrow> file_system" where
  "DeleteUserIdPath env userId fs =
     (if \<not> HksMalloc (se_alloc env) HKS_MAX_FILE_NAME_LEN then fs
      else
        case ConstructPlainName userId HKS_MAX_FILE_NAME_LEN of Inl ret \<Rightarrow> fs
        | Inr name \<Rightarrow>
            let userData = c_str name;
                fs = DeleteUserIdMainPathAndBakPath env userData HKS_KEY_STORE_PATH HKS_STORE_SERVICE_PATH fs in
            DeleteUserIdMainPathAndBakPath env userData HKS_KEY_STORE_BAK_PATH HKS_STORE_SERVICE_BAK_PATH fs)"

definition DeleteUidMainPathAndBakPath ::
    "storage_env \<Rightarrow> bytes \<Rightarrow> bytes \<Rightarrow> bytes \<Rightarrow> bytes \<Rightarrow> file_system \<Rightarrow> file_system" where
  "DeleteUidMainPathAndBakPath env userData uidData deDataPath ceOrEceDataPath fs =
     (let fs = delete_printed env (deDataPath @ slash # userData @ slash # uidData) fs;
          fs = delete_printed env
            (HKS_CE_ROOT_PATH @ slash # userData @ slash # ceOrEceDataPath @ slash # uidData) fs in
      delete_printed env (HKS_ECE_ROOT_PATH @ slash # userData @ slash # ceOrEceDataPath @ slash # uidData) fs)"

definition DeleteUidPath :: "storage_env \<Rightarrow> HksProcessInfo \<Rightarrow> file_system \<Rightarrow> file_system" where
  "DeleteUidPath env processInfo fs =
     (if \<not> HksMalloc (se_alloc env) HKS_MAX_FILE_NAME_LEN then fs
      else
        case (ConstructPlainName (pi_userId processInfo) HKS_MAX_FILE_NAME_LEN,
              ConstructPlainName (pi_processName processInfo) HKS_MAX_FILE_NAME_LEN) of
          (Inr user, Inr uid) \<Rightarrow>
            let userData = c_str user; uidData = c_str uid;
                fs = DeleteUidMainPathAndBakPath env userData uidData HKS_KEY_STORE_PATH HKS_STORE_SERVICE_PATH fs in
            DeleteUidMainPathAndBakPath env userData uidData HKS_KEY_STORE_BAK_PATH HKS_STORE_SERVICE_BAK_PATH fs
        | _ \<Rightarrow> fs)"

definition HksServiceDeleteUserIDKeyAliasFile :: "storage_env \<Rightarrow> HksBlob \<Rightarrow> file_system \<Rightarrow> file_system" where
  "HksServiceDeleteUserIDKeyAliasFile env userId fs =
     (if \<not> HksMalloc (se_alloc env) HKS_MAX_FILE_NAME_LEN then fs
      else
        case ConstructName userId HKS_MAX_FILE_NAME_LEN of Inl ret \<Rightarrow> fs
        | Inr userData \<Rightarrow>
            case sprintf_s HKS_MAX_DIRENT_FILE_LEN (HKS_KEY_STORE_PATH @ slash # userData) of None \<Rightarrow> fs
            | Some userProcess \<Rightarrow>
                let (ret, fs) = HksDeleteDir (se_os env) userProcess fs in DeleteUserIdPath env userId fs)"

definition HksServiceDeleteUIDKeyAliasFile :: "storage_env \<Rightarrow> HksProcessInfo \<Rightarrow> file_system \<Rightarrow> file_system"
  where
  "HksServiceDeleteUIDKeyAliasFile env processInfo fs =
     (if \<not> HksMalloc (se_alloc env) HKS_MAX_FILE_NAME_LEN then fs
      else
        case (if pi_userIdInt processInfo \<noteq> 0 then ConstructName (pi_userId processInfo) HKS_MAX_FILE_NAME_LEN
              else Inr []) of Inl ret \<Rightarrow> fs
        | Inr userData \<Rightarrow>
            case ConstructName (pi_processName processInfo) HKS_MAX_FILE_NAME_LEN of Inl ret \<Rightarrow> fs
            | Inr uidData \<Rightarrow>
                case sprintf_s HKS_MAX_DIRENT_FILE_LEN (HKS_KEY_STORE_PATH @ slash # userData @ slash # uidData) of
                  None \<Rightarrow> fs
                | Some userProcess \<Rightarrow>
                    let (ret, fs) = HksDeleteDir (se_os env) userProcess fs in DeleteUidPath env processInfo fs)"

text \<open>
  The storage of keys as the service calls it, \<open>hks_storage/src/hks_storage_manager.c\<close>: from the process,
  the storage level and the user of a request to the files of a key, then the operation on them.
\<close>

abbreviation (input) HKS_STORAGE_TYPE_KEY :: u32 where "HKS_STORAGE_TYPE_KEY \<equiv> 0"
abbreviation (input) HKS_STORAGE_TYPE_ROOT_KEY :: u32 where "HKS_STORAGE_TYPE_ROOT_KEY \<equiv> 1"
abbreviation (input) HKS_STORAGE_TYPE_BAK_KEY :: u32 where "HKS_STORAGE_TYPE_BAK_KEY \<equiv> 2"

section \<open>The material of a path\<close>

text \<open>The storage level and the user, whose files may be moved first.\<close>

definition GetStorageLevelAndStoreUserIdParam ::
    "storage_env \<Rightarrow> HksProcessInfo \<Rightarrow> HksParamSet ptr \<Rightarrow> file_system \<Rightarrow> (u32 \<times> u32) res \<times> file_system" where
  "GetStorageLevelAndStoreUserIdParam env processInfo paramSet fs =
     (case (case HksGetParam paramSet HKS_TAG_SPECIFIC_USER_ID of
              Inr specificUserIdParam \<Rightarrow> Inr (uint32Param (p_val specificUserIdParam))
            | Inl ret \<Rightarrow>
                if ret = HKS_ERROR_PARAM_NOT_EXIST then Inr (pi_userIdInt processInfo) else Inl ret) of
        Inl ret \<Rightarrow> (Inl ret, fs)
      | Inr storeUserId \<Rightarrow>
          case HksGetParam paramSet HKS_TAG_AUTH_STORAGE_LEVEL of Inl ret \<Rightarrow> (Inl ret, fs)
          | Inr storageLevelParam \<Rightarrow>
              let storageLevel = uint32Param (p_val storageLevelParam) in
              (Inr (storageLevel, storeUserId), se_transfer env storageLevel storeUserId fs))"

text \<open>Each path is the string in a buffer that was zero. A full buffer is read up to its end.\<close>

definition GetKeyAliasPath :: "allocator \<Rightarrow> HksBlob ptr \<Rightarrow> bytes ptr res" where
  "GetKeyAliasPath alloc keyAlias =
     (case keyAlias of NULL \<Rightarrow> Inr NULL
      | Some keyAlias \<Rightarrow>
          if \<not> HksMalloc alloc HKS_MAX_FILE_NAME_LEN then Inl HKS_ERROR_MALLOC_FAIL
          else try_res (ConstructName keyAlias HKS_MAX_FILE_NAME_LEN) (\<lambda>name. Inr (Some (c_str name))))"

definition GetUserIdPath :: "allocator \<Rightarrow> u32 \<Rightarrow> bool \<Rightarrow> bytes res" where
  "GetUserIdPath alloc userId isPlain =
     (if \<not> HksMalloc alloc HKS_MAX_DIRENT_FILE_LEN then Inl HKS_ERROR_MALLOC_FAIL
      else
        let userIdBlob = \<lparr>blob_size = 4, blob_data = Some (to_le 4 userId)\<rparr> in
        if isPlain then
          try_res (ConstructPlainName userIdBlob HKS_MAX_FILE_NAME_LEN) (\<lambda>name. Inr (c_str name))
        else if userId = 0 then Inr []
        else try_res (ConstructName userIdBlob HKS_MAX_FILE_NAME_LEN) (\<lambda>name. Inr (c_str name)))"

definition GetUidPath :: "allocator \<Rightarrow> bool \<Rightarrow> HksBlob \<Rightarrow> bytes res" where
  "GetUidPath alloc isPlain processName =
     (if \<not> HksMalloc alloc HKS_MAX_DIRENT_FILE_LEN then Inl HKS_ERROR_MALLOC_FAIL
      else
        try_res (if isPlain then ConstructPlainName processName HKS_MAX_DIRENT_FILE_LEN
                 else ConstructName processName HKS_MAX_DIRENT_FILE_LEN) (\<lambda>name. Inr (c_str name)))"

definition GetStorageTypePath :: "allocator \<Rightarrow> u32 \<Rightarrow> bytes res" where
  "GetStorageTypePath alloc storageType =
     (if storageType = HKS_STORAGE_TYPE_KEY \<or> storageType = HKS_STORAGE_TYPE_BAK_KEY then
        (if \<not> HksMalloc alloc 5 then Inl HKS_ERROR_MALLOC_FAIL else Inr HKS_KEY_STORE_KEY_PATH)
      else if storageType = HKS_STORAGE_TYPE_ROOT_KEY then
        (if \<not> HksMalloc alloc 6 then Inl HKS_ERROR_MALLOC_FAIL else Inr HKS_KEY_STORE_ROOT_KEY_PATH)
      else Inl HKS_ERROR_BAD_STATE)"

definition GetIsPlainPath :: "u32 \<Rightarrow> bool" where
  "GetIsPlainPath storageLevel =
     (if storageLevel = HKS_AUTH_STORAGE_LEVEL_DE then True
      else if storageLevel = HKS_AUTH_STORAGE_LEVEL_CE then True
      else if storageLevel = HKS_AUTH_STORAGE_LEVEL_ECE then True
      else if storageLevel = HKS_AUTH_STORAGE_LEVEL_OLD_DE_TMP then False
      else False)"

text \<open>For an unknown level the type stays as it was initialised.\<close>

definition GetPathType :: "u32 \<Rightarrow> HksPathType" where
  "GetPathType storageLevel =
     (if storageLevel = HKS_AUTH_STORAGE_LEVEL_DE then DE_PATH
      else if storageLevel = HKS_AUTH_STORAGE_LEVEL_CE then CE_PATH
      else if storageLevel = HKS_AUTH_STORAGE_LEVEL_ECE then ECE_PATH
      else if storageLevel = HKS_AUTH_STORAGE_LEVEL_OLD_DE_TMP then TMP_PATH
      else DE_PATH)"

definition InitStorageMaterial ::
    "storage_env \<Rightarrow> HksProcessInfo \<Rightarrow> HksParamSet ptr \<Rightarrow> HksBlob ptr \<Rightarrow> u32 \<Rightarrow> file_system
     \<Rightarrow> HksStoreMaterial res \<times> file_system" where
  "InitStorageMaterial env processInfo paramSet keyAlias storageType fs =
     (case GetStorageLevelAndStoreUserIdParam env processInfo paramSet fs of
        (Inl ret, fs) \<Rightarrow> (Inl ret, fs)
      | (Inr (storageLevel, storeUserId), fs) \<Rightarrow>
          let isPlainPath = GetIsPlainPath storageLevel; alloc = se_alloc env in
          (try_res (GetUserIdPath alloc storeUserId isPlainPath) (\<lambda>userIdPath.
           try_res (GetUidPath alloc isPlainPath (pi_processName processInfo)) (\<lambda>uidPath.
           try_res (GetStorageTypePath alloc storageType) (\<lambda>storageTypePath.
           try_res (GetKeyAliasPath alloc keyAlias) (\<lambda>keyAliasPath.
             Inr \<lparr>sm_pathType = GetPathType storageLevel, sm_userIdPath = userIdPath, sm_uidPath = uidPath,
               sm_storageTypePath = storageTypePath, sm_keyAliasPath = keyAliasPath\<rparr>)))), fs))"

definition HksConstructStoreFileInfo ::
    "storage_env \<Rightarrow> HksProcessInfo \<Rightarrow> HksParamSet ptr \<Rightarrow> HksStoreMaterial \<Rightarrow> file_system
     \<Rightarrow> HksStoreFileInfo res \<times> file_system" where
  "HksConstructStoreFileInfo env processInfo paramSet material fs =
     (let ret = CheckSpecificUserIdAndStorageLevel processInfo paramSet in
      if ret \<noteq> HKS_SUCCESS then (Inl ret, fs)
      else HksGetFileInfo (se_os env) (se_alloc env) material fs)"

text \<open>The two steps that every operation begins with.\<close>

definition store_file_info ::
    "storage_env \<Rightarrow> HksProcessInfo \<Rightarrow> HksParamSet ptr \<Rightarrow> HksBlob ptr \<Rightarrow> u32 \<Rightarrow> file_system
     \<Rightarrow> HksStoreFileInfo res \<times> file_system" where
  "store_file_info env processInfo paramSet keyAlias storageType fs =
     (case InitStorageMaterial env processInfo paramSet keyAlias storageType fs of
        (Inl ret, fs) \<Rightarrow> (Inl ret, fs)
      | (Inr material, fs) \<Rightarrow> HksConstructStoreFileInfo env processInfo paramSet material fs)"

section \<open>The operations\<close>

definition HksManageStoreKeyBlob ::
    "storage_env \<Rightarrow> HksProcessInfo \<Rightarrow> HksParamSet ptr \<Rightarrow> HksBlob ptr \<Rightarrow> HksBlob \<Rightarrow> u32 \<Rightarrow> file_system
     \<Rightarrow> rc \<times> file_system" where
  "HksManageStoreKeyBlob env processInfo paramSet keyAlias keyBlob storageType fs =
     (case store_file_info env processInfo paramSet keyAlias storageType fs of
        (Inl ret, fs) \<Rightarrow> (ret, fs)
      | (Inr fileInfo, fs) \<Rightarrow> HksStoreKeyBlob env fileInfo keyBlob fs)"

definition HksManageStoreDeleteKeyBlob ::
    "storage_env \<Rightarrow> HksProcessInfo \<Rightarrow> HksParamSet ptr \<Rightarrow> HksBlob ptr \<Rightarrow> u32 \<Rightarrow> file_system
     \<Rightarrow> rc \<times> file_system" where
  "HksManageStoreDeleteKeyBlob env processInfo paramSet keyAlias storageType fs =
     (case store_file_info env processInfo paramSet keyAlias storageType fs of
        (Inl ret, fs) \<Rightarrow> (ret, fs)
      | (Inr fileInfo, fs) \<Rightarrow> HksStoreDeleteKeyBlob env fileInfo fs)"

definition HksManageStoreIsKeyBlobExist ::
    "storage_env \<Rightarrow> HksProcessInfo \<Rightarrow> HksParamSet ptr \<Rightarrow> HksBlob ptr \<Rightarrow> u32 \<Rightarrow> file_system
     \<Rightarrow> rc \<times> file_system" where
  "HksManageStoreIsKeyBlobExist env processInfo paramSet keyAlias storageType fs =
     (case store_file_info env processInfo paramSet keyAlias storageType fs of
        (Inl ret, fs) \<Rightarrow> (ret, fs)
      | (Inr fileInfo, fs) \<Rightarrow> HksStoreIsKeyBlobExist env fileInfo fs)"

definition HksManageStoreGetKeyBlob ::
    "storage_env \<Rightarrow> HksProcessInfo \<Rightarrow> HksParamSet ptr \<Rightarrow> HksBlob ptr \<Rightarrow> HksBlob \<Rightarrow> u32 \<Rightarrow> file_system
     \<Rightarrow> HksBlob res \<times> file_system" where
  "HksManageStoreGetKeyBlob env processInfo paramSet keyAlias keyBlob storageType fs =
     (case store_file_info env processInfo paramSet keyAlias storageType fs of
        (Inl ret, fs) \<Rightarrow> (Inl ret, fs)
      | (Inr fileInfo, fs) \<Rightarrow>
          if storageType \<noteq> HKS_STORAGE_TYPE_BAK_KEY then HksStoreGetKeyBlob env (mainPath fileInfo) keyBlob fs
          else
            case HksStoreGetKeyBlob env (bakPath fileInfo) keyBlob fs of
              (Inl ret, fs) \<Rightarrow> (Inl ret, fs)
            | (Inr keyBlob, fs) \<Rightarrow>
                (Inr keyBlob, snd (HksStorageWriteFile env (mainPath fileInfo) (file_bytes keyBlob) fs)))"

definition HksManageStoreGetKeyBlobSize ::
    "storage_env \<Rightarrow> HksProcessInfo \<Rightarrow> HksParamSet ptr \<Rightarrow> HksBlob ptr \<Rightarrow> u32 \<Rightarrow> file_system
     \<Rightarrow> u32 res \<times> file_system" where
  "HksManageStoreGetKeyBlobSize env processInfo paramSet keyAlias storageType fs =
     (case store_file_info env processInfo paramSet keyAlias storageType fs of
        (Inl ret, fs) \<Rightarrow> (Inl ret, fs)
      | (Inr fileInfo, fs) \<Rightarrow>
          if storageType \<noteq> HKS_STORAGE_TYPE_BAK_KEY then HksStoreGetKeyBlobSize env (mainPath fileInfo) fs
          else HksStoreGetKeyBlobSize env (bakPath fileInfo) fs)"

definition HksManageGetKeyAliasByProcessName ::
    "storage_env \<Rightarrow> HksProcessInfo \<Rightarrow> HksParamSet ptr \<Rightarrow> HksKeyInfo list \<Rightarrow> nat \<Rightarrow> file_system
     \<Rightarrow> (HksKeyInfo list \<times> nat) res option \<times> file_system" where
  "HksManageGetKeyAliasByProcessName env processInfo paramSet keyInfoList listCount fs =
     (case store_file_info env processInfo paramSet NULL HKS_STORAGE_TYPE_KEY fs of
        (Inl ret, fs) \<Rightarrow> (Some (Inl ret), fs)
      | (Inr fileInfo, fs) \<Rightarrow> HksGetKeyAliasByProcessName env fileInfo keyInfoList listCount fs)"

definition HksManageGetKeyCountByProcessName ::
    "storage_env \<Rightarrow> HksProcessInfo \<Rightarrow> HksParamSet ptr \<Rightarrow> file_system \<Rightarrow> nat res \<times> file_system" where
  "HksManageGetKeyCountByProcessName env processInfo paramSet fs =
     (case store_file_info env processInfo paramSet NULL HKS_STORAGE_TYPE_KEY fs of
        (Inl ret, fs) \<Rightarrow> (Inl ret, fs)
      | (Inr fileInfo, fs) \<Rightarrow> let (n, fs) = HksGetKeyCountByProcessName env fileInfo fs in (Inr n, fs))"

definition HksManageListAliasesByProcessName ::
    "storage_env \<Rightarrow> HksProcessInfo \<Rightarrow> HksParamSet ptr \<Rightarrow> file_system \<Rightarrow> HksKeyAliasSet ptr res \<times> file_system"
  where
  "HksManageListAliasesByProcessName env processInfo paramSet fs =
     (case store_file_info env processInfo paramSet NULL HKS_STORAGE_TYPE_KEY fs of
        (Inl ret, fs) \<Rightarrow> (Inl ret, fs)
      | (Inr fileInfo, fs) \<Rightarrow> HksListAliasesByProcessName env fileInfo fs)"

end
