(* ===== verification/Huks_File_Laws.thy ===== *)
theory Huks_File_Laws
  imports Huks_File
begin

text \<open>
  What the file operations do: which file they may change, what a write leaves behind whatever fails, and
  their results when nothing fails.
\<close>

section \<open>Paths\<close>

text \<open>A path without two slashes in a row is its own canonical form.\<close>

abbreviation no_double :: "u8 \<Rightarrow> u8 \<Rightarrow> bool" where
  "no_double c d \<equiv> c \<noteq> slash \<or> d \<noteq> slash"

lemma canon_id: "successively no_double s \<Longrightarrow> canon s = s"
  by (induction s rule: canon.induct) auto

lemma canon_hd: "s \<noteq> [] \<Longrightarrow> canon s \<noteq> [] \<and> hd (canon s) = hd s"
  by (induction s rule: canon.induct) auto

lemma canon_successively: "successively no_double (canon s)"
proof (induction s rule: canon.induct)
  case (1 c d s)
  have "canon (d # s) \<noteq> []" "hd (canon (d # s)) = d"
    using canon_hd [of "d # s"] by auto
  then show ?case
    using 1 by (auto simp: successively_Cons)
qed auto

lemma canon_canon [simp]: "canon (canon s) = canon s"
  by (rule canon_id [OF canon_successively])

lemma no_slash_successively: "slash \<notin> set n \<Longrightarrow> successively no_double n"
  by (induction n) (auto simp: successively_Cons)

lemma ends_slash_append [simp]: "n \<noteq> [] \<Longrightarrow> ends_slash (p @ n) = ends_slash n"
  by (simp add: ends_slash_def)

lemma ends_slash_Cons [simp]: "n \<noteq> [] \<Longrightarrow> ends_slash (c # n) = ends_slash n"
  by (simp add: ends_slash_def)

lemma no_slash_end: "slash \<notin> set n \<Longrightarrow> \<not> ends_slash n"
  unfolding ends_slash_def using last_in_set by metis

text \<open>The path of an entry: a directory with a canonical path and a name in it.\<close>

definition file_name_ok :: "bytes \<Rightarrow> bool" where
  "file_name_ok n \<longleftrightarrow> n \<noteq> [] \<and> slash \<notin> set n"

definition dir_path_ok :: "bytes \<Rightarrow> bool" where
  "dir_path_ok p \<longleftrightarrow> successively no_double p \<and> \<not> ends_slash p"

lemma dir_path_ok_entry: "dir_path_ok (p @ slash # n)" if "dir_path_ok p" "file_name_ok n"
proof -
  have "successively no_double (slash # n)"
    using that no_slash_successively [of n] by (cases n) (auto simp: file_name_ok_def)
  moreover have "p \<noteq> [] \<Longrightarrow> last p \<noteq> slash"
    using that(1) by (auto simp: dir_path_ok_def ends_slash_def)
  ultimately show ?thesis
    using that no_slash_end [of n]
    by (auto simp: dir_path_ok_def file_name_ok_def successively_append_iff)
qed

lemma canon_dir_path [simp]: "dir_path_ok p \<Longrightarrow> canon p = p"
  by (simp add: dir_path_ok_def canon_id)

lemma dir_path_ends [simp]: "dir_path_ok p \<Longrightarrow> \<not> ends_slash p"
  by (simp add: dir_path_ok_def)

lemma dir_name_dir_path [simp]: "dir_path_ok p \<Longrightarrow> dir_name p = p"
  by (simp add: dir_name_def)

lemma is_dir_dir_path: "dir_path_ok p \<Longrightarrow> is_dir fs p \<longleftrightarrow> p \<in> set (fs_dirs fs)"
  by (simp add: is_dir_def)

lemma parent_entry [simp]: "parent (p @ slash # n) = p" if "dir_path_ok p" "file_name_ok n"
proof -
  have "dropWhile (\<lambda>c. c \<noteq> slash) (rev (p @ slash # n)) = slash # rev p"
    using that(2) by (subst rev_append) (auto simp: dropWhile_append3 file_name_ok_def)
  then show ?thesis
    using dir_path_ok_entry [OF that] by (simp add: parent_def)
qed

lemma parent_ends_slash: "dir_path_ok p \<Longrightarrow> parent (p @ [slash]) = p"
proof -
  assume p: "dir_path_ok p"
  have "successively no_double (p @ [slash])"
    using p by (auto simp: dir_path_ok_def successively_append_iff ends_slash_def)
  then show ?thesis
    by (simp add: parent_def canon_id)
qed

section \<open>Contents of files\<close>

lemma fs_content_set [simp]:
  "fs_content (fs_set p c fs) q = (if canon q = canon p then Some c else fs_content fs q)"
  by (simp add: fs_content_def fs_set_def update_conv')

lemma fs_content_unset [simp]:
  "fs_content (fs_unset p fs) q = (if canon q = canon p then None else fs_content fs q)"
  by (simp add: fs_content_def fs_unset_def delete_conv')

lemma fs_set_more [simp]:
  "fs_dirs (fs_set p c fs) = fs_dirs fs" "fs_calls (fs_set p c fs) = fs_calls fs"
  "fs_dirs (fs_unset p fs) = fs_dirs fs" "fs_calls (fs_unset p fs) = fs_calls fs"
  by (simp_all add: fs_set_def fs_unset_def)

lemma fs_content_calls [simp]: "fs_content (fs\<lparr>fs_calls := n\<rparr>) q = fs_content fs q"
  by (simp add: fs_content_def)

lemma is_dir_calls [simp]: "is_dir (fs\<lparr>fs_calls := n\<rparr>) p = is_dir fs p"
  by (simp add: is_dir_def)

lemma is_dir_set [simp]: "is_dir (fs_set p c fs) q = is_dir fs q" "is_dir (fs_unset p fs) q = is_dir fs q"
  by (simp_all add: is_dir_def)

lemma exists_path_calls [simp]: "exists_path (fs\<lparr>fs_calls := n\<rparr>) p = exists_path fs p"
  by (simp add: exists_path_def)

lemma can_create_calls [simp]: "can_create (fs\<lparr>fs_calls := n\<rparr>) p = can_create fs p"
  by (simp add: can_create_def)

lemma can_create_set [simp]: "can_create (fs_set p c fs) q = can_create fs q"
  by (simp add: can_create_def)

section \<open>Operations that change at most one file\<close>

definition only_file :: "bytes \<Rightarrow> file_system \<Rightarrow> file_system \<Rightarrow> bool" where
  "only_file p fs fs' \<longleftrightarrow> fs_dirs fs' = fs_dirs fs
     \<and> (\<forall>q. canon q \<noteq> canon p \<longrightarrow> fs_content fs' q = fs_content fs q)"

named_theorems frames \<open>operations that change at most one file\<close>

lemma only_file_refl [simp, intro]: "only_file p fs fs"
  by (simp add: only_file_def)

lemma only_file_trans [trans]: "only_file p fs fs' \<Longrightarrow> only_file p fs' fs'' \<Longrightarrow> only_file p fs fs''"
  by (simp add: only_file_def)

lemma only_file_calls [simp]: "only_file p fs (fs'\<lparr>fs_calls := n\<rparr>) \<longleftrightarrow> only_file p fs fs'"
  by (simp add: only_file_def)

lemma only_file_from_calls [simp]: "only_file p (fs\<lparr>fs_calls := n\<rparr>) fs' \<longleftrightarrow> only_file p fs fs'"
  by (simp add: only_file_def)

lemma only_file_set [simp]: "only_file p fs (fs_set p c fs') \<longleftrightarrow> only_file p fs fs'"
  by (auto simp: only_file_def)

lemma only_file_unset [simp]: "only_file p fs (fs_unset p fs') \<longleftrightarrow> only_file p fs fs'"
  by (auto simp: only_file_def)

lemma only_file_content: "only_file p fs fs' \<Longrightarrow> canon q \<noteq> canon p \<Longrightarrow> fs_content fs' q = fs_content fs q"
  by (simp add: only_file_def)

lemma only_file_dirs: "only_file p fs fs' \<Longrightarrow> is_dir fs' q = is_dir fs q"
  by (simp add: only_file_def is_dir_def)

lemma only_file_dirs_eq: "only_file p fs fs' \<Longrightarrow> fs_dirs fs' = fs_dirs fs"
  by (simp add: only_file_def)

lemma FileWrite_only [frames]: "only_file p fs (snd (FileWrite os p buf fs))"
  by (simp add: FileWrite_def write_steps_def fopen_wb_def fwrite_def sys_def Let_def split: prod.splits)

lemma FileRemove_only [frames]: "only_file p fs (snd (FileRemove os p fs))"
  by (simp add: FileRemove_def stat_call_def unlink_call_def sys_def Let_def split: prod.splits)

text \<open>Reading changes nothing.\<close>

definition same_files :: "file_system \<Rightarrow> file_system \<Rightarrow> bool" where
  "same_files fs fs' \<longleftrightarrow> fs_files fs' = fs_files fs \<and> fs_dirs fs' = fs_dirs fs"

lemma same_files_calls [simp]: "same_files fs (fs'\<lparr>fs_calls := n\<rparr>) \<longleftrightarrow> same_files fs fs'"
  by (simp add: same_files_def)

lemma same_files_refl [simp, intro]: "same_files fs fs"
  by (simp add: same_files_def)

lemma same_files_content: "same_files fs fs' \<Longrightarrow> fs_content fs' q = fs_content fs q"
  by (simp add: same_files_def fs_content_def)

lemma same_files_dir: "same_files fs fs' \<Longrightarrow> is_dir fs' q = is_dir fs q"
  by (simp add: same_files_def is_dir_def)

lemma same_files_exists: "same_files fs fs' \<Longrightarrow> exists_path fs' q = exists_path fs q"
  by (simp add: exists_path_def same_files_content same_files_dir)

lemma same_files_only: "same_files fs fs' \<Longrightarrow> only_file p fs fs'"
  by (simp add: same_files_def only_file_def fs_content_def)

lemma same_files_trans [trans]: "same_files fs fs' \<Longrightarrow> same_files fs' fs'' \<Longrightarrow> same_files fs fs''"
  by (simp add: same_files_def)

lemma FileRead_same [frames]: "same_files fs (snd (FileRead os p n fs))"
  by (simp add: FileRead_def fopen_rb_def fread_def sys_def Let_def split: prod.splits)

lemma FileSize_same [frames]: "same_files fs (snd (FileSize os p fs))"
  by (simp add: FileSize_def stat_call_def sys_def Let_def split: prod.splits)

text \<open>What a write leaves, whatever fails: on success the whole contents.\<close>

lemma FileWrite_success:
  "FileWrite os p buf fs = (0, fs') \<Longrightarrow> fs_content fs' p = Some buf"
  by (auto simp: FileWrite_def write_steps_def fopen_wb_def fwrite_def sys_def Let_def
      split: prod.splits if_splits)

lemma FileRead_success:
  "FileRead os p n fs = (Inr c, fs') \<Longrightarrow> fs_content fs p = Some d \<Longrightarrow> prefix c d"
  by (auto simp: FileRead_def fopen_rb_def fread_def sys_def Let_def take_is_prefix
      split: prod.splits if_splits)

section \<open>When nothing fails\<close>

definition os_healthy :: "os_env \<Rightarrow> bool" where
  "os_healthy os \<longleftrightarrow> (\<forall>n. os_errno os n = 0)"

definition valid_path :: "bytes \<Rightarrow> bool" where
  "valid_path p \<longleftrightarrow> \<not> strstr p (chars ''../'')"

lemma IsValidPath_eq_0 [simp]: "IsValidPath (Some p) = 0 \<longleftrightarrow> valid_path p"
  by (simp add: IsValidPath_def valid_path_def)

lemma sys_healthy: "os_healthy os \<Longrightarrow> sys os fs = (0, os_count os (fs_calls fs), fs\<lparr>fs_calls := Suc (fs_calls fs)\<rparr>)"
  by (simp add: sys_def os_healthy_def)

lemma FileWrite_healthy:
  assumes "os_healthy os" "can_create fs p"
  shows "\<exists>fs'. FileWrite os p buf fs = (0, fs') \<and> fs_content fs' p = Some buf"
  using assms
  by (simp add: FileWrite_def write_steps_def fopen_wb_def fwrite_def sys_healthy Let_def)

lemma FileRead_healthy:
  assumes "os_healthy os" "fs_content fs p = Some d" "length d \<le> unat n" "valid_path p"
  shows "\<exists>fs'. FileRead os p n fs = (Inr d, fs')"
  using assms
  by (simp add: FileRead_def fopen_rb_def fread_def sys_healthy Let_def IsFileExist_def exists_path_def
      valid_path_def)

lemma FileSize_healthy:
  assumes "os_healthy os" "fs_content fs p = Some d"
  shows "\<exists>fs'. FileSize os p fs = (word_of_nat (length d), fs')"
  using assms by (simp add: FileSize_def stat_call_def sys_healthy Let_def IsFileExist_def exists_path_def)

lemma FileRemove_healthy:
  assumes "os_healthy os" "fs_content fs p = Some d" "\<not> is_dir fs p"
  shows "\<exists>fs'. FileRemove os p fs = (0, fs') \<and> fs_content fs' p = None"
  using assms
  by (simp add: FileRemove_def stat_call_def unlink_call_def sys_healthy Let_def IsFileExist_def exists_path_def)

section \<open>By directory and name\<close>

text \<open>A directory and a name whose path fits.\<close>

definition entry_ok :: "bytes \<Rightarrow> bytes \<Rightarrow> bool" where
  "entry_ok p n \<longleftrightarrow> dir_path_ok p \<and> file_name_ok n \<and> length p + length n < 511
     \<and> valid_path (p @ slash # n)"

lemma GetFullFileName_entry:
  assumes "entry_ok p n" "alloc HKS_MAX_FILE_NAME_LEN"
  shows "GetFullFileName alloc (Some p) n = Inr (p @ slash # n)"
  using assms
  by (simp add: GetFullFileName_def GetFileName_def HksMalloc_def strncpy_s_def strncat_s_def entry_ok_def
      dir_path_ok_def file_name_ok_def)

lemma GetFullFileName_Inr:
  "GetFullFileName alloc (Some p) n = Inr q \<Longrightarrow> \<not> ends_slash p \<Longrightarrow> q = p @ slash # n"
  by (auto simp: GetFullFileName_def GetFileName_def strncpy_s_def strncat_s_def split: if_splits)

lemma canon_entry [simp]: "entry_ok p n \<Longrightarrow> canon (p @ slash # n) = p @ slash # n"
  using dir_path_ok_entry [of p n] by (simp add: entry_ok_def)

lemma can_create_entry:
  assumes "entry_ok p n" "is_dir fs p" "\<not> is_dir fs (p @ slash # n)"
  shows "can_create fs (p @ slash # n)"
  using assms dir_path_ok_entry [of p n] by (simp add: can_create_def entry_ok_def)

lemma HksFileWrite_only [frames]:
  assumes "\<not> ends_slash p"
  shows "only_file (p @ slash # n) fs (snd (HksFileWrite os alloc (Some p) (Some n) buf fs))"
  using assms FileWrite_only
  by (auto simp: HksFileWrite_def dest!: GetFullFileName_Inr split: option.splits sum.splits)

lemma HksFileWrite_success:
  assumes "\<not> ends_slash p" "HksFileWrite os alloc (Some p) (Some n) (Some buf) fs = (0, fs')"
  shows "fs_content fs' (p @ slash # n) = Some buf"
proof (cases "GetFullFileName alloc (Some p) n")
  case (Inl c)
  with assms(2) have "GetFullFileName alloc (Some p) n = Inl 0"
    by (simp add: HksFileWrite_def split: if_splits)
  then show ?thesis
    by (auto simp: GetFullFileName_def GetFileName_def split: if_splits option.splits)
next
  case (Inr q)
  with assms show ?thesis
    using GetFullFileName_Inr [OF Inr assms(1)]
    by (auto simp: HksFileWrite_def split: if_splits dest: FileWrite_success)
qed

lemma HksFileWrite_healthy:
  assumes "os_healthy os" "entry_ok p n" "alloc HKS_MAX_FILE_NAME_LEN" "is_dir fs p"
    "\<not> is_dir fs (p @ slash # n)" "buf \<noteq> []"
  shows "\<exists>fs'. HksFileWrite os alloc (Some p) (Some n) (Some buf) fs = (0, fs')
    \<and> fs_content fs' (p @ slash # n) = Some buf"
  using FileWrite_healthy [OF assms(1) can_create_entry [OF assms(2,4,5)]] assms(2,3,6)
  by (simp add: HksFileWrite_def GetFullFileName_entry entry_ok_def)

lemma HksFileRemove_only [frames]:
  assumes "\<not> ends_slash p"
  shows "only_file (p @ slash # n) fs (snd (HksFileRemove os alloc (Some p) (Some n) fs))"
  using assms FileRemove_only
  by (auto simp: HksFileRemove_def dest!: GetFullFileName_Inr split: option.splits sum.splits)

lemma HksFileRemove_healthy:
  assumes "os_healthy os" "entry_ok p n" "alloc HKS_MAX_FILE_NAME_LEN"
    "fs_content fs (p @ slash # n) = Some d" "\<not> is_dir fs (p @ slash # n)"
  shows "\<exists>fs'. HksFileRemove os alloc (Some p) (Some n) fs = (0, fs')
    \<and> fs_content fs' (p @ slash # n) = None"
  using FileRemove_healthy [OF assms(1,4,5)] assms(2,3)
  by (simp add: HksFileRemove_def GetFullFileName_entry entry_ok_def)

lemma HksFileRead_same [frames]: "same_files fs (snd (HksFileRead os alloc p n blob fs))"
  using FileRead_same by (auto simp: HksFileRead_def split: option.splits sum.splits)

lemma HksFileRead_healthy:
  assumes "os_healthy os" "entry_ok p n" "alloc HKS_MAX_FILE_NAME_LEN"
    "fs_content fs (p @ slash # n) = Some d" "d \<noteq> []" "length d \<le> unat (blob_size blob)" "blob_data blob \<noteq> NULL"
  shows "\<exists>fs'. HksFileRead os alloc (Some p) (Some n) (Some blob) fs = (Inr d, fs')"
proof -
  have "blob_size blob \<noteq> 0"
    using assms(5,6) by auto
  then show ?thesis
    using FileRead_healthy [OF assms(1,4,6)] assms(2,3,7)
    by (auto simp: HksFileRead_def GetFullFileName_entry entry_ok_def)
qed

lemma HksFileSize_same [frames]: "same_files fs (snd (HksFileSize os alloc p n fs))"
  using FileSize_same by (auto simp: HksFileSize_def split: option.splits sum.splits)

lemma HksFileSize_healthy:
  assumes "os_healthy os" "entry_ok p n" "alloc HKS_MAX_FILE_NAME_LEN" "fs_content fs (p @ slash # n) = Some d"
  shows "\<exists>fs'. HksFileSize os alloc (Some p) (Some n) fs = (word_of_nat (length d), fs')"
  using FileSize_healthy [OF assms(1,4)] assms(2,3)
  by (simp add: HksFileSize_def GetFullFileName_entry entry_ok_def)

lemma HksIsFileExist_entry:
  assumes "entry_ok p n" "alloc HKS_MAX_FILE_NAME_LEN" "\<not> is_dir fs (p @ slash # n)"
  shows "HksIsFileExist alloc (Some p) (Some n) fs = 0 \<longleftrightarrow> fs_content fs (p @ slash # n) \<noteq> None"
  using assms
  by (simp add: HksIsFileExist_def GetFullFileName_entry entry_ok_def IsFileExist_def exists_path_def)

end
