(* ===== verification/Huks_Storage_Laws.thy ===== *)
theory Huks_Storage_Laws
  imports Huks_Storage Huks_File_Laws
begin

text \<open>
  The operations on the two files of a key: which files they may change, and what they do when the
  operating system and the allocator do not fail.
\<close>

definition info_path :: "HksStoreInfo \<Rightarrow> bytes" where
  "info_path i = si_path i @ slash # si_fileName i"

definition info_ok :: "HksStoreInfo \<Rightarrow> bool" where
  "info_ok i \<longleftrightarrow> entry_ok (si_path i) (si_fileName i)"

definition env_healthy :: "storage_env \<Rightarrow> bool" where
  "env_healthy env \<longleftrightarrow> os_healthy (se_os env) \<and> (\<forall>n. se_alloc env n)
     \<and> (\<forall>level user fs. se_transfer env level user fs = fs) \<and> (\<forall>fs. se_other env fs = fs)"

lemma env_healthyD [simp]:
  "env_healthy env \<Longrightarrow> os_healthy (se_os env)"
  "env_healthy env \<Longrightarrow> se_alloc env n"
  "env_healthy env \<Longrightarrow> se_transfer env level user fs = fs"
  "env_healthy env \<Longrightarrow> se_other env fs = fs"
  by (simp_all add: env_healthy_def)

lemma info_ok_slash [simp]: "info_ok i \<Longrightarrow> \<not> ends_slash (si_path i)"
  by (simp add: info_ok_def entry_ok_def)

lemma info_ok_canon [simp]: "info_ok i \<Longrightarrow> canon (info_path i) = info_path i"
  by (simp add: info_ok_def info_path_def)

section \<open>Frames\<close>

lemma write_only [frames]:
  "\<not> ends_slash (si_path i) \<Longrightarrow> only_file (info_path i) fs (snd (HksStorageWriteFile env i buf fs))"
  by (simp add: HksStorageWriteFile_def info_path_def HksFileWrite_only)

lemma read_same [frames]: "same_files fs (snd (HksStorageReadFile env i blob fs))"
  by (simp add: HksStorageReadFile_def HksFileRead_same)

lemma file_size_same [frames]: "same_files fs (snd (file_size env i fs))"
  by (simp add: file_size_def HksFileSize_same)

lemma only_file_fst_snd: "f = (r, fs') \<Longrightarrow> only_file p fs (snd f) \<Longrightarrow> only_file p fs fs'"
  by simp

lemma CleanFile_only [frames]:
  assumes "\<not> ends_slash (si_path i)"
  shows "only_file (info_path i) fs (snd (CleanFile env i fs))"
proof -
  have n: "only_file (info_path i) fs (snd (file_size env i fs))"
    by (rule same_files_only [OF file_size_same])
  have w: "only_file (info_path i) fs fs' \<Longrightarrow>
      only_file (info_path i) fs (snd (HksStorageWriteFile env i buf fs'))" for buf fs'
    by (rule only_file_trans [OF _ write_only [OF assms]])
  from n w show ?thesis
    unfolding CleanFile_def by (auto simp: Let_def split: prod.splits sum.splits if_splits) (metis snd_conv)+
qed

lemma remove_only [frames]:
  assumes "\<not> ends_slash (si_path i)"
  shows "only_file (info_path i) fs (snd (HksStorageRemoveFile env i fs))"
proof -
  obtain r fs' where c: "CleanFile env i fs = (r, fs')"
    by fastforce
  have "only_file (info_path i) fs fs'"
    using CleanFile_only [OF assms, of fs env] c by simp
  also have "only_file (info_path i) fs' (snd (HksStorageRemoveFile env i fs))"
    using assms by (simp add: HksStorageRemoveFile_def c info_path_def HksFileRemove_only)
  finally show ?thesis .
qed

lemma get_same [frames]: "same_files fs (snd (HksStoreGetKeyBlob env i blob fs))"
proof -
  obtain n fs' where s: "file_size env i fs = (n, fs')"
    by fastforce
  then have "same_files fs fs'"
    using file_size_same [of fs env i] by simp
  moreover have "same_files fs' (snd (HksStorageReadFile env i blob fs'))"
    by (rule read_same)
  ultimately show ?thesis
    unfolding HksStoreGetKeyBlob_def GetKeyBlob_def GetKeyBlobFromFile_def s
    by (auto simp: split: prod.splits sum.splits intro: same_files_trans)
qed

section \<open>One file when nothing fails\<close>

text \<open>The file of \<open>i\<close> can be written: its directory is there, and it is no directory itself.\<close>

definition info_ready :: "HksStoreInfo \<Rightarrow> file_system \<Rightarrow> bool" where
  "info_ready i fs \<longleftrightarrow> is_dir fs (si_path i) \<and> \<not> is_dir fs (info_path i)"

lemma info_ready_only: "only_file p fs fs' \<Longrightarrow> info_ready i fs' \<longleftrightarrow> info_ready i fs"
  by (simp add: info_ready_def only_file_dirs)

lemma info_ready_same: "same_files fs fs' \<Longrightarrow> info_ready i fs' \<longleftrightarrow> info_ready i fs"
  by (simp add: info_ready_def same_files_dir)

lemma write_healthy:
  assumes "env_healthy env" "info_ok i" "info_ready i fs" "buf \<noteq> []"
  shows "\<exists>fs'. HksStorageWriteFile env i (Some buf) fs = (0, fs') \<and> fs_content fs' (info_path i) = Some buf"
  using HksFileWrite_healthy [of "se_os env" "si_path i" "si_fileName i" "se_alloc env" fs buf] assms
  by (simp add: HksStorageWriteFile_def info_ok_def info_ready_def info_path_def)

lemma exists_healthy:
  assumes "env_healthy env" "info_ok i" "info_ready i fs"
  shows "file_exists env i fs = 0 \<longleftrightarrow> fs_content fs (info_path i) \<noteq> None"
  using HksIsFileExist_entry [of "si_path i" "si_fileName i" "se_alloc env" fs] assms
  by (simp add: file_exists_def info_ok_def info_ready_def info_path_def)

lemma size_healthy:
  assumes "env_healthy env" "info_ok i" "fs_content fs (info_path i) = Some d"
  shows "\<exists>fs'. file_size env i fs = (word_of_nat (length d), fs')"
  using HksFileSize_healthy [of "se_os env" "si_path i" "si_fileName i" "se_alloc env" fs d] assms
  by (simp add: file_size_def info_ok_def info_path_def)

lemma read_healthy:
  assumes "env_healthy env" "info_ok i" "fs_content fs (info_path i) = Some d" "d \<noteq> []"
    "length d \<le> unat (blob_size blob)" "blob_data blob \<noteq> NULL"
  shows "\<exists>fs'. HksStorageReadFile env i blob fs = (Inr d, fs')"
  using HksFileRead_healthy [of "se_os env" "si_path i" "si_fileName i" "se_alloc env" fs d blob] assms
  by (simp add: HksStorageReadFile_def info_ok_def info_path_def)

lemma remove_healthy:
  assumes "env_healthy env" "info_ok i" "info_ready i fs" "fs_content fs (info_path i) = Some d"
  shows "\<exists>fs'. HksStorageRemoveFile env i fs = (0, fs') \<and> fs_content fs' (info_path i) = None"
proof -
  obtain r fs' where c: "CleanFile env i fs = (r, fs')"
    by fastforce
  have only: "only_file (info_path i) fs fs'"
    using CleanFile_only [of i fs env] assms(2) c by simp
  have "fs_content fs' (info_path i) \<noteq> None"
  proof -
    have keep: "fs_content fs1 (info_path i) \<noteq> None \<Longrightarrow> info_ready i fs1 \<Longrightarrow>
        fs_content (snd (HksStorageWriteFile env i (Some buf) fs1)) (info_path i) \<noteq> None" for fs1 buf
      using write_healthy [OF assms(1,2), of fs1 buf]
      by (cases "buf = []") (force simp: HksStorageWriteFile_def HksFileWrite_def)+
    have ready: "info_ready i (snd (HksStorageWriteFile env i (Some buf) fs1)) = info_ready i fs1" for fs1 buf
      using info_ready_only [OF write_only] assms(2) by simp
    obtain fs1 where s: "file_size env i fs = (word_of_nat (length d), fs1)"
      using size_healthy [OF assms(1,2,4)] by blast
    then have "same_files fs fs1"
      using file_size_same [of fs env i] by simp
    then have fs1: "fs_content fs1 (info_path i) \<noteq> None" "info_ready i fs1"
      using assms(3,4) by (simp_all add: same_files_content info_ready_same)
    show ?thesis
      using c keep ready fs1 unfolding CleanFile_def s
      by (auto simp: Let_def split: prod.splits sum.splits if_splits) (metis snd_conv)+
  qed
  then obtain d' where d': "fs_content fs' (info_path i) = Some d'"
    by blast
  have "\<not> is_dir fs' (info_path i)"
    using info_ready_only [OF only, of i] assms(3) by (simp add: info_ready_def)
  then show ?thesis
    using HksFileRemove_healthy [of "se_os env" "si_path i" "si_fileName i" "se_alloc env" fs' d'] d' assms(1,2)
    by (simp add: HksStorageRemoveFile_def c info_ok_def info_path_def)
qed

section \<open>The two files of a key\<close>

definition files_ok :: "HksStoreFileInfo \<Rightarrow> bool" where
  "files_ok fi \<longleftrightarrow> info_ok (mainPath fi) \<and> info_ok (bakPath fi)
     \<and> info_path (mainPath fi) \<noteq> info_path (bakPath fi)"

definition files_ready :: "HksStoreFileInfo \<Rightarrow> file_system \<Rightarrow> bool" where
  "files_ready fi fs \<longleftrightarrow> info_ready (mainPath fi) fs \<and> info_ready (bakPath fi) fs"

definition main_content :: "HksStoreFileInfo \<Rightarrow> file_system \<Rightarrow> bytes option" where
  "main_content fi fs = fs_content fs (info_path (mainPath fi))"

definition bak_content :: "HksStoreFileInfo \<Rightarrow> file_system \<Rightarrow> bytes option" where
  "bak_content fi fs = fs_content fs (info_path (bakPath fi))"

lemma files_okD [simp]:
  "files_ok fi \<Longrightarrow> info_ok (mainPath fi)" "files_ok fi \<Longrightarrow> info_ok (bakPath fi)"
  "files_ok fi \<Longrightarrow> info_path (mainPath fi) \<noteq> info_path (bakPath fi)"
  "files_ok fi \<Longrightarrow> info_path (bakPath fi) \<noteq> info_path (mainPath fi)"
  by (auto simp: files_ok_def)

text \<open>Only the two files of the key may change.\<close>

definition only_files :: "HksStoreFileInfo \<Rightarrow> file_system \<Rightarrow> file_system \<Rightarrow> bool" where
  "only_files fi fs fs' \<longleftrightarrow> fs_dirs fs' = fs_dirs fs
     \<and> (\<forall>q. canon q \<noteq> info_path (mainPath fi) \<and> canon q \<noteq> info_path (bakPath fi)
          \<longrightarrow> fs_content fs' q = fs_content fs q)"

lemma only_files_refl [simp, intro]: "only_files fi fs fs"
  by (simp add: only_files_def)

lemma only_files_trans [trans]: "only_files fi fs fs' \<Longrightarrow> only_files fi fs' fs'' \<Longrightarrow> only_files fi fs fs''"
  by (simp add: only_files_def)

lemma only_files_main: "files_ok fi \<Longrightarrow> only_file (info_path (mainPath fi)) fs fs' \<Longrightarrow> only_files fi fs fs'"
  by (simp add: only_files_def only_file_def)

lemma only_files_bak: "files_ok fi \<Longrightarrow> only_file (info_path (bakPath fi)) fs fs' \<Longrightarrow> only_files fi fs fs'"
  by (simp add: only_files_def only_file_def)

lemma only_files_same: "same_files fs fs' \<Longrightarrow> only_files fi fs fs'"
  by (simp add: only_files_def same_files_content) (simp add: same_files_def)

lemma store_steps:
  assumes "files_ok fi" "HksStoreKeyBlob env fi blob fs = (ret, fs')"
  shows "(\<exists>c. ret = c \<and> c \<noteq> 0 \<and> fs' = fs)
    \<or> (\<exists>fs1. HksStorageWriteFile env (mainPath fi) (file_bytes blob) fs = (ret, fs1) \<and>
        (ret \<noteq> 0 \<and> fs' = fs1
         \<or> ret = 0 \<and> fs' = snd (HksStorageWriteFile env (bakPath fi) (file_bytes blob) fs1)))"
  using assms(2)
  by (auto simp: HksStoreKeyBlob_def RecordKeyOperation_def split: if_splits prod.splits)

lemma store_only: "files_ok fi \<Longrightarrow> only_files fi fs (snd (HksStoreKeyBlob env fi blob fs))"
proof -
  assume ok: "files_ok fi"
  obtain ret fs' where s: "HksStoreKeyBlob env fi blob fs = (ret, fs')"
    by fastforce
  from store_steps [OF ok s] show ?thesis
  proof (elim disjE exE conjE)
    fix fs1 assume w: "HksStorageWriteFile env (mainPath fi) (file_bytes blob) fs = (ret, fs1)"
      and r: "ret \<noteq> 0" "fs' = fs1"
    then show ?thesis
      using write_only [of "mainPath fi" fs env "file_bytes blob"] ok s by (simp add: only_files_main)
  next
    fix fs1 assume w: "HksStorageWriteFile env (mainPath fi) (file_bytes blob) fs = (ret, fs1)"
      and r: "ret = 0" "fs' = snd (HksStorageWriteFile env (bakPath fi) (file_bytes blob) fs1)"
    have "only_files fi fs fs1"
      using write_only [of "mainPath fi" fs env "file_bytes blob"] ok w by (simp add: only_files_main)
    also have "only_files fi fs1 fs'"
      using write_only [of "bakPath fi" fs1 env "file_bytes blob"] ok r by (simp add: only_files_bak)
    finally show ?thesis by (simp add: s)
  qed (simp add: s)
qed

lemma write_success:
  assumes "\<not> ends_slash (si_path i)" "HksStorageWriteFile env i buf fs = (0, fs')"
  shows "fs_content fs' (info_path i) = buf"
proof (cases buf)
  case None
  with assms(2) show ?thesis by (simp add: HksStorageWriteFile_def HksFileWrite_def)
next
  case (Some b)
  with assms show ?thesis
    by (auto simp: HksStorageWriteFile_def info_path_def dest: HksFileWrite_success)
qed

text \<open>
  Whatever fails while a key is stored: if the result is success the main file has the new key, and
  otherwise the backup is as it was.
\<close>

lemma store_atomic:
  assumes "files_ok fi" "HksStoreKeyBlob env fi blob fs = (ret, fs')"
  shows "if ret = 0 then main_content fi fs' = file_bytes blob else bak_content fi fs' = bak_content fi fs"
  using store_steps [OF assms]
proof (elim disjE exE conjE)
  fix fs1 assume w: "HksStorageWriteFile env (mainPath fi) (file_bytes blob) fs = (ret, fs1)"
    and r: "ret \<noteq> 0" "fs' = fs1"
  then show ?thesis
    using write_only [of "mainPath fi" fs env "file_bytes blob"] assms(1)
    by (simp add: bak_content_def only_file_content)
next
  fix fs1 assume w: "HksStorageWriteFile env (mainPath fi) (file_bytes blob) fs = (ret, fs1)"
    and r: "ret = 0" "fs' = snd (HksStorageWriteFile env (bakPath fi) (file_bytes blob) fs1)"
  have "fs_content fs1 (info_path (mainPath fi)) = file_bytes blob"
    using write_success w r assms(1) by simp
  then show ?thesis
    using write_only [of "bakPath fi" fs1 env "file_bytes blob"] assms(1) r
    by (simp add: main_content_def only_file_content)
qed simp

lemma store_healthy:
  assumes "env_healthy env" "files_ok fi" "files_ready fi fs" "file_bytes blob = Some b" "b \<noteq> []"
  shows "\<exists>fs'. HksStoreKeyBlob env fi blob fs = (0, fs')
    \<and> main_content fi fs' = Some b \<and> bak_content fi fs' = Some b"
proof -
  obtain fs1 where w: "HksStorageWriteFile env (mainPath fi) (Some b) fs = (0, fs1)"
    and m: "fs_content fs1 (info_path (mainPath fi)) = Some b"
    using write_healthy [of env "mainPath fi" fs b] assms by (auto simp: files_ready_def)
  have only1: "only_file (info_path (mainPath fi)) fs fs1"
    using write_only [of "mainPath fi" fs env "Some b"] assms(2) w by simp
  obtain fs2 where w2: "HksStorageWriteFile env (bakPath fi) (Some b) fs1 = (0, fs2)"
    and b: "fs_content fs2 (info_path (bakPath fi)) = Some b"
    using write_healthy [of env "bakPath fi" fs1 b] assms info_ready_only [OF only1]
    by (auto simp: files_ready_def)
  have "only_file (info_path (bakPath fi)) fs1 fs2"
    using write_only [of "bakPath fi" fs1 env "Some b"] assms(2) w2 by simp
  then have "main_content fi fs2 = Some b"
    using m assms(2) by (simp add: main_content_def only_file_content)
  moreover have "HksMalloc (se_alloc env) (length (si_fileName (mainPath fi)) + 1)"
    using files_okD(1) [OF assms(2)] assms(1) by (simp add: HksMalloc_def info_ok_def entry_ok_def)
  ultimately show ?thesis
    using b assms(4) by (simp add: HksStoreKeyBlob_def RecordKeyOperation_def w w2 bak_content_def)
qed

lemma delete_only:
  assumes "files_ok fi"
  shows "only_files fi fs (snd (HksStoreDeleteKeyBlob env fi fs))"
proof -
  have b: "only_files fi fs (snd (HksStorageRemoveFile env (bakPath fi) fs))" for fs
    using remove_only [of "bakPath fi" fs env] assms by (simp add: only_files_bak)
  have m: "only_files fi fs (snd (HksStorageRemoveFile env (mainPath fi) fs))" for fs
    using remove_only [of "mainPath fi" fs env] assms by (simp add: only_files_main)
  have bm: "only_files fi fs (snd (HksStorageRemoveFile env (mainPath fi)
      (snd (HksStorageRemoveFile env (bakPath fi) fs))))" for fs
    by (rule only_files_trans [OF b m])
  show ?thesis
    using b m bm
    by (auto simp: HksStoreDeleteKeyBlob_def DeleteKeyBlob_def Let_def split: sum.splits prod.splits)
      (metis snd_conv)+
qed

lemma record_healthy:
  assumes "env_healthy env" "info_ok i" "operation \<in> {KEY_OPERATION_SAVE, KEY_OPERATION_GET, KEY_OPERATION_DELETE}"
  shows "RecordKeyOperation (se_alloc env) operation p (si_fileName i) = Inr (anonymous_name (si_fileName i))"
  using assms by (auto simp: RecordKeyOperation_def HksMalloc_def info_ok_def entry_ok_def)

lemma delete_healthy:
  assumes "env_healthy env" "files_ok fi" "files_ready fi fs"
    "main_content fi fs = Some b" "bak_content fi fs = Some b"
  shows "\<exists>fs'. HksStoreDeleteKeyBlob env fi fs = (0, fs')
    \<and> main_content fi fs' = None \<and> bak_content fi fs' = None"
proof -
  have ex: "file_exists env (mainPath fi) fs = 0" "file_exists env (bakPath fi) fs = 0"
    using exists_healthy [of env _ fs] assms by (auto simp: files_ready_def main_content_def bak_content_def)
  obtain fs1 where r: "HksStorageRemoveFile env (bakPath fi) fs = (0, fs1)"
    and b: "fs_content fs1 (info_path (bakPath fi)) = None"
    using remove_healthy [of env "bakPath fi" fs b] assms by (auto simp: files_ready_def bak_content_def)
  have only1: "only_file (info_path (bakPath fi)) fs fs1"
    using remove_only [of "bakPath fi" fs env] assms(2) r by simp
  then have m: "fs_content fs1 (info_path (mainPath fi)) = Some b"
    using assms(2,4) by (simp add: main_content_def only_file_content)
  obtain fs2 where r2: "HksStorageRemoveFile env (mainPath fi) fs1 = (0, fs2)"
    and m2: "fs_content fs2 (info_path (mainPath fi)) = None"
    using remove_healthy [of env "mainPath fi" fs1 b] assms info_ready_only [OF only1] m
    by (auto simp: files_ready_def)
  have "only_file (info_path (mainPath fi)) fs1 fs2"
    using remove_only [of "mainPath fi" fs1 env] assms(2) r2 by simp
  then have "bak_content fi fs2 = None"
    using b assms(2) by (simp add: bak_content_def only_file_content)
  then show ?thesis
    using m2 record_healthy [OF assms(1) files_okD(1) [OF assms(2)]]
    by (simp add: HksStoreDeleteKeyBlob_def DeleteKeyBlob_def ex r r2 main_content_def)
qed

lemma delete_absent:
  assumes "env_healthy env" "files_ok fi" "files_ready fi fs"
    "main_content fi fs = None" "bak_content fi fs = None"
  shows "HksStoreDeleteKeyBlob env fi fs = (HKS_ERROR_NOT_EXIST, fs)"
proof -
  have "file_exists env (mainPath fi) fs \<noteq> 0" "file_exists env (bakPath fi) fs \<noteq> 0"
    using exists_healthy [of env _ fs] assms by (auto simp: files_ready_def main_content_def bak_content_def)
  then show ?thesis
    using record_healthy [OF assms(1) files_okD(1) [OF assms(2)]]
    by (simp add: HksStoreDeleteKeyBlob_def DeleteKeyBlob_def)
qed

text \<open>The answer to a request for the blob in a file with contents \<open>c\<close>.\<close>

definition read_answer :: "bytes option \<Rightarrow> u32 \<Rightarrow> HksBlob res" where
  "read_answer c n =
     (case c of None \<Rightarrow> Inl HKS_ERROR_NOT_EXIST
      | Some d \<Rightarrow> if unat n < length d then Inl HKS_ERROR_INSUFFICIENT_DATA
          else Inr \<lparr>blob_size = word_of_nat (length d), blob_data = Some d\<rparr>)"

lemma get_healthy:
  assumes "env_healthy env" "info_ok i" "info_ready i fs" "blob_data blob \<noteq> NULL"
    "\<And>d. fs_content fs (info_path i) = Some d \<Longrightarrow> d \<noteq> [] \<and> length d < 2 ^ 32"
  shows "\<exists>fs'. HksStoreGetKeyBlob env i blob fs = (read_answer (fs_content fs (info_path i)) (blob_size blob), fs')"
proof (cases "fs_content fs (info_path i)")
  case None
  then show ?thesis
    using exists_healthy [OF assms(1-3)] record_healthy [OF assms(1,2)]
    by (simp add: HksStoreGetKeyBlob_def GetKeyBlob_def read_answer_def)
next
  case (Some d)
  then have d: "d \<noteq> []" "length d < 2 ^ 32"
    using assms(5) by auto
  obtain fs1 where s: "file_size env i fs = (word_of_nat (length d), fs1)"
    using size_healthy [OF assms(1,2) Some] by blast
  have c1: "fs_content fs1 (info_path i) = Some d"
    using file_size_same [of fs env i] s Some by (simp add: same_files_content)
  have len: "unat (word_of_nat (length d) :: u32) = length d"
    using d(2) by (simp add: unat_u32_of_nat)
  then have "word_of_nat (length d) \<noteq> (0 :: u32)"
    using d(1) by (metis length_0_conv unsigned_0)
  moreover have "blob_size blob < word_of_nat (length d) \<longleftrightarrow> unat (blob_size blob) < length d"
    using len by (simp add: word_less_nat_alt)
  ultimately show ?thesis
    using read_healthy [OF assms(1,2) c1 d(1), of blob] assms(4) Some
      exists_healthy [OF assms(1-3)] record_healthy [OF assms(1,2)]
    by (auto simp: HksStoreGetKeyBlob_def GetKeyBlob_def GetKeyBlobFromFile_def s read_answer_def)
qed

lemma size_answer_healthy:
  assumes "env_healthy env" "info_ok i" "info_ready i fs"
    "\<And>d. fs_content fs (info_path i) = Some d \<Longrightarrow> d \<noteq> [] \<and> length d < 2 ^ 32"
  shows "\<exists>fs'. HksStoreGetKeyBlobSize env i fs =
    (case fs_content fs (info_path i) of None \<Rightarrow> Inl HKS_ERROR_NOT_EXIST
     | Some d \<Rightarrow> Inr (word_of_nat (length d)), fs') \<and> same_files fs fs'"
proof (cases "fs_content fs (info_path i)")
  case None
  then show ?thesis
    using exists_healthy [OF assms(1-3)] by (simp add: HksStoreGetKeyBlobSize_def GetKeyBlobSize_def)
next
  case (Some d)
  obtain fs1 where s: "file_size env i fs = (word_of_nat (length d), fs1)"
    using size_healthy [OF assms(1,2) Some] by blast
  have "unat (word_of_nat (length d) :: u32) = length d"
    using assms(4) [OF Some] by (simp add: unat_u32_of_nat)
  then have "word_of_nat (length d) \<noteq> (0 :: u32)"
    using assms(4) [OF Some] by (metis length_0_conv unsigned_0)
  then show ?thesis
    using exists_healthy [OF assms(1-3)] Some file_size_same [of fs env i] s
    by (simp add: HksStoreGetKeyBlobSize_def GetKeyBlobSize_def)
qed

lemma exist_answer_healthy:
  assumes "env_healthy env" "files_ok fi" "files_ready fi fs"
    "main_content fi fs = bak_content fi fs"
  shows "HksStoreIsKeyBlobExist env fi fs =
    (if main_content fi fs = None then HKS_ERROR_NOT_EXIST else 0, fs)"
  using exists_healthy [of env _ fs] assms
  by (auto simp: HksStoreIsKeyBlobExist_def IsKeyBlobExist_def files_ready_def main_content_def bak_content_def)

end
