(* ===== verification/Huks_Storage_Paths.thy ===== *)
theory Huks_Storage_Paths
  imports Huks_Storage_Laws
begin

text \<open>
  The names of files: an encoded alias is a file name, different aliases have different ones, and the
  alias is read back from its name. Numbers in decimal are different for different numbers.
\<close>

section \<open>Encoded aliases\<close>

lemma resume_construct: "c \<ge> 0x30 \<Longrightarrow> ResumeInvalidCharacter (ConstructInvalidCharacter c) = c"
  by (auto simp: ResumeInvalidCharacter_def ConstructInvalidCharacter_def)

text \<open>No character stands for one of the four prefixes, a dot or a slash.\<close>

lemma construct_chars:
  "c \<ge> 0x30 \<Longrightarrow> \<not> (0x2B \<le> ConstructInvalidCharacter c \<and> ConstructInvalidCharacter c \<le> 0x2E)"
  "c \<ge> 0x30 \<Longrightarrow> ConstructInvalidCharacter c \<notin> {0, slash, 0x2E}"
  by (auto simp: ConstructInvalidCharacter_def word_le_nat_alt split: if_splits)

lemma high_bits: "drop_bit 6 (b :: u8) \<le> 3"
proof -
  have "unat (drop_bit 6 b) = unat b div 64"
    by (simp add: drop_bit_eq_div unat_div)
  then show ?thesis
    using unsigned_less [of b, where 'a = nat] by (simp add: word_le_nat_alt)
qed

lemma low_bits: "(b :: u8) AND 0x3F \<le> 0x3F"
  by (rule word_and_le1)

lemma prefix_char: "0x2B \<le> 0x2B + drop_bit 6 (b :: u8)" "0x2B + drop_bit 6 b \<le> 0x2E"
proof -
  have "unat (0x2B + drop_bit 6 b) = 0x2B + unat (drop_bit 6 b)"
    using high_bits [of b] by (simp add: unat_word_ariths word_le_nat_alt)
  then show "0x2B \<le> 0x2B + drop_bit 6 b" "0x2B + drop_bit 6 b \<le> 0x2E"
    using high_bits [of b] by (simp_all add: word_le_nat_alt)
qed

lemma salted_char: "0x30 \<le> 0x30 + ((b :: u8) AND 0x3F)"
proof -
  have "unat (0x30 + (b AND 0x3F)) = 0x30 + unat (b AND 0x3F)"
    using low_bits [of b] by (simp add: unat_word_ariths word_le_nat_alt)
  then show ?thesis by (simp add: word_le_nat_alt)
qed

lemma join_bits: "push_bit 6 (drop_bit 6 b) + (b AND 0x3F) = (b :: u8)"
proof -
  have "b AND 0x3F = take_bit 6 b"
    by (simp add: take_bit_eq_mask mask_eq_exp_minus_1)
  then show ?thesis by (metis bits_ident)
qed

lemma decode_encode_byte: "decode_loop (encode_byte b @ cs) out = decode_loop cs (out @ [b])"
proof (cases "b < 0x30 \<or> b > 0x7E")
  case True
  then show ?thesis
    using prefix_char [of b] resume_construct [OF salted_char, of b] join_bits [of b]
    by (simp add: encode_byte_def)
next
  case False
  then have "b \<ge> 0x30" by auto
  from construct_chars(1) [OF this] resume_construct [OF this] False show ?thesis
    by (simp add: encode_byte_def del: de_Morgan_conj)
qed

definition encode :: "bytes \<Rightarrow> bytes" where
  "encode bs = concat (map encode_byte bs)"

lemma encode_simps [simp]: "encode [] = []" "encode (b # bs) = encode_byte b @ encode bs"
  by (simp_all add: encode_def)

lemma decode_encode: "decode_loop (encode bs) out = Inr (out @ bs)"
  by (induction bs arbitrary: out) (simp_all add: decode_encode_byte)

lemma encode_inj: "encode bs = encode cs \<longleftrightarrow> bs = cs"
proof
  assume "encode bs = encode cs"
  then have "decode_loop (encode bs) [] = decode_loop (encode cs) []" by (rule arg_cong)
  then show "bs = cs" by (simp only: decode_encode append_Nil sum.inject)
qed simp

lemma encode_byte_shape:
  "encode_byte b \<noteq> []" "length (encode_byte b) \<le> 2" "last (encode_byte b) \<noteq> 0x2E"
  "0 \<notin> set (encode_byte b)" "slash \<notin> set (encode_byte b)"
proof -
  have c: "0x2B + drop_bit 6 b \<notin> {0, slash}"
    using prefix_char [of b] by auto
  have "\<not> (b < 0x30 \<or> b > 0x7E) \<Longrightarrow> b \<ge> 0x30" by auto
  with c show "encode_byte b \<noteq> []" "length (encode_byte b) \<le> 2" "last (encode_byte b) \<noteq> 0x2E"
    "0 \<notin> set (encode_byte b)" "slash \<notin> set (encode_byte b)"
    using construct_chars(2) [of b] construct_chars(2) [OF salted_char, of b]
    by (auto simp: encode_byte_def)
qed

lemma encode_no: "0 \<notin> set (encode bs)" "slash \<notin> set (encode bs)"
  using encode_byte_shape(4,5) by (auto simp: encode_def)

lemma encode_empty_iff [simp]: "encode bs = [] \<longleftrightarrow> bs = []"
  using encode_byte_shape(1) by (cases bs) auto

lemma encode_length: "length (encode bs) \<le> 2 * length bs" "length bs \<le> length (encode bs)"
proof -
  show "length (encode bs) \<le> 2 * length bs"
    using encode_byte_shape(2) by (induction bs) (auto intro: le_trans [OF add_mono])
  show "length bs \<le> length (encode bs)"
  proof (induction bs)
    case (Cons b bs)
    then show ?case using encode_byte_shape(1) [of b] by (cases "encode_byte b") auto
  qed simp
qed

lemma encode_last: "bs \<noteq> [] \<Longrightarrow> last (encode bs) \<noteq> 0x2E"
proof (induction bs)
  case (Cons b bs)
  then show ?case using encode_byte_shape(1,3) [of b] by (cases "bs = []") (simp_all add: last_append)
qed simp

lemma c_str_no_zero: "0 \<notin> set bs \<Longrightarrow> c_str bs = bs"
  unfolding c_str_def by (simp add: takeWhile_eq_all_conv) metis

lemma name_loop_fits:
  "length target + 2 * length bs < nameLen \<Longrightarrow> name_loop nameLen bs target = Inr (target @ encode bs)"
proof (induction bs arbitrary: target)
  case (Cons b bs)
  moreover have "length (encode_byte b) \<le> 2" by (rule encode_byte_shape)
  ultimately show ?case by simp
qed simp

lemma name_loop_Inr: "name_loop nameLen bs target = Inr name \<Longrightarrow> name = target @ encode bs"
  by (induction bs arbitrary: target) (fastforce split: if_splits)+

lemma ConstructName_fits:
  "1 < nameLen \<Longrightarrow> 2 * length (name_bytes b) < nameLen \<Longrightarrow> ConstructName b nameLen = Inr (encode (name_bytes b))"
  by (simp add: ConstructName_def name_loop_fits)

section \<open>Decimal numbers\<close>

lemma digit_char: "n < 10 \<Longrightarrow> unat (0x30 + word_of_nat n :: u8) = 0x30 + n"
  by (simp add: unat_word_ariths unsigned_of_nat take_bit_nat_eq_self)

definition digits_value :: "bytes \<Rightarrow> nat" where
  "digits_value = foldl (\<lambda>v c. 10 * v + (unat c - 0x30)) 0"

lemma digits_value_digits [simp]: "digits_value (digits n) = n"
proof (induction n rule: digits.induct)
  case (1 n)
  show ?case
  proof (cases "n < 10")
    case True
    then show ?thesis
      by (subst digits.simps) (simp add: digits_value_def digit_char)
  next
    case False
    with 1 have "digits_value (digits (n div 10)) = n div 10" by simp
    then show ?thesis
      using False by (subst digits.simps) (simp add: digits_value_def digit_char)
  qed
qed

lemma digits_set: "set (digits n) \<subseteq> {0x30..0x39}"
proof (induction n rule: digits.induct)
  case (1 n)
  have "0x30 + word_of_nat m \<in> {0x30..0x39 :: u8}" if "m < 10" for m
    using digit_char [OF that] that by (auto simp: word_le_nat_alt)
  then show ?case
    using 1 by (subst digits.simps) auto
qed

lemma digits_nonempty: "digits n \<noteq> []"
  by (subst digits.simps) simp

lemma length_digits: "n < 10 ^ k \<Longrightarrow> 0 < k \<Longrightarrow> length (digits n) \<le> k"
proof (induction k arbitrary: n)
  case (Suc k)
  show ?case
  proof (cases "n < 10")
    case True
    then show ?thesis by (subst digits.simps) simp
  next
    case False
    then have "0 < k" using Suc.prems by (cases k) auto
    moreover have "n div 10 < 10 ^ k"
      using Suc.prems by (simp add: less_mult_imp_div_less mult.commute)
    ultimately show ?thesis
      using Suc.IH [of "n div 10"] False by (subst digits.simps) simp
  qed
qed simp

lemma decimal_inj: "decimal v = decimal w \<longleftrightarrow> v = w"
proof
  have minus: "digits n \<noteq> 0x2D # ds" for n ds
    using digits_set [of n] by (cases "digits n") auto
  have dig: "digits m = digits n \<longleftrightarrow> m = n" for m n
    by (metis digits_value_digits)
  assume "decimal v = decimal w"
  then have "sint v = sint w"
    using minus minus [symmetric]
    by (auto simp: decimal_def dig nat_eq_iff2 split: if_splits)
  then show "v = w" by (simp add: signed_word_eqI)
qed simp

lemma decimal_set: "set (decimal w) \<subseteq> {0x2D} \<union> {0x30..0x39}"
  using digits_set by (auto simp: decimal_def)

lemma decimal_no: "0 \<notin> set (decimal w)" "slash \<notin> set (decimal w)" "0x2E \<notin> set (decimal w)"
  using decimal_set [of w] by auto

lemma decimal_nonempty [simp]: "decimal w \<noteq> []"
  by (simp add: decimal_def digits_nonempty)

lemma length_decimal: "length (decimal w) \<le> 11"
proof -
  have "- (2 ^ 31) \<le> sint w" "sint w < 2 ^ 31"
    using sint_ge [of w] sint_lt [of w] by simp_all
  then have "nat (sint w) < 10 ^ 10" "nat (- sint w) < 10 ^ 10"
    by auto
  then show ?thesis
    using length_digits [of "nat (sint w)" 10] length_digits [of "nat (- sint w)" 10]
    by (simp add: decimal_def)
qed

text \<open>
  Where a key is stored, as a function of its storage level, user, process and alias; making the
  directories on the way.
\<close>

section \<open>Paths without a dangerous part\<close>

abbreviation dot :: u8 where "dot \<equiv> 0x2E"

text \<open>A canonical path in which no part ends with a dot.\<close>

definition safe_path :: "bytes \<Rightarrow> bool" where
  "safe_path p \<longleftrightarrow> dir_path_ok p \<and> successively (\<lambda>c d. c \<noteq> dot \<or> d \<noteq> slash) p \<and> (p \<noteq> [] \<longrightarrow> last p \<noteq> dot)"

lemma strstr_dangerous: "successively (\<lambda>c d. c \<noteq> dot \<or> d \<noteq> slash) p \<Longrightarrow> \<not> strstr p (chars ''../'')"
proof (induction p)
  case Nil
  then show ?case by (simp add: chars_def)
next
  case (Cons c p)
  have "\<not> prefix (chars ''../'') (c # p)"
  proof
    assume "prefix (chars ''../'') (c # p)"
    then obtain s where "c # p = dot # dot # slash # s"
      by (auto simp: chars_def prefix_def)
    with Cons.prems show False by simp
  qed
  with Cons show ?case by (auto simp: successively_Cons)
qed

lemma safe_valid: "safe_path p \<Longrightarrow> valid_path p"
  by (simp add: safe_path_def valid_path_def strstr_dangerous)

lemma safe_dir [simp]: "safe_path p \<Longrightarrow> dir_path_ok p"
  by (simp add: safe_path_def)

definition part_ok :: "bytes \<Rightarrow> bool" where
  "part_ok n \<longleftrightarrow> file_name_ok n \<and> last n \<noteq> dot"

lemma no_slash_successively_dot: "slash \<notin> set n \<Longrightarrow> successively (\<lambda>c d. c \<noteq> dot \<or> d \<noteq> slash) n"
  by (induction n) (auto simp: successively_Cons dest: hd_in_set)

lemma safe_entry: "safe_path (p @ slash # n)" if "safe_path p" "part_ok n"
proof -
  have "successively (\<lambda>c d. c \<noteq> dot \<or> d \<noteq> slash) (slash # n)"
    using that no_slash_successively_dot [of n] by (cases n) (auto simp: part_ok_def file_name_ok_def)
  then show ?thesis
    using that dir_path_ok_entry [of p n]
    by (auto simp: safe_path_def part_ok_def successively_append_iff file_name_ok_def)
qed

lemma part_ok_decimal: "part_ok (decimal w)"
  using decimal_no [of w] last_in_set [OF decimal_nonempty, of w] by (auto simp: part_ok_def file_name_ok_def simp del: last_in_set)

lemma part_ok_encode: "bs \<noteq> [] \<Longrightarrow> part_ok (encode bs)"
  using encode_no [of bs] encode_last [of bs] by (simp add: part_ok_def file_name_ok_def)

section \<open>The place of a key\<close>

record stored_key =
  sk_level :: u32
  sk_user :: u32
  sk_uid :: u32
  sk_type :: u32
  sk_alias :: bytes

definition key_dir :: "bool \<Rightarrow> stored_key \<Rightarrow> bytes" where
  "key_dir bak k =
     (let kind = (if sk_type k = HKS_STORAGE_TYPE_ROOT_KEY then HKS_KEY_STORE_ROOT_KEY_PATH else HKS_KEY_STORE_KEY_PATH)
      in
      if sk_level k = HKS_AUTH_STORAGE_LEVEL_DE then
        (if bak then HKS_KEY_STORE_BAK_PATH else HKS_KEY_STORE_PATH)
          @ slash # decimal (sk_user k) @ slash # decimal (sk_uid k) @ slash # kind
      else
        (if sk_level k = HKS_AUTH_STORAGE_LEVEL_CE then HKS_CE_ROOT_PATH else HKS_ECE_ROOT_PATH)
          @ slash # decimal (sk_user k)
          @ slash # (if bak then HKS_STORE_SERVICE_BAK_PATH else HKS_STORE_SERVICE_PATH)
          @ slash # decimal (sk_uid k) @ slash # kind)"

definition key_files :: "stored_key \<Rightarrow> HksStoreFileInfo" where
  "key_files k =
     \<lparr>mainPath = \<lparr>si_path = key_dir False k, si_fileName = encode (sk_alias k)\<rparr>,
      bakPath = \<lparr>si_path = key_dir True k, si_fileName = encode (sk_alias k)\<rparr>\<rparr>"

text \<open>Keys of the three levels; those of the levels of a user only for users that have their directories.\<close>

definition wf_key :: "u32 set \<Rightarrow> stored_key \<Rightarrow> bool" where
  "wf_key users k \<longleftrightarrow>
     (sk_level k = HKS_AUTH_STORAGE_LEVEL_DE \<and> sint (sk_user k) \<ge> 0
      \<or> (sk_level k = HKS_AUTH_STORAGE_LEVEL_CE \<or> sk_level k = HKS_AUTH_STORAGE_LEVEL_ECE)
         \<and> sk_user k \<in> users \<and> sint (sk_user k) \<ge> HKS_ROOT_USER_UPPERBOUND)
     \<and> (sk_type k = HKS_STORAGE_TYPE_KEY \<or> sk_type k = HKS_STORAGE_TYPE_ROOT_KEY)
     \<and> sk_alias k \<noteq> [] \<and> length (sk_alias k) \<le> 128"

lemmas path_consts = HKS_KEY_STORE_PATH_def HKS_KEY_STORE_BAK_PATH_def HKS_CE_ROOT_PATH_def HKS_ECE_ROOT_PATH_def
  HKS_STORE_SERVICE_PATH_def HKS_STORE_SERVICE_BAK_PATH_def HKS_KEY_STORE_KEY_PATH_def
  HKS_KEY_STORE_ROOT_KEY_PATH_def chars_def

lemma safe_roots:
  "safe_path HKS_KEY_STORE_PATH" "safe_path HKS_KEY_STORE_BAK_PATH" "safe_path HKS_CE_ROOT_PATH"
  "safe_path HKS_ECE_ROOT_PATH"
  by (simp_all add: path_consts safe_path_def dir_path_ok_def ends_slash_def)

lemma safe_service:
  "safe_path p \<Longrightarrow> safe_path (p @ slash # HKS_STORE_SERVICE_PATH)"
  "safe_path p \<Longrightarrow> safe_path (p @ slash # HKS_STORE_SERVICE_BAK_PATH)"
  by (auto simp: path_consts safe_path_def dir_path_ok_def ends_slash_def successively_append_iff)

lemma part_ok_kind: "part_ok HKS_KEY_STORE_ROOT_KEY_PATH" "part_ok HKS_KEY_STORE_KEY_PATH"
  by (simp_all add: path_consts part_ok_def file_name_ok_def)

lemma key_dir_safe: "safe_path (key_dir bak k)"
  using safe_entry [OF _ part_ok_decimal] safe_entry [OF _ part_ok_kind(1)] safe_entry [OF _ part_ok_kind(2)]
    safe_roots safe_service
  by (simp add: key_dir_def Let_def flip: append_assoc append_Cons)

lemma key_dir_length: "length (key_dir bak k) < 100"
  using length_decimal [of "sk_user k"] length_decimal [of "sk_uid k"]
  by (simp add: key_dir_def Let_def path_consts)

lemma key_dir_hd: "key_dir bak k \<noteq> []" "hd (key_dir bak k) = slash"
  by (simp_all add: key_dir_def Let_def path_consts)

lemma key_entry_ok: "wf_key users k \<Longrightarrow> entry_ok (key_dir bak k) (encode (sk_alias k))"
  using key_dir_safe [of bak k] key_dir_length [of bak k] encode_length(1) [of "sk_alias k"]
    safe_valid [OF safe_entry, of "key_dir bak k" "encode (sk_alias k)"] part_ok_encode [of "sk_alias k"]
  by (simp add: entry_ok_def wf_key_def part_ok_def)

section \<open>Different keys have different files\<close>

text \<open>Splitting a path at its slashes.\<close>

fun parts :: "bytes \<Rightarrow> bytes list" where
  "parts [] = [[]]"
| "parts (c # s) = (if c = slash then [] # parts s
     else case parts s of [] \<Rightarrow> [[c]] | n # ns \<Rightarrow> (c # n) # ns)"

lemma parts_nonempty [simp]: "parts s \<noteq> []"
  by (induction s) (auto split: list.splits)

lemma parts_join: "parts (p @ slash # q) = parts p @ parts q"
proof (induction p)
  case (Cons c p)
  then show ?case by (cases "parts p") (simp_all split: list.splits)
qed simp

lemma parts_no_slash: "slash \<notin> set n \<Longrightarrow> parts n = [n]"
  by (induction n) (auto split: list.splits)

lemma parts_names: "parts (decimal w) = [decimal w]" "parts (encode bs) = [encode bs]"
  by (simp_all add: parts_no_slash decimal_no encode_no)

lemma parts_consts:
  "parts HKS_KEY_STORE_PATH = [[], chars ''data'', chars ''service'', chars ''el1'', chars ''public'',
     chars ''huks_service'', chars ''maindata'']"
  "parts HKS_KEY_STORE_BAK_PATH = [[], chars ''data'', chars ''service'', chars ''el1'', chars ''public'',
     chars ''huks_service'', chars ''bakdata'']"
  "parts HKS_CE_ROOT_PATH = [[], chars ''data'', chars ''service'', chars ''el2'']"
  "parts HKS_ECE_ROOT_PATH = [[], chars ''data'', chars ''service'', chars ''el4'']"
  "parts HKS_STORE_SERVICE_PATH = [chars ''huks_service'', chars ''maindata'']"
  "parts HKS_STORE_SERVICE_BAK_PATH = [chars ''huks_service'', chars ''bakdata'']"
  "parts HKS_KEY_STORE_KEY_PATH = [chars ''key'']"
  "parts HKS_KEY_STORE_ROOT_KEY_PATH = [chars ''info'']"
  by (simp_all add: path_consts)

text \<open>The parts of the path of a key determine the key.\<close>

lemma key_parts:
  "parts (key_dir bak k @ slash # encode (sk_alias k)) =
     (let kind = (if sk_type k = HKS_STORAGE_TYPE_ROOT_KEY then chars ''info'' else chars ''key'');
          copy = (if bak then chars ''bakdata'' else chars ''maindata'') in
      if sk_level k = HKS_AUTH_STORAGE_LEVEL_DE then
        [[], chars ''data'', chars ''service'', chars ''el1'', chars ''public'', chars ''huks_service'', copy,
         decimal (sk_user k), decimal (sk_uid k), kind, encode (sk_alias k)]
      else
        [[], chars ''data'', chars ''service'',
         (if sk_level k = HKS_AUTH_STORAGE_LEVEL_CE then chars ''el2'' else chars ''el4''),
         decimal (sk_user k), chars ''huks_service'', copy, decimal (sk_uid k), kind, encode (sk_alias k)])"
  by (simp add: key_dir_def Let_def parts_join parts_names parts_consts)

lemma chars_neq:
  "chars ''info'' \<noteq> chars ''key''" "chars ''bakdata'' \<noteq> chars ''maindata''" "chars ''el2'' \<noteq> chars ''el4''"
  "chars ''el1'' \<noteq> chars ''el2''" "chars ''el1'' \<noteq> chars ''el4''"
  by (simp_all add: chars_def)

lemma key_path_inj:
  assumes "wf_key users k" "wf_key users k'"
    "key_dir bak k @ slash # encode (sk_alias k) = key_dir bak' k' @ slash # encode (sk_alias k')"
  shows "k = k' \<and> bak = bak'"
proof -
  have "parts (key_dir bak k @ slash # encode (sk_alias k)) = parts (key_dir bak' k' @ slash # encode (sk_alias k'))"
    using assms(3) by (rule arg_cong)
  then show ?thesis
    using assms(1,2) unfolding key_parts Let_def
    by (cases k, cases k')
      (auto simp: wf_key_def encode_inj decimal_inj chars_neq chars_neq [symmetric] split: if_splits)
qed

lemma files_ok_key: "wf_key users k \<Longrightarrow> files_ok (key_files k)"
  using key_entry_ok [of users k] key_path_inj [of users k k False True]
  by (auto simp: files_ok_def key_files_def info_ok_def info_path_def)

end
