(* ===== verification/Huks_Storage_Dirs.thy ===== *)
theory Huks_Storage_Dirs
  imports Huks_Storage_Paths
begin

text \<open>
  Making all directories of a path, and with it what the storage operations begin with: after
  \<open>store_file_info\<close> the directories of the key are there and no file has changed.
\<close>

section \<open>The directories of a path\<close>

definition path_dirs :: "bytes \<Rightarrow> bytes set" where
  "path_dirs p = {take i p | i. 0 < i \<and> i < length p \<and> p ! i = slash} \<union> {p}"

lemma StandardizePath_id: "dir_path_ok p \<Longrightarrow> p \<noteq> [] \<Longrightarrow> StandardizePath p = p"
proof -
  assume p: "dir_path_ok p" "p \<noteq> []"
  have "i \<le> length p \<Longrightarrow> 0 < i \<Longrightarrow> standardize_loop p [i..<length p] i = (p, length p)" for i
  proof (induction "length p - i" arbitrary: i)
    case (Suc n)
    then have i: "i < length p" by simp
    have "successively no_double p"
      using p by (simp add: dir_path_ok_def)
    then have "p ! i \<noteq> slash \<or> p ! (i - 1) \<noteq> slash"
      using Suc.prems(2) i by (auto simp: successively_conv_nth dest: spec [of _ "i - 1"])
    then show ?case
      using Suc.hyps(1) [of "i + 1"] Suc.hyps(2) i by (simp add: upt_conv_Cons)
  qed simp
  from this [of 1] p(2) show ?thesis
    by (cases p) (auto simp: StandardizePath_def Let_def)
qed

lemma take_dir_ok:
  assumes "dir_path_ok p" "i < length p" "p ! i = slash"
  shows "dir_path_ok (take i p)"
proof -
  have s: "successively no_double p"
    using assms(1) by (simp add: dir_path_ok_def)
  have "\<not> ends_slash (take i p)"
  proof
    assume e: "ends_slash (take i p)"
    then have "0 < i" by (auto simp: ends_slash_def)
    then have "p ! (i - 1) = slash"
      using e last_conv_nth [of "take i p"] assms(2) by (auto simp: ends_slash_def)
    then show False
      using s assms(2,3) \<open>0 < i\<close> by (auto simp: successively_conv_nth dest: spec [of _ "i - 1"])
  qed
  moreover have "successively no_double (take i p)"
    using s append_take_drop_id [of i p] by (metis successively_append_iff)
  ultimately show ?thesis by (simp add: dir_path_ok_def)
qed

lemma take_valid: "safe_path p \<Longrightarrow> valid_path (take i p)"
  unfolding valid_path_def safe_path_def
  using strstr_dangerous append_take_drop_id [of i p] by (metis successively_append_iff)

text \<open>The directory above a prefix that ends before a slash is such a prefix too.\<close>

lemma parent_prefix:
  assumes "dir_path_ok q" "q \<noteq> []" "hd q = slash"
  obtains j where "j < length q" "q ! j = slash" "parent q = take j q"
proof -
  have "slash \<in> set q"
    using assms(2,3) by (cases q) auto
  then obtain a b where q: "q = a @ slash # b" "slash \<notin> set b"
    by (meson split_list_last)
  have "b \<noteq> []"
    using assms(1) q by (auto simp: dir_path_ok_def ends_slash_def)
  then have b: "file_name_ok b"
    using q by (simp add: file_name_ok_def)
  have "dir_path_ok a"
    using take_dir_ok [OF assms(1), of "length a"] q by simp
  then have "parent q = a"
    using b q by simp
  then show thesis
    using that [of "length a"] q by simp
qed

lemma mkdir_healthy:
  assumes "os_healthy os" "dir_path_ok p" "valid_path p" "fs_content fs p = None" "is_dir fs (parent p)"
  shows "HksMakeDir os p fs = (if is_dir fs p then (HKS_ERROR_ALREADY_EXISTS, fs\<lparr>fs_calls := Suc (fs_calls fs)\<rparr>)
    else (0, fs\<lparr>fs_calls := Suc (fs_calls fs), fs_dirs := fs_dirs fs @ [p]\<rparr>))"
  using assms by (simp add: HksMakeDir_def mkdir_call_def sys_healthy exists_path_def)

definition only_dirs :: "bytes set \<Rightarrow> file_system \<Rightarrow> file_system \<Rightarrow> bool" where
  "only_dirs ds fs fs' \<longleftrightarrow> fs_files fs' = fs_files fs \<and> set (fs_dirs fs') = set (fs_dirs fs) \<union> ds"

lemma only_dirs_trans [trans]: "only_dirs ds fs fs' \<Longrightarrow> only_dirs es fs' fs'' \<Longrightarrow> only_dirs (ds \<union> es) fs fs''"
  by (auto simp: only_dirs_def)

lemma only_dirs_content: "only_dirs ds fs fs' \<Longrightarrow> fs_content fs' q = fs_content fs q"
  by (simp add: only_dirs_def fs_content_def)

lemma mkdir_only_dirs:
  assumes "os_healthy os" "dir_path_ok p" "valid_path p" "fs_content fs p = None" "is_dir fs (parent p)"
    "HksMakeDir os p fs = (ret, fs')"
  shows "ret \<in> {0, HKS_ERROR_ALREADY_EXISTS} \<and> only_dirs {p} fs fs'"
  using mkdir_healthy [OF assms(1-5)] assms(2,6)
  by (auto simp: only_dirs_def is_dir_dir_path split: if_splits)

lemma make_dir_loop_healthy:
  assumes "os_healthy os" "safe_path p" "p \<noteq> []" "hd p = slash" "\<And>q. q \<in> path_dirs p \<Longrightarrow> fs_content fs q = None"
    "i \<le> length p" "0 < i" "\<And>j. j < i \<Longrightarrow> p ! j = slash \<Longrightarrow> take j p \<in> set (fs_dirs fs)"
  shows "\<exists>fs'. make_dir_loop os p [i..<length p] fs = (0, fs')
    \<and> only_dirs {take j p | j. i \<le> j \<and> j < length p \<and> p ! j = slash} fs fs'"
  using assms(5-)
proof (induction "length p - i" arbitrary: i fs)
  case 0
  then have e: "{take j p | j. i \<le> j \<and> j < length p \<and> p ! j = slash} = {}" by auto
  from 0 show ?case unfolding e by (simp add: only_dirs_def)
next
  case (Suc n)
  then have i: "i < length p" by simp
  show ?case
  proof (cases "p ! i = slash")
    case False
    then have "i \<le> j \<and> j < length p \<and> p ! j = slash \<longleftrightarrow> i + 1 \<le> j \<and> j < length p \<and> p ! j = slash" for j
      by (cases "j = i") auto
    then have e: "{take j p | j. i \<le> j \<and> j < length p \<and> p ! j = slash}
        = {take j p | j. i + 1 \<le> j \<and> j < length p \<and> p ! j = slash}"
      by simp
    have "j < i + 1 \<Longrightarrow> p ! j = slash \<Longrightarrow> take j p \<in> set (fs_dirs fs)" for j
      using Suc.prems(4) [of j] False by (cases "j = i") auto
    then show ?thesis
      using Suc.hyps(1) [of "i + 1" fs] Suc.hyps(2) Suc.prems(1) i False e
      by (simp add: upt_conv_Cons)
  next
    case True
    let ?q = "take i p"
    have q: "dir_path_ok ?q" "?q \<noteq> []" "hd ?q = slash" "valid_path ?q"
      using take_dir_ok [OF _ i True] take_valid [of p i] assms(2-4) Suc.prems(3) by (auto simp: safe_path_def)
    have none: "fs_content fs ?q = None"
      using Suc.prems(1) [of ?q] Suc.prems(3) i True by (auto simp: path_dirs_def)
    obtain fs1 where loop: "make_dir_loop os p [i..<length p] fs = make_dir_loop os p [i + 1..<length p] fs1"
      and only: "only_dirs {?q} fs fs1"
    proof (cases "is_dir fs ?q")
      case dir: True
      then have "only_dirs {?q} fs fs"
        using q(1) by (auto simp: only_dirs_def is_dir_dir_path)
      then show thesis
        using that [of fs] dir q(4) True i
        by (simp add: upt_conv_Cons HksIsDirExist_def IsFileExist_def exists_path_def)
    next
      case dir: False
      obtain j where j: "j < length ?q" "?q ! j = slash" "parent ?q = take j ?q"
        using parent_prefix [OF q(1-3)] by blast
      have dj: "dir_path_ok (take j p)"
        using take_dir_ok [of p j] j i assms(2) by simp
      have "take j p \<in> set (fs_dirs fs)"
        using Suc.prems(4) [of j] j by simp
      then have par: "is_dir fs (parent ?q)"
        using j dj by (simp add: is_dir_dir_path min_def split: if_splits)
      obtain ret fs1 where m: "HksMakeDir os ?q fs = (ret, fs1)" by fastforce
      have m': "ret \<in> {0, HKS_ERROR_ALREADY_EXISTS}" "only_dirs {?q} fs fs1"
        using mkdir_only_dirs [OF assms(1) q(1,4) none par m] by auto
      then show thesis
        using that [of fs1] dir q(4) True i none m
        by (auto simp: upt_conv_Cons HksIsDirExist_def IsFileExist_def exists_path_def)
    qed
    have "fs_content fs1 q = None" if "q \<in> path_dirs p" for q
      using only_dirs_content [OF only] Suc.prems(1) that by simp
    moreover have "take j p \<in> set (fs_dirs fs1)" if "j < i + 1" "p ! j = slash" for j
      using that Suc.prems(4) [of j] only by (cases "j = i") (auto simp: only_dirs_def)
    moreover have "n = length p - Suc i"
      using Suc.hyps(2) by linarith
    ultimately obtain fs2 where l2: "make_dir_loop os p [i + 1..<length p] fs1 = (0, fs2)"
      and o2: "only_dirs {take j p | j. i + 1 \<le> j \<and> j < length p \<and> p ! j = slash} fs1 fs2"
      using Suc.hyps(1) [of "i + 1" fs1] i by auto
    have "i \<le> j \<and> j < length p \<and> p ! j = slash \<longleftrightarrow> j = i \<or> i + 1 \<le> j \<and> j < length p \<and> p ! j = slash" for j
      using True i by (cases "j = i") auto
    then have e: "{?q} \<union> {take j p | j. i + 1 \<le> j \<and> j < length p \<and> p ! j = slash}
        = {take j p | j. i \<le> j \<and> j < length p \<and> p ! j = slash}"
      by auto
    show ?thesis
      using only_dirs_trans [OF only o2] loop l2 unfolding e by auto
  qed
qed

lemma make_full_dir_healthy:
  assumes "env_healthy env" "safe_path p" "p \<noteq> []" "hd p = slash" "length p < 1000"
    "\<And>q. q \<in> path_dirs p \<Longrightarrow> fs_content fs q = None" "[] \<in> set (fs_dirs fs)"
  shows "\<exists>fs'. HksMakeFullDir (se_os env) (se_alloc env) p fs = (0, fs') \<and> only_dirs (path_dirs p) fs fs'"
proof -
  have "take j p \<in> set (fs_dirs fs)" if "j < 1" for j
    using that assms(7) by simp
  then obtain fs1 where l: "make_dir_loop (se_os env) p [1..<length p] fs = (0, fs1)"
    and o1: "only_dirs {take j p | j. 1 \<le> j \<and> j < length p \<and> p ! j = slash} fs fs1"
    using make_dir_loop_healthy [of "se_os env" p fs 1] assms by (auto simp: Suc_le_eq)
  obtain j where j: "j < length p" "p ! j = slash" "parent p = take j p"
    using parent_prefix [of p] assms(2-4) by auto
  have "dir_path_ok (take j p)"
    using take_dir_ok [OF _ j(1,2)] assms(2) by simp
  moreover have "take j p \<in> set (fs_dirs fs1)"
    using o1 j assms(7) by (cases "j = 0") (auto simp: only_dirs_def)
  ultimately have par: "is_dir fs1 (parent p)"
    using j by (simp add: is_dir_dir_path)
  have none: "fs_content fs1 p = None"
    using only_dirs_content [OF o1] assms(6) [of p] by (simp add: path_dirs_def)
  obtain ret fs2 where m: "HksMakeDir (se_os env) p fs1 = (ret, fs2)" by fastforce
  have m': "ret \<in> {0, HKS_ERROR_ALREADY_EXISTS}" "only_dirs {p} fs1 fs2"
    using mkdir_only_dirs [OF _ _ _ none par m] assms(1,2) safe_valid [of p] by auto
  have "path_dirs p = {take j p | j. 1 \<le> j \<and> j < length p \<and> p ! j = slash} \<union> {p}"
    by (auto simp: path_dirs_def Suc_le_eq)
  then have "only_dirs (path_dirs p) fs fs2"
    using only_dirs_trans [OF o1 m'(2)] by simp
  moreover have "HksMalloc (se_alloc env) (length p + 1)"
    using assms(1,5) by (simp add: HksMalloc_def)
  ultimately show ?thesis
    using l m m'(1) by (auto simp: HksMakeFullDir_def)
qed

section \<open>The files of a request\<close>

definition user_dirs :: "stored_key \<Rightarrow> file_system \<Rightarrow> bool" where
  "user_dirs k fs \<longleftrightarrow>
     (sk_level k = HKS_AUTH_STORAGE_LEVEL_CE \<longrightarrow> HKS_CE_ROOT_PATH @ slash # decimal (sk_user k) \<in> set (fs_dirs fs))
     \<and> (sk_level k = HKS_AUTH_STORAGE_LEVEL_ECE \<longrightarrow> HKS_ECE_ROOT_PATH @ slash # decimal (sk_user k) \<in> set (fs_dirs fs))"

text \<open>With the name of the file, or for a request about all keys of a process without it.\<close>

definition key_material :: "stored_key \<Rightarrow> bool \<Rightarrow> HksStoreMaterial" where
  "key_material k named =
     \<lparr>sm_pathType = GetPathType (sk_level k), sm_userIdPath = decimal (sk_user k), sm_uidPath = decimal (sk_uid k),
      sm_storageTypePath =
        (if sk_type k = HKS_STORAGE_TYPE_ROOT_KEY then HKS_KEY_STORE_ROOT_KEY_PATH else HKS_KEY_STORE_KEY_PATH),
      sm_keyAliasPath = (if named then Some (encode (sk_alias k)) else NULL)\<rparr>"

definition named_files :: "stored_key \<Rightarrow> bool \<Rightarrow> HksStoreFileInfo" where
  "named_files k named = (let name = (if named then encode (sk_alias k) else []) in
     \<lparr>mainPath = \<lparr>si_path = key_dir False k, si_fileName = name\<rparr>,
      bakPath = \<lparr>si_path = key_dir True k, si_fileName = name\<rparr>\<rparr>)"

lemma named_files_key: "named_files k True = key_files k"
  by (simp add: named_files_def key_files_def Let_def)

lemma user_path_exists:
  assumes "safe_path root" "length root < 100" "root @ slash # decimal u \<in> set (fs_dirs fs)"
  shows "HksIsDirExist (Some (root @ slash # decimal u)) fs = 0"
    "sprintf_s HKS_MAX_DIRENT_FILE_LEN (root @ slash # decimal u) = Some (root @ slash # decimal u)"
proof -
  have "safe_path (root @ slash # decimal u)"
    by (rule safe_entry [OF assms(1) part_ok_decimal])
  then show "HksIsDirExist (Some (root @ slash # decimal u)) fs = 0"
    using assms(3) safe_valid
    by (simp add: HksIsDirExist_def IsFileExist_def exists_path_def is_dir_dir_path)
  show "sprintf_s HKS_MAX_DIRENT_FILE_LEN (root @ slash # decimal u) = Some (root @ slash # decimal u)"
    using assms(2) length_decimal [of u] by (simp add: sprintf_s_def)
qed

lemma length_roots: "length HKS_CE_ROOT_PATH < 100" "length HKS_ECE_ROOT_PATH < 100"
  by (simp_all add: path_consts)

lemma ConstructPath_key:
  assumes "wf_key users k" "user_dirs k fs"
  shows "ConstructPath (key_material k named) (if bak then HKS_KEY_STORE_BAK_PATH else HKS_KEY_STORE_PATH)
    (if bak then HKS_STORE_SERVICE_BAK_PATH else HKS_STORE_SERVICE_PATH) fs = Inr (key_dir bak k)"
proof -
  have fits: "sprintf_s HKS_MAX_DIRENT_FILE_LEN (key_dir bak k) = Some (key_dir bak k)"
    using key_dir_length [of bak k] key_dir_hd(1) [of bak k] by (simp add: sprintf_s_def)
  consider "sk_level k = HKS_AUTH_STORAGE_LEVEL_DE" | "sk_level k = HKS_AUTH_STORAGE_LEVEL_CE"
    | "sk_level k = HKS_AUTH_STORAGE_LEVEL_ECE"
    using assms(1) by (auto simp: wf_key_def)
  then show ?thesis
  proof cases
    case 1
    then show ?thesis
      using fits by (simp add: ConstructPath_def key_material_def GetPathType_def Let_def key_dir_def)
  next
    case 2
    then show ?thesis
      using fits user_path_exists [OF safe_roots(3) length_roots(1), of "sk_user k" fs] assms(2)
      by (simp add: ConstructPath_def key_material_def GetPathType_def Let_def key_dir_def
          CheckUserPathExist_def user_dirs_def)
  next
    case 3
    then show ?thesis
      using fits user_path_exists [OF safe_roots(4) length_roots(2), of "sk_user k" fs] assms(2)
      by (simp add: ConstructPath_def key_material_def GetPathType_def Let_def key_dir_def
          CheckUserPathExist_def user_dirs_def)
  qed
qed

lemma GetPathInfo_key:
  assumes "env_healthy env" "wf_key users k" "user_dirs k fs" "[] \<in> set (fs_dirs fs)"
    "\<And>q. q \<in> path_dirs (key_dir bak k) \<Longrightarrow> fs_content fs q = None"
  shows "\<exists>fs'. GetPathInfo (se_os env) (se_alloc env) (key_material k named)
      (if bak then HKS_KEY_STORE_BAK_PATH else HKS_KEY_STORE_PATH)
      (if bak then HKS_STORE_SERVICE_BAK_PATH else HKS_STORE_SERVICE_PATH) fs
    = (Inr \<lparr>si_path = key_dir bak k, si_fileName = (if named then encode (sk_alias k) else [])\<rparr>, fs')
    \<and> only_dirs (path_dirs (key_dir bak k)) fs fs'"
proof -
  obtain fs' where d: "HksMakeFullDir (se_os env) (se_alloc env) (key_dir bak k) fs = (0, fs')"
    "only_dirs (path_dirs (key_dir bak k)) fs fs'"
    using make_full_dir_healthy [OF assms(1) key_dir_safe key_dir_hd, of bak k fs] key_dir_length [of bak k]
      assms(4,5) by auto
  have "\<not> strstr (encode (sk_alias k)) (chars ''../'')"
    by (rule strstr_dangerous) (rule no_slash_successively_dot [OF encode_no(2)])
  moreover have "length (encode (sk_alias k)) \<le> 512"
    using assms(2) encode_length(1) [of "sk_alias k"] by (simp add: wf_key_def)
  ultimately show ?thesis
    using d StandardizePath_id [OF safe_dir [OF key_dir_safe] key_dir_hd(1), of bak k]
    unfolding GetPathInfo_def Let_def ConstructPath_key [OF assms(2,3)]
    by (simp add: key_material_def memcpy_s_def)
qed

lemma user_dirs_mono: "user_dirs k fs \<Longrightarrow> only_dirs ds fs fs' \<Longrightarrow> user_dirs k fs'"
  by (auto simp: user_dirs_def only_dirs_def)

lemma HksGetFileInfo_key:
  assumes "env_healthy env" "wf_key users k" "user_dirs k fs" "[] \<in> set (fs_dirs fs)"
    "\<And>bak q. q \<in> path_dirs (key_dir bak k) \<Longrightarrow> fs_content fs q = None"
  shows "\<exists>fs'. HksGetFileInfo (se_os env) (se_alloc env) (key_material k named) fs = (Inr (named_files k named), fs')
    \<and> only_dirs (path_dirs (key_dir False k) \<union> path_dirs (key_dir True k)) fs fs'"
proof -
  obtain fs1 where m: "GetPathInfo (se_os env) (se_alloc env) (key_material k named) HKS_KEY_STORE_PATH
      HKS_STORE_SERVICE_PATH fs = (Inr (mainPath (named_files k named)), fs1)"
    and o1: "only_dirs (path_dirs (key_dir False k)) fs fs1"
    using GetPathInfo_key [OF assms(1-4), of False] assms(5) [of _ False] by (auto simp: named_files_def Let_def)
  have "[] \<in> set (fs_dirs fs1)"
    using o1 assms(4) by (simp add: only_dirs_def)
  moreover have "fs_content fs1 q = None" if "q \<in> path_dirs (key_dir True k)" for q
    using only_dirs_content [OF o1] assms(5) that by simp
  ultimately obtain fs2 where b: "GetPathInfo (se_os env) (se_alloc env) (key_material k named) HKS_KEY_STORE_BAK_PATH
      HKS_STORE_SERVICE_BAK_PATH fs1 = (Inr (bakPath (named_files k named)), fs2)"
    and o2: "only_dirs (path_dirs (key_dir True k)) fs1 fs2"
    using GetPathInfo_key [OF assms(1,2) user_dirs_mono [OF assms(3) o1], where bak = True]
    by (auto simp: named_files_def Let_def)
  show ?thesis
    using only_dirs_trans [OF o1 o2] assms(1)
    by (simp add: HksGetFileInfo_def FileInfoInit_def DataInit_def HksMalloc_def m b named_files_def Let_def)
qed

text \<open>The key that a request is about, and requests that name one.\<close>

definition request_key :: "HksProcessInfo \<Rightarrow> HksParamSet ptr \<Rightarrow> HksBlob \<Rightarrow> u32 \<Rightarrow> stored_key" where
  "request_key processInfo paramSet keyAlias storageType =
     \<lparr>sk_level = (case HksGetParam paramSet HKS_TAG_AUTH_STORAGE_LEVEL of Inr p \<Rightarrow> uint32Param (p_val p) | Inl _ \<Rightarrow> 0),
      sk_user = (case HksGetParam paramSet HKS_TAG_SPECIFIC_USER_ID of Inr p \<Rightarrow> uint32Param (p_val p)
        | Inl _ \<Rightarrow> pi_userIdInt processInfo),
      sk_uid = of_le (name_bytes (pi_processName processInfo)), sk_type = storageType,
      sk_alias = name_bytes keyAlias\<rparr>"

definition request_ok :: "u32 set \<Rightarrow> HksProcessInfo \<Rightarrow> HksParamSet ptr \<Rightarrow> HksBlob \<Rightarrow> u32 \<Rightarrow> bool" where
  "request_ok users processInfo paramSet keyAlias storageType \<longleftrightarrow>
     (\<exists>p. HksGetParam paramSet HKS_TAG_AUTH_STORAGE_LEVEL = Inr p)
     \<and> (\<forall>c. HksGetParam paramSet HKS_TAG_SPECIFIC_USER_ID = Inl c \<longrightarrow> c = HKS_ERROR_PARAM_NOT_EXIST)
     \<and> blob_size (pi_processName processInfo) = 4
     \<and> wf_key users (request_key processInfo paramSet keyAlias storageType)"

lemma ConstructPlainName_number:
  assumes "blob_size b = 4" "20 < n"
  shows "ConstructPlainName b n = Inr (decimal (of_le (name_bytes b)))"
  using assms length_decimal [of "of_le (name_bytes b)"] by (simp add: ConstructPlainName_def sprintf_s_def)

lemma name_bytes_le: "name_bytes \<lparr>blob_size = 4, blob_data = Some (to_le 4 w)\<rparr> = to_le 4 w"
  by (simp add: name_bytes_def)

lemma InitStorageMaterial_key:
  assumes "env_healthy env" "request_ok users processInfo paramSet keyAlias storageType"
  shows "InitStorageMaterial env processInfo paramSet (if named then Some keyAlias else NULL) storageType fs
    = (Inr (key_material (request_key processInfo paramSet keyAlias storageType) named), fs)"
proof -
  let ?k = "request_key processInfo paramSet keyAlias storageType"
  have k: "wf_key users ?k" "blob_size (pi_processName processInfo) = 4"
    using assms(2) by (auto simp: request_ok_def)
  have param: "GetStorageLevelAndStoreUserIdParam env processInfo paramSet fs = (Inr (sk_level ?k, sk_user ?k), fs)"
    using assms by (auto simp: request_ok_def GetStorageLevelAndStoreUserIdParam_def request_key_def split: sum.splits)
  have plain: "GetIsPlainPath (sk_level ?k)"
    using k by (auto simp: wf_key_def GetIsPlainPath_def)
  have user: "GetUserIdPath (se_alloc env) (sk_user ?k) True = Inr (decimal (sk_user ?k))"
    using assms(1) ConstructPlainName_number [of "\<lparr>blob_size = 4, blob_data = Some (to_le 4 (sk_user ?k))\<rparr>" 512]
    by (simp add: GetUserIdPath_def HksMalloc_def name_bytes_le of_le_to_le c_str_no_zero decimal_no)
  have uid: "GetUidPath (se_alloc env) True (pi_processName processInfo) = Inr (decimal (sk_uid ?k))"
    using assms(1) ConstructPlainName_number [OF k(2), of 128]
    by (simp add: GetUidPath_def HksMalloc_def request_key_def c_str_no_zero decimal_no)
  have kind: "GetStorageTypePath (se_alloc env) storageType = Inr (sm_storageTypePath (key_material ?k named))"
    using k(1) assms(1)
    by (auto simp: GetStorageTypePath_def HksMalloc_def wf_key_def request_key_def key_material_def)
  have alias_path: "GetKeyAliasPath (se_alloc env) (if named then Some keyAlias else NULL)
      = Inr (if named then Some (encode (sk_alias ?k)) else NULL)"
    using assms(1) k(1) ConstructName_fits [of 512 keyAlias]
    by (simp add: GetKeyAliasPath_def HksMalloc_def request_key_def wf_key_def c_str_no_zero encode_no)
  show ?thesis
    by (simp add: InitStorageMaterial_def param plain user uid kind alias_path Let_def) (simp add: key_material_def)
qed

lemma check_level_ok:
  assumes "request_ok users processInfo paramSet keyAlias storageType"
  shows "CheckSpecificUserIdAndStorageLevel processInfo paramSet = 0"
proof -
  have "HksGetParam NULL HKS_TAG_AUTH_STORAGE_LEVEL \<noteq> Inr p" for p
    by (simp add: HksGetParam_def)
  then have "paramSet \<noteq> NULL"
    using assms by (cases paramSet) (auto simp: request_ok_def)
  then show ?thesis
    using assms
    by (auto simp: request_ok_def CheckSpecificUserIdAndStorageLevel_def CheckIfBothTagExist_def
        CheckIfOnlyStorageLevelTagExist_def wf_key_def request_key_def Let_def split: sum.splits)
qed

lemma store_file_info_key:
  assumes "env_healthy env" "request_ok users processInfo paramSet keyAlias storageType"
    "k = request_key processInfo paramSet keyAlias storageType"
    "user_dirs k fs" "[] \<in> set (fs_dirs fs)"
    "\<And>bak q. q \<in> path_dirs (key_dir bak k) \<Longrightarrow> fs_content fs q = None"
  shows "\<exists>fs'. store_file_info env processInfo paramSet (if named then Some keyAlias else NULL) storageType fs
      = (Inr (named_files k named), fs')
    \<and> only_dirs (path_dirs (key_dir False k) \<union> path_dirs (key_dir True k)) fs fs'"
  using HksGetFileInfo_key [OF assms(1) _ assms(4-6)] assms(2,3) check_level_ok [OF assms(2)]
    InitStorageMaterial_key [OF assms(1,2)]
  by (auto simp: store_file_info_def HksConstructStoreFileInfo_def request_ok_def)

end
