(* ===== verification/Huks_Refine.thy ===== *)
theory Huks_Refine
  imports Main
begin

text \<open>
  Refinement of a specification by an implementation whose operations answer: while every operation keeps
  an invariant and gives the answer that the specification gives, so does every sequence of operations.
\<close>

fun run :: "('op \<Rightarrow> 's \<Rightarrow> 'ans \<times> 's) \<Rightarrow> 'op list \<Rightarrow> 's \<Rightarrow> 'ans list \<times> 's" where
  "run step [] s = ([], s)"
| "run step (op # ops) s =
     (let (a, s) = step op s; (answers, s) = run step ops s in (a # answers, s))"

locale simulation =
  fixes step :: "'op \<Rightarrow> 's \<Rightarrow> 'ans \<times> 's"
    and spec :: "'op \<Rightarrow> 'a \<Rightarrow> 'ans \<times> 'a"
    and allowed :: "'op \<Rightarrow> bool"
    and inv :: "'s \<Rightarrow> bool"
    and abst :: "'s \<Rightarrow> 'a"
  assumes keeps: "allowed op \<Longrightarrow> inv s \<Longrightarrow> inv (snd (step op s))"
    and matches: "allowed op \<Longrightarrow> inv s \<Longrightarrow> spec op (abst s) = (fst (step op s), abst (snd (step op s)))"
begin

lemma run_keeps: "\<forall>op\<in>set ops. allowed op \<Longrightarrow> inv s \<Longrightarrow> inv (snd (run step ops s))"
proof (induction ops arbitrary: s)
  case (Cons op ops)
  then show ?case
    using keeps [of op s] Cons.IH [of "snd (step op s)"] by (simp add: Let_def case_prod_beta)
qed simp

lemma run_matches:
  "\<forall>op\<in>set ops. allowed op \<Longrightarrow> inv s
    \<Longrightarrow> run spec ops (abst s) = (fst (run step ops s), abst (snd (run step ops s)))"
proof (induction ops arbitrary: s)
  case (Cons op ops)
  then show ?case
    using keeps [of op s] matches [of op s] by (simp add: Let_def case_prod_beta)
qed simp

end

end
