(* ===== verification/Huks_Storage_Refine.thy ===== *)
theory Huks_Storage_Refine
  imports Huks_Storage_Dirs Huks_Refine
begin

text \<open>
  The storage of keys refines a map from keys to blobs.
\<close>

section \<open>The invariant\<close>

text \<open>The number of parts of a path tells files of keys from directories.\<close>

definition key_shape :: "bytes \<Rightarrow> bool" where
  "key_shape q \<longleftrightarrow>
     (length (parts q) = 11 \<and> parts q ! 3 = chars ''el1'')
     \<or> (length (parts q) = 10 \<and> (parts q ! 3 = chars ''el2'' \<or> parts q ! 3 = chars ''el4''))"

definition store_inv :: "u32 set \<Rightarrow> file_system \<Rightarrow> bool" where
  "store_inv users fs \<longleftrightarrow>
     [] \<in> set (fs_dirs fs)
     \<and> (\<forall>u\<in>users. HKS_CE_ROOT_PATH @ slash # decimal u \<in> set (fs_dirs fs)
          \<and> HKS_ECE_ROOT_PATH @ slash # decimal u \<in> set (fs_dirs fs))
     \<and> (\<forall>d\<in>set (fs_dirs fs). \<not> key_shape d)
     \<and> (\<forall>q. fs_content fs q \<noteq> None \<longrightarrow>
          (\<exists>k bak. wf_key users k \<and> canon q = key_dir bak k @ slash # encode (sk_alias k)))
     \<and> (\<forall>k. wf_key users k \<longrightarrow> main_content (key_files k) fs = bak_content (key_files k) fs
          \<and> (\<forall>d. main_content (key_files k) fs = Some d \<longrightarrow> d \<noteq> [] \<and> length d < 2 ^ 32))"

text \<open>The keys that are stored.\<close>

definition stored :: "u32 set \<Rightarrow> file_system \<Rightarrow> stored_key \<Rightarrow> bytes option" where
  "stored users fs k = (if wf_key users k then main_content (key_files k) fs else None)"

lemma key_paths:
  "info_path (mainPath (key_files k)) = key_dir False k @ slash # encode (sk_alias k)"
  "info_path (bakPath (key_files k)) = key_dir True k @ slash # encode (sk_alias k)"
  by (simp_all add: key_files_def info_path_def)

lemma key_shape_key: "wf_key users k \<Longrightarrow> key_shape (key_dir bak k @ slash # encode (sk_alias k))"
  unfolding key_shape_def key_parts by (auto simp: Let_def)

lemma parts_prefix: "i < length p \<Longrightarrow> p ! i = slash \<Longrightarrow> parts p = parts (take i p) @ parts (drop (Suc i) p)"
  using parts_join [of "take i p" "drop (Suc i) p"] id_take_nth_drop [of i p] by simp

lemma no_key_shape_dir:
  assumes "wf_key users k" "q \<in> path_dirs (key_dir bak k)"
  shows "\<not> key_shape q"
proof -
  let ?d = "key_dir bak k"
  have full: "parts (?d @ slash # encode (sk_alias k)) = parts ?d @ [encode (sk_alias k)]"
    by (simp add: parts_join parts_names)
  have d: "length (parts ?d) = 10 \<and> parts ?d ! 3 = chars ''el1'' \<or> length (parts ?d) = 9"
    using arg_cong [OF full, of length] arg_cong [OF full, of "\<lambda>l. l ! 3"] unfolding key_parts
    by (auto simp: Let_def nth_append split: if_splits)
  from assms(2) consider "q = ?d" | i where "i < length ?d" "?d ! i = slash" "q = take i ?d"
    by (auto simp: path_dirs_def)
  then show ?thesis
  proof cases
    case 1
    then show ?thesis using d chars_neq by (auto simp: key_shape_def)
  next
    case 2
    then have "length (parts q) < length (parts ?d)"
      using arg_cong [OF parts_prefix [OF 2(1,2)], of length] by simp
    then show ?thesis using d by (auto simp: key_shape_def)
  qed
qed

lemma inv_user_dirs: "store_inv users fs \<Longrightarrow> wf_key users k \<Longrightarrow> user_dirs k fs"
  by (auto simp: store_inv_def wf_key_def user_dirs_def)

lemma inv_no_file:
  assumes "store_inv users fs" "wf_key users k" "q \<in> path_dirs (key_dir bak k)"
  shows "fs_content fs q = None"
proof -
  have "canon q = q"
    using assms(3) take_dir_ok [OF safe_dir [OF key_dir_safe]] safe_dir [OF key_dir_safe]
    by (auto simp: path_dirs_def)
  then show ?thesis
    using no_key_shape_dir [OF assms(2,3)] assms(1) key_shape_key unfolding store_inv_def by metis
qed

lemma inv_ready:
  assumes "store_inv users fs" "wf_key users k" "key_dir False k \<in> set (fs_dirs fs)" "key_dir True k \<in> set (fs_dirs fs)"
  shows "files_ready (key_files k) fs"
proof -
  have "\<not> is_dir fs (key_dir bak k @ slash # encode (sk_alias k))" for bak
    using key_shape_key [OF assms(2), of bak] assms(1) key_entry_ok [OF assms(2), of bak]
    by (auto simp: store_inv_def is_dir_dir_path entry_ok_def dir_path_ok_entry)
  then show ?thesis
    using assms(3,4) by (simp add: files_ready_def info_ready_def info_path_def key_files_def is_dir_dir_path
        safe_dir [OF key_dir_safe])
qed

lemma inv_only_dirs:
  assumes "store_inv users fs" "only_dirs ds fs fs'" "\<And>d. d \<in> ds \<Longrightarrow> \<not> key_shape d"
  shows "store_inv users fs'" "stored users fs' = stored users fs"
proof -
  have "fs_content fs' q = fs_content fs q" for q
    by (rule only_dirs_content [OF assms(2)])
  then show "stored users fs' = stored users fs" "store_inv users fs'"
    using assms by (auto simp: store_inv_def stored_def main_content_def bak_content_def only_dirs_def)
qed

text \<open>An operation on the files of one key.\<close>

lemma inv_only_files:
  assumes "store_inv users fs" "wf_key users k" "only_files (key_files k) fs fs'"
    "main_content (key_files k) fs' = c" "bak_content (key_files k) fs' = c"
    "\<And>d. c = Some d \<Longrightarrow> d \<noteq> [] \<and> length d < 2 ^ 32"
  shows "store_inv users fs'" "stored users fs' = (stored users fs)(k := c)"
proof -
  have path: "fs_content fs' (key_dir bak k' @ slash # encode (sk_alias k'))
      = fs_content fs (key_dir bak k' @ slash # encode (sk_alias k'))" if k': "wf_key users k'" "k' \<noteq> k" for k' bak
  proof -
    let ?q = "key_dir bak k' @ slash # encode (sk_alias k')"
    have "canon ?q = ?q" "?q \<noteq> key_dir bak' k @ slash # encode (sk_alias k)" for bak'
      using canon_entry [OF key_entry_ok [OF k'(1)]] key_path_inj [OF k'(1) assms(2), of bak bak'] k'(2) by auto
    then show ?thesis
      using assms(3) by (simp add: only_files_def key_paths)
  qed
  then have other: "main_content (key_files k') fs' = main_content (key_files k') fs"
    "bak_content (key_files k') fs' = bak_content (key_files k') fs" if "wf_key users k'" "k' \<noteq> k" for k'
    using that by (simp_all add: main_content_def bak_content_def key_paths)
  have "fs_content fs' q \<noteq> None
      \<Longrightarrow> \<exists>k bak. wf_key users k \<and> canon q = key_dir bak k @ slash # encode (sk_alias k)" for q
    using assms(1-3) unfolding only_files_def key_paths store_inv_def by metis
  moreover have "main_content (key_files k') fs' = bak_content (key_files k') fs'
      \<and> (\<forall>d. main_content (key_files k') fs' = Some d \<longrightarrow> d \<noteq> [] \<and> length d < 2 ^ 32)"
    if "wf_key users k'" for k'
    using assms(1,4-6) other [OF that] that by (cases "k' = k") (simp_all add: store_inv_def)
  ultimately show "store_inv users fs'"
    using assms(1,3) by (simp add: store_inv_def only_files_def)
  show "stored users fs' = (stored users fs)(k := c)"
    using other assms(2,4) by (auto simp: stored_def fun_eq_iff)
qed

section \<open>The operations on a key\<close>

text \<open>Requests of any processes, and their answers.\<close>

record store_request =
  kr_process :: HksProcessInfo
  kr_params :: "HksParamSet ptr"
  kr_alias :: HksBlob
  kr_type :: u32

datatype store_op =
    Store store_request HksBlob
  | Delete store_request
  | Exists store_request
  | Get store_request HksBlob
  | Size store_request

datatype store_answer =
    Code rc
  | Blob "HksBlob res"
  | Length "u32 res"

definition key_of :: "store_request \<Rightarrow> stored_key" where
  "key_of r = request_key (kr_process r) (kr_params r) (kr_alias r) (kr_type r)"

fun storage_step :: "storage_env \<Rightarrow> store_op \<Rightarrow> file_system \<Rightarrow> store_answer \<times> file_system" where
  "storage_step env (Store r blob) fs =
     (let (ret, fs) = HksManageStoreKeyBlob env (kr_process r) (kr_params r) (Some (kr_alias r)) blob (kr_type r) fs
      in (Code ret, fs))"
| "storage_step env (Delete r) fs =
     (let (ret, fs) = HksManageStoreDeleteKeyBlob env (kr_process r) (kr_params r) (Some (kr_alias r)) (kr_type r) fs
      in (Code ret, fs))"
| "storage_step env (Exists r) fs =
     (let (ret, fs) = HksManageStoreIsKeyBlobExist env (kr_process r) (kr_params r) (Some (kr_alias r)) (kr_type r) fs
      in (Code ret, fs))"
| "storage_step env (Get r blob) fs =
     (let (ret, fs) = HksManageStoreGetKeyBlob env (kr_process r) (kr_params r) (Some (kr_alias r)) blob (kr_type r) fs
      in (Blob ret, fs))"
| "storage_step env (Size r) fs =
     (let (ret, fs) = HksManageStoreGetKeyBlobSize env (kr_process r) (kr_params r) (Some (kr_alias r)) (kr_type r) fs
      in (Length ret, fs))"

text \<open>The same on a map from keys to blobs.\<close>

type_synonym key_map = "stored_key \<Rightarrow> bytes option"

fun map_step :: "store_op \<Rightarrow> key_map \<Rightarrow> store_answer \<times> key_map" where
  "map_step (Store r blob) m = (Code HKS_SUCCESS, m(key_of r := file_bytes blob))"
| "map_step (Delete r) m =
     (if m (key_of r) = None then (Code HKS_ERROR_NOT_EXIST, m) else (Code HKS_SUCCESS, m(key_of r := None)))"
| "map_step (Exists r) m = (Code (if m (key_of r) = None then HKS_ERROR_NOT_EXIST else HKS_SUCCESS), m)"
| "map_step (Get r blob) m = (Blob (read_answer (m (key_of r)) (blob_size blob)), m)"
| "map_step (Size r) m =
     (Length (case m (key_of r) of None \<Rightarrow> Inl HKS_ERROR_NOT_EXIST | Some d \<Rightarrow> Inr (word_of_nat (length d))), m)"

definition req_ok :: "u32 set \<Rightarrow> store_request \<Rightarrow> bool" where
  "req_ok users r \<longleftrightarrow> request_ok users (kr_process r) (kr_params r) (kr_alias r) (kr_type r)"

fun op_ok :: "u32 set \<Rightarrow> store_op \<Rightarrow> bool" where
  "op_ok users (Store r blob) \<longleftrightarrow> req_ok users r \<and> (\<exists>b. file_bytes blob = Some b \<and> b \<noteq> [])"
| "op_ok users (Delete r) \<longleftrightarrow> req_ok users r"
| "op_ok users (Exists r) \<longleftrightarrow> req_ok users r"
| "op_ok users (Get r blob) \<longleftrightarrow> req_ok users r \<and> blob_data blob \<noteq> NULL"
| "op_ok users (Size r) \<longleftrightarrow> req_ok users r"

text \<open>What holds after the steps that every operation begins with.\<close>

definition begun :: "u32 set \<Rightarrow> file_system \<Rightarrow> stored_key \<Rightarrow> file_system \<Rightarrow> bool" where
  "begun users fs k fs' \<longleftrightarrow> store_inv users fs' \<and> stored users fs' = stored users fs \<and> wf_key users k
     \<and> files_ready (key_files k) fs' \<and> stored users fs k = main_content (key_files k) fs'
     \<and> bak_content (key_files k) fs' = main_content (key_files k) fs'
     \<and> (\<forall>d. main_content (key_files k) fs' = Some d \<longrightarrow> d \<noteq> [] \<and> length d < 2 ^ 32)"

lemma begunD:
  assumes "begun users fs k fs'"
  shows "store_inv users fs'" "stored users fs' = stored users fs" "wf_key users k" "files_ok (key_files k)"
    "files_ready (key_files k) fs'" "stored users fs k = main_content (key_files k) fs'"
    "bak_content (key_files k) fs' = main_content (key_files k) fs'"
    "main_content (key_files k) fs' = Some d \<Longrightarrow> d \<noteq> [] \<and> length d < 2 ^ 32"
  using assms files_ok_key [of users k] by (auto simp: begun_def)

lemma begin_healthy:
  assumes "env_healthy env" "store_inv users fs" "req_ok users r"
  obtains fs' where
    "store_file_info env (kr_process r) (kr_params r) (Some (kr_alias r)) (kr_type r) fs = (Inr (key_files (key_of r)), fs')"
    "begun users fs (key_of r) fs'"
proof -
  let ?k = "key_of r"
  have k: "wf_key users ?k" "request_ok users (kr_process r) (kr_params r) (kr_alias r) (kr_type r)"
    using assms(3) by (auto simp: req_ok_def request_ok_def key_of_def)
  have root: "[] \<in> set (fs_dirs fs)"
    using assms(2) by (simp add: store_inv_def)
  have none: "q \<in> path_dirs (key_dir bak ?k) \<Longrightarrow> fs_content fs q = None" for bak q
    by (rule inv_no_file [OF assms(2) k(1)])
  obtain fs' where s: "store_file_info env (kr_process r) (kr_params r) (Some (kr_alias r)) (kr_type r) fs
      = (Inr (key_files ?k), fs')"
    and o: "only_dirs (path_dirs (key_dir False ?k) \<union> path_dirs (key_dir True ?k)) fs fs'"
    using store_file_info_key [OF assms(1) k(2) key_of_def inv_user_dirs [OF assms(2) k(1)] root, of True] none
    by (auto simp: named_files_key)
  note inv = inv_only_dirs [OF assms(2) o] no_key_shape_dir [OF k(1)]
  have i: "store_inv users fs'" "stored users fs' = stored users fs"
    using inv by blast+
  have "key_dir False ?k \<in> set (fs_dirs fs')" "key_dir True ?k \<in> set (fs_dirs fs')"
    using o by (auto simp: only_dirs_def path_dirs_def)
  then have "files_ready (key_files ?k) fs'"
    by (rule inv_ready [OF i(1) k(1)])
  moreover have "stored users fs ?k = main_content (key_files ?k) fs'"
    using i(2) k(1) by (metis stored_def)
  ultimately have "begun users fs ?k fs'"
    using i k(1) by (simp add: begun_def) (simp add: store_inv_def)
  then show thesis
    by (rule that [OF s])
qed

lemma step_read_only:
  assumes "store_inv users fs1" "same_files fs1 fs2"
  shows "store_inv users fs2" "stored users fs2 = stored users fs1"
proof -
  have "only_dirs {} fs1 fs2"
    using assms(2) by (simp add: only_dirs_def same_files_def)
  then show "store_inv users fs2" "stored users fs2 = stored users fs1"
    using inv_only_dirs [OF assms(1)] by auto
qed

definition step_ok :: "u32 set \<Rightarrow> storage_env \<Rightarrow> store_op \<Rightarrow> file_system \<Rightarrow> bool" where
  "step_ok users env op fs \<longleftrightarrow> store_inv users (snd (storage_step env op fs))
     \<and> map_step op (stored users fs) = (fst (storage_step env op fs), stored users (snd (storage_step env op fs)))"

lemma step_store:
  assumes "env_healthy env" "store_inv users fs" "op_ok users (Store r blob)"
  shows "step_ok users env (Store r blob) fs"
proof -
  let ?k = "key_of r"
  obtain b where b: "file_bytes blob = Some b" "b \<noteq> []" and r: "req_ok users r"
    using assms(3) by auto
  obtain fs1 where f: "store_file_info env (kr_process r) (kr_params r) (Some (kr_alias r)) (kr_type r) fs = (Inr (key_files ?k), fs1)"
    and i: "begun users fs ?k fs1"
    using begin_healthy [OF assms(1,2) r] by blast
  note i = begunD [OF i]
  obtain fs2 where s: "HksStoreKeyBlob env (key_files ?k) blob fs1 = (0, fs2)"
    and c: "main_content (key_files ?k) fs2 = Some b" "bak_content (key_files ?k) fs2 = Some b"
    using store_healthy [OF assms(1) i(4,5) b] by blast
  have only: "only_files (key_files ?k) fs1 fs2"
    using store_only [OF i(4), of fs1 env blob] s by simp
  have "length b \<le> unat (blob_size blob)"
    using b(1) by (auto simp: file_bytes_def)
  then have "length b < 2 ^ 32"
    using le_less_trans [OF _ u32_bound] by simp
  then have "store_inv users fs2" "stored users fs2 = (stored users fs1)(?k := Some b)"
    using inv_only_files [OF i(1,3) only c] b(2) by auto
  then show ?thesis
    using i(2) b(1) by (simp add: step_ok_def HksManageStoreKeyBlob_def f s)
qed

lemma step_delete:
  assumes "env_healthy env" "store_inv users fs" "req_ok users r"
  shows "step_ok users env (Delete r) fs"
proof -
  let ?k = "key_of r"
  obtain fs1 where f: "store_file_info env (kr_process r) (kr_params r) (Some (kr_alias r)) (kr_type r) fs = (Inr (key_files ?k), fs1)"
    and i: "begun users fs ?k fs1"
    using begin_healthy [OF assms] by blast
  note i = begunD [OF i]
  show ?thesis
  proof (cases "main_content (key_files ?k) fs1")
    case None
    then have "HksStoreDeleteKeyBlob env (key_files ?k) fs1 = (HKS_ERROR_NOT_EXIST, fs1)"
      using delete_absent [OF assms(1) i(4,5)] i(7) by simp
    then show ?thesis
      using i(1,2,6) None by (simp add: step_ok_def HksManageStoreDeleteKeyBlob_def f)
  next
    case (Some d)
    then obtain fs2 where s: "HksStoreDeleteKeyBlob env (key_files ?k) fs1 = (0, fs2)"
      and c: "main_content (key_files ?k) fs2 = None" "bak_content (key_files ?k) fs2 = None"
      using delete_healthy [OF assms(1) i(4,5)] i(7) by auto
    have only: "only_files (key_files ?k) fs1 fs2"
      using delete_only [OF i(4), of fs1 env] s by simp
    have "store_inv users fs2" "stored users fs2 = (stored users fs1)(?k := None)"
      using inv_only_files [OF i(1,3) only c] by auto
    then show ?thesis
      using i(2,6) Some by (simp add: step_ok_def HksManageStoreDeleteKeyBlob_def f s)
  qed
qed

lemma step_exists:
  assumes "env_healthy env" "store_inv users fs" "req_ok users r"
  shows "step_ok users env (Exists r) fs"
proof -
  let ?k = "key_of r"
  obtain fs1 where f: "store_file_info env (kr_process r) (kr_params r) (Some (kr_alias r)) (kr_type r) fs = (Inr (key_files ?k), fs1)"
    and i: "begun users fs ?k fs1"
    using begin_healthy [OF assms] by blast
  note i = begunD [OF i]
  show ?thesis
    using exist_answer_healthy [OF assms(1) i(4,5)] i(1,2,6,7)
    by (simp add: step_ok_def HksManageStoreIsKeyBlobExist_def f)
qed

lemma step_get:
  assumes "env_healthy env" "store_inv users fs" "req_ok users r" "blob_data blob \<noteq> NULL"
  shows "step_ok users env (Get r blob) fs"
proof -
  let ?k = "key_of r"
  let ?m = "mainPath (key_files ?k)"
  obtain fs1 where f: "store_file_info env (kr_process r) (kr_params r) (Some (kr_alias r)) (kr_type r) fs = (Inr (key_files ?k), fs1)"
    and i: "begun users fs ?k fs1"
    using begin_healthy [OF assms(1-3)] by blast
  note i = begunD [OF i]
  obtain fs2 where s: "HksStoreGetKeyBlob env ?m blob fs1 = (read_answer (main_content (key_files ?k) fs1) (blob_size blob), fs2)"
    using get_healthy [of env ?m fs1 blob, folded main_content_def, OF assms(1) _ _ assms(4) i(8)] i(4,5)
    by (auto simp: files_ready_def)
  then have "same_files fs1 fs2"
    using get_same [of fs1 env ?m blob] by simp
  note step_read_only [OF i(1) this]
  moreover have "kr_type r \<noteq> HKS_STORAGE_TYPE_BAK_KEY"
    using i(3) by (auto simp: wf_key_def key_of_def request_key_def)
  ultimately show ?thesis
    using i(1,2,6) s by (simp add: step_ok_def HksManageStoreGetKeyBlob_def f)
qed

lemma step_size:
  assumes "env_healthy env" "store_inv users fs" "req_ok users r"
  shows "step_ok users env (Size r) fs"
proof -
  let ?k = "key_of r"
  let ?m = "mainPath (key_files ?k)"
  obtain fs1 where f: "store_file_info env (kr_process r) (kr_params r) (Some (kr_alias r)) (kr_type r) fs = (Inr (key_files ?k), fs1)"
    and i: "begun users fs ?k fs1"
    using begin_healthy [OF assms] by blast
  note i = begunD [OF i]
  obtain fs2 where s: "HksStoreGetKeyBlobSize env ?m fs1 = (case main_content (key_files ?k) fs1 of
      None \<Rightarrow> Inl HKS_ERROR_NOT_EXIST | Some d \<Rightarrow> Inr (word_of_nat (length d)), fs2)" "same_files fs1 fs2"
    using size_answer_healthy [of env ?m fs1, folded main_content_def, OF assms(1) _ _ i(8)] i(4,5)
    by (auto simp: files_ready_def)
  note step_read_only [OF i(1) s(2)]
  moreover have "kr_type r \<noteq> HKS_STORAGE_TYPE_BAK_KEY"
    using i(3) by (auto simp: wf_key_def key_of_def request_key_def)
  ultimately show ?thesis
    using i(1,2,6) s by (simp add: step_ok_def HksManageStoreGetKeyBlobSize_def f)
qed

lemma step_all: "env_healthy env \<Longrightarrow> store_inv users fs \<Longrightarrow> op_ok users op \<Longrightarrow> step_ok users env op fs"
  by (cases op) (auto simp: step_store step_delete step_exists step_get step_size simp del: op_ok.simps
      simp: op_ok.simps(2-5) intro: step_store)

end
