(* ===== verification/Huks_Storage_Props.thy ===== *)
theory Huks_Storage_Props
  imports Huks_Storage_Refine
begin

text \<open>
  Properties of the storage of keys: it refines a map, no failure while storing loses both the old and the
  new key, and names of files are the aliases.
\<close>

section \<open>A map of keys\<close>

interpretation key_storage: simulation "storage_step env" map_step "\<lambda>op. env_healthy env \<and> op_ok users op"
    "store_inv users" "stored users" for env users
proof
  fix op fs
  assume "env_healthy env \<and> op_ok users op" "store_inv users fs"
  then have "step_ok users env op fs"
    using step_all by blast
  then show "store_inv users (snd (storage_step env op fs))"
    "map_step op (stored users fs) = (fst (storage_step env op fs), stored users (snd (storage_step env op fs)))"
    by (auto simp: step_ok_def)
qed

text \<open>
  C1: Refinement: as long as nothing fails, every sequence of requests to store, delete, read, measure and
  look for keys, of any users, processes and storage levels, gets the answers of a map from keys to blobs
  that starts with what is stored, and leaves on the files what is then in the map. In particular no two
  keys share a file, and the backups never show.
\<close>

theorem storage_refines_map:
  assumes "env_healthy env" "store_inv users fs" "\<forall>op\<in>set ops. op_ok users op"
  shows "run map_step ops (stored users fs) =
    (fst (run (storage_step env) ops fs), stored users (snd (run (storage_step env) ops fs)))"
  by (rule key_storage.run_matches) (use assms in auto)

definition example_storage :: storage_env where
  "example_storage = \<lparr>se_os = \<lparr>os_errno = \<lambda>_. 0, os_count = \<lambda>_. 0, os_dir_size = 4096\<rparr>, se_alloc = \<lambda>_. True,
     se_transfer = \<lambda>_ _ fs. fs, se_random = \<lambda>_ n. Inr (replicate (unat n) 7), se_other = \<lambda>fs. fs\<rparr>"

definition example_files :: file_system where
  "example_files = \<lparr>fs_files = [], fs_dirs = [[], HKS_CE_ROOT_PATH @ slash # decimal 100,
     HKS_ECE_ROOT_PATH @ slash # decimal 100], fs_calls = 0\<rparr>"

definition example_level :: "u32 \<Rightarrow> HksParamSet" where
  "example_level level = \<lparr>paramSetSize = 32, params = [\<lparr>p_tag = HKS_TAG_AUTH_STORAGE_LEVEL, p_val = VUint level\<rparr>],
     ps_tail = []\<rparr>"

definition example_process :: HksProcessInfo where
  "example_process = \<lparr>pi_userId = \<lparr>blob_size = 4, blob_data = Some [100, 0, 0, 0]\<rparr>,
     pi_processName = \<lparr>blob_size = 4, blob_data = Some [1, 2, 3, 4]\<rparr>, pi_userIdInt = 100, pi_uidInt = 7,
     pi_accessTokenId = 9\<rparr>"

definition example_store_request :: "u32 \<Rightarrow> store_request" where
  "example_store_request level = \<lparr>kr_process = example_process, kr_params = Some (example_level level),
     kr_alias = \<lparr>blob_size = 2, blob_data = Some [0x2F, 0x41]\<rparr>, kr_type = 0\<rparr>"

lemma example_healthy: "env_healthy example_storage"
  by (simp add: env_healthy_def example_storage_def os_healthy_def)

lemma example_inv: "store_inv {100} example_files"
proof -
  have "\<not> key_shape (HKS_CE_ROOT_PATH @ slash # decimal 100)" "\<not> key_shape (HKS_ECE_ROOT_PATH @ slash # decimal 100)"
    "\<not> key_shape []"
    by (simp_all add: key_shape_def parts_join parts_names parts_consts)
  then show ?thesis
    by (simp add: store_inv_def example_files_def fs_content_def main_content_def bak_content_def)
qed

lemma example_get_level: "HksGetParam (Some (example_level level)) HKS_TAG_AUTH_STORAGE_LEVEL
    = Inr \<lparr>p_tag = HKS_TAG_AUTH_STORAGE_LEVEL, p_val = VUint level\<rparr>"
  by (simp add: HksGetParam_def HksCheckParamSet_def example_level_def paramsCnt_def is_bytes_tag_def GetTagType_def)

lemma example_get_user: "HksGetParam (Some (example_level level)) HKS_TAG_SPECIFIC_USER_ID = Inl HKS_ERROR_PARAM_NOT_EXIST"
  by (simp add: HksGetParam_def HksCheckParamSet_def example_level_def paramsCnt_def)

lemma example_store_key: "key_of (example_store_request level) =
    \<lparr>sk_level = level, sk_user = 100, sk_uid = 0x04030201, sk_type = 0, sk_alias = [0x2F, 0x41]\<rparr>"
  by (simp add: key_of_def request_key_def example_store_request_def example_get_level example_get_user
      example_process_def name_bytes_def)

lemma example_store_request_ok: "level \<in> {0, 1, 2} \<Longrightarrow> req_ok {100} (example_store_request level)"
  using example_store_key [of level]
  by (auto simp: req_ok_def request_ok_def key_of_def example_store_request_def example_get_level example_get_user wf_key_def)
    (simp_all add: example_process_def)

theorem storage_refines_map_witness:
  "run map_step [Store (example_store_request 0) \<lparr>blob_size = 3, blob_data = Some [5, 6, 7]\<rparr>, Exists (example_store_request 1)]
     (stored {100} example_files) =
   (fst (run (storage_step example_storage)
      [Store (example_store_request 0) \<lparr>blob_size = 3, blob_data = Some [5, 6, 7]\<rparr>, Exists (example_store_request 1)] example_files),
    stored {100} (snd (run (storage_step example_storage)
      [Store (example_store_request 0) \<lparr>blob_size = 3, blob_data = Some [5, 6, 7]\<rparr>, Exists (example_store_request 1)] example_files)))"
  by (rule storage_refines_map [OF example_healthy example_inv])
    (simp add: example_store_request_ok file_bytes_def)

section \<open>Failures\<close>

text \<open>
  C36: Safety: let the backup hold the old key. Whatever calls of the operating system fail while the key is stored
  anew, at whatever point, no other file changes, and afterwards one whole key can be read: if the operation reports
  success the new one from the main file, and otherwise the old one from the backup. (\<open>HksStoreKeyBlob\<close> ignores a
  failure of writing the backup, so that after such a call the key has an older backup or none, and a later failure
  can lose it.)
\<close>

theorem store_never_loses_key:
  assumes "files_ok fi" "files_ready fi fs" "bak_content fi fs = Some old" "old \<noteq> []" "length old < 2 ^ 32"
    "file_bytes blob = Some new" "new \<noteq> []" "HksStoreKeyBlob env fi blob fs = (ret, fs')"
    "env_healthy later" "blob_data buffer \<noteq> NULL" "length old \<le> unat (blob_size buffer)"
    "length new \<le> unat (blob_size buffer)"
  shows "only_files fi fs fs' \<and>
    fst (if ret = HKS_SUCCESS then HksStoreGetKeyBlob later (mainPath fi) buffer fs'
         else HksStoreGetKeyBlob later (bakPath fi) buffer fs')
    = Inr (if ret = HKS_SUCCESS then \<lparr>blob_size = word_of_nat (length new), blob_data = Some new\<rparr>
           else \<lparr>blob_size = word_of_nat (length old), blob_data = Some old\<rparr>)"
proof -
  have only: "only_files fi fs fs'"
    using store_only [OF assms(1), of fs env blob] assms(8) by simp
  then have ready: "info_ready (mainPath fi) fs'" "info_ready (bakPath fi) fs'"
    using assms(2) by (auto simp: files_ready_def info_ready_def only_files_def is_dir_def)
  have new: "length new < 2 ^ 32"
    using assms(12) le_less_trans [OF _ u32_bound] by simp
  show ?thesis
  proof (cases "ret = 0")
    case True
    then have "fs_content fs' (info_path (mainPath fi)) = Some new"
      using store_atomic [OF assms(1,8)] assms(6) by (simp add: main_content_def)
    then show ?thesis
      using get_healthy [OF assms(9) files_okD(1) [OF assms(1)] ready(1) assms(10)] assms(7,12) new only True
      by (auto simp: read_answer_def)
  next
    case False
    then have "fs_content fs' (info_path (bakPath fi)) = Some old"
      using store_atomic [OF assms(1,8)] assms(3) by (simp add: bak_content_def)
    then show ?thesis
      using get_healthy [OF assms(9) files_okD(2) [OF assms(1)] ready(2) assms(10)] assms(4,5,11) only False
      by (auto simp: read_answer_def)
  qed
qed

text \<open>Power is lost while the main file is written: only the directories of the key and its backup are there.\<close>

definition example_stored :: stored_key where
  "example_stored = \<lparr>sk_level = 0, sk_user = 100, sk_uid = 7, sk_type = 0, sk_alias = [0x41]\<rparr>"

definition example_backup :: file_system where
  "example_backup = \<lparr>fs_files = [(key_dir False example_stored @ slash # encode [0x41], [1, 2]),
      (key_dir True example_stored @ slash # encode [0x41], [1, 2])],
     fs_dirs = [key_dir False example_stored, key_dir True example_stored], fs_calls = 0\<rparr>"

definition example_cut :: storage_env where
  "example_cut = example_storage\<lparr>se_os := \<lparr>os_errno = \<lambda>n. if n < 2 then 0 else 5, os_count = \<lambda>_. 1, os_dir_size = 0\<rparr>\<rparr>"

lemma example_wf: "wf_key {} example_stored"
  by (simp add: wf_key_def example_stored_def)

lemma example_backup_content: "bak_content (key_files example_stored) example_backup = Some [1, 2]"
proof -
  have "key_dir False example_stored \<noteq> key_dir True example_stored"
    by (auto simp: key_dir_def example_stored_def path_consts)
  then show ?thesis
    using canon_entry [OF key_entry_ok [OF example_wf, of True]]
    by (simp add: bak_content_def key_paths fs_content_def example_backup_def example_stored_def)
qed

lemma example_byte: "encode_byte 0x41 = [0x41]"
  by (simp add: encode_byte_def ConstructInvalidCharacter_def)

lemma example_backup_ready: "files_ready (key_files example_stored) example_backup"
proof -
  have "length (key_dir bak example_stored @ slash # encode (sk_alias example_stored)) \<noteq> length (key_dir bak' example_stored)"
    for bak bak'
    by (auto simp: key_dir_def example_stored_def path_consts example_byte)
  then have "key_dir bak example_stored @ slash # encode (sk_alias example_stored) \<noteq> key_dir bak' example_stored"
    for bak bak'
    by metis
  then show ?thesis
    using dir_path_ok_entry [OF safe_dir [OF key_dir_safe], of "encode (sk_alias example_stored)"]
      part_ok_encode [of "sk_alias example_stored"]
    by (auto simp: files_ready_def info_ready_def key_paths key_files_def is_dir_dir_path safe_dir [OF key_dir_safe]
        example_backup_def part_ok_def info_path_def example_wf [unfolded wf_key_def])
qed

lemma example_cut_fails: "fst (HksStoreKeyBlob example_cut (key_files example_stored)
    \<lparr>blob_size = 3, blob_data = Some [5, 6, 7]\<rparr> example_backup) = HKS_ERROR_WRITE_FILE_FAIL"
proof -
  let ?m = "mainPath (key_files example_stored)"
  have m: "info_ok ?m" "info_ready ?m example_backup"
    using files_ok_key [OF example_wf] example_backup_ready by (auto simp: files_ready_def)
  have "can_create example_backup (si_path ?m @ slash # si_fileName ?m)"
    using can_create_entry [of "si_path ?m" "si_fileName ?m" example_backup] m
    by (simp add: info_ok_def info_ready_def info_path_def)
  moreover have "se_alloc example_cut n" for n
    by (simp add: example_cut_def example_storage_def)
  ultimately show ?thesis
    using m(1)
    by (simp add: HksStoreKeyBlob_def RecordKeyOperation_def HksMalloc_def info_ok_def entry_ok_def
        HksStorageWriteFile_def HksFileWrite_def GetFullFileName_entry file_bytes_def FileWrite_def fopen_wb_def
        sys_def example_cut_def write_steps_def fwrite_def example_backup_def [THEN arg_cong [of _ _ fs_calls]] Let_def)
qed

theorem store_never_loses_key_witness:
  "\<exists>ret fs'. HksStoreKeyBlob example_cut (key_files example_stored) \<lparr>blob_size = 3, blob_data = Some [5, 6, 7]\<rparr>
      example_backup = (ret, fs') \<and> ret \<noteq> HKS_SUCCESS \<and>
    fst (HksStoreGetKeyBlob example_storage (bakPath (key_files example_stored))
      \<lparr>blob_size = 8, blob_data = Some (replicate 8 0)\<rparr> fs') = Inr \<lparr>blob_size = 2, blob_data = Some [1, 2]\<rparr>"
proof -
  let ?blob = "\<lparr>blob_size = 3, blob_data = Some [5, 6, 7]\<rparr> :: HksBlob"
  obtain ret fs' where s: "HksStoreKeyBlob example_cut (key_files example_stored) ?blob example_backup = (ret, fs')"
    by fastforce
  have "ret = HKS_ERROR_WRITE_FILE_FAIL"
    using example_cut_fails s by simp
  moreover have "file_bytes ?blob = Some [5, 6, 7]"
    by (simp add: file_bytes_def)
  ultimately show ?thesis
    using store_never_loses_key [OF files_ok_key [OF example_wf] example_backup_ready example_backup_content
        _ _ _ _ s example_healthy, of "[5, 6, 7]" "\<lparr>blob_size = 8, blob_data = Some (replicate 8 0)\<rparr>"] s
    by simp
qed

section \<open>Names\<close>

text \<open>
  C39: Round trip: the name of the file of a key is the alias of any bytes in printable form, which is one
  part of a path and neither of the two special names of a directory; listing the directory gives back the
  alias.
\<close>

theorem alias_name_roundtrip:
  assumes "al \<noteq> []" "2 * length al < nameLen" "length al \<le> 0x400000" "\<forall>n. alloc n"
  shows "\<exists>name. ConstructName \<lparr>blob_size = word_of_nat (length al), blob_data = Some al\<rparr> nameLen = Inr name
    \<and> c_str name = name \<and> name \<noteq> [] \<and> slash \<notin> set name \<and> name \<noteq> chars ''.'' \<and> name \<noteq> chars ''..''
    \<and> (\<forall>room \<ge> length al. ConstructBlob alloc name room = Inr al)"
proof -
  let ?b = "\<lparr>blob_size = word_of_nat (length al), blob_data = Some al\<rparr> :: HksBlob"
  have b: "name_bytes ?b = al"
    using assms(3) by (simp add: name_bytes_def unat_u32_of_nat)
  have n: "ConstructName ?b nameLen = Inr (encode al)"
    using ConstructName_fits [of nameLen ?b] assms(1,2) unfolding b by (cases al) auto
  have "last (chars ''.'') = dot" "last (chars ''..'') = dot"
    by (simp_all add: chars_def)
  then have dots: "encode al \<noteq> chars ''.''" "encode al \<noteq> chars ''..''"
    using encode_last [OF assms(1)] by auto
  have "length (encode al) \<le> MAX_MALLOC_SIZE"
    using encode_length(1) [of al] assms(3) by simp
  then have "HksMalloc alloc (length (encode al))"
    using assms(1,4) by (simp add: HksMalloc_def)
  then have "ConstructBlob alloc (encode al) room = Inr al" if "length al \<le> room" for room
    using that by (simp add: ConstructBlob_def decode_encode)
  then show ?thesis
    using n dots assms(1) encode_no [of al] by (auto simp: c_str_no_zero)
qed

theorem alias_name_roundtrip_witness:
  "\<exists>name. ConstructName \<lparr>blob_size = 3, blob_data = Some [0x2E, 0x2E, 0x2F]\<rparr> 512 = Inr name
    \<and> slash \<notin> set name \<and> ConstructBlob (\<lambda>_. True) name 64 = Inr [0x2E, 0x2E, 0x2F]"
  using alias_name_roundtrip [of "[0x2E, 0x2E, 0x2F]" 512 "\<lambda>_. True"] by auto

end
