(* ===== verification/Huks_Storage_List.thy ===== *)
theory Huks_Storage_List
  imports Huks_Storage_Props
begin

text \<open>
  Listing the keys of a process: what the loops over a directory see, and that the aliases of the stored
  keys are listed, as long as their names have at most 127 characters.
\<close>

section \<open>Walking a directory\<close>

text \<open>The files that are seen: up to the first whose name does not fit.\<close>

definition visible :: "dir_stream \<Rightarrow> bytes list" where
  "visible dir = takeWhile (\<lambda>n. length n < HKS_MAX_DIRENT_FILE_LEN) (map fst (filter (\<lambda>e. \<not> snd e) dir))"

lemma HksGetDirFile_visible:
  "visible dir = [] \<and> (\<exists>c dir'. HksGetDirFile dir = (Inl c, dir'))
   \<or> (\<exists>n dir'. HksGetDirFile dir = (Inr n, dir') \<and> visible dir = n # visible dir' \<and> length n < HKS_MAX_DIRENT_FILE_LEN)"
  by (induction dir rule: HksGetDirFile.induct) (auto simp: visible_def memcpy_s_def)

lemma count_files_visible: "count_files dir count = count + length (visible dir)"
proof (induction dir count rule: count_files.induct)
  case (1 dir count)
  then show ?case
    using HksGetDirFile_visible [of dir] by (subst count_files.simps) (auto split: sum.splits)
qed

abbreviation blank :: HksFileEntry where
  "blank \<equiv> \<lparr>fe_fileName = [], fe_fileNameLen = HKS_MAX_FILE_NAME_LEN\<rparr>"

abbreviation entry_of :: "bytes \<Rightarrow> HksFileEntry" where
  "entry_of n \<equiv> \<lparr>fe_fileName = n, fe_fileNameLen = HKS_MAX_FILE_NAME_LEN\<rparr>"

lemma list_files_visible:
  assumes "length pre = count" "fileCount = count + m" "length (visible dir) \<le> m"
  shows "list_files dir (pre @ replicate m blank) fileCount count
    = (pre @ map entry_of (visible dir) @ replicate (m - length (visible dir)) blank, count + length (visible dir))"
  using assms
proof (induction "length (visible dir)" arbitrary: dir pre count m)
  case 0
  then show ?case
    using HksGetDirFile_visible [of dir] by (subst list_files.simps) auto
next
  case (Suc l)
  then obtain n dir' where d: "HksGetDirFile dir = (Inr n, dir')" "visible dir = n # visible dir'"
    "length n < HKS_MAX_DIRENT_FILE_LEN"
    using HksGetDirFile_visible [of dir] by auto
  obtain m' where m: "m = Suc m'"
    using Suc.prems(3) Suc.hyps(2) by (cases m) auto
  have "list_files dir (pre @ replicate m blank) fileCount count
      = list_files dir' ((pre @ [entry_of n]) @ replicate m' blank) fileCount (count + 1)"
    using d m Suc.prems by (subst list_files.simps) (simp add: nth_append strncpy_s_def list_update_append)
  also have "\<dots> = ((pre @ [entry_of n]) @ map entry_of (visible dir') @ replicate (m' - length (visible dir')) blank,
      count + 1 + length (visible dir'))"
    using Suc.hyps(2) Suc.prems d m by (intro Suc.hyps(1)) auto
  finally show ?case
    using d m by simp
qed

text \<open>
  With more files than were counted, one too many is reported, for which there is no entry: the caller that
  goes by this number reads past the end of its list.
\<close>

lemma list_files_overrun:
  assumes "length pre = count" "fileCount = count + m" "m < length (visible dir)"
  shows "snd (list_files dir (pre @ replicate m blank) fileCount count) = fileCount + 1"
  using assms
proof (induction m arbitrary: dir pre count)
  case 0
  then show ?case
    using HksGetDirFile_visible [of dir] by (subst list_files.simps) auto
next
  case (Suc m)
  then obtain n dir' where d: "HksGetDirFile dir = (Inr n, dir')" "visible dir = n # visible dir'"
    "length n < HKS_MAX_DIRENT_FILE_LEN"
    using HksGetDirFile_visible [of dir] by auto
  have "list_files dir (pre @ replicate (Suc m) blank) fileCount count
      = list_files dir' ((pre @ [entry_of n]) @ replicate m blank) fileCount (count + 1)"
    using d Suc.prems by (subst list_files.simps) (simp add: nth_append strncpy_s_def list_update_append)
  then show ?case
    using Suc.IH [of "pre @ [entry_of n]" "count + 1" dir'] Suc.prems d by simp
qed

lemma alias_loop_overrun:
  assumes "length fileNameList < n" "\<forall>e\<in>set fileNameList. \<exists>out. \<forall>room. ConstructBlob alloc (fe_fileName e) room = Inr out"
    "i \<le> length fileNameList"
  shows "alias_loop alloc fileNameList [i..<n] keyInfoList = None"
  using assms(3)
proof (induction "length fileNameList - i" arbitrary: i keyInfoList)
  case 0
  then show ?case
    using assms(1) by (simp add: upt_conv_Cons)
next
  case (Suc l)
  then have i: "i < length fileNameList" by simp
  obtain out where "\<forall>room. ConstructBlob alloc (fe_fileName (fileNameList ! i)) room = Inr out"
    using assms(2) i by (meson nth_mem)
  moreover have "alias_loop alloc fileNameList [Suc i..<n] keyInfoList' = None" for keyInfoList'
    using Suc.hyps i by (intro Suc.hyps(1)) auto
  moreover have "[i..<n] = i # [Suc i..<n]"
    using i assms(1) by (simp add: upt_conv_Cons)
  ultimately show ?case by simp
qed

section \<open>The names in the directory of a process\<close>

text \<open>File systems keep one entry for a path, which is canonical.\<close>

definition fs_normal :: "file_system \<Rightarrow> bool" where
  "fs_normal fs \<longleftrightarrow> distinct (map fst (fs_files fs)) \<and> (\<forall>q\<in>set (map fst (fs_files fs)). canon q = q)"

lemma name_in_Some: "dir_path_ok p \<Longrightarrow> name_in p q = Some n \<longleftrightarrow> q = p @ slash # n \<and> file_name_ok n"
  by (auto simp: name_in_def join_path_def Let_def file_name_ok_def prefix_def)

lemma last_part: "slash \<notin> set n \<Longrightarrow> takeWhile (\<lambda>c. c \<noteq> slash) (rev (p @ slash # n)) = rev n"
  by (subst rev_append) (auto simp: takeWhile_append)

lemma entry_eq:
  assumes "slash \<notin> set n" "slash \<notin> set n'" "p @ slash # n = p' @ slash # n'"
  shows "p = p' \<and> n = n'"
proof -
  have "n = n'"
    using last_part [OF assms(1), of p] last_part [OF assms(2), of p'] assms(3) by simp
  then show ?thesis using assms(3) by simp
qed

text \<open>The names of the files that keep the keys of an owner.\<close>

definition owned :: "u32 set \<Rightarrow> file_system \<Rightarrow> stored_key \<Rightarrow> bytes set" where
  "owned users fs k = {a. stored users fs (k\<lparr>sk_alias := a\<rparr>) \<noteq> None}"

lemma key_dir_alias [simp]: "key_dir bak (k\<lparr>sk_alias := a\<rparr>) = key_dir bak k"
  by (simp add: key_dir_def)

lemma wf_key_alias: "wf_key users k \<Longrightarrow> a \<noteq> [] \<Longrightarrow> length a \<le> 128 \<Longrightarrow> wf_key users (k\<lparr>sk_alias := a\<rparr>)"
  by (simp add: wf_key_def)

lemma set_names_in: "n \<in> set (names_in p qs) \<longleftrightarrow> (\<exists>q\<in>set qs. name_in p q = Some n)"
  by (induction qs) (auto simp: names_in_def map_filter_simps split: option.splits)

lemma names_owned:
  assumes "store_inv users fs" "fs_normal fs" "wf_key users k"
  shows "set (names_in (key_dir False k) (map fst (fs_files fs))) = encode ` owned users fs k"
    "distinct (names_in (key_dir False k) (map fst (fs_files fs)))"
proof -
  let ?d = "key_dir False k"
  have d: "dir_path_ok ?d"
    by (rule safe_dir [OF key_dir_safe])
  have content: "q \<in> set (map fst (fs_files fs)) \<longleftrightarrow> canon q = q \<and> fs_content fs q \<noteq> None" for q
    using assms(2) map_of_eq_None_iff [of "fs_files fs"]
    unfolding fs_normal_def fs_content_def set_map by metis
  have name: "?d @ slash # n \<in> set (map fst (fs_files fs)) \<and> file_name_ok n \<longleftrightarrow> n \<in> encode ` owned users fs k" for n
  proof
    assume n: "?d @ slash # n \<in> set (map fst (fs_files fs)) \<and> file_name_ok n"
    then obtain k' bak where k': "wf_key users k'" "?d @ slash # n = key_dir bak k' @ slash # encode (sk_alias k')"
      using assms(1) content unfolding store_inv_def by metis
    then have e: "?d = key_dir bak k'" "n = encode (sk_alias k')"
      using entry_eq [of n "encode (sk_alias k')"] n encode_no by (auto simp: file_name_ok_def)
    have "wf_key users (k\<lparr>sk_alias := sk_alias k'\<rparr>)"
      by (rule wf_key_alias [OF assms(3)]) (use k'(1) in \<open>auto simp: wf_key_def\<close>)
    then have "k\<lparr>sk_alias := sk_alias k'\<rparr> = k'" "bak = False"
      using key_path_inj [of users "k\<lparr>sk_alias := sk_alias k'\<rparr>" k' False bak] k'(1) e by auto
    then have "sk_alias k' \<in> owned users fs k"
      using n content k' e by (auto simp: owned_def stored_def main_content_def key_paths)
    then show "n \<in> encode ` owned users fs k"
      using e(2) by blast
  next
    assume "n \<in> encode ` owned users fs k"
    then obtain a where a: "n = encode a" "stored users fs (k\<lparr>sk_alias := a\<rparr>) \<noteq> None"
      by (auto simp: owned_def)
    then have w: "wf_key users (k\<lparr>sk_alias := a\<rparr>)"
      by (auto simp: stored_def split: if_splits)
    then show "?d @ slash # n \<in> set (map fst (fs_files fs)) \<and> file_name_ok n"
      using a content key_entry_ok [OF w, of False] canon_entry [OF key_entry_ok [OF w, of False]]
      by (auto simp: stored_def main_content_def key_paths entry_ok_def)
  qed
  have "set (names_in ?d (map fst (fs_files fs))) = {n. \<exists>q\<in>set (map fst (fs_files fs)). name_in ?d q = Some n}"
    by (auto simp only: set_names_in)
  also have "\<dots> = {n. ?d @ slash # n \<in> set (map fst (fs_files fs)) \<and> file_name_ok n}"
    by (auto simp: name_in_Some [OF d])
  finally show "set (names_in ?d (map fst (fs_files fs))) = encode ` owned users fs k"
    using name by auto
  have "distinct qs \<Longrightarrow> distinct (names_in ?d qs)" for qs
  proof (induction qs)
    case (Cons q qs)
    show ?case
    proof (cases "name_in ?d q")
      case (Some n)
      then have "n \<notin> set (names_in ?d qs)"
        using Cons.prems name_in_Some [OF d] by (auto simp: set_names_in)
      then show ?thesis
        using Cons Some by (simp add: names_in_def map_filter_simps)
    qed (use Cons in \<open>simp add: names_in_def map_filter_simps\<close>)
  qed (simp add: names_in_def map_filter_simps)
  then show "distinct (names_in ?d (map fst (fs_files fs)))"
    using assms(2) by (simp add: fs_normal_def)
qed

section \<open>The whole request\<close>

lemma open_healthy:
  assumes "env_healthy env" "safe_path p" "is_dir fs p"
  shows "HksOpenDir (se_os env) p fs = (Some (dot_entries @ dir_entries fs p), fs\<lparr>fs_calls := Suc (fs_calls fs)\<rparr>)"
  using assms safe_valid [of p]
  by (simp add: HksOpenDir_def opendir_def sys_healthy dir_entries_def)

lemma visible_dir:
  assumes "\<forall>n\<in>set (names_in p (map fst (fs_files fs))). length n < HKS_MAX_DIRENT_FILE_LEN"
  shows "visible (dot_entries @ dir_entries fs p) = names_in p (map fst (fs_files fs))"
proof -
  have "map fst (filter (\<lambda>e. \<not> snd e) (dot_entries @ dir_entries fs p)) = names_in p (map fst (fs_files fs))"
    by (simp add: dot_entries_def dir_entries_def comp_def filter_map)
  then show ?thesis
    using assms by (simp add: visible_def takeWhile_eq_all_conv)
qed

text \<open>The aliases in an answer.\<close>

definition listed :: "HksKeyAliasSet ptr \<Rightarrow> bytes list" where
  "listed r = (case r of NULL \<Rightarrow> [] | Some s \<Rightarrow> map name_bytes (aliases s))"

lemma alias_set_loop_encoded:
  assumes "\<forall>n. alloc n" "\<forall>a\<in>set as. a \<noteq> [] \<and> length a \<le> 128"
  shows "alias_set_loop alloc (map (\<lambda>a. entry_of (encode a)) as) out
    = Inr (out @ map (\<lambda>a. \<lparr>blob_size = word_of_nat (length a), blob_data = Some a\<rparr>) as)"
  using assms(2)
proof (induction as arbitrary: out)
  case (Cons a as)
  have "HksMalloc alloc (length (encode a))"
    using Cons.prems encode_length(1) [of a] assms(1) by (simp add: HksMalloc_def)
  moreover have "length a \<le> length (encode a)"
    by (rule encode_length(2))
  ultimately show ?case
    using Cons by (simp add: ConstructBlob_def decode_encode)
qed simp

lemma begin_list:
  assumes "env_healthy env" "store_inv users fs" "request_ok users processInfo paramSet al HKS_STORAGE_TYPE_KEY"
    "k = request_key processInfo paramSet al HKS_STORAGE_TYPE_KEY"
  obtains fs' where
    "store_file_info env processInfo paramSet NULL HKS_STORAGE_TYPE_KEY fs = (Inr (named_files k False), fs')"
    "store_inv users fs'" "stored users fs' = stored users fs" "fs_normal fs \<longrightarrow> fs_normal fs'"
    "is_dir fs' (key_dir False k)" "wf_key users k"
proof -
  have k: "wf_key users k"
    using assms(3,4) by (simp add: request_ok_def)
  have root: "[] \<in> set (fs_dirs fs)"
    using assms(2) by (simp add: store_inv_def)
  have none: "q \<in> path_dirs (key_dir bak k) \<Longrightarrow> fs_content fs q = None" for bak q
    by (rule inv_no_file [OF assms(2) k])
  obtain fs' where s: "store_file_info env processInfo paramSet NULL HKS_STORAGE_TYPE_KEY fs
      = (Inr (named_files k False), fs')"
    and o: "only_dirs (path_dirs (key_dir False k) \<union> path_dirs (key_dir True k)) fs fs'"
    using store_file_info_key [OF assms(1,3,4) inv_user_dirs [OF assms(2) k] root, of False] none by auto
  note inv = inv_only_dirs [OF assms(2) o] no_key_shape_dir [OF k]
  have "store_inv users fs'" "stored users fs' = stored users fs"
    using inv by blast+
  moreover have "fs_normal fs \<longrightarrow> fs_normal fs'" "is_dir fs' (key_dir False k)"
    using o by (auto simp: fs_normal_def only_dirs_def path_dirs_def is_dir_dir_path safe_dir [OF key_dir_safe])
  ultimately show thesis
    using that [OF s] k by blast
qed

lemma fs_calls_inv [simp]:
  "store_inv users (fs\<lparr>fs_calls := n\<rparr>) = store_inv users fs" "stored users (fs\<lparr>fs_calls := n\<rparr>) = stored users fs"
  by (simp_all add: store_inv_def stored_def main_content_def bak_content_def fun_eq_iff)

text \<open>
  C40: As long as no call of the operating system and no allocation fails, the list of the keys of a process, at a
  storage level of a user, has exactly the aliases of the stored keys of this owner, each once, and the count is
  their number: for up to 2048 keys (more are refused with \<open>HKS_ERROR_BUFFER_TOO_SMALL\<close>) whose names in the file
  system have at most 127 characters. (A longer name, which an alias of 64 bytes can have, ends the list before it.)
\<close>

theorem aliases_listed_exactly:
  assumes "env_healthy env" "store_inv users fs" "fs_normal fs" "request_ok users processInfo paramSet al HKS_STORAGE_TYPE_KEY"
    "k = request_key processInfo paramSet al HKS_STORAGE_TYPE_KEY"
    "\<forall>a\<in>owned users fs k. length (encode a) < HKS_MAX_DIRENT_FILE_LEN" "card (owned users fs k) \<le> 2048"
  shows "fst (HksManageGetKeyCountByProcessName env processInfo paramSet fs) = Inr (card (owned users fs k))
    \<and> (\<exists>r. fst (HksManageListAliasesByProcessName env processInfo paramSet fs) = Inr r
        \<and> distinct (listed r) \<and> set (listed r) = owned users fs k)"
proof -
  obtain fs1 where f: "store_file_info env processInfo paramSet NULL HKS_STORAGE_TYPE_KEY fs = (Inr (named_files k False), fs1)"
    and i: "store_inv users fs1" "stored users fs1 = stored users fs" "fs_normal fs1" "is_dir fs1 (key_dir False k)"
      "wf_key users k"
    using begin_list [OF assms(1,2,4,5)] assms(3) by blast
  let ?p = "key_dir False k"
  let ?names = "names_in ?p (map fst (fs_files fs1))"
  have own: "owned users fs1 k = owned users fs k"
    by (simp add: owned_def i(2))
  have names: "set ?names = encode ` owned users fs k" "distinct ?names"
    using names_owned [OF i(1,3,5)] own by auto
  have v: "visible (dot_entries @ dir_entries fs1 ?p) = ?names"
    using visible_dir [of ?p fs1] assms(6) names(1) by auto
  define as where "as = map (\<lambda>n. projr (decode_loop n [])) ?names"
  have "encode (projr (decode_loop n [])) = n" if "n \<in> set ?names" for n
    using that unfolding names(1) by (auto simp: decode_encode)
  then have enc: "?names = map encode as"
    by (auto simp: as_def intro!: map_idI [symmetric])
  have as: "set as = owned users fs k" "distinct as"
    using names enc by (auto simp: inj_image_eq_iff encode_inj inj_def distinct_map)
  have n: "length ?names = card (owned users fs k)"
    using distinct_card [OF as(2)] as(1) enc by simp
  have m: "si_path (mainPath (named_files k False)) = ?p"
    by (simp add: named_files_def)
  have c: "GetFileCount env ?p fs1 = (length ?names, fs1\<lparr>fs_calls := Suc (fs_calls fs1)\<rparr>)"
    using open_healthy [OF assms(1) key_dir_safe i(4)] v by (simp add: GetFileCount_def count_files_visible)
  have count: "fst (HksManageGetKeyCountByProcessName env processInfo paramSet fs) = Inr (card (owned users fs k))"
    by (simp add: HksManageGetKeyCountByProcessName_def f HksGetKeyCountByProcessName_def m c n)
  show ?thesis
  proof (cases "as = []")
    case True
    then show ?thesis
      using count as(1) enc
      by (simp add: HksManageListAliasesByProcessName_def f HksListAliasesByProcessName_def GetHksFileEntry_def m c
          listed_def)
  next
    case False
    let ?fs = "fs1\<lparr>fs_calls := Suc (fs_calls fs1)\<rparr>"
    have len: "length as \<le> 2048" "length as \<noteq> 0"
      using n enc assms(7) by simp (use False in simp)
    have init: "FileNameListInit (se_alloc env) (length as) = Inr (replicate (length as) blank)"
      using len assms(1) by (simp add: FileNameListInit_def HksMalloc_def)
    have e: "dir_entries ?fs ?p = dir_entries fs1 ?p"
      by (simp add: dir_entries_def)
    have l: "GetFileNameList env ?p (replicate (length as) blank) (length as) ?fs
        = ((map entry_of ?names, length as), fs1\<lparr>fs_calls := Suc (Suc (fs_calls fs1))\<rparr>)"
      using open_healthy [OF assms(1) key_dir_safe, of ?fs False k] i(4) e v enc
        list_files_visible [of "[]" 0 "length as" "length as" "dot_entries @ dir_entries fs1 ?p"]
      by (simp add: GetFileNameList_def)
    have short: "\<forall>a\<in>set as. a \<noteq> [] \<and> length a \<le> 128"
      using as(1) by (auto simp: owned_def stored_def wf_key_def split: if_splits)
    have "name_bytes \<lparr>blob_size = word_of_nat (length a), blob_data = Some a\<rparr> = a" if "a \<in> set as" for a
    proof -
      have "length a < 2 ^ 32" using short that by fastforce
      then show ?thesis by (simp add: name_bytes_def unat_u32_of_nat)
    qed
    moreover define r where "r = \<lparr>aliasesCnt = word_of_nat (length as),
        aliases = map (\<lambda>a. \<lparr>blob_size = word_of_nat (length a), blob_data = Some a\<rparr>) as\<rparr>"
    ultimately have r: "listed (Some r) = as"
      by (simp add: listed_def comp_def map_idI)
    have "fst (HksManageListAliasesByProcessName env processInfo paramSet fs) = Inr (Some r)"
      using alias_set_loop_encoded [of "se_alloc env" as "[]"] short assms(1) len enc
      by (simp add: HksManageListAliasesByProcessName_def f HksListAliasesByProcessName_def GetHksFileEntry_def m c
          init l GetHksKeyAliasSet_def HksMalloc_def comp_def r_def)
    then show ?thesis
      using count as r by simp
  qed
qed

text \<open>One stored key.\<close>

abbreviation example_owner :: stored_key where
  "example_owner \<equiv> key_of (example_store_request 0)"

definition example_kept :: "bytes \<Rightarrow> file_system" where
  "example_kept d = example_files\<lparr>fs_files := [(key_dir False example_owner @ slash # encode [0x2F, 0x41], d),
     (key_dir True example_owner @ slash # encode [0x2F, 0x41], d)]\<rparr>"

abbreviation example_listed :: file_system where
  "example_listed \<equiv> example_kept [1, 2]"

lemma example_owner_wf: "wf_key {100} example_owner"
  using example_store_request_ok [of 0] by (simp add: req_ok_def request_ok_def key_of_def)

lemma example_paths:
  "canon (key_dir bak example_owner @ slash # encode [0x2F, 0x41]) = key_dir bak example_owner @ slash # encode [0x2F, 0x41]"
  "key_dir True example_owner @ slash # encode [0x2F, 0x41] \<noteq> key_dir False example_owner @ slash # encode [0x2F, 0x41]"
  "sk_alias example_owner = [0x2F, 0x41]"
  using canon_entry [OF key_entry_ok [OF example_owner_wf, of bak]]
    key_path_inj [OF example_owner_wf example_owner_wf, of True False]
  by (auto simp: example_store_key)

lemma example_kept_inv:
  assumes "d \<noteq> []" "length d < 2 ^ 32"
  shows "store_inv {100} (example_kept d)" "stored {100} (example_kept d) = (stored {100} example_files)(example_owner := Some d)"
proof -
  have only: "only_files (key_files example_owner) example_files (example_kept d)"
    by (simp add: only_files_def key_paths example_paths example_kept_def example_files_def fs_content_def del: encode_simps)
  have c: "main_content (key_files example_owner) (example_kept d) = Some d"
    "bak_content (key_files example_owner) (example_kept d) = Some d"
    using example_paths(2) by (simp_all add: main_content_def bak_content_def key_paths example_paths(1,3) fs_content_def example_kept_def
        del: encode_simps)
  show "store_inv {100} (example_kept d)" "stored {100} (example_kept d) = (stored {100} example_files)(example_owner := Some d)"
    using inv_only_files [OF example_inv example_owner_wf only c] assms by auto
qed

lemma example_listed_inv:
  "store_inv {100} example_listed" "stored {100} example_listed = (stored {100} example_files)(example_owner := Some [1, 2])"
  using example_kept_inv [of "[1, 2]"] by simp_all

lemma example_owned: "owned {100} example_listed example_owner = {[0x2F, 0x41]}"
proof -
  have "stored {100} example_files k = None" for k
    by (simp add: stored_def main_content_def fs_content_def example_files_def)
  moreover have "example_owner\<lparr>sk_alias := a\<rparr> = example_owner \<longleftrightarrow> a = [0x2F, 0x41]" for a
    by (simp add: example_store_key)
  ultimately show ?thesis
    by (auto simp: owned_def example_listed_inv(2))
qed

theorem aliases_listed_exactly_witness:
  "\<exists>r. fst (HksManageListAliasesByProcessName example_storage example_process (Some (example_level 0)) example_listed) = Inr r
    \<and> set (listed r) = {[0x2F, 0x41]}"
proof -
  have "fs_normal example_listed"
    using example_paths by (simp add: fs_normal_def example_kept_def del: encode_simps)
  moreover have "request_ok {100} example_process (Some (example_level 0)) \<lparr>blob_size = 2, blob_data = Some [0x2F, 0x41]\<rparr> 0"
    using example_store_request_ok [of 0] by (simp add: req_ok_def example_store_request_def)
  moreover have "example_owner = request_key example_process (Some (example_level 0)) \<lparr>blob_size = 2, blob_data = Some [0x2F, 0x41]\<rparr> 0"
    by (simp add: key_of_def example_store_request_def)
  moreover have "length (encode [0x2F, 0x41]) < 128"
    using encode_length(1) [of "[0x2F, 0x41]"] by simp
  ultimately show ?thesis
    using aliases_listed_exactly [OF example_healthy example_listed_inv(1), of example_process "Some (example_level 0)"
        "\<lparr>blob_size = 2, blob_data = Some [0x2F, 0x41]\<rparr>" example_owner]
    unfolding example_owned by auto
qed

end
