(* ===== verification/Huks_File_Lock.thy ===== *)
theory Huks_File_Lock
  imports Huks_Storage
begin

text \<open>
  The locks of files, \<open>hks_storage/src/hks_storage_file_lock.c\<close> over \<open>hks_lock.c\<close> and
  \<open>os_dependency/posix/hks_rwlock.c\<close>, and the threads that go through them in \<open>hks_storage.c\<close>.
\<close>

section \<open>Reader-writer locks\<close>

text \<open>
  A lock of the operating system: how many threads read under it and whether one writes. An operation that
  the system makes wait has no result yet, \<open>None\<close>. \<open>pthread_rwlock_init\<close> may fail.
\<close>

record HksRwlock =
  rw_readers :: nat
  rw_writer :: bool

record HksLock =
  hl_lock :: "HksRwlock ptr"

abbreviation (input) SIZEOF_RWLOCK :: nat where "SIZEOF_RWLOCK \<equiv> 56"
abbreviation (input) SIZEOF_LOCK :: nat where "SIZEOF_LOCK \<equiv> 8"
abbreviation (input) SIZEOF_FILE_LOCK :: nat where "SIZEOF_FILE_LOCK \<equiv> 32"

definition HksRwlockCreate :: "allocator \<Rightarrow> rc \<Rightarrow> HksRwlock ptr" where
  "HksRwlockCreate alloc result =
     (if HksMalloc alloc SIZEOF_RWLOCK
      then if result \<noteq> 0 then NULL else Some \<lparr>rw_readers = 0, rw_writer = False\<rparr>
      else NULL)"

definition HksRwlockLockRead :: "HksRwlock ptr \<Rightarrow> (rc \<times> HksRwlock ptr) option" where
  "HksRwlockLockRead lock =
     (case lock of
        NULL \<Rightarrow> Some (-1, NULL)
      | Some l \<Rightarrow> if rw_writer l then None else Some (0, Some (l\<lparr>rw_readers := rw_readers l + 1\<rparr>)))"

definition HksRwlockUnlockRead :: "HksRwlock ptr \<Rightarrow> rc \<times> HksRwlock ptr" where
  "HksRwlockUnlockRead lock =
     (case lock of
        NULL \<Rightarrow> (-1, NULL)
      | Some l \<Rightarrow> (0, Some (if rw_writer l then l\<lparr>rw_writer := False\<rparr>
                            else l\<lparr>rw_readers := rw_readers l - 1\<rparr>)))"

definition HksRwlockLockWrite :: "HksRwlock ptr \<Rightarrow> (rc \<times> HksRwlock ptr) option" where
  "HksRwlockLockWrite lock =
     (case lock of
        NULL \<Rightarrow> Some (-1, NULL)
      | Some l \<Rightarrow>
          if rw_writer l \<or> rw_readers l \<noteq> 0 then None else Some (0, Some (l\<lparr>rw_writer := True\<rparr>)))"

definition HksRwlockUnlockWrite :: "HksRwlock ptr \<Rightarrow> rc \<times> HksRwlock ptr" where
  "HksRwlockUnlockWrite lock =
     (case lock of
        NULL \<Rightarrow> (-1, NULL)
      | Some l \<Rightarrow> (0, Some (if rw_writer l then l\<lparr>rw_writer := False\<rparr>
                            else l\<lparr>rw_readers := rw_readers l - 1\<rparr>)))"

definition HksLockCreate :: "allocator \<Rightarrow> rc \<Rightarrow> HksLock ptr" where
  "HksLockCreate alloc result =
     (if HksMalloc alloc SIZEOF_LOCK
      then case HksRwlockCreate alloc result of NULL \<Rightarrow> NULL | Some l \<Rightarrow> Some \<lparr>hl_lock = Some l\<rparr>
      else NULL)"

definition HksLockLockRead :: "HksLock ptr \<Rightarrow> (rc \<times> HksLock ptr) option" where
  "HksLockLockRead lock =
     (case lock of
        NULL \<Rightarrow> Some (-1, NULL)
      | Some l \<Rightarrow> map_option (\<lambda>(ret, rw). (ret, Some (l\<lparr>hl_lock := rw\<rparr>))) (HksRwlockLockRead (hl_lock l)))"

definition HksLockUnlockRead :: "HksLock ptr \<Rightarrow> rc \<times> HksLock ptr" where
  "HksLockUnlockRead lock =
     (case lock of
        NULL \<Rightarrow> (-1, NULL)
      | Some l \<Rightarrow> let (ret, rw) = HksRwlockUnlockRead (hl_lock l) in (ret, Some (l\<lparr>hl_lock := rw\<rparr>)))"

definition HksLockLockWrite :: "HksLock ptr \<Rightarrow> (rc \<times> HksLock ptr) option" where
  "HksLockLockWrite lock =
     (case lock of
        NULL \<Rightarrow> Some (-1, NULL)
      | Some l \<Rightarrow> map_option (\<lambda>(ret, rw). (ret, Some (l\<lparr>hl_lock := rw\<rparr>))) (HksRwlockLockWrite (hl_lock l)))"

definition HksLockUnlockWrite :: "HksLock ptr \<Rightarrow> rc \<times> HksLock ptr" where
  "HksLockUnlockWrite lock =
     (case lock of
        NULL \<Rightarrow> (-1, NULL)
      | Some l \<Rightarrow> let (ret, rw) = HksRwlockUnlockWrite (hl_lock l) in (ret, Some (l\<lparr>hl_lock := rw\<rparr>)))"

section \<open>The list of locks\<close>

text \<open>
  A node of the list is identified by the address of its structure; threads hold such addresses. The list is
  from \<open>g_lockListFirst\<close> to \<open>g_lockListLast\<close>. \<open>g_lockListLock\<close>, the mutex of the list, is there
  or is not; the operations on the list run under it and are atomic. Locking a mutex that is there waits and then
  succeeds: the exits for a failure of \<open>HksMutexLock\<close> are left out.
\<close>

record HksStorageFileLock =
  fl_addr :: nat
  fl_path :: bytes
  fl_lock :: "HksLock ptr"
  fl_ref :: u32

record lock_list =
  g_lockList :: "HksStorageFileLock list"
  g_lockListLock :: bool

fun FindFileLock :: "bytes \<Rightarrow> HksStorageFileLock list \<Rightarrow> HksStorageFileLock ptr" where
  "FindFileLock path [] = NULL"
| "FindFileLock path (iter # rest) = (if path = fl_path iter then Some iter else FindFileLock path rest)"

definition AllocFileLock :: "allocator \<Rightarrow> rc \<Rightarrow> nat \<Rightarrow> bytes \<Rightarrow> HksStorageFileLock ptr" where
  "AllocFileLock alloc result fresh path =
     (if \<not> HksMalloc alloc SIZEOF_FILE_LOCK then NULL
      else if \<not> HksMalloc alloc (length path + 1) then NULL
      else case HksLockCreate alloc result of
             NULL \<Rightarrow> NULL
           | Some l \<Rightarrow> Some \<lparr>fl_addr = fresh, fl_path = path, fl_lock = Some l, fl_ref = 1\<rparr>)"

text \<open>Changing the structure at an address.\<close>

definition update_lock :: "nat \<Rightarrow> (HksStorageFileLock \<Rightarrow> HksStorageFileLock)
    \<Rightarrow> HksStorageFileLock list \<Rightarrow> HksStorageFileLock list" where
  "update_lock lock f = map (\<lambda>l. if fl_addr l = lock then f l else l)"

definition AddRef :: "nat \<Rightarrow> HksStorageFileLock list \<Rightarrow> HksStorageFileLock list" where
  "AddRef lock = update_lock lock (\<lambda>l. l\<lparr>fl_ref := fl_ref l + 1\<rparr>)"

definition AppendFileLock :: "HksStorageFileLock \<Rightarrow> HksStorageFileLock list \<Rightarrow> HksStorageFileLock list" where
  "AppendFileLock lock locks = (if locks = [] then [lock] else locks @ [lock])"

definition HksStorageFileLockCreate :: "allocator \<Rightarrow> rc \<Rightarrow> nat \<Rightarrow> bytes \<Rightarrow> lock_list \<Rightarrow> nat ptr \<times> lock_list" where
  "HksStorageFileLockCreate alloc result fresh path st =
     (if \<not> g_lockListLock st then (NULL, st)
      else case FindFileLock path (g_lockList st) of
             NULL \<Rightarrow>
               (case AllocFileLock alloc result fresh path of
                  NULL \<Rightarrow> (NULL, st)
                | Some lock \<Rightarrow> (Some (fl_addr lock), st\<lparr>g_lockList := AppendFileLock lock (g_lockList st)\<rparr>))
           | Some lock \<Rightarrow> (Some (fl_addr lock), st\<lparr>g_lockList := AddRef (fl_addr lock) (g_lockList st)\<rparr>))"

text \<open>The structure at an address; using one that has been freed has no result at all.\<close>

fun lock_at :: "nat \<Rightarrow> HksStorageFileLock list \<Rightarrow> HksStorageFileLock option" where
  "lock_at lock [] = None"
| "lock_at lock (iter # rest) = (if fl_addr iter = lock then Some iter else lock_at lock rest)"

definition set_lock :: "nat \<Rightarrow> HksLock ptr \<Rightarrow> lock_list \<Rightarrow> lock_list" where
  "set_lock lock l st = st\<lparr>g_lockList := update_lock lock (\<lambda>n. n\<lparr>fl_lock := l\<rparr>) (g_lockList st)\<rparr>"

definition HksStorageFileLockRead :: "nat ptr \<Rightarrow> lock_list \<Rightarrow> (rc \<times> lock_list) option" where
  "HksStorageFileLockRead lock st =
     (case lock of
        NULL \<Rightarrow> Some (-1, st)
      | Some a \<Rightarrow>
          (case lock_at a (g_lockList st) of
             None \<Rightarrow> None
           | Some n \<Rightarrow> map_option (\<lambda>(ret, l). (ret, set_lock a l st)) (HksLockLockRead (fl_lock n))))"

definition HksStorageFileUnlockRead :: "nat ptr \<Rightarrow> lock_list \<Rightarrow> (rc \<times> lock_list) option" where
  "HksStorageFileUnlockRead lock st =
     (case lock of
        NULL \<Rightarrow> Some (-1, st)
      | Some a \<Rightarrow>
          (case lock_at a (g_lockList st) of
             None \<Rightarrow> None
           | Some n \<Rightarrow> let (ret, l) = HksLockUnlockRead (fl_lock n) in Some (ret, set_lock a l st)))"

definition HksStorageFileLockWrite :: "nat ptr \<Rightarrow> lock_list \<Rightarrow> (rc \<times> lock_list) option" where
  "HksStorageFileLockWrite lock st =
     (case lock of
        NULL \<Rightarrow> Some (-1, st)
      | Some a \<Rightarrow>
          (case lock_at a (g_lockList st) of
             None \<Rightarrow> None
           | Some n \<Rightarrow> map_option (\<lambda>(ret, l). (ret, set_lock a l st)) (HksLockLockWrite (fl_lock n))))"

definition HksStorageFileUnlockWrite :: "nat ptr \<Rightarrow> lock_list \<Rightarrow> (rc \<times> lock_list) option" where
  "HksStorageFileUnlockWrite lock st =
     (case lock of
        NULL \<Rightarrow> Some (-1, st)
      | Some a \<Rightarrow>
          (case lock_at a (g_lockList st) of
             None \<Rightarrow> None
           | Some n \<Rightarrow> let (ret, l) = HksLockUnlockWrite (fl_lock n) in Some (ret, set_lock a l st)))"

fun IsLockInList :: "nat \<Rightarrow> HksStorageFileLock list \<Rightarrow> bool" where
  "IsLockInList lock [] = False"
| "IsLockInList lock (iter # rest) = (if lock = fl_addr iter then True else IsLockInList lock rest)"

fun Release :: "nat \<Rightarrow> HksStorageFileLock list \<Rightarrow> u32 \<times> HksStorageFileLock list" where
  "Release lock [] = (0, [])"
| "Release lock (iter # rest) =
     (if lock = fl_addr iter then
        let ref = fl_ref iter - 1 in
        (ref, if ref = 0 then rest else iter\<lparr>fl_ref := ref\<rparr> # rest)
      else let (ref, rest) = Release lock rest in (ref, iter # rest))"

definition HksStorageFileLockRelease :: "nat ptr \<Rightarrow> lock_list \<Rightarrow> lock_list" where
  "HksStorageFileLockRelease lock st =
     (case lock of
        NULL \<Rightarrow> st
      | Some a \<Rightarrow>
          if \<not> g_lockListLock st then st
          else if IsLockInList a (g_lockList st)
          then st\<lparr>g_lockList := snd (Release a (g_lockList st))\<rparr>
          else st)"

definition ClearLockList :: "lock_list \<Rightarrow> lock_list" where
  "ClearLockList st = (if g_lockList st = [] then st else st\<lparr>g_lockList := []\<rparr>)"

definition OnLoad :: "bool \<Rightarrow> lock_list" where
  "OnLoad created = \<lparr>g_lockList = [], g_lockListLock = created\<rparr>"

definition OnUnload :: "lock_list \<Rightarrow> lock_list" where
  "OnUnload st = ClearLockList (st\<lparr>g_lockListLock := False\<rparr>)"

section \<open>Threads\<close>

text \<open>
  The lock of a file is found by its full name. Without memory for the name there is no lock, and the
  operation goes on without one.
\<close>

definition lock_name :: "storage_env \<Rightarrow> HksStoreInfo \<Rightarrow> bytes res" where
  "lock_name env info =
     (if \<not> HksMalloc (se_alloc env) HKS_MAX_FILE_NAME_LEN then Inl HKS_ERROR_MALLOC_FAIL
      else HksGetFileName (Some (si_path info)) (si_fileName info) HKS_MAX_FILE_NAME_LEN)"

definition CreateStorageFileLock ::
    "storage_env \<Rightarrow> rc \<Rightarrow> nat \<Rightarrow> HksStoreInfo \<Rightarrow> lock_list \<Rightarrow> nat ptr \<times> lock_list" where
  "CreateStorageFileLock env result fresh info st =
     (case lock_name env info of
        Inl ret \<Rightarrow> (NULL, st)
      | Inr fullPath \<Rightarrow> HksStorageFileLockCreate (se_alloc env) result fresh fullPath st)"

text \<open>
  What is done under a lock: \<open>HksStorageReadFile\<close>, \<open>HksStorageWriteFile\<close> (also from \<open>CleanFile\<close>)
  and the last part of \<open>HksStorageRemoveFile\<close>.
\<close>

datatype access = ReadFile HksBlob | WriteFile "bytes ptr" | RemoveFile

fun reads :: "access \<Rightarrow> bool" where
  "reads (ReadFile blob) = True"
| "reads (WriteFile buf) = False"
| "reads RemoveFile = False"

fun perform :: "storage_env \<Rightarrow> HksStoreInfo \<Rightarrow> access \<Rightarrow> file_system \<Rightarrow> file_system" where
  "perform env info (ReadFile blob) fs = snd (HksStorageReadFile env info blob fs)"
| "perform env info (WriteFile buf) fs = snd (HksStorageWriteFile env info buf fs)"
| "perform env info RemoveFile fs =
     snd (HksFileRemove (se_os env) (se_alloc env) (Some (si_path info)) (Some (si_fileName info)) fs)"

definition take_lock :: "access \<Rightarrow> nat ptr \<Rightarrow> lock_list \<Rightarrow> (rc \<times> lock_list) option" where
  "take_lock acc lock = (if reads acc then HksStorageFileLockRead lock else HksStorageFileLockWrite lock)"

definition drop_lock :: "access \<Rightarrow> nat ptr \<Rightarrow> lock_list \<Rightarrow> (rc \<times> lock_list) option" where
  "drop_lock acc lock = (if reads acc then HksStorageFileUnlockRead lock else HksStorageFileUnlockWrite lock)"

text \<open>
  A thread has accesses to do, the one it is at in front, and is before the creation of its lock, after it,
  holds the lock, has done the access, or has unlocked and still has to release the handle.
\<close>

datatype phase = Begun | Created "nat ptr" | Locked "nat ptr" | Accessed "nat ptr" | Unlocked "nat ptr"

record storage_thread =
  th_todo :: "(HksStoreInfo \<times> access) list"
  th_phase :: phase

record lock_world =
  lw_locks :: lock_list
  lw_files :: file_system
  lw_threads :: "storage_thread list"

inductive lock_step :: "storage_env \<Rightarrow> lock_world \<Rightarrow> lock_world \<Rightarrow> bool" for env where
  create: "i < length (lw_threads w) \<Longrightarrow> lw_threads w ! i = \<lparr>th_todo = (info, acc) # rest, th_phase = Begun\<rparr> \<Longrightarrow>
    fresh \<notin> fl_addr ` set (g_lockList (lw_locks w)) \<Longrightarrow>
    CreateStorageFileLock env result fresh info (lw_locks w) = (lock, locks) \<Longrightarrow>
    lock_step env w (w\<lparr>lw_locks := locks,
      lw_threads := (lw_threads w)[i := \<lparr>th_todo = (info, acc) # rest, th_phase = Created lock\<rparr>]\<rparr>)"
| lock: "i < length (lw_threads w) \<Longrightarrow> lw_threads w ! i = \<lparr>th_todo = (info, acc) # rest, th_phase = Created lock\<rparr> \<Longrightarrow>
    take_lock acc lock (lw_locks w) = Some (ret, locks) \<Longrightarrow>
    lock_step env w (w\<lparr>lw_locks := locks,
      lw_threads := (lw_threads w)[i := \<lparr>th_todo = (info, acc) # rest, th_phase = Locked lock\<rparr>]\<rparr>)"
| access: "i < length (lw_threads w) \<Longrightarrow> lw_threads w ! i = \<lparr>th_todo = (info, acc) # rest, th_phase = Locked lock\<rparr> \<Longrightarrow>
    lock_step env w (w\<lparr>lw_files := perform env info acc (lw_files w),
      lw_threads := (lw_threads w)[i := \<lparr>th_todo = (info, acc) # rest, th_phase = Accessed lock\<rparr>]\<rparr>)"
| unlock: "i < length (lw_threads w) \<Longrightarrow> lw_threads w ! i = \<lparr>th_todo = (info, acc) # rest, th_phase = Accessed lock\<rparr> \<Longrightarrow>
    drop_lock acc lock (lw_locks w) = Some (ret, locks) \<Longrightarrow>
    lock_step env w (w\<lparr>lw_locks := locks,
      lw_threads := (lw_threads w)[i := \<lparr>th_todo = (info, acc) # rest, th_phase = Unlocked lock\<rparr>]\<rparr>)"
| release: "i < length (lw_threads w) \<Longrightarrow> lw_threads w ! i = \<lparr>th_todo = (info, acc) # rest, th_phase = Unlocked lock\<rparr> \<Longrightarrow>
    lock_step env w (w\<lparr>lw_locks := HksStorageFileLockRelease lock (lw_locks w),
      lw_threads := (lw_threads w)[i := \<lparr>th_todo = rest, th_phase = Begun\<rparr>]\<rparr>)"

text \<open>The beginning: the library is loaded, some files are there and every thread has accesses to do.\<close>

definition lock_start :: "file_system \<Rightarrow> (HksStoreInfo \<times> access) list list \<Rightarrow> lock_world" where
  "lock_start fs todos = \<lparr>lw_locks = OnLoad True, lw_files = fs,
     lw_threads = map (\<lambda>todo. \<lparr>th_todo = todo, th_phase = Begun\<rparr>) todos\<rparr>"

definition lock_reach :: "storage_env \<Rightarrow> file_system \<Rightarrow> (HksStoreInfo \<times> access) list list \<Rightarrow> lock_world \<Rightarrow> bool" where
  "lock_reach env fs todos = (lock_step env)\<^sup>*\<^sup>* (lock_start fs todos)"

end
