(* ===== verification/Huks_File_Lock_Laws.thy ===== *)
theory Huks_File_Lock_Laws
  imports Huks_File_Lock
begin

text \<open>
  The invariant of the locks of files under every interleaving of threads: the references, readers and
  writer that a lock counts are the threads that hold its handle, read and write.
\<close>

section \<open>Counting the threads\<close>

fun tally :: "('a \<Rightarrow> bool) \<Rightarrow> 'a list \<Rightarrow> nat" where
  "tally P [] = 0"
| "tally P (x # xs) = of_bool (P x) + tally P xs"

lemma tally_update:
  "i < length xs \<Longrightarrow> tally P (xs[i := y]) + of_bool (P (xs ! i)) = tally P xs + of_bool (P y)"
proof (induction xs arbitrary: i)
  case (Cons x xs)
  then show ?case by (cases i) (auto simp: add.commute add.left_commute)
qed simp

lemma tally_same: "P (xs ! i) = P y \<Longrightarrow> tally P (xs[i := y]) = tally P xs"
  using tally_update [of i xs P y] by (cases "i < length xs") (auto simp: list_update_beyond)

lemma tally_le: "tally P xs \<le> length xs"
  by (induction xs) auto

lemma tally_0: "tally P xs = 0 \<longleftrightarrow> (\<forall>x\<in>set xs. \<not> P x)"
  by (induction xs) auto

lemma tally_two: "i < length xs \<Longrightarrow> j < length xs \<Longrightarrow> i \<noteq> j \<Longrightarrow> P (xs ! i) \<Longrightarrow> P (xs ! j) \<Longrightarrow> 2 \<le> tally P xs"
proof (induction xs arbitrary: i j)
  case (Cons x xs)
  have one: "k < length xs \<Longrightarrow> P (xs ! k) \<Longrightarrow> 1 \<le> tally P xs" for k
    using tally_0 [of P xs] nth_mem [of k xs] by (metis Suc_le_eq One_nat_def neq0_conv)
  show ?case
    using Cons.prems Cons.IH [of "i - 1" "j - 1"] one [of "i - 1"] one [of "j - 1"]
    by (cases i; cases j) auto
qed simp

section \<open>What a thread holds\<close>

definition handle :: "storage_thread \<Rightarrow> nat ptr" where
  "handle t = (case th_phase t of Begun \<Rightarrow> NULL | Created h \<Rightarrow> h | Locked h \<Rightarrow> h | Accessed h \<Rightarrow> h | Unlocked h \<Rightarrow> h)"

definition at_file :: "storage_thread \<Rightarrow> bool" where
  "at_file t = (case th_phase t of Locked h \<Rightarrow> True | Accessed h \<Rightarrow> True | _ \<Rightarrow> False)"

definition reads_under :: "nat \<Rightarrow> storage_thread \<Rightarrow> bool" where
  "reads_under a t \<longleftrightarrow> handle t = Some a \<and> at_file t \<and> reads (snd (hd (th_todo t)))"

definition writes_under :: "nat \<Rightarrow> storage_thread \<Rightarrow> bool" where
  "writes_under a t \<longleftrightarrow> handle t = Some a \<and> at_file t \<and> \<not> reads (snd (hd (th_todo t)))"

abbreviation holding :: "nat \<Rightarrow> storage_thread \<Rightarrow> bool" where
  "holding a t \<equiv> handle t = Some a"

definition node_ok :: "storage_thread list \<Rightarrow> HksStorageFileLock \<Rightarrow> bool" where
  "node_ok ts n \<longleftrightarrow> fl_ref n \<noteq> 0 \<and> unat (fl_ref n) = tally (holding (fl_addr n)) ts
     \<and> (\<exists>r w. fl_lock n = Some \<lparr>hl_lock = Some \<lparr>rw_readers = r, rw_writer = w\<rparr>\<rparr>
          \<and> r = tally (reads_under (fl_addr n)) ts \<and> of_bool w = tally (writes_under (fl_addr n)) ts \<and> (w \<longrightarrow> r = 0))"

abbreviation names :: "HksStorageFileLock list \<Rightarrow> (nat \<times> bytes) list" where
  "names ns \<equiv> map (\<lambda>n. (fl_addr n, fl_path n)) ns"

definition thread_ok :: "storage_env \<Rightarrow> (nat \<times> bytes) list \<Rightarrow> storage_thread \<Rightarrow> bool" where
  "thread_ok env ks t \<longleftrightarrow> (th_phase t \<noteq> Begun \<longrightarrow> th_todo t \<noteq> [])
     \<and> (\<forall>a. handle t = Some a \<longrightarrow> (\<exists>p. (a, p) \<in> set ks \<and> lock_name env (fst (hd (th_todo t))) = Inr p))"

definition lock_ok :: "storage_env \<Rightarrow> HksStorageFileLock list \<Rightarrow> storage_thread list \<Rightarrow> bool" where
  "lock_ok env ns ts \<longleftrightarrow> distinct (map fst (names ns)) \<and> distinct (map snd (names ns))
     \<and> (\<forall>n\<in>set ns. node_ok ts n) \<and> (\<forall>t\<in>set ts. thread_ok env (names ns) t) \<and> length ts < 2 ^ 32"

definition lock_inv :: "storage_env \<Rightarrow> lock_world \<Rightarrow> bool" where
  "lock_inv env w \<longleftrightarrow> g_lockListLock (lw_locks w) \<and> lock_ok env (g_lockList (lw_locks w)) (lw_threads w)"

lemmas lock_thread_simps = handle_def at_file_def reads_under_def writes_under_def

section \<open>The list\<close>

lemma names_update:
  "(\<And>n. fl_addr (f n) = fl_addr n \<and> fl_path (f n) = fl_path n) \<Longrightarrow> names (update_lock a f ns) = names ns"
  by (simp add: update_lock_def comp_def if_distrib cong: if_cong)

lemma in_update: "n \<in> set (update_lock a f ns) \<longleftrightarrow> (\<exists>m\<in>set ns. n = (if fl_addr m = a then f m else m))"
  unfolding update_lock_def set_map image_iff by (rule refl)

lemma lock_at_SomeD: "lock_at a ns = Some n \<Longrightarrow> n \<in> set ns \<and> fl_addr n = a"
  by (induction ns) (auto split: if_splits)

lemma lock_at_name: "(a, p) \<in> set (names ns) \<Longrightarrow> \<exists>n. lock_at a ns = Some n"
  by (induction ns) auto

lemma same_node: "distinct (map fst (names ns)) \<Longrightarrow> n \<in> set ns \<Longrightarrow> m \<in> set ns \<Longrightarrow> fl_addr n = fl_addr m \<Longrightarrow> n = m"
  by (simp add: comp_def distinct_map inj_on_def)

lemma lock_at_in: "distinct (map fst (names ns)) \<Longrightarrow> n \<in> set ns \<Longrightarrow> lock_at (fl_addr n) ns = Some n"
  by (induction ns) (auto simp: rev_image_eqI)

lemma IsLockInList_iff: "IsLockInList a ns \<longleftrightarrow> a \<in> fl_addr ` set ns"
  by (induction ns) auto

lemma FindFileLock_Some: "FindFileLock p ns = Some n \<Longrightarrow> n \<in> set ns \<and> fl_path n = p"
  by (induction ns) (auto split: if_splits)

lemma FindFileLock_None: "FindFileLock p ns = NULL \<longleftrightarrow> p \<notin> fl_path ` set ns"
  by (induction ns) auto

lemma Release_eq:
  assumes "distinct (map fst (names ns))" "n \<in> set ns"
  shows "snd (Release (fl_addr n) ns) =
    (if fl_ref n - 1 = 0 then filter (\<lambda>m. fl_addr m \<noteq> fl_addr n) ns
     else update_lock (fl_addr n) (\<lambda>l. l\<lparr>fl_ref := fl_ref l - 1\<rparr>) ns)"
  using assms
proof (induction ns)
  case (Cons m ns)
  show ?case
  proof (cases "fl_addr m = fl_addr n")
    case True
    then have m: "m = n" by (rule same_node [OF Cons.prems(1) list.set_intros(1) Cons.prems(2)])
    have "fl_addr n \<notin> fl_addr ` set ns" using Cons.prems(1) by (simp add: m comp_def)
    then have "\<forall>l\<in>set ns. fl_addr l \<noteq> fl_addr n" by (metis imageI)
    then have "filter (\<lambda>l. fl_addr l \<noteq> fl_addr n) ns = ns"
      "update_lock (fl_addr n) f ns = ns" for f
      by (auto simp: filter_id_conv update_lock_def intro: map_idI)
    then show ?thesis by (simp add: m Let_def) (simp add: update_lock_def)
  next
    case False
    then have "n \<in> set ns" "distinct (map fst (names ns))" using Cons.prems by auto
    then show ?thesis
      using Cons.IH False by (simp add: update_lock_def case_prod_beta)
  qed
qed simp

section \<open>One thread moves\<close>

lemma node_ok_other:
  assumes "handle (ts ! i) \<noteq> Some (fl_addr n)" "handle t \<noteq> Some (fl_addr n)"
  shows "node_ok (ts[i := t]) n = node_ok ts n"
proof -
  have "tally (holding (fl_addr n)) (ts[i := t]) = tally (holding (fl_addr n)) ts"
    "tally (reads_under (fl_addr n)) (ts[i := t]) = tally (reads_under (fl_addr n)) ts"
    "tally (writes_under (fl_addr n)) (ts[i := t]) = tally (writes_under (fl_addr n)) ts"
    using assms by (auto intro!: tally_same simp: reads_under_def writes_under_def)
  then show ?thesis by (simp add: node_ok_def)
qed

lemma lock_ok_update:
  assumes ok: "lock_ok env ns ts" and t: "thread_ok env (names ns) t"
    and f: "\<And>n. fl_addr (f n) = fl_addr n \<and> fl_path (f n) = fl_path n"
    and h: "handle (ts ! i) = Some a \<or> handle (ts ! i) = NULL" "handle t = Some a \<or> handle t = NULL"
    and n: "\<And>n. n \<in> set ns \<Longrightarrow> fl_addr n = a \<Longrightarrow> node_ok ts n \<Longrightarrow> node_ok (ts[i := t]) (f n)"
  shows "lock_ok env (update_lock a f ns) (ts[i := t])"
proof -
  have "node_ok (ts[i := t]) m" if m: "m \<in> set (update_lock a f ns)" for m
  proof -
    obtain l where l: "l \<in> set ns" "m = (if fl_addr l = a then f l else l)"
      using m by (auto simp: in_update)
    have "node_ok ts l" using ok l(1) by (simp add: lock_ok_def)
    then show ?thesis using n [OF l(1)] node_ok_other [of ts i l t] h l(2) by (cases "fl_addr l = a") auto
  qed
  moreover have "\<forall>u\<in>set (ts[i := t]). thread_ok env (names ns) u"
    using ok t set_update_subset_insert [of ts i t] by (auto simp: lock_ok_def)
  ultimately show ?thesis
    using ok names_update [of f a ns, OF f] by (simp add: lock_ok_def del: map_map)
qed

lemma lock_ok_same:
  assumes ok: "lock_ok env ns ts" and t: "thread_ok env (names ns) t"
    and h: "handle (ts ! i) = handle t" "\<And>a. reads_under a (ts ! i) = reads_under a t" "\<And>a. writes_under a (ts ! i) = writes_under a t"
  shows "lock_ok env ns (ts[i := t])"
proof -
  have "node_ok (ts[i := t]) n = node_ok ts n" for n
    using h by (simp add: node_ok_def tally_same)
  moreover have "\<forall>u\<in>set (ts[i := t]). thread_ok env (names ns) u"
    using ok t set_update_subset_insert [of ts i t] by (auto simp: lock_ok_def)
  ultimately show ?thesis using ok by (simp add: lock_ok_def)
qed


section \<open>The steps keep the invariant\<close>

abbreviation thread :: "(HksStoreInfo \<times> access) list \<Rightarrow> phase \<Rightarrow> storage_thread" where
  "thread todo p \<equiv> \<lparr>th_todo = todo, th_phase = p\<rparr>"

lemma thread_okI:
  "(\<And>a. handle (thread ((info, acc) # rest) p) = Some a
     \<Longrightarrow> \<exists>q. (a, q) \<in> set ks \<and> lock_name env info = Inr q)
   \<Longrightarrow> thread_ok env ks (thread ((info, acc) # rest) p)"
  by (simp add: thread_ok_def)

lemma tally_room:
  assumes "i < length ts" "P t" "\<not> P (ts ! i)" "length ts < 2 ^ 32"
  shows "tally P ts + 1 < 2 ^ 32 \<and> tally P (ts[i := t]) = tally P ts + 1"
  using tally_update [of i ts P t] tally_le [of P "ts[i := t]"] assms by simp

abbreviation free_lock :: "nat \<Rightarrow> bytes \<Rightarrow> HksStorageFileLock" where
  "free_lock a p \<equiv>
     \<lparr>fl_addr = a, fl_path = p, fl_lock = Some \<lparr>hl_lock = Some \<lparr>rw_readers = 0, rw_writer = False\<rparr>\<rparr>, fl_ref = 1\<rparr>"

lemma AppendFileLock_eq: "AppendFileLock l ns = ns @ [l]"
  by (simp add: AppendFileLock_def)

lemma AllocFileLock_cases:
  "AllocFileLock alloc result fresh p = NULL \<or> AllocFileLock alloc result fresh p = Some (free_lock fresh p)"
  by (simp add: AllocFileLock_def HksLockCreate_def HksRwlockCreate_def)

lemma unat_ref: "unat (r :: u32) + 1 < 2 ^ 32 \<Longrightarrow> unat (r + 1) = unat r + 1"
  using unat_u32_add_of_nat [of r 1] by simp

lemma lock_ok_create:
  assumes ok: "lock_ok env (g_lockList st) ts" and i: "i < length ts" "ts ! i = thread ((info, acc) # rest) Begun"
    and fresh: "fresh \<notin> fl_addr ` set (g_lockList st)"
    and c: "CreateStorageFileLock env result fresh info st = (h, st')" and m: "g_lockListLock st"
  shows "g_lockListLock st' \<and> lock_ok env (g_lockList st') (ts[i := thread ((info, acc) # rest) (Created h)])"
proof -
  let ?t = "thread ((info, acc) # rest) (Created h)"
  let ?ns = "g_lockList st"
  have ti: "handle (ts ! i) = NULL" "\<not> reads_under a (ts ! i)" "\<not> writes_under a (ts ! i)"
    and t: "handle ?t = h" "\<not> reads_under a ?t" "\<not> writes_under a ?t" for a
    using i(2) by (simp_all add: lock_thread_simps)
  have len: "length ts < 2 ^ 32" using ok by (simp add: lock_ok_def)
  consider (no) "h = NULL" "st' = st"
    | (found) n p where "lock_name env info = Inr p" "n \<in> set ?ns" "fl_path n = p" "h = Some (fl_addr n)"
        "st' = st\<lparr>g_lockList := AddRef (fl_addr n) ?ns\<rparr>"
    | (made) n p where "lock_name env info = Inr p" "p \<notin> fl_path ` set ?ns" "h = Some fresh"
        "n = free_lock fresh p" "st' = st\<lparr>g_lockList := ?ns @ [n]\<rparr>"
  proof (cases "lock_name env info")
    case (Inl r)
    then show ?thesis using c no by (simp add: CreateStorageFileLock_def)
  next
    case (Inr p)
    show ?thesis
    proof (cases "FindFileLock p ?ns")
      case None
      then have p: "p \<notin> fl_path ` set ?ns" by (simp only: FindFileLock_None simp_thms)
      show ?thesis
      proof (rule disjE [OF AllocFileLock_cases [of "se_alloc env" result fresh p]])
        assume a: "AllocFileLock (se_alloc env) result fresh p = NULL"
        show ?thesis
          using c m by (intro no) (simp_all add: CreateStorageFileLock_def HksStorageFileLockCreate_def Inr None a)
      next
        assume a: "AllocFileLock (se_alloc env) result fresh p = Some (free_lock fresh p)"
        show ?thesis
          using c m by (intro made [OF Inr p _ refl])
            (simp_all add: CreateStorageFileLock_def HksStorageFileLockCreate_def AppendFileLock_eq Inr None a)
      qed
    next
      case (Some n)
      then show ?thesis using c Inr found [of p n] m FindFileLock_Some [OF Some]
        by (simp add: CreateStorageFileLock_def HksStorageFileLockCreate_def)
    qed
  qed
  then show ?thesis
  proof cases
    case no
    then show ?thesis using ok m ti t
      by (auto intro!: lock_ok_same thread_okI)
  next
    case (found n p)
    have "lock_ok env (AddRef (fl_addr n) ?ns) (ts[i := ?t])"
      unfolding AddRef_def
    proof (rule lock_ok_update [OF ok])
      show "thread_ok env (names ?ns) ?t" using found t by (intro thread_okI) (auto simp: rev_image_eqI)
      fix l assume l: "node_ok ts l" "fl_addr l = fl_addr n"
      have r: "tally (holding (fl_addr n)) ts + 1 < 2 ^ 32"
        "tally (holding (fl_addr n)) (ts[i := ?t]) = tally (holding (fl_addr n)) ts + 1"
        using tally_room [OF i(1) _ _ len, of "holding (fl_addr n)" ?t] ti t found by auto
      then have "unat (fl_ref l + 1) = unat (fl_ref l) + 1"
        using l r by (intro unat_ref) (simp add: node_ok_def)
      then show "node_ok (ts[i := ?t]) (l\<lparr>fl_ref := fl_ref l + 1\<rparr>)"
        using l r ti t by (auto simp: node_ok_def tally_same)
    qed (use ti t found in auto)
    then show ?thesis using found m by simp
  next
    case (made n p)
    have "\<not> holding fresh u" if "u \<in> set ts" for u
      using ok that fresh by (fastforce simp: lock_ok_def thread_ok_def)
    then have none: "tally (holding fresh) ts = 0" "tally (reads_under fresh) ts = 0" "tally (writes_under fresh) ts = 0"
      by (auto simp: tally_0 reads_under_def writes_under_def)
    have new: "node_ok (ts[i := ?t]) n"
      using none made tally_room [OF i(1) _ _ len, of "holding fresh" ?t] ti t
      by (simp add: node_ok_def tally_same ex_bool_eq)
    have "node_ok (ts[i := ?t]) l" if "l \<in> set ?ns" for l
      using that ok fresh node_ok_other [of ts i l ?t] ti(1) t(1) made(3) by (auto simp: lock_ok_def)
    moreover have "thread_ok env (names (?ns @ [n])) ?t" using made t by (intro thread_okI) auto
    moreover have "thread_ok env (names (?ns @ [n])) u" if "u \<in> set ts" for u
      using ok that by (fastforce simp: lock_ok_def thread_ok_def)
    ultimately have "lock_ok env (?ns @ [n]) (ts[i := ?t])"
      using ok new made fresh set_update_subset_insert [of ts i ?t]
      by (auto simp: lock_ok_def)
    then show ?thesis using made m by simp
  qed
qed


text \<open>Taking and giving back a lock.\<close>

lemma node_okE:
  assumes "node_ok ts n"
  obtains r w where "fl_lock n = Some \<lparr>hl_lock = Some \<lparr>rw_readers = r, rw_writer = w\<rparr>\<rparr>"
    "r = tally (reads_under (fl_addr n)) ts" "of_bool w = tally (writes_under (fl_addr n)) ts" "w \<Longrightarrow> r = 0"
  using assms unfolding node_ok_def by blast

lemma node_okI:
  assumes "node_ok ts n" "fl_addr m = fl_addr n" "fl_ref m = fl_ref n"
    "tally (holding (fl_addr n)) us = tally (holding (fl_addr n)) ts"
    "fl_lock m = Some \<lparr>hl_lock = Some \<lparr>rw_readers = r, rw_writer = w\<rparr>\<rparr>"
    "r = tally (reads_under (fl_addr n)) us" "of_bool w = tally (writes_under (fl_addr n)) us" "w \<longrightarrow> r = 0"
  shows "node_ok us m"
  using assms unfolding node_ok_def by auto

abbreviation rwlock :: "nat \<Rightarrow> bool \<Rightarrow> HksLock ptr" where
  "rwlock r w \<equiv> Some \<lparr>hl_lock = Some \<lparr>rw_readers = r, rw_writer = w\<rparr>\<rparr>"

lemma take_lock_Some:
  assumes "lock_at a (g_lockList st) = Some n" "fl_lock n = rwlock r w"
  shows "take_lock acc (Some a) st =
    (if w \<or> (\<not> reads acc \<and> r \<noteq> 0) then None
     else Some (0, set_lock a (rwlock (if reads acc then r + 1 else r) (\<not> reads acc)) st))"
  using assms by (simp add: take_lock_def HksStorageFileLockRead_def HksLockLockRead_def HksRwlockLockRead_def
      HksStorageFileLockWrite_def HksLockLockWrite_def HksRwlockLockWrite_def)

lemma drop_lock_Some:
  assumes "lock_at a (g_lockList st) = Some n" "fl_lock n = rwlock r w"
  shows "drop_lock acc (Some a) st =
    Some (0, set_lock a (rwlock (if w then r else r - 1) False) st)"
  using assms by (cases w) (simp_all add: drop_lock_def HksStorageFileUnlockRead_def HksLockUnlockRead_def
      HksRwlockUnlockRead_def HksStorageFileUnlockWrite_def HksLockUnlockWrite_def HksRwlockUnlockWrite_def)

lemma take_lock_NULL: "take_lock acc NULL st = Some (-1, st)" "drop_lock acc NULL st = Some (-1, st)"
  by (simp_all add: take_lock_def drop_lock_def HksStorageFileLockRead_def HksStorageFileLockWrite_def
      HksStorageFileUnlockRead_def HksStorageFileUnlockWrite_def)

lemma lock_ok_node:
  assumes "lock_ok env ns ts" "i < length ts" "handle (ts ! i) = Some a"
  obtains n r w where "lock_at a ns = Some n" "n \<in> set ns" "fl_addr n = a" "node_ok ts n"
    "fl_lock n = rwlock r w" "r = tally (reads_under a) ts" "of_bool w = tally (writes_under a) ts" "w \<Longrightarrow> r = 0"
proof -
  have "thread_ok env (names ns) (ts ! i)" using assms(1,2) by (auto simp: lock_ok_def)
  then obtain n where n: "lock_at a ns = Some n"
    using assms(3) lock_at_name [of a _ ns] unfolding thread_ok_def by metis
  then have mem: "n \<in> set ns" "fl_addr n = a" using lock_at_SomeD by auto
  then have ok: "node_ok ts n" using assms(1) by (simp add: lock_ok_def)
  show ?thesis
    by (rule node_okE [OF ok]) (use that n mem ok in auto)
qed

lemma lock_ok_set:
  assumes ok: "lock_ok env ns ts" and t: "thread_ok env (names ns) t"
    and h: "handle (ts ! i) = Some a" "handle t = Some a"
    and c: "r = tally (reads_under a) (ts[i := t])" "of_bool w = tally (writes_under a) (ts[i := t])" "w \<longrightarrow> r = 0"
  shows "lock_ok env (update_lock a (\<lambda>n. n\<lparr>fl_lock := rwlock r w\<rparr>) ns) (ts[i := t])"
proof (rule lock_ok_update [OF ok t])
  fix n assume n: "n \<in> set ns" "fl_addr n = a" "node_ok ts n"
  show "node_ok (ts[i := t]) (n\<lparr>fl_lock := rwlock r w\<rparr>)"
    by (rule node_okI [OF n(3)]) (use n(2) h c in \<open>simp_all add: tally_same\<close>)
qed (use h in auto)

lemma thread_ok_phase:
  "thread_ok env ks (thread ((info, acc) # rest) p) \<Longrightarrow> handle (thread ((info, acc) # rest) p) = h
    \<Longrightarrow> handle (thread ((info, acc) # rest) q) = h \<Longrightarrow> thread_ok env ks (thread ((info, acc) # rest) q)"
  by (simp add: thread_ok_def)

lemma lock_ok_thread: "lock_ok env ns ts \<Longrightarrow> i < length ts \<Longrightarrow> thread_ok env (names ns) (ts ! i)"
  by (simp add: lock_ok_def)

lemma lock_ok_lock:
  assumes ok: "lock_ok env (g_lockList st) ts" and i: "i < length ts" "ts ! i = thread ((info, acc) # rest) (Created h)"
    and c: "take_lock acc h st = Some (ret, st')" and m: "g_lockListLock st"
  shows "g_lockListLock st' \<and> lock_ok env (g_lockList st') (ts[i := thread ((info, acc) # rest) (Locked h)])"
proof -
  let ?t = "thread ((info, acc) # rest) (Locked h)"
  have ti: "handle (ts ! i) = h" "\<not> reads_under a (ts ! i)" "\<not> writes_under a (ts ! i)"
    and t: "handle ?t = h" "reads_under a ?t \<longleftrightarrow> h = Some a \<and> reads acc" "writes_under a ?t \<longleftrightarrow> h = Some a \<and> \<not> reads acc" for a
    using i(2) by (simp_all add: lock_thread_simps)
  have tok: "thread_ok env (names (g_lockList st)) ?t"
    using lock_ok_thread [OF ok i(1)] ti(1) t(1) unfolding i(2) by (rule thread_ok_phase)
  show ?thesis
  proof (cases h)
    case None
    then show ?thesis
      using c m lock_ok_same [OF ok tok, of i] ti t by (simp add: take_lock_NULL)
  next
    case (Some a)
    obtain n r w where n: "lock_at a (g_lockList st) = Some n" "fl_lock n = rwlock r w"
      "r = tally (reads_under a) ts" "of_bool w = tally (writes_under a) ts" "w \<Longrightarrow> r = 0"
      using lock_ok_node [OF ok i(1), of a] ti Some by metis
    let ?r = "if reads acc then r + 1 else r"
    have st': "\<not> w" "\<not> reads acc \<longrightarrow> r = 0" "st' = set_lock a (rwlock ?r (\<not> reads acc)) st"
      using c take_lock_Some [OF n(1,2), of acc] Some by (auto split: if_splits)
    have "?r = tally (reads_under a) (ts[i := ?t])" "of_bool (\<not> reads acc) = tally (writes_under a) (ts[i := ?t])"
      using tally_update [OF i(1), of "reads_under a" ?t] tally_update [OF i(1), of "writes_under a" ?t] n st'(1) ti t Some
      by (auto split: if_splits)
    then show ?thesis
      using lock_ok_set [OF ok tok, of i a ?r "\<not> reads acc"] st' ti t Some m by (simp add: set_lock_def)
  qed
qed

lemma lock_ok_access:
  assumes ok: "lock_ok env ns ts" and i: "i < length ts" "ts ! i = thread ((info, acc) # rest) (Locked h)"
  shows "lock_ok env ns (ts[i := thread ((info, acc) # rest) (Accessed h)])"
proof (rule lock_ok_same [OF ok])
  show "thread_ok env (names ns) (thread ((info, acc) # rest) (Accessed h))"
    using lock_ok_thread [OF ok i(1)] unfolding i(2) by (rule thread_ok_phase) (simp_all add: handle_def)
qed (simp_all add: i(2) lock_thread_simps)

lemma lock_ok_unlock:
  assumes ok: "lock_ok env (g_lockList st) ts" and i: "i < length ts" "ts ! i = thread ((info, acc) # rest) (Accessed h)"
    and c: "drop_lock acc h st = Some (ret, st')" and m: "g_lockListLock st"
  shows "g_lockListLock st' \<and> lock_ok env (g_lockList st') (ts[i := thread ((info, acc) # rest) (Unlocked h)])"
proof -
  let ?t = "thread ((info, acc) # rest) (Unlocked h)"
  have t: "handle ?t = h" "\<not> reads_under a ?t" "\<not> writes_under a ?t"
    and ti: "handle (ts ! i) = h" "reads_under a (ts ! i) \<longleftrightarrow> h = Some a \<and> reads acc"
      "writes_under a (ts ! i) \<longleftrightarrow> h = Some a \<and> \<not> reads acc" for a
    using i(2) by (simp_all add: lock_thread_simps)
  have tok: "thread_ok env (names (g_lockList st)) ?t"
    using lock_ok_thread [OF ok i(1)] ti(1) t(1) unfolding i(2) by (rule thread_ok_phase)
  show ?thesis
  proof (cases h)
    case None
    then show ?thesis
      using c m lock_ok_same [OF ok tok, of i] ti t by (simp add: take_lock_NULL)
  next
    case (Some a)
    obtain n r w where n: "lock_at a (g_lockList st) = Some n" "fl_lock n = rwlock r w"
      "r = tally (reads_under a) ts" "of_bool w = tally (writes_under a) ts" "w \<Longrightarrow> r = 0"
      using lock_ok_node [OF ok i(1), of a] ti Some by metis
    let ?r = "if w then r else r - 1"
    have st': "st' = set_lock a (rwlock ?r False) st"
      using c drop_lock_Some [OF n(1,2), of acc] Some by simp
    have up: "tally (reads_under a) (ts[i := ?t]) + of_bool (reads acc) = r"
      "tally (writes_under a) (ts[i := ?t]) + of_bool (\<not> reads acc) = of_bool w"
      using tally_update [OF i(1), of "reads_under a" ?t] tally_update [OF i(1), of "writes_under a" ?t] n(3,4) ti t Some
      by simp_all
    then have "?r = tally (reads_under a) (ts[i := ?t])" "of_bool False = tally (writes_under a) (ts[i := ?t])"
      using n(5) by (cases w; cases "reads acc"; simp)+
    then show ?thesis
      using lock_ok_set [OF ok tok, of i a ?r False] st' ti t Some m by (simp add: set_lock_def)
  qed
qed

lemma lock_ok_release:
  assumes ok: "lock_ok env (g_lockList st) ts" and i: "i < length ts" "ts ! i = thread ((info, acc) # rest) (Unlocked h)"
    and m: "g_lockListLock st"
  shows "g_lockListLock (HksStorageFileLockRelease h st)
    \<and> lock_ok env (g_lockList (HksStorageFileLockRelease h st)) (ts[i := thread rest Begun])"
proof -
  let ?t = "thread rest Begun" and ?ns = "g_lockList st"
  have t: "handle ?t = NULL" "\<not> reads_under a ?t" "\<not> writes_under a ?t"
    and ti: "handle (ts ! i) = h" "\<not> reads_under a (ts ! i)" "\<not> writes_under a (ts ! i)" for a
    using i(2) by (simp_all add: lock_thread_simps)
  have tok: "thread_ok env ks ?t" for ks by (simp add: thread_ok_def handle_def)
  show ?thesis
  proof (cases h)
    case None
    then show ?thesis using m lock_ok_same [OF ok tok, of i] ti t by (simp add: HksStorageFileLockRelease_def)
  next
    case (Some a)
    obtain n where n: "n \<in> set ?ns" "fl_addr n = a" "node_ok ts n"
      using lock_ok_node [OF ok i(1), of a] ti Some by metis
    have d: "distinct (map fst (names ?ns))" using ok by (simp add: lock_ok_def)
    have hold: "tally (holding a) (ts[i := ?t]) + 1 = unat (fl_ref n)"
      using tally_update [OF i(1), of "holding a" ?t] n ti t Some by (simp add: node_ok_def)
    have ref: "unat (fl_ref n - 1) = tally (holding a) (ts[i := ?t])"
      using hold n(3) by (simp add: node_ok_def unat_minus_one)
    have st': "HksStorageFileLockRelease h st = st\<lparr>g_lockList := snd (Release a ?ns)\<rparr>"
      using m n(1,2) Some by (auto simp: HksStorageFileLockRelease_def IsLockInList_iff)
    have "lock_ok env (snd (Release a ?ns)) (ts[i := ?t])"
    proof (cases "fl_ref n - 1 = 0")
      case False
      have "snd (Release a ?ns) = update_lock a (\<lambda>l. l\<lparr>fl_ref := fl_ref l - 1\<rparr>) ?ns"
        using Release_eq [OF d n(1)] n(2) False by simp
      moreover have "lock_ok env (update_lock a (\<lambda>l. l\<lparr>fl_ref := fl_ref l - 1\<rparr>) ?ns) (ts[i := ?t])"
      proof (rule lock_ok_update [OF ok tok])
        fix l assume l: "l \<in> set ?ns" "fl_addr l = a"
        then have "l = n" using same_node [OF d l(1) n(1)] n(2) by simp
        then show "node_ok (ts[i := ?t]) (l\<lparr>fl_ref := fl_ref l - 1\<rparr>)"
          using n(2,3) False ref ti t by (auto simp: node_ok_def tally_same)
      qed (use ti t Some in auto)
      ultimately show ?thesis by simp
    next
      case True
      let ?ms = "filter (\<lambda>m. fl_addr m \<noteq> a) ?ns"
      have nobody: "\<not> holding a u" if "u \<in> set (ts[i := ?t])" for u
        using ref True that by (simp add: tally_0)
      have "node_ok (ts[i := ?t]) l" if "l \<in> set ?ms" for l
        using that ok node_ok_other [of ts i l ?t] ti t Some by (auto simp: lock_ok_def)
      moreover have "thread_ok env (names ?ms) u" if u: "u \<in> set (ts[i := ?t])" for u
      proof (cases "u = ?t")
        case False
        then have "thread_ok env (names ?ns) u"
          using u ok set_update_subset_insert [of ts i ?t] by (auto simp: lock_ok_def)
        then show ?thesis using nobody [OF u] by (fastforce simp: thread_ok_def)
      qed (use tok in simp)
      moreover have "distinct (map fst (names ?ms))" "distinct (map snd (names ?ms))"
        using ok by (auto simp: lock_ok_def comp_def distinct_map_filter)
      moreover have "snd (Release a ?ns) = ?ms" using Release_eq [OF d n(1)] n(2) True by simp
      ultimately show ?thesis using ok by (simp add: lock_ok_def)
    qed
    then show ?thesis using m st' by simp
  qed
qed

lemma lock_inv_step: "lock_step env w w' \<Longrightarrow> lock_inv env w \<Longrightarrow> lock_inv env w'"
proof (induction rule: lock_step.induct)
  case (create i w info acc rest fresh result lock locks)
  then show ?case using lock_ok_create [of env "lw_locks w" "lw_threads w" i info acc rest fresh result lock locks]
    by (simp add: lock_inv_def)
next
  case (lock i w info acc rest lock ret locks)
  then show ?case using lock_ok_lock [of env "lw_locks w" "lw_threads w" i info acc rest lock ret locks]
    by (simp add: lock_inv_def)
next
  case (access i w info acc rest lock)
  then show ?case using lock_ok_access [of env _ "lw_threads w" i info acc rest lock] by (simp add: lock_inv_def)
next
  case (unlock i w info acc rest lock ret locks)
  then show ?case using lock_ok_unlock [of env "lw_locks w" "lw_threads w" i info acc rest lock ret locks]
    by (simp add: lock_inv_def)
next
  case (release i w info acc rest lock)
  then show ?case using lock_ok_release [of env "lw_locks w" "lw_threads w" i info acc rest lock]
    by (simp add: lock_inv_def)
qed

lemma lock_inv_start: "length todos < 2 ^ 32 \<Longrightarrow> lock_inv env (lock_start fs todos)"
  by (auto simp: lock_inv_def lock_start_def lock_ok_def OnLoad_def thread_ok_def handle_def)

lemma lock_reach_inv: "lock_reach env fs todos w \<Longrightarrow> length todos < 2 ^ 32 \<Longrightarrow> lock_inv env w"
  unfolding lock_reach_def
proof (induction rule: rtranclp_induct)
  case base
  then show ?case by (rule lock_inv_start)
next
  case (step w w')
  then show ?case using lock_inv_step by blast
qed

end
