(* ===== verification/Huks_File_Lock_Props.thy ===== *)
theory Huks_File_Lock_Props
  imports Huks_File_Lock_Laws
begin

text \<open>
  What the locks of files guarantee to threads: who can be at a file together, that no thread uses a lock
  that has been freed, and that every run ends with all accesses done and all locks freed.
\<close>

abbreviation file_of :: "storage_thread \<Rightarrow> HksStoreInfo" where
  "file_of t \<equiv> fst (hd (th_todo t))"

abbreviation access_of :: "storage_thread \<Rightarrow> access" where
  "access_of t \<equiv> snd (hd (th_todo t))"

section \<open>Exclusion\<close>

lemma at_file_counted:
  assumes ok: "lock_ok env ns ts" and i: "i < length ts" "at_file (ts ! i)" "handle (ts ! i) = Some a"
    and j: "j < length ts" "at_file (ts ! j)" "handle (ts ! j) = Some a" "i \<noteq> j"
  shows "reads (access_of (ts ! i))"
proof (rule ccontr)
  assume w: "\<not> reads (access_of (ts ! i))"
  obtain n r w where n: "r = tally (reads_under a) ts" "of_bool w = tally (writes_under a) ts" "w \<Longrightarrow> r = 0"
    using lock_ok_node [OF ok i(1,3)] by metis
  have i': "writes_under a (ts ! i)" using w i by (simp add: writes_under_def)
  then have "tally (writes_under a) ts \<noteq> 0" using i(1) nth_mem unfolding tally_0 by blast
  then have one: "w" "tally (writes_under a) ts = 1" "tally (reads_under a) ts = 0" using n by (cases w; simp)+
  then have "\<not> reads_under a (ts ! j)" using j(1) nth_mem unfolding tally_0 by blast
  then have "writes_under a (ts ! j)" using j by (simp add: writes_under_def reads_under_def)
  then show False using tally_two [OF i(1) j(1) j(4), of "writes_under a"] i' one by simp
qed

lemma lock_ok_name:
  assumes "lock_ok env ns ts" "t \<in> set ts" "handle t = Some a"
  shows "\<exists>q. (a, q) \<in> set (names ns) \<and> lock_name env (file_of t) = Inr q"
proof -
  have "thread_ok env (names ns) t" using assms(1,2) by (simp add: lock_ok_def)
  then show ?thesis using assms(3) by (simp only: thread_ok_def)
qed

lemma same_handle:
  assumes ok: "lock_ok env ns ts" and t: "t \<in> set ts" "handle t = Some a" and u: "u \<in> set ts" "handle u = Some b"
    and p: "lock_name env (file_of t) = lock_name env (file_of u)"
  shows "a = b"
proof -
  obtain q where q: "(a, q) \<in> set (names ns)" "lock_name env (file_of t) = Inr q"
    using lock_ok_name [OF ok t] by blast
  obtain q' where q': "(b, q') \<in> set (names ns)" "lock_name env (file_of u) = Inr q'"
    using lock_ok_name [OF ok u] by blast
  have inj: "inj_on snd (set (names ns))" using ok by (simp only: lock_ok_def distinct_map)
  have "q = q'" using q(2) q'(2) p by simp
  then have "(a, q) = (b, q')" by (intro inj_onD [OF inj _ q(1) q'(1)]) (simp only: snd_conv)
  then show ?thesis by (rule conjunct1 [OF iffD1 [OF prod.inject]])
qed

text \<open>
  C37: However threads interleave reading, writing and removing files, two threads that are both at the
  same file with its lock both read. They use the same lock, which is alive and counts both of
  them. (A thread for which the lock could not be created goes on without one.)
\<close>

theorem locks_exclude:
  assumes "lock_reach env fs todos w" "length todos < 2 ^ 32"
    and "i < length (lw_threads w)" "j < length (lw_threads w)" "i \<noteq> j"
    and "at_file (lw_threads w ! i)" "handle (lw_threads w ! i) = Some a"
    and "at_file (lw_threads w ! j)" "handle (lw_threads w ! j) = Some b"
    and "lock_name env (file_of (lw_threads w ! i)) = lock_name env (file_of (lw_threads w ! j))"
  shows "a = b \<and> reads (access_of (lw_threads w ! i)) \<and> reads (access_of (lw_threads w ! j))
    \<and> (\<exists>n. lock_at a (g_lockList (lw_locks w)) = Some n \<and> 2 \<le> fl_ref n)"
proof -
  let ?ts = "lw_threads w" and ?ns = "g_lockList (lw_locks w)"
  have ok: "lock_ok env ?ns ?ts" using lock_reach_inv [OF assms(1,2)] by (simp add: lock_inv_def)
  have ab: "a = b" using same_handle [OF ok _ assms(7) _ assms(9) assms(10)] assms(3,4) by simp
  obtain n where n: "lock_at a ?ns = Some n" "fl_addr n = a" "node_ok ?ts n"
    using lock_ok_node [OF ok assms(3,7)] by metis
  have "2 \<le> tally (holding a) ?ts"
    using tally_two [OF assms(3-5), of "holding a"] assms(7,9) ab by simp
  then have "2 \<le> fl_ref n" using n(2,3) by (simp add: node_ok_def word_le_nat_alt)
  then show ?thesis
    using ab n(1) at_file_counted [OF ok assms(3,6,7) assms(4,8)] assms(9) assms(5)
      at_file_counted [OF ok assms(4,8,9) assms(3,6)] assms(7) by simp
qed

section \<open>Progress\<close>

fun phase_number :: "phase \<Rightarrow> nat" where
  "phase_number Begun = 0"
| "phase_number (Created h) = 1"
| "phase_number (Locked h) = 2"
| "phase_number (Accessed h) = 3"
| "phase_number (Unlocked h) = 4"

fun thread_left :: "storage_thread \<Rightarrow> nat" where
  "thread_left t = 5 * length (th_todo t) - phase_number (th_phase t)"

definition steps_left :: "lock_world \<Rightarrow> nat" where
  "steps_left w = sum_list (map thread_left (lw_threads w))"

lemma sum_list_step:
  "i < length xs \<Longrightarrow> f (xs ! i) = Suc (f y) \<Longrightarrow> sum_list (map f xs) = Suc (sum_list (map f (xs[i := y])))" for f :: "'a \<Rightarrow> nat"
proof (induction xs arbitrary: i)
  case (Cons x xs)
  then show ?case by (cases i) auto
qed simp

lemma step_left: "lock_step env w w' \<Longrightarrow> steps_left w = Suc (steps_left w')"
  by (induction rule: lock_step.induct) (simp_all add: steps_left_def sum_list_step)

lemma run_left: "(lock_step env ^^ n) w w' \<Longrightarrow> steps_left w = n + steps_left w'"
proof (induction n arbitrary: w')
  case (Suc n)
  then obtain v where "(lock_step env ^^ n) w v" "lock_step env v w'" by auto
  then show ?case using Suc.IH [of v] step_left by fastforce
qed simp

lemma left_start: "steps_left (lock_start fs todos) = 5 * sum_list (map length todos)"
  by (induction todos) (simp_all add: steps_left_def lock_start_def comp_def algebra_simps)

definition finished :: "lock_world \<Rightarrow> bool" where
  "finished w \<longleftrightarrow> (\<forall>t\<in>set (lw_threads w). th_todo t = [])"

lemma lock_free:
  assumes ok: "lock_ok env ns ts" and i: "i < length ts" "handle (ts ! i) = Some a"
    and none: "\<forall>t\<in>set ts. \<not> at_file t"
  obtains n where "lock_at a ns = Some n" "fl_lock n = rwlock 0 False"
proof -
  obtain n r w where n: "lock_at a ns = Some n" "fl_lock n = rwlock r w"
      "r = tally (reads_under a) ts" "of_bool w = tally (writes_under a) ts"
    using lock_ok_node [OF ok i] by metis
  have "tally (reads_under a) ts = 0" "tally (writes_under a) ts = 0"
    using none by (simp_all add: tally_0 reads_under_def writes_under_def)
  then show ?thesis using n that [of n] by (cases w) simp_all
qed

lemma can_unlock:
  assumes ok: "lock_ok env (g_lockList st) ts" and i: "i < length ts" "handle (ts ! i) = h"
  shows "\<exists>ret st'. drop_lock acc h st = Some (ret, st')"
proof (cases h)
  case (Some a)
  obtain n r w where "lock_at a (g_lockList st) = Some n" "fl_lock n = rwlock r w"
    using lock_ok_node [OF ok i(1)] i(2) Some by metis
  then show ?thesis using drop_lock_Some Some by blast
qed (simp add: take_lock_NULL)

lemma thread_todo:
  assumes "lock_inv env w" "t \<in> set (lw_threads w)" "th_phase t \<noteq> Begun \<or> th_todo t \<noteq> []"
  obtains info acc rest p where "t = thread ((info, acc) # rest) p"
proof -
  have "th_todo t \<noteq> []" using assms by (auto simp: lock_inv_def lock_ok_def thread_ok_def)
  then show ?thesis using that by (cases t; cases "th_todo t") auto
qed

lemma can_step:
  assumes inv: "lock_inv env w" and not: "\<not> finished w"
  shows "\<exists>w'. lock_step env w w'"
proof -
  let ?ts = "lw_threads w" and ?ns = "g_lockList (lw_locks w)"
  have ok: "lock_ok env ?ns ?ts" using inv by (simp add: lock_inv_def)
  have go: "\<exists>w'. lock_step env w w'" if i: "i < length ?ts" "?ts ! i = thread ((info, acc) # rest) p"
    and p: "\<forall>h. p \<noteq> Created h" for i info acc rest p
  proof (cases p)
    case Begun
    obtain fresh where "fresh \<notin> fl_addr ` set ?ns" 
      using ex_new_if_finite [OF infinite_UNIV_nat, of "fl_addr ` set ?ns"] by auto
    moreover obtain lock locks where "CreateStorageFileLock env 0 fresh info (lw_locks w) = (lock, locks)"
      by (rule prod.exhaust)
    moreover have "?ts ! i = thread ((info, acc) # rest) Begun" using i(2) Begun by simp
    ultimately show ?thesis using lock_step.create [OF i(1)] by blast
  next
    case (Created h)
    then show ?thesis using p by simp
  next
    case (Locked h)
    then show ?thesis using lock_step.access i by blast
  next
    case (Accessed h)
    then have "handle (?ts ! i) = h" using i(2) by (simp add: handle_def)
    then obtain ret st' where "drop_lock acc h (lw_locks w) = Some (ret, st')"
      using can_unlock [OF ok i(1)] by blast
    moreover have "?ts ! i = thread ((info, acc) # rest) (Accessed h)" using i(2) Accessed by simp
    ultimately show ?thesis using lock_step.unlock [OF i(1)] by blast
  next
    case (Unlocked h)
    then show ?thesis using lock_step.release i by blast
  qed
  show ?thesis
  proof (cases "\<exists>t\<in>set ?ts. th_todo t \<noteq> [] \<and> (\<forall>h. th_phase t \<noteq> Created h)")
    case True
    then obtain i where i: "i < length ?ts" "th_todo (?ts ! i) \<noteq> []" "\<forall>h. th_phase (?ts ! i) \<noteq> Created h"
      by (metis in_set_conv_nth)
    then obtain info acc rest p where "?ts ! i = thread ((info, acc) # rest) p"
      using thread_todo [OF inv] nth_mem by metis
    then show ?thesis using go i by simp
  next
    case False
    have none: "\<forall>t\<in>set ?ts. \<not> at_file t"
      using False ok by (fastforce simp: at_file_def lock_ok_def thread_ok_def split: phase.splits)
    obtain i where i: "i < length ?ts" "th_todo (?ts ! i) \<noteq> []"
      using not by (auto simp: finished_def in_set_conv_nth)
    then obtain h where h: "th_phase (?ts ! i) = Created h" using False nth_mem by blast
    obtain info acc rest where t: "?ts ! i = thread ((info, acc) # rest) (Created h)"
      using thread_todo [OF inv, of "?ts ! i"] i h nth_mem by (metis storage_thread.select_convs(2))
    have "\<exists>ret st'. take_lock acc h (lw_locks w) = Some (ret, st')"
    proof (cases h)
      case (Some a)
      then have "handle (?ts ! i) = Some a" using t by (simp add: handle_def)
      then obtain n where "lock_at a ?ns = Some n" "fl_lock n = rwlock 0 False"
        using lock_free [OF ok i(1) _ none] by blast
      then show ?thesis using take_lock_Some [of a "lw_locks w" n 0 False acc] Some by simp
    qed (simp add: take_lock_NULL)
    then show ?thesis using lock_step.lock i(1) t by blast
  qed
qed

lemma finished_free:
  assumes "lock_inv env w" "finished w"
  shows "g_lockList (lw_locks w) = []"
proof -
  have "\<not> holding a t" if "t \<in> set (lw_threads w)" for a t
    using assms that by (auto simp: lock_inv_def lock_ok_def thread_ok_def finished_def handle_def)
  then have "tally (holding a) (lw_threads w) = 0" for a by (simp add: tally_0)
  then have "\<not> node_ok (lw_threads w) n" for n by (simp add: node_ok_def unat_eq_0)
  then show ?thesis using assms(1) by (cases "g_lockList (lw_locks w)") (auto simp: lock_inv_def lock_ok_def)
qed

text \<open>
  C38: No interleaving of the threads runs forever or gets stuck: a run has five steps for each access, and
  while an access is left some thread can go on. When none is left all locks have been freed.
\<close>

theorem every_run_ends:
  assumes "(lock_step env ^^ n) (lock_start fs todos) w" "length todos < 2 ^ 32"
  shows "n \<le> 5 * sum_list (map length todos)
    \<and> (finished w \<longrightarrow> n = 5 * sum_list (map length todos) \<and> g_lockList (lw_locks w) = [])
    \<and> (\<not> finished w \<longrightarrow> (\<exists>w'. lock_step env w w'))"
proof -
  have "lock_reach env fs todos w"
    using assms(1) by (auto simp: lock_reach_def rtranclp_power)
  then have inv: "lock_inv env w" using lock_reach_inv assms(2) by blast
  have n: "5 * sum_list (map length todos) = n + steps_left w"
    using run_left [OF assms(1)] left_start [of fs todos] by simp
  have "steps_left w = 0" if "finished w"
    using that by (simp add: steps_left_def finished_def sum_list_eq_0_iff)
  then show ?thesis using n finished_free [OF inv] can_step [OF inv] by simp
qed

section \<open>Two readers of one file\<close>

definition readers_env :: storage_env where
  "readers_env = \<lparr>se_os = \<lparr>os_errno = \<lambda>_. 0, os_count = \<lambda>n. n, os_dir_size = 0\<rparr>, se_alloc = \<lambda>_. True,
     se_transfer = \<lambda>_ _ fs. fs, se_random = \<lambda>_ _. Inr [], se_other = \<lambda>fs. fs\<rparr>"

definition readers_todo :: "(HksStoreInfo \<times> access) list" where
  "readers_todo = [(\<lparr>si_path = [47, 100], si_fileName = [97]\<rparr>, ReadFile \<lparr>blob_size = 0, blob_data = NULL\<rparr>)]"

definition readers_files :: file_system where
  "readers_files = \<lparr>fs_files = [], fs_dirs = [], fs_calls = 0\<rparr>"

definition readers_world :: "nat \<Rightarrow> u32 \<Rightarrow> phase list \<Rightarrow> lock_world" where
  "readers_world r ref ps = \<lparr>lw_locks = \<lparr>g_lockList = [\<lparr>fl_addr = 8, fl_path = [47, 100, 47, 97],
       fl_lock = rwlock r False, fl_ref = ref\<rparr>], g_lockListLock = True\<rparr>,
     lw_files = readers_files, lw_threads = map (thread readers_todo) ps\<rparr>"

lemma readers_name: "lock_name readers_env (fst (hd readers_todo)) = Inr [47, 100, 47, 97]"
  by (simp add: lock_name_def readers_env_def readers_todo_def HksMalloc_def HksGetFileName_def GetFileName_def
      strncpy_s_def strncat_s_def ends_slash_def)

lemma readers_first:
  "lock_step readers_env (lock_start readers_files [readers_todo, readers_todo]) (readers_world 0 1 [Created (Some 8), Begun])"
proof -
  have "CreateStorageFileLock readers_env 0 8 (fst (hd readers_todo)) (OnLoad True)
      = (Some 8, lw_locks (readers_world 0 1 []))"
    unfolding CreateStorageFileLock_def readers_name
    by (simp add: readers_world_def readers_env_def OnLoad_def HksStorageFileLockCreate_def AllocFileLock_def
        HksLockCreate_def HksRwlockCreate_def HksMalloc_def AppendFileLock_def)
  then show ?thesis
    using lock_step.create [of 0 "lock_start readers_files [readers_todo, readers_todo]" _ _ _ 8 readers_env 0]
    by (simp add: lock_start_def readers_world_def readers_todo_def OnLoad_def)
qed

lemma readers_second:
  "lock_step readers_env (readers_world 0 1 [Created (Some 8), Begun]) (readers_world 0 2 [Created (Some 8), Created (Some 8)])"
proof -
  have "CreateStorageFileLock readers_env 0 9 (fst (hd readers_todo)) (lw_locks (readers_world 0 1 []))
      = (Some 8, lw_locks (readers_world 0 2 []))"
    unfolding CreateStorageFileLock_def readers_name
    by (simp add: readers_world_def HksStorageFileLockCreate_def AddRef_def update_lock_def)
  then show ?thesis
    using lock_step.create [of 1 "readers_world 0 1 [Created (Some 8), Begun]" _ _ _ 9 readers_env 0]
    by (simp add: readers_world_def readers_todo_def)
qed

lemma readers_lock:
  assumes "i < length ps" "ps ! i = Created (Some 8)"
  shows "lock_step readers_env (readers_world r n ps) (readers_world (r + 1) n (ps[i := Locked (Some 8)]))"
proof -
  have "take_lock (snd (hd readers_todo)) (Some 8) (lw_locks (readers_world r n ps))
      = Some (0, lw_locks (readers_world (r + 1) n ps))"
    using take_lock_Some [of 8 "lw_locks (readers_world r n ps)" _ r False "snd (hd readers_todo)"]
    by (simp add: readers_world_def set_lock_def update_lock_def readers_todo_def)
  then show ?thesis
    using lock_step.lock [of i "readers_world r n ps" _ _ _ "Some 8" 0 _ readers_env] assms
    by (simp add: readers_world_def readers_todo_def map_update)
qed

lemma readers_reach:
  "lock_reach readers_env readers_files [readers_todo, readers_todo] (readers_world 2 2 [Locked (Some 8), Locked (Some 8)])"
  using readers_first readers_second readers_lock [of 0 "[Created (Some 8), Created (Some 8)]" 0 2]
    readers_lock [of 1 "[Locked (Some 8), Created (Some 8)]" 1 2]
  unfolding lock_reach_def by (simp add: numeral_2_eq_2)

theorem locks_exclude_witness:
  "\<exists>n. lock_at 8 (g_lockList (lw_locks (readers_world 2 2 [Locked (Some 8), Locked (Some 8)]))) = Some n \<and> 2 \<le> fl_ref n"
  using locks_exclude [OF readers_reach, of 0 1 8 8]
  by (simp add: readers_world_def at_file_def handle_def)

theorem every_run_ends_witness:
  "\<exists>w'. lock_step readers_env (lock_start readers_files [readers_todo, readers_todo]) w'"
  using every_run_ends [of 0 readers_env readers_files "[readers_todo, readers_todo]"]
  by (simp add: finished_def lock_start_def readers_todo_def)

end
