(* ===== verification/Huks_Client_Check.thy ===== *)
theory Huks_Client_Check
  imports Huks_Use_Check Huks_Keyblob Huks_Ipc_Unpack
begin

text \<open>
  \<open>huks_service/main/core/src/hks_client_check.c\<close>: what the service asks of the arguments of a request before
  it does anything, and of the user authentication that a new key asks for. The sizes of the process name and
  of the alias are read once the pointers have passed their check.
\<close>

abbreviation (input) HKS_MAX_RANDOM_LEN :: u32 where "HKS_MAX_RANDOM_LEN \<equiv> 1024"
abbreviation (input) MAX_AUTH_TIMEOUT_SECOND :: u32 where "MAX_AUTH_TIMEOUT_SECOND \<equiv> 600"

section \<open>Names, aliases, data\<close>

definition CheckProcessNameAndKeyAliasSize :: "u32 \<Rightarrow> u32 \<Rightarrow> rc" where
  "CheckProcessNameAndKeyAliasSize processNameSize keyAliasSize =
     (if processNameSize > HKS_MAX_PROCESS_NAME_LEN then HKS_ERROR_INVALID_ARGUMENT
      else if keyAliasSize > HKS_MAX_KEY_ALIAS_LEN then HKS_ERROR_INVALID_ARGUMENT
      else HKS_SUCCESS)"

definition HksCheckProcessNameAndKeyAlias :: "HksBlob ptr \<Rightarrow> HksBlob ptr \<Rightarrow> rc" where
  "HksCheckProcessNameAndKeyAlias processName keyAlias =
     if_not_succ_return (HksCheckBlob2 processName keyAlias) HKS_ERROR_INVALID_ARGUMENT
       (CheckProcessNameAndKeyAliasSize (blob_size (the processName)) (blob_size (the keyAlias)))"

definition HksCheckGenAndImportKeyParams ::
    "HksBlob ptr \<Rightarrow> HksBlob ptr \<Rightarrow> HksParamSet ptr \<Rightarrow> HksBlob ptr \<Rightarrow> rc" where
  "HksCheckGenAndImportKeyParams processName keyAlias paramSetIn key =
     (let ret = HksCheckBlob3AndParamSet processName keyAlias key paramSetIn in
      if_not_succ_return ret ret
        (CheckProcessNameAndKeyAliasSize (blob_size (the processName)) (blob_size (the keyAlias))))"

definition HksCheckImportWrappedKeyParams ::
    "HksBlob ptr \<Rightarrow> HksBlob ptr \<Rightarrow> HksBlob ptr \<Rightarrow> HksParamSet ptr \<Rightarrow> HksBlob ptr \<Rightarrow> rc" where
  "HksCheckImportWrappedKeyParams processName keyAlias wrappingKeyAlias paramSetIn wrappedKeyData =
     (let ret = HksCheckBlob4AndParamSet processName keyAlias wrappingKeyAlias wrappedKeyData paramSetIn in
      if_not_succ_return ret ret
     (let ret = CheckProcessNameAndKeyAliasSize (blob_size (the processName)) (blob_size (the keyAlias)) in
      if_not_succ_return ret ret
        (CheckProcessNameAndKeyAliasSize (blob_size (the processName)) (blob_size (the wrappingKeyAlias)))))"

definition HksCheckAllParams ::
    "HksBlob ptr \<Rightarrow> HksBlob ptr \<Rightarrow> HksParamSet ptr \<Rightarrow> HksBlob ptr \<Rightarrow> HksBlob ptr \<Rightarrow> rc" where
  "HksCheckAllParams processName keyAlias paramSet data1 data2 =
     (let ret = HksCheckBlob4AndParamSet processName keyAlias data1 data2 paramSet in
      if_not_succ_return ret ret
        (CheckProcessNameAndKeyAliasSize (blob_size (the processName)) (blob_size (the keyAlias))))"

definition HksCheckServiceInitParams :: "HksBlob ptr \<Rightarrow> HksBlob ptr \<Rightarrow> HksParamSet ptr \<Rightarrow> rc" where
  "HksCheckServiceInitParams processName keyAlias paramSet =
     (let ret = HksCheckBlob2AndParamSet processName keyAlias paramSet in
      if_not_succ_return ret ret
        (CheckProcessNameAndKeyAliasSize (blob_size (the processName)) (blob_size (the keyAlias))))"

definition HksCheckGetKeyParamSetParams :: "HksBlob ptr \<Rightarrow> HksBlob ptr \<Rightarrow> HksParamSet ptr \<Rightarrow> rc" where
  "HksCheckGetKeyParamSetParams processName keyAlias paramSet =
     if_not_succ_return (HksCheckProcessNameAndKeyAlias processName keyAlias) HKS_ERROR_INVALID_ARGUMENT
       (case paramSet of NULL \<Rightarrow> HKS_ERROR_INVALID_ARGUMENT
        | Some ps \<Rightarrow> if paramSetSize ps = 0 then HKS_ERROR_INVALID_ARGUMENT else HKS_SUCCESS)"

definition HksCheckExportPublicKeyParams :: "HksBlob ptr \<Rightarrow> HksBlob ptr \<Rightarrow> HksBlob ptr \<Rightarrow> rc" where
  "HksCheckExportPublicKeyParams processName keyAlias key =
     if_not_succ_return (HksCheckBlob3 processName keyAlias key) HKS_ERROR_INVALID_ARGUMENT
       (CheckProcessNameAndKeyAliasSize (blob_size (the processName)) (blob_size (the keyAlias)))"

definition HksCheckDeriveKeyParams :: "HksBlob ptr \<Rightarrow> HksParamSet ptr \<Rightarrow> HksBlob ptr \<Rightarrow> HksBlob ptr \<Rightarrow> rc" where
  "HksCheckDeriveKeyParams processName paramSet mainKey derivedKey =
     HksCheckGenAndImportKeyParams processName mainKey paramSet derivedKey"

text \<open>The loop over the entries of the caller's list, whose count \<open>listCount\<close> is the length of.\<close>

fun check_key_infos :: "HksKeyInfo list \<Rightarrow> rc" where
  "check_key_infos [] = HKS_SUCCESS"
| "check_key_infos (i # is) =
     (if CheckBlob (Some (ki_alias i)) \<noteq> HKS_SUCCESS then HKS_ERROR_INVALID_ARGUMENT
      else case ki_paramSet i of NULL \<Rightarrow> HKS_ERROR_INVALID_ARGUMENT
      | Some ps \<Rightarrow> if paramSetSize ps = 0 then HKS_ERROR_INVALID_ARGUMENT else check_key_infos is)"

definition HksCheckGetKeyInfoListParams :: "HksBlob ptr \<Rightarrow> HksKeyInfo list ptr \<Rightarrow> nat ptr \<Rightarrow> rc" where
  "HksCheckGetKeyInfoListParams processName keyInfoList listCount =
     if_not_succ_return (CheckBlob processName) HKS_ERROR_INVALID_ARGUMENT
    (if blob_size (the processName) > HKS_MAX_PROCESS_NAME_LEN then HKS_ERROR_INVALID_ARGUMENT
     else case (keyInfoList, listCount) of
       (Some infos, Some n) \<Rightarrow> check_key_infos (take n infos)
     | _ \<Rightarrow> HKS_ERROR_INVALID_ARGUMENT)"

definition HksCheckGenerateRandomParams :: "HksBlob ptr \<Rightarrow> HksBlob ptr \<Rightarrow> rc" where
  "HksCheckGenerateRandomParams processName random =
     if_not_succ_return (HksCheckBlob2 processName random) HKS_ERROR_INVALID_ARGUMENT
    (if blob_size (the processName) > HKS_MAX_PROCESS_NAME_LEN then HKS_ERROR_INVALID_ARGUMENT
     else if blob_size (the random) > HKS_MAX_RANDOM_LEN then HKS_ERROR_INVALID_ARGUMENT
     else HKS_SUCCESS)"

definition HksCheckAttestKeyParams :: "HksBlob ptr \<Rightarrow> HksBlob ptr \<Rightarrow> HksParamSet ptr \<Rightarrow> HksBlob ptr \<Rightarrow> rc" where
  "HksCheckAttestKeyParams processName keyAlias paramSet certChain =
     HksCheckGenAndImportKeyParams processName keyAlias paramSet certChain"

definition HksCheckListAliasesParam :: "HksBlob ptr \<Rightarrow> rc" where
  "HksCheckListAliasesParam processName =
     if_not_succ_return (CheckBlob processName) HKS_ERROR_INVALID_ARGUMENT
    (if blob_size (the processName) > HKS_MAX_PROCESS_NAME_LEN then HKS_ERROR_INVALID_ARGUMENT
     else HKS_SUCCESS)"

section \<open>User authentication of a new key\<close>

definition CheckAuthAccessLevel :: "HksParamSet ptr \<Rightarrow> rc" where
  "CheckAuthAccessLevel paramSet =
     try_or (HksGetParam paramSet HKS_TAG_KEY_AUTH_ACCESS_TYPE) HKS_ERROR_CHECK_GET_ACCESS_TYPE_FAILED
       (\<lambda>authAccess.
         if uint32Param (p_val authAccess) < HKS_AUTH_ACCESS_INVALID_CLEAR_PASSWORD
         then HKS_ERROR_INVALID_ARGUMENT else HKS_SUCCESS)"

text \<open>The two halves of \<open>CheckUserAuthParamsValidity\<close> after the tables: the time limit, the secure signature.\<close>

definition check_auth_timeout :: "HksParamSet ptr \<Rightarrow> u32 \<Rightarrow> rc" where
  "check_auth_timeout paramSet challengeType =
     (if challengeType = HKS_CHALLENGE_TYPE_NONE then
        (case HksGetParam paramSet HKS_TAG_AUTH_TIMEOUT of
           Inr authTimeout \<Rightarrow>
             if uint32Param (p_val authTimeout) > MAX_AUTH_TIMEOUT_SECOND
               \<or> uint32Param (p_val authTimeout) = 0
             then HKS_ERROR_INVALID_TIME_OUT else HKS_SUCCESS
         | Inl _ \<Rightarrow> HKS_SUCCESS)
      else HKS_SUCCESS)"

definition check_secure_sign :: "HksParamSet ptr \<Rightarrow> rc" where
  "check_secure_sign paramSet =
     (case HksGetParam paramSet HKS_TAG_KEY_SECURE_SIGN_TYPE of
        Inl _ \<Rightarrow> HKS_SUCCESS
      | Inr secureSignType \<Rightarrow>
          if_not_succ_return (HksCheckSecureSignParams (uint32Param (p_val secureSignType)))
            HKS_ERROR_INVALID_SECURE_SIGN_TYPE
         (case HksGetParam paramSet HKS_TAG_PURPOSE of
            Inl _ \<Rightarrow> HKS_ERROR_INVALID_ARGUMENT
          | Inr purposeParam \<Rightarrow>
              if uint32Param (p_val purposeParam) AND HKS_KEY_PURPOSE_SIGN = 0 then HKS_ERROR_INVALID_ARGUMENT
              else if_not_succ_return (CheckAuthAccessLevel paramSet) HKS_ERROR_INVALID_ARGUMENT HKS_SUCCESS))"

definition CheckUserAuthParamsValidity :: "HksParamSet ptr \<Rightarrow> u32 \<Rightarrow> u32 \<Rightarrow> u32 \<Rightarrow> rc" where
  "CheckUserAuthParamsValidity paramSet userAuthType authAccessType challengeType =
     (let ret = HksCheckUserAuthParams userAuthType authAccessType challengeType in
      if_not_succ_return ret ret
     (let ret = check_auth_timeout paramSet challengeType in
      if_not_succ_return ret ret (check_secure_sign paramSet)))"

text \<open>The authentication type and the access type.\<close>

definition HksCheckAndGetUserAuthInfo :: "HksParamSet ptr \<Rightarrow> (u32 \<times> u32) res" where
  "HksCheckAndGetUserAuthInfo paramSet =
     (case paramSet of NULL \<Rightarrow> Inl HKS_ERROR_NOT_SUPPORTED
      | Some _ \<Rightarrow>
          if (case HksGetParam paramSet HKS_TAG_NO_AUTH_REQUIRED of
                Inr noRequireAuth \<Rightarrow> boolParam (p_val noRequireAuth) | Inl _ \<Rightarrow> False)
          then Inl HKS_ERROR_NOT_SUPPORTED
          else
            try_or (HksGetParam paramSet HKS_TAG_USER_AUTH_TYPE) (Inl HKS_ERROR_NOT_SUPPORTED)
              (\<lambda>userAuthTypeParam.
            try_or (HksGetParam paramSet HKS_TAG_KEY_AUTH_ACCESS_TYPE)
              (Inl HKS_ERROR_CHECK_GET_ACCESS_TYPE_FAILED) (\<lambda>accessTypeParam.
            try_or (HksGetParam paramSet HKS_TAG_CHALLENGE_TYPE)
              (Inl HKS_ERROR_CHECK_GET_CHALLENGE_TYPE_FAILED) (\<lambda>challengeTypeParam.
            let ret = CheckUserAuthParamsValidity paramSet (uint32Param (p_val userAuthTypeParam))
              (uint32Param (p_val accessTypeParam)) (uint32Param (p_val challengeTypeParam)) in
            if_not_succ_return ret (Inl ret)
              (Inr (uint32Param (p_val userAuthTypeParam), uint32Param (p_val accessTypeParam)))))))"

definition HksCheckIsAllowedWrap :: "HksParamSet ptr \<Rightarrow> bool" where
  "HksCheckIsAllowedWrap paramSet =
     (case HksGetParam paramSet HKS_TAG_IS_ALLOWED_WRAP of
        Inr isAllowedWrap \<Rightarrow> boolParam (p_val isAllowedWrap)
      | Inl _ \<Rightarrow> False)"

definition HksCheckUserAuthKeyPurposeValidity :: "HksParamSet ptr \<Rightarrow> rc" where
  "HksCheckUserAuthKeyPurposeValidity paramSet =
     (case paramSet of NULL \<Rightarrow> HKS_ERROR_NULL_POINTER
      | Some ps \<Rightarrow>
          if HksCheckIsAllowedWrap paramSet then HKS_ERROR_INVALID_ARGUMENT
          else try_or (HksGetParam paramSet HKS_TAG_KEY_AUTH_PURPOSE) HKS_SUCCESS (\<lambda>userAuthKeyPurposeParam.
            try_rc (HksGetParam paramSet HKS_TAG_PURPOSE) (\<lambda>keyPurposeParam.
              let keyPurpose = uint32Param (p_val keyPurposeParam);
                  authPurpose = uint32Param (p_val userAuthKeyPurposeParam) in
              if authPurpose = 0 \<or> authPurpose OR keyPurpose \<noteq> keyPurpose then HKS_ERROR_INVALID_PURPOSE
              else
                let ret = HksCheckUserAuthKeyInfoValidity ps in
                if_not_succ_return ret ret HKS_SUCCESS)))"

end
