(* ===== verification/Huks_Config_Parser.thy ===== *)
theory Huks_Config_Parser
  imports Huks_Storage_Utils Huks_Use_Check
begin

text \<open>
  \<open>huks_service/main/upgrade/file_transfer/src/hks_config_parser.c\<close>: which keys of which process move to which
  storage level when the key store is upgraded. The four lists are macros of the build; the kind of an access
  token and the name of a bundle come from the access token service (\<open>hks_at_api_wrap.cpp\<close>). Strings are
  bytes without the final zero.
\<close>

record HksFileTransferHapConfig =
  hc_hapName :: bytes
  hc_needDe :: bool
  hc_needFrontUser :: bool

record HksFileTransferSystemAbilityConfig =
  sc_uid :: u32
  sc_needDe :: bool
  sc_needFrontUser :: bool

record HksUpgradeFileTransferInfo =
  ti_skipTransfer :: bool
  ti_needDe :: bool
  ti_needFrontUser :: bool
  ti_uid :: u32
  ti_userId :: u32

record config_env =
  SA_UPGRADE_CFG_LIST :: "HksFileTransferSystemAbilityConfig list"
  HAP_UPGRADE_CFG_LIST :: "HksFileTransferHapConfig list"
  SA_SKIP_UPGRADE_CFG_LIST :: "u32 list"
  HAP_SKIP_UPGRADE_CFG_LIST :: "bytes list"
  HksGetAtType :: "u64 \<Rightarrow> u32 res"
  HksGetHapNameFromAccessToken :: "u32 \<Rightarrow> bytes res"

abbreviation (input) HKS_TOKEN_HAP :: u32 where "HKS_TOKEN_HAP \<equiv> 0"

definition RDB_DE_PREFIX :: bytes where "RDB_DE_PREFIX = chars ''DistributedDataRdb''"
definition RDB_ROOT_DE :: bytes where "RDB_ROOT_DE = chars ''distributeddb_client_root_key''"

definition HksIsRdbDeKey :: "bytes \<Rightarrow> bool" where
  "HksIsRdbDeKey al \<longleftrightarrow>
     length al \<ge> length RDB_DE_PREFIX \<and> \<not> HksMemCmp al RDB_DE_PREFIX (length RDB_DE_PREFIX)
   \<or> length al = length RDB_ROOT_DE \<and> \<not> HksMemCmp al RDB_ROOT_DE (length RDB_ROOT_DE)"

text \<open>
  The loop over the parameters of a key: the user id, the access token id and the user, each once found. A
  process name that has not four bytes ends it.
\<close>

fun owner_loop :: "HksParam list \<Rightarrow> u32 option \<Rightarrow> u64 option \<Rightarrow> u32 option \<Rightarrow> (u32 \<times> u64 \<times> u32) res" where
  "owner_loop [] uid token user =
     (case (uid, token, user) of
        (Some i, Some t, Some u) \<Rightarrow> Inr (i, t, u) | _ \<Rightarrow> Inl HKS_ERROR_INVALID_KEY_FILE)"
| "owner_loop (p # ps) uid token user =
     (if p_tag p = HKS_TAG_PROCESS_NAME then
        (if blob_size (blobParam (p_val p)) \<noteq> 4 then owner_loop [] uid token user
         else owner_loop ps (Some (read_u32 (blob_bytes (blobParam (p_val p))) 0)) token user)
      else if p_tag p = HKS_TAG_ACCESS_TOKEN_ID then owner_loop ps uid (Some (uint64Param (p_val p))) user
      else if p_tag p = HKS_TAG_SPECIFIC_USER_ID then owner_loop ps uid token (Some (uint32Param (p_val p)))
      else if p_tag p = HKS_TAG_USER_ID \<and> user = None then
        owner_loop ps uid token (Some (uint32Param (p_val p)))
      else if uid \<noteq> None \<and> token \<noteq> None \<and> user \<noteq> None then owner_loop [] uid token user
      else owner_loop ps uid token user)"

definition ParseOwnerIdFromParamSet :: "HksParamSet \<Rightarrow> (u32 \<times> u64 \<times> u32) res" where
  "ParseOwnerIdFromParamSet paramSet = owner_loop (params paramSet) None None None"

definition ParseOwnerIdFromFileContent :: "allocator \<Rightarrow> HksBlob \<Rightarrow> (u32 \<times> u64 \<times> u32) res" where
  "ParseOwnerIdFromFileContent alloc fileContent =
     try_res (HksGetParamSet alloc (Some (param_set_at (blob_bytes fileContent))) (blob_size fileContent))
       ParseOwnerIdFromParamSet"

definition InitDefaultStrategy ::
    "bytes \<Rightarrow> HksUpgradeFileTransferInfo \<Rightarrow> HksUpgradeFileTransferInfo" where
  "InitDefaultStrategy al info =
     (let info = info\<lparr>ti_skipTransfer := False, ti_needDe := False, ti_needFrontUser := False\<rparr> in
      if HksIsRdbDeKey al then info\<lparr>ti_needDe := True\<rparr> else info)"

definition MatchSaConfig ::
    "config_env \<Rightarrow> bytes \<Rightarrow> u32 \<Rightarrow> u32 \<Rightarrow> HksUpgradeFileTransferInfo \<Rightarrow> HksUpgradeFileTransferInfo" where
  "MatchSaConfig env al uid userId info =
     (let info = InitDefaultStrategy al info in
      if list_ex (\<lambda>u. uid = u) (SA_SKIP_UPGRADE_CFG_LIST env) then info\<lparr>ti_skipTransfer := True\<rparr>
      else
        let info = (case List.find (\<lambda>c. sc_uid c = uid) (SA_UPGRADE_CFG_LIST env) of
            Some c \<Rightarrow> info\<lparr>ti_needDe := sc_needDe c, ti_needFrontUser := sc_needFrontUser c\<rparr>
          | None \<Rightarrow> info) in
        info\<lparr>ti_uid := uid, ti_userId := userId\<rparr>)"

definition MatchHapConfig ::
    "config_env \<Rightarrow> bytes \<Rightarrow> u32 \<Rightarrow> u32 \<Rightarrow> u64 \<Rightarrow> HksUpgradeFileTransferInfo
     \<Rightarrow> HksUpgradeFileTransferInfo res" where
  "MatchHapConfig env al uid userId accessTokenId info =
     try_res (HksGetHapNameFromAccessToken env (ucast accessTokenId)) (\<lambda>hapName.
       let info = InitDefaultStrategy al info;
           same = (\<lambda>n. length n = length hapName \<and> \<not> HksMemCmp n hapName (length hapName)) in
       if list_ex same (HAP_SKIP_UPGRADE_CFG_LIST env) then Inr (info\<lparr>ti_skipTransfer := True\<rparr>)
       else
         let info = (case List.find (\<lambda>c. same (hc_hapName c)) (HAP_UPGRADE_CFG_LIST env) of
             Some c \<Rightarrow> info\<lparr>ti_needDe := hc_needDe c, ti_needFrontUser := hc_needFrontUser c\<rparr>
           | None \<Rightarrow> info) in
         Inr (info\<lparr>ti_uid := uid, ti_userId := userId\<rparr>))"

definition HksMatchConfig ::
    "config_env \<Rightarrow> bytes \<Rightarrow> u32 \<Rightarrow> u32 \<Rightarrow> u64 \<Rightarrow> HksUpgradeFileTransferInfo
     \<Rightarrow> HksUpgradeFileTransferInfo res" where
  "HksMatchConfig env al uid userId accessTokenId info =
     try_res (HksGetAtType env accessTokenId) (\<lambda>ty.
       if ty = HKS_TOKEN_HAP then MatchHapConfig env al uid userId accessTokenId info
       else Inr (MatchSaConfig env al uid userId info))"

definition HksParseConfig ::
    "config_env \<Rightarrow> allocator \<Rightarrow> bytes \<Rightarrow> HksBlob \<Rightarrow> HksUpgradeFileTransferInfo
     \<Rightarrow> HksUpgradeFileTransferInfo res" where
  "HksParseConfig env alloc al fileContent info =
     try_res (ParseOwnerIdFromFileContent alloc fileContent) (\<lambda>(uid, accessTokenId, userId).
       HksMatchConfig env al uid userId accessTokenId info)"

end
