(* ===== verification/Huks_Engine_Access.thy ===== *)
theory Huks_Engine_Access
  imports Huks_Common_Check
begin

text \<open>
  How the service calls the key engine, \<open>os_dependency/idl/passthrough/huks_access.c\<close>: through a table of
  functions, \<open>struct HuksHdi\<close> of \<open>huks_hdi.h\<close>, that a library supplies at run time. Functions take and
  return the state of the engine. A function that fills a buffer gives what it holds afterwards.
\<close>

record 'e HuksHdi =
  HuksHdiModuleInit :: "('e \<Rightarrow> rc \<times> 'e) ptr"
  HuksHdiModuleDestroy :: "('e \<Rightarrow> rc \<times> 'e) ptr"
  HuksHdiRefresh :: "('e \<Rightarrow> rc \<times> 'e) ptr"
  HuksHdiGenerateKey :: "(HksBlob \<Rightarrow> HksParamSet ptr \<Rightarrow> HksBlob \<Rightarrow> HksBlob \<Rightarrow> 'e \<Rightarrow> HksBlob res \<times> 'e) ptr"
  HuksHdiImportKey :: "(HksBlob \<Rightarrow> HksBlob \<Rightarrow> HksParamSet ptr \<Rightarrow> HksBlob \<Rightarrow> 'e \<Rightarrow> HksBlob res \<times> 'e) ptr"
  HuksHdiImportWrappedKey :: "(HksBlob \<Rightarrow> HksBlob \<Rightarrow> HksBlob \<Rightarrow> HksParamSet ptr \<Rightarrow> HksBlob \<Rightarrow> 'e \<Rightarrow> HksBlob res \<times> 'e) ptr"
  HuksHdiExportPublicKey :: "(HksBlob \<Rightarrow> HksParamSet ptr \<Rightarrow> HksBlob \<Rightarrow> 'e \<Rightarrow> HksBlob res \<times> 'e) ptr"
  HuksHdiInit :: "(HksBlob \<Rightarrow> HksParamSet ptr \<Rightarrow> HksBlob \<Rightarrow> HksBlob \<Rightarrow> 'e \<Rightarrow> (HksBlob \<times> HksBlob) res \<times> 'e) ptr"
  HuksHdiUpdate :: "(HksBlob \<Rightarrow> HksParamSet ptr \<Rightarrow> HksBlob \<Rightarrow> HksBlob \<Rightarrow> 'e \<Rightarrow> HksBlob res \<times> 'e) ptr"
  HuksHdiFinish :: "(HksBlob \<Rightarrow> HksParamSet ptr \<Rightarrow> HksBlob \<Rightarrow> HksBlob \<Rightarrow> 'e \<Rightarrow> HksBlob res \<times> 'e) ptr"
  HuksHdiAbort :: "(HksBlob \<Rightarrow> HksParamSet ptr \<Rightarrow> 'e \<Rightarrow> rc \<times> 'e) ptr"
  HuksHdiGetKeyProperties :: "(HksParamSet ptr \<Rightarrow> HksBlob \<Rightarrow> 'e \<Rightarrow> rc \<times> 'e) ptr"
  HuksHdiGetAbility :: "(u32 \<Rightarrow> 'e \<Rightarrow> rc \<times> 'e) ptr"
  HuksHdiGetHardwareInfo :: "('e \<Rightarrow> rc \<times> 'e) ptr"
  HuksHdiSign :: "(HksBlob \<Rightarrow> HksParamSet ptr \<Rightarrow> HksBlob \<Rightarrow> HksBlob \<Rightarrow> 'e \<Rightarrow> HksBlob res \<times> 'e) ptr"
  HuksHdiVerify :: "(HksBlob \<Rightarrow> HksParamSet ptr \<Rightarrow> HksBlob \<Rightarrow> HksBlob \<Rightarrow> 'e \<Rightarrow> rc \<times> 'e) ptr"
  HuksHdiEncrypt :: "(HksBlob \<Rightarrow> HksParamSet ptr \<Rightarrow> HksBlob \<Rightarrow> HksBlob \<Rightarrow> 'e \<Rightarrow> HksBlob res \<times> 'e) ptr"
  HuksHdiDecrypt :: "(HksBlob \<Rightarrow> HksParamSet ptr \<Rightarrow> HksBlob \<Rightarrow> HksBlob \<Rightarrow> 'e \<Rightarrow> HksBlob res \<times> 'e) ptr"
  HuksHdiAgreeKey :: "(HksParamSet ptr \<Rightarrow> HksBlob \<Rightarrow> HksBlob \<Rightarrow> HksBlob \<Rightarrow> 'e \<Rightarrow> HksBlob res \<times> 'e) ptr"
  HuksHdiDeriveKey :: "(HksParamSet ptr \<Rightarrow> HksBlob \<Rightarrow> HksBlob \<Rightarrow> 'e \<Rightarrow> HksBlob res \<times> 'e) ptr"
  HuksHdiMac :: "(HksBlob \<Rightarrow> HksParamSet ptr \<Rightarrow> HksBlob \<Rightarrow> HksBlob \<Rightarrow> 'e \<Rightarrow> HksBlob res \<times> 'e) ptr"
  HuksHdiUpgradeKey :: "(HksBlob \<Rightarrow> HksParamSet ptr \<Rightarrow> HksBlob \<Rightarrow> 'e \<Rightarrow> HksBlob res \<times> 'e) ptr"
  HuksHdiAttestKey :: "(HksBlob \<Rightarrow> HksParamSet ptr \<Rightarrow> HksBlob \<Rightarrow> 'e \<Rightarrow> HksBlob res \<times> 'e) ptr"
  HuksHdiGenerateRandom :: "(HksParamSet ptr \<Rightarrow> HksBlob \<Rightarrow> 'e \<Rightarrow> HksBlob res \<times> 'e) ptr"
  HuksHdiExportChipsetPlatformPublicKey :: "(HksBlob \<Rightarrow> u32 \<Rightarrow> HksBlob \<Rightarrow> 'e \<Rightarrow> HksBlob res \<times> 'e) ptr"

text \<open>
  \<open>HksCreateHuksHdiDevice\<close> leaves a table that is there as it is, and asks the library for one otherwise;
  \<open>hdi\<close> is the table after it, \<open>NULL\<close> when it fails.
\<close>

definition hdi_call :: "'e HuksHdi ptr \<Rightarrow> ('e HuksHdi \<Rightarrow> ('e \<Rightarrow> 'a \<times> 'e) ptr) \<Rightarrow> (rc \<Rightarrow> 'a) \<Rightarrow> 'e \<Rightarrow> 'a \<times> 'e" where
  "hdi_call hdi f fail e =
     (case hdi of NULL \<Rightarrow> (fail HKS_ERROR_NULL_POINTER, e)
      | Some device \<Rightarrow> (case f device of NULL \<Rightarrow> (fail HKS_ERROR_NULL_POINTER, e) | Some g \<Rightarrow> g e))"

definition HuksAccessModuleInit ::
    "'e HuksHdi ptr \<Rightarrow> 'e \<Rightarrow> rc \<times> 'e" where
  "HuksAccessModuleInit hdi e =
     hdi_call hdi HuksHdiModuleInit id e"

definition HuksAccessModuleDestroy ::
    "'e HuksHdi ptr \<Rightarrow> 'e \<Rightarrow> rc \<times> 'e" where
  "HuksAccessModuleDestroy hdi e =
     hdi_call hdi HuksHdiModuleDestroy id e"

definition HuksAccessRefresh ::
    "'e HuksHdi ptr \<Rightarrow> 'e \<Rightarrow> rc \<times> 'e" where
  "HuksAccessRefresh hdi e =
     hdi_call hdi HuksHdiRefresh id e"

definition HuksAccessGenerateKey ::
    "'e HuksHdi ptr \<Rightarrow> HksBlob \<Rightarrow> HksParamSet ptr \<Rightarrow> HksBlob \<Rightarrow> HksBlob \<Rightarrow> 'e \<Rightarrow> HksBlob res \<times> 'e" where
  "HuksAccessGenerateKey hdi keyAlias paramSetIn keyIn keyOut e =
     hdi_call hdi (\<lambda>d. map_option (\<lambda>f. f keyAlias paramSetIn keyIn keyOut) (HuksHdiGenerateKey d)) Inl e"

definition HuksAccessImportKey ::
    "'e HuksHdi ptr \<Rightarrow> HksBlob \<Rightarrow> HksBlob \<Rightarrow> HksParamSet ptr \<Rightarrow> HksBlob \<Rightarrow> 'e \<Rightarrow> HksBlob res \<times> 'e" where
  "HuksAccessImportKey hdi keyAlias key paramSet keyOut e =
     hdi_call hdi (\<lambda>d. map_option (\<lambda>f. f keyAlias key paramSet keyOut) (HuksHdiImportKey d)) Inl e"

definition HuksAccessImportWrappedKey ::
    "'e HuksHdi ptr \<Rightarrow> HksBlob \<Rightarrow> HksBlob \<Rightarrow> HksBlob \<Rightarrow> HksParamSet ptr \<Rightarrow> HksBlob \<Rightarrow> 'e \<Rightarrow> HksBlob res \<times> 'e" where
  "HuksAccessImportWrappedKey hdi wrappingKeyAlias key wrappedKeyData paramSet keyOut e =
     hdi_call hdi (\<lambda>d. map_option (\<lambda>f. f wrappingKeyAlias key wrappedKeyData paramSet keyOut) (HuksHdiImportWrappedKey d)) Inl e"

definition HuksAccessExportPublicKey ::
    "'e HuksHdi ptr \<Rightarrow> HksBlob \<Rightarrow> HksParamSet ptr \<Rightarrow> HksBlob \<Rightarrow> 'e \<Rightarrow> HksBlob res \<times> 'e" where
  "HuksAccessExportPublicKey hdi key paramSet keyOut e =
     hdi_call hdi (\<lambda>d. map_option (\<lambda>f. f key paramSet keyOut) (HuksHdiExportPublicKey d)) Inl e"

definition HuksAccessInit ::
    "'e HuksHdi ptr \<Rightarrow> HksBlob \<Rightarrow> HksParamSet ptr \<Rightarrow> HksBlob \<Rightarrow> HksBlob \<Rightarrow> 'e \<Rightarrow> (HksBlob \<times> HksBlob) res \<times> 'e" where
  "HuksAccessInit hdi key paramSet handle token e =
     hdi_call hdi (\<lambda>d. map_option (\<lambda>f. f key paramSet handle token) (HuksHdiInit d)) Inl e"

definition HuksAccessUpdate ::
    "'e HuksHdi ptr \<Rightarrow> HksBlob \<Rightarrow> HksParamSet ptr \<Rightarrow> HksBlob \<Rightarrow> HksBlob \<Rightarrow> 'e \<Rightarrow> HksBlob res \<times> 'e" where
  "HuksAccessUpdate hdi handle paramSet inData outData e =
     hdi_call hdi (\<lambda>d. map_option (\<lambda>f. f handle paramSet inData outData) (HuksHdiUpdate d)) Inl e"

definition HuksAccessFinish ::
    "'e HuksHdi ptr \<Rightarrow> HksBlob \<Rightarrow> HksParamSet ptr \<Rightarrow> HksBlob \<Rightarrow> HksBlob \<Rightarrow> 'e \<Rightarrow> HksBlob res \<times> 'e" where
  "HuksAccessFinish hdi handle paramSet inData outData e =
     hdi_call hdi (\<lambda>d. map_option (\<lambda>f. f handle paramSet inData outData) (HuksHdiFinish d)) Inl e"

definition HuksAccessAbort ::
    "'e HuksHdi ptr \<Rightarrow> HksBlob \<Rightarrow> HksParamSet ptr \<Rightarrow> 'e \<Rightarrow> rc \<times> 'e" where
  "HuksAccessAbort hdi handle paramSet e =
     hdi_call hdi (\<lambda>d. map_option (\<lambda>f. f handle paramSet) (HuksHdiAbort d)) id e"

definition HuksAccessGetKeyProperties ::
    "'e HuksHdi ptr \<Rightarrow> HksParamSet ptr \<Rightarrow> HksBlob \<Rightarrow> 'e \<Rightarrow> rc \<times> 'e" where
  "HuksAccessGetKeyProperties hdi paramSet key e =
     hdi_call hdi (\<lambda>d. map_option (\<lambda>f. f paramSet key) (HuksHdiGetKeyProperties d)) id e"

definition HuksAccessGetAbility ::
    "'e HuksHdi ptr \<Rightarrow> u32 \<Rightarrow> 'e \<Rightarrow> rc \<times> 'e" where
  "HuksAccessGetAbility hdi funcType e =
     hdi_call hdi (\<lambda>d. map_option (\<lambda>f. f funcType) (HuksHdiGetAbility d)) id e"

definition HuksAccessGetHardwareInfo ::
    "'e HuksHdi ptr \<Rightarrow> 'e \<Rightarrow> rc \<times> 'e" where
  "HuksAccessGetHardwareInfo hdi e =
     hdi_call hdi HuksHdiGetHardwareInfo id e"

definition HuksAccessSign ::
    "'e HuksHdi ptr \<Rightarrow> HksBlob \<Rightarrow> HksParamSet ptr \<Rightarrow> HksBlob \<Rightarrow> HksBlob \<Rightarrow> 'e \<Rightarrow> HksBlob res \<times> 'e" where
  "HuksAccessSign hdi key paramSet srcData signature e =
     hdi_call hdi (\<lambda>d. map_option (\<lambda>f. f key paramSet srcData signature) (HuksHdiSign d)) Inl e"

definition HuksAccessVerify ::
    "'e HuksHdi ptr \<Rightarrow> HksBlob \<Rightarrow> HksParamSet ptr \<Rightarrow> HksBlob \<Rightarrow> HksBlob \<Rightarrow> 'e \<Rightarrow> rc \<times> 'e" where
  "HuksAccessVerify hdi key paramSet srcData signature e =
     hdi_call hdi (\<lambda>d. map_option (\<lambda>f. f key paramSet srcData signature) (HuksHdiVerify d)) id e"

definition HuksAccessEncrypt ::
    "'e HuksHdi ptr \<Rightarrow> HksBlob \<Rightarrow> HksParamSet ptr \<Rightarrow> HksBlob \<Rightarrow> HksBlob \<Rightarrow> 'e \<Rightarrow> HksBlob res \<times> 'e" where
  "HuksAccessEncrypt hdi key paramSet plainText cipherText e =
     hdi_call hdi (\<lambda>d. map_option (\<lambda>f. f key paramSet plainText cipherText) (HuksHdiEncrypt d)) Inl e"

definition HuksAccessDecrypt ::
    "'e HuksHdi ptr \<Rightarrow> HksBlob \<Rightarrow> HksParamSet ptr \<Rightarrow> HksBlob \<Rightarrow> HksBlob \<Rightarrow> 'e \<Rightarrow> HksBlob res \<times> 'e" where
  "HuksAccessDecrypt hdi key paramSet cipherText plainText e =
     hdi_call hdi (\<lambda>d. map_option (\<lambda>f. f key paramSet cipherText plainText) (HuksHdiDecrypt d)) Inl e"

definition HuksAccessAgreeKey ::
    "'e HuksHdi ptr \<Rightarrow> HksParamSet ptr \<Rightarrow> HksBlob \<Rightarrow> HksBlob \<Rightarrow> HksBlob \<Rightarrow> 'e \<Rightarrow> HksBlob res \<times> 'e" where
  "HuksAccessAgreeKey hdi paramSet privateKey peerPublicKey agreedKey e =
     hdi_call hdi (\<lambda>d. map_option (\<lambda>f. f paramSet privateKey peerPublicKey agreedKey) (HuksHdiAgreeKey d)) Inl e"

definition HuksAccessDeriveKey ::
    "'e HuksHdi ptr \<Rightarrow> HksParamSet ptr \<Rightarrow> HksBlob \<Rightarrow> HksBlob \<Rightarrow> 'e \<Rightarrow> HksBlob res \<times> 'e" where
  "HuksAccessDeriveKey hdi paramSet kdfKey derivedKey e =
     hdi_call hdi (\<lambda>d. map_option (\<lambda>f. f paramSet kdfKey derivedKey) (HuksHdiDeriveKey d)) Inl e"

definition HuksAccessMac ::
    "'e HuksHdi ptr \<Rightarrow> HksBlob \<Rightarrow> HksParamSet ptr \<Rightarrow> HksBlob \<Rightarrow> HksBlob \<Rightarrow> 'e \<Rightarrow> HksBlob res \<times> 'e" where
  "HuksAccessMac hdi key paramSet srcData mac e =
     hdi_call hdi (\<lambda>d. map_option (\<lambda>f. f key paramSet srcData mac) (HuksHdiMac d)) Inl e"

definition HuksAccessUpgradeKey ::
    "'e HuksHdi ptr \<Rightarrow> HksBlob \<Rightarrow> HksParamSet ptr \<Rightarrow> HksBlob \<Rightarrow> 'e \<Rightarrow> HksBlob res \<times> 'e" where
  "HuksAccessUpgradeKey hdi oldKey paramSet newKey e =
     hdi_call hdi (\<lambda>d. map_option (\<lambda>f. f oldKey paramSet newKey) (HuksHdiUpgradeKey d)) Inl e"

definition HuksAccessAttestKey ::
    "'e HuksHdi ptr \<Rightarrow> HksBlob \<Rightarrow> HksParamSet ptr \<Rightarrow> HksBlob \<Rightarrow> 'e \<Rightarrow> HksBlob res \<times> 'e" where
  "HuksAccessAttestKey hdi key paramSet certChain e =
     hdi_call hdi (\<lambda>d. map_option (\<lambda>f. f key paramSet certChain) (HuksHdiAttestKey d)) Inl e"

definition HuksAccessGenerateRandom ::
    "'e HuksHdi ptr \<Rightarrow> HksParamSet ptr \<Rightarrow> HksBlob \<Rightarrow> 'e \<Rightarrow> HksBlob res \<times> 'e" where
  "HuksAccessGenerateRandom hdi paramSet random e =
     hdi_call hdi (\<lambda>d. map_option (\<lambda>f. f paramSet random) (HuksHdiGenerateRandom d)) Inl e"

text \<open>
  The only function that uses the table without asking for it first; without one there is no result.
\<close>

definition HuksAccessExportChipsetPlatformPublicKey ::
    "'e HuksHdi ptr \<Rightarrow> HksBlob \<Rightarrow> u32 \<Rightarrow> HksBlob \<Rightarrow> 'e \<Rightarrow> (HksBlob res \<times> 'e) option" where
  "HuksAccessExportChipsetPlatformPublicKey hdi salt scene publicKey e =
     (case hdi of NULL \<Rightarrow> None
      | Some device \<Rightarrow> map_option (\<lambda>f. f salt scene publicKey e) (HuksHdiExportChipsetPlatformPublicKey device))"

end
