(* ===== verification/Huks_Client_Params.thy ===== *)
theory Huks_Client_Params
  imports Huks_Client_Check Huks_Config_Parser Huks_Engine_Access Huks_Ipc_Pack Huks_Session
    Huks_Storage
begin

text \<open>
  The parameter sets that the service makes of the set of a request, the first part of
  \<open>huks_service/main/core/src/hks_client_service.c\<close> and \<open>hks_client_service_util.c\<close>: it adds who the caller is
  and where the key is stored, and for a new key how its user authenticates.
\<close>

section \<open>The environment of a request\<close>

text \<open>
  What the service asks others for while it serves one request: the C++ parts of the service (the bundle
  manager, the user authentication, the permission check, the certificates), the clock, the key engine.
\<close>

record EnrolledInfoWrap =
  ei_authType :: u32
  ei_enrolledId :: u64

record SecInfoWrap =
  si_secureUid :: u64
  si_enrolledInfo :: "EnrolledInfoWrap list"

record 'e client_env =
  ce_storage :: storage_env
  ce_config :: config_env
  GetCallerName :: "HksProcessInfo \<Rightarrow> HksBlob res"
  HksGetCallerType :: u32
  HksGetHapInfo :: "HksProcessInfo \<Rightarrow> HksBlob res"
  HksGetSaInfo :: "HksProcessInfo \<Rightarrow> HksBlob res"
  HksUserIdmGetSecInfo :: "u32 \<Rightarrow> SecInfoWrap res"
  HksUserIdmGetAuthInfoNum :: "u32 \<Rightarrow> u32 \<Rightarrow> rc \<times> u32"
  HksCheckAcrossAccountsPermission :: "HksParamSet ptr \<Rightarrow> u32 \<Rightarrow> rc"
  HksInitPluginProxy :: rc
  DcmGenerateCertChain :: "HksBlob \<Rightarrow> rc"
  ce_elapsed :: "u64 res"
  ce_clock :: clock
  ce_fresh :: nat
  ce_hdi :: "'e HuksHdi ptr"

abbreviation ce_alloc :: "('e, 'm) client_env_scheme \<Rightarrow> allocator" where
  "ce_alloc env \<equiv> se_alloc (ce_storage env)"


section \<open>Where the key is stored\<close>

definition AppendToNewParamSet_service :: "allocator \<Rightarrow> HksParamSet \<Rightarrow> HksParamSet res" where
  "AppendToNewParamSet_service alloc paramSet =
     (let ret = HksCheckParamSet (Some paramSet) (paramSetSize paramSet) in
      if_not_succ_return ret (Inl ret)
     (try_res (HksFreshParamSet (Some paramSet) False) (\<lambda>paramSet.
      try_res (HksInitParamSet alloc) (\<lambda>newParamSet.
      add_params newParamSet (params paramSet)))))"

text \<open>The new set that several functions begin with, when the set of the request may be missing.\<close>

definition new_param_set :: "allocator \<Rightarrow> HksParamSet ptr \<Rightarrow> HksParamSet res" where
  "new_param_set alloc paramSet =
     (case paramSet of Some ps \<Rightarrow> AppendToNewParamSet_service alloc ps | NULL \<Rightarrow> HksInitParamSet alloc)"

definition AddSpecificUserIdToParamSet :: "HksOperation ptr \<Rightarrow> HksParamSet \<Rightarrow> HksParamSet res" where
  "AddSpecificUserIdToParamSet operation paramSet =
     (case operation of NULL \<Rightarrow> Inr paramSet
      | Some operation \<Rightarrow>
          case HksGetParam (Some paramSet) HKS_TAG_SPECIFIC_USER_ID of
            Inr _ \<Rightarrow> Inr paramSet
          | Inl ret \<Rightarrow>
              if ret = HKS_ERROR_PARAM_NOT_EXIST then
                (if op_isUserIdPassedDuringInit operation then
                   add_params paramSet [\<lparr>p_tag = HKS_TAG_SPECIFIC_USER_ID,
                     p_val = VInt (op_userIdPassedDuringInit operation)\<rparr>]
                 else Inr paramSet)
              else Inl ret)"

text \<open>The storage level, unless the application is one whose files are not moved.\<close>

definition GetStorageLevelForSkipUpgradeApp ::
    "config_env \<Rightarrow> HksProcessInfo ptr \<Rightarrow> u32 \<Rightarrow> u32 res" where
  "GetStorageLevelForSkipUpgradeApp config processInfo storageLevel =
     (case processInfo of NULL \<Rightarrow> Inr storageLevel
      | Some pinfo \<Rightarrow>
          try_res (HksMatchConfig config [] (pi_uidInt pinfo) (pi_userIdInt pinfo) (pi_accessTokenId pinfo)
              \<lparr>ti_skipTransfer = False, ti_needDe = False, ti_needFrontUser = False, ti_uid = 0, ti_userId = 0\<rparr>)
            (\<lambda>info. Inr (if ti_skipTransfer info then HKS_AUTH_STORAGE_LEVEL_OLD_DE_TMP else storageLevel)))"

definition AddStorageLevelToParamSet ::
    "config_env \<Rightarrow> HksProcessInfo ptr \<Rightarrow> HksParamSet \<Rightarrow> HksParamSet res" where
  "AddStorageLevelToParamSet config processInfo paramSet =
     (case HksGetParam (Some paramSet) HKS_TAG_AUTH_STORAGE_LEVEL of
        Inr _ \<Rightarrow> Inr paramSet
      | Inl ret \<Rightarrow>
          if ret = HKS_ERROR_PARAM_NOT_EXIST then
            try_res (GetStorageLevelForSkipUpgradeApp config processInfo HKS_AUTH_STORAGE_LEVEL_CE)
              (\<lambda>storageLevel. add_params paramSet [\<lparr>p_tag = HKS_TAG_AUTH_STORAGE_LEVEL, p_val = VUint storageLevel\<rparr>])
          else Inl ret)"

definition AppendStorageLevelAndSpecificUserIdToParamSet ::
    "config_env \<Rightarrow> HksProcessInfo ptr \<Rightarrow> HksOperation ptr \<Rightarrow> HksParamSet \<Rightarrow> HksParamSet res" where
  "AppendStorageLevelAndSpecificUserIdToParamSet config processInfo operation paramSet =
     try_res (AddSpecificUserIdToParamSet operation paramSet) (\<lambda>paramSet.
     AddStorageLevelToParamSet config processInfo paramSet)"

definition AppendStorageLevelIfNotExistInner ::
    "allocator \<Rightarrow> config_env \<Rightarrow> HksProcessInfo ptr \<Rightarrow> HksParamSet ptr \<Rightarrow> HksParamSet res" where
  "AppendStorageLevelIfNotExistInner alloc config processInfo paramSet =
     try_res (new_param_set alloc paramSet) (\<lambda>newParamSet.
     try_res (AppendStorageLevelAndSpecificUserIdToParamSet config processInfo NULL newParamSet) (\<lambda>newParamSet.
     HksBuildParamSet alloc (Some newParamSet)))"

definition AppendStorageLevelIfNotExist :: "allocator \<Rightarrow> config_env \<Rightarrow> HksParamSet ptr \<Rightarrow> HksParamSet res" where
  "AppendStorageLevelIfNotExist alloc config paramSet =
     AppendStorageLevelIfNotExistInner alloc config NULL paramSet"

section \<open>Who the caller is\<close>

definition CheckProcessNameTagExist :: "HksParamSet \<Rightarrow> bool" where
  "CheckProcessNameTagExist paramSet = list_ex (\<lambda>p. p_tag p = HKS_TAG_PROCESS_NAME) (params paramSet)"

definition HksCheckIsAcrossDevices :: "HksParamSet ptr \<Rightarrow> bool" where
  "HksCheckIsAcrossDevices paramSet =
     (if HksCheckIsAllowedWrap paramSet then True
      else case HksGetParam paramSet HKS_TAG_KEY_WRAP_TYPE of Inr _ \<Rightarrow> True | Inl _ \<Rightarrow> False)"

definition AppendOwnerInfoForAcrossDevicesIfNeed ::
    "'e client_env \<Rightarrow> HksProcessInfo \<Rightarrow> HksParamSet \<Rightarrow> HksParamSet res" where
  "AppendOwnerInfoForAcrossDevicesIfNeed env processInfo newParamSet =
     (if \<not> HksCheckIsAcrossDevices (Some newParamSet) then Inr newParamSet
      else try_res (GetCallerName env processInfo) (\<lambda>appInfo.
        add_params newParamSet
          [\<lparr>p_tag = HKS_TAG_OWNER_ID, p_val = VBlob appInfo\<rparr>,
           \<lparr>p_tag = HKS_TAG_OWNER_TYPE, p_val = VUint (HksGetCallerType env)\<rparr>]))"

definition process_params :: "HksProcessInfo \<Rightarrow> HksParam list" where
  "process_params processInfo =
     [\<lparr>p_tag = HKS_TAG_PROCESS_NAME, p_val = VBlob (pi_processName processInfo)\<rparr>,
      \<lparr>p_tag = HKS_TAG_USER_ID, p_val = VUint (pi_userIdInt processInfo)\<rparr>,
      \<lparr>p_tag = HKS_TAG_ACCESS_TOKEN_ID, p_val = VUlong (pi_accessTokenId processInfo)\<rparr>]"

definition AppendProcessInfoAndDefaultStrategy ::
    "'e client_env \<Rightarrow> HksParamSet ptr \<Rightarrow> HksProcessInfo \<Rightarrow> HksOperation ptr \<Rightarrow> HksParamSet res" where
  "AppendProcessInfoAndDefaultStrategy env paramSet processInfo operation =
     try_res (new_param_set (ce_alloc env) paramSet) (\<lambda>newParamSet.
     if CheckProcessNameTagExist newParamSet then Inl HKS_ERROR_INVALID_ARGUMENT
     else
       try_res (add_params newParamSet (process_params processInfo)) (\<lambda>newParamSet.
       try_res (AppendOwnerInfoForAcrossDevicesIfNeed env processInfo newParamSet) (\<lambda>newParamSet.
       try_res (AppendStorageLevelAndSpecificUserIdToParamSet (ce_config env) (Some processInfo) operation newParamSet)
         (\<lambda>newParamSet.
       HksBuildParamSet (ce_alloc env) (Some newParamSet)))))"

definition AppendNewInfoForUseKeyInService ::
    "'e client_env \<Rightarrow> HksParamSet ptr \<Rightarrow> HksProcessInfo \<Rightarrow> HksParamSet res" where
  "AppendNewInfoForUseKeyInService env paramSet processInfo =
     AppendProcessInfoAndDefaultStrategy env paramSet processInfo NULL"

section \<open>How the user of a new key authenticates\<close>

definition AppendSecUid :: "HksParamSet \<Rightarrow> SecInfoWrap \<Rightarrow> HksParamSet res" where
  "AppendSecUid newParamSet secInfo =
     add_params newParamSet [\<lparr>p_tag = HKS_TAG_USER_AUTH_SECURE_UID,
       p_val = VBlob (blob_of (to_le 8 (si_secureUid secInfo)))\<rparr>]"

text \<open>
  The loop that writes the enrolled identities behind their number. Each copy has the room from its index to
  the end of the buffer.
\<close>

fun enrolled_info_loop :: "EnrolledInfoWrap list \<Rightarrow> u32 \<Rightarrow> HksBlob \<Rightarrow> HksBlob res" where
  "enrolled_info_loop [] index enrolledInfo = Inr enrolledInfo"
| "enrolled_info_loop (i # is) index enrolledInfo =
     (case memcpy_to enrolledInfo index (blob_size enrolledInfo - index) (Some (to_le 4 (ei_authType i))) 4 of
        (False, _) \<Rightarrow> Inl HKS_ERROR_INSUFFICIENT_MEMORY
      | (True, enrolledInfo) \<Rightarrow>
          case memcpy_to enrolledInfo (index + 4) (blob_size enrolledInfo - (index + 4))
              (Some (to_le 8 (ei_enrolledId i))) 8 of
            (False, _) \<Rightarrow> Inl HKS_ERROR_INSUFFICIENT_MEMORY
          | (True, enrolledInfo) \<Rightarrow> enrolled_info_loop is (index + 12) enrolledInfo)"

definition ConstructEnrolledInfoBlob :: "SecInfoWrap \<Rightarrow> HksBlob \<Rightarrow> HksParam res" where
  "ConstructEnrolledInfoBlob secInfo enrolledInfo =
     (let enrolledInfo = enrolledInfo\<lparr>blob_data := Some (replicate (unat (blob_size enrolledInfo)) 0)\<rparr> in
      case memcpy_to enrolledInfo 0 (blob_size enrolledInfo)
          (Some (to_le 4 (word_of_nat (length (si_enrolledInfo secInfo)) :: u32))) 4 of
        (False, _) \<Rightarrow> Inl HKS_ERROR_INSUFFICIENT_MEMORY
      | (True, enrolledInfo) \<Rightarrow>
          try_res (enrolled_info_loop (si_enrolledInfo secInfo) 4 enrolledInfo) (\<lambda>enrolledInfo.
            Inr \<lparr>p_tag = HKS_TAG_USER_AUTH_ENROLL_ID_INFO, p_val = VBlob enrolledInfo\<rparr>))"

definition ComputeEnrolledInfoLen :: "u32 \<Rightarrow> u32" where
  "ComputeEnrolledInfoLen enrolledInfoLen = 4 + (4 + 8) * enrolledInfoLen"

definition AddEnrolledInfoInParamSet :: "allocator \<Rightarrow> SecInfoWrap \<Rightarrow> HksParamSet \<Rightarrow> HksParamSet res" where
  "AddEnrolledInfoInParamSet alloc secInfo paramSet =
     (let sz = ComputeEnrolledInfoLen (word_of_nat (length (si_enrolledInfo secInfo))) in
      if \<not> HksMalloc alloc (unat sz) then Inl HKS_ERROR_MALLOC_FAIL
      else
        try_res (ConstructEnrolledInfoBlob secInfo \<lparr>blob_size = sz, blob_data = Some (replicate (unat sz) 0)\<rparr>)
          (\<lambda>tmpParam.
        try_res (add_params paramSet [tmpParam]) (\<lambda>paramSet. HksBuildParamSet alloc (Some paramSet))))"

definition BuildUserAuthParamSet :: "allocator \<Rightarrow> HksParamSet ptr \<Rightarrow> HksParamSet res" where
  "BuildUserAuthParamSet alloc paramSet =
     try_res (new_param_set alloc paramSet) (\<lambda>newParamSet. HksBuildParamSet alloc (Some newParamSet))"

definition AppendUserAuthInfo :: "'e client_env \<Rightarrow> HksParamSet ptr \<Rightarrow> u32 \<Rightarrow> HksParamSet res" where
  "AppendUserAuthInfo env paramSet userId =
     try_or (HksUserIdmGetSecInfo env userId) (Inl HKS_ERROR_GET_USERIAM_SECINFO_FAILED) (\<lambda>secInfo.
     try_res (new_param_set (ce_alloc env) paramSet) (\<lambda>newParamSet.
     try_res (AppendSecUid newParamSet secInfo) (\<lambda>newParamSet.
     AddEnrolledInfoInParamSet (ce_alloc env) secInfo newParamSet)))"

definition CheckIfEnrollAuthInfo :: "'e client_env \<Rightarrow> u32 \<Rightarrow> u32 \<Rightarrow> rc" where
  "CheckIfEnrollAuthInfo env userId authType =
     (case HksUserIdmGetAuthInfoNum env userId authType of (ret, numOfAuthInfo) \<Rightarrow>
        if ret = HKS_ERROR_CREDENTIAL_NOT_EXIST \<or> numOfAuthInfo = 0 then HKS_ERROR_CREDENTIAL_NOT_EXIST
        else ret)"

definition support_loop :: "'e client_env \<Rightarrow> u32 \<Rightarrow> u32 \<Rightarrow> u32 list \<Rightarrow> rc" where
  "support_loop env userId userAuthType userAuthTypes =
     foldr (\<lambda>ty rest.
       if userAuthType AND ty = 0 then rest
       else let ret = CheckIfEnrollAuthInfo env userId ty in if_not_succ_return ret ret rest)
     userAuthTypes HKS_SUCCESS"

definition CheckIfUserIamSupportCurType :: "'e client_env \<Rightarrow> u32 \<Rightarrow> u32 \<Rightarrow> rc" where
  "CheckIfUserIamSupportCurType env userId userAuthType =
     support_loop env userId userAuthType
       [HKS_USER_AUTH_TYPE_FINGERPRINT, HKS_USER_AUTH_TYPE_FACE, HKS_USER_AUTH_TYPE_PIN]"

definition AppendNewInfoForGenKeyInService ::
    "'e client_env \<Rightarrow> HksProcessInfo \<Rightarrow> HksParamSet ptr \<Rightarrow> HksParamSet res" where
  "AppendNewInfoForGenKeyInService env processInfo paramSet =
     (case HksCheckAndGetUserAuthInfo paramSet of
        Inl ret \<Rightarrow>
          if ret = HKS_ERROR_NOT_SUPPORTED
          then AppendProcessInfoAndDefaultStrategy env paramSet processInfo NULL
          else Inl ret
      | Inr (userAuthType, authAccessType) \<Rightarrow>
          let ret = HksCheckUserAuthKeyPurposeValidity paramSet in
          if_not_succ_return ret (Inl ret)
            (try_res
              (if authAccessType = HKS_AUTH_ACCESS_ALWAYS_VALID
               then BuildUserAuthParamSet (ce_alloc env) paramSet
               else
                 let ret = CheckIfUserIamSupportCurType env (pi_userIdInt processInfo) userAuthType in
                 if_not_succ_return ret (Inl ret) (AppendUserAuthInfo env paramSet (pi_userIdInt processInfo)))
              (\<lambda>userAuthParamSet.
                AppendProcessInfoAndDefaultStrategy env (Some userAuthParamSet) processInfo NULL)))"

section \<open>Other sets\<close>

text \<open>
  A kind of caller that is neither an application nor a system ability leaves \<open>appInfo\<close> empty, and fails with
  the next check.
\<close>

definition AddAppInfoToParamSet :: "'e client_env \<Rightarrow> HksProcessInfo \<Rightarrow> HksParamSet \<Rightarrow> HksParamSet res" where
  "AddAppInfoToParamSet env processInfo paramSet =
     try_res (AppendToNewParamSet_service (ce_alloc env) paramSet) (\<lambda>newParamSet.
     let appidType = HksGetCallerType env in
     try_res (if appidType = HKS_HAP_TYPE then HksGetHapInfo env processInfo
              else if appidType = HKS_SA_TYPE then HksGetSaInfo env processInfo
              else Inr empty_blob) (\<lambda>appInfo.
     let ret = CheckBlob (Some appInfo) in
     if_not_succ_return ret (Inl ret)
       (try_res (add_params newParamSet
           [\<lparr>p_tag = HKS_TAG_ATTESTATION_APPLICATION_ID, p_val = VBlob appInfo\<rparr>,
            \<lparr>p_tag = HKS_TAG_ATTESTATION_APPLICATION_ID_TYPE, p_val = VUint appidType\<rparr>]) (\<lambda>newParamSet.
        HksBuildParamSet (ce_alloc env) (Some newParamSet)))))"

definition BuildFrontUserIdParamSet :: "allocator \<Rightarrow> HksParamSet ptr \<Rightarrow> u32 \<Rightarrow> HksParamSet res" where
  "BuildFrontUserIdParamSet alloc paramSet frontUserId =
     try_res (new_param_set alloc paramSet) (\<lambda>newParamSet.
     try_res (add_params newParamSet [\<lparr>p_tag = HKS_TAG_FRONT_USER_ID, p_val = VInt frontUserId\<rparr>]) (\<lambda>newParamSet.
     HksBuildParamSet alloc (Some newParamSet)))"

definition SENSITIVE_DELETE_TAG :: "u32 list" where
  "SENSITIVE_DELETE_TAG =
     [HKS_TAG_KEY, HKS_TAG_ACCESS_TOKEN_ID, HKS_TAG_USER_AUTH_ENROLL_ID_INFO,
      HKS_TAG_USER_AUTH_SECURE_UID, HKS_TAG_OWNER_ID, HKS_TAG_ACCOUNT_ID]"

text \<open>
  The properties of a stored key, read as a parameter set and copied into the buffer of the caller, of which
  the recorded size is the capacity.
\<close>

definition GetKeyParamSet :: "allocator \<Rightarrow> HksBlob \<Rightarrow> HksParamSet \<Rightarrow> HksParamSet res" where
  "GetKeyParamSet alloc key paramSet =
     (if blob_size key < word_of_nat SIZEOF_PARAM_SET then Inl HKS_ERROR_INVALID_KEY_INFO
      else
        try_res (HksDeleteTagsFromParamSet alloc (Some SENSITIVE_DELETE_TAG) (Some (param_set_at (blob_bytes key))))
          (\<lambda>outParamSet.
            if paramSetSize paramSet < paramSetSize outParamSet then Inl HKS_ERROR_BUFFER_TOO_SMALL
            else HksFreshParamSet (Some outParamSet) False))"

definition ConstructUpgradeKeyParamSet :: "allocator \<Rightarrow> HksProcessInfo \<Rightarrow> HksParamSet res" where
  "ConstructUpgradeKeyParamSet alloc processInfo =
     try_res (HksInitParamSet alloc) (\<lambda>paramSet.
     try_res (add_params paramSet [\<lparr>p_tag = HKS_TAG_PROCESS_NAME, p_val = VBlob (pi_processName processInfo)\<rparr>])
       (\<lambda>paramSet. HksBuildParamSet alloc (Some paramSet)))"

text \<open>The set for the upgrade of a key (\<open>hks_upgrade_key_accesser.c\<close>).\<close>

definition AddMandatoryParamsInService :: "HksParamSet ptr \<Rightarrow> HksParamSet \<Rightarrow> HksParamSet res" where
  "AddMandatoryParamsInService srcParamSet targetParamSet =
     (case srcParamSet of NULL \<Rightarrow> Inl HKS_ERROR_INVALID_ARGUMENT
      | Some src \<Rightarrow> add_params targetParamSet (params src))"

definition HksDoUpgradeKeyAccess ::
    "'e client_env \<Rightarrow> HksBlob \<Rightarrow> HksParamSet ptr \<Rightarrow> HksBlob \<Rightarrow> 'e \<Rightarrow> HksBlob res \<times> 'e" where
  "HksDoUpgradeKeyAccess env oldKey srcParamSet newKey e =
     (case try_res (HksInitParamSet (ce_alloc env)) (\<lambda>paramSet.
           try_res (AddMandatoryParamsInService srcParamSet paramSet) (\<lambda>paramSet.
           HksBuildParamSet (ce_alloc env) (Some paramSet))) of
        Inl ret \<Rightarrow> (Inl ret, e)
      | Inr paramSet \<Rightarrow> HuksAccessUpgradeKey (ce_hdi env) oldKey (Some paramSet) newKey e)"

end
