(* ===== verification/Huks_Client_Service.thy ===== *)
theory Huks_Client_Service
  imports Huks_Client_Params
begin

text \<open>
  The operations of the service, \<open>huks_service/main/core/src/hks_client_service.c\<close>: it finds or stores the key of
  a request, calls the key engine, and keeps the sessions of operations of several calls. Arguments that the
  callers pass as addresses of local variables are plain values; what a function leaves in an out-parameter is
  its result. Reports and traces are left out.
\<close>

section \<open>State\<close>

record 'e service_state =
  sv_files :: file_system
  sv_sessions :: session_state
  sv_engine :: 'e

definition on_files :: "(file_system \<Rightarrow> 'a \<times> file_system) \<Rightarrow> 'e service_state \<Rightarrow> 'a \<times> 'e service_state" where
  "on_files f st = (case f (sv_files st) of (a, fs) \<Rightarrow> (a, st\<lparr>sv_files := fs\<rparr>))"

definition on_engine :: "('e \<Rightarrow> 'a \<times> 'e) \<Rightarrow> 'e service_state \<Rightarrow> 'a \<times> 'e service_state" where
  "on_engine f st = (case f (sv_engine st) of (a, e) \<Rightarrow> (a, st\<lparr>sv_engine := e\<rparr>))"

text \<open>
  The session manager aborts the key nodes of the sessions that it evicts, with an empty parameter set
  (\<open>DeleteKeyNode\<close>); the engine sees them in that order.
\<close>

definition abort_evicted :: "'e HuksHdi ptr \<Rightarrow> u64 list \<Rightarrow> 'e \<Rightarrow> 'e" where
  "abort_evicted hdi handles e =
     foldl (\<lambda>e h. snd (HuksAccessAbort hdi (blob_of (to_le 8 h)) (Some \<lparr>paramSetSize = 8, params = [], ps_tail = []\<rparr>) e))
       e handles"

definition on_sessions ::
    "'e client_env \<Rightarrow> (session_state \<Rightarrow> 'a \<times> session_state) \<Rightarrow> 'e service_state \<Rightarrow> 'a \<times> 'e service_state" where
  "on_sessions env f st =
     (case f (sv_sessions st) of (a, ss) \<Rightarrow>
        (a, st\<lparr>sv_sessions := ss,
          sv_engine := abort_evicted (ce_hdi env) (drop (length (aborted (sv_sessions st))) (aborted ss)) (sv_engine st)\<rparr>))"

text \<open>A code of a call without a result of its own.\<close>

definition rc_res :: "rc \<Rightarrow> unit res" where
  "rc_res ret = (if ret = HKS_SUCCESS then Inr () else Inl ret)"

section \<open>Reading the key\<close>

definition GetKeyFileData ::
    "storage_env \<Rightarrow> HksProcessInfo \<Rightarrow> HksParamSet ptr \<Rightarrow> HksBlob \<Rightarrow> u32 \<Rightarrow> file_system
     \<Rightarrow> HksBlob res \<times> file_system" where
  "GetKeyFileData env processInfo paramSet keyAlias mode fs =
     (case HksManageStoreGetKeyBlobSize env processInfo paramSet (Some keyAlias) mode fs of
        (Inl ret, fs) \<Rightarrow> (Inl ret, fs)
      | (Inr sz, fs) \<Rightarrow>
          if sz > MAX_KEY_SIZE then (Inl HKS_ERROR_INVALID_KEY_FILE, fs)
          else if \<not> HksMalloc (se_alloc env) (unat sz) then (Inl HKS_ERROR_MALLOC_FAIL, fs)
          else HksManageStoreGetKeyBlob env processInfo paramSet (Some keyAlias)
            \<lparr>blob_size = sz, blob_data = Some (replicate (unat sz) 0)\<rparr> mode fs)"

text \<open>
  A key of an older version is upgraded by the engine and stored again. The bytes are read as a set; its
  parameters are read as zero where the file is shorter than they need, for there the code reads past its buffer.
\<close>

abbreviation (input) HKS_KEY_VERSION :: u32 where "HKS_KEY_VERSION \<equiv> 3"

definition CheckAndUpgradeKeyIfNeed ::
    "'e client_env \<Rightarrow> HksProcessInfo \<Rightarrow> HksBlob \<Rightarrow> HksParamSet ptr \<Rightarrow> HksBlob \<Rightarrow> 'e service_state
     \<Rightarrow> HksBlob res \<times> 'e service_state" where
  "CheckAndUpgradeKeyIfNeed env processInfo keyAlias paramSet key st =
     (case HksGetParam (Some (param_set_at (blob_bytes key))) HKS_TAG_KEY_VERSION of
        Inl _ \<Rightarrow> (Inl HKS_ERROR_CORRUPT_FILE, st)
      | Inr keyVersion \<Rightarrow>
          let version = uint32Param (p_val keyVersion) in
          if version = HKS_KEY_VERSION then (Inr key, st)
          else if version = 0 \<or> version > HKS_KEY_VERSION then (Inl HKS_ERROR_BAD_STATE, st)
          else if \<not> HksMalloc (ce_alloc env) (unat MAX_KEY_SIZE) then (Inl HKS_ERROR_MALLOC_FAIL, st)
          else
            next_res (on_engine (HksDoUpgradeKeyAccess env key paramSet
                \<lparr>blob_size = MAX_KEY_SIZE, blob_data = Some (replicate (unat MAX_KEY_SIZE) 0)\<rparr>) st)
              (\<lambda>newKey st.
            next_rc (on_files (HksManageStoreKeyBlob (ce_storage env) processInfo paramSet (Some keyAlias) newKey
                HKS_STORAGE_TYPE_KEY) st)
              (\<lambda>st. (Inr newKey, st))))"

definition GetKeyData ::
    "'e client_env \<Rightarrow> HksProcessInfo \<Rightarrow> HksBlob \<Rightarrow> HksParamSet ptr \<Rightarrow> u32 \<Rightarrow> 'e service_state
     \<Rightarrow> HksBlob res \<times> 'e service_state" where
  "GetKeyData env processInfo keyAlias paramSet mode st =
     next_res (on_files (GetKeyFileData (ce_storage env) processInfo paramSet keyAlias mode) st) (\<lambda>key st.
     CheckAndUpgradeKeyIfNeed env processInfo keyAlias paramSet key st)"

text \<open>The key, and the new set, which is there even when reading the key fails.\<close>

definition GetKeyAndNewParamSet ::
    "'e client_env \<Rightarrow> HksProcessInfo \<Rightarrow> HksBlob \<Rightarrow> HksParamSet ptr \<Rightarrow> 'e service_state
     \<Rightarrow> HksBlob res \<times> HksParamSet ptr \<times> 'e service_state" where
  "GetKeyAndNewParamSet env processInfo keyAlias paramSet st =
     (case AppendProcessInfoAndDefaultStrategy env paramSet processInfo NULL of
        Inl ret \<Rightarrow> (Inl ret, NULL, st)
      | Inr outParamSet \<Rightarrow>
          case GetKeyData env processInfo keyAlias (Some outParamSet) HKS_STORAGE_TYPE_KEY st of
            (key, st) \<Rightarrow> (key, Some outParamSet, st))"

definition GetKeyAndNewParamSetInForGenKeyInService ::
    "'e client_env \<Rightarrow> HksProcessInfo \<Rightarrow> HksBlob \<Rightarrow> HksParamSet ptr \<Rightarrow> 'e service_state
     \<Rightarrow> (HksBlob \<times> HksParamSet) res \<times> 'e service_state" where
  "GetKeyAndNewParamSetInForGenKeyInService env processInfo keyAlias paramSet st =
     (case AppendNewInfoForGenKeyInService env processInfo paramSet of
        Inl ret \<Rightarrow> (Inl ret, st)
      | Inr outParamSet \<Rightarrow>
          next_res (GetKeyData env processInfo keyAlias (Some outParamSet) HKS_STORAGE_TYPE_KEY st)
            (\<lambda>key st. (Inr (key, outParamSet), st)))"

section \<open>Operations that use a stored key\<close>

text \<open>The codes after which the backup is tried.\<close>

definition try_backup :: "rc \<Rightarrow> bool" where
  "try_backup ret \<longleftrightarrow>
     ret = HKS_ERROR_CORRUPT_FILE \<or> ret = HKS_ERROR_FILE_SIZE_FAIL \<or> ret = HKS_ERROR_NOT_EXIST"

text \<open>
  The body that these operations share: \<open>call\<close> is the function of the engine. It is called with the key of the
  main file; when that cannot be read, or the call itself fails so, with the key of the backup. The key that
  was used last and the new set are given back, for the caller that reads the key once more.
\<close>

definition use_key ::
    "'e client_env \<Rightarrow> HksProcessInfo \<Rightarrow> HksBlob \<Rightarrow> HksParamSet ptr
     \<Rightarrow> (HksBlob \<Rightarrow> HksParamSet ptr \<Rightarrow> 'e \<Rightarrow> 'a res \<times> 'e) \<Rightarrow> 'e service_state
     \<Rightarrow> ('a \<times> HksBlob) res \<times> 'e service_state" where
  "use_key env processInfo keyAlias paramSet call st =
     (let with_key = (\<lambda>key newParamSet st.
            next_res (on_engine (call key newParamSet) st) (\<lambda>a st. (Inr (a, key), st)));
          (keyFromFile, newParamSet, st) = GetKeyAndNewParamSet env processInfo keyAlias paramSet st;
          (ret, st) = next_res (keyFromFile, st) (\<lambda>key st. with_key key newParamSet st) in
      case ret of Inr a \<Rightarrow> (Inr a, st)
      | Inl ret \<Rightarrow>
          if try_backup ret then
            next_res (GetKeyData env processInfo keyAlias newParamSet HKS_STORAGE_TYPE_BAK_KEY st)
              (\<lambda>key st. with_key key newParamSet st)
          else (Inl ret, st))"

definition use_key_for ::
    "'e client_env \<Rightarrow> HksProcessInfo \<Rightarrow> HksBlob \<Rightarrow> HksParamSet ptr
     \<Rightarrow> (HksBlob \<Rightarrow> HksParamSet ptr \<Rightarrow> 'e \<Rightarrow> 'a res \<times> 'e) \<Rightarrow> 'e service_state \<Rightarrow> 'a res \<times> 'e service_state" where
  "use_key_for env processInfo keyAlias paramSet call st =
     next_res (use_key env processInfo keyAlias paramSet call st) (\<lambda>(a, key) st. (Inr a, st))"

definition HksServiceSign ::
    "'e client_env \<Rightarrow> HksProcessInfo \<Rightarrow> HksBlob \<Rightarrow> HksParamSet ptr \<Rightarrow> HksBlob \<Rightarrow> HksBlob \<Rightarrow> 'e service_state
     \<Rightarrow> HksBlob res \<times> 'e service_state" where
  "HksServiceSign env processInfo keyAlias paramSet srcData signature st =
     (let ret = HksCheckAllParams (Some (pi_processName processInfo)) (Some keyAlias) paramSet (Some srcData) (Some signature) in
      if ret \<noteq> HKS_SUCCESS then (Inl ret, st)
      else use_key_for env processInfo keyAlias paramSet
        (\<lambda>key newParamSet. HuksAccessSign (ce_hdi env) key newParamSet srcData signature) st)"

definition HksServiceVerify ::
    "'e client_env \<Rightarrow> HksProcessInfo \<Rightarrow> HksBlob \<Rightarrow> HksParamSet ptr \<Rightarrow> HksBlob \<Rightarrow> HksBlob \<Rightarrow> 'e service_state
     \<Rightarrow> unit res \<times> 'e service_state" where
  "HksServiceVerify env processInfo keyAlias paramSet srcData signature st =
     (let ret = HksCheckAllParams (Some (pi_processName processInfo)) (Some keyAlias) paramSet (Some srcData) (Some signature) in
      if ret \<noteq> HKS_SUCCESS then (Inl ret, st)
      else use_key_for env processInfo keyAlias paramSet
        (\<lambda>key newParamSet e. map_prod rc_res id (HuksAccessVerify (ce_hdi env) key newParamSet srcData signature e)) st)"

definition HksServiceEncrypt ::
    "'e client_env \<Rightarrow> HksProcessInfo \<Rightarrow> HksBlob \<Rightarrow> HksParamSet ptr \<Rightarrow> HksBlob \<Rightarrow> HksBlob \<Rightarrow> 'e service_state
     \<Rightarrow> HksBlob res \<times> 'e service_state" where
  "HksServiceEncrypt env processInfo keyAlias paramSet plainText cipherText st =
     (let ret = HksCheckAllParams (Some (pi_processName processInfo)) (Some keyAlias) paramSet (Some plainText) (Some cipherText) in
      if ret \<noteq> HKS_SUCCESS then (Inl ret, st)
      else use_key_for env processInfo keyAlias paramSet
        (\<lambda>key newParamSet. HuksAccessEncrypt (ce_hdi env) key newParamSet plainText cipherText) st)"

definition HksServiceDecrypt ::
    "'e client_env \<Rightarrow> HksProcessInfo \<Rightarrow> HksBlob \<Rightarrow> HksParamSet ptr \<Rightarrow> HksBlob \<Rightarrow> HksBlob \<Rightarrow> 'e service_state
     \<Rightarrow> HksBlob res \<times> 'e service_state" where
  "HksServiceDecrypt env processInfo keyAlias paramSet cipherText plainText st =
     (let ret = HksCheckAllParams (Some (pi_processName processInfo)) (Some keyAlias) paramSet (Some cipherText) (Some plainText) in
      if ret \<noteq> HKS_SUCCESS then (Inl ret, st)
      else use_key_for env processInfo keyAlias paramSet
        (\<lambda>key newParamSet. HuksAccessDecrypt (ce_hdi env) key newParamSet cipherText plainText) st)"

definition HksServiceExportPublicKey ::
    "'e client_env \<Rightarrow> HksProcessInfo \<Rightarrow> HksBlob \<Rightarrow> HksParamSet ptr \<Rightarrow> HksBlob \<Rightarrow> 'e service_state
     \<Rightarrow> HksBlob res \<times> 'e service_state" where
  "HksServiceExportPublicKey env processInfo keyAlias paramSet key st =
     (let ret = HksCheckExportPublicKeyParams (Some (pi_processName processInfo)) (Some keyAlias) (Some key) in
      if ret \<noteq> HKS_SUCCESS then (Inl ret, st)
      else use_key_for env processInfo keyAlias paramSet
        (\<lambda>keyFromFile newParamSet. HuksAccessExportPublicKey (ce_hdi env) keyFromFile newParamSet key) st)"

definition HksServiceAgreeKey ::
    "'e client_env \<Rightarrow> HksProcessInfo \<Rightarrow> HksParamSet ptr \<Rightarrow> HksBlob \<Rightarrow> HksBlob \<Rightarrow> HksBlob \<Rightarrow> 'e service_state
     \<Rightarrow> HksBlob res \<times> 'e service_state" where
  "HksServiceAgreeKey env processInfo paramSet privateKey peerPublicKey agreedKey st =
     (let ret = HksCheckAllParams (Some (pi_processName processInfo)) (Some privateKey) paramSet (Some peerPublicKey) (Some agreedKey) in
      if ret \<noteq> HKS_SUCCESS then (Inl ret, st)
      else use_key_for env processInfo privateKey paramSet
        (\<lambda>key newParamSet. HuksAccessAgreeKey (ce_hdi env) newParamSet key peerPublicKey agreedKey) st)"

definition HksServiceDeriveKey ::
    "'e client_env \<Rightarrow> HksProcessInfo \<Rightarrow> HksParamSet ptr \<Rightarrow> HksBlob \<Rightarrow> HksBlob \<Rightarrow> 'e service_state
     \<Rightarrow> HksBlob res \<times> 'e service_state" where
  "HksServiceDeriveKey env processInfo paramSet mainKey derivedKey st =
     (let ret = HksCheckDeriveKeyParams (Some (pi_processName processInfo)) paramSet (Some mainKey) (Some derivedKey) in
      if ret \<noteq> HKS_SUCCESS then (Inl ret, st)
      else use_key_for env processInfo mainKey paramSet
        (\<lambda>key newParamSet. HuksAccessDeriveKey (ce_hdi env) newParamSet key derivedKey) st)"

definition HksServiceMac ::
    "'e client_env \<Rightarrow> HksProcessInfo \<Rightarrow> HksBlob \<Rightarrow> HksParamSet ptr \<Rightarrow> HksBlob \<Rightarrow> HksBlob \<Rightarrow> 'e service_state
     \<Rightarrow> HksBlob res \<times> 'e service_state" where
  "HksServiceMac env processInfo key paramSet srcData mac st =
     (let ret = HksCheckAllParams (Some (pi_processName processInfo)) (Some key) paramSet (Some srcData) (Some mac) in
      if ret \<noteq> HKS_SUCCESS then (Inl ret, st)
      else use_key_for env processInfo key paramSet
        (\<lambda>keyFromFile newParamSet. HuksAccessMac (ce_hdi env) keyFromFile newParamSet srcData mac) st)"

definition HksServiceGetKeyParamSet ::
    "'e client_env \<Rightarrow> HksProcessInfo \<Rightarrow> HksBlob \<Rightarrow> HksParamSet ptr \<Rightarrow> HksParamSet ptr \<Rightarrow> 'e service_state
     \<Rightarrow> HksParamSet res \<times> 'e service_state" where
  "HksServiceGetKeyParamSet env processInfo keyAlias paramSetIn paramSetOut st =
     (let ret = HksCheckGetKeyParamSetParams (Some (pi_processName processInfo)) (Some keyAlias) paramSetOut in
      if ret \<noteq> HKS_SUCCESS then (Inl ret, st)
      else next_res (use_key env processInfo keyAlias paramSetIn
          (\<lambda>key newParamSet e. map_prod rc_res id (HuksAccessGetKeyProperties (ce_hdi env) newParamSet key e)) st)
        (\<lambda>(_, keyFromFile) st. (GetKeyParamSet (ce_alloc env) keyFromFile (the paramSetOut), st)))"

section \<open>Deleting, looking up, listing\<close>

definition HksServiceDeleteKey ::
    "'e client_env \<Rightarrow> HksProcessInfo \<Rightarrow> HksBlob \<Rightarrow> HksParamSet ptr \<Rightarrow> 'e service_state \<Rightarrow> rc \<times> 'e service_state" where
  "HksServiceDeleteKey env processInfo keyAlias paramSet st =
     (let ret = HksCheckProcessNameAndKeyAlias (Some (pi_processName processInfo)) (Some keyAlias) in
      if ret \<noteq> HKS_SUCCESS then (ret, st)
      else case AppendStorageLevelIfNotExistInner (ce_alloc env) (ce_config env) (Some processInfo) paramSet of
        Inl ret \<Rightarrow> (ret, st)
      | Inr newParamSet \<Rightarrow>
          on_files (HksManageStoreDeleteKeyBlob (ce_storage env) processInfo (Some newParamSet) (Some keyAlias)
            HKS_STORAGE_TYPE_KEY) st)"

definition HksServiceKeyExist ::
    "'e client_env \<Rightarrow> HksProcessInfo \<Rightarrow> HksBlob \<Rightarrow> HksParamSet ptr \<Rightarrow> 'e service_state \<Rightarrow> rc \<times> 'e service_state" where
  "HksServiceKeyExist env processInfo keyAlias paramSet st =
     (let ret = HksCheckProcessNameAndKeyAlias (Some (pi_processName processInfo)) (Some keyAlias) in
      if ret \<noteq> HKS_SUCCESS then (ret, st)
      else case AppendStorageLevelIfNotExistInner (ce_alloc env) (ce_config env) (Some processInfo) paramSet of
        Inl ret \<Rightarrow> (ret, st)
      | Inr newParamSet \<Rightarrow>
          on_files (HksManageStoreIsKeyBlobExist (ce_storage env) processInfo (Some newParamSet) (Some keyAlias)
            HKS_STORAGE_TYPE_KEY) st)"

text \<open>The code and the outcome of \<open>HksManageGetKeyCountByProcessName\<close>, of which only the code is used.\<close>

definition CheckKeyCondition ::
    "'e client_env \<Rightarrow> HksProcessInfo \<Rightarrow> HksBlob \<Rightarrow> HksParamSet ptr \<Rightarrow> 'e service_state \<Rightarrow> rc \<times> 'e service_state" where
  "CheckKeyCondition env processInfo keyAlias paramSet st =
     (case HksServiceDeleteKey env processInfo keyAlias paramSet st of (ret, st) \<Rightarrow>
        if ret \<noteq> HKS_SUCCESS \<and> ret \<noteq> HKS_ERROR_NOT_EXIST then (ret, st)
        else case on_files (HksManageGetKeyCountByProcessName (ce_storage env) processInfo paramSet) st of
          (Inl ret, st) \<Rightarrow> (ret, st)
        | (Inr _, st) \<Rightarrow> (HKS_SUCCESS, st))"

text \<open>The loop that reads the properties of the keys found, into the buffers of the caller.\<close>

fun key_info_loop ::
    "'e client_env \<Rightarrow> HksProcessInfo \<Rightarrow> HksParamSet ptr \<Rightarrow> HksKeyInfo list \<Rightarrow> 'e service_state
     \<Rightarrow> HksKeyInfo list res \<times> 'e service_state" where
  "key_info_loop env processInfo paramSet [] st = (Inr [], st)"
| "key_info_loop env processInfo paramSet (i # is) st =
     next_res (on_files (GetKeyFileData (ce_storage env) processInfo paramSet (ki_alias i) HKS_STORAGE_TYPE_KEY) st)
       (\<lambda>keyFromFile st.
     next_res (GetKeyParamSet (ce_alloc env) keyFromFile (the (ki_paramSet i)), st) (\<lambda>ps st.
     next_res (key_info_loop env processInfo paramSet is st) (\<lambda>infos st.
       (Inr (i\<lparr>ki_paramSet := Some ps\<rparr> # infos), st))))"

definition HksServiceGetKeyInfoList ::
    "'e client_env \<Rightarrow> HksProcessInfo \<Rightarrow> HksParamSet ptr \<Rightarrow> HksKeyInfo list \<Rightarrow> nat \<Rightarrow> 'e service_state
     \<Rightarrow> (HksKeyInfo list \<times> nat) res option \<times> 'e service_state" where
  "HksServiceGetKeyInfoList env processInfo paramSet keyInfoList listCount st =
     (let ret = HksCheckGetKeyInfoListParams (Some (pi_processName processInfo)) (Some keyInfoList) (Some listCount) in
      if ret \<noteq> HKS_SUCCESS then (Some (Inl ret), st)
      else case AppendStorageLevelIfNotExistInner (ce_alloc env) (ce_config env) (Some processInfo) paramSet of
        Inl ret \<Rightarrow> (Some (Inl ret), st)
      | Inr newParamSet \<Rightarrow>
          case on_files (HksManageGetKeyAliasByProcessName (ce_storage env) processInfo (Some newParamSet)
              keyInfoList listCount) st of
            (NULL, st) \<Rightarrow> (NULL, st)
          | (Some (Inl ret), st) \<Rightarrow> (Some (Inl ret), st)
          | (Some (Inr (infos, n)), st) \<Rightarrow>
              (case key_info_loop env processInfo (Some newParamSet) (take n infos) st of
                 (Inl ret, st) \<Rightarrow> (Some (Inl ret), st)
               | (Inr found, st) \<Rightarrow> (Some (Inr (found @ drop n infos, n)), st)))"

definition HksServiceListAliases ::
    "'e client_env \<Rightarrow> HksProcessInfo \<Rightarrow> HksParamSet ptr \<Rightarrow> 'e service_state
     \<Rightarrow> HksKeyAliasSet ptr res \<times> 'e service_state" where
  "HksServiceListAliases env processInfo paramSet st =
     (case AppendStorageLevelIfNotExistInner (ce_alloc env) (ce_config env) (Some processInfo) paramSet of
        Inl ret \<Rightarrow> (Inl ret, st)
      | Inr newParamSet \<Rightarrow>
          let ret = HksCheckListAliasesParam (Some (pi_processName processInfo)) in
          if ret \<noteq> HKS_SUCCESS then (Inl ret, st)
          else on_files (HksManageListAliasesByProcessName (ce_storage env) processInfo (Some newParamSet)) st)"

text \<open>
  The operations of \<open>hks_client_service.c\<close> that make keys, and those of several calls: a session in the
  session manager and a key node in the engine, both under the handle that \<open>HuksAccessInit\<close> gives.
\<close>

section \<open>The key that a new key is agreed from\<close>

definition GetAgreeStoreKey ::
    "'e client_env \<Rightarrow> u32 \<Rightarrow> HksProcessInfo \<Rightarrow> HksParamSet \<Rightarrow> 'e service_state \<Rightarrow> HksBlob res \<times> 'e service_state" where
  "GetAgreeStoreKey env keyAliasTag processInfo paramSet st =
     (case HksGetParam (Some paramSet) keyAliasTag of
        Inl ret \<Rightarrow> (Inl ret, st)
      | Inr keyAliasParam \<Rightarrow>
          if blob_size (blobParam (p_val keyAliasParam)) > HKS_MAX_KEY_ALIAS_LEN
          then (Inl HKS_ERROR_INVALID_ARGUMENT, st)
          else GetKeyData env processInfo (blobParam (p_val keyAliasParam)) (Some paramSet) HKS_STORAGE_TYPE_KEY st)"

definition SIZEOF_PUB_KEY_INFO :: nat where "SIZEOF_PUB_KEY_INFO = 20"

text \<open>The header \<open>struct HksPubKeyInfo\<close> (algorithm, size in bits, size of x, two zeros), then the key.\<close>

definition TranslateToInnerCurve25519Format :: "allocator \<Rightarrow> u32 \<Rightarrow> HksBlob \<Rightarrow> HksBlob res" where
  "TranslateToInnerCurve25519Format alloc alg key =
     (if blob_size key \<noteq> HKS_KEY_BYTES HKS_CURVE25519_KEY_SIZE_256 then Inl HKS_ERROR_INVALID_KEY_INFO
      else
        let totalSize = word_of_nat SIZEOF_PUB_KEY_INFO + blob_size key in
        if \<not> HksMalloc alloc (unat totalSize) then Inl HKS_ERROR_MALLOC_FAIL
        else Inr \<lparr>blob_size = totalSize,
          blob_data = Some (to_le 4 alg @ to_le 4 HKS_CURVE25519_KEY_SIZE_256 @ to_le 4 (blob_size key)
            @ replicate 8 0 @ take (unat (blob_size key)) (blob_bytes key))\<rparr>)"

definition GetAgreePublicKey ::
    "'e client_env \<Rightarrow> u32 \<Rightarrow> HksProcessInfo \<Rightarrow> HksParamSet \<Rightarrow> 'e service_state \<Rightarrow> HksBlob res \<times> 'e service_state" where
  "GetAgreePublicKey env alg processInfo paramSet st =
     (if (case HksGetParam (Some paramSet) HKS_TAG_AGREE_PUBLIC_KEY_IS_KEY_ALIAS of
            Inr isKeyAliasParam \<Rightarrow> \<not> boolParam (p_val isKeyAliasParam) | Inl _ \<Rightarrow> False)
      then (try_res (HksGetParam (Some paramSet) HKS_TAG_AGREE_PUBLIC_KEY) (\<lambda>keyParam.
              TranslateToInnerCurve25519Format (ce_alloc env) alg (blobParam (p_val keyParam))), st)
      else GetAgreeStoreKey env HKS_TAG_AGREE_PUBLIC_KEY processInfo paramSet st)"

definition GetAgreePrivateKey ::
    "'e client_env \<Rightarrow> HksProcessInfo \<Rightarrow> HksParamSet \<Rightarrow> 'e service_state \<Rightarrow> HksBlob res \<times> 'e service_state" where
  "GetAgreePrivateKey env processInfo paramSet st =
     GetAgreeStoreKey env HKS_TAG_AGREE_PRIVATE_KEY_ALIAS processInfo paramSet st"

text \<open>The sizes of both (\<open>struct Hks25519KeyPair\<close>), then the public and the private key.\<close>

definition ConbineIntoKeyPair :: "allocator \<Rightarrow> HksBlob \<Rightarrow> HksBlob \<Rightarrow> HksBlob res" where
  "ConbineIntoKeyPair alloc privateKey publicKey =
     (let sz = 8 + blob_size privateKey + blob_size publicKey in
      if \<not> HksMalloc alloc (unat sz) then Inl HKS_ERROR_MALLOC_FAIL
      else Inr \<lparr>blob_size = sz,
        blob_data = Some (to_le 4 (blob_size publicKey) @ to_le 4 (blob_size privateKey)
          @ take (unat (blob_size publicKey)) (blob_bytes publicKey)
          @ take (unat (blob_size privateKey)) (blob_bytes privateKey))\<rparr>)"

definition GetAgreeKeyPair ::
    "'e client_env \<Rightarrow> u32 \<Rightarrow> HksProcessInfo \<Rightarrow> HksParamSet \<Rightarrow> 'e service_state \<Rightarrow> HksBlob res \<times> 'e service_state" where
  "GetAgreeKeyPair env alg processInfo paramSet st =
     next_res (GetAgreePublicKey env alg processInfo paramSet st) (\<lambda>publicKey st.
     next_res (GetAgreePrivateKey env processInfo paramSet st) (\<lambda>privateKey st.
     (ConbineIntoKeyPair (ce_alloc env) privateKey publicKey, st)))"

text \<open>An empty blob stands for a key that was left as it was.\<close>

definition GetAgreeBaseKey ::
    "'e client_env \<Rightarrow> HksProcessInfo \<Rightarrow> HksParamSet \<Rightarrow> 'e service_state \<Rightarrow> HksBlob res \<times> 'e service_state" where
  "GetAgreeBaseKey env processInfo paramSet st =
     (case HksGetParam (Some paramSet) HKS_TAG_ALGORITHM of
        Inl _ \<Rightarrow> (Inl HKS_ERROR_CHECK_GET_ALG_FAIL, st)
      | Inr keyAlgParam \<Rightarrow>
          if uint32Param (p_val keyAlgParam) \<noteq> HKS_ALG_AES then (Inr empty_blob, st)
          else case HksGetParam (Some paramSet) HKS_TAG_AGREE_ALG of
            Inl _ \<Rightarrow> (Inl HKS_ERROR_CHECK_GET_ALG_FAIL, st)
          | Inr agreeAlgParam \<Rightarrow>
              let alg = uint32Param (p_val agreeAlgParam) in
              if alg \<noteq> HKS_ALG_X25519 \<and> alg \<noteq> HKS_ALG_ED25519 then (Inl HKS_ERROR_INVALID_ALGORITHM, st)
              else GetAgreeKeyPair env alg processInfo paramSet st)"

definition GetDeriveMainKey ::
    "'e client_env \<Rightarrow> HksProcessInfo \<Rightarrow> HksParamSet \<Rightarrow> 'e service_state \<Rightarrow> HksBlob res \<times> 'e service_state" where
  "GetDeriveMainKey env processInfo paramSet st =
     (case HksGetParam (Some paramSet) HKS_TAG_KEY_GENERATE_TYPE of
        Inl _ \<Rightarrow> (Inr empty_blob, st)
      | Inr keyGenTypeParam \<Rightarrow>
          let ty = uint32Param (p_val keyGenTypeParam) in
          if ty = HKS_KEY_GENERATE_TYPE_AGREE then GetAgreeBaseKey env processInfo paramSet st
          else if ty = HKS_KEY_GENERATE_TYPE_DEFAULT then (Inr empty_blob, st)
          else (Inl HKS_ERROR_INVALID_ARGUMENT, st))"

definition GetKeyIn ::
    "'e client_env \<Rightarrow> HksProcessInfo \<Rightarrow> HksParamSet \<Rightarrow> 'e service_state \<Rightarrow> HksBlob res \<times> 'e service_state" where
  "GetKeyIn env processInfo paramSet st =
     next_res (GetDeriveMainKey env processInfo paramSet st) (\<lambda>key st.
       if blob_data key = NULL then
         (if \<not> HksMalloc (ce_alloc env) 1 then (Inl HKS_ERROR_MALLOC_FAIL, st)
          else (Inr \<lparr>blob_size = 1, blob_data = Some [0]\<rparr>, st))
       else (Inr key, st))"

section \<open>New keys\<close>

text \<open>A buffer of the service for the key blob that the engine makes.\<close>

definition key_buffer :: HksBlob where
  "key_buffer = \<lparr>blob_size = MAX_KEY_SIZE, blob_data = Some (replicate (unat MAX_KEY_SIZE) 0)\<rparr>"

text \<open>
  The buffer for the key is the caller's if there is one; the caller then finds the key in it, but its
  \<open>size\<close> as before.
\<close>

definition HksServiceGenerateKey ::
    "'e client_env \<Rightarrow> HksProcessInfo \<Rightarrow> HksBlob \<Rightarrow> HksParamSet ptr \<Rightarrow> HksBlob ptr \<Rightarrow> 'e service_state
     \<Rightarrow> HksBlob ptr res \<times> 'e service_state" where
  "HksServiceGenerateKey env processInfo keyAlias paramSetIn keyOut st =
     (if \<not> HksMalloc (ce_alloc env) (unat MAX_KEY_SIZE) then (Inl HKS_ERROR_MALLOC_FAIL, st)
      else
        let given = (case keyOut of NULL \<Rightarrow> False | Some b \<Rightarrow> blob_data b \<noteq> NULL \<and> blob_size b \<noteq> 0);
            output = (if given then the keyOut else key_buffer);
            ret = HksCheckGenAndImportKeyParams (Some (pi_processName processInfo)) (Some keyAlias) paramSetIn (Some output) in
        if ret \<noteq> HKS_SUCCESS then (Inl ret, st)
        else case AppendNewInfoForGenKeyInService env processInfo paramSetIn of
          Inl ret \<Rightarrow> (Inl ret, st)
        | Inr newParamSet \<Rightarrow>
            next_rc (CheckKeyCondition env processInfo keyAlias (Some newParamSet) st) (\<lambda>st.
            next_res (GetKeyIn env processInfo newParamSet st) (\<lambda>keyIn st.
            next_res (on_engine (HuksAccessGenerateKey (ce_hdi env) keyAlias (Some newParamSet) keyIn output) st)
              (\<lambda>output st.
            next_rc (on_files (HksManageStoreKeyBlob (ce_storage env) processInfo (Some newParamSet) (Some keyAlias)
                output HKS_STORAGE_TYPE_KEY) st) (\<lambda>st.
            (Inr (if given then map_option (\<lambda>b. b\<lparr>blob_data := blob_data output\<rparr>) keyOut else keyOut), st))))))"

definition HksServiceImportKey ::
    "'e client_env \<Rightarrow> HksProcessInfo \<Rightarrow> HksBlob \<Rightarrow> HksParamSet ptr \<Rightarrow> HksBlob \<Rightarrow> 'e service_state
     \<Rightarrow> unit res \<times> 'e service_state" where
  "HksServiceImportKey env processInfo keyAlias paramSet key st =
     (let ret = HksCheckGenAndImportKeyParams (Some (pi_processName processInfo)) (Some keyAlias) paramSet (Some key) in
      if ret \<noteq> HKS_SUCCESS then (Inl ret, st)
      else case AppendNewInfoForGenKeyInService env processInfo paramSet of
        Inl ret \<Rightarrow> (Inl ret, st)
      | Inr newParamSet \<Rightarrow>
          next_rc (CheckKeyCondition env processInfo keyAlias (Some newParamSet) st) (\<lambda>st.
          if \<not> HksMalloc (ce_alloc env) (unat MAX_KEY_SIZE) then (Inl HKS_ERROR_MALLOC_FAIL, st)
          else
            next_res (on_engine (HuksAccessImportKey (ce_hdi env) keyAlias key (Some newParamSet) key_buffer) st)
              (\<lambda>keyOut st.
            next_rc (on_files (HksManageStoreKeyBlob (ce_storage env) processInfo (Some newParamSet) (Some keyAlias)
                keyOut HKS_STORAGE_TYPE_KEY) st) (\<lambda>st. (Inr (), st)))))"

definition HksServiceImportWrappedKey ::
    "'e client_env \<Rightarrow> HksProcessInfo \<Rightarrow> HksBlob \<Rightarrow> HksBlob \<Rightarrow> HksParamSet ptr \<Rightarrow> HksBlob \<Rightarrow> 'e service_state
     \<Rightarrow> unit res \<times> 'e service_state" where
  "HksServiceImportWrappedKey env processInfo keyAlias wrappingKeyAlias paramSet wrappedKeyData st =
     (let ret = HksCheckImportWrappedKeyParams (Some (pi_processName processInfo)) (Some keyAlias)
          (Some wrappingKeyAlias) paramSet (Some wrappedKeyData) in
      if ret \<noteq> HKS_SUCCESS then (Inl ret, st)
      else
        next_rc (HksServiceKeyExist env processInfo wrappingKeyAlias paramSet st) (\<lambda>st.
        next_res (GetKeyAndNewParamSetInForGenKeyInService env processInfo wrappingKeyAlias paramSet st)
          (\<lambda>(wrappingKeyFromFile, newParamSet) st.
        next_rc (CheckKeyCondition env processInfo keyAlias (Some newParamSet) st) (\<lambda>st.
        if \<not> HksMalloc (ce_alloc env) (unat MAX_KEY_SIZE) then (Inl HKS_ERROR_MALLOC_FAIL, st)
        else
          next_res (on_engine (HuksAccessImportWrappedKey (ce_hdi env) wrappingKeyAlias wrappingKeyFromFile
              wrappedKeyData (Some newParamSet) key_buffer) st) (\<lambda>keyOut st.
          next_rc (on_files (HksManageStoreKeyBlob (ce_storage env) processInfo (Some newParamSet) (Some keyAlias)
              keyOut HKS_STORAGE_TYPE_KEY) st) (\<lambda>st. (Inr (), st)))))))"

text \<open>The caller's buffer, or the files of the key that the caller named.\<close>

definition StoreOrCopyKeyBlob ::
    "'e client_env \<Rightarrow> HksParamSet \<Rightarrow> HksProcessInfo \<Rightarrow> HksBlob \<Rightarrow> HksBlob \<Rightarrow> bool \<Rightarrow> 'e service_state
     \<Rightarrow> HksBlob res \<times> 'e service_state" where
  "StoreOrCopyKeyBlob env paramSet processInfo output outData isNeedStorage st =
     (if \<not> isNeedStorage then
        (if blob_size outData \<noteq> 0 then
           (case memcpy_to outData 0 (blob_size outData) (blob_data output) (unat (blob_size output)) of
              (False, _) \<Rightarrow> (Inl HKS_ERROR_INSUFFICIENT_MEMORY, st)
            | (True, outData) \<Rightarrow> (Inr (outData\<lparr>blob_size := blob_size output\<rparr>), st))
         else (Inr (outData\<lparr>blob_size := blob_size output\<rparr>), st))
      else case HksGetParam (Some paramSet) HKS_TAG_KEY_ALIAS of
        Inl ret \<Rightarrow> (Inl ret, st)
      | Inr keyAliasParam \<Rightarrow>
          let keyAlias = blobParam (p_val keyAliasParam) in
          if blob_size keyAlias > HKS_MAX_KEY_ALIAS_LEN then (Inl HKS_ERROR_INVALID_ARGUMENT, st)
          else
            next_rc (CheckKeyCondition env processInfo keyAlias (Some paramSet) st) (\<lambda>st.
            next_rc (on_files (HksManageStoreKeyBlob (ce_storage env) processInfo (Some paramSet) (Some keyAlias)
                output HKS_STORAGE_TYPE_KEY) st) (\<lambda>st. (Inr outData, st))))"

section \<open>Attestation\<close>

definition DcmGenerateCertChainInAttestKey ::
    "'e client_env \<Rightarrow> HksParamSet ptr \<Rightarrow> HksBlob \<Rightarrow> u32 \<Rightarrow> HksBlob res" where
  "DcmGenerateCertChainInAttestKey env paramSet certChain certChainCapacity =
     (if \<not> HksAttestIsAnonymous paramSet then Inr certChain
      else
        let ret = DcmGenerateCertChain env certChain in
        if_not_succ_return ret (Inl ret)
          (Inr \<lparr>blob_size = certChainCapacity, blob_data = Some (replicate (unat certChainCapacity) 0)\<rparr>))"

text \<open>
  There is no result when the first set could not be made with one of the codes of \<open>try_backup\<close>: the
  application information is then added to a null pointer.
\<close>

definition HksServiceAttestKey ::
    "'e client_env \<Rightarrow> HksProcessInfo \<Rightarrow> HksBlob \<Rightarrow> HksParamSet ptr \<Rightarrow> HksBlob \<Rightarrow> 'e service_state
     \<Rightarrow> HksBlob res option \<times> 'e service_state" where
  "HksServiceAttestKey env processInfo keyAlias paramSet certChain st =
     (let ret = HksCheckAttestKeyParams (Some (pi_processName processInfo)) (Some keyAlias) paramSet (Some certChain) in
      if ret \<noteq> HKS_SUCCESS then (Some (Inl ret), st)
      else
        let (keyFromFile, processInfoParamSet, st) = GetKeyAndNewParamSet env processInfo keyAlias paramSet st;
            attest = (\<lambda>key newParamSet. on_engine (HuksAccessAttestKey (ce_hdi env) key (Some newParamSet) certChain));
            finish = (\<lambda>r. map_prod (\<lambda>r. Some (try_res r (\<lambda>chain.
              DcmGenerateCertChainInAttestKey env paramSet chain (blob_size certChain)))) id r);
            backup = (\<lambda>st.
              case processInfoParamSet of NULL \<Rightarrow> (NULL, st)
              | Some infoSet \<Rightarrow>
                  case AddAppInfoToParamSet env processInfo infoSet of
                    Inl ret \<Rightarrow> (Some (Inl ret), st)
                  | Inr newParamSet \<Rightarrow>
                      finish (next_res (GetKeyData env processInfo keyAlias (Some newParamSet) HKS_STORAGE_TYPE_BAK_KEY st)
                        (\<lambda>key st. attest key newParamSet st))) in
        case keyFromFile of
          Inl ret \<Rightarrow> if try_backup ret then backup st else (Some (Inl ret), st)
        | Inr key \<Rightarrow>
            case AddAppInfoToParamSet env processInfo (the processInfoParamSet) of
              Inl ret \<Rightarrow> (Some (Inl ret), st)
            | Inr newParamSet \<Rightarrow>
                case attest key newParamSet st of
                  (Inr chain, st) \<Rightarrow> finish (Inr chain, st)
                | (Inl ret, st) \<Rightarrow> if try_backup ret then backup st else (Some (Inl ret), st))"

section \<open>Operations of several calls\<close>

text \<open>The session is made from the set of the request, not from the new one.\<close>

definition HksServiceInit ::
    "'e client_env \<Rightarrow> HksProcessInfo \<Rightarrow> HksBlob \<Rightarrow> HksParamSet ptr \<Rightarrow> HksBlob \<Rightarrow> HksBlob \<Rightarrow> 'e service_state
     \<Rightarrow> (HksBlob \<times> HksBlob) res \<times> 'e service_state" where
  "HksServiceInit env processInfo key paramSet handle token st =
     (let ret = HksCheckServiceInitParams (Some (pi_processName processInfo)) (Some key) paramSet in
      if ret \<noteq> HKS_SUCCESS then (Inl ret, st)
      else
        next_res (use_key_for env processInfo key paramSet
          (\<lambda>keyFromFile newParamSet. HuksAccessInit (ce_hdi env) keyFromFile newParamSet handle token) st)
          (\<lambda>(handle, token) st.
        next_rc (on_sessions env (CreateOperation (ce_alloc env) (ce_fresh env) (ce_elapsed env) (ce_clock env)
            processInfo paramSet handle True) st) (\<lambda>st. (Inr (handle, token), st))))"

definition HksServiceCheckBatchUpdateTime :: "u64 res \<Rightarrow> HksOperation \<Rightarrow> rc" where
  "HksServiceCheckBatchUpdateTime elapsed operation =
     try_rc elapsed (\<lambda>curTime.
       if op_batchOperationTimestamp operation < curTime then HKS_ERROR_INVALID_TIME_OUT else HKS_SUCCESS)"

text \<open>Giving the session back, and giving it back and deleting it.\<close>

definition give_back :: "HksOperation \<Rightarrow> 'e service_state \<Rightarrow> 'e service_state" where
  "give_back operation st = st\<lparr>sv_sessions := MarkOperationUnUse (Some operation) (sv_sessions st)\<rparr>"

definition end_session :: "HksBlob \<Rightarrow> HksOperation \<Rightarrow> 'e service_state \<Rightarrow> 'e service_state" where
  "end_session handle operation st =
     st\<lparr>sv_sessions := DeleteOperation handle (MarkOperationUnUse (Some operation) (sv_sessions st))\<rparr>"

text \<open>The new set of a call on a session, and the permission to use it.\<close>

definition session_params ::
    "'e client_env \<Rightarrow> HksProcessInfo \<Rightarrow> HksParamSet ptr \<Rightarrow> HksOperation \<Rightarrow> HksParamSet res" where
  "session_params env processInfo paramSet operation =
     try_res (AppendProcessInfoAndDefaultStrategy env paramSet processInfo (Some operation)) (\<lambda>newParamSet.
       let ret = HksCheckAcrossAccountsPermission env (Some newParamSet) (pi_userIdInt processInfo) in
       if_not_succ_return ret (Inl ret) (Inr newParamSet))"

definition HksServiceUpdate ::
    "'e client_env \<Rightarrow> HksBlob \<Rightarrow> HksProcessInfo \<Rightarrow> HksParamSet ptr \<Rightarrow> HksBlob \<Rightarrow> HksBlob \<Rightarrow> 'e service_state
     \<Rightarrow> HksBlob res \<times> 'e service_state" where
  "HksServiceUpdate env handle processInfo paramSet inData outData st =
     (case on_sessions env (QueryOperationAndMarkInUse processInfo handle) st of
        (NULL, st) \<Rightarrow> (Inl HKS_ERROR_NOT_EXIST, st)
      | (Some operation, st) \<Rightarrow>
          if op_accessTokenId operation \<noteq> pi_accessTokenId processInfo
          then (Inl HKS_ERROR_BAD_STATE, give_back operation st)
          else
            let ret = (if op_isBatchOperation operation
                then HksServiceCheckBatchUpdateTime (ce_elapsed env) operation else HKS_SUCCESS) in
            if ret \<noteq> HKS_SUCCESS then (Inl ret, end_session handle operation st)
            else case session_params env processInfo paramSet operation of
              Inl ret \<Rightarrow> (Inl ret, give_back operation st)
            | Inr newParamSet \<Rightarrow>
                case on_engine (HuksAccessUpdate (ce_hdi env) handle (Some newParamSet) inData outData) st of
                  (Inl ret, st) \<Rightarrow> (Inl ret, end_session handle operation st)
                | (Inr outData, st) \<Rightarrow> (Inr outData, give_back operation st))"

text \<open>When the tokens differ the operation is not given to the caller, which cannot give it back.\<close>

definition AppendAndQueryInFinish ::
    "'e client_env \<Rightarrow> HksBlob \<Rightarrow> HksProcessInfo \<Rightarrow> 'e service_state \<Rightarrow> HksOperation res \<times> 'e service_state" where
  "AppendAndQueryInFinish env handle processInfo st =
     (case on_sessions env (QueryOperationAndMarkInUse processInfo handle) st of
        (NULL, st) \<Rightarrow> (Inl HKS_ERROR_NOT_EXIST, st)
      | (Some operation, st) \<Rightarrow>
          if op_accessTokenId operation \<noteq> pi_accessTokenId processInfo then (Inl HKS_ERROR_BAD_STATE, st)
          else (Inr operation, st))"

definition InitOutputDataForFinish :: "allocator \<Rightarrow> HksBlob \<Rightarrow> HksBlob \<Rightarrow> bool \<Rightarrow> HksBlob res" where
  "InitOutputDataForFinish alloc output outData isStorage =
     (if \<not> HksMalloc alloc (unat (blob_size output)) then Inl HKS_ERROR_MALLOC_FAIL
      else
        let output = output\<lparr>blob_data := Some (replicate (unat (blob_size output)) 0)\<rparr> in
        if \<not> isStorage then
          (case memcpy_to output 0 (blob_size output) (blob_data outData) (unat (blob_size outData)) of
             (False, _) \<Rightarrow> Inl HKS_ERROR_INSUFFICIENT_MEMORY
           | (True, output) \<Rightarrow> Inr output)
        else Inr output)"

definition HksServiceFinish ::
    "'e client_env \<Rightarrow> HksBlob \<Rightarrow> HksProcessInfo \<Rightarrow> HksParamSet ptr \<Rightarrow> HksBlob \<Rightarrow> HksBlob \<Rightarrow> 'e service_state
     \<Rightarrow> HksBlob res \<times> 'e service_state" where
  "HksServiceFinish env handle processInfo paramSet inData outData st =
     (let (ret, isNeedStorage) = HksCheckKeyNeedStored paramSet False;
          outSize = (if ret = HKS_SUCCESS \<and> isNeedStorage then MAX_KEY_SIZE else blob_size outData);
          output = \<lparr>blob_size = outSize, blob_data = NULL\<rparr> in
      case (if outSize \<noteq> 0 then InitOutputDataForFinish (ce_alloc env) output outData isNeedStorage
            else Inr output) of
        Inl ret \<Rightarrow> (Inl ret, st)
      | Inr output \<Rightarrow>
          case AppendAndQueryInFinish env handle processInfo st of
            (Inl ret, st) \<Rightarrow> (Inl ret, st)
          | (Inr operation, st) \<Rightarrow>
              map_prod id (end_session handle operation)
                (case session_params env processInfo paramSet operation of
                   Inl ret \<Rightarrow> (Inl ret, st)
                 | Inr newParamSet \<Rightarrow>
                     next_res (on_engine (HuksAccessFinish (ce_hdi env) handle (Some newParamSet) inData output) st)
                       (\<lambda>output st. StoreOrCopyKeyBlob env newParamSet processInfo output outData isNeedStorage st)))"

text \<open>An unknown handle is a success. The code of the engine is passed on, but the session ends in any case.\<close>

definition HksServiceAbort ::
    "'e client_env \<Rightarrow> HksBlob \<Rightarrow> HksProcessInfo \<Rightarrow> HksParamSet ptr \<Rightarrow> 'e service_state \<Rightarrow> rc \<times> 'e service_state" where
  "HksServiceAbort env handle processInfo paramSet st =
     (case on_sessions env (QueryOperationAndMarkInUse processInfo handle) st of
        (NULL, st) \<Rightarrow> (HKS_SUCCESS, st)
      | (Some operation, st) \<Rightarrow>
          case session_params env processInfo paramSet operation of
            Inl ret \<Rightarrow> (ret, give_back operation st)
          | Inr newParamSet \<Rightarrow>
              map_prod id (end_session handle operation)
                (on_engine (HuksAccessAbort (ce_hdi env) handle (Some newParamSet)) st))"

section \<open>The rest\<close>

definition HksServiceDeleteProcessInfo :: "'e client_env \<Rightarrow> HksProcessInfo \<Rightarrow> 'e service_state \<Rightarrow> 'e service_state" where
  "HksServiceDeleteProcessInfo env processInfo st =
     (let st = snd (on_sessions env (\<lambda>ss. ((), DeleteSessionByProcessInfo (ce_alloc env) processInfo ss)) st) in
      st\<lparr>sv_files :=
        (if blob_size (pi_processName processInfo) = 0
         then HksServiceDeleteUserIDKeyAliasFile (ce_storage env) (pi_userId processInfo) (sv_files st)
         else HksServiceDeleteUIDKeyAliasFile (ce_storage env) processInfo (sv_files st))\<rparr>)"

definition HksServiceGenerateRandom ::
    "'e client_env \<Rightarrow> HksProcessInfo \<Rightarrow> HksBlob \<Rightarrow> 'e service_state \<Rightarrow> HksBlob res \<times> 'e service_state" where
  "HksServiceGenerateRandom env processInfo random st =
     (let ret = HksCheckGenerateRandomParams (Some (pi_processName processInfo)) (Some random) in
      if ret \<noteq> HKS_SUCCESS then (Inl ret, st)
      else case AppendProcessInfoAndDefaultStrategy env NULL processInfo NULL of
        Inl ret \<Rightarrow> (Inl ret, st)
      | Inr newParamSet \<Rightarrow> on_engine (HuksAccessGenerateRandom (ce_hdi env) (Some newParamSet) random) st)"

definition HksServiceExportChipsetPlatformPublicKey ::
    "'e client_env \<Rightarrow> HksBlob \<Rightarrow> u32 \<Rightarrow> HksBlob \<Rightarrow> 'e service_state \<Rightarrow> (HksBlob res \<times> 'e service_state) option" where
  "HksServiceExportChipsetPlatformPublicKey env salt scene publicKey st =
     map_option (\<lambda>(r, e). (r, st\<lparr>sv_engine := e\<rparr>))
       (HuksAccessExportChipsetPlatformPublicKey (ce_hdi env) salt scene publicKey (sv_engine st))"

definition HksServiceInitialize :: "'e client_env \<Rightarrow> 'e service_state \<Rightarrow> rc \<times> 'e service_state" where
  "HksServiceInitialize env st =
     (case on_engine (HuksAccessModuleInit (ce_hdi env)) st of (ret, st) \<Rightarrow>
        if ret \<noteq> HKS_SUCCESS then (ret, st) else (HksInitPluginProxy env, st))"

definition HksServiceRefreshKeyInfo :: "'e client_env \<Rightarrow> HksBlob \<Rightarrow> 'e service_state \<Rightarrow> rc \<times> 'e service_state" where
  "HksServiceRefreshKeyInfo env processName st =
     (case on_files (HksStoreDestroy (ce_storage env) processName) st of (ret, st) \<Rightarrow>
        if ret \<noteq> HKS_SUCCESS then (ret, st) else on_engine (HuksAccessRefresh (ce_hdi env)) st)"

end
