(* ===== verification/Huks_Client_Laws.thy ===== *)
theory Huks_Client_Laws
  imports Huks_Client_Service Huks_Built_Sets
begin

text \<open>
  What the sets that the service makes contain, and what its calls do to the parts of its state.
\<close>

section \<open>Sets\<close>

lemma add_params_Inr: "add_params ps qs = Inr ps' \<Longrightarrow> params ps' = params ps @ qs \<and> ps_tail ps' = ps_tail ps"
proof -
  assume a: "add_params ps qs = Inr ps'"
  obtain ret qs' where l: "add_params_loop ps qs = (ret, qs')"
    by fastforce
  then have "ret = 0" "qs' = ps'" "CheckBeforeAddParams (Some ps) (Some qs) = 0"
    using a by (auto simp: add_params_def HksAddParams_def Let_def if_not_succ_return_def split: if_splits)
  then show ?thesis
    using l add_params_loop_params [of qs ps] add_params_loop_frame [of ps qs] by auto
qed

text \<open>Refreshing a set only redirects its blobs.\<close>

definition redirected :: "HksParam \<Rightarrow> HksParam \<Rightarrow> bool" where
  "redirected p q \<longleftrightarrow> p_tag q = p_tag p \<and> (is_bytes_tag (p_tag p)
     \<longrightarrow> blob_size (blobParam (p_val q)) = blob_size (blobParam (p_val p)))
   \<and> (\<not> is_bytes_tag (p_tag p) \<longrightarrow> q = p)"

lemma fresh_loop_redirects:
  "fresh_loop c sz base tail off ps = Inr (ps', out, off') \<Longrightarrow> list_all2 redirected ps ps'"
proof (induction ps arbitrary: off ps' out)
  case Nil
  then show ?case by simp
next
  case (Cons p ps)
  then show ?case
    by (auto simp: redirected_def try_res_def Let_def split: if_splits option.splits sum.splits)
qed

lemma HksFreshParamSet_redirects:
  assumes "HksFreshParamSet (Some ps) c = Inr ps'"
  shows "list_all2 redirected (params ps) (params ps')" "HksCheckParamSet (Some ps) (paramSetSize ps) = 0"
proof -
  let ?base = "SIZEOF_PARAM_SET + SIZEOF_PARAM * paramsCnt ps"
  show "HksCheckParamSet (Some ps) (paramSetSize ps) = 0"
    using assms by (auto simp: HksFreshParamSet_def if_not_succ_return_def Let_def split: if_splits)
  then have "FreshParamSet ps c = Inr ps'"
    using assms by (simp add: HksFreshParamSet_def if_not_succ_return_def Let_def)
  then obtain qs out off where "fresh_loop c (paramSetSize ps) ?base (ps_tail ps) (word_of_nat ?base) (params ps)
      = Inr (qs, out, off)" "params ps' = qs"
    by (auto simp: FreshParamSet_def Let_def try_res_def split: if_splits sum.splits)
  then show "list_all2 redirected (params ps) (params ps')"
    using fresh_loop_redirects by blast
qed

lemma new_param_set_NULL: "new_param_set alloc NULL = Inr ps \<Longrightarrow> params ps = []"
  by (auto simp: new_param_set_def HksInitParamSet_def split: if_splits)

lemma new_param_set_Some:
  assumes "new_param_set alloc (Some asked) = Inr ps"
  shows "list_all2 redirected (params asked) (params ps)"
proof -
  obtain fresh new where "HksFreshParamSet (Some asked) False = Inr fresh" "HksInitParamSet alloc = Inr new"
    "add_params new (params fresh) = Inr ps"
    using assms by (auto simp: new_param_set_def AppendToNewParamSet_service_def Let_def if_not_succ_return_def try_res_def
        split: if_splits sum.splits)
  then show ?thesis
    using HksFreshParamSet_redirects [of asked False fresh] add_params_Inr [of new "params fresh" ps]
    by (auto simp: HksInitParamSet_def split: if_splits)
qed

text \<open>The parameters of the request that is \<open>NULL\<close> or not.\<close>

definition asked_params :: "HksParamSet ptr \<Rightarrow> HksParam list" where
  "asked_params paramSet = (case paramSet of NULL \<Rightarrow> [] | Some ps \<Rightarrow> params ps)"

lemma new_param_set_Inr: "new_param_set alloc asked = Inr ps \<Longrightarrow> list_all2 redirected (asked_params asked) (params ps)"
  by (cases asked) (auto simp: asked_params_def dest: new_param_set_NULL new_param_set_Some)

lemma redirected_tags: "list_all2 redirected ps qs \<Longrightarrow> map p_tag qs = map p_tag ps"
  by (induction rule: list_all2_induct) (auto simp: redirected_def)

lemma redirected_find:
  assumes "list_all2 redirected ps qs" "\<not> is_bytes_tag t"
  shows "List.find (\<lambda>p. t = p_tag p) qs = List.find (\<lambda>p. t = p_tag p) ps"
  using assms by (induction rule: list_all2_induct) (auto simp: redirected_def)

section \<open>What is added\<close>

text \<open>A set extended by parameters of given tags.\<close>

definition extends :: "u32 set \<Rightarrow> HksParamSet \<Rightarrow> HksParamSet \<Rightarrow> bool" where
  "extends tags ps ps' \<longleftrightarrow> (\<exists>qs. params ps' = params ps @ qs \<and> p_tag ` set qs \<subseteq> tags)"

lemma extends_refl [simp, intro]: "extends tags ps ps"
  by (auto simp: extends_def)

lemma extends_add: "add_params ps qs = Inr ps' \<Longrightarrow> p_tag ` set qs \<subseteq> tags \<Longrightarrow> extends tags ps ps'"
  by (auto simp: extends_def dest!: add_params_Inr)

lemma extends_trans: "extends s ps ps' \<Longrightarrow> extends t ps' ps'' \<Longrightarrow> extends (s \<union> t) ps ps''"
proof -
  assume "extends s ps ps'" "extends t ps' ps''"
  then obtain qs rs where "params ps'' = params ps @ (qs @ rs)" "p_tag ` set qs \<subseteq> s" "p_tag ` set rs \<subseteq> t"
    by (auto simp: extends_def)
  then show ?thesis
    unfolding extends_def by (intro exI [of _ "qs @ rs"]) auto
qed

lemma AddSpecificUserId_extends:
  "AddSpecificUserIdToParamSet op ps = Inr ps' \<Longrightarrow> extends {HKS_TAG_SPECIFIC_USER_ID} ps ps'"
  by (auto simp: AddSpecificUserIdToParamSet_def intro!: extends_add split: option.splits sum.splits if_splits)

lemma AddStorageLevel_extends:
  "AddStorageLevelToParamSet config pinfo ps = Inr ps' \<Longrightarrow> extends {HKS_TAG_AUTH_STORAGE_LEVEL} ps ps'"
  by (auto simp: AddStorageLevelToParamSet_def try_res_def intro!: extends_add split: option.splits sum.splits if_splits)

lemma AppendLevelAndUser_extends:
  "AppendStorageLevelAndSpecificUserIdToParamSet config pinfo op ps = Inr ps'
     \<Longrightarrow> extends {HKS_TAG_SPECIFIC_USER_ID, HKS_TAG_AUTH_STORAGE_LEVEL} ps ps'"
  using extends_trans [of "{HKS_TAG_SPECIFIC_USER_ID}" ps _ "{HKS_TAG_AUTH_STORAGE_LEVEL}" ps']
    AddSpecificUserId_extends [of op ps] AddStorageLevel_extends [of config pinfo _ ps']
  by (auto simp: AppendStorageLevelAndSpecificUserIdToParamSet_def try_res_def insert_commute split: sum.splits)

lemma AppendOwner_extends:
  "AppendOwnerInfoForAcrossDevicesIfNeed env pinfo ps = Inr ps'
     \<Longrightarrow> extends {HKS_TAG_OWNER_ID, HKS_TAG_OWNER_TYPE} ps ps'"
  by (auto simp: AppendOwnerInfoForAcrossDevicesIfNeed_def try_res_def intro!: extends_add split: sum.splits if_splits)

text \<open>The set of a request with what the service adds, before and after it is built.\<close>

lemma AppendProcessInfo_Inr:
  assumes "AppendProcessInfoAndDefaultStrategy env asked pinfo op = Inr ps"
  obtains front rest where "list_all2 redirected (asked_params asked) front"
    "HKS_TAG_PROCESS_NAME \<notin> p_tag ` set front"
    "params ps = map norm_param (front @ process_params pinfo @ rest)"
    "p_tag ` set rest \<subseteq> {HKS_TAG_OWNER_ID, HKS_TAG_OWNER_TYPE, HKS_TAG_SPECIFIC_USER_ID, HKS_TAG_AUTH_STORAGE_LEVEL}"
    "HksCheckParamSet (Some ps) (paramSetSize ps) = 0"
proof -
  obtain n n1 n2 n3 where n: "new_param_set (ce_alloc env) asked = Inr n" "\<not> CheckProcessNameTagExist n"
    "add_params n (process_params pinfo) = Inr n1"
    "AppendOwnerInfoForAcrossDevicesIfNeed env pinfo n1 = Inr n2"
    "AppendStorageLevelAndSpecificUserIdToParamSet (ce_config env) (Some pinfo) op n2 = Inr n3"
    and b: "HksBuildParamSet (ce_alloc env) (Some n3) = Inr ps"
    using assms by (auto simp: AppendProcessInfoAndDefaultStrategy_def try_res_def split: sum.splits if_splits)
  obtain rest where r: "params n3 = params n1 @ rest"
    "p_tag ` set rest \<subseteq> {HKS_TAG_OWNER_ID, HKS_TAG_OWNER_TYPE, HKS_TAG_SPECIFIC_USER_ID, HKS_TAG_AUTH_STORAGE_LEVEL}"
    using extends_trans [OF AppendOwner_extends [OF n(4)] AppendLevelAndUser_extends [OF n(5)]]
    by (auto simp: extends_def)
  note B = HksBuildParamSet_Inr [OF b]
  have "params ps = map norm_param (params n @ process_params pinfo @ rest)"
    using add_params_Inr [OF n(3)] r(1) B by simp
  moreover have "HKS_TAG_PROCESS_NAME \<notin> p_tag ` set (params n)"
    using n(2) by (auto simp: CheckProcessNameTagExist_def list_ex_iff)
  moreover have "HksCheckParamSet (Some ps) (paramSetSize ps) = 0"
    using B by (simp add: HksCheckParamSet_0 paramsCnt_def)
  ultimately show thesis
    using that [OF new_param_set_Inr [OF n(1)]] r(2) by blast
qed

section \<open>Sets that are made without a failure\<close>

lemma get_unbuilt:
  "fitting qs \<Longrightarrow> HksGetParam (Some (unbuilt qs)) t =
    (case List.find (\<lambda>p. t = p_tag p) qs of
       None \<Rightarrow> Inl HKS_ERROR_PARAM_NOT_EXIST
     | Some p \<Rightarrow> if is_bytes_tag t \<and> CheckBlob (Some (blobParam (p_val p))) \<noteq> 0
         then Inl HKS_ERROR_INVALID_ARGUMENT else Inr p)"
  using unbuilt_check [of qs] by (simp add: HksGetParam_Some unbuilt_def)

lemma new_param_set_flat:
  assumes "\<forall>n. alloc n" "flat asked" "HksCheckParamSet (Some asked) (paramSetSize asked) = 0" "fitting (params asked)"
  shows "new_param_set alloc (Some asked) = Inr (unbuilt (params asked))"
  using assms FreshParamSet_flat [OF assms(2,3)] add_params_unbuilt [of "[]" "params asked"]
  by (simp add: new_param_set_def AppendToNewParamSet_service_def Let_def if_not_succ_return_def try_res_def
      HksFreshParamSet_def init_unbuilt)

text \<open>A request that is neither about another user nor about another device, of a process that is not skipped.\<close>

definition default_level :: "HksParam list \<Rightarrow> HksParam list" where
  "default_level qs = (if HKS_TAG_AUTH_STORAGE_LEVEL \<in> p_tag ` set qs then []
     else [\<lparr>p_tag = HKS_TAG_AUTH_STORAGE_LEVEL, p_val = VUint HKS_AUTH_STORAGE_LEVEL_CE\<rparr>])"

definition plain_config :: "config_env \<Rightarrow> HksProcessInfo \<Rightarrow> bool" where
  "plain_config config pinfo \<longleftrightarrow>
     (\<forall>info. HksMatchConfig config [] (pi_uidInt pinfo) (pi_userIdInt pinfo) (pi_accessTokenId pinfo)
        \<lparr>ti_skipTransfer = False, ti_needDe = False, ti_needFrontUser = False, ti_uid = 0, ti_userId = 0\<rparr> = info
      \<longrightarrow> (case info of Inr i \<Rightarrow> \<not> ti_skipTransfer i | Inl _ \<Rightarrow> False))"

lemma default_level_tags: "p_tag ` set (default_level qs) \<subseteq> {HKS_TAG_AUTH_STORAGE_LEVEL}"
  by (simp add: default_level_def)

lemma level_unbuilt:
  assumes "plain_config config pinfo" "fitting (qs @ default_level qs)"
  shows "AppendStorageLevelAndSpecificUserIdToParamSet config (Some pinfo) NULL (unbuilt qs)
    = Inr (unbuilt (qs @ default_level qs))"
proof -
  have f: "fitting qs"
    using assms(2) fitting_prefix by blast
  obtain i where i: "HksMatchConfig config [] (pi_uidInt pinfo) (pi_userIdInt pinfo) (pi_accessTokenId pinfo)
      \<lparr>ti_skipTransfer = False, ti_needDe = False, ti_needFrontUser = False, ti_uid = 0, ti_userId = 0\<rparr> = Inr i"
    "\<not> ti_skipTransfer i"
    using assms(1) by (auto simp: plain_config_def split: sum.splits)
  have nb: "\<not> is_bytes_tag HKS_TAG_AUTH_STORAGE_LEVEL"
    by (simp add: is_bytes_tag_def GetTagType_def)
  show ?thesis
  proof (cases "HKS_TAG_AUTH_STORAGE_LEVEL \<in> p_tag ` set qs")
    case True
    then obtain p where "List.find (\<lambda>p. HKS_TAG_AUTH_STORAGE_LEVEL = p_tag p) qs = Some p"
      using find_tag_None [of HKS_TAG_AUTH_STORAGE_LEVEL qs] by fastforce
    with True nb show ?thesis
      by (simp add: AppendStorageLevelAndSpecificUserIdToParamSet_def AddSpecificUserIdToParamSet_def try_res_def
          AddStorageLevelToParamSet_def get_unbuilt [OF f] default_level_def)
  next
    case False
    then have "List.find (\<lambda>p. HKS_TAG_AUTH_STORAGE_LEVEL = p_tag p) qs = None"
      using find_tag_None by blast
    with False i assms(2) show ?thesis
      by (simp add: AppendStorageLevelAndSpecificUserIdToParamSet_def AddSpecificUserIdToParamSet_def try_res_def
          AddStorageLevelToParamSet_def get_unbuilt [OF f] default_level_def GetStorageLevelForSkipUpgradeApp_def
          add_params_unbuilt)
  qed
qed

lemma AppendProcessInfo_flat:
  assumes "\<forall>n. ce_alloc env n" "plain_config (ce_config env) pinfo"
    "flat asked" "HksCheckParamSet (Some asked) (paramSetSize asked) = 0"
    "HKS_TAG_PROCESS_NAME \<notin> p_tag ` set (params asked)" "HKS_TAG_IS_ALLOWED_WRAP \<notin> p_tag ` set (params asked)"
    "HKS_TAG_KEY_WRAP_TYPE \<notin> p_tag ` set (params asked)"
    "fitting (params asked @ process_params pinfo @ default_level (params asked))"
  shows "AppendProcessInfoAndDefaultStrategy env (Some asked) pinfo NULL
    = Inr (built (params asked @ process_params pinfo @ default_level (params asked)))"
proof -
  let ?a = "params asked" and ?p = "process_params pinfo"
  have f: "fitting ?a" "fitting (?a @ ?p)" "fitting ((?a @ ?p) @ default_level ?a)"
    using assms(8) fitting_prefix [of ?a "?p @ default_level ?a"] fitting_prefix [of "?a @ ?p" "default_level ?a"]
    by simp_all
  have d: "default_level (?a @ ?p) = default_level ?a"
    by (auto simp: default_level_def process_params_def)
  have "HksGetParam (Some (unbuilt (?a @ ?p))) t = Inl HKS_ERROR_PARAM_NOT_EXIST"
    if "t \<in> {HKS_TAG_IS_ALLOWED_WRAP, HKS_TAG_KEY_WRAP_TYPE}" for t
    using that assms(6,7) unbuilt_check [OF f(2)] by (auto simp: HksGetParam_missing unbuilt_def process_params_def)
  then have "\<not> HksCheckIsAcrossDevices (Some (unbuilt (?a @ ?p)))"
    by (simp add: HksCheckIsAcrossDevices_def HksCheckIsAllowedWrap_def)
  moreover have "\<not> CheckProcessNameTagExist (unbuilt ?a)"
    using assms(5) by (auto simp: CheckProcessNameTagExist_def unbuilt_def list_ex_iff)
  moreover have "AppendStorageLevelAndSpecificUserIdToParamSet (ce_config env) (Some pinfo) NULL (unbuilt (?a @ ?p))
      = Inr (unbuilt ((?a @ ?p) @ default_level ?a))"
    using level_unbuilt [OF assms(2), of "?a @ ?p"] f(3) unfolding d by simp
  ultimately show ?thesis
    using new_param_set_flat [OF assms(1,3,4) f(1)] add_params_unbuilt [OF f(2)] build_unbuilt [OF f(3) assms(1)]
    by (simp add: AppendProcessInfoAndDefaultStrategy_def AppendOwnerInfoForAcrossDevicesIfNeed_def try_res_def)
qed

end
