(* ===== verification/Huks_Client_Props.thy ===== *)
theory Huks_Client_Props
  imports Huks_Client_Laws Huks_Storage_Props Huks_Session_Props Huks_Built_Sets
begin

text \<open>
  Properties of the service: whose identity a request carries, and who can use a session.
\<close>

section \<open>Identity\<close>

text \<open>A number of the request, if it has the tag, and else the one that the service adds.\<close>

definition asked_or :: "(HksParamValue \<Rightarrow> 'a) \<Rightarrow> u32 \<Rightarrow> 'a \<Rightarrow> HksParamSet ptr \<Rightarrow> 'a" where
  "asked_or f tag d asked =
     (case List.find (\<lambda>p. tag = p_tag p) (asked_params asked) of Some p \<Rightarrow> f (p_val p) | None \<Rightarrow> d)"

lemma find_append: "List.find P (xs @ ys) = (case List.find P xs of Some x \<Rightarrow> Some x | None \<Rightarrow> List.find P ys)"
  by (induction xs) auto

text \<open>A number added by the service is read unless the request has one of the same tag.\<close>

lemma identity_number:
  assumes "params ps = map norm_param (front @ added @ rest)" "list_all2 redirected (asked_params asked) front"
    "HksCheckParamSet (Some ps) (paramSetSize ps) = 0" "\<not> is_bytes_tag t"
    "List.find (\<lambda>p. t = p_tag p) added = Some q"
  shows "\<exists>p. HksGetParam (Some ps) t = Inr p \<and> f (p_val p) = asked_or f t (f (p_val q)) asked"
proof -
  have "List.find (\<lambda>p. t = p_tag p) front = List.find (\<lambda>p. t = p_tag p) (asked_params asked)"
    by (rule redirected_find [OF assms(2,4)])
  moreover have "p_tag p = t" if "List.find (\<lambda>p. t = p_tag p) qs = Some p" for p qs
    using that find_tag_Some by blast
  ultimately show ?thesis
    using assms(1,3-5) by (auto simp: HksGetParam_Some find_map_norm find_append asked_or_def norm_param_def
        simp del: map_append split: option.splits)
qed

text \<open>
  C2: Safety: the process name in the set that the engine gets is the caller's, whatever the caller asks for.
  Its access token and user are those of the request if it has parameters of these tags, and else the
  caller's; so in a set whose tags the engine checks for duplicates all three are the caller's.
\<close>

theorem request_identity:
  assumes "AppendProcessInfoAndDefaultStrategy env asked pinfo op = Inr ps"
    "blob_data (pi_processName pinfo) = Some name" "blob_size (pi_processName pinfo) \<noteq> 0"
  shows "HksGetParam (Some ps) HKS_TAG_PROCESS_NAME = Inr \<lparr>p_tag = HKS_TAG_PROCESS_NAME,
      p_val = VBlob \<lparr>blob_size = blob_size (pi_processName pinfo),
        blob_data = Some (take (unat (blob_size (pi_processName pinfo))) name)\<rparr>\<rparr>
    \<and> (\<exists>p. HksGetParam (Some ps) HKS_TAG_ACCESS_TOKEN_ID = Inr p
         \<and> uint64Param (p_val p) = asked_or uint64Param HKS_TAG_ACCESS_TOKEN_ID (pi_accessTokenId pinfo) asked
         \<and> (HksCheckParamSetTag (Some ps) = HKS_SUCCESS \<longrightarrow> uint64Param (p_val p) = pi_accessTokenId pinfo))
    \<and> (\<exists>p. HksGetParam (Some ps) HKS_TAG_USER_ID = Inr p
         \<and> uint32Param (p_val p) = asked_or uint32Param HKS_TAG_USER_ID (pi_userIdInt pinfo) asked
         \<and> (HksCheckParamSetTag (Some ps) = HKS_SUCCESS \<longrightarrow> uint32Param (p_val p) = pi_userIdInt pinfo))"
proof -
  obtain front rest where r: "list_all2 redirected (asked_params asked) front"
    "HKS_TAG_PROCESS_NAME \<notin> p_tag ` set front"
    and ps: "params ps = map norm_param (front @ process_params pinfo @ rest)"
    and ok: "HksCheckParamSet (Some ps) (paramSetSize ps) = 0"
    by (rule AppendProcessInfo_Inr [OF assms(1)], rule that)
  have none: "List.find (\<lambda>p. HKS_TAG_PROCESS_NAME = p_tag p) front = None"
    using r(2) find_tag_None by blast
  have tags: "is_bytes_tag HKS_TAG_PROCESS_NAME" "\<not> is_bytes_tag HKS_TAG_ACCESS_TOKEN_ID" "\<not> is_bytes_tag HKS_TAG_USER_ID"
    by (simp_all add: is_bytes_tag_def GetTagType_def)
  let ?name = "\<lparr>p_tag = HKS_TAG_PROCESS_NAME, p_val = VBlob (pi_processName pinfo)\<rparr>"
  have "List.find (\<lambda>p. HKS_TAG_PROCESS_NAME = p_tag p) (params ps) = Some (norm_param ?name)"
    unfolding ps find_map_norm find_append none by (simp add: process_params_def)
  moreover have "norm_param ?name = \<lparr>p_tag = HKS_TAG_PROCESS_NAME, p_val = VBlob \<lparr>blob_size = blob_size (pi_processName pinfo),
        blob_data = Some (take (unat (blob_size (pi_processName pinfo))) name)\<rparr>\<rparr>"
    using tags(1) assms(2) by (simp add: norm_param_def payload_def plen_def)
  ultimately have name: "HksGetParam (Some ps) HKS_TAG_PROCESS_NAME = Inr \<lparr>p_tag = HKS_TAG_PROCESS_NAME,
      p_val = VBlob \<lparr>blob_size = blob_size (pi_processName pinfo),
        blob_data = Some (take (unat (blob_size (pi_processName pinfo))) name)\<rparr>\<rparr>"
    using ok assms(3) by (simp add: HksGetParam_Inr_iff CheckBlob_def)
  have own: "asked_or f t d asked = d" if "HksCheckParamSetTag (Some ps) = 0" "t \<in> p_tag ` set (process_params pinfo)"
    for f :: "HksParamValue \<Rightarrow> 'x" and t d
  proof -
    have "distinct (map p_tag front @ map p_tag (process_params pinfo) @ map p_tag rest)"
      using that(1) ps by (simp add: HksCheckParamSetTag_0 comp_def)
    then have "t \<notin> p_tag ` set front"
      using that(2) by auto
    then have "t \<notin> p_tag ` set (asked_params asked)"
      using redirected_tags [OF r(1)] by (metis list.set_map)
    then show ?thesis
      by (simp add: asked_or_def find_tag_None [THEN iffD2])
  qed
  obtain p q where "HksGetParam (Some ps) HKS_TAG_ACCESS_TOKEN_ID = Inr p"
      "uint64Param (p_val p) = asked_or uint64Param HKS_TAG_ACCESS_TOKEN_ID (pi_accessTokenId pinfo) asked"
    "HksGetParam (Some ps) HKS_TAG_USER_ID = Inr q"
      "uint32Param (p_val q) = asked_or uint32Param HKS_TAG_USER_ID (pi_userIdInt pinfo) asked"
    using identity_number [OF ps r(1) ok tags(2), of _ uint64Param] identity_number [OF ps r(1) ok tags(3), of _ uint32Param]
    by (auto simp: process_params_def)
  then show ?thesis
    using name own [of HKS_TAG_ACCESS_TOKEN_ID uint64Param] own [of HKS_TAG_USER_ID uint32Param]
    by (auto simp: process_params_def)
qed

definition example_config :: config_env where
  "example_config = \<lparr>SA_UPGRADE_CFG_LIST = [], HAP_UPGRADE_CFG_LIST = [], SA_SKIP_UPGRADE_CFG_LIST = [],
     HAP_SKIP_UPGRADE_CFG_LIST = [], HksGetAtType = \<lambda>_. Inr 1, HksGetHapNameFromAccessToken = \<lambda>_. Inr []\<rparr>"

definition example_client :: "'e HuksHdi ptr \<Rightarrow> 'e client_env" where
  "example_client hdi =
     \<lparr>ce_storage = example_storage, ce_config = example_config, GetCallerName = \<lambda>_. Inr empty_blob,
      HksGetCallerType = HKS_SA_TYPE, HksGetHapInfo = \<lambda>_. Inr empty_blob, HksGetSaInfo = \<lambda>_. Inr empty_blob,
      HksUserIdmGetSecInfo = \<lambda>_. Inl HKS_ERROR_NOT_SUPPORTED, HksUserIdmGetAuthInfoNum = \<lambda>_ _. (0, 0),
      HksCheckAcrossAccountsPermission = \<lambda>_ _. 0, HksInitPluginProxy = 0, DcmGenerateCertChain = \<lambda>_. 0,
      ce_elapsed = Inr 0, ce_clock = \<lambda>_. Inr 0, ce_fresh = 1, ce_hdi = hdi\<rparr>"

text \<open>A request of a process with the access token 9 that claims to have 77.\<close>

definition claiming :: HksParamSet where
  "claiming = \<lparr>paramSetSize = 32, params = [\<lparr>p_tag = HKS_TAG_ACCESS_TOKEN_ID, p_val = VUlong 77\<rparr>], ps_tail = []\<rparr>"

lemma claiming_accepted: "AppendProcessInfoAndDefaultStrategy (example_client NULL :: unit client_env) (Some claiming) example_process NULL
    = Inr (built (params claiming @ process_params example_process @ default_level (params claiming)))"
proof (rule AppendProcessInfo_flat)
  show "plain_config (ce_config (example_client NULL :: unit client_env)) example_process"
    by (simp add: plain_config_def example_client_def example_config_def HksMatchConfig_def MatchSaConfig_def InitDefaultStrategy_def
        Let_def)
  show "flat claiming"
    by (simp add: flat_def claiming_def space_def payload_def plen_def wf_param_def norm_param_def is_bytes_tag_def GetTagType_def)
  show "HksCheckParamSet (Some claiming) (paramSetSize claiming) = 0"
    by (simp add: claiming_def HksCheckParamSet_def paramsCnt_def)
  show "fitting (params claiming @ process_params example_process @ default_level (params claiming))"
    by (simp add: claiming_def process_params_def default_level_def example_process_def fitting_def
        wf_param_def space_def plen_def is_bytes_tag_def GetTagType_def)
qed (simp_all add: example_client_def example_storage_def claiming_def)

theorem request_identity_witness:
  "\<exists>ps p. AppendProcessInfoAndDefaultStrategy (example_client NULL :: unit client_env) (Some claiming) example_process NULL = Inr ps
     \<and> HksGetParam (Some ps) HKS_TAG_ACCESS_TOKEN_ID = Inr p
     \<and> uint64Param (p_val p) = 77 \<and> pi_accessTokenId example_process = 9"
proof -
  have "asked_or uint64Param HKS_TAG_ACCESS_TOKEN_ID (pi_accessTokenId example_process) (Some claiming) = 77"
    by (simp add: asked_or_def asked_params_def claiming_def)
  moreover have "blob_data (pi_processName example_process) = Some [1, 2, 3, 4]"
    "blob_size (pi_processName example_process) \<noteq> 0" "pi_accessTokenId example_process = 9"
    by (simp_all add: example_process_def)
  ultimately show ?thesis
    using request_identity [OF claiming_accepted] claiming_accepted by metis
qed

section \<open>Sessions\<close>

text \<open>The operation is the one of this handle, process name, user id and access token.\<close>

definition may_use :: "HksProcessInfo \<Rightarrow> HksBlob \<Rightarrow> HksOperation \<Rightarrow> bool" where
  "may_use processInfo handle e \<longleftrightarrow> ConstructOperationHandle handle = Inr (op_handle e)
     \<and> IsSameProcessName processInfo e \<and> IsSameUserId processInfo e
     \<and> op_accessTokenId e = pi_accessTokenId processInfo"

text \<open>A query aborts no session.\<close>

lemma on_sessions_query:
  "on_sessions env (QueryOperationAndMarkInUse processInfo handle) st =
     (case QueryOperationAndMarkInUse processInfo handle (sv_sessions st) of (x, ss) \<Rightarrow> (x, st\<lparr>sv_sessions := ss\<rparr>))"
proof -
  have "aborted ss = aborted (sv_sessions st)"
    if "QueryOperationAndMarkInUse processInfo handle (sv_sessions st) = (x, ss)" for x ss
    using that by (cases rule: Query_cases) (auto simp: set_in_use_def)
  then show ?thesis
    by (cases "QueryOperationAndMarkInUse processInfo handle (sv_sessions st)")
      (auto simp: on_sessions_def abort_evicted_def)
qed

lemma query_foreign:
  assumes "\<forall>e \<in> set (g_operationList ss). \<not> may_use processInfo handle e"
    "QueryOperationAndMarkInUse processInfo handle ss = (Some e, ss')"
  shows "op_accessTokenId e \<noteq> pi_accessTokenId processInfo"
  using assms(2)
  by (cases rule: Query_cases) (use assms(1) in \<open>auto simp: may_use_def IsSameProcessName_def IsSameUserId_def\<close>)

lemma Update_foreign:
  assumes "session_inv (sv_sessions st)" "\<forall>e \<in> set (g_operationList (sv_sessions st)). \<not> may_use processInfo handle e"
  shows "fst (HksServiceUpdate env handle processInfo paramSet inData outData st) \<in> {Inl HKS_ERROR_NOT_EXIST, Inl HKS_ERROR_BAD_STATE}
    \<and> snd (HksServiceUpdate env handle processInfo paramSet inData outData st) = st"
proof (cases "QueryOperationAndMarkInUse processInfo handle (sv_sessions st)")
  case q: (Pair x ss)
  show ?thesis
  proof (cases x)
    case None
    with q show ?thesis
      by (auto simp: HksServiceUpdate_def on_sessions_query elim: Query_cases)
  next
    case (Some e)
    then show ?thesis
      using q query_foreign [OF assms(2)] query_success [OF assms(1)]
      by (auto simp: HksServiceUpdate_def on_sessions_query give_back_def)
  qed
qed

lemma InitOutput_Inl:
  "InitOutputDataForFinish alloc output outData b = Inl c \<Longrightarrow> c = HKS_ERROR_MALLOC_FAIL \<or> c = HKS_ERROR_INSUFFICIENT_MEMORY"
  by (auto simp: InitOutputDataForFinish_def Let_def split: if_splits prod.splits bool.splits)

lemma Finish_refused:
  assumes "AppendAndQueryInFinish env handle processInfo st = (Inl c, st')"
  shows "HksServiceFinish env handle processInfo ps inData outData st = (Inl c, st')
    \<or> fst (HksServiceFinish env handle processInfo ps inData outData st) \<in> {Inl HKS_ERROR_MALLOC_FAIL, Inl HKS_ERROR_INSUFFICIENT_MEMORY}
      \<and> snd (HksServiceFinish env handle processInfo ps inData outData st) = st"
proof -
  obtain rc stored where k: "HksCheckKeyNeedStored ps False = (rc, stored)"
    by force
  define sz where "sz = (if rc = HKS_SUCCESS \<and> stored then MAX_KEY_SIZE else blob_size outData)"
  define made where "made = (if sz \<noteq> 0 then InitOutputDataForFinish (ce_alloc env) \<lparr>blob_size = sz, blob_data = NULL\<rparr> outData stored
    else Inr \<lparr>blob_size = sz, blob_data = NULL\<rparr>)"
  have "HksServiceFinish env handle processInfo ps inData outData st
    = (case made of Inl ret \<Rightarrow> (Inl ret, st) | Inr output \<Rightarrow> (Inl c, st'))"
    unfolding HksServiceFinish_def k made_def sz_def assms Let_def by (simp split: sum.splits)
  moreover have "c' = HKS_ERROR_MALLOC_FAIL \<or> c' = HKS_ERROR_INSUFFICIENT_MEMORY" if "made = Inl c'" for c'
    using that InitOutput_Inl by (auto simp: made_def split: if_splits)
  ultimately show ?thesis
    by (cases made) auto
qed

lemma Finish_cases:
  obtains c where "HksServiceFinish env handle processInfo paramSet inData outData st = (Inl c, st)"
  | c ss where "AppendAndQueryInFinish env handle processInfo st = (Inl c, st\<lparr>sv_sessions := ss\<rparr>)"
    "HksServiceFinish env handle processInfo paramSet inData outData st = (Inl c, st\<lparr>sv_sessions := ss\<rparr>)"
  | e ss where "AppendAndQueryInFinish env handle processInfo st = (Inr e, st\<lparr>sv_sessions := ss\<rparr>)"
proof -
  obtain x ss where "on_sessions env (QueryOperationAndMarkInUse processInfo handle) st = (x, st\<lparr>sv_sessions := ss\<rparr>)"
    by (cases "QueryOperationAndMarkInUse processInfo handle (sv_sessions st)") (simp add: on_sessions_query)
  then have "snd (AppendAndQueryInFinish env handle processInfo st) = st\<lparr>sv_sessions := ss\<rparr>"
    by (simp add: AppendAndQueryInFinish_def split: option.splits)
  then obtain r where r: "AppendAndQueryInFinish env handle processInfo st = (r, st\<lparr>sv_sessions := ss\<rparr>)"
    by (metis surjective_pairing)
  show thesis
  proof (cases r)
    case (Inl c)
    with r have a: "AppendAndQueryInFinish env handle processInfo st = (Inl c, st\<lparr>sv_sessions := ss\<rparr>)"
      by simp
    show thesis
      using Finish_refused [OF a, of paramSet inData outData]
    proof (elim disjE conjE)
      assume "HksServiceFinish env handle processInfo paramSet inData outData st = (Inl c, st\<lparr>sv_sessions := ss\<rparr>)"
      then show thesis by (rule that(2) [OF a])
    next
      assume "fst (HksServiceFinish env handle processInfo paramSet inData outData st)
          \<in> {Inl HKS_ERROR_MALLOC_FAIL, Inl HKS_ERROR_INSUFFICIENT_MEMORY}"
        "snd (HksServiceFinish env handle processInfo paramSet inData outData st) = st"
      then show thesis
        by (elim insertE emptyE) (rule that(1), simp add: prod_eq_iff)+
    qed
  qed (use r that(3) in auto)
qed

lemma Finish_foreign:
  assumes "\<forall>e \<in> set (g_operationList (sv_sessions st)). \<not> may_use processInfo handle e"
  shows "\<exists>c ss. HksServiceFinish env handle processInfo paramSet inData outData st = (Inl c, st\<lparr>sv_sessions := ss\<rparr>)"
proof (cases rule: Finish_cases [of env handle processInfo paramSet inData outData st])
  case (1 c)
  moreover have "st = st\<lparr>sv_sessions := sv_sessions st\<rparr>"
    by simp
  ultimately show ?thesis
    by metis
next
  case (3 e ss)
  then have "QueryOperationAndMarkInUse processInfo handle (sv_sessions st) = (Some e, ss)"
      "op_accessTokenId e = pi_accessTokenId processInfo"
    by (auto simp: AppendAndQueryInFinish_def on_sessions_query split: prod.splits option.splits if_splits
        dest: arg_cong [of _ _ sv_sessions])
  then show ?thesis
    using query_foreign [OF assms] by blast
qed blast

text \<open>
  C3: Safety: a caller whose process name, user id or access token is not that of a session can neither continue
  nor finish it: an update fails and leaves the whole state as it was; a finish fails, the engine is not called
  and no file is written.
\<close>

theorem session_isolation:
  assumes "session_reach (sv_sessions st)"
    "\<forall>e \<in> set (g_operationList (sv_sessions st)). \<not> may_use processInfo handle e"
  shows "fst (HksServiceUpdate env handle processInfo paramSet inData outData st) \<in> {Inl HKS_ERROR_NOT_EXIST, Inl HKS_ERROR_BAD_STATE}
    \<and> snd (HksServiceUpdate env handle processInfo paramSet inData outData st) = st
    \<and> (\<exists>c. fst (HksServiceFinish env handle processInfo paramSet inData outData st) = Inl c)
    \<and> sv_engine (snd (HksServiceFinish env handle processInfo paramSet inData outData st)) = sv_engine st
    \<and> sv_files (snd (HksServiceFinish env handle processInfo paramSet inData outData st)) = sv_files st"
  using Update_foreign [OF session_reach_inv [OF assms(1)] assms(2), of env paramSet inData outData]
    Finish_foreign [OF assms(2), of env paramSet inData outData] by auto

definition example_service :: "unit service_state" where
  "example_service = \<lparr>sv_files = example_files, sv_sessions = demo_state [demo_operation], sv_engine = ()\<rparr>"

text \<open>The owner of the session, with another access token.\<close>

definition foreign_process :: HksProcessInfo where
  "foreign_process = demo_process\<lparr>pi_accessTokenId := 6\<rparr>"

lemma foreign_may_not: "\<forall>e \<in> set (g_operationList (sv_sessions example_service)). \<not> may_use foreign_process h e"
  by (simp add: example_service_def demo_state_def may_use_def foreign_process_def demo_process_def demo_operation_def)

theorem session_isolation_witness:
  "snd (HksServiceUpdate (example_client NULL) demo_handle foreign_process NULL empty_blob empty_blob example_service)
    = example_service"
  using session_isolation [of example_service foreign_process demo_handle "example_client NULL" NULL empty_blob empty_blob]
    foreign_may_not demo_reach by (simp add: example_service_def)

text \<open>An operation that is in use is not handed out, and nothing else happens.\<close>

lemma in_use_query:
  assumes "\<forall>x \<in> set (g_operationList ss). ConstructOperationHandle handle = Inr (op_handle x) \<longrightarrow> op_isInUse x"
  shows "QueryOperationAndMarkInUse processInfo handle ss = (NULL, ss)"
proof (cases "QueryOperationAndMarkInUse processInfo handle ss")
  case (Pair x ss')
  then show ?thesis
  proof (cases rule: Query_cases)
    case 1
    with Pair show ?thesis by simp
  qed (use assms in auto)
qed

lemma no_session:
  assumes "QueryOperationAndMarkInUse processInfo handle (sv_sessions st) = (NULL, sv_sessions st)"
  shows "HksServiceUpdate env handle processInfo ps inData outData st = (Inl HKS_ERROR_NOT_EXIST, st)
    \<and> HksServiceAbort env handle processInfo ps st = (HKS_SUCCESS, st)
    \<and> (\<exists>c. HksServiceFinish env handle processInfo ps inData outData st = (Inl c, st))"
proof -
  have q: "on_sessions env (QueryOperationAndMarkInUse processInfo handle) st = (NULL, st)"
    using assms by (simp add: on_sessions_query)
  then have "AppendAndQueryInFinish env handle processInfo st = (Inl HKS_ERROR_NOT_EXIST, st)"
    by (simp add: AppendAndQueryInFinish_def)
  from Finish_refused [OF this, of ps inData outData]
  have "\<exists>c. HksServiceFinish env handle processInfo ps inData outData st = (Inl c, st)"
    by (auto simp: prod_eq_iff)
  with q show ?thesis
    by (simp add: HksServiceUpdate_def HksServiceAbort_def)
qed

lemma find_unique: "x \<in> set xs \<Longrightarrow> P x \<Longrightarrow> \<forall>y \<in> set xs. P y \<longrightarrow> y = x \<Longrightarrow> List.find P xs = Some x"
proof (cases "List.find P xs")
  case (Some y)
  assume "\<forall>y \<in> set xs. P y \<longrightarrow> y = x"
  with find_Some_mem [OF Some] have "y = x" by blast
  with Some show ?thesis by simp
next
  case None
  assume "x \<in> set xs" "P x"
  with None show ?thesis by (auto simp: find_None_iff)
qed

text \<open>
  C6: Error behaviour: when a caller of the same process name and user id, but with another access token, finishes a
  session, it gets an error, but the operation stays marked as in use. After that no caller can update or finish the
  session, and an abort reports success without ending it.
\<close>

theorem foreign_finish_blocks:
  assumes "e \<in> set (g_operationList (sv_sessions st))"
    "\<forall>x \<in> set (g_operationList (sv_sessions st)). op_handle x = op_handle e \<longrightarrow> x = e"
    "ConstructOperationHandle handle = Inr (op_handle e)" "\<not> op_isInUse e"
    "IsSameProcessName foreign e" "IsSameUserId foreign e" "op_accessTokenId e \<noteq> pi_accessTokenId foreign"
    "fst (HksServiceFinish env handle foreign paramSet inData outData st)
       \<notin> {Inl HKS_ERROR_MALLOC_FAIL, Inl HKS_ERROR_INSUFFICIENT_MEMORY}"
  shows "\<exists>st'. HksServiceFinish env handle foreign paramSet inData outData st = (Inl HKS_ERROR_BAD_STATE, st')
    \<and> e\<lparr>op_isInUse := True\<rparr> \<in> set (g_operationList (sv_sessions st'))
    \<and> HksServiceUpdate env handle processInfo ps inData' outData' st' = (Inl HKS_ERROR_NOT_EXIST, st')
    \<and> HksServiceAbort env handle processInfo ps st' = (HKS_SUCCESS, st')
    \<and> (\<exists>c. HksServiceFinish env handle processInfo ps inData' outData' st' = (Inl c, st'))"
proof -
  let ?ss = "set_in_use True (op_addr e) (sv_sessions st)"
  have "List.find (\<lambda>x. op_handle x = op_handle e \<and> IsSameProcessName foreign x \<and> IsSameUserId foreign x)
      (g_operationList (sv_sessions st)) = Some e"
    using assms(1,2,5,6) by (intro find_unique) auto
  then have q: "QueryOperationAndMarkInUse foreign handle (sv_sessions st) = (Some (e\<lparr>op_isInUse := True\<rparr>), ?ss)"
    using assms(3,4) by (simp add: QueryOperationAndMarkInUse_def)
  then have "AppendAndQueryInFinish env handle foreign st = (Inl HKS_ERROR_BAD_STATE, st\<lparr>sv_sessions := ?ss\<rparr>)"
    using assms(7) by (simp add: AppendAndQueryInFinish_def on_sessions_query)
  from Finish_refused [OF this, of paramSet inData outData]
  have fin: "HksServiceFinish env handle foreign paramSet inData outData st = (Inl HKS_ERROR_BAD_STATE, st\<lparr>sv_sessions := ?ss\<rparr>)"
    using assms(8) by blast
  have "\<forall>x \<in> set (g_operationList ?ss). ConstructOperationHandle handle = Inr (op_handle x) \<longrightarrow> op_isInUse x"
    using assms(2,3) by (fastforce simp: set_in_use_def)
  then have "QueryOperationAndMarkInUse processInfo handle ?ss = (NULL, ?ss)"
    by (rule in_use_query)
  then show ?thesis
    using fin assms(1) no_session [of processInfo handle "st\<lparr>sv_sessions := ?ss\<rparr>" env ps inData' outData']
    by (force simp: set_in_use_def)
qed

theorem foreign_finish_blocks_witness:
  "\<exists>st'. HksServiceFinish (example_client NULL) demo_handle foreign_process NULL empty_blob empty_blob example_service
      = (Inl HKS_ERROR_BAD_STATE, st')
    \<and> HksServiceUpdate (example_client NULL) demo_handle demo_process NULL empty_blob empty_blob st' = (Inl HKS_ERROR_NOT_EXIST, st')"
proof -
  have op: "demo_operation \<in> set (g_operationList (sv_sessions example_service))"
    "\<forall>x \<in> set (g_operationList (sv_sessions example_service)). op_handle x = op_handle demo_operation \<longrightarrow> x = demo_operation"
    by (simp_all add: example_service_def demo_state_def)
  have "ConstructOperationHandle demo_handle = Inr (op_handle demo_operation)" "\<not> op_isInUse demo_operation"
    "IsSameProcessName foreign_process demo_operation" "IsSameUserId foreign_process demo_operation"
    "op_accessTokenId demo_operation \<noteq> pi_accessTokenId foreign_process"
    by (simp_all add: demo_handle_1 demo_operation_def new_operation_def foreign_process_def demo_process_def
        IsSameProcessName_def IsSameUserId_def same_bytes_def)
  moreover have "fst (HksServiceFinish (example_client NULL) demo_handle foreign_process NULL empty_blob empty_blob example_service)
       \<notin> {Inl HKS_ERROR_MALLOC_FAIL, Inl HKS_ERROR_INSUFFICIENT_MEMORY}"
  proof -
    have "HksCheckKeyNeedStored NULL False = (HKS_ERROR_INVALID_ARGUMENT, False)"
      by (simp add: HksCheckKeyNeedStored_def HksGetParam_def)
    moreover obtain ss where "QueryOperationAndMarkInUse foreign_process demo_handle (sv_sessions example_service)
        = (Some (demo_operation\<lparr>op_isInUse := True\<rparr>), ss)"
      by (simp add: QueryOperationAndMarkInUse_def demo_handle_1 demo_state_def demo_operation_def
          new_operation_def demo_process_def foreign_process_def IsSameProcessName_def IsSameUserId_def same_bytes_def
          example_service_def)
    then have "AppendAndQueryInFinish (example_client NULL) demo_handle foreign_process example_service
        = (Inl HKS_ERROR_BAD_STATE, example_service\<lparr>sv_sessions := ss\<rparr>)"
      by (simp add: AppendAndQueryInFinish_def on_sessions_query demo_operation_def foreign_process_def demo_process_def)
    ultimately show ?thesis
      by (simp add: HksServiceFinish_def empty_blob_def)
  qed
  ultimately show ?thesis
    using foreign_finish_blocks [OF op, of demo_handle foreign_process "example_client NULL" NULL empty_blob empty_blob] by blast
qed

end
