(* ===== verification/Huks_Client_Keys.thy ===== *)
theory Huks_Client_Keys
  imports Huks_Client_Props Huks_Storage_List
begin

text \<open>
  What the service does to the stored keys: a new key replaces the old one, which is lost when the engine then
  fails; a key is used as it is stored.
\<close>

section \<open>Before a new key is made\<close>

text \<open>The set for the deletion is of the same key as the one that it is made of.\<close>

lemma level_set_key:
  assumes "AppendStorageLevelIfNotExistInner alloc config pinfo (Some ps) = Inr ps'"
    "request_ok users processInfo (Some ps) al ty"
  shows "request_ok users processInfo (Some ps') al ty" "request_key processInfo (Some ps') al ty = request_key processInfo (Some ps) al ty"
proof -
  obtain n n' where n: "new_param_set alloc (Some ps) = Inr n"
    "AddStorageLevelToParamSet config pinfo n = Inr n'" "HksBuildParamSet alloc (Some n') = Inr ps'"
    using assms(1) by (auto simp: AppendStorageLevelIfNotExistInner_def AppendStorageLevelAndSpecificUserIdToParamSet_def
        AddSpecificUserIdToParamSet_def try_res_def split: sum.splits)
  have ok: "HksCheckParamSet (Some ps) (paramSetSize ps) = 0" "HksCheckParamSet (Some ps') (paramSetSize ps') = 0"
    using assms(2) HksBuildParamSet_Inr [OF n(3)] by (auto simp: request_ok_def HksGetParam_Inr_iff HksCheckParamSet_0 paramsCnt_def)
  obtain rest where rest: "params n' = params n @ rest" "p_tag ` set rest \<subseteq> {HKS_TAG_AUTH_STORAGE_LEVEL}"
    using AddStorageLevel_extends [OF n(2)] by (auto simp: extends_def)
  have fresh: "list_all2 redirected (params ps) (params n)"
    using new_param_set_Inr [OF n(1)] by (simp add: asked_params_def)
  have norm: "norm_param p = p" if "List.find (\<lambda>p. t = p_tag p) qs = Some p" "\<not> is_bytes_tag t" for t qs p
    using find_tag_Some [OF that(1)] that(2) by (simp add: norm_param_def)
  have find: "List.find (\<lambda>p. t = p_tag p) (params ps') = (case List.find (\<lambda>p. t = p_tag p) (params ps) of
      Some p \<Rightarrow> Some p | None \<Rightarrow> map_option norm_param (List.find (\<lambda>p. t = p_tag p) rest))" if "\<not> is_bytes_tag t" for t
    using HksBuildParamSet_Inr [OF n(3)] rest(1) redirected_find [OF fresh that] norm [OF _ that]
    by (auto simp: find_map_norm find_append simp del: map_append split: option.splits)
  have nb: "\<not> is_bytes_tag HKS_TAG_AUTH_STORAGE_LEVEL" "\<not> is_bytes_tag HKS_TAG_SPECIFIC_USER_ID"
    by (simp_all add: is_bytes_tag_def GetTagType_def)
  obtain p where "List.find (\<lambda>p. HKS_TAG_AUTH_STORAGE_LEVEL = p_tag p) (params ps) = Some p"
    using assms(2) by (auto simp: request_ok_def HksGetParam_Inr_iff)
  then have level: "HksGetParam (Some ps') HKS_TAG_AUTH_STORAGE_LEVEL = HksGetParam (Some ps) HKS_TAG_AUTH_STORAGE_LEVEL"
    using find [OF nb(1)] nb(1) ok by (simp add: HksGetParam_Some)
  have "List.find (\<lambda>p. HKS_TAG_SPECIFIC_USER_ID = p_tag p) rest = None"
    using rest(2) find_tag_None by fastforce
  then have user: "HksGetParam (Some ps') HKS_TAG_SPECIFIC_USER_ID = HksGetParam (Some ps) HKS_TAG_SPECIFIC_USER_ID"
    using find [OF nb(2)] nb(2) ok by (auto simp: HksGetParam_Some split: option.splits)
  show "request_ok users processInfo (Some ps') al ty" "request_key processInfo (Some ps') al ty = request_key processInfo (Some ps) al ty"
    using assms(2) level user by (simp_all add: request_ok_def request_key_def)
qed

text \<open>Counting the keys changes nothing that is stored.\<close>

lemma count_healthy:
  assumes "env_healthy env" "store_inv users fs" "request_ok users processInfo paramSet al HKS_STORAGE_TYPE_KEY"
  obtains n fs' where "HksManageGetKeyCountByProcessName env processInfo paramSet fs = (Inr n, fs')"
    "store_inv users fs'" "stored users fs' = stored users fs"
proof -
  let ?k = "request_key processInfo paramSet al HKS_STORAGE_TYPE_KEY"
  obtain fs1 where f: "store_file_info env processInfo paramSet NULL HKS_STORAGE_TYPE_KEY fs = (Inr (named_files ?k False), fs1)"
    and i: "store_inv users fs1" "stored users fs1 = stored users fs" "is_dir fs1 (key_dir False ?k)"
    using begin_list [OF assms refl] by blast
  have "si_path (mainPath (named_files ?k False)) = key_dir False ?k"
    by (simp add: named_files_def)
  then have "\<exists>n. HksManageGetKeyCountByProcessName env processInfo paramSet fs = (Inr n, fs1\<lparr>fs_calls := Suc (fs_calls fs1)\<rparr>)"
    using open_healthy [OF assms(1) key_dir_safe i(3)]
    by (simp add: HksManageGetKeyCountByProcessName_def f HksGetKeyCountByProcessName_def GetFileCount_def)
  then show thesis
    using that i(1,2) by fastforce
qed

lemma check_gen_name:
  "HksCheckGenAndImportKeyParams name al ps key = 0 \<Longrightarrow> HksCheckProcessNameAndKeyAlias name al = 0"
  by (auto simp: HksCheckGenAndImportKeyParams_def HksCheckProcessNameAndKeyAlias_def HksCheckBlob3AndParamSet_def
      HksCheckBlob3_def HksCheckBlob2_def if_not_succ_return_def Let_def split: if_splits)

text \<open>The old key is gone before anything is made.\<close>

lemma CheckKeyCondition_exact:
  assumes "env_healthy (ce_storage env)" "store_inv users (sv_files st)"
    "request_ok users processInfo (Some ps) al HKS_STORAGE_TYPE_KEY"
    "HksCheckProcessNameAndKeyAlias (Some (pi_processName processInfo)) (Some al) = 0"
    "AppendStorageLevelIfNotExistInner (ce_alloc env) (ce_config env) (Some processInfo) (Some ps) = Inr ps'"
  obtains fs where "CheckKeyCondition env processInfo al (Some ps) st = (0, st\<lparr>sv_files := fs\<rparr>)" "store_inv users fs"
    "stored users fs = (stored users (sv_files st))(request_key processInfo (Some ps) al HKS_STORAGE_TYPE_KEY := None)"
proof -
  let ?k = "request_key processInfo (Some ps) al HKS_STORAGE_TYPE_KEY"
  define r where "r = \<lparr>kr_process = processInfo, kr_params = Some ps', kr_alias = al, kr_type = HKS_STORAGE_TYPE_KEY\<rparr>"
  have r: "req_ok users r" "key_of r = ?k"
    using level_set_key [OF assms(5,3)] by (simp_all add: r_def req_ok_def key_of_def)
  obtain ret fs1 where d: "HksManageStoreDeleteKeyBlob (ce_storage env) processInfo (Some ps') (Some al) HKS_STORAGE_TYPE_KEY (sv_files st)
      = (ret, fs1)"
    by fastforce
  have "step_ok users (ce_storage env) (Delete r) (sv_files st)"
    by (rule step_delete [OF assms(1,2) r(1)])
  then have i: "store_inv users fs1" "ret = 0 \<or> ret = HKS_ERROR_NOT_EXIST"
      "stored users fs1 = (stored users (sv_files st))(?k := None)"
    using r(2) d by (auto simp: step_ok_def r_def fun_upd_idem split: if_splits)
  obtain n fs2 where c: "HksManageGetKeyCountByProcessName (ce_storage env) processInfo (Some ps) fs1 = (Inr n, fs2)"
    and j: "store_inv users fs2" "stored users fs2 = stored users fs1"
    using count_healthy [OF assms(1) i(1) assms(3)] by blast
  have "CheckKeyCondition env processInfo al (Some ps) st = (0, st\<lparr>sv_files := fs2\<rparr>)"
    using assms(4,5) d c i(2) by (auto simp: CheckKeyCondition_def HksServiceDeleteKey_def on_files_def)
  then show thesis
    using that j i(3) by simp
qed

section \<open>Making a key\<close>

text \<open>
  C4: Functional: a request that names no \<open>HKS_TAG_KEY_GENERATE_TYPE\<close> (so that no other key is involved, which a
  derivation or agreement would read and perhaps upgrade) and wants the key stored only (\<open>keyOut = NULL\<close>) gives
  the engine the caller's alias and the set of the request. While neither the storage nor an allocation fails: if
  the engine succeeds, exactly the key of the request has changed, and it has the new value; if the engine fails,
  its code is passed on, and the key that the caller had under this name is lost.
\<close>

theorem generate_replaces_key:
  assumes "env_healthy (ce_storage env)" "\<forall>n. ce_alloc env n" "store_inv users (sv_files st)"
    "HksCheckGenAndImportKeyParams (Some (pi_processName processInfo)) (Some al) asked (Some key_buffer) = 0"
    "AppendNewInfoForGenKeyInService env processInfo asked = Inr ps"
    "AppendStorageLevelIfNotExistInner (ce_alloc env) (ce_config env) (Some processInfo) (Some ps) = Inr ps'"
    "HksGetParam (Some ps) HKS_TAG_KEY_GENERATE_TYPE = Inl c"
    "request_ok users processInfo (Some ps) al HKS_STORAGE_TYPE_KEY"
    "k = request_key processInfo (Some ps) al HKS_STORAGE_TYPE_KEY"
    "HuksAccessGenerateKey (ce_hdi env) al (Some ps) \<lparr>blob_size = 1, blob_data = Some [0]\<rparr> key_buffer (sv_engine st) = (made, e)"
    "\<forall>key. made = Inr key \<longrightarrow> (\<exists>b. file_bytes key = Some b \<and> b \<noteq> [])"
  shows "\<exists>fs. HksServiceGenerateKey env processInfo al asked NULL st
        = (case made of Inl ret \<Rightarrow> Inl ret | Inr _ \<Rightarrow> Inr NULL, st\<lparr>sv_files := fs, sv_engine := e\<rparr>)
    \<and> store_inv users fs
    \<and> stored users fs = (stored users (sv_files st))(k := (case made of Inl _ \<Rightarrow> None | Inr key \<Rightarrow> file_bytes key))"
proof -
  have malloc: "HksMalloc (ce_alloc env) (unat MAX_KEY_SIZE)" "HksMalloc (ce_alloc env) 1"
    using assms(2) by (simp_all add: HksMalloc_def)
  obtain fs1 where c: "CheckKeyCondition env processInfo al (Some ps) st = (0, st\<lparr>sv_files := fs1\<rparr>)"
    and i: "store_inv users fs1" "stored users fs1 = (stored users (sv_files st))(k := None)"
    using CheckKeyCondition_exact [OF assms(1,3,8) check_gen_name [OF assms(4)] assms(6)] assms(9) by metis
  have g: "GetKeyIn env processInfo ps st' = (Inr \<lparr>blob_size = 1, blob_data = Some [0]\<rparr>, st')" for st' :: "'a service_state"
    using assms(7) malloc(2) by (simp add: GetKeyIn_def GetDeriveMainKey_def next_res_def empty_blob_def)
  show ?thesis
  proof (cases made)
    case (Inl ret)
    then have "HksServiceGenerateKey env processInfo al asked NULL st = (Inl ret, st\<lparr>sv_files := fs1, sv_engine := e\<rparr>)"
      using malloc assms(4,5,10) by (simp add: HksServiceGenerateKey_def c g next_rc_def next_res_def on_engine_def)
    with Inl i show ?thesis by auto
  next
    case (Inr key)
    define r where "r = \<lparr>kr_process = processInfo, kr_params = Some ps, kr_alias = al, kr_type = HKS_STORAGE_TYPE_KEY\<rparr>"
    have r: "op_ok users (Store r key)" "key_of r = k"
      using assms(8,9,11) Inr by (simp_all add: r_def req_ok_def key_of_def)
    obtain fs2 where s: "HksManageStoreKeyBlob (ce_storage env) processInfo (Some ps) (Some al) key HKS_STORAGE_TYPE_KEY fs1 = (0, fs2)"
      and j: "store_inv users fs2" "stored users fs2 = (stored users fs1)(k := file_bytes key)"
      using step_store [OF assms(1) i(1) r(1)] r(2)
      by (cases "HksManageStoreKeyBlob (ce_storage env) processInfo (Some ps) (Some al) key HKS_STORAGE_TYPE_KEY fs1")
        (simp add: step_ok_def r_def)
    have "HksServiceGenerateKey env processInfo al asked NULL st = (Inr NULL, st\<lparr>sv_files := fs2, sv_engine := e\<rparr>)"
      using malloc assms(4,5,10) Inr
      by (simp add: HksServiceGenerateKey_def c g s next_rc_def next_res_def on_engine_def on_files_def)
    with Inr i j show ?thesis by auto
  qed
qed

text \<open>The set for the deletion, of a flat set.\<close>

lemma level_set_flat:
  assumes "\<forall>n. alloc n" "plain_config config pinfo" "flat ps" "HksCheckParamSet (Some ps) (paramSetSize ps) = 0"
    "fitting (params ps @ default_level (params ps))"
  shows "AppendStorageLevelIfNotExistInner alloc config (Some pinfo) (Some ps) = Inr (built (params ps @ default_level (params ps)))"
  using new_param_set_flat [OF assms(1,3,4) fitting_prefix [OF assms(5)]] level_unbuilt [OF assms(2,5)]
    build_unbuilt [OF assms(5,1)]
  by (simp add: AppendStorageLevelIfNotExistInner_def try_res_def)

lemma example_plain: "plain_config (ce_config (example_client hdi)) example_process"
  by (simp add: plain_config_def example_client_def example_config_def HksMatchConfig_def MatchSaConfig_def
      InitDefaultStrategy_def Let_def)

lemma example_client_simps [simp]: "ce_storage (example_client hdi) = example_storage" "ce_alloc (example_client hdi) n"
    "ce_hdi (example_client hdi) = hdi"
  by (simp_all add: example_client_def example_storage_def)

text \<open>A request for a key of the storage level 0, and its set.\<close>

abbreviation example_asked :: "HksParam list" where
  "example_asked \<equiv> params (example_level 0) @ process_params example_process"

lemma example_asked_fitting: "fitting example_asked"
  by (simp add: fitting_def example_level_def process_params_def example_process_def wf_param_def space_def plen_def
      is_bytes_tag_def GetTagType_def)

lemma example_level_flat: "flat (example_level 0)" "HksCheckParamSet (Some (example_level 0)) (paramSetSize (example_level 0)) = 0"
  by (simp_all add: flat_def example_level_def space_def payload_def plen_def wf_param_def norm_param_def is_bytes_tag_def
      GetTagType_def HksCheckParamSet_def paramsCnt_def)

lemma example_no_default [simp]: "default_level (params (example_level 0)) = []" "default_level example_asked = []"
  by (simp_all add: default_level_def example_level_def)

lemma example_set: "AppendProcessInfoAndDefaultStrategy (example_client hdi) (Some (example_level 0)) example_process NULL
    = Inr (built example_asked)"
proof -
  have "AppendProcessInfoAndDefaultStrategy (example_client hdi) (Some (example_level 0)) example_process NULL
      = Inr (built (params (example_level 0) @ process_params example_process @ default_level (params (example_level 0))))"
    by (rule AppendProcessInfo_flat [OF _ example_plain example_level_flat])
      (simp_all add: example_asked_fitting, simp_all add: example_level_def example_storage_def)
  then show ?thesis by simp
qed

lemma example_get: "HksGetParam (Some (built example_asked)) HKS_TAG_AUTH_STORAGE_LEVEL = Inr \<lparr>p_tag = HKS_TAG_AUTH_STORAGE_LEVEL, p_val = VUint 0\<rparr>"
    "HksGetParam (Some (built example_asked)) HKS_TAG_SPECIFIC_USER_ID = Inl HKS_ERROR_PARAM_NOT_EXIST"
    "HksGetParam (Some (built example_asked)) HKS_TAG_KEY_GENERATE_TYPE = Inl HKS_ERROR_PARAM_NOT_EXIST"
  using get_built [OF example_asked_fitting]
  by (simp_all add: example_level_def process_params_def is_bytes_tag_def GetTagType_def norm_param_def)

lemma example_owner_request: "request_ok {100} example_process (Some (built example_asked)) (blob_of [0x2F, 0x41]) HKS_STORAGE_TYPE_KEY"
    "request_key example_process (Some (built example_asked)) (blob_of [0x2F, 0x41]) HKS_STORAGE_TYPE_KEY = example_owner"
proof -
  show k: "request_key example_process (Some (built example_asked)) (blob_of [0x2F, 0x41]) HKS_STORAGE_TYPE_KEY = example_owner"
    by (simp add: request_key_def example_get example_store_key blob_of_def name_bytes_def) (simp add: example_process_def)
  show "request_ok {100} example_process (Some (built example_asked)) (blob_of [0x2F, 0x41]) HKS_STORAGE_TYPE_KEY"
    using example_owner_wf by (simp add: request_ok_def k example_get) (simp add: example_process_def)
qed

definition example_device :: "unit HuksHdi" where
  "example_device = \<lparr>HuksHdiModuleInit = NULL, HuksHdiModuleDestroy = NULL, HuksHdiRefresh = NULL, HuksHdiGenerateKey = NULL,
     HuksHdiImportKey = NULL, HuksHdiImportWrappedKey = NULL, HuksHdiExportPublicKey = NULL, HuksHdiInit = NULL,
     HuksHdiUpdate = NULL, HuksHdiFinish = NULL, HuksHdiAbort = NULL, HuksHdiGetKeyProperties = NULL, HuksHdiGetAbility = NULL,
     HuksHdiGetHardwareInfo = NULL, HuksHdiSign = Some (\<lambda>key ps src sig e. (Inr (blob_of (drop 31 (blob_bytes key) @ [5])), e)),
     HuksHdiVerify = NULL, HuksHdiEncrypt = NULL,
     HuksHdiDecrypt = NULL, HuksHdiAgreeKey = NULL, HuksHdiDeriveKey = NULL, HuksHdiMac = NULL, HuksHdiUpgradeKey = NULL,
     HuksHdiAttestKey = NULL, HuksHdiGenerateRandom = NULL, HuksHdiExportChipsetPlatformPublicKey = NULL\<rparr>"

abbreviation keeping :: "bytes \<Rightarrow> unit service_state" where
  "keeping d \<equiv> \<lparr>sv_files = example_kept d, sv_sessions = session_init, sv_engine = ()\<rparr>"

lemma example_level_valid: "HksCheckParamSetValidity (Some (example_level 0)) = 0"
proof -
  have "HksCheckParamSetTag (Some (example_level 0)) = 0"
    by (simp add: HksCheckParamSetTag_0 example_level_def) code_simp
  then show ?thesis
    using example_level_flat(2) by (simp add: HksCheckParamSetValidity_def if_not_succ_return_def)
qed

text \<open>An engine that generates no keys: the old key is lost.\<close>

theorem generate_replaces_key_witness:
  "stored {100} (sv_files (keeping [1, 2])) example_owner = Some [1, 2]
    \<and> (\<exists>fs. HksServiceGenerateKey (example_client (Some example_device)) example_process (blob_of [0x2F, 0x41])
          (Some (example_level 0)) NULL (keeping [1, 2])
        = (Inl HKS_ERROR_NULL_POINTER, (keeping [1, 2])\<lparr>sv_files := fs\<rparr>) \<and> stored {100} fs example_owner = None)"
proof -
  let ?env = "example_client (Some example_device)" and ?ps = "built example_asked"
  have gen: "HksCheckGenAndImportKeyParams (Some (pi_processName example_process)) (Some (blob_of [0x2F, 0x41]))
      (Some (example_level 0)) (Some key_buffer) = 0"
    by (simp add: HksCheckGenAndImportKeyParams_def HksCheckBlob3AndParamSet_def HksCheckBlob3_def CheckBlob_def
        example_process_def blob_of_def key_buffer_def example_level_valid CheckProcessNameAndKeyAliasSize_def
        Let_def if_not_succ_return_def)
  have "HksGetParam (Some (example_level 0)) t = Inl HKS_ERROR_PARAM_NOT_EXIST" if "t \<noteq> HKS_TAG_AUTH_STORAGE_LEVEL" for t
    using that example_level_flat(2) by (simp add: HksGetParam_missing) (simp add: example_level_def)
  then have "AppendNewInfoForGenKeyInService ?env example_process (Some (example_level 0)) = Inr ?ps"
    by (simp add: AppendNewInfoForGenKeyInService_def HksCheckAndGetUserAuthInfo_def try_or_def example_set)
  moreover have "\<exists>ps'. AppendStorageLevelIfNotExistInner (ce_alloc ?env) (ce_config ?env) (Some example_process) (Some ?ps) = Inr ps'"
  proof -
    have "fitting (params ?ps)"
      using built_ok [OF example_asked_fitting] example_asked_fitting by (simp add: fitting_def flat_def)
    moreover have "default_level (params ?ps) = []"
      by (simp add: default_level_def example_level_def)
    ultimately show ?thesis
      using level_set_flat [OF _ example_plain built_ok(1,2) [OF example_asked_fitting], of "ce_alloc ?env" "Some example_device"]
      by (auto simp: example_storage_def)
  qed
  moreover have "HuksAccessGenerateKey (ce_hdi ?env) al ps keyIn out e = (Inl HKS_ERROR_NULL_POINTER, e)" for al ps keyIn out e
    by (simp add: HuksAccessGenerateKey_def hdi_call_def example_device_def)
  ultimately show ?thesis
    using generate_replaces_key [where env = ?env and st = "keeping [1, 2]" and ps = ?ps and made = "Inl HKS_ERROR_NULL_POINTER", OF _ _ _ gen _ _ example_get(3) example_owner_request(1)
        example_owner_request(2) [symmetric]] example_healthy example_kept_inv [of "[1, 2]"]
    by fastforce
qed

section \<open>Using a key\<close>

lemma GetKeyFileData_exact:
  assumes "env_healthy env" "store_inv users fs" "request_ok users processInfo (Some ps) al HKS_STORAGE_TYPE_KEY"
    "stored users fs (request_key processInfo (Some ps) al HKS_STORAGE_TYPE_KEY) = Some d" "length d \<le> 2048"
  obtains fs' where "GetKeyFileData env processInfo (Some ps) al HKS_STORAGE_TYPE_KEY fs = (Inr (blob_of d), fs')"
    "store_inv users fs'" "stored users fs' = stored users fs"
proof -
  define r where "r = \<lparr>kr_process = processInfo, kr_params = Some ps, kr_alias = al, kr_type = HKS_STORAGE_TYPE_KEY\<rparr>"
  define n :: u32 where "n = word_of_nat (length d)"
  have r: "req_ok users r" "stored users fs (key_of r) = Some d"
    using assms(3,4) by (simp_all add: r_def req_ok_def key_of_def)
  have n: "unat n = length d" "\<not> MAX_KEY_SIZE < n"
    using assms(5) by (simp_all add: n_def unat_u32_of_nat word_less_nat_alt)
  let ?buf = "\<lparr>blob_size = n, blob_data = Some (replicate (unat n) 0)\<rparr>"
  obtain fs1 where s: "HksManageStoreGetKeyBlobSize env processInfo (Some ps) (Some al) HKS_STORAGE_TYPE_KEY fs = (Inr n, fs1)"
    and i: "store_inv users fs1" "stored users fs1 = stored users fs"
    using step_size [OF assms(1,2) r(1)] r(2) by (auto simp: step_ok_def r_def n_def split: prod.splits)
  obtain fs2 where g: "HksManageStoreGetKeyBlob env processInfo (Some ps) (Some al) ?buf HKS_STORAGE_TYPE_KEY fs1
      = (read_answer (Some d) n, fs2)"
    and j: "store_inv users fs2" "stored users fs2 = stored users fs1"
    using step_get [OF assms(1) i(1) r(1), of ?buf] r(2) i(2) by (auto simp: step_ok_def r_def split: prod.splits)
  have "read_answer (Some d) n = Inr (blob_of d)"
    using n(1) by (simp add: read_answer_def blob_of_def)
  moreover have "d \<noteq> []"
    using assms(2,4) by (auto simp: stored_def store_inv_def split: if_splits)
  ultimately have "GetKeyFileData env processInfo (Some ps) al HKS_STORAGE_TYPE_KEY fs = (Inr (blob_of d), fs2)"
    using s g n assms(1,5) by (simp add: GetKeyFileData_def HksMalloc_def)
  then show thesis
    using that i j by simp
qed

text \<open>
  C5: Functional: while the storage has no failures, signing with a stored key of the current version (an older one
  would be upgraded and stored again) calls the engine with exactly the bytes that are stored for the caller and its
  set. When the engine does not answer with one of the codes for which the backup of the key is tried, it was called
  once, its answer is passed on, and no key has changed.
\<close>

theorem sign_uses_stored_key:
  assumes "env_healthy (ce_storage env)" "store_inv users (sv_files st)"
    "HksCheckAllParams (Some (pi_processName processInfo)) (Some al) asked (Some src) (Some sig) = 0"
    "AppendProcessInfoAndDefaultStrategy env asked processInfo NULL = Inr ps"
    "request_ok users processInfo (Some ps) al HKS_STORAGE_TYPE_KEY"
    "stored users (sv_files st) (request_key processInfo (Some ps) al HKS_STORAGE_TYPE_KEY) = Some key" "length key \<le> 2048"
    "HksGetParam (Some (param_set_at key)) HKS_TAG_KEY_VERSION = Inr v" "uint32Param (p_val v) = HKS_KEY_VERSION"
    "HuksAccessSign (ce_hdi env) (blob_of key) (Some ps) src sig (sv_engine st) = (answer, e)"
    "\<forall>c. answer = Inl c \<longrightarrow> \<not> try_backup c"
  shows "\<exists>fs. HksServiceSign env processInfo al asked src sig st = (answer, st\<lparr>sv_files := fs, sv_engine := e\<rparr>)
    \<and> store_inv users fs \<and> stored users fs = stored users (sv_files st)"
proof -
  obtain fs where f: "GetKeyFileData (ce_storage env) processInfo (Some ps) al HKS_STORAGE_TYPE_KEY (sv_files st) = (Inr (blob_of key), fs)"
    and i: "store_inv users fs" "stored users fs = stored users (sv_files st)"
    using GetKeyFileData_exact [OF assms(1,2,5,6,7)] by blast
  have "GetKeyData env processInfo al (Some ps) HKS_STORAGE_TYPE_KEY st = (Inr (blob_of key), st\<lparr>sv_files := fs\<rparr>)"
    using f assms(8,9) by (simp add: GetKeyData_def CheckAndUpgradeKeyIfNeed_def on_files_def next_res_def blob_bytes_def blob_of_def)
  then have "HksServiceSign env processInfo al asked src sig st = (answer, st\<lparr>sv_files := fs, sv_engine := e\<rparr>)"
    using assms(3,4,10,11)
    by (auto simp: HksServiceSign_def use_key_for_def use_key_def GetKeyAndNewParamSet_def on_engine_def next_res_def split: sum.splits)
  with i show ?thesis by blast
qed

text \<open>A stored key, which is a set with its version only, and the number after it.\<close>

definition example_blob :: bytes where
  "example_blob = to_le 4 (32 :: u32) @ to_le 4 (1 :: u32) @ to_le 4 HKS_TAG_KEY_VERSION @ [0, 0, 0, 0]
     @ to_le 8 (3 :: u64) @ replicate 7 0 @ [9]"

lemma example_blob_version:
  "HksGetParam (Some (param_set_at example_blob)) HKS_TAG_KEY_VERSION = Inr \<lparr>p_tag = HKS_TAG_KEY_VERSION, p_val = VUlong 3\<rparr>"
  by code_simp

theorem sign_uses_stored_key_witness:
  "\<exists>fs. HksServiceSign (example_client (Some example_device)) example_process (blob_of [0x2F, 0x41]) (Some (example_level 0))
      (blob_of [1]) (blob_of [0]) (keeping example_blob)
    = (Inr (blob_of (drop 31 example_blob @ [5])), (keeping example_blob)\<lparr>sv_files := fs\<rparr>)"
proof -
  let ?env = "example_client (Some example_device)" and ?ps = "built example_asked"
  have chk: "HksCheckAllParams (Some (pi_processName example_process)) (Some (blob_of [0x2F, 0x41]))
      (Some (example_level 0)) (Some (blob_of [1])) (Some (blob_of [0])) = 0"
    by (simp add: HksCheckAllParams_def HksCheckBlob4AndParamSet_def HksCheckBlob4_def HksCheckBlob3_def CheckBlob_def
        example_process_def blob_of_def example_level_valid CheckProcessNameAndKeyAliasSize_def
        Let_def if_not_succ_return_def)
  have "length example_blob = 32" "example_blob \<noteq> []"
    by (simp_all add: example_blob_def)
  then have kept: "store_inv {100} (example_kept example_blob)" "length example_blob \<le> 2048"
      "stored {100} (sv_files (keeping example_blob)) (request_key example_process (Some ?ps) (blob_of [0x2F, 0x41]) HKS_STORAGE_TYPE_KEY)
         = Some example_blob"
    using example_kept_inv [of example_blob] example_owner_request(2) by auto
  moreover have "HuksAccessSign (ce_hdi ?env) (blob_of example_blob) (Some ?ps) (blob_of [1]) (blob_of [0]) ()
      = (Inr (blob_of (drop 31 example_blob @ [5])), ())"
    by (simp add: HuksAccessSign_def hdi_call_def example_device_def blob_bytes_def blob_of_def)
  ultimately show ?thesis
    using sign_uses_stored_key [where env = ?env and st = "keeping example_blob" and ps = ?ps,
        OF _ _ chk example_set example_owner_request(1) kept(3,2) example_blob_version] example_healthy
    by fastforce
qed

end
