(* ===== verification/Huks_Crypto_Adapter.thy ===== *)
theory Huks_Crypto_Adapter
  imports Huks_Keyblob Huks_Check_Paramset
begin

text \<open>
  Between parameter sets and the crypto engine: \<open>frameworks/huks_standard/main/common/src/hks_crypto_adapter.c\<close>
  fills the structures of \<open>hks_crypto_hal.h\<close> from the parameters of a request, finds the authentication tag
  of authenticated encryption, and takes key material apart; \<open>utils/crypto_adapter/hks_client_service_adapter_common.c\<close>
  brings public keys into the inner format, with the X.509 decoder, which calls OpenSSL, as a parameter.
\<close>

section \<open>Filling the structures\<close>

text \<open>The parameters a loop over \<open>paramSet->params\<close> visits; callers have read from the set before.\<close>

definition set_params :: "HksParamSet ptr \<Rightarrow> HksParam list" where
  "set_params paramSet = (case paramSet of NULL \<Rightarrow> [] | Some ps \<Rightarrow> params ps)"

definition HksFillKeySpec :: "HksParamSet ptr \<Rightarrow> HksKeySpec \<Rightarrow> HksKeySpec" where
  "HksFillKeySpec paramSet spec =
     foldl (\<lambda>spec p.
         if p_tag p = HKS_TAG_ALGORITHM then spec\<lparr>ks_algType := uint32Param (p_val p)\<rparr>
         else if p_tag p = HKS_TAG_KEY_SIZE then spec\<lparr>ks_keyLen := uint32Param (p_val p)\<rparr>
         else spec)
       spec (set_params paramSet)"

definition HksFillUsageSpec :: "HksParamSet ptr \<Rightarrow> HksUsageSpec \<Rightarrow> HksUsageSpec" where
  "HksFillUsageSpec paramSet usageSpec =
     (foldl (\<lambda>spec p.
          let v = uint32Param (p_val p) in
          if p_tag p = HKS_TAG_ALGORITHM then spec\<lparr>us_algType := v\<rparr>
          else if p_tag p = HKS_TAG_PADDING then spec\<lparr>us_padding := v\<rparr>
          else if p_tag p = HKS_TAG_DIGEST then spec\<lparr>us_digest := v\<rparr>
          else if p_tag p = HKS_TAG_BLOCK_MODE then spec\<lparr>us_mode := v\<rparr>
          else if p_tag p = HKS_TAG_PURPOSE then spec\<lparr>us_purpose := v\<rparr>
          else if p_tag p = HKS_TAG_MGF_DIGEST then spec\<lparr>us_mgfDigest := v\<rparr>
          else spec)
        usageSpec (set_params paramSet))\<lparr>us_algParam := NULL\<rparr>"

text \<open>The structures filled with zeros, as their declarations and allocations leave them.\<close>

definition zero_usage_spec :: HksUsageSpec where
  "zero_usage_spec = \<lparr>us_algType = 0, us_mode = 0, us_padding = 0, us_mgfDigest = 0, us_digest = 0,
     us_purpose = 0, us_pssSaltLenType = 0, us_algParam = NULL\<rparr>"

definition zero_key_spec :: HksKeySpec where
  "zero_key_spec = \<lparr>ks_algType = 0, ks_keyLen = 0, ks_algParam = NULL\<rparr>"

definition zero_derivation_param :: HksKeyDerivationParam where
  "zero_derivation_param =
     \<lparr>dp_salt = empty_blob, dp_info = empty_blob, dp_iterations = 0, dp_digestAlg = 0\<rparr>"

definition HksFillKeyDerivationParam :: "HksParamSet ptr \<Rightarrow> HksKeyDerivationParam \<Rightarrow> HksKeyDerivationParam" where
  "HksFillKeyDerivationParam paramSet param =
     foldl (\<lambda>param p.
         if p_tag p = HKS_TAG_DIGEST then param\<lparr>dp_digestAlg := uint32Param (p_val p)\<rparr>
         else if p_tag p = HKS_TAG_SALT then param\<lparr>dp_salt := blobParam (p_val p)\<rparr>
         else if p_tag p = HKS_TAG_INFO then param\<lparr>dp_info := blobParam (p_val p)\<rparr>
         else if p_tag p = HKS_TAG_ITERATION then param\<lparr>dp_iterations := uint32Param (p_val p)\<rparr>
         else param)
       param (set_params paramSet)"

abbreviation (input) SIZEOF_CIPHER_PARAM :: nat where "SIZEOF_CIPHER_PARAM \<equiv> 16"

text \<open>
  The specification, and the input text, which loses its tag when it is to be decrypted: the tag is its last
  \<open>HKS_AE_TAG_LEN\<close> bytes.
\<close>

definition HksFillAeadParam ::
    "allocator \<Rightarrow> HksParamSet ptr \<Rightarrow> HksBlob \<Rightarrow> HksUsageSpec \<Rightarrow> bool \<Rightarrow> (HksUsageSpec \<times> HksBlob) res" where
  "HksFillAeadParam alloc paramSet inputText usageSpec isEncrypt =
     try_res (HksGetParam paramSet HKS_TAG_NONCE) (\<lambda>nonceParam.
     try_res (case HksGetParam paramSet HKS_TAG_ASSOCIATED_DATA of
                Inr aadParam \<Rightarrow> Inr (blobParam (p_val aadParam))
              | Inl ret \<Rightarrow> if ret = HKS_ERROR_PARAM_NOT_EXIST then Inr empty_blob else Inl ret) (\<lambda>aad.
     if \<not> isEncrypt \<and> blob_size inputText \<le> HKS_AE_TAG_LEN then Inl HKS_ERROR_INVALID_ARGUMENT
     else
       (let inputText = (if isEncrypt then inputText
              else inputText\<lparr>blob_size := blob_size inputText - HKS_AE_TAG_LEN\<rparr>);
            tag = \<lparr>blob_size = HKS_AE_TAG_LEN,
              blob_data = map_option (drop (unat (blob_size inputText))) (blob_data inputText)\<rparr> in
        if \<not> HksMalloc alloc SIZEOF_AEAD_PARAM then Inl HKS_ERROR_MALLOC_FAIL
        else
          (let aeadParam = \<lparr>ae_nonce = blobParam (p_val nonceParam), ae_aad = aad,
                 ae_tag = (if isEncrypt then tagLenEnc HKS_AE_TAG_LEN else tagDec tag), ae_payloadLen = 0\<rparr> in
           Inr (usageSpec\<lparr>us_algParam := Some (AeadParam aeadParam)\<rparr>, inputText)))))"

definition HksFillIvParam :: "allocator \<Rightarrow> HksParamSet ptr \<Rightarrow> HksUsageSpec \<Rightarrow> HksUsageSpec res" where
  "HksFillIvParam alloc paramSet usageSpec =
     try_res (HksGetParam paramSet HKS_TAG_IV) (\<lambda>ivParam.
     if \<not> HksMalloc alloc SIZEOF_CIPHER_PARAM then Inl HKS_ERROR_MALLOC_FAIL
     else Inr (usageSpec\<lparr>us_algParam := Some (CipherParam \<lparr>cp_iv = blobParam (p_val ivParam)\<rparr>)\<rparr>))"

definition is_algorithm :: "u32 \<Rightarrow> HksParamSet ptr \<Rightarrow> bool" where
  "is_algorithm alg paramSet =
     (case HksGetParam paramSet HKS_TAG_ALGORITHM of
        Inl _ \<Rightarrow> False | Inr algParam \<Rightarrow> uint32Param (p_val algParam) = alg)"

definition HksIsAlgorithmSm4 :: "HksParamSet ptr \<Rightarrow> bool" where
  "HksIsAlgorithmSm4 paramSet = is_algorithm HKS_ALG_SM4 paramSet"
definition HksIsAlgorithm3DES :: "HksParamSet ptr \<Rightarrow> bool" where
  "HksIsAlgorithm3DES paramSet = is_algorithm HKS_ALG_3DES paramSet"
definition HksIsAlgorithmDES :: "HksParamSet ptr \<Rightarrow> bool" where
  "HksIsAlgorithmDES paramSet = is_algorithm HKS_ALG_DES paramSet"

text \<open>The specification and the input text.\<close>

definition HksBuildCipherUsageSpec ::
    "allocator \<Rightarrow> HksParamSet ptr \<Rightarrow> bool \<Rightarrow> HksBlob \<Rightarrow> (HksUsageSpec \<times> HksBlob) res" where
  "HksBuildCipherUsageSpec alloc paramSet isEncrypt inputText =
     try_res (HksCheckAesAeMode paramSet False) (\<lambda>(isAes, isAeMode).
     if \<not> HksMalloc alloc SIZEOF_USAGE_SPEC then Inl HKS_ERROR_MALLOC_FAIL
     else
       (let usageSpec = HksFillUsageSpec paramSet zero_usage_spec;
            usageSpec = (if us_algType usageSpec = HKS_ALG_RSA \<and> us_digest usageSpec = HKS_DIGEST_NONE
              then usageSpec\<lparr>us_digest := HKS_DIGEST_SHA1\<rparr> else usageSpec);
            with_iv = try_res (HksFillIvParam alloc paramSet usageSpec) (\<lambda>spec. Inr (spec, inputText)) in
        if HksIsAlgorithmSm4 paramSet then with_iv
        else if HksIsAlgorithm3DES paramSet then with_iv
        else if HksIsAlgorithmDES paramSet then with_iv
        else if \<not> isAes then Inr (usageSpec, inputText)
        else if isAeMode then HksFillAeadParam alloc paramSet inputText usageSpec isEncrypt
        else with_iv))"

section \<open>The tag of authenticated encryption\<close>

text \<open>
  Where the tag goes: its offset in the output buffer, and its size. \<open>NULL\<close>: no tag.
\<close>

definition HksGetEncryptAeTag :: "HksParamSet ptr \<Rightarrow> HksBlob \<Rightarrow> HksBlob \<Rightarrow> (nat \<times> u32) ptr res" where
  "HksGetEncryptAeTag paramSet inData outData =
     try_res (HksCheckAesAeMode paramSet False) (\<lambda>(isAes, isAeMode).
     if \<not> isAes \<or> \<not> isAeMode then Inr NULL
     else if blob_size outData < blob_size inData + HKS_AE_TAG_LEN then Inl HKS_ERROR_INVALID_ARGUMENT
     else Inr (Some (unat (blob_size inData), HKS_AE_TAG_LEN)))"

text \<open>
  The tag of the request put into the specification, whose parameter the code takes for that of
  authenticated encryption. The result of \<open>HksCheckAesAeMode\<close> is dropped; its out-parameters are false
  before the call, and \<open>isAes\<close> alone may be set when it fails.
\<close>

definition HksGetDecryptAeTag :: "HksParamSet ptr \<Rightarrow> HksUsageSpec \<Rightarrow> HksUsageSpec res" where
  "HksGetDecryptAeTag runtimeParamSet spec =
     (if runtimeParamSet = NULL then Inl HKS_ERROR_INVALID_ARGUMENT
      else
        (case HksCheckAesAeMode runtimeParamSet False of
           Inr (True, True) \<Rightarrow>
             (case us_algParam spec of
                Some (AeadParam aeadParam) \<Rightarrow>
                  try_res (HksGetParam runtimeParamSet HKS_TAG_AE_TAG) (\<lambda>tagParam.
                  Inr (spec\<lparr>us_algParam :=
                    Some (AeadParam (aeadParam\<lparr>ae_tag := tagDec (blobParam (p_val tagParam))\<rparr>))\<rparr>))
              | _ \<Rightarrow> Inl HKS_ERROR_INVALID_ARGUMENT)
         | _ \<Rightarrow> Inl HKS_ERROR_INVALID_ARGUMENT))"

section \<open>Key material taken apart\<close>

text \<open>The set is built aside and copied over \<open>paramSetOut\<close>, of whose memory only the size is read.\<close>

definition BuildParamSetOut :: "allocator \<Rightarrow> HksParam list \<Rightarrow> HksParamSet \<Rightarrow> HksParamSet res" where
  "BuildParamSetOut alloc newParams paramSetOut =
     try_res (HksInitParamSet alloc) (\<lambda>tmpParamSetOut.
     try_res (add_params tmpParamSetOut newParams) (\<lambda>tmpParamSetOut.
     try_res (HksBuildParamSet alloc (Some tmpParamSetOut)) (\<lambda>tmpParamSetOut.
     if paramSetSize tmpParamSetOut > paramSetSize paramSetOut then Inl HKS_ERROR_INSUFFICIENT_MEMORY
     else HksFreshParamSet (Some tmpParamSetOut) False)))"

definition FormatKeyInner :: "allocator \<Rightarrow> u32 \<Rightarrow> bytes \<Rightarrow> HksBlob \<Rightarrow> HksParamSet \<Rightarrow> HksParamSet res" where
  "FormatKeyInner alloc publicKeySize publicKey keyIn paramSetOut =
     BuildParamSetOut alloc
       [\<lparr>p_tag = HKS_TAG_ASYMMETRIC_PUBLIC_KEY_DATA,
         p_val = VBlob \<lparr>blob_size = publicKeySize, blob_data = Some publicKey\<rparr>\<rparr>,
        \<lparr>p_tag = HKS_TAG_ASYMMETRIC_PRIVATE_KEY_DATA, p_val = VBlob keyIn\<rparr>]
       paramSetOut"

abbreviation (input) SIZEOF_KEY_MATERIAL :: u32 where "SIZEOF_KEY_MATERIAL \<equiv> 20"
abbreviation (input) SIZEOF_KEY_MATERIAL_DSA :: u32 where "SIZEOF_KEY_MATERIAL_DSA \<equiv> 28"

text \<open>\<open>struct KeyMaterial25519\<close> has the fields of \<open>HksKeyMaterialDh\<close>.\<close>

definition key_material_bytes :: "HksKeyMaterialDh \<Rightarrow> bytes" where
  "key_material_bytes km = to_le 4 (dh_keyAlg km) @ to_le 4 (dh_keySize km) @ to_le 4 (dh_pubKeySize km)
     @ to_le 4 (dh_priKeySize km) @ to_le 4 (dh_reserved km)"

definition SetCurve25519KeyMaterial :: "allocator \<Rightarrow> bool \<Rightarrow> HksBlob \<Rightarrow> HksBlob res" where
  "SetCurve25519KeyMaterial alloc isPubKey keyIn =
     (let curve25519Km = \<lparr>dh_keyAlg = HKS_ALG_ED25519, dh_keySize = HKS_CURVE25519_KEY_SIZE_256,
            dh_pubKeySize = (if isPubKey then blob_size keyIn else 0),
            dh_priKeySize = (if isPubKey then 0 else blob_size keyIn), dh_reserved = 0\<rparr>;
          offset = SIZEOF_KEY_MATERIAL;
          keyOut_size = SIZEOF_KEY_MATERIAL + dh_pubKeySize curve25519Km + dh_priKeySize curve25519Km in
      if \<not> HksMalloc alloc (unat keyOut_size) then Inl HKS_ERROR_MALLOC_FAIL
      else
        (let keyOut = ipc_buffer keyOut_size;
             keyOut = snd (memcpy_to keyOut 0 keyOut_size (Some (key_material_bytes curve25519Km)) 20) in
         Inr (snd (memcpy_to keyOut offset (keyOut_size - offset) (blob_data keyIn) (unat (blob_size keyIn))))))"

definition CheckCurve25519KeySize :: "HksBlob \<Rightarrow> rc" where
  "CheckCurve25519KeySize keyIn =
     (if blob_size keyIn < SIZEOF_KEY_MATERIAL then HKS_ERROR_INVALID_ARGUMENT
      else
        (let keyMaterial = as_HksKeyMaterialDh keyIn in
         if unat (blob_size keyIn) < 20 + unat (dh_pubKeySize keyMaterial) + unat (dh_priKeySize keyMaterial)
         then HKS_ERROR_INVALID_ARGUMENT else HKS_SUCCESS))"

definition CheckFormatCurve25519Key :: "HksBlob \<Rightarrow> HksParamSet \<Rightarrow> rc" where
  "CheckFormatCurve25519Key keyIn paramSetOut =
     (let ret = CheckCurve25519KeySize keyIn in
      if_not_succ_return ret ret
        (let keyMaterial = as_HksKeyMaterialDh keyIn;
             offset = word_of_nat (SIZEOF_PARAM_SET + 2 * SIZEOF_PARAM) in
         if dh_pubKeySize keyMaterial > MAX_KEY_SIZE \<or> dh_priKeySize keyMaterial > MAX_KEY_SIZE
         then HKS_ERROR_INVALID_ARGUMENT
         else if paramSetSize paramSetOut < offset + dh_pubKeySize keyMaterial + dh_priKeySize keyMaterial
         then HKS_ERROR_BUFFER_TOO_SMALL else HKS_SUCCESS))"

text \<open>A blob of \<open>n\<close> bytes at an offset of another one.\<close>

definition blob_at :: "HksBlob \<Rightarrow> nat \<Rightarrow> u32 \<Rightarrow> HksBlob" where
  "blob_at b off n = \<lparr>blob_size = n, blob_data = map_option (drop off) (blob_data b)\<rparr>"

definition FormatCurve25519Key :: "allocator \<Rightarrow> HksBlob \<Rightarrow> HksParamSet \<Rightarrow> HksParamSet res" where
  "FormatCurve25519Key alloc keyIn paramSetOut =
     (let ret = CheckFormatCurve25519Key keyIn paramSetOut in
      if_not_succ_return ret (Inl ret)
        (let keyMaterial = as_HksKeyMaterialDh keyIn in
         BuildParamSetOut alloc
           [\<lparr>p_tag = HKS_TAG_ASYMMETRIC_PUBLIC_KEY_DATA,
             p_val = VBlob (blob_at keyIn 20 (dh_pubKeySize keyMaterial))\<rparr>,
            \<lparr>p_tag = HKS_TAG_ASYMMETRIC_PRIVATE_KEY_DATA,
             p_val = VBlob (blob_at keyIn (20 + unat (dh_pubKeySize keyMaterial)) (dh_priKeySize keyMaterial))\<rparr>]
           paramSetOut))"

definition GetCurve25519FromKeyMaterial :: "allocator \<Rightarrow> bool \<Rightarrow> HksBlob \<Rightarrow> HksBlob res" where
  "GetCurve25519FromKeyMaterial alloc isPubKey keyMaterial =
     (let ret = CheckCurve25519KeySize keyMaterial in
      if_not_succ_return ret (Inl ret)
        (let km = as_HksKeyMaterialDh keyMaterial;
             size = (if isPubKey then dh_pubKeySize km else dh_priKeySize km) in
         if size = 0 then Inl HKS_ERROR_INVALID_KEY_INFO
         else if \<not> HksMalloc alloc (unat size) then Inl HKS_ERROR_MALLOC_FAIL
         else
           (let offset = (if isPubKey then 20 else 20 + unat (dh_pubKeySize km)) in
            Inr (snd (memcpy_to (ipc_buffer size) 0 size (blob_data (blob_at keyMaterial offset size))
              (unat size))))))"

definition FormatAesOrHmacKey :: "allocator \<Rightarrow> HksBlob \<Rightarrow> HksParamSet \<Rightarrow> HksParamSet res" where
  "FormatAesOrHmacKey alloc keyIn paramSetOut =
     BuildParamSetOut alloc [\<lparr>p_tag = HKS_TAG_SYMMETRIC_KEY_DATA, p_val = VBlob keyIn\<rparr>] paramSetOut"

text \<open>
  The public part of key material: its first \<open>publicKeySize\<close> bytes, with the size of the private part, the
  word at offset \<open>field\<close>, set to zero. The sums of sizes are 32-bit.
\<close>

definition public_part :: "HksBlob \<Rightarrow> u32 \<Rightarrow> nat \<Rightarrow> bytes" where
  "public_part keyIn publicKeySize field =
     overwrite field (to_le 4 (0 :: u32))
       (blob_bytes (snd (memcpy_to (ipc_buffer publicKeySize) 0 publicKeySize (blob_data keyIn)
         (unat publicKeySize))))"

definition format_pair :: "allocator \<Rightarrow> HksBlob \<Rightarrow> u32 \<Rightarrow> nat \<Rightarrow> HksParamSet \<Rightarrow> HksParamSet res" where
  "format_pair alloc keyIn publicKeySize field paramSetOut =
     (if blob_size keyIn < publicKeySize then Inl HKS_ERROR_INVALID_KEY_INFO
      else if \<not> HksMalloc alloc (unat publicKeySize) then Inl HKS_ERROR_MALLOC_FAIL
      else FormatKeyInner alloc publicKeySize (public_part keyIn publicKeySize field) keyIn paramSetOut)"

definition FormatRsaKey :: "allocator \<Rightarrow> HksBlob \<Rightarrow> HksParamSet \<Rightarrow> HksParamSet res" where
  "FormatRsaKey alloc keyIn paramSetOut =
     (if blob_size keyIn < SIZEOF_KEY_MATERIAL then Inl HKS_ERROR_INVALID_ARGUMENT
      else
        (let keyMaterial = as_HksKeyMaterialRsa keyIn in
         format_pair alloc keyIn (SIZEOF_KEY_MATERIAL + rsa_nSize keyMaterial + rsa_eSize keyMaterial) 16
           paramSetOut))"

text \<open>
  A DSA key has its private part first: the header and what lies behind that part are copied. The second
  copy starts \<open>outOffset\<close> bytes into the key and takes all that is left of the public part.
\<close>

definition FormatDsaKey :: "allocator \<Rightarrow> HksBlob \<Rightarrow> HksParamSet \<Rightarrow> HksParamSet res" where
  "FormatDsaKey alloc keyIn paramSetOut =
     (if blob_size keyIn < SIZEOF_KEY_MATERIAL_DSA then Inl HKS_ERROR_INVALID_ARGUMENT
      else
        (let keyMaterial = as_HksKeyMaterialDsa keyIn;
             publicKeySize = SIZEOF_KEY_MATERIAL_DSA + dsa_ySize keyMaterial + dsa_pSize keyMaterial
               + dsa_qSize keyMaterial + dsa_gSize keyMaterial in
         if blob_size keyIn < publicKeySize then Inl HKS_ERROR_INVALID_KEY_INFO
         else if \<not> HksMalloc alloc (unat publicKeySize) then Inl HKS_ERROR_MALLOC_FAIL
         else
           (let inOffset = SIZEOF_KEY_MATERIAL_DSA;
                outOffset = SIZEOF_KEY_MATERIAL_DSA + dsa_xSize keyMaterial;
                publicKey = ipc_buffer publicKeySize;
                publicKey = snd (memcpy_to publicKey 0 publicKeySize (blob_data keyIn) 28);
                publicKey = snd (memcpy_to publicKey inOffset (publicKeySize - inOffset)
                  (blob_data (blob_at keyIn (unat outOffset) 0)) (unat (publicKeySize - inOffset))) in
            FormatKeyInner alloc publicKeySize (overwrite 8 (to_le 4 (0 :: u32)) (blob_bytes publicKey)) keyIn
              paramSetOut)))"

definition FormatEccKey :: "allocator \<Rightarrow> HksBlob \<Rightarrow> HksParamSet \<Rightarrow> HksParamSet res" where
  "FormatEccKey alloc keyIn paramSetOut =
     (if blob_size keyIn < SIZEOF_KEY_MATERIAL then Inl HKS_ERROR_INVALID_ARGUMENT
      else
        (let keyMaterial = as_HksKeyMaterialEcc keyIn in
         format_pair alloc keyIn (SIZEOF_KEY_MATERIAL + ecc_xSize keyMaterial + ecc_ySize keyMaterial) 16
           paramSetOut))"

definition FormatDhKey :: "allocator \<Rightarrow> HksBlob \<Rightarrow> HksParamSet \<Rightarrow> HksParamSet res" where
  "FormatDhKey alloc keyIn paramSetOut =
     (if blob_size keyIn < SIZEOF_KEY_MATERIAL then Inl HKS_ERROR_INVALID_ARGUMENT
      else
        (let keyMaterial = as_HksKeyMaterialDh keyIn in
         format_pair alloc keyIn (SIZEOF_KEY_MATERIAL + dh_pubKeySize keyMaterial) 12 paramSetOut))"

definition HksSetKeyToMaterial :: "allocator \<Rightarrow> u32 \<Rightarrow> bool \<Rightarrow> HksBlob \<Rightarrow> HksBlob res" where
  "HksSetKeyToMaterial alloc alg isPubKey key =
     (if alg = HKS_ALG_X25519 \<or> alg = HKS_ALG_ED25519 then SetCurve25519KeyMaterial alloc isPubKey key
      else if alg = HKS_ALG_RSA \<or> alg = HKS_ALG_DSA \<or> alg = HKS_ALG_ECC \<or> alg = HKS_ALG_ECDH
        \<or> alg = HKS_ALG_DH then
        (if HksMalloc alloc (unat (blob_size key))
         then Inr (snd (memcpy_to (ipc_buffer (blob_size key)) 0 (blob_size key) (blob_data key)
           (unat (blob_size key))))
         else Inl HKS_ERROR_MALLOC_FAIL)
      else Inl HKS_ERROR_INVALID_ALGORITHM)"

definition HksGetKeyFromMaterial :: "allocator \<Rightarrow> u32 \<Rightarrow> bool \<Rightarrow> HksBlob \<Rightarrow> HksBlob res" where
  "HksGetKeyFromMaterial alloc alg isPubKey keyMaterial =
     (if alg = HKS_ALG_X25519 \<or> alg = HKS_ALG_ED25519
      then GetCurve25519FromKeyMaterial alloc isPubKey keyMaterial
      else Inl HKS_ERROR_INVALID_ALGORITHM)"

definition HksFormatKeyFromMaterial :: "allocator \<Rightarrow> u32 \<Rightarrow> HksBlob \<Rightarrow> HksParamSet \<Rightarrow> HksParamSet res" where
  "HksFormatKeyFromMaterial alloc alg keyMaterial paramSetOut =
     (if alg = HKS_ALG_X25519 \<or> alg = HKS_ALG_ED25519 then FormatCurve25519Key alloc keyMaterial paramSetOut
      else if alg = HKS_ALG_AES then FormatAesOrHmacKey alloc keyMaterial paramSetOut
      else if alg = HKS_ALG_RSA then FormatRsaKey alloc keyMaterial paramSetOut
      else if alg = HKS_ALG_HMAC then FormatAesOrHmacKey alloc keyMaterial paramSetOut
      else if alg = HKS_ALG_DSA then FormatDsaKey alloc keyMaterial paramSetOut
      else if alg = HKS_ALG_ECC \<or> alg = HKS_ALG_ECDH then FormatEccKey alloc keyMaterial paramSetOut
      else if alg = HKS_ALG_DH then FormatDhKey alloc keyMaterial paramSetOut
      else Inl HKS_ERROR_INVALID_ALGORITHM)"

section \<open>Public keys in the inner format\<close>

definition CopyToInnerKey :: "allocator \<Rightarrow> HksBlob \<Rightarrow> HksBlob res" where
  "CopyToInnerKey alloc key =
     (if blob_size key = 0 \<or> blob_size key > MAX_KEY_SIZE then Inl HKS_ERROR_INVALID_ARGUMENT
      else if \<not> HksMalloc alloc (unat (blob_size key)) then Inl HKS_ERROR_MALLOC_FAIL
      else Inr (snd (memcpy_to (ipc_buffer (blob_size key)) 0 (blob_size key) (blob_data key)
        (unat (blob_size key)))))"

definition TranslateToInnerCurve25519Format_engine :: "allocator \<Rightarrow> u32 \<Rightarrow> HksBlob \<Rightarrow> HksBlob res" where
  "TranslateToInnerCurve25519Format_engine alloc alg key =
     (if blob_size key \<noteq> HKS_KEY_BYTES HKS_CURVE25519_KEY_SIZE_256 then Inl HKS_ERROR_INVALID_KEY_INFO
      else
        (let totalSize = SIZEOF_KEY_MATERIAL + blob_size key in
         if \<not> HksMalloc alloc (unat totalSize) then Inl HKS_ERROR_MALLOC_FAIL
         else
           (let header = to_le 4 alg @ to_le 4 HKS_CURVE25519_KEY_SIZE_256 @ to_le 4 (blob_size key)
                  @ replicate 8 0;
                buffer = snd (memcpy_to (ipc_buffer totalSize) 0 totalSize (Some header) 20) in
            Inr (snd (memcpy_to buffer SIZEOF_KEY_MATERIAL (totalSize - SIZEOF_KEY_MATERIAL) (blob_data key)
              (unat (blob_size key)))))))"

text \<open>\<open>from_x509\<close> is \<open>TranslateFromX509PublicKey\<close>.\<close>

definition GetHksPubKeyInnerFormat ::
    "(u32 \<Rightarrow> HksBlob \<Rightarrow> HksBlob res) \<Rightarrow> allocator \<Rightarrow> HksParamSet ptr \<Rightarrow> HksBlob ptr \<Rightarrow> HksBlob res" where
  "GetHksPubKeyInnerFormat from_x509 alloc paramSet keyIn =
     (case keyIn of NULL \<Rightarrow> Inl HKS_ERROR_INVALID_ARGUMENT
      | Some key \<Rightarrow>
          if CheckBlob keyIn \<noteq> HKS_SUCCESS then Inl HKS_ERROR_INVALID_ARGUMENT
          else
            try_or (HksGetParam paramSet HKS_TAG_ALGORITHM) (Inl HKS_ERROR_CHECK_GET_ALG_FAIL) (\<lambda>algParam.
            let alg = uint32Param (p_val algParam) in
            if alg = HKS_ALG_AES then
              (if blob_size key \<noteq> HKS_KEY_BYTES HKS_AES_KEY_SIZE_128
                 \<and> blob_size key \<noteq> HKS_KEY_BYTES HKS_AES_KEY_SIZE_192
                 \<and> blob_size key \<noteq> HKS_KEY_BYTES HKS_AES_KEY_SIZE_256
               then Inl HKS_ERROR_INVALID_KEY_INFO else CopyToInnerKey alloc key)
            else if alg = HKS_ALG_HMAC \<or> alg = HKS_ALG_SM3 \<or> alg = HKS_ALG_SM4 then CopyToInnerKey alloc key
            else if alg = HKS_ALG_ED25519 \<or> alg = HKS_ALG_X25519
            then TranslateToInnerCurve25519Format_engine alloc alg key
            else if alg = HKS_ALG_RSA \<or> alg = HKS_ALG_ECC \<or> alg = HKS_ALG_ECDH \<or> alg = HKS_ALG_DSA
              \<or> alg = HKS_ALG_DH \<or> alg = HKS_ALG_SM2 then from_x509 alg key
            else Inl HKS_ERROR_INVALID_ALGORITHM))"

end
