(* ===== verification/Huks_Engine_State.thy ===== *)
theory Huks_Engine_State
  imports Huks_Crypto_Adapter Huks_Auth Huks_Access
begin

text \<open>
  The state behind an operation in three stages, and the first part of
  \<open>services/huks_standard/huks_engine/main/core/src/hks_core_service_three_stage.c\<close>: the contexts of sessions.
  A session keeps the address of its context in the parameter \<open>HKS_TAG_CRYPTO_CTX\<close> of its key node. The object
  at that address is data cached by the engine, or a context of the crypto engine; the code casts the address
  to what it expects there. Using an object of another kind is undefined behaviour, which the model records.
\<close>

section \<open>The crypto engine\<close>

text \<open>
  The other functions of \<open>hks_crypto_hal.h\<close>. A function that fills a buffer takes it and gives the code and the
  buffer afterwards; \<open>'c\<close> is a context. \<open>Init\<close> is told which addresses are in use and gives the address of the
  new context. \<open>Final\<close> gives \<open>NULL\<close> for the context when it has freed it. \<open>EncryptFreeCtx\<close> says for
  which algorithms the engine has a function to free a context of encryption; it does nothing for the others.
\<close>

record 'c crypto_ops =
  HksCryptoHalGetPubKey :: "HksBlob \<Rightarrow> HksBlob \<Rightarrow> rc \<times> HksBlob"
  HksCryptoHalAgreeKey :: "HksBlob \<Rightarrow> HksBlob \<Rightarrow> HksKeySpec \<Rightarrow> HksBlob \<Rightarrow> rc \<times> HksBlob"
  HksCryptoHalSign :: "HksBlob \<Rightarrow> HksUsageSpec \<Rightarrow> HksBlob \<Rightarrow> HksBlob \<Rightarrow> rc \<times> HksBlob"
  HksCryptoHalVerify :: "HksBlob \<Rightarrow> HksUsageSpec \<Rightarrow> HksBlob \<Rightarrow> HksBlob \<Rightarrow> rc"
  HksCryptoHalSignIsoIec97962 :: "HksBlob \<Rightarrow> HksUsageSpec \<Rightarrow> HksBlob \<Rightarrow> HksBlob \<Rightarrow> rc \<times> HksBlob"
  HksCryptoHalVerifyIsoIec97962 :: "HksBlob \<Rightarrow> HksUsageSpec \<Rightarrow> HksBlob \<Rightarrow> HksBlob \<Rightarrow> rc"
  HksCryptoHalHash :: "u32 \<Rightarrow> HksBlob \<Rightarrow> HksBlob \<Rightarrow> rc \<times> HksBlob"
  HksCryptoHalHashInit :: "u32 \<Rightarrow> (u64 \<Rightarrow> bool) \<Rightarrow> (u64 \<times> 'c) res"
  HksCryptoHalHashUpdate :: "HksBlob \<Rightarrow> 'c \<Rightarrow> rc \<times> 'c"
  HksCryptoHalHashFinal :: "HksBlob \<Rightarrow> 'c \<Rightarrow> HksBlob \<Rightarrow> rc \<times> HksBlob \<times> 'c ptr"
  HksCryptoHalHmacInit :: "HksBlob \<Rightarrow> u32 \<Rightarrow> (u64 \<Rightarrow> bool) \<Rightarrow> (u64 \<times> 'c) res"
  HksCryptoHalHmacUpdate :: "HksBlob \<Rightarrow> 'c \<Rightarrow> rc \<times> 'c"
  HksCryptoHalHmacFinal :: "HksBlob \<Rightarrow> 'c \<Rightarrow> HksBlob ptr \<Rightarrow> rc \<times> HksBlob ptr \<times> 'c ptr"
  HksCryptoHalCmacInit :: "HksBlob \<Rightarrow> u32 \<Rightarrow> (u64 \<Rightarrow> bool) \<Rightarrow> (u64 \<times> 'c) res"
  HksCryptoHalCmacUpdate :: "HksBlob \<Rightarrow> 'c \<Rightarrow> rc \<times> 'c"
  HksCryptoHalCmacFinal :: "HksBlob \<Rightarrow> 'c \<Rightarrow> HksBlob ptr \<Rightarrow> rc \<times> HksBlob ptr \<times> 'c ptr"
  HksCryptoHalEncryptInit :: "HksBlob \<Rightarrow> HksUsageSpec \<Rightarrow> (u64 \<Rightarrow> bool) \<Rightarrow> (u64 \<times> 'c) res"
  HksCryptoHalEncryptUpdate :: "HksBlob \<Rightarrow> 'c \<Rightarrow> HksBlob \<Rightarrow> u32 \<Rightarrow> rc \<times> HksBlob \<times> 'c"
  HksCryptoHalEncryptFinal ::
    "HksBlob \<Rightarrow> 'c \<Rightarrow> HksBlob \<Rightarrow> HksBlob ptr \<Rightarrow> u32 \<Rightarrow> rc \<times> HksBlob \<times> HksBlob ptr \<times> 'c ptr"
  HksCryptoHalDecryptInit :: "HksBlob \<Rightarrow> HksUsageSpec \<Rightarrow> (u64 \<Rightarrow> bool) \<Rightarrow> (u64 \<times> 'c) res"
  HksCryptoHalDecryptUpdate :: "HksBlob \<Rightarrow> 'c \<Rightarrow> HksBlob \<Rightarrow> u32 \<Rightarrow> rc \<times> HksBlob \<times> 'c"
  HksCryptoHalDecryptFinal ::
    "HksBlob \<Rightarrow> 'c \<Rightarrow> HksBlob \<Rightarrow> HksBlob ptr \<Rightarrow> u32 \<Rightarrow> rc \<times> HksBlob \<times> 'c ptr"
  HksCryptoHalEncryptFreeCtx_algs :: "u32 \<Rightarrow> bool"

text \<open>
  What operations use from outside. \<open>ee_addr\<close> gives the address of a new structure, from those in use, when
  there is memory. \<open>ee_param_addr\<close> are the pointers in the memory of parameter sets, \<open>ee_from_x509\<close> the X.509
  decoder, \<open>ee_auth_num\<close> the count of enrolled credentials, \<open>ee_clk\<close> the outcomes of reading the clock,
  \<open>ee_check_dh\<close> and \<open>ee_check_rsa\<close> the checks of OpenSSL on imported public keys.
\<close>

record 'c engine_env =
  ee_auth :: auth_env
  ee_ops :: "'c crypto_ops"
  ee_addr :: "(u64 \<Rightarrow> bool) \<Rightarrow> u64 ptr"
  ee_param_addr :: "nat \<Rightarrow> u64"
  ee_from_x509 :: "u32 \<Rightarrow> HksBlob \<Rightarrow> HksBlob res"
  ee_auth_num :: "u32 \<Rightarrow> u32 \<Rightarrow> rc \<times> u32"
  ee_clk :: "nat \<Rightarrow> u64 res"
  ee_check_dh :: "HksBlob \<Rightarrow> u32 \<Rightarrow> rc"
  ee_check_rsa :: "HksBlob \<Rightarrow> rc"

definition ee_hal :: "'c engine_env \<Rightarrow> crypto_hal" where
  "ee_hal env = ae_hal (ee_auth env)"

definition ee_alloc :: "'c engine_env \<Rightarrow> allocator" where
  "ee_alloc env = ae_alloc (ee_auth env)"

section \<open>State\<close>

datatype 'c ctx_object =
    CachedBlob HksBlob
  | HashCtx 'c
  | CipherCtx 'c
  | HmacCtx 'c
  | CmacCtx 'c

text \<open>
  The node \<open>keyNode\<close> points at, the caller's \<open>outData\<close>, the objects at their addresses, the copies of plain
  keys in memory, how often random bytes were asked for, and whether behaviour was undefined.
\<close>

record 'c engine_state =
  es_node :: HuksKeyNode
  es_out :: "HksBlob ptr"
  es_heap :: "u64 \<rightharpoonup> 'c ctx_object"
  es_raw :: "HksBlob list"
  es_random :: nat
  es_undefined :: bool

abbreviation es_runtime :: "'c engine_state \<Rightarrow> HksParamSet ptr" where
  "es_runtime st \<equiv> kn_runtimeParamSet (es_node st)"
abbreviation es_keyBlob :: "'c engine_state \<Rightarrow> HksParamSet ptr" where
  "es_keyBlob st \<equiv> kn_keyBlobParamSet (es_node st)"

definition undefined_behaviour :: "'a \<Rightarrow> 'c engine_state \<Rightarrow> 'a \<times> 'c engine_state" where
  "undefined_behaviour a st = (a, st\<lparr>es_undefined := True\<rparr>)"

definition used :: "'c engine_state \<Rightarrow> u64 \<Rightarrow> bool" where
  "used st a \<longleftrightarrow> es_heap st a \<noteq> None"

definition put_object :: "u64 \<Rightarrow> 'c ctx_object ptr \<Rightarrow> 'c engine_state \<Rightarrow> 'c engine_state" where
  "put_object a obj st = st\<lparr>es_heap := (es_heap st)(a := obj)\<rparr>"

text \<open>Objects of the engine itself are allocated with \<open>HksMalloc\<close>.\<close>

abbreviation (input) SIZEOF_BLOB :: nat where "SIZEOF_BLOB \<equiv> 16"

definition new_blob :: "'c engine_env \<Rightarrow> HksBlob \<Rightarrow> 'c engine_state \<Rightarrow> u64 res \<times> 'c engine_state" where
  "new_blob env b st =
     (if \<not> HksMalloc (ee_alloc env) SIZEOF_BLOB then (Inl HKS_ERROR_MALLOC_FAIL, st)
      else (case ee_addr env (used st) of
              NULL \<Rightarrow> (Inl HKS_ERROR_MALLOC_FAIL, st)
            | Some a \<Rightarrow> (Inr a, put_object a (Some (CachedBlob b)) st)))"

text \<open>A plain key is copied out of its key blob, and overwritten with zeros and freed after use.\<close>

definition take_raw_key :: "'c engine_env \<Rightarrow> HksParamSet ptr \<Rightarrow> 'c engine_state \<Rightarrow> HksBlob res \<times> 'c engine_state" where
  "take_raw_key env paramSet st =
     (case HksGetRawKey (ee_alloc env) paramSet of
        Inl ret \<Rightarrow> (Inl ret, st)
      | Inr rawKey \<Rightarrow> (Inr rawKey, st\<lparr>es_raw := rawKey # es_raw st\<rparr>))"

definition wipe_raw_key :: "HksBlob \<Rightarrow> 'c engine_state \<Rightarrow> 'c engine_state" where
  "wipe_raw_key rawKey st = st\<lparr>es_raw := remove1 rawKey (es_raw st)\<rparr>"

text \<open>
  What a call of the engine wrote to the start of a buffer; the length becomes the size when the call
  succeeded.
\<close>

definition put_out :: "rc \<Rightarrow> bytes \<Rightarrow> HksBlob \<Rightarrow> HksBlob" where
  "put_out ret bs out =
     \<lparr>blob_size = (if ret = HKS_SUCCESS then word_of_nat (length bs) else blob_size out),
      blob_data = map_option (overwrite 0 bs) (blob_data out)\<rparr>"

section \<open>The context of a session\<close>

definition set_ctx :: "u64 \<Rightarrow> 'c engine_state \<Rightarrow> 'c engine_state" where
  "set_ctx a st = st\<lparr>es_node := (es_node st)\<lparr>kn_runtimeParamSet :=
     map_option (\<lambda>ps. ps\<lparr>params := update_first HKS_TAG_CRYPTO_CTX (\<lambda>p. p\<lparr>p_val := VUlong a\<rparr>) (params ps)\<rparr>)
       (es_runtime st)\<rparr>\<rparr>"

text \<open>\<open>NULL\<close> is the address 0.\<close>

definition GetCryptoCtx :: "HuksKeyNode \<Rightarrow> u64" where
  "GetCryptoCtx keyNode =
     (case HksGetParam (kn_runtimeParamSet keyNode) HKS_TAG_CRYPTO_CTX of
        Inl _ \<Rightarrow> 0 | Inr ctxParam \<Rightarrow> uint64Param (p_val ctxParam))"

definition ClearCryptoCtx :: "'c engine_state \<Rightarrow> 'c engine_state" where
  "ClearCryptoCtx st =
     (case HksGetParam (es_runtime st) HKS_TAG_CRYPTO_CTX of
        Inl _ \<Rightarrow> st | Inr _ \<Rightarrow> set_ctx 0 st)"

text \<open>
  Reading the parameter, with the code \<open>bad\<close> when it is missing, and its value, with the code \<open>null\<close> for
  \<open>NULL\<close>.
\<close>

definition get_ctx :: "rc \<Rightarrow> rc \<Rightarrow> 'c engine_state \<Rightarrow> u64 res" where
  "get_ctx bad null st =
     try_or (HksGetParam (es_runtime st) HKS_TAG_CRYPTO_CTX) (Inl bad) (\<lambda>ctxParam.
       if uint64Param (p_val ctxParam) = 0 then Inl null else Inr (uint64Param (p_val ctxParam)))"

definition SetCacheModeCtx :: "'c engine_env \<Rightarrow> 'c engine_state \<Rightarrow> rc \<times> 'c engine_state" where
  "SetCacheModeCtx env st =
     (case HksGetParam (es_runtime st) HKS_TAG_CRYPTO_CTX of
        Inl _ \<Rightarrow> (HKS_ERROR_BAD_STATE, st)
      | Inr _ \<Rightarrow> then_res (new_blob env empty_blob st) (\<lambda>a st. (HKS_SUCCESS, set_ctx a st)))"

section \<open>Cached data\<close>

abbreviation (input) MAX_BUF_SIZE :: u32 where "MAX_BUF_SIZE \<equiv> 0x500000"
abbreviation (input) MAX_HASH_SIZE :: u32 where "MAX_HASH_SIZE \<equiv> 64"
abbreviation (input) HKS_CIPHER_CCM_MODE_MAX_DATA_LEN :: u32 where "HKS_CIPHER_CCM_MODE_MAX_DATA_LEN \<equiv> 0x19000"

definition CopyNewCachedData :: "HksBlob \<Rightarrow> HksBlob \<Rightarrow> HksBlob \<Rightarrow> HksBlob res" where
  "CopyNewCachedData cachedBlob inData newBlob =
     (let newSize = blob_size newBlob;
          (ok, newBlob) = (if blob_size cachedBlob \<noteq> 0
            then memcpy_to newBlob 0 newSize (blob_data cachedBlob) (unat (blob_size cachedBlob))
            else (True, newBlob)) in
      if \<not> ok then Inl HKS_ERROR_INSUFFICIENT_MEMORY
      else
        (let (ok, newBlob) = (if blob_size inData \<noteq> 0
               then memcpy_to newBlob (blob_size cachedBlob) (newSize - blob_size cachedBlob) (blob_data inData)
                 (unat (blob_size inData))
               else (True, newBlob)) in
         if \<not> ok then Inl HKS_ERROR_INSUFFICIENT_MEMORY else Inr newBlob))"

definition GetNewCachedData :: "allocator \<Rightarrow> HksBlob \<Rightarrow> HksBlob \<Rightarrow> HksBlob res" where
  "GetNewCachedData alloc cachedBlob inData =
     (if blob_size cachedBlob > MAX_BUF_SIZE \<or> blob_size inData > MAX_BUF_SIZE - blob_size cachedBlob
      then Inl HKS_ERROR_INVALID_ARGUMENT
      else
        (let newSize = blob_size cachedBlob + blob_size inData in
         if \<not> HksMalloc alloc (unat newSize) then Inl HKS_ERROR_MALLOC_FAIL
         else CopyNewCachedData cachedBlob inData (ipc_buffer newSize)))"

text \<open>The structure for the longer data is allocated before the cached data is looked at.\<close>

definition UpdateCachedData :: "'c engine_env \<Rightarrow> HksBlob \<Rightarrow> 'c engine_state \<Rightarrow> rc \<times> 'c engine_state" where
  "UpdateCachedData env srcData st =
     (case get_ctx HKS_ERROR_BAD_STATE HKS_ERROR_BAD_STATE st of
        Inl ret \<Rightarrow> (ret, st)
      | Inr ctx \<Rightarrow>
          then_res (new_blob env empty_blob st) (\<lambda>a st.
          case es_heap st ctx of
            Some (CachedBlob cachedData) \<Rightarrow>
              (case GetNewCachedData (ee_alloc env) cachedData srcData of
                 Inl ret \<Rightarrow> (ret, put_object a None st)
               | Inr newCachedBlob \<Rightarrow>
                   (HKS_SUCCESS, set_ctx a (put_object ctx None
                      (put_object a (Some (CachedBlob newCachedBlob)) st))))
          | _ \<Rightarrow> undefined_behaviour HKS_FAILURE st))"

text \<open>\<open>FreeCachedData\<close> of this file.\<close>

definition free_cached :: "u64 \<Rightarrow> 'c engine_state \<Rightarrow> 'c engine_state" where
  "free_cached ctx st =
     (if ctx = 0 then st
      else (case es_heap st ctx of
              Some (CachedBlob _) \<Rightarrow> put_object ctx None st
            | _ \<Rightarrow> snd (undefined_behaviour () st)))"

definition FinishCachedData :: "'c engine_env \<Rightarrow> HksBlob \<Rightarrow> 'c engine_state \<Rightarrow> HksBlob res \<times> 'c engine_state" where
  "FinishCachedData env srcData st =
     (case get_ctx HKS_ERROR_BAD_STATE HKS_ERROR_BAD_STATE st of
        Inl ret \<Rightarrow> (Inl ret, st)
      | Inr ctx \<Rightarrow>
          (case es_heap st ctx of
             Some (CachedBlob cachedData) \<Rightarrow>
               (GetNewCachedData (ee_alloc env) cachedData srcData, set_ctx 0 (free_cached ctx st))
           | _ \<Rightarrow> undefined_behaviour (Inl HKS_FAILURE) st))"

definition CheckCachedDataMaxSize :: "HksBlob \<Rightarrow> u32 \<Rightarrow> 'c engine_state \<Rightarrow> rc \<times> 'c engine_state" where
  "CheckCachedDataMaxSize inData maxDataLen st =
     (case get_ctx HKS_ERROR_BAD_STATE HKS_ERROR_BAD_STATE st of
        Inl ret \<Rightarrow> (ret, st)
      | Inr ctx \<Rightarrow>
          (case es_heap st ctx of
             Some (CachedBlob cachedData) \<Rightarrow>
               if maxDataLen < blob_size cachedData then (HKS_ERROR_INVALID_ARGUMENT, st)
               else if blob_size inData > maxDataLen - blob_size cachedData then (HKS_ERROR_EXCEED_LIMIT, st)
               else (HKS_SUCCESS, st)
           | _ \<Rightarrow> undefined_behaviour HKS_FAILURE st))"

section \<open>Hashing in stages\<close>

definition CoreHashInit :: "'c engine_env \<Rightarrow> u32 \<Rightarrow> 'c engine_state \<Rightarrow> rc \<times> 'c engine_state" where
  "CoreHashInit env alg st =
     (case HksGetParam (es_runtime st) HKS_TAG_CRYPTO_CTX of
        Inl _ \<Rightarrow> (HKS_ERROR_BAD_STATE, st)
      | Inr _ \<Rightarrow>
          (case HksCryptoHalHashInit (ee_ops env) alg (used st) of
             Inl ret \<Rightarrow> (ret, st)
           | Inr (a, c) \<Rightarrow> (HKS_SUCCESS, set_ctx a (put_object a (Some (HashCtx c)) st))))"

definition CoreHashUpdate :: "'c engine_env \<Rightarrow> HksBlob \<Rightarrow> 'c engine_state \<Rightarrow> rc \<times> 'c engine_state" where
  "CoreHashUpdate env srcData st =
     (let ctx = GetCryptoCtx (es_node st) in
      if ctx = 0 then (HKS_ERROR_BAD_STATE, st)
      else
        (case es_heap st ctx of
           Some (HashCtx c) \<Rightarrow>
             (case HksCryptoHalHashUpdate (ee_ops env) srcData c of
                (ret, c) \<Rightarrow> (ret, put_object ctx (Some (HashCtx c)) st))
         | _ \<Rightarrow> undefined_behaviour HKS_FAILURE st))"

definition CoreHashFinish :: "'c engine_env \<Rightarrow> HksBlob \<Rightarrow> 'c engine_state \<Rightarrow> HksBlob res \<times> 'c engine_state" where
  "CoreHashFinish env srcData st =
     (case get_ctx HKS_ERROR_BAD_STATE HKS_ERROR_BAD_STATE st of
        Inl ret \<Rightarrow> (Inl ret, st)
      | Inr ctx \<Rightarrow>
          if \<not> HksMalloc (ee_alloc env) (unat MAX_HASH_SIZE) then (Inl HKS_ERROR_MALLOC_FAIL, st)
          else
            (case es_heap st ctx of
               Some (HashCtx c) \<Rightarrow>
                 (case HksCryptoHalHashFinal (ee_ops env) srcData c (ipc_buffer MAX_HASH_SIZE) of
                    (ret, out, left) \<Rightarrow>
                      (if ret \<noteq> HKS_SUCCESS then Inl ret else Inr out,
                       set_ctx 0 (put_object ctx (map_option HashCtx left) st)))
             | _ \<Rightarrow> undefined_behaviour (Inl HKS_FAILURE) st))"

text \<open>
  Signing and verifying in three stages, \<open>hks_core_service_three_stage.c\<close>: the message is cached when there is
  no digest, and hashed as it comes otherwise; the signature is made at the end. In these operations the
  argument \<open>alg\<close> is the digest of the request.
\<close>

section \<open>Authorisation by what the key was generated for\<close>

definition SignVerifyAuth_three_stage :: "HuksKeyNode \<Rightarrow> HksParamSet ptr \<Rightarrow> rc" where
  "SignVerifyAuth_three_stage keyNode paramSet =
     try_rc (HksGetParam paramSet HKS_TAG_ALGORITHM) (\<lambda>algParam.
     let alg = uint32Param (p_val algParam) in
     if alg = HKS_ALG_ECC \<or> alg = HKS_ALG_SM2 \<or> alg = HKS_ALG_DSA
     then HksThreeStageAuth HKS_AUTH_ID_SIGN_VERIFY_ECC keyNode
     else if alg = HKS_ALG_RSA then
       try_rc (HksGetParam paramSet HKS_TAG_PADDING) (\<lambda>padding.
       let ret = (if uint32Param (p_val padding) = HKS_PADDING_PSS
             then HksCheckKeyBlobParamSetEqualRuntimeParamSet (kn_keyBlobParamSet keyNode)
               (kn_runtimeParamSet keyNode) HKS_TAG_RSA_PSS_SALT_LEN_TYPE
             else HKS_SUCCESS) in
       if_not_succ_return ret ret (HksThreeStageAuth HKS_AUTH_ID_SIGN_VERIFY_RSA keyNode))
     else if alg = HKS_ALG_ED25519 then HksThreeStageAuth HKS_AUTH_ID_SIGN_VERIFY_ED25519 keyNode
     else HKS_ERROR_INVALID_ALGORITHM)"

section \<open>The signature\<close>

definition CheckSignVerifyParams :: "HuksKeyNode \<Rightarrow> HksBlob ptr \<Rightarrow> rc" where
  "CheckSignVerifyParams keyNode outData =
     (case outData of NULL \<Rightarrow> HKS_ERROR_INVALID_ARGUMENT
      | Some out \<Rightarrow>
          if CheckBlob outData \<noteq> HKS_SUCCESS then HKS_ERROR_INVALID_ARGUMENT
          else
            try_rc (HksGetParam (kn_keyBlobParamSet keyNode) HKS_TAG_ALGORITHM) (\<lambda>algParam.
            try_rc (HksGetParam (kn_runtimeParamSet keyNode) HKS_TAG_PURPOSE) (\<lambda>purposeParam.
            try_rc (HksGetParam (kn_keyBlobParamSet keyNode) HKS_TAG_KEY_SIZE) (\<lambda>keySizeParam.
              HksCheckSignature
                (if uint32Param (p_val purposeParam) = HKS_KEY_PURPOSE_SIGN then HKS_CMD_ID_SIGN
                 else HKS_CMD_ID_VERIFY)
                (uint32Param (p_val algParam)) (uint32Param (p_val keySizeParam)) out))))"

text \<open>
  \<open>outData\<close> is the caller's buffer when signing, and the signature to verify otherwise; its contents
  afterwards are given with the code.
\<close>

definition CoreSignVerify ::
    "'c engine_env \<Rightarrow> HksBlob \<Rightarrow> HksBlob ptr \<Rightarrow> 'c engine_state \<Rightarrow> (rc \<times> HksBlob ptr) \<times> 'c engine_state" where
  "CoreSignVerify env inData outData st =
     (let ret = CheckSignVerifyParams (es_node st) outData; ops = ee_ops env in
      if ret \<noteq> HKS_SUCCESS then ((ret, outData), st)
      else
        (case take_raw_key env (es_keyBlob st) st of
           (Inl ret, st) \<Rightarrow> ((ret, outData), st)
         | (Inr rawKey, st) \<Rightarrow>
             let usageSpec = HksFillUsageSpec (es_runtime st) zero_usage_spec;
                 usageSpec = usageSpec\<lparr>us_pssSaltLenType := SetRsaPssSaltLenType (es_runtime st)\<rparr>;
                 out = the outData;
                 iso = (us_algType usageSpec = HKS_ALG_RSA \<and> us_padding usageSpec = HKS_PADDING_ISO_IEC_9796_2);
                 (ret, out) =
                   (if iso then
                      (if us_purpose usageSpec = HKS_KEY_PURPOSE_SIGN
                       then HksCryptoHalSignIsoIec97962 ops rawKey usageSpec inData out
                       else (HksCryptoHalVerifyIsoIec97962 ops rawKey usageSpec inData out, out))
                    else
                      (if us_purpose usageSpec = HKS_KEY_PURPOSE_SIGN
                       then HksCryptoHalSign ops rawKey usageSpec inData out
                       else (HksCryptoHalVerify ops rawKey usageSpec inData out, out))) in
             ((ret, Some out), wipe_raw_key rawKey st)))"

section \<open>Cached or hashed\<close>

definition HksGetParamPadding :: "HuksKeyNode \<Rightarrow> u32 res" where
  "HksGetParamPadding keyNode =
     try_or (HksGetParam (kn_runtimeParamSet keyNode) HKS_TAG_PADDING) (Inl HKS_ERROR_CHECK_GET_PADDING_FAIL)
       (\<lambda>paddingParam. Inr (uint32Param (p_val paddingParam)))"

definition HksCheckNeedCachePadding :: "u32 \<Rightarrow> HuksKeyNode \<Rightarrow> rc" where
  "HksCheckNeedCachePadding alg keyNode =
     (if alg \<noteq> HKS_ALG_RSA then HKS_FAILURE
      else
        try_or (HksGetParamPadding keyNode) HKS_ERROR_CHECK_GET_PADDING_FAIL (\<lambda>padding.
          if padding = HKS_PADDING_ISO_IEC_9796_2 then HKS_SUCCESS else HKS_FAILURE))"

text \<open>The test that all stages make.\<close>

definition need_cache :: "u32 \<Rightarrow> u32 \<Rightarrow> HuksKeyNode \<Rightarrow> bool" where
  "need_cache alg digest keyNode \<longleftrightarrow>
     HksCheckNeedCache alg digest = HKS_SUCCESS \<or> HksCheckNeedCachePadding alg keyNode = HKS_SUCCESS"

definition HksCryptoHalHashFreeCtx_engine :: "u64 \<Rightarrow> 'c engine_state \<Rightarrow> 'c engine_state" where
  "HksCryptoHalHashFreeCtx_engine ctx st =
     (case es_heap st ctx of
        Some (HashCtx _) \<Rightarrow> put_object ctx None st
      | _ \<Rightarrow> snd (undefined_behaviour () st))"

definition FreeSignVerifyCtx :: "'c engine_state \<Rightarrow> 'c engine_state" where
  "FreeSignVerifyCtx st =
     (let keyNode = es_node st; paramSet = es_runtime st in
      case get_ctx 0 0 st of Inl _ \<Rightarrow> st
      | Inr ctx \<Rightarrow>
          try_or (HksGetParam paramSet HKS_TAG_ALGORITHM) st (\<lambda>algParam.
          try_or (HksGetParam paramSet HKS_TAG_DIGEST) st (\<lambda>digestParam.
            set_ctx 0
              (if need_cache (uint32Param (p_val algParam)) (uint32Param (p_val digestParam)) keyNode
               then free_cached ctx st else HksCryptoHalHashFreeCtx_engine ctx st))))"

section \<open>The stages\<close>

definition HksCoreSignVerifyThreeStageInit ::
    "'c engine_env \<Rightarrow> HksParamSet ptr \<Rightarrow> u32 \<Rightarrow> 'c engine_state \<Rightarrow> rc \<times> 'c engine_state" where
  "HksCoreSignVerifyThreeStageInit env paramSet alg st =
     (let ret = SignVerifyAuth_three_stage (es_node st) (es_runtime st) in
      if ret \<noteq> HKS_SUCCESS then (ret, st)
      else
        try_or (HksGetParam (es_runtime st) HKS_TAG_ALGORITHM) (HKS_ERROR_CHECK_GET_ALG_FAIL, st) (\<lambda>algParam.
          let digest = alg in
          if need_cache (uint32Param (p_val algParam)) digest (es_node st)
          then SetCacheModeCtx env st else CoreHashInit env alg st))"

definition HksCoreSignVerifyThreeStageUpdate ::
    "'c engine_env \<Rightarrow> HksParamSet ptr \<Rightarrow> HksBlob \<Rightarrow> u32 \<Rightarrow> 'c engine_state \<Rightarrow> rc \<times> 'c engine_state" where
  "HksCoreSignVerifyThreeStageUpdate env paramSet srcData alg st =
     try_or (HksGetParam (es_runtime st) HKS_TAG_ALGORITHM) (HKS_ERROR_CHECK_GET_ALG_FAIL, st) (\<lambda>algParam.
       let digest = alg in
       if need_cache (uint32Param (p_val algParam)) digest (es_node st)
       then UpdateCachedData env srcData st else CoreHashUpdate env srcData st)"

definition HksCoreSignVerifyThreeStageFinish ::
    "'c engine_env \<Rightarrow> HksParamSet ptr \<Rightarrow> HksBlob \<Rightarrow> u32 \<Rightarrow> 'c engine_state \<Rightarrow> rc \<times> 'c engine_state" where
  "HksCoreSignVerifyThreeStageFinish env paramSet inData alg st =
     try_or (HksGetParam (es_runtime st) HKS_TAG_PURPOSE) (HKS_ERROR_CHECK_GET_PURPOSE_FAIL, st) (\<lambda>purposeParam.
     let signing = (uint32Param (p_val purposeParam) = HKS_KEY_PURPOSE_SIGN);
         message = (if signing then inData else empty_blob) in
     try_or (HksGetParam (es_runtime st) HKS_TAG_ALGORITHM) (HKS_ERROR_CHECK_GET_ALG_FAIL, st) (\<lambda>algParam.
       let digest = alg in
       then_res
         (if need_cache (uint32Param (p_val algParam)) digest (es_node st)
          then FinishCachedData env message st else CoreHashFinish env message st)
         (\<lambda>signVerifyData st.
           case CoreSignVerify env signVerifyData (if signing then es_out st else Some inData) st of
             ((ret, out), st) \<Rightarrow> (ret, if signing then st\<lparr>es_out := out\<rparr> else st))))"

definition HksCoreSignVerifyThreeStageAbort ::
    "'c engine_env \<Rightarrow> HksParamSet ptr \<Rightarrow> u32 \<Rightarrow> 'c engine_state \<Rightarrow> rc \<times> 'c engine_state" where
  "HksCoreSignVerifyThreeStageAbort env paramSet alg st = (HKS_SUCCESS, FreeSignVerifyCtx st)"

end
