(* ===== verification/Huks_One_Stage.thy ===== *)
theory Huks_One_Stage
  imports Huks_Engine_State
begin

text \<open>
  Operations in one call,
  \<open>services/huks_standard/huks_engine/main/core/src/hks_core_service_key_operate_one_stage.c\<close>: the key blob is
  decrypted into a key node, the caller is compared with the owner, the request with the key, then the raw key is
  copied, used and overwritten. Authorisation refuses keys that need user authentication.
\<close>

section \<open>Memory\<close>

text \<open>The plain keys in memory, and what was overwritten with zeros.\<close>

record one_state =
  os_raw :: "HksBlob list"
  os_cleaned :: "cleanup list"

definition log_cleaned :: "cleanup list \<Rightarrow> one_state \<Rightarrow> one_state" where
  "log_cleaned cs st = st\<lparr>os_cleaned := os_cleaned st @ cs\<rparr>"

text \<open>The key node around the body of an operation; \<open>out\<close> is what the caller's buffer holds before.\<close>

definition with_key_node ::
    "'c engine_env \<Rightarrow> HksBlob \<Rightarrow> 'a \<Rightarrow> (HksKeyNode \<Rightarrow> one_state \<Rightarrow> (rc \<times> 'a) \<times> one_state)
     \<Rightarrow> one_state \<Rightarrow> (rc \<times> 'a) \<times> one_state" where
  "with_key_node env key out body st =
     (case HksGenerateKeyNode (ee_hal env) (ee_alloc env) key of
        (NULL, cs) \<Rightarrow> ((HKS_ERROR_CORRUPT_FILE, out), log_cleaned cs st)
      | (Some keyNode, cs) \<Rightarrow>
          (case body keyNode (log_cleaned cs st) of
             (r, st) \<Rightarrow> (r, log_cleaned (snd (HksFreeKeyNode (Some (Some keyNode)))) st)))"

text \<open>
  A buffer with a plain key is in memory from the call that fills it until \<open>memset_s\<close> overwrites it; freeing it
  alone leaves the bytes where they are. The code overwrites at each of its exits with a call of its own, and so
  does the model. \<open>memset_free\<close> is \<open>memset_s\<close> with \<open>HKS_FREE\<close>, as in \<open>HKS_MEMSET_FREE_BLOB\<close>.
\<close>

definition hold :: "HksBlob \<Rightarrow> one_state \<Rightarrow> one_state" where
  "hold key st = (if blob_data key = NULL then st else st\<lparr>os_raw := key # os_raw st\<rparr>)"

definition memset_free :: "HksBlob \<Rightarrow> one_state \<Rightarrow> one_state" where
  "memset_free key st =
     (if blob_data key = NULL then st else log_cleaned [WipeKey key] (st\<lparr>os_raw := remove1 key (os_raw st)\<rparr>))"

definition hold_raw_key :: "'c engine_env \<Rightarrow> HksParamSet ptr \<Rightarrow> one_state \<Rightarrow> HksBlob res \<times> one_state" where
  "hold_raw_key env paramSet st =
     (case HksGetRawKey (ee_alloc env) paramSet of
        Inl ret \<Rightarrow> (Inl ret, st)
      | Inr rawKey \<Rightarrow> (Inr rawKey, hold rawKey st))"

definition refuse :: "rc \<Rightarrow> 'a \<Rightarrow> one_state \<Rightarrow> ((rc \<times> 'a) \<times> one_state) \<Rightarrow> (rc \<times> 'a) \<times> one_state" where
  "refuse ret out st k = (if ret \<noteq> HKS_SUCCESS then ((ret, out), st) else k)"

section \<open>Authorisation\<close>

definition CipherAuth_one_stage :: "HksKeyNode \<Rightarrow> HksParamSet ptr \<Rightarrow> rc" where
  "CipherAuth_one_stage keyNode paramSet =
     try_rc (HksGetParam paramSet HKS_TAG_ALGORITHM) (\<lambda>algParam.
     let alg = uint32Param (p_val algParam) in
     if alg = HKS_ALG_AES \<or> alg = HKS_ALG_SM4 then HksAuth HKS_AUTH_ID_SYM_CIPHER keyNode paramSet
     else if alg = HKS_ALG_RSA \<or> alg = HKS_ALG_SM2 then HksAuth HKS_AUTH_ID_ASYM_CIPHER keyNode paramSet
     else HKS_ERROR_INVALID_ALGORITHM)"

definition SignVerifyAuth_one_stage :: "HksKeyNode \<Rightarrow> HksParamSet ptr \<Rightarrow> rc" where
  "SignVerifyAuth_one_stage keyNode paramSet =
     try_rc (HksGetParam paramSet HKS_TAG_ALGORITHM) (\<lambda>algParam.
     let alg = uint32Param (p_val algParam) in
     if alg = HKS_ALG_RSA then
       try_rc (HksGetParam paramSet HKS_TAG_PADDING) (\<lambda>padding.
       let ret = (if uint32Param (p_val padding) = HKS_PADDING_PSS
             then HksCheckKeyBlobParamSetEqualRuntimeParamSet (hkn_paramSet keyNode) paramSet
               HKS_TAG_RSA_PSS_SALT_LEN_TYPE
             else HKS_SUCCESS) in
       if_not_succ_return ret ret (HksAuth HKS_AUTH_ID_SIGN_VERIFY_RSA keyNode paramSet))
     else if alg = HKS_ALG_ECC then HksAuth HKS_AUTH_ID_SIGN_VERIFY_ECC keyNode paramSet
     else if alg = HKS_ALG_DSA then HKS_SUCCESS
     else if alg = HKS_ALG_ED25519 then HksAuth HKS_AUTH_ID_SIGN_VERIFY_ED25519 keyNode paramSet
     else HKS_ERROR_INVALID_ALGORITHM)"

section \<open>Signing and verifying\<close>

definition GetSignVerifyMessage ::
    "'c engine_env \<Rightarrow> HksParamSet ptr \<Rightarrow> HksBlob \<Rightarrow> HksParamSet ptr \<Rightarrow> HksBlob res" where
  "GetSignVerifyMessage env nodeParamSet srcData paramSet =
     try_or (HksGetParam nodeParamSet HKS_TAG_ALGORITHM) (Inl HKS_ERROR_CHECK_GET_ALG_FAIL) (\<lambda>algParam.
     try_or (case HksGetParam nodeParamSet HKS_TAG_DIGEST of
               Inr digestParam \<Rightarrow> Inr digestParam
             | Inl ret \<Rightarrow>
                 if ret = HKS_ERROR_PARAM_NOT_EXIST then HksGetParam paramSet HKS_TAG_DIGEST else Inl ret)
       (Inl HKS_ERROR_CHECK_GET_DIGEST_FAIL) (\<lambda>digestParam.
     if HksCheckNeedCache (uint32Param (p_val algParam)) (uint32Param (p_val digestParam)) = HKS_SUCCESS
     then Inr srcData
     else if \<not> HksMalloc (ee_alloc env) (unat MAX_HASH_SIZE) then Inl HKS_ERROR_MALLOC_FAIL
     else
       (case HksCryptoHalHash (ee_ops env) (uint32Param (p_val digestParam)) srcData (ipc_buffer MAX_HASH_SIZE) of
          (ret, message) \<Rightarrow> if ret \<noteq> HKS_SUCCESS then Inl ret else Inr message)))"

definition SignVerifyPreCheck :: "'c engine_env \<Rightarrow> HksKeyNode \<Rightarrow> HksParamSet ptr \<Rightarrow> rc" where
  "SignVerifyPreCheck env keyNode paramSet =
     (let ret = HksProcessIdentityVerify (ee_auth_num env) (hkn_paramSet keyNode) paramSet in
      if_not_succ_return ret ret (SignVerifyAuth_one_stage keyNode paramSet))"

definition SignVerify ::
    "'c engine_env \<Rightarrow> u32 \<Rightarrow> HksBlob \<Rightarrow> HksParamSet ptr \<Rightarrow> HksBlob \<Rightarrow> HksBlob \<Rightarrow> one_state
     \<Rightarrow> (rc \<times> HksBlob) \<times> one_state" where
  "SignVerify env cmdId key paramSet srcData signature st =
     refuse (HksCoreCheckSignVerifyParams cmdId key paramSet signature) signature st
     (with_key_node env key signature (\<lambda>keyNode st.
        refuse (SignVerifyPreCheck env keyNode paramSet) signature st
        (case GetSignVerifyMessage env (hkn_paramSet keyNode) srcData paramSet of
           Inl ret \<Rightarrow> ((ret, signature), st)
         | Inr message \<Rightarrow>
             (case hold_raw_key env (hkn_paramSet keyNode) st of
                (Inl ret, st) \<Rightarrow> ((ret, signature), st)
              | (Inr rawKey, st) \<Rightarrow>
                  let usageSpec = (HksFillUsageSpec paramSet zero_usage_spec)
                        \<lparr>us_pssSaltLenType := SetRsaPssSaltLenType paramSet\<rparr>;
                      r = (if cmdId = HKS_CMD_ID_SIGN
                           then HksCryptoHalSign (ee_ops env) rawKey usageSpec message signature
                           else (HksCryptoHalVerify (ee_ops env) rawKey usageSpec message signature, signature)) in
                  (r, memset_free rawKey st)))) st)"

section \<open>Encrypting and decrypting\<close>

definition CipherPreCheck :: "'c engine_env \<Rightarrow> HksKeyNode \<Rightarrow> HksParamSet ptr \<Rightarrow> rc" where
  "CipherPreCheck env keyNode paramSet =
     (let ret = HksProcessIdentityVerify (ee_auth_num env) (hkn_paramSet keyNode) paramSet in
      if_not_succ_return ret ret (CipherAuth_one_stage keyNode paramSet))"

text \<open>The tag is written into the output buffer, behind the text.\<close>

definition CipherEncrypt ::
    "'c engine_env \<Rightarrow> HksBlob \<Rightarrow> HksParamSet ptr \<Rightarrow> HksUsageSpec \<Rightarrow> HksBlob \<Rightarrow> HksBlob \<Rightarrow> rc \<times> HksBlob" where
  "CipherEncrypt env key paramSet usageSpec inData outData =
     (case HksGetEncryptAeTag paramSet inData outData of
        Inl ret \<Rightarrow> (ret, outData)
      | Inr tag \<Rightarrow>
          (case HksCryptoHalEncrypt (ee_hal env) key usageSpec inData (blob_size outData) of
             (ret, bs, tag') \<Rightarrow>
               let out = put_out ret bs outData;
                   out = (case tag of NULL \<Rightarrow> out
                     | Some (off, _) \<Rightarrow> out\<lparr>blob_data := map_option (overwrite off tag') (blob_data out)\<rparr>) in
               if ret \<noteq> HKS_SUCCESS then (ret, out)
               else (HKS_SUCCESS, out\<lparr>blob_size := blob_size out
                 + (case tag of NULL \<Rightarrow> 0 | Some _ \<Rightarrow> word_of_nat (length tag'))\<rparr>)))"

definition Cipher ::
    "'c engine_env \<Rightarrow> u32 \<Rightarrow> HksBlob \<Rightarrow> HksParamSet ptr \<Rightarrow> HksBlob \<Rightarrow> HksBlob \<Rightarrow> one_state
     \<Rightarrow> (rc \<times> HksBlob) \<times> one_state" where
  "Cipher env cmdId key paramSet inData outData st =
     refuse (HksCoreCheckCipherParams cmdId key paramSet inData outData) outData st
     (with_key_node env key outData (\<lambda>keyNode st.
        refuse (CipherPreCheck env keyNode paramSet) outData st
        (case hold_raw_key env (hkn_paramSet keyNode) st of
           (Inl ret, st) \<Rightarrow> ((ret, outData), st)
         | (Inr rawKey, st) \<Rightarrow>
             (case HksBuildCipherUsageSpec (ee_alloc env) paramSet (cmdId = HKS_CMD_ID_ENCRYPT) inData of
                Inl ret \<Rightarrow> ((ret, outData), memset_free rawKey st)
              | Inr (usageSpec, tmpInData) \<Rightarrow>
                  let r = (if cmdId = HKS_CMD_ID_ENCRYPT
                           then CipherEncrypt env rawKey paramSet usageSpec tmpInData outData
                           else
                             (case HksCryptoHalDecrypt (ee_hal env) rawKey usageSpec tmpInData (blob_size outData) of
                                (ret, bs) \<Rightarrow> (ret, put_out ret bs outData))) in
                  (r, memset_free rawKey st)))) st)"

section \<open>The operations\<close>

definition HksCoreSign ::
    "'c engine_env \<Rightarrow> HksBlob \<Rightarrow> HksParamSet ptr \<Rightarrow> HksBlob \<Rightarrow> HksBlob \<Rightarrow> one_state \<Rightarrow> (rc \<times> HksBlob) \<times> one_state" where
  "HksCoreSign env key paramSet srcData signature st =
     SignVerify env HKS_CMD_ID_SIGN key paramSet srcData signature st"

definition HksCoreVerify ::
    "'c engine_env \<Rightarrow> HksBlob \<Rightarrow> HksParamSet ptr \<Rightarrow> HksBlob \<Rightarrow> HksBlob \<Rightarrow> one_state \<Rightarrow> rc \<times> one_state" where
  "HksCoreVerify env key paramSet srcData signature st =
     (case SignVerify env HKS_CMD_ID_VERIFY key paramSet srcData signature st of ((ret, _), st) \<Rightarrow> (ret, st))"

definition HksCoreEncrypt ::
    "'c engine_env \<Rightarrow> HksBlob \<Rightarrow> HksParamSet ptr \<Rightarrow> HksBlob \<Rightarrow> HksBlob \<Rightarrow> one_state \<Rightarrow> (rc \<times> HksBlob) \<times> one_state" where
  "HksCoreEncrypt env key paramSet plainText cipherText st =
     Cipher env HKS_CMD_ID_ENCRYPT key paramSet plainText cipherText st"

definition HksCoreDecrypt ::
    "'c engine_env \<Rightarrow> HksBlob \<Rightarrow> HksParamSet ptr \<Rightarrow> HksBlob \<Rightarrow> HksBlob \<Rightarrow> one_state \<Rightarrow> (rc \<times> HksBlob) \<times> one_state" where
  "HksCoreDecrypt env key paramSet cipherText plainText st =
     Cipher env HKS_CMD_ID_DECRYPT key paramSet cipherText plainText st"

definition HksCheckKeyValidity ::
    "'c engine_env \<Rightarrow> HksParamSet ptr \<Rightarrow> HksBlob \<Rightarrow> one_state \<Rightarrow> rc \<times> one_state" where
  "HksCheckKeyValidity env paramSet key st =
     (case with_key_node env key () (\<lambda>keyNode st.
        ((HksProcessIdentityVerify (ee_auth_num env) (hkn_paramSet keyNode) paramSet, ()), st)) st of
        ((ret, _), st) \<Rightarrow> (ret, st))"

definition HksCoreGetKeyProperties ::
    "'c engine_env \<Rightarrow> HksParamSet ptr \<Rightarrow> HksBlob \<Rightarrow> one_state \<Rightarrow> rc \<times> one_state" where
  "HksCoreGetKeyProperties env paramSet key st = HksCheckKeyValidity env paramSet key st"

definition HksCoreExportPublicKey ::
    "'c engine_env \<Rightarrow> HksBlob \<Rightarrow> HksParamSet ptr \<Rightarrow> HksBlob \<Rightarrow> one_state \<Rightarrow> (rc \<times> HksBlob) \<times> one_state" where
  "HksCoreExportPublicKey env key paramSet keyOut st =
     refuse (if CheckBlob (Some key) \<noteq> HKS_SUCCESS \<or> CheckBlob (Some keyOut) \<noteq> HKS_SUCCESS
       then HKS_ERROR_INVALID_ARGUMENT else HKS_SUCCESS) keyOut st
     (with_key_node env key keyOut (\<lambda>keyNode st.
        refuse (HksProcessIdentityVerify (ee_auth_num env) (hkn_paramSet keyNode) paramSet) keyOut st
        (case hold_raw_key env (hkn_paramSet keyNode) st of
           (Inl ret, st) \<Rightarrow> ((ret, keyOut), st)
         | (Inr rawKey, st) \<Rightarrow> (HksCryptoHalGetPubKey (ee_ops env) rawKey keyOut, memset_free rawKey st))) st)"

text \<open>Whether user authentication is needed, for operations that ask before they use the key.\<close>

definition refuse_user_auth :: "HksParamSet ptr \<Rightarrow> rc" where
  "refuse_user_auth paramSet =
     try_rc (HksCheckKeybBlobIsSupportUserAuth paramSet) (\<lambda>isSupportUserAuth.
       if isSupportUserAuth then HKS_ERROR_NOT_SUPPORTED else HKS_SUCCESS)"

definition HksCoreAgreeKey ::
    "'c engine_env \<Rightarrow> HksParamSet ptr \<Rightarrow> HksBlob \<Rightarrow> HksBlob \<Rightarrow> HksBlob \<Rightarrow> one_state \<Rightarrow> (rc \<times> HksBlob) \<times> one_state" where
  "HksCoreAgreeKey env paramSet privateKey peerPublicKey agreedKey st =
     refuse (HksCoreCheckAgreeKeyParams paramSet privateKey peerPublicKey agreedKey False) agreedKey st
     (with_key_node env privateKey agreedKey (\<lambda>privateKeyNode st.
        refuse (HksProcessIdentityVerify (ee_auth_num env) (hkn_paramSet privateKeyNode) paramSet) agreedKey st
        (refuse (refuse_user_auth (hkn_paramSet privateKeyNode)) agreedKey st
        (case hold_raw_key env (hkn_paramSet privateKeyNode) st of
           (Inl ret, st) \<Rightarrow> ((ret, agreedKey), st)
         | (Inr key, st) \<Rightarrow>
             (HksCryptoHalAgreeKey (ee_ops env) key peerPublicKey (HksFillKeySpec paramSet zero_key_spec) agreedKey,
              memset_free key st)))) st)"

definition HksCoreDeriveKey ::
    "'c engine_env \<Rightarrow> HksParamSet ptr \<Rightarrow> HksBlob \<Rightarrow> HksBlob \<Rightarrow> one_state \<Rightarrow> (rc \<times> HksBlob) \<times> one_state" where
  "HksCoreDeriveKey env paramSet mainKey derivedKey st =
     refuse (HksCoreCheckDeriveKeyParams paramSet False) derivedKey st
     (with_key_node env mainKey derivedKey (\<lambda>keyNode st.
        refuse (HksProcessIdentityVerify (ee_auth_num env) (hkn_paramSet keyNode) paramSet) derivedKey st
        (refuse (HksAuth HKS_AUTH_ID_DERIVE keyNode paramSet) derivedKey st
        (case hold_raw_key env (hkn_paramSet keyNode) st of
           (Inl ret, st) \<Rightarrow> ((ret, derivedKey), st)
         | (Inr key, st) \<Rightarrow>
             let derivationSpec = (HksFillKeySpec paramSet zero_key_spec)
                   \<lparr>ks_algParam := Some (HksFillKeyDerivationParam paramSet zero_derivation_param)\<rparr>;
                 r = (case HksCryptoHalDeriveKey (ee_hal env) key derivationSpec (blob_size derivedKey) of
                        Inl ret \<Rightarrow> (ret, derivedKey)
                      | Inr bs \<Rightarrow>
                          (HKS_SUCCESS, derivedKey\<lparr>blob_data := map_option (overwrite 0 bs) (blob_data derivedKey)\<rparr>)) in
             (r, memset_free key st)))) st)"

definition HksCoreMac ::
    "'c engine_env \<Rightarrow> HksBlob \<Rightarrow> HksParamSet ptr \<Rightarrow> HksBlob \<Rightarrow> HksBlob \<Rightarrow> one_state \<Rightarrow> (rc \<times> HksBlob) \<times> one_state" where
  "HksCoreMac env key paramSet srcData mac st =
     refuse (HksCoreCheckMacParams key paramSet mac False) mac st
     (with_key_node env key mac (\<lambda>keyNode st.
        refuse (HksProcessIdentityVerify (ee_auth_num env) (hkn_paramSet keyNode) paramSet) mac st
        (refuse (HksAuth HKS_AUTH_ID_MAC_HMAC keyNode paramSet) mac st
        (case HksGetParam paramSet HKS_TAG_DIGEST of
           Inl ret \<Rightarrow> ((ret, mac), st)
         | Inr digestParam \<Rightarrow>
             (case hold_raw_key env (hkn_paramSet keyNode) st of
                (Inl ret, st) \<Rightarrow> ((ret, mac), st)
              | (Inr rawKey, st) \<Rightarrow>
                  let r = (case HksCryptoHalHmac (ee_hal env) rawKey (uint32Param (p_val digestParam)) srcData
                               (blob_size mac) of
                             Inl ret \<Rightarrow> (ret, mac)
                           | Inr bs \<Rightarrow> (HKS_SUCCESS, put_out HKS_SUCCESS bs mac)) in
                  (r, memset_free rawKey st))))) st)"

end
