(* ===== verification/Huks_Core_Generate.thy ===== *)
theory Huks_Core_Generate
  imports Huks_One_Stage
begin

text \<open>
  Generating and importing keys, and the parts of importing wrapped keys,
  \<open>services/huks_standard/huks_engine/main/core/src/hks_core_service_key_generate.c\<close>. Results that own a buffer
  are the buffer, or the code. The caller of a function that returns a plain key holds it in memory.
\<close>

text \<open>A code and a buffer as a result.\<close>

definition as_res :: "(rc \<times> 'a) \<times> one_state \<Rightarrow> 'a res \<times> one_state" where
  "as_res r = (case r of ((ret, a), st) \<Rightarrow> (if ret \<noteq> HKS_SUCCESS then Inl ret else Inr a, st))"

text \<open>
  The keys in a result are in memory; and a step inside \<open>do \<dots> while (0)\<close>, with what the code behind the loop
  does when the step breaks out of it.
\<close>

definition put_keys :: "('a \<Rightarrow> HksBlob list) \<Rightarrow> 'a res \<times> one_state \<Rightarrow> 'a res \<times> one_state" where
  "put_keys keys r = (case r of (Inl ret, st) \<Rightarrow> (Inl ret, st) | (Inr a, st) \<Rightarrow> (Inr a, fold hold (keys a) st))"

abbreviation put_key :: "HksBlob res \<times> one_state \<Rightarrow> HksBlob res \<times> one_state" where
  "put_key \<equiv> put_keys (\<lambda>key. [key])"

definition break_res ::
    "'a res \<times> one_state \<Rightarrow> (one_state \<Rightarrow> one_state) \<Rightarrow> ('a \<Rightarrow> one_state \<Rightarrow> 'b res \<times> one_state)
     \<Rightarrow> 'b res \<times> one_state" where
  "break_res r leave k = (case r of (Inl ret, st) \<Rightarrow> (Inl ret, leave st) | (Inr a, st) \<Rightarrow> k a st)"

section \<open>Keys by agreement\<close>

definition GetGenType :: "HksParamSet ptr \<Rightarrow> u32 res" where
  "GetGenType paramSet =
     try_or (HksGetParam paramSet HKS_TAG_KEY_GENERATE_TYPE) (Inr HKS_KEY_GENERATE_TYPE_DEFAULT) (\<lambda>keyGenTypeParam.
     try_or (HksGetParam paramSet HKS_TAG_ALGORITHM) (Inl HKS_ERROR_CHECK_GET_ALG_FAIL) (\<lambda>keyAlgParam.
     let t = uint32Param (p_val keyGenTypeParam) in
     if t = HKS_KEY_GENERATE_TYPE_DEFAULT then Inr HKS_KEY_GENERATE_TYPE_DEFAULT
     else if t = HKS_KEY_GENERATE_TYPE_AGREE then
       (if uint32Param (p_val keyAlgParam) = HKS_ALG_AES then Inr HKS_KEY_GENERATE_TYPE_AGREE
        else Inr HKS_KEY_GENERATE_TYPE_DEFAULT)
     else Inl HKS_ERROR_INVALID_ARGUMENT))"

text \<open>\<open>struct Hks25519KeyPair\<close>: the sizes of a public and a private part, which follow.\<close>

abbreviation (input) SIZEOF_KEY_PAIR :: u32 where "SIZEOF_KEY_PAIR \<equiv> 8"

definition publicBufferSize :: "HksBlob \<Rightarrow> u32" where
  "publicBufferSize key = read_u32 (blob_bytes key) 0"
definition privateBufferSize :: "HksBlob \<Rightarrow> u32" where
  "privateBufferSize key = read_u32 (blob_bytes key) 4"

definition CheckAgreeKeyIn :: "HksBlob \<Rightarrow> rc" where
  "CheckAgreeKeyIn key =
     (if CheckBlob (Some key) \<noteq> HKS_SUCCESS then HKS_ERROR_INVALID_ARGUMENT
      else if blob_size key < SIZEOF_KEY_PAIR then HKS_ERROR_INVALID_ARGUMENT
      else if privateBufferSize key > blob_size key - SIZEOF_KEY_PAIR
        \<or> publicBufferSize key > blob_size key - SIZEOF_KEY_PAIR - privateBufferSize key
      then HKS_ERROR_INVALID_ARGUMENT
      else HKS_SUCCESS)"

definition GetAgreeBaseKey_engine ::
    "'c engine_env \<Rightarrow> bool \<Rightarrow> bool \<Rightarrow> HksBlob \<Rightarrow> one_state \<Rightarrow> HksBlob res \<times> one_state" where
  "GetAgreeBaseKey_engine env isPubKey isPlainPubKey keyIn st =
     (let sz = (if isPubKey then publicBufferSize keyIn else privateBufferSize keyIn);
          off = 8 + (if isPubKey then 0 else unat (publicBufferSize keyIn)) in
      if \<not> HksMalloc (ee_alloc env) (unat sz) then (Inl HKS_ERROR_MALLOC_FAIL, st)
      else
        (let buffer = \<lparr>blob_size = sz, blob_data = Some (take (unat sz) (drop off (blob_bytes keyIn)))\<rparr>;
             st = hold buffer st in
         if isPlainPubKey then (Inr buffer, st)
         else
           (case HksGenerateKeyNode (ee_hal env) (ee_alloc env) buffer of
              (keyNode, cs) \<Rightarrow>
                (let st = memset_free buffer (log_cleaned cs st) in
                 case keyNode of
                   NULL \<Rightarrow> (Inl HKS_ERROR_CORRUPT_FILE, st)
                 | Some keyNode \<Rightarrow>
                     (let free_node = log_cleaned (snd (HksFreeKeyNode (Some (Some keyNode)))) in
                      case HksCheckKeybBlobIsSupportUserAuth (hkn_paramSet keyNode) of
                        Inl ret \<Rightarrow> (Inl ret, free_node st)
                      | Inr isSupportUserAuth \<Rightarrow>
                          if isSupportUserAuth then (Inl HKS_ERROR_NOT_SUPPORTED, free_node st)
                          else
                            (case hold_raw_key env (hkn_paramSet keyNode) st of
                               (r, st) \<Rightarrow> (r, free_node st)))))))"

definition GetAgreePriKey :: "'c engine_env \<Rightarrow> HksBlob \<Rightarrow> one_state \<Rightarrow> HksBlob res \<times> one_state" where
  "GetAgreePriKey env keyIn st = GetAgreeBaseKey_engine env False False keyIn st"

definition GetAgreePubKey ::
    "'c engine_env \<Rightarrow> HksBlob \<Rightarrow> HksParamSet ptr \<Rightarrow> one_state \<Rightarrow> HksBlob res \<times> one_state" where
  "GetAgreePubKey env keyIn paramSet st =
     (case HksGetParam paramSet HKS_TAG_AGREE_PUBLIC_KEY_IS_KEY_ALIAS of
        Inr isKeyAliasParam \<Rightarrow>
          if \<not> boolParam (p_val isKeyAliasParam) then GetAgreeBaseKey_engine env True True keyIn st
          else GetAgreeBaseKey_engine env True False keyIn st
      | Inl _ \<Rightarrow> GetAgreeBaseKey_engine env True False keyIn st)"

definition GenAgreeKey :: "'c engine_env \<Rightarrow> HksParamSet ptr \<Rightarrow> HksBlob \<Rightarrow> HksBlob \<Rightarrow> HksBlob res" where
  "GenAgreeKey env paramSet privateKey peerPublicKey =
     try_res (HksGetParam paramSet HKS_TAG_AGREE_ALG) (\<lambda>agreeAlgParam.
     let alg = uint32Param (p_val agreeAlgParam) in
     if \<not> HksMalloc (ee_alloc env) (unat (HKS_KEY_BYTES HKS_AES_KEY_SIZE_256)) then Inl HKS_ERROR_MALLOC_FAIL
     else if alg \<noteq> HKS_ALG_X25519 \<and> alg \<noteq> HKS_ALG_ED25519 then Inl HKS_ERROR_INVALID_ARGUMENT
     else
       (case HksCryptoHalAgreeKey (ee_ops env) privateKey peerPublicKey
          \<lparr>ks_algType = alg, ks_keyLen = HKS_CURVE25519_KEY_SIZE_256, ks_algParam = NULL\<rparr>
          (ipc_buffer (HKS_KEY_BYTES HKS_AES_KEY_SIZE_256)) of
          (ret, agreedKey) \<Rightarrow> if ret \<noteq> HKS_SUCCESS then Inl ret else Inr agreedKey))"

definition GenKeyByAgree ::
    "'c engine_env \<Rightarrow> HksBlob \<Rightarrow> HksParamSet ptr \<Rightarrow> one_state \<Rightarrow> HksBlob res \<times> one_state" where
  "GenKeyByAgree env keyIn paramSet st =
     (let ret = CheckAgreeKeyIn keyIn in
      if ret \<noteq> HKS_SUCCESS then (Inl ret, st)
      else
        (case GetAgreePriKey env keyIn st of
           (Inl ret, st) \<Rightarrow> (Inl ret, st)
         | (Inr priKey, st) \<Rightarrow>
             (case GetAgreePubKey env keyIn paramSet st of
                (Inl ret, st) \<Rightarrow> (Inl ret, memset_free priKey st)
              | (Inr pubKey, st) \<Rightarrow>
                  (case put_key (GenAgreeKey env paramSet priKey pubKey, st) of
                     (r, st) \<Rightarrow> (r, memset_free pubKey (memset_free priKey st))))))"

section \<open>Generating\<close>

text \<open>The key blob, with what was cleaned up while it was built.\<close>

definition build_key_blob ::
    "'c engine_env \<Rightarrow> u32 \<Rightarrow> HksBlob \<Rightarrow> HksParamSet ptr \<Rightarrow> HksBlob \<Rightarrow> one_state \<Rightarrow> HksBlob res \<times> one_state" where
  "build_key_blob env keyFlag key paramSet keyOut st =
     (case HksBuildKeyBlob (ee_hal env) (ee_alloc env) (ee_param_addr env) (ucast keyFlag) key (the paramSet) keyOut of
        (r, cs) \<Rightarrow> (r, log_cleaned cs st))"

text \<open>\<open>n\<close> is the number of keys the crypto engine has generated before.\<close>

definition HksCoreGenerateKey ::
    "'c engine_env \<Rightarrow> nat \<Rightarrow> HksBlob \<Rightarrow> HksParamSet ptr \<Rightarrow> HksBlob \<Rightarrow> HksBlob \<Rightarrow> one_state \<Rightarrow> HksBlob res \<times> one_state"
    where
  "HksCoreGenerateKey env n keyAlias paramSet keyIn keyOut st =
     (let ret = HksCoreCheckGenKeyParams paramSet HKS_KEY_FLAG_GENERATE_KEY in
      if ret \<noteq> HKS_SUCCESS then (Inl ret, st)
      else
        (case GetGenType paramSet of
           Inl ret \<Rightarrow> (Inl ret, st)
         | Inr genType \<Rightarrow>
             if CheckIfNeedIsDevicePasswordSet (ee_auth_num env) paramSet \<noteq> HKS_SUCCESS
             then (Inl HKS_ERROR_DEVICE_PASSWORD_UNSET, st)
             else
               next_res
                 (if genType = HKS_KEY_GENERATE_TYPE_DEFAULT
                  then put_key (HksCryptoHalGenerateKey (ee_hal env) n (HksFillKeySpec paramSet zero_key_spec), st)
                  else if genType = HKS_KEY_GENERATE_TYPE_AGREE then GenKeyByAgree env keyIn paramSet st
                  else (Inl HKS_ERROR_INVALID_ARGUMENT, st))
                 (\<lambda>key st.
                  case build_key_blob env HKS_KEY_FLAG_GENERATE_KEY key paramSet keyOut st of
                    (r, st) \<Rightarrow> (r, memset_free key st))))"

section \<open>Importing\<close>

abbreviation (input) g_defaultRsaPubExponent :: bytes where "g_defaultRsaPubExponent \<equiv> [1, 0, 1]"

definition CheckRsaKeyMaterialLen :: "u32 \<Rightarrow> HksBlob \<Rightarrow> rc" where
  "CheckRsaKeyMaterialLen keyType key =
     (if blob_size key < SIZEOF_KEY_MATERIAL then HKS_ERROR_INVALID_KEY_INFO
      else
        (let km = as_HksKeyMaterialRsa key in
         if rsa_nSize km > HKS_RSA_KEY_SIZE_4096 \<or> rsa_nSize km = 0 \<or> rsa_dSize km > HKS_RSA_KEY_SIZE_4096
           \<or> rsa_dSize km = 0 \<or> rsa_eSize km > HKS_RSA_KEY_SIZE_4096 then HKS_ERROR_INVALID_KEY_INFO
         else if keyType = HKS_KEY_TYPE_KEY_PAIR \<and> rsa_eSize km = 0 then HKS_ERROR_INVALID_KEY_INFO
         else if blob_size key < SIZEOF_KEY_MATERIAL + rsa_nSize km + rsa_dSize km + rsa_eSize km
         then HKS_ERROR_INVALID_KEY_INFO
         else HKS_SUCCESS))"

text \<open>The public exponent goes between modulus and private exponent, and its size, 3, into the header.\<close>

definition AppendRsaPublicExponent :: "allocator \<Rightarrow> HksBlob \<Rightarrow> HksBlob res" where
  "AppendRsaPublicExponent alloc key =
     (let km = as_HksKeyMaterialRsa key; d = blob_bytes key;
          sz = SIZEOF_KEY_MATERIAL + rsa_nSize km + rsa_dSize km + 3 in
      if \<not> HksMalloc alloc (unat sz) then Inl HKS_ERROR_MALLOC_FAIL
      else
        (let out = ipc_buffer sz; offset = SIZEOF_KEY_MATERIAL;
             out = snd (memcpy_to out 0 sz (Some d) 20);
             out = snd (memcpy_to out 12 4 (Some (to_le 4 (3 :: u32))) 4);
             out = snd (memcpy_to out offset (sz - offset) (Some (drop (unat offset) d)) (unat (rsa_nSize km)));
             offset = offset + rsa_nSize km;
             out = snd (memcpy_to out offset (sz - offset) (Some g_defaultRsaPubExponent) 3);
             out = snd (memcpy_to out (offset + 3) (sz - offset - 3) (Some (drop (unat offset) d))
               (unat (rsa_dSize km))) in
         Inr out))"

definition GetRsaPrivateOrPairInnerFormat :: "allocator \<Rightarrow> u32 \<Rightarrow> HksBlob \<Rightarrow> HksBlob res" where
  "GetRsaPrivateOrPairInnerFormat alloc keyType key =
     (let ret = CheckRsaKeyMaterialLen keyType key in
      if ret \<noteq> HKS_SUCCESS then Inl ret
      else if keyType = HKS_KEY_TYPE_PRIVATE_KEY \<and> rsa_eSize (as_HksKeyMaterialRsa key) = 0
      then AppendRsaPublicExponent alloc key
      else CopyToInnerKey alloc key)"

definition GetCurve25519PrivateOrPairInnerFormat :: "allocator \<Rightarrow> u8 \<Rightarrow> u32 \<Rightarrow> HksBlob \<Rightarrow> HksBlob res" where
  "GetCurve25519PrivateOrPairInnerFormat alloc alg keyType key =
     (if keyType = HKS_KEY_TYPE_KEY_PAIR then CopyToInnerKey alloc key
      else if blob_size key \<noteq> HKS_KEY_BYTES HKS_CURVE25519_KEY_SIZE_256 then Inl HKS_ERROR_INVALID_KEY_INFO
      else
        (let totalSize = SIZEOF_KEY_MATERIAL + blob_size key in
         if \<not> HksMalloc alloc (unat totalSize) then Inl HKS_ERROR_MALLOC_FAIL
         else
           (let header = key_material_bytes \<lparr>dh_keyAlg = ucast alg, dh_keySize = HKS_CURVE25519_KEY_SIZE_256,
                  dh_pubKeySize = 0, dh_priKeySize = blob_size key, dh_reserved = 0\<rparr>;
                buffer = snd (memcpy_to (ipc_buffer totalSize) 0 totalSize (Some header) 20) in
            Inr (snd (memcpy_to buffer SIZEOF_KEY_MATERIAL (totalSize - SIZEOF_KEY_MATERIAL) (blob_data key)
              (unat (blob_size key)))))))"

definition GetPrivateOrPairInnerFormat :: "allocator \<Rightarrow> u32 \<Rightarrow> HksBlob \<Rightarrow> HksParamSet ptr \<Rightarrow> HksBlob res" where
  "GetPrivateOrPairInnerFormat alloc keyType key paramSet =
     (if CheckBlob (Some key) \<noteq> HKS_SUCCESS then Inl HKS_ERROR_INVALID_ARGUMENT
      else
        try_or (HksGetParam paramSet HKS_TAG_ALGORITHM) (Inl HKS_ERROR_CHECK_GET_ALG_FAIL) (\<lambda>algParam.
        let alg = uint32Param (p_val algParam) in
        if alg = HKS_ALG_RSA then GetRsaPrivateOrPairInnerFormat alloc keyType key
        else if alg = HKS_ALG_ECC \<or> alg = HKS_ALG_DSA \<or> alg = HKS_ALG_DH \<or> alg = HKS_ALG_SM2
          \<or> alg = HKS_ALG_HMAC \<or> alg = HKS_ALG_SM3 \<or> alg = HKS_ALG_SM4 \<or> alg = HKS_ALG_AES
        then CopyToInnerKey alloc key
        else if alg = HKS_ALG_ED25519 \<or> alg = HKS_ALG_X25519
        then GetCurve25519PrivateOrPairInnerFormat alloc (ucast alg) keyType key
        else Inl HKS_ERROR_INVALID_ALGORITHM))"

definition HksCoreImportKey ::
    "'c engine_env \<Rightarrow> HksBlob \<Rightarrow> HksBlob \<Rightarrow> HksParamSet ptr \<Rightarrow> HksBlob \<Rightarrow> one_state \<Rightarrow> HksBlob res \<times> one_state" where
  "HksCoreImportKey env keyAlias key paramSet keyOut st =
     (case (case HksGetParam paramSet HKS_TAG_IMPORT_KEY_TYPE of
              Inr importKeyTypeParam \<Rightarrow>
                let t = uint32Param (p_val importKeyTypeParam) in
                if t = HKS_KEY_TYPE_PRIVATE_KEY \<or> t = HKS_KEY_TYPE_KEY_PAIR
                then GetPrivateOrPairInnerFormat (ee_alloc env) t key paramSet
                else CopyToInnerKey (ee_alloc env) key
            | Inl _ \<Rightarrow> CopyToInnerKey (ee_alloc env) key) of
        Inl ret \<Rightarrow> (Inl ret, st)
      | Inr innerKey \<Rightarrow>
          (let st = hold innerKey st;
               ret = HksCoreCheckImportKeyParams (ee_check_dh env) (ee_check_rsa env) innerKey paramSet in
           if ret \<noteq> HKS_SUCCESS then (Inl ret, memset_free innerKey st)
           else
             (case build_key_blob env HKS_KEY_FLAG_IMPORT_KEY innerKey paramSet keyOut st of
                (r, st) \<Rightarrow> (r, memset_free innerKey st))))"

section \<open>Wrapped keys\<close>

text \<open>Parameters of the request that say who the caller is, copied to another set.\<close>

fun transfer_tags :: "HksParamSet ptr \<Rightarrow> u32 list \<Rightarrow> HksParamSet \<Rightarrow> HksParamSet res" where
  "transfer_tags inParamSet [] paramSet = Inr paramSet"
| "transfer_tags inParamSet (t # ts) paramSet =
     try_or (HksGetParam inParamSet t) (Inl HKS_ERROR_BAD_STATE) (\<lambda>tmpParam.
     try_or (add_params paramSet [tmpParam]) (Inl HKS_ERROR_BAD_STATE) (\<lambda>paramSet.
     transfer_tags inParamSet ts paramSet))"

definition AddProcessIdentityInfoToParamSet :: "HksParamSet ptr \<Rightarrow> HksParamSet \<Rightarrow> HksParamSet res" where
  "AddProcessIdentityInfoToParamSet inParamSet paramSet =
     transfer_tags inParamSet [HKS_TAG_ACCESS_TOKEN_ID, HKS_TAG_USER_ID, HKS_TAG_PROCESS_NAME] paramSet"

definition AddAgreeKeyParamSetFromUnwrapSuite :: "u32 \<Rightarrow> HksParamSet ptr \<Rightarrow> HksParamSet \<Rightarrow> HksParamSet res" where
  "AddAgreeKeyParamSetFromUnwrapSuite suite inParamSet paramSet =
     (let (alg, keySize) =
        (if suite = HKS_UNWRAP_SUITE_ECDH_AES_256_GCM_NOPADDING then (HKS_ALG_ECDH, HKS_ECC_KEY_SIZE_256)
         else if suite = HKS_UNWRAP_SUITE_SM2_SM4_128_CBC_PKCS7
           \<or> suite = HKS_UNWRAP_SUITE_SM2_SM4_128_CBC_PKCS7_WITH_VERIFY_DIG_SM3
         then (HKS_ALG_SM2, HKS_SM2_KEY_SIZE_256)
         else (HKS_ALG_X25519, HKS_CURVE25519_KEY_SIZE_256)) in
      try_res (add_params paramSet
        [\<lparr>p_tag = HKS_TAG_ALGORITHM, p_val = VUint alg\<rparr>,
         \<lparr>p_tag = HKS_TAG_PURPOSE, p_val = VUint HKS_KEY_PURPOSE_AGREE\<rparr>,
         \<lparr>p_tag = HKS_TAG_KEY_SIZE, p_val = VUint keySize\<rparr>])
        (AddProcessIdentityInfoToParamSet inParamSet))"

definition GenAgreeKeyParamSetFromUnwrapSuite :: "allocator \<Rightarrow> u32 \<Rightarrow> HksParamSet ptr \<Rightarrow> HksParamSet res" where
  "GenAgreeKeyParamSetFromUnwrapSuite alloc suite inParamSet =
     try_res (HksInitParamSet alloc) (\<lambda>paramSet.
     try_res (AddAgreeKeyParamSetFromUnwrapSuite suite inParamSet paramSet) (\<lambda>paramSet.
     HksBuildParamSet alloc (Some paramSet)))"

text \<open>The specification is of zeros before, so its purpose is 0.\<close>

definition BuildDecryptUsageSpecOfUnwrap ::
    "allocator \<Rightarrow> HksBlob \<Rightarrow> HksBlob \<Rightarrow> HksBlob \<Rightarrow> u32 \<Rightarrow> HksUsageSpec \<Rightarrow> HksUsageSpec res" where
  "BuildDecryptUsageSpecOfUnwrap alloc aad nonce aeadTag payloadLen usageSpec =
     (if \<not> HksMalloc alloc SIZEOF_AEAD_PARAM then Inl HKS_ERROR_MALLOC_FAIL
      else Inr (usageSpec\<lparr>us_mode := HKS_MODE_GCM, us_padding := HKS_PADDING_NONE, us_digest := HKS_DIGEST_NONE,
        us_algType := HKS_ALG_AES,
        us_algParam := Some (AeadParam \<lparr>ae_nonce = nonce, ae_aad = aad, ae_tag = tagDec aeadTag,
          ae_payloadLen = payloadLen\<rparr>)\<rparr>))"

definition CheckWrappingKeyIsUsedForUnwrap :: "'c engine_env \<Rightarrow> HksBlob \<Rightarrow> one_state \<Rightarrow> rc \<times> one_state" where
  "CheckWrappingKeyIsUsedForUnwrap env wrappingKey st =
     (case with_key_node env wrappingKey () (\<lambda>wrappingKeyNode st.
        ((try_or (HksGetParam (hkn_paramSet wrappingKeyNode) HKS_TAG_PURPOSE) HKS_ERROR_CHECK_GET_PURPOSE_FAIL
           (\<lambda>purposeParam.
             if uint32Param (p_val purposeParam) \<noteq> HKS_KEY_PURPOSE_UNWRAP then HKS_ERROR_INVALID_USAGE_OF_KEY
             else HKS_SUCCESS), ()), st)) st of
        ((ret, _), st) \<Rightarrow> (ret, st))"

text \<open>Functions that take parts off the data give the index of the next part.\<close>

definition get_part :: "HksBlob \<Rightarrow> u32 \<Rightarrow> HksBlob res" where
  "get_part wrappedKeyData offset =
     HksGetBlobFromWrappedData (Some wrappedKeyData) offset HKS_IMPORT_WRAPPED_KEY_TOTAL_BLOBS"

definition GetPublicKeyInnerFormat ::
    "'c engine_env \<Rightarrow> HksBlob \<Rightarrow> HksBlob \<Rightarrow> u32 \<Rightarrow> one_state \<Rightarrow> (HksBlob \<times> u32) res \<times> one_state" where
  "GetPublicKeyInnerFormat env wrappingKey wrappedKeyData partOffset st =
     (case get_part wrappedKeyData partOffset of
        Inl ret \<Rightarrow> (Inl ret, st)
      | Inr peerPubKeyPart \<Rightarrow>
          as_res (with_key_node env wrappingKey (empty_blob, partOffset) (\<lambda>wrappingKeyNode st.
            case GetHksPubKeyInnerFormat (ee_from_x509 env) (ee_alloc env) (hkn_paramSet wrappingKeyNode)
              (Some peerPubKeyPart) of
              Inl ret \<Rightarrow> ((ret, empty_blob, partOffset), st)
            | Inr outPublicKey \<Rightarrow> ((HKS_SUCCESS, outPublicKey, partOffset + 1), st)) st))"

definition AgreeSharedSecretWithPeerPublicKey ::
    "'c engine_env \<Rightarrow> HksBlob \<Rightarrow> HksBlob \<Rightarrow> u32 \<Rightarrow> HksParamSet ptr \<Rightarrow> one_state \<Rightarrow> HksBlob res \<times> one_state" where
  "AgreeSharedSecretWithPeerPublicKey env wrappingKey publicKey unwrapSuite inParamSet st =
     next_rc (CheckWrappingKeyIsUsedForUnwrap env wrappingKey st) (\<lambda>st.
       case GenAgreeKeyParamSetFromUnwrapSuite (ee_alloc env) unwrapSuite inParamSet of
         Inl ret \<Rightarrow> (Inl ret, st)
       | Inr agreeKeyParamSet \<Rightarrow>
           if \<not> HksMalloc (ee_alloc env) (unat (HKS_KEY_BYTES HKS_AES_KEY_SIZE_256))
           then (Inl HKS_ERROR_MALLOC_FAIL, st)
           else as_res (HksCoreAgreeKey env (Some agreeKeyParamSet) wrappingKey publicKey
             (ipc_buffer (HKS_KEY_BYTES HKS_AES_KEY_SIZE_256)) st))"

definition ParseKekDecryptParams :: "HksBlob \<Rightarrow> u32 \<Rightarrow> (HksBlob \<times> HksBlob \<times> HksBlob \<times> HksBlob \<times> u32) res" where
  "ParseKekDecryptParams wrappedKeyData offset =
     try_res (get_part wrappedKeyData offset) (\<lambda>aad.
     try_res (get_part wrappedKeyData (offset + 1)) (\<lambda>nonce.
     try_res (get_part wrappedKeyData (offset + 2)) (\<lambda>aeadTag.
     try_res (get_part wrappedKeyData (offset + 3)) (\<lambda>encData.
     Inr (aad, nonce, aeadTag, encData, offset + 4)))))"

text \<open>Decrypting into a new buffer.\<close>

definition decrypt_new :: "'c engine_env \<Rightarrow> HksBlob \<Rightarrow> HksUsageSpec \<Rightarrow> HksBlob \<Rightarrow> u32 \<Rightarrow> HksBlob res" where
  "decrypt_new env key usageSpec encData sz =
     (case HksCryptoHalDecrypt (ee_hal env) key usageSpec encData sz of
        (ret, bs) \<Rightarrow> if ret \<noteq> HKS_SUCCESS then Inl ret else Inr (put_out ret bs (ipc_buffer sz)))"

definition DecryptKekWithAgreeSharedSecret ::
    "'c engine_env \<Rightarrow> HksBlob \<Rightarrow> HksBlob \<Rightarrow> u32 \<Rightarrow> (HksBlob \<times> u32) res" where
  "DecryptKekWithAgreeSharedSecret env wrappedKeyData agreeSharedSecret partOffset =
     try_res (ParseKekDecryptParams wrappedKeyData partOffset) (\<lambda>(aad, nonce, aeadTag, encData, offset).
     if \<not> HksMalloc (ee_alloc env) SIZEOF_USAGE_SPEC then Inl HKS_ERROR_MALLOC_FAIL
     else
       try_res (BuildDecryptUsageSpecOfUnwrap (ee_alloc env) aad nonce aeadTag (blob_size encData) zero_usage_spec)
         (\<lambda>decKekUsageSpec.
       if \<not> HksMalloc (ee_alloc env) (unat (HKS_KEY_BYTES HKS_AES_KEY_SIZE_256)) then Inl HKS_ERROR_MALLOC_FAIL
       else
         try_res (decrypt_new env agreeSharedSecret decKekUsageSpec encData (HKS_KEY_BYTES HKS_AES_KEY_SIZE_256))
           (\<lambda>kek. Inr (kek, offset))))"

definition ParseImportedKeyDecryptParams ::
    "HksBlob \<Rightarrow> u32 \<Rightarrow> (HksBlob \<times> HksBlob \<times> HksBlob \<times> HksBlob \<times> u32 \<times> u32) res" where
  "ParseImportedKeyDecryptParams wrappedKeyData offset =
     try_res (get_part wrappedKeyData offset) (\<lambda>aad.
     try_res (get_part wrappedKeyData (offset + 1)) (\<lambda>nonce.
     try_res (get_part wrappedKeyData (offset + 2)) (\<lambda>aeadTag.
     try_res (get_part wrappedKeyData (offset + 3)) (\<lambda>keyMatLenBlobPart.
     if blob_size keyMatLenBlobPart \<noteq> 4 then Inl HKS_ERROR_INVALID_WRAPPED_FORMAT
     else
       (let keyMaterialSize = read_u32 (blob_bytes keyMatLenBlobPart) 0 in
        if keyMaterialSize = 0 \<or> keyMaterialSize > MAX_KEY_SIZE then Inl HKS_ERROR_INVALID_WRAPPED_FORMAT
        else
          try_res (get_part wrappedKeyData (offset + 4)) (\<lambda>encData.
          Inr (aad, nonce, aeadTag, encData, keyMaterialSize, offset + 5)))))))"

definition DecryptImportedKeyWithKek ::
    "'c engine_env \<Rightarrow> HksBlob \<Rightarrow> HksBlob \<Rightarrow> u32 \<Rightarrow> (HksBlob \<times> u32) res" where
  "DecryptImportedKeyWithKek env wrappedKeyData kek partOffset =
     try_res (ParseImportedKeyDecryptParams wrappedKeyData partOffset)
       (\<lambda>(aad, nonce, aeadTag, encData, keyMaterialSize, offset).
     if \<not> HksMalloc (ee_alloc env) (unat keyMaterialSize) then Inl HKS_ERROR_MALLOC_FAIL
     else if \<not> HksMalloc (ee_alloc env) SIZEOF_USAGE_SPEC then Inl HKS_ERROR_MALLOC_FAIL
     else
       try_res (BuildDecryptUsageSpecOfUnwrap (ee_alloc env) aad nonce aeadTag (blob_size encData) zero_usage_spec)
         (\<lambda>decOriginKeyUsageSpec.
       try_res (decrypt_new env kek decOriginKeyUsageSpec encData keyMaterialSize) (\<lambda>originKey.
       Inr (originKey, offset))))"

definition ClearAndFreeKeyBlobsIfNeed :: "HksBlob \<Rightarrow> HksBlob \<Rightarrow> HksBlob \<Rightarrow> HksBlob \<Rightarrow> one_state \<Rightarrow> one_state" where
  "ClearAndFreeKeyBlobsIfNeed peerPublicKey agreeSharedSecret originKey kek st =
     memset_free peerPublicKey (memset_free agreeSharedSecret (memset_free kek (memset_free originKey st)))"

text \<open>The key under AES, from the agreement to the import. Keys that are not there yet are \<open>{ 0, NULL }\<close>.\<close>

definition import_wrapped_aes ::
    "'c engine_env \<Rightarrow> u32 \<Rightarrow> HksBlob \<Rightarrow> HksBlob \<Rightarrow> HksBlob \<Rightarrow> HksParamSet ptr \<Rightarrow> HksBlob \<Rightarrow> one_state
     \<Rightarrow> HksBlob res \<times> one_state" where
  "import_wrapped_aes env unwrapSuite keyAlias wrappingKey wrappedKeyData paramSet keyOut st =
     break_res (put_keys (\<lambda>(key, _). [key]) (GetPublicKeyInnerFormat env wrappingKey wrappedKeyData 0 st))
       (ClearAndFreeKeyBlobsIfNeed empty_blob empty_blob empty_blob empty_blob) (\<lambda>(peerPublicKey, partOffset) st.
     break_res (put_key (AgreeSharedSecretWithPeerPublicKey env wrappingKey peerPublicKey unwrapSuite paramSet st))
       (ClearAndFreeKeyBlobsIfNeed peerPublicKey empty_blob empty_blob empty_blob) (\<lambda>agreeSharedSecret st.
     break_res (put_keys (\<lambda>(key, _). [key])
         (DecryptKekWithAgreeSharedSecret env wrappedKeyData agreeSharedSecret partOffset, st))
       (ClearAndFreeKeyBlobsIfNeed peerPublicKey agreeSharedSecret empty_blob empty_blob) (\<lambda>(kek, partOffset) st.
     break_res (put_keys (\<lambda>(key, _). [key]) (DecryptImportedKeyWithKek env wrappedKeyData kek partOffset, st))
       (ClearAndFreeKeyBlobsIfNeed peerPublicKey agreeSharedSecret empty_blob kek) (\<lambda>(originKey, _) st.
     case HksCoreImportKey env keyAlias originKey paramSet keyOut st of
       (r, st) \<Rightarrow> (r, ClearAndFreeKeyBlobsIfNeed peerPublicKey agreeSharedSecret originKey kek st)))))"

section \<open>Random numbers\<close>

definition HksCoreGenerateRandom :: "'c engine_env \<Rightarrow> nat \<Rightarrow> HksBlob \<Rightarrow> HksBlob res" where
  "HksCoreGenerateRandom env n random =
     try_res (HksCryptoHalFillRandom (ee_hal env) n (blob_size random)) (\<lambda>bs.
       Inr (random\<lparr>blob_data := map_option (overwrite 0 bs) (blob_data random)\<rparr>))"

text \<open>
  Importing keys wrapped with SM2 and SM4,
  \<open>services/huks_standard/huks_engine/main/core/src/hks_sm_import_wrap_key.c\<close>, and the entry for all wrapped keys,
  \<open>HksCoreImportWrappedKey\<close> of \<open>hks_core_service_key_generate.c\<close>. Two keys are derived from the key
  encryption key: one decrypts the imported key, the other authenticates it.
\<close>

abbreviation (input) HKS_PADDING_SUPPLENMENT :: u32 where "HKS_PADDING_SUPPLENMENT \<equiv> 16"
abbreviation (input) SIZEOF_CIPHER_PARAM :: nat where "SIZEOF_CIPHER_PARAM \<equiv> 16"

definition g_validCipher :: "u32 list" where
  "g_validCipher = [HKS_ALG_SM4, HKS_ALG_SM2]"

section \<open>The key encryption key\<close>

text \<open>The keys of one import.\<close>

record HksSmWrappedKeyDataBlob =
  sm_peerPublicKey :: HksBlob
  sm_kekAndSignData :: HksBlob
  sm_kekData :: HksBlob
  sm_signData :: HksBlob
  sm_deriveKekData1 :: HksBlob
  sm_deriveKekData2 :: HksBlob
  sm_originKey :: HksBlob
  sm_signatureDataLength :: u32

definition zero_wrapped_blob :: HksSmWrappedKeyDataBlob where
  "zero_wrapped_blob =
     \<lparr>sm_peerPublicKey = empty_blob, sm_kekAndSignData = empty_blob, sm_kekData = empty_blob,
      sm_signData = empty_blob, sm_deriveKekData1 = empty_blob, sm_deriveKekData2 = empty_blob,
      sm_originKey = empty_blob, sm_signatureDataLength = 0\<rparr>"

definition ClearAndFreeKeyBlob :: "HksBlob \<Rightarrow> one_state \<Rightarrow> one_state" where
  "ClearAndFreeKeyBlob blobData st = memset_free blobData st"

definition ClearAndFreeWrappedBlob :: "HksSmWrappedKeyDataBlob \<Rightarrow> one_state \<Rightarrow> one_state" where
  "ClearAndFreeWrappedBlob dataParams st =
     fold ClearAndFreeKeyBlob
       [sm_originKey dataParams, sm_peerPublicKey dataParams, sm_kekAndSignData dataParams, sm_kekData dataParams,
        sm_signData dataParams, sm_deriveKekData1 dataParams, sm_deriveKekData2 dataParams] st"

definition GetDataLenFromWrappedData :: "HksBlob \<Rightarrow> u32 \<Rightarrow> u32 res" where
  "GetDataLenFromWrappedData wrappedKeyData partOffset =
     try_res (get_part wrappedKeyData partOffset) (\<lambda>originDataLenBlobPart.
     if blob_size originDataLenBlobPart \<noteq> 4 then Inl HKS_ERROR_INVALID_WRAPPED_FORMAT
     else
       (let dataSize = read_u32 (blob_bytes originDataLenBlobPart) 0 in
        if dataSize > MAX_KEY_SIZE then Inl HKS_ERROR_INVALID_WRAPPED_FORMAT else Inr dataSize))"

text \<open>Functions that fill in \<open>dataParams\<close> give it and the index of the next part.\<close>

definition GetPublicKeyAndSignDataLength ::
    "'c engine_env \<Rightarrow> HksBlob \<Rightarrow> HksKeyNode \<Rightarrow> HksSmWrappedKeyDataBlob \<Rightarrow> u32 \<Rightarrow> one_state
     \<Rightarrow> (HksSmWrappedKeyDataBlob \<times> u32) res \<times> one_state" where
  "GetPublicKeyAndSignDataLength env wrappedKeyData keyNode dataParams partOffset st =
     put_keys (\<lambda>(dataParams, _). [sm_peerPublicKey dataParams])
       (try_res (get_part wrappedKeyData partOffset) (\<lambda>peerPubKeyPart.
        try_res (GetDataLenFromWrappedData wrappedKeyData (partOffset + 1)) (\<lambda>signatureDataLength.
        let dataParams = dataParams\<lparr>sm_signatureDataLength := signatureDataLength\<rparr> in
        if blob_size peerPubKeyPart = 0 then Inr (dataParams, partOffset + 2)
        else
          try_res (GetHksPubKeyInnerFormat (ee_from_x509 env) (ee_alloc env) (hkn_paramSet keyNode)
            (Some peerPubKeyPart)) (\<lambda>peerPublicKey.
          Inr (dataParams\<lparr>sm_peerPublicKey := peerPublicKey\<rparr>, partOffset + 2)))), st)"

definition AddDecryptKeyParamSetFromUnwrapSuite :: "HksParamSet ptr \<Rightarrow> HksParamSet \<Rightarrow> HksParamSet res" where
  "AddDecryptKeyParamSetFromUnwrapSuite inParamSet paramSet =
     try_res (add_params paramSet
       [\<lparr>p_tag = HKS_TAG_ALGORITHM, p_val = VUint HKS_ALG_SM2\<rparr>,
        \<lparr>p_tag = HKS_TAG_PURPOSE, p_val = VUint HKS_KEY_PURPOSE_DECRYPT\<rparr>,
        \<lparr>p_tag = HKS_TAG_KEY_SIZE, p_val = VUint HKS_SM2_KEY_SIZE_256\<rparr>,
        \<lparr>p_tag = HKS_TAG_DIGEST, p_val = VUint HKS_DIGEST_NONE\<rparr>,
        \<lparr>p_tag = HKS_TAG_PADDING, p_val = VUint HKS_PADDING_NONE\<rparr>])
       (transfer_tags inParamSet [HKS_TAG_ACCESS_TOKEN_ID, HKS_TAG_USER_ID, HKS_TAG_PROCESS_NAME])"

definition GetSm2DecryptParamSet :: "allocator \<Rightarrow> HksParamSet ptr \<Rightarrow> HksParamSet res" where
  "GetSm2DecryptParamSet alloc inParamSet =
     try_res (HksInitParamSet alloc) (\<lambda>paramSet.
     try_res (AddDecryptKeyParamSetFromUnwrapSuite inParamSet paramSet) (\<lambda>paramSet.
     HksBuildParamSet alloc (Some paramSet)))"

text \<open>
  The plain text is the key encryption key when there is no signature, and the key with the signature behind it
  otherwise.
\<close>

definition DecryptKekWithSm2 ::
    "'c engine_env \<Rightarrow> HksBlob \<Rightarrow> HksParamSet ptr \<Rightarrow> HksKeyNode \<Rightarrow> HksSmWrappedKeyDataBlob \<Rightarrow> u32 \<Rightarrow> one_state
     \<Rightarrow> (HksSmWrappedKeyDataBlob \<times> u32) res \<times> one_state" where
  "DecryptKekWithSm2 env wrappedKeyData paramSet keyNode dataParams partOffset st =
     (case try_res (get_part wrappedKeyData partOffset) (\<lambda>kekEncDataPart.
           try_res (GetDataLenFromWrappedData wrappedKeyData (partOffset + 1)) (\<lambda>kekOriginDataLen.
           let sz = kekOriginDataLen + sm_signatureDataLength dataParams in
           if \<not> HksMalloc (ee_alloc env) (unat sz) then Inl HKS_ERROR_MALLOC_FAIL
           else
             try_res (GetSm2DecryptParamSet (ee_alloc env) paramSet) (\<lambda>decryptParamSet.
             Inr (kekEncDataPart, sz, decryptParamSet)))) of
        Inl ret \<Rightarrow> (Inl ret, st)
      | Inr (kekEncDataPart, sz, decryptParamSet) \<Rightarrow>
          (case hold_raw_key env (hkn_paramSet keyNode) st of
             (Inl ret, st) \<Rightarrow> (Inl ret, st)
           | (Inr rawKey, st) \<Rightarrow>
               (case put_key
                  (try_res (HksBuildCipherUsageSpec (ee_alloc env) (Some decryptParamSet) False kekEncDataPart)
                     (\<lambda>(usageSpec, kekEncDataPart). decrypt_new env rawKey usageSpec kekEncDataPart sz), st) of
                  (Inl ret, st) \<Rightarrow> (Inl ret, ClearAndFreeKeyBlob rawKey st)
                | (Inr plainTextBlob, st) \<Rightarrow>
                    (Inr (if sm_signatureDataLength dataParams = 0
                          then dataParams\<lparr>sm_kekData := plainTextBlob\<rparr>
                          else dataParams\<lparr>sm_kekAndSignData := plainTextBlob\<rparr>, partOffset + 2),
                     ClearAndFreeKeyBlob rawKey st))))"

text \<open>
  When there is no memory for the signature, the copy of the key encryption key is freed without being
  overwritten.
\<close>

definition SplitKekAndSignData ::
    "allocator \<Rightarrow> HksSmWrappedKeyDataBlob \<Rightarrow> one_state \<Rightarrow> HksSmWrappedKeyDataBlob res \<times> one_state" where
  "SplitKekAndSignData alloc dataParams st =
     (let kekAndSign = sm_kekAndSignData dataParams; signDataLen = sm_signatureDataLength dataParams;
          sz = blob_size kekAndSign - signDataLen; d = blob_bytes kekAndSign;
          kekDataBlob = \<lparr>blob_size = sz, blob_data = Some (take (unat sz) d)\<rparr>;
          signatureDataBlob = \<lparr>blob_size = signDataLen, blob_data = Some (take (unat signDataLen) (drop (unat sz) d))\<rparr> in
      if blob_size kekAndSign < signDataLen then (Inl HKS_ERROR_INVALID_ARGUMENT, st)
      else if \<not> HksMalloc alloc (unat sz) then (Inl HKS_ERROR_MALLOC_FAIL, st)
      else if signDataLen = 0
      then (Inr (dataParams\<lparr>sm_kekData := kekDataBlob, sm_signData := empty_blob\<rparr>), hold kekDataBlob st)
      else if \<not> HksMalloc alloc (unat signDataLen) then (Inl HKS_ERROR_MALLOC_FAIL, hold kekDataBlob st)
      else (Inr (dataParams\<lparr>sm_kekData := kekDataBlob, sm_signData := signatureDataBlob\<rparr>),
        hold signatureDataBlob (hold kekDataBlob st)))"

definition VerifyKekBySm2 :: "'c engine_env \<Rightarrow> HksSmWrappedKeyDataBlob \<Rightarrow> rc" where
  "VerifyKekBySm2 env dataParams =
     try_rc (HksInitParamSet (ee_alloc env)) (\<lambda>verifyParamSet.
     try_rc (add_params verifyParamSet
       [\<lparr>p_tag = HKS_TAG_ALGORITHM, p_val = VUint HKS_ALG_SM2\<rparr>,
        \<lparr>p_tag = HKS_TAG_PURPOSE, p_val = VUint HKS_KEY_PURPOSE_VERIFY\<rparr>,
        \<lparr>p_tag = HKS_TAG_KEY_SIZE, p_val = VUint HKS_SM2_KEY_SIZE_256\<rparr>,
        \<lparr>p_tag = HKS_TAG_DIGEST, p_val = VUint HKS_DIGEST_SM3\<rparr>,
        \<lparr>p_tag = HKS_TAG_PADDING, p_val = VUint HKS_PADDING_NONE\<rparr>]) (\<lambda>verifyParamSet.
     try_rc (HksBuildParamSet (ee_alloc env) (Some verifyParamSet)) (\<lambda>verifyParamSet.
     let usageSpec = HksFillUsageSpec (Some verifyParamSet) zero_usage_spec in
     if \<not> HksMalloc (ee_alloc env) (unat MAX_HASH_SIZE) then HKS_ERROR_MALLOC_FAIL
     else
       (case HksCryptoHalHash (ee_ops env) HKS_DIGEST_SM3 (sm_kekData dataParams) (ipc_buffer MAX_HASH_SIZE) of
          (ret, message) \<Rightarrow>
            if ret \<noteq> HKS_SUCCESS then ret
            else HksCryptoHalVerify (ee_ops env) (sm_peerPublicKey dataParams) usageSpec message
              (sm_signData dataParams)))))"

section \<open>Derived keys\<close>

definition DeriveKeyBySm3 :: "'c engine_env \<Rightarrow> HksBlob \<Rightarrow> HksBlob \<Rightarrow> HksBlob res" where
  "DeriveKeyBySm3 env srcData factor =
     (let sz = HKS_KEY_BYTES HKS_SM4_KEY_SIZE_128 in
      if \<not> HksMalloc (ee_alloc env) (unat sz) then Inl HKS_ERROR_MALLOC_FAIL
      else
        try_res (HksCryptoHalDeriveKey (ee_hal env) srcData
          \<lparr>ks_algType = HKS_ALG_GMKDF, ks_keyLen = sz,
           ks_algParam = Some (zero_derivation_param\<lparr>dp_digestAlg := HKS_DIGEST_SM3, dp_info := factor\<rparr>)\<rparr> sz)
          (\<lambda>bs. let b = ipc_buffer sz in Inr (b\<lparr>blob_data := map_option (overwrite 0 bs) (blob_data b)\<rparr>)))"

text \<open>
  A first key that was derived is freed when the second cannot be, without being overwritten: it stays in memory,
  and \<open>dataParams\<close> no longer points to it.
\<close>

definition DeriveKeyByFactor ::
    "'c engine_env \<Rightarrow> HksBlob \<Rightarrow> HksSmWrappedKeyDataBlob \<Rightarrow> u32 \<Rightarrow> one_state
     \<Rightarrow> (HksSmWrappedKeyDataBlob \<times> u32) res \<times> one_state" where
  "DeriveKeyByFactor env wrappedKeyData dataParams partOffset st =
     next_res (get_part wrappedKeyData partOffset, st) (\<lambda>factor1 st.
     next_res (get_part wrappedKeyData (partOffset + 1), st) (\<lambda>factor2 st.
     next_res (put_key (DeriveKeyBySm3 env (sm_kekData dataParams) factor1, st)) (\<lambda>deriveKek1 st.
     next_res (put_key (DeriveKeyBySm3 env (sm_kekData dataParams) factor2, st)) (\<lambda>deriveKek2 st.
     (Inr (dataParams\<lparr>sm_deriveKekData1 := deriveKek1, sm_deriveKekData2 := deriveKek2\<rparr>, partOffset + 2), st)))))"

text \<open>
  The code of a comparison that fails is that of \<open>memcmp\<close>, of which the standard fixes only the sign.
\<close>

fun memcmp_sign :: "bytes \<Rightarrow> bytes \<Rightarrow> nat \<Rightarrow> rc" where
  "memcmp_sign p1 p2 0 = 0"
| "memcmp_sign p1 p2 (Suc n) =
     (let a = (case p1 of [] \<Rightarrow> 0 | x # _ \<Rightarrow> x); b = (case p2 of [] \<Rightarrow> 0 | x # _ \<Rightarrow> x) in
      if a = b then memcmp_sign (drop 1 p1) (drop 1 p2) n else if a < b then -1 else 1)"

definition CompareWrapKeyHmac ::
    "'c engine_env \<Rightarrow> HksBlob \<Rightarrow> HksSmWrappedKeyDataBlob \<Rightarrow> u32 \<Rightarrow> (HksBlob \<times> u32) res" where
  "CompareWrapKeyHmac env wrappedKeyData dataParams partOffset =
     try_res (get_part wrappedKeyData partOffset) (\<lambda>originKeyEncMac.
     try_res (get_part wrappedKeyData (partOffset + 1)) (\<lambda>kEncData.
     if \<not> HksMalloc (ee_alloc env) (unat (blob_size originKeyEncMac)) then Inl HKS_ERROR_MALLOC_FAIL
     else
       try_res (HksCryptoHalHmac (ee_hal env) (sm_deriveKekData2 dataParams) HKS_DIGEST_SM3 kEncData
         (blob_size originKeyEncMac)) (\<lambda>bs.
         let mac = put_out HKS_SUCCESS bs (ipc_buffer (blob_size originKeyEncMac));
             ret = memcmp_sign (blob_bytes originKeyEncMac) (blob_bytes mac) (unat (blob_size mac)) in
         if ret \<noteq> HKS_SUCCESS then Inl ret else Inr (kEncData, partOffset + 2))))"

section \<open>The imported key\<close>

definition BuildDecryptUsageSpecOfSmUnwrap :: "allocator \<Rightarrow> HksBlob \<Rightarrow> HksUsageSpec \<Rightarrow> HksUsageSpec res" where
  "BuildDecryptUsageSpecOfSmUnwrap alloc iv usageSpec =
     (if \<not> HksMalloc alloc SIZEOF_CIPHER_PARAM then Inl HKS_ERROR_MALLOC_FAIL
      else Inr (usageSpec\<lparr>us_mode := HKS_MODE_CBC, us_padding := HKS_PADDING_PKCS7, us_digest := HKS_DIGEST_NONE,
        us_algType := HKS_ALG_SM4, us_algParam := Some (CipherParam \<lparr>cp_iv = iv\<rparr>)\<rparr>))"

definition SubPaddingPlaintext :: "allocator \<Rightarrow> HksBlob \<Rightarrow> u32 \<Rightarrow> HksBlob res" where
  "SubPaddingPlaintext alloc srcData subLength =
     (if \<not> HksMalloc alloc (unat subLength) then Inl HKS_ERROR_MALLOC_FAIL
      else Inr (snd (memcpy_to (ipc_buffer subLength) 0 subLength (blob_data srcData) (unat subLength))))"

definition DecryptImportedSmKey ::
    "'c engine_env \<Rightarrow> HksBlob \<Rightarrow> HksSmWrappedKeyDataBlob \<Rightarrow> HksBlob \<Rightarrow> u32 \<Rightarrow> one_state
     \<Rightarrow> HksSmWrappedKeyDataBlob res \<times> one_state" where
  "DecryptImportedSmKey env wrappedKeyData dataParams kEncData partOffset st =
     (case try_res (get_part wrappedKeyData partOffset) (\<lambda>ivParam.
           try_res (GetDataLenFromWrappedData wrappedKeyData (partOffset + 1)) (\<lambda>keyMaterialSize.
           let sz = keyMaterialSize + HKS_PADDING_SUPPLENMENT in
           if \<not> HksMalloc (ee_alloc env) (unat sz) then Inl HKS_ERROR_MALLOC_FAIL
           else if \<not> HksMalloc (ee_alloc env) SIZEOF_USAGE_SPEC then Inl HKS_ERROR_MALLOC_FAIL
           else
             try_res (BuildDecryptUsageSpecOfSmUnwrap (ee_alloc env) ivParam zero_usage_spec)
               (\<lambda>decOriginKeyUsageSpec.
             try_res (decrypt_new env (sm_deriveKekData1 dataParams) decOriginKeyUsageSpec kEncData sz) (\<lambda>originKey.
             Inr (originKey, keyMaterialSize))))) of
        Inl ret \<Rightarrow> (Inl ret, st)
      | Inr (originKey, keyMaterialSize) \<Rightarrow>
          (case put_key (SubPaddingPlaintext (ee_alloc env) originKey keyMaterialSize, hold originKey st) of
             (Inl ret, st) \<Rightarrow> (Inl ret, ClearAndFreeKeyBlob originKey st)
           | (Inr out, st) \<Rightarrow> (Inr (dataParams\<lparr>sm_originKey := out\<rparr>), ClearAndFreeKeyBlob originKey st)))"

definition HksSmImportWrappedKeyWithVerify ::
    "'c engine_env \<Rightarrow> HksBlob \<Rightarrow> HksParamSet ptr \<Rightarrow> HksKeyNode \<Rightarrow> HksBlob \<Rightarrow> HksBlob \<Rightarrow> one_state
     \<Rightarrow> HksBlob res \<times> one_state" where
  "HksSmImportWrappedKeyWithVerify env keyAlias paramSet keyNode wrappedKeyData keyOut st =
     (let dp = zero_wrapped_blob in
     break_res (GetPublicKeyAndSignDataLength env wrappedKeyData keyNode dp 0 st)
       (ClearAndFreeWrappedBlob dp) (\<lambda>(dp, partOffset) st.
     break_res (DecryptKekWithSm2 env wrappedKeyData paramSet keyNode dp partOffset st)
       (ClearAndFreeWrappedBlob dp) (\<lambda>(dp, partOffset) st.
     break_res (SplitKekAndSignData (ee_alloc env) dp st) (ClearAndFreeWrappedBlob dp) (\<lambda>dp st.
     let ret = VerifyKekBySm2 env dp in
     if ret \<noteq> HKS_SUCCESS then (Inl ret, ClearAndFreeWrappedBlob dp st)
     else
     break_res (DeriveKeyByFactor env wrappedKeyData dp partOffset st)
       (ClearAndFreeWrappedBlob dp) (\<lambda>(dp, partOffset) st.
     break_res (CompareWrapKeyHmac env wrappedKeyData dp partOffset, st)
       (ClearAndFreeWrappedBlob dp) (\<lambda>(kEncData, partOffset) st.
     break_res (DecryptImportedSmKey env wrappedKeyData dp kEncData partOffset st)
       (ClearAndFreeWrappedBlob dp) (\<lambda>dp st.
     case HksCoreImportKey env keyAlias (sm_originKey dp) paramSet keyOut st of
       (r, st) \<Rightarrow> (r, ClearAndFreeWrappedBlob dp st))))))))"

definition HksSmImportWrappedKeyWithoutVerify ::
    "'c engine_env \<Rightarrow> HksBlob \<Rightarrow> HksParamSet ptr \<Rightarrow> HksKeyNode \<Rightarrow> HksBlob \<Rightarrow> HksBlob \<Rightarrow> one_state
     \<Rightarrow> HksBlob res \<times> one_state" where
  "HksSmImportWrappedKeyWithoutVerify env keyAlias paramSet keyNode wrappedKeyData keyOut st =
     (let dp = zero_wrapped_blob in
     break_res (DecryptKekWithSm2 env wrappedKeyData paramSet keyNode dp 0 st)
       (ClearAndFreeWrappedBlob dp) (\<lambda>(dp, partOffset) st.
     break_res (DeriveKeyByFactor env wrappedKeyData dp partOffset st)
       (ClearAndFreeWrappedBlob dp) (\<lambda>(dp, partOffset) st.
     break_res (CompareWrapKeyHmac env wrappedKeyData dp partOffset, st)
       (ClearAndFreeWrappedBlob dp) (\<lambda>(kEncData, partOffset) st.
     break_res (DecryptImportedSmKey env wrappedKeyData dp kEncData partOffset st)
       (ClearAndFreeWrappedBlob dp) (\<lambda>dp st.
     case HksCoreImportKey env keyAlias (sm_originKey dp) paramSet keyOut st of
       (r, st) \<Rightarrow> (r, ClearAndFreeWrappedBlob dp st))))))"

definition CheckAlgAndGetSuit :: "HksParamSet ptr \<Rightarrow> u32 res" where
  "CheckAlgAndGetSuit paramSet =
     try_or (HksGetParam paramSet HKS_TAG_ALGORITHM) (Inl HKS_ERROR_CHECK_GET_ALG_FAIL) (\<lambda>alg.
     if HksCheckValue (uint32Param (p_val alg)) g_validCipher \<noteq> HKS_SUCCESS then Inl HKS_ERROR_INVALID_AUTH_TYPE
     else
       try_or (HksGetParam paramSet HKS_TAG_UNWRAP_ALGORITHM_SUITE) (Inl HKS_ERROR_CHECK_GET_ALG_FAIL)
         (\<lambda>algorithmSuite. Inr (uint32Param (p_val algorithmSuite))))"

definition HksSmImportWrappedKey ::
    "'c engine_env \<Rightarrow> HksBlob \<Rightarrow> HksParamSet ptr \<Rightarrow> HksBlob \<Rightarrow> HksBlob \<Rightarrow> HksBlob \<Rightarrow> one_state
     \<Rightarrow> HksBlob res \<times> one_state" where
  "HksSmImportWrappedKey env keyAlias paramSet wrappingKey wrappedKeyData keyOut st =
     (if CheckBlob (Some wrappingKey) \<noteq> HKS_SUCCESS \<or> CheckBlob (Some wrappedKeyData) \<noteq> HKS_SUCCESS
      then (Inl HKS_ERROR_INVALID_ARGUMENT, st)
      else
        (case CheckAlgAndGetSuit paramSet of
           Inl _ \<Rightarrow> (Inl HKS_ERROR_INVALID_ARGUMENT, st)
         | Inr algSuit \<Rightarrow>
             as_res (with_key_node env wrappingKey keyOut (\<lambda>wrappingKeyNode st.
               case (if algSuit = HKS_UNWRAP_SUITE_SM2_SM4_128_CBC_PKCS7_WITH_VERIFY_DIG_SM3
                     then HksSmImportWrappedKeyWithVerify env keyAlias paramSet wrappingKeyNode wrappedKeyData keyOut st
                     else if algSuit = HKS_UNWRAP_SUITE_SM2_SM4_128_CBC_PKCS7
                     then HksSmImportWrappedKeyWithoutVerify env keyAlias paramSet wrappingKeyNode wrappedKeyData
                       keyOut st
                     else (Inl HKS_ERROR_NOT_SUPPORTED, st)) of
                 (Inl ret, st) \<Rightarrow> ((ret, keyOut), st)
               | (Inr out, st) \<Rightarrow> ((HKS_SUCCESS, out), st)) st)))"

section \<open>All wrapped keys\<close>

definition HksCoreImportWrappedKey ::
    "'c engine_env \<Rightarrow> HksBlob \<Rightarrow> HksBlob \<Rightarrow> HksBlob \<Rightarrow> HksParamSet ptr \<Rightarrow> HksBlob \<Rightarrow> one_state
     \<Rightarrow> HksBlob res \<times> one_state" where
  "HksCoreImportWrappedKey env keyAlias wrappingKey wrappedKeyData paramSet keyOut st =
     (case HksCoreCheckImportWrappedKeyParams (Some wrappingKey) (Some wrappedKeyData) paramSet of
        Inl ret \<Rightarrow> (Inl ret, st)
      | Inr unwrapSuite \<Rightarrow>
          if unwrapSuite = HKS_UNWRAP_SUITE_SM2_SM4_128_CBC_PKCS7_WITH_VERIFY_DIG_SM3
            \<or> unwrapSuite = HKS_UNWRAP_SUITE_SM2_SM4_128_CBC_PKCS7
          then HksSmImportWrappedKey env keyAlias paramSet wrappingKey wrappedKeyData keyOut st
          else import_wrapped_aes env unwrapSuite keyAlias wrappingKey wrappedKeyData paramSet keyOut st)"

end
