(* ===== verification/Huks_Stage_Cipher.thy ===== *)
theory Huks_Stage_Cipher
  imports Huks_Engine_State
begin

text \<open>
  Encrypting and decrypting in three stages, \<open>hks_core_service_three_stage.c\<close>. RSA, SM2 and AES in the mode
  CCM cache the data and do everything in the last stage; the other block ciphers keep a context of the crypto
  engine. The engine makes the nonce of AES in the modes GCM and CCM itself when the request brings none, and
  appends it to the output.
\<close>

section \<open>Room for the output\<close>

abbreviation (input) HKS_RSA_OAEP_DIGEST_NUM :: u32 where "HKS_RSA_OAEP_DIGEST_NUM \<equiv> 2"
abbreviation (input) HKS_SM2_C1_LEN_NUM :: u32 where "HKS_SM2_C1_LEN_NUM \<equiv> 2"
abbreviation (input) HKS_BLOCK_CIPHER_CBC_BLOCK_SIZE :: u32 where "HKS_BLOCK_CIPHER_CBC_BLOCK_SIZE \<equiv> 16"
abbreviation (input) HKS_TEMP_SIZE :: u32 where "HKS_TEMP_SIZE \<equiv> 32"
abbreviation (input) HKS_AES_GCM_NONCE_LEN :: u32 where "HKS_AES_GCM_NONCE_LEN \<equiv> 12"
abbreviation (input) HKS_AES_CCM_NONCE_LEN :: u32 where "HKS_AES_CCM_NONCE_LEN \<equiv> 7"

definition CheckRsaCipherData_finish :: "bool \<Rightarrow> u32 \<Rightarrow> HksUsageSpec \<Rightarrow> HksBlob \<Rightarrow> rc" where
  "CheckRsaCipherData_finish isEncrypt keyLen usageSpec outData =
     (let keySize = keyLen div HKS_BITS_PER_BYTE in
      if us_padding usageSpec = HKS_PADDING_NONE then
        (if blob_size outData < keySize then HKS_ERROR_BUFFER_TOO_SMALL else HKS_SUCCESS)
      else if us_padding usageSpec = HKS_PADDING_OAEP then
        try_rc (HksGetDigestLen (us_digest usageSpec)) (\<lambda>digestLen.
          if keySize \<le> HKS_RSA_OAEP_DIGEST_NUM * digestLen + HKS_RSA_OAEP_DIGEST_NUM
          then HKS_ERROR_INVALID_KEY_FILE
          else
            (let sz = keySize - HKS_RSA_OAEP_DIGEST_NUM * digestLen - HKS_RSA_OAEP_DIGEST_NUM in
             if isEncrypt then
               (if blob_size outData < keySize then HKS_ERROR_BUFFER_TOO_SMALL else HKS_SUCCESS)
             else if blob_size outData < sz then HKS_ERROR_BUFFER_TOO_SMALL else HKS_SUCCESS))
      else HKS_SUCCESS)"

definition CheckSm2CipherData :: "bool \<Rightarrow> HksUsageSpec \<Rightarrow> HksBlob \<Rightarrow> HksBlob \<Rightarrow> rc" where
  "CheckSm2CipherData isEncrypt usageSpec inData outData =
     (if \<not> isEncrypt then HKS_SUCCESS
      else
        try_rc (HksGetDigestLen (us_digest usageSpec)) (\<lambda>digestLen.
          let lenC1 = HKS_SM2_C1_LEN_NUM * HKS_KEY_BYTES HKS_SM2_KEY_SIZE_256 + 1;
              needLen = lenC1 + digestLen + blob_size inData in
          if blob_size outData < needLen then HKS_ERROR_BUFFER_TOO_SMALL else HKS_SUCCESS))"

definition CheckAesCipherAead :: "bool \<Rightarrow> HksBlob \<Rightarrow> HksBlob \<Rightarrow> rc" where
  "CheckAesCipherAead isEncrypt inData outData =
     (if isEncrypt then
        (if blob_size outData < blob_size inData + HKS_AE_TAG_LEN then HKS_ERROR_BUFFER_TOO_SMALL else HKS_SUCCESS)
      else if blob_size outData < blob_size inData then HKS_ERROR_BUFFER_TOO_SMALL else HKS_SUCCESS)"

definition CheckBlockCipherOther :: "u32 \<Rightarrow> bool \<Rightarrow> u32 \<Rightarrow> HksBlob \<Rightarrow> HksBlob \<Rightarrow> rc" where
  "CheckBlockCipherOther mode isEncrypt padding inData outData =
     (if isEncrypt then
        (let paddingSize = (if padding = HKS_PADDING_NONE then 0
               else HKS_BLOCK_CIPHER_CBC_BLOCK_SIZE - blob_size inData mod HKS_BLOCK_CIPHER_CBC_BLOCK_SIZE) in
         if padding = HKS_PADDING_NONE \<and> (mode = HKS_MODE_CBC \<or> mode = HKS_MODE_ECB)
           \<and> blob_size inData mod HKS_BLOCK_CIPHER_CBC_BLOCK_SIZE \<noteq> 0 then HKS_ERROR_INVALID_ARGUMENT
         else if padding \<noteq> HKS_PADDING_NONE \<and> blob_size inData > 0xFFFFFFFF - paddingSize
         then HKS_ERROR_INVALID_ARGUMENT
         else if blob_size outData < blob_size inData + paddingSize then HKS_ERROR_BUFFER_TOO_SMALL
         else HKS_SUCCESS)
      else if blob_size outData < blob_size inData then HKS_ERROR_BUFFER_TOO_SMALL else HKS_SUCCESS)"

definition CheckBlockCipherData_finish :: "bool \<Rightarrow> HksUsageSpec \<Rightarrow> HksBlob \<Rightarrow> HksBlob \<Rightarrow> rc" where
  "CheckBlockCipherData_finish isEncrypt usageSpec inData outData =
     (let padding = us_padding usageSpec; mode = us_mode usageSpec; alg = us_algType usageSpec in
      if mode = HKS_MODE_GCM \<or> mode = HKS_MODE_CCM then
        (if alg = HKS_ALG_AES then CheckAesCipherAead isEncrypt inData outData else HKS_ERROR_NOT_SUPPORTED)
      else if mode = HKS_MODE_CFB \<or> mode = HKS_MODE_OFB then
        (if alg = HKS_ALG_SM4 then CheckBlockCipherOther mode isEncrypt padding inData outData
         else HKS_ERROR_NOT_SUPPORTED)
      else if mode = HKS_MODE_CBC \<or> mode = HKS_MODE_CTR \<or> mode = HKS_MODE_ECB
      then CheckBlockCipherOther mode isEncrypt padding inData outData
      else HKS_ERROR_NOT_SUPPORTED)"

definition HksCheckFinishOutSize :: "bool \<Rightarrow> HksParamSet ptr \<Rightarrow> HksBlob \<Rightarrow> HksBlob \<Rightarrow> rc" where
  "HksCheckFinishOutSize isEncrypt paramSet inData outData =
     (let usageSpec = HksFillUsageSpec paramSet zero_usage_spec;
          cipherSpec = HksFillKeySpec paramSet zero_key_spec;
          alg = us_algType usageSpec in
      if alg = HKS_ALG_RSA then CheckRsaCipherData_finish isEncrypt (ks_keyLen cipherSpec) usageSpec outData
      else if alg = HKS_ALG_SM2 then CheckSm2CipherData isEncrypt usageSpec inData outData
      else if alg = HKS_ALG_AES \<or> alg = HKS_ALG_DES \<or> alg = HKS_ALG_3DES \<or> alg = HKS_ALG_SM4
      then CheckBlockCipherData_finish isEncrypt usageSpec inData outData
      else HKS_ERROR_INVALID_ALGORITHM)"

definition CipherAuth_three_stage :: "HuksKeyNode \<Rightarrow> HksParamSet ptr \<Rightarrow> rc" where
  "CipherAuth_three_stage keyNode paramSet =
     try_rc (HksGetParam paramSet HKS_TAG_ALGORITHM) (\<lambda>algParam.
     let alg = uint32Param (p_val algParam) in
     if alg = HKS_ALG_AES \<or> alg = HKS_ALG_DES \<or> alg = HKS_ALG_3DES
     then HksThreeStageAuth HKS_AUTH_ID_SYM_CIPHER keyNode
     else if alg = HKS_ALG_RSA \<or> alg = HKS_ALG_SM2 then HksThreeStageAuth HKS_AUTH_ID_ASYM_CIPHER keyNode
     else if alg = HKS_ALG_SM4 then HksThreeStageAuth HKS_AUTH_ID_SYM_CIPHER keyNode
     else HKS_ERROR_INVALID_ALGORITHM)"

section \<open>A nonce of the engine\<close>

text \<open>Whether the engine is to make a nonce.\<close>

definition CheckWhetherUpdateAesNonce :: "HksParamSet ptr \<Rightarrow> HksParamSet ptr \<Rightarrow> bool res" where
  "CheckWhetherUpdateAesNonce runtimeParamSet keyBlobParamSet =
     try_res (HksGetParam runtimeParamSet HKS_TAG_ALGORITHM) (\<lambda>algParam.
     if uint32Param (p_val algParam) \<noteq> HKS_ALG_AES then Inr False
     else
       try_res (HksGetParam runtimeParamSet HKS_TAG_BLOCK_MODE) (\<lambda>modeParam.
       let mode = uint32Param (p_val modeParam) in
       if mode \<noteq> HKS_MODE_GCM \<and> mode \<noteq> HKS_MODE_CCM then Inr False
       else
         try_res (HksGetParam runtimeParamSet HKS_TAG_PURPOSE) (\<lambda>purposeParam.
         if uint32Param (p_val purposeParam) \<noteq> HKS_KEY_PURPOSE_ENCRYPT then Inr False
         else
           (case (HksGetParam keyBlobParamSet HKS_TAG_KEY_AUTH_PURPOSE, HksGetParam runtimeParamSet HKS_TAG_NONCE) of
              (Inr _, Inr _) \<Rightarrow> Inl HKS_ERROR_NOT_SUPPORTED
            | (Inl _, Inr _) \<Rightarrow> Inr False
            | _ \<Rightarrow> Inr True))))"

fun add_each :: "HksParamSet \<Rightarrow> HksParam list \<Rightarrow> HksParamSet res" where
  "add_each paramSet [] = Inr paramSet"
| "add_each paramSet (p # ps) =
     (if p_tag p \<noteq> HKS_TAG_NONCE then try_res (add_params paramSet [p]) (\<lambda>paramSet. add_each paramSet ps)
      else add_each paramSet ps)"

definition AddNonceToParamSet :: "allocator \<Rightarrow> HksParamSet ptr \<Rightarrow> HksParam list \<Rightarrow> HksParamSet res" where
  "AddNonceToParamSet alloc runtimeParamSet nonceParams =
     try_res (HksInitParamSet alloc) (\<lambda>paramSet.
     try_res (add_each paramSet (set_params runtimeParamSet)) (\<lambda>paramSet.
     try_res (add_params paramSet nonceParams) (\<lambda>paramSet.
     HksBuildParamSet alloc (Some paramSet))))"

definition UpdateNonceForAesAeMode :: "'c engine_env \<Rightarrow> bool \<Rightarrow> 'c engine_state \<Rightarrow> rc \<times> 'c engine_state" where
  "UpdateNonceForAesAeMode env isCcm st =
     (case CheckWhetherUpdateAesNonce (es_runtime st) (es_keyBlob st) of
        Inl ret \<Rightarrow> (ret, st)
      | Inr needRegenerateNonce \<Rightarrow>
          if \<not> needRegenerateNonce then (HKS_SUCCESS, st)
          else
            (let nonceLen = (if isCcm then HKS_AES_CCM_NONCE_LEN else HKS_AES_GCM_NONCE_LEN) in
             if \<not> HksMalloc (ee_alloc env) (unat nonceLen) then (HKS_ERROR_MALLOC_FAIL, st)
             else
               (case HksCryptoHalFillRandom (ee_hal env) (es_random st) nonceLen of
                  Inl ret \<Rightarrow> (ret, st\<lparr>es_random := Suc (es_random st)\<rparr>)
                | Inr nonce \<Rightarrow>
                    let st = st\<lparr>es_random := Suc (es_random st)\<rparr> in
                    (case AddNonceToParamSet (ee_alloc env) (es_runtime st)
                       [\<lparr>p_tag = HKS_TAG_NONCE, p_val = VBlob \<lparr>blob_size = nonceLen, blob_data = Some nonce\<rparr>\<rparr>,
                        \<lparr>p_tag = HKS_TAG_AES_GCM_NEED_REGENERATE_NONCE, p_val = VBool True\<rparr>] of
                       Inl ret \<Rightarrow> (ret, st)
                     | Inr paramSet \<Rightarrow>
                         (HKS_SUCCESS, st\<lparr>es_node := (es_node st)\<lparr>kn_runtimeParamSet := Some paramSet\<rparr>\<rparr>)))))"

section \<open>Contexts of the crypto engine\<close>

definition CoreCipherInit :: "'c engine_env \<Rightarrow> 'c engine_state \<Rightarrow> rc \<times> 'c engine_state" where
  "CoreCipherInit env st =
     then_rc (UpdateNonceForAesAeMode env False st) (\<lambda>st.
     try_or (HksGetParam (es_runtime st) HKS_TAG_CRYPTO_CTX) (HKS_ERROR_BAD_STATE, st) (\<lambda>_.
     try_or (HksGetParam (es_runtime st) HKS_TAG_PURPOSE) (HKS_ERROR_CHECK_GET_PURPOSE_FAIL, st) (\<lambda>purposeParam.
     let isEncrypt = (uint32Param (p_val purposeParam) = HKS_KEY_PURPOSE_ENCRYPT) in
     case HksBuildCipherUsageSpec (ee_alloc env) (es_runtime st) isEncrypt (ipc_buffer HKS_TEMP_SIZE) of
       Inl ret \<Rightarrow> (ret, st)
     | Inr (usageSpec, _) \<Rightarrow>
         then_res (take_raw_key env (es_keyBlob st) st) (\<lambda>rawKey st.
         case (if isEncrypt then HksCryptoHalEncryptInit (ee_ops env) rawKey usageSpec (used st)
               else HksCryptoHalDecryptInit (ee_ops env) rawKey usageSpec (used st)) of
           Inl ret \<Rightarrow> (ret, wipe_raw_key rawKey st)
         | Inr (a, c) \<Rightarrow>
             (HKS_SUCCESS, wipe_raw_key rawKey (set_ctx a (put_object a (Some (CipherCtx c)) st)))))))"

definition CoreCipherUpdate :: "'c engine_env \<Rightarrow> HksBlob \<Rightarrow> u32 \<Rightarrow> 'c engine_state \<Rightarrow> rc \<times> 'c engine_state" where
  "CoreCipherUpdate env inData alg st =
     (case es_out st of NULL \<Rightarrow> (HKS_ERROR_INVALID_ARGUMENT, st)
      | Some outData \<Rightarrow>
          if CheckBlob (Some outData) \<noteq> HKS_SUCCESS then (HKS_ERROR_INVALID_ARGUMENT, st)
          else if blob_size outData < blob_size inData then (HKS_ERROR_BUFFER_TOO_SMALL, st)
          else
            (let ctx = GetCryptoCtx (es_node st) in
             if ctx = 0 then (HKS_ERROR_NULL_POINTER, st)
             else
               (case HksGetParam (es_runtime st) HKS_TAG_PURPOSE of
                  Inl ret \<Rightarrow> (ret, st)
                | Inr purposeParam \<Rightarrow>
                    (case es_heap st ctx of
                       Some (CipherCtx c) \<Rightarrow>
                         (case (if uint32Param (p_val purposeParam) = HKS_KEY_PURPOSE_ENCRYPT
                                then HksCryptoHalEncryptUpdate (ee_ops env) inData c outData alg
                                else HksCryptoHalDecryptUpdate (ee_ops env) inData c outData alg) of
                            (ret, out, c) \<Rightarrow> (ret, put_object ctx (Some (CipherCtx c)) (st\<lparr>es_out := Some out\<rparr>)))
                     | _ \<Rightarrow> undefined_behaviour HKS_FAILURE st))))"

text \<open>The nonce behind data and tag; the code and the buffer.\<close>

definition AppendNonceWhenNeeded :: "HksParamSet ptr \<Rightarrow> HksBlob \<Rightarrow> u32 \<Rightarrow> HksBlob \<Rightarrow> u32 \<Rightarrow> rc \<times> HksBlob" where
  "AppendNonceWhenNeeded runtimeParamSet inData nonceLen outData tag_size =
     (case HksGetParam runtimeParamSet HKS_TAG_AES_GCM_NEED_REGENERATE_NONCE of
        Inl _ \<Rightarrow> (HKS_SUCCESS, outData)
      | Inr needAppendNonce \<Rightarrow>
          if \<not> boolParam (p_val needAppendNonce) then (HKS_ERROR_INVALID_ARGUMENT, outData)
          else
            (case HksGetParam runtimeParamSet HKS_TAG_NONCE of
               Inl _ \<Rightarrow> (HKS_ERROR_CHECK_GET_NONCE_FAIL, outData)
             | Inr nonceParam \<Rightarrow>
                 let nonce = blobParam (p_val nonceParam) in
                 if blob_size nonce \<noteq> nonceLen then (HKS_ERROR_INVALID_ARGUMENT, outData)
                 else
                   (case memcpy_to outData (blob_size inData + tag_size) nonceLen (blob_data nonce)
                      (unat (blob_size nonce)) of
                      (ok, outData) \<Rightarrow>
                        if \<not> ok then (HKS_ERROR_INSUFFICIENT_MEMORY, outData)
                        else (HKS_SUCCESS, outData\<lparr>blob_size := blob_size outData + blob_size nonce\<rparr>))))"

text \<open>A tag inside the output buffer, given by offset and size, as the engine gets and leaves it.\<close>

definition tag_blob :: "(nat \<times> u32) ptr \<Rightarrow> HksBlob \<Rightarrow> HksBlob" where
  "tag_blob pos out = (case pos of NULL \<Rightarrow> empty_blob | Some (off, n) \<Rightarrow> blob_at out off n)"

definition put_tag :: "(nat \<times> u32) ptr \<Rightarrow> bytes \<Rightarrow> HksBlob \<Rightarrow> HksBlob" where
  "put_tag pos tag out =
     (case pos of NULL \<Rightarrow> out
      | Some (off, _) \<Rightarrow> out\<lparr>blob_data := map_option (overwrite off tag) (blob_data out)\<rparr>)"

text \<open>
  What the functions that finish an encryption share: the context of the session, with the engine's last
  step, after which the session has none. \<open>tag\<close> is what \<open>&tag\<close> points at, \<open>NULL\<close> for SM4. It gives the
  code and the size of the tag.
\<close>

definition encrypt_final ::
    "'c engine_env \<Rightarrow> HksBlob \<Rightarrow> (nat \<times> u32) ptr ptr \<Rightarrow> u32 \<Rightarrow> HksBlob \<Rightarrow> u64 \<Rightarrow> 'c engine_state
     \<Rightarrow> u32 res \<times> 'c engine_state" where
  "encrypt_final env inData tag alg outData ctx st =
     (case es_heap st ctx of
        Some (CipherCtx c) \<Rightarrow>
          (case HksCryptoHalEncryptFinal (ee_ops env) inData c outData (map_option (\<lambda>t. tag_blob t outData) tag) alg of
             (ret, out, tag', left) \<Rightarrow>
               let out = (case (tag, tag') of
                     (Some pos, Some b) \<Rightarrow> put_tag pos (take (unat (blob_size b)) (blob_bytes b)) out
                   | _ \<Rightarrow> out);
                   st = set_ctx 0 (put_object ctx (map_option CipherCtx left) (st\<lparr>es_out := Some out\<rparr>)) in
               (if ret \<noteq> HKS_SUCCESS then Inl ret
                else Inr (case tag' of Some b \<Rightarrow> blob_size b | NULL \<Rightarrow> 0), st))
      | _ \<Rightarrow> undefined_behaviour (Inl HKS_FAILURE) st)"

definition decrypt_final ::
    "'c engine_env \<Rightarrow> HksBlob \<Rightarrow> HksBlob ptr \<Rightarrow> u32 \<Rightarrow> HksBlob \<Rightarrow> u64 \<Rightarrow> 'c engine_state \<Rightarrow> rc \<times> 'c engine_state" where
  "decrypt_final env inData tag alg outData ctx st =
     (case es_heap st ctx of
        Some (CipherCtx c) \<Rightarrow>
          (case HksCryptoHalDecryptFinal (ee_ops env) inData c outData tag alg of
             (ret, out, left) \<Rightarrow>
               (ret, set_ctx 0 (put_object ctx (map_option CipherCtx left) (st\<lparr>es_out := Some out\<rparr>))))
      | _ \<Rightarrow> undefined_behaviour HKS_FAILURE st)"

text \<open>The address, with the code of \<open>HksGetParam\<close> when the parameter is missing.\<close>

definition finish_ctx :: "'c engine_state \<Rightarrow> u64 res" where
  "finish_ctx st =
     try_res (HksGetParam (es_runtime st) HKS_TAG_CRYPTO_CTX) (\<lambda>ctxParam.
       if uint64Param (p_val ctxParam) = 0 then Inl HKS_ERROR_NULL_POINTER
       else Inr (uint64Param (p_val ctxParam)))"

definition grow_out :: "u32 \<Rightarrow> 'c engine_state \<Rightarrow> 'c engine_state" where
  "grow_out n st = st\<lparr>es_out := map_option (\<lambda>out. out\<lparr>blob_size := blob_size out + n\<rparr>) (es_out st)\<rparr>"

text \<open>\<open>outData\<close> is the caller's buffer, which the caller of these functions has checked.\<close>

definition CoreAesEncryptFinish ::
    "'c engine_env \<Rightarrow> HksBlob \<Rightarrow> HksBlob \<Rightarrow> u32 \<Rightarrow> 'c engine_state \<Rightarrow> rc \<times> 'c engine_state" where
  "CoreAesEncryptFinish env inData outData alg st =
     (case HksGetEncryptAeTag (es_runtime st) inData outData of
        Inl ret \<Rightarrow> (ret, st)
      | Inr tag \<Rightarrow>
          let ret = HksCheckFinishOutSize True (es_runtime st) inData outData in
          if ret \<noteq> HKS_SUCCESS then (ret, st)
          else
            (case finish_ctx st of
               Inl ret \<Rightarrow> (ret, st)
             | Inr ctx \<Rightarrow>
                 let own_nonce = (case HksGetParam (es_runtime st) HKS_TAG_AES_GCM_NEED_REGENERATE_NONCE of
                       Inr p \<Rightarrow> boolParam (p_val p) | Inl _ \<Rightarrow> False) in
                 if own_nonce \<and> blob_size outData < blob_size inData + HKS_AE_TAG_LEN + HKS_AES_GCM_NONCE_LEN
                 then (HKS_ERROR_INVALID_ARGUMENT, st)
                 else
                   then_res (encrypt_final env inData (Some tag) alg outData ctx st) (\<lambda>tag_size st.
                   case AppendNonceWhenNeeded (es_runtime st) inData HKS_AES_GCM_NONCE_LEN (the (es_out st)) tag_size of
                     (ret, out) \<Rightarrow>
                       let st = st\<lparr>es_out := Some out\<rparr> in
                       if ret \<noteq> HKS_SUCCESS then (ret, st) else (HKS_SUCCESS, grow_out tag_size st))))"

definition CoreAesDecryptFinish ::
    "'c engine_env \<Rightarrow> HksBlob \<Rightarrow> HksBlob \<Rightarrow> u32 \<Rightarrow> 'c engine_state \<Rightarrow> rc \<times> 'c engine_state" where
  "CoreAesDecryptFinish env inData outData alg st =
     (case HksCheckAesAeMode (es_runtime st) False of
        Inl ret \<Rightarrow> (ret, st)
      | Inr (isAes, isAeMode) \<Rightarrow>
          (case (if isAes \<and> isAeMode
                 then try_res (HksGetParam (es_runtime st) HKS_TAG_AE_TAG)
                   (\<lambda>tagParam. Inr (blobParam (p_val tagParam)))
                 else Inr empty_blob) of
             Inl ret \<Rightarrow> (ret, st)
           | Inr tag \<Rightarrow>
               let ret = HksCheckFinishOutSize False (es_runtime st) inData outData in
               if ret \<noteq> HKS_SUCCESS then (ret, st)
               else
                 (case finish_ctx st of
                    Inl ret \<Rightarrow> (ret, st)
                  | Inr ctx \<Rightarrow> decrypt_final env inData (Some tag) alg outData ctx st)))"

text \<open>The functions for DES, 3DES and SM4 differ in the tag only, which SM4 does not have.\<close>

definition block_encrypt_finish ::
    "'c engine_env \<Rightarrow> (nat \<times> u32) ptr ptr \<Rightarrow> HksBlob \<Rightarrow> HksBlob \<Rightarrow> u32 \<Rightarrow> 'c engine_state \<Rightarrow> rc \<times> 'c engine_state" where
  "block_encrypt_finish env tag inData outData alg st =
     (let ret = HksCheckFinishOutSize True (es_runtime st) inData outData in
      if ret \<noteq> HKS_SUCCESS then (ret, st)
      else
        (case finish_ctx st of
           Inl ret \<Rightarrow> (ret, st)
         | Inr ctx \<Rightarrow>
             then_res (encrypt_final env inData tag alg outData ctx st) (\<lambda>tag_size st.
               (HKS_SUCCESS, grow_out tag_size st))))"

definition block_decrypt_finish ::
    "'c engine_env \<Rightarrow> HksBlob ptr \<Rightarrow> HksBlob \<Rightarrow> HksBlob \<Rightarrow> u32 \<Rightarrow> 'c engine_state \<Rightarrow> rc \<times> 'c engine_state" where
  "block_decrypt_finish env tag inData outData alg st =
     (let ret = HksCheckFinishOutSize False (es_runtime st) inData outData in
      if ret \<noteq> HKS_SUCCESS then (ret, st)
      else
        (case finish_ctx st of
           Inl ret \<Rightarrow> (ret, st)
         | Inr ctx \<Rightarrow> decrypt_final env inData tag alg outData ctx st))"

definition CoreDesEncryptFinish ::
    "'c engine_env \<Rightarrow> HksBlob \<Rightarrow> HksBlob \<Rightarrow> u32 \<Rightarrow> 'c engine_state \<Rightarrow> rc \<times> 'c engine_state" where
  "CoreDesEncryptFinish env inData outData alg st = block_encrypt_finish env (Some NULL) inData outData alg st"

definition CoreDesDecryptFinish ::
    "'c engine_env \<Rightarrow> HksBlob \<Rightarrow> HksBlob \<Rightarrow> u32 \<Rightarrow> 'c engine_state \<Rightarrow> rc \<times> 'c engine_state" where
  "CoreDesDecryptFinish env inData outData alg st =
     block_decrypt_finish env (Some empty_blob) inData outData alg st"

definition Core3DesEncryptFinish ::
    "'c engine_env \<Rightarrow> HksBlob \<Rightarrow> HksBlob \<Rightarrow> u32 \<Rightarrow> 'c engine_state \<Rightarrow> rc \<times> 'c engine_state" where
  "Core3DesEncryptFinish env inData outData alg st = block_encrypt_finish env (Some NULL) inData outData alg st"

definition Core3DesDecryptFinish ::
    "'c engine_env \<Rightarrow> HksBlob \<Rightarrow> HksBlob \<Rightarrow> u32 \<Rightarrow> 'c engine_state \<Rightarrow> rc \<times> 'c engine_state" where
  "Core3DesDecryptFinish env inData outData alg st =
     block_decrypt_finish env (Some empty_blob) inData outData alg st"

definition CoreSm4EncryptFinish ::
    "'c engine_env \<Rightarrow> HksBlob \<Rightarrow> HksBlob \<Rightarrow> u32 \<Rightarrow> 'c engine_state \<Rightarrow> rc \<times> 'c engine_state" where
  "CoreSm4EncryptFinish env inData outData alg st = block_encrypt_finish env NULL inData outData alg st"

definition CoreSm4DecryptFinish ::
    "'c engine_env \<Rightarrow> HksBlob \<Rightarrow> HksBlob \<Rightarrow> u32 \<Rightarrow> 'c engine_state \<Rightarrow> rc \<times> 'c engine_state" where
  "CoreSm4DecryptFinish env inData outData alg st = block_decrypt_finish env NULL inData outData alg st"

text \<open>DES and 3DES ask for the block mode first, but do not look at it.\<close>

definition with_block_mode :: "('c engine_state \<Rightarrow> rc \<times> 'c engine_state) \<Rightarrow> 'c engine_state \<Rightarrow> rc \<times> 'c engine_state" where
  "with_block_mode k st =
     (case HksGetParam (es_runtime st) HKS_TAG_BLOCK_MODE of Inl ret \<Rightarrow> (ret, st) | Inr _ \<Rightarrow> k st)"

definition CoreDesCipherInit :: "'c engine_env \<Rightarrow> 'c engine_state \<Rightarrow> rc \<times> 'c engine_state" where
  "CoreDesCipherInit env st = with_block_mode (CoreCipherInit env) st"

definition CoreDesCipherUpdate :: "'c engine_env \<Rightarrow> HksBlob \<Rightarrow> u32 \<Rightarrow> 'c engine_state \<Rightarrow> rc \<times> 'c engine_state" where
  "CoreDesCipherUpdate env inData alg st = with_block_mode (CoreCipherUpdate env inData alg) st"

definition CoreDesCipherFinish ::
    "'c engine_env \<Rightarrow> bool \<Rightarrow> HksBlob \<Rightarrow> HksBlob \<Rightarrow> u32 \<Rightarrow> 'c engine_state \<Rightarrow> rc \<times> 'c engine_state" where
  "CoreDesCipherFinish env isEncrypt inData outData alg st =
     with_block_mode (if isEncrypt then CoreDesEncryptFinish env inData outData alg
       else CoreDesDecryptFinish env inData outData alg) st"

definition Core3DesCipherInit :: "'c engine_env \<Rightarrow> 'c engine_state \<Rightarrow> rc \<times> 'c engine_state" where
  "Core3DesCipherInit env st = with_block_mode (CoreCipherInit env) st"

definition Core3DesCipherUpdate :: "'c engine_env \<Rightarrow> HksBlob \<Rightarrow> u32 \<Rightarrow> 'c engine_state \<Rightarrow> rc \<times> 'c engine_state" where
  "Core3DesCipherUpdate env inData alg st = with_block_mode (CoreCipherUpdate env inData alg) st"

definition Core3DesCipherFinish ::
    "'c engine_env \<Rightarrow> bool \<Rightarrow> HksBlob \<Rightarrow> HksBlob \<Rightarrow> u32 \<Rightarrow> 'c engine_state \<Rightarrow> rc \<times> 'c engine_state" where
  "Core3DesCipherFinish env isEncrypt inData outData alg st =
     with_block_mode (if isEncrypt then Core3DesEncryptFinish env inData outData alg
       else Core3DesDecryptFinish env inData outData alg) st"

section \<open>Everything in the last stage\<close>

text \<open>
  AES in the mode CCM. When the output is too small for tag and nonce, the code leaves the block with the
  result of the call before, \<open>HKS_SUCCESS\<close>.
\<close>

definition ccm_encrypt ::
    "'c engine_env \<Rightarrow> HksBlob \<Rightarrow> HksUsageSpec \<Rightarrow> HksBlob \<Rightarrow> HksBlob \<Rightarrow> 'c engine_state \<Rightarrow> rc \<times> 'c engine_state" where
  "ccm_encrypt env rawKey usageSpec inData outData st =
     (case HksGetEncryptAeTag (es_runtime st) inData outData of
        Inl ret \<Rightarrow> (ret, st)
      | Inr tag \<Rightarrow>
          (case HksCryptoHalEncrypt (ee_hal env) rawKey usageSpec inData (blob_size outData) of
             (ret, bs, tag') \<Rightarrow>
               let out = put_tag tag tag' (put_out ret bs outData); st = st\<lparr>es_out := Some out\<rparr> in
               if ret \<noteq> HKS_SUCCESS then (ret, st)
               else
                 (case AppendNonceWhenNeeded (es_runtime st) inData HKS_AES_CCM_NONCE_LEN out
                    (word_of_nat (length tag')) of
                    (ret, out) \<Rightarrow>
                      let st = st\<lparr>es_out := Some out\<rparr> in
                      if ret \<noteq> HKS_SUCCESS then (ret, st)
                      else (HKS_SUCCESS, grow_out (word_of_nat (length tag')) st))))"

definition ccm_decrypt ::
    "'c engine_env \<Rightarrow> HksBlob \<Rightarrow> HksUsageSpec \<Rightarrow> HksBlob \<Rightarrow> HksBlob \<Rightarrow> 'c engine_state \<Rightarrow> rc \<times> 'c engine_state" where
  "ccm_decrypt env rawKey usageSpec inData outData st =
     (case HksGetDecryptAeTag (es_runtime st) usageSpec of
        Inl ret \<Rightarrow> (ret, st)
      | Inr usageSpec \<Rightarrow>
          (case HksCryptoHalDecrypt (ee_hal env) rawKey usageSpec inData (blob_size outData) of
             (ret, bs) \<Rightarrow> (ret, st\<lparr>es_out := Some (put_out ret bs outData)\<rparr>)))"

definition CoreAesCcmCipherFinish ::
    "'c engine_env \<Rightarrow> bool \<Rightarrow> HksBlob \<Rightarrow> HksBlob \<Rightarrow> 'c engine_state \<Rightarrow> rc \<times> 'c engine_state" where
  "CoreAesCcmCipherFinish env isEncrypt inData outData st =
     (let ret = HksCheckFinishOutSize isEncrypt (es_runtime st) inData outData in
      if ret \<noteq> HKS_SUCCESS then (ret, st)
      else
        (case HksBuildCipherUsageSpec (ee_alloc env) (es_runtime st) isEncrypt (ipc_buffer HKS_TEMP_SIZE) of
           Inl ret \<Rightarrow> (ret, st)
         | Inr (usageSpec, _) \<Rightarrow>
             then_res (take_raw_key env (es_keyBlob st) st) (\<lambda>rawKey st.
             let own_nonce = (case HksGetParam (es_runtime st) HKS_TAG_AES_GCM_NEED_REGENERATE_NONCE of
                   Inr p \<Rightarrow> boolParam (p_val p) | Inl _ \<Rightarrow> False);
                 (ret, st) =
                   (if own_nonce \<and> blob_size outData < blob_size inData + HKS_AE_TAG_LEN + HKS_AES_CCM_NONCE_LEN
                    then (HKS_SUCCESS, st)
                    else
                      (case us_algParam usageSpec of
                         Some (AeadParam aeadParam) \<Rightarrow>
                           let usageSpec = usageSpec\<lparr>us_algParam :=
                                 Some (AeadParam (aeadParam\<lparr>ae_payloadLen := blob_size inData\<rparr>))\<rparr> in
                           if us_purpose usageSpec = HKS_KEY_PURPOSE_ENCRYPT
                           then ccm_encrypt env rawKey usageSpec inData outData st
                           else ccm_decrypt env rawKey usageSpec inData outData st
                       | _ \<Rightarrow> undefined_behaviour HKS_FAILURE st)) in
             (ret, wipe_raw_key rawKey st))))"

definition CoreAesCipherInit :: "'c engine_env \<Rightarrow> 'c engine_state \<Rightarrow> rc \<times> 'c engine_state" where
  "CoreAesCipherInit env st =
     (case HksGetParam (es_runtime st) HKS_TAG_BLOCK_MODE of
        Inl ret \<Rightarrow> (ret, st)
      | Inr modeParam \<Rightarrow>
          if uint32Param (p_val modeParam) = HKS_MODE_CCM
          then then_rc (UpdateNonceForAesAeMode env True st) (SetCacheModeCtx env)
          else CoreCipherInit env st)"

definition CoreAesCipherUpdate :: "'c engine_env \<Rightarrow> HksBlob \<Rightarrow> u32 \<Rightarrow> 'c engine_state \<Rightarrow> rc \<times> 'c engine_state" where
  "CoreAesCipherUpdate env inData alg st =
     (case HksGetParam (es_runtime st) HKS_TAG_BLOCK_MODE of
        Inl ret \<Rightarrow> (ret, st)
      | Inr modeParam \<Rightarrow>
          if uint32Param (p_val modeParam) = HKS_MODE_CCM then
            then_rc (CheckCachedDataMaxSize inData HKS_CIPHER_CCM_MODE_MAX_DATA_LEN st) (\<lambda>st.
            UpdateCachedData env inData
              (st\<lparr>es_out := map_option (\<lambda>out. out\<lparr>blob_size := 0\<rparr>) (es_out st)\<rparr>))
          else CoreCipherUpdate env inData alg st)"

definition CoreAesCipherFinish ::
    "'c engine_env \<Rightarrow> bool \<Rightarrow> HksBlob \<Rightarrow> HksBlob \<Rightarrow> u32 \<Rightarrow> 'c engine_state \<Rightarrow> rc \<times> 'c engine_state" where
  "CoreAesCipherFinish env isEncrypt inData outData alg st =
     (case HksGetParam (es_runtime st) HKS_TAG_BLOCK_MODE of
        Inl ret \<Rightarrow> (ret, st)
      | Inr modeParam \<Rightarrow>
          if uint32Param (p_val modeParam) = HKS_MODE_CCM then
            then_rc (CheckCachedDataMaxSize inData HKS_CIPHER_CCM_MODE_MAX_DATA_LEN st) (\<lambda>st.
            then_res (FinishCachedData env inData st) (\<lambda>tempInData st.
            CoreAesCcmCipherFinish env isEncrypt tempInData outData st))
          else if isEncrypt then CoreAesEncryptFinish env inData outData alg st
          else CoreAesDecryptFinish env inData outData alg st)"

text \<open>RSA and SM2: the functions differ in their messages only.\<close>

definition asym_cipher_finish ::
    "'c engine_env \<Rightarrow> HksBlob \<Rightarrow> HksBlob \<Rightarrow> 'c engine_state \<Rightarrow> rc \<times> 'c engine_state" where
  "asym_cipher_finish env inData outData st =
     then_res (take_raw_key env (es_keyBlob st) st) (\<lambda>rawKey st.
     let usageSpec = HksFillUsageSpec (es_runtime st) zero_usage_spec;
         isEncrypt = (us_purpose usageSpec = HKS_KEY_PURPOSE_ENCRYPT);
         ret = HksCheckFinishOutSize isEncrypt (es_runtime st) inData outData in
     if ret \<noteq> HKS_SUCCESS then (ret, wipe_raw_key rawKey st)
     else
       (let (ret, bs) =
          (if isEncrypt
           then (case HksCryptoHalEncrypt (ee_hal env) rawKey usageSpec inData (blob_size outData) of
                   (ret, bs, _) \<Rightarrow> (ret, bs))
           else HksCryptoHalDecrypt (ee_hal env) rawKey usageSpec inData (blob_size outData)) in
        (ret, wipe_raw_key rawKey (st\<lparr>es_out := Some (put_out ret bs outData)\<rparr>))))"

definition RsaCipherFinish ::
    "'c engine_env \<Rightarrow> HksBlob \<Rightarrow> HksBlob \<Rightarrow> 'c engine_state \<Rightarrow> rc \<times> 'c engine_state" where
  "RsaCipherFinish env inData outData st = asym_cipher_finish env inData outData st"

definition Sm2CipherFinish ::
    "'c engine_env \<Rightarrow> HksBlob \<Rightarrow> HksBlob \<Rightarrow> 'c engine_state \<Rightarrow> rc \<times> 'c engine_state" where
  "Sm2CipherFinish env inData outData st = asym_cipher_finish env inData outData st"

definition CoreRsaCipherFinish ::
    "'c engine_env \<Rightarrow> HksBlob \<Rightarrow> HksBlob \<Rightarrow> 'c engine_state \<Rightarrow> rc \<times> 'c engine_state" where
  "CoreRsaCipherFinish env inData outData st =
     then_res (FinishCachedData env inData st) (\<lambda>tempInData st. RsaCipherFinish env tempInData outData st)"

definition CoreSm2CipherFinish ::
    "'c engine_env \<Rightarrow> HksBlob \<Rightarrow> HksBlob \<Rightarrow> 'c engine_state \<Rightarrow> rc \<times> 'c engine_state" where
  "CoreSm2CipherFinish env inData outData st =
     then_res (FinishCachedData env inData st) (\<lambda>tempInData st. Sm2CipherFinish env tempInData outData st)"

section \<open>Freeing\<close>

text \<open>The crypto engine looks up a function for the algorithm, and does nothing when there is none.\<close>

definition HksCryptoHalEncryptFreeCtx_engine :: "'c engine_env \<Rightarrow> u64 \<Rightarrow> u32 \<Rightarrow> 'c engine_state \<Rightarrow> 'c engine_state" where
  "HksCryptoHalEncryptFreeCtx_engine env ctx alg st =
     (if \<not> HksCryptoHalEncryptFreeCtx_algs (ee_ops env) alg then st
      else
        (case es_heap st ctx of
           Some (CipherCtx _) \<Rightarrow> put_object ctx None st
         | _ \<Rightarrow> snd (undefined_behaviour () st)))"

definition FreeCryptoCtx :: "'c engine_env \<Rightarrow> u32 \<Rightarrow> 'c engine_state \<Rightarrow> 'c engine_state" where
  "FreeCryptoCtx env alg st =
     (case get_ctx 0 0 st of Inl _ \<Rightarrow> st
      | Inr ctx \<Rightarrow>
          if alg = HKS_ALG_AES \<or> alg = HKS_ALG_DES \<or> alg = HKS_ALG_3DES then
            try_or (HksGetParam (es_runtime st) HKS_TAG_BLOCK_MODE) st (\<lambda>modeParam.
              set_ctx 0
                (if uint32Param (p_val modeParam) = HKS_MODE_CCM then free_cached ctx st
                 else HksCryptoHalEncryptFreeCtx_engine env ctx alg st))
          else if alg = HKS_ALG_SM4 then set_ctx 0 (HksCryptoHalEncryptFreeCtx_engine env ctx alg st)
          else set_ctx 0 (free_cached ctx st))"

section \<open>The stages\<close>

definition HksCoreCryptoThreeStageInit ::
    "'c engine_env \<Rightarrow> HksParamSet ptr \<Rightarrow> u32 \<Rightarrow> 'c engine_state \<Rightarrow> rc \<times> 'c engine_state" where
  "HksCoreCryptoThreeStageInit env paramSet alg st =
     (let ret = CipherAuth_three_stage (es_node st) paramSet in
      if ret \<noteq> HKS_SUCCESS then (ret, st)
      else
        try_or (HksGetParam (es_runtime st) HKS_TAG_ALGORITHM) (HKS_ERROR_CHECK_GET_ALG_FAIL, st) (\<lambda>algParam.
          let a = uint32Param (p_val algParam) in
          if a = HKS_ALG_RSA \<or> a = HKS_ALG_SM2 then SetCacheModeCtx env st
          else if a = HKS_ALG_AES then CoreAesCipherInit env st
          else if a = HKS_ALG_DES then CoreDesCipherInit env st
          else if a = HKS_ALG_3DES then Core3DesCipherInit env st
          else if a = HKS_ALG_SM4 then CoreCipherInit env st
          else (HKS_ERROR_INVALID_ALGORITHM, st)))"

definition HksCoreCryptoThreeStageUpdate ::
    "'c engine_env \<Rightarrow> HksParamSet ptr \<Rightarrow> HksBlob \<Rightarrow> u32 \<Rightarrow> 'c engine_state \<Rightarrow> rc \<times> 'c engine_state" where
  "HksCoreCryptoThreeStageUpdate env paramSet inData alg st =
     try_or (HksGetParam (es_runtime st) HKS_TAG_ALGORITHM) (HKS_ERROR_CHECK_GET_ALG_FAIL, st) (\<lambda>algParam.
       let a = uint32Param (p_val algParam) in
       if a = HKS_ALG_RSA \<or> a = HKS_ALG_SM2 then UpdateCachedData env inData st
       else if a = HKS_ALG_AES then CoreAesCipherUpdate env inData alg st
       else if a = HKS_ALG_DES then CoreDesCipherUpdate env inData alg st
       else if a = HKS_ALG_3DES then Core3DesCipherUpdate env inData alg st
       else if a = HKS_ALG_SM4 then CoreCipherUpdate env inData alg st
       else (HKS_ERROR_INVALID_ALGORITHM, st))"

text \<open>The last stage, of which there is one function for encrypting and one for decrypting.\<close>

definition crypto_finish ::
    "'c engine_env \<Rightarrow> bool \<Rightarrow> HksBlob \<Rightarrow> u32 \<Rightarrow> 'c engine_state \<Rightarrow> rc \<times> 'c engine_state" where
  "crypto_finish env isEncrypt inData alg st =
     (case es_out st of NULL \<Rightarrow> (HKS_ERROR_INVALID_ARGUMENT, st)
      | Some outData \<Rightarrow>
          if CheckBlob (Some outData) \<noteq> HKS_SUCCESS then (HKS_ERROR_INVALID_ARGUMENT, st)
          else
            try_or (HksGetParam (es_runtime st) HKS_TAG_ALGORITHM) (HKS_ERROR_CHECK_GET_ALG_FAIL, st) (\<lambda>algParam.
              let a = uint32Param (p_val algParam) in
              if a = HKS_ALG_RSA then CoreRsaCipherFinish env inData outData st
              else if a = HKS_ALG_SM2 then CoreSm2CipherFinish env inData outData st
              else if a = HKS_ALG_AES then CoreAesCipherFinish env isEncrypt inData outData alg st
              else if a = HKS_ALG_DES then CoreDesCipherFinish env isEncrypt inData outData alg st
              else if a = HKS_ALG_3DES then Core3DesCipherFinish env isEncrypt inData outData alg st
              else if a = HKS_ALG_SM4 then
                (if isEncrypt then CoreSm4EncryptFinish env inData outData alg st
                 else CoreSm4DecryptFinish env inData outData alg st)
              else (HKS_ERROR_INVALID_ALGORITHM, st)))"

definition HksCoreEncryptThreeStageFinish ::
    "'c engine_env \<Rightarrow> HksParamSet ptr \<Rightarrow> HksBlob \<Rightarrow> u32 \<Rightarrow> 'c engine_state \<Rightarrow> rc \<times> 'c engine_state" where
  "HksCoreEncryptThreeStageFinish env paramSet inData alg st = crypto_finish env True inData alg st"

definition HksCoreDecryptThreeStageFinish ::
    "'c engine_env \<Rightarrow> HksParamSet ptr \<Rightarrow> HksBlob \<Rightarrow> u32 \<Rightarrow> 'c engine_state \<Rightarrow> rc \<times> 'c engine_state" where
  "HksCoreDecryptThreeStageFinish env paramSet inData alg st = crypto_finish env False inData alg st"

definition HksCoreCryptoThreeStageAbort ::
    "'c engine_env \<Rightarrow> HksParamSet ptr \<Rightarrow> u32 \<Rightarrow> 'c engine_state \<Rightarrow> rc \<times> 'c engine_state" where
  "HksCoreCryptoThreeStageAbort env paramSet alg st = (HKS_SUCCESS, FreeCryptoCtx env alg st)"

end
