(* ===== verification/Huks_Stage_Agree.thy ===== *)
theory Huks_Stage_Agree
  imports Huks_Stage_Cipher
begin

text \<open>
  Deriving and agreeing on keys, and message authentication codes, in three stages: the rest of
  \<open>hks_core_service_three_stage.c\<close>. A derived or agreed key is made by the first update, waits as cached data,
  and is given out, or stored as a key blob, by the last stage.
\<close>

section \<open>Authorisation\<close>

definition AgreeAuth :: "HuksKeyNode \<Rightarrow> HksParamSet ptr \<Rightarrow> rc" where
  "AgreeAuth keyNode paramSet =
     try_rc (HksGetParam paramSet HKS_TAG_ALGORITHM) (\<lambda>algParam.
     let alg = uint32Param (p_val algParam) in
     if alg = HKS_ALG_ECDH \<or> alg = HKS_ALG_X25519 \<or> alg = HKS_ALG_DH \<or> alg = HKS_ALG_SM2
     then HksThreeStageAuth HKS_AUTH_ID_AGREE keyNode
     else HKS_ERROR_INVALID_ALGORITHM)"

definition HmacAuth :: "HuksKeyNode \<Rightarrow> HksParamSet ptr \<Rightarrow> rc" where
  "HmacAuth keyNode paramSet =
     try_rc (HksGetParam paramSet HKS_TAG_ALGORITHM) (\<lambda>algParam.
     let alg = uint32Param (p_val algParam) in
     if alg = HKS_ALG_HMAC then HksThreeStageAuth HKS_AUTH_ID_MAC_HMAC keyNode
     else if alg = HKS_ALG_3DES then HksThreeStageAuth HKS_AUTH_ID_MAC_CMAC keyNode
     else if alg = HKS_ALG_SM3 then HksThreeStageAuth HKS_AUTH_ID_MAC_SM3 keyNode
     else HKS_ERROR_INVALID_ALGORITHM)"

section \<open>Buffers for new keys\<close>

abbreviation (input) MAX_OUT_BLOB_SIZE :: u32 where "MAX_OUT_BLOB_SIZE \<equiv> 0x500000"

definition GetRawkey :: "'c engine_env \<Rightarrow> 'c engine_state \<Rightarrow> HksBlob res \<times> 'c engine_state" where
  "GetRawkey env st =
     (if GetCryptoCtx (es_node st) \<noteq> 0 then (Inl HKS_FAILURE, st)
      else
        (let ret = HksThreeStageAuth HKS_AUTH_ID_DERIVE (es_node st) in
         if ret \<noteq> HKS_SUCCESS then (Inl ret, st) else take_raw_key env (es_keyBlob st) st))"

definition FreeOutBlob :: "u64 \<Rightarrow> 'c engine_state \<Rightarrow> 'c engine_state" where
  "FreeOutBlob a st = put_object a None st"

definition ConstructDervieBlob ::
    "'c engine_env \<Rightarrow> HksParamSet ptr \<Rightarrow> 'c engine_state \<Rightarrow> (u64 \<times> HksBlob) res \<times> 'c engine_state" where
  "ConstructDervieBlob env paramSet st =
     (case HksGetParam paramSet HKS_TAG_DERIVE_KEY_SIZE of
        Inl _ \<Rightarrow> (Inl HKS_ERROR_INVALID_ARGUMENT, st)
      | Inr deriveSizeParam \<Rightarrow>
          let deriveSize = uint32Param (p_val deriveSizeParam) in
          if deriveSize = 0 \<or> deriveSize > MAX_OUT_BLOB_SIZE then (Inl HKS_ERROR_INVALID_ARGUMENT, st)
          else
            (case new_blob env empty_blob st of
               (Inl ret, st) \<Rightarrow> (Inl ret, st)
             | (Inr a, st) \<Rightarrow>
                 if \<not> HksMalloc (ee_alloc env) (unat deriveSize)
                 then (Inl HKS_ERROR_MALLOC_FAIL, put_object a None st)
                 else
                   (let b = ipc_buffer deriveSize in
                    (Inr (a, b), put_object a (Some (CachedBlob b)) st))))"

definition ConstructAgreeBlob :: "'c engine_env \<Rightarrow> 'c engine_state \<Rightarrow> (u64 \<times> HksBlob) res \<times> 'c engine_state" where
  "ConstructAgreeBlob env st =
     (case new_blob env empty_blob st of
        (Inl ret, st) \<Rightarrow> (Inl ret, st)
      | (Inr a, st) \<Rightarrow>
          if \<not> HksMalloc (ee_alloc env) (unat MAX_KEY_SIZE)
          then (Inl HKS_ERROR_MALLOC_FAIL, put_object a None st)
          else
            (let b = ipc_buffer MAX_KEY_SIZE in
             (Inr (a, b), put_object a (Some (CachedBlob b)) st)))"

section \<open>Giving the new key out\<close>

text \<open>
  Only a request that has the tag of the storage flag asks for storing, so there is a parameter set to build
  the key blob from.
\<close>

definition DoBuildKeyBlobOrGetOutDataAction ::
    "'c engine_env \<Rightarrow> HksParamSet ptr \<Rightarrow> HksBlob \<Rightarrow> HksBlob \<Rightarrow> u8 \<Rightarrow> bool \<Rightarrow> rc \<times> HksBlob" where
  "DoBuildKeyBlobOrGetOutDataAction env paramSet restoreData outData keyFlag isNeedStorage =
     (if isNeedStorage then
        (case fst (HksBuildKeyBlob (ee_hal env) (ee_alloc env) (ee_param_addr env) keyFlag restoreData
           (the paramSet) outData) of
           Inl ret \<Rightarrow> (ret, outData)
         | Inr out \<Rightarrow> (HKS_SUCCESS, out))
      else if blob_size outData < blob_size restoreData then (HKS_ERROR_BUFFER_TOO_SMALL, outData)
      else
        (let outData = outData\<lparr>blob_size := blob_size restoreData\<rparr> in
         (HKS_SUCCESS, snd (memcpy_to outData 0 (blob_size outData) (blob_data restoreData)
            (unat (blob_size outData))))))"

definition BuildAgreeDeriveKeyBlobOrGetOutData ::
    "'c engine_env \<Rightarrow> HksParamSet ptr \<Rightarrow> HksBlob \<Rightarrow> HksBlob \<Rightarrow> u8 \<Rightarrow> HuksKeyNode \<Rightarrow> rc \<times> HksBlob" where
  "BuildAgreeDeriveKeyBlobOrGetOutData env paramSet restoreData outData keyFlag keyNode =
     (let flag = HksGetParam (kn_keyBlobParamSet keyNode) HKS_TAG_DERIVE_AGREE_KEY_STORAGE_FLAG in
      if flag = Inl HKS_ERROR_INVALID_ARGUMENT then (HKS_ERROR_INVALID_ARGUMENT, outData)
      else
        (let isNeedStorage = snd (HksCheckKeyNeedStored paramSet False);
             ret = (if isNeedStorage then HksCoreCheckAgreeDeriveFinishParams restoreData paramSet
               else HKS_SUCCESS) in
         if ret \<noteq> HKS_SUCCESS then (ret, outData)
         else
           (case flag of
              Inl _ \<Rightarrow> DoBuildKeyBlobOrGetOutDataAction env paramSet restoreData outData keyFlag isNeedStorage
            | Inr keyStorageFlagParam \<Rightarrow>
                if (uint32Param (p_val keyStorageFlagParam) = HKS_STORAGE_ONLY_USED_IN_HUKS) = isNeedStorage then
                  (case DoBuildKeyBlobOrGetOutDataAction env paramSet restoreData outData keyFlag isNeedStorage of
                     (ret, outData) \<Rightarrow>
                       (if ret \<noteq> HKS_SUCCESS then HKS_ERROR_BAD_STATE else HKS_SUCCESS, outData))
                else (HKS_ERROR_BAD_STATE, outData))))"

text \<open>The last stage and the abort are the same for derived and for agreed keys, but for the flag.\<close>

definition new_key_finish ::
    "'c engine_env \<Rightarrow> HksParamSet ptr \<Rightarrow> u8 \<Rightarrow> 'c engine_state \<Rightarrow> rc \<times> 'c engine_state" where
  "new_key_finish env paramSet keyFlag st =
     (case es_out st of NULL \<Rightarrow> (HKS_ERROR_INVALID_ARGUMENT, st)
      | Some outData \<Rightarrow>
          if CheckBlob (Some outData) \<noteq> HKS_SUCCESS then (HKS_ERROR_INVALID_ARGUMENT, st)
          else
            (let ctx = GetCryptoCtx (es_node st) in
             if ctx = 0 then (HKS_ERROR_NULL_POINTER, st)
             else
               (case es_heap st ctx of
                  Some (CachedBlob restoreData) \<Rightarrow>
                    (case BuildAgreeDeriveKeyBlobOrGetOutData env paramSet restoreData outData keyFlag (es_node st) of
                       (ret, out) \<Rightarrow> (ret, ClearCryptoCtx (free_cached ctx (st\<lparr>es_out := Some out\<rparr>))))
                | _ \<Rightarrow> undefined_behaviour HKS_FAILURE st)))"

definition new_key_abort :: "'c engine_state \<Rightarrow> rc \<times> 'c engine_state" where
  "new_key_abort st =
     (let ctx = GetCryptoCtx (es_node st) in
      if ctx = 0 then (HKS_ERROR_NULL_POINTER, st)
      else (HKS_SUCCESS, ClearCryptoCtx (free_cached ctx st)))"

section \<open>Deriving\<close>

definition HksCoreDeriveThreeStageInit ::
    "'c engine_env \<Rightarrow> HksParamSet ptr \<Rightarrow> u32 \<Rightarrow> 'c engine_state \<Rightarrow> rc \<times> 'c engine_state" where
  "HksCoreDeriveThreeStageInit env paramSet alg st = (HKS_SUCCESS, st)"

text \<open>The bytes the crypto engine wrote are at the start of the buffer, which keeps its size.\<close>

definition HksCoreDeriveThreeStageUpdate ::
    "'c engine_env \<Rightarrow> HksParamSet ptr \<Rightarrow> HksBlob \<Rightarrow> u32 \<Rightarrow> 'c engine_state \<Rightarrow> rc \<times> 'c engine_state" where
  "HksCoreDeriveThreeStageUpdate env paramSet srcData alg st =
     try_or (HksGetParam (es_runtime st) HKS_TAG_CRYPTO_CTX) (HKS_ERROR_BAD_STATE, st) (\<lambda>_.
     then_res (GetRawkey env st) (\<lambda>rawKey st.
     case ConstructDervieBlob env (es_runtime st) st of
       (Inl ret, st) \<Rightarrow> (ret, wipe_raw_key rawKey st)
     | (Inr (a, deriveBlob), st) \<Rightarrow>
         let derivationSpec = HksFillKeySpec (es_runtime st) zero_key_spec;
             derParam = HksFillKeyDerivationParam (es_runtime st) zero_derivation_param in
         (case HksCryptoHalDeriveKey (ee_hal env) rawKey (derivationSpec\<lparr>ks_algParam := Some derParam\<rparr>)
            (blob_size deriveBlob) of
            Inl ret \<Rightarrow> (ret, wipe_raw_key rawKey (FreeOutBlob a st))
          | Inr key \<Rightarrow>
              (HKS_SUCCESS, wipe_raw_key rawKey (set_ctx a (put_object a (Some (CachedBlob
                 (deriveBlob\<lparr>blob_data := map_option (overwrite 0 key) (blob_data deriveBlob)\<rparr>))) st))))))"

definition HksCoreDeriveThreeStageFinish ::
    "'c engine_env \<Rightarrow> HksParamSet ptr \<Rightarrow> HksBlob \<Rightarrow> u32 \<Rightarrow> 'c engine_state \<Rightarrow> rc \<times> 'c engine_state" where
  "HksCoreDeriveThreeStageFinish env paramSet inData alg st =
     new_key_finish env paramSet (ucast HKS_KEY_FLAG_DERIVE_KEY) st"

definition HksCoreDeriveThreeStageAbort ::
    "'c engine_env \<Rightarrow> HksParamSet ptr \<Rightarrow> u32 \<Rightarrow> 'c engine_state \<Rightarrow> rc \<times> 'c engine_state" where
  "HksCoreDeriveThreeStageAbort env paramSet alg st = new_key_abort st"

section \<open>Agreeing\<close>

definition HksCoreAgreeThreeStageInit ::
    "'c engine_env \<Rightarrow> HksParamSet ptr \<Rightarrow> u32 \<Rightarrow> 'c engine_state \<Rightarrow> rc \<times> 'c engine_state" where
  "HksCoreAgreeThreeStageInit env paramSet alg st = (AgreeAuth (es_node st) (es_runtime st), st)"

definition HksCoreAgreeThreeStageUpdate ::
    "'c engine_env \<Rightarrow> HksParamSet ptr \<Rightarrow> HksBlob \<Rightarrow> u32 \<Rightarrow> 'c engine_state \<Rightarrow> rc \<times> 'c engine_state" where
  "HksCoreAgreeThreeStageUpdate env paramSet srcData alg st =
     try_or (HksGetParam (es_runtime st) HKS_TAG_CRYPTO_CTX) (HKS_ERROR_BAD_STATE, st) (\<lambda>ctxParam.
     if uint64Param (p_val ctxParam) \<noteq> 0 then (HKS_FAILURE, st)
     else
       (case GetHksPubKeyInnerFormat (ee_from_x509 env) (ee_alloc env) (es_runtime st) (Some srcData) of
          Inl ret \<Rightarrow> (ret, st)
        | Inr publicKey \<Rightarrow>
            then_res (ConstructAgreeBlob env st) (\<lambda>(a, agreeTemp) st.
            case take_raw_key env (es_keyBlob st) st of
              (Inl ret, st) \<Rightarrow> (ret, FreeOutBlob a st)
            | (Inr rawKey, st) \<Rightarrow>
                (case HksCryptoHalAgreeKey (ee_ops env) rawKey publicKey (HksFillKeySpec (es_runtime st) zero_key_spec)
                   agreeTemp of
                   (ret, shared) \<Rightarrow>
                     if ret \<noteq> HKS_SUCCESS then (ret, wipe_raw_key rawKey (FreeOutBlob a st))
                     else (HKS_SUCCESS, wipe_raw_key rawKey
                       (set_ctx a (put_object a (Some (CachedBlob shared)) st)))))))"

definition HksCoreAgreeThreeStageFinish ::
    "'c engine_env \<Rightarrow> HksParamSet ptr \<Rightarrow> HksBlob \<Rightarrow> u32 \<Rightarrow> 'c engine_state \<Rightarrow> rc \<times> 'c engine_state" where
  "HksCoreAgreeThreeStageFinish env paramSet inData alg st =
     new_key_finish env paramSet (ucast HKS_KEY_FLAG_AGREE_KEY) st"

definition HksCoreAgreeThreeStageAbort ::
    "'c engine_env \<Rightarrow> HksParamSet ptr \<Rightarrow> u32 \<Rightarrow> 'c engine_state \<Rightarrow> rc \<times> 'c engine_state" where
  "HksCoreAgreeThreeStageAbort env paramSet alg st = new_key_abort st"

section \<open>Message authentication codes\<close>

text \<open>
  The first stage makes a context of CMAC when the request names 3DES; the other stages use one when theirs
  names CMAC. When the request of the first stage has no algorithm, the raw key is left in memory.
\<close>

definition HksCoreMacThreeStageInit ::
    "'c engine_env \<Rightarrow> HksParamSet ptr \<Rightarrow> u32 \<Rightarrow> 'c engine_state \<Rightarrow> rc \<times> 'c engine_state" where
  "HksCoreMacThreeStageInit env paramSet alg st =
     (let ret = HmacAuth (es_node st) (es_runtime st) in
      if ret \<noteq> HKS_SUCCESS then (ret, st)
      else
        try_or (HksGetParam (es_runtime st) HKS_TAG_CRYPTO_CTX) (HKS_ERROR_BAD_STATE, st) (\<lambda>_.
        then_res (take_raw_key env (es_keyBlob st) st) (\<lambda>rawKey st.
        case HksGetParam paramSet HKS_TAG_ALGORITHM of
          Inl ret \<Rightarrow> (ret, st)
        | Inr algParam \<Rightarrow>
            let cmac = (uint32Param (p_val algParam) = HKS_ALG_3DES) in
            (case (if cmac then HksCryptoHalCmacInit (ee_ops env) rawKey alg (used st)
                   else HksCryptoHalHmacInit (ee_ops env) rawKey alg (used st)) of
               Inl ret \<Rightarrow> (ret, wipe_raw_key rawKey st)
             | Inr (a, c) \<Rightarrow>
                 (HKS_SUCCESS, wipe_raw_key rawKey
                    (set_ctx a (put_object a (Some (if cmac then CmacCtx c else HmacCtx c)) st)))))))"

definition HksCoreMacThreeStageUpdate ::
    "'c engine_env \<Rightarrow> HksParamSet ptr \<Rightarrow> HksBlob \<Rightarrow> u32 \<Rightarrow> 'c engine_state \<Rightarrow> rc \<times> 'c engine_state" where
  "HksCoreMacThreeStageUpdate env paramSet srcData alg st =
     (let ctx = GetCryptoCtx (es_node st) in
      if ctx = 0 then (HKS_ERROR_NULL_POINTER, st)
      else
        (case HksGetParam paramSet HKS_TAG_ALGORITHM of
           Inl ret \<Rightarrow> (ret, st)
         | Inr algParam \<Rightarrow>
             (case (uint32Param (p_val algParam) = HKS_ALG_CMAC, es_heap st ctx) of
                (True, Some (CmacCtx c)) \<Rightarrow>
                  (case HksCryptoHalCmacUpdate (ee_ops env) srcData c of
                     (ret, c) \<Rightarrow> (ret, put_object ctx (Some (CmacCtx c)) st))
              | (False, Some (HmacCtx c)) \<Rightarrow>
                  (case HksCryptoHalHmacUpdate (ee_ops env) srcData c of
                     (ret, c) \<Rightarrow> (ret, put_object ctx (Some (HmacCtx c)) st))
              | _ \<Rightarrow> undefined_behaviour HKS_FAILURE st)))"

definition mac_room :: "HuksKeyNode \<Rightarrow> HksBlob ptr \<Rightarrow> rc" where
  "mac_room keyNode outData =
     try_or (HksGetParam (kn_runtimeParamSet keyNode) HKS_TAG_DIGEST) HKS_ERROR_CHECK_GET_DIGEST_FAIL (\<lambda>digestParam.
     try_rc (HksGetDigestLen (uint32Param (p_val digestParam))) (\<lambda>macLen.
     if CheckBlob outData \<noteq> HKS_SUCCESS \<or> blob_size (the outData) < macLen then HKS_ERROR_BUFFER_TOO_SMALL
     else HKS_SUCCESS))"

definition HksCoreMacThreeStageFinish ::
    "'c engine_env \<Rightarrow> HksParamSet ptr \<Rightarrow> HksBlob \<Rightarrow> u32 \<Rightarrow> 'c engine_state \<Rightarrow> rc \<times> 'c engine_state" where
  "HksCoreMacThreeStageFinish env paramSet inData alg st =
     (case HksGetParam paramSet HKS_TAG_ALGORITHM of
        Inl ret \<Rightarrow> (ret, st)
      | Inr algParam \<Rightarrow>
          let cmac = (uint32Param (p_val algParam) = HKS_ALG_CMAC);
              ret = (if cmac then HKS_SUCCESS else mac_room (es_node st) (es_out st)) in
          if ret \<noteq> HKS_SUCCESS then (ret, st)
          else
            (case get_ctx HKS_ERROR_BAD_STATE HKS_ERROR_NULL_POINTER st of
               Inl ret \<Rightarrow> (ret, st)
             | Inr ctx \<Rightarrow>
                 (case (cmac, es_heap st ctx) of
                    (True, Some (CmacCtx c)) \<Rightarrow>
                      (case HksCryptoHalCmacFinal (ee_ops env) inData c (es_out st) of
                         (ret, out, left) \<Rightarrow>
                           (ret, set_ctx 0 (put_object ctx (map_option CmacCtx left) (st\<lparr>es_out := out\<rparr>))))
                  | (False, Some (HmacCtx c)) \<Rightarrow>
                      (case HksCryptoHalHmacFinal (ee_ops env) inData c (es_out st) of
                         (ret, out, left) \<Rightarrow>
                           (ret, set_ctx 0 (put_object ctx (map_option HmacCtx left) (st\<lparr>es_out := out\<rparr>))))
                  | _ \<Rightarrow> undefined_behaviour HKS_FAILURE st)))"

definition HksCryptoHalHmacFreeCtx_engine :: "u64 \<Rightarrow> 'c engine_state \<Rightarrow> 'c engine_state" where
  "HksCryptoHalHmacFreeCtx_engine ctx st =
     (case es_heap st ctx of
        Some (HmacCtx _) \<Rightarrow> put_object ctx None st
      | _ \<Rightarrow> snd (undefined_behaviour () st))"

definition HksCryptoHalCmacFreeCtx_engine :: "u64 \<Rightarrow> 'c engine_state \<Rightarrow> 'c engine_state" where
  "HksCryptoHalCmacFreeCtx_engine ctx st =
     (case es_heap st ctx of
        Some (CmacCtx _) \<Rightarrow> put_object ctx None st
      | _ \<Rightarrow> snd (undefined_behaviour () st))"

definition HksCoreMacThreeStageAbort ::
    "'c engine_env \<Rightarrow> HksParamSet ptr \<Rightarrow> u32 \<Rightarrow> 'c engine_state \<Rightarrow> rc \<times> 'c engine_state" where
  "HksCoreMacThreeStageAbort env paramSet alg st =
     (let ctx = GetCryptoCtx (es_node st) in
      if ctx = 0 then (HKS_ERROR_NULL_POINTER, st)
      else
        (case HksGetParam paramSet HKS_TAG_ALGORITHM of
           Inl ret \<Rightarrow> (ret, st)
         | Inr algParam \<Rightarrow>
             (HKS_SUCCESS, ClearCryptoCtx
                (if uint32Param (p_val algParam) = HKS_ALG_CMAC then HksCryptoHalCmacFreeCtx_engine ctx st
                 else HksCryptoHalHmacFreeCtx_engine ctx st))))"

end
