(* ===== verification/Huks_Core_Operate.thy ===== *)
theory Huks_Core_Operate
  imports Huks_Stage_Agree
begin

text \<open>
  Operations in three stages as the engine offers them,
  \<open>services/huks_standard/huks_engine/main/core/src/hks_core_service_key_operate_three_stage.c\<close>: finding the node
  of a handle, the checks, the handler of the purpose, batches, and deleting the node. The state of the engine is
  the list of nodes, the key for authentication tokens, and the objects the sessions point at.
\<close>

section \<open>State of the engine\<close>

record 'c core_state =
  co_nodes :: keynode_state
  co_keys :: at_key_state
  co_heap :: "u64 \<rightharpoonup> 'c ctx_object"
  co_raw :: "HksBlob list"
  co_random :: nat
  co_undefined :: bool

text \<open>A stage works on the node, in the list, and on the caller's buffer.\<close>

definition open_node :: "HuksKeyNode \<Rightarrow> HksBlob ptr \<Rightarrow> 'c core_state \<Rightarrow> 'c engine_state" where
  "open_node keyNode outData cs =
     \<lparr>es_node = keyNode, es_out = outData, es_heap = co_heap cs, es_raw = co_raw cs, es_random = co_random cs,
      es_undefined = co_undefined cs\<rparr>"

definition store_node :: "HuksKeyNode \<Rightarrow> 'c core_state \<Rightarrow> 'c core_state" where
  "store_node keyNode cs = cs\<lparr>co_nodes := (co_nodes cs)\<lparr>g_keyNodeList :=
     map (\<lambda>n. if kn_addr n = kn_addr keyNode then keyNode else n) (g_keyNodeList (co_nodes cs))\<rparr>\<rparr>"

definition close_node :: "'c engine_state \<Rightarrow> 'c core_state \<Rightarrow> 'c core_state" where
  "close_node st cs =
     store_node (es_node st)
       (cs\<lparr>co_heap := es_heap st, co_raw := es_raw st, co_random := es_random st, co_undefined := es_undefined st\<rparr>)"

text \<open>
  The destructors that deleting a node calls, on the objects. A key that is wiped belongs to the node.
\<close>

fun run_cleanup :: "'c engine_env \<Rightarrow> cleanup list \<Rightarrow> 'c engine_state \<Rightarrow> 'c engine_state" where
  "run_cleanup env [] st = st"
| "run_cleanup env (c # cs) st = run_cleanup env cs
     (case c of
        FreeCachedData a \<Rightarrow> free_cached a st
      | HksCryptoHalHashFreeCtx a \<Rightarrow> HksCryptoHalHashFreeCtx_engine a st
      | HksCryptoHalEncryptFreeCtx a alg \<Rightarrow> HksCryptoHalEncryptFreeCtx_engine env a alg st
      | HksCryptoHalHmacFreeCtx a \<Rightarrow> HksCryptoHalHmacFreeCtx_engine a st
      | WipeKey _ \<Rightarrow> st)"

text \<open>What the operations of \<open>hks_keynode.c\<close> leave to be cleaned up.\<close>

definition settle :: "'c engine_env \<Rightarrow> keynode_state \<Rightarrow> 'c core_state \<Rightarrow> 'c core_state" where
  "settle env nodes cs =
     (let st = run_cleanup env (drop (length (cleaned (co_nodes cs))) (cleaned nodes))
            (open_node (new_node 0) NULL cs) in
      cs\<lparr>co_nodes := nodes, co_heap := es_heap st, co_undefined := es_undefined st\<rparr>)"

definition delete_node :: "'c engine_env \<Rightarrow> u64 \<Rightarrow> 'c core_state \<Rightarrow> 'c core_state" where
  "delete_node env handle cs = settle env (HksDeleteKeyNode handle (co_nodes cs)) cs"

section \<open>Handlers\<close>

type_synonym 'c stage = "'c engine_env \<Rightarrow> HksParamSet ptr \<Rightarrow> u32 \<Rightarrow> 'c engine_state \<Rightarrow> rc \<times> 'c engine_state"
type_synonym 'c data_stage =
  "'c engine_env \<Rightarrow> HksParamSet ptr \<Rightarrow> HksBlob \<Rightarrow> u32 \<Rightarrow> 'c engine_state \<Rightarrow> rc \<times> 'c engine_state"

definition g_hksCoreInitHandler :: "(u32 \<times> 'c stage) list" where
  "g_hksCoreInitHandler =
     [(HKS_KEY_PURPOSE_SIGN, HksCoreSignVerifyThreeStageInit),
      (HKS_KEY_PURPOSE_VERIFY, HksCoreSignVerifyThreeStageInit),
      (HKS_KEY_PURPOSE_ENCRYPT, HksCoreCryptoThreeStageInit),
      (HKS_KEY_PURPOSE_DECRYPT, HksCoreCryptoThreeStageInit),
      (HKS_KEY_PURPOSE_DERIVE, HksCoreDeriveThreeStageInit),
      (HKS_KEY_PURPOSE_AGREE, HksCoreAgreeThreeStageInit),
      (HKS_KEY_PURPOSE_MAC, HksCoreMacThreeStageInit)]"

definition g_hksCoreUpdateHandler :: "(u32 \<times> 'c data_stage) list" where
  "g_hksCoreUpdateHandler =
     [(HKS_KEY_PURPOSE_SIGN, HksCoreSignVerifyThreeStageUpdate),
      (HKS_KEY_PURPOSE_VERIFY, HksCoreSignVerifyThreeStageUpdate),
      (HKS_KEY_PURPOSE_ENCRYPT, HksCoreCryptoThreeStageUpdate),
      (HKS_KEY_PURPOSE_DECRYPT, HksCoreCryptoThreeStageUpdate),
      (HKS_KEY_PURPOSE_DERIVE, HksCoreDeriveThreeStageUpdate),
      (HKS_KEY_PURPOSE_AGREE, HksCoreAgreeThreeStageUpdate),
      (HKS_KEY_PURPOSE_MAC, HksCoreMacThreeStageUpdate)]"

definition g_hksCoreFinishHandler :: "(u32 \<times> 'c data_stage) list" where
  "g_hksCoreFinishHandler =
     [(HKS_KEY_PURPOSE_SIGN, HksCoreSignVerifyThreeStageFinish),
      (HKS_KEY_PURPOSE_VERIFY, HksCoreSignVerifyThreeStageFinish),
      (HKS_KEY_PURPOSE_ENCRYPT, HksCoreEncryptThreeStageFinish),
      (HKS_KEY_PURPOSE_DECRYPT, HksCoreDecryptThreeStageFinish),
      (HKS_KEY_PURPOSE_DERIVE, HksCoreDeriveThreeStageFinish),
      (HKS_KEY_PURPOSE_AGREE, HksCoreAgreeThreeStageFinish),
      (HKS_KEY_PURPOSE_MAC, HksCoreMacThreeStageFinish)]"

definition g_hksCoreAbortHandler :: "(u32 \<times> 'c stage) list" where
  "g_hksCoreAbortHandler =
     [(HKS_KEY_PURPOSE_SIGN, HksCoreSignVerifyThreeStageAbort),
      (HKS_KEY_PURPOSE_VERIFY, HksCoreSignVerifyThreeStageAbort),
      (HKS_KEY_PURPOSE_ENCRYPT, HksCoreCryptoThreeStageAbort),
      (HKS_KEY_PURPOSE_DECRYPT, HksCoreCryptoThreeStageAbort),
      (HKS_KEY_PURPOSE_DERIVE, HksCoreDeriveThreeStageAbort),
      (HKS_KEY_PURPOSE_AGREE, HksCoreAgreeThreeStageAbort),
      (HKS_KEY_PURPOSE_MAC, HksCoreMacThreeStageAbort)]"

section \<open>Checks\<close>

text \<open>The loop stops at the parameter with which both values are known.\<close>

fun purpose_loop :: "HksParam list \<Rightarrow> u32 \<Rightarrow> u32 \<Rightarrow> (u32 \<times> u32) res" where
  "purpose_loop [] pur alg = Inl HKS_ERROR_INVALID_ARGUMENT"
| "purpose_loop (p # ps) pur alg =
     (let pur = (if p_tag p = HKS_TAG_PURPOSE then uint32Param (p_val p) else pur);
          alg = (if p_tag p = HKS_TAG_ALGORITHM then uint32Param (p_val p) else alg) in
      if pur \<noteq> 0 \<and> alg \<noteq> 0 then Inr (pur, alg) else purpose_loop ps pur alg)"

definition GetPurposeAndAlgorithm :: "HksParamSet ptr \<Rightarrow> (u32 \<times> u32) res" where
  "GetPurposeAndAlgorithm paramSet =
     (case paramSet of NULL \<Rightarrow> Inl HKS_ERROR_NULL_POINTER
      | Some ps \<Rightarrow>
          try_res (purpose_loop (params ps) 0 0) (\<lambda>(pur, alg).
          if alg = HKS_ALG_HMAC \<or> alg = HKS_ALG_SM3 \<or> pur = HKS_KEY_PURPOSE_SIGN \<or> pur = HKS_KEY_PURPOSE_VERIFY then
            (case List.find (\<lambda>p. p_tag p = HKS_TAG_DIGEST) (params ps) of
               Some digest \<Rightarrow> Inr (pur, uint32Param (p_val digest))
             | None \<Rightarrow> Inl HKS_ERROR_INVALID_ARGUMENT)
          else Inr (pur, alg)))"

definition CoreInitPreCheck :: "HksBlob ptr \<Rightarrow> HksParamSet ptr \<Rightarrow> HksBlob ptr \<Rightarrow> HksBlob ptr \<Rightarrow> rc" where
  "CoreInitPreCheck key paramSet handle token =
     (case (key, paramSet, handle, token) of
        (Some _, Some ps, Some h, Some _) \<Rightarrow>
          if blob_size h < 8 then HKS_ERROR_INSUFFICIENT_MEMORY
          else if HksCheckParamSet paramSet (paramSetSize ps) \<noteq> HKS_SUCCESS
            \<or> HksCheckParamSetTag paramSet \<noteq> HKS_SUCCESS then HKS_ERROR_INVALID_ARGUMENT
          else HKS_SUCCESS
      | _ \<Rightarrow> HKS_ERROR_NULL_POINTER)"

definition HksBatchCheck :: "HuksKeyNode \<Rightarrow> rc" where
  "HksBatchCheck keyNode =
     (if \<not> kn_isBatchOperation keyNode then HKS_ERROR_PARAM_NOT_EXIST
      else
        try_or (HksGetParam (kn_runtimeParamSet keyNode) HKS_TAG_PURPOSE) HKS_ERROR_INVALID_ARGUMENT (\<lambda>purposeParam.
        try_or (HksGetParam (kn_keyBlobParamSet keyNode) HKS_TAG_BATCH_PURPOSE) HKS_ERROR_INVALID_ARGUMENT
          (\<lambda>batchPurposeParam.
          if uint32Param (p_val purposeParam) OR uint32Param (p_val batchPurposeParam)
             \<noteq> uint32Param (p_val batchPurposeParam) then HKS_ERROR_INVALID_PURPOSE
          else HKS_SUCCESS)))"

section \<open>Running a stage\<close>

definition HksCoreInitProcess ::
    "'c engine_env \<Rightarrow> HksParamSet ptr \<Rightarrow> u32 \<Rightarrow> u32 \<Rightarrow> 'c engine_state \<Rightarrow> rc \<times> 'c engine_state" where
  "HksCoreInitProcess env paramSet pur alg st =
     (if paramSet = NULL then (HKS_ERROR_NULL_POINTER, st)
      else (case map_of g_hksCoreInitHandler pur of
              None \<Rightarrow> (HKS_ERROR_INVALID_ARGUMENT, st)
            | Some handler \<Rightarrow> handler env paramSet alg st))"

text \<open>The data of the caller, or the buffer that the authentication information was put in front of.\<close>

definition appended_data :: "HksBlob ptr \<Rightarrow> HksBlob \<Rightarrow> HksBlob" where
  "appended_data appendInData inData =
     (case appendInData of Some b \<Rightarrow> (if blob_data b = NULL then inData else b) | NULL \<Rightarrow> inData)"

definition HksCoreUpdateProcess ::
    "'c engine_env \<Rightarrow> HksParamSet ptr \<Rightarrow> HksBlob \<Rightarrow> 'c engine_state \<Rightarrow> rc \<times> 'c engine_state" where
  "HksCoreUpdateProcess env paramSet inData st =
     (if paramSet = NULL then (HKS_ERROR_NULL_POINTER, st)
      else
        (case GetPurposeAndAlgorithm (es_runtime st) of
           Inl ret \<Rightarrow> (ret, st)
         | Inr (pur, alg) \<Rightarrow>
             (case map_of g_hksCoreUpdateHandler pur of
                None \<Rightarrow> (HKS_ERROR_INVALID_ARGUMENT, st)
              | Some handler \<Rightarrow>
                  (case HksCoreAppendAuthInfoBeforeUpdate (ee_auth env) (es_node st) pur (Some inData)
                     (Some empty_blob) of
                     (ret, keyNode, appendInData) \<Rightarrow>
                       let st = st\<lparr>es_node := keyNode\<rparr> in
                       if ret \<noteq> HKS_SUCCESS then (ret, st)
                       else handler env paramSet (appended_data appendInData inData) alg st))))"

definition HksCoreFinishProcess ::
    "'c engine_env \<Rightarrow> HksParamSet ptr \<Rightarrow> HksBlob \<Rightarrow> 'c engine_state \<Rightarrow> rc \<times> 'c engine_state" where
  "HksCoreFinishProcess env paramSet inData st =
     (if paramSet = NULL then (HKS_ERROR_NULL_POINTER, st)
      else
        (case GetPurposeAndAlgorithm (es_runtime st) of
           Inl ret \<Rightarrow> (ret, st)
         | Inr (pur, alg) \<Rightarrow>
             (case map_of g_hksCoreFinishHandler pur of
                None \<Rightarrow> (HKS_ERROR_INVALID_ARGUMENT, st)
              | Some handler \<Rightarrow>
                  let outDataBufferSize = (case es_out st of NULL \<Rightarrow> 0 | Some out \<Rightarrow> blob_size out) in
                  (case HksCoreAppendAuthInfoBeforeFinish (ee_auth env) (es_node st) pur (Some inData)
                     (Some empty_blob) of
                     (ret, keyNode, appendInData) \<Rightarrow>
                       let st = st\<lparr>es_node := keyNode\<rparr> in
                       if ret \<noteq> HKS_SUCCESS then (ret, st)
                       else
                         then_rc (handler env paramSet (appended_data appendInData inData) alg st) (\<lambda>st.
                         case HksCoreAppendAuthInfoAfterFinish (ee_alloc env) (es_node st) pur outDataBufferSize
                           (es_out st) of
                           (ret, out) \<Rightarrow> (ret, st\<lparr>es_out := out\<rparr>))))))"

section \<open>Init\<close>

abbreviation (input) DEFAULT_BATCH_TIME_OUT :: u64 where "DEFAULT_BATCH_TIME_OUT \<equiv> 60"
abbreviation (input) MAX_BATCH_TIME_OUT :: u64 where "MAX_BATCH_TIME_OUT \<equiv> 600"

text \<open>The loop over the parameters, with what was found so far; \<open>Inl\<close> keeps the node as it was left.\<close>

fun batch_loop ::
    "u64 \<Rightarrow> HksParam list \<Rightarrow> bool \<Rightarrow> bool \<Rightarrow> HuksKeyNode \<Rightarrow> rc \<times> bool \<times> bool \<times> HuksKeyNode" where
  "batch_loop curTime [] findOperation findTimeout keyNode = (HKS_SUCCESS, findOperation, findTimeout, keyNode)"
| "batch_loop curTime (p # ps) findOperation findTimeout keyNode =
     (if p_tag p = HKS_TAG_IS_BATCH_OPERATION
      then batch_loop curTime ps True findTimeout (keyNode\<lparr>kn_isBatchOperation := boolParam (p_val p)\<rparr>)
      else if p_tag p = HKS_TAG_BATCH_OPERATION_TIMEOUT then
        (if ucast (uint32Param (p_val p)) > MAX_BATCH_TIME_OUT
         then (HKS_ERROR_NOT_SUPPORTED, findOperation, findTimeout, keyNode)
         else batch_loop curTime ps findOperation True
           (keyNode\<lparr>kn_batchOperationTimestamp := curTime + ucast (uint32Param (p_val p)) * S_TO_MS\<rparr>))
      else if findOperation \<and> findTimeout then (HKS_SUCCESS, findOperation, findTimeout, keyNode)
      else batch_loop curTime ps findOperation findTimeout keyNode)"

definition HksAddBatchTimeToKeyNode :: "u64 res \<Rightarrow> HksParamSet ptr \<Rightarrow> HuksKeyNode \<Rightarrow> rc \<times> HuksKeyNode" where
  "HksAddBatchTimeToKeyNode clk paramSet keyNode =
     (case (paramSet, clk) of
        (NULL, _) \<Rightarrow> (HKS_ERROR_NULL_POINTER, keyNode)
      | (Some _, Inl ret) \<Rightarrow> (ret, keyNode)
      | (Some ps, Inr curTime) \<Rightarrow>
          (case batch_loop curTime (params ps) False False
             (keyNode\<lparr>kn_isBatchOperation := False,
                kn_batchOperationTimestamp := curTime + DEFAULT_BATCH_TIME_OUT * S_TO_MS\<rparr>) of
             (ret, findOperation, findTimeout, keyNode) \<Rightarrow>
               if ret \<noteq> HKS_SUCCESS then (ret, keyNode)
               else if \<not> findOperation \<and> findTimeout
               then (HKS_ERROR_NOT_SUPPORTED, keyNode\<lparr>kn_batchOperationTimestamp := 0\<rparr>)
               else if \<not> findOperation then (HKS_SUCCESS, keyNode\<lparr>kn_batchOperationTimestamp := 0\<rparr>)
               else (HKS_SUCCESS, keyNode)))"

text \<open>
  The handles: four random bytes. \<open>fresh\<close> is the address of a new node. The clock is read once for the batch
  and once for the access time, and may be read for every node when room has to be made.
\<close>

definition handle_random :: "'c engine_env \<Rightarrow> nat \<Rightarrow> nat \<Rightarrow> u32 res" where
  "handle_random env n i = try_res (HksCryptoHalFillRandom (ee_hal env) (n + i) 4) (\<lambda>bs. Inr (of_le bs))"

definition create_key_node ::
    "'c engine_env \<Rightarrow> nat \<Rightarrow> HksBlob \<Rightarrow> HksParamSet ptr \<Rightarrow> keynode_state \<Rightarrow> nat \<Rightarrow> HuksKeyNode ptr \<times> keynode_state" where
  "create_key_node env fresh key paramSet nodes n =
     HksCreateKeyNode (ee_alloc env) (handle_random env n) (\<lambda>i. ee_clk env (i + 2))
       (HksGetAadAndParamSet (ee_alloc env)) (HksDecryptKeyBlob (ee_hal env) (ee_alloc env)) fresh key paramSet nodes"

text \<open>The steps after the node is there; the caller's handle and token are given back with the code.\<close>

definition init_node ::
    "'c engine_env \<Rightarrow> HksParamSet ptr \<Rightarrow> HksBlob \<Rightarrow> HksBlob \<Rightarrow> 'c engine_state
     \<Rightarrow> (rc \<times> HksBlob \<times> HksBlob) \<times> 'c engine_state" where
  "init_node env paramSet handle token st =
     (case HksAddBatchTimeToKeyNode (ee_clk env 0) paramSet (es_node st) of
        (ret, keyNode) \<Rightarrow>
          let st = st\<lparr>es_node := keyNode\<rparr> in
          if ret \<noteq> HKS_SUCCESS then ((ret, handle, token), st)
          else
            (let ret = HksProcessIdentityVerify (ee_auth_num env) (es_keyBlob st) paramSet in
             if ret \<noteq> HKS_SUCCESS then ((ret, handle, token), st)
             else
               (let handle = snd (memcpy_to (handle\<lparr>blob_size := 8\<rparr>) 0 8 (Some (to_le 8 (kn_handle keyNode))) 8) in
                case GetPurposeAndAlgorithm paramSet of
                  Inl ret \<Rightarrow> ((ret, handle, token), st)
                | Inr (pur, alg) \<Rightarrow>
                    (case HksCoreSecureAccessInitParams (ee_hal env) (ee_alloc env) (ee_clk env 1)
                       (Some (es_node st)) paramSet (Some token) of
                       Inl ret \<Rightarrow> ((ret, handle, token), st)
                     | Inr (keyNode, token) \<Rightarrow>
                         let st = st\<lparr>es_node := keyNode\<rparr>; ret = HksBatchCheck keyNode in
                         if ret \<noteq> HKS_ERROR_PARAM_NOT_EXIST then ((ret, handle, token), st)
                         else
                           (case HksCoreInitProcess env paramSet pur alg st of
                              (ret, st) \<Rightarrow> ((ret, handle, token), st))))))"

definition HksCoreInit ::
    "'c engine_env \<Rightarrow> nat \<Rightarrow> HksBlob ptr \<Rightarrow> HksParamSet ptr \<Rightarrow> HksBlob ptr \<Rightarrow> HksBlob ptr \<Rightarrow> 'c core_state
     \<Rightarrow> (rc \<times> HksBlob ptr \<times> HksBlob ptr) \<times> 'c core_state" where
  "HksCoreInit env fresh key paramSet handle token cs =
     (let ret = CoreInitPreCheck key paramSet handle token in
      if ret \<noteq> HKS_SUCCESS then ((ret, handle, token), cs)
      else
        (case create_key_node env fresh (the key) paramSet (co_nodes cs) (co_random cs) of
           (keyNode, nodes) \<Rightarrow>
             let cs = settle env nodes cs in
             (case keyNode of
                NULL \<Rightarrow> ((HKS_ERROR_BAD_STATE, handle, token), cs)
              | Some node \<Rightarrow>
                  (case init_node env paramSet (the handle) (the token) (open_node node NULL cs) of
                     ((ret, handle, token), st) \<Rightarrow>
                       let cs = close_node st cs in
                       ((ret, Some handle, Some token),
                        if ret \<noteq> HKS_SUCCESS then delete_node env (kn_handle node) cs else cs)))))"

section \<open>Update\<close>

text \<open>\<open>sessionId\<close> is not initialised: the bytes a shorter handle does not write are those of the stack.\<close>

definition session_id :: "u64 \<Rightarrow> HksBlob \<Rightarrow> u64 res" where
  "session_id stack handle =
     (case memcpy_to (blob_of (to_le 8 stack)) 0 8 (blob_data handle) (unat (blob_size handle)) of
        (ok, b) \<Rightarrow> if \<not> ok then Inl HKS_ERROR_INSUFFICIENT_MEMORY else Inr (of_le (blob_bytes b)))"

definition GetParamsForUpdateAndFinish ::
    "u64 \<Rightarrow> HksBlob ptr \<Rightarrow> keynode_state \<Rightarrow> (u64 \<times> HuksKeyNode) res" where
  "GetParamsForUpdateAndFinish stack handle nodes =
     (case handle of NULL \<Rightarrow> Inl HKS_ERROR_NULL_POINTER
      | Some h \<Rightarrow>
          try_res (session_id stack h) (\<lambda>sessionId.
            case HksQueryKeyNode sessionId nodes of
              NULL \<Rightarrow> Inl HKS_ERROR_BAD_STATE | Some keyNode \<Rightarrow> Inr (sessionId, keyNode)))"

definition HksCheckBatchUpdateTime :: "u64 res \<Rightarrow> HuksKeyNode \<Rightarrow> rc" where
  "HksCheckBatchUpdateTime clk keyNode =
     (case clk of Inl ret \<Rightarrow> ret
      | Inr curTime \<Rightarrow>
          if kn_batchOperationTimestamp keyNode < curTime then HKS_ERROR_INVALID_TIME_OUT else HKS_SUCCESS)"

text \<open>
  One member of a batch, with a node of its own, which shares key and authentication with the node of the
  batch and is not in the list.
\<close>

definition HksBatchUpdate ::
    "'c engine_env \<Rightarrow> nat \<Rightarrow> HksParamSet ptr \<Rightarrow> HksBlob \<Rightarrow> 'c engine_state \<Rightarrow> rc \<times> 'c engine_state" where
  "HksBatchUpdate env fresh paramSet inData st =
     (if paramSet = NULL then (HKS_ERROR_NULL_POINTER, st)
      else
        try_or (HksGetParam (kn_authRuntimeParamSet (es_node st)) HKS_TAG_KEY_AUTH_RESULT) (HKS_ERROR_BAD_STATE, st)
          (\<lambda>_.
        let st = st\<lparr>es_node := set_auth_param HKS_TAG_KEY_AUTH_RESULT (VUint HKS_AUTH_RESULT_INIT) (es_node st)\<rparr> in
        try_or (HksGetParam (kn_authRuntimeParamSet (es_node st)) HKS_TAG_IF_NEED_APPEND_AUTH_INFO)
          (HKS_ERROR_BAD_STATE, st) (\<lambda>_.
        let st = st\<lparr>es_node := set_auth_param HKS_TAG_IF_NEED_APPEND_AUTH_INFO (VBool False) (es_node st)\<rparr>;
            keyNode = es_node st; ret = HksCheckBatchUpdateTime (ee_clk env 0) keyNode in
        if ret \<noteq> HKS_SUCCESS then (ret, st)
        else
          (case HksCreateBatchKeyNode (ee_alloc env) fresh keyNode paramSet of
             NULL \<Rightarrow> (HKS_ERROR_BAD_STATE, st)
           | Some batchKeyNode \<Rightarrow>
               let st = st\<lparr>es_node := batchKeyNode\<rparr>;
                   (ret, st) =
                     (case GetPurposeAndAlgorithm paramSet of
                        Inl ret \<Rightarrow> (ret, st)
                      | Inr (pur, alg) \<Rightarrow>
                          then_rc (HksCoreInitProcess env paramSet pur alg st) (\<lambda>st.
                          HksCoreFinishProcess env paramSet inData st));
                   st = run_cleanup env (FreeRuntimeParamSet (es_runtime st)) st in
               (ret, st\<lparr>es_node := keyNode\<lparr>kn_authRuntimeParamSet := kn_authRuntimeParamSet (es_node st)\<rparr>\<rparr>)))))"

text \<open>What update and finish do once the node is found, up to the stage; the node is part of the state.\<close>

definition verify_access ::
    "'c engine_env \<Rightarrow> HksParamSet ptr \<Rightarrow> HuksKeyNode \<Rightarrow> 'c core_state \<Rightarrow> rc \<times> HuksKeyNode \<times> 'c core_state" where
  "verify_access env paramSet keyNode cs =
     (case HksCoreSecureAccessVerifyParams (ee_auth env) (Some keyNode) paramSet (co_keys cs) of
        ((ret, keyNode'), keys) \<Rightarrow> (ret, the keyNode', store_node (the keyNode') (cs\<lparr>co_keys := keys\<rparr>)))"

definition run_stage ::
    "('c engine_state \<Rightarrow> rc \<times> 'c engine_state) \<Rightarrow> HuksKeyNode \<Rightarrow> HksBlob ptr \<Rightarrow> 'c core_state
     \<Rightarrow> rc \<times> HksBlob ptr \<times> 'c core_state" where
  "run_stage stage keyNode outData cs =
     (case stage (open_node keyNode outData cs) of (ret, st) \<Rightarrow> (ret, es_out st, close_node st cs))"

definition HksCoreUpdate ::
    "'c engine_env \<Rightarrow> nat \<Rightarrow> u64 \<Rightarrow> HksBlob ptr \<Rightarrow> HksParamSet ptr \<Rightarrow> HksBlob ptr \<Rightarrow> HksBlob ptr \<Rightarrow> 'c core_state
     \<Rightarrow> (rc \<times> HksBlob ptr) \<times> 'c core_state" where
  "HksCoreUpdate env fresh stack handle paramSet inData outData cs =
     (if handle = NULL \<or> paramSet = NULL \<or> inData = NULL then ((HKS_ERROR_NULL_POINTER, outData), cs)
      else
        (let ret = HksCheckParamSetTag paramSet in
         if ret \<noteq> HKS_SUCCESS then ((ret, outData), cs)
         else
           (case GetParamsForUpdateAndFinish stack handle (co_nodes cs) of
              Inl ret \<Rightarrow> ((ret, outData), cs)
            | Inr (sessionId, keyNode) \<Rightarrow>
                let ret = CheckIfNeedIsDevicePasswordSet (ee_auth_num env) (kn_keyBlobParamSet keyNode) in
                if ret \<noteq> HKS_SUCCESS then ((ret, outData), delete_node env sessionId cs)
                else
                  (case verify_access env paramSet keyNode cs of
                     (ret, keyNode, cs) \<Rightarrow>
                       if ret \<noteq> HKS_SUCCESS then ((ret, outData), delete_node env sessionId cs)
                       else
                         (let ret = HksBatchCheck keyNode in
                          if ret = HKS_SUCCESS then
                            (case run_stage (HksBatchUpdate env fresh paramSet (the inData)) keyNode outData cs of
                               (ret, out, cs) \<Rightarrow>
                                 ((ret, out), if ret \<noteq> HKS_SUCCESS then delete_node env sessionId cs else cs))
                          else if ret = HKS_ERROR_PARAM_NOT_EXIST then
                            (case run_stage (HksCoreUpdateProcess env paramSet (the inData)) keyNode outData cs of
                               (ret, out, cs) \<Rightarrow>
                                 ((ret, out), if ret \<noteq> HKS_SUCCESS then delete_node env sessionId cs else cs))
                          else ((ret, outData), delete_node env sessionId cs))))))"

section \<open>Finish and abort\<close>

definition HksCoreFinish ::
    "'c engine_env \<Rightarrow> u64 \<Rightarrow> HksBlob ptr \<Rightarrow> HksParamSet ptr \<Rightarrow> HksBlob ptr \<Rightarrow> HksBlob ptr \<Rightarrow> 'c core_state
     \<Rightarrow> (rc \<times> HksBlob ptr) \<times> 'c core_state" where
  "HksCoreFinish env stack handle paramSet inData outData cs =
     (if handle = NULL \<or> inData = NULL \<or> paramSet = NULL \<or> HksCheckParamSetTag paramSet \<noteq> HKS_SUCCESS
      then ((HKS_ERROR_NULL_POINTER, outData), cs)
      else
        (case GetParamsForUpdateAndFinish stack handle (co_nodes cs) of
           Inl ret \<Rightarrow> ((ret, outData), cs)
         | Inr (sessionId, keyNode) \<Rightarrow>
             let ret = CheckIfNeedIsDevicePasswordSet (ee_auth_num env) (kn_keyBlobParamSet keyNode) in
             if ret \<noteq> HKS_SUCCESS then ((ret, outData), delete_node env sessionId cs)
             else
               (let ret = HksBatchCheck keyNode in
                if ret \<noteq> HKS_ERROR_PARAM_NOT_EXIST then ((ret, outData), delete_node env sessionId cs)
                else
                  (case verify_access env paramSet keyNode cs of
                     (ret, keyNode, cs) \<Rightarrow>
                       if ret \<noteq> HKS_SUCCESS then ((ret, outData), delete_node env sessionId cs)
                       else
                         (case run_stage (HksCoreFinishProcess env paramSet (the inData)) keyNode outData cs of
                            (ret, out, cs) \<Rightarrow> ((ret, out), delete_node env sessionId cs))))))"

definition HksCoreAbort ::
    "'c engine_env \<Rightarrow> u64 \<Rightarrow> HksBlob ptr \<Rightarrow> HksParamSet ptr \<Rightarrow> 'c core_state \<Rightarrow> rc \<times> 'c core_state" where
  "HksCoreAbort env stack handle paramSet cs =
     (if handle = NULL \<or> paramSet = NULL then (HKS_ERROR_NULL_POINTER, cs)
      else
        (let ret = HksCheckParamSetTag paramSet in
         if ret \<noteq> HKS_SUCCESS then (ret, cs)
         else
           (case session_id stack (the handle) of
              Inl ret \<Rightarrow> (ret, cs)
            | Inr sessionId \<Rightarrow>
                (case HksQueryKeyNode sessionId (co_nodes cs) of
                   NULL \<Rightarrow> (HKS_SUCCESS, cs)
                 | Some keyNode \<Rightarrow>
                     (case GetPurposeAndAlgorithm (kn_runtimeParamSet keyNode) of
                        Inl ret \<Rightarrow> (ret, delete_node env sessionId cs)
                      | Inr (pur, alg) \<Rightarrow>
                          (case map_of g_hksCoreAbortHandler pur of
                             None \<Rightarrow> (HKS_ERROR_INVALID_ARGUMENT, delete_node env sessionId cs)
                           | Some handler \<Rightarrow>
                               (case run_stage (handler env paramSet alg) keyNode NULL cs of
                                  (ret, _, cs) \<Rightarrow> (ret, delete_node env sessionId cs))))))))"

end
