(* ===== verification/Huks_Core_Other.thy ===== *)
theory Huks_Core_Other
  imports Huks_Core_Generate Huks_Core_Operate
begin

text \<open>
  The other operations of the engine: upgrading a key blob (\<open>hks_upgrade_key.c\<close>, with the tag lists of
  \<open>hks_tags_type_manager.c\<close>), attestation (\<open>hks_core_service_key_attest.c\<close>), decrypting with the key of the
  chipset (\<open>hks_chipset_platform_decrypt.c\<close>), and the table of functions that the engine gives to the service
  (\<open>hks_core_service_key_other.c\<close> and \<open>hks_core_interfaces.c\<close>).
\<close>

section \<open>Tags of algorithms and of key files\<close>

definition HKS_ALG_PARAMS_TAG :: "u32 list" where
  "HKS_ALG_PARAMS_TAG = [HKS_TAG_INVALID, HKS_TAG_ALGORITHM, HKS_TAG_PURPOSE, HKS_TAG_KEY_SIZE, HKS_TAG_DIGEST, HKS_TAG_PADDING,
     HKS_TAG_BLOCK_MODE, HKS_TAG_KEY_TYPE, HKS_TAG_ASSOCIATED_DATA, HKS_TAG_NONCE, HKS_TAG_IV, HKS_TAG_INFO,
     HKS_TAG_SALT, HKS_TAG_PWD, HKS_TAG_ITERATION, HKS_TAG_KEY_GENERATE_TYPE, HKS_TAG_DERIVE_MAIN_KEY,
     HKS_TAG_DERIVE_FACTOR, HKS_TAG_DERIVE_ALG, HKS_TAG_AGREE_ALG, HKS_TAG_AGREE_PUBLIC_KEY_IS_KEY_ALIAS,
     HKS_TAG_AGREE_PRIVATE_KEY_ALIAS, HKS_TAG_AGREE_PUBLIC_KEY, HKS_TAG_KEY_ALIAS, HKS_TAG_DERIVE_KEY_SIZE,
     HKS_TAG_IMPORT_KEY_TYPE, HKS_TAG_UNWRAP_ALGORITHM_SUITE, HKS_TAG_CIPHER_TEXT, HKS_TAG_PEER_PUBLIC_KEY,
     HKS_TAG_DERIVE_AGREE_KEY_STORAGE_FLAG, HKS_TAG_RSA_PSS_SALT_LEN_TYPE, HKS_TAG_MGF_DIGEST,
     HKS_TAG_ACTIVE_DATETIME, HKS_TAG_ORIGINATION_EXPIRE_DATETIME, HKS_TAG_USAGE_EXPIRE_DATETIME,
     HKS_TAG_CREATION_DATETIME, HKS_TAG_ALL_USERS, HKS_TAG_USER_ID, HKS_TAG_NO_AUTH_REQUIRED,
     HKS_TAG_USER_AUTH_TYPE, HKS_TAG_AUTH_TIMEOUT, HKS_TAG_AUTH_TOKEN, HKS_TAG_KEY_AUTH_ACCESS_TYPE,
     HKS_TAG_KEY_SECURE_SIGN_TYPE, HKS_TAG_CHALLENGE_TYPE, HKS_TAG_CHALLENGE_POS, HKS_TAG_KEY_AUTH_PURPOSE,
     HKS_TAG_FRONT_USER_ID, HKS_TAG_BATCH_PURPOSE, HKS_TAG_IS_BATCH_OPERATION,
     HKS_TAG_BATCH_OPERATION_TIMEOUT, HKS_TAG_AUTH_STORAGE_LEVEL, HKS_TAG_SPECIFIC_USER_ID,
     HKS_TAG_USER_AUTH_MODE, HKS_TAG_ATTESTATION_CHALLENGE, HKS_TAG_ATTESTATION_APPLICATION_ID,
     HKS_TAG_ATTESTATION_ID_BRAND, HKS_TAG_ATTESTATION_ID_DEVICE, HKS_TAG_ATTESTATION_ID_PRODUCT,
     HKS_TAG_ATTESTATION_ID_SERIAL, HKS_TAG_ATTESTATION_ID_IMEI, HKS_TAG_ATTESTATION_ID_MEID,
     HKS_TAG_ATTESTATION_ID_MANUFACTURER, HKS_TAG_ATTESTATION_ID_MODEL, HKS_TAG_ATTESTATION_ID_ALIAS,
     HKS_TAG_ATTESTATION_ID_SOCID, HKS_TAG_ATTESTATION_ID_UDID, HKS_TAG_ATTESTATION_ID_SEC_LEVEL_INFO,
     HKS_TAG_ATTESTATION_ID_VERSION_INFO, HKS_TAG_ATTESTATION_BASE64, HKS_TAG_ATTESTATION_MODE,
     HKS_TAG_ATTESTATION_APPLICATION_ID_TYPE, HKS_TAG_IS_KEY_ALIAS, HKS_TAG_KEY_STORAGE_FLAG,
     HKS_TAG_IS_ALLOWED_WRAP, HKS_TAG_KEY_WRAP_TYPE, HKS_TAG_KEY_AUTH_ID, HKS_TAG_KEY_ROLE, HKS_TAG_KEY_FLAG,
     HKS_TAG_IS_ASYNCHRONIZED, HKS_TAG_SECURE_KEY_ALIAS, HKS_TAG_SECURE_KEY_UUID, HKS_TAG_KEY_DOMAIN,
     HKS_TAG_IS_DEVICE_PASSWORD_SET, HKS_TAG_EXT_INFO, HKS_TAG_DATA_WRAP_TYPE, HKS_TAG_IS_ALLOWED_DATA_WRAP,
     HKS_TAG_WRAP_KEY_VERSION, HKS_TAG_AGREE_PUBKEY_TYPE, HKS_TAG_PACKAGE_NAME, HKS_TAG_ACCESS_TIME,
     HKS_TAG_USES_TIME, HKS_TAG_CRYPTO_CTX, HKS_TAG_PAYLOAD_LEN, HKS_TAG_AE_TAG, HKS_TAG_IS_KEY_HANDLE,
     HKS_TAG_KEY_INIT_CHALLENGE, HKS_TAG_IS_USER_AUTH_ACCESS, HKS_TAG_USER_AUTH_CHALLENGE,
     HKS_TAG_USER_AUTH_ENROLL_ID_INFO, HKS_TAG_USER_AUTH_SECURE_UID, HKS_TAG_KEY_AUTH_RESULT,
     HKS_TAG_IF_NEED_APPEND_AUTH_INFO, HKS_TAG_VERIFIED_AUTH_TOKEN, HKS_TAG_IS_APPEND_UPDATE_DATA,
     HKS_TAG_KEY_ACCESS_TIME, HKS_TAG_OWNER_ID, HKS_TAG_OWNER_TYPE, HKS_TAG_ACCOUNT_ID,
     HKS_TAG_SYMMETRIC_KEY_DATA, HKS_TAG_ASYMMETRIC_PUBLIC_KEY_DATA, HKS_TAG_ASYMMETRIC_PRIVATE_KEY_DATA,
     HKS_TAG_ATTESTATION_CERT_TYPE, HKS_TAG_ACCESS_TOKEN_ID, HKS_TAG_BUNDLE_NAME,
     HKS_TAG_AES_GCM_NEED_REGENERATE_NONCE]"

definition HKS_KEY_FILE_TAGS :: "u32 list" where
  "HKS_KEY_FILE_TAGS = [HKS_TAG_PROCESS_NAME, HKS_TAG_KEY, HKS_TAG_KEY_VERSION, HKS_TAG_OS_VERSION, HKS_TAG_OS_PATCHLEVEL]"

section \<open>Upgrading\<close>

abbreviation (input) HKS_KEY_VERSION :: u32 where "HKS_KEY_VERSION \<equiv> 3"
abbreviation (input) HKS_KEY_BLOB_DUMMY_OS_VERSION :: u32 where "HKS_KEY_BLOB_DUMMY_OS_VERSION \<equiv> 1"
abbreviation (input) HKS_KEY_BLOB_DUMMY_OS_PATCHLEVEL :: u32 where "HKS_KEY_BLOB_DUMMY_OS_PATCHLEVEL \<equiv> 1"

definition IsTagInAlgTagsList :: "u32 \<Rightarrow> bool" where
  "IsTagInAlgTagsList tag = list_ex (\<lambda>t. tag = t) HKS_ALG_PARAMS_TAG"

fun AddAlgParamsTags :: "HksParam list \<Rightarrow> HksParamSet \<Rightarrow> HksParamSet res" where
  "AddAlgParamsTags [] targetParamSet = Inr targetParamSet"
| "AddAlgParamsTags (p # ps) targetParamSet =
     (if IsTagInAlgTagsList (p_tag p)
      then try_res (add_params targetParamSet [p]) (AddAlgParamsTags ps)
      else AddAlgParamsTags ps targetParamSet)"

fun add_tags :: "HksParamSet ptr \<Rightarrow> u32 list \<Rightarrow> HksParamSet \<Rightarrow> HksParamSet res" where
  "add_tags paramSet [] targetParamSet = Inr targetParamSet"
| "add_tags paramSet (t # ts) targetParamSet =
     try_res (HksGetParam paramSet t) (\<lambda>param.
     try_res (add_params targetParamSet [param]) (add_tags paramSet ts))"

definition AddMandatoryParams :: "HksParamSet \<Rightarrow> HksParamSet \<Rightarrow> HksParamSet res" where
  "AddMandatoryParams paramSet targetParamSet = add_tags (Some paramSet) HKS_KEY_FILE_TAGS targetParamSet"

definition HksAddKeyVersionToParamSet :: "HksParamSet \<Rightarrow> HksParamSet \<Rightarrow> HksParamSet res" where
  "HksAddKeyVersionToParamSet srcParamSet targetParamSet =
     add_params targetParamSet [\<lparr>p_tag = HKS_TAG_KEY_VERSION, p_val = VUint HKS_KEY_VERSION\<rparr>]"

definition HksAddOsVersionToParamSet :: "HksParamSet \<Rightarrow> HksParamSet \<Rightarrow> HksParamSet res" where
  "HksAddOsVersionToParamSet srcParamSet targetParamSet =
     add_params targetParamSet [\<lparr>p_tag = HKS_TAG_OS_VERSION, p_val = VUint HKS_KEY_BLOB_DUMMY_OS_VERSION\<rparr>]"

definition HksAddOsPatchToParamSet :: "HksParamSet \<Rightarrow> HksParamSet \<Rightarrow> HksParamSet res" where
  "HksAddOsPatchToParamSet srcParamSet targetParamSet =
     add_params targetParamSet [\<lparr>p_tag = HKS_TAG_OS_PATCHLEVEL, p_val = VUint HKS_KEY_BLOB_DUMMY_OS_PATCHLEVEL\<rparr>]"

definition HksAddkeyToParamSet :: "HksParamSet \<Rightarrow> HksParamSet \<Rightarrow> HksParamSet res" where
  "HksAddkeyToParamSet srcParamSet targetParamSet =
     try_res (HksGetParam (Some srcParamSet) HKS_TAG_KEY) (\<lambda>keyParam. add_params targetParamSet [keyParam])"

text \<open>The functions of \<open>HKS_ADD_MANDATORY_FUNC_LIST\<close>, one after the other.\<close>

definition AddMandatoryParamsInCore :: "allocator \<Rightarrow> HksParamSet \<Rightarrow> HksParamSet \<Rightarrow> HksParamSet res" where
  "AddMandatoryParamsInCore alloc oldKeyBlobParamSet srcParamSet =
     try_res (HksInitParamSet alloc) (\<lambda>outParamSet.
     try_res (add_params outParamSet (params srcParamSet)) (\<lambda>outParamSet.
     try_res (HksAddKeyVersionToParamSet oldKeyBlobParamSet outParamSet) (\<lambda>outParamSet.
     try_res (HksAddOsVersionToParamSet oldKeyBlobParamSet outParamSet) (\<lambda>outParamSet.
     try_res (HksAddOsPatchToParamSet oldKeyBlobParamSet outParamSet) (\<lambda>outParamSet.
     HksAddkeyToParamSet oldKeyBlobParamSet outParamSet)))))"

definition AuthChangeProcessName :: "HksParamSet ptr \<Rightarrow> HksParamSet ptr \<Rightarrow> rc" where
  "AuthChangeProcessName oldKeyBlobParamSet paramSet =
     try_rc (HksGetParam oldKeyBlobParamSet HKS_TAG_PROCESS_NAME) (\<lambda>oldProcessName.
     try_or (HksGetParam paramSet HKS_TAG_PROCESS_NAME) HKS_SUCCESS (\<lambda>newProcessName.
       let b1 = blobParam (p_val oldProcessName); b2 = blobParam (p_val newProcessName) in
       if blob_size b1 \<noteq> blob_size b2 \<or> HksMemCmp (blob_bytes b1) (blob_bytes b2) (unat (blob_size b1))
       then HKS_FAILURE else HKS_SUCCESS))"

definition AuthUpgradeKey :: "(u32 \<Rightarrow> u32 \<Rightarrow> rc \<times> u32) \<Rightarrow> HksParamSet ptr \<Rightarrow> HksParamSet ptr \<Rightarrow> rc" where
  "AuthUpgradeKey num oldKeyBlobParamSet paramSet =
     (let ret = HksProcessIdentityVerify num oldKeyBlobParamSet paramSet in
      if_not_succ_return ret ret (AuthChangeProcessName oldKeyBlobParamSet paramSet))"

definition CleanParamSetKey :: "HksParamSet ptr \<Rightarrow> cleanup list" where
  "CleanParamSetKey paramSet =
     (case HksGetParam paramSet HKS_TAG_KEY of
        Inl _ \<Rightarrow> [] | Inr keyParam \<Rightarrow> [WipeKey (blobParam (p_val keyParam))])"

definition CheckIsNeedToUpgradeKey ::
    "(u32 \<Rightarrow> u32 \<Rightarrow> rc \<times> u32) \<Rightarrow> HksParamSet ptr \<Rightarrow> HksParamSet ptr \<Rightarrow> rc" where
  "CheckIsNeedToUpgradeKey num oldKeyBlobParamSet paramSet =
     (let ret = AuthUpgradeKey num oldKeyBlobParamSet paramSet in
      if_not_succ_return ret ret
        (try_rc (HksGetParam oldKeyBlobParamSet HKS_TAG_KEY_VERSION) (\<lambda>keyVersion.
           if uint32Param (p_val keyVersion) \<ge> HKS_KEY_VERSION then HKS_FAILURE else HKS_SUCCESS)))"

text \<open>
  With the keys of the new set that are wiped when a later step fails. In a set that is not built yet the key is
  still that of the old set, which is wiped by the caller.
\<close>

definition ConstructNewKeyParamSet ::
    "allocator \<Rightarrow> HksParamSet \<Rightarrow> HksParamSet \<Rightarrow> HksParamSet res \<times> cleanup list" where
  "ConstructNewKeyParamSet alloc oldKeyBlobParamSet paramSet =
     (case AddMandatoryParamsInCore alloc oldKeyBlobParamSet paramSet of
        Inl ret \<Rightarrow> (Inl ret, [])
      | Inr newMandatoryParamSet \<Rightarrow>
          (case try_res (HksInitParamSet alloc) (\<lambda>newKeyBlobParamSet.
                try_res (AddAlgParamsTags (params oldKeyBlobParamSet) newKeyBlobParamSet) (\<lambda>newKeyBlobParamSet.
                AddMandatoryParams newMandatoryParamSet newKeyBlobParamSet)) of
             Inl ret \<Rightarrow> (Inl ret, [])
           | Inr newKeyBlobParamSet \<Rightarrow>
               (case HksBuildParamSet alloc (Some newKeyBlobParamSet) of
                  Inl ret \<Rightarrow> (Inl ret, CleanParamSetKey (Some newKeyBlobParamSet))
                | Inr built \<Rightarrow>
                    let ret = HksCheckParamSetTag (Some built) in
                    if ret \<noteq> HKS_SUCCESS then (Inl ret, CleanParamSetKey (Some built)) else (Inr built, []))))"

definition HksUpgradeKey ::
    "'c engine_env \<Rightarrow> HksBlob \<Rightarrow> HksParamSet ptr \<Rightarrow> HksBlob \<Rightarrow> one_state \<Rightarrow> HksBlob res \<times> one_state" where
  "HksUpgradeKey env oldKey paramSet newKey st =
     (case HksGenerateKeyNode (ee_hal env) (ee_alloc env) oldKey of
        (NULL, cs) \<Rightarrow> (Inl HKS_ERROR_BAD_STATE, log_cleaned cs st)
      | (Some keyNode, cs) \<Rightarrow>
          let (r, cs') =
            (case HksGetParamSet (ee_alloc env) (hkn_paramSet keyNode) (paramSetSize (the (hkn_paramSet keyNode))) of
               Inl ret \<Rightarrow> (Inl ret, [])
             | Inr oldKeyBlobParamSet \<Rightarrow>
                 let ret = CheckIsNeedToUpgradeKey (ee_auth_num env) (Some oldKeyBlobParamSet) paramSet in
                 if ret \<noteq> HKS_SUCCESS then (Inl ret, CleanParamSetKey (Some oldKeyBlobParamSet))
                 else
                   (case ConstructNewKeyParamSet (ee_alloc env) oldKeyBlobParamSet (the paramSet) of
                      (Inl ret, cs) \<Rightarrow> (Inl ret, cs @ CleanParamSetKey (Some oldKeyBlobParamSet))
                    | (Inr newKeyBlobParamSet, cs) \<Rightarrow>
                        (case HksBuildKeyBlobWithOutAddKeyParam (ee_hal env) (ee_alloc env) (ee_param_addr env)
                           newKeyBlobParamSet newKey of
                           (r, cs') \<Rightarrow> (r, cs @ cs' @ CleanParamSetKey (Some newKeyBlobParamSet)
                             @ CleanParamSetKey (Some oldKeyBlobParamSet))))) in
          (r, log_cleaned (cs @ cs' @ snd (HksFreeKeyNode (Some (Some keyNode)))) st))"

definition HksCoreUpgradeKey ::
    "'c engine_env \<Rightarrow> HksBlob \<Rightarrow> HksParamSet ptr \<Rightarrow> HksBlob \<Rightarrow> one_state \<Rightarrow> HksBlob res \<times> one_state" where
  "HksCoreUpgradeKey env oldKey paramSet newKey st = HksUpgradeKey env oldKey paramSet newKey st"

section \<open>Attestation\<close>

abbreviation (input) HKS_ATTEST_CERT_SIZE :: u32 where "HKS_ATTEST_CERT_SIZE \<equiv> 3072"

definition CheckAttestKeyParams :: "HksBlob \<Rightarrow> HksParamSet ptr \<Rightarrow> HksBlob \<Rightarrow> rc" where
  "CheckAttestKeyParams key paramSet certChain =
     (if CheckBlob (Some key) \<noteq> HKS_SUCCESS then HKS_ERROR_INVALID_ARGUMENT
      else if CheckBlob (Some certChain) \<noteq> HKS_SUCCESS \<or> blob_size certChain < HKS_ATTEST_CERT_SIZE
      then HKS_ERROR_INVALID_ARGUMENT
      else if HksCheckParamSetValidity paramSet \<noteq> HKS_SUCCESS then HKS_ERROR_INVALID_ARGUMENT
      else HKS_SUCCESS)"

text \<open>
  \<open>attest\<close> is \<open>CreateAttestCertChain\<close> of the certificate manager. The result of reading the raw key is
  dropped: when that fails, the key is what was on the stack, \<open>junk\<close>. The raw key is freed without being
  overwritten, so it stays in memory.
\<close>

definition HksCoreAttestKey ::
    "'c engine_env \<Rightarrow> (HksParamSet ptr \<Rightarrow> HksParamSet ptr \<Rightarrow> HksBlob \<Rightarrow> HksBlob \<Rightarrow> rc \<times> HksBlob) \<Rightarrow> HksBlob \<Rightarrow> HksBlob
     \<Rightarrow> HksParamSet ptr \<Rightarrow> HksBlob \<Rightarrow> one_state \<Rightarrow> (rc \<times> HksBlob) \<times> one_state" where
  "HksCoreAttestKey env attest junk key paramSet certChain st =
     refuse (CheckAttestKeyParams key paramSet certChain) certChain st
     (case HksGetParam paramSet HKS_TAG_ATTESTATION_CERT_TYPE of
        Inr _ \<Rightarrow> ((HKS_ERROR_NOT_SUPPORTED, certChain), st)
      | Inl ret \<Rightarrow>
          if ret \<noteq> HKS_ERROR_PARAM_NOT_EXIST then ((ret, certChain), st)
          else
            with_key_node env key certChain (\<lambda>keyNode st.
              refuse (HksProcessIdentityVerify (ee_auth_num env) (hkn_paramSet keyNode) paramSet) certChain st
              (case HksGetRawKey (ee_alloc env) (hkn_paramSet keyNode) of
                 Inl _ \<Rightarrow> (attest (hkn_paramSet keyNode) paramSet certChain junk, st)
               | Inr rawKey \<Rightarrow>
                   (attest (hkn_paramSet keyNode) paramSet certChain rawKey, hold rawKey st))) st)"

section \<open>Decrypting with the key of the chipset\<close>

abbreviation (input) PLATFORM_KEY_INPUT_PARAMS_COUNT :: nat where "PLATFORM_KEY_INPUT_PARAMS_COUNT \<equiv> 7"
abbreviation (input) PLATFORM_KEY_SALT_SIZE :: u32 where "PLATFORM_KEY_SALT_SIZE \<equiv> 16"
abbreviation (input) PLATFORM_KEY_PLATFORM_PUB_KEY_SIZE :: u32 where "PLATFORM_KEY_PLATFORM_PUB_KEY_SIZE \<equiv> 64"
abbreviation (input) PLATFORM_KEY_HMAC_MESSAGE_SIZE :: u32 where "PLATFORM_KEY_HMAC_MESSAGE_SIZE \<equiv> 32"
abbreviation (input) PLATFORM_KEY_IV_SIZE :: u32 where "PLATFORM_KEY_IV_SIZE \<equiv> 12"
abbreviation (input) PLATFORM_KEY_AAD_SIZE :: u32 where "PLATFORM_KEY_AAD_SIZE \<equiv> 16"
abbreviation (input) PLATFORM_KEY_TAG_SIZE :: u32 where "PLATFORM_KEY_TAG_SIZE \<equiv> 16"
abbreviation (input) PLATFORM_KEY_TEXT_MIN_LEN :: u32 where "PLATFORM_KEY_TEXT_MIN_LEN \<equiv> 1"
abbreviation (input) PLATFORM_KEY_TEXT_MAX_LEN :: u32 where "PLATFORM_KEY_TEXT_MAX_LEN \<equiv> 512"
abbreviation (input) PLATFORM_KEY_SHARED_KEY_SIZE :: u32 where "PLATFORM_KEY_SHARED_KEY_SIZE \<equiv> 32"
abbreviation (input) PLATFORM_KEY_WRAPPED_KEY_SIZE :: u32 where "PLATFORM_KEY_WRAPPED_KEY_SIZE \<equiv> 32"
abbreviation (input) PLATFORM_KEY_SALT_PADDING_BYTE_TA_TO_TA :: u8 where
  "PLATFORM_KEY_SALT_PADDING_BYTE_TA_TO_TA \<equiv> 0xFF"
abbreviation (input) HKS_CHIPSET_PLATFORM_DECRYPT_SCENE_TA_TO_TA :: u32 where
  "HKS_CHIPSET_PLATFORM_DECRYPT_SCENE_TA_TO_TA \<equiv> 1"

definition ORDERED_VALID_TAGS :: "u32 list" where
  "ORDERED_VALID_TAGS =
     [HKS_TAG_SALT, HKS_TAG_PEER_PUBLIC_KEY, HKS_TAG_INFO, HKS_TAG_IV, HKS_TAG_ASSOCIATED_DATA, HKS_TAG_AE_TAG,
      HKS_TAG_CIPHER_TEXT]"

definition CheckParams :: "HksParamSet ptr \<Rightarrow> rc" where
  "CheckParams paramSet =
     (case paramSet of NULL \<Rightarrow> HKS_ERROR_INVALID_ARGUMENT
      | Some ps \<Rightarrow>
          if HksCheckParamSet paramSet (paramSetSize ps) \<noteq> HKS_SUCCESS then HKS_ERROR_INVALID_ARGUMENT
          else if length (params ps) \<noteq> PLATFORM_KEY_INPUT_PARAMS_COUNT then HKS_ERROR_INVALID_ARGUMENT
          else if list_ex (\<lambda>p. GetTagType (p_tag p) \<noteq> HKS_TAG_TYPE_BYTES
            \<or> CheckBlob (Some (blobParam (p_val p))) \<noteq> HKS_SUCCESS) (params ps)
          then HKS_ERROR_INVALID_ARGUMENT
          else
            (let uniqCount = length (filter (\<lambda>t. list_ex (\<lambda>p. p_tag p = t) (params ps)) ORDERED_VALID_TAGS) in
             if uniqCount \<noteq> PLATFORM_KEY_INPUT_PARAMS_COUNT then HKS_ERROR_INVALID_ARGUMENT else HKS_SUCCESS))"

definition CheckText :: "HksBlob \<Rightarrow> HksBlob \<Rightarrow> rc" where
  "CheckText cipherText plainText =
     (if blob_size cipherText \<noteq> blob_size plainText then HKS_ERROR_INVALID_ARGUMENT
      else if blob_size plainText > PLATFORM_KEY_TEXT_MAX_LEN \<or> blob_size plainText < PLATFORM_KEY_TEXT_MIN_LEN
      then HKS_ERROR_INVALID_ARGUMENT else HKS_SUCCESS)"

text \<open>
  \<open>ecdh\<close> is \<open>HksChipsetPlatformDeriveKeyAndEcdh\<close>, given the peer's public key, the salt and the size of
  the shared key; \<open>pub\<close> is \<open>HksChipsetPlatformDerivePubKey\<close>. Both call a crypto library.
\<close>

definition salt_padding :: "HksBlob \<Rightarrow> u32 \<Rightarrow> HksBlob" where
  "salt_padding salt scene =
     (let b = snd (memcpy_to (ipc_buffer PLATFORM_KEY_SALT_SIZE) 0 PLATFORM_KEY_SALT_SIZE (blob_data salt) 16) in
      if scene = HKS_CHIPSET_PLATFORM_DECRYPT_SCENE_TA_TO_TA
      then b\<lparr>blob_data := map_option (overwrite 15 [PLATFORM_KEY_SALT_PADDING_BYTE_TA_TO_TA]) (blob_data b)\<rparr>
      else b)"

definition DoGenEcdhSharedKey ::
    "(HksBlob \<Rightarrow> HksBlob \<Rightarrow> u32 \<Rightarrow> HksBlob res) \<Rightarrow> allocator \<Rightarrow> HksParamSet ptr \<Rightarrow> u32 \<Rightarrow> HksBlob res" where
  "DoGenEcdhSharedKey ecdh alloc paramSet scene =
     (if \<not> HksMalloc alloc (unat PLATFORM_KEY_SALT_SIZE) then Inl HKS_ERROR_MALLOC_FAIL
      else
        try_res (HksGetParam paramSet HKS_TAG_SALT) (\<lambda>saltParam.
        try_res (HksGetParam paramSet HKS_TAG_PEER_PUBLIC_KEY) (\<lambda>peerPkParam.
        let salt = blobParam (p_val saltParam); pk = blobParam (p_val peerPkParam) in
        if blob_size salt \<noteq> PLATFORM_KEY_SALT_SIZE \<or> blob_size pk \<noteq> PLATFORM_KEY_PLATFORM_PUB_KEY_SIZE
        then Inl HKS_ERROR_INVALID_ARGUMENT
        else ecdh pk (salt_padding salt scene) PLATFORM_KEY_SHARED_KEY_SIZE)))"

definition DoHmacSha256 :: "crypto_hal \<Rightarrow> HksBlob \<Rightarrow> HksBlob \<Rightarrow> HksBlob \<Rightarrow> HksBlob res" where
  "DoHmacSha256 hal hmacMsg sharedKey wrappedKey =
     (if blob_size hmacMsg \<noteq> PLATFORM_KEY_HMAC_MESSAGE_SIZE then Inl HKS_ERROR_INVALID_ARGUMENT
      else
        try_res (HksCryptoHalHmac hal sharedKey HKS_DIGEST_SHA256 hmacMsg (blob_size wrappedKey)) (\<lambda>bs.
          Inr (put_out HKS_SUCCESS bs wrappedKey)))"

definition DoAesDecrypt :: "crypto_hal \<Rightarrow> HksParamSet ptr \<Rightarrow> HksBlob \<Rightarrow> HksBlob \<Rightarrow> rc \<times> HksBlob" where
  "DoAesDecrypt hal paramSecureSet wrappedKey plainText =
     (case try_res (HksGetParam paramSecureSet HKS_TAG_CIPHER_TEXT) (\<lambda>cipherTextParam.
           try_res (HksGetParam paramSecureSet HKS_TAG_IV) (\<lambda>ivParam.
           try_res (HksGetParam paramSecureSet HKS_TAG_ASSOCIATED_DATA) (\<lambda>aadParam.
           try_res (HksGetParam paramSecureSet HKS_TAG_AE_TAG) (\<lambda>tagParam.
           let aad = blobParam (p_val aadParam); iv = blobParam (p_val ivParam);
               tag = blobParam (p_val tagParam); cipherText = blobParam (p_val cipherTextParam) in
           if blob_size aad \<noteq> PLATFORM_KEY_AAD_SIZE \<or> blob_size iv \<noteq> PLATFORM_KEY_IV_SIZE
             \<or> blob_size tag \<noteq> PLATFORM_KEY_TAG_SIZE then Inl HKS_ERROR_INVALID_ARGUMENT
           else Inr (zero_usage_spec\<lparr>us_algType := HKS_ALG_AES, us_mode := HKS_MODE_GCM,
             us_padding := HKS_PADDING_NONE, us_purpose := HKS_KEY_PURPOSE_DECRYPT,
             us_algParam := Some (AeadParam \<lparr>ae_nonce = iv, ae_aad = aad, ae_tag = tagDec tag,
               ae_payloadLen = blob_size cipherText\<rparr>)\<rparr>, cipherText))))) of
        Inl ret \<Rightarrow> (ret, plainText)
      | Inr (decryptSpec, cipherText) \<Rightarrow>
          (case HksCryptoHalDecrypt hal wrappedKey decryptSpec cipherText (blob_size plainText) of
             (ret, bs) \<Rightarrow> (ret, put_out ret bs plainText)))"

definition CheckInput :: "HksParamSet ptr \<Rightarrow> HksBlob ptr \<Rightarrow> u32 \<Rightarrow> rc" where
  "CheckInput paramSet plainText scene =
     (let ret = CheckBlob plainText in
      if_not_succ_return ret ret
     (let ret = CheckParams paramSet in
      if_not_succ_return ret ret
     (if scene \<noteq> HKS_CHIPSET_PLATFORM_DECRYPT_SCENE_TA_TO_TA then HKS_ERROR_INVALID_ARGUMENT
      else
        try_rc (HksGetParam paramSet HKS_TAG_CIPHER_TEXT) (\<lambda>cipherTextParam.
          if CheckText (blobParam (p_val cipherTextParam)) (the plainText) \<noteq> HKS_SUCCESS
          then HKS_ERROR_INVALID_ARGUMENT else HKS_SUCCESS))))"

definition HuksCoreChipsetPlatformDecrypt ::
    "'c engine_env \<Rightarrow> (HksBlob \<Rightarrow> HksBlob \<Rightarrow> u32 \<Rightarrow> HksBlob res) \<Rightarrow> HksParamSet ptr \<Rightarrow> u32 \<Rightarrow> HksBlob ptr \<Rightarrow> one_state
     \<Rightarrow> (rc \<times> HksBlob ptr) \<times> one_state" where
  "HuksCoreChipsetPlatformDecrypt env ecdh paramSet scene plainText st =
     refuse (CheckInput paramSet plainText scene) plainText st
     (if \<not> HksMalloc (ee_alloc env) (unat PLATFORM_KEY_SHARED_KEY_SIZE)
         \<or> \<not> HksMalloc (ee_alloc env) (unat PLATFORM_KEY_WRAPPED_KEY_SIZE)
      then ((HKS_ERROR_INSUFFICIENT_MEMORY, plainText), st)
      else
        (case DoGenEcdhSharedKey ecdh (ee_alloc env) paramSet scene of
           Inl ret \<Rightarrow> ((ret, plainText), st)
         | Inr sharedKey \<Rightarrow>
             (let st = hold sharedKey st in
              case try_res (HksGetParam paramSet HKS_TAG_INFO) (\<lambda>customInfoParam.
                DoHmacSha256 (ee_hal env) (blobParam (p_val customInfoParam)) sharedKey
                  (ipc_buffer PLATFORM_KEY_WRAPPED_KEY_SIZE)) of
                Inl ret \<Rightarrow> ((ret, plainText), memset_free sharedKey st)
              | Inr wrappedKey \<Rightarrow>
                  (let st = hold wrappedKey st in
                   case DoAesDecrypt (ee_hal env) paramSet wrappedKey (the plainText) of
                     (ret, out) \<Rightarrow> ((ret, Some out), memset_free wrappedKey (memset_free sharedKey st))))))"

definition HuksCoreExportChipsetPlatformPublicKey ::
    "(HksBlob \<Rightarrow> HksBlob \<Rightarrow> HksBlob res) \<Rightarrow> allocator \<Rightarrow> HksBlob \<Rightarrow> u32 \<Rightarrow> HksBlob \<Rightarrow> HksBlob res" where
  "HuksCoreExportChipsetPlatformPublicKey pub alloc salt scene publicKey =
     (if CheckBlob (Some salt) \<noteq> HKS_SUCCESS \<or> CheckBlob (Some publicKey) \<noteq> HKS_SUCCESS
      then Inl HKS_ERROR_INVALID_ARGUMENT
      else if blob_size salt \<noteq> PLATFORM_KEY_SALT_SIZE
        \<or> blob_size publicKey \<noteq> PLATFORM_KEY_PLATFORM_PUB_KEY_SIZE
        \<or> scene \<noteq> HKS_CHIPSET_PLATFORM_DECRYPT_SCENE_TA_TO_TA then Inl HKS_ERROR_INVALID_ARGUMENT
      else if \<not> HksMalloc alloc (unat PLATFORM_KEY_SALT_SIZE) then Inl HKS_ERROR_MALLOC_FAIL
      else pub (salt_padding salt scene) publicKey)"

end
