(* ===== verification/Huks_Engine_Device.thy ===== *)
theory Huks_Engine_Device
  imports Huks_Core_Other Huks_Engine_Access
begin

text \<open>
  The engine as the service sees it: the table of functions of \<open>HuksCreateHdiDevicePtr\<close>
  (\<open>hks_core_interfaces.c\<close>), on one state, and starting and stopping the engine
  (\<open>hks_core_service_key_other.c\<close>). A function that fills a buffer gives what it holds, or the code.
\<close>

section \<open>State\<close>

text \<open>Besides the sessions, what was wiped, and how many keys were generated.\<close>

record 'c device =
  dv_core :: "'c core_state"
  dv_cleaned :: "cleanup list"
  dv_generated :: nat

text \<open>
  \<open>de_fresh\<close> gives the address of a new node, \<open>de_stack\<close> and \<open>de_junk\<close> what uninitialised variables
  hold, \<open>de_attest\<close> is the certificate manager, \<open>de_pub\<close> the key of the chipset; \<open>de_mutex\<close>,
  \<open>de_ability\<close> and \<open>de_rkc\<close> are the outcomes of creating the mutexes, of registering the functions of the
  crypto engine, and of loading the root key.
\<close>

record 'c device_env =
  de_env :: "'c engine_env"
  de_fresh :: "'c core_state \<Rightarrow> nat"
  de_stack :: u64
  de_junk :: HksBlob
  de_attest :: "HksParamSet ptr \<Rightarrow> HksParamSet ptr \<Rightarrow> HksBlob \<Rightarrow> HksBlob \<Rightarrow> rc \<times> HksBlob"
  de_pub :: "HksBlob \<Rightarrow> HksBlob \<Rightarrow> HksBlob res"
  de_mutex :: rc
  de_key_mutex :: bool
  de_ability :: rc
  de_rkc :: rc

definition one_call :: "(one_state \<Rightarrow> 'a \<times> one_state) \<Rightarrow> 'c device \<Rightarrow> 'a \<times> 'c device" where
  "one_call f dv =
     (case f \<lparr>os_raw = co_raw (dv_core dv), os_cleaned = dv_cleaned dv\<rparr> of
        (r, st) \<Rightarrow> (r, dv\<lparr>dv_core := (dv_core dv)\<lparr>co_raw := os_raw st\<rparr>, dv_cleaned := os_cleaned st\<rparr>))"

definition core_call :: "('c core_state \<Rightarrow> 'a \<times> 'c core_state) \<Rightarrow> 'c device \<Rightarrow> 'a \<times> 'c device" where
  "core_call f dv = (case f (dv_core dv) of (r, cs) \<Rightarrow> (r, dv\<lparr>dv_core := cs\<rparr>))"

text \<open>A code and a buffer as a result.\<close>

definition out_res :: "rc \<times> 'a \<Rightarrow> 'a res" where
  "out_res r = (case r of (ret, a) \<Rightarrow> if ret \<noteq> HKS_SUCCESS then Inl ret else Inr a)"

section \<open>Starting and stopping\<close>

definition HksCoreModuleInit :: "'c device_env \<Rightarrow> 'c device \<Rightarrow> rc \<times> 'c device" where
  "HksCoreModuleInit de dv =
     (if de_mutex de \<noteq> HKS_SUCCESS then (de_mutex de, dv)
      else if de_ability de \<noteq> HKS_SUCCESS then (de_ability de, dv)
      else
        (case HksCoreInitAuthTokenKey (ee_hal (de_env de)) (dv_generated dv) (de_key_mutex de)
           (co_keys (dv_core dv)) of
           (ret, keys) \<Rightarrow>
             let dv = dv\<lparr>dv_core := (dv_core dv)\<lparr>co_keys := keys\<rparr>, dv_generated := dv_generated dv + 2\<rparr> in
             if ret \<noteq> HKS_SUCCESS then (ret, dv) else (de_rkc de, dv)))"

definition HksCoreModuleDestroy :: "'c device \<Rightarrow> rc \<times> 'c device" where
  "HksCoreModuleDestroy dv =
     (HKS_SUCCESS, dv\<lparr>dv_core := (dv_core dv)\<lparr>co_keys := HksCoreDestroyAuthTokenKey (co_keys (dv_core dv))\<rparr>\<rparr>)"

definition HksCoreRefreshKeyInfo :: "'c device_env \<Rightarrow> 'c device \<Rightarrow> rc \<times> 'c device" where
  "HksCoreRefreshKeyInfo de dv = (de_rkc de, dv)"

definition HksCoreRefresh :: "'c device_env \<Rightarrow> 'c device \<Rightarrow> rc \<times> 'c device" where
  "HksCoreRefresh de dv = HksCoreRefreshKeyInfo de dv"

definition HksCoreGetAbility :: "u32 \<Rightarrow> 'c device \<Rightarrow> rc \<times> 'c device" where
  "HksCoreGetAbility funcType dv = (0, dv)"

definition HksCoreGetHardwareInfo :: "'c device \<Rightarrow> rc \<times> 'c device" where
  "HksCoreGetHardwareInfo dv = (0, dv)"

section \<open>The table\<close>

definition hdi_generate ::
    "'c device_env \<Rightarrow> HksBlob \<Rightarrow> HksParamSet ptr \<Rightarrow> HksBlob \<Rightarrow> HksBlob \<Rightarrow> 'c device \<Rightarrow> HksBlob res \<times> 'c device" where
  "hdi_generate de keyAlias paramSet keyIn keyOut dv =
     (case one_call (HksCoreGenerateKey (de_env de) (dv_generated dv) keyAlias paramSet keyIn keyOut) dv of
        (r, dv) \<Rightarrow> (r, dv\<lparr>dv_generated := Suc (dv_generated dv)\<rparr>))"

definition hdi_init ::
    "'c device_env \<Rightarrow> HksBlob \<Rightarrow> HksParamSet ptr \<Rightarrow> HksBlob \<Rightarrow> HksBlob \<Rightarrow> 'c device
     \<Rightarrow> (HksBlob \<times> HksBlob) res \<times> 'c device" where
  "hdi_init de key paramSet handle token dv =
     (case core_call (HksCoreInit (de_env de) (de_fresh de (dv_core dv)) (Some key) paramSet (Some handle)
        (Some token)) dv of
        ((ret, handle, token), dv) \<Rightarrow> (out_res (ret, the handle, the token), dv))"

definition hdi_update ::
    "'c device_env \<Rightarrow> HksBlob \<Rightarrow> HksParamSet ptr \<Rightarrow> HksBlob \<Rightarrow> HksBlob \<Rightarrow> 'c device \<Rightarrow> HksBlob res \<times> 'c device" where
  "hdi_update de handle paramSet inData outData dv =
     (case core_call (HksCoreUpdate (de_env de) (de_fresh de (dv_core dv)) (de_stack de) (Some handle) paramSet
        (Some inData) (Some outData)) dv of
        ((ret, out), dv) \<Rightarrow> (out_res (ret, the out), dv))"

definition hdi_finish ::
    "'c device_env \<Rightarrow> HksBlob \<Rightarrow> HksParamSet ptr \<Rightarrow> HksBlob \<Rightarrow> HksBlob \<Rightarrow> 'c device \<Rightarrow> HksBlob res \<times> 'c device" where
  "hdi_finish de handle paramSet inData outData dv =
     (case core_call (HksCoreFinish (de_env de) (de_stack de) (Some handle) paramSet (Some inData)
        (Some outData)) dv of
        ((ret, out), dv) \<Rightarrow> (out_res (ret, the out), dv))"

definition hdi_random ::
    "'c device_env \<Rightarrow> HksParamSet ptr \<Rightarrow> HksBlob \<Rightarrow> 'c device \<Rightarrow> HksBlob res \<times> 'c device" where
  "hdi_random de paramSet random dv =
     (HksCoreGenerateRandom (de_env de) (co_random (dv_core dv)) random,
      dv\<lparr>dv_core := (dv_core dv)\<lparr>co_random := Suc (co_random (dv_core dv))\<rparr>\<rparr>)"

text \<open>A one-call operation with a buffer for its result.\<close>

definition one_res :: "(one_state \<Rightarrow> (rc \<times> 'a) \<times> one_state) \<Rightarrow> 'c device \<Rightarrow> 'a res \<times> 'c device" where
  "one_res f dv = (case one_call f dv of (r, dv) \<Rightarrow> (out_res r, dv))"

definition HuksCreateHdiDevicePtr :: "'c device_env \<Rightarrow> 'c device HuksHdi" where
  "HuksCreateHdiDevicePtr de = (let env = de_env de in
     \<lparr>HuksHdiModuleInit = Some (HksCoreModuleInit de),
      HuksHdiModuleDestroy = Some HksCoreModuleDestroy,
      HuksHdiRefresh = Some (HksCoreRefresh de),
      HuksHdiGenerateKey = Some (hdi_generate de),
      HuksHdiImportKey = Some (\<lambda>keyAlias key paramSet keyOut.
        one_call (HksCoreImportKey env keyAlias key paramSet keyOut)),
      HuksHdiImportWrappedKey = Some (\<lambda>keyAlias key wrappedKeyData paramSet keyOut.
        one_call (HksCoreImportWrappedKey env keyAlias key wrappedKeyData paramSet keyOut)),
      HuksHdiExportPublicKey = Some (\<lambda>key paramSet keyOut. one_res (HksCoreExportPublicKey env key paramSet keyOut)),
      HuksHdiInit = Some (hdi_init de),
      HuksHdiUpdate = Some (hdi_update de),
      HuksHdiFinish = Some (hdi_finish de),
      HuksHdiAbort = Some (\<lambda>handle paramSet.
        core_call (HksCoreAbort env (de_stack de) (Some handle) paramSet)),
      HuksHdiGetKeyProperties = Some (\<lambda>paramSet key. one_call (HksCoreGetKeyProperties env paramSet key)),
      HuksHdiGetAbility = Some HksCoreGetAbility,
      HuksHdiGetHardwareInfo = Some HksCoreGetHardwareInfo,
      HuksHdiSign = Some (\<lambda>key paramSet srcData signature.
        one_res (HksCoreSign env key paramSet srcData signature)),
      HuksHdiVerify = Some (\<lambda>key paramSet srcData signature.
        one_call (HksCoreVerify env key paramSet srcData signature)),
      HuksHdiEncrypt = Some (\<lambda>key paramSet plainText cipherText.
        one_res (HksCoreEncrypt env key paramSet plainText cipherText)),
      HuksHdiDecrypt = Some (\<lambda>key paramSet cipherText plainText.
        one_res (HksCoreDecrypt env key paramSet cipherText plainText)),
      HuksHdiAgreeKey = Some (\<lambda>paramSet privateKey peerPublicKey agreedKey.
        one_res (HksCoreAgreeKey env paramSet privateKey peerPublicKey agreedKey)),
      HuksHdiDeriveKey = Some (\<lambda>paramSet kdfKey derivedKey. one_res (HksCoreDeriveKey env paramSet kdfKey derivedKey)),
      HuksHdiMac = Some (\<lambda>key paramSet srcData mac. one_res (HksCoreMac env key paramSet srcData mac)),
      HuksHdiUpgradeKey = Some (\<lambda>oldKey paramSet newKey. one_call (HksCoreUpgradeKey env oldKey paramSet newKey)),
      HuksHdiAttestKey = Some (\<lambda>key paramSet certChain.
        one_res (HksCoreAttestKey env (de_attest de) (de_junk de) key paramSet certChain)),
      HuksHdiGenerateRandom = Some (hdi_random de),
      HuksHdiExportChipsetPlatformPublicKey = Some (\<lambda>salt scene publicKey dv.
        (HuksCoreExportChipsetPlatformPublicKey (de_pub de) (ee_alloc env) salt scene publicKey, dv))\<rparr>)"

end
