(* ===== verification/Huks_Stage_Laws.thy ===== *)
theory Huks_Stage_Laws
  imports Huks_Engine_Device Huks_Keynode_Laws
begin

text \<open>
  Laws of the sessions of the engine: how the context parameter of a node is read and written, whom an object
  belongs to, and what the cache of a session holds.
\<close>

section \<open>The context parameter\<close>

lemma find_update_first:
  assumes "\<And>p. p_tag (f p) = p_tag p"
  shows "List.find (\<lambda>p. t = p_tag p) (update_first u f ps) =
    (if t = u then map_option f (List.find (\<lambda>p. t = p_tag p) ps) else List.find (\<lambda>p. t = p_tag p) ps)"
  by (induction ps) (auto simp: assms)

lemma length_update_first [simp]: "length (update_first u f ps) = length ps"
  by (induction ps) auto

lemma check_update_first [simp]:
  "HksCheckParamSet (Some (ps\<lparr>params := update_first u f (params ps)\<rparr>)) sz = HksCheckParamSet (Some ps) sz"
  by (simp add: HksCheckParamSet_def paramsCnt_def)

lemma get_set_ctx:
  "HksGetParam (es_runtime (set_ctx a st)) t =
    (case HksGetParam (es_runtime st) t of
       Inl ret \<Rightarrow> Inl ret
     | Inr p \<Rightarrow> Inr (if t = HKS_TAG_CRYPTO_CTX then p\<lparr>p_val := VUlong a\<rparr> else p))"
  by (cases "es_runtime st")
     (auto simp: set_ctx_def HksGetParam_def if_not_succ_return_def find_update_first is_bytes_tag_def GetTagType_def
       split: option.splits)

lemma get_set_ctx_other [simp]:
  "t \<noteq> HKS_TAG_CRYPTO_CTX \<Longrightarrow> HksGetParam (es_runtime (set_ctx a st)) t = HksGetParam (es_runtime st) t"
  by (simp add: get_set_ctx split: sum.split)

text \<open>Whether a node has the parameter.\<close>

definition has_ctx :: "'c engine_state \<Rightarrow> bool" where
  "has_ctx st \<longleftrightarrow> (\<exists>p. HksGetParam (es_runtime st) HKS_TAG_CRYPTO_CTX = Inr p)"

definition ctx_of :: "'c engine_state \<Rightarrow> u64" where
  "ctx_of st = GetCryptoCtx (es_node st)"

lemma has_set_ctx [simp]: "has_ctx (set_ctx a st) = has_ctx st"
  by (simp add: has_ctx_def get_set_ctx split: sum.split)

lemma ctx_of_set_ctx [simp]: "ctx_of (set_ctx a st) = (if has_ctx st then a else 0)"
  by (auto simp: ctx_of_def GetCryptoCtx_def has_ctx_def get_set_ctx split: sum.splits)

lemma ctx_of_nonzero: "ctx_of st \<noteq> 0 \<Longrightarrow> has_ctx st"
  by (auto simp: ctx_of_def GetCryptoCtx_def has_ctx_def split: sum.splits)

lemma get_ctx_iff: "get_ctx bad null st = Inr c \<longleftrightarrow> c = ctx_of st \<and> c \<noteq> 0"
  by (auto simp: get_ctx_def ctx_of_def GetCryptoCtx_def try_or_def split: sum.splits)

lemma ClearCryptoCtx_eq: "ClearCryptoCtx st = (if has_ctx st then set_ctx 0 st else st)"
  by (auto simp: ClearCryptoCtx_def has_ctx_def split: sum.splits)

section \<open>Fields\<close>

lemma set_ctx_fields [simp]:
  "es_heap (set_ctx a st) = es_heap st" "es_undefined (set_ctx a st) = es_undefined st"
  "es_out (set_ctx a st) = es_out st" "es_raw (set_ctx a st) = es_raw st" "es_keyBlob (set_ctx a st) = es_keyBlob st"
  by (simp_all add: set_ctx_def)

lemma put_object_fields [simp]:
  "es_heap (put_object a ob st) = (es_heap st)(a := ob)" "es_undefined (put_object a ob st) = es_undefined st"
  "es_out (put_object a ob st) = es_out st" "es_raw (put_object a ob st) = es_raw st"
  "es_node (put_object a ob st) = es_node st"
  by (simp_all add: put_object_def)

lemma wipe_fields [simp]:
  "es_heap (wipe_raw_key k st) = es_heap st" "es_undefined (wipe_raw_key k st) = es_undefined st"
  "es_out (wipe_raw_key k st) = es_out st" "es_node (wipe_raw_key k st) = es_node st"
  "es_raw (wipe_raw_key k st) = remove1 k (es_raw st)"
  by (simp_all add: wipe_raw_key_def)

lemma ctx_fields [simp]:
  "has_ctx (put_object a ob st) = has_ctx st" "ctx_of (put_object a ob st) = ctx_of st"
  "has_ctx (wipe_raw_key k st) = has_ctx st" "ctx_of (wipe_raw_key k st) = ctx_of st"
  "has_ctx (st\<lparr>es_out := out\<rparr>) = has_ctx st" "ctx_of (st\<lparr>es_out := out\<rparr>) = ctx_of st"
  "has_ctx (st\<lparr>es_raw := raw\<rparr>) = has_ctx st" "ctx_of (st\<lparr>es_raw := raw\<rparr>) = ctx_of st"
  by (simp_all add: has_ctx_def ctx_of_def)

text \<open>Whether the session caches its data, by the algorithm of the node and the digest of the call.\<close>

definition caching :: "u32 \<Rightarrow> 'c engine_state \<Rightarrow> bool" where
  "caching digest st \<longleftrightarrow> (case HksGetParam (es_runtime st) HKS_TAG_ALGORITHM of
     Inl _ \<Rightarrow> False | Inr p \<Rightarrow> need_cache (uint32Param (p_val p)) digest (es_node st))"

lemma need_cache_set_ctx [simp]: "need_cache alg digest (es_node (set_ctx a st)) = need_cache alg digest (es_node st)"
  by (simp add: need_cache_def HksCheckNeedCachePadding_def HksGetParamPadding_def)

lemma caching_fields [simp]:
  "caching d (set_ctx a st) = caching d st" "caching d (put_object a ob st) = caching d st"
  "caching d (wipe_raw_key k st) = caching d st" "caching d (st\<lparr>es_out := out\<rparr>) = caching d st"
  "caching d (st\<lparr>es_raw := raw\<rparr>) = caching d st"
  by (simp_all add: caching_def need_cache_def HksCheckNeedCachePadding_def HksGetParamPadding_def split: sum.split)

section \<open>Ownership\<close>

text \<open>
  What is relied on: new structures, of the engine and of the crypto engine, are at addresses that are not in
  use and not \<open>NULL\<close>, and the last call on a hash frees its structure, also when it fails.
\<close>

definition sound_env :: "'c engine_env \<Rightarrow> bool" where
  "sound_env env \<longleftrightarrow>
     (\<forall>u a. ee_addr env u = Some a \<longrightarrow> \<not> u a \<and> a \<noteq> 0)
     \<and> (\<forall>d u a c. HksCryptoHalHashInit (ee_ops env) d u = Inr (a, c) \<longrightarrow> \<not> u a \<and> a \<noteq> 0)
     \<and> (\<forall>m c out. snd (snd (HksCryptoHalHashFinal (ee_ops env) m c out)) = NULL)"

lemma ee_addr_fresh:
  assumes "sound_env env" "ee_addr env (used st) = Some a"
  shows "es_heap st a = None \<and> a \<noteq> 0"
proof -
  have "\<not> used st a \<and> a \<noteq> 0" using assms unfolding sound_env_def by blast
  then show ?thesis by (simp add: used_def)
qed

lemma hash_init_fresh:
  assumes "sound_env env" "HksCryptoHalHashInit (ee_ops env) d (used st) = Inr (a, c)"
  shows "es_heap st a = None \<and> a \<noteq> 0"
proof -
  have "\<not> used st a \<and> a \<noteq> 0" using assms unfolding sound_env_def by blast
  then show ?thesis by (simp add: used_def)
qed

text \<open>
  A session for signing or verifying: nothing undefined has happened, no copy of the key is left, and the heap is
  that of the others, with the own context in addition, if there is one, an object of the kind its stages use.
\<close>

definition own_kind :: "u32 \<Rightarrow> 'c engine_state \<Rightarrow> 'c ctx_object \<Rightarrow> bool" where
  "own_kind d st ob \<longleftrightarrow> (if caching d st then \<exists>b. ob = CachedBlob b else \<exists>c. ob = HashCtx c)"

definition sign_inv :: "u32 \<Rightarrow> (u64 \<rightharpoonup> 'c ctx_object) \<Rightarrow> HksBlob list \<Rightarrow> 'c engine_state \<Rightarrow> bool" where
  "sign_inv d others raw st \<longleftrightarrow>
     \<not> es_undefined st \<and> es_raw st = raw
     \<and> (if ctx_of st = 0 then es_heap st = others
        else others (ctx_of st) = None \<and> (\<exists>ob. es_heap st = others(ctx_of st \<mapsto> ob) \<and> own_kind d st ob))"

lemma own_kind_fields [simp]:
  "own_kind d (set_ctx a st) = own_kind d st" "own_kind d (put_object a ob st) = own_kind d st"
  "own_kind d (st\<lparr>es_out := out\<rparr>) = own_kind d st"
  by (simp_all add: own_kind_def fun_eq_iff)

lemma sign_inv_out [simp]: "sign_inv d others raw (st\<lparr>es_out := out\<rparr>) = sign_inv d others raw st"
  by (simp add: sign_inv_def)

text \<open>The context when there is one.\<close>

lemma sign_inv_own:
  assumes "sign_inv d others raw st" "ctx_of st \<noteq> 0"
  obtains ob where "es_heap st = others(ctx_of st \<mapsto> ob)" "own_kind d st ob" "others (ctx_of st) = None"
    "has_ctx st"
  using assms ctx_of_nonzero [of st] by (auto simp: sign_inv_def)

text \<open>Taking a new context, and giving it up.\<close>

lemma sign_inv_new:
  assumes "sign_inv d others raw st" "ctx_of st = 0" "has_ctx st" "es_heap st a = None" "a \<noteq> 0" "own_kind d st ob"
  shows "sign_inv d others raw (set_ctx a (put_object a (Some ob) st))"
  using assms by (auto simp: sign_inv_def)

lemma sign_inv_drop:
  assumes "sign_inv d others raw st" "ctx_of st \<noteq> 0"
  shows "sign_inv d others raw (set_ctx 0 (put_object (ctx_of st) None st))"
proof -
  obtain ob where "es_heap st = others(ctx_of st \<mapsto> ob)" "others (ctx_of st) = None" "has_ctx st"
    using sign_inv_own [OF assms] by metis
  then show ?thesis using assms(1) by (auto simp: sign_inv_def fun_eq_iff)
qed

lemma new_blob_Inr:
  assumes "new_blob env b st = (Inr a, st')" "sound_env env"
  shows "es_heap st a = None" "a \<noteq> 0" "st' = put_object a (Some (CachedBlob b)) st"
  using assms ee_addr_fresh [OF assms(2)] by (auto simp: new_blob_def split: if_splits option.splits)

lemma new_blob_Inl: "new_blob env b st = (Inl ret, st') \<Longrightarrow> st' = st"
  by (auto simp: new_blob_def split: if_splits option.splits)

lemma sign_inv_cache_init:
  assumes "sign_inv d others raw st" "sound_env env" "caching d st" "ctx_of st = 0"
  shows "sign_inv d others raw (snd (SetCacheModeCtx env st))"
proof (cases "has_ctx st")
  case False
  then show ?thesis using assms by (auto simp: SetCacheModeCtx_def has_ctx_def split: sum.splits)
next
  case True
  show ?thesis
  proof (cases "new_blob env empty_blob st")
    case (Pair r st')
    show ?thesis
    proof (cases r)
      case (Inl ret)
      then show ?thesis
        using True assms(1) Pair new_blob_Inl [of env empty_blob st ret st']
        by (auto simp: SetCacheModeCtx_def then_res_def has_ctx_def)
    next
      case (Inr a)
      note new = new_blob_Inr [OF Pair [unfolded Inr] assms(2)]
      have "sign_inv d others raw (set_ctx a st')"
        unfolding new(3) by (rule sign_inv_new [OF assms(1,4) True new(1,2)]) (simp add: own_kind_def assms(3))
      then show ?thesis using True Pair Inr by (auto simp: SetCacheModeCtx_def then_res_def has_ctx_def)
    qed
  qed
qed

lemma sign_inv_hash_init:
  assumes "sign_inv d others raw st" "sound_env env" "\<not> caching d st" "ctx_of st = 0"
  shows "sign_inv d others raw (snd (CoreHashInit env d st))"
proof (cases "has_ctx st")
  case False
  then show ?thesis using assms by (auto simp: CoreHashInit_def has_ctx_def split: sum.splits)
next
  case True
  show ?thesis
  proof (cases "HksCryptoHalHashInit (ee_ops env) d (used st)")
    case (Inl ret)
    then show ?thesis using True assms(1) by (auto simp: CoreHashInit_def has_ctx_def)
  next
    case (Inr ac)
    obtain a c where ac: "ac = (a, c)" by fastforce
    note new = hash_init_fresh [OF assms(2) Inr [unfolded ac]]
    have "sign_inv d others raw (set_ctx a (put_object a (Some (HashCtx c)) st))"
      using new by (intro sign_inv_new [OF assms(1,4) True]) (auto simp: own_kind_def assms(3))
    then show ?thesis using True Inr ac by (auto simp: CoreHashInit_def has_ctx_def)
  qed
qed

text \<open>What the stages read is what the session put there.\<close>

lemma cached_context:
  assumes "sign_inv d others raw st" "caching d st" "get_ctx bad null st = Inr ctx"
  obtains b where "ctx = ctx_of st" "ctx \<noteq> 0" "has_ctx st" "es_heap st = others(ctx \<mapsto> CachedBlob b)"
    "others ctx = None"
proof -
  have ctx: "ctx = ctx_of st" "ctx \<noteq> 0" using assms(3) unfolding get_ctx_iff by blast+
  obtain ob where "es_heap st = others(ctx_of st \<mapsto> ob)" "own_kind d st ob" "others (ctx_of st) = None" "has_ctx st"
    using sign_inv_own [OF assms(1)] ctx by metis
  then show thesis using that ctx assms(2) by (auto simp: own_kind_def)
qed

lemma hash_context:
  assumes "sign_inv d others raw st" "\<not> caching d st" "ctx_of st \<noteq> 0"
  obtains c where "has_ctx st" "es_heap st = others(ctx_of st \<mapsto> HashCtx c)" "others (ctx_of st) = None"
proof -
  obtain ob where "es_heap st = others(ctx_of st \<mapsto> ob)" "own_kind d st ob" "others (ctx_of st) = None" "has_ctx st"
    using sign_inv_own [OF assms(1,3)] by metis
  then show thesis using that assms(2) by (auto simp: own_kind_def)
qed

lemma sign_inv_cache_update:
  assumes "sign_inv d others raw st" "sound_env env" "caching d st"
  shows "sign_inv d others raw (snd (UpdateCachedData env m st))"
proof (cases "get_ctx HKS_ERROR_BAD_STATE HKS_ERROR_BAD_STATE st")
  case (Inl ret)
  then show ?thesis using assms by (simp add: UpdateCachedData_def)
next
  case ctx: (Inr ctx)
  obtain b where b: "ctx = ctx_of st" "ctx \<noteq> 0" "has_ctx st" "es_heap st = others(ctx \<mapsto> CachedBlob b)"
    "others ctx = None"
    using cached_context [OF assms(1,3) ctx] by metis
  obtain r st' where Pair: "new_blob env empty_blob st = (r, st')" by fastforce
  show ?thesis
  proof (cases r)
    case (Inl ret)
    then show ?thesis using Pair ctx assms(1) new_blob_Inl [of env empty_blob st ret st']
      by (simp add: UpdateCachedData_def then_res_def)
  next
    case (Inr a)
    note new = new_blob_Inr [OF Pair [unfolded Inr] assms(2)]
    have a: "a \<noteq> ctx_of st" "others a = None" using new(1) b by (auto split: if_splits)
    have fresh: "sign_inv d others raw (put_object a None (put_object a (Some (CachedBlob empty_blob)) st))"
      using assms(1,3) a b new by (auto simp: sign_inv_def own_kind_def fun_eq_iff)
    show ?thesis
    proof (cases "GetNewCachedData (ee_alloc env) b m")
      case (Inl e)
      then show ?thesis using fresh Pair Inr ctx new b a by (simp add: UpdateCachedData_def then_res_def)
    next
      case (Inr nb)
      then show ?thesis
        using assms(1,3) Pair \<open>r = _\<close> ctx new b a
        by (auto simp: UpdateCachedData_def then_res_def sign_inv_def own_kind_def fun_eq_iff)
    qed
  qed
qed

lemma sign_inv_hash_update:
  assumes "sign_inv d others raw st" "\<not> caching d st"
  shows "sign_inv d others raw (snd (CoreHashUpdate env m st))"
proof (cases "ctx_of st = 0")
  case True
  then show ?thesis using assms by (simp add: CoreHashUpdate_def ctx_of_def Let_def)
next
  case False
  obtain c where c: "es_heap st = others(ctx_of st \<mapsto> HashCtx c)" "others (ctx_of st) = None"
    using hash_context [OF assms False] by metis
  obtain r c' where "HksCryptoHalHashUpdate (ee_ops env) m c = (r, c')" by fastforce
  then show ?thesis
    using False assms c by (auto simp: CoreHashUpdate_def ctx_of_def [symmetric] Let_def sign_inv_def own_kind_def)
qed

lemma sign_inv_cache_finish:
  assumes "sign_inv d others raw st" "caching d st"
  shows "sign_inv d others raw (snd (FinishCachedData env m st))"
proof (cases "get_ctx HKS_ERROR_BAD_STATE HKS_ERROR_BAD_STATE st")
  case (Inl ret)
  then show ?thesis using assms by (simp add: FinishCachedData_def)
next
  case ctx: (Inr ctx)
  obtain b where b: "ctx = ctx_of st" "ctx \<noteq> 0" "es_heap st = others(ctx \<mapsto> CachedBlob b)"
    using cached_context [OF assms ctx] by metis
  then show ?thesis
    using ctx sign_inv_drop [OF assms(1)] by (simp add: FinishCachedData_def free_cached_def)
qed

lemma sign_inv_hash_finish:
  assumes "sign_inv d others raw st" "sound_env env" "\<not> caching d st"
  shows "sign_inv d others raw (snd (CoreHashFinish env m st))"
proof (cases "get_ctx HKS_ERROR_BAD_STATE HKS_ERROR_BAD_STATE st")
  case (Inl ret)
  then show ?thesis using assms by (simp add: CoreHashFinish_def)
next
  case ctx: (Inr ctx)
  have ne: "ctx = ctx_of st" "ctx_of st \<noteq> 0" using ctx unfolding get_ctx_iff by blast+
  obtain c where c: "es_heap st = others(ctx_of st \<mapsto> HashCtx c)"
    using hash_context [OF assms(1,3) ne(2)] by metis
  obtain ret out left where f: "HksCryptoHalHashFinal (ee_ops env) m c (ipc_buffer MAX_HASH_SIZE) = (ret, out, left)"
    using prod_cases3 by blast
  have "left = NULL" using assms(2) f unfolding sound_env_def by (metis snd_conv)
  then show ?thesis
    using ctx ne c f assms(1) sign_inv_drop [OF assms(1) ne(2)] by (simp add: CoreHashFinish_def)
qed


section \<open>The stages of signing\<close>

lemma caching_iff:
  "HksGetParam (es_runtime st) HKS_TAG_ALGORITHM = Inr p
     \<Longrightarrow> need_cache (uint32Param (p_val p)) d (es_node st) = caching d st"
  by (simp add: caching_def)

lemma core_sign_inv:
  assumes "sign_inv d others raw st"
  shows "sign_inv d others raw (snd (CoreSignVerify env m out st))"
proof (cases "CheckSignVerifyParams (es_node st) out = HKS_SUCCESS")
  case False
  then show ?thesis using assms by (simp add: CoreSignVerify_def Let_def)
next
  case ok: True
  show ?thesis
  proof (cases "HksGetRawKey (ee_alloc env) (es_keyBlob st)")
    case (Inl ret)
    then show ?thesis using ok assms by (simp add: CoreSignVerify_def Let_def take_raw_key_def)
  next
    case (Inr rawKey)
    have "wipe_raw_key rawKey (st\<lparr>es_raw := rawKey # es_raw st\<rparr>) = st"
      by (simp add: wipe_raw_key_def)
    then show ?thesis
      using ok assms Inr by (simp add: CoreSignVerify_def Let_def take_raw_key_def split: prod.split)
  qed
qed

lemma sign_init_inv:
  assumes "sign_inv d others raw st" "sound_env env" "ctx_of st = 0"
  shows "sign_inv d others raw (snd (HksCoreSignVerifyThreeStageInit env ps d st))"
proof (cases "HksGetParam (es_runtime st) HKS_TAG_ALGORITHM")
  case (Inl ret)
  then show ?thesis using assms(1) by (simp add: HksCoreSignVerifyThreeStageInit_def Let_def try_or_def)
next
  case (Inr p)
  then show ?thesis
    using assms sign_inv_cache_init [OF assms(1,2) _ assms(3)] sign_inv_hash_init [OF assms(1,2) _ assms(3)]
    by (simp add: HksCoreSignVerifyThreeStageInit_def Let_def try_or_def caching_iff)
qed

lemma sign_update_inv:
  assumes "sign_inv d others raw st" "sound_env env"
  shows "sign_inv d others raw (snd (HksCoreSignVerifyThreeStageUpdate env ps m d st))"
proof (cases "HksGetParam (es_runtime st) HKS_TAG_ALGORITHM")
  case (Inl ret)
  then show ?thesis using assms(1) by (simp add: HksCoreSignVerifyThreeStageUpdate_def try_or_def)
next
  case (Inr p)
  then show ?thesis
    using sign_inv_cache_update [OF assms] sign_inv_hash_update [OF assms(1)]
    by (simp add: HksCoreSignVerifyThreeStageUpdate_def Let_def try_or_def caching_iff)
qed

lemma sign_finish_inv:
  assumes "sign_inv d others raw st" "sound_env env"
  shows "sign_inv d others raw (snd (HksCoreSignVerifyThreeStageFinish env ps m d st))"
proof -
  have last: "sign_inv d others raw (snd (then_res r (\<lambda>b st.
      case CoreSignVerify env b (if s then es_out st else Some m) st of
        ((ret, out), st) \<Rightarrow> (ret, if s then st\<lparr>es_out := out\<rparr> else st))))"
    if "sign_inv d others raw (snd r)" for r :: "HksBlob res \<times> 'a engine_state" and s
  proof (cases "fst r")
    case (Inl ret)
    then show ?thesis using that by (cases r) (simp add: then_res_def)
  next
    case (Inr b)
    then show ?thesis
      using core_sign_inv [OF that, of env b "es_out (snd r)"] core_sign_inv [OF that, of env b "Some m"]
      by (cases r) (auto simp: then_res_def split: prod.splits)
  qed
  show ?thesis
  proof (cases "HksGetParam (es_runtime st) HKS_TAG_PURPOSE")
    case (Inl ret)
    then show ?thesis using assms(1) by (simp add: HksCoreSignVerifyThreeStageFinish_def try_or_def)
  next
    case pur: (Inr q)
    show ?thesis
    proof (cases "HksGetParam (es_runtime st) HKS_TAG_ALGORITHM")
      case (Inl ret)
      then show ?thesis using assms(1) pur by (simp add: HksCoreSignVerifyThreeStageFinish_def try_or_def Let_def)
    next
      case (Inr p)
      show ?thesis
        using sign_inv_cache_finish [OF assms(1)] sign_inv_hash_finish [OF assms]
        by (simp add: HksCoreSignVerifyThreeStageFinish_def try_or_def Let_def pur Inr caching_iff last)
    qed
  qed
qed

text \<open>When the request has a digest, it is the one that the stages are called with.\<close>

definition digest_is :: "u32 \<Rightarrow> HksParamSet ptr \<Rightarrow> bool" where
  "digest_is d paramSet \<longleftrightarrow> (\<exists>p. HksGetParam paramSet HKS_TAG_DIGEST = Inr p \<and> uint32Param (p_val p) = d)"

lemma free_own_inv:
  assumes "sign_inv d others raw st" "ctx_of st \<noteq> 0"
  shows "set_ctx 0 (if caching d st then free_cached (ctx_of st) st else HksCryptoHalHashFreeCtx_engine (ctx_of st) st)
    = set_ctx 0 (put_object (ctx_of st) None st)"
proof -
  obtain ob where ob: "es_heap st (ctx_of st) = Some ob" "own_kind d st ob"
    using sign_inv_own [OF assms] by (metis fun_upd_same)
  then show ?thesis
    using assms(2)
    by (auto simp: own_kind_def free_cached_def HksCryptoHalHashFreeCtx_engine_def split: if_splits)
qed

lemma sign_abort_inv:
  assumes "sign_inv d others raw st" "digest_is d (es_runtime st)"
  shows "sign_inv d others raw (snd (HksCoreSignVerifyThreeStageAbort env ps d st))"
proof (cases "get_ctx 0 0 st")
  case (Inl ret)
  then show ?thesis using assms(1) by (simp add: HksCoreSignVerifyThreeStageAbort_def FreeSignVerifyCtx_def)
next
  case ctx: (Inr ctx)
  have ne: "ctx = ctx_of st" "ctx_of st \<noteq> 0" using ctx unfolding get_ctx_iff by blast+
  obtain q where q: "HksGetParam (es_runtime st) HKS_TAG_DIGEST = Inr q" "uint32Param (p_val q) = d"
    using assms(2) unfolding digest_is_def by blast
  show ?thesis
  proof (cases "HksGetParam (es_runtime st) HKS_TAG_ALGORITHM")
    case (Inl e)
    then show ?thesis using assms(1) ctx
      by (simp add: HksCoreSignVerifyThreeStageAbort_def FreeSignVerifyCtx_def try_or_def)
  next
    case (Inr p)
    then show ?thesis
      using free_own_inv [OF assms(1) ne(2)] sign_inv_drop [OF assms(1) ne(2)] ctx ne q
      by (simp add: HksCoreSignVerifyThreeStageAbort_def FreeSignVerifyCtx_def try_or_def Let_def caching_iff)
  qed
qed

section \<open>Sessions of any length\<close>

text \<open>
  The steps of a session for the digest \<open>d\<close>: it is started when it has no context, and then data comes, the
  caller's buffer changes, and it is finished or aborted, any number of times.
\<close>

inductive sign_step :: "'c engine_env \<Rightarrow> u32 \<Rightarrow> 'c engine_state \<Rightarrow> 'c engine_state \<Rightarrow> bool" for env d where
  init: "ctx_of st = 0 \<Longrightarrow> sign_step env d st (snd (HksCoreSignVerifyThreeStageInit env ps d st))"
| update: "sign_step env d st (snd (HksCoreSignVerifyThreeStageUpdate env ps m d st))"
| finish: "sign_step env d st (snd (HksCoreSignVerifyThreeStageFinish env ps m d st))"
| abort: "sign_step env d st (snd (HksCoreSignVerifyThreeStageAbort env ps d st))"
| buffer: "sign_step env d st (st\<lparr>es_out := out\<rparr>)"


lemma es_node_fields [simp]:
  "es_node (st\<lparr>es_out := out\<rparr>) = es_node st" "es_node (st\<lparr>es_raw := raw\<rparr>) = es_node st"
  by simp_all

text \<open>The stages change the context parameter of the node only.\<close>

definition same_params :: "'c engine_state \<Rightarrow> 'c engine_state \<Rightarrow> bool" where
  "same_params st st' \<longleftrightarrow>
     (\<forall>t. t \<noteq> HKS_TAG_CRYPTO_CTX \<longrightarrow> HksGetParam (es_runtime st') t = HksGetParam (es_runtime st) t)
     \<and> es_keyBlob st' = es_keyBlob st \<and> has_ctx st' = has_ctx st"

lemma same_params_refl [simp]: "same_params st st"
  by (simp add: same_params_def)

lemma same_params_trans: "same_params st st' \<Longrightarrow> same_params st' st'' \<Longrightarrow> same_params st st''"
  by (simp add: same_params_def)

lemma same_params_fields [simp]:
  "same_params st (set_ctx a st') = same_params st st'" "same_params st (put_object a ob st') = same_params st st'"
  "same_params st (wipe_raw_key k st') = same_params st st'" "same_params st (st'\<lparr>es_out := out\<rparr>) = same_params st st'"
  "same_params st (st'\<lparr>es_raw := raw\<rparr>) = same_params st st'"
  "same_params st (st'\<lparr>es_undefined := u\<rparr>) = same_params st st'"
  by (simp_all add: same_params_def) (simp add: has_ctx_def)

lemma same_params_new_blob: "same_params st st' \<Longrightarrow> same_params st (snd (new_blob env b st'))"
  by (simp add: new_blob_def split: option.split)

lemma same_params_free [simp]:
  "same_params st (free_cached a st') = same_params st st'"
  "same_params st (HksCryptoHalHashFreeCtx_engine a st') = same_params st st'"
  by (simp_all add: free_cached_def HksCryptoHalHashFreeCtx_engine_def undefined_behaviour_def
      split: option.split ctx_object.split)

lemma same_params_then:
  "same_params st (snd r) \<Longrightarrow> (\<And>a st'. same_params st st' \<Longrightarrow> same_params st (snd (k a st')))
     \<Longrightarrow> same_params st (snd (then_res r k))"
  by (cases r; cases "fst r") (auto simp: then_res_def)

lemma same_params_helpers:
  "same_params st (snd (SetCacheModeCtx env st))" "same_params st (snd (CoreHashInit env d st))"
  "same_params st (snd (UpdateCachedData env m st))" "same_params st (snd (CoreHashUpdate env m st))"
  "same_params st (snd (FinishCachedData env m st))" "same_params st (snd (CoreHashFinish env m st))"
  by (auto simp: SetCacheModeCtx_def CoreHashInit_def UpdateCachedData_def CoreHashUpdate_def FinishCachedData_def
      CoreHashFinish_def Let_def undefined_behaviour_def
      intro!: same_params_then same_params_new_blob
      split: sum.split option.split ctx_object.split prod.split)

lemma same_params_sign: "same_params st st' \<Longrightarrow> same_params st (snd (CoreSignVerify env m out st'))"
  by (auto simp: CoreSignVerify_def Let_def take_raw_key_def split: prod.split sum.split)

lemma same_params_signed:
  "CoreSignVerify env m out st' = (r, st'') \<Longrightarrow> same_params st st' \<Longrightarrow> same_params st st''"
  using same_params_sign [of st st' env m out] by simp

lemma same_params_step: "sign_step env d st st' \<Longrightarrow> same_params st st'"
proof (induction rule: sign_step.induct)
  case (finish st ps m)
  then show ?case
    by (auto simp: HksCoreSignVerifyThreeStageFinish_def try_or_def Let_def
        intro!: same_params_then same_params_helpers split: sum.split prod.split elim: same_params_signed)
qed (auto simp: HksCoreSignVerifyThreeStageInit_def HksCoreSignVerifyThreeStageUpdate_def
    HksCoreSignVerifyThreeStageAbort_def FreeSignVerifyCtx_def try_or_def Let_def
    intro: same_params_helpers split: sum.split)


lemma caching_same: "same_params st st' \<Longrightarrow> caching d st' = caching d st"
  by (simp add: caching_def need_cache_def HksCheckNeedCachePadding_def HksGetParamPadding_def same_params_def
      split: sum.split)

lemma digest_same: "same_params st st' \<Longrightarrow> digest_is d (es_runtime st') = digest_is d (es_runtime st)"
  by (simp add: digest_is_def same_params_def)

lemma sign_step_inv:
  assumes "sign_step env d st st'" "sound_env env" "sign_inv d others raw st" "digest_is d (es_runtime st)"
  shows "sign_inv d others raw st'"
  using assms
proof (cases rule: sign_step.cases)
qed (auto intro: sign_init_inv sign_update_inv sign_finish_inv sign_abort_inv)

lemma sign_steps_inv:
  assumes "(sign_step env d)\<^sup>*\<^sup>* st st'" "sound_env env" "sign_inv d others raw st" "digest_is d (es_runtime st)"
  shows "sign_inv d others raw st' \<and> same_params st st'"
  using assms(1)
proof (induction rule: rtranclp_induct)
  case base
  then show ?case using assms(3) by simp
next
  case (step y z)
  then have y: "sign_inv d others raw y" "same_params st y" "digest_is d (es_runtime y)"
    using assms(4) by (auto simp: digest_same)
  show ?case
    using sign_step_inv [OF step.hyps(2) assms(2) y(1,3)] same_params_trans [OF y(2) same_params_step [OF step.hyps(2)]]
    by blast
qed

section \<open>Deleting the node\<close>

text \<open>The function the node is freed with, and the test that the stages make, agree but for one padding.\<close>

definition signing_purpose :: "HksParamSet ptr \<Rightarrow> bool" where
  "signing_purpose paramSet \<longleftrightarrow> (\<exists>p. HksGetParam paramSet HKS_TAG_PURPOSE = Inr p
     \<and> (uint32Param (p_val p) = HKS_KEY_PURPOSE_SIGN \<or> uint32Param (p_val p) = HKS_KEY_PURPOSE_VERIFY))"

definition iso_padding :: "HksParamSet ptr \<Rightarrow> bool" where
  "iso_padding paramSet \<longleftrightarrow> (\<exists>p. HksGetParam paramSet HKS_TAG_PADDING = Inr p
     \<and> uint32Param (p_val p) = HKS_PADDING_ISO_IEC_9796_2)"

lemma free_runtime_signing:
  assumes "signing_purpose (es_runtime st)" "digest_is d (es_runtime st)" "\<not> iso_padding (es_runtime st)"
    "ctx_of st \<noteq> 0" "HksGetParam (es_runtime st) HKS_TAG_ALGORITHM = Inr alg"
  shows "FreeRuntimeParamSet (es_runtime st) =
    [if caching d st then FreeCachedData (ctx_of st) else HksCryptoHalHashFreeCtx (ctx_of st)]"
proof -
  obtain pur where pur: "HksGetParam (es_runtime st) HKS_TAG_PURPOSE = Inr pur"
    "uint32Param (p_val pur) = HKS_KEY_PURPOSE_SIGN \<or> uint32Param (p_val pur) = HKS_KEY_PURPOSE_VERIFY"
    using assms(1) unfolding signing_purpose_def by blast
  obtain dig where dig: "HksGetParam (es_runtime st) HKS_TAG_DIGEST = Inr dig" "uint32Param (p_val dig) = d"
    using assms(2) unfolding digest_is_def by blast
  obtain c where c: "HksGetParam (es_runtime st) HKS_TAG_CRYPTO_CTX = Inr c" "uint64Param (p_val c) = ctx_of st"
    using ctx_of_nonzero [OF assms(4)] by (auto simp: has_ctx_def ctx_of_def GetCryptoCtx_def)
  obtain ps where ps: "es_runtime st = Some ps" using c(1) by (cases "es_runtime st") (auto simp: HksGetParam_def)
  have pad: "HksCheckNeedCachePadding (uint32Param (p_val alg)) (es_node st) \<noteq> HKS_SUCCESS"
    using assms(3)
    by (auto simp: HksCheckNeedCachePadding_def HksGetParamPadding_def iso_padding_def try_or_def split: sum.split)
  have "caching d st \<longleftrightarrow> uint32Param (p_val alg) = HKS_ALG_ED25519 \<or> d = HKS_DIGEST_NONE"
    using pad by (simp add: caching_def assms(5) need_cache_def HksCheckNeedCache_def)
  then show ?thesis
    using pur dig c assms(4,5) ps
    by (auto simp: FreeRuntimeParamSet_def try_or_def Let_def SetAesCcmModeTag_def KeyNodeFreeCtx_def)
qed

lemma no_algorithm_no_free:
  "HksGetParam (es_runtime st) HKS_TAG_ALGORITHM = Inl e \<Longrightarrow> FreeRuntimeParamSet (es_runtime st) = []"
  by (auto simp: FreeRuntimeParamSet_def try_or_def Let_def split: option.split sum.split)

lemma no_ctx_no_free: "ctx_of st = 0 \<Longrightarrow> FreeRuntimeParamSet (es_runtime st) = []"
  by (auto simp: FreeRuntimeParamSet_def try_or_def Let_def ctx_of_def GetCryptoCtx_def split: option.split sum.split)

lemma deleted_sign_inv:
  assumes "sign_inv d others raw st" "signing_purpose (es_runtime st)" "digest_is d (es_runtime st)"
    "\<not> iso_padding (es_runtime st)" "HksGetParam (es_runtime st) HKS_TAG_ALGORITHM = Inr alg"
    "st' = run_cleanup env (FreeRuntimeParamSet (es_runtime st)) st"
  shows "\<not> es_undefined st' \<and> es_heap st' = others \<and> es_raw st' = raw"
proof (cases "ctx_of st = 0")
  case True
  then show ?thesis using assms(1) no_ctx_no_free [OF True] by (simp add: assms(6) sign_inv_def)
next
  case False
  obtain ob where ob: "es_heap st = others(ctx_of st \<mapsto> ob)" "own_kind d st ob" "others (ctx_of st) = None"
    using sign_inv_own [OF assms(1) False] by metis
  have "st' = put_object (ctx_of st) None st"
    unfolding assms(6) free_runtime_signing [OF assms(2-4) False assms(5)]
    using ob(1,2) False by (auto simp: own_kind_def free_cached_def HksCryptoHalHashFreeCtx_engine_def)
  then show ?thesis using assms(1) ob by (auto simp: sign_inv_def fun_eq_iff)
qed

end
