(* ===== verification/Huks_Stage_Whole.thy ===== *)
theory Huks_Stage_Whole
  imports Huks_Stage_Laws
begin

text \<open>
  What a session for signing holds: the message so far, in the cache or in the context of the hash. The last
  stage signs the whole message.
\<close>

section \<open>Cached data\<close>

definition caches :: "HksBlob \<Rightarrow> bytes \<Rightarrow> bool" where
  "caches b bs \<longleftrightarrow> unat (blob_size b) = length bs \<and> (bs \<noteq> [] \<longrightarrow> blob_data b = Some bs)"

lemma caches_empty [simp]: "caches empty_blob []"
  by (simp add: caches_def empty_blob_def)

lemma caches_blob_of: "length bs < 2 ^ 32 \<Longrightarrow> caches (blob_of bs) bs"
  by (simp add: caches_def blob_of_def unat_u32_of_nat)

text \<open>New data goes behind what is cached.\<close>

lemma GetNewCachedData_whole:
  assumes b: "caches b bs" and n: "length bs + length m \<le> 0x500000" "bs @ m \<noteq> []"
    and mem: "\<forall>k. alloc k"
  shows "GetNewCachedData alloc b (blob_of m) = Inr (blob_of (bs @ m))"
proof -
  have lm: "unat (word_of_nat (length m) :: u32) = length m" using n by (intro unat_u32_of_nat) simp
  have size: "unat (blob_size b + word_of_nat (length m)) = length bs + length m"
    using b n lm by (simp add: caches_def unat_word_ariths)
  have lim: "\<not> blob_size b > 0x500000" "\<not> word_of_nat (length m) > 0x500000 - blob_size b"
    using b n lm by (auto simp: caches_def word_less_nat_alt word_le_nat_alt unat_sub)
  have total: "blob_size b + word_of_nat (length m) = word_of_nat (length (bs @ m))"
  proof -
    have "blob_size b = word_of_nat (length bs)"
      using b n by (simp add: caches_def word_unat_eq_iff unat_u32_of_nat)
    then show ?thesis by simp
  qed
  define sz where "sz = blob_size b + word_of_nat (length m)"
  have szn: "unat sz = length bs + length m" using size by (simp add: sz_def)
  have rest: "sz - blob_size b = word_of_nat (length m)" by (simp add: sz_def)
  have ub: "unat (blob_size b) = length bs" using b by (simp add: caches_def)
  have "CopyNewCachedData b (blob_of m) (ipc_buffer sz) = Inr (blob_of (bs @ m))"
  proof (cases "bs = []")
    case True
    then have "blob_size b = 0" using ub by (simp add: unat_eq_0)
    then show ?thesis
      using True n szn lm total rest
      by (auto simp: CopyNewCachedData_def Let_def memcpy_to_def memcpy_s_def blob_of_def poke_def ipc_buffer_def
          blob_bytes_def sz_def word_unat_eq_iff)
  next
    case False
    then have "blob_size b \<noteq> 0" "blob_data b = Some bs" using ub b by (auto simp: caches_def)
    then show ?thesis
      using False szn lm total rest ub
      by (auto simp: CopyNewCachedData_def Let_def memcpy_to_def memcpy_s_def blob_of_def poke_def ipc_buffer_def
          blob_bytes_def sz_def word_unat_eq_iff)
  qed
  then show ?thesis
    using lim mem szn n by (simp add: GetNewCachedData_def HksMalloc_def Let_def sz_def blob_of_def)
qed


section \<open>The context of a hash\<close>

text \<open>
  What is relied on when the message is hashed as it comes: a context that took in a message gives, with the rest
  of it, the hash that one call computes. \<open>took c d bs\<close>: the context \<open>c\<close> for the digest \<open>d\<close> took in
  \<open>bs\<close>.
\<close>

definition streams :: "'c crypto_ops \<Rightarrow> ('c \<Rightarrow> u32 \<Rightarrow> bytes \<Rightarrow> bool) \<Rightarrow> bool" where
  "streams ops took \<longleftrightarrow>
     (\<forall>d u a c. HksCryptoHalHashInit ops d u = Inr (a, c) \<longrightarrow> took c d [])
     \<and> (\<forall>d c bs m. took c d bs \<and> m \<noteq> [] \<longrightarrow>
          (\<exists>c'. HksCryptoHalHashUpdate ops (blob_of m) c = (HKS_SUCCESS, c') \<and> took c' d (bs @ m)))
     \<and> (\<forall>d c bs m out. took c d bs \<and> bs @ m \<noteq> [] \<longrightarrow>
          (\<exists>left. HksCryptoHalHashFinal ops (blob_of m) c out =
             (case HksCryptoHalHash ops d (blob_of (bs @ m)) out of (ret, out) \<Rightarrow> (ret, out, left))))"

lemma streams_init: "streams ops took \<Longrightarrow> HksCryptoHalHashInit ops d u = Inr (a, c) \<Longrightarrow> took c d []"
  by (auto simp: streams_def)

lemma streams_update:
  "streams ops took \<Longrightarrow> took c d bs \<Longrightarrow> m \<noteq> []
     \<Longrightarrow> \<exists>c'. HksCryptoHalHashUpdate ops (blob_of m) c = (HKS_SUCCESS, c') \<and> took c' d (bs @ m)"
  by (simp add: streams_def)

lemma streams_final:
  "streams ops took \<Longrightarrow> took c d bs \<Longrightarrow> bs @ m \<noteq> []
     \<Longrightarrow> \<exists>left. HksCryptoHalHashFinal ops (blob_of m) c out =
       (case HksCryptoHalHash ops d (blob_of (bs @ m)) out of (ret, out) \<Rightarrow> (ret, out, left))"
  by (simp add: streams_def)

text \<open>
  There is room for two structures besides those in use: for data when it is cached, for the contexts of hashes
  when it is hashed. A hash that the engine does not have is only asked for in the second case.
\<close>

definition roomy :: "'c engine_env \<Rightarrow> u32 \<Rightarrow> bool \<Rightarrow> (u64 \<rightharpoonup> 'c ctx_object) \<Rightarrow> bool" where
  "roomy env d cached others \<longleftrightarrow>
     (\<forall>u x. (\<forall>y. u y \<longrightarrow> y = x \<or> others y \<noteq> None) \<longrightarrow>
        (if cached then ee_addr env u \<noteq> NULL else \<exists>a c. HksCryptoHalHashInit (ee_ops env) d u = Inr (a, c)))"

section \<open>What a session holds\<close>

text \<open>Nothing but the context has changed since the request.\<close>

definition same_request :: "'c engine_state \<Rightarrow> 'c engine_state \<Rightarrow> bool" where
  "same_request st st' \<longleftrightarrow> same_params st st' \<and> es_out st' = es_out st
     \<and> HksFillUsageSpec (es_runtime st') zero_usage_spec = HksFillUsageSpec (es_runtime st) zero_usage_spec"

lemma fill_update_ctx:
  "HksFillUsageSpec (map_option (\<lambda>ps. ps\<lparr>params := update_first HKS_TAG_CRYPTO_CTX f (params ps)\<rparr>) ps) spec =
     HksFillUsageSpec ps spec" if "\<And>p. p_tag (f p) = p_tag p"
proof -
  have "foldl (\<lambda>spec p.
          let v = uint32Param (p_val p) in
          if p_tag p = HKS_TAG_ALGORITHM then spec\<lparr>us_algType := v\<rparr>
          else if p_tag p = HKS_TAG_PADDING then spec\<lparr>us_padding := v\<rparr>
          else if p_tag p = HKS_TAG_DIGEST then spec\<lparr>us_digest := v\<rparr>
          else if p_tag p = HKS_TAG_BLOCK_MODE then spec\<lparr>us_mode := v\<rparr>
          else if p_tag p = HKS_TAG_PURPOSE then spec\<lparr>us_purpose := v\<rparr>
          else if p_tag p = HKS_TAG_MGF_DIGEST then spec\<lparr>us_mgfDigest := v\<rparr>
          else spec) spec (update_first HKS_TAG_CRYPTO_CTX f qs) =
        foldl (\<lambda>spec p.
          let v = uint32Param (p_val p) in
          if p_tag p = HKS_TAG_ALGORITHM then spec\<lparr>us_algType := v\<rparr>
          else if p_tag p = HKS_TAG_PADDING then spec\<lparr>us_padding := v\<rparr>
          else if p_tag p = HKS_TAG_DIGEST then spec\<lparr>us_digest := v\<rparr>
          else if p_tag p = HKS_TAG_BLOCK_MODE then spec\<lparr>us_mode := v\<rparr>
          else if p_tag p = HKS_TAG_PURPOSE then spec\<lparr>us_purpose := v\<rparr>
          else if p_tag p = HKS_TAG_MGF_DIGEST then spec\<lparr>us_mgfDigest := v\<rparr>
          else spec) spec qs" for qs
    by (induction qs arbitrary: spec) (auto simp: that Let_def)
  then show ?thesis by (cases ps) (simp_all add: HksFillUsageSpec_def set_params_def)
qed

lemma same_request_refl [simp]: "same_request st st"
  by (simp add: same_request_def)

lemma same_request_fields [simp]:
  "same_request st (set_ctx a st') = same_request st st'"
  "same_request st (put_object a ob st') = same_request st st'"
  by (simp_all add: same_request_def set_ctx_def [of a st'] fill_update_ctx)
     (simp add: set_ctx_def [symmetric])

lemma fst_sign_same:
  assumes "same_request st st'"
  shows "fst (CoreSignVerify env m out st') = fst (CoreSignVerify env m out st)"
proof -
  have p: "HksGetParam (es_runtime st') HKS_TAG_PURPOSE = HksGetParam (es_runtime st) HKS_TAG_PURPOSE"
    "HksGetParam (es_runtime st') HKS_TAG_RSA_PSS_SALT_LEN_TYPE = HksGetParam (es_runtime st) HKS_TAG_RSA_PSS_SALT_LEN_TYPE"
    "es_keyBlob st' = es_keyBlob st"
    using assms by (simp_all add: same_request_def same_params_def)
  have "CheckSignVerifyParams (es_node st') out = CheckSignVerifyParams (es_node st) out"
    by (simp add: CheckSignVerifyParams_def p split: option.split)
  moreover have "HksFillUsageSpec (es_runtime st') zero_usage_spec = HksFillUsageSpec (es_runtime st) zero_usage_spec"
    using assms by (simp add: same_request_def)
  ultimately show ?thesis
    by (simp add: CoreSignVerify_def Let_def take_raw_key_def p SetRsaPssSaltLenType_def split: sum.split prod.split)
qed

definition holds ::
    "u32 \<Rightarrow> ('c \<Rightarrow> u32 \<Rightarrow> bytes \<Rightarrow> bool) \<Rightarrow> (u64 \<rightharpoonup> 'c ctx_object) \<Rightarrow> 'c engine_state \<Rightarrow> bytes \<Rightarrow> bool" where
  "holds d took others st bs \<longleftrightarrow>
     ctx_of st \<noteq> 0 \<and> has_ctx st \<and> others (ctx_of st) = None
     \<and> (\<exists>ob. es_heap st = others(ctx_of st \<mapsto> ob)
          \<and> (if caching d st then \<exists>b. ob = CachedBlob b \<and> caches b bs else \<exists>c. ob = HashCtx c \<and> took c d bs))"


lemma roomy_addr:
  assumes "roomy env d cached others" "\<And>y. es_heap st y \<noteq> None \<Longrightarrow> y = x \<or> others y \<noteq> None"
  shows "cached \<Longrightarrow> ee_addr env (used st) \<noteq> NULL"
    "\<not> cached \<Longrightarrow> \<exists>a c. HksCryptoHalHashInit (ee_ops env) d (used st) = Inr (a, c)"
proof -
  have "(\<forall>y. used st y \<longrightarrow> y = x \<or> others y \<noteq> None) \<longrightarrow>
      (if cached then ee_addr env (used st) \<noteq> NULL
       else \<exists>a c. HksCryptoHalHashInit (ee_ops env) d (used st) = Inr (a, c))"
    using assms(1) [unfolded roomy_def, THEN spec, THEN spec] .
  then show "cached \<Longrightarrow> ee_addr env (used st) \<noteq> NULL"
    "\<not> cached \<Longrightarrow> \<exists>a c. HksCryptoHalHashInit (ee_ops env) d (used st) = Inr (a, c)"
    using assms(2) by (simp_all add: used_def)
qed

lemma new_blob_room:
  assumes "\<forall>k. ee_alloc env k" "sound_env env" "ee_addr env (used st) \<noteq> NULL"
  obtains a where "new_blob env b st = (Inr a, put_object a (Some (CachedBlob b)) st)" "es_heap st a = None" "a \<noteq> 0"
proof -
  obtain a where "ee_addr env (used st) = Some a" using assms(3) by auto
  then show thesis
    using that ee_addr_fresh [OF assms(2), of st a] assms(1) by (simp add: new_blob_def HksMalloc_def)
qed

lemma has_ctx_get: "has_ctx st \<Longrightarrow> \<exists>p. HksGetParam (es_runtime st) HKS_TAG_CRYPTO_CTX = Inr p"
  by (simp add: has_ctx_def)

lemma holds_init:
  assumes "sound_env env" "streams (ee_ops env) took" "roomy env d (caching d st) (es_heap st)"
    and "\<forall>k. ee_alloc env k" "ctx_of st = 0" "has_ctx st" "SignVerifyAuth_three_stage (es_node st) (es_runtime st) = HKS_SUCCESS"
    and "HksGetParam (es_runtime st) HKS_TAG_ALGORITHM = Inr alg"
  obtains st' where "HksCoreSignVerifyThreeStageInit env ps d st = (HKS_SUCCESS, st')"
    "same_request st st'" "holds d took (es_heap st) st' []"
proof -
  obtain p where p: "HksGetParam (es_runtime st) HKS_TAG_CRYPTO_CTX = Inr p"
    using has_ctx_get [OF assms(6)] by blast
  note room = roomy_addr [OF assms(3), of st 0, simplified]
  show thesis
  proof (cases "caching d st")
    case True
    obtain a where a: "new_blob env empty_blob st = (Inr a, put_object a (Some (CachedBlob empty_blob)) st)"
      "es_heap st a = None" "a \<noteq> 0"
      using new_blob_room [OF assms(4,1), of st] room(1) [OF True] by blast
    have "HksCoreSignVerifyThreeStageInit env ps d st =
        (HKS_SUCCESS, set_ctx a (put_object a (Some (CachedBlob empty_blob)) st))"
      using assms(7,8) p a True
      by (simp add: HksCoreSignVerifyThreeStageInit_def Let_def try_or_def caching_iff SetCacheModeCtx_def then_res_def)
    moreover have "holds d took (es_heap st) (set_ctx a (put_object a (Some (CachedBlob empty_blob)) st)) []"
      using a assms(6) True by (auto simp: holds_def)
    ultimately show thesis using that by simp
  next
    case False
    obtain a c where ac: "HksCryptoHalHashInit (ee_ops env) d (used st) = Inr (a, c)" using room(2) [OF False] by blast
    note fresh = hash_init_fresh [OF assms(1) ac]
    have "took c d []" using streams_init [OF assms(2) ac] .
    have "HksCoreSignVerifyThreeStageInit env ps d st =
        (HKS_SUCCESS, set_ctx a (put_object a (Some (HashCtx c)) st))"
      using assms(7,8) p ac False
      by (simp add: HksCoreSignVerifyThreeStageInit_def Let_def try_or_def caching_iff CoreHashInit_def)
    moreover have "holds d took (es_heap st) (set_ctx a (put_object a (Some (HashCtx c)) st)) []"
      using fresh assms(6) False \<open>took c d []\<close> by (auto simp: holds_def)
    ultimately show thesis using that by simp
  qed
qed

lemma same_request_alg:
  "same_request st st' \<Longrightarrow> HksGetParam (es_runtime st') HKS_TAG_ALGORITHM = HksGetParam (es_runtime st) HKS_TAG_ALGORITHM"
  by (simp add: same_request_def same_params_def)

lemma holds_update:
  assumes "sound_env env" "streams (ee_ops env) took" "roomy env d (caching d st) others" "\<forall>k. ee_alloc env k"
    and "holds d took others st bs" "HksGetParam (es_runtime st) HKS_TAG_ALGORITHM = Inr alg"
    and "m \<noteq> []" "length bs + length m \<le> 0x500000"
  obtains st' where "HksCoreSignVerifyThreeStageUpdate env ps (blob_of m) d st = (HKS_SUCCESS, st')"
    "same_request st st'" "holds d took others st' (bs @ m)"
proof -
  have ctx: "ctx_of st \<noteq> 0" "has_ctx st" "others (ctx_of st) = None" using assms(5) by (auto simp: holds_def)
  show thesis
  proof (cases "caching d st")
    case True
    then obtain b where b: "es_heap st = others(ctx_of st \<mapsto> CachedBlob b)" "caches b bs"
      using assms(5) by (auto simp: holds_def)
    note room = roomy_addr [OF assms(3), of st "ctx_of st"]
    have "ee_addr env (used st) \<noteq> NULL" by (rule room(1) [OF _ True]) (simp add: b(1) split: if_splits)
    then obtain a where a: "new_blob env empty_blob st = (Inr a, put_object a (Some (CachedBlob empty_blob)) st)"
      "es_heap st a = None" "a \<noteq> 0"
      using new_blob_room [OF assms(4,1), of st] by blast
    have an: "a \<noteq> ctx_of st" "others a = None" using a(2) b(1) by (auto split: if_splits)
    define st' where "st' = set_ctx a (put_object (ctx_of st) None
      (put_object a (Some (CachedBlob (blob_of (bs @ m)))) (put_object a (Some (CachedBlob empty_blob)) st)))"
    have "GetNewCachedData (ee_alloc env) b (blob_of m) = Inr (blob_of (bs @ m))"
      using GetNewCachedData_whole [OF b(2) assms(8) _ assms(4)] assms(7) by simp
    moreover have "get_ctx HKS_ERROR_BAD_STATE HKS_ERROR_BAD_STATE st = Inr (ctx_of st)"
      unfolding get_ctx_iff using ctx(1) by simp
    ultimately have "HksCoreSignVerifyThreeStageUpdate env ps (blob_of m) d st = (HKS_SUCCESS, st')"
      using assms(6) a True b an
      by (simp add: HksCoreSignVerifyThreeStageUpdate_def Let_def try_or_def caching_iff UpdateCachedData_def
          then_res_def st'_def)
    moreover have "holds d took others st' (bs @ m)"
      using ctx True b an a(3) assms(8) by (auto simp: holds_def st'_def fun_eq_iff intro!: caches_blob_of)
    moreover have "same_request st st'" by (simp add: st'_def)
    ultimately show thesis using that by blast
  next
    case False
    then obtain c where c: "es_heap st = others(ctx_of st \<mapsto> HashCtx c)" "took c d bs"
      using assms(5) by (auto simp: holds_def)
    obtain c' where c': "HksCryptoHalHashUpdate (ee_ops env) (blob_of m) c = (HKS_SUCCESS, c')" "took c' d (bs @ m)"
      using streams_update [OF assms(2) c(2) assms(7)] by blast
    have "HksCoreSignVerifyThreeStageUpdate env ps (blob_of m) d st =
        (HKS_SUCCESS, put_object (ctx_of st) (Some (HashCtx c')) st)"
      using assms(6) False c c' ctx(1)
      by (simp add: HksCoreSignVerifyThreeStageUpdate_def Let_def try_or_def caching_iff CoreHashUpdate_def
          ctx_of_def [symmetric])
    moreover have "holds d took others (put_object (ctx_of st) (Some (HashCtx c')) st) (bs @ m)"
      using ctx False c c' by (auto simp: holds_def)
    ultimately show thesis using that by simp
  qed
qed


section \<open>The last stage\<close>

text \<open>What is signed: the message, or its hash.\<close>

definition to_sign :: "'c engine_env \<Rightarrow> u32 \<Rightarrow> bool \<Rightarrow> bytes \<Rightarrow> HksBlob res" where
  "to_sign env d cached bs =
     (if cached then Inr (blob_of bs)
      else (case HksCryptoHalHash (ee_ops env) d (blob_of bs) (ipc_buffer MAX_HASH_SIZE) of
              (ret, message) \<Rightarrow> if ret \<noteq> HKS_SUCCESS then Inl ret else Inr message))"

lemma holds_finish:
  assumes "streams (ee_ops env) took" "\<forall>k. ee_alloc env k"
    and "holds d took others st bs" "HksGetParam (es_runtime st) HKS_TAG_ALGORITHM = Inr alg"
    and "HksGetParam (es_runtime st) HKS_TAG_PURPOSE = Inr pur" "uint32Param (p_val pur) = HKS_KEY_PURPOSE_SIGN"
    and "bs @ m \<noteq> []" "length bs + length m \<le> 0x500000"
  shows "let (ret, st') = HksCoreSignVerifyThreeStageFinish env ps (blob_of m) d st in
    case to_sign env d (caching d st) (bs @ m) of
      Inl e \<Rightarrow> (ret, es_out st') = (e, es_out st)
    | Inr message \<Rightarrow> (ret, es_out st') = fst (CoreSignVerify env message (es_out st) st)"
proof -
  have ctx: "ctx_of st \<noteq> 0" using assms(3) by (auto simp: holds_def)
  have get: "get_ctx HKS_ERROR_BAD_STATE HKS_ERROR_BAD_STATE st = Inr (ctx_of st)"
    unfolding get_ctx_iff using ctx by simp
  define r where "r = (if caching d st then FinishCachedData env (blob_of m) st else CoreHashFinish env (blob_of m) st)"
  have finish: "HksCoreSignVerifyThreeStageFinish env ps (blob_of m) d st =
      then_res r (\<lambda>message st. case CoreSignVerify env message (es_out st) st of
        ((ret, out), st) \<Rightarrow> (ret, st\<lparr>es_out := out\<rparr>))"
    using assms(4-6) by (simp add: HksCoreSignVerifyThreeStageFinish_def try_or_def Let_def caching_iff r_def)
  have r: "fst r = to_sign env d (caching d st) (bs @ m)" "same_request st (snd r)"
  proof -
    show "fst r = to_sign env d (caching d st) (bs @ m)"
    proof (cases "caching d st")
      case True
      then obtain b where b: "es_heap st = others(ctx_of st \<mapsto> CachedBlob b)" "caches b bs"
        using assms(3) by (auto simp: holds_def)
      then show ?thesis
        using True get GetNewCachedData_whole [OF b(2) assms(8,7,2)]
        by (simp add: r_def to_sign_def FinishCachedData_def)
    next
      case False
      then obtain c where c: "es_heap st = others(ctx_of st \<mapsto> HashCtx c)" "took c d bs"
        using assms(3) by (auto simp: holds_def)
      then show ?thesis
        using False get assms(2) streams_final [OF assms(1) c(2) assms(7), of "ipc_buffer MAX_HASH_SIZE"]
        by (auto simp: r_def to_sign_def CoreHashFinish_def HksMalloc_def split: prod.splits)
    qed
    show "same_request st (snd r)"
    proof (cases "caching d st")
      case True
      then obtain b where b: "es_heap st = others(ctx_of st \<mapsto> CachedBlob b)"
        using assms(3) by (auto simp: holds_def)
      then show ?thesis using True get ctx by (simp add: r_def FinishCachedData_def free_cached_def)
    next
      case False
      then obtain c where c: "es_heap st = others(ctx_of st \<mapsto> HashCtx c)"
        using assms(3) by (auto simp: holds_def)
      then show ?thesis using False get by (simp add: r_def CoreHashFinish_def split: prod.split)
    qed
  qed
  obtain x st1 where rx: "r = (x, st1)" by fastforce
  have out: "es_out st1 = es_out st" using r(2) by (simp add: rx same_request_def)
  show ?thesis
  proof (cases x)
    case (Inl e)
    then have "to_sign env d (caching d st) (bs @ m) = Inl e" using r(1) rx by simp
    then show ?thesis using Inl out by (simp add: finish rx then_res_def)
  next
    case (Inr message)
    obtain ret out' st2 where s: "CoreSignVerify env message (es_out st1) st1 = ((ret, out'), st2)"
      by (metis prod.collapse)
    have "fst (CoreSignVerify env message (es_out st) st) = (ret, out')"
      using fst_sign_same [of st st1 env message "es_out st"] r(2) s out by (simp add: rx)
    moreover have "to_sign env d (caching d st) (bs @ m) = Inr message" using r(1) rx Inr by simp
    ultimately show ?thesis using Inr s by (simp add: finish rx then_res_def)
  qed
qed

section \<open>A session of stages\<close>

fun sign_updates ::
    "'c engine_env \<Rightarrow> HksParamSet ptr \<Rightarrow> u32 \<Rightarrow> bytes list \<Rightarrow> 'c engine_state \<Rightarrow> rc \<times> 'c engine_state" where
  "sign_updates env ps d [] st = (HKS_SUCCESS, st)"
| "sign_updates env ps d (m # ms) st =
     then_rc (HksCoreSignVerifyThreeStageUpdate env ps (blob_of m) d st) (sign_updates env ps d ms)"

definition sign_in_stages ::
    "'c engine_env \<Rightarrow> HksParamSet ptr \<Rightarrow> u32 \<Rightarrow> bytes list \<Rightarrow> bytes \<Rightarrow> 'c engine_state \<Rightarrow> rc \<times> 'c engine_state" where
  "sign_in_stages env ps d ms m st =
     then_rc (HksCoreSignVerifyThreeStageInit env ps d st) (\<lambda>st.
     then_rc (sign_updates env ps d ms st) (HksCoreSignVerifyThreeStageFinish env ps (blob_of m) d))"

lemma same_request_trans: "same_request st st' \<Longrightarrow> same_request st' st'' \<Longrightarrow> same_request st st''"
  using same_params_trans by (auto simp: same_request_def)

lemma holds_updates:
  assumes "sound_env env" "streams (ee_ops env) took" "roomy env d cached others" "\<forall>k. ee_alloc env k"
    and "holds d took others st bs" "HksGetParam (es_runtime st) HKS_TAG_ALGORITHM = Inr alg" "caching d st = cached"
    and "\<forall>m\<in>set ms. m \<noteq> []" "length bs + length (concat ms) \<le> 0x500000"
  shows "\<exists>st'. sign_updates env ps d ms st = (HKS_SUCCESS, st') \<and> same_request st st'
    \<and> holds d took others st' (bs @ concat ms)"
  using assms(5-9)
proof (induction ms arbitrary: st bs)
  case Nil
  then show ?case by simp
next
  case (Cons m ms)
  obtain st1 where st1: "HksCoreSignVerifyThreeStageUpdate env ps (blob_of m) d st = (HKS_SUCCESS, st1)"
    "same_request st st1" "holds d took others st1 (bs @ m)"
    using holds_update [OF assms(1,2) assms(3) [folded Cons.prems(3)] assms(4) Cons.prems(1,2), of m ps] Cons.prems(4,5)
    by auto
  have "HksGetParam (es_runtime st1) HKS_TAG_ALGORITHM = Inr alg" "caching d st1 = cached"
    using same_request_alg [OF st1(2)] caching_same [of st st1 d] st1(2) Cons.prems(2,3)
    by (auto simp: same_request_def)
  from Cons.IH [OF st1(3) this] obtain st2 where "sign_updates env ps d ms st1 = (HKS_SUCCESS, st2)"
    "same_request st1 st2" "holds d took others st2 ((bs @ m) @ concat ms)"
    using Cons.prems(4,5) by auto
  then show ?case using st1 same_request_trans [OF st1(2)] by (simp add: then_rc_def)
qed

lemma staged_whole:
  assumes env: "sound_env env" "streams (ee_ops env) took" "roomy env d (caching d st) (es_heap st)"
      "\<forall>k. ee_alloc env k"
    and start: "ctx_of st = 0" "has_ctx st" "SignVerifyAuth_three_stage (es_node st) (es_runtime st) = HKS_SUCCESS"
    and req: "HksGetParam (es_runtime st) HKS_TAG_ALGORITHM = Inr alg"
      "HksGetParam (es_runtime st) HKS_TAG_PURPOSE = Inr pur" "uint32Param (p_val pur) = HKS_KEY_PURPOSE_SIGN"
    and data: "\<forall>m\<in>set ms. m \<noteq> []" "concat ms @ m \<noteq> []" "length (concat ms @ m) \<le> 0x500000"
  shows "let (ret, st') = sign_in_stages env ps d ms m st in
    case to_sign env d (caching d st) (concat ms @ m) of
      Inl e \<Rightarrow> (ret, es_out st') = (e, es_out st)
    | Inr message \<Rightarrow> (ret, es_out st') = fst (CoreSignVerify env message (es_out st) st)"
proof -
  obtain st1 where st1: "HksCoreSignVerifyThreeStageInit env ps d st = (HKS_SUCCESS, st1)"
    "same_request st st1" "holds d took (es_heap st) st1 []"
    using holds_init [OF env start req(1)] by metis
  have alg1: "HksGetParam (es_runtime st1) HKS_TAG_ALGORITHM = Inr alg"
    using same_request_alg [OF st1(2)] req(1) by simp
  have lim: "length ([] :: bytes) + length (concat ms) \<le> 0x500000" using data(3) by simp
  obtain st2 where st2: "sign_updates env ps d ms st1 = (HKS_SUCCESS, st2)" "same_request st1 st2"
    "holds d took (es_heap st) st2 (concat ms)"
    using holds_updates [OF env st1(3) alg1 _ data(1) lim, of ps] caching_same [of st st1 d] st1(2)
    by (auto simp: same_request_def)
  have same: "same_request st st2" by (rule same_request_trans [OF st1(2) st2(2)])
  have p: "HksGetParam (es_runtime st2) HKS_TAG_ALGORITHM = Inr alg"
    "HksGetParam (es_runtime st2) HKS_TAG_PURPOSE = Inr pur" "caching d st2 = caching d st" "es_out st2 = es_out st"
    using same req caching_same [of st st2 d] by (auto simp: same_request_def same_params_def)
  have len: "length (concat ms) + length m \<le> 0x500000" using data(3) by simp
  show ?thesis
    using holds_finish [OF env(2,4) st2(3) p(1,2) req(3) data(2) len, of ps] fst_sign_same [OF same]
    by (auto simp: sign_in_stages_def then_rc_def st1(1) st2(1) p split: prod.splits sum.splits)
qed

end
