(* ===== verification/Huks_Stage_Props.thy ===== *)
theory Huks_Stage_Props
  imports Huks_Stage_Whole Huks_Keyblob_Props
begin

text \<open>
  Signing and verifying in stages: that the contexts of a session are used and freed as what they are, and
  that a session of stages signs what one call signs.
\<close>

section \<open>A crypto engine for examples\<close>

text \<open>
  Hashing adds the bytes up, a signature is the message; the context of a hash is what it was given. There is
  room for two structures of the engine and two of the crypto engine.
\<close>

definition sum_hash :: "HksBlob \<Rightarrow> HksBlob \<Rightarrow> rc \<times> HksBlob" where
  "sum_hash m out = (0, put_out 0 [sum_list (blob_bytes m)] out)"

definition plain_ops :: "bytes crypto_ops" where
  "plain_ops = \<lparr>HksCryptoHalGetPubKey = (\<lambda>k out. (0, put_out 0 (blob_bytes k) out)),
     HksCryptoHalAgreeKey = (\<lambda>k p s out. (0, out)),
     HksCryptoHalSign = (\<lambda>k u m out. (0, put_out 0 (blob_bytes m) out)),
     HksCryptoHalVerify = (\<lambda>k u m s. if blob_bytes s = blob_bytes m then 0 else -1),
     HksCryptoHalSignIsoIec97962 = (\<lambda>k u m out. (0, put_out 0 (blob_bytes m) out)),
     HksCryptoHalVerifyIsoIec97962 = (\<lambda>k u m s. 0),
     HksCryptoHalHash = (\<lambda>d m out. sum_hash m out),
     HksCryptoHalHashInit = (\<lambda>d u. if d = HKS_DIGEST_NONE then Inl (-1) else if \<not> u 3 then Inr (3, []) else if \<not> u 4 then Inr (4, []) else Inl (-1)),
     HksCryptoHalHashUpdate = (\<lambda>m c. (0, c @ blob_bytes m)),
     HksCryptoHalHashFinal = (\<lambda>m c out. case sum_hash (blob_of (c @ blob_bytes m)) out of (ret, out) \<Rightarrow> (ret, out, NULL)),
     HksCryptoHalHmacInit = (\<lambda>k d u. Inl (-1)), HksCryptoHalHmacUpdate = (\<lambda>m c. (0, c)),
     HksCryptoHalHmacFinal = (\<lambda>m c out. (0, out, NULL)),
     HksCryptoHalCmacInit = (\<lambda>k d u. Inl (-1)), HksCryptoHalCmacUpdate = (\<lambda>m c. (0, c)),
     HksCryptoHalCmacFinal = (\<lambda>m c out. (0, out, NULL)),
     HksCryptoHalEncryptInit = (\<lambda>k s u. Inl (-1)), HksCryptoHalEncryptUpdate = (\<lambda>m c out a. (0, out, c)),
     HksCryptoHalEncryptFinal = (\<lambda>m c out t a. (0, out, t, NULL)),
     HksCryptoHalDecryptInit = (\<lambda>k s u. Inl (-1)), HksCryptoHalDecryptUpdate = (\<lambda>m c out a. (0, out, c)),
     HksCryptoHalDecryptFinal = (\<lambda>m c out t a. (0, out, NULL)), HksCryptoHalEncryptFreeCtx_algs = (\<lambda>_. True)\<rparr>"

definition plain_env :: "bytes engine_env" where
  "plain_env = \<lparr>ee_auth = \<lparr>ae_hal = flip_hal, ae_alloc = (\<lambda>_. True), ae_convert = (\<lambda>_ t. Inr t), ae_keys = 0,
       ae_beyond = []\<rparr>,
     ee_ops = plain_ops, ee_addr = (\<lambda>u. if \<not> u 1 then Some 1 else if \<not> u 2 then Some 2 else NULL),
     ee_param_addr = (\<lambda>_. 5), ee_from_x509 = (\<lambda>_ b. Inr b), ee_auth_num = (\<lambda>_ _. (0, 1)),
     ee_clk = (\<lambda>i. Inr 1), ee_check_dh = (\<lambda>_ _. 0), ee_check_rsa = (\<lambda>_. 0)\<rparr>"

lemma plain_env_sound: "sound_env plain_env"
  by (auto simp: sound_env_def plain_env_def plain_ops_def sum_hash_def split: if_splits)

lemma plain_env_simps [simp]:
  "ee_ops plain_env = plain_ops" "ee_alloc plain_env k" "ee_hal plain_env = flip_hal"
  by (simp_all add: plain_env_def ee_alloc_def ee_hal_def)

text \<open>A set of parameters without blobs, and the node of a session for it.\<close>

definition session_set :: "HksParam list \<Rightarrow> HksParamSet" where
  "session_set ps = \<lparr>paramSetSize = word_of_nat (SIZEOF_PARAM_SET + SIZEOF_PARAM * length ps), params = ps, ps_tail = []\<rparr>"

definition plain_state :: "HksParam list \<Rightarrow> HksParam list \<Rightarrow> bytes engine_state" where
  "plain_state key ps = \<lparr>es_node = (new_node 1)\<lparr>kn_keyBlobParamSet := Some (session_set key),
      kn_runtimeParamSet := Some (session_set (ps @ [\<lparr>p_tag = HKS_TAG_CRYPTO_CTX, p_val = VUlong 0\<rparr>]))\<rparr>,
    es_out = Some (ipc_buffer 100), es_heap = (\<lambda>_. None), es_raw = [], es_random = 0, es_undefined = False\<rparr>"

definition sign_request :: "u32 \<Rightarrow> u32 \<Rightarrow> HksParam list" where
  "sign_request alg digest = [\<lparr>p_tag = HKS_TAG_ALGORITHM, p_val = VUint alg\<rparr>,
     \<lparr>p_tag = HKS_TAG_PURPOSE, p_val = VUint HKS_KEY_PURPOSE_SIGN\<rparr>, \<lparr>p_tag = HKS_TAG_DIGEST, p_val = VUint digest\<rparr>]"

lemma plain_state_heap [simp]: "es_heap (plain_state key ps) = (\<lambda>_. None)"
  by (simp add: plain_state_def)

lemmas plain_simps = plain_state_def session_set_def sign_request_def HksGetParam_Some HksCheckParamSet_def paramsCnt_def
  is_bytes_tag_def GetTagType_def

section \<open>Contexts are used as what they are\<close>

text \<open>What a request for signing or verifying says, and that its padding is not that of ISO/IEC 9796-2.\<close>

definition sign_params :: "u32 \<Rightarrow> HksParamSet ptr \<Rightarrow> bool" where
  "sign_params d paramSet \<longleftrightarrow> signing_purpose paramSet \<and> digest_is d paramSet \<and> \<not> iso_padding paramSet
     \<and> (\<exists>alg. HksGetParam paramSet HKS_TAG_ALGORITHM = Inr alg)"

text \<open>
  C11: A session for signing or verifying without the padding of ISO/IEC 9796-2 uses its context as what it is.
  Whatever data comes in whatever stages, finishing and aborting included, and whatever fails: nothing undefined
  happens, no copy of the key is left, the objects of other sessions stay as they are, and deleting the node frees
  the context with the function for it, so that the heap is the one from before the session. With that padding and
  a digest it is not so: \<open>iso_session_mistyped\<close> below.
\<close>

theorem sign_session_typed:
  assumes "sound_env env" "\<not> es_undefined st" "GetCryptoCtx (es_node st) = 0" "sign_params d (es_runtime st)"
    and "(sign_step env d)\<^sup>*\<^sup>* st st'"
  shows "\<not> es_undefined st' \<and> es_raw st' = es_raw st
    \<and> (\<forall>a ob. es_heap st a = Some ob \<longrightarrow> es_heap st' a = Some ob)
    \<and> (let deleted = run_cleanup env (FreeRuntimeParamSet (es_runtime st')) st' in
       \<not> es_undefined deleted \<and> es_raw deleted = es_raw st \<and> es_heap deleted = es_heap st)"
proof -
  have start: "sign_inv d (es_heap st) (es_raw st) st"
    using assms(2,3) by (simp add: sign_inv_def ctx_of_def)
  have inv: "sign_inv d (es_heap st) (es_raw st) st'" and same: "same_params st st'"
    using sign_steps_inv [OF assms(5,1) start] assms(4) by (auto simp: sign_params_def)
  obtain alg where "signing_purpose (es_runtime st')" "digest_is d (es_runtime st')" "\<not> iso_padding (es_runtime st')"
    "HksGetParam (es_runtime st') HKS_TAG_ALGORITHM = Inr alg"
    using same assms(4) by (auto simp: sign_params_def same_params_def signing_purpose_def digest_is_def iso_padding_def)
  note deleted = deleted_sign_inv [OF inv this refl, of env]
  have "\<not> es_undefined st' \<and> es_raw st' = es_raw st
    \<and> (\<forall>a ob. es_heap st a = Some ob \<longrightarrow> es_heap st' a = Some ob)"
    using inv by (auto simp: sign_inv_def split: if_splits)
  then show ?thesis using deleted by (simp add: Let_def)
qed

lemma init_then_update:
  assumes "ctx_of st = 0"
  shows "(sign_step env d)\<^sup>*\<^sup>* st (snd (HksCoreSignVerifyThreeStageUpdate env ps m d
    (snd (HksCoreSignVerifyThreeStageInit env ps d st))))"
proof -
  have "(sign_step env d)\<^sup>*\<^sup>* st (snd (HksCoreSignVerifyThreeStageInit env ps d st))"
    by (rule r_into_rtranclp) (rule sign_step.init [OF assms])
  then show ?thesis by (rule rtranclp.rtrancl_into_rtrancl) (rule sign_step.update)
qed

lemma sign_session_typed_witness:
  "let st = plain_state [] (sign_request HKS_ALG_ECC HKS_DIGEST_SHA256);
       st1 = snd (HksCoreSignVerifyThreeStageInit plain_env NULL HKS_DIGEST_SHA256 st);
       st2 = snd (HksCoreSignVerifyThreeStageUpdate plain_env NULL (blob_of [1, 2, 3]) HKS_DIGEST_SHA256 st1) in
   \<not> es_undefined st2 \<and> es_raw st2 = es_raw st
    \<and> (\<forall>a ob. es_heap st a = Some ob \<longrightarrow> es_heap st2 a = Some ob)
    \<and> (let deleted = run_cleanup plain_env (FreeRuntimeParamSet (es_runtime st2)) st2 in
       \<not> es_undefined deleted \<and> es_raw deleted = es_raw st \<and> es_heap deleted = es_heap st)"
  unfolding Let_def
  by (rule sign_session_typed [OF plain_env_sound _ _ _ init_then_update, unfolded Let_def])
     (auto simp: plain_simps GetCryptoCtx_def sign_params_def signing_purpose_def digest_is_def iso_padding_def ctx_of_def)

text \<open>
  With the padding of ISO/IEC 9796-2 and a digest, the session caches its data, but the node is freed with the
  function for a hash.
\<close>

lemma iso_session_mistyped:
  "let ps = sign_request HKS_ALG_RSA HKS_DIGEST_SHA256 @ [\<lparr>p_tag = HKS_TAG_PADDING, p_val = VUint HKS_PADDING_ISO_IEC_9796_2\<rparr>];
       st = snd (SetCacheModeCtx plain_env (plain_state [] ps)) in
   need_cache HKS_ALG_RSA HKS_DIGEST_SHA256 (es_node st) \<and> \<not> es_undefined st
   \<and> es_undefined (run_cleanup plain_env (FreeRuntimeParamSet (es_runtime st)) st)"
  by (simp add: plain_simps SetCacheModeCtx_def new_blob_def plain_env_def HksMalloc_def ee_alloc_def used_def
    then_res_def need_cache_def HksCheckNeedCache_def HksCheckNeedCachePadding_def HksGetParamPadding_def try_or_def
    FreeRuntimeParamSet_def SetAesCcmModeTag_def KeyNodeFreeCtx_def HksCryptoHalHashFreeCtx_engine_def
    undefined_behaviour_def Let_def set_ctx_def put_object_def)


section \<open>Stages and one call\<close>

text \<open>A node whose key may sign with the digest \<open>d\<close> what the request names, and that has no context yet.\<close>

definition ready_to_sign :: "u32 \<Rightarrow> 'c engine_state \<Rightarrow> bool" where
  "ready_to_sign d st \<longleftrightarrow> GetCryptoCtx (es_node st) = 0 \<and> has_ctx st \<and> sign_params d (es_runtime st)
     \<and> SignVerifyAuth_three_stage (es_node st) (es_runtime st) = HKS_SUCCESS
     \<and> (\<exists>p. HksGetParam (es_runtime st) HKS_TAG_PURPOSE = Inr p \<and> uint32Param (p_val p) = HKS_KEY_PURPOSE_SIGN)
     \<and> (\<exists>p q. HksGetParam (es_runtime st) HKS_TAG_ALGORITHM = Inr p \<and> HksGetParam (es_keyBlob st) HKS_TAG_ALGORITHM = Inr q
          \<and> uint32Param (p_val p) = uint32Param (p_val q))
     \<and> digest_is d (es_keyBlob st)"

lemma message_same:
  assumes "ready_to_sign d st" "\<forall>k. ee_alloc env k"
  shows "GetSignVerifyMessage env (es_keyBlob st) (blob_of bs) (es_runtime st) = to_sign env d (caching d st) bs"
proof -
  obtain p q where alg: "HksGetParam (es_runtime st) HKS_TAG_ALGORITHM = Inr p"
    "HksGetParam (es_keyBlob st) HKS_TAG_ALGORITHM = Inr q" "uint32Param (p_val p) = uint32Param (p_val q)"
    using assms(1) by (auto simp: ready_to_sign_def)
  obtain dig where dig: "HksGetParam (es_keyBlob st) HKS_TAG_DIGEST = Inr dig" "uint32Param (p_val dig) = d"
    using assms(1) by (auto simp: ready_to_sign_def digest_is_def)
  have "\<not> iso_padding (es_runtime st)" using assms(1) by (simp add: ready_to_sign_def sign_params_def)
  then have "HksCheckNeedCachePadding (uint32Param (p_val p)) (es_node st) \<noteq> HKS_SUCCESS"
    by (auto simp: HksCheckNeedCachePadding_def HksGetParamPadding_def iso_padding_def try_or_def split: sum.split)
  then have "caching d st \<longleftrightarrow> HksCheckNeedCache (uint32Param (p_val q)) d = HKS_SUCCESS"
    using alg by (simp add: caching_def need_cache_def)
  then show ?thesis
    using alg dig assms(2) by (simp add: GetSignVerifyMessage_def to_sign_def try_or_def HksMalloc_def)
qed

text \<open>
  What the session and a signature in one call have in common: the key blob \<open>key\<close> opens to the key of the
  session, the request for one call is accepted, and both requests fill in the usage of the key alike, for signing
  without the padding of ISO/IEC 9796-2, which only stages know. Both accept the buffer \<open>out\<close>.
\<close>

definition same_signing :: "'c engine_env \<Rightarrow> HksBlob \<Rightarrow> HksParamSet ptr \<Rightarrow> HksBlob \<Rightarrow> 'c engine_state \<Rightarrow> bool" where
  "same_signing env key rps out st \<longleftrightarrow>
     (\<exists>node cs. HksGenerateKeyNode (ee_hal env) (ee_alloc env) key = (Some node, cs)
        \<and> hkn_paramSet node = es_keyBlob st \<and> SignVerifyPreCheck env node rps = HKS_SUCCESS)
     \<and> HksCoreCheckSignVerifyParams HKS_CMD_ID_SIGN key rps out = HKS_SUCCESS
     \<and> CheckSignVerifyParams (es_node st) (Some out) = HKS_SUCCESS
     \<and> (let spec = HksFillUsageSpec rps zero_usage_spec in
        HksFillUsageSpec (es_runtime st) zero_usage_spec = spec \<and> us_purpose spec = HKS_KEY_PURPOSE_SIGN
        \<and> \<not> (us_algType spec = HKS_ALG_RSA \<and> us_padding spec = HKS_PADDING_ISO_IEC_9796_2))
     \<and> SetRsaPssSaltLenType (es_runtime st) = SetRsaPssSaltLenType rps"

lemma one_call_signature:
  assumes "same_signing env key rps out st" "ready_to_sign d st" "\<forall>k. ee_alloc env k"
  shows "fst (HksCoreSign env key rps (blob_of bs) out one) =
    (case to_sign env d (caching d st) bs of
       Inl e \<Rightarrow> (e, out)
     | Inr message \<Rightarrow>
         (case fst (CoreSignVerify env message (Some out) st) of (ret, signature) \<Rightarrow> (ret, the signature)))"
proof -
  obtain node cs where node: "HksGenerateKeyNode (ee_hal env) (ee_alloc env) key = (Some node, cs)"
    "hkn_paramSet node = es_keyBlob st" "SignVerifyPreCheck env node rps = HKS_SUCCESS"
    using assms(1) by (auto simp: same_signing_def)
  obtain dig where "HksGetParam (es_keyBlob st) HKS_TAG_DIGEST = Inr dig"
    using assms(2) by (auto simp: ready_to_sign_def digest_is_def)
  then have "GetSignVerifyMessage env (es_keyBlob st) (blob_of bs) rps =
      GetSignVerifyMessage env (es_keyBlob st) (blob_of bs) (es_runtime st)"
    by (simp add: GetSignVerifyMessage_def)
  then have message: "GetSignVerifyMessage env (es_keyBlob st) (blob_of bs) rps = to_sign env d (caching d st) bs"
    by (simp add: message_same [OF assms(2,3)])
  have checks: "HksCoreCheckSignVerifyParams HKS_CMD_ID_SIGN key rps out = HKS_SUCCESS"
    "CheckSignVerifyParams (es_node st) (Some out) = HKS_SUCCESS"
    "HksFillUsageSpec (es_runtime st) zero_usage_spec = HksFillUsageSpec rps zero_usage_spec"
    "us_purpose (HksFillUsageSpec rps zero_usage_spec) = HKS_KEY_PURPOSE_SIGN"
    "\<not> (us_algType (HksFillUsageSpec rps zero_usage_spec) = HKS_ALG_RSA
      \<and> us_padding (HksFillUsageSpec rps zero_usage_spec) = HKS_PADDING_ISO_IEC_9796_2)"
    "SetRsaPssSaltLenType (es_runtime st) = SetRsaPssSaltLenType rps"
    using assms(1) by (simp_all add: same_signing_def Let_def)
  show ?thesis
    using node checks(1,4,5)
    by (auto simp: HksCoreSign_def SignVerify_def refuse_def with_key_node_def message hold_raw_key_def
        CoreSignVerify_def take_raw_key_def checks(2,3,6) Let_def split: sum.split prod.split)
qed


lemma plain_ops_stream: "streams plain_ops (\<lambda>c d bs. c = bs)"
  by (auto simp: streams_def plain_ops_def blob_of_def blob_bytes_def split: if_splits)

lemma plain_env_roomy:
  assumes "cached \<or> d \<noteq> HKS_DIGEST_NONE"
  shows "roomy plain_env d cached (\<lambda>_. None)"
  unfolding roomy_def
proof (intro allI impI)
  fix u :: "u64 \<Rightarrow> bool" and x
  assume one: "\<forall>y. u y \<longrightarrow> y = x \<or> (None :: bytes ctx_object option) \<noteq> None"
  have "\<not> (u 1 \<and> u 2)" "\<not> (u 3 \<and> u 4)"
    using one [THEN spec, of 1] one [THEN spec, of 2] one [THEN spec, of 3] one [THEN spec, of 4] by auto
  then show "if cached then ee_addr plain_env u \<noteq> NULL
      else \<exists>a c. HksCryptoHalHashInit (ee_ops plain_env) d u = Inr (a, c)"
    using assms by (auto simp: plain_env_def plain_ops_def)
qed

text \<open>A key of the process with the name 8, 9, for signing with the digest \<open>d\<close>, and the requests for it.\<close>

definition signing_key :: "u32 \<Rightarrow> HksParamSet" where
  "signing_key d = \<lparr>paramSetSize = 130,
     params = sign_request HKS_ALG_ECC d @ [\<lparr>p_tag = HKS_TAG_KEY_SIZE, p_val = VUint 256\<rparr>,
       \<lparr>p_tag = HKS_TAG_PROCESS_NAME, p_val = VBlob (blob_of [8, 9])\<rparr>], ps_tail = [8, 9]\<rparr>"

definition one_request :: "u32 \<Rightarrow> HksParamSet ptr" where
  "one_request d = Some \<lparr>paramSetSize = 106,
     params = sign_request HKS_ALG_ECC d @ [\<lparr>p_tag = HKS_TAG_PROCESS_NAME, p_val = VBlob (blob_of [8, 9])\<rparr>],
     ps_tail = [8, 9]\<rparr>"

definition key_session :: "HksParamSet \<Rightarrow> u32 \<Rightarrow> bytes engine_state" where
  "key_session qs d = \<lparr>es_node = (new_node 1)\<lparr>kn_keyBlobParamSet := Some qs,
      kn_runtimeParamSet := Some (session_set (sign_request HKS_ALG_ECC d
        @ [\<lparr>p_tag = HKS_TAG_CRYPTO_CTX, p_val = VUlong 0\<rparr>]))\<rparr>,
    es_out = Some (ipc_buffer 100), es_heap = (\<lambda>_. None), es_raw = [], es_random = 0, es_undefined = False\<rparr>"

lemma signing_key_request:
  "key_request (signing_key d) (blob_of [1, 2, 3])"
  "HksCheckParamSet (Some (signing_key d)) (paramSetSize (signing_key d)) = HKS_SUCCESS"
  "space (params (signing_key d)) + 168 + unat (blob_size (blob_of [1, 2, 3])) \<le> unat (blob_size (ipc_buffer 1024))"
  by (simp_all add: signing_key_def sign_request_def key_request_def wf_param_def space_def plen_def is_bytes_tag_def GetTagType_def
      blob_of_def blob_bytes_def paramsCnt_def HksCheckParamSet_def ipc_buffer_def)

lemma signing_key_tags:
  "HksGetParam (Some (signing_key d)) t =
     (if t = HKS_TAG_ALGORITHM then Inr \<lparr>p_tag = t, p_val = VUint HKS_ALG_ECC\<rparr>
      else if t = HKS_TAG_PURPOSE then Inr \<lparr>p_tag = t, p_val = VUint HKS_KEY_PURPOSE_SIGN\<rparr>
      else if t = HKS_TAG_DIGEST then Inr \<lparr>p_tag = t, p_val = VUint d\<rparr>
      else if t = HKS_TAG_KEY_SIZE then Inr \<lparr>p_tag = t, p_val = VUint 256\<rparr>
      else if t = HKS_TAG_PROCESS_NAME then Inr \<lparr>p_tag = t, p_val = VBlob (blob_of [8, 9])\<rparr>
      else Inl HKS_ERROR_PARAM_NOT_EXIST)"
  by (simp add: signing_key_def plain_simps CheckBlob_def blob_of_def)

lemma request_tags:
  "HksGetParam (one_request d) t =
     (if t = HKS_TAG_ALGORITHM then Inr \<lparr>p_tag = t, p_val = VUint HKS_ALG_ECC\<rparr>
      else if t = HKS_TAG_PURPOSE then Inr \<lparr>p_tag = t, p_val = VUint HKS_KEY_PURPOSE_SIGN\<rparr>
      else if t = HKS_TAG_DIGEST then Inr \<lparr>p_tag = t, p_val = VUint d\<rparr>
      else if t = HKS_TAG_PROCESS_NAME then Inr \<lparr>p_tag = t, p_val = VBlob (blob_of [8, 9])\<rparr>
      else Inl HKS_ERROR_PARAM_NOT_EXIST)"
  by (simp add: one_request_def plain_simps CheckBlob_def blob_of_def)

lemma session_tags:
  "HksGetParam (es_runtime (key_session qs d)) t =
     (if t = HKS_TAG_ALGORITHM then Inr \<lparr>p_tag = t, p_val = VUint HKS_ALG_ECC\<rparr>
      else if t = HKS_TAG_PURPOSE then Inr \<lparr>p_tag = t, p_val = VUint HKS_KEY_PURPOSE_SIGN\<rparr>
      else if t = HKS_TAG_DIGEST then Inr \<lparr>p_tag = t, p_val = VUint d\<rparr>
      else if t = HKS_TAG_CRYPTO_CTX then Inr \<lparr>p_tag = t, p_val = VUlong 0\<rparr>
      else Inl HKS_ERROR_PARAM_NOT_EXIST)"
  by (simp add: key_session_def plain_simps)

text \<open>A set that reads like the key, as the set of its key blob does.\<close>

definition reads_key :: "HksParamSet \<Rightarrow> u32 \<Rightarrow> bool" where
  "reads_key qs d \<longleftrightarrow>
     (\<forall>t. t \<notin> {HKS_TAG_KEY_VERSION, HKS_TAG_OS_VERSION, HKS_TAG_OS_PATCHLEVEL, HKS_TAG_KEY_FLAG, HKS_TAG_KEY} \<longrightarrow>
        HksGetParam (Some qs) t =
          (case HksGetParam (Some (signing_key d)) t of Inl e \<Rightarrow> Inl e | Inr p \<Rightarrow> Inr (canon_param (norm_param p))))"

lemma reads_keyD:
  "reads_key qs d \<Longrightarrow> t \<notin> {HKS_TAG_KEY_VERSION, HKS_TAG_OS_VERSION, HKS_TAG_OS_PATCHLEVEL, HKS_TAG_KEY_FLAG, HKS_TAG_KEY} \<Longrightarrow>
     HksGetParam (Some qs) t =
       (case HksGetParam (Some (signing_key d)) t of Inl e \<Rightarrow> Inl e | Inr p \<Rightarrow> Inr (canon_param (norm_param p)))"
  by (simp add: reads_key_def)

lemmas read_simps = signing_key_tags norm_param_def canon_param_def is_bytes_tag_def GetTagType_def

lemmas auth_simps = g_authPolicyList_def g_signVerifyEccPolicyTag_def AuthPolicy_def GetAlgAndPurposeParam_def
  GetInputParams_def get_required_def auth_param_values_def HksCheckParamMatch_def CheckPurpose_def
  GetOptionalParams_def Let_def

lemma key_session_blob: "es_keyBlob (key_session qs d) = Some qs"
  by (simp add: key_session_def)

lemma key_session_ready:
  assumes "reads_key qs d"
  shows "ready_to_sign d (key_session qs d)"
proof -
  note key = reads_keyD [OF assms] read_simps
  have "SignVerifyAuth_three_stage (es_node (key_session qs d)) (es_runtime (key_session qs d)) = HKS_SUCCESS"
    by (simp add: SignVerifyAuth_three_stage_def HksThreeStageAuth_def auth_simps key key_session_blob session_tags)
  then show ?thesis
    by (simp add: ready_to_sign_def GetCryptoCtx_def has_ctx_def sign_params_def signing_purpose_def
      digest_is_def iso_padding_def session_tags key_session_blob key)
qed

lemma one_request_allowed:
  assumes "reads_key qs d" "hkn_paramSet node = Some qs"
  shows "SignVerifyPreCheck env node (one_request d) = HKS_SUCCESS"
proof -
  note key = reads_keyD [OF assms(1)] read_simps
  have "HksProcessIdentityVerify num (Some qs) (one_request d) = HKS_SUCCESS" for num
    by (simp add: HksProcessIdentityVerify_def HksCheckCompareAccessTokenId_def HksCheckCompareUserId_def
      HksCheckCompareProcessName_def CheckIfNeedIsDevicePasswordSet_def try_or_def try_rc_def if_not_succ_return_def Let_def
      key request_tags payload_def plen_def blob_of_def blob_bytes_def HksMemCmp_def)
  moreover have "SignVerifyAuth_one_stage node (one_request d) = HKS_SUCCESS"
    by (simp add: SignVerifyAuth_one_stage_def request_tags try_rc_def HksAuth_def key assms(2)
      HksCheckKeybBlobIsSupportUserAuth_def auth_simps)
  ultimately show ?thesis by (simp add: SignVerifyPreCheck_def if_not_succ_return_def assms(2))
qed

lemma one_request_accepted:
  assumes d: "d = HKS_DIGEST_SHA256 \<or> d = HKS_DIGEST_NONE" and size: "HksGetKeySize HKS_ALG_ECC blob = Inr 256"
  shows "HksCoreCheckSignVerifyParams HKS_CMD_ID_SIGN blob (one_request d) (ipc_buffer 100) = HKS_SUCCESS"
proof -
  have "HksGetInputParmasByAlg HKS_ALG_ECC HKS_CHECK_TYPE_USE_KEY (one_request d) =
      Inr (params_values_init (params_init False 0 False) (params_init False 0 False)
        (params_init True HKS_KEY_PURPOSE_SIGN False) (params_init True d False) (params_init False 0 False))"
    by (simp add: HksGetInputParmasByAlg_def InitInputParamsByAlg_def InitInputParams_def g_eccParamSet_def
      GetInputParams_def get_required_def GetOptionalParams_def init_defs request_tags try_res_def try_or_def)
  moreover have "CheckSignVerifyParamsByAlg HKS_CMD_ID_SIGN HKS_ALG_ECC (params_values_init (params_init False 0 False)
      (params_init False 0 False) (params_init True HKS_KEY_PURPOSE_SIGN False) (params_init True d False)
      (params_init False 0 False)) = HKS_SUCCESS"
    using d by (auto simp: CheckSignVerifyParamsByAlg_def HksCheckFixedParams_def GetExpectParams_def InitExpectParams_def
      g_expectEccParams_def init_defs check_optional_def CheckOptionalParams_def HksCheckValue_def g_eccDigest_def
      try_rc_def try_res_def HksCheckSignVerifyMutableParams_def if_not_succ_return_def Let_def)
  moreover have "HksCheckSignature HKS_CMD_ID_SIGN HKS_ALG_ECC 256 (ipc_buffer 100) = HKS_SUCCESS"
    by (simp add: HksCheckSignature_def HksCheckValue_def g_eccKeySize_def CheckEccSignature_def ipc_buffer_def
      if_not_succ_return_def)
  ultimately show ?thesis
    using size by (simp add: HksCoreCheckSignVerifyParams_def CheckAndGetAlgorithm_def request_tags try_rc_def
      try_res_def HksCheckValue_def g_signAlg_def try_or_def if_not_succ_return_def)
qed

lemma session_out_accepted:
  assumes "reads_key qs d"
  shows "CheckSignVerifyParams (es_node (key_session qs d)) (Some (ipc_buffer 100)) = HKS_SUCCESS"
proof -
  note key = reads_keyD [OF assms] read_simps
  show ?thesis
    by (simp add: CheckSignVerifyParams_def CheckBlob_def ipc_buffer_def key_session_blob key session_tags try_rc_def
      HksCheckSignature_def HksCheckValue_def g_eccKeySize_def CheckEccSignature_def if_not_succ_return_def)
qed

lemma requests_fill:
  "HksFillUsageSpec (es_runtime (key_session qs d)) zero_usage_spec = HksFillUsageSpec (one_request d) zero_usage_spec"
  "us_purpose (HksFillUsageSpec (one_request d) zero_usage_spec) = HKS_KEY_PURPOSE_SIGN"
  "us_algType (HksFillUsageSpec (one_request d) zero_usage_spec) = HKS_ALG_ECC"
  "SetRsaPssSaltLenType (es_runtime (key_session qs d)) = SetRsaPssSaltLenType (one_request d)"
  by (simp_all add: key_session_def session_set_def one_request_def sign_request_def HksFillUsageSpec_def set_params_def
    Let_def)
    (simp add: SetRsaPssSaltLenType_def plain_simps)

lemma signing_key_size:
  assumes at: "\<And>t. \<not> is_bytes_tag t \<Longrightarrow> HksGetParam (Some (param_set_at (blob_bytes blob))) t = HksGetParam (Some qs) t"
    "HksCheckParamSetTag (Some (param_set_at (blob_bytes blob))) = HksCheckParamSetTag (Some qs)"
    "HksCheckParamSet (Some (param_set_at (blob_bytes blob))) (paramSetSize (param_set_at (blob_bytes blob))) = HKS_SUCCESS"
    and tags: "butlast (params qs) = map (canon_param \<circ> norm_param) (params (signing_key d) @ core4 2)"
      "p_tag (last (params qs)) = HKS_TAG_KEY" and size: "8 \<le> unat (blob_size blob)" and reads: "reads_key qs d"
  shows "HksGetKeySize HKS_ALG_ECC blob = Inr 256"
proof -
  note key = reads_keyD [OF reads] read_simps
  have "params qs \<noteq> []" using tags(1) by (auto simp: core4_def core_params_def)
  then have "params qs = butlast (params qs) @ [last (params qs)]" by simp
  then have "map p_tag (params qs) = map p_tag (butlast (params qs)) @ [HKS_TAG_KEY]"
    using tags(2) by (metis list.simps(8) list.simps(9) map_append)
  also have "map p_tag (butlast (params qs)) = map p_tag (params (signing_key d) @ core4 2)"
    by (simp add: tags(1))
  finally have "map p_tag (params qs) = map p_tag (params (signing_key d) @ core4 2) @ [HKS_TAG_KEY]" .
  then have "HksCheckParamSetTag (Some qs) =
      check_tags_loop (params (signing_key d) @ core4 2 @ [\<lparr>p_tag = HKS_TAG_KEY, p_val = VUint 0\<rparr>])"
    by (simp add: HksCheckParamSetTag_def tags_decide)
  then have "HksCheckParamSetTag (Some qs) = HKS_SUCCESS"
    by (simp add: signing_key_def sign_request_def core4_def core_params_def IsValidTag_def g_validTags_def)
  then show ?thesis
    using size at(2,3)
    by (simp add: HksGetKeySize_def CheckAndGetKeySize_def key at(1) word_less_nat_alt HksCheckParamSetValidity_def try_or_def
      HksCheckValue_def g_eccKeySize_def if_not_succ_return_def Let_def)
qed

lemma signing_key_blob:
  assumes d: "d = HKS_DIGEST_SHA256 \<or> d = HKS_DIGEST_NONE"
  obtains blob cs qs where
    "HksBuildKeyBlob flip_hal (\<lambda>_. True) (\<lambda>_. 5) 2 (blob_of [1, 2, 3]) (signing_key d) (ipc_buffer 1024) = (Inr blob, cs)"
    "ready_to_sign d (key_session qs d)" "same_signing plain_env blob (one_request d) (ipc_buffer 100) (key_session qs d)"
proof (rule key_blob_reads [OF flip_hal_ok signing_key_request(1,2) _ _ _ signing_key_request(3),
    of "\<lambda>_. True" "\<lambda>_. 5" 2 d])
  fix blob cs qs
  let ?tags = "{HKS_TAG_KEY_VERSION, HKS_TAG_OS_VERSION, HKS_TAG_OS_PATCHLEVEL, HKS_TAG_KEY_FLAG, HKS_TAG_KEY}"
  assume built: "HksBuildKeyBlob flip_hal (\<lambda>_. True) (\<lambda>_. 5) 2 (blob_of [1, 2, 3]) (signing_key d) (ipc_buffer 1024)
      = (Inr blob, cs)"
    and node: "HksGenerateKeyNode flip_hal (\<lambda>_. True) blob = (Some \<lparr>hkn_paramSet = Some qs, hkn_refCnt = 1,
       hkn_status = HKS_KEYNODE_INACTIVE, hkn_handle = 0\<rparr>, [])"
    and read: "\<And>t. t \<notin> ?tags \<Longrightarrow> HksGetParam (Some qs) t =
       (case HksGetParam (Some (signing_key d)) t of Inl e \<Rightarrow> Inl e | Inr p \<Rightarrow> Inr (canon_param (norm_param p)))"
    and at: "\<And>t. \<not> is_bytes_tag t \<Longrightarrow> HksGetParam (Some (param_set_at (blob_bytes blob))) t = HksGetParam (Some qs) t"
    "HksCheckParamSetTag (Some (param_set_at (blob_bytes blob))) = HksCheckParamSetTag (Some qs)"
    "HksCheckParamSet (Some (param_set_at (blob_bytes blob))) (paramSetSize (param_set_at (blob_bytes blob))) = HKS_SUCCESS"
    and tags: "butlast (params qs) = map (canon_param \<circ> norm_param) (params (signing_key d) @ core4 2)"
      "p_tag (last (params qs)) = HKS_TAG_KEY" and size: "8 \<le> unat (blob_size blob)"
  have reads: "reads_key qs d" using read by (simp add: reads_key_def)
  have alloc: "ee_alloc plain_env = (\<lambda>_. True)" by (simp add: fun_eq_iff)
  have "same_signing plain_env blob (one_request d) (ipc_buffer 100) (key_session qs d)"
    using node one_request_accepted [OF d signing_key_size [OF at tags size reads]]
      session_out_accepted [OF reads]
    by (simp add: same_signing_def alloc key_session_blob requests_fill one_request_allowed [OF reads])
  then show thesis using that [OF built key_session_ready [OF reads]] by blast
qed (simp_all add: ipc_buffer_def)

lemma signed_alike:
  assumes "d = HKS_DIGEST_SHA256 \<or> d = HKS_DIGEST_NONE"
  shows "caching d (key_session qs d) \<or> d \<noteq> HKS_DIGEST_NONE" "es_heap (key_session qs d) = (\<lambda>_. None)"
    "es_out (key_session qs d) = Some (ipc_buffer 100)"
  using assms by (auto simp: caching_def session_tags need_cache_def HksCheckNeedCache_def) (simp_all add: key_session_def)


end
