(* ===== verification/Huks_One_Props.thy ===== *)
theory Huks_One_Props
  imports Huks_Stage_Props Huks_Core_Other "HOL-Library.Multiset"
begin

text \<open>
  Operations in one call: they refuse callers who do not own the key, and leave no copy of it in memory.
\<close>

section \<open>Refusing\<close>

text \<open>Whether the caller owns the key, as all operations ask after decrypting the key blob.\<close>

definition owner_check :: "'c engine_env \<Rightarrow> HksBlob \<Rightarrow> HksParamSet ptr \<Rightarrow> rc" where
  "owner_check env key paramSet =
     (case HksGenerateKeyNode (ee_hal env) (ee_alloc env) key of
        (NULL, _) \<Rightarrow> HKS_ERROR_CORRUPT_FILE
      | (Some keyNode, _) \<Rightarrow> HksProcessIdentityVerify (ee_auth_num env) (hkn_paramSet keyNode) paramSet)"

definition refused :: "'a \<Rightarrow> one_state \<Rightarrow> (rc \<times> 'a) \<times> one_state \<Rightarrow> bool" where
  "refused out st r \<longleftrightarrow> fst (fst r) \<noteq> HKS_SUCCESS \<and> snd (fst r) = out \<and> os_raw (snd r) = os_raw st"

named_theorems refusing

lemma refuse_refused [refusing]:
  "ret \<noteq> HKS_SUCCESS \<or> refused out st k \<Longrightarrow> refused out st (refuse ret out st k)"
  by (auto simp: refuse_def refused_def)

lemma with_key_node_refused [refusing]:
  assumes "\<And>node cs st. HksGenerateKeyNode (ee_hal env) (ee_alloc env) key = (Some node, cs)
    \<Longrightarrow> refused out st (body node st)"
  shows "refused out st (with_key_node env key out body st)"
proof (cases "HksGenerateKeyNode (ee_hal env) (ee_alloc env) key")
  case (Pair node cs)
  show ?thesis
  proof (cases node)
    case None
    then show ?thesis by (simp add: with_key_node_def refused_def log_cleaned_def Pair)
  next
    case (Some n)
    obtain r st' where "body n (log_cleaned cs st) = (r, st')" by fastforce
    then show ?thesis
      using assms [OF Pair [unfolded Some], of "log_cleaned cs st"]
      by (simp add: with_key_node_def refused_def log_cleaned_def Pair Some)
  qed
qed

lemma not_owner:
  "owner_check env key ps \<noteq> HKS_SUCCESS \<Longrightarrow> HksGenerateKeyNode (ee_hal env) (ee_alloc env) key = (Some node, cs)
     \<Longrightarrow> HksProcessIdentityVerify (ee_auth_num env) (hkn_paramSet node) ps \<noteq> HKS_SUCCESS"
  by (simp add: owner_check_def)

lemma not_owner_pre:
  assumes "owner_check env key ps \<noteq> HKS_SUCCESS" "HksGenerateKeyNode (ee_hal env) (ee_alloc env) key = (Some node, cs)"
  shows "SignVerifyPreCheck env node ps \<noteq> HKS_SUCCESS" "CipherPreCheck env node ps \<noteq> HKS_SUCCESS"
  using not_owner [OF assms]
  by (simp_all add: SignVerifyPreCheck_def CipherPreCheck_def if_not_succ_return_def Let_def)

lemma sign_verify_refused:
  assumes "owner_check env key ps \<noteq> HKS_SUCCESS"
  shows "refused sig st (SignVerify env cmd key ps m sig st)"
  unfolding SignVerify_def by (intro refusing disjI2 disjI1 not_owner_pre(1) [OF assms])

lemma cipher_refused:
  assumes "owner_check env key ps \<noteq> HKS_SUCCESS"
  shows "refused out st (Cipher env cmd key ps m out st)"
  unfolding Cipher_def by (intro refusing disjI2 disjI1 not_owner_pre(2) [OF assms])

section \<open>Copies of the key\<close>

text \<open>The plain keys in memory, as a multiset, and those that a result carries.\<close>

definition plain :: "one_state \<Rightarrow> HksBlob multiset" where
  "plain st = mset (os_raw st)"

definition kept :: "HksBlob \<Rightarrow> HksBlob multiset" where
  "kept key = (if blob_data key = NULL then {#} else {#key#})"

definition keeps_raw :: "one_state \<Rightarrow> 'a \<times> one_state \<Rightarrow> bool" where
  "keeps_raw st r \<longleftrightarrow> plain (snd r) = plain st"

definition adds_raw :: "('a \<Rightarrow> HksBlob multiset) \<Rightarrow> one_state \<Rightarrow> 'a res \<times> one_state \<Rightarrow> bool" where
  "adds_raw keys st r \<longleftrightarrow>
     plain (snd r) = plain st + (case fst r of Inl _ \<Rightarrow> {#} | Inr a \<Rightarrow> keys a)"

named_theorems wiping

lemma plain_simps [simp]:
  "plain (log_cleaned cs st) = plain st" "plain (hold key st) = plain st + kept key"
  "plain (memset_free key st) = plain st - kept key" "kept empty_blob = {#}"
  by (simp_all add: plain_def log_cleaned_def hold_def memset_free_def kept_def empty_blob_def)

lemma plain_clear [simp]:
  "plain (ClearAndFreeKeyBlob key st) = plain st - kept key"
  "plain (ClearAndFreeKeyBlobsIfNeed peer agreed origin kek st)
    = plain st - kept origin - kept kek - kept agreed - kept peer"
  by (simp_all add: ClearAndFreeKeyBlob_def ClearAndFreeKeyBlobsIfNeed_def)

lemma keeps_same [wiping]: "keeps_raw st (r, st)"
  by (simp add: keeps_raw_def)

lemma keeps_refuse [wiping]: "keeps_raw st k \<Longrightarrow> keeps_raw st (refuse ret out st k)"
  by (simp add: refuse_def keeps_raw_def)

lemma keeps_with_key_node [wiping]:
  assumes "\<And>node st. keeps_raw st (body node st)"
  shows "keeps_raw st (with_key_node env key out body st)"
proof (cases "HksGenerateKeyNode (ee_hal env) (ee_alloc env) key")
  case (Pair node cs)
  show ?thesis
  proof (cases node)
    case None
    then show ?thesis by (simp add: with_key_node_def keeps_raw_def Pair)
  next
    case (Some n)
    obtain r st' where "body n (log_cleaned cs st) = (r, st')" by fastforce
    then show ?thesis
      using assms [of "log_cleaned cs st" n] by (simp add: with_key_node_def keeps_raw_def Pair Some)
  qed
qed

text \<open>A raw key, and what is done with it, up to its end.\<close>

lemma keeps_raw_key [wiping]:
  assumes "\<And>key st. plain (snd (body key st)) = plain st - kept key"
  shows "keeps_raw st (case hold_raw_key env ps st of (Inl ret, st) \<Rightarrow> (f ret, st) | (Inr key, st) \<Rightarrow> body key st)"
  using assms by (simp add: keeps_raw_def hold_raw_key_def split: sum.split)

lemma keeps_fst: "keeps_raw st r \<Longrightarrow> keeps_raw st (case r of ((ret, _), st) \<Rightarrow> (ret, st))"
  by (auto simp: keeps_raw_def split: prod.split)

lemma keeps_sign: "keeps_raw st (SignVerify env cmd key ps m sig st)"
  unfolding SignVerify_def
  by (intro wiping) (auto intro!: wiping simp: Let_def split: sum.split)

lemma keeps_cipher: "keeps_raw st (Cipher env cmd key ps m out st)"
  unfolding Cipher_def
  by (intro wiping) (auto simp: Let_def split: sum.split prod.split)

lemma keeps_export: "keeps_raw st (HksCoreExportPublicKey env key ps out st)"
  unfolding HksCoreExportPublicKey_def by (intro wiping) simp

lemma keeps_agree: "keeps_raw st (HksCoreAgreeKey env ps key peer out st)"
  unfolding HksCoreAgreeKey_def by (intro wiping) simp

lemma keeps_derive: "keeps_raw st (HksCoreDeriveKey env ps key out st)"
  unfolding HksCoreDeriveKey_def by (intro wiping) (simp add: Let_def)

lemma keeps_mac: "keeps_raw st (HksCoreMac env key ps m out st)"
  unfolding HksCoreMac_def
  by (intro wiping) (auto intro!: wiping simp: Let_def split: sum.split)

section \<open>Generating and importing\<close>

lemma adds_put_keys:
  "keeps_raw st r \<Longrightarrow> adds_raw (\<lambda>a. kept (key a)) st (put_keys (\<lambda>a. [key a]) r)"
  by (auto simp: keeps_raw_def adds_raw_def put_keys_def split: prod.split sum.split)

lemma keeps_as_res: "keeps_raw st r \<Longrightarrow> keeps_raw st (as_res r)"
  by (auto simp: keeps_raw_def as_res_def split: prod.split)

lemma keeps_next_res:
  assumes "adds_raw keys st r" "\<And>a st'. plain st' = plain st + keys a \<Longrightarrow> keeps_raw st (k a st')"
  shows "keeps_raw st (next_res r k)"
  using assms by (auto simp: adds_raw_def keeps_raw_def next_res_def split: prod.split sum.split)

lemma keeps_break_res:
  assumes "adds_raw keys st r"
    and "\<And>st'. plain st' = plain st \<Longrightarrow> plain (leave st') = plain st0"
    and "\<And>a st'. plain st' = plain st + keys a \<Longrightarrow> keeps_raw st0 (k a st')"
  shows "keeps_raw st0 (break_res r leave k)"
  using assms by (auto simp: adds_raw_def keeps_raw_def break_res_def split: prod.split sum.split)

lemma keeps_build: "keeps_raw st (build_key_blob env flag key ps keyOut st)"
  by (simp add: keeps_raw_def build_key_blob_def split: prod.split)

lemma adds_base_key: "adds_raw kept st (GetAgreeBaseKey_engine env isPub isPlain keyIn st)"
  by (auto simp: adds_raw_def GetAgreeBaseKey_engine_def hold_raw_key_def Let_def
      split: prod.split sum.split option.split)

lemma adds_pub_key: "adds_raw kept st (GetAgreePubKey env keyIn ps st)"
  by (simp add: GetAgreePubKey_def adds_base_key split: sum.split)

lemma adds_agreed_key: "adds_raw kept st (GenKeyByAgree env keyIn ps st)"
proof -
  have pri: "adds_raw kept st (GetAgreePriKey env keyIn st)" for st
    by (simp add: GetAgreePriKey_def adds_base_key)
  obtain r1 st1 where r1: "GetAgreePriKey env keyIn st = (r1, st1)" by fastforce
  obtain r2 st2 where r2: "GetAgreePubKey env keyIn ps st1 = (r2, st2)" by fastforce
  show ?thesis
    using pri [of st] adds_pub_key [of st1 env keyIn ps]
    by (cases r1; cases r2) (simp_all add: GenKeyByAgree_def Let_def r1 r2 adds_raw_def put_keys_def split: sum.split)
qed

lemma keeps_generate: "keeps_raw st (HksCoreGenerateKey env n keyAlias ps keyIn keyOut st)"
proof -
  have put: "adds_raw kept st (put_key (HksCryptoHalGenerateKey (ee_hal env) n spec, st))" for spec
    using adds_put_keys [where key = "\<lambda>k. k", OF keeps_same] by simp
  have none: "adds_raw kept st (Inl e, st)" for e :: rc by (simp add: adds_raw_def)
  have built: "keeps_raw st (case build_key_blob env flag key ps keyOut st' of (r, st) \<Rightarrow> (r, memset_free key st))"
    if "plain st' = plain st + kept key" for key st' flag
    using keeps_build [of st' env flag key ps keyOut] that by (auto simp: keeps_raw_def split: prod.split)
  show ?thesis
    unfolding HksCoreGenerateKey_def Let_def
    by (auto intro!: wiping keeps_next_res [where keys = kept] put none adds_agreed_key built split: sum.split)
qed

lemma keeps_import: "keeps_raw st (HksCoreImportKey env keyAlias key ps keyOut st)"
proof -
  have built: "keeps_raw st (case build_key_blob env flag key ps keyOut (hold key st) of (r, st) \<Rightarrow> (r, memset_free key st))"
    for key flag
    using keeps_build [of "hold key st" env flag key ps keyOut] by (auto simp: keeps_raw_def split: prod.split)
  have refused: "keeps_raw st (r, memset_free key (hold key st))" for r :: "HksBlob res" and key
    by (simp add: keeps_raw_def)
  show ?thesis
    unfolding HksCoreImportKey_def Let_def by (auto intro: wiping built refused split: sum.split)
qed

section \<open>Importing wrapped keys\<close>

lemma keeps_public_key: "keeps_raw st (GetPublicKeyInnerFormat env wrappingKey wrapped off st)"
  unfolding GetPublicKeyInnerFormat_def
  by (auto intro!: wiping keeps_as_res split: sum.split)

lemma keeps_unwrap_purpose: "keeps_raw st (CheckWrappingKeyIsUsedForUnwrap env wrappingKey st)"
  unfolding CheckWrappingKeyIsUsedForUnwrap_def by (rule keeps_fst) (intro wiping)

lemma keeps_agree_secret: "keeps_raw st (AgreeSharedSecretWithPeerPublicKey env wrappingKey pub suite ps st)"
proof -
  obtain ret st1 where c: "CheckWrappingKeyIsUsedForUnwrap env wrappingKey st = (ret, st1)" by fastforce
  then have same: "plain st1 = plain st"
    using keeps_unwrap_purpose [of st env wrappingKey] by (simp add: keeps_raw_def)
  have "keeps_raw st (as_res (HksCoreAgreeKey env aps wrappingKey pub out st1))" for aps out
    using keeps_as_res [OF keeps_agree] same unfolding keeps_raw_def by metis
  then show ?thesis
    using same by (auto simp: AgreeSharedSecretWithPeerPublicKey_def next_rc_def c keeps_raw_def split: sum.split)
qed

lemma adds_fst_key:
  "keeps_raw st r \<Longrightarrow> adds_raw (\<lambda>(key, _). kept key) st (put_keys (\<lambda>(key, _). [key]) r)"
  by (auto simp: keeps_raw_def adds_raw_def put_keys_def split: prod.split sum.split)

lemma keeps_import_wrapped_aes:
  "keeps_raw st (import_wrapped_aes env suite keyAlias wrappingKey wrapped ps keyOut st)"
proof -
  have last: "keeps_raw st (r, ClearAndFreeKeyBlobsIfNeed peer agreed originKey kek st5)"
    if "HksCoreImportKey env keyAlias originKey ps keyOut st4 = (r, st5)"
      "plain st4 = plain st + kept peer + kept agreed + kept kek + kept originKey"
    for r st4 st5 originKey peer agreed kek
    using keeps_import [of st4 env keyAlias originKey ps keyOut] that by (simp add: keeps_raw_def)
  show ?thesis
    unfolding import_wrapped_aes_def
    by (rule keeps_break_res adds_fst_key adds_put_keys keeps_public_key keeps_agree_secret keeps_same
      | (clarsimp simp only: split: prod.split)
      | simp
      | (rule last, assumption, simp))+
qed

lemma keeps_chipset: "keeps_raw st (HuksCoreChipsetPlatformDecrypt env ecdh ps scene plainText st)"
  unfolding HuksCoreChipsetPlatformDecrypt_def
  by (intro keeps_refuse) (auto simp: keeps_raw_def Let_def split: sum.split prod.split)

text \<open>
  Importing a key wrapped with SM2 and SM4: the keys in memory are those that \<open>dataParams\<close> points to. Two failures
  lose a key that is freed without being overwritten, so that this is about imports that succeed.
\<close>

definition held :: "HksSmWrappedKeyDataBlob \<Rightarrow> HksBlob multiset" where
  "held dp = kept (sm_originKey dp) + kept (sm_peerPublicKey dp) + kept (sm_kekAndSignData dp) + kept (sm_kekData dp)
     + kept (sm_signData dp) + kept (sm_deriveKekData1 dp) + kept (sm_deriveKekData2 dp)"

definition clean_success :: "one_state \<Rightarrow> 'a res \<times> one_state \<Rightarrow> bool" where
  "clean_success st r \<longleftrightarrow> (case fst r of Inl _ \<Rightarrow> True | Inr _ \<Rightarrow> plain (snd r) = plain st)"

lemma plain_clear_wrapped: "plain (ClearAndFreeWrappedBlob dp st) = plain st - held dp"
  by (simp add: ClearAndFreeWrappedBlob_def held_def add.commute)

lemma get_public_key_held:
  assumes "GetPublicKeyAndSignDataLength env wrapped node zero_wrapped_blob off st = (Inr (dp, off'), st')"
  shows "plain st' = plain st + held dp" "sm_kekData dp = empty_blob" "sm_kekAndSignData dp = empty_blob"
    "sm_signData dp = empty_blob" "sm_deriveKekData1 dp = empty_blob" "sm_deriveKekData2 dp = empty_blob"
    "sm_originKey dp = empty_blob"
  using assms
  by (auto simp: GetPublicKeyAndSignDataLength_def put_keys_def try_res_def Let_def held_def zero_wrapped_blob_def
      split: sum.splits if_splits)

lemma decrypt_kek_held:
  assumes "DecryptKekWithSm2 env wrapped ps node dp off st = (Inr (dp', off'), st')"
    and "sm_kekData dp = empty_blob" "sm_kekAndSignData dp = empty_blob"
  shows "plain st' + held dp = plain st + held dp'"
    "\<exists>b. dp' = (if sm_signatureDataLength dp = 0 then dp\<lparr>sm_kekData := b\<rparr> else dp\<lparr>sm_kekAndSignData := b\<rparr>)"
  using assms
  by (auto simp: DecryptKekWithSm2_def hold_raw_key_def put_keys_def held_def ac_simps
      split: sum.splits if_splits prod.splits)

lemma empty_size: "blob_size empty_blob = 0"
  by (simp add: empty_blob_def)

lemma split_kek_held:
  assumes "SplitKekAndSignData alloc dp st = (Inr dp', st')" "sm_signData dp = empty_blob"
    and "sm_signatureDataLength dp = 0 \<longrightarrow> sm_kekAndSignData dp = empty_blob"
    and "sm_signatureDataLength dp \<noteq> 0 \<longrightarrow> sm_kekData dp = empty_blob"
  shows "plain st' + held dp = plain st + held dp'" "\<exists>b b'. dp' = dp\<lparr>sm_kekData := b, sm_signData := b'\<rparr>"
  using assms
  by (auto simp: SplitKekAndSignData_def Let_def held_def HksMalloc_def empty_size ac_simps split: if_splits)

lemma derive_key_held:
  assumes "DeriveKeyByFactor env wrapped dp off st = (Inr (dp', off'), st')"
    and "sm_deriveKekData1 dp = empty_blob" "sm_deriveKekData2 dp = empty_blob"
  shows "plain st' + held dp = plain st + held dp'" "sm_originKey dp' = sm_originKey dp"
  using assms
  by (auto simp: DeriveKeyByFactor_def next_res_def put_keys_def held_def ac_simps split: sum.splits prod.splits)

lemma decrypt_sm_held:
  assumes "DecryptImportedSmKey env wrapped dp kEnc off st = (Inr dp', st')" "sm_originKey dp = empty_blob"
  shows "plain st' + held dp = plain st + held dp'"
  using assms
  by (auto simp: DecryptImportedSmKey_def put_keys_def held_def ac_simps split: sum.splits prod.splits)

lemma clear_imported:
  assumes "plain st' = plain st + held dp" "HksCoreImportKey env keyAlias originKey ps keyOut st' = (r, st'')"
  shows "plain (ClearAndFreeWrappedBlob dp st'') = plain st"
  using keeps_import [of st' env keyAlias originKey ps keyOut] assms by (simp add: keeps_raw_def plain_clear_wrapped)

lemma clean_sm_with_verify:
  "clean_success st (HksSmImportWrappedKeyWithVerify env keyAlias ps node wrapped keyOut st)"
proof -
  have final: "plain (ClearAndFreeWrappedBlob dp4 st6) = plain st"
    if a: "GetPublicKeyAndSignDataLength env wrapped node zero_wrapped_blob 0 st = (Inr (dp, off1), st1)"
      "DecryptKekWithSm2 env wrapped ps node dp off1 st1 = (Inr (dp1, off2), st2)"
      "SplitKekAndSignData (ee_alloc env) dp1 st2 = (Inr dp2, st3)"
      "DeriveKeyByFactor env wrapped dp2 off2 st3 = (Inr (dp3, off4), st4)"
      "DecryptImportedSmKey env wrapped dp3 kEnc off5 st4 = (Inr dp4, st5)"
      "HksCoreImportKey env keyAlias (sm_originKey dp4) ps keyOut st5 = (r, st6)"
    for dp off1 st1 dp1 off2 st2 dp2 st3 dp3 off4 st4 kEnc off5 dp4 st5 r st6
  proof -
    note p = get_public_key_held [OF a(1)]
    note k = decrypt_kek_held [OF a(2) p(2,3)]
    obtain b where b: "dp1 = (if sm_signatureDataLength dp = 0 then dp\<lparr>sm_kekData := b\<rparr> else dp\<lparr>sm_kekAndSignData := b\<rparr>)"
      using k(2) by blast
    have "sm_signatureDataLength dp1 = 0 \<longrightarrow> sm_kekAndSignData dp1 = empty_blob"
      "sm_signatureDataLength dp1 \<noteq> 0 \<longrightarrow> sm_kekData dp1 = empty_blob" "sm_signData dp1 = empty_blob"
      using p b by auto
    note s = split_kek_held [OF a(3) this(3,1,2)]
    have "sm_deriveKekData1 dp2 = empty_blob" "sm_deriveKekData2 dp2 = empty_blob" "sm_originKey dp2 = empty_blob"
      using p b s(2) by auto
    note e = derive_key_held [OF a(4) this(1,2)] and o = this(3)
    have "plain st5 + held dp3 = plain st4 + held dp4"
      by (rule decrypt_sm_held [OF a(5)]) (use e(2) o in simp)
    then have "plain st5 = plain st + held dp4"
      using p(1) k(1) s(1) e(1) by (simp add: ac_simps)
    then show ?thesis by (rule clear_imported [OF _ a(6)])
  qed
  show ?thesis
    by (auto simp: HksSmImportWrappedKeyWithVerify_def Let_def break_res_def clean_success_def intro: final
        split: prod.splits sum.splits if_splits)
qed

lemma clean_sm_without_verify:
  "clean_success st (HksSmImportWrappedKeyWithoutVerify env keyAlias ps node wrapped keyOut st)"
proof -
  let ?dp = zero_wrapped_blob
  have zero: "held ?dp = {#}" "sm_kekData ?dp = empty_blob" "sm_kekAndSignData ?dp = empty_blob"
    "sm_deriveKekData1 ?dp = empty_blob" "sm_deriveKekData2 ?dp = empty_blob" "sm_originKey ?dp = empty_blob"
    by (simp_all add: zero_wrapped_blob_def held_def)
  have final: "plain (ClearAndFreeWrappedBlob dp4 st6) = plain st"
    if a: "DecryptKekWithSm2 env wrapped ps node ?dp 0 st = (Inr (dp1, off2), st2)"
      "DeriveKeyByFactor env wrapped dp1 off2 st2 = (Inr (dp3, off4), st4)"
      "DecryptImportedSmKey env wrapped dp3 kEnc off5 st4 = (Inr dp4, st5)"
      "HksCoreImportKey env keyAlias (sm_originKey dp4) ps keyOut st5 = (r, st6)"
    for dp1 off2 st2 dp3 off4 st4 kEnc off5 dp4 st5 r st6
  proof -
    note k = decrypt_kek_held [OF a(1) zero(2,3)]
    have "sm_deriveKekData1 dp1 = empty_blob" "sm_deriveKekData2 dp1 = empty_blob" "sm_originKey dp1 = empty_blob"
      using k(2) zero by auto
    note e = derive_key_held [OF a(2) this(1,2)] and o = this(3)
    have "plain st5 + held dp3 = plain st4 + held dp4"
      by (rule decrypt_sm_held [OF a(3)]) (use e(2) o in simp)
    then have "plain st5 = plain st + held dp4"
      using k(1) e(1) zero(1) by (simp add: ac_simps)
    then show ?thesis by (rule clear_imported [OF _ a(4)])
  qed
  show ?thesis
    by (auto simp: HksSmImportWrappedKeyWithoutVerify_def Let_def break_res_def clean_success_def intro: final
        split: prod.splits sum.splits if_splits)
qed

section \<open>The properties\<close>


section \<open>Whom a key belongs to\<close>

lemma blob_comparison:
  assumes "wf_param p" "is_bytes_tag (p_tag p)"
  shows "HksMemCmp (payload p) bs (unat (blob_size (blobParam (p_val p)))) =
    HksMemCmp (blob_bytes (blobParam (p_val p))) bs (unat (blob_size (blobParam (p_val p))))"
  by (simp add: HksMemCmp_def payload_def plen_def blob_bytes_def assms(2) split: option.split)


text \<open>The comparison of owner and caller reads the same from the key blob as from the request.\<close>

lemma identity_from_key_blob:
  assumes same: "\<And>t. t \<notin> {HKS_TAG_KEY_VERSION, HKS_TAG_OS_VERSION, HKS_TAG_OS_PATCHLEVEL, HKS_TAG_KEY_FLAG, HKS_TAG_KEY}
      \<Longrightarrow> HksGetParam (Some qs) t =
        (case HksGetParam (Some ps) t of Inl e \<Rightarrow> Inl e | Inr p \<Rightarrow> Inr (canon_param (norm_param p)))"
    and wf: "list_all wf_param (params ps)"
  shows "HksProcessIdentityVerify num (Some qs) rps = HksProcessIdentityVerify num (Some ps) rps"
proof -
  have n: "uint32Param (p_val (canon_param (norm_param p))) = uint32Param (p_val p)"
      "uint64Param (p_val (canon_param (norm_param p))) = uint64Param (p_val p)"
      "boolParam (p_val (canon_param (norm_param p))) = boolParam (p_val p)"
    if "HksGetParam (Some ps) t = Inr p" "\<not> is_bytes_tag t" for p t
    using canon_norm_readers [of p] got_tag [OF that(1)] that(2) by simp_all
  have num_tags: "\<not> is_bytes_tag HKS_TAG_ACCESS_TOKEN_ID" "\<not> is_bytes_tag HKS_TAG_USER_ID"
    "\<not> is_bytes_tag HKS_TAG_IS_DEVICE_PASSWORD_SET" "\<not> is_bytes_tag HKS_TAG_SPECIFIC_USER_ID"
    by (simp_all add: is_bytes_tag_def GetTagType_def)
  have token: "HksCheckCompareAccessTokenId (Some qs) rps = HksCheckCompareAccessTokenId (Some ps) rps"
    using n num_tags
    by (simp add: HksCheckCompareAccessTokenId_def same try_or_def split: sum.split)
  have user: "HksCheckCompareUserId (Some qs) rps = HksCheckCompareUserId (Some ps) rps"
    using n num_tags by (simp add: HksCheckCompareUserId_def same try_or_def split: sum.split)
  have name: "HksCheckCompareProcessName (Some qs) rps = HksCheckCompareProcessName (Some ps) rps"
  proof (cases "HksGetParam (Some ps) HKS_TAG_PROCESS_NAME")
    case (Inl e)
    then show ?thesis by (simp add: HksCheckCompareProcessName_def same try_or_def)
  next
    case (Inr p)
    have b: "is_bytes_tag (p_tag p)" using got_tag [OF Inr] by (simp add: is_bytes_tag_def GetTagType_def)
    have "wf_param p" using got_tag [OF Inr] wf by (simp add: list_all_iff)
    have "blobParam (p_val (canon_param (norm_param p))) =
        \<lparr>blob_size = blob_size (blobParam (p_val p)), blob_data = Some (payload p)\<rparr>"
      by (rule canon_norm_blob [OF b])
    then show ?thesis
      using Inr blob_comparison [OF \<open>wf_param p\<close> b]
      by (simp add: HksCheckCompareProcessName_def same try_or_def Let_def blob_bytes_def split: sum.split)
  qed
  have password: "CheckIfNeedIsDevicePasswordSet num (Some qs) = CheckIfNeedIsDevicePasswordSet num (Some ps)"
    using n num_tags
    by (simp add: CheckIfNeedIsDevicePasswordSet_def same try_or_def try_rc_def split: sum.split)
  show ?thesis by (simp add: HksProcessIdentityVerify_def token user name password)
qed

lemma built_key_owner:
  assumes "engine_ok (ee_hal env)" "key_request ps key" "HksCheckParamSet (Some ps) (paramSetSize ps) = HKS_SUCCESS"
    and "\<forall>n. ee_alloc env n" "blob_data keyOut \<noteq> NULL" "blob_size keyOut \<le> MAX_KEY_SIZE"
    and "space (params ps) + 168 + unat (blob_size key) \<le> unat (blob_size keyOut)"
    and "CheckBlob (Some out) = HKS_SUCCESS"
  shows "\<exists>blob cs raw. HksBuildKeyBlob (ee_hal env) (ee_alloc env) addr flag key ps keyOut = (Inr blob, cs)
    \<and> same_blob raw key
    \<and> owner_check env blob rps = HksProcessIdentityVerify (ee_auth_num env) (Some ps) rps
    \<and> (if owner_check env blob rps = HKS_SUCCESS
       then fst (HksCoreExportPublicKey env blob rps out st) = HksCryptoHalGetPubKey (ee_ops env) raw out
       else refused out st (HksCoreExportPublicKey env blob rps out st))"
proof -
  obtain blob cs aad qs ps' raw where built: "HksBuildKeyBlob (ee_hal env) (ee_alloc env) addr flag key ps keyOut = (Inr blob, cs)"
    and load: "HksGetAadAndParamSet (ee_alloc env) blob = Inr (aad, ps')"
    and dec: "HksDecryptKeyBlob (ee_hal env) (ee_alloc env) aad ps' = (HKS_SUCCESS, qs)"
    and raw: "HksGetRawKey (ee_alloc env) (Some qs) = Inr raw" "same_blob raw key"
    and params: "butlast (params qs) = map (canon_param \<circ> norm_param) (params ps @ core4 flag)"
    using key_blob_life [OF assms(1,2,4,5,7), of addr flag] by blast
  note size = built_blob [OF built]
  have small: "\<not> blob_size blob > MAX_KEY_SIZE" using size(1) assms(6) by simp
  have nonempty: "blob_size blob \<noteq> 0"
    using load by (auto simp: HksGetAadAndParamSet_def GetAadAndParamSet_def HksMalloc_def split: if_splits)
  have node: "HksGenerateKeyNode (ee_hal env) (ee_alloc env) blob =
      (Some \<lparr>hkn_paramSet = Some qs, hkn_refCnt = 1, hkn_status = HKS_KEYNODE_INACTIVE, hkn_handle = 0\<rparr>, [])"
    using load dec small assms(4)
    by (simp add: HksGenerateKeyNode_def HksGetAadAndParamSet_def HksDecryptKeyBlob_def HksMalloc_def)
  obtain k where k: "HksGetParam (Some qs) HKS_TAG_KEY = Inr k"
    using raw(1) by (auto simp: HksGetRawKey_def try_res_def split: sum.splits)
  have wf: "list_all wf_param (params ps)" "HKS_TAG_KEY \<notin> p_tag ` set (params ps)"
    using assms(2) by (auto simp: key_request_def)
  have owner: "owner_check env blob rps = HksProcessIdentityVerify (ee_auth_num env) (Some ps) rps"
    using identity_from_key_blob [OF get_from_key_blob [OF params k _ wf] wf(1), of "ee_auth_num env" rps] assms(3)
    by (simp add: owner_check_def node)
  have exported: "fst (HksCoreExportPublicKey env blob rps out st) = HksCryptoHalGetPubKey (ee_ops env) raw out"
    if "owner_check env blob rps = HKS_SUCCESS"
  proof -
    have "CheckBlob (Some blob) = HKS_SUCCESS" using size(2) nonempty by (simp add: CheckBlob_def)
    moreover have "HksProcessIdentityVerify (ee_auth_num env) (Some qs) rps = HKS_SUCCESS"
      using that by (simp add: owner_check_def node)
    ultimately show ?thesis
      using assms(8) raw(1)
      by (simp add: HksCoreExportPublicKey_def refuse_def with_key_node_def node hold_raw_key_def Let_def split: prod.split)
  qed
  have other: "refused out st (HksCoreExportPublicKey env blob rps out st)" if "owner_check env blob rps \<noteq> HKS_SUCCESS"
    unfolding HksCoreExportPublicKey_def by (intro refusing disjI2 disjI1 not_owner [OF that])
  show ?thesis using built raw(2) owner exported other by auto
qed

text \<open>
  C7: A key belongs to the caller it was built for. The comparison that every operation makes before using a
  key blob that the engine built decides as a comparison with the request the key was built from; and exporting
  gives the engine's public key of the very key to a caller who passes, and nothing to others.
\<close>

theorem key_serves_owner:
  assumes "engine_ok (ee_hal env)" "key_request ps key" "HksCheckParamSet (Some ps) (paramSetSize ps) = HKS_SUCCESS"
    and "\<forall>n. ee_alloc env n" "blob_data keyOut \<noteq> NULL" "blob_size keyOut \<le> MAX_KEY_SIZE"
    and "space (params ps) + 168 + unat (blob_size key) \<le> unat (blob_size keyOut)"
    and "CheckBlob (Some out) = HKS_SUCCESS"
  shows "\<exists>blob cs raw. HksBuildKeyBlob (ee_hal env) (ee_alloc env) addr flag key ps keyOut = (Inr blob, cs)
    \<and> same_blob raw key
    \<and> owner_check env blob rps = HksProcessIdentityVerify (ee_auth_num env) (Some ps) rps
    \<and> (if owner_check env blob rps = HKS_SUCCESS
       then fst (HksCoreExportPublicKey env blob rps out st) = HksCryptoHalGetPubKey (ee_ops env) raw out
       else refused out st (HksCoreExportPublicKey env blob rps out st))"
  using assms by (rule built_key_owner)

definition named_set :: "bytes \<Rightarrow> HksParamSet" where
  "named_set name = \<lparr>paramSetSize = word_of_nat (32 + length name),
     params = [\<lparr>p_tag = HKS_TAG_PROCESS_NAME, p_val = VBlob (blob_of name)\<rparr>], ps_tail = name\<rparr>"

lemma named_key: "key_request (named_set [8, 9]) (blob_of [1, 2, 3])"
  "HksCheckParamSet (Some (named_set [8, 9])) (paramSetSize (named_set [8, 9])) = HKS_SUCCESS"
  "space (params (named_set [8, 9])) = 34"
  by (simp_all add: named_set_def key_request_def wf_param_def space_def plen_def is_bytes_tag_def GetTagType_def
      blob_of_def blob_bytes_def paramsCnt_def HksCheckParamSet_def)

lemma named_buffers:
  "blob_data (ipc_buffer n) \<noteq> NULL" "blob_size (ipc_buffer n) = n" "CheckBlob (Some (ipc_buffer 100)) = HKS_SUCCESS"
  "blob_size (blob_of [1, 2, 3]) = 3"
  by (simp_all add: ipc_buffer_def CheckBlob_def blob_of_def)

lemma key_serves_owner_witness:
  "\<exists>blob cs raw. HksBuildKeyBlob (ee_hal plain_env) (ee_alloc plain_env) (\<lambda>_. 5) 2 (blob_of [1, 2, 3])
      (named_set [8, 9]) (ipc_buffer 1024) = (Inr blob, cs)
    \<and> same_blob raw (blob_of [1, 2, 3])
    \<and> owner_check plain_env blob (Some (named_set [8, 9])) =
        HksProcessIdentityVerify (ee_auth_num plain_env) (Some (named_set [8, 9])) (Some (named_set [8, 9]))
    \<and> (if owner_check plain_env blob (Some (named_set [8, 9])) = HKS_SUCCESS
       then fst (HksCoreExportPublicKey plain_env blob (Some (named_set [8, 9])) (ipc_buffer 100) \<lparr>os_raw = [], os_cleaned = []\<rparr>)
         = HksCryptoHalGetPubKey (ee_ops plain_env) raw (ipc_buffer 100)
       else refused (ipc_buffer 100) \<lparr>os_raw = [], os_cleaned = []\<rparr>
         (HksCoreExportPublicKey plain_env blob (Some (named_set [8, 9])) (ipc_buffer 100) \<lparr>os_raw = [], os_cleaned = []\<rparr>))"
  by (rule key_serves_owner [OF _ named_key(1,2)]) (simp_all add: flip_hal_ok named_key(3) named_buffers)

text \<open>The process of another name is not the owner.\<close>

lemma other_name: "HksProcessIdentityVerify num (Some (named_set [8, 9])) (Some (named_set [7])) \<noteq> HKS_SUCCESS"
  by (simp add: HksProcessIdentityVerify_def HksCheckCompareAccessTokenId_def HksCheckCompareUserId_def
      HksCheckCompareProcessName_def named_set_def HksGetParam_Some HksCheckParamSet_def paramsCnt_def is_bytes_tag_def
      GetTagType_def CheckBlob_def blob_of_def try_or_def if_not_succ_return_def)

text \<open>
  C8: A key serves its owner only. When the key blob cannot be opened, or its owner is not the caller of the
  request (by token, user, process name, or the device password it asks for), every operation in one call fails;
  the output buffer stays as it was, and no copy of the key is left.
\<close>

theorem foreign_key_refused:
  assumes "owner_check env key ps \<noteq> HKS_SUCCESS"
  shows "refused out st (HksCoreSign env key ps m out st) \<and> refused out st (HksCoreEncrypt env key ps m out st)
    \<and> refused out st (HksCoreDecrypt env key ps m out st) \<and> refused out st (HksCoreExportPublicKey env key ps out st)
    \<and> refused out st (HksCoreAgreeKey env ps key peer out st) \<and> refused out st (HksCoreDeriveKey env ps key out st)
    \<and> refused out st (HksCoreMac env key ps m out st)
    \<and> fst (HksCoreVerify env key ps m sig st) \<noteq> HKS_SUCCESS \<and> fst (HksCoreGetKeyProperties env ps key st) \<noteq> HKS_SUCCESS"
proof (intro conjI)
  note foreign = not_owner [OF assms]
  show "refused out st (HksCoreSign env key ps m out st)"
    unfolding HksCoreSign_def by (rule sign_verify_refused [OF assms])
  show "refused out st (HksCoreEncrypt env key ps m out st)" "refused out st (HksCoreDecrypt env key ps m out st)"
    unfolding HksCoreEncrypt_def HksCoreDecrypt_def by (rule cipher_refused [OF assms])+
  show "refused out st (HksCoreExportPublicKey env key ps out st)"
    unfolding HksCoreExportPublicKey_def by (intro refusing disjI2 disjI1 foreign)
  show "refused out st (HksCoreAgreeKey env ps key peer out st)"
    unfolding HksCoreAgreeKey_def by (intro refusing disjI2 disjI1 foreign)
  show "refused out st (HksCoreDeriveKey env ps key out st)"
    unfolding HksCoreDeriveKey_def by (intro refusing disjI2 disjI1 foreign)
  show "refused out st (HksCoreMac env key ps m out st)"
    unfolding HksCoreMac_def by (intro refusing disjI2 disjI1 foreign)
  show "fst (HksCoreVerify env key ps m sig st) \<noteq> HKS_SUCCESS"
    using sign_verify_refused [OF assms, of sig st HKS_CMD_ID_VERIFY m]
    by (auto simp: HksCoreVerify_def refused_def split: prod.split)
  show "fst (HksCoreGetKeyProperties env ps key st) \<noteq> HKS_SUCCESS"
  proof -
    have "refused () st (with_key_node env key () (\<lambda>keyNode st.
        ((HksProcessIdentityVerify (ee_auth_num env) (hkn_paramSet keyNode) ps, ()), st)) st)"
      by (rule with_key_node_refused) (simp add: refused_def foreign)
    then show ?thesis
      by (auto simp: HksCoreGetKeyProperties_def HksCheckKeyValidity_def refused_def split: prod.split)
  qed
qed


lemma foreign_key_refused_witness:
  "\<exists>blob cs. HksBuildKeyBlob flip_hal (\<lambda>_. True) (\<lambda>_. 5) 2 (blob_of [1, 2, 3]) (named_set [8, 9]) (ipc_buffer 1024)
      = (Inr blob, cs)
    \<and> refused (ipc_buffer 100) \<lparr>os_raw = [], os_cleaned = []\<rparr>
        (HksCoreSign plain_env blob (Some (named_set [7])) (blob_of [1]) (ipc_buffer 100) \<lparr>os_raw = [], os_cleaned = []\<rparr>)"
proof -
  have "ee_alloc plain_env = (\<lambda>_. True)" by (simp add: fun_eq_iff)
  then obtain blob cs where blob: "HksBuildKeyBlob flip_hal (\<lambda>_. True) (\<lambda>_. 5) 2 (blob_of [1, 2, 3]) (named_set [8, 9])
      (ipc_buffer 1024) = (Inr blob, cs)"
    "owner_check plain_env blob (Some (named_set [7])) =
      HksProcessIdentityVerify (ee_auth_num plain_env) (Some (named_set [8, 9])) (Some (named_set [7]))"
    using built_key_owner [OF _ named_key(1,2), of plain_env "ipc_buffer 1024" "ipc_buffer 100" "\<lambda>_. 5" 2
        "Some (named_set [7])" "\<lparr>os_raw = [], os_cleaned = []\<rparr>"]
    by (auto simp: flip_hal_ok named_key(3) named_buffers)
  then have "owner_check plain_env blob (Some (named_set [7])) \<noteq> HKS_SUCCESS" using other_name by simp
  from foreign_key_refused [OF this] show ?thesis using blob(1) by blast
qed

end
