(* ===== verification/Spec2Isabelle.thy ===== *)
theory Spec2Isabelle
  imports Huks_Request_Props Huks_Buffer_Props Huks_Use_Props Huks_Session_Props Huks_Keynode_Props
    Huks_Keynode_Threads Huks_Ipc_Props Huks_Ipc_Args Huks_Ipc_Base64 Huks_Keyblob_Props
    Huks_Access_Sign Huks_Auth Huks_Storage_List Huks_File_Lock_Props Huks_Client_Keys
    Huks_One_Props
begin

text \<open>
  HUKS, the universal key store of OpenHarmony, and what is verified of it.

  The program. An application builds a parameter set (\<open>hks_param.c\<close>) that describes a key operation and
  sends it to the service. The service checks the request (\<open>hks_check_paramset.c\<close> over
  \<open>hks_base_check.c\<close> and \<open>hks_common_check.c\<close>), finds or stores the key, and calls the key
  engine. Operations of several calls (init, update, finish, abort) leave a session in the service
  (\<open>hks_session_manager.c\<close>) and a key node with the decrypted key and the crypto context in the engine
  (\<open>hks_keynode.c\<close>); both have the same 64-bit handle. Below \<open>src/\<close> the shared code is under
  \<open>frameworks/huks_standard/main/common/src\<close>, the service under
  \<open>services/huks_standard/huks_service/main\<close>, the engine under
  \<open>services/huks_standard/huks_engine/main\<close>.

  The theories, from the bottom up.

  \<^item> \<open>Huks_Prelude\<close>: machine integers as words, results as an error code or a value, the early-return
    macros of \<open>hks_template.h\<close>, \<open>HksMalloc\<close>, little-endian encodings with their round trips.
  \<^item> \<open>Huks_Const\<close>: the constants of \<open>hks_type_enum.h\<close>, \<open>hks_type.h\<close>, \<open>hks_error_code.h\<close> and
    \<open>hks_tag.h\<close> as abbreviations.
  \<^item> \<open>Huks_Param\<close>: blobs, parameters, parameter sets and all operations of \<open>hks_param.c\<close>.
    \<open>Huks_Param_Laws\<close>: the space a set takes, the flat layout of a built set, and the interface
    \<open>param_source\<close> of looking a tag up, and the properties of sets.
  \<^item> \<open>Huks_Common_Check\<close>: \<open>hks_common_check.c\<close>; the format of wrapped keys against the list of its
    parts.
  \<^item> \<open>Huks_Check_Tables\<close>, \<open>Huks_Use_Check\<close>: the tables and the functions of \<open>hks_base_check.c\<close>.
    \<open>Huks_Check_Paramset\<close>: \<open>hks_check_paramset.c\<close>. \<open>Huks_Check_Laws\<close>: what reading parameters,
    purposes, algorithms and key sizes amounts to. \<open>Huks_Request_Props\<close>, \<open>Huks_Buffer_Props\<close>,
    \<open>Huks_Use_Props\<close>: properties that state for whole requests exactly or at least what an accepted one
    satisfies, and for imported keys what their material is.
  \<^item> \<open>Huks_Registry\<close>: the contract of a counted list with a total limit and a limit per owner, whose
    insertion evicts entries that are not pinned, as two locales. \<open>Huks_Session\<close> and
    \<open>Huks_Keynode_Laws\<close> interpret them.
  \<^item> \<open>Huks_Session\<close>: \<open>hks_session_manager.c\<close>; \<open>session_step\<close> is one locked operation of any
    caller, \<open>others_step\<close> one of anybody else while a session is in use. \<open>Huks_Session_Props\<close>: its limits and
    who may use a session.
  \<^item> \<open>Huks_Keynode\<close>: \<open>hks_keynode.c\<close>; \<open>Huks_Keynode_Laws\<close>: its laws and \<open>keynode_step\<close>, requests
    one after another; \<open>Huks_Keynode_Props\<close>: its properties. \<open>Huks_Keynode_Threads\<close>: the parts
    of the creation of a node as steps of several threads.
  \<^item> \<open>Huks_Ipc_Pack\<close>, \<open>Huks_Ipc_Unpack\<close>, \<open>Huks_Ipc_Client\<close>: the request format between client and service
    on both sides (\<open>hks_client_ipc_serialization.c\<close>, \<open>hks_service_ipc_serialization.c\<close>,
    \<open>hks_ipc_check.c\<close>, \<open>hks_ipc_slice.c\<close>, \<open>hks_client_service_ipc.c\<close>). \<open>Huks_Ipc_Wire\<close> and
    \<open>Huks_Ipc_Laws\<close>: a request as a list of fields, writing one field and reading it back.
    \<open>Huks_Ipc_Props\<close>, \<open>Huks_Ipc_Args\<close>, \<open>Huks_Ipc_Base64\<close>: what arrives at the other side, from a client
    that packs with these functions and from one that sends any bytes.
  \<^item> \<open>Huks_Built_Sets\<close>: the sets that the engine builds itself, as functions of their parameters.
    \<open>Huks_Keyblob\<close>: key blobs (\<open>hks_keyblob.c\<close>) around the record \<open>crypto_hal\<close> of the functions of the
    crypto engine. \<open>Huks_Keyblob_Laws\<close>: the set of a key blob with its key last, whose encryption in
    place leaves everything in front as it is; \<open>Huks_Keyblob_Props\<close>: their round trip.
  \<^item> \<open>Huks_Access\<close>: all of \<open>hks_secure_access.c\<close>, over tokens of user authentication as structure and as
    memory, whose key \<open>Huks_Keyblob\<close> keeps (the rest of \<open>hks_keyblob.c\<close>). \<open>Huks_Auth\<close>: \<open>hks_auth.c\<close>.
    \<open>Huks_Access_Laws\<close>: the runtime parameters that these functions keep in the key node, as a function of
    what they record; \<open>Huks_Access_Props\<close>, \<open>Huks_Access_Sign\<close>: when a token opens a key and what is
    signed with it.
  \<^item> \<open>Huks_Crypto_Adapter\<close>: between parameter sets and the crypto engine (\<open>hks_crypto_adapter.c\<close>,
    \<open>hks_client_service_adapter_common.c\<close>). \<open>Huks_Engine_State\<close>, \<open>Huks_Stage_Cipher\<close>, \<open>Huks_Stage_Agree\<close>:
    \<open>hks_core_service_three_stage.c\<close>, the stages of signing, ciphers, derivation, agreement and MAC over
    an explicit heap of contexts and cached data, in which using an object as another kind is recorded.
    \<open>Huks_Core_Operate\<close>: \<open>hks_core_service_key_operate_three_stage.c\<close>, the operations of several calls over
    the key nodes. \<open>Huks_Stage_Laws\<close>, \<open>Huks_Stage_Whole\<close>, \<open>Huks_Stage_Props\<close>: contexts are used as
    what they are, and signing in stages gives what signing in one call gives.
  \<^item> \<open>Huks_One_Stage\<close>: \<open>hks_core_service_key_operate_one_stage.c\<close>, operations in one call. The state
    \<open>one_state\<close> lists the buffers with plain keys; each place where the code overwrites one is a
    \<open>memset_free\<close> of its own. \<open>Huks_Core_Generate\<close>: generating, importing and importing wrapped keys
    (\<open>hks_core_service_key_generate.c\<close>, \<open>hks_sm_import_wrap_key.c\<close>). \<open>Huks_Core_Other\<close>: upgrading,
    attesting, decrypting with the key of the chipset (\<open>hks_upgrade_key.c\<close>,
    \<open>hks_tags_type_manager.c\<close>, \<open>hks_core_service_key_attest.c\<close>, \<open>hks_chipset_platform_decrypt.c\<close>).
    \<open>Huks_Engine_Device\<close>: the engine as a whole (\<open>hks_core_interfaces.c\<close>,
    \<open>hks_core_service_key_other.c\<close>). \<open>Huks_One_Props\<close>: a key serves its owner only, and which operations
    leave no copy of it in memory.
  \<^item> \<open>Huks_File\<close>: the operating system's files as a state in which any call may fail, and
    \<open>hks_file_operator.c\<close> over them. \<open>Huks_Storage_Utils\<close>, \<open>Huks_Storage\<close>: the key storage of the
    service (\<open>hks_storage_utils.c\<close>, \<open>hks_storage.c\<close>, \<open>hks_storage_manager.c\<close>). \<open>Huks_File_Laws\<close>,
    \<open>Huks_Storage_Laws\<close>, \<open>Huks_Storage_Paths\<close>, \<open>Huks_Storage_Dirs\<close>: what the operations do while the
    system works and while it fails, names and paths that are never mixed up. \<open>Huks_Refine\<close>: the locale
    \<open>simulation\<close> of an implementation by a specification, which \<open>Huks_Storage_Refine\<close> and
    \<open>Huks_Storage_Props\<close> interpret: the storage is a finite map from level, user, process and alias to key
    blobs. \<open>Huks_Storage_List\<close>: listing the keys of a process.
  \<^item> \<open>Huks_File_Lock\<close>: the locks of files (\<open>hks_storage_file_lock.c\<close>, \<open>hks_lock.c\<close>,
    \<open>hks_rwlock.c\<close>) and \<open>lock_step\<close>, threads that go through them. \<open>Huks_File_Lock_Laws\<close>: the
    invariant that a lock counts the threads that hold it; \<open>Huks_File_Lock_Props\<close>: exclusion and
    termination.
  \<^item> \<open>Huks_Engine_Access\<close>: the table of functions through which the service calls the engine
    (\<open>huks_access.c\<close>). \<open>Huks_Client_Check\<close>: the checks of the service (\<open>hks_client_check.c\<close>).
    \<open>Huks_Config_Parser\<close>: the strategies for the files of a process (\<open>hks_config_parser.c\<close>).
    \<open>Huks_Client_Params\<close>, \<open>Huks_Client_Service\<close>: the operations of the service
    (\<open>hks_client_service.c\<close>, \<open>hks_client_service_util.c\<close>) over the storage, the session manager and the
    engine, with \<open>service_state\<close> as their states together. \<open>Huks_Client_Laws\<close>: the sets that the
    service makes. \<open>Huks_Client_Props\<close>: whose identity a request carries and who can use a session;
    \<open>Huks_Client_Keys\<close>: what happens to the stored keys.

  How code corresponds to definitions. A definition has the name of the C function. A function that
  returns \<open>int32_t\<close> gives that code; one that also fills an out-parameter gives a sum, with the code on
  the left. A pointer the code compares with \<open>NULL\<close> is an option, one it dereferences without a test a
  plain value. A global variable is a field of the component's state, which operations take and return;
  a list node is identified by the address of its structure. Loops are recursive functions named
  \<open>..._loop\<close> or \<open>first_...\<close>. \<open>uint32_t\<close> and \<open>uint64_t\<close> are words of that width, so that all
  arithmetic wraps as in C. The system allocator (which sizes it can serve), the clock, random
  numbers and addresses of new objects are parameters, and so are the crypto engine (\<open>crypto_hal\<close>), the
  C++ parts (\<open>HksSendRequest\<close>, the conversions of authentication types), and \<open>HksOpensslCheckDhKey\<close> and
  \<open>HksOpensslCheckRsaKey\<close>, which call libraries that are not in the repository. \<open>Huks_Keynode\<close> takes the
  loading of a key blob as a parameter too. What a call into another component does outside the state, such as aborting a key node
  or freeing a crypto context, is recorded in a list in the state.

  Bounds. No fuel is needed: every loop runs over a list or a stated number of rounds
  (\<open>validTotalBlobs\<close> for wrapped keys, ten for handles). The capacities are those of the code: 42
  parameters and 4 MiB per set, 32 sessions and 32 key nodes, 10 of each per access token.

  The configuration is the standard system: every \<open>HKS_SUPPORT_...\<close> macro and \<open>L2_STANDARD\<close> defined,
  \<open>_CUT_AUTHENTICATE_\<close> and \<open>_STORAGE_LITE_\<close> not, 64-bit pointers, little-endian.

  Not modelled: freeing memory, except where it ends the life of a list node or of a context, or leaves a plain
  key where it was; logging; the contents behind a pointer that is itself stored in a byte buffer; failures of
  \<open>HksMutexLock\<close>, which locks a mutex that is neither recursive nor checked for errors and just waits, so that the
  exits of \<open>hks_storage_file_lock.c\<close> and other files for such a failure are left out. Of the rest of the repository,
  the root key component, the service side of IPC that dispatches the requests, and the certificates of attestation
  are not modelled yet; the crypto adapters around OpenSSL and mbedTLS, the language bindings, reporting and the
  tests are left out.
\<close>

end
